(* ===== verification/Prelude.thy ===== *)
theory Prelude
  imports Main "HOL-Library.Word"
begin

text \<open>
  The shared vocabulary of the development: the machine types of the server (as words of the width
  the C++ type has), the exception-carrying sequencing of statements, the little-endian object
  representation of an integer in memory, the generic machine of operations whose invariants the
  components establish, and the lemma collections the component proofs use.
\<close>

unbundle bit_operations_syntax

section \<open>Machine types\<close>

type_synonym u8 = "8 word"
type_synonym u16 = "16 word"
type_synonym u32 = "32 word"
type_synonym u64 = "64 word"

text \<open>A \<^verbatim>\<open>float\<close> is kept as its IEEE-754 single bit pattern: the code modelled here moves floats
  between memory and packets and compares them with zero, it never computes with them.\<close>

type_synonym f32 = "32 word"

named_theorems layout \<open>facts on the memory layout of packets\<close>
named_theorems emits \<open>facts on what one statement writes to a packet\<close>

section \<open>Statements that may throw\<close>

text \<open>A statement maps a state to an exception (\<open>Inl\<close>) or to the next state (\<open>Inr\<close>);
  \<open>run_all\<close> runs a block of statements and stops at the first exception.\<close>

type_synonym ('e, 's) stmt = "'s \<Rightarrow> 'e + 's"

primrec run_all :: "('e, 's) stmt list \<Rightarrow> ('e, 's) stmt" where
  "run_all [] s = Inr s"
| "run_all (f # fs) s = (case f s of Inl e \<Rightarrow> Inl e | Inr s' \<Rightarrow> run_all fs s')"

text \<open>\<open>bind_res\<close> sequences a computation with a value and the rest that uses it.\<close>

definition bind_res :: "'e + 'a \<Rightarrow> ('a \<Rightarrow> 'e + 'b) \<Rightarrow> 'e + 'b" where
  "bind_res m f = (case m of Inl e \<Rightarrow> Inl e | Inr a \<Rightarrow> f a)"

lemma bind_res_simps [simp]:
  "bind_res (Inl e) f = Inl e"
  "bind_res (Inr a) f = f a"
  by (simp_all add: bind_res_def)

lemma bind_res_Inr_iff:
  "bind_res m f = Inr b \<longleftrightarrow> (\<exists>a. m = Inr a \<and> f a = Inr b)"
  by (cases m) auto

lemma run_all_Cons: "run_all (f # fs) s = bind_res (f s) (run_all fs)"
  by (simp add: bind_res_def)

lemma run_all_append: "run_all (fs @ gs) s = bind_res (run_all fs s) (run_all gs)"
  by (induction fs arbitrary: s) (auto simp: bind_res_def split: sum.splits)

lemma run_all_concat_cong:
  assumes "\<And>x s. x \<in> set xs \<Longrightarrow> f x s = run_all (g x) s"
  shows "run_all (map f xs) s = run_all (concat (map g xs)) s"
  using assms
proof (induction xs arbitrary: s)
  case Nil
  then show ?case by simp
next
  case (Cons x xs)
  then show ?case
    by (cases "run_all (g x) s") (simp_all add: run_all_append)
qed

section \<open>Lists\<close>

lemma take_drop_append:
  "n + m \<le> length xs \<Longrightarrow> take n xs @ take m (drop n xs) @ drop (n + m) xs = xs"
  by (metis append_take_drop_id drop_drop add.commute)

lemma drop_eq_ConsD: "drop n xs = y # ys \<Longrightarrow> n < length xs \<and> xs ! n = y \<and> drop (Suc n) xs = ys"
  by (metis drop_Suc drop_all hd_drop_conv_nth leI list.discI list.sel(1) list.sel(3) tl_drop)

lemma map_eq_upt_nth: "map (\<lambda>i. xs ! i) [0..<length xs] = xs"
  by (rule map_nth)

section \<open>The object representation of integers\<close>

text \<open>The bytes of a value in memory on the little-endian hosts the server runs on
  (\<^verbatim>\<open>EndianConvert\<close> of \<^verbatim>\<open>shared/Utilities/ByteConverter.h\<close> is the identity there), and back.\<close>

definition le_bytes :: "nat \<Rightarrow> 'a::len word \<Rightarrow> u8 list" where
  "le_bytes n w = map (\<lambda>i. ucast (drop_bit (8 * i) w)) [0..<n]"

primrec le_word :: "u8 list \<Rightarrow> 'a::len word" where
  "le_word [] = 0"
| "le_word (b # bs) = ucast b OR push_bit 8 (le_word bs)"

lemma length_le_bytes [simp]: "length (le_bytes n w) = n"
  by (simp add: le_bytes_def)

lemma le_bytes_eq_Nil [simp]: "le_bytes n w = [] \<longleftrightarrow> n = 0"
  by (simp add: le_bytes_def)

lemma bit_le_bytes:
  "i < n \<Longrightarrow> bit (le_bytes n w ! i) j \<longleftrightarrow> j < 8 \<and> bit w (8 * i + j)"
  by (auto simp: le_bytes_def bit_ucast_iff bit_drop_bit_eq)

lemma bit_le_word:
  "bit (le_word bs :: 'a::len word) i \<longleftrightarrow>
     i < LENGTH('a) \<and> i div 8 < length bs \<and> bit (bs ! (i div 8)) (i mod 8)"
proof (induction bs arbitrary: i)
  case Nil
  then show ?case by simp
next
  case (Cons b bs)
  show ?case
  proof (cases "i < 8")
    case True
    then show ?thesis
      by (auto simp: bit_or_iff bit_push_bit_iff bit_ucast_iff possible_bit_word)
  next
    case False
    then have "i div 8 = Suc ((i - 8) div 8)" and "i mod 8 = (i - 8) mod 8"
      by (simp_all add: le_div_geq le_mod_geq)
    with False Cons.IH [of "i - 8"] show ?thesis
      by (auto simp: bit_or_iff bit_push_bit_iff bit_ucast_iff possible_bit_word
          dest: bit_imp_le_length)
  qed
qed

lemma le_word_le_bytes:
  assumes "LENGTH('a) \<le> 8 * n"
  shows "le_word (le_bytes n w) = (w :: 'a::len word)"
proof (rule bit_word_eqI)
  fix i
  assume i: "i < LENGTH('a)"
  with assms have "i div 8 < n" by simp
  then show "bit (le_word (le_bytes n w) :: 'a word) i = bit w i"
    using i by (simp add: bit_le_word bit_le_bytes)
qed

lemma le_bytes_le_word:
  assumes "length bs = n" and "8 * n \<le> LENGTH('a)"
  shows "le_bytes n (le_word bs :: 'a::len word) = bs"
proof (rule nth_equalityI)
  show "length (le_bytes n (le_word bs :: 'a word)) = length bs"
    using assms by simp
next
  fix i
  assume "i < length (le_bytes n (le_word bs :: 'a word))"
  then have i: "i < n" by simp
  show "le_bytes n (le_word bs :: 'a word) ! i = bs ! i"
  proof (rule bit_word_eqI)
    fix j
    assume "j < LENGTH(8)"
    then have j: "j < 8" by simp
    have "8 * i + j < LENGTH('a)" using i j assms by simp
    with i j assms show "bit (le_bytes n (le_word bs :: 'a word) ! i) j = bit (bs ! i) j"
      by (simp add: bit_le_bytes bit_le_word div_mult_self4 mult.commute)
  qed
qed

section \<open>Values with a fixed-width encoding\<close>

text \<open>The contract between the values the server sends and the buffer that carries them: an
  encoding into a known number of bytes that can be decoded again.\<close>

locale byte_codec =
  fixes enc :: "'a \<Rightarrow> u8 list"
    and dec :: "u8 list \<Rightarrow> 'a"
    and width :: nat
  assumes length_enc: "length (enc x) = width"
    and dec_enc: "dec (enc x) = x"
    and width_pos: "0 < width"
begin

lemma enc_not_Nil: "enc x \<noteq> []"
  using length_enc [of x] width_pos by auto

lemma enc_inject: "enc x = enc y \<longleftrightarrow> x = y"
  by (metis dec_enc)

lemma dec_take_enc: "dec (take width (enc x @ r)) = x" and drop_enc: "drop width (enc x @ r) = r"
  using length_enc [of x] by (simp_all add: dec_enc)

end

interpretation u8_codec: byte_codec "le_bytes 1 :: u8 \<Rightarrow> u8 list" le_word 1
  by unfold_locales (simp_all add: le_word_le_bytes)

interpretation u16_codec: byte_codec "le_bytes 2 :: u16 \<Rightarrow> u8 list" le_word 2
  by unfold_locales (simp_all add: le_word_le_bytes)

interpretation u32_codec: byte_codec "le_bytes 4 :: u32 \<Rightarrow> u8 list" le_word 4
  by unfold_locales (simp_all add: le_word_le_bytes)

interpretation u64_codec: byte_codec "le_bytes 8 :: u64 \<Rightarrow> u8 list" le_word 8
  by unfold_locales (simp_all add: le_word_le_bytes)

lemma le_bytes_1 [simp]: "le_bytes (Suc 0) (b :: u8) = [b]"
  by (simp add: le_bytes_def)

lemma le_word_1 [simp]: "le_word [b] = (b :: u8)"
  by simp

section \<open>Machines of operations\<close>

text \<open>A component is a state and a set of operations on it. What every operation keeps holds after
  every run of operations, in whatever order its callers issue them.\<close>

primrec exec_ops :: "('op \<Rightarrow> 's \<Rightarrow> 's) \<Rightarrow> 'op list \<Rightarrow> 's \<Rightarrow> 's" where
  "exec_ops f [] s = s"
| "exec_ops f (x # xs) s = exec_ops f xs (f x s)"

lemma exec_ops_append: "exec_ops f (xs @ ys) s = exec_ops f ys (exec_ops f xs s)"
  by (induction xs arbitrary: s) simp_all

locale guarded_machine =
  fixes exec :: "'op \<Rightarrow> 's \<Rightarrow> 's"
    and inv :: "'s \<Rightarrow> bool"
    and allowed :: "'op \<Rightarrow> bool"
  assumes exec_allowed: "inv s \<Longrightarrow> allowed op \<Longrightarrow> inv (exec op s)"
begin

lemma run_allowed: "inv s \<Longrightarrow> list_all allowed ops \<Longrightarrow> inv (exec_ops exec ops s)"
  by (induction ops arbitrary: s) (simp_all add: exec_allowed)

end

text \<open>A machine whose operations are all allowed.\<close>

locale op_machine =
  fixes exec :: "'op \<Rightarrow> 's \<Rightarrow> 's"
    and inv :: "'s \<Rightarrow> bool"
  assumes exec_inv: "inv s \<Longrightarrow> inv (exec op s)"

sublocale op_machine \<subseteq> every: guarded_machine exec inv "\<lambda>_. True"
  by unfold_locales (rule exec_inv)

context op_machine
begin

lemma run_inv: "inv s \<Longrightarrow> inv (exec_ops exec ops s)"
  by (rule every.run_allowed) (simp_all add: list_all_iff)

end

end
