(* ===== verification/ByteBuffer.thy ===== *)
theory ByteBuffer
  imports Prelude
begin

text \<open>
  \<^verbatim>\<open>class ByteBuffer\<close> of \<^verbatim>\<open>shared/Packets/ByteBuffer.h\<close>: the packet buffer of both servers. The state
  is the class's five members; every member function is one definition. An exception the C++ code
  throws (and the assertion and the undefined behaviour it can run into) is an \<open>Inl\<close> result. Positions
  (\<^verbatim>\<open>size_t\<close>) are natural numbers, with the wrap-around of \<^verbatim>\<open>--_bitpos\<close> and \<^verbatim>\<open>++_bitpos\<close> written out.
\<close>

section \<open>State and exceptions\<close>

datatype bb_error =
    PositionException bool nat nat nat
  | SourceException nat nat nat
  | AssertionFailed
  | OutOfBoundsRead
  | UndefinedShift

record bytebuffer =
  rpos :: nat
  wpos :: nat
  bitpos :: nat
  curbitval :: u8
  storage :: "u8 list"

type_synonym bb_write = "bytebuffer \<Rightarrow> bb_error + bytebuffer"
type_synonym 'a bb_read = "bytebuffer \<Rightarrow> bb_error + 'a \<times> bytebuffer"

definition bb_new :: bytebuffer where
  "bb_new = \<lparr>rpos = 0, wpos = 0, bitpos = 8, curbitval = 0, storage = []\<rparr>"

definition bb_size :: "bytebuffer \<Rightarrow> nat" where
  "bb_size b = length (storage b)"

definition bb_empty :: "bytebuffer \<Rightarrow> bool" where
  "bb_empty b = (storage b = [])"

definition bb_clear :: "bytebuffer \<Rightarrow> bytebuffer" where
  "bb_clear b = b\<lparr>storage := [], rpos := 0, wpos := 0\<rparr>"

text \<open>Pre-decrement and pre-increment of a \<^verbatim>\<open>size_t\<close>.\<close>

definition size_dec :: "nat \<Rightarrow> nat" where
  "size_dec n = (n + (2 ^ 64 - 1)) mod 2 ^ 64"

definition size_inc :: "nat \<Rightarrow> nat" where
  "size_inc n = (n + 1) mod 2 ^ 64"

section \<open>Writing\<close>

definition bb_resize_storage :: "nat \<Rightarrow> u8 list \<Rightarrow> u8 list" where
  "bb_resize_storage n st = take n st @ replicate (n - length st) 0"

definition append_raw :: "u8 list \<Rightarrow> bb_write" where
  "append_raw src b =
     (if length src = 0 then Inl (SourceException (wpos b) (bb_size b) (length src))
      else if \<not> bb_size b < 10000000 then Inl AssertionFailed
      else
        let cnt = length src;
            st = (if bb_size b < wpos b + cnt then bb_resize_storage (wpos b + cnt) (storage b)
                  else storage b)
        in Inr (b\<lparr>storage := take (wpos b) st @ src @ drop (wpos b + cnt) st,
                  wpos := wpos b + cnt\<rparr>))"

definition FlushBits :: bb_write where
  "FlushBits b =
     (if bitpos b = 8 then Inr b
      else bind_res (append_raw [curbitval b] b)
             (\<lambda>b'. Inr (b'\<lparr>curbitval := 0, bitpos := 8\<rparr>)))"

text \<open>\<^verbatim>\<open>template <typename T> void append(T value)\<close> on the object representation of the value.\<close>

definition append_val :: "u8 list \<Rightarrow> bb_write" where
  "append_val bytes b = bind_res (FlushBits b) (append_raw bytes)"

definition append_u8 :: "u8 \<Rightarrow> bb_write" where
  "append_u8 v = append_val (le_bytes 1 v)"

definition append_u16 :: "u16 \<Rightarrow> bb_write" where
  "append_u16 v = append_val (le_bytes 2 v)"

definition append_u32 :: "u32 \<Rightarrow> bb_write" where
  "append_u32 v = append_val (le_bytes 4 v)"

definition append_u64 :: "u64 \<Rightarrow> bb_write" where
  "append_u64 v = append_val (le_bytes 8 v)"

definition append_f32 :: "f32 \<Rightarrow> bb_write" where
  "append_f32 v = append_val (le_bytes 4 v)"

text \<open>\<^verbatim>\<open>WriteBit(uint32 bit)\<close>: the shift \<^verbatim>\<open>1 << _bitpos\<close> of an \<^verbatim>\<open>int\<close> is undefined from 32 on.\<close>

definition WriteBit :: "u32 \<Rightarrow> bb_write" where
  "WriteBit v b =
     (let p = size_dec (bitpos b) in
      if v \<noteq> 0 \<and> \<not> p < 32 then Inl UndefinedShift
      else
        let cv = (if v \<noteq> 0 then curbitval b OR push_bit p 1 else curbitval b);
            b1 = b\<lparr>bitpos := p, curbitval := cv\<rparr>
        in if p = 0
           then bind_res (append_raw [cv] (b1\<lparr>bitpos := 8\<rparr>)) (\<lambda>b'. Inr (b'\<lparr>curbitval := 0\<rparr>))
           else Inr b1)"

text \<open>\<^verbatim>\<open>for (int32 i = bits-1; i >= 0; --i) WriteBit((value >> i) & 1)\<close>\<close>

primrec WriteBits :: "u32 \<Rightarrow> nat \<Rightarrow> bb_write" where
  "WriteBits v 0 b = Inr b"
| "WriteBits v (Suc i) b = bind_res (WriteBit (drop_bit i v AND 1) b) (WriteBits v i)"

definition WriteByteSeq :: "u8 \<Rightarrow> bb_write" where
  "WriteByteSeq v b = (if v \<noteq> 0 then append_u8 (v XOR 1) b else Inr b)"

text \<open>Strings are the bytes of the \<^verbatim>\<open>std::string\<close>; the pointer overload of \<^verbatim>\<open>append\<close> does not flush.\<close>

definition append_string :: "u8 list \<Rightarrow> bb_write" where
  "append_string s b =
     bind_res (if s = [] then Inr b else append_raw s b) (append_u8 0)"

definition WriteString :: "u8 list \<Rightarrow> bb_write" where
  "WriteString s b = (if s = [] then Inr b else append_raw s b)"

definition append_buffer :: "bytebuffer \<Rightarrow> bb_write" where
  "append_buffer o2 b =
     (if wpos o2 \<noteq> 0 then append_raw (take (wpos o2) (storage o2)) b else Inr b)"

definition put_raw :: "nat \<Rightarrow> u8 list \<Rightarrow> bb_write" where
  "put_raw pos src b =
     (if pos + length src > bb_size b then Inl (PositionException True pos (length src) (bb_size b))
      else Inr (b\<lparr>storage := take pos (storage b) @ src @ drop (pos + length src) (storage b)\<rparr>))"

definition put_u32 :: "nat \<Rightarrow> u32 \<Rightarrow> bb_write" where
  "put_u32 pos v = put_raw pos (le_bytes 4 v)"

definition put_bit :: "u32 \<Rightarrow> nat \<Rightarrow> nat \<Rightarrow> nat \<Rightarrow> u8 list \<Rightarrow> u8 list" where
  "put_bit v bitCount pos i st =
     (let wp = (pos + i) div 8; bt = (pos + i) mod 8 in
      if drop_bit (bitCount - i - 1) v AND 1 \<noteq> 0
      then st[wp := (st ! wp) OR push_bit (7 - bt) 1]
      else st[wp := (st ! wp) AND NOT (push_bit (7 - bt) 1)])"

definition PutBits :: "nat \<Rightarrow> u32 \<Rightarrow> nat \<Rightarrow> bb_write" where
  "PutBits pos v bitCount b =
     (if bitCount = 0 then Inl (SourceException ((pos + bitCount) div 8) (bb_size b) 0)
      else if pos + bitCount > bb_size b * 8
      then Inl (PositionException False ((pos + bitCount) div 8) (bb_size b) ((bitCount - 1) div 8 + 1))
      else Inr (b\<lparr>storage := fold (put_bit v bitCount pos) [0..<bitCount] (storage b)\<rparr>))"

section \<open>Reading\<close>

definition read_at :: "nat \<Rightarrow> nat \<Rightarrow> bytebuffer \<Rightarrow> bb_error + u8 list" where
  "read_at n pos b =
     (if pos + n > bb_size b then Inl (PositionException False pos n (bb_size b))
      else Inr (take n (drop pos (storage b))))"

definition read_val :: "nat \<Rightarrow> u8 list bb_read" where
  "read_val n b = bind_res (read_at n (rpos b) b) (\<lambda>bs. Inr (bs, b\<lparr>rpos := rpos b + n\<rparr>))"

definition read_u8 :: "u8 bb_read" where
  "read_u8 b = bind_res (read_val 1 b) (\<lambda>(bs, b'). Inr (le_word bs, b'))"

definition read_u16 :: "u16 bb_read" where
  "read_u16 b = bind_res (read_val 2 b) (\<lambda>(bs, b'). Inr (le_word bs, b'))"

definition read_u32 :: "u32 bb_read" where
  "read_u32 b = bind_res (read_val 4 b) (\<lambda>(bs, b'). Inr (le_word bs, b'))"

definition read_u64 :: "u64 bb_read" where
  "read_u64 b = bind_res (read_val 8 b) (\<lambda>(bs, b'). Inr (le_word bs, b'))"

definition read_f32 :: "f32 bb_read" where
  "read_f32 b = bind_res (read_val 4 b) (\<lambda>(bs, b'). Inr (le_word bs, b'))"

definition ReadBit :: "bool bb_read" where
  "ReadBit b =
     (let p = size_inc (bitpos b); b1 = b\<lparr>bitpos := p\<rparr> in
      if p > 7
      then bind_res (read_u8 (b1\<lparr>bitpos := 0\<rparr>))
             (\<lambda>(v, b'). Inr (drop_bit 7 v AND 1 \<noteq> 0, b'\<lparr>curbitval := v\<rparr>))
      else Inr (drop_bit (7 - p) (curbitval b1) AND 1 \<noteq> 0, b1))"

text \<open>\<^verbatim>\<open>value |= (1 << i)\<close> for each bit read, from \<^verbatim>\<open>bits-1\<close> down to 0, starting with \<^verbatim>\<open>value = 0\<close>.\<close>

primrec read_bits_acc :: "nat \<Rightarrow> u32 \<Rightarrow> u32 bb_read" where
  "read_bits_acc 0 v b = Inr (v, b)"
| "read_bits_acc (Suc i) v b =
     bind_res (ReadBit b) (\<lambda>(t, b'). read_bits_acc i (if t then v OR push_bit i 1 else v) b')"

definition ReadBits :: "nat \<Rightarrow> u32 bb_read" where
  "ReadBits bits = read_bits_acc bits 0"

definition ReadByteSeq :: "u8 \<Rightarrow> u8 bb_read" where
  "ReadByteSeq v b =
     (if v \<noteq> 0 then bind_res (read_u8 b) (\<lambda>(x, b'). Inr (v XOR x, b')) else Inr (v, b))"

definition read_skip :: "nat \<Rightarrow> bb_write" where
  "read_skip skip b =
     (if rpos b + skip > bb_size b then Inl (PositionException False (rpos b) skip (bb_size b))
      else Inr (b\<lparr>rpos := rpos b + skip\<rparr>))"

text \<open>\<^verbatim>\<open>operator>>(std::string&)\<close>: reads up to the terminator or the end of the buffer. The loop
  consumes a byte per turn, so the number of bytes left bounds it.\<close>

function read_string_from :: "u8 list \<Rightarrow> bytebuffer \<Rightarrow> bb_error + u8 list \<times> bytebuffer" where
  "read_string_from acc b =
     (if rpos b < bb_size b
      then let c = storage b ! rpos b; b' = b\<lparr>rpos := rpos b + 1\<rparr> in
           if c = 0 then Inr (acc, b') else read_string_from (acc @ [c]) b'
      else Inr (acc, b))"
  by pat_completeness auto
termination
  by (relation "measure (\<lambda>(acc, b). bb_size b - rpos b)") (auto simp: bb_size_def)

declare read_string_from.simps [simp del]

definition read_string :: "u8 list bb_read" where
  "read_string = read_string_from []"

text \<open>\<^verbatim>\<open>ReadString(length)\<close>: the bytes go through a zero-terminated \<^verbatim>\<open>char\<close> buffer, so the result
  stops at the first zero.\<close>

definition ReadString :: "nat \<Rightarrow> u8 list bb_read" where
  "ReadString n b =
     (if n = 0 then Inr ([], b)
      else if rpos b + n > bb_size b then Inl (PositionException False (rpos b) n (bb_size b))
      else Inr (takeWhile (\<lambda>c. c \<noteq> 0) (take n (drop (rpos b) (storage b))),
                b\<lparr>rpos := rpos b + n\<rparr>))"

definition bb_index :: "nat \<Rightarrow> bytebuffer \<Rightarrow> bb_error + u8" where
  "bb_index pos b =
     (if pos \<ge> bb_size b then Inl (PositionException False pos 1 (bb_size b))
      else Inr (storage b ! pos))"

definition rfinish :: "bytebuffer \<Rightarrow> bytebuffer" where
  "rfinish b = b\<lparr>rpos := wpos b\<rparr>"

definition bitwpos :: "bytebuffer \<Rightarrow> nat" where
  "bitwpos b = wpos b * 8 + 8 - bitpos b"

definition set_bitwpos :: "nat \<Rightarrow> bytebuffer \<Rightarrow> bytebuffer" where
  "set_bitwpos newPos b = b\<lparr>wpos := newPos div 8, bitpos := 8 - newPos mod 8\<rparr>"

definition bb_resize :: "nat \<Rightarrow> bytebuffer \<Rightarrow> bytebuffer" where
  "bb_resize newsize b =
     b\<lparr>storage := bb_resize_storage newsize (storage b), rpos := 0, wpos := newsize\<rparr>"

section \<open>Packed guids\<close>

text \<open>\<^verbatim>\<open>for (uint8 i = 0; guid != 0; ++i)\<close> with \<^verbatim>\<open>guid >>= 8\<close>: at most eight turns.\<close>

function pack_guid_from :: "nat \<Rightarrow> u64 \<Rightarrow> u8 \<Rightarrow> u8 list \<Rightarrow> u8 \<times> u8 list" where
  "pack_guid_from i guid mark bytes =
     (if guid = 0 then (mark, bytes)
      else if guid AND 0xFF \<noteq> 0
      then pack_guid_from (i + 1) (drop_bit 8 guid) (mark OR push_bit i 1)
             (bytes @ [ucast (guid AND 0xFF)])
      else pack_guid_from (i + 1) (drop_bit 8 guid) mark bytes)"
  by pat_completeness auto

lemma drop_bit_8_less: "g \<noteq> 0 \<Longrightarrow> unat (drop_bit 8 (g :: u64)) < unat g"
proof -
  assume "g \<noteq> 0"
  then have "0 < unat g" by (simp add: unat_gt_0)
  moreover have "unat (drop_bit 8 g) = unat g div 256"
    by (simp add: drop_bit_eq_div unat_div_distrib)
  ultimately show ?thesis by simp
qed

termination pack_guid_from
  by (relation "measure (\<lambda>(i, guid, mark, bytes). unat guid)") (auto simp: drop_bit_8_less)

declare pack_guid_from.simps [simp del]

definition appendPackGUID :: "u64 \<Rightarrow> bb_write" where
  "appendPackGUID guid b =
     (case pack_guid_from 0 guid 0 [] of (mark, bytes) \<Rightarrow> append_raw (mark # bytes) b)"

definition read_guid_byte :: "u8 \<Rightarrow> nat \<Rightarrow> u64 \<Rightarrow> u64 bb_read" where
  "read_guid_byte mark i guid b =
     (if mark AND push_bit i 1 \<noteq> 0
      then if rpos b + 1 > bb_size b then Inl (PositionException False (rpos b) 1 (bb_size b))
           else bind_res (read_u8 b) (\<lambda>(v, b'). Inr (guid OR push_bit (i * 8) (ucast v), b'))
      else Inr (guid, b))"

primrec read_guid_bytes :: "u8 \<Rightarrow> nat list \<Rightarrow> u64 \<Rightarrow> u64 bb_read" where
  "read_guid_bytes mark [] guid b = Inr (guid, b)"
| "read_guid_bytes mark (i # is) guid b =
     bind_res (read_guid_byte mark i guid b) (\<lambda>(g, b'). read_guid_bytes mark is g b')"

definition readPackGUID :: "u64 bb_read" where
  "readPackGUID b =
     (if rpos b + 1 > bb_size b then Inl (PositionException False (rpos b) 1 (bb_size b))
      else bind_res (read_u8 b) (\<lambda>(mark, b'). read_guid_bytes mark [0..<8] 0 b'))"

end
