(* ===== verification/PacketStream.thy ===== *)
theory PacketStream
  imports ByteBuffer
begin

text \<open>
  The abstract specification of the buffer: a packet is a stream of items, single bits and whole
  bytes. This theory shows how the writing operations lay a stream out in memory (bits fill a byte
  from its top bit, a byte flushes the pending bits) and that the reading operations give the same
  stream back, provided the bits of the packet form one contiguous run.
\<close>

section \<open>Streams of bits and bytes\<close>

datatype item = Bit bool | Byte u8

abbreviation of_bit :: "bool \<Rightarrow> u32" where
  "of_bit v \<equiv> of_bool v"

primrec write_item :: "item \<Rightarrow> bb_write" where
  "write_item (Bit v) = WriteBit (of_bit v)"
| "write_item (Byte x) = append_u8 x"

abbreviation write_items :: "item list \<Rightarrow> bb_write" where
  "write_items its \<equiv> run_all (map write_item its)"

text \<open>\<open>supplies b its\<close>: reading \<open>b\<close> item by item gives the stream \<open>its\<close>.\<close>

primrec supplies :: "bytebuffer \<Rightarrow> item list \<Rightarrow> bool" where
  "supplies b [] = True"
| "supplies b (it # its) =
     (case it of
        Bit v \<Rightarrow> (case ReadBit b of Inl e \<Rightarrow> False | Inr (v', b') \<Rightarrow> v' = v \<and> supplies b' its)
      | Byte x \<Rightarrow> (case read_u8 b of Inl e \<Rightarrow> False | Inr (x', b') \<Rightarrow> x' = x \<and> supplies b' its))"

text \<open>The bits of one number, most significant first.\<close>

definition bits_msb :: "nat \<Rightarrow> u32 \<Rightarrow> bool list" where
  "bits_msb n v = map (bit v) (rev [0..<n])"

section \<open>Bytes made of bits\<close>

definition pack :: "bool list \<Rightarrow> u8" where
  "pack bs = horner_sum of_bool 2 (rev (bs @ replicate (8 - length bs) False))"

definition unpack :: "u8 \<Rightarrow> bool list" where
  "unpack w = map (\<lambda>i. bit w (7 - i)) [0..<8]"

lemma length_unpack [simp]: "length (unpack w) = 8"
  by (simp add: unpack_def)

lemma unpack_Cons: "unpack w = bit w 7 # drop (Suc 0) (unpack w)"
  by (rule nth_equalityI) (auto simp: unpack_def nth_Cons split: nat.splits)

lemma bit_pack:
  assumes "length bs \<le> 8"
  shows "bit (pack bs) j \<longleftrightarrow> j < 8 \<and> 7 - j < length bs \<and> bs ! (7 - j)"
  using assms
  by (auto simp: pack_def bit_horner_sum_bit_iff rev_nth nth_append possible_bit_word)

lemma unpack_pack:
  assumes "length bs \<le> 8"
  shows "unpack (pack bs) = bs @ replicate (8 - length bs) False"
  using assms by (intro nth_equalityI) (auto simp: unpack_def bit_pack nth_append)

lemma pack_Nil [simp]: "pack [] = 0"
  by (rule bit_word_eqI) (simp add: bit_pack)

lemma pack_snoc:
  assumes "length bs < 8"
  shows "pack (bs @ [v]) = (if v then pack bs OR push_bit (7 - length bs) 1 else pack bs)"
proof (rule bit_word_eqI)
  fix j
  assume "j < LENGTH(8)"
  then have "j < 8" by simp
  with assms have "bit (push_bit (7 - length bs) (1 :: u8)) j \<longleftrightarrow> 7 - j = length bs"
    by (auto simp: bit_exp_iff possible_bit_word)
  with assms \<open>j < 8\<close> show "bit (pack (bs @ [v])) j =
      bit (if v then pack bs OR push_bit (7 - length bs) 1 else pack bs) j"
    by (auto simp: bit_pack bit_or_iff nth_append less_Suc_eq)
qed

section \<open>What the writer has laid out\<close>

text \<open>\<open>laid_out done pend r\<close> is the buffer in which the bytes \<open>done\<close> are stored and the bits
  \<open>pend\<close> wait in \<open>curbitval\<close> for the byte to fill up; \<open>r\<close> is the read position.\<close>

definition laid_out :: "u8 list \<Rightarrow> bool list \<Rightarrow> nat \<Rightarrow> bytebuffer" where
  "laid_out done pend r =
     \<lparr>rpos = r, wpos = length done, bitpos = 8 - length pend, curbitval = pack pend, storage = done\<rparr>"

definition flush_bytes :: "bool list \<Rightarrow> u8 list" where
  "flush_bytes pend = (if pend = [] then [] else [pack pend])"

lemma bb_new_laid_out: "bb_new = laid_out [] [] 0"
  by (simp add: laid_out_def bb_new_def)

lemma append_raw_end:
  assumes "wpos b = length (storage b)" and "length (storage b) < 10000000" and "xs \<noteq> []"
  shows "append_raw xs b =
           Inr (b\<lparr>storage := storage b @ xs, wpos := length (storage b) + length xs\<rparr>)"
  using assms by (simp add: append_raw_def bb_size_def bb_resize_storage_def Let_def)

lemma size_dec_pos: "0 < n \<Longrightarrow> n \<le> 8 \<Longrightarrow> size_dec n = n - 1"
  by (simp add: size_dec_def mod_if)

lemma FlushBits_laid_out:
  assumes "length pend < 8" and "length done < 10000000"
  shows "FlushBits (laid_out done pend r) = Inr (laid_out (done @ flush_bytes pend) [] r)"
  using assms
  by (cases pend) (simp_all add: FlushBits_def laid_out_def flush_bytes_def append_raw_end)

lemma append_val_laid_out:
  assumes "length pend < 8" and "length done + 1 < 10000000" and "xs \<noteq> []"
  shows "append_val xs (laid_out done pend r) =
           Inr (laid_out (done @ flush_bytes pend @ xs) [] r)"
proof -
  have "append_raw xs (laid_out (done @ flush_bytes pend) [] r) =
      Inr (laid_out (done @ flush_bytes pend @ xs) [] r)"
    using assms by (subst append_raw_end) (auto simp: laid_out_def flush_bytes_def)
  then show ?thesis
    using assms by (simp add: append_val_def FlushBits_laid_out)
qed

lemma WriteBit_laid_out:
  assumes "length pend < 8" and "length done < 10000000"
  shows "WriteBit (of_bit v) (laid_out done pend r) =
           Inr (if length pend = 7 then laid_out (done @ [pack (pend @ [v])]) [] r
                else laid_out done (pend @ [v]) r)"
proof -
  have p: "size_dec (8 - length pend) = 7 - length pend"
    using assms(1) by (simp add: size_dec_pos)
  show ?thesis
    using assms
    by (auto simp: WriteBit_def Let_def laid_out_def p append_raw_end pack_snoc simp del: push_bit_of_1)
qed

text \<open>Writing a whole stream.\<close>

primrec lay :: "item list \<Rightarrow> u8 list \<times> bool list \<Rightarrow> u8 list \<times> bool list" where
  "lay [] s = s"
| "lay (it # its) s =
     lay its (case it of
         Bit v \<Rightarrow> (if length (snd s) = 7 then (fst s @ [pack (snd s @ [v])], [])
                    else (fst s, snd s @ [v]))
       | Byte x \<Rightarrow> (fst s @ flush_bytes (snd s) @ [x], []))"

lemma lay_append: "lay (its @ js) s = lay js (lay its s)"
  by (induction its arbitrary: s) auto

lemma lay_pending: "length (snd s) < 8 \<Longrightarrow> length (snd (lay its s)) < 8"
  by (induction its arbitrary: s) (auto split: item.splits)

lemma lay_length: "length (fst (lay its s)) \<le> length (fst s) + 2 * length its"
proof (induction its arbitrary: s)
  case Nil
  then show ?case by simp
next
  case (Cons it its)
  show ?case
    by (cases it) (auto simp: flush_bytes_def intro: order_trans [OF Cons.IH])
qed

lemma write_items_laid_out:
  assumes "length pend < 8" and "length done + 2 * length its + 1 < 10000000"
  shows "write_items its (laid_out done pend r) =
           Inr (laid_out (fst (lay its (done, pend))) (snd (lay its (done, pend))) r)"
  using assms
proof (induction its arbitrary: "done" pend)
  case Nil
  then show ?case by simp
next
  case (Cons it its)
  show ?case
  proof (cases it)
    case (Bit v)
    with Cons show ?thesis by (simp add: WriteBit_laid_out)
  next
    case (Byte x)
    with Cons show ?thesis
      by (simp add: append_u8_def append_val_laid_out flush_bytes_def)
  qed
qed

text \<open>A run of bits ends up as the bytes whose bits, read from the top, are the run.\<close>

lemma lay_bits:
  assumes "length p < 8"
  obtains e p' where "lay (map Bit bs) (d, p) = (d @ e, p')" and "length p' < 8"
    and "concat (map unpack e) @ p' = p @ bs"
proof -
  have "\<exists>e p'. lay (map Bit bs) (d, p) = (d @ e, p') \<and> length p' < 8 \<and>
      concat (map unpack e) @ p' = p @ bs"
    using assms
  proof (induction bs arbitrary: d p)
    case Nil
    then show ?case by (intro exI [of _ "[]"] exI [of _ p]) simp
  next
    case (Cons v bs)
    show ?case
    proof (cases "length p = 7")
      case True
      from Cons.IH [of "[]" "d @ [pack (p @ [v])]"] obtain e p'
        where "lay (map Bit bs) (d @ [pack (p @ [v])], []) = ((d @ [pack (p @ [v])]) @ e, p')"
          and "length p' < 8" and "concat (map unpack e) @ p' = bs" by auto
      with True show ?thesis
        by (intro exI [of _ "pack (p @ [v]) # e"] exI [of _ p']) (simp add: unpack_pack)
    next
      case False
      with Cons.prems have "length (p @ [v]) < 8" by simp
      from Cons.IH [OF this, of d] False show ?thesis by simp
    qed
  qed
  then show ?thesis using that by blast
qed

lemma lay_bytes:
  "lay (map Byte ys) (d, p) = (if ys = [] then (d, p) else (d @ flush_bytes p @ ys, []))"
proof (induction ys arbitrary: d p)
  case Nil
  then show ?case by simp
next
  case (Cons y ys)
  then show ?case by (simp add: flush_bytes_def)
qed

text \<open>The layout of a packet whose bits form one run: leading bytes, the bits padded with zeros to
  whole bytes, trailing bytes.\<close>

lemma lay_contiguous:
  obtains e k where
    "fst (lay (map Byte xs @ map Bit bs @ map Byte ys) ([], [])) @
       flush_bytes (snd (lay (map Byte xs @ map Bit bs @ map Byte ys) ([], []))) = xs @ e @ ys"
    and "concat (map unpack e) = bs @ replicate k False" and "k < 8"
proof -
  obtain e p where ep: "lay (map Bit bs) (xs, []) = (xs @ e, p)" "length p < 8"
    "concat (map unpack e) @ p = bs"
    using lay_bits [of "[]" bs xs] by auto
  have "lay (map Byte xs) ([], []) = (xs, [])"
    by (simp add: lay_bytes flush_bytes_def)
  then have "fst (lay (map Byte xs @ map Bit bs @ map Byte ys) ([], [])) @
       flush_bytes (snd (lay (map Byte xs @ map Bit bs @ map Byte ys) ([], []))) =
     xs @ (e @ flush_bytes p) @ ys"
    using ep(1) by (auto simp: lay_append lay_bytes flush_bytes_def)
  moreover have "concat (map unpack (e @ flush_bytes p)) =
      bs @ replicate (if p = [] then 0 else 8 - length p) False"
    using ep(2,3) by (auto simp: flush_bytes_def unpack_pack)
  moreover have "(if p = [] then 0 else 8 - length p) < 8"
    by (cases p) auto
  ultimately show ?thesis using that by blast
qed

section \<open>What the reader gets\<close>

definition unread :: "bytebuffer \<Rightarrow> bool list" where
  "unread b = drop (Suc (bitpos b)) (unpack (curbitval b))"

lemma bit_test: "drop_bit n (w :: u8) AND 1 \<noteq> 0 \<longleftrightarrow> bit w n"
  by (simp add: bit_iff_odd_drop_bit and_one_eq mod_2_eq_odd)

lemma ReadBit_unread:
  assumes "unread b = v # vs"
  shows "ReadBit b = Inr (v, b\<lparr>bitpos := Suc (bitpos b)\<rparr>)"
    and "unread (b\<lparr>bitpos := Suc (bitpos b)\<rparr>) = vs"
proof -
  from assms have d: "Suc (bitpos b) < 8" "unpack (curbitval b) ! Suc (bitpos b) = v"
    "drop (Suc (Suc (bitpos b))) (unpack (curbitval b)) = vs"
    using drop_eq_ConsD [of "Suc (bitpos b)" "unpack (curbitval b)" v vs]
    by (auto simp: unread_def)
  then have "bit (curbitval b) (7 - Suc (bitpos b)) = v"
    by (simp add: unpack_def)
  with d show "ReadBit b = Inr (v, b\<lparr>bitpos := Suc (bitpos b)\<rparr>)"
    by (simp add: ReadBit_def size_inc_def Let_def bit_test)
  show "unread (b\<lparr>bitpos := Suc (bitpos b)\<rparr>) = vs"
    using d(3) by (simp add: unread_def)
qed

lemma read_u8_nth:
  assumes "rpos b < length (storage b)" and "storage b ! rpos b = x"
  shows "read_u8 b = Inr (x, b\<lparr>rpos := Suc (rpos b)\<rparr>)"
  using assms
  by (simp add: read_u8_def read_val_def read_at_def bb_size_def take_Suc_conv_app_nth)

lemma ReadBit_next_byte:
  assumes "unread b = []" and "bitpos b \<le> 8" and "drop (rpos b) (storage b) = x # rest"
  shows "ReadBit b = Inr (bit x 7, b\<lparr>bitpos := 0, rpos := Suc (rpos b), curbitval := x\<rparr>)"
    and "bit x 7 # unread (b\<lparr>bitpos := 0, rpos := Suc (rpos b), curbitval := x\<rparr>) = unpack x"
proof -
  from assms(1) have "7 \<le> bitpos b" by (simp add: unread_def)
  with assms(2) have "7 < size_inc (bitpos b)" by (simp add: size_inc_def)
  moreover have "read_u8 (b\<lparr>bitpos := 0\<rparr>) = Inr (x, b\<lparr>bitpos := 0, rpos := Suc (rpos b)\<rparr>)"
    using drop_eq_ConsD [OF assms(3)] by (subst read_u8_nth) auto
  ultimately show "ReadBit b = Inr (bit x 7, b\<lparr>bitpos := 0, rpos := Suc (rpos b), curbitval := x\<rparr>)"
    by (simp add: ReadBit_def Let_def bit_test)
  have "unread (b\<lparr>bitpos := 0, rpos := Suc (rpos b), curbitval := x\<rparr>) = drop (Suc 0) (unpack x)"
    by (simp add: unread_def)
  then show "bit x 7 # unread (b\<lparr>bitpos := 0, rpos := Suc (rpos b), curbitval := x\<rparr>) = unpack x"
    by (metis unpack_Cons)
qed

text \<open>Reading a run of bits consumes the bytes that hold it, whatever follows in the stream.\<close>

lemma supplies_bits:
  assumes "unread b @ concat (map unpack (drop (rpos b) (storage b))) = bs @ zs" and "bitpos b \<le> 8"
  obtains b' where "storage b' = storage b"
    and "rpos b' = rpos b + (length bs - length (unread b) + 7) div 8"
    and "\<And>its. supplies b (map Bit bs @ its) = supplies b' its"
proof -
  have "\<exists>b'. storage b' = storage b \<and>
      rpos b' = rpos b + (length bs - length (unread b) + 7) div 8 \<and>
      (\<forall>its. supplies b (map Bit bs @ its) = supplies b' its)"
    using assms
  proof (induction bs arbitrary: b)
    case Nil
    then show ?case by (intro exI [of _ b]) simp
  next
    case (Cons v bs)
    show ?case
    proof (cases "unread b")
      case Nil
      then obtain x rest where x: "drop (rpos b) (storage b) = x # rest"
        using Cons.prems by (cases "drop (rpos b) (storage b)") auto
      let ?b = "b\<lparr>bitpos := 0, rpos := Suc (rpos b), curbitval := x\<rparr>"
      note rd = ReadBit_next_byte [OF Nil Cons.prems(2) x]
      have rest: "drop (rpos ?b) (storage ?b) = rest"
        using drop_eq_ConsD [OF x] by simp
      have "unpack x @ concat (map unpack rest) = v # bs @ zs"
        using Cons.prems(1) Nil x by simp
      then have v: "bit x 7 = v" and "unread ?b @ concat (map unpack rest) = bs @ zs"
        by (simp_all flip: rd(2))
      moreover have "length (unread ?b) = 7" by (simp add: unread_def)
      ultimately obtain b' where "storage b' = storage ?b"
        "rpos b' = rpos ?b + (length bs - 7 + 7) div 8"
        "\<forall>its. supplies ?b (map Bit bs @ its) = supplies b' its"
        using Cons.IH [of ?b] rest by auto
      moreover have "(length bs + 8) div 8 = Suc ((length bs - 7 + 7) div 8)"
        by (cases "length bs < 7") auto
      ultimately show ?thesis
        using Nil rd(1) v by (intro exI [of _ b']) (auto simp: add.commute)
    next
      case ws: (Cons w ws)
      let ?b = "b\<lparr>bitpos := Suc (bitpos b)\<rparr>"
      note rd = ReadBit_unread [OF ws]
      have v: "w = v" and "unread ?b @ concat (map unpack (drop (rpos ?b) (storage ?b))) = bs @ zs"
        using Cons.prems(1) ws rd(2) by auto
      moreover have "bitpos ?b \<le> 8"
        using drop_eq_ConsD [OF ws [unfolded unread_def]] by simp
      ultimately obtain b' where "storage b' = storage b"
        "rpos b' = rpos b + (length bs - length ws + 7) div 8"
        "\<forall>its. supplies ?b (map Bit bs @ its) = supplies b' its"
        using Cons.IH [of ?b] rd(2) by auto
      then show ?thesis
        using ws rd(1) v by (intro exI [of _ b']) auto
    qed
  qed
  then show ?thesis using that by blast
qed

lemma supplies_bytes:
  "supplies b (map Byte xs @ its) \<longleftrightarrow>
     rpos b + length xs \<le> length (storage b) \<and> take (length xs) (drop (rpos b) (storage b)) = xs \<and>
     supplies (b\<lparr>rpos := rpos b + length xs\<rparr>) its" if "rpos b \<le> length (storage b)"
  using that
proof (induction xs arbitrary: b)
  case Nil
  then show ?case by simp
next
  case (Cons x xs)
  show ?case
  proof (cases "rpos b < length (storage b)")
    case True
    have "read_u8 b = Inr (storage b ! rpos b, b\<lparr>rpos := Suc (rpos b)\<rparr>)"
      using True by (simp add: read_u8_nth)
    moreover have "take (Suc (length xs)) (drop (rpos b) (storage b)) =
        storage b ! rpos b # take (length xs) (drop (Suc (rpos b)) (storage b))"
      using True by (simp add: Cons_nth_drop_Suc [symmetric])
    ultimately show ?thesis
      using True Cons.IH [of "b\<lparr>rpos := Suc (rpos b)\<rparr>"] by auto
  next
    case False
    with Cons.prems have "read_u8 b = Inl (PositionException False (rpos b) 1 (length (storage b)))"
      by (simp add: read_u8_def read_val_def read_at_def bb_size_def)
    with False show ?thesis by simp
  qed
qed

section \<open>Statements that emit a stream\<close>

text \<open>\<open>emits_items f its\<close>: the statement \<open>f\<close> writes exactly the stream \<open>its\<close>, and does not throw
  as long as the packet stays below the ten million bytes the buffer asserts.\<close>

definition room :: "u8 list \<Rightarrow> item list \<Rightarrow> bool" where
  "room done its \<longleftrightarrow> length done + 2 * length its + 1 < 10000000"

definition emits_items :: "bb_write \<Rightarrow> item list \<Rightarrow> bool" where
  "emits_items f its \<longleftrightarrow>
     (\<forall>done pend r. length pend < 8 \<longrightarrow> room done its \<longrightarrow>
        f (laid_out done pend r) =
          Inr (laid_out (fst (lay its (done, pend))) (snd (lay its (done, pend))) r))"

lemma emits_itemsD:
  assumes "emits_items f its" and "length pend < 8" and "room done its"
  shows "f (laid_out done pend r) =
           Inr (laid_out (fst (lay its (done, pend))) (snd (lay its (done, pend))) r)"
  using assms by (simp add: emits_items_def)

lemma emits_nothing [emits]: "emits_items Inr []"
  by (simp add: emits_items_def)

lemma emits_WriteBit [emits]: "emits_items (WriteBit v) [Bit (v \<noteq> 0)]"
proof -
  have eq: "WriteBit v b = WriteBit (of_bit (v \<noteq> 0)) b" for b
    by (simp add: WriteBit_def Let_def)
  show ?thesis
    by (auto simp: emits_items_def room_def eq WriteBit_laid_out)
qed

lemma emits_append_val [emits]:
  assumes "xs \<noteq> []"
  shows "emits_items (append_val xs) (map Byte xs)"
  using assms by (auto simp: emits_items_def room_def append_val_laid_out lay_bytes)

lemma emits_seq:
  assumes "emits_items f its" and "emits_items g js"
  shows "emits_items (\<lambda>b. bind_res (f b) g) (its @ js)"
  unfolding emits_items_def
proof (intro allI impI)
  fix "done" :: "u8 list" and pend :: "bool list" and r
  assume p: "length pend < 8" and rm: "room done (its @ js)"
  have "length (fst (lay its (done, pend))) \<le> length done + 2 * length its"
    using lay_length [of its "(done, pend)"] by simp
  with rm have "room (fst (lay its (done, pend))) js" by (simp add: room_def)
  moreover from rm have "room done its" by (simp add: room_def)
  moreover have "length (snd (lay its (done, pend))) < 8"
    using p by (intro lay_pending) simp
  ultimately show "bind_res (f (laid_out done pend r)) g =
      Inr (laid_out (fst (lay (its @ js) (done, pend))) (snd (lay (its @ js) (done, pend))) r)"
    using p assms by (simp add: emits_itemsD lay_append)
qed

lemma emits_run_all:
  assumes "list_all2 emits_items fs itss"
  shows "emits_items (run_all fs) (concat itss)"
  using assms
proof (induction rule: list_all2_induct)
  case Nil
  then show ?case by (simp add: emits_items_def)
next
  case (Cons f fs its itss)
  then show ?case
    using emits_seq [of f its "run_all fs" "concat itss"] by (simp add: run_all_Cons [abs_def])
qed

lemma emits_map:
  assumes "\<And>x. x \<in> set xs \<Longrightarrow> emits_items (f x) (g x)"
  shows "emits_items (run_all (map f xs)) (concat (map g xs))"
  using assms by (intro emits_run_all) (simp add: list_all2_conv_all_nth)

lemma emits_WriteBits [emits]:
  "emits_items (WriteBits v n) (map Bit (bits_msb n v))"
proof (induction n)
  case 0
  then show ?case by (simp add: bits_msb_def emits_items_def)
next
  case (Suc n)
  have "(drop_bit n v AND 1 \<noteq> 0) = bit v n"
    by (simp add: bit_iff_odd_drop_bit and_one_eq mod_2_eq_odd)
  with emits_WriteBit [of "drop_bit n v AND 1"]
  have "emits_items (WriteBit (drop_bit n v AND 1)) [Bit (bit v n)]" by simp
  from emits_seq [OF this Suc] show ?case
    by (simp add: bits_msb_def WriteBits_def)
qed

lemma emits_WriteByteSeq [emits]:
  "emits_items (WriteByteSeq v) (if v \<noteq> 0 then [Byte (v XOR 1)] else [])"
  using emits_append_val [of "[v XOR 1]"]
  by (simp add: WriteByteSeq_def [abs_def] append_u8_def emits_nothing)

text \<open>The contract of the buffer: what is written as bytes, one run of bits and bytes is read back
  as the same stream once the pending bits are flushed.\<close>

theorem emits_then_supplies:
  assumes em: "emits_items f (map Byte xs @ map Bit bs @ map Byte ys)"
    and rm: "length xs + length bs + length ys < 1000000"
  obtains b b' where "f bb_new = Inr b" and "FlushBits b = Inr b'"
    and "supplies b' (map Byte xs @ map Bit bs @ map Byte ys)" and "rpos b' = 0"
proof -
  let ?its = "map Byte xs @ map Bit bs @ map Byte ys"
  let ?l = "lay ?its ([], [])"
  have w: "f bb_new = Inr (laid_out (fst ?l) (snd ?l) 0)"
    using emits_itemsD [OF em, of "[]" "[]" 0] rm by (simp add: bb_new_laid_out room_def)
  have pend: "length (snd ?l) < 8" by (rule lay_pending) simp
  have "length (fst ?l) \<le> 2 * length ?its"
    using lay_length [of ?its "([], [])"] by simp
  with rm have small: "length (fst ?l) < 10000000" by simp
  obtain e k where st: "fst ?l @ flush_bytes (snd ?l) = xs @ e @ ys"
    and e: "concat (map unpack e) = bs @ replicate k False" and k: "k < 8"
    by (rule lay_contiguous)
  have fl: "FlushBits (laid_out (fst ?l) (snd ?l) 0) = Inr (laid_out (xs @ e @ ys) [] 0)"
    using FlushBits_laid_out [OF pend small] st by simp
  let ?b = "laid_out (xs @ e @ ys) [] (length xs)"
  have "8 * length e = length bs + k"
    using arg_cong [OF e, of length] by (simp add: length_concat o_def sum_list_triv)
  with k have le: "(length bs + 7) div 8 = length e" by simp
  have unr: "unread ?b = []" by (simp add: unread_def laid_out_def)
  then have "unread ?b @ concat (map unpack (drop (rpos ?b) (storage ?b))) =
      bs @ replicate k False @ concat (map unpack ys)"
    using e by (simp add: laid_out_def)
  then obtain b' where b': "storage b' = storage ?b" "rpos b' = rpos ?b + (length bs + 7) div 8"
    "\<And>its. supplies ?b (map Bit bs @ its) = supplies b' its"
    using unr by (elim supplies_bits) (auto simp: laid_out_def)
  have "supplies b' (map Byte ys)"
    using supplies_bytes [of b' ys "[]"] b'(1,2) le by (simp add: laid_out_def)
  then have "supplies ?b (map Bit bs @ map Byte ys)" by (simp add: b'(3))
  then have "supplies (laid_out (xs @ e @ ys) [] 0) ?its"
    using supplies_bytes [of "laid_out (xs @ e @ ys) [] 0" xs] by (simp add: laid_out_def)
  with w fl that show ?thesis by (simp add: laid_out_def)
qed

section \<open>Statements that read a stream\<close>

lemma supplies_Bit_iff:
  "supplies b (Bit v # its) \<longleftrightarrow> (\<exists>b'. ReadBit b = Inr (v, b') \<and> supplies b' its)"
  by (cases "ReadBit b") auto

lemma supplies_Byte_iff:
  "supplies b (Byte x # its) \<longleftrightarrow> (\<exists>b'. read_u8 b = Inr (x, b') \<and> supplies b' its)"
  by (cases "read_u8 b") auto

lemmas supplies_iff = supplies.simps(1) supplies_Bit_iff supplies_Byte_iff

declare supplies.simps(2) [simp del]

lemma supplies_read_val:
  assumes "supplies b (map Byte xs @ its)" and "xs \<noteq> []"
  obtains b' where "read_val (length xs) b = Inr (xs, b')" and "supplies b' its"
proof -
  from assms obtain x ys where xs: "xs = x # ys" by (cases xs) auto
  with assms(1) have "\<exists>r. read_u8 b = Inr r" by (auto simp: supplies_iff)
  then have "rpos b \<le> length (storage b)"
    by (auto simp: read_u8_def read_val_def read_at_def bb_size_def bind_res_def split: if_splits)
  from supplies_bytes [OF this, of xs its] assms(1)
  have "rpos b + length xs \<le> length (storage b)"
    and "take (length xs) (drop (rpos b) (storage b)) = xs"
    and "supplies (b\<lparr>rpos := rpos b + length xs\<rparr>) its" by auto
  with that show ?thesis
    by (simp add: read_val_def read_at_def bb_size_def)
qed

lemma supplies_read_u32:
  assumes "supplies b (map Byte (le_bytes 4 v) @ its)"
  obtains b' where "read_u32 b = Inr (v, b')" and "supplies b' its"
proof -
  from assms obtain b' where "read_val 4 b = Inr (le_bytes 4 v, b')" and "supplies b' its"
    by (rule supplies_read_val [where xs = "le_bytes 4 v", simplified])
  with that show ?thesis by (simp add: read_u32_def u32_codec.dec_enc)
qed

lemma supplies_read_f32:
  assumes "supplies b (map Byte (le_bytes 4 v) @ its)"
  obtains b' where "read_f32 b = Inr (v, b')" and "supplies b' its"
proof -
  from assms obtain b' where "read_val 4 b = Inr (le_bytes 4 v, b')" and "supplies b' its"
    by (rule supplies_read_val [where xs = "le_bytes 4 v", simplified])
  with that show ?thesis by (simp add: read_f32_def u32_codec.dec_enc)
qed

lemma bits_msb_Suc: "bits_msb (Suc n) v = bit v n # bits_msb n v"
  by (simp add: bits_msb_def)

lemma supplies_read_bits_acc:
  assumes "supplies b (map Bit (bits_msb n v) @ its)" and "n \<le> 32"
  shows "\<exists>b'. read_bits_acc n acc b = Inr (acc OR take_bit n v, b') \<and> supplies b' its"
  using assms
proof (induction n arbitrary: b acc)
  case 0
  then show ?case by (simp add: bits_msb_def)
next
  case (Suc n)
  from Suc.prems(1) obtain b1 where b1: "ReadBit b = Inr (bit v n, b1)"
    "supplies b1 (map Bit (bits_msb n v) @ its)"
    by (auto simp: bits_msb_Suc supplies_iff)
  have eq: "(if bit v n then acc OR push_bit n 1 else acc) OR take_bit n v =
      acc OR take_bit (Suc n) v" for acc :: u32
    by (rule bit_word_eqI)
      (auto simp: bit_or_iff bit_take_bit_iff bit_exp_iff possible_bit_word less_Suc_eq)
  from Suc.IH [OF b1(2)] Suc.prems(2) b1(1) show ?case
    by (simp only: read_bits_acc.simps bind_res_simps prod.case eq) (metis Suc_leD eq)
qed

lemma supplies_ReadBits:
  assumes "supplies b (map Bit (bits_msb n v) @ its)" and "n \<le> 32"
  obtains b' where "ReadBits n b = Inr (take_bit n v, b')" and "supplies b' its"
  using supplies_read_bits_acc [OF assms, of 0] that by (auto simp: ReadBits_def)

lemma supplies_ReadByteSeq:
  assumes "supplies b ((if v \<noteq> 0 then [Byte (v XOR 1)] else []) @ its)"
  obtains b' where "ReadByteSeq (of_bool (v \<noteq> 0)) b = Inr (v, b')" and "supplies b' its"
proof (cases "v = 0")
  case True
  with assms that show ?thesis by (simp add: ReadByteSeq_def)
next
  case False
  with assms obtain b' where "read_u8 b = Inr (v XOR 1, b')" and "supplies b' its"
    by (auto simp: supplies_iff)
  moreover have "1 XOR (v XOR 1) = v"
    by (metis xor.assoc xor.commute xor_self_eq xor.right_neutral)
  ultimately show ?thesis
    using False that by (simp add: ReadByteSeq_def)
qed

end
