(* ===== verification/ByteBufferProps.thy ===== *)
theory ByteBufferProps
  imports PacketStream
begin

text \<open>
  The properties of the packet buffer: bits, numbers, strings and packed guids come back as they were
  written, values can be patched in place, reading stays inside the packet, and the class's members
  keep their relation under every sequence of writes.
\<close>

section \<open>Streams\<close>

lemma emits_write_items: "emits_items (run_all (map write_item its)) its"
proof -
  have "emits_items (write_item it) [it]" for it
    using emits_WriteBit [of "of_bit v" for v] emits_append_val [of "[x]" for x]
    by (cases it) (auto simp: append_u8_def emits_items_def)
  then have "emits_items (run_all (map write_item its)) (concat (map (\<lambda>it. [it]) its))"
    by (intro emits_map)
  then show ?thesis by simp
qed

text \<open>C9: a packet of bytes, one run of bits and bytes is read back as the stream that was written,
  once the pending bits are flushed.\<close>

theorem stream_roundtrip:
  assumes "length xs + length bs + length ys < 1000000"
  shows "\<exists>b b'. run_all (map write_item (map Byte xs @ map Bit bs @ map Byte ys)) bb_new = Inr b \<and>
           FlushBits b = Inr b' \<and> supplies b' (map Byte xs @ map Bit bs @ map Byte ys)"
  using emits_then_supplies [OF emits_write_items assms] by blast

theorem stream_roundtrip_witness:
  "\<exists>b b'. run_all (map write_item (map Byte [7] @ map Bit [True, False, True] @ map Byte [1, 2])) bb_new = Inr b \<and>
     FlushBits b = Inr b' \<and> supplies b' (map Byte [7] @ map Bit [True, False, True] @ map Byte [1, 2])"
  by (rule stream_roundtrip) simp

text \<open>WriteBits and ReadBits are inverse on the low bits of the value, for every width up to the
  thirty-two bits of the value that ReadBits returns.\<close>

theorem bits_roundtrip:
  assumes "n \<le> 32"
  shows "\<exists>b b' b''. WriteBits v n bb_new = Inr b \<and> FlushBits b = Inr b' \<and>
           ReadBits n b' = Inr (take_bit n v, b'')"
proof -
  have "emits_items (WriteBits v n) (map Byte [] @ map Bit (bits_msb n v) @ map Byte [])"
    using emits_WriteBits [of v n] by simp
  moreover have "length ([] :: u8 list) + length (bits_msb n v) + length ([] :: u8 list) < 1000000"
    using assms by (simp add: bits_msb_def)
  ultimately obtain b b' where b: "WriteBits v n bb_new = Inr b" "FlushBits b = Inr b'"
    and "supplies b' (map Byte [] @ map Bit (bits_msb n v) @ map Byte [])"
    by (rule emits_then_supplies)
  then have "supplies b' (map Bit (bits_msb n v) @ [])" by simp
  then obtain b'' where "ReadBits n b' = Inr (take_bit n v, b'')"
    using assms by (rule supplies_ReadBits)
  with b show ?thesis by blast
qed

theorem bits_roundtrip_witness:
  "\<exists>b b' b''. WriteBits 0x805 12 bb_new = Inr b \<and> FlushBits b = Inr b' \<and>
     ReadBits 12 b' = Inr (0x805, b'')"
  using bits_roundtrip [of 12 "0x805"] by simp

section \<open>Packed guids\<close>

definition gbyte :: "u64 \<Rightarrow> nat \<Rightarrow> u8" where
  "gbyte g i = ucast (drop_bit (8 * i) g)"

lemma gbyte_0 [simp]: "gbyte 0 i = 0"
  by (simp add: gbyte_def)

lemma bit_gbyte: "bit (gbyte g i) j \<longleftrightarrow> j < 8 \<and> bit g (8 * i + j)"
  by (auto simp: gbyte_def bit_ucast_iff bit_drop_bit_eq)

lemma gbyte_drop: "gbyte (drop_bit (8 * i) g) k = gbyte g (i + k)"
  by (simp add: gbyte_def add_mult_distrib2 add.commute)

lemma low_byte_gbyte: "ucast (h AND 0xFF) = gbyte h 0"
proof (rule bit_word_eqI)
  fix j
  assume "j < LENGTH(8)"
  have "(0xFF :: u64) = mask 8" by (simp add: mask_eq_exp_minus_1)
  then have "bit (0xFF :: u64) j \<longleftrightarrow> j < 8"
    by (simp only: bit_mask_iff) auto
  with \<open>j < LENGTH(8)\<close> show "bit (ucast (h AND 0xFF) :: u8) j = bit (gbyte h 0) j"
    by (simp add: bit_gbyte bit_ucast_iff bit_and_iff)
qed

lemma low_byte_zero: "h AND 0xFF = 0 \<longleftrightarrow> gbyte h 0 = 0"
proof -
  have ff: "(0xFF :: u64) = mask 8" by (simp add: mask_eq_exp_minus_1)
  have "h AND 0xFF = 0 \<longleftrightarrow> (\<forall>j<8. \<not> bit h j)"
    unfolding ff
  proof (intro iffI allI impI)
    fix j :: nat
    assume "h AND mask 8 = 0" and "j < 8"
    then have "\<not> bit (h AND mask 8) j" by simp
    with \<open>j < 8\<close> show "\<not> bit h j" by (simp add: bit_and_iff bit_mask_iff)
  next
    assume "\<forall>j<8. \<not> bit h j"
    then show "h AND mask 8 = 0"
      by (intro bit_word_eqI) (auto simp: bit_and_iff bit_mask_iff)
  qed
  moreover have "gbyte h 0 = 0 \<longleftrightarrow> (\<forall>j<8. \<not> bit h j)"
    by (auto simp: bit_eq_iff bit_gbyte)
  ultimately show ?thesis by simp
qed

text \<open>The packed form: a mark with one bit per non-zero byte, and the non-zero bytes.\<close>

lemma pack_guid_from_spec:
  assumes "i \<le> 8"
  shows "\<exists>m. pack_guid_from i (drop_bit (8 * i) g) mark bytes =
           (m, bytes @ filter (\<lambda>x. x \<noteq> 0) (map (gbyte g) [i..<8])) \<and>
         (\<forall>j. bit m j \<longleftrightarrow> bit mark j \<or> i \<le> j \<and> j < 8 \<and> gbyte g j \<noteq> 0)"
  using assms
proof (induction "8 - i" arbitrary: i mark bytes)
  case 0
  then have i: "i = 8" by simp
  have "drop_bit 64 g = 0"
    by (rule bit_word_eqI) (simp add: bit_drop_bit_eq bit_imp_le_length)
  with i show ?case by (auto simp: pack_guid_from.simps)
next
  case (Suc n)
  then have i: "i < 8" and n: "n = 8 - Suc i" by auto
  have upt: "[i..<8] = i # [Suc i..<8]"
    using i by (simp add: upt_conv_Cons)
  let ?h = "drop_bit (8 * i) g"
  show ?case
  proof (cases "?h = 0")
    case True
    have "gbyte g (i + k) = 0" for k
      using True by (simp flip: gbyte_drop)
    then have z: "gbyte g j = 0" if "i \<le> j" for j
      using that by (metis le_Suc_ex)
    then have "filter (\<lambda>x. x \<noteq> 0) (map (gbyte g) [i..<8]) = []"
      by (auto simp: filter_empty_conv)
    with True z show ?thesis by (auto simp: pack_guid_from.simps)
  next
    case False
    have nxt: "drop_bit 8 ?h = drop_bit (8 * Suc i) g"
      by (simp add: add.commute)
    have low: "gbyte ?h 0 = gbyte g i"
      by (simp add: gbyte_drop)
    show ?thesis
    proof (cases "gbyte g i = 0")
      case True
      have "pack_guid_from i ?h mark bytes =
          pack_guid_from (Suc i) (drop_bit (8 * Suc i) g) mark bytes"
        using False True low nxt by (simp add: pack_guid_from.simps [of i ?h] low_byte_zero)
      moreover have "Suc i \<le> j \<and> j < 8 \<and> gbyte g j \<noteq> 0 \<longleftrightarrow> i \<le> j \<and> j < 8 \<and> gbyte g j \<noteq> 0" for j
        using True by (auto simp: Suc_le_eq le_less)
      ultimately show ?thesis
        using Suc.hyps(1) [OF n, of mark bytes] i True upt by simp
    next
      case byte: False
      have "pack_guid_from i ?h mark bytes =
          pack_guid_from (Suc i) (drop_bit (8 * Suc i) g) (mark OR push_bit i 1) (bytes @ [gbyte g i])"
        using False byte low nxt
        by (simp add: pack_guid_from.simps [of i ?h] low_byte_zero low_byte_gbyte)
      moreover have "bit (mark OR push_bit i 1) j \<longleftrightarrow> bit mark j \<or> j = i" for j
        using i by (auto simp: bit_or_iff bit_exp_iff possible_bit_word)
      moreover have "(bit mark j \<or> j = i) \<or> Suc i \<le> j \<and> j < 8 \<and> gbyte g j \<noteq> 0 \<longleftrightarrow>
          bit mark j \<or> i \<le> j \<and> j < 8 \<and> gbyte g j \<noteq> 0" for j
        using byte i by (auto simp: Suc_le_eq le_less)
      ultimately show ?thesis
        using Suc.hyps(1) [OF n, of "mark OR push_bit i 1" "bytes @ [gbyte g i]"] i byte upt
        by simp
    qed
  qed
qed

text \<open>Reading the bytes announced by a mark.\<close>

lemma take_bit_Suc_byte:
  assumes "i < 8"
  shows "take_bit (8 * i) g OR push_bit (i * 8) (ucast (gbyte g i)) = take_bit (8 * Suc i) (g :: u64)"
proof (rule bit_word_eqI)
  fix j
  assume "j < LENGTH(64)"
  then have "j < 64" by simp
  then show "bit (take_bit (8 * i) g OR push_bit (i * 8) (ucast (gbyte g i))) j =
      bit (take_bit (8 * Suc i) g) j"
    by (cases "j < 8 * i")
      (auto simp: bit_or_iff bit_take_bit_iff bit_push_bit_iff bit_ucast_iff bit_gbyte
        possible_bit_word)
qed

lemma read_u8_Cons:
  assumes "drop (rpos b) (storage b) = x # rest"
  shows "read_u8 b = Inr (x, b\<lparr>rpos := Suc (rpos b)\<rparr>)" and "rpos b < bb_size b"
  using drop_eq_ConsD [OF assms] read_u8_nth by (auto simp: bb_size_def)

lemma read_guid_bytes_spec:
  assumes "i \<le> 8" and "\<And>j. j < 8 \<Longrightarrow> bit mark j \<longleftrightarrow> gbyte g j \<noteq> 0"
    and "drop (rpos b) (storage b) = filter (\<lambda>x. x \<noteq> 0) (map (gbyte g) [i..<8]) @ rest"
  shows "\<exists>b'. read_guid_bytes mark [i..<8] (take_bit (8 * i) g) b = Inr (g, b') \<and>
           rpos b' = rpos b + length (filter (\<lambda>x. x \<noteq> 0) (map (gbyte g) [i..<8]))"
  using assms(1,3)
proof (induction "8 - i" arbitrary: i b)
  case 0
  then have "i = 8" by simp
  with 0 show ?case by (simp add: take_bit_word_eq_self)
next
  case (Suc n)
  then have i: "i < 8" and n: "n = 8 - Suc i" by auto
  have upt: "[i..<8] = i # [Suc i..<8]"
    using i by (simp add: upt_conv_Cons)
  have test: "mark AND push_bit i 1 \<noteq> 0 \<longleftrightarrow> gbyte g i \<noteq> 0"
    using assms(2) [OF i] by (simp add: and_exp_eq_0_iff_not_bit)
  show ?case
  proof (cases "gbyte g i = 0")
    case True
    have "take_bit (8 * i) g = take_bit (8 * Suc i) g"
      using take_bit_Suc_byte [OF i, of g] True by simp
    with Suc.hyps(1) [OF n, of b] Suc.prems(2) i True test upt show ?thesis
      by (simp add: read_guid_byte_def)
  next
    case False
    let ?rest = "filter (\<lambda>x. x \<noteq> 0) (map (gbyte g) [Suc i..<8]) @ rest"
    have d: "drop (rpos b) (storage b) = gbyte g i # ?rest"
      using Suc.prems(2) False upt by simp
    then have "drop (Suc (rpos b)) (storage b) = ?rest"
      using drop_eq_ConsD by fastforce
    with Suc.hyps(1) [OF n, of "b\<lparr>rpos := Suc (rpos b)\<rparr>"] False test upt i
      read_u8_Cons [OF d] take_bit_Suc_byte [OF i, of g]
    show ?thesis by (simp add: read_guid_byte_def)
  qed
qed

text \<open>C10: a guid packed by appendPackGUID takes a mark byte and one byte per non-zero byte of the guid,
  and readPackGUID returns the guid and consumes exactly these bytes.\<close>

theorem packed_guid_roundtrip:
  "\<exists>b b'. appendPackGUID g bb_new = Inr b \<and> readPackGUID b = Inr (g, b') \<and>
     rpos b' = bb_size b \<and>
     bb_size b = Suc (length (filter (\<lambda>x. x \<noteq> 0) (le_bytes 8 g)))"
proof -
  let ?bytes = "filter (\<lambda>x. x \<noteq> 0) (map (gbyte g) [0..<8])"
  obtain m where m: "pack_guid_from 0 g 0 [] = (m, ?bytes)"
    and bits: "\<And>j. bit m j \<longleftrightarrow> j < 8 \<and> gbyte g j \<noteq> 0"
    using pack_guid_from_spec [of 0 g 0 "[]"] by auto
  let ?b = "laid_out (m # ?bytes) [] 0"
  have w: "appendPackGUID g bb_new = Inr ?b"
    using append_raw_end [of bb_new "m # ?bytes"]
    by (simp add: appendPackGUID_def m bb_new_def laid_out_def)
  have d: "drop (rpos ?b) (storage ?b) = m # ?bytes"
    by (simp add: laid_out_def)
  have "drop (rpos (?b\<lparr>rpos := Suc 0\<rparr>)) (storage (?b\<lparr>rpos := Suc 0\<rparr>)) = ?bytes @ []"
    by (simp add: laid_out_def)
  with read_guid_bytes_spec [of 0 m g "?b\<lparr>rpos := Suc 0\<rparr>" "[]"] bits
  obtain b' where b': "read_guid_bytes m [0..<8] 0 (?b\<lparr>rpos := Suc 0\<rparr>) = Inr (g, b')"
    "rpos b' = Suc (length ?bytes)"
    by auto
  have "readPackGUID ?b = Inr (g, b')"
    using read_u8_Cons [OF d] b'(1) by (simp add: readPackGUID_def laid_out_def)
  moreover have "le_bytes 8 g = map (gbyte g) [0..<8]"
    by (simp add: le_bytes_def gbyte_def)
  moreover have "bb_size ?b = Suc (length ?bytes)"
    by (simp add: bb_size_def laid_out_def)
  ultimately show ?thesis
    using w b'(2) by auto
qed

section \<open>Strings\<close>

lemma read_string_from_spec:
  assumes "drop (rpos b) (storage b) = s @ 0 # rest" and "0 \<notin> set s"
  shows "read_string_from acc b = Inr (acc @ s, b\<lparr>rpos := rpos b + length s + 1\<rparr>)"
  using assms
proof (induction s arbitrary: acc b)
  case Nil
  then have "rpos b < length (storage b)" and "storage b ! rpos b = 0"
    using drop_eq_ConsD [of "rpos b" "storage b" 0 rest] by auto
  then show ?case
    by (simp add: read_string_from.simps [of acc b] bb_size_def Let_def)
next
  case (Cons c s)
  then have d: "rpos b < length (storage b)" "storage b ! rpos b = c" "c \<noteq> 0"
    "drop (Suc (rpos b)) (storage b) = s @ 0 # rest"
    using drop_eq_ConsD [of "rpos b" "storage b" c "s @ 0 # rest"] by auto
  have "read_string_from (acc @ [c]) (b\<lparr>rpos := Suc (rpos b)\<rparr>) =
      Inr ((acc @ [c]) @ s, (b\<lparr>rpos := Suc (rpos b)\<rparr>)\<lparr>rpos := Suc (rpos b) + length s + 1\<rparr>)"
    using Cons.IH [of "b\<lparr>rpos := Suc (rpos b)\<rparr>" "acc @ [c]"] d(4) Cons.prems(2) by simp
  with d show ?case
    by (simp add: read_string_from.simps [of acc b] bb_size_def Let_def)
qed

lemma append_raw_laid_out:
  assumes "length done < 10000000" and "xs \<noteq> []"
  shows "append_raw xs (laid_out done pend r) = Inr (laid_out (done @ xs) pend r)"
  using assms append_raw_end [of "laid_out done pend r" xs] by (simp add: laid_out_def)

lemma append_string_laid_out:
  assumes "length done + length s < 9000000" and "length pend < 8"
  shows "append_string s (laid_out done pend r) =
           Inr (laid_out (done @ s @ flush_bytes pend @ [0]) [] r)"
proof -
  have "(if s = [] then Inr (laid_out done pend r) else append_raw s (laid_out done pend r)) =
      Inr (laid_out (done @ s) pend r)"
    using assms(1) append_raw_laid_out [of "done" s pend r] by simp
  with assms show ?thesis
    using append_val_laid_out [of pend "done @ s" "[0]" r]
    by (simp add: append_string_def append_u8_def)
qed

text \<open>A string without zero bytes that is written when no bits are pending is read back unchanged,
  terminator consumed; what follows it in the packet is not touched.\<close>

theorem string_roundtrip:
  assumes "0 \<notin> set s" and "length done + length s < 9000000"
  shows "\<exists>b. append_string s (laid_out done [] (length done)) = Inr b \<and>
           read_string b = Inr (s, b\<lparr>rpos := bb_size b\<rparr>)"
proof -
  let ?b = "laid_out (done @ s @ [0]) [] (length done)"
  have "append_string s (laid_out done [] (length done)) = Inr ?b"
    using append_string_laid_out [of "done" s "[]"] assms(2) by (simp add: flush_bytes_def)
  moreover have "read_string ?b = Inr (s, ?b\<lparr>rpos := bb_size ?b\<rparr>)"
    using read_string_from_spec [of ?b s "[]" "[]"] assms(1)
    by (simp add: read_string_def laid_out_def bb_size_def)
  ultimately show ?thesis by blast
qed

theorem string_roundtrip_witness:
  "\<exists>b. append_string [72, 105] (laid_out [1, 2] [] (length [1 :: u8, 2])) = Inr b \<and>
     read_string b = Inr ([72, 105], b\<lparr>rpos := bb_size b\<rparr>)"
  by (rule string_roundtrip) simp_all

text \<open>The string operator does not flush the bits written before it: when bits are pending, the
  characters land in front of the byte that holds these bits, and only the terminator follows it.\<close>

theorem string_overtakes_bits:
  assumes "length pend < 8" and "pend \<noteq> []" and "length done + length s < 9000000"
  shows "append_string s (laid_out done pend r) = Inr (laid_out (done @ s @ [pack pend, 0]) [] r)"
  using assms append_string_laid_out [of "done" s pend r] by (simp add: flush_bytes_def)

theorem string_overtakes_bits_witness:
  "append_string [72, 105] (laid_out [9] [True] 0) = Inr (laid_out [9, 72, 105, 0x80, 0] [] 0)"
proof -
  have "pack [True] = 0x80"
    by (simp add: pack_def numeral_eq_Suc)
  then show ?thesis
    using string_overtakes_bits [of "[True]" "[9]" "[72, 105]" 0] by simp
qed

section \<open>Patching a packet\<close>

text \<open>The bit at a bit position of the stored packet.\<close>

definition stored_bit :: "u8 list \<Rightarrow> nat \<Rightarrow> bool" where
  "stored_bit st p = bit (st ! (p div 8)) (7 - p mod 8)"

lemma length_put_bit [simp]: "length (put_bit v n pos i st) = length st"
  by (simp add: put_bit_def Let_def)

lemma stored_bit_put_bit:
  assumes "pos + i < 8 * length st"
  shows "stored_bit (put_bit v n pos i st) p =
           (if p = pos + i then bit v (n - i - 1) else stored_bit st p)"
proof -
  let ?wp = "(pos + i) div 8" and ?k = "7 - (pos + i) mod 8"
  have wp: "?wp < length st" using assms by simp
  have t: "drop_bit (n - i - 1) v AND 1 \<noteq> 0 \<longleftrightarrow> bit v (n - i - 1)"
    by (simp add: bit_iff_odd_drop_bit and_one_eq mod_2_eq_odd)
  have pos: "p div 8 = ?wp \<and> 7 - p mod 8 = ?k \<longleftrightarrow> p = pos + i"
  proof -
    have "7 - p mod 8 = ?k \<longleftrightarrow> p mod 8 = (pos + i) mod 8"
      using mod_less_divisor [of 8 p] mod_less_divisor [of 8 "pos + i"] by linarith
    then show ?thesis by (metis div_mult_mod_eq)
  qed
  have e: "bit (push_bit ?k 1 :: u8) j \<longleftrightarrow> j = ?k" for j
    by (auto simp: bit_exp_iff possible_bit_word)
  let ?x = "if bit v (n - i - 1) then st ! ?wp OR push_bit ?k 1 else st ! ?wp AND NOT (push_bit ?k 1)"
  have upd: "put_bit v n pos i st = st[?wp := ?x]"
    unfolding put_bit_def Let_def t by simp
  have x: "bit ?x j \<longleftrightarrow> (if j = ?k then bit v (n - i - 1) else bit (st ! ?wp) j)" if "j < 8" for j
    using that e by (simp add: bit_or_iff bit_and_iff bit_not_iff possible_bit_word del: push_bit_of_1)
  show ?thesis
  proof (cases "p div 8 = ?wp")
    case True
    have "stored_bit (put_bit v n pos i st) p = bit ?x (7 - p mod 8)"
      using True wp by (simp add: stored_bit_def upd)
    also have "\<dots> = (if p = pos + i then bit v (n - i - 1) else stored_bit st p)"
      using x [of "7 - p mod 8"] pos True by (simp add: stored_bit_def)
    finally show ?thesis .
  next
    case False
    with pos show ?thesis by (auto simp: stored_bit_def upd)
  qed
qed

lemma stored_bit_fold_put_bit:
  assumes "pos + n \<le> 8 * length st" and "k \<le> n"
  shows "stored_bit (fold (put_bit v n pos) [0..<k] st) p =
           (if pos \<le> p \<and> p < pos + k then bit v (n - (p - pos) - 1) else stored_bit st p)"
  using assms
proof (induction k)
  case 0
  then show ?case by auto
next
  case (Suc k)
  have len: "length (fold (put_bit v n pos) [0..<k] st) = length st"
    by (induction k) simp_all
  show ?case
    using Suc by (auto simp: stored_bit_put_bit len less_Suc_eq)
qed

text \<open>PutBits stores the low bits of the value most significant first at the given bit position of
  the packet, leaves every other bit and the positions of the buffer alone, and throws when the bits
  are not all inside the packet.\<close>

theorem PutBits_spec:
  "case PutBits pos v n b of
     Inl e \<Rightarrow> n = 0 \<or> 8 * bb_size b < pos + n
   | Inr b' \<Rightarrow> 0 < n \<and> pos + n \<le> 8 * bb_size b \<and>
       b' = b\<lparr>storage := storage b'\<rparr> \<and> bb_size b' = bb_size b \<and>
       (\<forall>p. stored_bit (storage b') p =
          (if pos \<le> p \<and> p < pos + n then bit v (n - (p - pos) - 1) else stored_bit (storage b) p))"
proof -
  have "length (fold (put_bit v n pos) is st) = length st" for "is" st
    by (induction "is" arbitrary: st) simp_all
  then show ?thesis
    by (auto simp: PutBits_def bb_size_def stored_bit_fold_put_bit mult.commute)
qed

section \<open>Every sequence of reads\<close>

text \<open>A session reads a packet by a sequence of these operations; one that throws leaves the model's
  buffer as it was (the session drops the packet).\<close>

datatype read_op =
    OpReadBit | OpReadBits nat | OpReadByteSeq u8 | OpRead nat | OpSkip nat | OpReadCString
  | OpReadString nat | OpReadPackGUID

primrec exec_read :: "read_op \<Rightarrow> bytebuffer \<Rightarrow> bytebuffer" where
  "exec_read OpReadBit b = (case ReadBit b of Inl e \<Rightarrow> b | Inr (v, b') \<Rightarrow> b')"
| "exec_read (OpReadBits n) b = (case ReadBits n b of Inl e \<Rightarrow> b | Inr (v, b') \<Rightarrow> b')"
| "exec_read (OpReadByteSeq v) b = (case ReadByteSeq v b of Inl e \<Rightarrow> b | Inr (x, b') \<Rightarrow> b')"
| "exec_read (OpRead n) b = (case read_val n b of Inl e \<Rightarrow> b | Inr (x, b') \<Rightarrow> b')"
| "exec_read (OpSkip n) b = (case read_skip n b of Inl e \<Rightarrow> b | Inr b' \<Rightarrow> b')"
| "exec_read OpReadCString b = (case read_string b of Inl e \<Rightarrow> b | Inr (x, b') \<Rightarrow> b')"
| "exec_read (OpReadString n) b = (case ReadString n b of Inl e \<Rightarrow> b | Inr (x, b') \<Rightarrow> b')"
| "exec_read OpReadPackGUID b = (case readPackGUID b of Inl e \<Rightarrow> b | Inr (x, b') \<Rightarrow> b')"

definition inside :: "u8 list \<Rightarrow> bytebuffer \<Rightarrow> bool" where
  "inside st b \<longleftrightarrow> storage b = st \<and> rpos b \<le> length st"

text \<open>A read keeps the buffer inside the packet.\<close>

definition reads_inside :: "'a bb_read \<Rightarrow> bool" where
  "reads_inside rd \<longleftrightarrow> (\<forall>st b x b'. inside st b \<longrightarrow> rd b = Inr (x, b') \<longrightarrow> inside st b')"

lemma reads_insideD: "reads_inside rd \<Longrightarrow> inside st b \<Longrightarrow> rd b = Inr (x, b') \<Longrightarrow> inside st b'"
  unfolding reads_inside_def by blast

lemma reads_inside_bind:
  assumes "reads_inside f" and "\<And>x. reads_inside (g x)"
  shows "reads_inside (\<lambda>b. bind_res (f b) (\<lambda>(x, b'). g x b'))"
  unfolding reads_inside_def
proof (intro allI impI)
  fix st b x b'
  assume "inside st b" and "bind_res (f b) (\<lambda>(x, b'). g x b') = Inr (x, b')"
  then obtain y b1 where "f b = Inr (y, b1)" "g y b1 = Inr (x, b')"
    by (auto simp: bind_res_Inr_iff)
  with \<open>inside st b\<close> show "inside st b'"
    by (metis assms reads_insideD)
qed

lemma reads_inside_return: "reads_inside (\<lambda>b. Inr (x, b))"
  by (simp add: reads_inside_def)

lemma inside_read_val: "reads_inside (read_val n)"
  by (auto simp: reads_inside_def inside_def read_val_def read_at_def bb_size_def bind_res_def
      split: if_splits)

lemma inside_read_u8: "reads_inside read_u8"
  using reads_insideD [OF inside_read_val [of 1]]
  by (auto simp: reads_inside_def read_u8_def bind_res_Inr_iff)

lemma inside_bitpos [simp]: "inside st (b\<lparr>bitpos := n\<rparr>) = inside st b"
  "inside st (b\<lparr>curbitval := v\<rparr>) = inside st b"
  by (simp_all add: inside_def)

lemma inside_ReadBit: "reads_inside ReadBit"
  unfolding reads_inside_def
proof (intro allI impI)
  fix st b x b'
  assume i: "inside st b" and r: "ReadBit b = Inr (x, b')"
  show "inside st b'"
  proof (cases "size_inc (bitpos b) > 7")
    case True
    with r obtain v b1 where "read_u8 (b\<lparr>bitpos := 0\<rparr>) = Inr (v, b1)" "b' = b1\<lparr>curbitval := v\<rparr>"
      by (auto simp: ReadBit_def Let_def bind_res_Inr_iff)
    with i show ?thesis
      using reads_insideD [OF inside_read_u8, of st "b\<lparr>bitpos := 0\<rparr>" v b1] by simp
  next
    case False
    with r i show ?thesis by (auto simp: ReadBit_def Let_def)
  qed
qed

lemma inside_read_bits_acc: "reads_inside (read_bits_acc n v)"
proof (induction n arbitrary: v)
  case 0
  then show ?case by (simp add: reads_inside_def)
next
  case (Suc n)
  show ?case
    unfolding read_bits_acc.simps by (intro reads_inside_bind inside_ReadBit Suc.IH)
qed

lemma inside_ReadByteSeq: "reads_inside (ReadByteSeq v)"
  using reads_insideD [OF inside_read_u8]
  by (auto simp: reads_inside_def ReadByteSeq_def bind_res_Inr_iff split: if_splits)

lemma inside_read_string_from: "inside st b \<Longrightarrow> read_string_from acc b = Inr (x, b') \<Longrightarrow> inside st b'"
proof (induction acc b rule: read_string_from.induct)
  case (1 acc b)
  show ?case
  proof (cases "rpos b < bb_size b")
    case True
    then have "inside st (b\<lparr>rpos := rpos b + 1\<rparr>)"
      using "1.prems"(1) by (simp add: inside_def bb_size_def)
    with 1 True show ?thesis
      by (cases "storage b ! rpos b = 0")
        (simp_all add: read_string_from.simps [of acc b] Let_def)
  next
    case False
    with "1.prems" show ?thesis
      by (simp add: read_string_from.simps [of acc b])
  qed
qed

lemma inside_read_guid_bytes: "reads_inside (read_guid_bytes mark is g)"
proof (induction "is" arbitrary: g)
  case Nil
  then show ?case by (simp add: reads_inside_def)
next
  case (Cons i "is")
  have "reads_inside (read_guid_byte mark i g)"
    using reads_insideD [OF inside_read_u8]
    by (auto simp: reads_inside_def read_guid_byte_def bind_res_Inr_iff split: if_splits)
  then show ?case
    unfolding read_guid_bytes.simps by (intro reads_inside_bind Cons.IH)
qed

lemma inside_readPackGUID: "reads_inside readPackGUID"
proof -
  have "reads_inside (\<lambda>b. bind_res (read_u8 b) (\<lambda>(m, b'). read_guid_bytes m [0..<8] 0 b'))"
    by (intro reads_inside_bind inside_read_u8 inside_read_guid_bytes)
  then show ?thesis
    by (auto simp: reads_inside_def readPackGUID_def split: if_splits)
qed

lemma inside_ReadString: "reads_inside (ReadString n)"
  by (auto simp: reads_inside_def ReadString_def inside_def bb_size_def split: if_splits)

lemma inside_read_skip: "inside st b \<Longrightarrow> read_skip n b = Inr b' \<Longrightarrow> inside st b'"
  by (auto simp: read_skip_def inside_def bb_size_def split: if_splits)

lemma exec_read_inside: "inside st b \<Longrightarrow> inside st (exec_read op b)"
  by (cases op)
    (auto simp: ReadBits_def read_string_def
      dest: reads_insideD [OF inside_ReadBit] reads_insideD [OF inside_read_bits_acc]
        reads_insideD [OF inside_ReadByteSeq] reads_insideD [OF inside_read_val]
        reads_insideD [OF inside_readPackGUID] reads_insideD [OF inside_ReadString]
        inside_read_string_from inside_read_skip
      split: sum.splits)

interpretation reader: op_machine exec_read "inside st" for st
  by unfold_locales (rule exec_read_inside)

text \<open>C11: whatever sequence of reads a session issues on a packet, with whatever sizes, the read
  position never passes the end of the packet and the bytes of the packet do not change.\<close>

theorem reads_stay_inside:
  "rpos (exec_ops exec_read ops (b\<lparr>rpos := 0\<rparr>)) \<le> bb_size b \<and>
   storage (exec_ops exec_read ops (b\<lparr>rpos := 0\<rparr>)) = storage b"
  using reader.run_inv [of "storage b" "b\<lparr>rpos := 0\<rparr>" ops]
  by (simp add: inside_def bb_size_def)

section \<open>Every sequence of writes\<close>

datatype write_op =
    OpWriteBit u32 | OpWriteBits u32 nat | OpWriteByteSeq u8 | OpAppend "u8 list" | OpAppendRaw "u8 list"
  | OpWriteCString "u8 list" | OpWriteString "u8 list" | OpAppendPackGUID u64 | OpFlushBits
  | OpPut nat "u8 list"

definition keep_on_throw :: "bb_write \<Rightarrow> bytebuffer \<Rightarrow> bytebuffer" where
  "keep_on_throw f b = (case f b of Inl e \<Rightarrow> b | Inr b' \<Rightarrow> b')"

primrec exec_write :: "write_op \<Rightarrow> bytebuffer \<Rightarrow> bytebuffer" where
  "exec_write (OpWriteBit v) = keep_on_throw (WriteBit v)"
| "exec_write (OpWriteBits v n) = keep_on_throw (WriteBits v n)"
| "exec_write (OpWriteByteSeq v) = keep_on_throw (WriteByteSeq v)"
| "exec_write (OpAppend xs) = keep_on_throw (append_val xs)"
| "exec_write (OpAppendRaw xs) = keep_on_throw (append_raw xs)"
| "exec_write (OpWriteCString s) = keep_on_throw (append_string s)"
| "exec_write (OpWriteString s) = keep_on_throw (WriteString s)"
| "exec_write (OpAppendPackGUID g) = keep_on_throw (appendPackGUID g)"
| "exec_write OpFlushBits = keep_on_throw FlushBits"
| "exec_write (OpPut pos xs) = keep_on_throw (put_raw pos xs)"

definition written :: "bytebuffer \<Rightarrow> bool" where
  "written b \<longleftrightarrow> (\<exists>done pend r. length pend < 8 \<and> b = laid_out done pend r)"

definition keeps_written :: "bb_write \<Rightarrow> bool" where
  "keeps_written f \<longleftrightarrow> (\<forall>b b'. written b \<longrightarrow> f b = Inr b' \<longrightarrow> written b')"

lemma keeps_writtenD: "keeps_written f \<Longrightarrow> written b \<Longrightarrow> f b = Inr b' \<Longrightarrow> written b'"
  unfolding keeps_written_def by blast

lemma written_laid_out: "length p < 8 \<Longrightarrow> written (laid_out d p r)"
  unfolding written_def by blast

lemma keeps_append_raw: "keeps_written (append_raw xs)"
  unfolding keeps_written_def
proof (intro allI impI)
  fix b b'
  assume "written b" and r: "append_raw xs b = Inr b'"
  then obtain d p r where b: "b = laid_out d p r" "length p < 8"
    by (auto simp: written_def)
  with r have "xs \<noteq> []" "length d < 10000000"
    by (auto simp: append_raw_def bb_size_def laid_out_def split: if_splits)
  with b r show "written b'"
    by (auto simp: append_raw_laid_out written_laid_out)
qed

lemma keeps_FlushBits: "keeps_written FlushBits"
  unfolding keeps_written_def
proof (intro allI impI)
  fix b b'
  assume w: "written b" and r: "FlushBits b = Inr b'"
  show "written b'"
  proof (cases "bitpos b = 8")
    case True
    with w r show ?thesis by (simp add: FlushBits_def)
  next
    case False
    with r obtain b1 where "append_raw [curbitval b] b = Inr b1"
      by (auto simp: FlushBits_def bind_res_Inr_iff)
    with w obtain d p r0 where "b = laid_out d p r0" "length p < 8" "length d < 10000000"
      by (auto simp: written_def append_raw_def bb_size_def laid_out_def split: if_splits)
    with r show ?thesis
      by (auto simp: FlushBits_laid_out written_laid_out)
  qed
qed

lemma keeps_bind:
  assumes "keeps_written f" and "keeps_written g"
  shows "keeps_written (\<lambda>b. bind_res (f b) g)"
  unfolding keeps_written_def
proof (intro allI impI)
  fix b b'
  assume w: "written b" and "bind_res (f b) g = Inr b'"
  then obtain b1 where "f b = Inr b1" "g b1 = Inr b'"
    by (auto simp: bind_res_Inr_iff)
  with w show "written b'"
    by (metis assms keeps_writtenD)
qed

lemma keeps_append_val: "keeps_written (append_val xs)"
  unfolding append_val_def [abs_def] by (rule keeps_bind [OF keeps_FlushBits keeps_append_raw])

lemma keeps_WriteBit: "keeps_written (WriteBit v)"
  unfolding keeps_written_def
proof (intro allI impI)
  fix b b'
  assume "written b" and r: "WriteBit v b = Inr b'"
  then obtain d p r0 where b: "b = laid_out d p r0" "length p < 8"
    by (auto simp: written_def)
  have eq: "WriteBit v b = WriteBit (of_bit (v \<noteq> 0)) b"
    by (simp add: WriteBit_def Let_def)
  show "written b'"
  proof (cases "length d < 10000000")
    case True
    with b r show ?thesis
      unfolding eq by (auto simp: WriteBit_laid_out written_laid_out split: if_splits)
  next
    case False
    have dec: "size_dec (8 - length p) = 7 - length p"
      using b(2) by (simp add: size_dec_pos)
    have "length p \<noteq> 7"
      using False r b by (auto simp: WriteBit_def Let_def laid_out_def dec append_raw_def bb_size_def)
    with b(2) have "length p < 7" by simp
    then have "b' = laid_out d (p @ [v \<noteq> 0]) r0"
      using r b dec pack_snoc [of p "v \<noteq> 0"] by (auto simp: WriteBit_def Let_def laid_out_def split: if_splits)
    with \<open>length p < 7\<close> show ?thesis by (simp add: written_laid_out)
  qed
qed

lemma keeps_WriteBits: "keeps_written (WriteBits v n)"
proof (induction n)
  case 0
  then show ?case by (simp add: keeps_written_def)
next
  case (Suc n)
  then show ?case
    unfolding WriteBits.simps by (intro keeps_bind keeps_WriteBit)
qed

lemma keeps_if: "keeps_written f \<Longrightarrow> keeps_written (\<lambda>b. if c then f b else Inr b)"
  by (simp add: keeps_written_def)

lemma keeps_append_string: "keeps_written (append_string s)"
proof -
  have "keeps_written (\<lambda>b. if s = [] then Inr b else append_raw s b)"
    using keeps_append_raw [of s] by (simp add: keeps_written_def)
  then show ?thesis
    unfolding append_string_def [abs_def] append_u8_def by (intro keeps_bind keeps_append_val)
qed

lemma keeps_appendPackGUID: "keeps_written (appendPackGUID g)"
  using keeps_append_raw by (cases "pack_guid_from 0 g 0 []") (simp add: appendPackGUID_def keeps_written_def)

lemma keeps_put_raw: "keeps_written (put_raw pos xs)"
  unfolding keeps_written_def
proof (intro allI impI)
  fix b b'
  assume "written b" and r: "put_raw pos xs b = Inr b'"
  then obtain d p r0 where b: "b = laid_out d p r0" "length p < 8"
    by (auto simp: written_def)
  with r have "b' = laid_out (take pos d @ xs @ drop (pos + length xs) d) p r0"
    by (auto simp: put_raw_def laid_out_def bb_size_def split: if_splits)
  with b(2) show "written b'" by (simp add: written_laid_out)
qed

lemma exec_write_written: "written b \<Longrightarrow> written (exec_write op b)"
proof (cases op)
  case (OpWriteByteSeq v)
  then show "written b \<Longrightarrow> ?thesis"
    using keeps_writtenD [OF keeps_append_val]
    by (auto simp: keep_on_throw_def WriteByteSeq_def append_u8_def split: sum.splits)
next
  case (OpWriteString s)
  then show "written b \<Longrightarrow> ?thesis"
    using keeps_writtenD [OF keeps_append_raw]
    by (auto simp: keep_on_throw_def WriteString_def split: sum.splits)
qed (auto simp: keep_on_throw_def split: sum.splits
    dest: keeps_writtenD [OF keeps_WriteBit] keeps_writtenD [OF keeps_WriteBits]
      keeps_writtenD [OF keeps_append_val] keeps_writtenD [OF keeps_append_raw]
      keeps_writtenD [OF keeps_append_string] keeps_writtenD [OF keeps_appendPackGUID]
      keeps_writtenD [OF keeps_FlushBits] keeps_writtenD [OF keeps_put_raw])

interpretation writer: op_machine exec_write written
  by unfold_locales (rule exec_write_written)

text \<open>C12: under every sequence of writes to a new packet the write position is the end of the stored
  bytes, the bit position stays between 1 and 8, and the pending byte holds exactly the bits written
  since the last flush, so that a shift in WriteBit never leaves the width of its operand.\<close>

theorem writes_keep_layout:
  "\<exists>pend. length pend < 8 \<and>
     wpos (exec_ops exec_write ops bb_new) = bb_size (exec_ops exec_write ops bb_new) \<and>
     bitpos (exec_ops exec_write ops bb_new) = 8 - length pend \<and>
     curbitval (exec_ops exec_write ops bb_new) = pack pend"
proof -
  have "written bb_new"
    by (simp add: bb_new_laid_out written_laid_out)
  then have "written (exec_ops exec_write ops bb_new)"
    by (rule writer.run_inv)
  then show ?thesis
    by (auto simp: written_def laid_out_def bb_size_def)
qed

end
