(* ===== verification/MovementElements.thy ===== *)
theory MovementElements
  imports Prelude
begin

text \<open>
  \<^verbatim>\<open>enum MovementStatusElements\<close> of \<^verbatim>\<open>game/Movement/MovementStructures.h\<close>: the alphabet of the tables that
  describe how the movement packets are laid out. The code compares elements by their position in
  the enum and subtracts them, so the enum is ordered by that position.
\<close>

datatype (plugins only: ) MovementStatusElements =
    MSEHasGuidByte0 | MSEHasGuidByte1 | MSEHasGuidByte2 | MSEHasGuidByte3
  | MSEHasGuidByte4 | MSEHasGuidByte5 | MSEHasGuidByte6 | MSEHasGuidByte7
  | MSEHasMovementFlags | MSEHasMovementFlags2 | MSEHasTimestamp | MSEHasOrientation
  | MSEHasTransportData | MSEHasTransportGuidByte0 | MSEHasTransportGuidByte1 | MSEHasTransportGuidByte2
  | MSEHasTransportGuidByte3 | MSEHasTransportGuidByte4 | MSEHasTransportGuidByte5 | MSEHasTransportGuidByte6
  | MSEHasTransportGuidByte7 | MSEHasTransportTime2 | MSEHasTransportTime3 | MSEHasPitch
  | MSEHasFallData | MSEHasFallDirection | MSEHasSplineElevation | MSEHasSpline
  | MSEGuidByte0 | MSEGuidByte1 | MSEGuidByte2 | MSEGuidByte3
  | MSEGuidByte4 | MSEGuidByte5 | MSEGuidByte6 | MSEGuidByte7
  | MSEMovementFlags | MSEMovementFlags2 | MSETimestamp | MSEPositionX
  | MSEPositionY | MSEPositionZ | MSEOrientation | MSETransportGuidByte0
  | MSETransportGuidByte1 | MSETransportGuidByte2 | MSETransportGuidByte3 | MSETransportGuidByte4
  | MSETransportGuidByte5 | MSETransportGuidByte6 | MSETransportGuidByte7 | MSETransportPositionX
  | MSETransportPositionY | MSETransportPositionZ | MSETransportOrientation | MSETransportSeat
  | MSETransportTime | MSETransportTime2 | MSETransportTime3 | MSEPitch
  | MSEFallTime | MSEFallVerticalSpeed | MSEFallCosAngle | MSEFallSinAngle
  | MSEFallHorizontalSpeed | MSESplineElevation | MSECounter | MSESpeedWalk
  | MSESpeedRun | MSESpeedRunBack | MSESpeedSwim | MSESpeedSwimBack
  | MSESpeedTurnRate | MSESpeedFlight | MSESpeedFlightBack | MSESpeedPitchRate
  | MSEHeight | MSEZeroBit | MSEOneBit | MSEEnd
  | MSE_COUNT | MSEExtraFloat

text \<open>The numeric value of an enumerator.\<close>

primrec mse_val :: "MovementStatusElements \<Rightarrow> nat" where
  "mse_val MSEHasGuidByte0 = 0"
| "mse_val MSEHasGuidByte1 = 1"
| "mse_val MSEHasGuidByte2 = 2"
| "mse_val MSEHasGuidByte3 = 3"
| "mse_val MSEHasGuidByte4 = 4"
| "mse_val MSEHasGuidByte5 = 5"
| "mse_val MSEHasGuidByte6 = 6"
| "mse_val MSEHasGuidByte7 = 7"
| "mse_val MSEHasMovementFlags = 8"
| "mse_val MSEHasMovementFlags2 = 9"
| "mse_val MSEHasTimestamp = 10"
| "mse_val MSEHasOrientation = 11"
| "mse_val MSEHasTransportData = 12"
| "mse_val MSEHasTransportGuidByte0 = 13"
| "mse_val MSEHasTransportGuidByte1 = 14"
| "mse_val MSEHasTransportGuidByte2 = 15"
| "mse_val MSEHasTransportGuidByte3 = 16"
| "mse_val MSEHasTransportGuidByte4 = 17"
| "mse_val MSEHasTransportGuidByte5 = 18"
| "mse_val MSEHasTransportGuidByte6 = 19"
| "mse_val MSEHasTransportGuidByte7 = 20"
| "mse_val MSEHasTransportTime2 = 21"
| "mse_val MSEHasTransportTime3 = 22"
| "mse_val MSEHasPitch = 23"
| "mse_val MSEHasFallData = 24"
| "mse_val MSEHasFallDirection = 25"
| "mse_val MSEHasSplineElevation = 26"
| "mse_val MSEHasSpline = 27"
| "mse_val MSEGuidByte0 = 28"
| "mse_val MSEGuidByte1 = 29"
| "mse_val MSEGuidByte2 = 30"
| "mse_val MSEGuidByte3 = 31"
| "mse_val MSEGuidByte4 = 32"
| "mse_val MSEGuidByte5 = 33"
| "mse_val MSEGuidByte6 = 34"
| "mse_val MSEGuidByte7 = 35"
| "mse_val MSEMovementFlags = 36"
| "mse_val MSEMovementFlags2 = 37"
| "mse_val MSETimestamp = 38"
| "mse_val MSEPositionX = 39"
| "mse_val MSEPositionY = 40"
| "mse_val MSEPositionZ = 41"
| "mse_val MSEOrientation = 42"
| "mse_val MSETransportGuidByte0 = 43"
| "mse_val MSETransportGuidByte1 = 44"
| "mse_val MSETransportGuidByte2 = 45"
| "mse_val MSETransportGuidByte3 = 46"
| "mse_val MSETransportGuidByte4 = 47"
| "mse_val MSETransportGuidByte5 = 48"
| "mse_val MSETransportGuidByte6 = 49"
| "mse_val MSETransportGuidByte7 = 50"
| "mse_val MSETransportPositionX = 51"
| "mse_val MSETransportPositionY = 52"
| "mse_val MSETransportPositionZ = 53"
| "mse_val MSETransportOrientation = 54"
| "mse_val MSETransportSeat = 55"
| "mse_val MSETransportTime = 56"
| "mse_val MSETransportTime2 = 57"
| "mse_val MSETransportTime3 = 58"
| "mse_val MSEPitch = 59"
| "mse_val MSEFallTime = 60"
| "mse_val MSEFallVerticalSpeed = 61"
| "mse_val MSEFallCosAngle = 62"
| "mse_val MSEFallSinAngle = 63"
| "mse_val MSEFallHorizontalSpeed = 64"
| "mse_val MSESplineElevation = 65"
| "mse_val MSECounter = 66"
| "mse_val MSESpeedWalk = 67"
| "mse_val MSESpeedRun = 68"
| "mse_val MSESpeedRunBack = 69"
| "mse_val MSESpeedSwim = 70"
| "mse_val MSESpeedSwimBack = 71"
| "mse_val MSESpeedTurnRate = 72"
| "mse_val MSESpeedFlight = 73"
| "mse_val MSESpeedFlightBack = 74"
| "mse_val MSESpeedPitchRate = 75"
| "mse_val MSEHeight = 76"
| "mse_val MSEZeroBit = 77"
| "mse_val MSEOneBit = 78"
| "mse_val MSEEnd = 79"
| "mse_val MSE_COUNT = 80"
| "mse_val MSEExtraFloat = 81"

text \<open>The enumerators in their order, for the inverse of \<open>mse_val\<close>.\<close>

definition mse_all :: "MovementStatusElements list" where
  "mse_all =
     [MSEHasGuidByte0, MSEHasGuidByte1, MSEHasGuidByte2,
      MSEHasGuidByte3, MSEHasGuidByte4, MSEHasGuidByte5,
      MSEHasGuidByte6, MSEHasGuidByte7, MSEHasMovementFlags,
      MSEHasMovementFlags2, MSEHasTimestamp, MSEHasOrientation,
      MSEHasTransportData, MSEHasTransportGuidByte0, MSEHasTransportGuidByte1,
      MSEHasTransportGuidByte2, MSEHasTransportGuidByte3, MSEHasTransportGuidByte4,
      MSEHasTransportGuidByte5, MSEHasTransportGuidByte6, MSEHasTransportGuidByte7,
      MSEHasTransportTime2, MSEHasTransportTime3, MSEHasPitch,
      MSEHasFallData, MSEHasFallDirection, MSEHasSplineElevation,
      MSEHasSpline, MSEGuidByte0, MSEGuidByte1,
      MSEGuidByte2, MSEGuidByte3, MSEGuidByte4,
      MSEGuidByte5, MSEGuidByte6, MSEGuidByte7,
      MSEMovementFlags, MSEMovementFlags2, MSETimestamp,
      MSEPositionX, MSEPositionY, MSEPositionZ,
      MSEOrientation, MSETransportGuidByte0, MSETransportGuidByte1,
      MSETransportGuidByte2, MSETransportGuidByte3, MSETransportGuidByte4,
      MSETransportGuidByte5, MSETransportGuidByte6, MSETransportGuidByte7,
      MSETransportPositionX, MSETransportPositionY, MSETransportPositionZ,
      MSETransportOrientation, MSETransportSeat, MSETransportTime,
      MSETransportTime2, MSETransportTime3, MSEPitch,
      MSEFallTime, MSEFallVerticalSpeed, MSEFallCosAngle,
      MSEFallSinAngle, MSEFallHorizontalSpeed, MSESplineElevation,
      MSECounter, MSESpeedWalk, MSESpeedRun,
      MSESpeedRunBack, MSESpeedSwim, MSESpeedSwimBack,
      MSESpeedTurnRate, MSESpeedFlight, MSESpeedFlightBack,
      MSESpeedPitchRate, MSEHeight, MSEZeroBit,
      MSEOneBit, MSEEnd, MSE_COUNT,
      MSEExtraFloat]"

lemma length_mse_all [simp]: "length mse_all = 82"
  by (simp add: mse_all_def)

lemma mse_all_nth: "mse_all ! mse_val x = x"
  by (cases x) (simp_all add: mse_all_def)

lemma mse_val_inject [simp]: "mse_val x = mse_val y \<longleftrightarrow> x = y"
  by (metis mse_all_nth)

lemma mse_val_less: "mse_val x < 82"
  by (cases x) simp_all

instantiation MovementStatusElements :: linorder
begin

definition less_eq_MovementStatusElements :: "MovementStatusElements \<Rightarrow> MovementStatusElements \<Rightarrow> bool" where
  "less_eq_MovementStatusElements x y \<longleftrightarrow> mse_val x \<le> mse_val y"

definition less_MovementStatusElements :: "MovementStatusElements \<Rightarrow> MovementStatusElements \<Rightarrow> bool" where
  "less_MovementStatusElements x y \<longleftrightarrow> mse_val x < mse_val y"

instance
  by intro_classes (auto simp: less_eq_MovementStatusElements_def less_MovementStatusElements_def)

end

instantiation MovementStatusElements :: equal
begin

definition equal_MovementStatusElements :: "MovementStatusElements \<Rightarrow> MovementStatusElements \<Rightarrow> bool" where
  "equal_MovementStatusElements x y \<longleftrightarrow> mse_val x = mse_val y"

instance
  by intro_classes (simp add: equal_MovementStatusElements_def)

end

text \<open>\<open>x - y\<close> on enumerators, as the code uses it to find the index of a guid byte.\<close>

definition mse_diff :: "MovementStatusElements \<Rightarrow> MovementStatusElements \<Rightarrow> nat" where
  "mse_diff x y = mse_val x - mse_val y"

lemmas mse_order = less_eq_MovementStatusElements_def less_MovementStatusElements_def mse_diff_def

end
