(* ===== verification/MovementTablesSpeed.thy ===== *)
theory MovementTablesSpeed
  imports MovementElements
begin

text \<open>
  The element tables of \<^verbatim>\<open>game/Movement/MovementStructures.cpp\<close> for the speed packets: the forced speed changes the server sends to a mover
  or broadcasts for a server-controlled one, the root acknowledgements, the speed updates it relays and
  the acknowledgements the client answers with.
\<close>

definition SplineMoveSetWalkSpeed :: "MovementStatusElements list" where
  "SplineMoveSetWalkSpeed =
     [MSEHasGuidByte0, MSEHasGuidByte6, MSEHasGuidByte7, MSEHasGuidByte3,
      MSEHasGuidByte5, MSEHasGuidByte1, MSEHasGuidByte2, MSEHasGuidByte4,
      MSEGuidByte0, MSEGuidByte4, MSEGuidByte7, MSEGuidByte1,
      MSEGuidByte5, MSEGuidByte3, MSESpeedWalk, MSEGuidByte6,
      MSEGuidByte2, MSEEnd]"

definition SplineMoveSetRunSpeed :: "MovementStatusElements list" where
  "SplineMoveSetRunSpeed =
     [MSEHasGuidByte4, MSEHasGuidByte0, MSEHasGuidByte5, MSEHasGuidByte7,
      MSEHasGuidByte6, MSEHasGuidByte3, MSEHasGuidByte1, MSEHasGuidByte2,
      MSEGuidByte0, MSEGuidByte7, MSEGuidByte6, MSEGuidByte5,
      MSEGuidByte3, MSEGuidByte4, MSESpeedRun, MSEGuidByte2,
      MSEGuidByte1, MSEEnd]"

definition SplineMoveSetRunBackSpeed :: "MovementStatusElements list" where
  "SplineMoveSetRunBackSpeed =
     [MSEHasGuidByte1, MSEHasGuidByte2, MSEHasGuidByte6, MSEHasGuidByte0,
      MSEHasGuidByte3, MSEHasGuidByte7, MSEHasGuidByte5, MSEHasGuidByte4,
      MSEGuidByte1, MSESpeedRunBack, MSEGuidByte2, MSEGuidByte4,
      MSEGuidByte0, MSEGuidByte3, MSEGuidByte6, MSEGuidByte5,
      MSEGuidByte7, MSEEnd]"

definition SplineMoveSetSwimSpeed :: "MovementStatusElements list" where
  "SplineMoveSetSwimSpeed =
     [MSEHasGuidByte4, MSEHasGuidByte2, MSEHasGuidByte5, MSEHasGuidByte0,
      MSEHasGuidByte7, MSEHasGuidByte6, MSEHasGuidByte3, MSEHasGuidByte1,
      MSEGuidByte5, MSEGuidByte6, MSEGuidByte1, MSEGuidByte0,
      MSEGuidByte2, MSEGuidByte4, MSESpeedSwim, MSEGuidByte7,
      MSEGuidByte3, MSEEnd]"

definition SplineMoveSetSwimBackSpeed :: "MovementStatusElements list" where
  "SplineMoveSetSwimBackSpeed =
     [MSEHasGuidByte0, MSEHasGuidByte1, MSEHasGuidByte3, MSEHasGuidByte6,
      MSEHasGuidByte4, MSEHasGuidByte5, MSEHasGuidByte7, MSEHasGuidByte2,
      MSEGuidByte5, MSEGuidByte3, MSEGuidByte1, MSEGuidByte0,
      MSEGuidByte7, MSEGuidByte6, MSESpeedSwimBack, MSEGuidByte4,
      MSEGuidByte2, MSEEnd]"

definition SplineMoveSetTurnRate :: "MovementStatusElements list" where
  "SplineMoveSetTurnRate =
     [MSEHasGuidByte2, MSEHasGuidByte4, MSEHasGuidByte6, MSEHasGuidByte1,
      MSEHasGuidByte3, MSEHasGuidByte5, MSEHasGuidByte7, MSEHasGuidByte0,
      MSESpeedTurnRate, MSEGuidByte1, MSEGuidByte5, MSEGuidByte3,
      MSEGuidByte2, MSEGuidByte7, MSEGuidByte4, MSEGuidByte6,
      MSEGuidByte0, MSEEnd]"

definition SplineMoveSetFlightSpeed :: "MovementStatusElements list" where
  "SplineMoveSetFlightSpeed =
     [MSEHasGuidByte7, MSEHasGuidByte4, MSEHasGuidByte0, MSEHasGuidByte1,
      MSEHasGuidByte3, MSEHasGuidByte6, MSEHasGuidByte5, MSEHasGuidByte2,
      MSEGuidByte0, MSEGuidByte5, MSEGuidByte4, MSEGuidByte7,
      MSEGuidByte3, MSEGuidByte2, MSEGuidByte1, MSEGuidByte6,
      MSESpeedFlight, MSEEnd]"

definition SplineMoveSetFlightBackSpeed :: "MovementStatusElements list" where
  "SplineMoveSetFlightBackSpeed =
     [MSEHasGuidByte2, MSEHasGuidByte1, MSEHasGuidByte6, MSEHasGuidByte5,
      MSEHasGuidByte0, MSEHasGuidByte3, MSEHasGuidByte4, MSEHasGuidByte7,
      MSEGuidByte5, MSESpeedFlightBack, MSEGuidByte6, MSEGuidByte1,
      MSEGuidByte0, MSEGuidByte2, MSEGuidByte3, MSEGuidByte7,
      MSEGuidByte4, MSEEnd]"

definition SplineMoveSetPitchRate :: "MovementStatusElements list" where
  "SplineMoveSetPitchRate =
     [MSEHasGuidByte3, MSEHasGuidByte5, MSEHasGuidByte6, MSEHasGuidByte1,
      MSEHasGuidByte0, MSEHasGuidByte4, MSEHasGuidByte7, MSEHasGuidByte2,
      MSEGuidByte1, MSEGuidByte5, MSEGuidByte7, MSEGuidByte0,
      MSEGuidByte6, MSEGuidByte3, MSEGuidByte2, MSESpeedPitchRate,
      MSEGuidByte4, MSEEnd]"

definition MoveSetWalkSpeed :: "MovementStatusElements list" where
  "MoveSetWalkSpeed =
     [MSEHasGuidByte0, MSEHasGuidByte4, MSEHasGuidByte5, MSEHasGuidByte2,
      MSEHasGuidByte3, MSEHasGuidByte1, MSEHasGuidByte6, MSEHasGuidByte7,
      MSEGuidByte6, MSEGuidByte1, MSEGuidByte5, MSESpeedWalk,
      MSEGuidByte2, MSECounter, MSEGuidByte4, MSEGuidByte0,
      MSEGuidByte7, MSEGuidByte3, MSEEnd]"

definition MoveSetRunSpeed :: "MovementStatusElements list" where
  "MoveSetRunSpeed =
     [MSEHasGuidByte6, MSEHasGuidByte1, MSEHasGuidByte5, MSEHasGuidByte2,
      MSEHasGuidByte7, MSEHasGuidByte0, MSEHasGuidByte3, MSEHasGuidByte4,
      MSEGuidByte5, MSEGuidByte3, MSEGuidByte1, MSEGuidByte4,
      MSECounter, MSESpeedRun, MSEGuidByte6, MSEGuidByte0,
      MSEGuidByte7, MSEGuidByte2, MSEEnd]"

definition MoveSetRunBackSpeed :: "MovementStatusElements list" where
  "MoveSetRunBackSpeed =
     [MSEHasGuidByte0, MSEHasGuidByte6, MSEHasGuidByte2, MSEHasGuidByte1,
      MSEHasGuidByte3, MSEHasGuidByte4, MSEHasGuidByte5, MSEHasGuidByte7,
      MSEGuidByte5, MSECounter, MSESpeedRunBack, MSEGuidByte0,
      MSEGuidByte4, MSEGuidByte7, MSEGuidByte3, MSEGuidByte1,
      MSEGuidByte2, MSEGuidByte6, MSEEnd]"

definition MoveSetSwimSpeed :: "MovementStatusElements list" where
  "MoveSetSwimSpeed =
     [MSEHasGuidByte5, MSEHasGuidByte4, MSEHasGuidByte7, MSEHasGuidByte3,
      MSEHasGuidByte2, MSEHasGuidByte0, MSEHasGuidByte1, MSEHasGuidByte6,
      MSEGuidByte0, MSECounter, MSEGuidByte6, MSEGuidByte3,
      MSEGuidByte5, MSEGuidByte2, MSESpeedSwim, MSEGuidByte1,
      MSEGuidByte7, MSEGuidByte4, MSEEnd]"

definition MoveSetSwimBackSpeed :: "MovementStatusElements list" where
  "MoveSetSwimBackSpeed =
     [MSEHasGuidByte4, MSEHasGuidByte2, MSEHasGuidByte3, MSEHasGuidByte6,
      MSEHasGuidByte5, MSEHasGuidByte1, MSEHasGuidByte0, MSEHasGuidByte7,
      MSECounter, MSEGuidByte0, MSEGuidByte3, MSEGuidByte4,
      MSEGuidByte6, MSEGuidByte5, MSEGuidByte1, MSESpeedSwimBack,
      MSEGuidByte7, MSEGuidByte2, MSEEnd]"

definition MoveSetTurnRate :: "MovementStatusElements list" where
  "MoveSetTurnRate =
     [MSEHasGuidByte7, MSEHasGuidByte2, MSEHasGuidByte1, MSEHasGuidByte0,
      MSEHasGuidByte4, MSEHasGuidByte5, MSEHasGuidByte6, MSEHasGuidByte3,
      MSEGuidByte5, MSEGuidByte7, MSEGuidByte2, MSESpeedTurnRate,
      MSEGuidByte3, MSEGuidByte1, MSEGuidByte0, MSECounter,
      MSEGuidByte6, MSEGuidByte4, MSEEnd]"

definition MoveSetFlightSpeed :: "MovementStatusElements list" where
  "MoveSetFlightSpeed =
     [MSEHasGuidByte0, MSEHasGuidByte5, MSEHasGuidByte1, MSEHasGuidByte6,
      MSEHasGuidByte3, MSEHasGuidByte2, MSEHasGuidByte7, MSEHasGuidByte4,
      MSEGuidByte0, MSEGuidByte1, MSEGuidByte7, MSEGuidByte5,
      MSESpeedFlight, MSECounter, MSEGuidByte2, MSEGuidByte6,
      MSEGuidByte3, MSEGuidByte4, MSEEnd]"

definition MoveSetFlightBackSpeed :: "MovementStatusElements list" where
  "MoveSetFlightBackSpeed =
     [MSEHasGuidByte1, MSEHasGuidByte2, MSEHasGuidByte6, MSEHasGuidByte4,
      MSEHasGuidByte7, MSEHasGuidByte3, MSEHasGuidByte0, MSEHasGuidByte5,
      MSEGuidByte3, MSECounter, MSEGuidByte6, MSESpeedFlightBack,
      MSEGuidByte1, MSEGuidByte2, MSEGuidByte4, MSEGuidByte0,
      MSEGuidByte5, MSEGuidByte7, MSEEnd]"

definition MoveSetPitchRate :: "MovementStatusElements list" where
  "MoveSetPitchRate =
     [MSEHasGuidByte1, MSEHasGuidByte2, MSEHasGuidByte6, MSEHasGuidByte7,
      MSEHasGuidByte0, MSEHasGuidByte3, MSEHasGuidByte5, MSEHasGuidByte4,
      MSESpeedPitchRate, MSEGuidByte6, MSEGuidByte4, MSEGuidByte0,
      MSECounter, MSEGuidByte1, MSEGuidByte2, MSEGuidByte7,
      MSEGuidByte3, MSEGuidByte5, MSEEnd]"

definition MoveUnrootAck :: "MovementStatusElements list" where
  "MoveUnrootAck =
     [MSECounter, MSEPositionZ, MSEPositionY, MSEPositionX,
      MSEHasGuidByte7, MSEHasSplineElevation, MSEHasSpline, MSEHasGuidByte5,
      MSEHasGuidByte4, MSEZeroBit, MSEHasTimestamp, MSEHasMovementFlags,
      MSEHasOrientation, MSEHasPitch, MSEHasGuidByte3, MSEHasGuidByte1,
      MSEHasTransportData, MSEHasMovementFlags2, MSEHasGuidByte2, MSEHasGuidByte0,
      MSEHasFallData, MSEHasGuidByte6, MSEHasFallDirection, MSEHasTransportGuidByte0,
      MSEHasTransportTime3, MSEHasTransportGuidByte6, MSEHasTransportTime2, MSEHasTransportGuidByte3,
      MSEHasTransportGuidByte5, MSEHasTransportGuidByte7, MSEHasTransportGuidByte2, MSEHasTransportGuidByte4,
      MSEHasTransportGuidByte1, MSEMovementFlags2, MSEMovementFlags, MSEGuidByte7,
      MSEGuidByte1, MSEGuidByte0, MSEGuidByte6, MSEGuidByte2,
      MSEGuidByte4, MSEGuidByte5, MSEGuidByte3, MSETransportGuidByte6,
      MSETransportPositionZ, MSETransportGuidByte2, MSETransportGuidByte3, MSETransportPositionY,
      MSETransportTime3, MSETransportGuidByte5, MSETransportSeat, MSETransportGuidByte0,
      MSETransportTime, MSETransportTime2, MSETransportGuidByte4, MSETransportOrientation,
      MSETransportPositionX, MSETransportGuidByte1, MSETransportGuidByte7, MSEFallCosAngle,
      MSEFallHorizontalSpeed, MSEFallSinAngle, MSEFallVerticalSpeed, MSEFallTime,
      MSETimestamp, MSESplineElevation, MSEOrientation, MSEPitch,
      MSEEnd]"

definition MoveRootAck :: "MovementStatusElements list" where
  "MoveRootAck =
     [MSEPositionY, MSEPositionZ, MSECounter, MSEPositionX,
      MSEHasGuidByte3, MSEHasTimestamp, MSEHasTransportData, MSEHasPitch,
      MSEHasGuidByte2, MSEHasOrientation, MSEHasSplineElevation, MSEHasFallData,
      MSEHasSpline, MSEHasGuidByte4, MSEHasGuidByte0, MSEHasGuidByte6,
      MSEHasGuidByte1, MSEHasGuidByte7, MSEHasMovementFlags2, MSEHasMovementFlags,
      MSEZeroBit, MSEHasGuidByte5, MSEHasTransportGuidByte6, MSEHasTransportGuidByte0,
      MSEHasTransportGuidByte7, MSEHasTransportGuidByte3, MSEHasTransportGuidByte1, MSEHasTransportGuidByte2,
      MSEHasTransportTime2, MSEHasTransportGuidByte4, MSEHasTransportTime3, MSEHasTransportGuidByte5,
      MSEMovementFlags2, MSEMovementFlags, MSEHasFallDirection, MSEGuidByte5,
      MSEGuidByte3, MSEGuidByte1, MSEGuidByte7, MSEGuidByte4,
      MSEGuidByte0, MSEGuidByte6, MSEGuidByte2, MSETransportGuidByte5,
      MSETransportGuidByte4, MSETransportOrientation, MSETransportPositionZ, MSETransportTime3,
      MSETransportTime2, MSETransportGuidByte7, MSETransportGuidByte2, MSETransportGuidByte0,
      MSETransportTime, MSETransportGuidByte6, MSETransportGuidByte3, MSETransportPositionX,
      MSETransportGuidByte1, MSETransportPositionY, MSETransportSeat, MSETimestamp,
      MSEFallVerticalSpeed, MSEFallHorizontalSpeed, MSEFallSinAngle, MSEFallCosAngle,
      MSEFallTime, MSEOrientation, MSESplineElevation, MSEPitch,
      MSEEnd]"

definition MoveUpdateFlightSpeed :: "MovementStatusElements list" where
  "MoveUpdateFlightSpeed =
     [MSEPositionY, MSESpeedFlight, MSEPositionX, MSEPositionZ,
      MSEHasMovementFlags, MSEHasGuidByte4, MSEZeroBit, MSEHasGuidByte5,
      MSEHasGuidByte1, MSEMovementFlags, MSEHasFallData, MSEHasGuidByte2,
      MSEHasOrientation, MSEHasPitch, MSEHasSplineElevation, MSEHasGuidByte7,
      MSEHasTimestamp, MSEHasTransportData, MSEHasTransportGuidByte3, MSEHasTransportGuidByte5,
      MSEHasTransportGuidByte1, MSEHasTransportGuidByte0, MSEHasTransportGuidByte6, MSEHasTransportGuidByte4,
      MSEHasTransportGuidByte2, MSEHasTransportTime3, MSEHasTransportGuidByte7, MSEHasTransportTime2,
      MSEHasGuidByte6, MSEHasGuidByte3, MSEHasMovementFlags2, MSEHasSpline,
      MSEMovementFlags2, MSEHasFallDirection, MSEHasGuidByte0, MSESplineElevation,
      MSEPitch, MSEGuidByte0, MSEGuidByte5, MSETransportOrientation,
      MSETransportTime, MSETransportGuidByte5, MSETransportGuidByte4, MSETransportGuidByte6,
      MSETransportPositionZ, MSETransportGuidByte7, MSETransportGuidByte0, MSETransportGuidByte2,
      MSETransportGuidByte3, MSETransportPositionY, MSETransportTime3, MSETransportTime2,
      MSETransportGuidByte1, MSETransportSeat, MSETransportPositionX, MSEFallCosAngle,
      MSEFallHorizontalSpeed, MSEFallSinAngle, MSEFallVerticalSpeed, MSEFallTime,
      MSEGuidByte1, MSEGuidByte6, MSETimestamp, MSEGuidByte7,
      MSEGuidByte2, MSEGuidByte4, MSEOrientation, MSEGuidByte3,
      MSEEnd]"

definition MoveUpdateSwimBackSpeed :: "MovementStatusElements list" where
  "MoveUpdateSwimBackSpeed =
     [MSEHasGuidByte7, MSEHasGuidByte2, MSEHasTransportData, MSEHasGuidByte1,
      MSEHasTransportGuidByte2, MSEHasTransportGuidByte1, MSEHasTransportGuidByte0, MSEHasTransportGuidByte7,
      MSEHasTransportGuidByte3, MSEHasTransportGuidByte4, MSEHasTransportGuidByte6, MSEHasTransportTime2,
      MSEHasTransportGuidByte5, MSEHasTransportTime3, MSEHasPitch, MSEHasOrientation,
      MSEZeroBit, MSEHasGuidByte5, MSEHasGuidByte3, MSEHasGuidByte6,
      MSEHasGuidByte4, MSEHasSpline, MSEHasMovementFlags, MSEHasGuidByte0,
      MSEHasFallData, MSEHasFallDirection, MSEMovementFlags, MSEHasTimestamp,
      MSEHasSplineElevation, MSEHasMovementFlags2, MSEMovementFlags2, MSEGuidByte0,
      MSEGuidByte4, MSEPositionY, MSETransportGuidByte7, MSETransportTime3,
      MSETransportGuidByte6, MSETransportGuidByte4, MSETransportGuidByte2, MSETransportGuidByte3,
      MSETransportOrientation, MSETransportGuidByte5, MSETransportTime, MSETransportGuidByte0,
      MSETransportGuidByte1, MSETransportPositionX, MSETransportPositionZ, MSETransportTime2,
      MSETransportPositionY, MSETransportSeat, MSEFallSinAngle, MSEFallCosAngle,
      MSEFallHorizontalSpeed, MSEFallVerticalSpeed, MSEFallTime, MSEPitch,
      MSEGuidByte2, MSEGuidByte7, MSESpeedSwimBack, MSESplineElevation,
      MSEPositionZ, MSEGuidByte3, MSEPositionX, MSETimestamp,
      MSEGuidByte5, MSEOrientation, MSEGuidByte6, MSEGuidByte1,
      MSEEnd]"

definition MoveUpdateSwimSpeed :: "MovementStatusElements list" where
  "MoveUpdateSwimSpeed =
     [MSEHasMovementFlags, MSEHasGuidByte2, MSEHasSpline, MSEHasTimestamp,
      MSEMovementFlags, MSEHasFallData, MSEHasGuidByte3, MSEHasTransportData,
      MSEZeroBit, MSEHasGuidByte7, MSEHasFallDirection, MSEHasTransportGuidByte4,
      MSEHasTransportGuidByte5, MSEHasTransportGuidByte3, MSEHasTransportTime2, MSEHasTransportGuidByte2,
      MSEHasTransportTime3, MSEHasTransportGuidByte0, MSEHasTransportGuidByte1, MSEHasTransportGuidByte6,
      MSEHasTransportGuidByte7, MSEHasMovementFlags2, MSEHasGuidByte6, MSEHasSplineElevation,
      MSEHasGuidByte0, MSEHasGuidByte4, MSEHasGuidByte5, MSEHasOrientation,
      MSEHasPitch, MSEMovementFlags2, MSEHasGuidByte1, MSETransportGuidByte2,
      MSETransportPositionX, MSETransportTime3, MSETransportTime2, MSETransportGuidByte6,
      MSETransportOrientation, MSETransportGuidByte0, MSETransportGuidByte4, MSETransportPositionY,
      MSETransportTime, MSETransportGuidByte1, MSETransportGuidByte7, MSETransportPositionZ,
      MSETransportSeat, MSETransportGuidByte3, MSETransportGuidByte5, MSEPositionX,
      MSEFallCosAngle, MSEFallHorizontalSpeed, MSEFallSinAngle, MSEFallTime,
      MSEFallVerticalSpeed, MSEGuidByte7, MSETimestamp, MSEPositionY,
      MSESplineElevation, MSEPositionZ, MSESpeedSwim, MSEGuidByte4,
      MSEOrientation, MSEGuidByte2, MSEGuidByte3, MSEGuidByte0,
      MSEGuidByte6, MSEGuidByte1, MSEGuidByte5, MSEPitch,
      MSEEnd]"

definition MoveUpdateRunBackSpeed :: "MovementStatusElements list" where
  "MoveUpdateRunBackSpeed =
     [MSEHasGuidByte1, MSEHasGuidByte2, MSEHasSplineElevation, MSEHasGuidByte4,
      MSEHasGuidByte3, MSEHasFallData, MSEHasGuidByte6, MSEHasTimestamp,
      MSEHasGuidByte0, MSEZeroBit, MSEHasMovementFlags, MSEHasPitch,
      MSEHasSpline, MSEHasGuidByte5, MSEHasMovementFlags2, MSEMovementFlags2,
      MSEHasOrientation, MSEMovementFlags, MSEHasFallDirection, MSEHasTransportData,
      MSEHasTransportGuidByte5, MSEHasTransportTime2, MSEHasTransportGuidByte3, MSEHasTransportGuidByte1,
      MSEHasTransportGuidByte6, MSEHasTransportGuidByte7, MSEHasTransportGuidByte2, MSEHasTransportGuidByte4,
      MSEHasTransportGuidByte0, MSEHasTransportTime3, MSEHasGuidByte7, MSETransportPositionX,
      MSETransportGuidByte2, MSETransportGuidByte5, MSETransportGuidByte4, MSETransportGuidByte6,
      MSETransportTime2, MSETransportGuidByte0, MSETransportGuidByte3, MSETransportPositionY,
      MSETransportGuidByte7, MSETransportTime3, MSETransportPositionZ, MSETransportTime,
      MSETransportSeat, MSETransportGuidByte1, MSETransportOrientation, MSEGuidByte4,
      MSEFallTime, MSEFallHorizontalSpeed, MSEFallCosAngle, MSEFallSinAngle,
      MSEFallVerticalSpeed, MSETimestamp, MSESplineElevation, MSEGuidByte1,
      MSEOrientation, MSEGuidByte0, MSEGuidByte5, MSEGuidByte3,
      MSEPositionX, MSEPositionY, MSEPitch, MSEGuidByte7,
      MSESpeedRunBack, MSEGuidByte2, MSEGuidByte6, MSEPositionZ,
      MSEEnd]"

definition MoveUpdateRunSpeed :: "MovementStatusElements list" where
  "MoveUpdateRunSpeed =
     [MSEPositionZ, MSEPositionX, MSEPositionY, MSESpeedRun,
      MSEHasGuidByte6, MSEHasMovementFlags2, MSEHasPitch, MSEHasGuidByte2,
      MSEHasGuidByte5, MSEHasSplineElevation, MSEHasSpline, MSEHasMovementFlags,
      MSEHasTimestamp, MSEHasGuidByte1, MSEMovementFlags2, MSEHasGuidByte3,
      MSEMovementFlags, MSEHasGuidByte7, MSEHasGuidByte0, MSEHasOrientation,
      MSEHasTransportData, MSEHasTransportGuidByte5, MSEHasTransportTime2, MSEHasTransportTime3,
      MSEHasTransportGuidByte7, MSEHasTransportGuidByte4, MSEHasTransportGuidByte2, MSEHasTransportGuidByte3,
      MSEHasTransportGuidByte6, MSEHasTransportGuidByte1, MSEHasTransportGuidByte0, MSEHasFallData,
      MSEHasFallDirection, MSEHasGuidByte4, MSEZeroBit, MSETransportGuidByte4,
      MSETransportGuidByte5, MSETransportPositionX, MSETransportOrientation, MSETransportGuidByte1,
      MSETransportGuidByte0, MSETransportGuidByte6, MSETransportTime, MSETransportGuidByte7,
      MSETransportSeat, MSETransportTime2, MSETransportPositionY, MSETransportGuidByte3,
      MSETransportGuidByte2, MSETransportTime3, MSETransportPositionZ, MSETimestamp,
      MSEFallSinAngle, MSEFallHorizontalSpeed, MSEFallCosAngle, MSEFallVerticalSpeed,
      MSEFallTime, MSEPitch, MSEGuidByte6, MSESplineElevation,
      MSEGuidByte5, MSEGuidByte7, MSEGuidByte4, MSEOrientation,
      MSEGuidByte0, MSEGuidByte3, MSEGuidByte2, MSEGuidByte1,
      MSEEnd]"

definition MoveUpdateWalkSpeed :: "MovementStatusElements list" where
  "MoveUpdateWalkSpeed =
     [MSEHasPitch, MSEHasOrientation, MSEZeroBit, MSEHasGuidByte3,
      MSEHasSplineElevation, MSEHasGuidByte2, MSEHasTransportData, MSEHasTransportGuidByte6,
      MSEHasTransportGuidByte3, MSEHasTransportGuidByte2, MSEHasTransportGuidByte0, MSEHasTransportGuidByte4,
      MSEHasTransportTime2, MSEHasTransportGuidByte7, MSEHasTransportGuidByte1, MSEHasTransportGuidByte5,
      MSEHasTransportTime3, MSEHasGuidByte7, MSEHasGuidByte5, MSEHasGuidByte1,
      MSEHasFallData, MSEHasGuidByte0, MSEHasMovementFlags2, MSEHasTimestamp,
      MSEHasMovementFlags, MSEHasGuidByte6, MSEHasFallDirection, MSEMovementFlags2,
      MSEMovementFlags, MSEHasSpline, MSEHasGuidByte4, MSEPitch,
      MSETransportGuidByte6, MSETransportGuidByte0, MSETransportGuidByte4, MSETransportGuidByte2,
      MSETransportPositionX, MSETransportGuidByte7, MSETransportTime, MSETransportTime2,
      MSETransportPositionZ, MSETransportSeat, MSETransportGuidByte5, MSETransportTime3,
      MSETransportOrientation, MSETransportGuidByte1, MSETransportPositionY, MSETransportGuidByte3,
      MSESplineElevation, MSEFallVerticalSpeed, MSEFallHorizontalSpeed, MSEFallCosAngle,
      MSEFallSinAngle, MSEFallTime, MSEGuidByte1, MSEGuidByte4,
      MSEGuidByte2, MSEGuidByte6, MSEGuidByte7, MSETimestamp,
      MSEOrientation, MSEPositionY, MSEGuidByte0, MSEPositionZ,
      MSEPositionX, MSEGuidByte3, MSEGuidByte5, MSESpeedWalk,
      MSEEnd]"

definition MoveForcePitchRateChangeAck :: "MovementStatusElements list" where
  "MoveForcePitchRateChangeAck =
     [MSEPositionX, MSECounter, MSESpeedPitchRate, MSEPositionY,
      MSEPositionZ, MSEHasGuidByte3, MSEHasTimestamp, MSEZeroBit,
      MSEHasGuidByte7, MSEHasOrientation, MSEHasTransportData, MSEHasGuidByte5,
      MSEHasGuidByte6, MSEHasSplineElevation, MSEHasFallData, MSEHasGuidByte2,
      MSEHasMovementFlags2, MSEHasMovementFlags, MSEHasGuidByte1, MSEHasPitch,
      MSEHasGuidByte0, MSEHasGuidByte4, MSEHasSpline, MSEHasTransportGuidByte2,
      MSEHasTransportGuidByte5, MSEHasTransportGuidByte4, MSEHasTransportTime3, MSEHasTransportGuidByte1,
      MSEHasTransportTime2, MSEHasTransportGuidByte7, MSEHasTransportGuidByte6, MSEHasTransportGuidByte0,
      MSEHasTransportGuidByte3, MSEHasFallDirection, MSEMovementFlags, MSEMovementFlags2,
      MSEGuidByte0, MSEGuidByte1, MSEGuidByte2, MSEGuidByte6,
      MSEGuidByte4, MSEGuidByte3, MSEGuidByte7, MSEGuidByte5,
      MSETransportOrientation, MSETransportPositionY, MSETransportTime3, MSETransportTime2,
      MSETransportPositionX, MSETransportTime, MSETransportPositionZ, MSETransportGuidByte7,
      MSETransportGuidByte6, MSETransportGuidByte1, MSETransportGuidByte4, MSETransportGuidByte3,
      MSETransportGuidByte0, MSETransportGuidByte2, MSETransportGuidByte5, MSETransportSeat,
      MSESplineElevation, MSEFallHorizontalSpeed, MSEFallCosAngle, MSEFallSinAngle,
      MSEFallTime, MSEFallVerticalSpeed, MSEOrientation, MSETimestamp,
      MSEPitch, MSEEnd]"

definition MoveForceFlightBackSpeedChangeAck :: "MovementStatusElements list" where
  "MoveForceFlightBackSpeedChangeAck =
     [MSEPositionY, MSEPositionZ, MSECounter, MSEPositionX,
      MSESpeedFlightBack, MSEHasSplineElevation, MSEHasPitch, MSEHasFallData,
      MSEHasSpline, MSEHasGuidByte7, MSEHasGuidByte4, MSEZeroBit,
      MSEHasGuidByte1, MSEHasOrientation, MSEHasMovementFlags, MSEHasGuidByte5,
      MSEHasGuidByte3, MSEHasTransportData, MSEHasGuidByte6, MSEHasMovementFlags2,
      MSEHasGuidByte2, MSEHasGuidByte0, MSEHasTimestamp, MSEHasTransportGuidByte2,
      MSEHasTransportGuidByte5, MSEHasTransportGuidByte1, MSEHasTransportTime3, MSEHasTransportGuidByte0,
      MSEHasTransportGuidByte7, MSEHasTransportGuidByte6, MSEHasTransportGuidByte3, MSEHasTransportTime2,
      MSEHasTransportGuidByte4, MSEMovementFlags2, MSEMovementFlags, MSEHasFallDirection,
      MSEGuidByte7, MSEGuidByte0, MSEGuidByte5, MSEGuidByte6,
      MSEGuidByte3, MSEGuidByte2, MSEGuidByte4, MSEGuidByte1,
      MSETransportGuidByte2, MSETransportGuidByte0, MSETransportTime, MSETransportGuidByte3,
      MSETransportOrientation, MSETransportGuidByte1, MSETransportPositionX, MSETransportPositionZ,
      MSETransportGuidByte4, MSETransportGuidByte7, MSETransportTime3, MSETransportGuidByte5,
      MSETransportTime2, MSETransportPositionY, MSETransportSeat, MSETransportGuidByte6,
      MSEFallCosAngle, MSEFallSinAngle, MSEFallHorizontalSpeed, MSEFallVerticalSpeed,
      MSEFallTime, MSETimestamp, MSEPitch, MSEOrientation,
      MSESplineElevation, MSEEnd]"

definition MoveForceTurnRateSpeedChangeAck :: "MovementStatusElements list" where
  "MoveForceTurnRateSpeedChangeAck =
     [MSEPositionX, MSEPositionZ, MSESpeedTurnRate, MSEPositionY,
      MSECounter, MSEHasTimestamp, MSEHasPitch, MSEHasGuidByte0,
      MSEHasTransportData, MSEHasOrientation, MSEHasGuidByte6, MSEHasSplineElevation,
      MSEHasFallData, MSEHasGuidByte2, MSEHasGuidByte5, MSEHasSpline,
      MSEHasGuidByte1, MSEHasGuidByte4, MSEHasGuidByte7, MSEZeroBit,
      MSEHasGuidByte3, MSEHasMovementFlags, MSEHasMovementFlags2, MSEHasTransportTime3,
      MSEHasTransportGuidByte7, MSEHasTransportGuidByte4, MSEHasTransportGuidByte6, MSEHasTransportGuidByte5,
      MSEHasTransportGuidByte3, MSEHasTransportGuidByte2, MSEHasTransportGuidByte0, MSEHasTransportTime2,
      MSEHasTransportGuidByte1, MSEHasFallDirection, MSEMovementFlags, MSEMovementFlags2,
      MSEGuidByte3, MSEGuidByte0, MSEGuidByte6, MSEGuidByte4,
      MSEGuidByte5, MSEGuidByte2, MSEGuidByte7, MSEGuidByte1,
      MSETransportGuidByte6, MSETransportOrientation, MSETransportTime, MSETransportGuidByte7,
      MSETransportGuidByte0, MSETransportGuidByte2, MSETransportPositionZ, MSETransportGuidByte1,
      MSETransportSeat, MSETransportGuidByte5, MSETransportPositionX, MSETransportTime2,
      MSETransportGuidByte4, MSETransportGuidByte3, MSETransportPositionY, MSETransportTime3,
      MSETimestamp, MSEFallCosAngle, MSEFallSinAngle, MSEFallHorizontalSpeed,
      MSEFallVerticalSpeed, MSEFallTime, MSEOrientation, MSESplineElevation,
      MSEPitch, MSEEnd]"

definition MoveForceSwimBackSpeedChangeAck :: "MovementStatusElements list" where
  "MoveForceSwimBackSpeedChangeAck =
     [MSESpeedSwimBack, MSEPositionX, MSEPositionZ, MSEPositionY,
      MSECounter, MSEHasGuidByte7, MSEHasTransportData, MSEHasGuidByte6,
      MSEHasPitch, MSEHasOrientation, MSEHasGuidByte2, MSEHasMovementFlags,
      MSEHasGuidByte0, MSEHasGuidByte5, MSEHasGuidByte3, MSEHasSpline,
      MSEHasTimestamp, MSEZeroBit, MSEHasMovementFlags2, MSEHasGuidByte4,
      MSEHasGuidByte1, MSEHasSplineElevation, MSEHasFallData, MSEHasTransportGuidByte6,
      MSEHasTransportGuidByte3, MSEHasTransportGuidByte4, MSEHasTransportGuidByte7, MSEHasTransportTime3,
      MSEHasTransportGuidByte1, MSEHasTransportGuidByte0, MSEHasTransportTime2, MSEHasTransportGuidByte5,
      MSEHasTransportGuidByte2, MSEMovementFlags, MSEMovementFlags2, MSEHasFallDirection,
      MSEGuidByte0, MSEGuidByte7, MSEGuidByte4, MSEGuidByte6,
      MSEGuidByte1, MSEGuidByte2, MSEGuidByte5, MSEGuidByte3,
      MSEFallSinAngle, MSEFallCosAngle, MSEFallHorizontalSpeed, MSEFallVerticalSpeed,
      MSEFallTime, MSETransportGuidByte4, MSETransportGuidByte6, MSETransportGuidByte1,
      MSETransportPositionY, MSETransportOrientation, MSETransportPositionZ, MSETransportGuidByte7,
      MSETransportTime3, MSETransportTime, MSETransportGuidByte3, MSETransportGuidByte2,
      MSETransportSeat, MSETransportGuidByte0, MSETransportTime2, MSETransportPositionX,
      MSETransportGuidByte5, MSETimestamp, MSESplineElevation, MSEPitch,
      MSEOrientation, MSEEnd]"

definition MoveForceSwimSpeedChangeAck :: "MovementStatusElements list" where
  "MoveForceSwimSpeedChangeAck =
     [MSEPositionX, MSECounter, MSESpeedSwim, MSEPositionY,
      MSEPositionZ, MSEHasGuidByte4, MSEHasOrientation, MSEHasPitch,
      MSEHasTransportData, MSEHasMovementFlags, MSEHasMovementFlags2, MSEHasGuidByte1,
      MSEHasGuidByte3, MSEHasFallData, MSEHasGuidByte2, MSEHasGuidByte7,
      MSEHasTimestamp, MSEZeroBit, MSEHasGuidByte5, MSEHasGuidByte6,
      MSEHasSplineElevation, MSEHasSpline, MSEHasGuidByte0, MSEHasTransportGuidByte1,
      MSEHasTransportGuidByte4, MSEHasTransportGuidByte0, MSEHasTransportGuidByte5, MSEHasTransportGuidByte7,
      MSEHasTransportGuidByte3, MSEHasTransportTime2, MSEHasTransportTime3, MSEHasTransportGuidByte6,
      MSEHasTransportGuidByte2, MSEMovementFlags2, MSEHasFallDirection, MSEMovementFlags,
      MSEGuidByte2, MSEGuidByte0, MSEGuidByte6, MSEGuidByte5,
      MSEGuidByte1, MSEGuidByte3, MSEGuidByte4, MSEGuidByte7,
      MSETransportGuidByte0, MSETransportTime3, MSETransportTime2, MSETransportPositionX,
      MSETransportGuidByte7, MSETransportSeat, MSETransportPositionY, MSETransportGuidByte5,
      MSETransportPositionZ, MSETransportOrientation, MSETransportTime, MSETransportGuidByte2,
      MSETransportGuidByte6, MSETransportGuidByte3, MSETransportGuidByte1, MSETransportGuidByte4,
      MSEFallTime, MSEFallCosAngle, MSEFallSinAngle, MSEFallHorizontalSpeed,
      MSEFallVerticalSpeed, MSEOrientation, MSEPitch, MSESplineElevation,
      MSETimestamp, MSEEnd]"

definition MoveForceWalkSpeedChangeAck :: "MovementStatusElements list" where
  "MoveForceWalkSpeedChangeAck =
     [MSEPositionZ, MSEPositionY, MSESpeedWalk, MSEPositionX,
      MSECounter, MSEHasGuidByte0, MSEHasMovementFlags2, MSEHasTimestamp,
      MSEHasGuidByte4, MSEHasGuidByte5, MSEHasGuidByte2, MSEHasMovementFlags,
      MSEHasFallData, MSEHasOrientation, MSEHasSpline, MSEZeroBit,
      MSEHasGuidByte3, MSEHasGuidByte1, MSEHasSplineElevation, MSEHasTransportData,
      MSEHasGuidByte7, MSEHasGuidByte6, MSEHasPitch, MSEHasTransportTime2,
      MSEHasTransportGuidByte5, MSEHasTransportGuidByte1, MSEHasTransportGuidByte6, MSEHasTransportTime3,
      MSEHasTransportGuidByte2, MSEHasTransportGuidByte0, MSEHasTransportGuidByte4, MSEHasTransportGuidByte7,
      MSEHasTransportGuidByte3, MSEMovementFlags, MSEMovementFlags2, MSEHasFallDirection,
      MSEGuidByte5, MSEGuidByte6, MSEGuidByte7, MSEGuidByte2,
      MSEGuidByte1, MSEGuidByte3, MSEGuidByte4, MSEGuidByte0,
      MSEFallVerticalSpeed, MSEFallSinAngle, MSEFallHorizontalSpeed, MSEFallCosAngle,
      MSEFallTime, MSETransportPositionZ, MSETransportGuidByte7, MSETransportGuidByte5,
      MSETransportPositionX, MSETransportGuidByte0, MSETransportTime, MSETransportTime3,
      MSETransportPositionY, MSETransportGuidByte2, MSETransportGuidByte4, MSETransportGuidByte1,
      MSETransportGuidByte3, MSETransportOrientation, MSETransportSeat, MSETransportGuidByte6,
      MSETransportTime2, MSESplineElevation, MSETimestamp, MSEOrientation,
      MSEPitch, MSEEnd]"

definition MoveForceRunBackSpeedChangeAck :: "MovementStatusElements list" where
  "MoveForceRunBackSpeedChangeAck =
     [MSESpeedRunBack, MSECounter, MSEPositionX, MSEPositionZ,
      MSEPositionY, MSEHasGuidByte2, MSEHasGuidByte4, MSEHasTimestamp,
      MSEHasTransportData, MSEHasGuidByte1, MSEHasGuidByte0, MSEHasGuidByte5,
      MSEHasGuidByte3, MSEHasOrientation, MSEHasFallData, MSEHasMovementFlags2,
      MSEHasMovementFlags, MSEHasGuidByte7, MSEHasSpline, MSEHasPitch,
      MSEHasGuidByte6, MSEHasSplineElevation, MSEZeroBit, MSEHasTransportGuidByte3,
      MSEHasTransportTime2, MSEHasTransportGuidByte7, MSEHasTransportGuidByte0, MSEHasTransportGuidByte2,
      MSEHasTransportGuidByte1, MSEHasTransportTime3, MSEHasTransportGuidByte4, MSEHasTransportGuidByte6,
      MSEHasTransportGuidByte5, MSEMovementFlags, MSEMovementFlags2, MSEHasFallDirection,
      MSEGuidByte0, MSEGuidByte7, MSEGuidByte2, MSEGuidByte4,
      MSEGuidByte3, MSEGuidByte6, MSEGuidByte5, MSEGuidByte1,
      MSEFallTime, MSEFallHorizontalSpeed, MSEFallCosAngle, MSEFallSinAngle,
      MSEFallVerticalSpeed, MSETransportGuidByte5, MSETransportSeat, MSETransportGuidByte6,
      MSETransportGuidByte1, MSETransportGuidByte0, MSETransportGuidByte2, MSETransportPositionY,
      MSETransportTime3, MSETransportPositionX, MSETransportOrientation, MSETransportGuidByte3,
      MSETransportTime, MSETransportTime2, MSETransportGuidByte4, MSETransportPositionZ,
      MSETransportGuidByte7, MSETimestamp, MSESplineElevation, MSEOrientation,
      MSEPitch, MSEEnd]"

definition MoveForceFlightSpeedChangeAck :: "MovementStatusElements list" where
  "MoveForceFlightSpeedChangeAck =
     [MSECounter, MSEPositionZ, MSEPositionX, MSEPositionY,
      MSESpeedFlight, MSEHasGuidByte4, MSEHasGuidByte5, MSEZeroBit,
      MSEHasMovementFlags, MSEHasSplineElevation, MSEHasGuidByte3, MSEHasMovementFlags2,
      MSEHasGuidByte7, MSEHasTransportData, MSEHasGuidByte0, MSEHasFallData,
      MSEHasTimestamp, MSEHasPitch, MSEHasSpline, MSEHasOrientation,
      MSEHasGuidByte6, MSEHasGuidByte2, MSEHasGuidByte1, MSEHasTransportGuidByte6,
      MSEHasTransportGuidByte1, MSEHasTransportGuidByte7, MSEHasTransportTime2, MSEHasTransportGuidByte0,
      MSEHasTransportTime3, MSEHasTransportGuidByte3, MSEHasTransportGuidByte2, MSEHasTransportGuidByte5,
      MSEHasTransportGuidByte4, MSEHasFallDirection, MSEMovementFlags2, MSEMovementFlags,
      MSEGuidByte5, MSEGuidByte6, MSEGuidByte1, MSEGuidByte7,
      MSEGuidByte3, MSEGuidByte0, MSEGuidByte2, MSEGuidByte4,
      MSETransportGuidByte6, MSETransportGuidByte0, MSETransportSeat, MSETransportTime2,
      MSETransportOrientation, MSETransportGuidByte1, MSETransportGuidByte5, MSETransportTime3,
      MSETransportGuidByte2, MSETransportPositionZ, MSETransportGuidByte7, MSETransportGuidByte3,
      MSETransportGuidByte4, MSETransportPositionX, MSETransportTime, MSETransportPositionY,
      MSETimestamp, MSESplineElevation, MSEFallCosAngle, MSEFallSinAngle,
      MSEFallHorizontalSpeed, MSEFallTime, MSEFallVerticalSpeed, MSEPitch,
      MSEOrientation, MSEEnd]"

definition MoveForceRunSpeedChangeAck :: "MovementStatusElements list" where
  "MoveForceRunSpeedChangeAck =
     [MSECounter, MSEPositionX, MSESpeedRun, MSEPositionZ,
      MSEPositionY, MSEHasGuidByte2, MSEHasGuidByte4, MSEHasGuidByte1,
      MSEHasGuidByte7, MSEHasOrientation, MSEHasFallData, MSEHasGuidByte0,
      MSEHasSpline, MSEHasTransportData, MSEHasTimestamp, MSEHasMovementFlags2,
      MSEHasGuidByte6, MSEZeroBit, MSEHasSplineElevation, MSEHasPitch,
      MSEHasGuidByte5, MSEHasMovementFlags, MSEHasGuidByte3, MSEHasTransportTime3,
      MSEHasTransportGuidByte5, MSEHasTransportTime2, MSEHasTransportGuidByte3, MSEHasTransportGuidByte2,
      MSEHasTransportGuidByte0, MSEHasTransportGuidByte7, MSEHasTransportGuidByte6, MSEHasTransportGuidByte1,
      MSEHasTransportGuidByte4, MSEMovementFlags, MSEHasFallDirection, MSEMovementFlags2,
      MSEGuidByte6, MSEGuidByte4, MSEGuidByte1, MSEGuidByte3,
      MSEGuidByte5, MSEGuidByte2, MSEGuidByte7, MSEGuidByte0,
      MSETransportPositionZ, MSETransportGuidByte6, MSETransportGuidByte1, MSETransportPositionY,
      MSETransportGuidByte0, MSETransportGuidByte5, MSETransportTime2, MSETransportPositionX,
      MSETransportTime, MSETransportGuidByte7, MSETransportOrientation, MSETransportGuidByte3,
      MSETransportTime3, MSETransportGuidByte2, MSETransportSeat, MSETransportGuidByte4,
      MSEFallVerticalSpeed, MSEFallHorizontalSpeed, MSEFallCosAngle, MSEFallSinAngle,
      MSEFallTime, MSESplineElevation, MSEPitch, MSETimestamp,
      MSEOrientation, MSEEnd]"

end
