(* ===== verification/MovementTablesState.thy ===== *)
theory MovementTablesState
  imports MovementElements
begin

text \<open>
  The element tables of \<^verbatim>\<open>game/Movement/MovementStructures.cpp\<close> for the packets that switch a movement state on or off: gravity,
  swimming, walking, hovering, water walking, flying, collision height, feather fall and root.
\<close>

definition SplineMoveGravityDisable :: "MovementStatusElements list" where
  "SplineMoveGravityDisable =
     [MSEHasGuidByte7, MSEHasGuidByte3, MSEHasGuidByte4, MSEHasGuidByte2,
      MSEHasGuidByte5, MSEHasGuidByte1, MSEHasGuidByte0, MSEHasGuidByte6,
      MSEGuidByte7, MSEGuidByte1, MSEGuidByte3, MSEGuidByte4,
      MSEGuidByte6, MSEGuidByte2, MSEGuidByte5, MSEGuidByte0,
      MSEEnd]"

definition SplineMoveGravityEnable :: "MovementStatusElements list" where
  "SplineMoveGravityEnable =
     [MSEHasGuidByte5, MSEHasGuidByte4, MSEHasGuidByte7, MSEHasGuidByte1,
      MSEHasGuidByte3, MSEHasGuidByte6, MSEHasGuidByte2, MSEHasGuidByte0,
      MSEGuidByte7, MSEGuidByte3, MSEGuidByte4, MSEGuidByte2,
      MSEGuidByte1, MSEGuidByte6, MSEGuidByte0, MSEGuidByte5,
      MSEEnd]"

definition MoveGravityDisable :: "MovementStatusElements list" where
  "MoveGravityDisable =
     [MSEHasGuidByte0, MSEHasGuidByte1, MSEHasGuidByte5, MSEHasGuidByte7,
      MSEHasGuidByte6, MSEHasGuidByte4, MSEHasGuidByte3, MSEHasGuidByte2,
      MSEGuidByte7, MSEGuidByte2, MSEGuidByte0, MSECounter,
      MSEGuidByte5, MSEGuidByte1, MSEGuidByte3, MSEGuidByte4,
      MSEGuidByte6, MSEEnd]"

definition MoveGravityEnable :: "MovementStatusElements list" where
  "MoveGravityEnable =
     [MSEHasGuidByte1, MSEHasGuidByte4, MSEHasGuidByte7, MSEHasGuidByte5,
      MSEHasGuidByte2, MSEHasGuidByte0, MSEHasGuidByte3, MSEHasGuidByte6,
      MSEGuidByte3, MSECounter, MSEGuidByte7, MSEGuidByte6,
      MSEGuidByte4, MSEGuidByte0, MSEGuidByte1, MSEGuidByte5,
      MSEGuidByte2, MSEEnd]"

definition MovementGravityDisableAck :: "MovementStatusElements list" where
  "MovementGravityDisableAck =
     [MSEPositionZ, MSEPositionY, MSECounter, MSEPositionX,
      MSEHasGuidByte3, MSEHasTransportData, MSEHasGuidByte4, MSEHasGuidByte5,
      MSEHasMovementFlags, MSEHasOrientation, MSEHasSpline, MSEHasGuidByte6,
      MSEHasGuidByte0, MSEHasGuidByte7, MSEHasSplineElevation, MSEHasTimestamp,
      MSEHasPitch, MSEHasMovementFlags2, MSEZeroBit, MSEHasGuidByte2,
      MSEHasFallData, MSEHasGuidByte1, MSEHasTransportGuidByte2, MSEHasTransportTime3,
      MSEHasTransportGuidByte0, MSEHasTransportGuidByte1, MSEHasTransportGuidByte5, MSEHasTransportGuidByte3,
      MSEHasTransportGuidByte7, MSEHasTransportGuidByte6, MSEHasTransportGuidByte4, MSEHasTransportTime2,
      MSEMovementFlags, MSEMovementFlags2, MSEHasFallDirection, MSEGuidByte0,
      MSEGuidByte2, MSEGuidByte1, MSEGuidByte3, MSEGuidByte5,
      MSEGuidByte7, MSEGuidByte4, MSEGuidByte6, MSETransportPositionZ,
      MSETransportGuidByte2, MSETransportGuidByte5, MSETransportGuidByte3, MSETransportGuidByte4,
      MSETransportPositionY, MSETransportTime, MSETransportSeat, MSETransportGuidByte6,
      MSETransportGuidByte1, MSETransportGuidByte0, MSETransportOrientation, MSETransportTime2,
      MSETransportPositionX, MSETransportGuidByte7, MSETransportTime3, MSEFallCosAngle,
      MSEFallSinAngle, MSEFallHorizontalSpeed, MSEFallTime, MSEFallVerticalSpeed,
      MSEOrientation, MSESplineElevation, MSETimestamp, MSEPitch,
      MSEEnd]"

definition MovementGravityEnableAck :: "MovementStatusElements list" where
  "MovementGravityEnableAck =
     [MSEPositionZ, MSEPositionX, MSECounter, MSEPositionY,
      MSEHasSplineElevation, MSEHasMovementFlags2, MSEHasGuidByte6, MSEHasOrientation,
      MSEZeroBit, MSEHasGuidByte5, MSEHasSpline, MSEHasGuidByte3,
      MSEHasTransportData, MSEHasPitch, MSEHasGuidByte1, MSEHasTimestamp,
      MSEHasGuidByte2, MSEHasGuidByte4, MSEHasGuidByte7, MSEHasMovementFlags,
      MSEHasFallData, MSEHasGuidByte0, MSEHasTransportTime3, MSEHasTransportGuidByte0,
      MSEHasTransportGuidByte1, MSEHasTransportGuidByte3, MSEHasTransportGuidByte7, MSEHasTransportGuidByte2,
      MSEHasTransportGuidByte5, MSEHasTransportTime2, MSEHasTransportGuidByte4, MSEHasTransportGuidByte6,
      MSEHasFallDirection, MSEMovementFlags, MSEMovementFlags2, MSEGuidByte5,
      MSEGuidByte4, MSEGuidByte1, MSEGuidByte7, MSEGuidByte0,
      MSEGuidByte2, MSEGuidByte3, MSEGuidByte6, MSEFallTime,
      MSEFallHorizontalSpeed, MSEFallSinAngle, MSEFallCosAngle, MSEFallVerticalSpeed,
      MSETransportGuidByte1, MSETransportPositionX, MSETransportTime3, MSETransportOrientation,
      MSETransportGuidByte2, MSETransportGuidByte0, MSETransportGuidByte7, MSETransportGuidByte6,
      MSETransportSeat, MSETransportGuidByte3, MSETransportGuidByte4, MSETransportPositionZ,
      MSETransportTime2, MSETransportGuidByte5, MSETransportTime, MSETransportPositionY,
      MSESplineElevation, MSEOrientation, MSEPitch, MSETimestamp,
      MSEEnd]"

definition SplineMoveStartSwim :: "MovementStatusElements list" where
  "SplineMoveStartSwim =
     [MSEHasGuidByte1, MSEHasGuidByte6, MSEHasGuidByte0, MSEHasGuidByte7,
      MSEHasGuidByte3, MSEHasGuidByte5, MSEHasGuidByte2, MSEHasGuidByte4,
      MSEGuidByte3, MSEGuidByte7, MSEGuidByte2, MSEGuidByte5,
      MSEGuidByte6, MSEGuidByte4, MSEGuidByte1, MSEGuidByte0,
      MSEEnd]"

definition SplineMoveStopSwim :: "MovementStatusElements list" where
  "SplineMoveStopSwim =
     [MSEHasGuidByte4, MSEHasGuidByte1, MSEHasGuidByte5, MSEHasGuidByte3,
      MSEHasGuidByte0, MSEHasGuidByte7, MSEHasGuidByte2, MSEHasGuidByte6,
      MSEGuidByte6, MSEGuidByte0, MSEGuidByte7, MSEGuidByte2,
      MSEGuidByte3, MSEGuidByte1, MSEGuidByte5, MSEGuidByte4,
      MSEEnd]"

definition SplineMoveSetWalkMode :: "MovementStatusElements list" where
  "SplineMoveSetWalkMode =
     [MSEHasGuidByte7, MSEHasGuidByte6, MSEHasGuidByte5, MSEHasGuidByte1,
      MSEHasGuidByte3, MSEHasGuidByte4, MSEHasGuidByte2, MSEHasGuidByte0,
      MSEGuidByte4, MSEGuidByte2, MSEGuidByte1, MSEGuidByte6,
      MSEGuidByte5, MSEGuidByte0, MSEGuidByte7, MSEGuidByte3,
      MSEEnd]"

definition SplineMoveSetRunMode :: "MovementStatusElements list" where
  "SplineMoveSetRunMode =
     [MSEHasGuidByte5, MSEHasGuidByte6, MSEHasGuidByte3, MSEHasGuidByte7,
      MSEHasGuidByte2, MSEHasGuidByte0, MSEHasGuidByte4, MSEHasGuidByte1,
      MSEGuidByte7, MSEGuidByte0, MSEGuidByte4, MSEGuidByte6,
      MSEGuidByte5, MSEGuidByte1, MSEGuidByte2, MSEGuidByte3,
      MSEEnd]"

definition MovementSetRunMode :: "MovementStatusElements list" where
  "MovementSetRunMode =
     [MSEPositionY, MSEPositionX, MSEPositionZ, MSEHasTimestamp,
      MSEHasMovementFlags2, MSEHasGuidByte1, MSEHasSpline, MSEHasMovementFlags,
      MSEHasGuidByte7, MSEHasTransportData, MSEZeroBit, MSEHasGuidByte0,
      MSEHasGuidByte3, MSEHasSplineElevation, MSEHasGuidByte5, MSEHasPitch,
      MSEHasGuidByte6, MSEHasGuidByte4, MSEHasFallData, MSEHasOrientation,
      MSEHasGuidByte2, MSEHasTransportGuidByte6, MSEHasTransportGuidByte4, MSEHasTransportTime3,
      MSEHasTransportGuidByte5, MSEHasTransportGuidByte3, MSEHasTransportGuidByte1, MSEHasTransportTime2,
      MSEHasTransportGuidByte7, MSEHasTransportGuidByte0, MSEHasTransportGuidByte2, MSEHasFallDirection,
      MSEMovementFlags2, MSEMovementFlags, MSEGuidByte3, MSEGuidByte6,
      MSEGuidByte0, MSEGuidByte7, MSEGuidByte4, MSEGuidByte1,
      MSEGuidByte5, MSEGuidByte2, MSEPitch, MSETransportTime2,
      MSETransportGuidByte3, MSETransportPositionX, MSETransportSeat, MSETransportGuidByte5,
      MSETransportGuidByte1, MSETransportPositionZ, MSETransportGuidByte2, MSETransportGuidByte7,
      MSETransportOrientation, MSETransportGuidByte4, MSETransportTime, MSETransportTime3,
      MSETransportGuidByte0, MSETransportPositionY, MSETransportGuidByte6, MSEFallSinAngle,
      MSEFallHorizontalSpeed, MSEFallCosAngle, MSEFallTime, MSEFallVerticalSpeed,
      MSESplineElevation, MSETimestamp, MSEOrientation, MSEEnd]"

definition MovementSetWalkMode :: "MovementStatusElements list" where
  "MovementSetWalkMode =
     [MSEPositionY, MSEPositionX, MSEPositionZ, MSEHasGuidByte6,
      MSEHasSpline, MSEHasTimestamp, MSEHasGuidByte0, MSEHasGuidByte1,
      MSEHasMovementFlags, MSEHasPitch, MSEHasGuidByte7, MSEHasSplineElevation,
      MSEHasGuidByte4, MSEHasOrientation, MSEHasTransportData, MSEHasGuidByte2,
      MSEHasGuidByte5, MSEHasGuidByte3, MSEZeroBit, MSEHasMovementFlags2,
      MSEHasFallData, MSEHasTransportGuidByte2, MSEHasTransportGuidByte0, MSEHasTransportGuidByte6,
      MSEHasTransportGuidByte1, MSEHasTransportGuidByte3, MSEHasTransportTime2, MSEHasTransportGuidByte5,
      MSEHasTransportTime3, MSEHasTransportGuidByte4, MSEHasTransportGuidByte7, MSEHasFallDirection,
      MSEMovementFlags, MSEMovementFlags2, MSEGuidByte5, MSEGuidByte6,
      MSEGuidByte4, MSEGuidByte7, MSEGuidByte3, MSEGuidByte0,
      MSEGuidByte2, MSEGuidByte1, MSETransportGuidByte2, MSETransportGuidByte5,
      MSETransportSeat, MSETransportPositionZ, MSETransportGuidByte3, MSETransportGuidByte6,
      MSETransportGuidByte0, MSETransportTime, MSETransportGuidByte4, MSETransportTime2,
      MSETransportOrientation, MSETransportPositionX, MSETransportTime3, MSETransportGuidByte7,
      MSETransportPositionY, MSETransportGuidByte1, MSEFallCosAngle, MSEFallHorizontalSpeed,
      MSEFallSinAngle, MSEFallVerticalSpeed, MSEFallTime, MSESplineElevation,
      MSEPitch, MSETimestamp, MSEOrientation, MSEEnd]"

definition MoveSetHover :: "MovementStatusElements list" where
  "MoveSetHover =
     [MSEHasGuidByte1, MSEHasGuidByte4, MSEHasGuidByte2, MSEHasGuidByte3,
      MSEHasGuidByte0, MSEHasGuidByte5, MSEHasGuidByte6, MSEHasGuidByte7,
      MSEGuidByte5, MSEGuidByte4, MSEGuidByte1, MSEGuidByte2,
      MSEGuidByte3, MSEGuidByte6, MSEGuidByte0, MSEGuidByte7,
      MSECounter, MSEEnd]"

definition MoveUnsetHover :: "MovementStatusElements list" where
  "MoveUnsetHover =
     [MSEHasGuidByte4, MSEHasGuidByte6, MSEHasGuidByte3, MSEHasGuidByte1,
      MSEHasGuidByte2, MSEHasGuidByte7, MSEHasGuidByte5, MSEHasGuidByte0,
      MSEGuidByte4, MSEGuidByte5, MSEGuidByte3, MSEGuidByte6,
      MSEGuidByte7, MSEGuidByte1, MSEGuidByte2, MSEGuidByte0,
      MSECounter, MSEEnd]"

definition SplineMoveSetHover :: "MovementStatusElements list" where
  "SplineMoveSetHover =
     [MSEHasGuidByte3, MSEHasGuidByte7, MSEHasGuidByte0, MSEHasGuidByte1,
      MSEHasGuidByte4, MSEHasGuidByte6, MSEHasGuidByte2, MSEHasGuidByte5,
      MSEGuidByte2, MSEGuidByte4, MSEGuidByte3, MSEGuidByte1,
      MSEGuidByte7, MSEGuidByte0, MSEGuidByte5, MSEGuidByte6,
      MSEEnd]"

definition SplineMoveUnsetHover :: "MovementStatusElements list" where
  "SplineMoveUnsetHover =
     [MSEHasGuidByte6, MSEHasGuidByte7, MSEHasGuidByte4, MSEHasGuidByte0,
      MSEHasGuidByte3, MSEHasGuidByte1, MSEHasGuidByte5, MSEHasGuidByte2,
      MSEGuidByte4, MSEGuidByte5, MSEGuidByte3, MSEGuidByte0,
      MSEGuidByte2, MSEGuidByte7, MSEGuidByte6, MSEGuidByte1,
      MSEEnd]"

definition MovementHoverAck :: "MovementStatusElements list" where
  "MovementHoverAck =
     [MSECounter, MSEPositionZ, MSEPositionY, MSEPositionX,
      MSEHasGuidByte4, MSEHasTransportData, MSEHasGuidByte2, MSEHasTimestamp,
      MSEHasSpline, MSEHasMovementFlags, MSEHasGuidByte1, MSEHasPitch,
      MSEHasGuidByte0, MSEHasGuidByte6, MSEHasGuidByte7, MSEHasGuidByte5,
      MSEZeroBit, MSEHasFallData, MSEHasMovementFlags2, MSEHasSplineElevation,
      MSEHasOrientation, MSEHasGuidByte3, MSEHasTransportGuidByte4, MSEHasTransportGuidByte6,
      MSEHasTransportTime3, MSEHasTransportGuidByte1, MSEHasTransportGuidByte0, MSEHasTransportGuidByte3,
      MSEHasTransportGuidByte2, MSEHasTransportGuidByte5, MSEHasTransportGuidByte7, MSEHasTransportTime2,
      MSEMovementFlags, MSEMovementFlags2, MSEHasFallDirection, MSEGuidByte1,
      MSEGuidByte4, MSEGuidByte7, MSEGuidByte2, MSEGuidByte5,
      MSEGuidByte6, MSEGuidByte3, MSEGuidByte0, MSETimestamp,
      MSEFallCosAngle, MSEFallSinAngle, MSEFallHorizontalSpeed, MSEFallTime,
      MSEFallVerticalSpeed, MSEOrientation, MSETransportGuidByte1, MSETransportTime3,
      MSETransportGuidByte2, MSETransportGuidByte7, MSETransportGuidByte3, MSETransportGuidByte4,
      MSETransportSeat, MSETransportPositionX, MSETransportPositionZ, MSETransportOrientation,
      MSETransportTime, MSETransportGuidByte0, MSETransportPositionY, MSETransportGuidByte5,
      MSETransportTime2, MSETransportGuidByte6, MSESplineElevation, MSEPitch,
      MSEEnd]"

definition MoveWaterWalk :: "MovementStatusElements list" where
  "MoveWaterWalk =
     [MSEHasGuidByte4, MSEHasGuidByte7, MSEHasGuidByte6, MSEHasGuidByte0,
      MSEHasGuidByte1, MSEHasGuidByte3, MSEHasGuidByte5, MSEHasGuidByte2,
      MSEGuidByte0, MSEGuidByte5, MSEGuidByte2, MSECounter,
      MSEGuidByte7, MSEGuidByte3, MSEGuidByte4, MSEGuidByte1,
      MSEGuidByte6, MSEEnd]"

definition MoveLandWalk :: "MovementStatusElements list" where
  "MoveLandWalk =
     [MSEHasGuidByte5, MSEHasGuidByte1, MSEHasGuidByte6, MSEHasGuidByte2,
      MSEHasGuidByte3, MSEHasGuidByte4, MSEHasGuidByte0, MSEHasGuidByte7,
      MSEGuidByte6, MSEGuidByte1, MSEGuidByte7, MSEGuidByte5,
      MSEGuidByte4, MSEGuidByte0, MSEGuidByte3, MSEGuidByte2,
      MSECounter, MSEEnd]"

definition SplineMoveLandWalk :: "MovementStatusElements list" where
  "SplineMoveLandWalk =
     [MSEHasGuidByte5, MSEHasGuidByte0, MSEHasGuidByte4, MSEHasGuidByte6,
      MSEHasGuidByte7, MSEHasGuidByte2, MSEHasGuidByte3, MSEHasGuidByte1,
      MSEGuidByte5, MSEGuidByte7, MSEGuidByte3, MSEGuidByte4,
      MSEGuidByte1, MSEGuidByte2, MSEGuidByte0, MSEGuidByte6,
      MSEEnd]"

definition SplineMoveWaterWalk :: "MovementStatusElements list" where
  "SplineMoveWaterWalk =
     [MSEHasGuidByte6, MSEHasGuidByte1, MSEHasGuidByte4, MSEHasGuidByte2,
      MSEHasGuidByte3, MSEHasGuidByte7, MSEHasGuidByte5, MSEHasGuidByte0,
      MSEGuidByte0, MSEGuidByte6, MSEGuidByte3, MSEGuidByte7,
      MSEGuidByte4, MSEGuidByte2, MSEGuidByte5, MSEGuidByte1,
      MSEEnd]"

definition MovementWaterWalkAck :: "MovementStatusElements list" where
  "MovementWaterWalkAck =
     [MSEPositionY, MSEPositionZ, MSECounter, MSEPositionX,
      MSEHasTimestamp, MSEHasPitch, MSEHasGuidByte5, MSEHasGuidByte0,
      MSEHasGuidByte7, MSEHasOrientation, MSEHasGuidByte1, MSEHasMovementFlags2,
      MSEHasGuidByte2, MSEHasMovementFlags, MSEHasGuidByte3, MSEHasTransportData,
      MSEHasGuidByte6, MSEHasFallData, MSEHasGuidByte4, MSEZeroBit,
      MSEHasSplineElevation, MSEHasSpline, MSEHasTransportGuidByte0, MSEHasTransportGuidByte1,
      MSEHasTransportGuidByte6, MSEHasTransportGuidByte2, MSEHasTransportGuidByte7, MSEHasTransportGuidByte5,
      MSEHasTransportTime2, MSEHasTransportGuidByte3, MSEHasTransportTime3, MSEHasTransportGuidByte4,
      MSEMovementFlags, MSEHasFallDirection, MSEMovementFlags2, MSEGuidByte2,
      MSEGuidByte7, MSEGuidByte3, MSEGuidByte5, MSEGuidByte6,
      MSEGuidByte0, MSEGuidByte4, MSEGuidByte1, MSETransportPositionX,
      MSETransportGuidByte1, MSETransportTime3, MSETransportGuidByte0, MSETransportOrientation,
      MSETransportGuidByte7, MSETransportPositionY, MSETransportTime2, MSETransportTime,
      MSETransportGuidByte5, MSETransportSeat, MSETransportPositionZ, MSETransportGuidByte3,
      MSETransportGuidByte2, MSETransportGuidByte6, MSETransportGuidByte4, MSESplineElevation,
      MSEFallCosAngle, MSEFallHorizontalSpeed, MSEFallSinAngle, MSEFallVerticalSpeed,
      MSEFallTime, MSEOrientation, MSETimestamp, MSEPitch,
      MSEEnd]"

definition SplineMoveSetFlying :: "MovementStatusElements list" where
  "SplineMoveSetFlying =
     [MSEHasGuidByte0, MSEHasGuidByte4, MSEHasGuidByte1, MSEHasGuidByte6,
      MSEHasGuidByte7, MSEHasGuidByte2, MSEHasGuidByte3, MSEHasGuidByte5,
      MSEGuidByte7, MSEGuidByte0, MSEGuidByte5, MSEGuidByte6,
      MSEGuidByte4, MSEGuidByte1, MSEGuidByte3, MSEGuidByte2,
      MSEEnd]"

definition SplineMoveUnsetFlying :: "MovementStatusElements list" where
  "SplineMoveUnsetFlying =
     [MSEHasGuidByte5, MSEHasGuidByte0, MSEHasGuidByte4, MSEHasGuidByte7,
      MSEHasGuidByte2, MSEHasGuidByte3, MSEHasGuidByte1, MSEHasGuidByte6,
      MSEGuidByte7, MSEGuidByte2, MSEGuidByte3, MSEGuidByte4,
      MSEGuidByte5, MSEGuidByte1, MSEGuidByte6, MSEGuidByte0,
      MSEEnd]"

definition MoveSetCanFly :: "MovementStatusElements list" where
  "MoveSetCanFly =
     [MSEHasGuidByte1, MSEHasGuidByte6, MSEHasGuidByte5, MSEHasGuidByte0,
      MSEHasGuidByte7, MSEHasGuidByte4, MSEHasGuidByte2, MSEHasGuidByte3,
      MSEGuidByte6, MSEGuidByte3, MSECounter, MSEGuidByte2,
      MSEGuidByte1, MSEGuidByte4, MSEGuidByte7, MSEGuidByte0,
      MSEGuidByte5, MSEEnd]"

definition MoveUnsetCanFly :: "MovementStatusElements list" where
  "MoveUnsetCanFly =
     [MSEHasGuidByte1, MSEHasGuidByte4, MSEHasGuidByte2, MSEHasGuidByte5,
      MSEHasGuidByte0, MSEHasGuidByte3, MSEHasGuidByte6, MSEHasGuidByte7,
      MSEGuidByte4, MSEGuidByte6, MSECounter, MSEGuidByte1,
      MSEGuidByte0, MSEGuidByte2, MSEGuidByte3, MSEGuidByte5,
      MSEGuidByte7, MSEEnd]"

definition MovementSetCanFlyAck :: "MovementStatusElements list" where
  "MovementSetCanFlyAck =
     [MSEPositionY, MSECounter, MSEPositionX, MSEPositionZ,
      MSEHasGuidByte3, MSEHasTimestamp, MSEHasGuidByte4, MSEHasGuidByte0,
      MSEHasOrientation, MSEHasFallData, MSEHasGuidByte2, MSEHasGuidByte5,
      MSEHasSplineElevation, MSEHasMovementFlags2, MSEZeroBit, MSEHasGuidByte7,
      MSEHasSpline, MSEHasGuidByte6, MSEHasGuidByte1, MSEHasMovementFlags,
      MSEHasTransportData, MSEHasPitch, MSEHasTransportGuidByte3, MSEHasTransportGuidByte1,
      MSEHasTransportGuidByte2, MSEHasTransportTime3, MSEHasTransportTime2, MSEHasTransportGuidByte0,
      MSEHasTransportGuidByte5, MSEHasTransportGuidByte7, MSEHasTransportGuidByte4, MSEHasTransportGuidByte6,
      MSEMovementFlags2, MSEMovementFlags, MSEHasFallDirection, MSEGuidByte1,
      MSEGuidByte0, MSEGuidByte2, MSEGuidByte3, MSEGuidByte7,
      MSEGuidByte6, MSEGuidByte4, MSEGuidByte5, MSETransportTime2,
      MSETransportGuidByte6, MSETransportTime, MSETransportTime3, MSETransportGuidByte7,
      MSETransportPositionZ, MSETransportGuidByte3, MSETransportPositionY, MSETransportGuidByte5,
      MSETransportPositionX, MSETransportGuidByte2, MSETransportOrientation, MSETransportSeat,
      MSETransportGuidByte1, MSETransportGuidByte0, MSETransportGuidByte4, MSEFallTime,
      MSEFallCosAngle, MSEFallHorizontalSpeed, MSEFallSinAngle, MSEFallVerticalSpeed,
      MSEPitch, MSEOrientation, MSETimestamp, MSESplineElevation,
      MSEEnd]"

definition MoveSetCollisionHeight :: "MovementStatusElements list" where
  "MoveSetCollisionHeight =
     [MSEZeroBit, MSEZeroBit, MSEHasGuidByte6, MSEHasGuidByte1,
      MSEHasGuidByte4, MSEHasGuidByte7, MSEHasGuidByte5, MSEHasGuidByte2,
      MSEHasGuidByte0, MSEHasGuidByte3, MSEGuidByte6, MSEGuidByte0,
      MSEGuidByte4, MSEGuidByte3, MSEGuidByte5, MSECounter,
      MSEGuidByte1, MSEGuidByte2, MSEGuidByte7, MSEHeight,
      MSEEnd]"

definition MovementSetCollisionHeightAck :: "MovementStatusElements list" where
  "MovementSetCollisionHeightAck =
     [MSEHeight, MSEPositionX, MSEPositionZ, MSECounter,
      MSEPositionY, MSEHasGuidByte6, MSEHasGuidByte4, MSEZeroBit,
      MSEZeroBit, MSEHasPitch, MSEHasGuidByte5, MSEZeroBit,
      MSEHasGuidByte2, MSEHasGuidByte1, MSEHasFallData, MSEHasGuidByte3,
      MSEHasSpline, MSEHasGuidByte7, MSEHasMovementFlags, MSEHasTransportData,
      MSEHasTimestamp, MSEHasSplineElevation, MSEHasMovementFlags2, MSEHasOrientation,
      MSEHasGuidByte0, MSEHasTransportGuidByte4, MSEHasTransportGuidByte3, MSEHasTransportTime2,
      MSEHasTransportTime3, MSEHasTransportGuidByte5, MSEHasTransportGuidByte1, MSEHasTransportGuidByte7,
      MSEHasTransportGuidByte2, MSEHasTransportGuidByte6, MSEHasTransportGuidByte0, MSEMovementFlags2,
      MSEMovementFlags, MSEHasFallDirection, MSEGuidByte0, MSEGuidByte3,
      MSEGuidByte1, MSEGuidByte5, MSEGuidByte7, MSEGuidByte6,
      MSEGuidByte2, MSEGuidByte4, MSETransportPositionX, MSETransportGuidByte4,
      MSETransportTime2, MSETransportGuidByte0, MSETransportOrientation, MSETransportPositionY,
      MSETransportGuidByte7, MSETransportSeat, MSETransportGuidByte5, MSETransportGuidByte2,
      MSETransportTime, MSETransportGuidByte6, MSETransportGuidByte3, MSETransportGuidByte1,
      MSETransportTime3, MSETransportPositionZ, MSEFallVerticalSpeed, MSEFallTime,
      MSEFallSinAngle, MSEFallCosAngle, MSEFallHorizontalSpeed, MSETimestamp,
      MSESplineElevation, MSEOrientation, MSEPitch, MSEEnd]"

definition MovementUpdateCollisionHeight :: "MovementStatusElements list" where
  "MovementUpdateCollisionHeight =
     [MSEPositionZ, MSEHeight, MSEPositionX, MSEPositionY,
      MSEHasGuidByte6, MSEHasGuidByte7, MSEHasTransportGuidByte6, MSEHasTransportGuidByte4,
      MSEHasTransportGuidByte3, MSEHasTransportGuidByte7, MSEHasTransportGuidByte5, MSEHasTransportGuidByte1,
      MSEHasTransportGuidByte0, MSEHasTransportGuidByte2, MSEHasGuidByte3, MSEHasOrientation,
      MSEHasGuidByte4, MSEHasGuidByte5, MSEHasGuidByte0, MSEZeroBit,
      MSEHasGuidByte2, MSEHasMovementFlags, MSEHasFallDirection, MSEHasGuidByte1,
      MSEMovementFlags, MSEGuidByte3, MSETransportGuidByte7, MSETransportTime,
      MSETransportGuidByte4, MSETransportGuidByte5, MSETransportOrientation, MSETransportPositionX,
      MSETransportGuidByte6, MSETransportGuidByte0, MSETransportPositionY, MSETransportGuidByte2,
      MSETransportPositionZ, MSETransportGuidByte3, MSETransportGuidByte1, MSETransportSeat,
      MSEPitch, MSEGuidByte6, MSEFallCosAngle, MSEFallSinAngle,
      MSEFallHorizontalSpeed, MSEFallVerticalSpeed, MSEFallTime, MSEGuidByte7,
      MSEOrientation, MSEGuidByte0, MSEGuidByte5, MSEGuidByte4,
      MSETimestamp, MSEGuidByte2, MSEGuidByte1, MSEEnd]"

definition SplineMoveSetFeatherFall :: "MovementStatusElements list" where
  "SplineMoveSetFeatherFall =
     [MSEHasGuidByte3, MSEHasGuidByte2, MSEHasGuidByte7, MSEHasGuidByte5,
      MSEHasGuidByte4, MSEHasGuidByte6, MSEHasGuidByte1, MSEHasGuidByte0,
      MSEGuidByte1, MSEGuidByte4, MSEGuidByte7, MSEGuidByte6,
      MSEGuidByte2, MSEGuidByte0, MSEGuidByte5, MSEGuidByte3,
      MSEEnd]"

definition SplineMoveSetNormalFall :: "MovementStatusElements list" where
  "SplineMoveSetNormalFall =
     [MSEHasGuidByte3, MSEHasGuidByte5, MSEHasGuidByte1, MSEHasGuidByte0,
      MSEHasGuidByte7, MSEHasGuidByte6, MSEHasGuidByte2, MSEHasGuidByte4,
      MSEGuidByte7, MSEGuidByte6, MSEGuidByte2, MSEGuidByte0,
      MSEGuidByte5, MSEGuidByte4, MSEGuidByte3, MSEGuidByte1,
      MSEEnd]"

definition MoveFeatherFall :: "MovementStatusElements list" where
  "MoveFeatherFall =
     [MSEHasGuidByte3, MSEHasGuidByte1, MSEHasGuidByte7, MSEHasGuidByte0,
      MSEHasGuidByte4, MSEHasGuidByte2, MSEHasGuidByte5, MSEHasGuidByte6,
      MSEGuidByte5, MSEGuidByte7, MSEGuidByte2, MSECounter,
      MSEGuidByte0, MSEGuidByte3, MSEGuidByte4, MSEGuidByte1,
      MSEGuidByte6, MSEEnd]"

definition MoveNormalFall :: "MovementStatusElements list" where
  "MoveNormalFall =
     [MSECounter, MSEHasGuidByte3, MSEHasGuidByte0, MSEHasGuidByte1,
      MSEHasGuidByte5, MSEHasGuidByte7, MSEHasGuidByte4, MSEHasGuidByte6,
      MSEHasGuidByte2, MSEGuidByte2, MSEGuidByte7, MSEGuidByte1,
      MSEGuidByte4, MSEGuidByte5, MSEGuidByte0, MSEGuidByte3,
      MSEGuidByte6, MSEEnd]"

definition MovementFeatherFallAck :: "MovementStatusElements list" where
  "MovementFeatherFallAck =
     [MSEPositionZ, MSECounter, MSEPositionY, MSEPositionX,
      MSEZeroBit, MSEHasGuidByte3, MSEHasSplineElevation, MSEHasGuidByte1,
      MSEHasPitch, MSEHasGuidByte2, MSEHasSpline, MSEHasTimestamp,
      MSEHasGuidByte5, MSEHasFallData, MSEHasOrientation, MSEHasTransportData,
      MSEHasGuidByte7, MSEHasMovementFlags2, MSEHasGuidByte6, MSEHasMovementFlags,
      MSEHasGuidByte0, MSEHasGuidByte4, MSEHasTransportGuidByte6, MSEHasTransportTime3,
      MSEHasTransportGuidByte2, MSEHasTransportGuidByte4, MSEHasTransportGuidByte7, MSEHasTransportGuidByte3,
      MSEHasTransportGuidByte5, MSEHasTransportTime2, MSEHasTransportGuidByte1, MSEHasTransportGuidByte0,
      MSEHasFallDirection, MSEMovementFlags2, MSEMovementFlags, MSEGuidByte6,
      MSEGuidByte1, MSEGuidByte7, MSEGuidByte0, MSEGuidByte5,
      MSEGuidByte4, MSEGuidByte3, MSEGuidByte2, MSETransportTime3,
      MSETransportOrientation, MSETransportPositionZ, MSETransportGuidByte7, MSETransportGuidByte5,
      MSETransportGuidByte2, MSETransportPositionX, MSETransportGuidByte1, MSETransportGuidByte6,
      MSETransportTime2, MSETransportTime, MSETransportPositionY, MSETransportGuidByte4,
      MSETransportGuidByte0, MSETransportSeat, MSETransportGuidByte3, MSETimestamp,
      MSESplineElevation, MSEOrientation, MSEFallVerticalSpeed, MSEFallCosAngle,
      MSEFallHorizontalSpeed, MSEFallSinAngle, MSEFallTime, MSEPitch,
      MSEEnd]"

definition SplineMoveRoot :: "MovementStatusElements list" where
  "SplineMoveRoot =
     [MSEHasGuidByte5, MSEHasGuidByte4, MSEHasGuidByte6, MSEHasGuidByte1,
      MSEHasGuidByte3, MSEHasGuidByte7, MSEHasGuidByte2, MSEHasGuidByte0,
      MSEGuidByte2, MSEGuidByte1, MSEGuidByte7, MSEGuidByte3,
      MSEGuidByte5, MSEGuidByte0, MSEGuidByte6, MSEGuidByte4,
      MSEEnd]"

definition SplineMoveUnRoot :: "MovementStatusElements list" where
  "SplineMoveUnRoot =
     [MSEHasGuidByte0, MSEHasGuidByte1, MSEHasGuidByte6, MSEHasGuidByte5,
      MSEHasGuidByte3, MSEHasGuidByte2, MSEHasGuidByte7, MSEHasGuidByte4,
      MSEGuidByte6, MSEGuidByte3, MSEGuidByte1, MSEGuidByte5,
      MSEGuidByte2, MSEGuidByte0, MSEGuidByte7, MSEGuidByte4,
      MSEEnd]"

definition MoveRoot :: "MovementStatusElements list" where
  "MoveRoot =
     [MSEHasGuidByte2, MSEHasGuidByte7, MSEHasGuidByte6, MSEHasGuidByte0,
      MSEHasGuidByte5, MSEHasGuidByte4, MSEHasGuidByte1, MSEHasGuidByte3,
      MSEGuidByte1, MSEGuidByte0, MSEGuidByte2, MSEGuidByte5,
      MSECounter, MSEGuidByte3, MSEGuidByte4, MSEGuidByte7,
      MSEGuidByte6, MSEEnd]"

definition MoveUnRoot :: "MovementStatusElements list" where
  "MoveUnRoot =
     [MSEHasGuidByte0, MSEHasGuidByte1, MSEHasGuidByte3, MSEHasGuidByte7,
      MSEHasGuidByte5, MSEHasGuidByte2, MSEHasGuidByte4, MSEHasGuidByte6,
      MSEGuidByte3, MSEGuidByte6, MSEGuidByte1, MSECounter,
      MSEGuidByte2, MSEGuidByte0, MSEGuidByte7, MSEGuidByte4,
      MSEGuidByte5, MSEEnd]"

end
