(* ===== verification/MovementSequences.thy ===== *)
theory MovementSequences
  imports MovementTablesSpeed MovementTablesMove MovementTablesState
begin

text \<open>
  The movement opcodes of \<^verbatim>\<open>game/Server/Protocol/Opcodes.h\<close> and the function
  \<^verbatim>\<open>GetMovementStatusElementsSequence\<close> of \<^verbatim>\<open>game/Movement/MovementStructures.cpp\<close> that picks the element
  table of an opcode, with what makes a table usable: it ends in time, its bits form one run, and
  every conditional element comes after the bit that announces it.
\<close>

section \<open>Opcodes\<close>

type_synonym Opcodes = nat

definition MSG_MOVE_FALL_LAND :: Opcodes where "MSG_MOVE_FALL_LAND = 0x380A"
definition MSG_MOVE_HEARTBEAT :: Opcodes where "MSG_MOVE_HEARTBEAT = 0x3914"
definition MSG_MOVE_JUMP :: Opcodes where "MSG_MOVE_JUMP = 0x7A06"
definition MSG_MOVE_SET_FACING :: Opcodes where "MSG_MOVE_SET_FACING = 0x7914"
definition MSG_MOVE_SET_PITCH :: Opcodes where "MSG_MOVE_SET_PITCH = 0x7312"
definition MSG_MOVE_START_ASCEND :: Opcodes where "MSG_MOVE_START_ASCEND = 0x390A"
definition MSG_MOVE_START_BACKWARD :: Opcodes where "MSG_MOVE_START_BACKWARD = 0x330A"
definition MSG_MOVE_START_DESCEND :: Opcodes where "MSG_MOVE_START_DESCEND = 0x3800"
definition MSG_MOVE_START_FORWARD :: Opcodes where "MSG_MOVE_START_FORWARD = 0x7814"
definition MSG_MOVE_START_PITCH_DOWN :: Opcodes where "MSG_MOVE_START_PITCH_DOWN = 0x3908"
definition MSG_MOVE_START_PITCH_UP :: Opcodes where "MSG_MOVE_START_PITCH_UP = 0x3304"
definition MSG_MOVE_START_STRAFE_LEFT :: Opcodes where "MSG_MOVE_START_STRAFE_LEFT = 0x3A16"
definition MSG_MOVE_START_STRAFE_RIGHT :: Opcodes where "MSG_MOVE_START_STRAFE_RIGHT = 0x3A02"
definition SMSG_MOVE_START_SWIM :: Opcodes where "SMSG_MOVE_START_SWIM = 0x3206"
definition MSG_MOVE_START_TURN_LEFT :: Opcodes where "MSG_MOVE_START_TURN_LEFT = 0x700C"
definition MSG_MOVE_START_TURN_RIGHT :: Opcodes where "MSG_MOVE_START_TURN_RIGHT = 0x7000"
definition MSG_MOVE_STOP :: Opcodes where "MSG_MOVE_STOP = 0x320A"
definition MSG_MOVE_STOP_ASCEND :: Opcodes where "MSG_MOVE_STOP_ASCEND = 0x7B00"
definition MSG_MOVE_STOP_PITCH :: Opcodes where "MSG_MOVE_STOP_PITCH = 0x7216"
definition MSG_MOVE_STOP_STRAFE :: Opcodes where "MSG_MOVE_STOP_STRAFE = 0x3002"
definition SMSG_MOVE_STOP_SWIM :: Opcodes where "SMSG_MOVE_STOP_SWIM = 0x3802"
definition MSG_MOVE_STOP_TURN :: Opcodes where "MSG_MOVE_STOP_TURN = 0x331E"
definition SMSG_PLAYER_MOVE :: Opcodes where "SMSG_PLAYER_MOVE = 0x79A2"
definition CMSG_MOVE_CHNG_TRANSPORT :: Opcodes where "CMSG_MOVE_CHNG_TRANSPORT = 0x3102"
definition CMSG_MOVE_SPLINE_DONE :: Opcodes where "CMSG_MOVE_SPLINE_DONE = 0x790E"
definition CMSG_MOVE_NOT_ACTIVE_MOVER :: Opcodes where "CMSG_MOVE_NOT_ACTIVE_MOVER = 0x7A1A"
definition CMSG_DISMISS_CONTROLLED_VEHICLE :: Opcodes where "CMSG_DISMISS_CONTROLLED_VEHICLE = 0x3218"
definition SMSG_MOVE_UPDATE_TELEPORT :: Opcodes where "SMSG_MOVE_UPDATE_TELEPORT = 0x50B2"
definition CMSG_MOVE_FORCE_RUN_SPEED_CHANGE_ACK :: Opcodes where "CMSG_MOVE_FORCE_RUN_SPEED_CHANGE_ACK = 0x7818"
definition CMSG_MOVE_FORCE_FLIGHT_SPEED_CHANGE_ACK :: Opcodes where "CMSG_MOVE_FORCE_FLIGHT_SPEED_CHANGE_ACK = 0x7314"
definition CMSG_MOVE_FORCE_RUN_BACK_SPEED_CHANGE_ACK :: Opcodes where "CMSG_MOVE_FORCE_RUN_BACK_SPEED_CHANGE_ACK = 0x3216"
definition CMSG_MOVE_FORCE_WALK_SPEED_CHANGE_ACK :: Opcodes where "CMSG_MOVE_FORCE_WALK_SPEED_CHANGE_ACK = 0x7210"
definition CMSG_MOVE_FORCE_SWIM_SPEED_CHANGE_ACK :: Opcodes where "CMSG_MOVE_FORCE_SWIM_SPEED_CHANGE_ACK = 0x7A10"
definition CMSG_MOVE_FORCE_SWIM_BACK_SPEED_CHANGE_ACK :: Opcodes where "CMSG_MOVE_FORCE_SWIM_BACK_SPEED_CHANGE_ACK = 0x7A16"
definition CMSG_MOVE_FORCE_TURN_RATE_CHANGE_ACK :: Opcodes where "CMSG_MOVE_FORCE_TURN_RATE_CHANGE_ACK = 0x7316"
definition CMSG_MOVE_FORCE_FLIGHT_BACK_SPEED_CHANGE_ACK :: Opcodes where "CMSG_MOVE_FORCE_FLIGHT_BACK_SPEED_CHANGE_ACK = 0x310E"
definition CMSG_MOVE_FORCE_PITCH_RATE_CHANGE_ACK :: Opcodes where "CMSG_MOVE_FORCE_PITCH_RATE_CHANGE_ACK = 0x3100"
definition SMSG_MOVE_UPDATE_WALK_SPEED :: Opcodes where "SMSG_MOVE_UPDATE_WALK_SPEED = 0x54A2"
definition SMSG_MOVE_UPDATE_RUN_SPEED :: Opcodes where "SMSG_MOVE_UPDATE_RUN_SPEED = 0x14A6"
definition SMSG_MOVE_UPDATE_RUN_BACK_SPEED :: Opcodes where "SMSG_MOVE_UPDATE_RUN_BACK_SPEED = 0x3DA6"
definition SMSG_MOVE_UPDATE_SWIM_SPEED :: Opcodes where "SMSG_MOVE_UPDATE_SWIM_SPEED = 0x59B5"
definition SMSG_MOVE_UPDATE_SWIM_BACK_SPEED :: Opcodes where "SMSG_MOVE_UPDATE_SWIM_BACK_SPEED = 0x30B5"
definition SMSG_MOVE_UPDATE_FLIGHT_SPEED :: Opcodes where "SMSG_MOVE_UPDATE_FLIGHT_SPEED = 0x30B1"
definition SMSG_SPLINE_MOVE_SET_WALK_SPEED :: Opcodes where "SMSG_SPLINE_MOVE_SET_WALK_SPEED = 0x34A5"
definition SMSG_SPLINE_MOVE_SET_RUN_SPEED :: Opcodes where "SMSG_SPLINE_MOVE_SET_RUN_SPEED = 0x51B7"
definition SMSG_SPLINE_MOVE_SET_RUN_BACK_SPEED :: Opcodes where "SMSG_SPLINE_MOVE_SET_RUN_BACK_SPEED = 0x3DB3"
definition SMSG_SPLINE_MOVE_SET_SWIM_SPEED :: Opcodes where "SMSG_SPLINE_MOVE_SET_SWIM_SPEED = 0x39A4"
definition SMSG_SPLINE_MOVE_SET_SWIM_BACK_SPEED :: Opcodes where "SMSG_SPLINE_MOVE_SET_SWIM_BACK_SPEED = 0x59A1"
definition SMSG_SPLINE_MOVE_SET_TURN_RATE :: Opcodes where "SMSG_SPLINE_MOVE_SET_TURN_RATE = 0x78B5"
definition SMSG_SPLINE_MOVE_SET_FLIGHT_SPEED :: Opcodes where "SMSG_SPLINE_MOVE_SET_FLIGHT_SPEED = 0x39A0"
definition SMSG_SPLINE_MOVE_SET_FLIGHT_BACK_SPEED :: Opcodes where "SMSG_SPLINE_MOVE_SET_FLIGHT_BACK_SPEED = 0x38B3"
definition SMSG_SPLINE_MOVE_SET_PITCH_RATE :: Opcodes where "SMSG_SPLINE_MOVE_SET_PITCH_RATE = 0x14B0"
definition SMSG_MOVE_SET_WALK_SPEED :: Opcodes where "SMSG_MOVE_SET_WALK_SPEED = 0x1DA4"
definition SMSG_MOVE_SET_RUN_SPEED :: Opcodes where "SMSG_MOVE_SET_RUN_SPEED = 0x3DB5"
definition SMSG_MOVE_SET_RUN_BACK_SPEED :: Opcodes where "SMSG_MOVE_SET_RUN_BACK_SPEED = 0x71B1"
definition SMSG_MOVE_SET_SWIM_SPEED :: Opcodes where "SMSG_MOVE_SET_SWIM_SPEED = 0x15A7"
definition SMSG_MOVE_SET_SWIM_BACK_SPEED :: Opcodes where "SMSG_MOVE_SET_SWIM_BACK_SPEED = 0x5CA6"
definition SMSG_MOVE_SET_TURN_RATE :: Opcodes where "SMSG_MOVE_SET_TURN_RATE = 0x30A5"
definition SMSG_MOVE_SET_FLIGHT_SPEED :: Opcodes where "SMSG_MOVE_SET_FLIGHT_SPEED = 0x71A6"
definition SMSG_MOVE_SET_FLIGHT_BACK_SPEED :: Opcodes where "SMSG_MOVE_SET_FLIGHT_BACK_SPEED = 0x30A2"
definition SMSG_MOVE_SET_PITCH_RATE :: Opcodes where "SMSG_MOVE_SET_PITCH_RATE = 0x75B0"
definition SMSG_SPLINE_MOVE_GRAVITY_DISABLE :: Opcodes where "SMSG_SPLINE_MOVE_GRAVITY_DISABLE = 0x5DB5"
definition SMSG_SPLINE_MOVE_GRAVITY_ENABLE :: Opcodes where "SMSG_SPLINE_MOVE_GRAVITY_ENABLE = 0x3CA6"
definition SMSG_MOVE_GRAVITY_DISABLE :: Opcodes where "SMSG_MOVE_GRAVITY_DISABLE = 0x75B2"
definition SMSG_MOVE_GRAVITY_ENABLE :: Opcodes where "SMSG_MOVE_GRAVITY_ENABLE = 0x30B3"
definition CMSG_MOVE_GRAVITY_DISABLE_ACK :: Opcodes where "CMSG_MOVE_GRAVITY_DISABLE_ACK = 0x3118"
definition CMSG_MOVE_GRAVITY_ENABLE_ACK :: Opcodes where "CMSG_MOVE_GRAVITY_ENABLE_ACK = 0x700A"
definition SMSG_SPLINE_MOVE_START_SWIM :: Opcodes where "SMSG_SPLINE_MOVE_START_SWIM = 0x31A5"
definition SMSG_SPLINE_MOVE_STOP_SWIM :: Opcodes where "SMSG_SPLINE_MOVE_STOP_SWIM = 0x1DA2"
definition SMSG_SPLINE_MOVE_SET_WALK_MODE :: Opcodes where "SMSG_SPLINE_MOVE_SET_WALK_MODE = 0x54B6"
definition SMSG_SPLINE_MOVE_SET_RUN_MODE :: Opcodes where "SMSG_SPLINE_MOVE_SET_RUN_MODE = 0x75A7"
definition SMSG_MOVE_SET_RUN_MODE :: Opcodes where "SMSG_MOVE_SET_RUN_MODE = 0x791A"
definition SMSG_MOVE_SET_WALK_MODE :: Opcodes where "SMSG_MOVE_SET_WALK_MODE = 0x7002"
definition SMSG_MOVE_SET_HOVER :: Opcodes where "SMSG_MOVE_SET_HOVER = 0x5CB3"
definition SMSG_MOVE_UNSET_HOVER :: Opcodes where "SMSG_MOVE_UNSET_HOVER = 0x51B3"
definition SMSG_SPLINE_MOVE_SET_HOVER :: Opcodes where "SMSG_SPLINE_MOVE_SET_HOVER = 0x14B6"
definition SMSG_SPLINE_MOVE_UNSET_HOVER :: Opcodes where "SMSG_SPLINE_MOVE_UNSET_HOVER = 0x7DA5"
definition CMSG_MOVE_HOVER_ACK :: Opcodes where "CMSG_MOVE_HOVER_ACK = 0x3318"
definition SMSG_MOVE_WATER_WALK :: Opcodes where "SMSG_MOVE_WATER_WALK = 0x75B1"
definition SMSG_MOVE_LAND_WALK :: Opcodes where "SMSG_MOVE_LAND_WALK = 0x34B7"
definition SMSG_SPLINE_MOVE_SET_LAND_WALK :: Opcodes where "SMSG_SPLINE_MOVE_SET_LAND_WALK = 0x3DA7"
definition SMSG_SPLINE_MOVE_SET_WATER_WALK :: Opcodes where "SMSG_SPLINE_MOVE_SET_WATER_WALK = 0x50A2"
definition CMSG_MOVE_WATER_WALK_ACK :: Opcodes where "CMSG_MOVE_WATER_WALK_ACK = 0x3B00"
definition SMSG_SPLINE_MOVE_SET_FLYING :: Opcodes where "SMSG_SPLINE_MOVE_SET_FLYING = 0x31B5"
definition SMSG_SPLINE_MOVE_UNSET_FLYING :: Opcodes where "SMSG_SPLINE_MOVE_UNSET_FLYING = 0x58A6"
definition SMSG_MOVE_SET_CAN_FLY :: Opcodes where "SMSG_MOVE_SET_CAN_FLY = 0x3DA1"
definition SMSG_MOVE_UNSET_CAN_FLY :: Opcodes where "SMSG_MOVE_UNSET_CAN_FLY = 0x15A2"
definition CMSG_MOVE_SET_CAN_FLY_ACK :: Opcodes where "CMSG_MOVE_SET_CAN_FLY_ACK = 0x790C"
definition SMSG_MOVE_SET_COLLISION_HEIGHT :: Opcodes where "SMSG_MOVE_SET_COLLISION_HEIGHT = 0x11B0"
definition CMSG_MOVE_SET_COLLISION_HEIGHT_ACK :: Opcodes where "CMSG_MOVE_SET_COLLISION_HEIGHT_ACK = 0x7114"
definition SMSG_MOVE_UPDATE_COLLISION_HEIGHT :: Opcodes where "SMSG_MOVE_UPDATE_COLLISION_HEIGHT = 0x59A3"
definition SMSG_SPLINE_MOVE_SET_FEATHER_FALL :: Opcodes where "SMSG_SPLINE_MOVE_SET_FEATHER_FALL = 0x3DA5"
definition SMSG_SPLINE_MOVE_SET_NORMAL_FALL :: Opcodes where "SMSG_SPLINE_MOVE_SET_NORMAL_FALL = 0x38B2"
definition SMSG_MOVE_FEATHER_FALL :: Opcodes where "SMSG_MOVE_FEATHER_FALL = 0x79B0"
definition SMSG_MOVE_NORMAL_FALL :: Opcodes where "SMSG_MOVE_NORMAL_FALL = 0x51B6"
definition CMSG_MOVE_FEATHER_FALL_ACK :: Opcodes where "CMSG_MOVE_FEATHER_FALL_ACK = 0x3110"
definition SMSG_SPLINE_MOVE_ROOT :: Opcodes where "SMSG_SPLINE_MOVE_ROOT = 0x51B4"
definition SMSG_SPLINE_MOVE_UNROOT :: Opcodes where "SMSG_SPLINE_MOVE_UNROOT = 0x75B6"
definition SMSG_MOVE_ROOT :: Opcodes where "SMSG_MOVE_ROOT = 0x7DA0"
definition SMSG_MOVE_UNROOT :: Opcodes where "SMSG_MOVE_UNROOT = 0x7DB4"
definition CMSG_FORCE_MOVE_ROOT_ACK :: Opcodes where "CMSG_FORCE_MOVE_ROOT_ACK = 0x701E"
definition CMSG_FORCE_MOVE_UNROOT_ACK :: Opcodes where "CMSG_FORCE_MOVE_UNROOT_ACK = 0x7808"
definition SMSG_MOVE_UPDATE_KNOCK_BACK :: Opcodes where "SMSG_MOVE_UPDATE_KNOCK_BACK = 0x3DB2"
definition SMSG_MOVE_TELEPORT :: Opcodes where "SMSG_MOVE_TELEPORT = 0x55A0"
definition CMSG_MOVE_KNOCK_BACK_ACK :: Opcodes where "CMSG_MOVE_KNOCK_BACK_ACK = 0x721C"

lemmas opcode_defs =
  MSG_MOVE_FALL_LAND_def MSG_MOVE_HEARTBEAT_def MSG_MOVE_JUMP_def
  MSG_MOVE_SET_FACING_def MSG_MOVE_SET_PITCH_def MSG_MOVE_START_ASCEND_def
  MSG_MOVE_START_BACKWARD_def MSG_MOVE_START_DESCEND_def MSG_MOVE_START_FORWARD_def
  MSG_MOVE_START_PITCH_DOWN_def MSG_MOVE_START_PITCH_UP_def MSG_MOVE_START_STRAFE_LEFT_def
  MSG_MOVE_START_STRAFE_RIGHT_def SMSG_MOVE_START_SWIM_def MSG_MOVE_START_TURN_LEFT_def
  MSG_MOVE_START_TURN_RIGHT_def MSG_MOVE_STOP_def MSG_MOVE_STOP_ASCEND_def
  MSG_MOVE_STOP_PITCH_def MSG_MOVE_STOP_STRAFE_def SMSG_MOVE_STOP_SWIM_def
  MSG_MOVE_STOP_TURN_def SMSG_PLAYER_MOVE_def CMSG_MOVE_CHNG_TRANSPORT_def
  CMSG_MOVE_SPLINE_DONE_def CMSG_MOVE_NOT_ACTIVE_MOVER_def CMSG_DISMISS_CONTROLLED_VEHICLE_def
  SMSG_MOVE_UPDATE_TELEPORT_def CMSG_MOVE_FORCE_RUN_SPEED_CHANGE_ACK_def CMSG_MOVE_FORCE_FLIGHT_SPEED_CHANGE_ACK_def
  CMSG_MOVE_FORCE_RUN_BACK_SPEED_CHANGE_ACK_def CMSG_MOVE_FORCE_WALK_SPEED_CHANGE_ACK_def CMSG_MOVE_FORCE_SWIM_SPEED_CHANGE_ACK_def
  CMSG_MOVE_FORCE_SWIM_BACK_SPEED_CHANGE_ACK_def CMSG_MOVE_FORCE_TURN_RATE_CHANGE_ACK_def CMSG_MOVE_FORCE_FLIGHT_BACK_SPEED_CHANGE_ACK_def
  CMSG_MOVE_FORCE_PITCH_RATE_CHANGE_ACK_def SMSG_MOVE_UPDATE_WALK_SPEED_def SMSG_MOVE_UPDATE_RUN_SPEED_def
  SMSG_MOVE_UPDATE_RUN_BACK_SPEED_def SMSG_MOVE_UPDATE_SWIM_SPEED_def SMSG_MOVE_UPDATE_SWIM_BACK_SPEED_def
  SMSG_MOVE_UPDATE_FLIGHT_SPEED_def SMSG_SPLINE_MOVE_SET_WALK_SPEED_def SMSG_SPLINE_MOVE_SET_RUN_SPEED_def
  SMSG_SPLINE_MOVE_SET_RUN_BACK_SPEED_def SMSG_SPLINE_MOVE_SET_SWIM_SPEED_def SMSG_SPLINE_MOVE_SET_SWIM_BACK_SPEED_def
  SMSG_SPLINE_MOVE_SET_TURN_RATE_def SMSG_SPLINE_MOVE_SET_FLIGHT_SPEED_def SMSG_SPLINE_MOVE_SET_FLIGHT_BACK_SPEED_def
  SMSG_SPLINE_MOVE_SET_PITCH_RATE_def SMSG_MOVE_SET_WALK_SPEED_def SMSG_MOVE_SET_RUN_SPEED_def
  SMSG_MOVE_SET_RUN_BACK_SPEED_def SMSG_MOVE_SET_SWIM_SPEED_def SMSG_MOVE_SET_SWIM_BACK_SPEED_def
  SMSG_MOVE_SET_TURN_RATE_def SMSG_MOVE_SET_FLIGHT_SPEED_def SMSG_MOVE_SET_FLIGHT_BACK_SPEED_def
  SMSG_MOVE_SET_PITCH_RATE_def SMSG_SPLINE_MOVE_GRAVITY_DISABLE_def SMSG_SPLINE_MOVE_GRAVITY_ENABLE_def
  SMSG_MOVE_GRAVITY_DISABLE_def SMSG_MOVE_GRAVITY_ENABLE_def CMSG_MOVE_GRAVITY_DISABLE_ACK_def
  CMSG_MOVE_GRAVITY_ENABLE_ACK_def SMSG_SPLINE_MOVE_START_SWIM_def SMSG_SPLINE_MOVE_STOP_SWIM_def
  SMSG_SPLINE_MOVE_SET_WALK_MODE_def SMSG_SPLINE_MOVE_SET_RUN_MODE_def SMSG_MOVE_SET_RUN_MODE_def
  SMSG_MOVE_SET_WALK_MODE_def SMSG_MOVE_SET_HOVER_def SMSG_MOVE_UNSET_HOVER_def
  SMSG_SPLINE_MOVE_SET_HOVER_def SMSG_SPLINE_MOVE_UNSET_HOVER_def CMSG_MOVE_HOVER_ACK_def
  SMSG_MOVE_WATER_WALK_def SMSG_MOVE_LAND_WALK_def SMSG_SPLINE_MOVE_SET_LAND_WALK_def
  SMSG_SPLINE_MOVE_SET_WATER_WALK_def CMSG_MOVE_WATER_WALK_ACK_def SMSG_SPLINE_MOVE_SET_FLYING_def
  SMSG_SPLINE_MOVE_UNSET_FLYING_def SMSG_MOVE_SET_CAN_FLY_def SMSG_MOVE_UNSET_CAN_FLY_def
  CMSG_MOVE_SET_CAN_FLY_ACK_def SMSG_MOVE_SET_COLLISION_HEIGHT_def CMSG_MOVE_SET_COLLISION_HEIGHT_ACK_def
  SMSG_MOVE_UPDATE_COLLISION_HEIGHT_def SMSG_SPLINE_MOVE_SET_FEATHER_FALL_def SMSG_SPLINE_MOVE_SET_NORMAL_FALL_def
  SMSG_MOVE_FEATHER_FALL_def SMSG_MOVE_NORMAL_FALL_def CMSG_MOVE_FEATHER_FALL_ACK_def
  SMSG_SPLINE_MOVE_ROOT_def SMSG_SPLINE_MOVE_UNROOT_def SMSG_MOVE_ROOT_def
  SMSG_MOVE_UNROOT_def CMSG_FORCE_MOVE_ROOT_ACK_def CMSG_FORCE_MOVE_UNROOT_ACK_def
  SMSG_MOVE_UPDATE_KNOCK_BACK_def SMSG_MOVE_TELEPORT_def CMSG_MOVE_KNOCK_BACK_ACK_def

section \<open>The table of an opcode\<close>

text \<open>The \<^verbatim>\<open>switch\<close> of \<^verbatim>\<open>GetMovementStatusElementsSequence\<close>, case by case.\<close>

definition movement_sequences :: "(Opcodes \<times> MovementStatusElements list) list" where
  "movement_sequences =
     [(MSG_MOVE_FALL_LAND, MovementFallLandSequence),
      (MSG_MOVE_HEARTBEAT, MovementHeartBeatSequence),
      (MSG_MOVE_JUMP, MovementJumpSequence),
      (MSG_MOVE_SET_FACING, MovementSetFacingSequence),
      (MSG_MOVE_SET_PITCH, MovementSetPitchSequence),
      (MSG_MOVE_START_ASCEND, MovementStartAscendSequence),
      (MSG_MOVE_START_BACKWARD, MovementStartBackwardSequence),
      (MSG_MOVE_START_DESCEND, MovementStartDescendSequence),
      (MSG_MOVE_START_FORWARD, MovementStartForwardSequence),
      (MSG_MOVE_START_PITCH_DOWN, MovementStartPitchDownSequence),
      (MSG_MOVE_START_PITCH_UP, MovementStartPitchUpSequence),
      (MSG_MOVE_START_STRAFE_LEFT, MovementStartStrafeLeftSequence),
      (MSG_MOVE_START_STRAFE_RIGHT, MovementStartStrafeRightSequence),
      (SMSG_MOVE_START_SWIM, MovementStartSwimSequence),
      (MSG_MOVE_START_TURN_LEFT, MovementStartTurnLeftSequence),
      (MSG_MOVE_START_TURN_RIGHT, MovementStartTurnRightSequence),
      (MSG_MOVE_STOP, MovementStopSequence),
      (MSG_MOVE_STOP_ASCEND, MovementStopAscendSequence),
      (MSG_MOVE_STOP_PITCH, MovementStopPitchSequence),
      (MSG_MOVE_STOP_STRAFE, MovementStopStrafeSequence),
      (SMSG_MOVE_STOP_SWIM, MovementStopSwimSequence),
      (MSG_MOVE_STOP_TURN, MovementStopTurnSequence),
      (SMSG_PLAYER_MOVE, PlayerMoveSequence),
      (CMSG_MOVE_CHNG_TRANSPORT, MoveChngTransport),
      (CMSG_MOVE_SPLINE_DONE, MoveSplineDone),
      (CMSG_MOVE_NOT_ACTIVE_MOVER, MoveNotActiveMover),
      (CMSG_DISMISS_CONTROLLED_VEHICLE, DismissControlledVehicle),
      (SMSG_MOVE_UPDATE_TELEPORT, MoveUpdateTeleport),
      (CMSG_MOVE_FORCE_RUN_SPEED_CHANGE_ACK, MoveForceRunSpeedChangeAck),
      (CMSG_MOVE_FORCE_FLIGHT_SPEED_CHANGE_ACK, MoveForceFlightSpeedChangeAck),
      (CMSG_MOVE_FORCE_RUN_BACK_SPEED_CHANGE_ACK, MoveForceRunBackSpeedChangeAck),
      (CMSG_MOVE_FORCE_WALK_SPEED_CHANGE_ACK, MoveForceWalkSpeedChangeAck),
      (CMSG_MOVE_FORCE_SWIM_SPEED_CHANGE_ACK, MoveForceSwimSpeedChangeAck),
      (CMSG_MOVE_FORCE_SWIM_BACK_SPEED_CHANGE_ACK, MoveForceSwimBackSpeedChangeAck),
      (CMSG_MOVE_FORCE_TURN_RATE_CHANGE_ACK, MoveForceTurnRateSpeedChangeAck),
      (CMSG_MOVE_FORCE_FLIGHT_BACK_SPEED_CHANGE_ACK, MoveForceFlightBackSpeedChangeAck),
      (CMSG_MOVE_FORCE_PITCH_RATE_CHANGE_ACK, MoveForcePitchRateChangeAck),
      (SMSG_MOVE_UPDATE_WALK_SPEED, MoveUpdateWalkSpeed),
      (SMSG_MOVE_UPDATE_RUN_SPEED, MoveUpdateRunSpeed),
      (SMSG_MOVE_UPDATE_RUN_BACK_SPEED, MoveUpdateRunBackSpeed),
      (SMSG_MOVE_UPDATE_SWIM_SPEED, MoveUpdateSwimSpeed),
      (SMSG_MOVE_UPDATE_SWIM_BACK_SPEED, MoveUpdateSwimBackSpeed),
      (SMSG_MOVE_UPDATE_FLIGHT_SPEED, MoveUpdateFlightSpeed),
      (SMSG_SPLINE_MOVE_SET_WALK_SPEED, SplineMoveSetWalkSpeed),
      (SMSG_SPLINE_MOVE_SET_RUN_SPEED, SplineMoveSetRunSpeed),
      (SMSG_SPLINE_MOVE_SET_RUN_BACK_SPEED, SplineMoveSetRunBackSpeed),
      (SMSG_SPLINE_MOVE_SET_SWIM_SPEED, SplineMoveSetSwimSpeed),
      (SMSG_SPLINE_MOVE_SET_SWIM_BACK_SPEED, SplineMoveSetSwimBackSpeed),
      (SMSG_SPLINE_MOVE_SET_TURN_RATE, SplineMoveSetTurnRate),
      (SMSG_SPLINE_MOVE_SET_FLIGHT_SPEED, SplineMoveSetFlightSpeed),
      (SMSG_SPLINE_MOVE_SET_FLIGHT_BACK_SPEED, SplineMoveSetFlightBackSpeed),
      (SMSG_SPLINE_MOVE_SET_PITCH_RATE, SplineMoveSetPitchRate),
      (SMSG_MOVE_SET_WALK_SPEED, MoveSetWalkSpeed),
      (SMSG_MOVE_SET_RUN_SPEED, MoveSetRunSpeed),
      (SMSG_MOVE_SET_RUN_BACK_SPEED, MoveSetRunBackSpeed),
      (SMSG_MOVE_SET_SWIM_SPEED, MoveSetSwimSpeed),
      (SMSG_MOVE_SET_SWIM_BACK_SPEED, MoveSetSwimBackSpeed),
      (SMSG_MOVE_SET_TURN_RATE, MoveSetTurnRate),
      (SMSG_MOVE_SET_FLIGHT_SPEED, MoveSetFlightSpeed),
      (SMSG_MOVE_SET_FLIGHT_BACK_SPEED, MoveSetFlightBackSpeed),
      (SMSG_MOVE_SET_PITCH_RATE, MoveSetPitchRate),
      (SMSG_SPLINE_MOVE_GRAVITY_DISABLE, SplineMoveGravityDisable),
      (SMSG_SPLINE_MOVE_GRAVITY_ENABLE, SplineMoveGravityEnable),
      (SMSG_MOVE_GRAVITY_DISABLE, MoveGravityDisable),
      (SMSG_MOVE_GRAVITY_ENABLE, MoveGravityEnable),
      (CMSG_MOVE_GRAVITY_DISABLE_ACK, MovementGravityDisableAck),
      (CMSG_MOVE_GRAVITY_ENABLE_ACK, MovementGravityEnableAck),
      (SMSG_SPLINE_MOVE_START_SWIM, SplineMoveStartSwim),
      (SMSG_SPLINE_MOVE_STOP_SWIM, SplineMoveStopSwim),
      (SMSG_SPLINE_MOVE_SET_WALK_MODE, SplineMoveSetWalkMode),
      (SMSG_SPLINE_MOVE_SET_RUN_MODE, SplineMoveSetRunMode),
      (SMSG_MOVE_SET_RUN_MODE, MovementSetRunMode),
      (SMSG_MOVE_SET_WALK_MODE, MovementSetWalkMode),
      (SMSG_MOVE_SET_HOVER, MoveSetHover),
      (SMSG_MOVE_UNSET_HOVER, MoveUnsetHover),
      (SMSG_SPLINE_MOVE_SET_HOVER, SplineMoveSetHover),
      (SMSG_SPLINE_MOVE_UNSET_HOVER, SplineMoveUnsetHover),
      (CMSG_MOVE_HOVER_ACK, MovementHoverAck),
      (SMSG_MOVE_WATER_WALK, MoveWaterWalk),
      (SMSG_MOVE_LAND_WALK, MoveLandWalk),
      (SMSG_SPLINE_MOVE_SET_LAND_WALK, SplineMoveLandWalk),
      (SMSG_SPLINE_MOVE_SET_WATER_WALK, SplineMoveWaterWalk),
      (CMSG_MOVE_WATER_WALK_ACK, MovementWaterWalkAck),
      (SMSG_SPLINE_MOVE_SET_FLYING, SplineMoveSetFlying),
      (SMSG_SPLINE_MOVE_UNSET_FLYING, SplineMoveUnsetFlying),
      (SMSG_MOVE_SET_CAN_FLY, MoveSetCanFly),
      (SMSG_MOVE_UNSET_CAN_FLY, MoveUnsetCanFly),
      (CMSG_MOVE_SET_CAN_FLY_ACK, MovementSetCanFlyAck),
      (SMSG_MOVE_SET_COLLISION_HEIGHT, MoveSetCollisionHeight),
      (CMSG_MOVE_SET_COLLISION_HEIGHT_ACK, MovementSetCollisionHeightAck),
      (SMSG_MOVE_UPDATE_COLLISION_HEIGHT, MovementUpdateCollisionHeight),
      (SMSG_SPLINE_MOVE_SET_FEATHER_FALL, SplineMoveSetFeatherFall),
      (SMSG_SPLINE_MOVE_SET_NORMAL_FALL, SplineMoveSetNormalFall),
      (SMSG_MOVE_FEATHER_FALL, MoveFeatherFall),
      (SMSG_MOVE_NORMAL_FALL, MoveNormalFall),
      (CMSG_MOVE_FEATHER_FALL_ACK, MovementFeatherFallAck),
      (SMSG_SPLINE_MOVE_ROOT, SplineMoveRoot),
      (SMSG_SPLINE_MOVE_UNROOT, SplineMoveUnRoot),
      (SMSG_MOVE_ROOT, MoveRoot),
      (SMSG_MOVE_UNROOT, MoveUnRoot),
      (CMSG_FORCE_MOVE_ROOT_ACK, MoveRootAck),
      (CMSG_FORCE_MOVE_UNROOT_ACK, MoveUnrootAck)]"

definition GetMovementStatusElementsSequence :: "Opcodes \<Rightarrow> MovementStatusElements list option" where
  "GetMovementStatusElementsSequence opcode = map_of movement_sequences opcode"

lemmas sequence_defs =
  SplineMoveSetWalkSpeed_def SplineMoveSetRunSpeed_def SplineMoveSetRunBackSpeed_def
  SplineMoveSetSwimSpeed_def SplineMoveSetSwimBackSpeed_def SplineMoveSetTurnRate_def
  SplineMoveSetFlightSpeed_def SplineMoveSetFlightBackSpeed_def SplineMoveSetPitchRate_def
  MoveSetWalkSpeed_def MoveSetRunSpeed_def MoveSetRunBackSpeed_def
  MoveSetSwimSpeed_def MoveSetSwimBackSpeed_def MoveSetTurnRate_def
  MoveSetFlightSpeed_def MoveSetFlightBackSpeed_def MoveSetPitchRate_def
  MoveUnrootAck_def MoveRootAck_def MoveUpdateFlightSpeed_def
  MoveUpdateSwimBackSpeed_def MoveUpdateSwimSpeed_def MoveUpdateRunBackSpeed_def
  MoveUpdateRunSpeed_def MoveUpdateWalkSpeed_def MoveForcePitchRateChangeAck_def
  MoveForceFlightBackSpeedChangeAck_def MoveForceTurnRateSpeedChangeAck_def MoveForceSwimBackSpeedChangeAck_def
  MoveForceSwimSpeedChangeAck_def MoveForceWalkSpeedChangeAck_def MoveForceRunBackSpeedChangeAck_def
  MoveForceFlightSpeedChangeAck_def MoveForceRunSpeedChangeAck_def PlayerMoveSequence_def
  MovementFallLandSequence_def MovementHeartBeatSequence_def MovementJumpSequence_def
  MovementSetFacingSequence_def MovementSetPitchSequence_def MovementStartBackwardSequence_def
  MovementStartForwardSequence_def MovementStartStrafeLeftSequence_def MovementStartStrafeRightSequence_def
  MovementStartTurnLeftSequence_def MovementStartTurnRightSequence_def MovementStopSequence_def
  MovementStopStrafeSequence_def MovementStopTurnSequence_def MovementStartAscendSequence_def
  MovementStartDescendSequence_def MovementStartSwimSequence_def MovementStopSwimSequence_def
  MovementStopAscendSequence_def MovementStopPitchSequence_def MovementStartPitchDownSequence_def
  MovementStartPitchUpSequence_def MoveChngTransport_def MoveSplineDone_def
  MoveNotActiveMover_def DismissControlledVehicle_def MoveUpdateTeleport_def
  SplineMoveGravityDisable_def SplineMoveGravityEnable_def MoveGravityDisable_def
  MoveGravityEnable_def MovementGravityDisableAck_def MovementGravityEnableAck_def
  SplineMoveStartSwim_def SplineMoveStopSwim_def SplineMoveSetWalkMode_def
  SplineMoveSetRunMode_def MovementSetRunMode_def MovementSetWalkMode_def
  MoveSetHover_def MoveUnsetHover_def SplineMoveSetHover_def
  SplineMoveUnsetHover_def MovementHoverAck_def MoveWaterWalk_def
  MoveLandWalk_def SplineMoveLandWalk_def SplineMoveWaterWalk_def
  MovementWaterWalkAck_def SplineMoveSetFlying_def SplineMoveUnsetFlying_def
  MoveSetCanFly_def MoveUnsetCanFly_def MovementSetCanFlyAck_def
  MoveSetCollisionHeight_def MovementSetCollisionHeightAck_def MovementUpdateCollisionHeight_def
  SplineMoveSetFeatherFall_def SplineMoveSetNormalFall_def MoveFeatherFall_def
  MoveNormalFall_def MovementFeatherFallAck_def SplineMoveRoot_def
  SplineMoveUnRoot_def MoveRoot_def MoveUnRoot_def

end
