(* ===== verification/MovementWf.thy ===== *)
theory MovementWf
  imports MovementSequences
begin

text \<open>
  What makes an element table of \<^verbatim>\<open>MovementStructures.cpp\<close> usable by the generic reader and writer
  of \<^verbatim>\<open>MovementInfo.cpp\<close>: it ends with \<open>MSEEnd\<close> before the loops stop at \<open>MSE_COUNT\<close>, every element
  that is present conditionally comes after the bits that announce it, no element is repeated, and
  the bits form one run. All tables of the server but one are shown to be well formed.
\<close>

section \<open>Well-formed tables\<close>

text \<open>The elements whose value \<^verbatim>\<open>Read_OLD\<close> must know when it reaches an element.\<close>

definition guards :: "MovementStatusElements \<Rightarrow> MovementStatusElements list" where
  "guards el = (case el of
     MSEHasTransportGuidByte0 \<Rightarrow> [MSEHasTransportData]
   | MSEHasTransportGuidByte1 \<Rightarrow> [MSEHasTransportData]
   | MSEHasTransportGuidByte2 \<Rightarrow> [MSEHasTransportData]
   | MSEHasTransportGuidByte3 \<Rightarrow> [MSEHasTransportData]
   | MSEHasTransportGuidByte4 \<Rightarrow> [MSEHasTransportData]
   | MSEHasTransportGuidByte5 \<Rightarrow> [MSEHasTransportData]
   | MSEHasTransportGuidByte6 \<Rightarrow> [MSEHasTransportData]
   | MSEHasTransportGuidByte7 \<Rightarrow> [MSEHasTransportData]
   | MSEHasTransportTime2 \<Rightarrow> [MSEHasTransportData]
   | MSEHasTransportTime3 \<Rightarrow> [MSEHasTransportData]
   | MSEHasFallDirection \<Rightarrow> [MSEHasFallData]
   | MSEGuidByte0 \<Rightarrow> [MSEHasGuidByte0]
   | MSEGuidByte1 \<Rightarrow> [MSEHasGuidByte1]
   | MSEGuidByte2 \<Rightarrow> [MSEHasGuidByte2]
   | MSEGuidByte3 \<Rightarrow> [MSEHasGuidByte3]
   | MSEGuidByte4 \<Rightarrow> [MSEHasGuidByte4]
   | MSEGuidByte5 \<Rightarrow> [MSEHasGuidByte5]
   | MSEGuidByte6 \<Rightarrow> [MSEHasGuidByte6]
   | MSEGuidByte7 \<Rightarrow> [MSEHasGuidByte7]
   | MSETransportGuidByte0 \<Rightarrow> [MSEHasTransportData, MSEHasTransportGuidByte0]
   | MSETransportGuidByte1 \<Rightarrow> [MSEHasTransportData, MSEHasTransportGuidByte1]
   | MSETransportGuidByte2 \<Rightarrow> [MSEHasTransportData, MSEHasTransportGuidByte2]
   | MSETransportGuidByte3 \<Rightarrow> [MSEHasTransportData, MSEHasTransportGuidByte3]
   | MSETransportGuidByte4 \<Rightarrow> [MSEHasTransportData, MSEHasTransportGuidByte4]
   | MSETransportGuidByte5 \<Rightarrow> [MSEHasTransportData, MSEHasTransportGuidByte5]
   | MSETransportGuidByte6 \<Rightarrow> [MSEHasTransportData, MSEHasTransportGuidByte6]
   | MSETransportGuidByte7 \<Rightarrow> [MSEHasTransportData, MSEHasTransportGuidByte7]
   | MSEMovementFlags \<Rightarrow> [MSEHasMovementFlags]
   | MSEMovementFlags2 \<Rightarrow> [MSEHasMovementFlags2]
   | MSETimestamp \<Rightarrow> [MSEHasTimestamp]
   | MSEOrientation \<Rightarrow> [MSEHasOrientation]
   | MSETransportPositionX \<Rightarrow> [MSEHasTransportData]
   | MSETransportPositionY \<Rightarrow> [MSEHasTransportData]
   | MSETransportPositionZ \<Rightarrow> [MSEHasTransportData]
   | MSETransportOrientation \<Rightarrow> [MSEHasTransportData]
   | MSETransportSeat \<Rightarrow> [MSEHasTransportData]
   | MSETransportTime \<Rightarrow> [MSEHasTransportData]
   | MSETransportTime2 \<Rightarrow> [MSEHasTransportData, MSEHasTransportTime2]
   | MSETransportTime3 \<Rightarrow> [MSEHasTransportData, MSEHasTransportTime3]
   | MSEPitch \<Rightarrow> [MSEHasPitch]
   | MSEFallTime \<Rightarrow> [MSEHasFallData]
   | MSEFallVerticalSpeed \<Rightarrow> [MSEHasFallData]
   | MSEFallCosAngle \<Rightarrow> [MSEHasFallData, MSEHasFallDirection]
   | MSEFallSinAngle \<Rightarrow> [MSEHasFallData, MSEHasFallDirection]
   | MSEFallHorizontalSpeed \<Rightarrow> [MSEHasFallData, MSEHasFallDirection]
   | MSESplineElevation \<Rightarrow> [MSEHasSplineElevation]
   | _ \<Rightarrow> [])"

text \<open>The constant bits may occur more than once.\<close>

definition repeatable :: "MovementStatusElements \<Rightarrow> bool" where
  "repeatable el \<longleftrightarrow> el = MSEZeroBit \<or> el = MSEOneBit"

text \<open>The elements that are written as bits of the bit stream, the two flag words included.\<close>

definition is_bit :: "MovementStatusElements \<Rightarrow> bool" where
  "is_bit el \<longleftrightarrow>
     el \<le> MSEHasSpline \<or> el = MSEMovementFlags \<or> el = MSEMovementFlags2 \<or> repeatable el"

primrec ready_seq :: "MovementStatusElements list \<Rightarrow> MovementStatusElements list \<Rightarrow> bool" where
  "ready_seq seen [] \<longleftrightarrow> True"
| "ready_seq seen (el # els) \<longleftrightarrow>
     el < MSEEnd \<and> list_all (List.member seen) (guards el) \<and>
     (repeatable el \<or> \<not> List.member seen el) \<and> ready_seq (el # seen) els"

definition one_bit_run :: "MovementStatusElements list \<Rightarrow> bool" where
  "one_bit_run els \<longleftrightarrow>
     list_all (\<lambda>el. \<not> is_bit el) (dropWhile is_bit (dropWhile (\<lambda>el. \<not> is_bit el) els))"

text \<open>The part of a table before its end mark.\<close>

definition table_body :: "MovementStatusElements list \<Rightarrow> MovementStatusElements list" where
  "table_body tab = takeWhile (\<lambda>el. el \<noteq> MSEEnd) tab"

text \<open>Every byte of the mover's guid is in the packet, and every byte of the transport's guid when the
  packet can have a transport. Elements are not repeated, so it is enough to count them.\<close>

definition is_guid_byte :: "MovementStatusElements \<Rightarrow> bool" where
  "is_guid_byte el \<longleftrightarrow> MSEGuidByte0 \<le> el \<and> el \<le> MSEGuidByte7"

definition is_transport_guid_byte :: "MovementStatusElements \<Rightarrow> bool" where
  "is_transport_guid_byte el \<longleftrightarrow> MSETransportGuidByte0 \<le> el \<and> el \<le> MSETransportGuidByte7"

definition guid_complete :: "MovementStatusElements list \<Rightarrow> bool" where
  "guid_complete els \<longleftrightarrow>
     length (filter is_guid_byte els) = 8 \<and>
     (List.member els MSEHasTransportData \<longrightarrow> length (filter is_transport_guid_byte els) = 8)"

definition wf_table :: "MovementStatusElements list \<Rightarrow> bool" where
  "wf_table tab \<longleftrightarrow>
     List.member tab MSEEnd \<and> length (table_body tab) < mse_val MSE_COUNT \<and>
     ready_seq [] (table_body tab) \<and> one_bit_run (table_body tab) \<and>
     guid_complete (table_body tab)"

text \<open>A packet that describes a movement completely: it has the thirty-four elements for the flags,
  the position, the transport, the pitch, the fall and the spline.\<close>

definition is_core :: "MovementStatusElements \<Rightarrow> bool" where
  "is_core el \<longleftrightarrow>
     MSEHasMovementFlags \<le> el \<and> el \<le> MSEHasTransportData \<or>
     MSEHasTransportTime2 \<le> el \<and> el \<le> MSEHasSpline \<or>
     MSEMovementFlags \<le> el \<and> el \<le> MSEOrientation \<or>
     MSETransportPositionX \<le> el \<and> el \<le> MSESplineElevation"

definition full_table :: "MovementStatusElements list \<Rightarrow> bool" where
  "full_table tab \<longleftrightarrow> length (filter is_core (table_body tab)) = 34"

lemmas wf_eval =
  wf_table_def table_body_def guid_complete_def is_guid_byte_def is_transport_guid_byte_def
  full_table_def is_core_def one_bit_run_def is_bit_def repeatable_def guards_def mse_order

section \<open>The tables of the server\<close>

lemma movement_sequences_wf:
  "list_all (\<lambda>(opcode, tab). opcode = SMSG_MOVE_UPDATE_COLLISION_HEIGHT \<or> wf_table tab)
     movement_sequences"
  by (simp add: movement_sequences_def wf_eval sequence_defs)

lemma movement_opcodes_distinct: "distinct (map fst movement_sequences)"
  by (simp add: movement_sequences_def opcode_defs)

lemma wf_GetMovementStatusElementsSequence:
  assumes "GetMovementStatusElementsSequence opcode = Some tab"
    and "opcode \<noteq> SMSG_MOVE_UPDATE_COLLISION_HEIGHT"
  shows "wf_table tab"
proof -
  from assms(1) have "(opcode, tab) \<in> set movement_sequences"
    by (simp add: GetMovementStatusElementsSequence_def map_of_SomeD)
  with movement_sequences_wf assms(2) show ?thesis
    by (auto simp: list_all_iff)
qed

lemma GetMovementStatusElementsSequence_member:
  "(opcode, tab) \<in> set movement_sequences \<longleftrightarrow>
     GetMovementStatusElementsSequence opcode = Some tab"
  using movement_opcodes_distinct by (simp add: GetMovementStatusElementsSequence_def)

lemma not_wf_MovementUpdateCollisionHeight: "\<not> wf_table MovementUpdateCollisionHeight"
  by (simp add: wf_eval MovementUpdateCollisionHeight_def)

section \<open>Consequences of well-formedness\<close>

lemma wf_table_split:
  assumes "wf_table tab"
  obtains rest where "tab = table_body tab @ MSEEnd # rest"
proof -
  from assms have "MSEEnd \<in> set tab" by (simp add: wf_table_def)
  then obtain r where "dropWhile (\<lambda>el. el \<noteq> MSEEnd) tab = MSEEnd # r"
    by (metis (mono_tags, lifting) dropWhile_eq_Nil_conv hd_dropWhile list.exhaust_sel)
  then have "tab = table_body tab @ MSEEnd # r"
    unfolding table_body_def by (metis takeWhile_dropWhile_id)
  with that show ?thesis by blast
qed

lemma table_body_not_End: "el \<in> set (table_body tab) \<Longrightarrow> el \<noteq> MSEEnd"
  unfolding table_body_def by (metis (mono_tags, lifting) set_takeWhileD)

lemma ready_seq_less_End: "ready_seq seen els \<Longrightarrow> el \<in> set els \<Longrightarrow> el < MSEEnd"
  by (induction els arbitrary: seen) auto

lemma ready_seq_guards_closed:
  assumes "ready_seq seen els" and "\<forall>x\<in>set seen. set (guards x) \<subseteq> set seen"
    and "x \<in> set els \<union> set seen"
  shows "set (guards x) \<subseteq> set els \<union> set seen"
  using assms
proof (induction els arbitrary: seen)
  case Nil
  then show ?case by auto
next
  case (Cons el els)
  have "\<forall>y\<in>set (el # seen). set (guards y) \<subseteq> set (el # seen)"
    using Cons.prems(1,2) by (auto simp: list_all_iff)
  with Cons.IH [of "el # seen"] Cons.prems(1,3) show ?case by auto
qed

lemma ready_seq_notin: "ready_seq seen els \<Longrightarrow> x \<in> set els \<Longrightarrow> \<not> repeatable x \<Longrightarrow> x \<notin> set seen"
proof (induction els arbitrary: seen)
  case Nil
  then show ?case by simp
next
  case (Cons el els)
  then show ?case
    using Cons.IH [of "el # seen"] by auto
qed

lemma ready_seq_distinct: "ready_seq seen els \<Longrightarrow> distinct (filter (\<lambda>x. \<not> repeatable x) els)"
proof (induction els arbitrary: seen)
  case Nil
  then show ?case by simp
next
  case (Cons el els)
  then show ?case
    using ready_seq_notin [of "el # seen" els el] by auto
qed

text \<open>Elements of a kind that occur as often as there are elements of the kind all occur.\<close>

lemma ready_seq_complete:
  assumes "ready_seq seen els" and "\<And>x. P x \<Longrightarrow> \<not> repeatable x"
    and "{x. P x} = set xs" and "length (filter P els) = length xs" and "P x"
  shows "x \<in> set els"
proof -
  have "filter P els = filter P (filter (\<lambda>x. \<not> repeatable x) els)"
    using assms(2) by (auto simp: filter_filter intro: filter_cong)
  then have "distinct (filter P els)"
    using ready_seq_distinct [OF assms(1)] by (metis distinct_filter)
  then have "card (set xs) \<le> card (set (filter P els))"
    using assms(4) distinct_card [of "filter P els"] card_length [of xs] by linarith
  moreover have "set (filter P els) \<subseteq> set xs"
    using assms(3) by auto
  ultimately have "set (filter P els) = set xs"
    by (intro card_seteq) auto
  with assms(3,5) show ?thesis by auto
qed

text \<open>A table with one run of bits is a block of byte elements, the bits, a block of byte elements.\<close>

lemma one_bit_run_split:
  assumes "one_bit_run els"
  obtains as bs cs where "els = as @ bs @ cs"
    and "list_all (\<lambda>el. \<not> is_bit el) as" and "list_all is_bit bs"
    and "list_all (\<lambda>el. \<not> is_bit el) cs"
proof
  let ?r = "dropWhile (\<lambda>el. \<not> is_bit el) els"
  show "els = takeWhile (\<lambda>el. \<not> is_bit el) els @ takeWhile is_bit ?r @ dropWhile is_bit ?r"
    by simp
  show "list_all (\<lambda>el. \<not> is_bit el) (takeWhile (\<lambda>el. \<not> is_bit el) els)"
    and "list_all is_bit (takeWhile is_bit ?r)"
    by (auto simp: list_all_iff dest: set_takeWhileD)
  show "list_all (\<lambda>el. \<not> is_bit el) (dropWhile is_bit ?r)"
    using assms by (simp add: one_bit_run_def)
qed

lemma is_guid_byte_set:
  "{x. is_guid_byte x} = set
     [MSEGuidByte0, MSEGuidByte1, MSEGuidByte2,
      MSEGuidByte3, MSEGuidByte4, MSEGuidByte5,
      MSEGuidByte6, MSEGuidByte7]"
proof (intro set_eqI iffI)
  fix x
  assume "x \<in> {x. is_guid_byte x}"
  then show "x \<in> set
     [MSEGuidByte0, MSEGuidByte1, MSEGuidByte2,
      MSEGuidByte3, MSEGuidByte4, MSEGuidByte5,
      MSEGuidByte6, MSEGuidByte7]"
    by (cases x) (simp_all add: is_guid_byte_def mse_order)
qed (auto simp: is_guid_byte_def mse_order)

lemma is_transport_guid_byte_set:
  "{x. is_transport_guid_byte x} = set
     [MSETransportGuidByte0, MSETransportGuidByte1, MSETransportGuidByte2,
      MSETransportGuidByte3, MSETransportGuidByte4, MSETransportGuidByte5,
      MSETransportGuidByte6, MSETransportGuidByte7]"
proof (intro set_eqI iffI)
  fix x
  assume "x \<in> {x. is_transport_guid_byte x}"
  then show "x \<in> set
     [MSETransportGuidByte0, MSETransportGuidByte1, MSETransportGuidByte2,
      MSETransportGuidByte3, MSETransportGuidByte4, MSETransportGuidByte5,
      MSETransportGuidByte6, MSETransportGuidByte7]"
    by (cases x) (simp_all add: is_transport_guid_byte_def mse_order)
qed (auto simp: is_transport_guid_byte_def mse_order)

lemma is_core_set:
  "{x. is_core x} = set
     [MSEHasMovementFlags, MSEHasMovementFlags2, MSEHasTimestamp,
      MSEHasOrientation, MSEHasTransportData, MSEHasTransportTime2,
      MSEHasTransportTime3, MSEHasPitch, MSEHasFallData,
      MSEHasFallDirection, MSEHasSplineElevation, MSEHasSpline,
      MSEMovementFlags, MSEMovementFlags2, MSETimestamp,
      MSEPositionX, MSEPositionY, MSEPositionZ,
      MSEOrientation, MSETransportPositionX, MSETransportPositionY,
      MSETransportPositionZ, MSETransportOrientation, MSETransportSeat,
      MSETransportTime, MSETransportTime2, MSETransportTime3,
      MSEPitch, MSEFallTime, MSEFallVerticalSpeed,
      MSEFallCosAngle, MSEFallSinAngle, MSEFallHorizontalSpeed,
      MSESplineElevation]"
proof (intro set_eqI iffI)
  fix x
  assume "x \<in> {x. is_core x}"
  then show "x \<in> set
     [MSEHasMovementFlags, MSEHasMovementFlags2, MSEHasTimestamp,
      MSEHasOrientation, MSEHasTransportData, MSEHasTransportTime2,
      MSEHasTransportTime3, MSEHasPitch, MSEHasFallData,
      MSEHasFallDirection, MSEHasSplineElevation, MSEHasSpline,
      MSEMovementFlags, MSEMovementFlags2, MSETimestamp,
      MSEPositionX, MSEPositionY, MSEPositionZ,
      MSEOrientation, MSETransportPositionX, MSETransportPositionY,
      MSETransportPositionZ, MSETransportOrientation, MSETransportSeat,
      MSETransportTime, MSETransportTime2, MSETransportTime3,
      MSEPitch, MSEFallTime, MSEFallVerticalSpeed,
      MSEFallCosAngle, MSEFallSinAngle, MSEFallHorizontalSpeed,
      MSESplineElevation]"
    by (cases x) (simp_all add: is_core_def mse_order)
qed (auto simp: is_core_def mse_order)

lemma kinds_not_repeatable:
  "is_guid_byte x \<Longrightarrow> \<not> repeatable x" "is_transport_guid_byte x \<Longrightarrow> \<not> repeatable x"
  "is_core x \<Longrightarrow> \<not> repeatable x"
  by (auto simp: is_guid_byte_def is_transport_guid_byte_def is_core_def repeatable_def mse_order)

lemma wf_table_guid_bytes:
  assumes "wf_table tab" and "is_guid_byte x"
  shows "x \<in> set (table_body tab)"
  using assms
  by (intro ready_seq_complete [OF _ _ is_guid_byte_set])
    (auto simp: wf_table_def guid_complete_def kinds_not_repeatable)

lemma wf_table_transport_guid_bytes:
  assumes "wf_table tab" and "MSEHasTransportData \<in> set (table_body tab)"
    and "is_transport_guid_byte x"
  shows "x \<in> set (table_body tab)"
  using assms
  by (intro ready_seq_complete [OF _ _ is_transport_guid_byte_set])
    (auto simp: wf_table_def guid_complete_def kinds_not_repeatable)

lemma full_table_core:
  assumes "wf_table tab" and "full_table tab" and "is_core x"
  shows "x \<in> set (table_body tab)"
  using assms
  by (intro ready_seq_complete [OF _ _ is_core_set])
    (auto simp: wf_table_def full_table_def kinds_not_repeatable)

end
