(* ===== verification/MovementInfo.thy ===== *)
theory MovementInfo
  imports MovementWf PacketStream
begin

text \<open>
  \<^verbatim>\<open>struct MovementInfo\<close> of \<^verbatim>\<open>game/Movement/MovementInfo.h\<close> and its members in \<^verbatim>\<open>MovementInfo.cpp\<close>: the
  generic writer and reader that interpret an element table (\<^verbatim>\<open>Write_OLD\<close>, \<^verbatim>\<open>Read_OLD\<close>), the packets
  that are written or read by hand, the dispatch by opcode, and the clean-up of the flags a client
  sends (\<^verbatim>\<open>Sanitize\<close>). Each statement of the code is one statement of the model; an exception of the
  buffer ends the routine.
\<close>

section \<open>Data\<close>

record Position =
  m_positionX :: f32
  m_positionY :: f32
  m_positionZ :: f32
  m_orientation :: f32

text \<open>The \<^verbatim>\<open>int8\<close> seat is kept as its byte.\<close>

record MovementInfo =
  mi_guid :: u64
  mi_flags :: u32
  mi_flags2 :: u16
  mi_pos :: Position
  mi_time :: u32
  mi_t_guid :: u64
  mi_t_pos :: Position
  mi_t_seat :: u8
  mi_t_time :: u32
  mi_t_time2 :: u32
  mi_t_time3 :: u32
  mi_pitch :: f32
  mi_fallTime :: u32
  mi_j_zspeed :: f32
  mi_j_cosAngle :: f32
  mi_j_sinAngle :: f32
  mi_j_xyspeed :: f32
  mi_hasSpline :: bool
  mi_splineElevation :: f32
  mi_ackCount :: u32
  mi_ackSpeed :: f32
  mi_height :: f32

text \<open>The floating-point arithmetic the code relies on is a parameter: \<^verbatim>\<open>G3D::fuzzyEq\<close> of the vendored
  math library, and \<^verbatim>\<open>Position::NormalizeOrientation\<close>, which is \<^verbatim>\<open>fmod\<close> by the single-precision
  \<^verbatim>\<open>2 * M_PI\<close>. A float is true in a condition unless it is one of the two zeros.\<close>

record float_env =
  fuzzyEq :: "f32 \<Rightarrow> f32 \<Rightarrow> bool"
  NormalizeOrientation :: "f32 \<Rightarrow> f32"

definition float_true :: "f32 \<Rightarrow> bool" where
  "float_true x \<longleftrightarrow> x AND 0x7FFFFFFF \<noteq> 0"

definition SetOrientation :: "float_env \<Rightarrow> f32 \<Rightarrow> Position \<Rightarrow> Position" where
  "SetOrientation env v p = p\<lparr>m_orientation := NormalizeOrientation env v\<rparr>"

definition Relocate :: "float_env \<Rightarrow> f32 \<Rightarrow> f32 \<Rightarrow> f32 \<Rightarrow> f32 \<Rightarrow> Position" where
  "Relocate env x y z v =
     \<lparr>m_positionX = x, m_positionY = y, m_positionZ = z, m_orientation = NormalizeOrientation env v\<rparr>"

text \<open>The default constructor.\<close>

definition MovementInfo_new :: "float_env \<Rightarrow> MovementInfo" where
  "MovementInfo_new env =
     \<lparr>mi_guid = 0, mi_flags = 0, mi_flags2 = 0, mi_pos = Relocate env 0 0 0 0, mi_time = 0,
      mi_t_guid = 0, mi_t_pos = Relocate env 0 0 0 0, mi_t_seat = -1, mi_t_time = 0, mi_t_time2 = 0,
      mi_t_time3 = 0, mi_pitch = 0, mi_fallTime = 0, mi_j_zspeed = 0, mi_j_cosAngle = 0,
      mi_j_sinAngle = 0, mi_j_xyspeed = 0, mi_hasSpline = False, mi_splineElevation = 0,
      mi_ackCount = 0, mi_ackSpeed = 0, mi_height = 0\<rparr>"

text \<open>\<^verbatim>\<open>ObjectGuid::operator[]\<close> of \<^verbatim>\<open>game/Entities/Object/Object.h\<close>: the bytes of a guid, lowest first.\<close>

definition guid_byte :: "u64 \<Rightarrow> nat \<Rightarrow> u8" where
  "guid_byte g i = ucast (drop_bit (8 * i) g)"

section \<open>Movement flags\<close>

definition MOVEMENTFLAG_FORWARD :: u32 where "MOVEMENTFLAG_FORWARD = 0x00000001"
definition MOVEMENTFLAG_BACKWARD :: u32 where "MOVEMENTFLAG_BACKWARD = 0x00000002"
definition MOVEMENTFLAG_STRAFE_LEFT :: u32 where "MOVEMENTFLAG_STRAFE_LEFT = 0x00000004"
definition MOVEMENTFLAG_STRAFE_RIGHT :: u32 where "MOVEMENTFLAG_STRAFE_RIGHT = 0x00000008"
definition MOVEMENTFLAG_LEFT :: u32 where "MOVEMENTFLAG_LEFT = 0x00000010"
definition MOVEMENTFLAG_RIGHT :: u32 where "MOVEMENTFLAG_RIGHT = 0x00000020"
definition MOVEMENTFLAG_PITCH_UP :: u32 where "MOVEMENTFLAG_PITCH_UP = 0x00000040"
definition MOVEMENTFLAG_PITCH_DOWN :: u32 where "MOVEMENTFLAG_PITCH_DOWN = 0x00000080"
definition MOVEMENTFLAG_ROOT :: u32 where "MOVEMENTFLAG_ROOT = 0x00000400"
definition MOVEMENTFLAG_FALLING :: u32 where "MOVEMENTFLAG_FALLING = 0x00000800"
definition MOVEMENTFLAG_FALLING_FAR :: u32 where "MOVEMENTFLAG_FALLING_FAR = 0x00001000"
definition MOVEMENTFLAG_ASCENDING :: u32 where "MOVEMENTFLAG_ASCENDING = 0x00200000"
definition MOVEMENTFLAG_DESCENDING :: u32 where "MOVEMENTFLAG_DESCENDING = 0x00400000"
definition MOVEMENTFLAG_CAN_FLY :: u32 where "MOVEMENTFLAG_CAN_FLY = 0x00800000"
definition MOVEMENTFLAG_FLYING :: u32 where "MOVEMENTFLAG_FLYING = 0x01000000"
definition MOVEMENTFLAG_SPLINE_ELEVATION :: u32 where "MOVEMENTFLAG_SPLINE_ELEVATION = 0x02000000"
definition MOVEMENTFLAG_WATERWALKING :: u32 where "MOVEMENTFLAG_WATERWALKING = 0x04000000"
definition MOVEMENTFLAG_FALLING_SLOW :: u32 where "MOVEMENTFLAG_FALLING_SLOW = 0x08000000"
definition MOVEMENTFLAG_HOVER :: u32 where "MOVEMENTFLAG_HOVER = 0x10000000"

definition MOVEMENTFLAG_MASK_MOVING :: u32 where
  "MOVEMENTFLAG_MASK_MOVING =
     MOVEMENTFLAG_FORWARD OR MOVEMENTFLAG_BACKWARD OR MOVEMENTFLAG_STRAFE_LEFT OR
     MOVEMENTFLAG_STRAFE_RIGHT OR MOVEMENTFLAG_PITCH_UP OR MOVEMENTFLAG_PITCH_DOWN OR
     MOVEMENTFLAG_FALLING OR MOVEMENTFLAG_FALLING_FAR OR MOVEMENTFLAG_ASCENDING OR
     MOVEMENTFLAG_DESCENDING OR MOVEMENTFLAG_SPLINE_ELEVATION"

lemmas movementflag_defs =
  MOVEMENTFLAG_FORWARD_def
  MOVEMENTFLAG_BACKWARD_def
  MOVEMENTFLAG_STRAFE_LEFT_def
  MOVEMENTFLAG_STRAFE_RIGHT_def
  MOVEMENTFLAG_LEFT_def
  MOVEMENTFLAG_RIGHT_def
  MOVEMENTFLAG_PITCH_UP_def
  MOVEMENTFLAG_PITCH_DOWN_def
  MOVEMENTFLAG_ROOT_def
  MOVEMENTFLAG_FALLING_def
  MOVEMENTFLAG_FALLING_FAR_def
  MOVEMENTFLAG_ASCENDING_def
  MOVEMENTFLAG_DESCENDING_def
  MOVEMENTFLAG_CAN_FLY_def
  MOVEMENTFLAG_FLYING_def
  MOVEMENTFLAG_SPLINE_ELEVATION_def
  MOVEMENTFLAG_WATERWALKING_def
  MOVEMENTFLAG_FALLING_SLOW_def
  MOVEMENTFLAG_HOVER_def

definition SetMovementFlags :: "u32 \<Rightarrow> MovementInfo \<Rightarrow> MovementInfo" where
  "SetMovementFlags flag mi = mi\<lparr>mi_flags := flag\<rparr>"

definition AddMovementFlag :: "u32 \<Rightarrow> MovementInfo \<Rightarrow> MovementInfo" where
  "AddMovementFlag flag mi = mi\<lparr>mi_flags := mi_flags mi OR flag\<rparr>"

definition RemoveMovementFlag :: "u32 \<Rightarrow> MovementInfo \<Rightarrow> MovementInfo" where
  "RemoveMovementFlag flag mi = mi\<lparr>mi_flags := mi_flags mi AND NOT flag\<rparr>"

definition HasMovementFlag :: "u32 \<Rightarrow> MovementInfo \<Rightarrow> bool" where
  "HasMovementFlag flag mi \<longleftrightarrow> mi_flags mi AND flag \<noteq> 0"

definition AddExtraMovementFlag :: "u16 \<Rightarrow> MovementInfo \<Rightarrow> MovementInfo" where
  "AddExtraMovementFlag flag mi = mi\<lparr>mi_flags2 := mi_flags2 mi OR flag\<rparr>"

definition HasExtraMovementFlag :: "u16 \<Rightarrow> MovementInfo \<Rightarrow> bool" where
  "HasExtraMovementFlag flag mi \<longleftrightarrow> mi_flags2 mi AND flag \<noteq> 0"

definition SetFallTime :: "u32 \<Rightarrow> MovementInfo \<Rightarrow> MovementInfo" where
  "SetFallTime t mi = mi\<lparr>mi_fallTime := t\<rparr>"

section \<open>What a packet contains\<close>

text \<open>The local booleans at the top of each writing routine.\<close>

definition hasOrientation :: "float_env \<Rightarrow> MovementInfo \<Rightarrow> bool" where
  "hasOrientation env mi \<longleftrightarrow> \<not> fuzzyEq env (m_orientation (mi_pos mi)) 0"

definition hasSplineElevation :: "float_env \<Rightarrow> MovementInfo \<Rightarrow> bool" where
  "hasSplineElevation env mi \<longleftrightarrow> \<not> fuzzyEq env (mi_splineElevation mi) 0"

definition hasFallData :: "MovementInfo \<Rightarrow> bool" where
  "hasFallData mi \<longleftrightarrow> mi_fallTime mi \<noteq> 0 \<or> float_true (mi_j_zspeed mi)"

definition hasFallDirection :: "MovementInfo \<Rightarrow> bool" where
  "hasFallDirection mi \<longleftrightarrow>
     hasFallData mi \<and>
     (float_true (mi_j_cosAngle mi) \<or> float_true (mi_j_sinAngle mi) \<or> float_true (mi_j_xyspeed mi))"

definition hasPitch :: "float_env \<Rightarrow> MovementInfo \<Rightarrow> bool" where
  "hasPitch env mi \<longleftrightarrow> \<not> fuzzyEq env (mi_pitch mi) 0"

section \<open>The generic writer\<close>

text \<open>A guarded statement.\<close>

definition write_if :: "bool \<Rightarrow> bb_write \<Rightarrow> bb_write" where
  "write_if c f b = (if c then f b else Inr b)"

text \<open>The body of the loop of \<^verbatim>\<open>Write_OLD\<close>.\<close>

definition write_element :: "float_env \<Rightarrow> MovementInfo \<Rightarrow> MovementStatusElements \<Rightarrow> bb_write" where
  "write_element env mi el =
     (if MSEHasGuidByte0 \<le> el \<and> el \<le> MSEHasGuidByte7
      then WriteBit (ucast (guid_byte (mi_guid mi) (mse_diff el MSEHasGuidByte0)))
      else if MSEHasTransportGuidByte0 \<le> el \<and> el \<le> MSEHasTransportGuidByte7
      then write_if (mi_t_guid mi \<noteq> 0)
             (WriteBit (ucast (guid_byte (mi_t_guid mi) (mse_diff el MSEHasTransportGuidByte0))))
      else if MSEGuidByte0 \<le> el \<and> el \<le> MSEGuidByte7
      then WriteByteSeq (guid_byte (mi_guid mi) (mse_diff el MSEGuidByte0))
      else if MSETransportGuidByte0 \<le> el \<and> el \<le> MSETransportGuidByte7
      then write_if (mi_t_guid mi \<noteq> 0)
             (WriteByteSeq (guid_byte (mi_t_guid mi) (mse_diff el MSETransportGuidByte0)))
      else if MSESpeedWalk \<le> el \<and> el \<le> MSESpeedPitchRate
      then append_f32 (mi_ackSpeed mi)
      else
        (case el of
           MSEHasMovementFlags \<Rightarrow> WriteBit (of_bool (mi_flags mi = 0))
         | MSEHasMovementFlags2 \<Rightarrow> WriteBit (of_bool (mi_flags2 mi = 0))
         | MSEHasTimestamp \<Rightarrow> WriteBit (of_bool (mi_time mi = 0))
         | MSEHasOrientation \<Rightarrow> WriteBit (of_bool (\<not> hasOrientation env mi))
         | MSEHasTransportData \<Rightarrow> WriteBit (ucast (mi_t_guid mi))
         | MSEHasTransportTime2 \<Rightarrow> write_if (mi_t_guid mi \<noteq> 0) (WriteBit (mi_t_time2 mi))
         | MSEHasTransportTime3 \<Rightarrow> write_if (mi_t_guid mi \<noteq> 0) (WriteBit (mi_t_time3 mi))
         | MSEHasPitch \<Rightarrow> WriteBit (of_bool (\<not> hasPitch env mi))
         | MSEHasFallData \<Rightarrow> WriteBit (of_bool (hasFallData mi))
         | MSEHasFallDirection \<Rightarrow> write_if (hasFallData mi) (WriteBit (of_bool (hasFallDirection mi)))
         | MSEHasSplineElevation \<Rightarrow> WriteBit (of_bool (\<not> hasSplineElevation env mi))
         | MSEHasSpline \<Rightarrow> WriteBit (of_bool (mi_hasSpline mi))
         | MSEMovementFlags \<Rightarrow> write_if (mi_flags mi \<noteq> 0) (WriteBits (mi_flags mi) 30)
         | MSEMovementFlags2 \<Rightarrow> write_if (mi_flags2 mi \<noteq> 0) (WriteBits (ucast (mi_flags2 mi)) 12)
         | MSETimestamp \<Rightarrow> write_if (mi_time mi \<noteq> 0) (append_u32 (mi_time mi))
         | MSEPositionX \<Rightarrow> append_f32 (m_positionX (mi_pos mi))
         | MSEPositionY \<Rightarrow> append_f32 (m_positionY (mi_pos mi))
         | MSEPositionZ \<Rightarrow> append_f32 (m_positionZ (mi_pos mi))
         | MSEOrientation \<Rightarrow> write_if (hasOrientation env mi) (append_f32 (m_orientation (mi_pos mi)))
         | MSETransportPositionX \<Rightarrow> write_if (mi_t_guid mi \<noteq> 0) (append_f32 (m_positionX (mi_t_pos mi)))
         | MSETransportPositionY \<Rightarrow> write_if (mi_t_guid mi \<noteq> 0) (append_f32 (m_positionY (mi_t_pos mi)))
         | MSETransportPositionZ \<Rightarrow> write_if (mi_t_guid mi \<noteq> 0) (append_f32 (m_positionZ (mi_t_pos mi)))
         | MSETransportOrientation \<Rightarrow> write_if (mi_t_guid mi \<noteq> 0) (append_f32 (m_orientation (mi_t_pos mi)))
         | MSETransportSeat \<Rightarrow> write_if (mi_t_guid mi \<noteq> 0) (append_u8 (mi_t_seat mi))
         | MSETransportTime \<Rightarrow> write_if (mi_t_guid mi \<noteq> 0) (append_u32 (mi_t_time mi))
         | MSETransportTime2 \<Rightarrow>
             write_if (mi_t_guid mi \<noteq> 0 \<and> mi_t_time2 mi \<noteq> 0) (append_u32 (mi_t_time2 mi))
         | MSETransportTime3 \<Rightarrow>
             write_if (mi_t_guid mi \<noteq> 0 \<and> mi_t_time3 mi \<noteq> 0) (append_u32 (mi_t_time3 mi))
         | MSEPitch \<Rightarrow> write_if (hasPitch env mi) (append_f32 (mi_pitch mi))
         | MSEFallTime \<Rightarrow> write_if (hasFallData mi) (append_u32 (mi_fallTime mi))
         | MSEFallVerticalSpeed \<Rightarrow> write_if (hasFallData mi) (append_f32 (mi_j_zspeed mi))
         | MSEFallCosAngle \<Rightarrow>
             write_if (hasFallData mi \<and> hasFallDirection mi) (append_f32 (mi_j_cosAngle mi))
         | MSEFallSinAngle \<Rightarrow>
             write_if (hasFallData mi \<and> hasFallDirection mi) (append_f32 (mi_j_sinAngle mi))
         | MSEFallHorizontalSpeed \<Rightarrow>
             write_if (hasFallData mi \<and> hasFallDirection mi) (append_f32 (mi_j_xyspeed mi))
         | MSESplineElevation \<Rightarrow> write_if (hasSplineElevation env mi) (append_f32 (mi_splineElevation mi))
         | MSECounter \<Rightarrow> append_u32 (mi_ackCount mi)
         | MSEHeight \<Rightarrow> append_f32 (mi_height mi)
         | MSEZeroBit \<Rightarrow> WriteBit 0
         | MSEOneBit \<Rightarrow> WriteBit 1
         | _ \<Rightarrow> (\<lambda>b. Inl AssertionFailed)))"

text \<open>\<^verbatim>\<open>for (uint32 i = 0; i < MSE_COUNT; ++i)\<close> over the table, which the code indexes without knowing
  its length: reading past its end is an error of the model.\<close>

function write_loop ::
  "float_env \<Rightarrow> MovementInfo \<Rightarrow> MovementStatusElements list \<Rightarrow> nat \<Rightarrow> bb_write" where
  "write_loop env mi tab i b =
     (if i < mse_val MSE_COUNT
      then if i < length tab
           then if tab ! i = MSEEnd then Inr b
                else (case write_element env mi (tab ! i) b of
                        Inl e \<Rightarrow> Inl e
                      | Inr b' \<Rightarrow> write_loop env mi tab (i + 1) b')
           else Inl OutOfBoundsRead
      else Inr b)"
  by pat_completeness auto
termination
  by (relation "measure (\<lambda>(env, mi, tab, i, b). mse_val MSE_COUNT - i)") auto

declare write_loop.simps [simp del]

definition Write_OLD :: "float_env \<Rightarrow> MovementInfo \<Rightarrow> Opcodes \<Rightarrow> bb_write" where
  "Write_OLD env mi opcode b =
     (case GetMovementStatusElementsSequence opcode of
        None \<Rightarrow> Inr b
      | Some tab \<Rightarrow> write_loop env mi tab 0 b)"

section \<open>The generic reader\<close>

text \<open>The local variables of \<^verbatim>\<open>Read_OLD\<close> (and of the packets read by hand) beside the structure read.\<close>

record read_state =
  rs_info :: MovementInfo
  rs_id :: "u8 list"
  rs_tid :: "u8 list"
  rs_hasMovementFlags :: bool
  rs_hasMovementFlags2 :: bool
  rs_hasTimestamp :: bool
  rs_hasOrientation :: bool
  rs_hasTransportData :: bool
  rs_hasTransportTime2 :: bool
  rs_hasTransportTime3 :: bool
  rs_hasPitch :: bool
  rs_hasFallData :: bool
  rs_hasFallDirection :: bool
  rs_hasSplineElevation :: bool

type_synonym reader = "(bb_error, read_state \<times> bytebuffer) stmt"

definition rs_new :: "MovementInfo \<Rightarrow> read_state" where
  "rs_new mi =
     \<lparr>rs_info = mi, rs_id = replicate 8 0, rs_tid = replicate 8 0, rs_hasMovementFlags = False,
      rs_hasMovementFlags2 = False, rs_hasTimestamp = False, rs_hasOrientation = False,
      rs_hasTransportData = False, rs_hasTransportTime2 = False, rs_hasTransportTime3 = False,
      rs_hasPitch = False, rs_hasFallData = False, rs_hasFallDirection = False,
      rs_hasSplineElevation = False\<rparr>"

text \<open>Reading statements: into a local, into a field, a bit or a byte of a guid, under a condition.\<close>

definition get_local :: "'a bb_read \<Rightarrow> ('a \<Rightarrow> read_state \<Rightarrow> read_state) \<Rightarrow> reader" where
  "get_local rd upd s = bind_res (rd (snd s)) (\<lambda>(v, b). Inr (upd v (fst s), b))"

definition get_info :: "'a bb_read \<Rightarrow> ('a \<Rightarrow> MovementInfo \<Rightarrow> MovementInfo) \<Rightarrow> reader" where
  "get_info rd upd = get_local rd (\<lambda>v rs. rs\<lparr>rs_info := upd v (rs_info rs)\<rparr>)"

definition get_id_bit :: "nat \<Rightarrow> reader" where
  "get_id_bit k = get_local ReadBit (\<lambda>v rs. rs\<lparr>rs_id := (rs_id rs)[k := of_bool v]\<rparr>)"

definition get_tid_bit :: "nat \<Rightarrow> reader" where
  "get_tid_bit k = get_local ReadBit (\<lambda>v rs. rs\<lparr>rs_tid := (rs_tid rs)[k := of_bool v]\<rparr>)"

definition get_id_byte :: "nat \<Rightarrow> reader" where
  "get_id_byte k s =
     get_local (ReadByteSeq (rs_id (fst s) ! k)) (\<lambda>v rs. rs\<lparr>rs_id := (rs_id rs)[k := v]\<rparr>) s"

definition get_tid_byte :: "nat \<Rightarrow> reader" where
  "get_tid_byte k s =
     get_local (ReadByteSeq (rs_tid (fst s) ! k)) (\<lambda>v rs. rs\<lparr>rs_tid := (rs_tid rs)[k := v]\<rparr>) s"

definition guarded :: "(read_state \<Rightarrow> bool) \<Rightarrow> reader \<Rightarrow> reader" where
  "guarded c f s = (if c (fst s) then f s else Inr s)"

definition skip_bytes :: "nat \<Rightarrow> reader" where
  "skip_bytes n s = bind_res (read_skip n (snd s)) (\<lambda>b. Inr (fst s, b))"

text \<open>The body of the loop of \<^verbatim>\<open>Read_OLD\<close>.\<close>

definition read_element :: "float_env \<Rightarrow> MovementStatusElements \<Rightarrow> reader" where
  "read_element env el =
     (if MSEHasGuidByte0 \<le> el \<and> el \<le> MSEHasGuidByte7
      then get_id_bit (mse_diff el MSEHasGuidByte0)
      else if MSEHasTransportGuidByte0 \<le> el \<and> el \<le> MSEHasTransportGuidByte7
      then guarded rs_hasTransportData (get_tid_bit (mse_diff el MSEHasTransportGuidByte0))
      else if MSEGuidByte0 \<le> el \<and> el \<le> MSEGuidByte7
      then get_id_byte (mse_diff el MSEGuidByte0)
      else if MSETransportGuidByte0 \<le> el \<and> el \<le> MSETransportGuidByte7
      then guarded rs_hasTransportData (get_tid_byte (mse_diff el MSETransportGuidByte0))
      else if MSESpeedWalk \<le> el \<and> el \<le> MSESpeedPitchRate
      then get_info read_f32 (\<lambda>v mi. mi\<lparr>mi_ackSpeed := v\<rparr>)
      else
        (case el of
           MSEHasMovementFlags \<Rightarrow> get_local ReadBit (\<lambda>v rs. rs\<lparr>rs_hasMovementFlags := (\<not> v)\<rparr>)
         | MSEHasMovementFlags2 \<Rightarrow> get_local ReadBit (\<lambda>v rs. rs\<lparr>rs_hasMovementFlags2 := (\<not> v)\<rparr>)
         | MSEHasTimestamp \<Rightarrow> get_local ReadBit (\<lambda>v rs. rs\<lparr>rs_hasTimestamp := (\<not> v)\<rparr>)
         | MSEHasOrientation \<Rightarrow> get_local ReadBit (\<lambda>v rs. rs\<lparr>rs_hasOrientation := (\<not> v)\<rparr>)
         | MSEHasTransportData \<Rightarrow> get_local ReadBit (\<lambda>v rs. rs\<lparr>rs_hasTransportData := v\<rparr>)
         | MSEHasTransportTime2 \<Rightarrow>
             guarded rs_hasTransportData (get_local ReadBit (\<lambda>v rs. rs\<lparr>rs_hasTransportTime2 := v\<rparr>))
         | MSEHasTransportTime3 \<Rightarrow>
             guarded rs_hasTransportData (get_local ReadBit (\<lambda>v rs. rs\<lparr>rs_hasTransportTime3 := v\<rparr>))
         | MSEHasPitch \<Rightarrow> get_local ReadBit (\<lambda>v rs. rs\<lparr>rs_hasPitch := (\<not> v)\<rparr>)
         | MSEHasFallData \<Rightarrow> get_local ReadBit (\<lambda>v rs. rs\<lparr>rs_hasFallData := v\<rparr>)
         | MSEHasFallDirection \<Rightarrow>
             guarded rs_hasFallData (get_local ReadBit (\<lambda>v rs. rs\<lparr>rs_hasFallDirection := v\<rparr>))
         | MSEHasSplineElevation \<Rightarrow> get_local ReadBit (\<lambda>v rs. rs\<lparr>rs_hasSplineElevation := (\<not> v)\<rparr>)
         | MSEHasSpline \<Rightarrow> get_info ReadBit (\<lambda>v mi. mi\<lparr>mi_hasSpline := v\<rparr>)
         | MSEMovementFlags \<Rightarrow>
             guarded rs_hasMovementFlags (get_info (ReadBits 30) (\<lambda>v mi. mi\<lparr>mi_flags := v\<rparr>))
         | MSEMovementFlags2 \<Rightarrow>
             guarded rs_hasMovementFlags2 (get_info (ReadBits 12) (\<lambda>v mi. mi\<lparr>mi_flags2 := ucast v\<rparr>))
         | MSETimestamp \<Rightarrow> guarded rs_hasTimestamp (get_info read_u32 (\<lambda>v mi. mi\<lparr>mi_time := v\<rparr>))
         | MSEPositionX \<Rightarrow> get_info read_f32 (\<lambda>v mi. mi\<lparr>mi_pos := (mi_pos mi)\<lparr>m_positionX := v\<rparr>\<rparr>)
         | MSEPositionY \<Rightarrow> get_info read_f32 (\<lambda>v mi. mi\<lparr>mi_pos := (mi_pos mi)\<lparr>m_positionY := v\<rparr>\<rparr>)
         | MSEPositionZ \<Rightarrow> get_info read_f32 (\<lambda>v mi. mi\<lparr>mi_pos := (mi_pos mi)\<lparr>m_positionZ := v\<rparr>\<rparr>)
         | MSEOrientation \<Rightarrow>
             guarded rs_hasOrientation
               (get_info read_f32 (\<lambda>v mi. mi\<lparr>mi_pos := SetOrientation env v (mi_pos mi)\<rparr>))
         | MSETransportPositionX \<Rightarrow>
             guarded rs_hasTransportData
               (get_info read_f32 (\<lambda>v mi. mi\<lparr>mi_t_pos := (mi_t_pos mi)\<lparr>m_positionX := v\<rparr>\<rparr>))
         | MSETransportPositionY \<Rightarrow>
             guarded rs_hasTransportData
               (get_info read_f32 (\<lambda>v mi. mi\<lparr>mi_t_pos := (mi_t_pos mi)\<lparr>m_positionY := v\<rparr>\<rparr>))
         | MSETransportPositionZ \<Rightarrow>
             guarded rs_hasTransportData
               (get_info read_f32 (\<lambda>v mi. mi\<lparr>mi_t_pos := (mi_t_pos mi)\<lparr>m_positionZ := v\<rparr>\<rparr>))
         | MSETransportOrientation \<Rightarrow>
             guarded rs_hasTransportData
               (get_info read_f32 (\<lambda>v mi. mi\<lparr>mi_t_pos := SetOrientation env v (mi_t_pos mi)\<rparr>))
         | MSETransportSeat \<Rightarrow>
             guarded rs_hasTransportData (get_info read_u8 (\<lambda>v mi. mi\<lparr>mi_t_seat := v\<rparr>))
         | MSETransportTime \<Rightarrow>
             guarded rs_hasTransportData (get_info read_u32 (\<lambda>v mi. mi\<lparr>mi_t_time := v\<rparr>))
         | MSETransportTime2 \<Rightarrow>
             guarded (\<lambda>rs. rs_hasTransportData rs \<and> rs_hasTransportTime2 rs)
               (get_info read_u32 (\<lambda>v mi. mi\<lparr>mi_t_time2 := v\<rparr>))
         | MSETransportTime3 \<Rightarrow>
             guarded (\<lambda>rs. rs_hasTransportData rs \<and> rs_hasTransportTime3 rs)
               (get_info read_u32 (\<lambda>v mi. mi\<lparr>mi_t_time3 := v\<rparr>))
         | MSEPitch \<Rightarrow> guarded rs_hasPitch (get_info read_f32 (\<lambda>v mi. mi\<lparr>mi_pitch := v\<rparr>))
         | MSEFallTime \<Rightarrow> guarded rs_hasFallData (get_info read_u32 (\<lambda>v mi. mi\<lparr>mi_fallTime := v\<rparr>))
         | MSEFallVerticalSpeed \<Rightarrow>
             guarded rs_hasFallData (get_info read_f32 (\<lambda>v mi. mi\<lparr>mi_j_zspeed := v\<rparr>))
         | MSEFallCosAngle \<Rightarrow>
             guarded (\<lambda>rs. rs_hasFallData rs \<and> rs_hasFallDirection rs)
               (get_info read_f32 (\<lambda>v mi. mi\<lparr>mi_j_cosAngle := v\<rparr>))
         | MSEFallSinAngle \<Rightarrow>
             guarded (\<lambda>rs. rs_hasFallData rs \<and> rs_hasFallDirection rs)
               (get_info read_f32 (\<lambda>v mi. mi\<lparr>mi_j_sinAngle := v\<rparr>))
         | MSEFallHorizontalSpeed \<Rightarrow>
             guarded (\<lambda>rs. rs_hasFallData rs \<and> rs_hasFallDirection rs)
               (get_info read_f32 (\<lambda>v mi. mi\<lparr>mi_j_xyspeed := v\<rparr>))
         | MSESplineElevation \<Rightarrow>
             guarded rs_hasSplineElevation (get_info read_f32 (\<lambda>v mi. mi\<lparr>mi_splineElevation := v\<rparr>))
         | MSECounter \<Rightarrow> get_info read_u32 (\<lambda>v mi. mi\<lparr>mi_ackCount := v\<rparr>)
         | MSEHeight \<Rightarrow> get_info read_f32 (\<lambda>v mi. mi\<lparr>mi_height := v\<rparr>)
         | MSEZeroBit \<Rightarrow> get_local ReadBit (\<lambda>v rs. rs)
         | MSEOneBit \<Rightarrow> get_local ReadBit (\<lambda>v rs. rs)
         | _ \<Rightarrow> (\<lambda>s. Inl AssertionFailed)))"

function read_loop :: "float_env \<Rightarrow> MovementStatusElements list \<Rightarrow> nat \<Rightarrow> reader" where
  "read_loop env tab i s =
     (if i < mse_val MSE_COUNT
      then if i < length tab
           then if tab ! i = MSEEnd then Inr s
                else (case read_element env (tab ! i) s of
                        Inl e \<Rightarrow> Inl e
                      | Inr s' \<Rightarrow> read_loop env tab (i + 1) s')
           else Inl OutOfBoundsRead
      else Inr s)"
  by pat_completeness auto
termination
  by (relation "measure (\<lambda>(env, tab, i, s). mse_val MSE_COUNT - i)") auto

declare read_loop.simps [simp del]

text \<open>The end of every reading routine: \<^verbatim>\<open>guid = id; t_guid = tid;\<close>\<close>

definition read_finish :: "read_state \<times> bytebuffer \<Rightarrow> MovementInfo \<times> bytebuffer" where
  "read_finish s =
     ((rs_info (fst s))\<lparr>mi_guid := le_word (rs_id (fst s)), mi_t_guid := le_word (rs_tid (fst s))\<rparr>,
      snd s)"

definition read_with :: "reader \<Rightarrow> MovementInfo \<Rightarrow> bytebuffer \<Rightarrow> bb_error + MovementInfo \<times> bytebuffer"
  where "read_with f mi b = bind_res (f (rs_new mi, b)) (\<lambda>s. Inr (read_finish s))"

definition Read_OLD ::
  "float_env \<Rightarrow> Opcodes \<Rightarrow> MovementInfo \<Rightarrow> bytebuffer \<Rightarrow> bb_error + MovementInfo \<times> bytebuffer" where
  "Read_OLD env opcode mi b =
     (case GetMovementStatusElementsSequence opcode of
        None \<Rightarrow> Inr (mi, b)
      | Some tab \<Rightarrow> read_with (read_loop env tab 0) mi b)"

section \<open>Packets written by hand\<close>

definition Write_SMSG_PLAYER_MOVE :: "float_env \<Rightarrow> MovementInfo \<Rightarrow> bb_write" where
  "Write_SMSG_PLAYER_MOVE env mi = run_all [
     WriteBit (of_bool (hasFallData mi)),
     WriteBit (ucast (guid_byte (mi_guid mi) 3)),
     WriteBit (ucast (guid_byte (mi_guid mi) 6)),
     WriteBit (of_bool (mi_flags2 mi = 0)),
     WriteBit (of_bool (mi_hasSpline mi)),
     WriteBit (of_bool (mi_time mi = 0)),
     WriteBit (ucast (guid_byte (mi_guid mi) 0)),
     WriteBit (ucast (guid_byte (mi_guid mi) 1)),
     write_if (mi_flags2 mi \<noteq> 0) (WriteBits (ucast (mi_flags2 mi)) 12),
     WriteBit (ucast (guid_byte (mi_guid mi) 7)),
     WriteBit (of_bool (mi_flags mi = 0)),
     WriteBit (of_bool (\<not> hasOrientation env mi)),
     WriteBit (ucast (guid_byte (mi_guid mi) 2)),
     WriteBit (of_bool (\<not> hasSplineElevation env mi)),
     WriteBit 0,
     WriteBit (ucast (guid_byte (mi_guid mi) 4)),
     write_if (hasFallData mi) (WriteBit (of_bool (hasFallDirection mi))),
     WriteBit (ucast (guid_byte (mi_guid mi) 5)),
     WriteBit (ucast (mi_t_guid mi)),
     write_if (mi_flags mi \<noteq> 0) (WriteBits (mi_flags mi) 30),
     write_if (mi_t_guid mi \<noteq> 0) (run_all [
       WriteBit (ucast (guid_byte (mi_t_guid mi) 3)),
       WriteBit (mi_t_time3 mi),
       WriteBit (ucast (guid_byte (mi_t_guid mi) 6)),
       WriteBit (ucast (guid_byte (mi_t_guid mi) 1)),
       WriteBit (ucast (guid_byte (mi_t_guid mi) 7)),
       WriteBit (ucast (guid_byte (mi_t_guid mi) 0)),
       WriteBit (ucast (guid_byte (mi_t_guid mi) 4)),
       WriteBit (mi_t_time2 mi),
       WriteBit (ucast (guid_byte (mi_t_guid mi) 5)),
       WriteBit (ucast (guid_byte (mi_t_guid mi) 2))]),
     WriteBit (of_bool (\<not> hasPitch env mi)),
     WriteByteSeq (guid_byte (mi_guid mi) 5),
     write_if (hasFallData mi) (run_all [
       write_if (hasFallDirection mi) (run_all [
         append_f32 (mi_j_xyspeed mi),
         append_f32 (mi_j_cosAngle mi),
         append_f32 (mi_j_sinAngle mi)]),
       append_f32 (mi_j_zspeed mi),
       append_u32 (mi_fallTime mi)]),
     write_if (hasSplineElevation env mi) (append_f32 (mi_splineElevation mi)),
     WriteByteSeq (guid_byte (mi_guid mi) 7),
     append_f32 (m_positionY (mi_pos mi)),
     WriteByteSeq (guid_byte (mi_guid mi) 3),
     write_if (mi_t_guid mi \<noteq> 0) (run_all [
       write_if (mi_t_time3 mi \<noteq> 0) (append_u32 (mi_t_time3 mi)),
       WriteByteSeq (guid_byte (mi_t_guid mi) 6),
       append_u8 (mi_t_seat mi),
       WriteByteSeq (guid_byte (mi_t_guid mi) 5),
       append_f32 (m_positionX (mi_t_pos mi)),
       WriteByteSeq (guid_byte (mi_t_guid mi) 1),
       append_f32 (m_orientation (mi_t_pos mi)),
       WriteByteSeq (guid_byte (mi_t_guid mi) 2),
       write_if (mi_t_time2 mi \<noteq> 0) (append_u32 (mi_t_time2 mi)),
       WriteByteSeq (guid_byte (mi_t_guid mi) 0),
       append_f32 (m_positionZ (mi_t_pos mi)),
       WriteByteSeq (guid_byte (mi_t_guid mi) 7),
       WriteByteSeq (guid_byte (mi_t_guid mi) 4),
       WriteByteSeq (guid_byte (mi_t_guid mi) 3),
       append_f32 (m_positionY (mi_t_pos mi)),
       append_u32 (mi_t_time mi)]),
     WriteByteSeq (guid_byte (mi_guid mi) 4),
     append_f32 (m_positionX (mi_pos mi)),
     WriteByteSeq (guid_byte (mi_guid mi) 6),
     append_f32 (m_positionZ (mi_pos mi)),
     write_if (mi_time mi \<noteq> 0) (append_u32 (mi_time mi)),
     WriteByteSeq (guid_byte (mi_guid mi) 2),
     write_if (hasPitch env mi) (append_f32 (mi_pitch mi)),
     WriteByteSeq (guid_byte (mi_guid mi) 0),
     write_if (hasOrientation env mi) (append_f32 (m_orientation (mi_pos mi))),
     WriteByteSeq (guid_byte (mi_guid mi) 1)]"

definition Write_SMSG_MOVE_UPDATE_KNOCK_BACK :: "float_env \<Rightarrow> MovementInfo \<Rightarrow> bb_write" where
  "Write_SMSG_MOVE_UPDATE_KNOCK_BACK env mi = run_all [
     WriteBit 0,
     WriteBit (ucast (guid_byte (mi_guid mi) 4)),
     WriteBit (of_bool (mi_flags mi = 0)),
     WriteBit (of_bool (\<not> hasPitch env mi)),
     WriteBit (of_bool (mi_time mi = 0)),
     WriteBit (ucast (guid_byte (mi_guid mi) 1)),
     WriteBit (ucast (guid_byte (mi_guid mi) 0)),
     WriteBit (ucast (guid_byte (mi_guid mi) 3)),
     WriteBit (ucast (guid_byte (mi_guid mi) 2)),
     WriteBit (ucast (guid_byte (mi_guid mi) 7)),
     WriteBit (of_bool (mi_hasSpline mi)),
     WriteBit (ucast (mi_t_guid mi)),
     write_if (mi_t_guid mi \<noteq> 0) (run_all [
       WriteBit (ucast (guid_byte (mi_t_guid mi) 7)),
       WriteBit (ucast (guid_byte (mi_t_guid mi) 5)),
       WriteBit (ucast (guid_byte (mi_t_guid mi) 1)),
       WriteBit (ucast (guid_byte (mi_t_guid mi) 6)),
       WriteBit (mi_t_time2 mi),
       WriteBit (ucast (guid_byte (mi_t_guid mi) 2)),
       WriteBit (ucast (guid_byte (mi_t_guid mi) 4)),
       WriteBit (ucast (guid_byte (mi_t_guid mi) 0)),
       WriteBit (mi_t_time3 mi),
       WriteBit (ucast (guid_byte (mi_t_guid mi) 3))]),
     WriteBit (ucast (guid_byte (mi_guid mi) 5)),
     WriteBit (of_bool (\<not> hasSplineElevation env mi)),
     WriteBit (of_bool (mi_flags2 mi = 0)),
     WriteBit (ucast (guid_byte (mi_guid mi) 6)),
     write_if (mi_flags mi \<noteq> 0) (WriteBits (mi_flags mi) 30),
     WriteBit (of_bool (hasFallData mi)),
     write_if (hasFallData mi) (WriteBit (of_bool (hasFallDirection mi))),
     WriteBit (of_bool (\<not> hasOrientation env mi)),
     write_if (mi_flags2 mi \<noteq> 0) (WriteBits (ucast (mi_flags2 mi)) 12),
     write_if (hasOrientation env mi) (append_f32 (m_orientation (mi_pos mi))),
     write_if (hasFallData mi) (run_all [
       write_if (hasFallDirection mi) (run_all [
         append_f32 (mi_j_cosAngle mi),
         append_f32 (mi_j_xyspeed mi),
         append_f32 (mi_j_sinAngle mi)]),
       append_u32 (mi_fallTime mi),
       append_f32 (mi_j_zspeed mi)]),
     write_if (hasSplineElevation env mi) (append_f32 (mi_splineElevation mi)),
     WriteByteSeq (guid_byte (mi_guid mi) 3),
     write_if (mi_t_guid mi \<noteq> 0) (run_all [
       WriteByteSeq (guid_byte (mi_t_guid mi) 5),
       write_if (mi_t_time3 mi \<noteq> 0) (append_u32 (mi_t_time3 mi)),
       WriteByteSeq (guid_byte (mi_t_guid mi) 7),
       append_u8 (mi_t_seat mi),
       WriteByteSeq (guid_byte (mi_t_guid mi) 3),
       WriteByteSeq (guid_byte (mi_t_guid mi) 6),
       append_f32 (m_positionZ (mi_t_pos mi)),
       WriteByteSeq (guid_byte (mi_t_guid mi) 1),
       append_f32 (m_positionY (mi_t_pos mi)),
       append_f32 (m_positionX (mi_t_pos mi)),
       WriteByteSeq (guid_byte (mi_t_guid mi) 2),
       WriteByteSeq (guid_byte (mi_t_guid mi) 0),
       append_f32 (m_orientation (mi_t_pos mi)),
       WriteByteSeq (guid_byte (mi_t_guid mi) 4),
       write_if (mi_t_time2 mi \<noteq> 0) (append_u32 (mi_t_time2 mi))]),
     write_if (hasPitch env mi) (append_f32 (mi_pitch mi)),
     append_f32 (m_positionZ (mi_pos mi)),
     write_if (mi_time mi \<noteq> 0) (append_u32 (mi_time mi)),
     append_f32 (m_positionX (mi_pos mi)),
     WriteByteSeq (guid_byte (mi_guid mi) 4),
     WriteByteSeq (guid_byte (mi_guid mi) 6),
     WriteByteSeq (guid_byte (mi_guid mi) 7),
     WriteByteSeq (guid_byte (mi_guid mi) 2),
     WriteByteSeq (guid_byte (mi_guid mi) 1),
     append_f32 (m_positionY (mi_pos mi)),
     WriteByteSeq (guid_byte (mi_guid mi) 0),
     WriteByteSeq (guid_byte (mi_guid mi) 5)]"

definition Write_SMSG_MOVE_TELEPORT :: "float_env \<Rightarrow> MovementInfo \<Rightarrow> bb_write" where
  "Write_SMSG_MOVE_TELEPORT env mi = run_all [
     WriteBit (ucast (guid_byte (mi_guid mi) 6)),
     WriteBit (ucast (guid_byte (mi_guid mi) 0)),
     WriteBit (ucast (guid_byte (mi_guid mi) 3)),
     WriteBit (ucast (guid_byte (mi_guid mi) 2)),
     WriteBit 0,
     WriteBit (ucast (mi_t_guid mi)),
     WriteBit (ucast (guid_byte (mi_guid mi) 1)),
     write_if (mi_t_guid mi \<noteq> 0) (run_all [
       WriteBit (ucast (guid_byte (mi_t_guid mi) 1)),
       WriteBit (ucast (guid_byte (mi_t_guid mi) 3)),
       WriteBit (ucast (guid_byte (mi_t_guid mi) 2)),
       WriteBit (ucast (guid_byte (mi_t_guid mi) 5)),
       WriteBit (ucast (guid_byte (mi_t_guid mi) 0)),
       WriteBit (ucast (guid_byte (mi_t_guid mi) 7)),
       WriteBit (ucast (guid_byte (mi_t_guid mi) 6)),
       WriteBit (ucast (guid_byte (mi_t_guid mi) 4))]),
     WriteBit (ucast (guid_byte (mi_guid mi) 4)),
     WriteBit (ucast (guid_byte (mi_guid mi) 7)),
     WriteBit (ucast (guid_byte (mi_guid mi) 5)),
     FlushBits,
     write_if (mi_t_guid mi \<noteq> 0) (run_all [
       WriteByteSeq (guid_byte (mi_t_guid mi) 6),
       WriteByteSeq (guid_byte (mi_t_guid mi) 5),
       WriteByteSeq (guid_byte (mi_t_guid mi) 1),
       WriteByteSeq (guid_byte (mi_t_guid mi) 7),
       WriteByteSeq (guid_byte (mi_t_guid mi) 0),
       WriteByteSeq (guid_byte (mi_t_guid mi) 2),
       WriteByteSeq (guid_byte (mi_t_guid mi) 4),
       WriteByteSeq (guid_byte (mi_t_guid mi) 3)]),
     append_u32 (mi_ackCount mi),
     WriteByteSeq (guid_byte (mi_guid mi) 1),
     WriteByteSeq (guid_byte (mi_guid mi) 2),
     WriteByteSeq (guid_byte (mi_guid mi) 3),
     WriteByteSeq (guid_byte (mi_guid mi) 5),
     append_f32 (m_positionX (mi_pos mi)),
     WriteByteSeq (guid_byte (mi_guid mi) 4),
     append_f32 (m_orientation (mi_pos mi)),
     WriteByteSeq (guid_byte (mi_guid mi) 7),
     append_f32 (m_positionZ (mi_pos mi)),
     WriteByteSeq (guid_byte (mi_guid mi) 0),
     WriteByteSeq (guid_byte (mi_guid mi) 6),
     append_f32 (m_positionY (mi_pos mi))]"

section \<open>Packets read by hand\<close>

definition Read_CMSG_MOVE_NOT_ACTIVE_MOVER_block :: "(bb_error, read_state \<times> bytebuffer) stmt" where
  "Read_CMSG_MOVE_NOT_ACTIVE_MOVER_block = run_all [
     get_info read_f32 (\<lambda>v mi. mi\<lparr>mi_pos := (mi_pos mi)\<lparr>m_positionZ := v\<rparr>\<rparr>),
     get_info read_f32 (\<lambda>v mi. mi\<lparr>mi_pos := (mi_pos mi)\<lparr>m_positionX := v\<rparr>\<rparr>),
     get_info read_f32 (\<lambda>v mi. mi\<lparr>mi_pos := (mi_pos mi)\<lparr>m_positionY := v\<rparr>\<rparr>),
     get_local ReadBit (\<lambda>v rs. rs\<lparr>rs_hasMovementFlags2 := (\<not> v)\<rparr>),
     get_local ReadBit (\<lambda>v rs. rs\<lparr>rs_hasTransportData := v\<rparr>),
     get_id_bit 6,
     get_local ReadBit (\<lambda>v rs. rs\<lparr>rs_hasSplineElevation := (\<not> v)\<rparr>),
     get_id_bit 3,
     get_local ReadBit (\<lambda>v rs. rs),
     get_local ReadBit (\<lambda>v rs. rs\<lparr>rs_hasTimestamp := (\<not> v)\<rparr>),
     get_id_bit 0,
     get_local ReadBit (\<lambda>v rs. rs\<lparr>rs_hasOrientation := (\<not> v)\<rparr>),
     get_id_bit 5,
     get_local ReadBit (\<lambda>v rs. rs\<lparr>rs_hasPitch := (\<not> v)\<rparr>),
     get_id_bit 1,
     get_id_bit 4,
     get_id_bit 7,
     get_info ReadBit (\<lambda>v mi. mi\<lparr>mi_hasSpline := v\<rparr>),
     get_id_bit 2,
     get_local ReadBit (\<lambda>v rs. rs\<lparr>rs_hasFallData := v\<rparr>),
     get_local ReadBit (\<lambda>v rs. rs\<lparr>rs_hasMovementFlags := (\<not> v)\<rparr>),
     guarded rs_hasTransportData (run_all [
       get_tid_bit 4,
       get_tid_bit 0,
       get_tid_bit 1,
       get_tid_bit 6,
       get_tid_bit 2,
       get_local ReadBit (\<lambda>v rs. rs\<lparr>rs_hasTransportTime3 := v\<rparr>),
       get_tid_bit 5,
       get_tid_bit 7,
       get_local ReadBit (\<lambda>v rs. rs\<lparr>rs_hasTransportTime2 := v\<rparr>),
       get_tid_bit 3]),
     guarded rs_hasFallData (get_local ReadBit (\<lambda>v rs. rs\<lparr>rs_hasFallDirection := v\<rparr>)),
     guarded rs_hasMovementFlags (get_info (ReadBits 30) (\<lambda>v mi. mi\<lparr>mi_flags := v\<rparr>)),
     guarded rs_hasMovementFlags2 (get_info (ReadBits 12) (\<lambda>v mi. mi\<lparr>mi_flags2 := ucast v\<rparr>)),
     get_id_byte 1,
     get_id_byte 0,
     get_id_byte 4,
     get_id_byte 2,
     get_id_byte 7,
     get_id_byte 5,
     get_id_byte 6,
     get_id_byte 3,
     guarded rs_hasFallData (run_all [
       get_info read_f32 (\<lambda>v mi. mi\<lparr>mi_j_zspeed := v\<rparr>),
       guarded rs_hasFallDirection (run_all [
         get_info read_f32 (\<lambda>v mi. mi\<lparr>mi_j_cosAngle := v\<rparr>),
         get_info read_f32 (\<lambda>v mi. mi\<lparr>mi_j_sinAngle := v\<rparr>),
         get_info read_f32 (\<lambda>v mi. mi\<lparr>mi_j_xyspeed := v\<rparr>)]),
       get_info read_u32 (\<lambda>v mi. mi\<lparr>mi_fallTime := v\<rparr>)]),
     guarded rs_hasTransportData (run_all [
       guarded rs_hasTransportTime3 (get_info read_u32 (\<lambda>v mi. mi\<lparr>mi_t_time3 := v\<rparr>)),
       get_tid_byte 1,
       guarded rs_hasTransportTime2 (get_info read_u32 (\<lambda>v mi. mi\<lparr>mi_t_time2 := v\<rparr>)),
       get_info read_f32 (\<lambda>v mi. mi\<lparr>mi_t_pos := (mi_t_pos mi)\<lparr>m_orientation := v\<rparr>\<rparr>),
       get_tid_byte 0,
       get_info read_u8 (\<lambda>v mi. mi\<lparr>mi_t_seat := v\<rparr>),
       get_tid_byte 4,
       get_tid_byte 6,
       get_tid_byte 3,
       get_tid_byte 5,
       get_info read_f32 (\<lambda>v mi. mi\<lparr>mi_t_pos := (mi_t_pos mi)\<lparr>m_positionY := v\<rparr>\<rparr>),
       get_info read_f32 (\<lambda>v mi. mi\<lparr>mi_t_pos := (mi_t_pos mi)\<lparr>m_positionX := v\<rparr>\<rparr>),
       get_tid_byte 2,
       get_info read_f32 (\<lambda>v mi. mi\<lparr>mi_t_pos := (mi_t_pos mi)\<lparr>m_positionZ := v\<rparr>\<rparr>),
       get_tid_byte 7,
       get_info read_u32 (\<lambda>v mi. mi\<lparr>mi_t_time := v\<rparr>)]),
     guarded rs_hasTimestamp (get_info read_u32 (\<lambda>v mi. mi\<lparr>mi_time := v\<rparr>)),
     guarded rs_hasSplineElevation (get_info read_f32 (\<lambda>v mi. mi\<lparr>mi_splineElevation := v\<rparr>)),
     guarded rs_hasPitch (get_info read_f32 (\<lambda>v mi. mi\<lparr>mi_pitch := v\<rparr>)),
     guarded rs_hasOrientation (get_info read_f32 (\<lambda>v mi. mi\<lparr>mi_pos := (mi_pos mi)\<lparr>m_orientation := v\<rparr>\<rparr>))]"

definition Read_CMSG_MOVE_NOT_ACTIVE_MOVER ::
  "MovementInfo \<Rightarrow> bytebuffer \<Rightarrow> bb_error + MovementInfo \<times> bytebuffer" where
  "Read_CMSG_MOVE_NOT_ACTIVE_MOVER = read_with Read_CMSG_MOVE_NOT_ACTIVE_MOVER_block"

definition Read_CMSG_MOVE_KNOCK_BACK_ACK_block :: "(bb_error, read_state \<times> bytebuffer) stmt" where
  "Read_CMSG_MOVE_KNOCK_BACK_ACK_block = run_all [
     get_info read_f32 (\<lambda>v mi. mi\<lparr>mi_pos := (mi_pos mi)\<lparr>m_positionY := v\<rparr>\<rparr>),
     get_info read_f32 (\<lambda>v mi. mi\<lparr>mi_pos := (mi_pos mi)\<lparr>m_positionZ := v\<rparr>\<rparr>),
     skip_bytes 4,
     get_info read_f32 (\<lambda>v mi. mi\<lparr>mi_pos := (mi_pos mi)\<lparr>m_positionX := v\<rparr>\<rparr>),
     get_id_bit 6,
     get_local ReadBit (\<lambda>v rs. rs\<lparr>rs_hasOrientation := (\<not> v)\<rparr>),
     get_local ReadBit (\<lambda>v rs. rs\<lparr>rs_hasPitch := (\<not> v)\<rparr>),
     get_local ReadBit (\<lambda>v rs. rs\<lparr>rs_hasSplineElevation := (\<not> v)\<rparr>),
     get_id_bit 3,
     get_id_bit 4,
     get_id_bit 1,
     get_id_bit 2,
     get_info ReadBit (\<lambda>v mi. mi\<lparr>mi_hasSpline := v\<rparr>),
     get_id_bit 7,
     get_local ReadBit (\<lambda>v rs. rs),
     get_local ReadBit (\<lambda>v rs. rs\<lparr>rs_hasMovementFlags2 := (\<not> v)\<rparr>),
     get_local ReadBit (\<lambda>v rs. rs\<lparr>rs_hasTimestamp := (\<not> v)\<rparr>),
     get_id_bit 0,
     get_local ReadBit (\<lambda>v rs. rs\<lparr>rs_hasMovementFlags := (\<not> v)\<rparr>),
     get_local ReadBit (\<lambda>v rs. rs\<lparr>rs_hasTransportData := v\<rparr>),
     get_id_bit 5,
     get_local ReadBit (\<lambda>v rs. rs\<lparr>rs_hasFallData := v\<rparr>),
     guarded rs_hasMovementFlags (get_info (ReadBits 30) (\<lambda>v mi. mi\<lparr>mi_flags := v\<rparr>)),
     guarded rs_hasTransportData (run_all [
       get_tid_bit 4,
       get_tid_bit 1,
       get_local ReadBit (\<lambda>v rs. rs\<lparr>rs_hasTransportTime2 := v\<rparr>),
       get_tid_bit 0,
       get_local ReadBit (\<lambda>v rs. rs\<lparr>rs_hasTransportTime3 := v\<rparr>),
       get_tid_bit 6,
       get_tid_bit 2,
       get_tid_bit 3,
       get_tid_bit 5,
       get_tid_bit 7]),
     guarded rs_hasMovementFlags2 (get_info (ReadBits 12) (\<lambda>v mi. mi\<lparr>mi_flags2 := ucast v\<rparr>)),
     guarded rs_hasFallData (get_local ReadBit (\<lambda>v rs. rs\<lparr>rs_hasFallDirection := v\<rparr>)),
     get_id_byte 4,
     get_id_byte 5,
     get_id_byte 1,
     get_id_byte 6,
     get_id_byte 0,
     get_id_byte 3,
     get_id_byte 2,
     get_id_byte 7,
     guarded rs_hasFallData (run_all [
       guarded rs_hasFallDirection (run_all [
         get_info read_f32 (\<lambda>v mi. mi\<lparr>mi_j_cosAngle := v\<rparr>),
         get_info read_f32 (\<lambda>v mi. mi\<lparr>mi_j_xyspeed := v\<rparr>),
         get_info read_f32 (\<lambda>v mi. mi\<lparr>mi_j_sinAngle := v\<rparr>)]),
       get_info read_u32 (\<lambda>v mi. mi\<lparr>mi_fallTime := v\<rparr>),
       get_info read_f32 (\<lambda>v mi. mi\<lparr>mi_j_zspeed := v\<rparr>)]),
     guarded rs_hasTimestamp (get_info read_u32 (\<lambda>v mi. mi\<lparr>mi_time := v\<rparr>)),
     guarded rs_hasTransportData (run_all [
       get_info read_f32 (\<lambda>v mi. mi\<lparr>mi_t_pos := (mi_t_pos mi)\<lparr>m_positionY := v\<rparr>\<rparr>),
       get_tid_byte 4,
       guarded rs_hasTransportTime2 (get_info read_u32 (\<lambda>v mi. mi\<lparr>mi_t_time2 := v\<rparr>)),
       get_tid_byte 7,
       get_info read_f32 (\<lambda>v mi. mi\<lparr>mi_t_pos := (mi_t_pos mi)\<lparr>m_orientation := v\<rparr>\<rparr>),
       get_tid_byte 6,
       get_info read_u32 (\<lambda>v mi. mi\<lparr>mi_t_time := v\<rparr>),
       get_tid_byte 3,
       get_tid_byte 1,
       guarded rs_hasTransportTime3 (get_info read_u32 (\<lambda>v mi. mi\<lparr>mi_t_time3 := v\<rparr>)),
       get_tid_byte 2,
       get_info read_f32 (\<lambda>v mi. mi\<lparr>mi_t_pos := (mi_t_pos mi)\<lparr>m_positionZ := v\<rparr>\<rparr>),
       get_tid_byte 0,
       get_tid_byte 5,
       get_info read_f32 (\<lambda>v mi. mi\<lparr>mi_t_pos := (mi_t_pos mi)\<lparr>m_positionX := v\<rparr>\<rparr>),
       get_info read_u8 (\<lambda>v mi. mi\<lparr>mi_t_seat := v\<rparr>)]),
     guarded rs_hasPitch (get_info read_f32 (\<lambda>v mi. mi\<lparr>mi_pitch := v\<rparr>)),
     guarded rs_hasSplineElevation (get_info read_f32 (\<lambda>v mi. mi\<lparr>mi_splineElevation := v\<rparr>)),
     guarded rs_hasOrientation (get_info read_f32 (\<lambda>v mi. mi\<lparr>mi_pos := (mi_pos mi)\<lparr>m_orientation := v\<rparr>\<rparr>))]"

definition Read_CMSG_MOVE_KNOCK_BACK_ACK ::
  "MovementInfo \<Rightarrow> bytebuffer \<Rightarrow> bb_error + MovementInfo \<times> bytebuffer" where
  "Read_CMSG_MOVE_KNOCK_BACK_ACK = read_with Read_CMSG_MOVE_KNOCK_BACK_ACK_block"

section \<open>Dispatch by opcode\<close>

definition SMSG_MOVE_UPDATE_KNOCK_BACK :: Opcodes where "SMSG_MOVE_UPDATE_KNOCK_BACK = 0x3DB2"
definition SMSG_MOVE_TELEPORT :: Opcodes where "SMSG_MOVE_TELEPORT = 0x55A0"
definition CMSG_MOVE_KNOCK_BACK_ACK :: Opcodes where "CMSG_MOVE_KNOCK_BACK_ACK = 0x721C"

definition WriteToPacket :: "float_env \<Rightarrow> MovementInfo \<Rightarrow> Opcodes \<Rightarrow> bb_write" where
  "WriteToPacket env mi opcode =
     (if opcode = SMSG_PLAYER_MOVE then Write_SMSG_PLAYER_MOVE env mi
      else if opcode = SMSG_MOVE_UPDATE_KNOCK_BACK then Write_SMSG_MOVE_UPDATE_KNOCK_BACK env mi
      else if opcode = SMSG_MOVE_TELEPORT then Write_SMSG_MOVE_TELEPORT env mi
      else Write_OLD env mi opcode)"

definition ReadFromPacket ::
  "float_env \<Rightarrow> Opcodes \<Rightarrow> MovementInfo \<Rightarrow> bytebuffer \<Rightarrow> bb_error + MovementInfo \<times> bytebuffer" where
  "ReadFromPacket env opcode =
     (if opcode = CMSG_MOVE_KNOCK_BACK_ACK then Read_CMSG_MOVE_KNOCK_BACK_ACK
      else if opcode = CMSG_MOVE_NOT_ACTIVE_MOVER then Read_CMSG_MOVE_NOT_ACTIVE_MOVER
      else Read_OLD env opcode)"

definition GetSMSGOpcodeForCMSG :: "Opcodes \<Rightarrow> Opcodes" where
  "GetSMSGOpcodeForCMSG cmsg =
     (if cmsg = CMSG_MOVE_FORCE_WALK_SPEED_CHANGE_ACK then SMSG_MOVE_UPDATE_WALK_SPEED
      else if cmsg = CMSG_MOVE_FORCE_RUN_SPEED_CHANGE_ACK then SMSG_MOVE_UPDATE_RUN_SPEED
      else if cmsg = CMSG_MOVE_FORCE_RUN_BACK_SPEED_CHANGE_ACK then SMSG_MOVE_UPDATE_RUN_BACK_SPEED
      else if cmsg = CMSG_MOVE_FORCE_SWIM_SPEED_CHANGE_ACK then SMSG_MOVE_UPDATE_SWIM_SPEED
      else if cmsg = CMSG_MOVE_FORCE_SWIM_BACK_SPEED_CHANGE_ACK then SMSG_MOVE_UPDATE_SWIM_BACK_SPEED
      else if cmsg = CMSG_MOVE_FORCE_FLIGHT_SPEED_CHANGE_ACK then SMSG_MOVE_UPDATE_FLIGHT_SPEED
      else if cmsg = CMSG_MOVE_SET_COLLISION_HEIGHT_ACK then SMSG_MOVE_UPDATE_COLLISION_HEIGHT
      else SMSG_PLAYER_MOVE)"

section \<open>Cleaning up client flags\<close>

text \<open>What \<^verbatim>\<open>Sanitize\<close> asks of the unit that moves: its type, the security level of its session when
  it is a player, and the aura types it has (\<^verbatim>\<open>Unit::HasAuraType\<close>).\<close>

definition SPELL_AURA_WATER_WALK :: nat where "SPELL_AURA_WATER_WALK = 104"
definition SPELL_AURA_FEATHER_FALL :: nat where "SPELL_AURA_FEATHER_FALL = 105"
definition SPELL_AURA_HOVER :: nat where "SPELL_AURA_HOVER = 106"
definition SPELL_AURA_FLY :: nat where "SPELL_AURA_FLY = 201"
definition SPELL_AURA_MOD_INCREASE_MOUNTED_FLIGHT_SPEED :: nat where
  "SPELL_AURA_MOD_INCREASE_MOUNTED_FLIGHT_SPEED = 207"
definition SPELL_AURA_MOD_INCREASE_FLIGHT_SPEED :: nat where
  "SPELL_AURA_MOD_INCREASE_FLIGHT_SPEED = 208"
definition SEC_PLAYER :: nat where "SEC_PLAYER = 0"
definition TYPEID_PLAYER :: nat where "TYPEID_PLAYER = 4"

record target_unit =
  tu_typeId :: nat
  tu_security :: nat
  tu_auras :: "nat list"

definition HasAuraType :: "nat \<Rightarrow> target_unit \<Rightarrow> bool" where
  "HasAuraType a t = List.member (tu_auras t) a"

definition remove_violating_flags :: "(MovementInfo \<Rightarrow> bool) \<Rightarrow> u32 \<Rightarrow> MovementInfo \<Rightarrow> MovementInfo" where
  "remove_violating_flags check maskToRemove mi =
     (if check mi then RemoveMovementFlag maskToRemove mi else mi)"

definition sanitize_rules :: "target_unit \<Rightarrow> ((MovementInfo \<Rightarrow> bool) \<times> u32) list" where
  "sanitize_rules target =
     [(HasMovementFlag MOVEMENTFLAG_ROOT, MOVEMENTFLAG_ROOT),
      (\<lambda>mi. HasMovementFlag MOVEMENTFLAG_HOVER mi \<and> \<not> HasAuraType SPELL_AURA_HOVER target,
       MOVEMENTFLAG_HOVER),
      (\<lambda>mi. HasMovementFlag MOVEMENTFLAG_ASCENDING mi \<and> HasMovementFlag MOVEMENTFLAG_DESCENDING mi,
       MOVEMENTFLAG_ASCENDING OR MOVEMENTFLAG_DESCENDING),
      (\<lambda>mi. HasMovementFlag MOVEMENTFLAG_LEFT mi \<and> HasMovementFlag MOVEMENTFLAG_RIGHT mi,
       MOVEMENTFLAG_LEFT OR MOVEMENTFLAG_RIGHT),
      (\<lambda>mi. HasMovementFlag MOVEMENTFLAG_STRAFE_LEFT mi \<and> HasMovementFlag MOVEMENTFLAG_STRAFE_RIGHT mi,
       MOVEMENTFLAG_STRAFE_LEFT OR MOVEMENTFLAG_STRAFE_RIGHT),
      (\<lambda>mi. HasMovementFlag MOVEMENTFLAG_PITCH_UP mi \<and> HasMovementFlag MOVEMENTFLAG_PITCH_DOWN mi,
       MOVEMENTFLAG_PITCH_UP OR MOVEMENTFLAG_PITCH_DOWN),
      (\<lambda>mi. HasMovementFlag MOVEMENTFLAG_FORWARD mi \<and> HasMovementFlag MOVEMENTFLAG_BACKWARD mi,
       MOVEMENTFLAG_FORWARD OR MOVEMENTFLAG_BACKWARD),
      (\<lambda>mi. HasMovementFlag MOVEMENTFLAG_WATERWALKING mi \<and> \<not> HasAuraType SPELL_AURA_WATER_WALK target,
       MOVEMENTFLAG_WATERWALKING),
      (\<lambda>mi. HasMovementFlag MOVEMENTFLAG_FALLING_SLOW mi \<and> \<not> HasAuraType SPELL_AURA_FEATHER_FALL target,
       MOVEMENTFLAG_FALLING_SLOW),
      (if tu_typeId target = TYPEID_PLAYER
       then (\<lambda>mi. HasMovementFlag (MOVEMENTFLAG_FLYING OR MOVEMENTFLAG_CAN_FLY) mi \<and>
               tu_security target = SEC_PLAYER \<and> \<not> HasAuraType SPELL_AURA_FLY target \<and>
               \<not> HasAuraType SPELL_AURA_MOD_INCREASE_MOUNTED_FLIGHT_SPEED target,
             MOVEMENTFLAG_FLYING OR MOVEMENTFLAG_CAN_FLY)
       else (\<lambda>mi. HasMovementFlag (MOVEMENTFLAG_FLYING OR MOVEMENTFLAG_CAN_FLY) mi \<and>
               \<not> HasAuraType SPELL_AURA_FLY target \<and>
               \<not> HasAuraType SPELL_AURA_MOD_INCREASE_FLIGHT_SPEED target,
             MOVEMENTFLAG_FLYING OR MOVEMENTFLAG_CAN_FLY))]"

definition Sanitize :: "target_unit \<Rightarrow> MovementInfo \<Rightarrow> MovementInfo" where
  "Sanitize target mi =
     fold (\<lambda>(check, maskToRemove). remove_violating_flags check maskToRemove)
       (sanitize_rules target) mi"

section \<open>Sending to the controlling client and to observers\<close>

text \<open>\<^verbatim>\<open>Movement::PacketSender\<close> of \<^verbatim>\<open>MovementStructures.cpp\<close>: which of the two opcodes is sent, and
  whether it goes to the player alone or to everyone around.\<close>

record packet_sender =
  ps_toSend :: Opcodes
  ps_BroadCastControlled :: bool
  ps_BroadCastSelf :: bool
  ps_isControlledPacket :: bool

definition PacketSender_new :: "bool \<Rightarrow> bool \<Rightarrow> Opcodes \<Rightarrow> Opcodes \<Rightarrow> bool \<Rightarrow> bool \<Rightarrow> packet_sender" where
  "PacketSender_new isPlayer controlledByServer controlled self broadCastSelf broadCastControlled =
     (let ps = \<lparr>ps_toSend = controlled, ps_BroadCastControlled = broadCastControlled,
                ps_BroadCastSelf = broadCastSelf, ps_isControlledPacket = True\<rparr> in
      if isPlayer
      then if controlledByServer then ps\<lparr>ps_toSend := controlled\<rparr>
           else ps\<lparr>ps_toSend := self, ps_isControlledPacket := False\<rparr>
      else ps\<lparr>ps_toSend := controlled, ps_BroadCastControlled := True\<rparr>)"

datatype delivery = SendDirectMessage | SendMessageToSet bool

definition PacketSender_Send ::
  "float_env \<Rightarrow> bool \<Rightarrow> MovementInfo \<Rightarrow> packet_sender \<Rightarrow> bb_error + delivery \<times> Opcodes \<times> bytebuffer" where
  "PacketSender_Send env isPlayer mi ps =
     bind_res (WriteToPacket env mi (ps_toSend ps) bb_new)
       (\<lambda>b. Inr (if ((\<not> ps_BroadCastSelf ps \<and> \<not> ps_isControlledPacket ps) \<or>
                      (\<not> ps_BroadCastControlled ps \<and> ps_isControlledPacket ps)) \<and> isPlayer
                 then SendDirectMessage else SendMessageToSet isPlayer,
                 ps_toSend ps, b))"

end
