(* ===== verification/MovementStream.thy ===== *)
theory MovementStream
  imports MovementInfo
begin

text \<open>
  The stream of bits and bytes that each element of a movement table stands for, that the generic
  writer emits exactly this stream, and that the generic reader, having read the elements that
  guard it, takes the value of the element from it.
\<close>

section \<open>What the writer emits\<close>

definition seq_items :: "u8 \<Rightarrow> item list" where
  "seq_items v = (if v \<noteq> 0 then [Byte (v XOR 1)] else [])"

definition emit :: "float_env \<Rightarrow> MovementInfo \<Rightarrow> MovementStatusElements \<Rightarrow> item list" where
  "emit env mi el = (case el of
     MSEHasGuidByte0 \<Rightarrow> [Bit (guid_byte (mi_guid mi) 0 \<noteq> 0)]
   | MSEHasGuidByte1 \<Rightarrow> [Bit (guid_byte (mi_guid mi) 1 \<noteq> 0)]
   | MSEHasGuidByte2 \<Rightarrow> [Bit (guid_byte (mi_guid mi) 2 \<noteq> 0)]
   | MSEHasGuidByte3 \<Rightarrow> [Bit (guid_byte (mi_guid mi) 3 \<noteq> 0)]
   | MSEHasGuidByte4 \<Rightarrow> [Bit (guid_byte (mi_guid mi) 4 \<noteq> 0)]
   | MSEHasGuidByte5 \<Rightarrow> [Bit (guid_byte (mi_guid mi) 5 \<noteq> 0)]
   | MSEHasGuidByte6 \<Rightarrow> [Bit (guid_byte (mi_guid mi) 6 \<noteq> 0)]
   | MSEHasGuidByte7 \<Rightarrow> [Bit (guid_byte (mi_guid mi) 7 \<noteq> 0)]
   | MSEHasTransportGuidByte0 \<Rightarrow> (if mi_t_guid mi \<noteq> 0 then [Bit (guid_byte (mi_t_guid mi) 0 \<noteq> 0)] else [])
   | MSEHasTransportGuidByte1 \<Rightarrow> (if mi_t_guid mi \<noteq> 0 then [Bit (guid_byte (mi_t_guid mi) 1 \<noteq> 0)] else [])
   | MSEHasTransportGuidByte2 \<Rightarrow> (if mi_t_guid mi \<noteq> 0 then [Bit (guid_byte (mi_t_guid mi) 2 \<noteq> 0)] else [])
   | MSEHasTransportGuidByte3 \<Rightarrow> (if mi_t_guid mi \<noteq> 0 then [Bit (guid_byte (mi_t_guid mi) 3 \<noteq> 0)] else [])
   | MSEHasTransportGuidByte4 \<Rightarrow> (if mi_t_guid mi \<noteq> 0 then [Bit (guid_byte (mi_t_guid mi) 4 \<noteq> 0)] else [])
   | MSEHasTransportGuidByte5 \<Rightarrow> (if mi_t_guid mi \<noteq> 0 then [Bit (guid_byte (mi_t_guid mi) 5 \<noteq> 0)] else [])
   | MSEHasTransportGuidByte6 \<Rightarrow> (if mi_t_guid mi \<noteq> 0 then [Bit (guid_byte (mi_t_guid mi) 6 \<noteq> 0)] else [])
   | MSEHasTransportGuidByte7 \<Rightarrow> (if mi_t_guid mi \<noteq> 0 then [Bit (guid_byte (mi_t_guid mi) 7 \<noteq> 0)] else [])
   | MSEGuidByte0 \<Rightarrow> seq_items (guid_byte (mi_guid mi) 0)
   | MSEGuidByte1 \<Rightarrow> seq_items (guid_byte (mi_guid mi) 1)
   | MSEGuidByte2 \<Rightarrow> seq_items (guid_byte (mi_guid mi) 2)
   | MSEGuidByte3 \<Rightarrow> seq_items (guid_byte (mi_guid mi) 3)
   | MSEGuidByte4 \<Rightarrow> seq_items (guid_byte (mi_guid mi) 4)
   | MSEGuidByte5 \<Rightarrow> seq_items (guid_byte (mi_guid mi) 5)
   | MSEGuidByte6 \<Rightarrow> seq_items (guid_byte (mi_guid mi) 6)
   | MSEGuidByte7 \<Rightarrow> seq_items (guid_byte (mi_guid mi) 7)
   | MSETransportGuidByte0 \<Rightarrow> seq_items (guid_byte (mi_t_guid mi) 0)
   | MSETransportGuidByte1 \<Rightarrow> seq_items (guid_byte (mi_t_guid mi) 1)
   | MSETransportGuidByte2 \<Rightarrow> seq_items (guid_byte (mi_t_guid mi) 2)
   | MSETransportGuidByte3 \<Rightarrow> seq_items (guid_byte (mi_t_guid mi) 3)
   | MSETransportGuidByte4 \<Rightarrow> seq_items (guid_byte (mi_t_guid mi) 4)
   | MSETransportGuidByte5 \<Rightarrow> seq_items (guid_byte (mi_t_guid mi) 5)
   | MSETransportGuidByte6 \<Rightarrow> seq_items (guid_byte (mi_t_guid mi) 6)
   | MSETransportGuidByte7 \<Rightarrow> seq_items (guid_byte (mi_t_guid mi) 7)
   | MSESpeedWalk \<Rightarrow> map Byte (le_bytes 4 (mi_ackSpeed mi))
   | MSESpeedRun \<Rightarrow> map Byte (le_bytes 4 (mi_ackSpeed mi))
   | MSESpeedRunBack \<Rightarrow> map Byte (le_bytes 4 (mi_ackSpeed mi))
   | MSESpeedSwim \<Rightarrow> map Byte (le_bytes 4 (mi_ackSpeed mi))
   | MSESpeedSwimBack \<Rightarrow> map Byte (le_bytes 4 (mi_ackSpeed mi))
   | MSESpeedTurnRate \<Rightarrow> map Byte (le_bytes 4 (mi_ackSpeed mi))
   | MSESpeedFlight \<Rightarrow> map Byte (le_bytes 4 (mi_ackSpeed mi))
   | MSESpeedFlightBack \<Rightarrow> map Byte (le_bytes 4 (mi_ackSpeed mi))
   | MSESpeedPitchRate \<Rightarrow> map Byte (le_bytes 4 (mi_ackSpeed mi))
   | MSEHasMovementFlags \<Rightarrow> [Bit (mi_flags mi = 0)]
   | MSEHasMovementFlags2 \<Rightarrow> [Bit (mi_flags2 mi = 0)]
   | MSEHasTimestamp \<Rightarrow> [Bit (mi_time mi = 0)]
   | MSEHasOrientation \<Rightarrow> [Bit (\<not> hasOrientation env mi)]
   | MSEHasTransportData \<Rightarrow> [Bit (ucast (mi_t_guid mi) \<noteq> (0 :: u32))]
   | MSEHasTransportTime2 \<Rightarrow> (if mi_t_guid mi \<noteq> 0 then [Bit (mi_t_time2 mi \<noteq> 0)] else [])
   | MSEHasTransportTime3 \<Rightarrow> (if mi_t_guid mi \<noteq> 0 then [Bit (mi_t_time3 mi \<noteq> 0)] else [])
   | MSEHasPitch \<Rightarrow> [Bit (\<not> hasPitch env mi)]
   | MSEHasFallData \<Rightarrow> [Bit (hasFallData mi)]
   | MSEHasFallDirection \<Rightarrow> (if hasFallData mi then [Bit (hasFallDirection mi)] else [])
   | MSEHasSplineElevation \<Rightarrow> [Bit (\<not> hasSplineElevation env mi)]
   | MSEHasSpline \<Rightarrow> [Bit (mi_hasSpline mi)]
   | MSEMovementFlags \<Rightarrow> (if mi_flags mi \<noteq> 0 then map Bit (bits_msb 30 (mi_flags mi)) else [])
   | MSEMovementFlags2 \<Rightarrow> (if mi_flags2 mi \<noteq> 0 then map Bit (bits_msb 12 (ucast (mi_flags2 mi))) else [])
   | MSETimestamp \<Rightarrow> (if mi_time mi \<noteq> 0 then map Byte (le_bytes 4 (mi_time mi)) else [])
   | MSEPositionX \<Rightarrow> map Byte (le_bytes 4 (m_positionX (mi_pos mi)))
   | MSEPositionY \<Rightarrow> map Byte (le_bytes 4 (m_positionY (mi_pos mi)))
   | MSEPositionZ \<Rightarrow> map Byte (le_bytes 4 (m_positionZ (mi_pos mi)))
   | MSEOrientation \<Rightarrow> (if hasOrientation env mi then map Byte (le_bytes 4 (m_orientation (mi_pos mi))) else [])
   | MSETransportPositionX \<Rightarrow> (if mi_t_guid mi \<noteq> 0 then map Byte (le_bytes 4 (m_positionX (mi_t_pos mi))) else [])
   | MSETransportPositionY \<Rightarrow> (if mi_t_guid mi \<noteq> 0 then map Byte (le_bytes 4 (m_positionY (mi_t_pos mi))) else [])
   | MSETransportPositionZ \<Rightarrow> (if mi_t_guid mi \<noteq> 0 then map Byte (le_bytes 4 (m_positionZ (mi_t_pos mi))) else [])
   | MSETransportOrientation \<Rightarrow> (if mi_t_guid mi \<noteq> 0 then map Byte (le_bytes 4 (m_orientation (mi_t_pos mi))) else [])
   | MSETransportSeat \<Rightarrow> (if mi_t_guid mi \<noteq> 0 then map Byte (le_bytes 1 (mi_t_seat mi)) else [])
   | MSETransportTime \<Rightarrow> (if mi_t_guid mi \<noteq> 0 then map Byte (le_bytes 4 (mi_t_time mi)) else [])
   | MSETransportTime2 \<Rightarrow> (if mi_t_guid mi \<noteq> 0 \<and> mi_t_time2 mi \<noteq> 0 then map Byte (le_bytes 4 (mi_t_time2 mi)) else [])
   | MSETransportTime3 \<Rightarrow> (if mi_t_guid mi \<noteq> 0 \<and> mi_t_time3 mi \<noteq> 0 then map Byte (le_bytes 4 (mi_t_time3 mi)) else [])
   | MSEPitch \<Rightarrow> (if hasPitch env mi then map Byte (le_bytes 4 (mi_pitch mi)) else [])
   | MSEFallTime \<Rightarrow> (if hasFallData mi then map Byte (le_bytes 4 (mi_fallTime mi)) else [])
   | MSEFallVerticalSpeed \<Rightarrow> (if hasFallData mi then map Byte (le_bytes 4 (mi_j_zspeed mi)) else [])
   | MSEFallCosAngle \<Rightarrow> (if hasFallDirection mi then map Byte (le_bytes 4 (mi_j_cosAngle mi)) else [])
   | MSEFallSinAngle \<Rightarrow> (if hasFallDirection mi then map Byte (le_bytes 4 (mi_j_sinAngle mi)) else [])
   | MSEFallHorizontalSpeed \<Rightarrow> (if hasFallDirection mi then map Byte (le_bytes 4 (mi_j_xyspeed mi)) else [])
   | MSESplineElevation \<Rightarrow> (if hasSplineElevation env mi then map Byte (le_bytes 4 (mi_splineElevation mi)) else [])
   | MSECounter \<Rightarrow> map Byte (le_bytes 4 (mi_ackCount mi))
   | MSEHeight \<Rightarrow> map Byte (le_bytes 4 (mi_height mi))
   | MSEZeroBit \<Rightarrow> [Bit False]
   | MSEOneBit \<Rightarrow> [Bit True]
   | _ \<Rightarrow> [])"

lemma write_if_simps [simp]: "write_if True f = f" "write_if False f = Inr"
  by (auto simp: write_if_def)

lemma emits_bit: "(v \<noteq> 0) = c \<Longrightarrow> emits_items (WriteBit v) [Bit c]"
  using emits_WriteBit by auto

lemma emits_append_num [emits]:
  "emits_items (append_u8 v8) [Byte v8]"
  "emits_items (append_u32 v) (map Byte (le_bytes 4 v))"
  "emits_items (append_f32 v) (map Byte (le_bytes 4 v))"
  using emits_append_val [of "[v8]"]
  by (simp_all add: append_u8_def append_u32_def append_f32_def emits_append_val)

lemma emits_seq_items [emits]: "emits_items (WriteByteSeq v) (seq_items v)"
  unfolding seq_items_def by (rule emits_WriteByteSeq)

lemma guid_byte_0 [simp]: "guid_byte 0 i = 0"
  by (simp add: guid_byte_def)

lemma seq_items_0 [simp]: "seq_items 0 = []"
  by (simp add: seq_items_def)

lemma ucast_u8_u32_eq_0 [simp]: "(ucast (v :: u8) :: u32) = 0 \<longleftrightarrow> v = 0"
proof -
  have "unat v < 2 ^ 32"
    using unsigned_less [of v, where ?'a = nat] by simp
  then show ?thesis
    by (simp flip: unsigned_eq_0_iff [where ?'a = nat] add: unsigned_ucast_eq take_bit_nat_eq_self)
qed

lemma emits_guid_seq [emits]:
  "emits_items (write_if (g \<noteq> 0) (WriteByteSeq (guid_byte g i))) (seq_items (guid_byte g i))"
  by (cases "g = 0") (simp_all add: emits)

lemma hasFallDirection_hasFallData: "hasFallDirection mi \<Longrightarrow> hasFallData mi"
  by (simp add: hasFallDirection_def)

lemma hasFallDirection_both: "(hasFallData mi \<and> hasFallDirection mi) = hasFallDirection mi"
  by (auto simp: hasFallDirection_def)

lemma no_hasFallDirection: "\<not> hasFallData mi \<Longrightarrow> \<not> hasFallDirection mi"
  by (simp add: hasFallDirection_def)

lemma emits_write_element:
  assumes "el < MSEEnd"
  shows "emits_items (write_element env mi el) (emit env mi el)"
  using assms
  by (cases el)
    (simp_all add: write_element_def mse_order emit_def emits emits_bit hasFallDirection_hasFallData)

section \<open>What the reader knows\<close>

text \<open>The values the reader has when it has gone through the elements \<open>seen\<close> of the stream of \<open>mi\<close>,
  starting from the structure \<open>base\<close>.\<close>

definition known_byte ::
  "MovementStatusElements set \<Rightarrow> MovementStatusElements \<Rightarrow> MovementStatusElements \<Rightarrow> u8 \<Rightarrow> u8" where
  "known_byte seen has byte v =
     (if byte \<in> seen then v else if has \<in> seen then of_bool (v \<noteq> 0) else 0)"

definition known_id :: "MovementStatusElements set \<Rightarrow> u64 \<Rightarrow> u8 list" where
  "known_id seen g =
     [known_byte seen MSEHasGuidByte0 MSEGuidByte0 (guid_byte g 0),
      known_byte seen MSEHasGuidByte1 MSEGuidByte1 (guid_byte g 1),
      known_byte seen MSEHasGuidByte2 MSEGuidByte2 (guid_byte g 2),
      known_byte seen MSEHasGuidByte3 MSEGuidByte3 (guid_byte g 3),
      known_byte seen MSEHasGuidByte4 MSEGuidByte4 (guid_byte g 4),
      known_byte seen MSEHasGuidByte5 MSEGuidByte5 (guid_byte g 5),
      known_byte seen MSEHasGuidByte6 MSEGuidByte6 (guid_byte g 6),
      known_byte seen MSEHasGuidByte7 MSEGuidByte7 (guid_byte g 7)]"

definition known_tid :: "MovementStatusElements set \<Rightarrow> u64 \<Rightarrow> u8 list" where
  "known_tid seen g =
     [known_byte seen MSEHasTransportGuidByte0 MSETransportGuidByte0 (guid_byte g 0),
      known_byte seen MSEHasTransportGuidByte1 MSETransportGuidByte1 (guid_byte g 1),
      known_byte seen MSEHasTransportGuidByte2 MSETransportGuidByte2 (guid_byte g 2),
      known_byte seen MSEHasTransportGuidByte3 MSETransportGuidByte3 (guid_byte g 3),
      known_byte seen MSEHasTransportGuidByte4 MSETransportGuidByte4 (guid_byte g 4),
      known_byte seen MSEHasTransportGuidByte5 MSETransportGuidByte5 (guid_byte g 5),
      known_byte seen MSEHasTransportGuidByte6 MSETransportGuidByte6 (guid_byte g 6),
      known_byte seen MSEHasTransportGuidByte7 MSETransportGuidByte7 (guid_byte g 7)]"

definition speed_seen :: "MovementStatusElements set \<Rightarrow> bool" where
  "speed_seen seen \<longleftrightarrow>
     MSESpeedWalk \<in> seen \<or>
     MSESpeedRun \<in> seen \<or>
     MSESpeedRunBack \<in> seen \<or>
     MSESpeedSwim \<in> seen \<or>
     MSESpeedSwimBack \<in> seen \<or>
     MSESpeedTurnRate \<in> seen \<or>
     MSESpeedFlight \<in> seen \<or>
     MSESpeedFlightBack \<in> seen \<or>
     MSESpeedPitchRate \<in> seen"

definition received ::
  "float_env \<Rightarrow> MovementInfo \<Rightarrow> MovementInfo \<Rightarrow> MovementStatusElements set \<Rightarrow> MovementInfo" where
  "received env mi base seen =
     \<lparr>mi_guid = mi_guid base,
      mi_flags = (if MSEMovementFlags \<in> seen \<and> mi_flags mi \<noteq> 0 then mi_flags mi else mi_flags base),
      mi_flags2 = (if MSEMovementFlags2 \<in> seen \<and> mi_flags2 mi \<noteq> 0 then mi_flags2 mi else mi_flags2 base),
      mi_pos =
        \<lparr>m_positionX = (if MSEPositionX \<in> seen then m_positionX (mi_pos mi) else m_positionX (mi_pos base)),
         m_positionY = (if MSEPositionY \<in> seen then m_positionY (mi_pos mi) else m_positionY (mi_pos base)),
         m_positionZ = (if MSEPositionZ \<in> seen then m_positionZ (mi_pos mi) else m_positionZ (mi_pos base)),
         m_orientation = (if MSEOrientation \<in> seen \<and> hasOrientation env mi then NormalizeOrientation env (m_orientation (mi_pos mi)) else m_orientation (mi_pos base))\<rparr>,
      mi_time = (if MSETimestamp \<in> seen \<and> mi_time mi \<noteq> 0 then mi_time mi else mi_time base),
      mi_t_guid = mi_t_guid base,
      mi_t_pos =
        \<lparr>m_positionX = (if MSETransportPositionX \<in> seen \<and> mi_t_guid mi \<noteq> 0 then m_positionX (mi_t_pos mi) else m_positionX (mi_t_pos base)),
         m_positionY = (if MSETransportPositionY \<in> seen \<and> mi_t_guid mi \<noteq> 0 then m_positionY (mi_t_pos mi) else m_positionY (mi_t_pos base)),
         m_positionZ = (if MSETransportPositionZ \<in> seen \<and> mi_t_guid mi \<noteq> 0 then m_positionZ (mi_t_pos mi) else m_positionZ (mi_t_pos base)),
         m_orientation = (if MSETransportOrientation \<in> seen \<and> mi_t_guid mi \<noteq> 0 then NormalizeOrientation env (m_orientation (mi_t_pos mi)) else m_orientation (mi_t_pos base))\<rparr>,
      mi_t_seat = (if MSETransportSeat \<in> seen \<and> mi_t_guid mi \<noteq> 0 then mi_t_seat mi else mi_t_seat base),
      mi_t_time = (if MSETransportTime \<in> seen \<and> mi_t_guid mi \<noteq> 0 then mi_t_time mi else mi_t_time base),
      mi_t_time2 = (if MSETransportTime2 \<in> seen \<and> mi_t_guid mi \<noteq> 0 \<and> mi_t_time2 mi \<noteq> 0 then mi_t_time2 mi else mi_t_time2 base),
      mi_t_time3 = (if MSETransportTime3 \<in> seen \<and> mi_t_guid mi \<noteq> 0 \<and> mi_t_time3 mi \<noteq> 0 then mi_t_time3 mi else mi_t_time3 base),
      mi_pitch = (if MSEPitch \<in> seen \<and> hasPitch env mi then mi_pitch mi else mi_pitch base),
      mi_fallTime = (if MSEFallTime \<in> seen \<and> hasFallData mi then mi_fallTime mi else mi_fallTime base),
      mi_j_zspeed = (if MSEFallVerticalSpeed \<in> seen \<and> hasFallData mi then mi_j_zspeed mi else mi_j_zspeed base),
      mi_j_cosAngle = (if MSEFallCosAngle \<in> seen \<and> hasFallDirection mi then mi_j_cosAngle mi else mi_j_cosAngle base),
      mi_j_sinAngle = (if MSEFallSinAngle \<in> seen \<and> hasFallDirection mi then mi_j_sinAngle mi else mi_j_sinAngle base),
      mi_j_xyspeed = (if MSEFallHorizontalSpeed \<in> seen \<and> hasFallDirection mi then mi_j_xyspeed mi else mi_j_xyspeed base),
      mi_hasSpline = (if MSEHasSpline \<in> seen then mi_hasSpline mi else mi_hasSpline base),
      mi_splineElevation = (if MSESplineElevation \<in> seen \<and> hasSplineElevation env mi then mi_splineElevation mi else mi_splineElevation base),
      mi_ackCount = (if MSECounter \<in> seen then mi_ackCount mi else mi_ackCount base),
      mi_ackSpeed = (if speed_seen seen then mi_ackSpeed mi else mi_ackSpeed base),
      mi_height = (if MSEHeight \<in> seen then mi_height mi else mi_height base)\<rparr>"

definition expected ::
  "float_env \<Rightarrow> MovementInfo \<Rightarrow> MovementInfo \<Rightarrow> MovementStatusElements set \<Rightarrow> read_state" where
  "expected env mi base seen =
     \<lparr>rs_info = received env mi base seen,
      rs_id = known_id seen (mi_guid mi), rs_tid = known_tid seen (mi_t_guid mi),
      rs_hasMovementFlags = (MSEHasMovementFlags \<in> seen \<and> mi_flags mi \<noteq> 0),
      rs_hasMovementFlags2 = (MSEHasMovementFlags2 \<in> seen \<and> mi_flags2 mi \<noteq> 0),
      rs_hasTimestamp = (MSEHasTimestamp \<in> seen \<and> mi_time mi \<noteq> 0),
      rs_hasOrientation = (MSEHasOrientation \<in> seen \<and> hasOrientation env mi),
      rs_hasTransportData = (MSEHasTransportData \<in> seen \<and> mi_t_guid mi \<noteq> 0),
      rs_hasTransportTime2 = (MSEHasTransportTime2 \<in> seen \<and> mi_t_guid mi \<noteq> 0 \<and> mi_t_time2 mi \<noteq> 0),
      rs_hasTransportTime3 = (MSEHasTransportTime3 \<in> seen \<and> mi_t_guid mi \<noteq> 0 \<and> mi_t_time3 mi \<noteq> 0),
      rs_hasPitch = (MSEHasPitch \<in> seen \<and> hasPitch env mi),
      rs_hasFallData = (MSEHasFallData \<in> seen \<and> hasFallData mi),
      rs_hasFallDirection = (MSEHasFallDirection \<in> seen \<and> hasFallDirection mi),
      rs_hasSplineElevation = (MSEHasSplineElevation \<in> seen \<and> hasSplineElevation env mi)\<rparr>"

text \<open>What can go through a movement packet unchanged: flags within the thirty and twelve bits the
  packet gives them, and a transport guid whose presence survives the conversion of \<^verbatim>\<open>uint64\<close> to the
  \<^verbatim>\<open>uint32\<close> argument of \<^verbatim>\<open>WriteBit\<close>.\<close>

definition sendable :: "MovementInfo \<Rightarrow> bool" where
  "sendable mi \<longleftrightarrow>
     mi_flags mi < 2 ^ 30 \<and> mi_flags2 mi < 2 ^ 12 \<and>
     (mi_t_guid mi \<noteq> 0 \<longrightarrow> ucast (mi_t_guid mi) \<noteq> (0 :: u32))"

lemma take_bit_less_eq_self:
  "(w :: 'a::len word) < 2 ^ n \<Longrightarrow> take_bit n w = w"
  using less_mask_eq [of w n] by (simp add: take_bit_eq_mask)

lemma sendable_flags: "sendable mi \<Longrightarrow> take_bit 30 (mi_flags mi) = mi_flags mi"
  unfolding sendable_def by (rule take_bit_less_eq_self) simp

lemma sendable_flags2:
  assumes "sendable mi"
  shows "ucast (take_bit 12 (ucast (mi_flags2 mi) :: u32)) = mi_flags2 mi"
proof -
  have "take_bit 12 (mi_flags2 mi) = mi_flags2 mi"
    using assms unfolding sendable_def by (intro take_bit_less_eq_self) simp
  moreover have "ucast (take_bit 12 (ucast w :: u32)) = take_bit 12 w" for w :: u16
    by (rule bit_word_eqI) (auto simp: bit_take_bit_iff bit_ucast_iff)
  ultimately show ?thesis by simp
qed

lemma sendable_transport:
  "sendable mi \<Longrightarrow> (ucast (mi_t_guid mi) \<noteq> (0 :: u32)) = (mi_t_guid mi \<noteq> 0)"
  by (auto simp: sendable_def)

section \<open>Statements that take a stream\<close>

text \<open>\<open>takes_items f rs its rs'\<close>: from a buffer that supplies \<open>its\<close> the reading statement \<open>f\<close> takes
  exactly these items and turns the local state \<open>rs\<close> into \<open>rs'\<close>.\<close>

definition takes_items :: "reader \<Rightarrow> read_state \<Rightarrow> item list \<Rightarrow> read_state \<Rightarrow> bool" where
  "takes_items f rs its rs' \<longleftrightarrow>
     (\<forall>b rest. supplies b (its @ rest) \<longrightarrow>
        (\<exists>b'. f (rs, b) = Inr (rs', b') \<and> supplies b' rest))"

lemma takes_itemsD:
  assumes "takes_items f rs its rs'" and "supplies b (its @ rest)"
  obtains b' where "f (rs, b) = Inr (rs', b')" and "supplies b' rest"
  using assms unfolding takes_items_def by blast

lemma takes_bit:
  assumes "upd v rs = rs'"
  shows "takes_items (get_local ReadBit upd) rs [Bit v] rs'"
  using assms by (auto simp: takes_items_def get_local_def supplies_iff)

lemma takes_bits:
  assumes "upd (take_bit n v) rs = rs'" and "n \<le> 32"
  shows "takes_items (get_local (ReadBits n) upd) rs (map Bit (bits_msb n v)) rs'"
  unfolding takes_items_def
proof (intro allI impI)
  fix b rest
  assume "supplies b (map Bit (bits_msb n v) @ rest)"
  then obtain b' where "ReadBits n b = Inr (take_bit n v, b')" and "supplies b' rest"
    using assms(2) by (rule supplies_ReadBits)
  with assms(1) show "\<exists>b'. get_local (ReadBits n) upd (rs, b) = Inr (rs', b') \<and> supplies b' rest"
    by (simp add: get_local_def)
qed

lemma takes_u32:
  assumes "upd v rs = rs'"
  shows "takes_items (get_local read_u32 upd) rs (map Byte (le_bytes 4 v)) rs'"
  unfolding takes_items_def
proof (intro allI impI)
  fix b rest
  assume "supplies b (map Byte (le_bytes 4 v) @ rest)"
  then obtain b' where "read_u32 b = Inr (v, b')" and "supplies b' rest"
    by (rule supplies_read_u32)
  with assms show "\<exists>b'. get_local read_u32 upd (rs, b) = Inr (rs', b') \<and> supplies b' rest"
    by (simp add: get_local_def)
qed

lemma read_f32_read_u32: "read_f32 = read_u32"
  by (rule ext) (simp add: read_f32_def read_u32_def)

lemma takes_f32:
  "upd v rs = rs' \<Longrightarrow> takes_items (get_local read_f32 upd) rs (map Byte (le_bytes 4 v)) rs'"
  by (simp add: read_f32_read_u32 takes_u32)

lemma takes_u8:
  assumes "upd v rs = rs'"
  shows "takes_items (get_local read_u8 upd) rs [Byte v] rs'"
  using assms by (auto simp: takes_items_def get_local_def supplies_iff)

lemma takes_byte_seq:
  assumes "upd v rs = rs'"
  shows "takes_items (get_local (ReadByteSeq (of_bool (v \<noteq> 0))) upd) rs (seq_items v) rs'"
  unfolding takes_items_def seq_items_def
proof (intro allI impI)
  fix b rest
  assume "supplies b ((if v \<noteq> 0 then [Byte (v XOR 1)] else []) @ rest)"
  then obtain b' where "ReadByteSeq (of_bool (v \<noteq> 0)) b = Inr (v, b')" and "supplies b' rest"
    by (rule supplies_ReadByteSeq)
  with assms show "\<exists>b'. get_local (ReadByteSeq (of_bool (v \<noteq> 0))) upd (rs, b) = Inr (rs', b') \<and>
      supplies b' rest"
    by (simp add: get_local_def)
qed

lemma takes_id_byte:
  assumes "rs_id rs ! k = of_bool (v \<noteq> 0)" and "rs\<lparr>rs_id := (rs_id rs)[k := v]\<rparr> = rs'"
  shows "takes_items (get_id_byte k) rs (seq_items v) rs'"
  using takes_byte_seq [of "\<lambda>v rs. rs\<lparr>rs_id := (rs_id rs)[k := v]\<rparr>", OF assms(2)] assms(1)
  by (simp add: takes_items_def get_id_byte_def)

lemma takes_tid_byte:
  assumes "rs_tid rs ! k = of_bool (v \<noteq> 0)" and "rs\<lparr>rs_tid := (rs_tid rs)[k := v]\<rparr> = rs'"
  shows "takes_items (get_tid_byte k) rs (seq_items v) rs'"
  using takes_byte_seq [of "\<lambda>v rs. rs\<lparr>rs_tid := (rs_tid rs)[k := v]\<rparr>", OF assms(2)] assms(1)
  by (simp add: takes_items_def get_tid_byte_def)

lemma takes_guid_seq:
  assumes "c rs = (g \<noteq> 0)" and "g \<noteq> 0 \<Longrightarrow> takes_items f rs (seq_items (guid_byte g k)) rs'"
    and "g = 0 \<Longrightarrow> rs' = rs"
  shows "takes_items (guarded c f) rs (seq_items (guid_byte g k)) rs'"
  using assms by (auto simp: takes_items_def guarded_def)

lemma takes_nothing: "takes_items Inr rs [] rs"
  by (simp add: takes_items_def)

lemma takes_guarded:
  assumes "c rs = p" and "p \<Longrightarrow> takes_items f rs its rs'" and "\<not> p \<Longrightarrow> rs' = rs"
  shows "takes_items (guarded c f) rs (if p then its else []) rs'"
  using assms by (auto simp: takes_items_def guarded_def)

lemmas takes = takes_bit takes_bits takes_u32 takes_f32 takes_u8 takes_id_byte takes_tid_byte

lemma known_id_other:
  assumes "\<not> el \<le> MSEHasGuidByte7" and "\<not> (MSEGuidByte0 \<le> el \<and> el \<le> MSEGuidByte7)"
  shows "known_id (insert el seen) g = known_id seen g"
  using assms by (cases el) (simp_all add: mse_order known_id_def known_byte_def)

lemma known_tid_other:
  assumes "\<not> (MSEHasTransportGuidByte0 \<le> el \<and> el \<le> MSEHasTransportGuidByte7)"
    and "\<not> (MSETransportGuidByte0 \<le> el \<and> el \<le> MSETransportGuidByte7)"
  shows "known_tid (insert el seen) g = known_tid seen g"
  using assms by (cases el) (simp_all add: mse_order known_tid_def known_byte_def)

lemma known_id_insert_has:
    "MSEGuidByte0 \<notin> seen \<Longrightarrow>
       known_id (insert MSEHasGuidByte0 seen) g = (known_id seen g)[0 := of_bool (guid_byte g 0 \<noteq> 0)]"
    "MSEGuidByte1 \<notin> seen \<Longrightarrow>
       known_id (insert MSEHasGuidByte1 seen) g = (known_id seen g)[1 := of_bool (guid_byte g 1 \<noteq> 0)]"
    "MSEGuidByte2 \<notin> seen \<Longrightarrow>
       known_id (insert MSEHasGuidByte2 seen) g = (known_id seen g)[2 := of_bool (guid_byte g 2 \<noteq> 0)]"
    "MSEGuidByte3 \<notin> seen \<Longrightarrow>
       known_id (insert MSEHasGuidByte3 seen) g = (known_id seen g)[3 := of_bool (guid_byte g 3 \<noteq> 0)]"
    "MSEGuidByte4 \<notin> seen \<Longrightarrow>
       known_id (insert MSEHasGuidByte4 seen) g = (known_id seen g)[4 := of_bool (guid_byte g 4 \<noteq> 0)]"
    "MSEGuidByte5 \<notin> seen \<Longrightarrow>
       known_id (insert MSEHasGuidByte5 seen) g = (known_id seen g)[5 := of_bool (guid_byte g 5 \<noteq> 0)]"
    "MSEGuidByte6 \<notin> seen \<Longrightarrow>
       known_id (insert MSEHasGuidByte6 seen) g = (known_id seen g)[6 := of_bool (guid_byte g 6 \<noteq> 0)]"
    "MSEGuidByte7 \<notin> seen \<Longrightarrow>
       known_id (insert MSEHasGuidByte7 seen) g = (known_id seen g)[7 := of_bool (guid_byte g 7 \<noteq> 0)]"
  by (simp_all add: known_id_def known_byte_def)

lemma known_id_insert_byte:
    "known_id (insert MSEGuidByte0 seen) g = (known_id seen g)[0 := guid_byte g 0]"
    "known_id (insert MSEGuidByte1 seen) g = (known_id seen g)[1 := guid_byte g 1]"
    "known_id (insert MSEGuidByte2 seen) g = (known_id seen g)[2 := guid_byte g 2]"
    "known_id (insert MSEGuidByte3 seen) g = (known_id seen g)[3 := guid_byte g 3]"
    "known_id (insert MSEGuidByte4 seen) g = (known_id seen g)[4 := guid_byte g 4]"
    "known_id (insert MSEGuidByte5 seen) g = (known_id seen g)[5 := guid_byte g 5]"
    "known_id (insert MSEGuidByte6 seen) g = (known_id seen g)[6 := guid_byte g 6]"
    "known_id (insert MSEGuidByte7 seen) g = (known_id seen g)[7 := guid_byte g 7]"
  by (simp_all add: known_id_def known_byte_def)

lemma known_id_nth:
    "MSEHasGuidByte0 \<in> seen \<Longrightarrow> MSEGuidByte0 \<notin> seen \<Longrightarrow>
       known_id seen g ! 0 = of_bool (guid_byte g 0 \<noteq> 0)"
    "MSEHasGuidByte1 \<in> seen \<Longrightarrow> MSEGuidByte1 \<notin> seen \<Longrightarrow>
       known_id seen g ! Suc 0 = of_bool (guid_byte g (Suc 0) \<noteq> 0)"
    "MSEHasGuidByte2 \<in> seen \<Longrightarrow> MSEGuidByte2 \<notin> seen \<Longrightarrow>
       known_id seen g ! 2 = of_bool (guid_byte g 2 \<noteq> 0)"
    "MSEHasGuidByte3 \<in> seen \<Longrightarrow> MSEGuidByte3 \<notin> seen \<Longrightarrow>
       known_id seen g ! 3 = of_bool (guid_byte g 3 \<noteq> 0)"
    "MSEHasGuidByte4 \<in> seen \<Longrightarrow> MSEGuidByte4 \<notin> seen \<Longrightarrow>
       known_id seen g ! 4 = of_bool (guid_byte g 4 \<noteq> 0)"
    "MSEHasGuidByte5 \<in> seen \<Longrightarrow> MSEGuidByte5 \<notin> seen \<Longrightarrow>
       known_id seen g ! 5 = of_bool (guid_byte g 5 \<noteq> 0)"
    "MSEHasGuidByte6 \<in> seen \<Longrightarrow> MSEGuidByte6 \<notin> seen \<Longrightarrow>
       known_id seen g ! 6 = of_bool (guid_byte g 6 \<noteq> 0)"
    "MSEHasGuidByte7 \<in> seen \<Longrightarrow> MSEGuidByte7 \<notin> seen \<Longrightarrow>
       known_id seen g ! 7 = of_bool (guid_byte g 7 \<noteq> 0)"
  by (simp_all add: known_id_def known_byte_def)

lemma known_tid_insert_has:
    "MSETransportGuidByte0 \<notin> seen \<Longrightarrow>
       known_tid (insert MSEHasTransportGuidByte0 seen) g = (known_tid seen g)[0 := of_bool (guid_byte g 0 \<noteq> 0)]"
    "MSETransportGuidByte1 \<notin> seen \<Longrightarrow>
       known_tid (insert MSEHasTransportGuidByte1 seen) g = (known_tid seen g)[1 := of_bool (guid_byte g 1 \<noteq> 0)]"
    "MSETransportGuidByte2 \<notin> seen \<Longrightarrow>
       known_tid (insert MSEHasTransportGuidByte2 seen) g = (known_tid seen g)[2 := of_bool (guid_byte g 2 \<noteq> 0)]"
    "MSETransportGuidByte3 \<notin> seen \<Longrightarrow>
       known_tid (insert MSEHasTransportGuidByte3 seen) g = (known_tid seen g)[3 := of_bool (guid_byte g 3 \<noteq> 0)]"
    "MSETransportGuidByte4 \<notin> seen \<Longrightarrow>
       known_tid (insert MSEHasTransportGuidByte4 seen) g = (known_tid seen g)[4 := of_bool (guid_byte g 4 \<noteq> 0)]"
    "MSETransportGuidByte5 \<notin> seen \<Longrightarrow>
       known_tid (insert MSEHasTransportGuidByte5 seen) g = (known_tid seen g)[5 := of_bool (guid_byte g 5 \<noteq> 0)]"
    "MSETransportGuidByte6 \<notin> seen \<Longrightarrow>
       known_tid (insert MSEHasTransportGuidByte6 seen) g = (known_tid seen g)[6 := of_bool (guid_byte g 6 \<noteq> 0)]"
    "MSETransportGuidByte7 \<notin> seen \<Longrightarrow>
       known_tid (insert MSEHasTransportGuidByte7 seen) g = (known_tid seen g)[7 := of_bool (guid_byte g 7 \<noteq> 0)]"
  by (simp_all add: known_tid_def known_byte_def)

lemma known_tid_insert_byte:
    "known_tid (insert MSETransportGuidByte0 seen) g = (known_tid seen g)[0 := guid_byte g 0]"
    "known_tid (insert MSETransportGuidByte1 seen) g = (known_tid seen g)[1 := guid_byte g 1]"
    "known_tid (insert MSETransportGuidByte2 seen) g = (known_tid seen g)[2 := guid_byte g 2]"
    "known_tid (insert MSETransportGuidByte3 seen) g = (known_tid seen g)[3 := guid_byte g 3]"
    "known_tid (insert MSETransportGuidByte4 seen) g = (known_tid seen g)[4 := guid_byte g 4]"
    "known_tid (insert MSETransportGuidByte5 seen) g = (known_tid seen g)[5 := guid_byte g 5]"
    "known_tid (insert MSETransportGuidByte6 seen) g = (known_tid seen g)[6 := guid_byte g 6]"
    "known_tid (insert MSETransportGuidByte7 seen) g = (known_tid seen g)[7 := guid_byte g 7]"
  by (simp_all add: known_tid_def known_byte_def)

lemma known_tid_nth:
    "MSEHasTransportGuidByte0 \<in> seen \<Longrightarrow> MSETransportGuidByte0 \<notin> seen \<Longrightarrow>
       known_tid seen g ! 0 = of_bool (guid_byte g 0 \<noteq> 0)"
    "MSEHasTransportGuidByte1 \<in> seen \<Longrightarrow> MSETransportGuidByte1 \<notin> seen \<Longrightarrow>
       known_tid seen g ! Suc 0 = of_bool (guid_byte g (Suc 0) \<noteq> 0)"
    "MSEHasTransportGuidByte2 \<in> seen \<Longrightarrow> MSETransportGuidByte2 \<notin> seen \<Longrightarrow>
       known_tid seen g ! 2 = of_bool (guid_byte g 2 \<noteq> 0)"
    "MSEHasTransportGuidByte3 \<in> seen \<Longrightarrow> MSETransportGuidByte3 \<notin> seen \<Longrightarrow>
       known_tid seen g ! 3 = of_bool (guid_byte g 3 \<noteq> 0)"
    "MSEHasTransportGuidByte4 \<in> seen \<Longrightarrow> MSETransportGuidByte4 \<notin> seen \<Longrightarrow>
       known_tid seen g ! 4 = of_bool (guid_byte g 4 \<noteq> 0)"
    "MSEHasTransportGuidByte5 \<in> seen \<Longrightarrow> MSETransportGuidByte5 \<notin> seen \<Longrightarrow>
       known_tid seen g ! 5 = of_bool (guid_byte g 5 \<noteq> 0)"
    "MSEHasTransportGuidByte6 \<in> seen \<Longrightarrow> MSETransportGuidByte6 \<notin> seen \<Longrightarrow>
       known_tid seen g ! 6 = of_bool (guid_byte g 6 \<noteq> 0)"
    "MSEHasTransportGuidByte7 \<in> seen \<Longrightarrow> MSETransportGuidByte7 \<notin> seen \<Longrightarrow>
       known_tid seen g ! 7 = of_bool (guid_byte g 7 \<noteq> 0)"
  by (simp_all add: known_tid_def known_byte_def)

lemma known_tid_zero: "(known_tid seen 0)[k := 0] = known_tid seen 0"
proof -
  have "known_tid seen 0 = replicate 8 0"
    by (simp add: known_tid_def known_byte_def numeral_eq_Suc)
  then show ?thesis
    by (cases "k < 8") (simp_all add: list_update_beyond list_update_same_conv)
qed

lemma received_other:
  assumes "el \<le> MSEHasSplineElevation \<or> MSEGuidByte0 \<le> el \<and> el \<le> MSEGuidByte7 \<or>
      MSETransportGuidByte0 \<le> el \<and> el \<le> MSETransportGuidByte7 \<or> repeatable el"
  shows "received env mi base (insert el seen) = received env mi base seen"
  using assms
  by (cases el) (simp_all add: mse_order received_def speed_seen_def repeatable_def)

lemma received_insert:
    "received env mi base (insert MSEHasSpline seen) =
       (received env mi base seen)\<lparr>mi_hasSpline := mi_hasSpline mi\<rparr>"
    "received env mi base (insert MSEMovementFlags seen) =
       (if mi_flags mi \<noteq> 0 then (received env mi base seen)\<lparr>mi_flags := mi_flags mi\<rparr> else received env mi base seen)"
    "received env mi base (insert MSEMovementFlags2 seen) =
       (if mi_flags2 mi \<noteq> 0 then (received env mi base seen)\<lparr>mi_flags2 := mi_flags2 mi\<rparr> else received env mi base seen)"
    "received env mi base (insert MSETimestamp seen) =
       (if mi_time mi \<noteq> 0 then (received env mi base seen)\<lparr>mi_time := mi_time mi\<rparr> else received env mi base seen)"
    "received env mi base (insert MSEPositionX seen) =
       (received env mi base seen)\<lparr>mi_pos := (mi_pos (received env mi base seen))\<lparr>m_positionX := m_positionX (mi_pos mi)\<rparr>\<rparr>"
    "received env mi base (insert MSEPositionY seen) =
       (received env mi base seen)\<lparr>mi_pos := (mi_pos (received env mi base seen))\<lparr>m_positionY := m_positionY (mi_pos mi)\<rparr>\<rparr>"
    "received env mi base (insert MSEPositionZ seen) =
       (received env mi base seen)\<lparr>mi_pos := (mi_pos (received env mi base seen))\<lparr>m_positionZ := m_positionZ (mi_pos mi)\<rparr>\<rparr>"
    "received env mi base (insert MSEOrientation seen) =
       (if hasOrientation env mi then (received env mi base seen)\<lparr>mi_pos := (mi_pos (received env mi base seen))\<lparr>m_orientation :=
          NormalizeOrientation env (m_orientation (mi_pos mi))\<rparr>\<rparr> else received env mi base seen)"
    "received env mi base (insert MSETransportPositionX seen) =
       (if mi_t_guid mi \<noteq> 0 then (received env mi base seen)\<lparr>mi_t_pos := (mi_t_pos (received env mi base seen))\<lparr>m_positionX := m_positionX (mi_t_pos mi)\<rparr>\<rparr> else received env mi base seen)"
    "received env mi base (insert MSETransportPositionY seen) =
       (if mi_t_guid mi \<noteq> 0 then (received env mi base seen)\<lparr>mi_t_pos := (mi_t_pos (received env mi base seen))\<lparr>m_positionY := m_positionY (mi_t_pos mi)\<rparr>\<rparr> else received env mi base seen)"
    "received env mi base (insert MSETransportPositionZ seen) =
       (if mi_t_guid mi \<noteq> 0 then (received env mi base seen)\<lparr>mi_t_pos := (mi_t_pos (received env mi base seen))\<lparr>m_positionZ := m_positionZ (mi_t_pos mi)\<rparr>\<rparr> else received env mi base seen)"
    "received env mi base (insert MSETransportOrientation seen) =
       (if mi_t_guid mi \<noteq> 0 then (received env mi base seen)\<lparr>mi_t_pos := (mi_t_pos (received env mi base seen))\<lparr>m_orientation :=
          NormalizeOrientation env (m_orientation (mi_t_pos mi))\<rparr>\<rparr> else received env mi base seen)"
    "received env mi base (insert MSETransportSeat seen) =
       (if mi_t_guid mi \<noteq> 0 then (received env mi base seen)\<lparr>mi_t_seat := mi_t_seat mi\<rparr> else received env mi base seen)"
    "received env mi base (insert MSETransportTime seen) =
       (if mi_t_guid mi \<noteq> 0 then (received env mi base seen)\<lparr>mi_t_time := mi_t_time mi\<rparr> else received env mi base seen)"
    "received env mi base (insert MSETransportTime2 seen) =
       (if mi_t_guid mi \<noteq> 0 \<and> mi_t_time2 mi \<noteq> 0 then (received env mi base seen)\<lparr>mi_t_time2 := mi_t_time2 mi\<rparr> else received env mi base seen)"
    "received env mi base (insert MSETransportTime3 seen) =
       (if mi_t_guid mi \<noteq> 0 \<and> mi_t_time3 mi \<noteq> 0 then (received env mi base seen)\<lparr>mi_t_time3 := mi_t_time3 mi\<rparr> else received env mi base seen)"
    "received env mi base (insert MSEPitch seen) =
       (if hasPitch env mi then (received env mi base seen)\<lparr>mi_pitch := mi_pitch mi\<rparr> else received env mi base seen)"
    "received env mi base (insert MSEFallTime seen) =
       (if hasFallData mi then (received env mi base seen)\<lparr>mi_fallTime := mi_fallTime mi\<rparr> else received env mi base seen)"
    "received env mi base (insert MSEFallVerticalSpeed seen) =
       (if hasFallData mi then (received env mi base seen)\<lparr>mi_j_zspeed := mi_j_zspeed mi\<rparr> else received env mi base seen)"
    "received env mi base (insert MSEFallCosAngle seen) =
       (if hasFallDirection mi then (received env mi base seen)\<lparr>mi_j_cosAngle := mi_j_cosAngle mi\<rparr> else received env mi base seen)"
    "received env mi base (insert MSEFallSinAngle seen) =
       (if hasFallDirection mi then (received env mi base seen)\<lparr>mi_j_sinAngle := mi_j_sinAngle mi\<rparr> else received env mi base seen)"
    "received env mi base (insert MSEFallHorizontalSpeed seen) =
       (if hasFallDirection mi then (received env mi base seen)\<lparr>mi_j_xyspeed := mi_j_xyspeed mi\<rparr> else received env mi base seen)"
    "received env mi base (insert MSESplineElevation seen) =
       (if hasSplineElevation env mi then (received env mi base seen)\<lparr>mi_splineElevation := mi_splineElevation mi\<rparr> else received env mi base seen)"
    "received env mi base (insert MSECounter seen) =
       (received env mi base seen)\<lparr>mi_ackCount := mi_ackCount mi\<rparr>"
    "received env mi base (insert MSESpeedWalk seen) =
       (received env mi base seen)\<lparr>mi_ackSpeed := mi_ackSpeed mi\<rparr>"
    "received env mi base (insert MSESpeedRun seen) =
       (received env mi base seen)\<lparr>mi_ackSpeed := mi_ackSpeed mi\<rparr>"
    "received env mi base (insert MSESpeedRunBack seen) =
       (received env mi base seen)\<lparr>mi_ackSpeed := mi_ackSpeed mi\<rparr>"
    "received env mi base (insert MSESpeedSwim seen) =
       (received env mi base seen)\<lparr>mi_ackSpeed := mi_ackSpeed mi\<rparr>"
    "received env mi base (insert MSESpeedSwimBack seen) =
       (received env mi base seen)\<lparr>mi_ackSpeed := mi_ackSpeed mi\<rparr>"
    "received env mi base (insert MSESpeedTurnRate seen) =
       (received env mi base seen)\<lparr>mi_ackSpeed := mi_ackSpeed mi\<rparr>"
    "received env mi base (insert MSESpeedFlight seen) =
       (received env mi base seen)\<lparr>mi_ackSpeed := mi_ackSpeed mi\<rparr>"
    "received env mi base (insert MSESpeedFlightBack seen) =
       (received env mi base seen)\<lparr>mi_ackSpeed := mi_ackSpeed mi\<rparr>"
    "received env mi base (insert MSESpeedPitchRate seen) =
       (received env mi base seen)\<lparr>mi_ackSpeed := mi_ackSpeed mi\<rparr>"
    "received env mi base (insert MSEHeight seen) =
       (received env mi base seen)\<lparr>mi_height := mi_height mi\<rparr>"
  by (simp_all add: received_def speed_seen_def)

lemmas known_insert =
  expected_def known_id_other known_tid_other received_other received_insert
  known_id_insert_has known_id_insert_byte known_id_nth
  known_tid_insert_has known_tid_insert_byte known_tid_nth known_tid_zero no_hasFallDirection hasFallDirection_both repeatable_def SetOrientation_def

text \<open>The set of elements gone through contains the guards of its members.\<close>

definition guards_closed :: "MovementStatusElements set \<Rightarrow> bool" where
  "guards_closed seen \<longleftrightarrow> (\<forall>el\<in>seen. set (guards el) \<subseteq> seen)"

lemma guards_closed_bytes:
  assumes "guards_closed seen"
  shows "MSEHasGuidByte0 \<notin> seen \<Longrightarrow> MSEGuidByte0 \<notin> seen"
    "MSEHasGuidByte1 \<notin> seen \<Longrightarrow> MSEGuidByte1 \<notin> seen"
    "MSEHasGuidByte2 \<notin> seen \<Longrightarrow> MSEGuidByte2 \<notin> seen"
    "MSEHasGuidByte3 \<notin> seen \<Longrightarrow> MSEGuidByte3 \<notin> seen"
    "MSEHasGuidByte4 \<notin> seen \<Longrightarrow> MSEGuidByte4 \<notin> seen"
    "MSEHasGuidByte5 \<notin> seen \<Longrightarrow> MSEGuidByte5 \<notin> seen"
    "MSEHasGuidByte6 \<notin> seen \<Longrightarrow> MSEGuidByte6 \<notin> seen"
    "MSEHasGuidByte7 \<notin> seen \<Longrightarrow> MSEGuidByte7 \<notin> seen"
    "MSEHasTransportGuidByte0 \<notin> seen \<Longrightarrow> MSETransportGuidByte0 \<notin> seen"
    "MSEHasTransportGuidByte1 \<notin> seen \<Longrightarrow> MSETransportGuidByte1 \<notin> seen"
    "MSEHasTransportGuidByte2 \<notin> seen \<Longrightarrow> MSETransportGuidByte2 \<notin> seen"
    "MSEHasTransportGuidByte3 \<notin> seen \<Longrightarrow> MSETransportGuidByte3 \<notin> seen"
    "MSEHasTransportGuidByte4 \<notin> seen \<Longrightarrow> MSETransportGuidByte4 \<notin> seen"
    "MSEHasTransportGuidByte5 \<notin> seen \<Longrightarrow> MSETransportGuidByte5 \<notin> seen"
    "MSEHasTransportGuidByte6 \<notin> seen \<Longrightarrow> MSETransportGuidByte6 \<notin> seen"
    "MSEHasTransportGuidByte7 \<notin> seen \<Longrightarrow> MSETransportGuidByte7 \<notin> seen"
  using assms by (auto simp: guards_closed_def guards_def dest!: bspec)

text \<open>Reading one element: the reader that knows the elements \<open>seen\<close> takes the stream of the next
  element from the packet and knows one element more.\<close>

lemma takes_read_element:
  assumes "sendable mi" and "el < MSEEnd" and "set (guards el) \<subseteq> seen"
    and "repeatable el \<or> el \<notin> seen" and "guards_closed seen"
  shows "takes_items (read_element env el) (expected env mi base seen) (emit env mi el)
           (expected env mi base (insert el seen))"
  using assms(2-4) sendable_flags [OF assms(1)] sendable_flags2 [OF assms(1)]
    sendable_transport [OF assms(1)] guards_closed_bytes [OF assms(5)]
  apply (cases el)
  apply (simp_all add: emit_def read_element_def mse_order get_id_bit_def get_tid_bit_def get_info_def
      guards_def split del: if_split)
  apply ((rule takes_guarded takes_guid_seq)?;
      ((simp add: takes known_insert mse_order; fail) |
       auto simp: known_insert mse_order))+
  done

end
