(* ===== verification/MovementRoundtrip.thy ===== *)
theory MovementRoundtrip
  imports MovementStream
begin

text \<open>
  The generic writer and reader of movement packets are inverse to each other on every well-formed
  element table: from the elements to a whole table, and from the tables to the opcodes of the server.
\<close>

section \<open>The loops over a table\<close>

lemma write_loop_body:
  assumes "drop i tab = els @ MSEEnd # rest" and "MSEEnd \<notin> set els"
    and "i + length els < mse_val MSE_COUNT"
  shows "write_loop env mi tab i b = run_all (map (write_element env mi) els) b"
  using assms
proof (induction els arbitrary: i b)
  case Nil
  then show ?case
    using drop_eq_ConsD [of i tab MSEEnd rest] by (simp add: write_loop.simps)
next
  case (Cons el els)
  then have d: "i < length tab" "tab ! i = el" "drop (Suc i) tab = els @ MSEEnd # rest"
    using drop_eq_ConsD [of i tab el "els @ MSEEnd # rest"] by auto
  with Cons have "write_loop env mi tab (Suc i) b' = run_all (map (write_element env mi) els) b'" for b'
    by simp
  with d Cons.prems show ?case
    by (auto simp: write_loop.simps [of env mi tab i] split: sum.splits)
qed

lemma read_loop_body:
  assumes "drop i tab = els @ MSEEnd # rest" and "MSEEnd \<notin> set els"
    and "i + length els < mse_val MSE_COUNT"
  shows "read_loop env tab i s = run_all (map (read_element env) els) s"
  using assms
proof (induction els arbitrary: i s)
  case Nil
  then show ?case
    using drop_eq_ConsD [of i tab MSEEnd rest] by (simp add: read_loop.simps)
next
  case (Cons el els)
  then have d: "i < length tab" "tab ! i = el" "drop (Suc i) tab = els @ MSEEnd # rest"
    using drop_eq_ConsD [of i tab el "els @ MSEEnd # rest"] by auto
  with Cons have "read_loop env tab (Suc i) s' = run_all (map (read_element env) els) s'" for s'
    by simp
  with d Cons.prems show ?case
    by (auto simp: read_loop.simps [of env tab i] split: sum.splits)
qed

lemma write_loop_wf:
  assumes "wf_table tab"
  shows "write_loop env mi tab 0 = run_all (map (write_element env mi) (table_body tab))"
proof
  fix b
  obtain rest where "drop 0 tab = table_body tab @ MSEEnd # rest"
    using wf_table_split [OF assms] by (metis drop0)
  then show "write_loop env mi tab 0 b = run_all (map (write_element env mi) (table_body tab)) b"
    using assms table_body_not_End by (intro write_loop_body) (auto simp: wf_table_def)
qed

lemma read_loop_wf:
  assumes "wf_table tab"
  shows "read_loop env tab 0 = run_all (map (read_element env) (table_body tab))"
proof
  fix s
  obtain rest where "drop 0 tab = table_body tab @ MSEEnd # rest"
    using wf_table_split [OF assms] by (metis drop0)
  then show "read_loop env tab 0 s = run_all (map (read_element env) (table_body tab)) s"
    using assms table_body_not_End by (intro read_loop_body) (auto simp: wf_table_def)
qed

section \<open>The stream of a table\<close>

abbreviation emit_all :: "float_env \<Rightarrow> MovementInfo \<Rightarrow> MovementStatusElements list \<Rightarrow> item list" where
  "emit_all env mi els \<equiv> concat (map (emit env mi) els)"

lemma emits_table:
  assumes "wf_table tab"
  shows "emits_items (write_loop env mi tab 0) (emit_all env mi (table_body tab))"
  unfolding write_loop_wf [OF assms]
  using assms
  by (intro emits_map emits_write_element) (auto simp: wf_table_def dest: ready_seq_less_End)

lemma takes_run_all:
  assumes "sendable mi" and "ready_seq seen els" and "guards_closed (set seen)"
  shows "takes_items (run_all (map (read_element env) els)) (expected env mi base (set seen))
           (emit_all env mi els) (expected env mi base (set els \<union> set seen))"
  using assms(2,3)
proof (induction els arbitrary: seen)
  case Nil
  then show ?case by (simp add: takes_items_def)
next
  case (Cons el els)
  have first: "takes_items (read_element env el) (expected env mi base (set seen)) (emit env mi el)
      (expected env mi base (insert el (set seen)))"
    using Cons.prems assms(1) by (intro takes_read_element) (auto simp: list_all_iff)
  have "guards_closed (set (el # seen))"
    using Cons.prems by (auto simp: guards_closed_def list_all_iff)
  with Cons have rest: "takes_items (run_all (map (read_element env) els))
      (expected env mi base (insert el (set seen))) (emit_all env mi els)
      (expected env mi base (set (el # els) \<union> set seen))"
    using Cons.IH [of "el # seen"] by simp
  show ?case
    unfolding takes_items_def
  proof (intro allI impI)
    fix b r
    assume "supplies b (emit_all env mi (el # els) @ r)"
    then obtain b1 where b1: "read_element env el (expected env mi base (set seen), b) =
        Inr (expected env mi base (insert el (set seen)), b1)" "supplies b1 (emit_all env mi els @ r)"
      using takes_itemsD [OF first, of b "emit_all env mi els @ r"] by auto
    from takes_itemsD [OF rest b1(2)] b1(1)
    show "\<exists>b'. run_all (map (read_element env) (el # els)) (expected env mi base (set seen), b) =
        Inr (expected env mi base (set (el # els) \<union> set seen), b') \<and> supplies b' r"
      by auto
  qed
qed

lemma expected_start: "expected env mi base {} = rs_new base"
  by (simp add: expected_def rs_new_def known_id_def known_tid_def known_byte_def received_def
      speed_seen_def numeral_eq_Suc)

text \<open>Bit elements give bits, the others bytes.\<close>

lemma length_bits_msb [simp]: "length (bits_msb n v) = n"
  by (simp add: bits_msb_def)

lemma emit_bits:
  assumes "is_bit el"
  obtains bs where "emit env mi el = map Bit bs" and "length bs \<le> 30"
proof -
  have "\<exists>bs. emit env mi el = map Bit bs \<and> length bs \<le> 30"
    using assms
    by (cases el) (auto simp: is_bit_def repeatable_def mse_order emit_def
        intro: exI [of _ "[]"] exI [of _ "[x]" for x] exI [of _ "bits_msb n x" for n x])
  with that show ?thesis by blast
qed

lemma emit_bytes:
  assumes "\<not> is_bit el"
  obtains bs where "emit env mi el = map Byte bs" and "length bs \<le> 30"
proof -
  have "\<exists>bs. emit env mi el = map Byte bs \<and> length bs \<le> 30"
    using assms
    by (cases el) (auto simp: is_bit_def repeatable_def mse_order emit_def seq_items_def
        intro: exI [of _ "[]"] exI [of _ "[x]" for x])
  with that show ?thesis by blast
qed

lemma emit_all_bits:
  assumes "list_all is_bit els"
  obtains bs where "emit_all env mi els = map Bit bs" and "length bs \<le> 30 * length els"
proof -
  have "\<exists>bs. emit_all env mi els = map Bit bs \<and> length bs \<le> 30 * length els"
    using assms
  proof (induction els)
    case Nil
    then show ?case by simp
  next
    case (Cons el els)
    then obtain bs cs where "emit env mi el = map Bit bs" "length bs \<le> 30"
      "emit_all env mi els = map Bit cs" "length cs \<le> 30 * length els"
      by (metis emit_bits list.pred_inject(2))
    then show ?case by (intro exI [of _ "bs @ cs"]) simp
  qed
  with that show ?thesis by blast
qed

lemma emit_all_bytes:
  assumes "list_all (\<lambda>el. \<not> is_bit el) els"
  obtains bs where "emit_all env mi els = map Byte bs" and "length bs \<le> 30 * length els"
proof -
  have "\<exists>bs. emit_all env mi els = map Byte bs \<and> length bs \<le> 30 * length els"
    using assms
  proof (induction els)
    case Nil
    then show ?case by simp
  next
    case (Cons el els)
    then obtain bs cs where "emit env mi el = map Byte bs" "length bs \<le> 30"
      "emit_all env mi els = map Byte cs" "length cs \<le> 30 * length els"
      by (metis emit_bytes list.pred_inject(2))
    then show ?case by (intro exI [of _ "bs @ cs"]) simp
  qed
  with that show ?thesis by blast
qed

lemma emit_table_shape:
  assumes "wf_table tab"
  obtains xs bs ys where
    "emit_all env mi (table_body tab) = map Byte xs @ map Bit bs @ map Byte ys"
    and "length xs + length bs + length ys \<le> 2400"
proof -
  obtain as cs es where sp: "table_body tab = as @ cs @ es"
    "list_all (\<lambda>el. \<not> is_bit el) as" "list_all is_bit cs" "list_all (\<lambda>el. \<not> is_bit el) es"
    using assms one_bit_run_split [of "table_body tab"] unfolding wf_table_def by metis
  obtain xs where xs: "emit_all env mi as = map Byte xs" "length xs \<le> 30 * length as"
    using emit_all_bytes [OF sp(2)] by blast
  obtain bs where bs: "emit_all env mi cs = map Bit bs" "length bs \<le> 30 * length cs"
    using emit_all_bits [OF sp(3)] by blast
  obtain ys where ys: "emit_all env mi es = map Byte ys" "length ys \<le> 30 * length es"
    using emit_all_bytes [OF sp(4)] by blast
  have "length as + length cs + length es \<le> 80"
    using assms sp(1) by (simp add: wf_table_def)
  with xs bs ys sp(1) that [of xs bs ys] show ?thesis by simp
qed

text \<open>The structure that comes out of a packet with the elements \<open>els\<close>: what the packet carries of
  \<open>mi\<close>, the rest from \<open>base\<close>.\<close>

definition received_packet ::
  "float_env \<Rightarrow> MovementInfo \<Rightarrow> MovementInfo \<Rightarrow> MovementStatusElements list \<Rightarrow> MovementInfo" where
  "received_packet env mi base els =
     (received env mi base (set els))\<lparr>mi_guid := mi_guid mi,
        mi_t_guid := (if MSEHasTransportData \<in> set els then mi_t_guid mi else 0)\<rparr>"

lemma le_bytes_8_guid_byte:
  "le_bytes 8 g =
     [guid_byte g 0, guid_byte g 1, guid_byte g 2, guid_byte g 3,
      guid_byte g 4, guid_byte g 5, guid_byte g 6, guid_byte g 7]"
  by (simp add: le_bytes_def guid_byte_def upt_rec)

lemma wf_table_known_id:
  assumes "wf_table tab"
  shows "le_word (known_id (set (table_body tab)) g) = g"
proof -
  have "known_id (set (table_body tab)) g = le_bytes 8 g"
    using wf_table_guid_bytes [OF assms]
    by (simp add: known_id_def known_byte_def le_bytes_8_guid_byte is_guid_byte_def mse_order)
  then show ?thesis by (simp add: u64_codec.dec_enc)
qed

lemma wf_table_guards_closed:
  assumes "wf_table tab"
  shows "guards_closed (set (table_body tab))"
  using ready_seq_guards_closed [of "[]" "table_body tab"] assms
  by (auto simp: guards_closed_def wf_table_def)

lemma wf_table_known_tid:
  assumes "wf_table tab"
  shows "le_word (known_tid (set (table_body tab)) g) =
           (if MSEHasTransportData \<in> set (table_body tab) then g else 0)"
proof (cases "MSEHasTransportData \<in> set (table_body tab)")
  case True
  have "known_tid (set (table_body tab)) g = le_bytes 8 g"
    using wf_table_transport_guid_bytes [OF assms True]
    by (simp add: known_tid_def known_byte_def le_bytes_8_guid_byte is_transport_guid_byte_def mse_order)
  with True show ?thesis by (simp add: u64_codec.dec_enc)
next
  case False
  have "set (guards x) \<subseteq> set (table_body tab)" if "x \<in> set (table_body tab)" for x
    using wf_table_guards_closed [OF assms] that by (auto simp: guards_closed_def)
  with False have "x \<notin> set (table_body tab)" if "MSEHasTransportData \<in> set (guards x)" for x
    using that by auto
  then have "known_tid (set (table_body tab)) g = replicate 8 0"
    by (simp add: known_tid_def known_byte_def guards_def numeral_eq_Suc)
  with False show ?thesis by (simp add: numeral_eq_Suc)
qed

text \<open>Write, flush, read.\<close>

theorem table_roundtrip:
  assumes "wf_table tab" and "sendable mi"
  obtains b b' b'' where "write_loop env mi tab 0 bb_new = Inr b" and "FlushBits b = Inr b'"
    and "read_with (read_loop env tab 0) base b' =
           Inr (received_packet env mi base (table_body tab), b'')"
proof -
  obtain xs bs ys where sh:
    "emit_all env mi (table_body tab) = map Byte xs @ map Bit bs @ map Byte ys"
    "length xs + length bs + length ys \<le> 2400"
    using emit_table_shape [OF assms(1)] by blast
  have em: "emits_items (write_loop env mi tab 0) (map Byte xs @ map Bit bs @ map Byte ys)"
    using emits_table [OF assms(1), of env mi] sh(1) by simp
  have "length xs + length bs + length ys < 1000000"
    using sh(2) by simp
  then obtain b b' where b: "write_loop env mi tab 0 bb_new = Inr b" "FlushBits b = Inr b'"
    and "supplies b' (map Byte xs @ map Bit bs @ map Byte ys)"
    using emits_then_supplies [OF em] by blast
  then have sup: "supplies b' (emit_all env mi (table_body tab) @ [])"
    using sh(1) by simp
  have "takes_items (read_loop env tab 0) (rs_new base) (emit_all env mi (table_body tab))
      (expected env mi base (set (table_body tab)))"
    using takes_run_all [OF assms(2), of "[]" "table_body tab" env base] assms(1)
    by (simp add: read_loop_wf expected_start guards_closed_def wf_table_def)
  then obtain b'' where "read_loop env tab 0 (rs_new base, b') =
      Inr (expected env mi base (set (table_body tab)), b'')"
    using sup by (rule takes_itemsD)
  then have "read_with (read_loop env tab 0) base b' =
      Inr (received_packet env mi base (table_body tab), b'')"
    by (simp add: read_with_def read_finish_def expected_def received_packet_def
        wf_table_known_id [OF assms(1)] wf_table_known_tid [OF assms(1)])
  with b that show ?thesis by blast
qed

section \<open>Round trips\<close>

lemma Write_OLD_Some:
  "GetMovementStatusElementsSequence opcode = Some tab \<Longrightarrow>
     Write_OLD env mi opcode = write_loop env mi tab 0"
  by (rule ext) (simp add: Write_OLD_def)

lemma Read_OLD_Some:
  "GetMovementStatusElementsSequence opcode = Some tab \<Longrightarrow>
     Read_OLD env opcode = read_with (read_loop env tab 0)"
  by (intro ext) (simp add: Read_OLD_def)

text \<open>The fields a packet may leave out agree on both sides, and orientations are normalised.\<close>

definition omitted_agree :: "float_env \<Rightarrow> MovementInfo \<Rightarrow> MovementInfo \<Rightarrow> bool" where
  "omitted_agree env mi base \<longleftrightarrow>
     (mi_flags mi = 0 \<longrightarrow> mi_flags base = 0) \<and> (mi_flags2 mi = 0 \<longrightarrow> mi_flags2 base = 0) \<and>
     (mi_time mi = 0 \<longrightarrow> mi_time base = 0) \<and>
     (if hasOrientation env mi
      then NormalizeOrientation env (m_orientation (mi_pos mi)) = m_orientation (mi_pos mi)
      else m_orientation (mi_pos base) = m_orientation (mi_pos mi)) \<and>
     (if mi_t_guid mi \<noteq> 0
      then NormalizeOrientation env (m_orientation (mi_t_pos mi)) = m_orientation (mi_t_pos mi)
      else mi_t_pos base = mi_t_pos mi \<and> mi_t_seat base = mi_t_seat mi \<and>
           mi_t_time base = mi_t_time mi) \<and>
     (mi_t_guid mi = 0 \<or> mi_t_time2 mi = 0 \<longrightarrow> mi_t_time2 base = mi_t_time2 mi) \<and>
     (mi_t_guid mi = 0 \<or> mi_t_time3 mi = 0 \<longrightarrow> mi_t_time3 base = mi_t_time3 mi) \<and>
     (\<not> hasPitch env mi \<longrightarrow> mi_pitch base = mi_pitch mi) \<and>
     (\<not> hasFallData mi \<longrightarrow> mi_fallTime base = mi_fallTime mi \<and> mi_j_zspeed base = mi_j_zspeed mi) \<and>
     (\<not> hasFallDirection mi \<longrightarrow>
        mi_j_cosAngle base = mi_j_cosAngle mi \<and> mi_j_sinAngle base = mi_j_sinAngle mi \<and>
        mi_j_xyspeed base = mi_j_xyspeed mi) \<and>
     (\<not> hasSplineElevation env mi \<longrightarrow> mi_splineElevation base = mi_splineElevation mi)"

text \<open>The acknowledgement fields are carried by the tables of acknowledgements only.\<close>

definition ack_from :: "MovementStatusElements list \<Rightarrow> MovementInfo \<Rightarrow> MovementInfo \<Rightarrow> MovementInfo" where
  "ack_from els base mi =
     mi\<lparr>mi_ackCount := (if MSECounter \<in> set els then mi_ackCount mi else mi_ackCount base),
        mi_ackSpeed := (if speed_seen (set els) then mi_ackSpeed mi else mi_ackSpeed base),
        mi_height := (if MSEHeight \<in> set els then mi_height mi else mi_height base)\<rparr>"

lemma received_packet_full:
  assumes "wf_table tab" and "full_table tab" and "omitted_agree env mi base"
  shows "received_packet env mi base (table_body tab) = ack_from (table_body tab) base mi"
proof -
  have c: "is_core x \<Longrightarrow> x \<in> set (table_body tab)" for x
    using full_table_core [OF assms(1,2)] .
  note agree = assms(3) [unfolded omitted_agree_def]
  have pos: "mi_pos (received_packet env mi base (table_body tab)) = mi_pos mi"
    using agree
    by (intro Position.equality)
      (simp_all add: received_packet_def received_def c is_core_def mse_order split: if_splits)
  have t_pos: "mi_t_pos (received_packet env mi base (table_body tab)) = mi_t_pos mi"
    using agree
    by (intro Position.equality)
      (simp_all add: received_packet_def received_def c is_core_def mse_order split: if_splits)
  show ?thesis
  proof (rule MovementInfo.MovementInfo.equality)
    show "mi_pos (received_packet env mi base (table_body tab)) =
        mi_pos (ack_from (table_body tab) base mi)"
      using pos by (simp add: ack_from_def)
    show "mi_t_pos (received_packet env mi base (table_body tab)) =
        mi_t_pos (ack_from (table_body tab) base mi)"
      using t_pos by (simp add: ack_from_def)
  qed (use agree in \<open>simp_all add: received_packet_def received_def ack_from_def c is_core_def
      mse_order split: if_splits\<close>)
qed

text \<open>A sample: exact comparison and no normalisation stand in for the floating-point routines.\<close>

definition sample_env :: float_env where
  "sample_env = \<lparr>fuzzyEq = (=), NormalizeOrientation = (\<lambda>x. x)\<rparr>"

definition sample_move :: MovementInfo where
  "sample_move =
     (MovementInfo_new sample_env)\<lparr>mi_guid := 0x1234, mi_flags := 0x801, mi_time := 77,
        mi_t_guid := 0x1FC0000000000007, mi_t_time2 := 5, mi_fallTime := 12, mi_hasSpline := True\<rparr>"

lemma sample_move_sendable: "sendable sample_move"
  by (simp add: sendable_def sample_move_def MovementInfo_new_def)

lemma sample_move_agree: "omitted_agree sample_env sample_move (MovementInfo_new sample_env)"
  by (simp add: omitted_agree_def sample_move_def MovementInfo_new_def sample_env_def Relocate_def
      hasOrientation_def hasPitch_def hasFallData_def hasFallDirection_def hasSplineElevation_def
      float_true_def)

lemma GetMovementStatusElementsSequence_HEARTBEAT:
  "GetMovementStatusElementsSequence MSG_MOVE_HEARTBEAT = Some MovementHeartBeatSequence"
  by (simp add: GetMovementStatusElementsSequence_member [symmetric] movement_sequences_def)



text \<open>on the tables that describe a movement completely (54 opcodes), a structure whose omitted
  fields agree with the reader's is received unchanged, acknowledgement fields included where the
  table carries them.\<close>

theorem movement_full_roundtrip:
  assumes "GetMovementStatusElementsSequence opcode = Some tab" and "full_table tab"
    and "opcode \<noteq> SMSG_MOVE_UPDATE_COLLISION_HEIGHT"
    and "sendable mi" and "omitted_agree env mi base"
  shows "\<exists>b b' b''. Write_OLD env mi opcode bb_new = Inr b \<and> FlushBits b = Inr b' \<and>
           Read_OLD env opcode base b' = Inr (ack_from (table_body tab) base mi, b'')"
proof -
  have wf: "wf_table tab"
    using assms(1,3) by (rule wf_GetMovementStatusElementsSequence)
  then obtain b b' b'' where "write_loop env mi tab 0 bb_new = Inr b" "FlushBits b = Inr b'"
    "read_with (read_loop env tab 0) base b' =
       Inr (received_packet env mi base (table_body tab), b'')"
    using assms(4) by (rule table_roundtrip)
  then show ?thesis
    by (simp add: Write_OLD_Some [OF assms(1)] Read_OLD_Some [OF assms(1)]
        received_packet_full [OF wf assms(2,5)])
qed

theorem movement_full_roundtrip_witness:
  "\<exists>b b' b''. Write_OLD sample_env sample_move MSG_MOVE_HEARTBEAT bb_new = Inr b \<and>
     FlushBits b = Inr b' \<and>
     Read_OLD sample_env MSG_MOVE_HEARTBEAT (MovementInfo_new sample_env) b' = Inr (sample_move, b'')"
proof -
  have "full_table MovementHeartBeatSequence"
    by (simp add: wf_eval MovementHeartBeatSequence_def)
  moreover have "MSG_MOVE_HEARTBEAT \<noteq> SMSG_MOVE_UPDATE_COLLISION_HEIGHT"
    by (simp add: opcode_defs)
  moreover have "ack_from (table_body MovementHeartBeatSequence) (MovementInfo_new sample_env)
      sample_move = sample_move"
    by (simp add: ack_from_def table_body_def MovementHeartBeatSequence_def speed_seen_def
        sample_move_def MovementInfo_new_def)
  ultimately show ?thesis
    using movement_full_roundtrip [OF GetMovementStatusElementsSequence_HEARTBEAT _ _
        sample_move_sendable sample_move_agree] by simp
qed

end
