(* ===== verification/MovementPackets.thy ===== *)
theory MovementPackets
  imports MovementRoundtrip
begin

text \<open>
  The movement packets as the sessions use them: writing never fails, reading fails only on a packet
  that is too short, the packets that the server writes and reads by hand agree with the generic
  ones, and the packets that broadcast a client's acknowledgement.
\<close>

section \<open>Writing never fails\<close>

definition table_writable :: "MovementStatusElements list \<Rightarrow> bool" where
  "table_writable tab \<longleftrightarrow>
     List.member tab MSEEnd \<and> length (table_body tab) < mse_val MSE_COUNT \<and>
     list_all (\<lambda>el. el < MSEEnd) (table_body tab)"

lemma wf_table_writable: "wf_table tab \<Longrightarrow> table_writable tab"
  by (auto simp: wf_table_def table_writable_def list_all_iff dest: ready_seq_less_End)

lemma MovementUpdateCollisionHeight_writable: "table_writable MovementUpdateCollisionHeight"
  by (simp add: table_writable_def table_body_def MovementUpdateCollisionHeight_def mse_order)

lemma sequence_writable:
  assumes "GetMovementStatusElementsSequence opcode = Some tab"
  shows "table_writable tab"
proof (cases "opcode = SMSG_MOVE_UPDATE_COLLISION_HEIGHT")
  case True
  have "(SMSG_MOVE_UPDATE_COLLISION_HEIGHT, MovementUpdateCollisionHeight) \<in> set movement_sequences"
    by (simp add: movement_sequences_def)
  then have "tab = MovementUpdateCollisionHeight"
    using assms True by (simp add: GetMovementStatusElementsSequence_member)
  then show ?thesis by (simp add: MovementUpdateCollisionHeight_writable)
next
  case False
  with assms show ?thesis
    by (simp add: wf_GetMovementStatusElementsSequence wf_table_writable)
qed

lemma table_writable_split:
  assumes "table_writable tab"
  obtains rest where "drop 0 tab = table_body tab @ MSEEnd # rest"
proof -
  from assms have "MSEEnd \<in> set tab" by (simp add: table_writable_def)
  then obtain r where "dropWhile (\<lambda>el. el \<noteq> MSEEnd) tab = MSEEnd # r"
    by (metis (mono_tags, lifting) dropWhile_eq_Nil_conv hd_dropWhile list.exhaust_sel)
  then have "drop 0 tab = table_body tab @ MSEEnd # r"
    unfolding table_body_def by (metis drop0 takeWhile_dropWhile_id)
  with that show ?thesis by blast
qed

lemma write_loop_writable:
  assumes "table_writable tab"
  shows "write_loop env mi tab 0 b = run_all (map (write_element env mi) (table_body tab)) b"
proof -
  obtain rest where "drop 0 tab = table_body tab @ MSEEnd # rest"
    using assms by (rule table_writable_split)
  then show ?thesis
    using assms table_body_not_End by (intro write_loop_body) (auto simp: table_writable_def)
qed

lemma read_loop_writable:
  assumes "table_writable tab"
  shows "read_loop env tab 0 s = run_all (map (read_element env) (table_body tab)) s"
proof -
  obtain rest where "drop 0 tab = table_body tab @ MSEEnd # rest"
    using assms by (rule table_writable_split)
  then show ?thesis
    using assms table_body_not_End by (intro read_loop_body) (auto simp: table_writable_def)
qed

text \<open>\<open>extends_by f n\<close>: the statement does not throw on a packet with room, and adds at most \<open>n\<close> bytes.\<close>

definition extends_by :: "bb_write \<Rightarrow> nat \<Rightarrow> bool" where
  "extends_by f n \<longleftrightarrow>
     (\<forall>done pend r. length pend < 8 \<longrightarrow> length done + n + 100 < 10000000 \<longrightarrow>
        (\<exists>done' pend'. f (laid_out done pend r) = Inr (laid_out done' pend' r) \<and>
           length pend' < 8 \<and> length done' \<le> length done + n))"

lemma extends_byD:
  assumes "extends_by f n" and "length pend < 8" and "length done + n + 100 < 10000000"
  obtains done' pend' where "f (laid_out done pend r) = Inr (laid_out done' pend' r)"
    and "length pend' < 8" and "length done' \<le> length done + n"
  using assms unfolding extends_by_def by blast

lemma extends_run_all:
  assumes "\<forall>f\<in>set fs. extends_by f k" and "length fs * k \<le> n"
  shows "extends_by (run_all fs) n"
  unfolding extends_by_def
proof (intro allI impI)
  fix "done" :: "u8 list" and pend :: "bool list" and r
  assume "length pend < 8" and "length done + n + 100 < 10000000"
  then have "\<exists>done' pend'. run_all fs (laid_out done pend r) = Inr (laid_out done' pend' r) \<and>
      length pend' < 8 \<and> length done' \<le> length done + length fs * k"
    using assms
  proof (induction fs arbitrary: "done" pend n)
    case Nil
    then show ?case by auto
  next
    case (Cons f fs)
    have "length done + k + 100 < 10000000"
      using Cons.prems by simp
    then obtain d1 p1 where 1: "f (laid_out done pend r) = Inr (laid_out d1 p1 r)" "length p1 < 8"
      "length d1 \<le> length done + k"
      using Cons.prems extends_byD [of f k pend "done" r] by auto
    obtain d2 p2 where "run_all fs (laid_out d1 p1 r) = Inr (laid_out d2 p2 r)" "length p2 < 8"
      "length d2 \<le> length d1 + length fs * k"
      using Cons.IH [OF 1(2), of d1 "length fs * k"] Cons.prems 1(3) by auto
    with 1 show ?case by (intro exI [of _ d2] exI [of _ p2]) auto
  qed
  then show "\<exists>done' pend'. run_all fs (laid_out done pend r) = Inr (laid_out done' pend' r) \<and>
      length pend' < 8 \<and> length done' \<le> length done + n"
    using assms(2) by fastforce
qed

lemma extends_block:
  assumes "length fs \<le> 20" and "\<forall>f\<in>set fs. extends_by f (n div 20)"
  shows "extends_by (run_all fs) n"
proof (rule extends_run_all [OF assms(2)])
  have "length fs * (n div 20) \<le> 20 * (n div 20)"
    using assms(1) by (rule mult_right_mono) simp
  also have "\<dots> \<le> n" by simp
  finally show "length fs * (n div 20) \<le> n" .
qed

lemma extends_emits:
  assumes "emits_items f its" and "2 * length its \<le> n"
  shows "extends_by f n"
  unfolding extends_by_def
proof (intro allI impI)
  fix "done" :: "u8 list" and pend :: "bool list" and r
  assume p: "length pend < 8" and rm: "length done + n + 100 < 10000000"
  then have "room done its"
    using assms(2) by (simp add: room_def)
  with assms(1) p have "f (laid_out done pend r) =
      Inr (laid_out (fst (lay its (done, pend))) (snd (lay its (done, pend))) r)"
    by (rule emits_itemsD)
  moreover have "length (fst (lay its (done, pend))) \<le> length done + n"
    using lay_length [of its "(done, pend)"] assms(2) by simp
  ultimately show "\<exists>done' pend'. f (laid_out done pend r) = Inr (laid_out done' pend' r) \<and>
      length pend' < 8 \<and> length done' \<le> length done + n"
    using lay_pending [of "(done, pend)" its] p by auto
qed

lemma extends_primitives:
  "2 \<le> n \<Longrightarrow> extends_by (WriteBit v) n"
  "2 * k \<le> n \<Longrightarrow> extends_by (WriteBits v k) n"
  "2 \<le> n \<Longrightarrow> extends_by (WriteByteSeq x) n"
  "2 \<le> n \<Longrightarrow> extends_by (append_u8 x) n"
  "8 \<le> n \<Longrightarrow> extends_by (append_u32 v) n"
  "8 \<le> n \<Longrightarrow> extends_by (append_f32 v) n"
  by (auto intro!: extends_emits [OF emits_WriteBit] extends_emits [OF emits_WriteBits]
      extends_emits [OF emits_WriteByteSeq] extends_emits [OF emits_append_num(1)]
      extends_emits [OF emits_append_num(2)] extends_emits [OF emits_append_num(3)])

lemma extends_FlushBits:
  assumes "2 \<le> n"
  shows "extends_by FlushBits n"
  unfolding extends_by_def
proof (intro allI impI)
  fix "done" :: "u8 list" and pend :: "bool list" and r
  assume "length pend < 8" and "length done + n + 100 < 10000000"
  then have "FlushBits (laid_out done pend r) = Inr (laid_out (done @ flush_bytes pend) [] r)"
    by (intro FlushBits_laid_out) auto
  moreover have "length (done @ flush_bytes pend) \<le> length done + n"
    using assms by (simp add: flush_bytes_def)
  ultimately show "\<exists>done' pend'. FlushBits (laid_out done pend r) = Inr (laid_out done' pend' r) \<and>
      length pend' < 8 \<and> length done' \<le> length done + n"
    by (metis list.size(3) zero_less_numeral)
qed

lemma extends_nothing: "extends_by Inr n"
  by (rule extends_emits [OF emits_nothing]) simp

lemma extends_write_if: "extends_by f n \<Longrightarrow> extends_by (write_if c f) n"
  by (cases c) (simp_all add: extends_nothing)

lemmas extends = extends_primitives extends_FlushBits extends_write_if extends_block

lemma extends_write_element:
  assumes "el < MSEEnd"
  shows "extends_by (write_element env mi el) 60"
  using assms by (cases el) (simp_all add: write_element_def mse_order extends)

lemma extends_writable:
  assumes "table_writable tab"
  shows "extends_by (write_loop env mi tab 0) 4800"
proof -
  have "write_loop env mi tab 0 = run_all (map (write_element env mi) (table_body tab))"
    by (rule ext) (rule write_loop_writable [OF assms])
  moreover have "\<forall>f\<in>set (map (write_element env mi) (table_body tab)). extends_by f 60"
    using assms by (auto simp: table_writable_def list_all_iff extends_write_element)
  ultimately show ?thesis
    using assms by (auto intro!: extends_run_all simp: table_writable_def)
qed

lemma extends_Write_SMSG_PLAYER_MOVE: "extends_by (Write_SMSG_PLAYER_MOVE env mi) 2100000"
  unfolding Write_SMSG_PLAYER_MOVE_def
  by (rule extends_run_all [where k = 30000]) (simp_all add: extends)

lemma extends_Write_SMSG_MOVE_UPDATE_KNOCK_BACK:
  "extends_by (Write_SMSG_MOVE_UPDATE_KNOCK_BACK env mi) 2100000"
  unfolding Write_SMSG_MOVE_UPDATE_KNOCK_BACK_def
  by (rule extends_run_all [where k = 30000]) (simp_all add: extends)

lemma extends_Write_SMSG_MOVE_TELEPORT: "extends_by (Write_SMSG_MOVE_TELEPORT env mi) 2100000"
  unfolding Write_SMSG_MOVE_TELEPORT_def
  by (rule extends_run_all [where k = 30000]) (simp_all add: extends)

lemma extends_new:
  assumes "extends_by f n" and "n + 100 < 10000000"
  shows "\<exists>b. f bb_new = Inr b"
  using extends_byD [OF assms(1), of "[]" "[]" 0] assms(2) by (auto simp: bb_new_laid_out)

text \<open>C5: writing a movement structure into a new packet never throws, never runs into the buffer's
  assertions and never reads past the end of an element table, whatever the opcode and the
  structure.\<close>

theorem WriteToPacket_total: "\<exists>b. WriteToPacket env mi opcode bb_new = Inr b"
proof (cases "GetMovementStatusElementsSequence opcode")
  case None
  then show ?thesis
    by (auto simp: WriteToPacket_def Write_OLD_def
        intro: extends_new [OF extends_Write_SMSG_PLAYER_MOVE]
          extends_new [OF extends_Write_SMSG_MOVE_UPDATE_KNOCK_BACK]
          extends_new [OF extends_Write_SMSG_MOVE_TELEPORT])
next
  case (Some tab)
  then have "\<exists>b. write_loop env mi tab 0 bb_new = Inr b"
    by (intro extends_new [OF extends_writable]) (simp_all add: sequence_writable)
  with Some show ?thesis
    by (auto simp: WriteToPacket_def Write_OLD_def
        intro: extends_new [OF extends_Write_SMSG_PLAYER_MOVE]
          extends_new [OF extends_Write_SMSG_MOVE_UPDATE_KNOCK_BACK]
          extends_new [OF extends_Write_SMSG_MOVE_TELEPORT])
qed

section \<open>Packets written and read by hand\<close>

lemma run_all_fun:
  "run_all [] = Inr"
  "run_all (f # fs) = (\<lambda>s. bind_res (f s) (run_all fs))"
  by (auto simp: bind_res_def)

lemma bind_res_assoc: "bind_res (bind_res m f) g = bind_res m (\<lambda>a. bind_res (f a) g)"
  by (cases m) simp_all

lemma bind_res_Inr [simp]: "bind_res m Inr = m"
  by (cases m) simp_all

lemma write_if_run_all: "write_if c (run_all fs) = run_all (map (write_if c) fs)"
proof
  show "write_if c (run_all fs) b = run_all (map (write_if c) fs) b" for b
  proof (cases c)
    case True
    then have "write_if c = (\<lambda>f. f)" by auto
    then show ?thesis by simp
  next
    case False
    then have "run_all (map (write_if c) fs) b = Inr b"
      by (induction fs) simp_all
    with False show ?thesis by simp
  qed
qed

lemma write_if_write_if: "write_if c (write_if d f) = write_if (c \<and> d) f"
  by (cases c; cases d) simp_all

lemmas flatten_writes = write_if_run_all write_if_write_if

lemma GetMovementStatusElementsSequence_SMSG_PLAYER_MOVE:
  "GetMovementStatusElementsSequence SMSG_PLAYER_MOVE = Some PlayerMoveSequence"
  by (simp add: GetMovementStatusElementsSequence_member [symmetric] movement_sequences_def)

lemma wf_PlayerMoveSequence: "wf_table PlayerMoveSequence"
  by (rule wf_GetMovementStatusElementsSequence
      [OF GetMovementStatusElementsSequence_SMSG_PLAYER_MOVE]) (simp add: opcode_defs)

text \<open>C7: the packet SMSG_PLAYER_MOVE that the server writes by hand is, byte for byte and on every
  structure and buffer, the packet the generic writer makes from the table of that opcode.\<close>

theorem PLAYER_MOVE_by_hand:
  "Write_SMSG_PLAYER_MOVE env mi = Write_OLD env mi SMSG_PLAYER_MOVE"
  unfolding Write_OLD_Some [OF GetMovementStatusElementsSequence_SMSG_PLAYER_MOVE]
    write_loop_wf [OF wf_PlayerMoveSequence]
proof -
  have "run_all (map (write_element env mi) (table_body PlayerMoveSequence)) =
      Write_SMSG_PLAYER_MOVE env mi"
    unfolding Write_SMSG_PLAYER_MOVE_def flatten_writes list.map
    by (simp add: PlayerMoveSequence_def table_body_def write_element_def mse_order run_all_fun
        bind_res_assoc)
  then show "Write_SMSG_PLAYER_MOVE env mi =
      run_all (map (write_element env mi) (table_body PlayerMoveSequence))" by simp
qed
text \<open>The element sequence of SMSG_MOVE_UPDATE_KNOCK_BACK, which has no table.\<close>

definition knock_back_elements :: "MovementStatusElements list" where
  "knock_back_elements =
     [MSEZeroBit, MSEHasGuidByte4, MSEHasMovementFlags, MSEHasPitch,
      MSEHasTimestamp, MSEHasGuidByte1, MSEHasGuidByte0, MSEHasGuidByte3,
      MSEHasGuidByte2, MSEHasGuidByte7, MSEHasSpline, MSEHasTransportData,
      MSEHasTransportGuidByte7, MSEHasTransportGuidByte5, MSEHasTransportGuidByte1, MSEHasTransportGuidByte6,
      MSEHasTransportTime2, MSEHasTransportGuidByte2, MSEHasTransportGuidByte4, MSEHasTransportGuidByte0,
      MSEHasTransportTime3, MSEHasTransportGuidByte3, MSEHasGuidByte5, MSEHasSplineElevation,
      MSEHasMovementFlags2, MSEHasGuidByte6, MSEMovementFlags, MSEHasFallData,
      MSEHasFallDirection, MSEHasOrientation, MSEMovementFlags2, MSEOrientation,
      MSEFallCosAngle, MSEFallHorizontalSpeed, MSEFallSinAngle, MSEFallTime,
      MSEFallVerticalSpeed, MSESplineElevation, MSEGuidByte3, MSETransportGuidByte5,
      MSETransportTime3, MSETransportGuidByte7, MSETransportSeat, MSETransportGuidByte3,
      MSETransportGuidByte6, MSETransportPositionZ, MSETransportGuidByte1, MSETransportPositionY,
      MSETransportPositionX, MSETransportGuidByte2, MSETransportGuidByte0, MSETransportOrientation,
      MSETransportGuidByte4, MSETransportTime2, MSEPitch, MSEPositionZ,
      MSETimestamp, MSEPositionX, MSEGuidByte4, MSEGuidByte6,
      MSEGuidByte7, MSEGuidByte2, MSEGuidByte1, MSEPositionY,
      MSEGuidByte0, MSEGuidByte5]"

lemma KNOCK_BACK_elements:
  "Write_SMSG_MOVE_UPDATE_KNOCK_BACK env mi =
     run_all (map (write_element env mi) knock_back_elements)"
  unfolding Write_SMSG_MOVE_UPDATE_KNOCK_BACK_def flatten_writes list.map
  by (simp add: knock_back_elements_def write_element_def mse_order run_all_fun bind_res_assoc)

text \<open>SMSG_MOVE_UPDATE_KNOCK_BACK is the generic layout of a complete movement packet (guids, flags,
  position, transport, pitch, fall and spline, in one run of bits and with every guard before its
  data) except that it never carries the transport time: structures that differ only there give the
  same packet.\<close>

theorem KNOCK_BACK_layout:
  "Write_SMSG_MOVE_UPDATE_KNOCK_BACK env mi =
     run_all (map (write_element env mi) knock_back_elements) \<and>
   ready_seq [] knock_back_elements \<and> one_bit_run knock_back_elements \<and>
   guid_complete knock_back_elements \<and>
   {x. is_core x} - set knock_back_elements = {MSETransportTime} \<and>
   Write_SMSG_MOVE_UPDATE_KNOCK_BACK env (mi\<lparr>mi_t_time := t\<rparr>) =
     Write_SMSG_MOVE_UPDATE_KNOCK_BACK env mi"
proof (intro conjI)
  show "Write_SMSG_MOVE_UPDATE_KNOCK_BACK env mi =
     run_all (map (write_element env mi) knock_back_elements)"
    by (rule KNOCK_BACK_elements)
  show "ready_seq [] knock_back_elements" and "one_bit_run knock_back_elements"
    and "guid_complete knock_back_elements"
    by (simp_all add: knock_back_elements_def wf_eval)
  show "{x. is_core x} - set knock_back_elements = {MSETransportTime}"
    unfolding is_core_set by (simp add: knock_back_elements_def insert_Diff_if)
  have "hasFallData (mi\<lparr>mi_t_time := t\<rparr>) = hasFallData mi"
    "hasFallDirection (mi\<lparr>mi_t_time := t\<rparr>) = hasFallDirection mi"
    "hasOrientation env (mi\<lparr>mi_t_time := t\<rparr>) = hasOrientation env mi"
    "hasPitch env (mi\<lparr>mi_t_time := t\<rparr>) = hasPitch env mi"
    "hasSplineElevation env (mi\<lparr>mi_t_time := t\<rparr>) = hasSplineElevation env mi"
    by (simp_all add: hasFallData_def hasFallDirection_def hasOrientation_def hasPitch_def
        hasSplineElevation_def)
  then show "Write_SMSG_MOVE_UPDATE_KNOCK_BACK env (mi\<lparr>mi_t_time := t\<rparr>) =
      Write_SMSG_MOVE_UPDATE_KNOCK_BACK env mi"
    by (simp add: Write_SMSG_MOVE_UPDATE_KNOCK_BACK_def)
qed

text \<open>Blocks under a condition of the reader whose statements do not touch the condition.\<close>

definition keeps :: "(read_state \<Rightarrow> bool) \<Rightarrow> reader \<Rightarrow> bool" where
  "keeps c f \<longleftrightarrow> (\<forall>s s'. f s = Inr s' \<longrightarrow> c (fst s') = c (fst s))"

lemma keeps_get_local: "(\<And>v rs. c (upd v rs) = c rs) \<Longrightarrow> keeps c (get_local rd upd)"
  by (auto simp: keeps_def get_local_def bind_res_def split: sum.splits)

lemma keeps_get_info: "(\<And>rs x. c (rs\<lparr>rs_info := x\<rparr>) = c rs) \<Longrightarrow> keeps c (get_info rd upd)"
  by (simp add: get_info_def keeps_get_local)

lemma keeps_guid:
  assumes "\<And>rs x. c (rs\<lparr>rs_id := x\<rparr>) = c rs" and "\<And>rs x. c (rs\<lparr>rs_tid := x\<rparr>) = c rs"
  shows "keeps c (get_id_bit k)" "keeps c (get_tid_bit k)" "keeps c (get_id_byte k)"
    "keeps c (get_tid_byte k)"
  using assms
  by (auto simp: keeps_def get_id_bit_def get_tid_bit_def get_id_byte_def get_tid_byte_def
      get_local_def bind_res_def split: sum.splits)

lemma keeps_guarded: "keeps c f \<Longrightarrow> keeps c (guarded d f)"
  by (auto simp: keeps_def guarded_def)

lemma keeps_run_all: "\<forall>f\<in>set fs. keeps c f \<Longrightarrow> keeps c (run_all fs)"
  unfolding keeps_def
proof (intro allI impI)
  fix s s'
  assume fs: "\<forall>f\<in>set fs. \<forall>s s'. f s = Inr s' \<longrightarrow> c (fst s') = c (fst s)" and "run_all fs s = Inr s'"
  then show "c (fst s') = c (fst s)"
  proof (induction fs arbitrary: s)
    case Nil
    then show ?case by simp
  next
    case (Cons f fs)
    then obtain s1 where s1: "f s = Inr s1" "run_all fs s1 = Inr s'"
      by (auto split: sum.splits)
    moreover have "c (fst s1) = c (fst s)"
      using Cons.prems(1) s1(1) by (metis list.set_intros(1))
    ultimately show ?case
      using Cons.IH [of s1] Cons.prems(1) by simp
  qed
qed

lemma guarded_simps:
  "c (fst s) \<Longrightarrow> guarded c f s = f s" "\<not> c (fst s) \<Longrightarrow> guarded c f s = Inr s"
  by (simp_all add: guarded_def)

lemma guarded_run_all:
  assumes "\<forall>f\<in>set fs. keeps c f"
  shows "guarded c (run_all fs) = run_all (map (guarded c) fs)"
proof
  show "guarded c (run_all fs) s = run_all (map (guarded c) fs) s" for s
    using assms
  proof (induction fs arbitrary: s)
    case Nil
    then show ?case by (simp add: guarded_def)
  next
    case (Cons f fs)
    show ?case
    proof (cases "c (fst s)")
      case True
      have "run_all fs s' = run_all (map (guarded c) fs) s'" if "f s = Inr s'" for s'
      proof -
        have "keeps c f"
          using Cons.prems by simp
        with True that have "c (fst s')"
          unfolding keeps_def by blast
        with Cons.IH [of s'] Cons.prems show ?thesis
          by (simp add: guarded_def [of c "run_all fs"])
      qed
      with True show ?thesis by (auto simp: guarded_simps split: sum.splits)
    next
      case False
      then have "run_all (map (guarded c) fs) s = Inr s"
        using Cons.IH [of s, symmetric] Cons.prems by (simp add: guarded_simps)
      with False show ?thesis by (simp add: guarded_simps)
    qed
  qed
qed

lemma guarded_guarded: "guarded c (guarded d f) = guarded (\<lambda>rs. c rs \<and> d rs) f"
  by (rule ext) (simp add: guarded_def)

lemmas keeps = keeps_get_local keeps_get_info keeps_guid keeps_guarded keeps_run_all

lemmas flatten_reads = guarded_run_all guarded_guarded

lemma GetMovementStatusElementsSequence_CMSG_MOVE_NOT_ACTIVE_MOVER:
  "GetMovementStatusElementsSequence CMSG_MOVE_NOT_ACTIVE_MOVER = Some MoveNotActiveMover"
  by (simp add: GetMovementStatusElementsSequence_member [symmetric] movement_sequences_def)

lemma wf_MoveNotActiveMover: "wf_table MoveNotActiveMover"
  by (rule wf_GetMovementStatusElementsSequence
      [OF GetMovementStatusElementsSequence_CMSG_MOVE_NOT_ACTIVE_MOVER]) (simp add: opcode_defs)

text \<open>The hand-written reader of CMSG_MOVE_NOT_ACTIVE_MOVER takes the same fields from every packet
  as the generic reader of that opcode, errors included, but stores the two orientations as the
  client sent them where the generic reader normalises them.\<close>

theorem NOT_ACTIVE_MOVER_by_hand:
  "Read_CMSG_MOVE_NOT_ACTIVE_MOVER mi b =
     Read_OLD (env\<lparr>NormalizeOrientation := (\<lambda>x. x)\<rparr>) CMSG_MOVE_NOT_ACTIVE_MOVER mi b"
proof -
  let ?env = "env\<lparr>NormalizeOrientation := (\<lambda>x. x)\<rparr>"
  have "Read_CMSG_MOVE_NOT_ACTIVE_MOVER_block =
      run_all (map (read_element ?env) (table_body MoveNotActiveMover))"
    unfolding Read_CMSG_MOVE_NOT_ACTIVE_MOVER_block_def
    by (simp add: flatten_reads keeps del: run_all.simps)
      (simp add: MoveNotActiveMover_def table_body_def read_element_def mse_order run_all_fun
        bind_res_assoc SetOrientation_def)
  then show ?thesis
    by (simp add: Read_CMSG_MOVE_NOT_ACTIVE_MOVER_def
        Read_OLD_Some [OF GetMovementStatusElementsSequence_CMSG_MOVE_NOT_ACTIVE_MOVER]
        read_loop_wf [OF wf_MoveNotActiveMover])
qed

section \<open>Reading a malformed packet\<close>

fun is_PositionException :: "bb_error \<Rightarrow> bool" where
  "is_PositionException (PositionException add p n sz) = True"
| "is_PositionException e = False"

text \<open>\<open>only_position f\<close>: the only exception of the statement is that the packet is too short.\<close>

definition only_position :: "('s \<Rightarrow> bb_error + 'a) \<Rightarrow> bool" where
  "only_position f \<longleftrightarrow> (\<forall>s e. f s = Inl e \<longrightarrow> is_PositionException e)"

lemma bind_res_Inl: "bind_res m f = Inl e \<Longrightarrow> m = Inl e \<or> (\<exists>a. m = Inr a \<and> f a = Inl e)"
  by (cases m) auto

lemma only_position_read_val: "only_position (read_val n)"
  by (auto simp: only_position_def read_val_def read_at_def dest!: bind_res_Inl split: if_splits)

lemma only_position_numbers:
  "only_position read_u8" "only_position read_u32" "only_position read_f32"
  using only_position_read_val
  by (auto simp: only_position_def read_u8_def read_u32_def read_f32_def dest!: bind_res_Inl)

lemma only_position_ReadBit: "only_position ReadBit"
  using only_position_numbers(1)
  by (auto simp: only_position_def ReadBit_def Let_def dest!: bind_res_Inl split: if_splits)

lemma only_position_ReadBits: "only_position (ReadBits n)"
proof -
  have "only_position (read_bits_acc n acc)" for acc
    using only_position_ReadBit
    by (induction n arbitrary: acc) (auto simp: only_position_def dest!: bind_res_Inl)
  then show ?thesis by (simp add: ReadBits_def)
qed

lemma only_position_ReadByteSeq: "only_position (ReadByteSeq v)"
  using only_position_numbers(1)
  by (auto simp: only_position_def ReadByteSeq_def dest!: bind_res_Inl split: if_splits)

lemma only_position_get_local: "only_position rd \<Longrightarrow> only_position (get_local rd upd)"
  by (auto simp: only_position_def get_local_def dest!: bind_res_Inl)

lemma only_position_guid:
  "only_position (get_id_bit k)" "only_position (get_tid_bit k)"
  "only_position (get_id_byte k)" "only_position (get_tid_byte k)"
  using only_position_get_local [OF only_position_ReadBit]
    only_position_get_local [OF only_position_ReadByteSeq]
  by (auto simp: only_position_def get_id_bit_def get_tid_bit_def get_id_byte_def get_tid_byte_def)

lemma only_position_guarded: "only_position f \<Longrightarrow> only_position (guarded c f)"
  by (auto simp: only_position_def guarded_def split: if_splits)

lemma only_position_skip_bytes: "only_position (skip_bytes n)"
  by (auto simp: only_position_def skip_bytes_def read_skip_def dest!: bind_res_Inl split: if_splits)

lemma only_position_run_all: "\<forall>f\<in>set fs. only_position f \<Longrightarrow> only_position (run_all fs)"
  unfolding only_position_def
proof (intro allI impI)
  fix s e
  assume "\<forall>f\<in>set fs. \<forall>s e. f s = Inl e \<longrightarrow> is_PositionException e" and "run_all fs s = Inl e"
  then show "is_PositionException e"
  proof (induction fs arbitrary: s)
    case Nil
    then show ?case by simp
  next
    case (Cons f fs)
    then show ?case
      by (cases "f s") auto
  qed
qed

lemmas only_position =
  only_position_numbers only_position_ReadBit only_position_ReadBits only_position_get_local
  only_position_guid only_position_guarded only_position_skip_bytes only_position_run_all

lemma only_position_read_element:
  assumes "el < MSEEnd"
  shows "only_position (read_element env el)"
  using assms
  by (cases el) (simp_all add: read_element_def mse_order get_info_def only_position)

lemma only_position_read_with: "only_position f \<Longrightarrow> only_position (read_with f mi)"
  by (auto simp: only_position_def read_with_def dest!: bind_res_Inl)

lemma only_position_read_loop:
  assumes "table_writable tab"
  shows "only_position (read_loop env tab 0)"
proof -
  have "read_loop env tab 0 = run_all (map (read_element env) (table_body tab))"
    by (rule ext) (rule read_loop_writable [OF assms])
  with assms show ?thesis
    by (auto simp: table_writable_def list_all_iff only_position_read_element
        intro!: only_position_run_all)
qed

lemma only_position_Read_OLD: "only_position (Read_OLD env opcode mi)"
proof (cases "GetMovementStatusElementsSequence opcode")
  case None
  then show ?thesis by (simp add: only_position_def Read_OLD_def)
next
  case (Some tab)
  with only_position_read_with [OF only_position_read_loop [OF sequence_writable [OF Some]]]
  show ?thesis by (simp add: Read_OLD_Some)
qed

lemma only_position_by_hand:
  "only_position (Read_CMSG_MOVE_NOT_ACTIVE_MOVER mi)" "only_position (Read_CMSG_MOVE_KNOCK_BACK_ACK mi)"
  unfolding Read_CMSG_MOVE_NOT_ACTIVE_MOVER_def Read_CMSG_MOVE_KNOCK_BACK_ACK_def
  by (intro only_position_read_with; simp add: Read_CMSG_MOVE_NOT_ACTIVE_MOVER_block_def
      Read_CMSG_MOVE_KNOCK_BACK_ACK_block_def get_info_def only_position)+

text \<open>C6: reading a movement packet of any opcode from any bytes a client sends terminates, and either
  returns a structure or throws the position exception of a packet that is too short; it never runs
  into an assertion, nor past the end of an element table.\<close>

theorem ReadFromPacket_errors:
  "case ReadFromPacket env opcode mi b of
     Inl e \<Rightarrow> is_PositionException e
   | Inr (mi', b') \<Rightarrow> True"
proof -
  have "only_position (ReadFromPacket env opcode mi)"
    by (simp add: ReadFromPacket_def only_position_Read_OLD only_position_by_hand)
  then show ?thesis
    by (auto simp: only_position_def split: sum.split)
qed

section \<open>The packet that broadcasts a collision height\<close>

definition stays :: "(read_state \<Rightarrow> bool) \<Rightarrow> reader \<Rightarrow> bool" where
  "stays c f \<longleftrightarrow> (\<forall>s s'. c (fst s) \<longrightarrow> f s = Inr s' \<longrightarrow> c (fst s'))"

lemma stays_run_all:
  assumes "\<forall>f\<in>set fs. stays c f"
  shows "stays c (run_all fs)"
  unfolding stays_def
proof (intro allI impI)
  fix s s'
  assume "c (fst s)" and "run_all fs s = Inr s'"
  with assms show "c (fst s')"
  proof (induction fs arbitrary: s)
    case Nil
    then show ?case by simp
  next
    case (Cons f fs)
    then obtain s1 where s1: "f s = Inr s1" "run_all fs s1 = Inr s'"
      by (auto split: sum.splits)
    moreover have "c (fst s1)"
      using Cons.prems s1(1) unfolding stays_def by (metis list.set_intros(1))
    ultimately show ?case
      using Cons.IH [of s1] Cons.prems(1) by simp
  qed
qed

lemma stays_get_local: "(\<And>v rs. c rs \<Longrightarrow> c (upd v rs)) \<Longrightarrow> stays c (get_local rd upd)"
  by (auto simp: stays_def get_local_def bind_res_def split: sum.splits)

lemma stays_get_id_byte: "(\<And>x rs. c rs \<Longrightarrow> c (rs\<lparr>rs_id := x\<rparr>)) \<Longrightarrow> stays c (get_id_byte k)"
  by (auto simp: stays_def get_id_byte_def get_local_def bind_res_def split: sum.splits)

lemma stays_guarded: "stays c f \<Longrightarrow> stays c (guarded d f)"
  by (auto simp: stays_def guarded_def split: if_splits)

lemma stays_unreached: "(\<And>rs. c rs \<Longrightarrow> \<not> d rs) \<Longrightarrow> stays c (guarded d f)"
  by (auto simp: stays_def guarded_def)

text \<open>The reader of the table never learns that a time, a transport, a pitch or a fall is present.\<close>

definition nothing_announced :: "MovementInfo \<Rightarrow> read_state \<Rightarrow> bool" where
  "nothing_announced base rs \<longleftrightarrow>
     \<not> rs_hasTimestamp rs \<and> \<not> rs_hasTransportData rs \<and> \<not> rs_hasPitch rs \<and> \<not> rs_hasFallData rs \<and>
     rs_tid rs = replicate 8 0 \<and> mi_time (rs_info rs) = mi_time base \<and>
     mi_t_pos (rs_info rs) = mi_t_pos base \<and> mi_pitch (rs_info rs) = mi_pitch base \<and>
     mi_fallTime (rs_info rs) = mi_fallTime base"

lemma stays_collision_height:
  "\<forall>el\<in>set (table_body MovementUpdateCollisionHeight).
     stays (nothing_announced base) (read_element env el)"
  by (simp add: table_body_def MovementUpdateCollisionHeight_def read_element_def mse_order
      get_id_bit_def get_info_def, intro conjI;
      ((rule stays_unreached; simp add: nothing_announced_def; fail) |
       ((rule stays_guarded)?, rule stays_get_local stays_get_id_byte;
        simp add: nothing_announced_def; fail)))

lemma GetMovementStatusElementsSequence_COLLISION_HEIGHT:
  "GetMovementStatusElementsSequence SMSG_MOVE_UPDATE_COLLISION_HEIGHT =
     Some MovementUpdateCollisionHeight"
  by (simp add: GetMovementStatusElementsSequence_member [symmetric] movement_sequences_def)

text \<open>The table of SMSG_MOVE_UPDATE_COLLISION_HEIGHT has no presence bits for the timestamp, the
  transport, the pitch and the fall it contains: a packet with any of them is written with data that
  the reader of the same table does not expect, so that these fields never arrive.\<close>

theorem COLLISION_HEIGHT_unannounced:
  "case Read_OLD env SMSG_MOVE_UPDATE_COLLISION_HEIGHT base b of
     Inl e \<Rightarrow> is_PositionException e
   | Inr (mi, b') \<Rightarrow>
       mi_time mi = mi_time base \<and> mi_t_guid mi = 0 \<and> mi_t_pos mi = mi_t_pos base \<and>
       mi_pitch mi = mi_pitch base \<and> mi_fallTime mi = mi_fallTime base"
proof (cases "Read_OLD env SMSG_MOVE_UPDATE_COLLISION_HEIGHT base b")
  case (Inl e)
  then show ?thesis
    using only_position_Read_OLD by (auto simp: only_position_def)
next
  case (Inr r)
  obtain mi b' where r: "r = (mi, b')" by (cases r)
  have "read_loop env MovementUpdateCollisionHeight 0 =
      run_all (map (read_element env) (table_body MovementUpdateCollisionHeight))"
    by (rule ext) (rule read_loop_writable [OF MovementUpdateCollisionHeight_writable])
  moreover have "stays (nothing_announced base)
      (run_all (map (read_element env) (table_body MovementUpdateCollisionHeight)))"
    using stays_collision_height by (intro stays_run_all) auto
  moreover have "nothing_announced base (rs_new base)"
    by (simp add: nothing_announced_def rs_new_def)
  ultimately have "nothing_announced base (fst s)"
    if "read_loop env MovementUpdateCollisionHeight 0 (rs_new base, b) = Inr s" for s
    using that unfolding stays_def by (metis fst_conv)
  moreover obtain s where "read_loop env MovementUpdateCollisionHeight 0 (rs_new base, b) = Inr s"
    and "read_finish s = (mi, b')"
    using Inr r by (auto simp: Read_OLD_Some [OF GetMovementStatusElementsSequence_COLLISION_HEIGHT]
        read_with_def bind_res_Inr_iff)
  ultimately show ?thesis
    using Inr r by (auto simp: nothing_announced_def read_finish_def numeral_eq_Suc)
qed

section \<open>Broadcast of acknowledged changes\<close>

lemma broadcast_tables:
  "GetMovementStatusElementsSequence SMSG_MOVE_UPDATE_WALK_SPEED = Some MoveUpdateWalkSpeed"
  "GetMovementStatusElementsSequence SMSG_MOVE_UPDATE_RUN_SPEED = Some MoveUpdateRunSpeed"
  "GetMovementStatusElementsSequence SMSG_MOVE_UPDATE_RUN_BACK_SPEED = Some MoveUpdateRunBackSpeed"
  "GetMovementStatusElementsSequence SMSG_MOVE_UPDATE_SWIM_SPEED = Some MoveUpdateSwimSpeed"
  "GetMovementStatusElementsSequence SMSG_MOVE_UPDATE_SWIM_BACK_SPEED = Some MoveUpdateSwimBackSpeed"
  "GetMovementStatusElementsSequence SMSG_MOVE_UPDATE_FLIGHT_SPEED = Some MoveUpdateFlightSpeed"
  by (simp_all add: GetMovementStatusElementsSequence_member [symmetric] movement_sequences_def)

text \<open>After every client acknowledgement the server broadcasts an opcode that has an element
  table, and after the acknowledgement of a walk, run, swim or flight speed that table carries the
  speed of exactly the acknowledged kind.\<close>

theorem GetSMSGOpcodeForCMSG_tables:
  "GetMovementStatusElementsSequence (GetSMSGOpcodeForCMSG cmsg) \<noteq> None \<and>
   list_all (\<lambda>(ack, speed). \<exists>tab.
       GetMovementStatusElementsSequence (GetSMSGOpcodeForCMSG ack) = Some tab \<and>
       filter (\<lambda>el. MSESpeedWalk \<le> el \<and> el \<le> MSESpeedPitchRate) (table_body tab) = [speed])
     [(CMSG_MOVE_FORCE_WALK_SPEED_CHANGE_ACK, MSESpeedWalk),
      (CMSG_MOVE_FORCE_RUN_SPEED_CHANGE_ACK, MSESpeedRun),
      (CMSG_MOVE_FORCE_RUN_BACK_SPEED_CHANGE_ACK, MSESpeedRunBack),
      (CMSG_MOVE_FORCE_SWIM_SPEED_CHANGE_ACK, MSESpeedSwim),
      (CMSG_MOVE_FORCE_SWIM_BACK_SPEED_CHANGE_ACK, MSESpeedSwimBack),
      (CMSG_MOVE_FORCE_FLIGHT_SPEED_CHANGE_ACK, MSESpeedFlight)]"
proof
  show "GetMovementStatusElementsSequence (GetSMSGOpcodeForCMSG cmsg) \<noteq> None"
    by (auto simp: GetSMSGOpcodeForCMSG_def broadcast_tables
        GetMovementStatusElementsSequence_COLLISION_HEIGHT
        GetMovementStatusElementsSequence_SMSG_PLAYER_MOVE)
  have "GetSMSGOpcodeForCMSG CMSG_MOVE_FORCE_WALK_SPEED_CHANGE_ACK = SMSG_MOVE_UPDATE_WALK_SPEED"
    "GetSMSGOpcodeForCMSG CMSG_MOVE_FORCE_RUN_SPEED_CHANGE_ACK = SMSG_MOVE_UPDATE_RUN_SPEED"
    "GetSMSGOpcodeForCMSG CMSG_MOVE_FORCE_RUN_BACK_SPEED_CHANGE_ACK = SMSG_MOVE_UPDATE_RUN_BACK_SPEED"
    "GetSMSGOpcodeForCMSG CMSG_MOVE_FORCE_SWIM_SPEED_CHANGE_ACK = SMSG_MOVE_UPDATE_SWIM_SPEED"
    "GetSMSGOpcodeForCMSG CMSG_MOVE_FORCE_SWIM_BACK_SPEED_CHANGE_ACK = SMSG_MOVE_UPDATE_SWIM_BACK_SPEED"
    "GetSMSGOpcodeForCMSG CMSG_MOVE_FORCE_FLIGHT_SPEED_CHANGE_ACK = SMSG_MOVE_UPDATE_FLIGHT_SPEED"
    by (simp_all add: GetSMSGOpcodeForCMSG_def opcode_defs)
  then show "list_all (\<lambda>(ack, speed). \<exists>tab.
       GetMovementStatusElementsSequence (GetSMSGOpcodeForCMSG ack) = Some tab \<and>
       filter (\<lambda>el. MSESpeedWalk \<le> el \<and> el \<le> MSESpeedPitchRate) (table_body tab) = [speed])
     [(CMSG_MOVE_FORCE_WALK_SPEED_CHANGE_ACK, MSESpeedWalk),
      (CMSG_MOVE_FORCE_RUN_SPEED_CHANGE_ACK, MSESpeedRun),
      (CMSG_MOVE_FORCE_RUN_BACK_SPEED_CHANGE_ACK, MSESpeedRunBack),
      (CMSG_MOVE_FORCE_SWIM_SPEED_CHANGE_ACK, MSESpeedSwim),
      (CMSG_MOVE_FORCE_SWIM_BACK_SPEED_CHANGE_ACK, MSESpeedSwimBack),
      (CMSG_MOVE_FORCE_FLIGHT_SPEED_CHANGE_ACK, MSESpeedFlight)]"
    by (simp add: broadcast_tables table_body_def MoveUpdateWalkSpeed_def MoveUpdateRunSpeed_def
        MoveUpdateRunBackSpeed_def MoveUpdateSwimSpeed_def MoveUpdateSwimBackSpeed_def
        MoveUpdateFlightSpeed_def mse_order)
qed

end
