(* ===== verification/MovementSanitize.thy ===== *)
theory MovementSanitize
  imports MovementInfo
begin

text \<open>
  \<^verbatim>\<open>MovementInfo::Sanitize\<close>: the flags a client may claim, as a specification flag by flag, and that the
  chain of removals of the code implements it.
\<close>

section \<open>Flags as bits\<close>

lemma movementflag_exp:
  "MOVEMENTFLAG_FORWARD = 2 ^ 0"
  "MOVEMENTFLAG_BACKWARD = 2 ^ 1"
  "MOVEMENTFLAG_STRAFE_LEFT = 2 ^ 2"
  "MOVEMENTFLAG_STRAFE_RIGHT = 2 ^ 3"
  "MOVEMENTFLAG_LEFT = 2 ^ 4"
  "MOVEMENTFLAG_RIGHT = 2 ^ 5"
  "MOVEMENTFLAG_PITCH_UP = 2 ^ 6"
  "MOVEMENTFLAG_PITCH_DOWN = 2 ^ 7"
  "MOVEMENTFLAG_ROOT = 2 ^ 10"
  "MOVEMENTFLAG_ASCENDING = 2 ^ 21"
  "MOVEMENTFLAG_DESCENDING = 2 ^ 22"
  "MOVEMENTFLAG_CAN_FLY = 2 ^ 23"
  "MOVEMENTFLAG_FLYING = 2 ^ 24"
  "MOVEMENTFLAG_WATERWALKING = 2 ^ 26"
  "MOVEMENTFLAG_FALLING_SLOW = 2 ^ 27"
  "MOVEMENTFLAG_HOVER = 2 ^ 28"
  by (simp_all add: movementflag_defs)

lemma bit_u32_exp: "bit (2 ^ k :: u32) n \<longleftrightarrow> n = k \<and> n < 32"
  by (auto simp: bit_exp_iff)

lemma bit_movementflags:
  "bit MOVEMENTFLAG_FORWARD n \<longleftrightarrow> n = 0"
  "bit MOVEMENTFLAG_BACKWARD n \<longleftrightarrow> n = 1"
  "bit MOVEMENTFLAG_STRAFE_LEFT n \<longleftrightarrow> n = 2"
  "bit MOVEMENTFLAG_STRAFE_RIGHT n \<longleftrightarrow> n = 3"
  "bit MOVEMENTFLAG_LEFT n \<longleftrightarrow> n = 4"
  "bit MOVEMENTFLAG_RIGHT n \<longleftrightarrow> n = 5"
  "bit MOVEMENTFLAG_PITCH_UP n \<longleftrightarrow> n = 6"
  "bit MOVEMENTFLAG_PITCH_DOWN n \<longleftrightarrow> n = 7"
  "bit MOVEMENTFLAG_ROOT n \<longleftrightarrow> n = 10"
  "bit MOVEMENTFLAG_ASCENDING n \<longleftrightarrow> n = 21"
  "bit MOVEMENTFLAG_DESCENDING n \<longleftrightarrow> n = 22"
  "bit MOVEMENTFLAG_CAN_FLY n \<longleftrightarrow> n = 23"
  "bit MOVEMENTFLAG_FLYING n \<longleftrightarrow> n = 24"
  "bit MOVEMENTFLAG_WATERWALKING n \<longleftrightarrow> n = 26"
  "bit MOVEMENTFLAG_FALLING_SLOW n \<longleftrightarrow> n = 27"
  "bit MOVEMENTFLAG_HOVER n \<longleftrightarrow> n = 28"
  unfolding movementflag_exp bit_u32_exp by auto

lemma HasMovementFlag_bits:
  "HasMovementFlag MOVEMENTFLAG_FORWARD mi \<longleftrightarrow> bit (mi_flags mi) 0"
  "HasMovementFlag MOVEMENTFLAG_BACKWARD mi \<longleftrightarrow> bit (mi_flags mi) 1"
  "HasMovementFlag MOVEMENTFLAG_STRAFE_LEFT mi \<longleftrightarrow> bit (mi_flags mi) 2"
  "HasMovementFlag MOVEMENTFLAG_STRAFE_RIGHT mi \<longleftrightarrow> bit (mi_flags mi) 3"
  "HasMovementFlag MOVEMENTFLAG_LEFT mi \<longleftrightarrow> bit (mi_flags mi) 4"
  "HasMovementFlag MOVEMENTFLAG_RIGHT mi \<longleftrightarrow> bit (mi_flags mi) 5"
  "HasMovementFlag MOVEMENTFLAG_PITCH_UP mi \<longleftrightarrow> bit (mi_flags mi) 6"
  "HasMovementFlag MOVEMENTFLAG_PITCH_DOWN mi \<longleftrightarrow> bit (mi_flags mi) 7"
  "HasMovementFlag MOVEMENTFLAG_ROOT mi \<longleftrightarrow> bit (mi_flags mi) 10"
  "HasMovementFlag MOVEMENTFLAG_ASCENDING mi \<longleftrightarrow> bit (mi_flags mi) 21"
  "HasMovementFlag MOVEMENTFLAG_DESCENDING mi \<longleftrightarrow> bit (mi_flags mi) 22"
  "HasMovementFlag MOVEMENTFLAG_CAN_FLY mi \<longleftrightarrow> bit (mi_flags mi) 23"
  "HasMovementFlag MOVEMENTFLAG_FLYING mi \<longleftrightarrow> bit (mi_flags mi) 24"
  "HasMovementFlag MOVEMENTFLAG_WATERWALKING mi \<longleftrightarrow> bit (mi_flags mi) 26"
  "HasMovementFlag MOVEMENTFLAG_FALLING_SLOW mi \<longleftrightarrow> bit (mi_flags mi) 27"
  "HasMovementFlag MOVEMENTFLAG_HOVER mi \<longleftrightarrow> bit (mi_flags mi) 28"
  unfolding movementflag_exp HasMovementFlag_def and_exp_eq_0_iff_not_bit by simp_all

lemma HasMovementFlag_or: "HasMovementFlag (f OR g) mi \<longleftrightarrow> HasMovementFlag f mi \<or> HasMovementFlag g mi"
  by (simp add: HasMovementFlag_def bit.conj_disj_distrib or_eq_0_iff)

lemma flags_remove_violating_flags:
  "bit (mi_flags (remove_violating_flags c m mi)) n \<longleftrightarrow> bit (mi_flags mi) n \<and> \<not> (c mi \<and> bit m n)"
  by (auto simp: remove_violating_flags_def RemoveMovementFlag_def bit_and_iff bit_not_iff
      possible_bit_word dest: bit_imp_le_length)

lemma remove_violating_flags_other:
  "(remove_violating_flags c m mi)\<lparr>mi_flags := f\<rparr> = mi\<lparr>mi_flags := f\<rparr>"
  by (simp add: remove_violating_flags_def RemoveMovementFlag_def)

text \<open>A chain of removals whose checks look only at the flags they may remove, on disjoint masks, is the
  conjunction of its rules.\<close>

definition local_check :: "(MovementInfo \<Rightarrow> bool) \<Rightarrow> u32 \<Rightarrow> bool" where
  "local_check c m \<longleftrightarrow>
     (\<forall>mi mi'. (\<forall>n. bit m n \<longrightarrow> bit (mi_flags mi) n = bit (mi_flags mi') n) \<longrightarrow> c mi = c mi')"

lemma local_checkD:
  assumes "local_check c m" and "\<And>n. bit m n \<Longrightarrow> bit (mi_flags mi) n = bit (mi_flags mi') n"
  shows "c mi = c mi'"
  using assms unfolding local_check_def by blast

primrec disjoint_masks :: "u32 list \<Rightarrow> bool" where
  "disjoint_masks [] \<longleftrightarrow> True"
| "disjoint_masks (m # ms) \<longleftrightarrow> list_all (\<lambda>m'. m AND m' = 0) ms \<and> disjoint_masks ms"

lemma fold_remove_violating_flags:
  assumes "list_all (\<lambda>(c, m). local_check c m) rules" and "disjoint_masks (map snd rules)"
  shows "bit (mi_flags (fold (\<lambda>(c, m). remove_violating_flags c m) rules mi)) n \<longleftrightarrow>
           bit (mi_flags mi) n \<and> list_all (\<lambda>(c, m). \<not> (c mi \<and> bit m n)) rules"
  using assms
proof (induction rules arbitrary: mi)
  case Nil
  then show ?case by simp
next
  case (Cons r rules)
  obtain c m where r: "r = (c, m)" by (cases r)
  let ?mi = "remove_violating_flags c m mi"
  have "c' ?mi = c' mi" if "(c', m') \<in> set rules" for c' m'
  proof (rule local_checkD [of c' m'])
    show "local_check c' m'"
      using Cons.prems(1) that by (auto simp: list_all_iff)
    have "m AND m' = 0"
      using Cons.prems(2) that r by (auto simp: list_all_iff)
    then have "\<not> bit m k" if "bit m' k" for k
      using that bit_and_iff [of m m' k] by auto
    then show "bit (mi_flags ?mi) k = bit (mi_flags mi) k" if "bit m' k" for k
      using that by (auto simp: flags_remove_violating_flags)
  qed
  then have "list_all (\<lambda>(c', m'). \<not> (c' ?mi \<and> bit m' n)) rules \<longleftrightarrow>
      list_all (\<lambda>(c', m'). \<not> (c' mi \<and> bit m' n)) rules"
    by (intro list.pred_cong refl) auto
  with Cons r show ?case
    by (auto simp: flags_remove_violating_flags)
qed

text \<open>What \<^verbatim>\<open>Sanitize\<close> lets through, flag by flag (bit numbers of \<^verbatim>\<open>enum MovementFlags\<close>).\<close>

definition may_fly :: "target_unit \<Rightarrow> bool" where
  "may_fly target \<longleftrightarrow>
     (if tu_typeId target = TYPEID_PLAYER
      then tu_security target \<noteq> SEC_PLAYER \<or> HasAuraType SPELL_AURA_FLY target \<or>
           HasAuraType SPELL_AURA_MOD_INCREASE_MOUNTED_FLIGHT_SPEED target
      else HasAuraType SPELL_AURA_FLY target \<or>
           HasAuraType SPELL_AURA_MOD_INCREASE_FLIGHT_SPEED target)"

definition opposite_ok :: "u32 \<Rightarrow> nat \<Rightarrow> nat \<Rightarrow> nat \<Rightarrow> bool" where
  "opposite_ok f i j n \<longleftrightarrow> (n = i \<or> n = j \<longrightarrow> \<not> (bit f i \<and> bit f j))"

definition flag_allowed :: "target_unit \<Rightarrow> u32 \<Rightarrow> nat \<Rightarrow> bool" where
  "flag_allowed target f n \<longleftrightarrow>
     n \<noteq> 10 \<and>
     (n = 28 \<longrightarrow> HasAuraType SPELL_AURA_HOVER target) \<and>
     opposite_ok f 21 22 n \<and>
     opposite_ok f 4 5 n \<and>
     opposite_ok f 2 3 n \<and>
     opposite_ok f 6 7 n \<and>
     opposite_ok f 0 1 n \<and>
     (n = 26 \<longrightarrow> HasAuraType SPELL_AURA_WATER_WALK target) \<and>
     (n = 27 \<longrightarrow> HasAuraType SPELL_AURA_FEATHER_FALL target) \<and>
     (n = 23 \<or> n = 24 \<longrightarrow> may_fly target)"

lemma HasMovementFlag_local:
  assumes "\<And>n. bit m n \<Longrightarrow> bit (mi_flags mi) n = bit (mi_flags mi') n"
  shows "HasMovementFlag m mi = HasMovementFlag m mi'"
proof -
  have "mi_flags mi AND m = mi_flags mi' AND m"
    by (rule bit_word_eqI) (use assms in \<open>auto simp: bit_and_iff\<close>)
  then show ?thesis by (simp add: HasMovementFlag_def)
qed

lemma local_checks:
  "local_check (HasMovementFlag m) m"
  "local_check (\<lambda>mi. HasMovementFlag m mi \<and> p) m"
  unfolding local_check_def using HasMovementFlag_local by blast+

lemma local_check_pair: "local_check (\<lambda>mi. HasMovementFlag f mi \<and> HasMovementFlag g mi) (f OR g)"
  unfolding local_check_def
proof (intro allI impI)
  fix mi mi' :: MovementInfo
  assume "\<forall>n. bit (f OR g) n \<longrightarrow> bit (mi_flags mi) n = bit (mi_flags mi') n"
  then show "(HasMovementFlag f mi \<and> HasMovementFlag g mi) =
      (HasMovementFlag f mi' \<and> HasMovementFlag g mi')"
    using HasMovementFlag_local [of f mi mi'] HasMovementFlag_local [of g mi mi']
    by (simp add: bit_or_iff)
qed

lemma sanitize_rules_local: "list_all (\<lambda>(c, m). local_check c m) (sanitize_rules target)"
  by (simp add: sanitize_rules_def local_checks local_check_pair)

lemma sanitize_rules_disjoint: "disjoint_masks (map snd (sanitize_rules target))"
  by (simp add: sanitize_rules_def movementflag_defs)

lemma bit_Sanitize:
  "bit (mi_flags (Sanitize target mi)) n \<longleftrightarrow>
     bit (mi_flags mi) n \<and> flag_allowed target (mi_flags mi) n"
proof -
  have "bit (mi_flags (Sanitize target mi)) n \<longleftrightarrow>
     bit (mi_flags mi) n \<and> list_all (\<lambda>(c, m). \<not> (c mi \<and> bit m n)) (sanitize_rules target)"
    unfolding Sanitize_def
    by (rule fold_remove_violating_flags [OF sanitize_rules_local sanitize_rules_disjoint])
  moreover have "list_all (\<lambda>(c, m). \<not> (c mi \<and> bit m n)) (sanitize_rules target) \<longleftrightarrow>
      flag_allowed target (mi_flags mi) n" if "bit (mi_flags mi) n"
  proof (cases "n \<in> {0, 1, 2, 3, 4, 5, 6, 7, 10, 21, 22, 23, 24, 26, 27, 28}")
    case True
    with that show ?thesis
      by (elim insertE emptyE)
        (simp_all add: sanitize_rules_def HasMovementFlag_bits HasMovementFlag_or bit_or_iff
          bit_movementflags flag_allowed_def opposite_ok_def may_fly_def)
  next
    case False
    then show ?thesis
      by (simp add: sanitize_rules_def bit_or_iff bit_movementflags flag_allowed_def opposite_ok_def)
  qed
  ultimately show ?thesis by auto
qed

lemma Sanitize_other: "(Sanitize target mi)\<lparr>mi_flags := f\<rparr> = mi\<lparr>mi_flags := f\<rparr>"
proof -
  have "(fold (\<lambda>(c, m). remove_violating_flags c m) rules mi)\<lparr>mi_flags := f\<rparr> = mi\<lparr>mi_flags := f\<rparr>"
    for rules
    by (induction rules arbitrary: mi) (auto simp: remove_violating_flags_other)
  then show ?thesis by (simp add: Sanitize_def)
qed

text \<open>C8: Sanitize changes nothing but the movement flags, and of these it keeps exactly the allowed
  ones: the root flag is always dropped, a pair of opposite directions is dropped together, and
  hovering, walking on water, slow falling and flying need the aura (or, for players, the security
  level) that the code asks for.\<close>

theorem Sanitize_flags:
  "(\<forall>n. bit (mi_flags (Sanitize target mi)) n \<longleftrightarrow>
          bit (mi_flags mi) n \<and> flag_allowed target (mi_flags mi) n) \<and>
   Sanitize target mi = mi\<lparr>mi_flags := mi_flags (Sanitize target mi)\<rparr>"
proof -
  have "Sanitize target mi = (Sanitize target mi)\<lparr>mi_flags := mi_flags (Sanitize target mi)\<rparr>"
    by simp
  then show ?thesis
    using Sanitize_other [of "mi_flags (Sanitize target mi)" target mi]
    by (simp add: bit_Sanitize)
qed

lemma opposite_ok_mono:
  "opposite_ok f i j n \<Longrightarrow> (\<And>k. bit f' k \<Longrightarrow> bit f k) \<Longrightarrow> opposite_ok f' i j n"
  by (auto simp: opposite_ok_def)

lemma flag_allowed_mono:
  assumes "flag_allowed target f n" and "\<And>k. bit f' k \<Longrightarrow> bit f k"
  shows "flag_allowed target f' n"
proof -
  note mono = opposite_ok_mono [where f = f and f' = f', OF _ assms(2)]
  show ?thesis
    using assms(1) by (simp add: flag_allowed_def mono)
qed

lemma mi_flags_Sanitize_twice: "mi_flags (Sanitize target (Sanitize target mi)) = mi_flags (Sanitize target mi)"
proof (rule bit_word_eqI)
  fix n
  have "flag_allowed target (mi_flags (Sanitize target mi)) n"
    if "flag_allowed target (mi_flags mi) n"
    using that by (rule flag_allowed_mono) (simp add: bit_Sanitize)
  then show "bit (mi_flags (Sanitize target (Sanitize target mi))) n =
      bit (mi_flags (Sanitize target mi)) n"
    by (auto simp: bit_Sanitize [of target "Sanitize target mi"] bit_Sanitize [of target mi])
qed

lemma flags_eq_Sanitize:
  assumes "mi_flags (Sanitize target mi) = mi_flags mi"
  shows "Sanitize target mi = mi"
proof -
  have "Sanitize target mi = (Sanitize target mi)\<lparr>mi_flags := mi_flags (Sanitize target mi)\<rparr>"
    by simp
  also have "\<dots> = mi\<lparr>mi_flags := mi_flags mi\<rparr>"
    unfolding assms by (rule Sanitize_other)
  finally show ?thesis by simp
qed

text \<open>the movement structure that leaves Sanitize satisfies every rule: no root flag, no opposite
  directions together, and Sanitize does not change it again.\<close>

theorem Sanitize_idempotent:
  "Sanitize target (Sanitize target mi) = Sanitize target mi \<and>
   \<not> HasMovementFlag MOVEMENTFLAG_ROOT (Sanitize target mi) \<and>
   \<not> (HasMovementFlag MOVEMENTFLAG_FORWARD (Sanitize target mi) \<and>
      HasMovementFlag MOVEMENTFLAG_BACKWARD (Sanitize target mi)) \<and>
   \<not> (HasMovementFlag MOVEMENTFLAG_STRAFE_LEFT (Sanitize target mi) \<and>
      HasMovementFlag MOVEMENTFLAG_STRAFE_RIGHT (Sanitize target mi)) \<and>
   \<not> (HasMovementFlag MOVEMENTFLAG_LEFT (Sanitize target mi) \<and>
      HasMovementFlag MOVEMENTFLAG_RIGHT (Sanitize target mi)) \<and>
   \<not> (HasMovementFlag MOVEMENTFLAG_PITCH_UP (Sanitize target mi) \<and>
      HasMovementFlag MOVEMENTFLAG_PITCH_DOWN (Sanitize target mi)) \<and>
   \<not> (HasMovementFlag MOVEMENTFLAG_ASCENDING (Sanitize target mi) \<and>
      HasMovementFlag MOVEMENTFLAG_DESCENDING (Sanitize target mi))"
proof -
  have "Sanitize target (Sanitize target mi) = Sanitize target mi"
    by (rule flags_eq_Sanitize) (rule mi_flags_Sanitize_twice)
  then show ?thesis
    by (simp add: HasMovementFlag_bits bit_Sanitize flag_allowed_def opposite_ok_def)
qed

end
