(* ===== verification/ObjectGuid.thy ===== *)
theory ObjectGuid
  imports Prelude
begin

text \<open>
  \<^verbatim>\<open>game/Entities/Object/ObjectDefines.h\<close>: the 64-bit identifiers of game objects. An identifier
  packs a kind (\<^verbatim>\<open>HighGuid\<close>), an entry and a counter; the functions here build it, take it apart and
  classify it. \<^verbatim>\<open>GuidHigh2TypeId\<close> of \<^verbatim>\<open>Object.cpp\<close> maps the kind to the object type. The theorems
  say for which parts an identifier can be taken apart again, and that the kinds exclude each other.
\<close>

section \<open>Kinds and object types\<close>

definition HIGHGUID_ITEM :: u32 where "HIGHGUID_ITEM = 0x400"
definition HIGHGUID_CONTAINER :: u32 where "HIGHGUID_CONTAINER = 0x400"
definition HIGHGUID_PLAYER :: u32 where "HIGHGUID_PLAYER = 0x000"
definition HIGHGUID_GAMEOBJECT :: u32 where "HIGHGUID_GAMEOBJECT = 0xF11"
definition HIGHGUID_TRANSPORT :: u32 where "HIGHGUID_TRANSPORT = 0xF12"
definition HIGHGUID_UNIT :: u32 where "HIGHGUID_UNIT = 0xF13"
definition HIGHGUID_PET :: u32 where "HIGHGUID_PET = 0xF14"
definition HIGHGUID_VEHICLE :: u32 where "HIGHGUID_VEHICLE = 0xF15"
definition HIGHGUID_DYNAMICOBJECT :: u32 where "HIGHGUID_DYNAMICOBJECT = 0xF10"
definition HIGHGUID_CORPSE :: u32 where "HIGHGUID_CORPSE = 0xF101"
definition HIGHGUID_AREATRIGGER :: u32 where "HIGHGUID_AREATRIGGER = 0xF102"
definition HIGHGUID_BATTLEGROUND :: u32 where "HIGHGUID_BATTLEGROUND = 0x1F1"
definition HIGHGUID_MO_TRANSPORT :: u32 where "HIGHGUID_MO_TRANSPORT = 0x1FC"
definition HIGHGUID_GROUP :: u32 where "HIGHGUID_GROUP = 0x1F5"
definition HIGHGUID_GUILD :: u32 where "HIGHGUID_GUILD = 0x1FF"

lemmas highguid_defs =
  HIGHGUID_ITEM_def HIGHGUID_CONTAINER_def HIGHGUID_PLAYER_def HIGHGUID_GAMEOBJECT_def
  HIGHGUID_TRANSPORT_def HIGHGUID_UNIT_def HIGHGUID_PET_def HIGHGUID_VEHICLE_def
  HIGHGUID_DYNAMICOBJECT_def HIGHGUID_CORPSE_def HIGHGUID_AREATRIGGER_def
  HIGHGUID_BATTLEGROUND_def HIGHGUID_MO_TRANSPORT_def HIGHGUID_GROUP_def HIGHGUID_GUILD_def

datatype TypeID =
    TYPEID_OBJECT | TYPEID_ITEM | TYPEID_CONTAINER | TYPEID_UNIT | TYPEID_PLAYER
  | TYPEID_GAMEOBJECT | TYPEID_DYNAMICOBJECT | TYPEID_CORPSE | TYPEID_AREATRIGGER

text \<open>\<^verbatim>\<open>NUM_CLIENT_OBJECT_TYPES\<close>, the answer for an unknown kind, is \<open>None\<close>.\<close>

definition GuidHigh2TypeId :: "u32 \<Rightarrow> TypeID option" where
  "GuidHigh2TypeId guid_hi =
     (if guid_hi = HIGHGUID_ITEM then Some TYPEID_ITEM
      else if guid_hi = HIGHGUID_UNIT then Some TYPEID_UNIT
      else if guid_hi = HIGHGUID_PET then Some TYPEID_UNIT
      else if guid_hi = HIGHGUID_PLAYER then Some TYPEID_PLAYER
      else if guid_hi = HIGHGUID_GAMEOBJECT then Some TYPEID_GAMEOBJECT
      else if guid_hi = HIGHGUID_DYNAMICOBJECT then Some TYPEID_DYNAMICOBJECT
      else if guid_hi = HIGHGUID_CORPSE then Some TYPEID_CORPSE
      else if guid_hi = HIGHGUID_AREATRIGGER then Some TYPEID_AREATRIGGER
      else if guid_hi = HIGHGUID_MO_TRANSPORT then Some TYPEID_GAMEOBJECT
      else if guid_hi = HIGHGUID_VEHICLE then Some TYPEID_UNIT
      else None)"

section \<open>Pairs of integers in one integer\<close>

definition MAKE_PAIR64 :: "u32 \<Rightarrow> u32 \<Rightarrow> u64" where
  "MAKE_PAIR64 l h = ucast l OR push_bit 32 (ucast h)"

definition PAIR64_HIPART :: "u64 \<Rightarrow> u32" where
  "PAIR64_HIPART x = ucast (drop_bit 32 x AND 0xFFFFFFFF)"

definition PAIR64_LOPART :: "u64 \<Rightarrow> u32" where
  "PAIR64_LOPART x = ucast (x AND 0xFFFFFFFF)"

definition MAKE_PAIR16 :: "u8 \<Rightarrow> u8 \<Rightarrow> u16" where
  "MAKE_PAIR16 l h = ucast l OR push_bit 8 (ucast h)"

definition MAKE_PAIR32 :: "u16 \<Rightarrow> u16 \<Rightarrow> u32" where
  "MAKE_PAIR32 l h = ucast l OR push_bit 16 (ucast h)"

definition PAIR32_HIPART :: "u32 \<Rightarrow> u16" where
  "PAIR32_HIPART x = ucast (drop_bit 16 x AND 0xFFFF)"

definition PAIR32_LOPART :: "u32 \<Rightarrow> u16" where
  "PAIR32_LOPART x = ucast (x AND 0xFFFF)"

section \<open>Building an identifier and taking it apart\<close>

definition MAKE_NEW_GUID :: "u32 \<Rightarrow> u32 \<Rightarrow> u32 \<Rightarrow> u64" where
  "MAKE_NEW_GUID l e h =
     ucast l OR push_bit 32 (ucast e) OR
     push_bit (if h = HIGHGUID_CORPSE \<or> h = HIGHGUID_AREATRIGGER then 48 else 52) (ucast h)"

definition GUID_HIPART :: "u64 \<Rightarrow> u32" where
  "GUID_HIPART guid =
     (let t = ucast (drop_bit 48 guid AND 0x0000FFFF) in
      if t = HIGHGUID_CORPSE \<or> t = HIGHGUID_AREATRIGGER then t else drop_bit 4 t AND 0x00000FFF)"

definition high_has_entry :: "u32 \<Rightarrow> bool" where
  "high_has_entry h \<longleftrightarrow>
     h \<notin> {HIGHGUID_ITEM, HIGHGUID_PLAYER, HIGHGUID_DYNAMICOBJECT, HIGHGUID_CORPSE,
           HIGHGUID_GROUP, HIGHGUID_GUILD}"

definition IsGuidHaveEnPart :: "u64 \<Rightarrow> bool" where
  "IsGuidHaveEnPart guid = high_has_entry (GUID_HIPART guid)"

definition GUID_ENPART :: "u64 \<Rightarrow> u32" where
  "GUID_ENPART x = (if IsGuidHaveEnPart x then ucast (drop_bit 32 x AND 0x00000000000FFFFF) else 0)"

definition GUID_LOPART :: "u64 \<Rightarrow> u32" where
  "GUID_LOPART x = PAIR64_LOPART x"

section \<open>Classifying an identifier\<close>

definition IS_EMPTY_GUID :: "u64 \<Rightarrow> bool" where
  "IS_EMPTY_GUID guid \<longleftrightarrow> guid = 0"

definition IS_CREATURE_GUID :: "u64 \<Rightarrow> bool" where
  "IS_CREATURE_GUID guid \<longleftrightarrow> GUID_HIPART guid = HIGHGUID_UNIT"

definition IS_PET_GUID :: "u64 \<Rightarrow> bool" where
  "IS_PET_GUID guid \<longleftrightarrow> GUID_HIPART guid = HIGHGUID_PET"

definition IS_VEHICLE_GUID :: "u64 \<Rightarrow> bool" where
  "IS_VEHICLE_GUID guid \<longleftrightarrow> GUID_HIPART guid = HIGHGUID_VEHICLE"

definition IS_CRE_OR_VEH_GUID :: "u64 \<Rightarrow> bool" where
  "IS_CRE_OR_VEH_GUID guid \<longleftrightarrow> IS_CREATURE_GUID guid \<or> IS_VEHICLE_GUID guid"

definition IS_CRE_OR_VEH_OR_PET_GUID :: "u64 \<Rightarrow> bool" where
  "IS_CRE_OR_VEH_OR_PET_GUID guid \<longleftrightarrow> IS_CRE_OR_VEH_GUID guid \<or> IS_PET_GUID guid"

definition IS_PLAYER_GUID :: "u64 \<Rightarrow> bool" where
  "IS_PLAYER_GUID guid \<longleftrightarrow> guid \<noteq> 0 \<and> GUID_HIPART guid = HIGHGUID_PLAYER"

definition IS_GUILD_GUID :: "u64 \<Rightarrow> bool" where
  "IS_GUILD_GUID guid \<longleftrightarrow> GUID_HIPART guid = HIGHGUID_GUILD"

definition IS_UNIT_GUID :: "u64 \<Rightarrow> bool" where
  "IS_UNIT_GUID guid \<longleftrightarrow> IS_CRE_OR_VEH_OR_PET_GUID guid \<or> IS_PLAYER_GUID guid"

definition IS_ITEM_GUID :: "u64 \<Rightarrow> bool" where
  "IS_ITEM_GUID guid \<longleftrightarrow> GUID_HIPART guid = HIGHGUID_ITEM"

definition IS_GAMEOBJECT_GUID :: "u64 \<Rightarrow> bool" where
  "IS_GAMEOBJECT_GUID guid \<longleftrightarrow> GUID_HIPART guid = HIGHGUID_GAMEOBJECT"

definition IS_DYNAMICOBJECT_GUID :: "u64 \<Rightarrow> bool" where
  "IS_DYNAMICOBJECT_GUID guid \<longleftrightarrow> GUID_HIPART guid = HIGHGUID_DYNAMICOBJECT"

definition IS_CORPSE_GUID :: "u64 \<Rightarrow> bool" where
  "IS_CORPSE_GUID guid \<longleftrightarrow> GUID_HIPART guid = HIGHGUID_CORPSE"

definition IS_TRANSPORT_GUID :: "u64 \<Rightarrow> bool" where
  "IS_TRANSPORT_GUID guid \<longleftrightarrow> GUID_HIPART guid = HIGHGUID_TRANSPORT"

definition IS_MO_TRANSPORT_GUID :: "u64 \<Rightarrow> bool" where
  "IS_MO_TRANSPORT_GUID guid \<longleftrightarrow> GUID_HIPART guid = HIGHGUID_MO_TRANSPORT"

definition IS_GROUP_GUID :: "u64 \<Rightarrow> bool" where
  "IS_GROUP_GUID guid \<longleftrightarrow> GUID_HIPART guid = HIGHGUID_GROUP"

definition IS_AREATRIGGER_GUID :: "u64 \<Rightarrow> bool" where
  "IS_AREATRIGGER_GUID guid \<longleftrightarrow> GUID_HIPART guid = HIGHGUID_AREATRIGGER"

lemmas guid_class_defs =
  IS_EMPTY_GUID_def IS_CREATURE_GUID_def IS_PET_GUID_def IS_VEHICLE_GUID_def IS_CRE_OR_VEH_GUID_def
  IS_CRE_OR_VEH_OR_PET_GUID_def IS_PLAYER_GUID_def IS_GUILD_GUID_def IS_UNIT_GUID_def
  IS_ITEM_GUID_def IS_GAMEOBJECT_GUID_def IS_DYNAMICOBJECT_GUID_def IS_CORPSE_GUID_def
  IS_TRANSPORT_GUID_def IS_MO_TRANSPORT_GUID_def IS_GROUP_GUID_def IS_AREATRIGGER_GUID_def

section \<open>Masks\<close>

text \<open>The masks of the code are the masks of the word library.\<close>

lemma guid_masks:
  "x AND 0xFFFFFFFF = take_bit 32 (x :: u64)"
  "x AND 0x00000000000FFFFF = take_bit 20 x"
  "x AND 0x0000FFFF = take_bit 16 x"
  "y AND 0x00000FFF = take_bit 12 (y :: u32)"
  "y AND 0xFFFF = take_bit 16 y"
  by (simp_all add: take_bit_eq_mask mask_eq_exp_minus_1)

lemmas guid_bits = bit_or_iff bit_push_bit_iff bit_drop_bit_eq bit_take_bit_iff bit_ucast_iff
  possible_bit_word bit_and_iff

lemma MAKE_PAIR64_parts [simp]:
  "PAIR64_LOPART (MAKE_PAIR64 l h) = l" "PAIR64_HIPART (MAKE_PAIR64 l h) = h"
  by (rule bit_word_eqI, auto simp: PAIR64_LOPART_def PAIR64_HIPART_def MAKE_PAIR64_def guid_masks
      guid_bits dest: bit_imp_le_length)+

lemma MAKE_PAIR64_collapse [simp]: "MAKE_PAIR64 (PAIR64_LOPART x) (PAIR64_HIPART x) = x"
  by (rule bit_word_eqI) (auto simp: PAIR64_LOPART_def PAIR64_HIPART_def MAKE_PAIR64_def guid_masks
      guid_bits)

lemma MAKE_PAIR32_parts [simp]:
  "PAIR32_LOPART (MAKE_PAIR32 l h') = l" "PAIR32_HIPART (MAKE_PAIR32 l h') = h'"
  by (rule bit_word_eqI, auto simp: PAIR32_LOPART_def PAIR32_HIPART_def MAKE_PAIR32_def guid_masks
      guid_bits dest: bit_imp_le_length)+

lemma bit_MAKE_NEW_GUID:
  "bit (MAKE_NEW_GUID l e h) n \<longleftrightarrow>
     n < 64 \<and> (bit l n \<or> 32 \<le> n \<and> bit e (n - 32) \<or>
       (if h = HIGHGUID_CORPSE \<or> h = HIGHGUID_AREATRIGGER then 48 \<le> n \<and> bit h (n - 48)
        else 52 \<le> n \<and> bit h (n - 52)))"
  by (auto simp: MAKE_NEW_GUID_def guid_bits dest: bit_imp_le_length)

text \<open>A word below a power of two has no bits from there on.\<close>

lemma bit_below: "x < 2 ^ k \<Longrightarrow> bit (x :: 'a::len word) n \<Longrightarrow> n < k"
  by (metis bit_take_bit_iff less_mask_eq take_bit_eq_mask)

section \<open>Identifiers\<close>

text \<open>The sixteen bits \<^verbatim>\<open>GUID_HIPART\<close> looks at.\<close>

definition guid_top :: "u64 \<Rightarrow> u32" where
  "guid_top guid = ucast (drop_bit 48 guid AND 0x0000FFFF)"

lemma bit_guid_top: "bit (guid_top g) n \<longleftrightarrow> n < 16 \<and> bit g (48 + n)"
  by (auto simp: guid_top_def guid_masks guid_bits)

lemma guid_top_wide:
  assumes "h = HIGHGUID_CORPSE \<or> h = HIGHGUID_AREATRIGGER" and "e < 2 ^ 16"
  shows "guid_top (MAKE_NEW_GUID l e h) = h"
proof (rule bit_word_eqI)
  fix n
  assume "n < LENGTH(32)"
  have "h < 2 ^ 16" using assms(1) by (auto simp: highguid_defs)
  then show "bit (guid_top (MAKE_NEW_GUID l e h)) n = bit h n"
    using assms bit_below [of h 16 n] bit_below [of e 16 "16 + n"]
    by (auto simp: bit_guid_top bit_MAKE_NEW_GUID dest: bit_imp_le_length)
qed

lemma guid_top_narrow:
  assumes "h < 2 ^ 12" and "e < 2 ^ 20"
  shows "guid_top (MAKE_NEW_GUID l e h) = push_bit 4 h OR drop_bit 16 e"
proof (rule bit_word_eqI)
  fix n
  assume "n < LENGTH(32)"
  have "h \<noteq> HIGHGUID_CORPSE" "h \<noteq> HIGHGUID_AREATRIGGER"
    using assms(1) by (auto simp: highguid_defs)
  then show "bit (guid_top (MAKE_NEW_GUID l e h)) n = bit (push_bit 4 h OR drop_bit 16 e) n"
    using bit_below [OF assms(1), of "n - 4"] bit_below [OF assms(2), of "16 + n"]
    by (auto simp: bit_guid_top bit_MAKE_NEW_GUID guid_bits dest: bit_imp_le_length)
qed

lemma narrow_parts:
  fixes e h :: u32
  assumes "h < 2 ^ 12" and "e < 2 ^ 20"
  shows "drop_bit 4 (push_bit 4 h OR drop_bit 16 e) AND 0x00000FFF = h"
    and "take_bit 4 (push_bit 4 h OR drop_bit 16 e) = drop_bit 16 e"
proof -
  show "drop_bit 4 (push_bit 4 h OR drop_bit 16 e) AND 0x00000FFF = h"
  proof (rule bit_word_eqI)
    fix n
    show "bit (drop_bit 4 (push_bit 4 h OR drop_bit 16 e) AND 0x00000FFF) n = bit h n"
      using bit_below [OF assms(1), of n] bit_below [OF assms(2), of "20 + n"]
      by (auto simp: guid_masks guid_bits)
  qed
  show "take_bit 4 (push_bit 4 h OR drop_bit 16 e) = drop_bit 16 e"
  proof (rule bit_word_eqI)
    fix n
    show "bit (take_bit 4 (push_bit 4 h OR drop_bit 16 e)) n = bit (drop_bit 16 e) n"
      using bit_below [OF assms(2), of "16 + n"] by (auto simp: guid_bits)
  qed
qed

text \<open>The parts that fit: corpses and area triggers have a sixteen-bit kind that leaves sixteen bits
  to the entry, every other kind has twelve bits and leaves twenty. A dynamic object whose entry has
  one of two values in its top four bits would look like a corpse or an area trigger.\<close>

definition guid_parts_fit :: "u32 \<Rightarrow> u32 \<Rightarrow> bool" where
  "guid_parts_fit e h \<longleftrightarrow>
     (if h = HIGHGUID_CORPSE \<or> h = HIGHGUID_AREATRIGGER then e < 2 ^ 16
      else h < 2 ^ 12 \<and> e < 2 ^ 20 \<and>
        \<not> (h = HIGHGUID_DYNAMICOBJECT \<and> (drop_bit 16 e = 1 \<or> drop_bit 16 e = 2)))"

lemma GUID_HIPART_NEW:
  assumes "guid_parts_fit e h"
  shows "GUID_HIPART (MAKE_NEW_GUID l e h) = h"
proof (cases "h = HIGHGUID_CORPSE \<or> h = HIGHGUID_AREATRIGGER")
  case True
  with assms have "guid_top (MAKE_NEW_GUID l e h) = h"
    by (simp add: guid_parts_fit_def guid_top_wide)
  with True show ?thesis
    by (simp add: GUID_HIPART_def flip: guid_top_def)
next
  case False
  with assms have h: "h < 2 ^ 12" and e: "e < 2 ^ 20"
    and dyn: "\<not> (h = HIGHGUID_DYNAMICOBJECT \<and> (drop_bit 16 e = 1 \<or> drop_bit 16 e = 2))"
    by (simp_all add: guid_parts_fit_def)
  define t where "t = push_bit 4 h OR drop_bit 16 e"
  have parts: "drop_bit 4 t AND 0x00000FFF = h" "take_bit 4 t = drop_bit 16 e"
    using narrow_parts [OF h e] by (simp_all add: t_def)
  have "t \<noteq> HIGHGUID_CORPSE" "t \<noteq> HIGHGUID_AREATRIGGER"
    using parts dyn by (auto simp: highguid_defs)
  then show ?thesis
    using guid_top_narrow [OF h e, of l] parts(1)
    by (simp add: GUID_HIPART_def Let_def t_def flip: guid_top_def)
qed

lemma GUID_LOPART_NEW: "GUID_LOPART (MAKE_NEW_GUID l e h) = l"
  by (rule bit_word_eqI)
    (auto simp: GUID_LOPART_def PAIR64_LOPART_def guid_masks guid_bits bit_MAKE_NEW_GUID)

lemma GUID_entry_bits_NEW:
  assumes "guid_parts_fit e h"
  shows "ucast (drop_bit 32 (MAKE_NEW_GUID l e h) AND 0x00000000000FFFFF) =
     (if h = HIGHGUID_CORPSE \<or> h = HIGHGUID_AREATRIGGER then e OR push_bit 16 (take_bit 4 h) else e)"
proof (rule bit_word_eqI)
  fix n
  assume "n < LENGTH(32)"
  show "bit (ucast (drop_bit 32 (MAKE_NEW_GUID l e h) AND 0x00000000000FFFFF) :: u32) n =
      bit (if h = HIGHGUID_CORPSE \<or> h = HIGHGUID_AREATRIGGER
           then e OR push_bit 16 (take_bit 4 h) else e) n"
    using assms bit_below [of e 20 n] bit_below [of e 16 n]
    by (auto simp: guid_parts_fit_def guid_masks guid_bits bit_MAKE_NEW_GUID
        dest: bit_imp_le_length)
qed

text \<open>C20: An identifier made by \<^verbatim>\<open>MAKE_NEW_GUID\<close> from parts that fit is taken apart into the same
  counter, kind and entry; the kinds without an entry give entry 0. Area triggers are the exception:
  the low four bits of their kind (2) show up in the entry.\<close>

theorem guid_roundtrip:
  assumes "guid_parts_fit e h"
  shows "GUID_LOPART (MAKE_NEW_GUID l e h) = l \<and>
    GUID_HIPART (MAKE_NEW_GUID l e h) = h \<and>
    GUID_ENPART (MAKE_NEW_GUID l e h) =
      (if \<not> high_has_entry h then 0 else if h = HIGHGUID_AREATRIGGER then e OR 0x20000 else e)"
proof -
  have hi: "GUID_HIPART (MAKE_NEW_GUID l e h) = h" using assms by (rule GUID_HIPART_NEW)
  have "GUID_ENPART (MAKE_NEW_GUID l e h) =
      (if \<not> high_has_entry h then 0 else if h = HIGHGUID_AREATRIGGER then e OR 0x20000 else e)"
    using GUID_entry_bits_NEW [OF assms, of l]
    by (auto simp: GUID_ENPART_def IsGuidHaveEnPart_def hi high_has_entry_def)
       (simp_all add: highguid_defs)
  with hi show ?thesis by (simp add: GUID_LOPART_NEW)
qed

theorem guid_roundtrip_witness:
  "GUID_ENPART (MAKE_NEW_GUID 7 257 HIGHGUID_UNIT) = 257 \<and>
   GUID_ENPART (MAKE_NEW_GUID 7 257 HIGHGUID_AREATRIGGER) = 0x20101"
  using guid_roundtrip [of 257 HIGHGUID_UNIT 7] guid_roundtrip [of 257 HIGHGUID_AREATRIGGER 7]
  by (simp add: guid_parts_fit_def high_has_entry_def highguid_defs)

text \<open>C21: The identifiers of units are disjoint from those of items, game objects, transports,
  dynamic objects, corpses and area triggers, and a non-empty identifier that
  \<^verbatim>\<open>GuidHigh2TypeId\<close> maps to a unit or player type is exactly one that \<^verbatim>\<open>IS_UNIT_GUID\<close> accepts.\<close>

theorem guid_classes:
  "(IS_UNIT_GUID g \<longleftrightarrow>
     \<not> IS_EMPTY_GUID g \<and> GuidHigh2TypeId (GUID_HIPART g) \<in> {Some TYPEID_UNIT, Some TYPEID_PLAYER}) \<and>
   length (filter (\<lambda>p. p g)
     [IS_EMPTY_GUID, IS_UNIT_GUID, IS_ITEM_GUID, IS_GAMEOBJECT_GUID, IS_DYNAMICOBJECT_GUID,
      IS_CORPSE_GUID, IS_TRANSPORT_GUID, IS_MO_TRANSPORT_GUID, IS_GROUP_GUID, IS_GUILD_GUID,
      IS_AREATRIGGER_GUID]) \<le> 1"
proof
  have zero: "GUID_HIPART 0 = 0" by (simp add: GUID_HIPART_def highguid_defs)
  show "IS_UNIT_GUID g \<longleftrightarrow>
     \<not> IS_EMPTY_GUID g \<and> GuidHigh2TypeId (GUID_HIPART g) \<in> {Some TYPEID_UNIT, Some TYPEID_PLAYER}"
    using zero by (auto simp: guid_class_defs GuidHigh2TypeId_def highguid_defs)
  show "length (filter (\<lambda>p. p g)
     [IS_EMPTY_GUID, IS_UNIT_GUID, IS_ITEM_GUID, IS_GAMEOBJECT_GUID, IS_DYNAMICOBJECT_GUID,
      IS_CORPSE_GUID, IS_TRANSPORT_GUID, IS_MO_TRANSPORT_GUID, IS_GROUP_GUID, IS_GUILD_GUID,
      IS_AREATRIGGER_GUID]) \<le> 1"
    using zero by (cases "g = 0") (simp_all add: guid_class_defs highguid_defs)
qed

end
