(* ===== verification/UpdateMask.thy ===== *)
theory UpdateMask
  imports Prelude
begin

text \<open>
  \<^verbatim>\<open>class UpdateMask\<close> of \<^verbatim>\<open>game/Entities/Object/Updates/UpdateMask.h\<close>: the bit mask that says which
  fields of an object an update carries. The storage is an array of 32-bit blocks that \<^verbatim>\<open>SetBit\<close>,
  \<^verbatim>\<open>UnsetBit\<close> and \<^verbatim>\<open>GetBit\<close> access as bytes and the operators access as blocks. The class checks no
  index: an access outside the array is the error \<open>OutOfBounds\<close>, a failed \<^verbatim>\<open>ASSERT\<close> is
  \<open>MaskAssertion\<close>. The theorems show that the mask implements a set of indexes, and where the
  operators leave the array of their argument.
\<close>

section \<open>State\<close>

datatype mask_error = OutOfBounds | MaskAssertion

text \<open>\<^verbatim>\<open>uint32 *mUpdateMask\<close> is null until the first \<^verbatim>\<open>SetCount\<close>.\<close>

record UpdateMask =
  mCount :: u32
  mBlocks :: u32
  mUpdateMask :: "u32 list option"

definition UpdateMask_new :: UpdateMask where
  "UpdateMask_new = \<lparr>mCount = 0, mBlocks = 0, mUpdateMask = None\<rparr>"

section \<open>Access to the array\<close>

text \<open>The array as the code sees it: the blocks, and byte \<open>k\<close> of the array on a little-endian host.\<close>

definition mask_blocks :: "UpdateMask \<Rightarrow> u32 list" where
  "mask_blocks m = (case mUpdateMask m of None \<Rightarrow> [] | Some bs \<Rightarrow> bs)"

definition mask_byte :: "u32 list \<Rightarrow> nat \<Rightarrow> u8" where
  "mask_byte bs k = ucast (drop_bit (8 * (k mod 4)) (bs ! (k div 4)))"

definition set_mask_byte :: "u32 list \<Rightarrow> nat \<Rightarrow> u8 \<Rightarrow> u32 list" where
  "set_mask_byte bs k v =
     bs[k div 4 := (bs ! (k div 4) AND NOT (push_bit (8 * (k mod 4)) 0xFF)) OR
                   push_bit (8 * (k mod 4)) (ucast v)]"

definition SetBit :: "u32 \<Rightarrow> UpdateMask \<Rightarrow> mask_error + UpdateMask" where
  "SetBit index m =
     (let k = unat (drop_bit 3 index); bs = mask_blocks m in
      if k < 4 * length bs
      then Inr (m\<lparr>mUpdateMask :=
                 Some (set_mask_byte bs k (mask_byte bs k OR push_bit (unat (index AND 0x7)) 1))\<rparr>)
      else Inl OutOfBounds)"

definition UnsetBit :: "u32 \<Rightarrow> UpdateMask \<Rightarrow> mask_error + UpdateMask" where
  "UnsetBit index m =
     (let k = unat (drop_bit 3 index); bs = mask_blocks m in
      if k < 4 * length bs
      then Inr (m\<lparr>mUpdateMask :=
                 Some (set_mask_byte bs k
                   (mask_byte bs k AND (0xFF XOR push_bit (unat (index AND 0x7)) 1)))\<rparr>)
      else Inl OutOfBounds)"

definition GetBit :: "u32 \<Rightarrow> UpdateMask \<Rightarrow> mask_error + bool" where
  "GetBit index m =
     (let k = unat (drop_bit 3 index); bs = mask_blocks m in
      if k < 4 * length bs
      then Inr (mask_byte bs k AND push_bit (unat (index AND 0x7)) 1 \<noteq> 0)
      else Inl OutOfBounds)"

definition GetBlockCount :: "UpdateMask \<Rightarrow> u32" where
  "GetBlockCount m = mBlocks m"

definition GetLength :: "UpdateMask \<Rightarrow> u32" where
  "GetLength m = push_bit 2 (mBlocks m)"

definition GetCount :: "UpdateMask \<Rightarrow> u32" where
  "GetCount m = mCount m"

text \<open>\<^verbatim>\<open>GetMask\<close>: the array as bytes.\<close>

definition GetMask :: "UpdateMask \<Rightarrow> u8 list" where
  "GetMask m = concat (map (le_bytes 4) (mask_blocks m))"

text \<open>The sum \<^verbatim>\<open>valuesCount + 31\<close> is a \<^verbatim>\<open>uint32\<close> sum.\<close>

definition SetCount :: "u32 \<Rightarrow> UpdateMask \<Rightarrow> UpdateMask" where
  "SetCount valuesCount m =
     (let blocks = (valuesCount + 31) div 32 in
      \<lparr>mCount = valuesCount, mBlocks = blocks, mUpdateMask = Some (replicate (unat blocks) 0)\<rparr>)"

definition Clear :: "UpdateMask \<Rightarrow> UpdateMask" where
  "Clear m =
     (case mUpdateMask m of
        None \<Rightarrow> m
      | Some bs \<Rightarrow> m\<lparr>mUpdateMask := Some (replicate (unat (mBlocks m)) 0 @ drop (unat (mBlocks m)) bs)\<rparr>)"

text \<open>\<^verbatim>\<open>operator=\<close> on distinct objects (the self-assignment returns at once).\<close>

definition mask_assign :: "UpdateMask \<Rightarrow> UpdateMask \<Rightarrow> mask_error + UpdateMask" where
  "mask_assign src m =
     (let m1 = SetCount (mCount src) m; n = unat (mBlocks m1) in
      if n \<le> length (mask_blocks src)
      then Inr (m1\<lparr>mUpdateMask := Some (take n (mask_blocks src))\<rparr>)
      else Inl OutOfBounds)"

text \<open>The loop of \<^verbatim>\<open>operator&=\<close> and \<^verbatim>\<open>operator|=\<close>: it runs over the blocks of this mask and reads the
  block of the same index from the other.\<close>

primrec combine_blocks ::
  "(u32 \<Rightarrow> u32 \<Rightarrow> u32) \<Rightarrow> u32 list \<Rightarrow> u32 list \<Rightarrow> mask_error + u32 list" where
  "combine_blocks f [] other = Inr []"
| "combine_blocks f (b # bs) other =
     (case other of
        [] \<Rightarrow> Inl OutOfBounds
      | c # cs \<Rightarrow> bind_res (combine_blocks f bs cs) (\<lambda>r. Inr (f b c # r)))"

definition mask_combine ::
  "(u32 \<Rightarrow> u32 \<Rightarrow> u32) \<Rightarrow> UpdateMask \<Rightarrow> UpdateMask \<Rightarrow> mask_error + UpdateMask" where
  "mask_combine f m mask2 =
     (if mCount mask2 \<le> mCount m
      then bind_res (combine_blocks f (mask_blocks m) (mask_blocks mask2))
             (\<lambda>bs. Inr (m\<lparr>mUpdateMask := map_option (\<lambda>_. bs) (mUpdateMask m)\<rparr>))
      else Inl MaskAssertion)"

definition mask_and_assign :: "UpdateMask \<Rightarrow> UpdateMask \<Rightarrow> mask_error + UpdateMask" where
  "mask_and_assign m mask2 = mask_combine (AND) m mask2"

definition mask_or_assign :: "UpdateMask \<Rightarrow> UpdateMask \<Rightarrow> mask_error + UpdateMask" where
  "mask_or_assign m mask2 = mask_combine (OR) m mask2"

definition mask_and :: "UpdateMask \<Rightarrow> UpdateMask \<Rightarrow> mask_error + UpdateMask" where
  "mask_and m mask2 =
     (if mCount mask2 \<le> mCount m
      then bind_res (mask_assign m UpdateMask_new) (\<lambda>newmask. mask_and_assign newmask mask2)
      else Inl MaskAssertion)"

definition mask_or :: "UpdateMask \<Rightarrow> UpdateMask \<Rightarrow> mask_error + UpdateMask" where
  "mask_or m mask2 =
     (if mCount mask2 \<le> mCount m
      then bind_res (mask_assign m UpdateMask_new) (\<lambda>newmask. mask_or_assign newmask mask2)
      else Inl MaskAssertion)"

section \<open>The set a mask stands for\<close>

definition mask_set :: "UpdateMask \<Rightarrow> nat set" where
  "mask_set m = {i. i < 32 * length (mask_blocks m) \<and> bit (mask_blocks m ! (i div 32)) (i mod 32)}"

text \<open>The class invariant: the block count is the rounded-up quotient of the field count, and the
  array has that many blocks.\<close>

definition mask_wf :: "UpdateMask \<Rightarrow> bool" where
  "mask_wf m \<longleftrightarrow> mBlocks m = (mCount m + 31) div 32 \<and> length (mask_blocks m) = unat (mBlocks m)"

lemma mask_blocks_update [simp]:
  "mask_blocks (m\<lparr>mUpdateMask := Some bs\<rparr>) = bs"
  by (simp add: mask_blocks_def)

lemma mask_index: "unat (drop_bit 3 i) = unat i div 8" "unat (i AND 0x7) = unat i mod 8"
  for i :: u32
  using take_bit_eq_mask [of 3 i, symmetric]
  by (simp_all add: drop_bit_eq_div take_bit_eq_mod mask_eq_exp_minus_1 unat_div_distrib
      unat_mod_distrib)

lemma bit_mask_byte:
  "bit (mask_byte bs k) n \<longleftrightarrow> n < 8 \<and> bit (bs ! (k div 4)) (8 * (k mod 4) + n)"
  by (auto simp: mask_byte_def bit_ucast_iff bit_drop_bit_eq)

lemma bit_byte_window:
  assumes "n < 32"
  shows "bit (push_bit (8 * r) (0xFF :: u32)) n \<longleftrightarrow> n div 8 = r"
proof -
  have ff: "(0xFF :: u32) = mask 8" by (simp add: mask_eq_exp_minus_1)
  show ?thesis
    unfolding ff bit_push_bit_iff using assms by (auto simp: bit_mask_iff possible_bit_word)
qed

lemma bit_byte_at:
  assumes "n < 32"
  shows "bit (push_bit (8 * r) (ucast (v :: u8) :: u32)) n \<longleftrightarrow> n div 8 = r \<and> bit v (n mod 8)"
proof (cases "n div 8 = r")
  case True
  then have "8 * r \<le> n" "n - 8 * r = n mod 8" by (auto simp: minus_mult_div_eq_mod)
  moreover have "n mod 8 < 32" by (rule less_trans [of _ 8]) simp_all
  ultimately show ?thesis
    using True assms by (simp add: bit_push_bit_iff bit_ucast_iff)
next
  case False
  have "n div 8 = r" if "8 * r \<le> n" "n - 8 * r < 8" using that by auto
  with False show ?thesis
    using bit_imp_le_length [of v "n - 8 * r"] by (auto simp: bit_push_bit_iff bit_ucast_iff)
qed

lemma bit_set_mask_byte:
  assumes "k div 4 < length bs" and "j < length bs" and "n < 32"
  shows "bit (set_mask_byte bs k v ! j) n \<longleftrightarrow>
    (if 4 * j + n div 8 = k then bit v (n mod 8) else bit (bs ! j) n)"
proof (cases "j = k div 4")
  case False
  with assms(3) have "4 * j + n div 8 \<noteq> k" by auto
  with False show ?thesis by (simp add: set_mask_byte_def)
next
  case True
  moreover have "4 * j + n div 8 = k \<longleftrightarrow> n div 8 = k mod 4"
    using True by (metis add_left_cancel mult_div_mod_eq)
  ultimately show ?thesis
    using assms bit_byte_window [OF assms(3), of "k mod 4"] bit_byte_at [OF assms(3), of "k mod 4" v]
    by (auto simp: set_mask_byte_def bit_or_iff bit_and_iff bit_not_iff_eq)
qed

lemma length_set_mask_byte [simp]: "length (set_mask_byte bs k v) = length bs"
  by (simp add: set_mask_byte_def)

lemma mem_mask_set:
  "i \<in> mask_set m \<longleftrightarrow> i < 32 * length (mask_blocks m) \<and> bit (mask_blocks m ! (i div 32)) (i mod 32)"
  by (simp add: mask_set_def)

text \<open>Bit \<open>i mod 8\<close> of byte \<open>i div 8\<close> is bit \<open>i mod 32\<close> of block \<open>i div 32\<close>.\<close>

lemma byte_block_index:
  "i div 8 div 4 = i div 32" "8 * (i div 8 mod 4) + i mod 8 = i mod (32 :: nat)"
  using div_mult2_eq [of i 8 4] mod_mult2_eq [of i 8 4] by simp_all

lemma block_byte_index:
  "4 * (i div 32) + i mod 32 div 8 = i div 8" "i mod 32 mod 8 = i mod (8 :: nat)"
  unfolding byte_block_index [symmetric] by simp_all

lemma mask_byte_eq: "bit (mask_byte bs (i div 8)) (i mod 8) \<longleftrightarrow> bit (bs ! (i div 32)) (i mod 32)"
  by (simp add: bit_mask_byte byte_block_index)

lemma byte_in_range: "i div 8 < 4 * n \<longleftrightarrow> i < 32 * (n :: nat)"
  by (auto simp: div_less_iff_less_mult)

lemma and_bit_neq_0: "(v :: u8) AND 2 ^ n \<noteq> 0 \<longleftrightarrow> bit v n"
  by (metis and.commute bit_iff_and_push_bit_not_eq_0 push_bit_of_1)

lemma GetBit_set:
  "GetBit i m =
     (if unat i < 32 * length (mask_blocks m) then Inr (unat i \<in> mask_set m) else Inl OutOfBounds)"
  by (simp add: GetBit_def Let_def mask_index byte_in_range and_bit_neq_0 mask_byte_eq mem_mask_set)

text \<open>Writing one byte whose bits differ from the old ones at one position changes membership of one
  index.\<close>

lemma mask_set_byte:
  assumes "i < 32 * length bs" and bs: "bs = mask_blocks m"
    and v: "\<And>b. b < 8 \<Longrightarrow> bit v b \<longleftrightarrow> (if b = i mod 8 then x else bit (mask_byte bs (i div 8)) b)"
  shows "mask_set (m\<lparr>mUpdateMask := Some (set_mask_byte bs (i div 8) v)\<rparr>) =
    (if x then insert i (mask_set m) else mask_set m - {i})"
proof (rule set_eqI)
  fix j
  let ?m' = "m\<lparr>mUpdateMask := Some (set_mask_byte bs (i div 8) v)\<rparr>"
  show "j \<in> mask_set ?m' \<longleftrightarrow> j \<in> (if x then insert i (mask_set m) else mask_set m - {i})"
  proof (cases "j < 32 * length bs")
    case False
    then show ?thesis using assms(1) by (auto simp: mem_mask_set simp flip: bs)
  next
    case True
    have "j \<in> mask_set ?m' \<longleftrightarrow> bit (set_mask_byte bs (i div 8) v ! (j div 32)) (j mod 32)"
      using True by (simp add: mem_mask_set)
    also have "\<dots> \<longleftrightarrow> (if j div 8 = i div 8 then bit v (j mod 8) else bit (bs ! (j div 32)) (j mod 32))"
      using True assms(1) by (subst bit_set_mask_byte) (auto simp: block_byte_index div_less_iff_less_mult)
    also have "\<dots> \<longleftrightarrow> (if j = i then x else bit (bs ! (j div 32)) (j mod 32))"
      using v [of "j mod 8"] mask_byte_eq [of bs j] by (auto, (metis mult_div_mod_eq)+)
    finally show ?thesis
      using True assms(1) by (auto simp: mem_mask_set simp flip: bs)
  qed
qed

lemma bit_or_one:
  "b < 8 \<Longrightarrow> bit (v OR push_bit k 1) b \<longleftrightarrow> (if b = k then True else bit (v :: u8) b)"
  by (auto simp: bit_or_iff bit_exp_iff possible_bit_word)

lemma bit_and_not_one:
  "b < 8 \<Longrightarrow> bit (v AND (0xFF XOR push_bit k 1)) b \<longleftrightarrow> (if b = k then False else bit (v :: u8) b)"
proof -
  assume "b < 8"
  then have "bit (mask 8 :: u8) b" by (simp add: bit_mask_iff possible_bit_word)
  then have "bit (0xFF :: u8) b" by (simp add: mask_eq_exp_minus_1)
  with \<open>b < 8\<close> show ?thesis by (auto simp: bit_and_iff bit_xor_iff bit_exp_iff possible_bit_word)
qed

lemma SetBit_set:
  "case SetBit i m of
     Inl e \<Rightarrow> e = OutOfBounds \<and> 32 * length (mask_blocks m) \<le> unat i
   | Inr m' \<Rightarrow> unat i < 32 * length (mask_blocks m) \<and> mask_set m' = insert (unat i) (mask_set m) \<and>
       mCount m' = mCount m \<and> mBlocks m' = mBlocks m \<and>
       length (mask_blocks m') = length (mask_blocks m)"
proof (cases "unat i < 32 * length (mask_blocks m)")
  case True
  from mask_set_byte [OF True refl bit_or_one] True show ?thesis
    by (simp add: SetBit_def Let_def mask_index byte_in_range del: push_bit_of_1)
qed (simp add: SetBit_def Let_def mask_index byte_in_range)

lemma UnsetBit_set:
  "case UnsetBit i m of
     Inl e \<Rightarrow> e = OutOfBounds \<and> 32 * length (mask_blocks m) \<le> unat i
   | Inr m' \<Rightarrow> unat i < 32 * length (mask_blocks m) \<and> mask_set m' = mask_set m - {unat i} \<and>
       mCount m' = mCount m \<and> mBlocks m' = mBlocks m \<and>
       length (mask_blocks m') = length (mask_blocks m)"
proof (cases "unat i < 32 * length (mask_blocks m)")
  case True
  from mask_set_byte [OF True refl bit_and_not_one] True show ?thesis
    by (simp add: UnsetBit_def Let_def mask_index byte_in_range del: push_bit_of_1)
qed (simp add: UnsetBit_def Let_def mask_index byte_in_range)

section \<open>The contract of a set of indexes\<close>

text \<open>What the builders of update packets rely on: a store of bounded capacity whose bits can be set,
  cleared and read. A loop that sets the bits of the indexes with a property adds exactly these.\<close>

locale index_set =
  fixes set_bit unset_bit :: "u32 \<Rightarrow> 'm \<Rightarrow> 'e + 'm"
    and get_bit :: "u32 \<Rightarrow> 'm \<Rightarrow> 'e + bool"
    and members :: "'m \<Rightarrow> nat set"
    and capacity :: "'m \<Rightarrow> nat"
  assumes set_bit: "unat i < capacity m \<Longrightarrow>
      \<exists>m'. set_bit i m = Inr m' \<and> members m' = insert (unat i) (members m) \<and> capacity m' = capacity m"
    and unset_bit: "unat i < capacity m \<Longrightarrow>
      \<exists>m'. unset_bit i m = Inr m' \<and> members m' = members m - {unat i} \<and> capacity m' = capacity m"
    and get_bit: "unat i < capacity m \<Longrightarrow> get_bit i m = Inr (unat i \<in> members m)"
begin

lemma get_set_bit:
  assumes "unat i < capacity m" and "unat j < capacity m"
  shows "bind_res (set_bit i m) (get_bit j) = Inr (j = i \<or> unat j \<in> members m)"
proof -
  obtain m' where "set_bit i m = Inr m'" "members m' = insert (unat i) (members m)"
    "capacity m' = capacity m"
    using set_bit [OF assms(1)] by blast
  then show ?thesis using assms(2) by (simp add: get_bit word_unat_eq_iff)
qed

lemma set_unset_bit:
  assumes "unat i < capacity m"
  shows "\<exists>m'. bind_res (set_bit i m) (unset_bit i) = Inr m' \<and> members m' = members m - {unat i}"
proof -
  obtain m1 where m1: "set_bit i m = Inr m1" "members m1 = insert (unat i) (members m)"
    "capacity m1 = capacity m"
    using set_bit [OF assms] by blast
  with assms unset_bit [of i m1] show ?thesis by auto
qed

lemma set_bits_where:
  assumes "\<And>i. i \<in> set is \<Longrightarrow> unat i < capacity m"
  shows "\<exists>m'. run_all (map (\<lambda>i. if P i then set_bit i else Inr) is) m = Inr m' \<and>
    members m' = members m \<union> unat ` {i \<in> set is. P i} \<and> capacity m' = capacity m"
  using assms
proof (induction "is" arbitrary: m)
  case Nil
  then show ?case by simp
next
  case (Cons i "is")
  show ?case
  proof (cases "P i")
    case False
    have "{j \<in> set (i # is). P j} = {j \<in> set is. P j}" using False by auto
    with False Cons.IH [of m] Cons.prems show ?thesis by simp
  next
    case True
    have rest: "{j \<in> set (i # is). P j} = insert i {j \<in> set is. P j}" using True by auto
    obtain m1 where m1: "set_bit i m = Inr m1" "members m1 = insert (unat i) (members m)"
      "capacity m1 = capacity m"
      using set_bit Cons.prems by fastforce
    with Cons.IH [of m1] Cons.prems show ?thesis by (auto simp: True rest)
  qed
qed

end

abbreviation mask_capacity :: "UpdateMask \<Rightarrow> nat" where
  "mask_capacity m \<equiv> 32 * length (mask_blocks m)"

interpretation update_mask: index_set SetBit UnsetBit GetBit mask_set mask_capacity
proof
  fix i :: u32 and m
  assume "unat i < mask_capacity m"
  then show "\<exists>m'. SetBit i m = Inr m' \<and> mask_set m' = insert (unat i) (mask_set m) \<and>
      mask_capacity m' = mask_capacity m"
    using SetBit_set [where i = i and m = m] by (cases "SetBit i m") auto
next
  fix i :: u32 and m
  assume "unat i < mask_capacity m"
  then show "\<exists>m'. UnsetBit i m = Inr m' \<and> mask_set m' = mask_set m - {unat i} \<and>
      mask_capacity m' = mask_capacity m"
    using UnsetBit_set [where i = i and m = m] by (cases "UnsetBit i m") auto
qed (simp add: GetBit_set)

section \<open>Counts, copies and operators\<close>

lemma mask_wf_new [simp]: "mask_wf UpdateMask_new"
  by (simp add: mask_wf_def UpdateMask_new_def mask_blocks_def)

lemma mask_wf_SetCount [simp]: "mask_wf (SetCount n m)"
  by (simp add: mask_wf_def SetCount_def mask_blocks_def Let_def)

lemma mask_set_zero: "(\<And>j. j < length (mask_blocks m) \<Longrightarrow> mask_blocks m ! j = 0) \<Longrightarrow> mask_set m = {}"
  by (auto simp: mask_set_def div_less_iff_less_mult mult.commute)

lemma mask_set_SetCount [simp]: "mask_set (SetCount n m) = {}"
  by (rule mask_set_zero) (simp add: SetCount_def mask_blocks_def Let_def)

lemma mask_set_Clear: "mask_wf m \<Longrightarrow> mask_set (Clear m) = {}"
  by (rule mask_set_zero)
    (auto simp: mask_wf_def Clear_def mask_blocks_def split: option.splits)

lemma mask_wf_Clear: "mask_wf m \<Longrightarrow> mask_wf (Clear m)"
  by (auto simp: mask_wf_def Clear_def mask_blocks_def split: option.splits)

lemma length_SetCount:
  "length (mask_blocks (SetCount n m)) = (unat n + 31) mod 2 ^ 32 div 32"
  by (simp add: SetCount_def mask_blocks_def Let_def unat_div_distrib unat_word_ariths)

lemma combine_blocks_spec:
  "combine_blocks f bs cs = (if length bs \<le> length cs then Inr (map2 f bs cs) else Inl OutOfBounds)"
proof (induction bs arbitrary: cs)
  case Nil
  then show ?case by simp
next
  case (Cons b bs)
  then show ?case by (cases cs) simp_all
qed

lemma mask_assign_copy:
  assumes "mask_wf m"
  shows "\<exists>r. mask_assign m UpdateMask_new = Inr r \<and> mask_blocks r = mask_blocks m \<and>
    mCount r = mCount m \<and> mBlocks r = mBlocks m \<and> mUpdateMask r \<noteq> None"
  using assms by (simp add: mask_assign_def mask_wf_def Let_def SetCount_def mask_blocks_def)

lemma mask_set_combine:
  assumes "length (mask_blocks m) \<le> length (mask_blocks m2)"
    and "\<And>i. i < mask_capacity m2 \<Longrightarrow> mask_capacity m \<le> i \<Longrightarrow> i \<notin> mask_set m2"
    and "\<And>x y n. bit (f x y) n = g (bit x n) (bit y n)" and "\<not> g False False"
    and "mask_blocks r = map2 f (mask_blocks m) (mask_blocks m2)"
  shows "mask_set r = {i. g (i \<in> mask_set m) (i \<in> mask_set m2)}"
proof (rule set_eqI)
  fix i
  show "i \<in> mask_set r \<longleftrightarrow> i \<in> {i. g (i \<in> mask_set m) (i \<in> mask_set m2)}"
  proof (cases "i < mask_capacity m")
    case True
    then have "i div 32 < length (mask_blocks m)" "i div 32 < length (mask_blocks m2)" "i < mask_capacity m2"
      using assms(1) by (auto simp: div_less_iff_less_mult)
    with True assms(1,3,5) show ?thesis by (simp add: mem_mask_set)
  next
    case False
    then have "i \<notin> mask_set m" "i \<notin> mask_set m2" "i \<notin> mask_set r"
      using assms(1,2,5) by (auto simp: mem_mask_set)
    with assms(4) show ?thesis by simp
  qed
qed

lemma blocks_mono:
  assumes "mask_wf m" and "mask_wf m2" and "mCount m2 \<le> mCount m" and "unat (mCount m) \<le> 2 ^ 32 - 32"
  shows "length (mask_blocks m2) \<le> length (mask_blocks m)"
proof -
  have "unat (mCount m2) \<le> unat (mCount m)" using assms(3) by (simp add: word_le_nat_alt)
  then have "unat (mCount m2 + 31) \<le> unat (mCount m + 31)"
    using assms(4) by (simp add: unat_word_ariths)
  then have "unat ((mCount m2 + 31) div 32) \<le> unat ((mCount m + 31) div 32)"
    by (simp add: unat_div_distrib div_le_mono)
  with assms(1,2) show ?thesis by (simp add: mask_wf_def)
qed

text \<open>C19: The mask implements a set of field indexes: \<^verbatim>\<open>SetBit\<close>, \<^verbatim>\<open>UnsetBit\<close> and \<^verbatim>\<open>GetBit\<close> are
  insertion, deletion and membership and leave the counts alone, an index outside the array is the
  only error, and \<^verbatim>\<open>SetCount\<close> gives the empty set.\<close>

theorem UpdateMask_refines_set:
  "(case SetBit i m of
      Inl e \<Rightarrow> mask_capacity m \<le> unat i
    | Inr m' \<Rightarrow> unat i < mask_capacity m \<and> mask_set m' = insert (unat i) (mask_set m) \<and>
        mCount m' = mCount m \<and> mBlocks m' = mBlocks m \<and> mask_capacity m' = mask_capacity m) \<and>
   (case UnsetBit i m of
      Inl e \<Rightarrow> mask_capacity m \<le> unat i
    | Inr m' \<Rightarrow> unat i < mask_capacity m \<and> mask_set m' = mask_set m - {unat i} \<and>
        mCount m' = mCount m \<and> mBlocks m' = mBlocks m \<and> mask_capacity m' = mask_capacity m) \<and>
   GetBit i m = (if unat i < mask_capacity m then Inr (unat i \<in> mask_set m) else Inl OutOfBounds) \<and>
   mask_set (SetCount n m) = {} \<and> mask_wf (SetCount n m)"
  using SetBit_set [where i = i and m = m] UnsetBit_set [where i = i and m = m] GetBit_set [where i = i and m = m]
  by (auto split: sum.splits)

text \<open>The capacity after \<^verbatim>\<open>SetCount\<close> covers every field of the object exactly when the count is at
  most \<open>2 ^ 32 - 32\<close>; above it the \<^verbatim>\<open>uint32\<close> sum \<^verbatim>\<open>valuesCount + 31\<close> wraps and the array is empty.\<close>

theorem SetCount_capacity:
  "(unat n \<le> mask_capacity (SetCount n m) \<longleftrightarrow> unat n \<le> 2 ^ 32 - 32) \<and>
   mask_capacity (SetCount n m) < unat n + 32 \<and>
   (if unat n \<le> 2 ^ 32 - 32 then True else mask_blocks (SetCount n m) = [])"
proof -
  have n: "unat n < 2 ^ 32" using unsigned_less [of n] by simp
  show ?thesis
  proof (cases "unat n \<le> 2 ^ 32 - 32")
    case True
    then have "length (mask_blocks (SetCount n m)) = (unat n + 31) div 32"
      by (simp add: length_SetCount)
    moreover have "unat n \<le> 32 * ((unat n + 31) div 32)" "32 * ((unat n + 31) div 32) \<le> unat n + 31"
      by presburger+
    ultimately show ?thesis using True by simp
  next
    case False
    with n have "(unat n + 31) mod 2 ^ 32 = unat n + 31 - 2 ^ 32"
      by (simp add: mod_if)
    with n have "length (mask_blocks (SetCount n m)) = 0"
      by (simp only: length_SetCount)
    with False n show ?thesis by simp
  qed
qed

text \<open>On masks that keep the class invariant, \<^verbatim>\<open>operator&\<close> and \<^verbatim>\<open>operator|\<close> are intersection and
  union when both arrays have the same number of blocks. A larger argument fails the assertion; a
  smaller one passes it, and the loop over the blocks of the left mask leaves the array of the
  argument.\<close>

theorem mask_operators:
  assumes "mask_wf m" and "mask_wf m2" and "unat (mCount m) \<le> 2 ^ 32 - 32"
  shows "case (mask_and m m2, mask_or m m2) of
      (Inr a, Inr b) \<Rightarrow> mCount m2 \<le> mCount m \<and> mBlocks m2 = mBlocks m \<and>
        mask_set a = mask_set m \<inter> mask_set m2 \<and> mask_set b = mask_set m \<union> mask_set m2
    | (Inl MaskAssertion, Inl MaskAssertion) \<Rightarrow> mCount m < mCount m2
    | (Inl OutOfBounds, Inl OutOfBounds) \<Rightarrow> mCount m2 \<le> mCount m \<and> mBlocks m2 < mBlocks m
    | _ \<Rightarrow> False"
proof (cases "mCount m2 \<le> mCount m")
  case False
  then have "mask_and m m2 = Inl MaskAssertion" "mask_or m m2 = Inl MaskAssertion"
    by (simp_all add: mask_and_def mask_or_def)
  with False show ?thesis by simp
next
  case True
  obtain r where r: "mask_assign m UpdateMask_new = Inr r" "mask_blocks r = mask_blocks m"
    "mCount r = mCount m" "mUpdateMask r \<noteq> None"
    using mask_assign_copy [OF assms(1)] by blast
  have le: "length (mask_blocks m2) \<le> length (mask_blocks m)"
    using assms True by (simp add: blocks_mono)
  have len: "length (mask_blocks m) = unat (mBlocks m)" "length (mask_blocks m2) = unat (mBlocks m2)"
    using assms by (simp_all add: mask_wf_def)
  show ?thesis
  proof (cases "length (mask_blocks m2) = length (mask_blocks m)")
    case False
    with le len have "mBlocks m2 < mBlocks m" by (simp add: word_less_nat_alt)
    with True r le False show ?thesis
      by (simp add: mask_and_def mask_or_def mask_and_assign_def mask_or_assign_def mask_combine_def
          combine_blocks_spec)
  next
    case eq: True
    define ra where "ra = r\<lparr>mUpdateMask := Some (map2 (AND) (mask_blocks m) (mask_blocks m2))\<rparr>"
    define rb where "rb = r\<lparr>mUpdateMask := Some (map2 (OR) (mask_blocks m) (mask_blocks m2))\<rparr>"
    have "mask_and m m2 = Inr ra" "mask_or m m2 = Inr rb"
      using True r eq
      by (auto simp: ra_def rb_def mask_and_def mask_or_def mask_and_assign_def mask_or_assign_def
          mask_combine_def combine_blocks_spec)
    moreover have "mask_set ra = mask_set m \<inter> mask_set m2"
      using mask_set_combine [of m m2 "(AND)" "(\<and>)" ra] eq
      by (auto simp: ra_def bit_and_iff)
    moreover have "mask_set rb = mask_set m \<union> mask_set m2"
      using mask_set_combine [of m m2 "(OR)" "(\<or>)" rb] eq
      by (auto simp: rb_def bit_or_iff)
    ultimately show ?thesis
      using True eq len by (simp add: word_unat_eq_iff)
  qed
qed

theorem mask_operators_witness:
  "mask_and (SetCount 64 UpdateMask_new) (SetCount 32 UpdateMask_new) = Inl OutOfBounds"
proof -
  let ?m = "SetCount 64 UpdateMask_new" and ?m2 = "SetCount 32 UpdateMask_new"
  have counts: "mCount ?m = 64" "mCount ?m2 = 32" "mBlocks ?m = 2" "mBlocks ?m2 = 1"
    by (simp_all add: SetCount_def Let_def)
  with mask_operators [of ?m ?m2] show ?thesis
    by (auto split: sum.splits mask_error.splits)
qed

end
