(* ===== verification/ObjectFields.thy ===== *)
theory ObjectFields
  imports ByteBuffer ObjectGuid UpdateMask
begin

text \<open>
  The update fields of \<^verbatim>\<open>class Object\<close> (\<^verbatim>\<open>game/Entities/Object/Object.h\<close> and \<^verbatim>\<open>Object.cpp\<close>): the array
  of 32-bit values the client mirrors, the marks of the fields that changed since the last update, and
  the accessors that read and write the array as signed and unsigned integers of 8 to 64 bits, floats
  and flags. A failed \<^verbatim>\<open>ASSERT\<close>, a null array and an undefined shift are \<open>Inl\<close> results. The membership
  of the object in the update list of \<^verbatim>\<open>ObjectAccessor\<close> is part of its state.
\<close>

section \<open>State\<close>

datatype obj_error = IndexAssertion | OffsetAssertion | NullValues | FieldShift | InWorldAssertion
  | UpdatedAssertion | PackError bb_error

record Object =
  m_objectType :: u16
  m_objectTypeId :: TypeID
  m_updateFlag :: u16
  m_uint32Values :: "u32 list option"
  changedFields :: "bool list option"
  m_valuesCount :: u16
  fieldNotifyFlags :: u16
  m_objectUpdated :: bool
  m_inWorld :: bool
  m_PackGUID :: bytebuffer
  in_update_list :: bool

type_synonym 'a obj_read = "Object \<Rightarrow> obj_error + 'a"
type_synonym obj_write = "Object \<Rightarrow> obj_error + Object"

definition UF_FLAG_DYNAMIC :: u32 where "UF_FLAG_DYNAMIC = 0x100"
definition TYPEMASK_OBJECT :: u16 where "TYPEMASK_OBJECT = 0x0001"
definition OBJECT_FIELD_GUID :: u16 where "OBJECT_FIELD_GUID = 0x0000"
definition OBJECT_FIELD_TYPE :: u16 where "OBJECT_FIELD_TYPE = 0x0004"

text \<open>The constructor; the derived classes set \<^verbatim>\<open>m_objectType\<close>, \<^verbatim>\<open>m_objectTypeId\<close>, \<^verbatim>\<open>m_updateFlag\<close>
  (an argument here, the constructor leaves it alone) and \<^verbatim>\<open>m_valuesCount\<close>.\<close>

definition Object_new :: "u16 \<Rightarrow> obj_error + Object" where
  "Object_new updateFlag =
     (case appendPackGUID 0 bb_new of
        Inl e \<Rightarrow> Inl (PackError e)
      | Inr pack \<Rightarrow>
          Inr \<lparr>m_objectType = TYPEMASK_OBJECT, m_objectTypeId = TYPEID_OBJECT,
               m_updateFlag = updateFlag, m_uint32Values = None, changedFields = None,
               m_valuesCount = 0, fieldNotifyFlags = ucast UF_FLAG_DYNAMIC, m_objectUpdated = False,
               m_inWorld = False, m_PackGUID = pack, in_update_list = False\<rparr>)"

definition InitValues :: "Object \<Rightarrow> Object" where
  "InitValues ob =
     ob\<lparr>m_uint32Values := Some (replicate (unat (m_valuesCount ob)) 0),
        changedFields := Some (replicate (unat (m_valuesCount ob)) False),
        m_objectUpdated := False\<rparr>"

section \<open>Reading fields\<close>

text \<open>The arrays; both are allocated with \<^verbatim>\<open>m_valuesCount\<close> entries or null.\<close>

definition field_values :: "u32 list obj_read" where
  "field_values ob = (case m_uint32Values ob of None \<Rightarrow> Inl NullValues | Some vs \<Rightarrow> Inr vs)"

definition GetUInt32Value :: "u16 \<Rightarrow> u32 obj_read" where
  "GetUInt32Value index ob =
     (if index < m_valuesCount ob
      then bind_res (field_values ob) (\<lambda>vs. Inr (vs ! unat index)) else Inl IndexAssertion)"

text \<open>\<^verbatim>\<open>GetInt32Value\<close> and \<^verbatim>\<open>GetFloatValue\<close> read the same bits through the other members of the union.\<close>

definition GetInt32Value :: "u16 \<Rightarrow> u32 obj_read" where
  "GetInt32Value index ob =
     (if index < m_valuesCount ob
      then bind_res (field_values ob) (\<lambda>vs. Inr (vs ! unat index)) else Inl IndexAssertion)"

definition GetFloatValue :: "u16 \<Rightarrow> f32 obj_read" where
  "GetFloatValue index ob =
     (if index < m_valuesCount ob
      then bind_res (field_values ob) (\<lambda>vs. Inr (vs ! unat index)) else Inl IndexAssertion)"

text \<open>The sum \<^verbatim>\<open>index + 1\<close> is an \<^verbatim>\<open>int\<close>; a missing field is read as 0 here.\<close>

definition GetUInt64Value :: "u16 \<Rightarrow> u64 obj_read" where
  "GetUInt64Value index ob =
     (if unat index + 1 < unat (m_valuesCount ob)
      then bind_res (field_values ob)
             (\<lambda>vs. Inr (MAKE_PAIR64 (vs ! unat index) (vs ! (unat index + 1))))
      else Inr 0)"

definition GetByteValue :: "u16 \<Rightarrow> u8 \<Rightarrow> u8 obj_read" where
  "GetByteValue index offset ob =
     (if index < m_valuesCount ob
      then if offset < 4
           then bind_res (field_values ob)
                  (\<lambda>vs. Inr (ucast (drop_bit (8 * unat offset) (vs ! unat index))))
           else Inl OffsetAssertion
      else Inl IndexAssertion)"

definition GetUInt16Value :: "u16 \<Rightarrow> u8 \<Rightarrow> u16 obj_read" where
  "GetUInt16Value index offset ob =
     (if index < m_valuesCount ob
      then if offset < 2
           then bind_res (field_values ob)
                  (\<lambda>vs. Inr (ucast (drop_bit (16 * unat offset) (vs ! unat index))))
           else Inl OffsetAssertion
      else Inl IndexAssertion)"

definition HasFlag :: "u16 \<Rightarrow> u32 \<Rightarrow> bool obj_read" where
  "HasFlag index flag ob =
     (if m_valuesCount ob \<le> index then Inr False
      else bind_res (field_values ob) (\<lambda>vs. Inr (vs ! unat index AND flag \<noteq> 0)))"

definition HasByteFlag :: "u16 \<Rightarrow> u8 \<Rightarrow> u8 \<Rightarrow> bool obj_read" where
  "HasByteFlag index offset flag ob =
     bind_res (GetByteValue index offset ob) (\<lambda>v. Inr (v AND flag \<noteq> 0))"

definition HasFlag64 :: "u16 \<Rightarrow> u64 \<Rightarrow> bool obj_read" where
  "HasFlag64 index flag ob =
     (if index < m_valuesCount ob
      then bind_res (GetUInt64Value index ob) (\<lambda>v. Inr (v AND flag \<noteq> 0)) else Inl IndexAssertion)"

definition GetGUID :: "u64 obj_read" where
  "GetGUID = GetUInt64Value 0"

section \<open>Writing fields\<close>

text \<open>The statements the setters share: store and mark, and put the object on the update list.\<close>

definition store_field :: "u16 \<Rightarrow> u32 \<Rightarrow> Object \<Rightarrow> Object" where
  "store_field index v ob =
     ob\<lparr>m_uint32Values := map_option (\<lambda>vs. vs[unat index := v]) (m_uint32Values ob),
        changedFields := map_option (\<lambda>cs. cs[unat index := True]) (changedFields ob)\<rparr>"

definition announce :: "Object \<Rightarrow> Object" where
  "announce ob =
     (if m_inWorld ob \<and> \<not> m_objectUpdated ob
      then ob\<lparr>in_update_list := True, m_objectUpdated := True\<rparr> else ob)"

definition SetUInt32Value :: "u16 \<Rightarrow> u32 \<Rightarrow> obj_write" where
  "SetUInt32Value index v ob =
     (if index < m_valuesCount ob
      then bind_res (field_values ob) (\<lambda>vs.
             Inr (if vs ! unat index \<noteq> v then announce (store_field index v ob) else ob))
      else Inl IndexAssertion)"

definition SetInt32Value :: "u16 \<Rightarrow> u32 \<Rightarrow> obj_write" where
  "SetInt32Value index v ob =
     (if index < m_valuesCount ob
      then bind_res (field_values ob) (\<lambda>vs.
             Inr (if vs ! unat index \<noteq> v then announce (store_field index v ob) else ob))
      else Inl IndexAssertion)"

definition UpdateUInt32Value :: "u16 \<Rightarrow> u32 \<Rightarrow> obj_write" where
  "UpdateUInt32Value index v ob =
     (if index < m_valuesCount ob
      then bind_res (field_values ob) (\<lambda>vs. Inr (store_field index v ob))
      else Inl IndexAssertion)"

definition store_pair :: "u16 \<Rightarrow> u64 \<Rightarrow> Object \<Rightarrow> Object" where
  "store_pair index v ob =
     store_field (index + 1) (PAIR64_HIPART v) (store_field index (PAIR64_LOPART v) ob)"

definition SetUInt64Value :: "u16 \<Rightarrow> u64 \<Rightarrow> obj_write" where
  "SetUInt64Value index v ob =
     (if unat index + 1 < unat (m_valuesCount ob)
      then bind_res (field_values ob) (\<lambda>vs.
             Inr (if MAKE_PAIR64 (vs ! unat index) (vs ! (unat index + 1)) \<noteq> v
                  then announce (store_pair index v ob) else ob))
      else Inl IndexAssertion)"

definition AddUInt64Value :: "u16 \<Rightarrow> u64 \<Rightarrow> Object \<Rightarrow> obj_error + bool \<times> Object" where
  "AddUInt64Value index v ob =
     (if unat index + 1 < unat (m_valuesCount ob)
      then bind_res (field_values ob) (\<lambda>vs.
             Inr (if v \<noteq> 0 \<and> MAKE_PAIR64 (vs ! unat index) (vs ! (unat index + 1)) = 0
                  then (True, announce (store_pair index v ob)) else (False, ob)))
      else Inl IndexAssertion)"

definition RemoveUInt64Value :: "u16 \<Rightarrow> u64 \<Rightarrow> Object \<Rightarrow> obj_error + bool \<times> Object" where
  "RemoveUInt64Value index v ob =
     (if unat index + 1 < unat (m_valuesCount ob)
      then bind_res (field_values ob) (\<lambda>vs.
             Inr (if v \<noteq> 0 \<and> MAKE_PAIR64 (vs ! unat index) (vs ! (unat index + 1)) = v
                  then (True, announce (store_pair index 0 ob)) else (False, ob)))
      else Inl IndexAssertion)"

text \<open>Equality and order of IEEE-754 single-precision values on their bit patterns.\<close>

definition float_nan :: "f32 \<Rightarrow> bool" where
  "float_nan x \<longleftrightarrow> 0x7F800000 < x AND 0x7FFFFFFF"

definition float_eq :: "f32 \<Rightarrow> f32 \<Rightarrow> bool" where
  "float_eq x y \<longleftrightarrow>
     \<not> float_nan x \<and> \<not> float_nan y \<and> (x = y \<or> x AND 0x7FFFFFFF = 0 \<and> y AND 0x7FFFFFFF = 0)"

definition float_negative :: "f32 \<Rightarrow> bool" where
  "float_negative x \<longleftrightarrow> \<not> float_nan x \<and> bit x 31 \<and> x AND 0x7FFFFFFF \<noteq> 0"

definition SetFloatValue :: "u16 \<Rightarrow> f32 \<Rightarrow> obj_write" where
  "SetFloatValue index v ob =
     (if index < m_valuesCount ob
      then bind_res (field_values ob) (\<lambda>vs.
             Inr (if \<not> float_eq (vs ! unat index) v then announce (store_field index v ob) else ob))
      else Inl IndexAssertion)"

text \<open>\<^verbatim>\<open>SetByteValue\<close> lets an offset of 4 pass its check (\<^verbatim>\<open>offset > 4\<close>); the shift by 32 bits is then
  undefined. The same holds of \<^verbatim>\<open>SetUInt16Value\<close> and an offset of 2.\<close>

definition SetByteValue :: "u16 \<Rightarrow> u8 \<Rightarrow> u8 \<Rightarrow> obj_write" where
  "SetByteValue index offset v ob =
     (if index < m_valuesCount ob
      then if 4 < offset then Inr ob
      else bind_res (field_values ob) (\<lambda>vs.
             if \<not> unat offset * 8 < 32 then Inl FieldShift
             else if ucast (drop_bit (8 * unat offset) (vs ! unat index)) \<noteq> v
             then Inr (announce (store_field index
                    ((vs ! unat index AND NOT (push_bit (8 * unat offset) 0xFF)) OR
                     push_bit (8 * unat offset) (ucast v)) ob))
             else Inr ob)
      else Inl IndexAssertion)"

definition SetUInt16Value :: "u16 \<Rightarrow> u8 \<Rightarrow> u16 \<Rightarrow> obj_write" where
  "SetUInt16Value index offset v ob =
     (if index < m_valuesCount ob
      then if 2 < offset then Inr ob
      else bind_res (field_values ob) (\<lambda>vs.
             if \<not> unat offset * 16 < 32 then Inl FieldShift
             else if ucast (drop_bit (16 * unat offset) (vs ! unat index)) \<noteq> v
             then Inr (announce (store_field index
                    ((vs ! unat index AND NOT (push_bit (16 * unat offset) 0xFFFF)) OR
                     push_bit (16 * unat offset) (ucast v)) ob))
             else Inr ob)
      else Inl IndexAssertion)"

definition SetInt16Value :: "u16 \<Rightarrow> u8 \<Rightarrow> u16 \<Rightarrow> obj_write" where
  "SetInt16Value index offset v = SetUInt16Value index offset v"

definition SetStatFloatValue :: "u16 \<Rightarrow> f32 \<Rightarrow> obj_write" where
  "SetStatFloatValue index v = SetFloatValue index (if float_negative v then 0 else v)"

text \<open>An \<^verbatim>\<open>int32\<close> is negative when its top bit is set.\<close>

definition SetStatInt32Value :: "u16 \<Rightarrow> u32 \<Rightarrow> obj_write" where
  "SetStatInt32Value index v = SetUInt32Value index (if sint v < 0 then 0 else v)"

text \<open>Sums and negations of \<^verbatim>\<open>int32\<close> wrap around on the supported compilers.\<close>

definition ApplyModUInt32Value :: "u16 \<Rightarrow> u32 \<Rightarrow> bool \<Rightarrow> obj_write" where
  "ApplyModUInt32Value index val apl ob =
     bind_res (GetUInt32Value index ob) (\<lambda>cur0.
       let cur = cur0 + (if apl then val else - val) in
       SetUInt32Value index (if sint cur < 0 then 0 else cur) ob)"

definition ApplyModInt32Value :: "u16 \<Rightarrow> u32 \<Rightarrow> bool \<Rightarrow> obj_write" where
  "ApplyModInt32Value index val apl ob =
     bind_res (GetInt32Value index ob) (\<lambda>cur0.
       SetInt32Value index (cur0 + (if apl then val else - val)) ob)"

text \<open>Single-precision addition is a parameter; negation flips the sign bit.\<close>

definition float_minus :: "f32 \<Rightarrow> f32" where
  "float_minus x = x XOR 0x80000000"

definition ApplyModSignedFloatValue ::
  "(f32 \<Rightarrow> f32 \<Rightarrow> f32) \<Rightarrow> u16 \<Rightarrow> f32 \<Rightarrow> bool \<Rightarrow> obj_write" where
  "ApplyModSignedFloatValue fadd index val apl ob =
     bind_res (GetFloatValue index ob) (\<lambda>cur0.
       SetFloatValue index (fadd cur0 (if apl then val else float_minus val)) ob)"

definition ApplyModPositiveFloatValue ::
  "(f32 \<Rightarrow> f32 \<Rightarrow> f32) \<Rightarrow> u16 \<Rightarrow> f32 \<Rightarrow> bool \<Rightarrow> obj_write" where
  "ApplyModPositiveFloatValue fadd index val apl ob =
     bind_res (GetFloatValue index ob) (\<lambda>cur0.
       let cur = fadd cur0 (if apl then val else float_minus val) in
       SetFloatValue index (if float_negative cur then 0 else cur) ob)"

definition SetFlag :: "u16 \<Rightarrow> u32 \<Rightarrow> obj_write" where
  "SetFlag index newFlag ob =
     (if index < m_valuesCount ob
      then bind_res (field_values ob) (\<lambda>vs.
             let oldval = vs ! unat index; newval = oldval OR newFlag in
             Inr (if oldval \<noteq> newval then announce (store_field index newval ob) else ob))
      else Inl IndexAssertion)"

definition RemoveFlag :: "u16 \<Rightarrow> u32 \<Rightarrow> obj_write" where
  "RemoveFlag index oldFlag ob =
     (if index < m_valuesCount ob
      then bind_res (field_values ob) (\<lambda>vs.
             let oldval = vs ! unat index; newval = oldval AND NOT oldFlag in
             Inr (if oldval \<noteq> newval then announce (store_field index newval ob) else ob))
      else Inl IndexAssertion)"

definition ToggleFlag :: "u16 \<Rightarrow> u32 \<Rightarrow> obj_write" where
  "ToggleFlag index flag ob =
     bind_res (HasFlag index flag ob) (\<lambda>has.
       if has then RemoveFlag index flag ob else SetFlag index flag ob)"

definition ApplyModFlag :: "u16 \<Rightarrow> u32 \<Rightarrow> bool \<Rightarrow> obj_write" where
  "ApplyModFlag index flag apl = (if apl then SetFlag index flag else RemoveFlag index flag)"

definition SetByteFlag :: "u16 \<Rightarrow> u8 \<Rightarrow> u8 \<Rightarrow> obj_write" where
  "SetByteFlag index offset newFlag ob =
     (if index < m_valuesCount ob
      then if 4 < offset then Inr ob
      else bind_res (field_values ob) (\<lambda>vs.
             if \<not> unat offset * 8 < 32 then Inl FieldShift
             else if ucast (drop_bit (8 * unat offset) (vs ! unat index)) AND newFlag = 0
             then Inr (announce (store_field index
                    (vs ! unat index OR push_bit (8 * unat offset) (ucast newFlag)) ob))
             else Inr ob)
      else Inl IndexAssertion)"

definition RemoveByteFlag :: "u16 \<Rightarrow> u8 \<Rightarrow> u8 \<Rightarrow> obj_write" where
  "RemoveByteFlag index offset oldFlag ob =
     (if index < m_valuesCount ob
      then if 4 < offset then Inr ob
      else bind_res (field_values ob) (\<lambda>vs.
             if \<not> unat offset * 8 < 32 then Inl FieldShift
             else if ucast (drop_bit (8 * unat offset) (vs ! unat index)) AND oldFlag \<noteq> 0
             then Inr (announce (store_field index
                    (vs ! unat index AND NOT (push_bit (8 * unat offset) (ucast oldFlag))) ob))
             else Inr ob)
      else Inl IndexAssertion)"

definition ToggleByteFlag :: "u16 \<Rightarrow> u8 \<Rightarrow> u8 \<Rightarrow> obj_write" where
  "ToggleByteFlag index offset flag ob =
     bind_res (HasByteFlag index offset flag ob) (\<lambda>has.
       if has then RemoveByteFlag index offset flag ob else SetByteFlag index offset flag ob)"

definition SetFlag64 :: "u16 \<Rightarrow> u64 \<Rightarrow> obj_write" where
  "SetFlag64 index newFlag ob =
     bind_res (GetUInt64Value index ob) (\<lambda>oldval. SetUInt64Value index (oldval OR newFlag) ob)"

definition RemoveFlag64 :: "u16 \<Rightarrow> u64 \<Rightarrow> obj_write" where
  "RemoveFlag64 index oldFlag ob =
     bind_res (GetUInt64Value index ob) (\<lambda>oldval. SetUInt64Value index (oldval AND NOT oldFlag) ob)"

definition ToggleFlag64 :: "u16 \<Rightarrow> u64 \<Rightarrow> obj_write" where
  "ToggleFlag64 index flag ob =
     bind_res (HasFlag64 index flag ob) (\<lambda>has.
       if has then RemoveFlag64 index flag ob else SetFlag64 index flag ob)"

definition ApplyModFlag64 :: "u16 \<Rightarrow> u64 \<Rightarrow> bool \<Rightarrow> obj_write" where
  "ApplyModFlag64 index flag apl = (if apl then SetFlag64 index flag else RemoveFlag64 index flag)"

definition SetFieldNotifyFlag :: "u16 \<Rightarrow> Object \<Rightarrow> Object" where
  "SetFieldNotifyFlag flag ob = ob\<lparr>fieldNotifyFlags := fieldNotifyFlags ob OR flag\<rparr>"

definition RemoveFieldNotifyFlag :: "u16 \<Rightarrow> Object \<Rightarrow> Object" where
  "RemoveFieldNotifyFlag flag ob = ob\<lparr>fieldNotifyFlags := fieldNotifyFlags ob AND NOT flag\<rparr>"

text \<open>\<^verbatim>\<open>ForceValuesUpdateAtIndex\<close> writes the mark without a check of the index.\<close>

definition ForceValuesUpdateAtIndex :: "u32 \<Rightarrow> obj_write" where
  "ForceValuesUpdateAtIndex i ob =
     (case changedFields ob of
        None \<Rightarrow> Inl NullValues
      | Some cs \<Rightarrow>
          if unat i < length cs
          then Inr (announce (ob\<lparr>changedFields := Some (cs[unat i := True])\<rparr>))
          else Inl IndexAssertion)"

section \<open>Creation, world membership and the update list\<close>

definition ClearUpdateMask :: "bool \<Rightarrow> Object \<Rightarrow> Object" where
  "ClearUpdateMask remove ob =
     (let ob1 = ob\<lparr>changedFields :=
                   map_option (\<lambda>cs. replicate (unat (m_valuesCount ob)) False @
                     drop (unat (m_valuesCount ob)) cs) (changedFields ob)\<rparr> in
      if m_objectUpdated ob1
      then (if remove then ob1\<lparr>in_update_list := False\<rparr> else ob1)\<lparr>m_objectUpdated := False\<rparr>
      else ob1)"

definition Create :: "u32 \<Rightarrow> u32 \<Rightarrow> u32 \<Rightarrow> obj_write" where
  "Create guidlow entry guidhigh ob0 =
     (let ob = (if m_uint32Values ob0 = None then InitValues ob0 else ob0);
          guid = MAKE_NEW_GUID guidlow entry guidhigh in
      bind_res (SetUInt64Value OBJECT_FIELD_GUID guid ob) (\<lambda>ob1.
      bind_res (SetUInt16Value OBJECT_FIELD_TYPE 0 (m_objectType ob1) ob1) (\<lambda>ob2.
      bind_res (GetGUID ob2) (\<lambda>g.
        case appendPackGUID g (bb_clear (m_PackGUID ob2)) of
          Inl e \<Rightarrow> Inl (PackError e)
        | Inr pack \<Rightarrow> Inr (ob2\<lparr>m_PackGUID := pack\<rparr>)))))"

definition AddToWorld :: obj_write where
  "AddToWorld ob =
     (if m_inWorld ob then Inr ob
      else if m_uint32Values ob = None then Inl NullValues
      else Inr (ClearUpdateMask True (ob\<lparr>m_inWorld := True\<rparr>)))"

definition RemoveFromWorld :: "Object \<Rightarrow> Object" where
  "RemoveFromWorld ob =
     (if \<not> m_inWorld ob then ob else ClearUpdateMask True (ob\<lparr>m_inWorld := False\<rparr>))"

text \<open>The turn of one object in \<^verbatim>\<open>ObjectAccessor::Update\<close>: it must be in the world, leaves the list and
  has its update built, which ends with \<^verbatim>\<open>ClearUpdateMask(false)\<close>.\<close>

definition accessor_turn :: obj_write where
  "accessor_turn ob =
     (if \<not> m_inWorld ob then Inl InWorldAssertion
      else Inr (ClearUpdateMask False (ob\<lparr>in_update_list := False\<rparr>)))"

text \<open>The destructor's checks.\<close>

definition Object_delete :: "Object \<Rightarrow> obj_error + unit" where
  "Object_delete ob =
     (if m_inWorld ob then Inl InWorldAssertion
      else if m_objectUpdated ob then Inl UpdatedAssertion else Inr ())"

end
