(* ===== verification/ObjectFieldsProps.thy ===== *)
theory ObjectFieldsProps
  imports ObjectFields
begin

text \<open>
  The update fields keep the client in step: whatever sequence of setters runs, every field whose
  value changed is marked, a marked object is on the update list of \<^verbatim>\<open>ObjectAccessor\<close>, and when its turn
  comes the marked fields are all the client needs.
\<close>

section \<open>Well-formed objects\<close>

definition obj_wf :: "Object \<Rightarrow> bool" where
  "obj_wf ob \<longleftrightarrow>
     (case (m_uint32Values ob, changedFields ob) of
        (None, None) \<Rightarrow> True
      | (Some vs, Some cs) \<Rightarrow> length vs = unat (m_valuesCount ob) \<and> length cs = unat (m_valuesCount ob)
      | _ \<Rightarrow> False)"

abbreviation vals :: "Object \<Rightarrow> u32 list" where
  "vals ob \<equiv> the (m_uint32Values ob)"

abbreviation marks :: "Object \<Rightarrow> bool list" where
  "marks ob \<equiv> the (changedFields ob)"

lemma obj_wfE:
  assumes "obj_wf ob"
  obtains (null) "m_uint32Values ob = None" "changedFields ob = None"
    | (arrays) vs cs where "m_uint32Values ob = Some vs" "changedFields ob = Some cs"
        "length vs = unat (m_valuesCount ob)" "length cs = unat (m_valuesCount ob)"
  using assms by (auto simp: obj_wf_def split: option.splits)

section \<open>What setters do\<close>

text \<open>A setter is a sequence of stores, marks and entries into the update list.\<close>

inductive edits :: "Object \<Rightarrow> Object \<Rightarrow> bool" where
  edits_refl: "edits ob ob"
| edits_store: "edits ob ob1 \<Longrightarrow> edits ob (store_field i v ob1)"
| edits_mark: "edits ob ob1 \<Longrightarrow> changedFields ob1 = Some cs \<Longrightarrow>
    edits ob (ob1\<lparr>changedFields := Some (cs[i := True])\<rparr>)"
| edits_announce: "edits ob ob1 \<Longrightarrow> edits ob (announce ob1)"

lemmas edits_intros = edits_refl edits_store edits_mark edits_announce

text \<open>A loud setter changes nothing or ends by entering the update list.\<close>

definition loud :: "Object \<Rightarrow> Object \<Rightarrow> bool" where
  "loud ob ob' \<longleftrightarrow> ob' = ob \<or> (\<exists>ob1. edits ob ob1 \<and> ob' = announce ob1)"

lemma loud_edits: "loud ob ob' \<Longrightarrow> edits ob ob'"
  by (auto simp: loud_def intro: edits_intros)

lemma loud_refl [simp]: "loud ob ob"
  by (simp add: loud_def)

lemma loud_store [simp]: "loud ob (announce (store_field i v ob))"
  unfolding loud_def by (blast intro: edits_intros)

lemma loud_pair [simp]: "loud ob (announce (store_pair i v ob))"
  unfolding loud_def store_pair_def by (blast intro: edits_intros)

lemma store_field_simps [simp]:
  "m_valuesCount (store_field i v ob) = m_valuesCount ob"
  "m_inWorld (store_field i v ob) = m_inWorld ob"
  "m_objectUpdated (store_field i v ob) = m_objectUpdated ob"
  "in_update_list (store_field i v ob) = in_update_list ob"
  "m_uint32Values (store_field i v ob) = map_option (\<lambda>vs. vs[unat i := v]) (m_uint32Values ob)"
  "changedFields (store_field i v ob) = map_option (\<lambda>cs. cs[unat i := True]) (changedFields ob)"
  by (simp_all add: store_field_def)

lemma announce_simps [simp]:
  "m_valuesCount (announce ob) = m_valuesCount ob"
  "m_inWorld (announce ob) = m_inWorld ob"
  "m_uint32Values (announce ob) = m_uint32Values ob"
  "changedFields (announce ob) = changedFields ob"
  "m_objectUpdated (announce ob) \<longleftrightarrow> m_inWorld ob \<or> m_objectUpdated ob"
  by (auto simp: announce_def)

lemma obj_wf_store [simp]: "obj_wf ob \<Longrightarrow> obj_wf (store_field i v ob)"
  by (erule obj_wfE) (simp_all add: obj_wf_def)

lemma obj_wf_announce [simp]: "obj_wf (announce ob) = obj_wf ob"
  by (auto simp: obj_wf_def split: option.splits)

lemma obj_wf_mark: "obj_wf ob \<Longrightarrow> changedFields ob = Some cs \<Longrightarrow> obj_wf (ob\<lparr>changedFields := Some (cs[i := True])\<rparr>)"
  by (auto simp: obj_wf_def split: option.splits)

lemma announce_listed:
  "m_objectUpdated ob = in_update_list ob \<Longrightarrow> in_update_list (announce ob) = m_objectUpdated (announce ob)"
  by (simp add: announce_def)

lemma edits_count: "edits ob ob' \<Longrightarrow> m_valuesCount ob' = m_valuesCount ob"
  by (induction rule: edits.induct) simp_all

lemma edits_inWorld: "edits ob ob' \<Longrightarrow> m_inWorld ob' = m_inWorld ob"
  by (induction rule: edits.induct) simp_all

lemma edits_null: "edits ob ob' \<Longrightarrow> m_uint32Values ob' = None \<longleftrightarrow> m_uint32Values ob = None"
  by (induction rule: edits.induct) simp_all

lemma edits_wf: "edits ob ob' \<Longrightarrow> obj_wf ob \<Longrightarrow> obj_wf ob'"
  by (induction rule: edits.induct) (simp_all add: obj_wf_mark)

lemma edits_updated:
  "edits ob ob' \<Longrightarrow> (m_objectUpdated ob \<longrightarrow> m_objectUpdated ob') \<and>
    (m_objectUpdated ob' \<longrightarrow> m_objectUpdated ob \<or> m_inWorld ob)"
  by (induction rule: edits.induct) (auto simp: edits_inWorld)

lemma edits_listed:
  "edits ob ob' \<Longrightarrow> m_objectUpdated ob = in_update_list ob \<Longrightarrow> m_objectUpdated ob' = in_update_list ob'"
  by (induction rule: edits.induct) (simp_all add: announce_listed del: announce_simps)

lemmas edits_frame = edits_count edits_inWorld edits_null edits_wf

text \<open>Marks are never removed, and a field that is not marked keeps its value.\<close>

lemma edits_arrays:
  assumes "edits ob ob'" and "obj_wf ob" and "m_uint32Values ob \<noteq> None"
  obtains vs cs where "m_uint32Values ob' = Some vs" "changedFields ob' = Some cs"
    "length vs = unat (m_valuesCount ob)" "length cs = unat (m_valuesCount ob)"
proof -
  have "obj_wf ob'" "m_uint32Values ob' \<noteq> None" "m_valuesCount ob' = m_valuesCount ob"
    using edits_frame [OF assms(1)] assms(2,3) by simp_all
  then show ?thesis by (metis obj_wfE that)
qed

lemma edits_marks:
  assumes "edits ob ob'" and "obj_wf ob" and "i < unat (m_valuesCount ob)" and "m_uint32Values ob \<noteq> None"
  shows "(marks ob ! i \<longrightarrow> marks ob' ! i) \<and> (\<not> marks ob' ! i \<longrightarrow> vals ob' ! i = vals ob ! i)"
  using assms
proof (induction rule: edits.induct)
  case (edits_store ob ob1 k v)
  then obtain vs cs where "m_uint32Values ob1 = Some vs" "changedFields ob1 = Some cs"
    "length vs = unat (m_valuesCount ob)" "length cs = unat (m_valuesCount ob)"
    by (metis edits_arrays)
  with edits_store.IH edits_store.prems show ?case by (cases "unat k = i") auto
next
  case (edits_mark ob ob1 cs k)
  then have "length cs = unat (m_valuesCount ob)"
    by (metis edits_arrays option.inject)
  with edits_mark.IH edits_mark.prems edits_mark.hyps(2) show ?case by (cases "k = i") auto
qed simp_all

section \<open>The setters as a machine\<close>

datatype field_op =
    FSetUInt32 u16 u32 | FSetInt32 u16 u32 | FUpdateUInt32 u16 u32 | FSetUInt64 u16 u64
  | FAddUInt64 u16 u64 | FRemoveUInt64 u16 u64 | FSetFloat u16 f32 | FSetByte u16 u8 u8
  | FSetUInt16 u16 u8 u16 | FSetInt16 u16 u8 u16 | FSetStatFloat u16 f32 | FSetStatInt32 u16 u32
  | FModUInt32 u16 u32 bool | FModInt32 u16 u32 bool | FModSignedFloat u16 f32 bool
  | FModPositiveFloat u16 f32 bool | FSetFlag u16 u32 | FRemoveFlag u16 u32 | FToggleFlag u16 u32
  | FModFlag u16 u32 bool | FSetByteFlag u16 u8 u8 | FRemoveByteFlag u16 u8 u8
  | FToggleByteFlag u16 u8 u8 | FSetFlag64 u16 u64 | FRemoveFlag64 u16 u64 | FToggleFlag64 u16 u64
  | FModFlag64 u16 u64 bool | FForceUpdate u32

fun run_field :: "(f32 \<Rightarrow> f32 \<Rightarrow> f32) \<Rightarrow> field_op \<Rightarrow> obj_write" where
  "run_field fadd (FSetUInt32 i v) = SetUInt32Value i v"
| "run_field fadd (FSetInt32 i v) = SetInt32Value i v"
| "run_field fadd (FUpdateUInt32 i v) = UpdateUInt32Value i v"
| "run_field fadd (FSetUInt64 i v64) = SetUInt64Value i v64"
| "run_field fadd (FAddUInt64 i v64) = (\<lambda>ob. map_sum id snd (AddUInt64Value i v64 ob))"
| "run_field fadd (FRemoveUInt64 i v64) = (\<lambda>ob. map_sum id snd (RemoveUInt64Value i v64 ob))"
| "run_field fadd (FSetFloat i v) = SetFloatValue i v"
| "run_field fadd (FSetByte i k b) = SetByteValue i k b"
| "run_field fadd (FSetUInt16 i k h) = SetUInt16Value i k h"
| "run_field fadd (FSetInt16 i k h) = SetInt16Value i k h"
| "run_field fadd (FSetStatFloat i v) = SetStatFloatValue i v"
| "run_field fadd (FSetStatInt32 i v) = SetStatInt32Value i v"
| "run_field fadd (FModUInt32 i v a) = ApplyModUInt32Value i v a"
| "run_field fadd (FModInt32 i v a) = ApplyModInt32Value i v a"
| "run_field fadd (FModSignedFloat i v a) = ApplyModSignedFloatValue fadd i v a"
| "run_field fadd (FModPositiveFloat i v a) = ApplyModPositiveFloatValue fadd i v a"
| "run_field fadd (FSetFlag i v) = SetFlag i v"
| "run_field fadd (FRemoveFlag i v) = RemoveFlag i v"
| "run_field fadd (FToggleFlag i v) = ToggleFlag i v"
| "run_field fadd (FModFlag i v a) = ApplyModFlag i v a"
| "run_field fadd (FSetByteFlag i k b) = SetByteFlag i k b"
| "run_field fadd (FRemoveByteFlag i k b) = RemoveByteFlag i k b"
| "run_field fadd (FToggleByteFlag i k b) = ToggleByteFlag i k b"
| "run_field fadd (FSetFlag64 i v64) = SetFlag64 i v64"
| "run_field fadd (FRemoveFlag64 i v64) = RemoveFlag64 i v64"
| "run_field fadd (FToggleFlag64 i v64) = ToggleFlag64 i v64"
| "run_field fadd (FModFlag64 i v64 a) = ApplyModFlag64 i v64 a"
| "run_field fadd (FForceUpdate j) = ForceValuesUpdateAtIndex j"

text \<open>\<^verbatim>\<open>UpdateUInt32Value\<close> is the one setter that marks a field without entering the update list.\<close>

definition silent :: "field_op \<Rightarrow> bool" where
  "silent op \<longleftrightarrow> (case op of FUpdateUInt32 _ _ \<Rightarrow> True | _ \<Rightarrow> False)"

named_theorems loud_setters \<open>the setters are loud\<close>

lemma loud_base [loud_setters]:
  "SetUInt32Value i v ob = Inr ob' \<Longrightarrow> loud ob ob'"
  "SetInt32Value i v ob = Inr ob' \<Longrightarrow> loud ob ob'"
  "SetUInt64Value i v64 ob = Inr ob' \<Longrightarrow> loud ob ob'"
  "SetFloatValue i v ob = Inr ob' \<Longrightarrow> loud ob ob'"
  "SetByteValue i k b ob = Inr ob' \<Longrightarrow> loud ob ob'"
  "SetUInt16Value i k h ob = Inr ob' \<Longrightarrow> loud ob ob'"
  "SetFlag i v ob = Inr ob' \<Longrightarrow> loud ob ob'"
  "RemoveFlag i v ob = Inr ob' \<Longrightarrow> loud ob ob'"
  "SetByteFlag i k b ob = Inr ob' \<Longrightarrow> loud ob ob'"
  "RemoveByteFlag i k b ob = Inr ob' \<Longrightarrow> loud ob ob'"
  by (auto simp: SetUInt32Value_def SetInt32Value_def SetUInt64Value_def SetFloatValue_def
      SetByteValue_def SetUInt16Value_def SetFlag_def RemoveFlag_def SetByteFlag_def
      RemoveByteFlag_def bind_res_Inr_iff Let_def split: if_splits)

lemma loud_pairs [loud_setters]:
  "AddUInt64Value i v64 ob = Inr (r, ob') \<Longrightarrow> loud ob ob'"
  "RemoveUInt64Value i v64 ob = Inr (r, ob') \<Longrightarrow> loud ob ob'"
  by (auto simp: AddUInt64Value_def RemoveUInt64Value_def bind_res_Inr_iff split: if_splits)

lemma loud_derived [loud_setters]:
  "SetInt16Value i k h ob = Inr ob' \<Longrightarrow> loud ob ob'"
  "SetStatFloatValue i v ob = Inr ob' \<Longrightarrow> loud ob ob'"
  "SetStatInt32Value i v ob = Inr ob' \<Longrightarrow> loud ob ob'"
  "ApplyModUInt32Value i v a ob = Inr ob' \<Longrightarrow> loud ob ob'"
  "ApplyModInt32Value i v a ob = Inr ob' \<Longrightarrow> loud ob ob'"
  "ApplyModSignedFloatValue fadd i v a ob = Inr ob' \<Longrightarrow> loud ob ob'"
  "ApplyModPositiveFloatValue fadd i v a ob = Inr ob' \<Longrightarrow> loud ob ob'"
  "ToggleFlag i v ob = Inr ob' \<Longrightarrow> loud ob ob'"
  "ApplyModFlag i v a ob = Inr ob' \<Longrightarrow> loud ob ob'"
  "ToggleByteFlag i k b ob = Inr ob' \<Longrightarrow> loud ob ob'"
  "SetFlag64 i v64 ob = Inr ob' \<Longrightarrow> loud ob ob'"
  "RemoveFlag64 i v64 ob = Inr ob' \<Longrightarrow> loud ob ob'"
  by (auto simp: SetInt16Value_def SetStatFloatValue_def SetStatInt32Value_def
      ApplyModUInt32Value_def ApplyModInt32Value_def ApplyModSignedFloatValue_def
      ApplyModPositiveFloatValue_def ToggleFlag_def ApplyModFlag_def ToggleByteFlag_def
      SetFlag64_def RemoveFlag64_def bind_res_Inr_iff Let_def intro: loud_setters split: if_splits)

lemma loud_flag64 [loud_setters]:
  "ToggleFlag64 i v64 ob = Inr ob' \<Longrightarrow> loud ob ob'"
  "ApplyModFlag64 i v64 a ob = Inr ob' \<Longrightarrow> loud ob ob'"
  by (auto simp: ToggleFlag64_def ApplyModFlag64_def bind_res_Inr_iff intro: loud_setters
      split: if_splits)

lemma loud_force [loud_setters]: "ForceValuesUpdateAtIndex j ob = Inr ob' \<Longrightarrow> loud ob ob'"
  unfolding ForceValuesUpdateAtIndex_def loud_def
  by (auto split: option.splits if_splits intro: edits_intros)

lemma run_field_loud:
  assumes "run_field fadd op ob = Inr ob'" and "\<not> silent op"
  shows "loud ob ob'"
  using assms
  by (cases op) (auto simp: silent_def map_sum_def intro: loud_setters split: sum.splits)

lemma run_field_edits:
  assumes "run_field fadd op ob = Inr ob'"
  shows "edits ob ob'"
proof (cases "silent op")
  case False
  with assms show ?thesis by (blast intro: loud_edits run_field_loud)
next
  case True
  with assms show ?thesis
    by (cases op) (auto simp: silent_def UpdateUInt32Value_def bind_res_Inr_iff split: if_splits
        intro: edits_intros)
qed

section \<open>The client's mirror\<close>

text \<open>The life of an object: its setters, entering and leaving the world, and its turn in
  \<^verbatim>\<open>ObjectAccessor::Update\<close>.\<close>

datatype obj_op = Field field_op | EnterWorld | LeaveWorld | Turn

definition run_obj :: "(f32 \<Rightarrow> f32 \<Rightarrow> f32) \<Rightarrow> obj_op \<Rightarrow> obj_write" where
  "run_obj fadd op ob =
     (case op of
        Field fop \<Rightarrow> run_field fadd fop ob
      | EnterWorld \<Rightarrow> AddToWorld ob
      | LeaveWorld \<Rightarrow> Inr (RemoveFromWorld ob)
      | Turn \<Rightarrow> accessor_turn ob)"

text \<open>What a client that sees every field knows of the object. It learns all values when the object
  enters the world and the values of the marked fields on the object's turn. A failed assertion ends
  the server, so the pair stays as it was.\<close>

definition mirror_step :: "obj_op \<Rightarrow> Object \<Rightarrow> u32 list \<Rightarrow> u32 list" where
  "mirror_step op ob mirror =
     (case op of
        Field _ \<Rightarrow> mirror
      | EnterWorld \<Rightarrow> if m_inWorld ob then mirror else vals ob
      | LeaveWorld \<Rightarrow> mirror
      | Turn \<Rightarrow> map (\<lambda>i. if marks ob ! i then vals ob ! i else mirror ! i) [0..<length mirror])"

definition exec_sync ::
  "(f32 \<Rightarrow> f32 \<Rightarrow> f32) \<Rightarrow> obj_op \<Rightarrow> Object \<times> u32 list \<Rightarrow> Object \<times> u32 list" where
  "exec_sync fadd op s =
     (case run_obj fadd op (fst s) of
        Inl e \<Rightarrow> s
      | Inr ob' \<Rightarrow> (ob', mirror_step op (fst s) (snd s)))"

definition in_sync :: "Object \<times> u32 list \<Rightarrow> bool" where
  "in_sync s \<longleftrightarrow>
     (let ob = fst s; mirror = snd s in
      obj_wf ob \<and> m_objectUpdated ob = in_update_list ob \<and> (m_objectUpdated ob \<longrightarrow> m_inWorld ob) \<and>
      (m_inWorld ob \<longrightarrow> m_uint32Values ob \<noteq> None \<and> length mirror = unat (m_valuesCount ob) \<and>
         (\<forall>i < unat (m_valuesCount ob). \<not> marks ob ! i \<longrightarrow> mirror ! i = vals ob ! i)))"

lemma ClearUpdateMask_simps [simp]:
  "m_valuesCount (ClearUpdateMask r ob) = m_valuesCount ob"
  "m_inWorld (ClearUpdateMask r ob) = m_inWorld ob"
  "m_uint32Values (ClearUpdateMask r ob) = m_uint32Values ob"
  "m_objectUpdated (ClearUpdateMask r ob) \<longleftrightarrow> False"
  "in_update_list (ClearUpdateMask r ob) \<longleftrightarrow> in_update_list ob \<and> \<not> (m_objectUpdated ob \<and> r)"
  by (auto simp: ClearUpdateMask_def Let_def)

lemma ClearUpdateMask_wf: "obj_wf ob \<Longrightarrow> obj_wf (ClearUpdateMask r ob)"
  by (erule obj_wfE) (simp_all add: obj_wf_def ClearUpdateMask_def Let_def)

lemma ClearUpdateMask_marks:
  "obj_wf ob \<Longrightarrow> m_uint32Values ob \<noteq> None \<Longrightarrow> i < unat (m_valuesCount ob) \<Longrightarrow> \<not> marks (ClearUpdateMask r ob) ! i"
  by (erule obj_wfE) (simp_all add: ClearUpdateMask_def Let_def nth_append)

lemma in_sync_field:
  assumes "in_sync (ob, mirror)" and "edits ob ob'"
  shows "in_sync (ob', mirror)"
proof -
  note frame = edits_frame [OF assms(2)] edits_updated [OF assms(2)] edits_listed [OF assms(2)]
  from assms(1) show ?thesis
    using frame edits_marks [OF assms(2)] by (auto simp: in_sync_def Let_def)
qed

lemma obj_wf_frame [simp]:
  "obj_wf (ob\<lparr>m_inWorld := b\<rparr>) = obj_wf ob" "obj_wf (ob\<lparr>in_update_list := b\<rparr>) = obj_wf ob"
  by (auto simp: obj_wf_def split: option.splits)

lemma in_sync_enter:
  assumes "in_sync (ob, mirror)" and "AddToWorld ob = Inr ob'"
  shows "in_sync (ob', mirror_step EnterWorld ob mirror)"
proof (cases "m_inWorld ob")
  case True
  with assms show ?thesis by (simp add: AddToWorld_def mirror_step_def)
next
  case False
  with assms(2) have ob': "ob' = ClearUpdateMask True (ob\<lparr>m_inWorld := True\<rparr>)"
    and vs: "m_uint32Values ob \<noteq> None" by (auto simp: AddToWorld_def split: if_splits)
  moreover have wf: "obj_wf ob" using assms(1) by (simp add: in_sync_def Let_def)
  moreover have "length (vals ob) = unat (m_valuesCount ob)"
    using wf vs by (auto elim: obj_wfE)
  ultimately show ?thesis
    using False assms(1) by (auto simp: in_sync_def Let_def mirror_step_def ClearUpdateMask_wf)
qed

lemma in_sync_leave: "in_sync (ob, mirror) \<Longrightarrow> in_sync (RemoveFromWorld ob, mirror)"
  by (auto simp: RemoveFromWorld_def in_sync_def Let_def ClearUpdateMask_wf)

lemma in_sync_turn:
  assumes "in_sync (ob, mirror)" and "m_inWorld ob"
  shows "mirror_step Turn ob mirror = vals ob"
    and "in_sync (ClearUpdateMask False (ob\<lparr>in_update_list := False\<rparr>), mirror_step Turn ob mirror)"
proof -
  have wf: "obj_wf ob" "m_uint32Values ob \<noteq> None" "length mirror = unat (m_valuesCount ob)"
    and same: "\<And>i. i < unat (m_valuesCount ob) \<Longrightarrow> \<not> marks ob ! i \<Longrightarrow> mirror ! i = vals ob ! i"
    using assms by (auto simp: in_sync_def Let_def)
  have len: "length (vals ob) = unat (m_valuesCount ob)" using wf by (auto elim: obj_wfE)
  show mirror: "mirror_step Turn ob mirror = vals ob"
    using len wf(3) same by (auto simp: mirror_step_def intro!: nth_equalityI)
  show "in_sync (ClearUpdateMask False (ob\<lparr>in_update_list := False\<rparr>), mirror_step Turn ob mirror)"
    unfolding mirror using wf len by (auto simp: in_sync_def Let_def ClearUpdateMask_wf)
qed

lemma in_sync_step: "in_sync s \<Longrightarrow> in_sync (exec_sync fadd op s)"
proof -
  assume sync: "in_sync s"
  obtain ob mirror where s: "s = (ob, mirror)" by (cases s)
  show ?thesis
  proof (cases op)
    case (Field fop)
    with sync s show ?thesis
      by (auto simp: exec_sync_def run_obj_def mirror_step_def split: sum.splits
          intro: in_sync_field run_field_edits)
  next
    case EnterWorld
    with sync s show ?thesis
      by (auto simp: exec_sync_def run_obj_def split: sum.splits intro: in_sync_enter)
  next
    case LeaveWorld
    with sync s show ?thesis
      by (auto simp: exec_sync_def run_obj_def mirror_step_def in_sync_leave)
  next
    case Turn
    with sync s show ?thesis
      by (auto simp: exec_sync_def run_obj_def accessor_turn_def split: sum.splits
          intro: in_sync_turn)
  qed
qed

interpretation object_life: op_machine "exec_sync fadd" in_sync
  by unfold_locales (rule in_sync_step)

text \<open>A new object: its arrays are null or allocated, and nobody knows of it yet.\<close>

definition fresh_object :: "Object \<Rightarrow> bool" where
  "fresh_object ob \<longleftrightarrow> obj_wf ob \<and> \<not> m_inWorld ob \<and> \<not> m_objectUpdated ob \<and> \<not> in_update_list ob"

lemma fresh_in_sync: "fresh_object ob \<Longrightarrow> in_sync (ob, mirror)"
  by (simp add: fresh_object_def in_sync_def Let_def)

text \<open>A unit-sized object outside the world.\<close>

definition sample_object :: Object where
  "sample_object = InitValues
     \<lparr>m_objectType = 9, m_objectTypeId = TYPEID_UNIT, m_updateFlag = 0, m_uint32Values = None,
      changedFields = None, m_valuesCount = 8, fieldNotifyFlags = 0, m_objectUpdated = False,
      m_inWorld = False, m_PackGUID = bb_new, in_update_list = False\<rparr>"

lemma sample_object_fresh: "fresh_object sample_object"
  by (simp add: sample_object_def InitValues_def fresh_object_def obj_wf_def)

text \<open>A short life: the object enters the world and one field changes.\<close>

definition sample_ops :: "obj_op list" where
  "sample_ops = [EnterWorld, Field (FSetUInt32 5 7)]"

definition sample_life :: "Object \<times> u32 list" where
  "sample_life = exec_ops (exec_sync (\<lambda>x y. x)) sample_ops (sample_object, [])"

lemma sample_life_state:
  "m_inWorld (fst sample_life)" "vals (fst sample_life) = [0, 0, 0, 0, 0, 7, 0, 0]"
  "marks (fst sample_life) = [False, False, False, False, False, True, False, False]"
  "m_valuesCount (fst sample_life) = 8"
  by code_simp+

text \<open>C16: Whatever setters run, and however often the object enters and leaves the world, after the
  object's turn in \<^verbatim>\<open>ObjectAccessor::Update\<close> a client that sees every field and applies only the marked
  ones has exactly the values of the server.\<close>

theorem client_in_sync:
  assumes "fresh_object ob" and "exec_ops (exec_sync fadd) ops (ob, mirror) = (ob', mirror')"
    and "m_inWorld ob'"
  shows "snd (exec_sync fadd Turn (ob', mirror')) = vals ob'"
proof -
  have "in_sync (ob', mirror')"
    using object_life.run_inv [OF fresh_in_sync [OF assms(1)], of fadd ops mirror] assms(2) by simp
  then show ?thesis
    using assms(3) by (simp add: exec_sync_def run_obj_def accessor_turn_def in_sync_turn)
qed

theorem client_in_sync_witness:
  "snd (exec_sync (\<lambda>x y. x) Turn sample_life) = [0, 0, 0, 0, 0, 7, 0, 0]"
  using client_in_sync [OF sample_object_fresh, of "\<lambda>x y. x" sample_ops "[]"
      "fst sample_life" "snd sample_life"]
  by (simp add: sample_life_state flip: sample_life_def)

text \<open>C17: The assertions on the update list hold: an object on the list is in the world, so
  \<^verbatim>\<open>ObjectAccessor::Update\<close> does not abort on it, and an object that left the world can be deleted.\<close>

theorem update_list_assertions:
  assumes "fresh_object ob"
  shows "case exec_ops (exec_sync fadd) ops (ob, mirror) of (ob', mirror') \<Rightarrow>
    (in_update_list ob' \<longrightarrow> accessor_turn ob' \<noteq> Inl InWorldAssertion) \<and>
    Object_delete (RemoveFromWorld ob') = Inr ()"
proof -
  obtain ob' mirror' where s: "exec_ops (exec_sync fadd) ops (ob, mirror) = (ob', mirror')"
    by (cases "exec_ops (exec_sync fadd) ops (ob, mirror)")
  then have "in_sync (ob', mirror')"
    using object_life.run_inv [OF fresh_in_sync [OF assms], of fadd ops mirror] by simp
  then show ?thesis
    by (auto simp: s in_sync_def Let_def accessor_turn_def Object_delete_def RemoveFromWorld_def)
qed

theorem update_list_assertions_witness:
  "Object_delete (RemoveFromWorld (fst sample_life)) = Inr ()"
  using update_list_assertions [OF sample_object_fresh, of "\<lambda>x y. x" sample_ops "[]"]
  by (simp add: case_prod_beta flip: sample_life_def)

text \<open>Without the one silent setter no marked field is forgotten.\<close>

definition allowed_loud :: "obj_op \<Rightarrow> bool" where
  "allowed_loud op \<longleftrightarrow> (case op of Field fop \<Rightarrow> \<not> silent fop | _ \<Rightarrow> True)"

definition announced :: "Object \<times> u32 list \<Rightarrow> bool" where
  "announced s \<longleftrightarrow> in_sync s \<and>
     (m_inWorld (fst s) \<and> (\<exists>i < unat (m_valuesCount (fst s)). marks (fst s) ! i) \<longrightarrow>
      in_update_list (fst s))"

lemma announced_field:
  assumes "announced (ob, mirror)" and "loud ob ob'"
  shows "announced (ob', mirror)"
proof -
  have sync: "in_sync (ob', mirror)"
    using assms by (auto simp: announced_def intro: in_sync_field loud_edits)
  show ?thesis
  proof (cases "ob' = ob")
    case True
    with assms show ?thesis by simp
  next
    case False
    with assms(2) have "m_inWorld ob' \<longrightarrow> m_objectUpdated ob'" by (auto simp: loud_def)
    with sync show ?thesis by (auto simp: announced_def in_sync_def Let_def)
  qed
qed

lemma announced_cleared:
  assumes "in_sync (ClearUpdateMask r ob, mirror)" and "obj_wf ob" and "m_uint32Values ob \<noteq> None"
  shows "announced (ClearUpdateMask r ob, mirror)"
  using assms by (auto simp: announced_def ClearUpdateMask_marks)

lemma announced_step:
  assumes "announced s" and "allowed_loud op"
  shows "announced (exec_sync fadd op s)"
proof -
  obtain ob mirror where s: "s = (ob, mirror)" by (cases s)
  have sync: "in_sync (exec_sync fadd op s)" using assms(1) by (simp add: announced_def in_sync_step)
  have wf: "obj_wf ob" using assms(1) s by (simp add: announced_def in_sync_def Let_def)
  have arrays: "m_inWorld ob \<Longrightarrow> m_uint32Values ob \<noteq> None"
    using assms(1) s by (simp add: announced_def in_sync_def Let_def)
  show ?thesis
  proof (cases op)
    case (Field fop)
    with assms s show ?thesis
      by (auto simp: exec_sync_def run_obj_def mirror_step_def allowed_loud_def split: sum.splits
          intro: announced_field run_field_loud)
  next
    case EnterWorld
    with sync s wf assms(1) show ?thesis
      by (auto simp: exec_sync_def run_obj_def AddToWorld_def mirror_step_def split: if_splits
          intro: announced_cleared)
  next
    case LeaveWorld
    with sync s assms(1) show ?thesis
      by (auto simp: exec_sync_def run_obj_def mirror_step_def RemoveFromWorld_def announced_def)
  next
    case Turn
    with sync s wf arrays assms(1) show ?thesis
      by (auto simp: exec_sync_def run_obj_def accessor_turn_def split: if_splits
          intro: announced_cleared)
  qed
qed

interpretation object_announced: guarded_machine "exec_sync fadd" announced allowed_loud
  by unfold_locales (rule announced_step)

text \<open>C18: As long as nobody uses \<^verbatim>\<open>UpdateUInt32Value\<close>, an object in the world with a marked field is on
  the update list: no change waits for an unrelated one to be sent.\<close>

theorem no_update_lost:
  assumes "fresh_object ob" and "list_all allowed_loud ops"
    and "exec_ops (exec_sync fadd) ops (ob, mirror) = (ob', mirror')"
    and "m_inWorld ob'" and "i < unat (m_valuesCount ob')" and "marks ob' ! i"
  shows "in_update_list ob'"
proof -
  have "announced (ob, mirror)"
    using assms(1) by (simp add: announced_def fresh_in_sync fresh_object_def)
  then have "announced (ob', mirror')"
    using object_announced.run_allowed [OF _ assms(2), of "(ob, mirror)" fadd] assms(3) by simp
  with assms(4-6) show ?thesis by (auto simp: announced_def)
qed

theorem no_update_lost_witness: "in_update_list (fst sample_life)"
  using no_update_lost [OF sample_object_fresh, of sample_ops "\<lambda>x y. x" "[]" "fst sample_life" "snd sample_life" 5]
  by (simp add: sample_life_state flip: sample_life_def) (simp add: sample_ops_def allowed_loud_def silent_def)

end
