(* ===== verification/ObjectViews.thy ===== *)
theory ObjectViews
  imports ObjectFieldsProps
begin

text \<open>
  The accessors of an object's fields as views of one array of bits: what an accessor writes is read
  back through it, and accessors whose windows share no bit do not interfere, whatever their widths.
  The contract is the locale \<open>field_view\<close>; it is interpreted on the 8-, 16-, 32- and 64-bit accessors.
\<close>

section \<open>Views of the field array\<close>

definition field_bit :: "Object \<Rightarrow> nat \<Rightarrow> bool" where
  "field_bit ob k \<longleftrightarrow> bit (vals ob ! (k div 32)) (k mod 32)"

definition ready :: "Object \<Rightarrow> bool" where
  "ready ob \<longleftrightarrow> obj_wf ob \<and> m_uint32Values ob \<noteq> None"

text \<open>The contract of an accessor pair: a window of bits that starts at \<open>base i\<close>.\<close>

locale field_view =
  fixes get :: "'i \<Rightarrow> Object \<Rightarrow> obj_error + 'w::len word"
    and put :: "'i \<Rightarrow> 'w word \<Rightarrow> Object \<Rightarrow> obj_error + Object"
    and base :: "'i \<Rightarrow> nat"
    and valid :: "'i \<Rightarrow> u16 \<Rightarrow> bool"
  assumes get_bits: "ready ob \<Longrightarrow> valid i (m_valuesCount ob) \<Longrightarrow>
      \<exists>v. get i ob = Inr v \<and> (\<forall>n < LENGTH('w). bit v n \<longleftrightarrow> field_bit ob (base i + n))"
    and put_bits: "ready ob \<Longrightarrow> valid i (m_valuesCount ob) \<Longrightarrow>
      \<exists>ob'. put i v ob = Inr ob' \<and> ready ob' \<and> m_valuesCount ob' = m_valuesCount ob \<and>
        (\<forall>k < 32 * unat (m_valuesCount ob). field_bit ob' k \<longleftrightarrow>
          (if base i \<le> k \<and> k < base i + LENGTH('w) then bit v (k - base i) else field_bit ob k))"
    and valid_range: "valid i n \<Longrightarrow> base i + LENGTH('w) \<le> 32 * unat n"
begin

lemma put_get:
  assumes "ready ob" and "valid i (m_valuesCount ob)"
  shows "bind_res (put i v ob) (get i) = Inr v"
proof -
  obtain ob' where ob': "put i v ob = Inr ob'" "ready ob'" "m_valuesCount ob' = m_valuesCount ob"
    and new: "\<And>k. k < 32 * unat (m_valuesCount ob) \<Longrightarrow> field_bit ob' k \<longleftrightarrow>
          (if base i \<le> k \<and> k < base i + LENGTH('w) then bit v (k - base i) else field_bit ob k)"
    using put_bits [OF assms, of v] by blast
  obtain w where w: "get i ob' = Inr w" "\<And>n. n < LENGTH('w) \<Longrightarrow> bit w n \<longleftrightarrow> field_bit ob' (base i + n)"
    using get_bits [of ob' i] ob' assms(2) by auto
  have "w = v"
    using w(2) new valid_range [OF assms(2)] by (intro bit_word_eqI) simp
  with ob'(1) w(1) show ?thesis by simp
qed

end

text \<open>Two views, of the same or of different widths.\<close>

locale two_views =
  one: field_view get1 put1 base1 valid1 + two: field_view get2 put2 base2 valid2
  for get1 :: "'i \<Rightarrow> Object \<Rightarrow> obj_error + 'w::len word" and put1 base1 valid1
    and get2 :: "'j \<Rightarrow> Object \<Rightarrow> obj_error + 'x::len word" and put2 base2 valid2
begin

lemma put_get_other:
  assumes "ready ob" and "valid1 i (m_valuesCount ob)" and "valid2 j (m_valuesCount ob)"
    and "base1 i + LENGTH('w) \<le> base2 j \<or> base2 j + LENGTH('x) \<le> base1 i"
  shows "bind_res (put1 i v ob) (get2 j) = get2 j ob"
proof -
  obtain ob' where ob': "put1 i v ob = Inr ob'" "ready ob'" "m_valuesCount ob' = m_valuesCount ob"
    and new: "\<And>k. k < 32 * unat (m_valuesCount ob) \<Longrightarrow> field_bit ob' k \<longleftrightarrow>
          (if base1 i \<le> k \<and> k < base1 i + LENGTH('w) then bit v (k - base1 i) else field_bit ob k)"
    using one.put_bits [OF assms(1,2), of v] by blast
  obtain w where w: "get2 j ob' = Inr w" "\<And>n. n < LENGTH('x) \<Longrightarrow> bit w n \<longleftrightarrow> field_bit ob' (base2 j + n)"
    using two.get_bits [of ob' j] ob' assms(3) by auto
  obtain u where u: "get2 j ob = Inr u" "\<And>n. n < LENGTH('x) \<Longrightarrow> bit u n \<longleftrightarrow> field_bit ob (base2 j + n)"
    using two.get_bits [OF assms(1,3)] by auto
  have "w = u"
  proof (rule bit_word_eqI)
    fix n
    assume "n < LENGTH('x)"
    with w(2) u(2) new [of "base2 j + n"] two.valid_range [OF assms(3)] assms(4)
    show "bit w n = bit u n" by auto
  qed
  with ob'(1) w(1) u(1) show ?thesis by simp
qed

end

section \<open>The accessors are views\<close>

lemma ready_arrays:
  assumes "ready ob"
  obtains vs cs where "m_uint32Values ob = Some vs" "changedFields ob = Some cs"
    "length vs = unat (m_valuesCount ob)" "length cs = unat (m_valuesCount ob)"
  using assms unfolding ready_def by (metis obj_wfE)

lemma ready_announce [simp]: "ready (announce ob) = ready ob"
  by (simp add: ready_def)

lemma ready_store [simp]: "ready ob \<Longrightarrow> ready (store_field i v ob)"
  by (simp add: ready_def)

lemma field_bit_announce [simp]: "field_bit (announce ob) k = field_bit ob k"
  by (simp add: field_bit_def)

lemma field_bit_store:
  assumes "ready ob" and "unat i < unat (m_valuesCount ob)"
  shows "field_bit (store_field i v ob) k =
    (if k div 32 = unat i then bit v (k mod 32) else field_bit ob k)"
  using assms by (auto simp: field_bit_def elim!: ready_arrays)

lemma bit_replace:
  assumes "n < 32"
  shows "bit ((x AND NOT (push_bit s (mask LENGTH('a)))) OR push_bit s (ucast (v :: 'a::len word)) :: u32) n \<longleftrightarrow>
    (if s \<le> n \<and> n < s + LENGTH('a) then bit v (n - s) else bit x n)"
  using assms
  by (auto simp: bit_or_iff bit_and_iff bit_not_iff_eq bit_push_bit_iff bit_mask_iff bit_ucast_iff
      possible_bit_word dest: bit_imp_le_length)

abbreviation word_base :: "u16 \<Rightarrow> nat" where "word_base i \<equiv> 32 * unat i"
abbreviation byte_base :: "u16 \<times> u8 \<Rightarrow> nat" where "byte_base p \<equiv> 32 * unat (fst p) + 8 * unat (snd p)"
abbreviation half_base :: "u16 \<times> u8 \<Rightarrow> nat" where "half_base p \<equiv> 32 * unat (fst p) + 16 * unat (snd p)"
abbreviation pair_valid :: "u16 \<Rightarrow> u16 \<Rightarrow> bool" where "pair_valid i n \<equiv> unat i + 1 < unat n"
abbreviation byte_valid :: "u16 \<times> u8 \<Rightarrow> u16 \<Rightarrow> bool" where "byte_valid p n \<equiv> fst p < n \<and> snd p < 4"
abbreviation half_valid :: "u16 \<times> u8 \<Rightarrow> u16 \<Rightarrow> bool" where "half_valid p n \<equiv> fst p < n \<and> snd p < 2"
abbreviation get_byte :: "u16 \<times> u8 \<Rightarrow> u8 obj_read" where "get_byte p \<equiv> GetByteValue (fst p) (snd p)"
abbreviation put_byte :: "u16 \<times> u8 \<Rightarrow> u8 \<Rightarrow> obj_write" where "put_byte p \<equiv> SetByteValue (fst p) (snd p)"
abbreviation get_half :: "u16 \<times> u8 \<Rightarrow> u16 obj_read" where "get_half p \<equiv> GetUInt16Value (fst p) (snd p)"
abbreviation put_half :: "u16 \<times> u8 \<Rightarrow> u16 \<Rightarrow> obj_write" where "put_half p \<equiv> SetUInt16Value (fst p) (snd p)"

lemma ready_values: "ready ob \<Longrightarrow> field_values ob = Inr (vals ob)"
  by (auto simp: field_values_def elim!: ready_arrays)

lemma index_less: "i < n \<longleftrightarrow> unat i < unat n" for i n :: u16
  by (simp add: word_less_nat_alt)

lemma field_bit_at: "n < 32 \<Longrightarrow> field_bit ob (32 * i + n) = bit (vals ob ! i) n"
  by (simp add: field_bit_def)

text \<open>The window of \<open>w\<close> bits at \<open>s\<close> in field \<open>i\<close>.\<close>

lemma window_div:
  fixes k i s w :: nat
  assumes "s + w \<le> 32"
  shows "32 * i + s \<le> k \<and> k < 32 * i + s + w \<longleftrightarrow> k div 32 = i \<and> s \<le> k mod 32 \<and> k mod 32 < s + w"
    and "32 * i + s \<le> k \<Longrightarrow> k div 32 = i \<Longrightarrow> k - (32 * i + s) = k mod 32 - s"
proof -
  have k: "k = 32 * (k div 32) + k mod 32" by simp
  show "32 * i + s \<le> k \<and> k < 32 * i + s + w \<longleftrightarrow> k div 32 = i \<and> s \<le> k mod 32 \<and> k mod 32 < s + w"
  proof (cases "k div 32 = i")
    case True
    with k show ?thesis by (metis add_le_cancel_left add.assoc nat_add_left_cancel_less)
  next
    case False
    have "k div 32 = i" if "32 * i + s \<le> k" "k < 32 * i + s + w"
      using that assms by (intro div_nat_eqI) simp_all
    with False show ?thesis by blast
  qed
  show "k - (32 * i + s) = k mod 32 - s" if "32 * i + s \<le> k" "k div 32 = i"
    using that by (metis k diff_diff_left diff_add_inverse)
qed

text \<open>Replacing the window of a field by new bits, and leaving it when it has these bits already.\<close>

lemma store_window:
  assumes "ready ob" and "unat i < unat (m_valuesCount ob)" and "s + LENGTH('a) \<le> 32"
    and new: "\<And>n. n < 32 \<Longrightarrow> bit x n \<longleftrightarrow>
      (if s \<le> n \<and> n < s + LENGTH('a) then bit (v :: 'a::len word) (n - s) else bit (vals ob ! unat i) n)"
  shows "field_bit (store_field i x ob) k \<longleftrightarrow>
    (if 32 * unat i + s \<le> k \<and> k < 32 * unat i + s + LENGTH('a) then bit v (k - (32 * unat i + s))
     else field_bit ob k)"
proof (cases "32 * unat i + s \<le> k \<and> k < 32 * unat i + s + LENGTH('a)")
  case True
  then have "k div 32 = unat i" "s \<le> k mod 32" "k mod 32 < s + LENGTH('a)"
    "k - (32 * unat i + s) = k mod 32 - s"
    using window_div [OF assms(3), of "unat i" k] by simp_all
  with True new [of "k mod 32"] show ?thesis by (simp add: field_bit_store [OF assms(1,2)])
next
  case False
  have "field_bit (store_field i x ob) k = field_bit ob k"
  proof (cases "k div 32 = unat i")
    case True
    with False have "\<not> (s \<le> k mod 32 \<and> k mod 32 < s + LENGTH('a))"
      using window_div(1) [OF assms(3), of "unat i" k] by simp
    with True new [of "k mod 32"] show ?thesis
      by (subst field_bit_store [OF assms(1,2)]) (auto simp: field_bit_def)
  next
    case False
    then show ?thesis by (subst field_bit_store [OF assms(1,2)]) simp
  qed
  with False show ?thesis by auto
qed

lemma keep_window:
  assumes "s + LENGTH('a) \<le> 32" and "ucast (drop_bit s (vals ob ! i)) = (v :: 'a::len word)"
  shows "field_bit ob k \<longleftrightarrow>
    (if 32 * i + s \<le> k \<and> k < 32 * i + s + LENGTH('a) then bit v (k - (32 * i + s)) else field_bit ob k)"
proof (cases "32 * i + s \<le> k \<and> k < 32 * i + s + LENGTH('a)")
  case True
  then have "k div 32 = i" "s \<le> k mod 32" "k mod 32 < s + LENGTH('a)"
    "k - (32 * i + s) = k mod 32 - s"
    using window_div [OF assms(1), of i k] by simp_all
  moreover from this have "k mod 32 - s < LENGTH('a)" by linarith
  ultimately show ?thesis using True
    by (simp add: field_bit_def bit_ucast_iff bit_drop_bit_eq flip: assms(2))
qed auto

lemma put_word:
  assumes "ready ob" and "i < m_valuesCount ob"
  shows "\<exists>ob'. SetUInt32Value i v ob = Inr ob' \<and> ready ob' \<and> m_valuesCount ob' = m_valuesCount ob \<and>
    (\<forall>k < 32 * unat (m_valuesCount ob). field_bit ob' k \<longleftrightarrow>
       (if 32 * unat i \<le> k \<and> k < 32 * unat i + LENGTH(32) then bit v (k - 32 * unat i)
        else field_bit ob k))"
proof (cases "vals ob ! unat i = v")
  case True
  have "field_bit ob k = bit v (k - 32 * unat i)"
    if "32 * unat i \<le> k" "k < 32 * unat i + 32" for k
    using window_div [of 0 32 "unat i" k] that True by (simp add: field_bit_def)
  with True assms show ?thesis by (simp add: SetUInt32Value_def ready_values)
next
  case False
  with assms show ?thesis
    using store_window [OF assms(1), of i 0 v v] by (simp add: SetUInt32Value_def ready_values index_less)
qed

lemma put_sub:
  assumes "ready ob" and "i < m_valuesCount ob" and "s + LENGTH('a::len) \<le> 32"
    and msk: "msk = mask LENGTH('a)" and "put = (if ucast (drop_bit s (vals ob ! unat i)) \<noteq> (v :: 'a word)
      then announce (store_field i
        ((vals ob ! unat i AND NOT (push_bit s msk)) OR push_bit s (ucast v)) ob)
      else ob)"
  shows "ready put \<and> m_valuesCount put = m_valuesCount ob \<and>
    (\<forall>k < 32 * unat (m_valuesCount ob). field_bit put k \<longleftrightarrow>
       (if 32 * unat i + s \<le> k \<and> k < 32 * unat i + s + LENGTH('a) then bit v (k - (32 * unat i + s))
        else field_bit ob k))"
proof (cases "ucast (drop_bit s (vals ob ! unat i)) = v")
  case True
  with assms keep_window [OF assms(3) True] show ?thesis by simp
next
  case False
  with assms store_window [OF assms(1) _ assms(3) bit_replace, of i] show ?thesis
    by (simp add: index_less msk split del: if_split)
qed

lemma get_word:
  assumes "ready ob" and "i < m_valuesCount ob"
  shows "\<exists>v. GetUInt32Value i ob = Inr v \<and> (\<forall>n < LENGTH(32). bit v n \<longleftrightarrow> field_bit ob (32 * unat i + n))"
  using assms by (simp add: GetUInt32Value_def ready_values field_bit_at)

interpretation words: field_view GetUInt32Value SetUInt32Value word_base "(<)"
  using get_word put_word by unfold_locales (simp_all add: index_less)

lemma offset_range: "k < 4 \<Longrightarrow> 8 * unat k + LENGTH(8) \<le> 32" "k < 2 \<Longrightarrow> 16 * unat k + LENGTH(16) \<le> 32"
  for k :: u8
  by (simp_all add: word_less_nat_alt)

lemma offset_checks:
  "k < 4 \<Longrightarrow> \<not> 4 < k \<and> unat k * 8 < 32" "k < 2 \<Longrightarrow> \<not> 2 < k \<and> unat k * 16 < 32" for k :: u8
  by (simp_all add: word_less_nat_alt)

lemma window_masks: "(0xFF :: u32) = mask LENGTH(8)" "(0xFFFF :: u32) = mask LENGTH(16)"
  by (simp_all add: mask_eq_exp_minus_1)

lemma sub_bits: "s + LENGTH('a::len) \<le> 32 \<Longrightarrow> n < LENGTH('a) \<Longrightarrow>
    bit (ucast (drop_bit s (vals ob ! i)) :: 'a word) n = field_bit ob (32 * i + s + n)"
  using field_bit_at [of "s + n" ob i] by (simp add: bit_ucast_iff bit_drop_bit_eq add.assoc)

interpretation bytes: field_view get_byte put_byte byte_base byte_valid
proof
  fix ob :: Object and p :: "u16 \<times> u8" and v :: u8
  assume ob: "ready ob" "byte_valid p (m_valuesCount ob)"
  then have fits: "8 * unat (snd p) + LENGTH(8) \<le> 32" by (blast intro: offset_range)
  show "\<exists>v. get_byte p ob = Inr v \<and> (\<forall>n<LENGTH(8). bit v n = field_bit ob (byte_base p + n))"
    using ob sub_bits [OF fits, of _ ob "unat (fst p)"] by (simp add: GetByteValue_def ready_values)
  show "\<exists>ob'. put_byte p v ob = Inr ob' \<and> ready ob' \<and> m_valuesCount ob' = m_valuesCount ob \<and>
      (\<forall>k<32 * unat (m_valuesCount ob). field_bit ob' k =
        (if byte_base p \<le> k \<and> k < byte_base p + LENGTH(8) then bit v (k - byte_base p) else field_bit ob k))"
    using ob put_sub [OF ob(1) _ fits window_masks(1) refl, of "fst p" v] offset_checks(1) [of "snd p"]
    by (simp add: SetByteValue_def ready_values if_distrib [of Inr, symmetric] split del: if_split)
qed (auto simp: index_less dest: offset_range)

interpretation halves: field_view get_half put_half half_base half_valid
proof
  fix ob :: Object and p :: "u16 \<times> u8" and v :: u16
  assume ob: "ready ob" "half_valid p (m_valuesCount ob)"
  then have fits: "16 * unat (snd p) + LENGTH(16) \<le> 32" by (blast intro: offset_range)
  show "\<exists>v. get_half p ob = Inr v \<and> (\<forall>n<LENGTH(16). bit v n = field_bit ob (half_base p + n))"
    using ob sub_bits [OF fits, of _ ob "unat (fst p)"] by (simp add: GetUInt16Value_def ready_values)
  show "\<exists>ob'. put_half p v ob = Inr ob' \<and> ready ob' \<and> m_valuesCount ob' = m_valuesCount ob \<and>
      (\<forall>k<32 * unat (m_valuesCount ob). field_bit ob' k =
        (if half_base p \<le> k \<and> k < half_base p + LENGTH(16) then bit v (k - half_base p) else field_bit ob k))"
    using ob put_sub [OF ob(1) _ fits window_masks(2) refl, of "fst p" v] offset_checks(2) [of "snd p"]
    by (simp add: SetUInt16Value_def ready_values if_distrib [of Inr, symmetric] split del: if_split)
qed (auto simp: index_less dest: offset_range)

lemma bit_MAKE_PAIR64: "bit (MAKE_PAIR64 l h) n \<longleftrightarrow> (if n < 32 then bit l n else bit h (n - 32))"
  by (auto simp: MAKE_PAIR64_def guid_bits dest: bit_imp_le_length)

lemma pair_field_bit:
  "n < 64 \<Longrightarrow> bit (MAKE_PAIR64 (vals ob ! i) (vals ob ! (i + 1))) n = field_bit ob (32 * i + n)"
  using field_bit_at [of n ob i] field_bit_at [of "n - 32" ob "i + 1"]
  by (cases "n < 32") (simp_all add: bit_MAKE_PAIR64)

lemma get_pair:
  assumes "ready ob" and "pair_valid i (m_valuesCount ob)"
  shows "\<exists>v. GetUInt64Value i ob = Inr v \<and> (\<forall>n < LENGTH(64). bit v n \<longleftrightarrow> field_bit ob (32 * unat i + n))"
  using assms pair_field_bit [of _ ob "unat i"] by (simp add: GetUInt64Value_def ready_values)

lemma next_index: "pair_valid i n \<Longrightarrow> unat (i + 1) = unat i + 1" for i n :: u16
proof -
  assume "pair_valid i n"
  moreover have "unat n < 2 ^ LENGTH(16)" by (rule unsigned_less)
  ultimately show ?thesis by (simp add: unat_word_ariths)
qed

lemma pair_part_bits:
  "n < 32 \<Longrightarrow> bit (PAIR64_LOPART v) n = bit v n" "n < 32 \<Longrightarrow> bit (PAIR64_HIPART v) n = bit v (32 + n)"
  by (auto simp: PAIR64_LOPART_def PAIR64_HIPART_def guid_masks guid_bits)

lemma field_bit_store_pair:
  assumes "ready ob" and "pair_valid i (m_valuesCount ob)"
  shows "field_bit (store_pair i v ob) k =
    (if 32 * unat i \<le> k \<and> k < 32 * unat i + 64 then bit v (k - 32 * unat i) else field_bit ob k)"
proof -
  have ix: "unat (i + 1) = unat i + 1" using assms(2) by (rule next_index)
  have "field_bit (store_pair i v ob) k =
      (if k div 32 = unat i + 1 then bit (PAIR64_HIPART v) (k mod 32)
       else if k div 32 = unat i then bit (PAIR64_LOPART v) (k mod 32) else field_bit ob k)"
    using assms by (simp add: store_pair_def field_bit_store ix)
  also have "\<dots> = (if 32 * unat i \<le> k \<and> k < 32 * unat i + 64 then bit v (k - 32 * unat i) else field_bit ob k)"
  proof -
    have w0: "32 * unat i \<le> k \<and> k < 32 * unat i + 32 \<longleftrightarrow> k div 32 = unat i"
      and w1: "32 * (unat i + 1) \<le> k \<and> k < 32 * (unat i + 1) + 32 \<longleftrightarrow> k div 32 = unat i + 1"
      using window_div(1) [of 0 32 "unat i" k] window_div(1) [of 0 32 "unat i + 1" k] by simp_all
    consider (lo) "k div 32 = unat i" | (hi) "k div 32 = unat i + 1"
      | (out) "k div 32 \<noteq> unat i" "k div 32 \<noteq> unat i + 1" by blast
    then show ?thesis
    proof cases
      case lo
      then have "k - 32 * unat i = k mod 32" by (metis minus_mult_div_eq_mod)
      with lo w0 pair_part_bits(1) [of "k mod 32" v] show ?thesis by simp
    next
      case hi
      then have "k - 32 * unat i = 32 + k mod 32"
        using mult_div_mod_eq [of 32 k] by simp
      with hi w1 pair_part_bits(2) [of "k mod 32" v] show ?thesis by simp
    next
      case out
      with w0 w1 have "\<not> (32 * unat i \<le> k \<and> k < 32 * unat i + 64)" by linarith
      with out show ?thesis by auto
    qed
  qed
  finally show ?thesis .
qed

lemma put_pair:
  assumes "ready ob" and "pair_valid i (m_valuesCount ob)"
  shows "\<exists>ob'. SetUInt64Value i v ob = Inr ob' \<and> ready ob' \<and> m_valuesCount ob' = m_valuesCount ob \<and>
    (\<forall>k < 32 * unat (m_valuesCount ob). field_bit ob' k \<longleftrightarrow>
       (if 32 * unat i \<le> k \<and> k < 32 * unat i + LENGTH(64) then bit v (k - 32 * unat i)
        else field_bit ob k))"
proof (cases "MAKE_PAIR64 (vals ob ! unat i) (vals ob ! (unat i + 1)) = v")
  case True
  have "field_bit ob k = bit v (k - 32 * unat i)"
    if "32 * unat i \<le> k" "k < 32 * unat i + 64" for k
    using pair_field_bit [of "k - 32 * unat i" ob "unat i"] that True by simp
  with True assms show ?thesis by (simp add: SetUInt64Value_def ready_values)
next
  case False
  have "ready (store_pair i v ob)" "m_valuesCount (store_pair i v ob) = m_valuesCount ob"
    using assms(1) by (simp_all add: store_pair_def)
  with False assms show ?thesis
    by (simp add: SetUInt64Value_def ready_values field_bit_store_pair)
qed

interpretation pairs: field_view GetUInt64Value SetUInt64Value word_base pair_valid
  using get_pair put_pair by unfold_locales simp_all

interpretation byte_then_pair: two_views get_byte put_byte byte_base byte_valid
    GetUInt64Value SetUInt64Value word_base pair_valid
  by unfold_locales

interpretation byte_then_byte: two_views get_byte put_byte byte_base byte_valid
    get_byte put_byte byte_base byte_valid
  by unfold_locales

interpretation pair_then_half: two_views GetUInt64Value SetUInt64Value word_base pair_valid
    get_half put_half half_base half_valid
  by unfold_locales

text \<open>Whatever width it has, a value written to a field is read back through the accessor of that
  width; writing one byte leaves the other bytes of the field and the pairs it is no part of, and
  writing a pair leaves the halves of other fields.\<close>

theorem field_accessors:
  assumes "ready ob"
  shows "(i < m_valuesCount ob \<longrightarrow> bind_res (SetUInt32Value i v ob) (GetUInt32Value i) = Inr v) \<and>
    (unat i + 1 < unat (m_valuesCount ob) \<longrightarrow>
       bind_res (SetUInt64Value i w ob) (GetUInt64Value i) = Inr w) \<and>
    (i < m_valuesCount ob \<and> k < 4 \<longrightarrow>
       bind_res (SetByteValue i k b ob) (GetByteValue i k) = Inr b) \<and>
    (i < m_valuesCount ob \<and> k < 2 \<longrightarrow>
       bind_res (SetUInt16Value i k h ob) (GetUInt16Value i k) = Inr h) \<and>
    (i < m_valuesCount ob \<and> k < 4 \<and> k' < 4 \<and> k \<noteq> k' \<longrightarrow>
       bind_res (SetByteValue i k b ob) (GetByteValue i k') = GetByteValue i k' ob) \<and>
    (i < m_valuesCount ob \<and> k < 4 \<and> unat j + 1 < unat (m_valuesCount ob) \<and>
       unat i \<noteq> unat j \<and> unat i \<noteq> unat j + 1 \<longrightarrow>
       bind_res (SetByteValue i k b ob) (GetUInt64Value j) = GetUInt64Value j ob) \<and>
    (unat j + 1 < unat (m_valuesCount ob) \<and> i < m_valuesCount ob \<and> k < 2 \<and>
       unat i \<noteq> unat j \<and> unat i \<noteq> unat j + 1 \<longrightarrow>
       bind_res (SetUInt64Value j w ob) (GetUInt16Value i k) = GetUInt16Value i k ob)"
proof (intro conjI impI)
  assume bytes: "i < m_valuesCount ob \<and> k < 4 \<and> k' < 4 \<and> k \<noteq> k'"
  then have "unat k < unat k' \<or> unat k' < unat k" by (auto simp: word_unat_eq_iff)
  then have "8 * unat k + 8 \<le> 8 * unat k' \<or> 8 * unat k' + 8 \<le> 8 * unat k" by linarith
  with bytes show "bind_res (SetByteValue i k b ob) (GetByteValue i k') = GetByteValue i k' ob"
    using byte_then_byte.put_get_other [OF assms, of "(i, k)" "(i, k')" b] by simp
next
  assume apart: "i < m_valuesCount ob \<and> k < 4 \<and> unat j + 1 < unat (m_valuesCount ob) \<and>
    unat i \<noteq> unat j \<and> unat i \<noteq> unat j + 1"
  then have "32 * unat i + 8 * unat k + 8 \<le> 32 * unat j \<or> 32 * unat j + 64 \<le> 32 * unat i + 8 * unat k"
    using offset_range(1) [of k] by auto
  with apart show "bind_res (SetByteValue i k b ob) (GetUInt64Value j) = GetUInt64Value j ob"
    using byte_then_pair.put_get_other [OF assms, of "(i, k)" j b] by simp
next
  assume apart: "unat j + 1 < unat (m_valuesCount ob) \<and> i < m_valuesCount ob \<and> k < 2 \<and>
    unat i \<noteq> unat j \<and> unat i \<noteq> unat j + 1"
  then have "32 * unat j + 64 \<le> 32 * unat i + 16 * unat k \<or> 32 * unat i + 16 * unat k + 16 \<le> 32 * unat j"
    using offset_range(2) [of k] by auto
  with apart show "bind_res (SetUInt64Value j w ob) (GetUInt16Value i k) = GetUInt16Value i k ob"
    using pair_then_half.put_get_other [OF assms, of j "(i, k)" w] by simp
qed (use assms words.put_get pairs.put_get bytes.put_get [of ob "(i, k)"] halves.put_get [of ob "(i, k)"]
     in simp_all)

lemma sample_object_ready: "ready sample_object" "m_valuesCount sample_object = 8"
  by (simp_all add: sample_object_def InitValues_def ready_def obj_wf_def)

theorem field_accessors_witness:
  "bind_res (SetByteValue 3 2 0xAB sample_object) (GetByteValue 3 2) = Inr 0xAB"
  using field_accessors [OF sample_object_ready(1), where i = 3 and k = 2 and b = "0xAB"]
  by (simp add: sample_object_ready)

section \<open>Byte flags\<close>

lemma get_byte_store:
  assumes "ready ob" and "i < m_valuesCount ob" and "k < 4"
  shows "GetByteValue i k (announce (store_field i x ob)) = Inr (ucast (drop_bit (8 * unat k) x))"
  using assms by (auto simp: GetByteValue_def field_values_def index_less elim!: ready_arrays)

lemma byte_or:
  "k < 4 \<Longrightarrow> ucast (drop_bit (8 * unat k) (x OR push_bit (8 * unat k) (ucast f))) =
     ucast (drop_bit (8 * unat k) x) OR (f :: u8)" for x :: u32 and k :: u8
  using offset_range(1) [of k]
  by (intro bit_word_eqI) (auto simp: bit_ucast_iff bit_drop_bit_eq bit_or_iff bit_push_bit_iff)

lemma byte_and_not:
  "k < 4 \<Longrightarrow> ucast (drop_bit (8 * unat k) (x AND NOT (push_bit (8 * unat k) (ucast f)))) =
     ucast (drop_bit (8 * unat k) x) AND NOT (f :: u8)" for x :: u32 and k :: u8
  using offset_range(1) [of k]
  by (intro bit_word_eqI)
    (auto simp: bit_ucast_iff bit_drop_bit_eq bit_and_iff bit_not_iff_eq bit_push_bit_iff)

text \<open>\<^verbatim>\<open>RemoveByteFlag\<close> clears exactly the given flags of a byte, but \<^verbatim>\<open>SetByteFlag\<close> sets them only when
  none of them is set: with one flag of the mask present, the others stay clear.\<close>

theorem byte_flags:
  assumes "ready ob" and "i < m_valuesCount ob" and "k < 4" and "GetByteValue i k ob = Inr old"
  shows "bind_res (SetByteFlag i k f ob) (GetByteValue i k) =
      Inr (if old AND f = 0 then old OR f else old) \<and>
    bind_res (RemoveByteFlag i k f ob) (GetByteValue i k) = Inr (old AND NOT f)"
proof -
  have old: "old = ucast (drop_bit (8 * unat k) (vals ob ! unat i))"
    using assms by (simp add: GetByteValue_def ready_values)
  have keep: "old AND NOT f = old" if "old AND f = 0"
  proof (rule bit_word_eqI)
    fix n
    have "\<not> bit (old AND f) n" using that by simp
    then show "bit (old AND NOT f) n = bit old n" if "n < LENGTH(8)"
      using that by (auto simp: bit_and_iff bit_not_iff_eq)
  qed
  let ?s = "8 * unat k" and ?x = "vals ob ! unat i"
  have "SetByteFlag i k f ob =
      Inr (if old AND f = 0 then announce (store_field i (?x OR push_bit ?s (ucast f)) ob) else ob)"
    and "RemoveByteFlag i k f ob =
      Inr (if old AND f = 0 then ob else announce (store_field i (?x AND NOT (push_bit ?s (ucast f))) ob))"
    using assms(1,2) offset_checks(1) [OF assms(3)]
    by (simp_all add: SetByteFlag_def RemoveByteFlag_def ready_values flip: old)
  moreover have "GetByteValue i k (announce (store_field i (?x OR push_bit ?s (ucast f)) ob)) = Inr (old OR f)"
    and "GetByteValue i k (announce (store_field i (?x AND NOT (push_bit ?s (ucast f))) ob)) =
      Inr (old AND NOT f)"
    by (simp_all only: get_byte_store [OF assms(1-3)] byte_or [OF assms(3)] byte_and_not [OF assms(3)] old)
  ultimately show ?thesis using assms(4) keep by simp
qed

theorem byte_flags_witness:
  "bind_res (bind_res (SetByteFlag 3 1 0x01 sample_object) (SetByteFlag 3 1 0x03)) (GetByteValue 3 1) =
     Inr 0x01"
proof -
  have get0: "GetByteValue 3 1 sample_object = Inr 0"
    by (simp add: sample_object_def InitValues_def GetByteValue_def field_values_def)
  obtain ob where ob: "SetByteFlag 3 1 0x01 sample_object = Inr ob" "ready ob" "m_valuesCount ob = 8"
    "GetByteValue 3 1 ob = Inr 1"
    using byte_flags [OF sample_object_ready(1), of 3 1 0 "0x01"] get0
      edits_frame [OF loud_edits [OF loud_base(9)], of 3 1 "0x01" sample_object]
      sample_object_ready(1) [unfolded ready_def]
    by (auto simp: sample_object_ready bind_res_Inr_iff ready_def)
  with byte_flags [OF ob(2), of 3 1 1 "0x03"] show ?thesis by simp
qed

end
