(* ===== verification/UpdateFieldFlags.thy ===== *)
theory UpdateFieldFlags
  imports ObjectFields
begin

text \<open>
  The visibility tables of \<^verbatim>\<open>game/Entities/Object/Updates/UpdateFieldFlags.cpp\<close>: for every update field
  of every kind of object, the flags that say which players may see it. Runs of equal entries are
  written as \<open>replicate\<close>. The lemmas check the sizes against the field counts of \<^verbatim>\<open>UpdateFields.h\<close>
  and look up the entries the update builder treats specially.
\<close>

section \<open>Flags\<close>

definition UF_FLAG_NONE :: u32 where "UF_FLAG_NONE = 0x000"
definition UF_FLAG_PUBLIC :: u32 where "UF_FLAG_PUBLIC = 0x001"
definition UF_FLAG_PRIVATE :: u32 where "UF_FLAG_PRIVATE = 0x002"
definition UF_FLAG_OWNER :: u32 where "UF_FLAG_OWNER = 0x004"
definition UF_FLAG_UNUSED1 :: u32 where "UF_FLAG_UNUSED1 = 0x008"
definition UF_FLAG_ITEM_OWNER :: u32 where "UF_FLAG_ITEM_OWNER = 0x010"
definition UF_FLAG_SPECIAL_INFO :: u32 where "UF_FLAG_SPECIAL_INFO = 0x020"
definition UF_FLAG_PARTY_MEMBER :: u32 where "UF_FLAG_PARTY_MEMBER = 0x040"
definition UF_FLAG_UNUSED2 :: u32 where "UF_FLAG_UNUSED2 = 0x080"

lemmas uf_flag_defs =
  UF_FLAG_NONE_def UF_FLAG_PUBLIC_def UF_FLAG_PRIVATE_def UF_FLAG_OWNER_def UF_FLAG_UNUSED1_def
  UF_FLAG_ITEM_OWNER_def UF_FLAG_SPECIAL_INFO_def UF_FLAG_PARTY_MEMBER_def UF_FLAG_UNUSED2_def
  UF_FLAG_DYNAMIC_def

section \<open>Field counts\<close>

definition OBJECT_END :: nat where "OBJECT_END = 0x0008"
definition ITEM_END :: nat where "ITEM_END = OBJECT_END + 0x0042"
definition CONTAINER_END :: nat where "CONTAINER_END = ITEM_END + 0x004A"
definition UNIT_END :: nat where "UNIT_END = OBJECT_END + 0x008A"
definition PLAYER_END_NOT_SELF :: u32 where "PLAYER_END_NOT_SELF = 0x0092 + 0x012E"
definition PLAYER_END :: nat where "PLAYER_END = UNIT_END + 0x04D6"
definition GAMEOBJECT_END :: nat where "GAMEOBJECT_END = OBJECT_END + 0x000C"
definition DYNAMICOBJECT_END :: nat where "DYNAMICOBJECT_END = OBJECT_END + 0x0006"
definition CORPSE_END :: nat where "CORPSE_END = OBJECT_END + 0x001C"
definition AREATRIGGER_END :: nat where "AREATRIGGER_END = OBJECT_END + 0x0006"

lemmas end_defs =
  OBJECT_END_def ITEM_END_def CONTAINER_END_def UNIT_END_def PLAYER_END_NOT_SELF_def PLAYER_END_def
  GAMEOBJECT_END_def DYNAMICOBJECT_END_def CORPSE_END_def AREATRIGGER_END_def

section \<open>Tables\<close>

definition ItemUpdateFieldFlags :: "u32 list" where
  "ItemUpdateFieldFlags =
     replicate 7 UF_FLAG_PUBLIC @ replicate 1 UF_FLAG_NONE @ replicate 8 UF_FLAG_PUBLIC @
     replicate 7 (UF_FLAG_OWNER OR UF_FLAG_ITEM_OWNER) @ replicate 48 UF_FLAG_PUBLIC @
     replicate 2 (UF_FLAG_OWNER OR UF_FLAG_ITEM_OWNER) @ replicate 2 UF_FLAG_PUBLIC @
     replicate 1 UF_FLAG_NONE @ replicate 72 UF_FLAG_PUBLIC"

text \<open>The table of units and players is in three parts: the fields of every unit, the fields of a
  player that others may see, and the fields from \<^verbatim>\<open>PLAYER_END_NOT_SELF\<close> on.\<close>

definition UnitFields :: "u32 list" where
  "UnitFields =
     replicate 7 UF_FLAG_PUBLIC @ replicate 1 UF_FLAG_NONE @ replicate 4 UF_FLAG_PUBLIC @
     replicate 2 UF_FLAG_PRIVATE @ replicate 24 UF_FLAG_PUBLIC @
     replicate 10 (UF_FLAG_PRIVATE OR UF_FLAG_OWNER OR UF_FLAG_UNUSED2) @
     replicate 10 UF_FLAG_PUBLIC @ replicate 1 UF_FLAG_PRIVATE @
     replicate 2 UF_FLAG_PUBLIC @ replicate 1 UF_FLAG_DYNAMIC @ replicate 2 UF_FLAG_PUBLIC @
     replicate 4 (UF_FLAG_PRIVATE OR UF_FLAG_OWNER OR UF_FLAG_SPECIAL_INFO) @
     replicate 3 UF_FLAG_PUBLIC @ replicate 2 UF_FLAG_OWNER @ replicate 1 UF_FLAG_DYNAMIC @
     replicate 3 UF_FLAG_PUBLIC @ replicate 1 UF_FLAG_DYNAMIC @ replicate 1 UF_FLAG_PUBLIC @
     replicate 15 (UF_FLAG_PRIVATE OR UF_FLAG_OWNER) @
     replicate 7 (UF_FLAG_PRIVATE OR UF_FLAG_OWNER OR UF_FLAG_SPECIAL_INFO) @
     replicate 14 (UF_FLAG_PRIVATE OR UF_FLAG_OWNER) @ replicate 1 UF_FLAG_PUBLIC @
     replicate 1 (UF_FLAG_PRIVATE OR UF_FLAG_OWNER) @ replicate 1 UF_FLAG_PUBLIC @
     replicate 25 (UF_FLAG_PRIVATE OR UF_FLAG_OWNER) @ replicate 2 UF_FLAG_PUBLIC @
     replicate 1 UF_FLAG_NONE"

definition PlayerNotSelfFields :: "u32 list" where
  "PlayerNotSelfFields =
     replicate 11 UF_FLAG_PUBLIC @ replicate 250 UF_FLAG_PARTY_MEMBER @
     replicate 40 UF_FLAG_PUBLIC @ replicate 1 UF_FLAG_NONE"

definition PlayerSelfFields :: "u32 list" where
  "PlayerSelfFields =
     replicate 936 UF_FLAG_PRIVATE"

definition UnitUpdateFieldFlags :: "u32 list" where
  "UnitUpdateFieldFlags = UnitFields @ PlayerNotSelfFields @ PlayerSelfFields"

definition GameObjectUpdateFieldFlags :: "u32 list" where
  "GameObjectUpdateFieldFlags =
     replicate 7 UF_FLAG_PUBLIC @ replicate 1 UF_FLAG_NONE @ replicate 8 UF_FLAG_PUBLIC @
     replicate 1 UF_FLAG_DYNAMIC @ replicate 3 UF_FLAG_PUBLIC"

definition DynamicObjectUpdateFieldFlags :: "u32 list" where
  "DynamicObjectUpdateFieldFlags =
     replicate 7 UF_FLAG_PUBLIC @ replicate 1 UF_FLAG_NONE @ replicate 2 UF_FLAG_PUBLIC @
     replicate 1 UF_FLAG_DYNAMIC @ replicate 3 UF_FLAG_PUBLIC"

definition CorpseUpdateFieldFlags :: "u32 list" where
  "CorpseUpdateFieldFlags =
     replicate 7 UF_FLAG_PUBLIC @ replicate 1 UF_FLAG_NONE @ replicate 27 UF_FLAG_PUBLIC @
     replicate 1 UF_FLAG_DYNAMIC"

definition AreaTriggerUpdateFieldFlags :: "u32 list" where
  "AreaTriggerUpdateFieldFlags =
     replicate 7 UF_FLAG_PUBLIC @ replicate 1 UF_FLAG_NONE @ replicate 6 UF_FLAG_PUBLIC"

section \<open>Sizes and single entries\<close>

lemmas table_defs =
  ItemUpdateFieldFlags_def UnitFields_def PlayerNotSelfFields_def PlayerSelfFields_def
  UnitUpdateFieldFlags_def GameObjectUpdateFieldFlags_def DynamicObjectUpdateFieldFlags_def
  CorpseUpdateFieldFlags_def AreaTriggerUpdateFieldFlags_def

lemma table_sizes:
  "length ItemUpdateFieldFlags = CONTAINER_END" "length UnitUpdateFieldFlags = PLAYER_END"
  "length UnitFields = UNIT_END" "length PlayerNotSelfFields = 0x012E"
  "length GameObjectUpdateFieldFlags = GAMEOBJECT_END"
  "length DynamicObjectUpdateFieldFlags = DYNAMICOBJECT_END"
  "length CorpseUpdateFieldFlags = CORPSE_END" "length AreaTriggerUpdateFieldFlags = AREATRIGGER_END"
  by (simp_all add: table_defs end_defs)

lemma not_self_count: "unat PLAYER_END_NOT_SELF = UNIT_END + 0x012E"
  by (simp add: end_defs)

text \<open>Every field from \<^verbatim>\<open>PLAYER_END_NOT_SELF\<close> on is private to the player.\<close>

lemma self_fields_private:
  assumes "unat PLAYER_END_NOT_SELF \<le> i" and "i < PLAYER_END"
  shows "UnitUpdateFieldFlags ! i = UF_FLAG_PRIVATE"
proof -
  let ?front = "UnitFields @ PlayerNotSelfFields"
  have front: "length ?front = unat PLAYER_END_NOT_SELF"
    by (simp add: table_sizes not_self_count)
  have "UnitUpdateFieldFlags ! i = (?front @ PlayerSelfFields) ! i"
    by (simp add: UnitUpdateFieldFlags_def)
  also have "\<dots> = PlayerSelfFields ! (i - unat PLAYER_END_NOT_SELF)"
    using assms(1) front by (simp only: nth_append if_not_P not_less)
  also have "\<dots> = UF_FLAG_PRIVATE"
    using assms by (simp add: PlayerSelfFields_def end_defs)
  finally show ?thesis .
qed

end
