(* ===== verification/ObjectUpdate.thy ===== *)
theory ObjectUpdate
  imports ByteBuffer ObjectFields UpdateFieldFlags
begin

text \<open>
  The builder of object updates: \<^verbatim>\<open>Object::GetUpdateFieldData\<close>, \<^verbatim>\<open>IsUpdateFieldVisible\<close>,
  \<^verbatim>\<open>_SetUpdateBits\<close>, \<^verbatim>\<open>_SetCreateBits\<close>, \<^verbatim>\<open>_BuildValuesUpdate\<close>, \<^verbatim>\<open>BuildValuesUpdateBlockForPlayer\<close>,
  \<^verbatim>\<open>BuildOutOfRangeUpdateBlock\<close> and \<^verbatim>\<open>BuildFieldsUpdate\<close> of \<^verbatim>\<open>Object.cpp\<close>, and \<^verbatim>\<open>class UpdateData\<close> of
  \<^verbatim>\<open>UpdateData.h\<close> and \<^verbatim>\<open>UpdateData.cpp\<close>. What the builder asks of the derived classes, of the player
  the update is for and of the data stores are the fields of three records, so every answer they can
  give is covered.
\<close>

section \<open>What the builder asks\<close>

datatype upd_error = MaskError mask_error | FieldError obj_error | BufferError bb_error | NullFlags
  | FlagsOverrun | FieldOverrun | CountAssertion | PacketNotEmpty

definition lift_error :: "('e \<Rightarrow> 'f) \<Rightarrow> 'e + 'a \<Rightarrow> 'f + 'a" where
  "lift_error f r = (case r of Inl e \<Rightarrow> Inl (f e) | Inr a \<Rightarrow> Inr a)"

text \<open>The members of \<^verbatim>\<open>CreatureTemplate\<close> that are read.\<close>

record CreatureTemplate =
  flags_extra :: u32
  Modelid1 :: u32
  Modelid2 :: u32

text \<open>Of the object beyond its update fields: its template data, its auras that set an aura state
  (state and caster), the effects of its transformation (is it an aura of type transform, and the
  template of its \<^verbatim>\<open>MiscValue\<close>), and whether a dynamic object has a caster.\<close>

record Appearance =
  go_info_type :: u32
  go_startFrame :: u32
  go_groupLootRules :: u32
  go_hasLootRecipient :: bool
  creature_template :: CreatureTemplate
  transform_effects :: "(bool \<times> CreatureTemplate option) list"
  creature_hasLootRecipient :: bool
  isControlledByPlayer :: bool
  auraStateAuras :: "(nat \<times> u64) list"
  dynobj_hasCaster :: bool

text \<open>Of the player the update is for, and of its relation to the object. \<open>is_owner\<close> compares the
  owner's (for a dynamic object the caster's) guid with the player's, \<open>is_hostile_faction\<close> says that
  both faction templates exist and the object's is not friendly to the player's.\<close>

record Viewer =
  is_this :: bool
  viewer_guid :: u64
  is_owner :: bool
  casts_empathy :: bool
  in_same_group :: bool
  isGameMaster :: bool
  canSeeSpellClick :: bool
  isCanTraining :: bool
  is_friendly :: bool
  has_tapped :: bool
  isAllowedToLoot :: bool
  casts_stalked :: bool
  in_raid_with :: bool
  is_hostile_faction :: bool
  viewer_faction :: u32
  activates_quest :: bool
  loot_allowed :: bool

text \<open>Of the world: the conversion of a float to \<^verbatim>\<open>uint32\<close>, the first visual of a spell, the map of
  alternative visuals and the option \<^verbatim>\<open>CONFIG_ALLOW_TWO_SIDE_INTERACTION_GROUP\<close>.\<close>

record Stores =
  float_to_uint32 :: "f32 \<Rightarrow> u32"
  spell_visual :: "u32 \<Rightarrow> u32 option"
  sSpellVisualMap :: "u32 \<Rightarrow> u32 option"
  two_side_group :: bool

section \<open>Constants\<close>

definition UPDATETYPE_VALUES :: u8 where "UPDATETYPE_VALUES = 0"
definition UPDATETYPE_CREATE_OBJECT :: u8 where "UPDATETYPE_CREATE_OBJECT = 1"
definition UPDATETYPE_CREATE_OBJECT2 :: u8 where "UPDATETYPE_CREATE_OBJECT2 = 2"
definition UPDATETYPE_OUT_OF_RANGE_OBJECTS :: u8 where "UPDATETYPE_OUT_OF_RANGE_OBJECTS = 3"
definition SMSG_UPDATE_OBJECT :: u32 where "SMSG_UPDATE_OBJECT = 0x4715"

definition TYPEMASK_UNIT :: u16 where "TYPEMASK_UNIT = 0x0008"
definition TYPEMASK_GAMEOBJECT :: u16 where "TYPEMASK_GAMEOBJECT = 0x0020"
definition TYPEMASK_DYNAMICOBJECT :: u16 where "TYPEMASK_DYNAMICOBJECT = 0x0040"

definition OBJECT_FIELD_ENTRY :: nat where "OBJECT_FIELD_ENTRY = 0x05"
definition UNIT_FIELD_FACTIONTEMPLATE :: nat where "UNIT_FIELD_FACTIONTEMPLATE = 0x31"
definition UNIT_FIELD_FLAGS :: nat where "UNIT_FIELD_FLAGS = 0x35"
definition UNIT_FIELD_AURASTATE :: nat where "UNIT_FIELD_AURASTATE = 0x37"
definition UNIT_FIELD_BASEATTACKTIME :: nat where "UNIT_FIELD_BASEATTACKTIME = 0x38"
definition UNIT_FIELD_RANGEDATTACKTIME :: nat where "UNIT_FIELD_RANGEDATTACKTIME = 0x3a"
definition UNIT_FIELD_DISPLAYID :: nat where "UNIT_FIELD_DISPLAYID = 0x3d"
definition UNIT_DYNAMIC_FLAGS :: nat where "UNIT_DYNAMIC_FLAGS = 0x49"
definition UNIT_NPC_FLAGS :: nat where "UNIT_NPC_FLAGS = 0x4d"
definition UNIT_FIELD_POSSTAT0 :: nat where "UNIT_FIELD_POSSTAT0 = 0x54"
definition UNIT_FIELD_POSSTAT4 :: nat where "UNIT_FIELD_POSSTAT4 = 0x58"
definition UNIT_FIELD_NEGSTAT0 :: nat where "UNIT_FIELD_NEGSTAT0 = 0x59"
definition UNIT_FIELD_NEGSTAT4 :: nat where "UNIT_FIELD_NEGSTAT4 = 0x5d"
definition UNIT_FIELD_RESISTANCEBUFFMODSPOSITIVE :: nat where
  "UNIT_FIELD_RESISTANCEBUFFMODSPOSITIVE = 0x65"
definition UNIT_FIELD_RESISTANCEBUFFMODSNEGATIVE :: nat where
  "UNIT_FIELD_RESISTANCEBUFFMODSNEGATIVE = 0x6c"
definition UNIT_FIELD_BYTES_2 :: nat where "UNIT_FIELD_BYTES_2 = 0x75"
definition GAMEOBJECT_FLAGS :: nat where "GAMEOBJECT_FLAGS = 0x0b"
definition GAMEOBJECT_DYNAMIC :: nat where "GAMEOBJECT_DYNAMIC = 0x10"
definition GAMEOBJECT_BYTES_1 :: nat where "GAMEOBJECT_BYTES_1 = 0x13"
definition DYNAMICOBJECT_BYTES :: nat where "DYNAMICOBJECT_BYTES = 0x0a"
definition DYNAMICOBJECT_SPELLID :: nat where "DYNAMICOBJECT_SPELLID = 0x0b"

lemmas field_index_defs =
  OBJECT_FIELD_ENTRY_def UNIT_FIELD_FACTIONTEMPLATE_def UNIT_FIELD_FLAGS_def UNIT_FIELD_AURASTATE_def
  UNIT_FIELD_BASEATTACKTIME_def UNIT_FIELD_RANGEDATTACKTIME_def UNIT_FIELD_DISPLAYID_def
  UNIT_DYNAMIC_FLAGS_def UNIT_NPC_FLAGS_def UNIT_FIELD_POSSTAT0_def UNIT_FIELD_POSSTAT4_def
  UNIT_FIELD_NEGSTAT0_def UNIT_FIELD_NEGSTAT4_def UNIT_FIELD_RESISTANCEBUFFMODSPOSITIVE_def
  UNIT_FIELD_RESISTANCEBUFFMODSNEGATIVE_def UNIT_FIELD_BYTES_2_def GAMEOBJECT_FLAGS_def
  GAMEOBJECT_DYNAMIC_def GAMEOBJECT_BYTES_1_def DYNAMICOBJECT_BYTES_def DYNAMICOBJECT_SPELLID_def

definition PER_CASTER_AURA_STATE_MASK :: u32 where
  "PER_CASTER_AURA_STATE_MASK = push_bit 13 1 OR push_bit 15 1"
definition UNIT_NPC_FLAG_TRAINER :: u32 where "UNIT_NPC_FLAG_TRAINER = 0x10"
definition UNIT_NPC_FLAG_TRAINER_CLASS :: u32 where "UNIT_NPC_FLAG_TRAINER_CLASS = 0x20"
definition UNIT_NPC_FLAG_TRAINER_PROFESSION :: u32 where "UNIT_NPC_FLAG_TRAINER_PROFESSION = 0x40"
definition UNIT_NPC_FLAG_SPELLCLICK :: u32 where "UNIT_NPC_FLAG_SPELLCLICK = 0x01000000"
definition UNIT_FLAG_NOT_SELECTABLE :: u32 where "UNIT_FLAG_NOT_SELECTABLE = 0x02000000"
definition UNIT_DYNFLAG_LOOTABLE :: u32 where "UNIT_DYNFLAG_LOOTABLE = 0x01"
definition UNIT_DYNFLAG_TRACK_UNIT :: u32 where "UNIT_DYNFLAG_TRACK_UNIT = 0x02"
definition UNIT_DYNFLAG_TAPPED :: u32 where "UNIT_DYNFLAG_TAPPED = 0x04"
definition UNIT_DYNFLAG_TAPPED_BY_PLAYER :: u32 where "UNIT_DYNFLAG_TAPPED_BY_PLAYER = 0x08"
definition UNIT_DYNFLAG_DEAD :: u32 where "UNIT_DYNFLAG_DEAD = 0x20"
definition UNIT_BYTE2_FLAG_SANCTUARY :: u32 where "UNIT_BYTE2_FLAG_SANCTUARY = 0x08"
definition CREATURE_FLAG_EXTRA_TRIGGER :: u32 where "CREATURE_FLAG_EXTRA_TRIGGER = 0x80"
definition GAMEOBJECT_TYPE_CHEST :: u32 where "GAMEOBJECT_TYPE_CHEST = 3"
definition GAMEOBJECT_TYPE_GENERIC :: u32 where "GAMEOBJECT_TYPE_GENERIC = 5"
definition GAMEOBJECT_TYPE_GOOBER :: u32 where "GAMEOBJECT_TYPE_GOOBER = 10"
definition GAMEOBJECT_TYPE_TRANSPORT :: u32 where "GAMEOBJECT_TYPE_TRANSPORT = 11"
definition GAMEOBJECT_TYPE_MO_TRANSPORT :: u32 where "GAMEOBJECT_TYPE_MO_TRANSPORT = 15"
definition GO_DYNFLAG_LO_ACTIVATE :: u16 where "GO_DYNFLAG_LO_ACTIVATE = 0x01"
definition GO_DYNFLAG_LO_SPARKLE :: u16 where "GO_DYNFLAG_LO_SPARKLE = 0x08"
definition GO_FLAG_LOCKED :: u32 where "GO_FLAG_LOCKED = 0x02"
definition GO_FLAG_NOT_SELECTABLE :: u32 where "GO_FLAG_NOT_SELECTABLE = 0x10"
definition GO_STATE_TRANSPORT_SPEC :: u32 where "GO_STATE_TRANSPORT_SPEC = 0x18"
definition DYNAMIC_OBJECT_AREA_SPELL :: u32 where "DYNAMIC_OBJECT_AREA_SPELL = 1"

section \<open>Which fields a player may see\<close>

definition isType :: "u16 \<Rightarrow> Object \<Rightarrow> bool" where
  "isType um ob \<longleftrightarrow> um AND m_objectType ob \<noteq> 0"

text \<open>The out-parameters of \<^verbatim>\<open>GetUpdateFieldData\<close>, with the values the callers initialise them with
  where a branch leaves one alone.\<close>

record FieldData =
  field_flags :: "u32 list option"
  isOwner :: bool
  isItemOwner :: bool
  hasSpecialInfo :: bool
  isPartyMember :: bool

definition GetUpdateFieldData :: "Viewer \<Rightarrow> Object \<Rightarrow> FieldData" where
  "GetUpdateFieldData v ob =
     (let init = \<lparr>field_flags = None, isOwner = False, isItemOwner = False, hasSpecialInfo = False,
                  isPartyMember = False\<rparr> in
      case m_objectTypeId ob of
        TYPEID_ITEM \<Rightarrow>
          init\<lparr>field_flags := Some ItemUpdateFieldFlags, isOwner := is_owner v, isItemOwner := is_owner v\<rparr>
      | TYPEID_CONTAINER \<Rightarrow>
          init\<lparr>field_flags := Some ItemUpdateFieldFlags, isOwner := is_owner v, isItemOwner := is_owner v\<rparr>
      | TYPEID_UNIT \<Rightarrow>
          init\<lparr>field_flags := Some UnitUpdateFieldFlags, isOwner := is_owner v,
               hasSpecialInfo := casts_empathy v, isPartyMember := in_same_group v\<rparr>
      | TYPEID_PLAYER \<Rightarrow>
          init\<lparr>field_flags := Some UnitUpdateFieldFlags, isOwner := is_owner v,
               hasSpecialInfo := casts_empathy v, isPartyMember := in_same_group v\<rparr>
      | TYPEID_GAMEOBJECT \<Rightarrow>
          init\<lparr>field_flags := Some GameObjectUpdateFieldFlags, isOwner := is_owner v\<rparr>
      | TYPEID_DYNAMICOBJECT \<Rightarrow>
          init\<lparr>field_flags := Some DynamicObjectUpdateFieldFlags, isOwner := is_owner v\<rparr>
      | TYPEID_CORPSE \<Rightarrow>
          init\<lparr>field_flags := Some CorpseUpdateFieldFlags, isOwner := is_owner v\<rparr>
      | TYPEID_AREATRIGGER \<Rightarrow> init\<lparr>field_flags := Some AreaTriggerUpdateFieldFlags\<rparr>
      | TYPEID_OBJECT \<Rightarrow> init)"

definition IsUpdateFieldVisible :: "u32 \<Rightarrow> bool \<Rightarrow> bool \<Rightarrow> bool \<Rightarrow> bool \<Rightarrow> bool" where
  "IsUpdateFieldVisible flags isSelf owner itemOwner partyMember =
     (if flags = UF_FLAG_NONE then False
      else if flags AND UF_FLAG_PUBLIC \<noteq> 0 then True
      else if flags AND UF_FLAG_PRIVATE \<noteq> 0 \<and> isSelf then True
      else if flags AND UF_FLAG_OWNER \<noteq> 0 \<and> owner then True
      else if flags AND UF_FLAG_ITEM_OWNER \<noteq> 0 \<and> itemOwner then True
      else if flags AND UF_FLAG_PARTY_MEMBER \<noteq> 0 \<and> partyMember then True
      else False)"

text \<open>The number of fields an update covers: a player's private fields go to that player only.\<close>

definition update_count :: "Viewer \<Rightarrow> Object \<Rightarrow> u32" where
  "update_count v ob =
     (if m_objectTypeId ob = TYPEID_PLAYER \<and> \<not> is_this v then PLAYER_END_NOT_SELF
      else ucast (m_valuesCount ob))"

text \<open>The loop body \<^verbatim>\<open>_SetUpdateBits\<close> and \<^verbatim>\<open>_SetCreateBits\<close> share; they differ in the array that is
  consulted last, the marks of changed fields or the values themselves.\<close>

definition mark_field ::
  "Viewer \<Rightarrow> Object \<Rightarrow> bool list option \<Rightarrow> nat \<Rightarrow> UpdateMask \<Rightarrow> upd_error + UpdateMask" where
  "mark_field v ob marks index m =
     (let fd = GetUpdateFieldData v ob in
      case field_flags fd of
        None \<Rightarrow> Inl NullFlags
      | Some fs \<Rightarrow>
          if length fs \<le> index then Inl FlagsOverrun
          else if ucast (fieldNotifyFlags ob) AND fs ! index \<noteq> 0 \<or>
            fs ! index AND UF_FLAG_SPECIAL_INFO \<noteq> 0 \<and> hasSpecialInfo fd
          then lift_error MaskError (SetBit (of_nat index) m)
          else (case marks of
              None \<Rightarrow> Inl (FieldError NullValues)
            | Some cs \<Rightarrow>
                if length cs \<le> index then Inl FieldOverrun
                else if cs ! index \<and> IsUpdateFieldVisible (fs ! index) (is_this v) (isOwner fd)
                  (isItemOwner fd) (isPartyMember fd)
                then lift_error MaskError (SetBit (of_nat index) m)
                else Inr m))"

definition SetUpdateBits :: "Viewer \<Rightarrow> Object \<Rightarrow> UpdateMask \<Rightarrow> upd_error + UpdateMask" where
  "SetUpdateBits v ob =
     run_all (map (mark_field v ob (changedFields ob)) [0..<unat (update_count v ob)])"

definition SetCreateBits :: "Viewer \<Rightarrow> Object \<Rightarrow> UpdateMask \<Rightarrow> upd_error + UpdateMask" where
  "SetCreateBits v ob =
     run_all (map (mark_field v ob (map_option (map (\<lambda>x. x \<noteq> 0)) (m_uint32Values ob)))
       [0..<unat (update_count v ob)])"

section \<open>The values a player gets\<close>

definition IsTransport :: "Appearance \<Rightarrow> bool" where
  "IsTransport a \<longleftrightarrow>
     go_info_type a = GAMEOBJECT_TYPE_TRANSPORT \<or> go_info_type a = GAMEOBJECT_TYPE_MO_TRANSPORT"

definition IsDynTransport :: "Appearance \<Rightarrow> bool" where
  "IsDynTransport a \<longleftrightarrow>
     go_info_type a = GAMEOBJECT_TYPE_MO_TRANSPORT \<or>
     go_info_type a = GAMEOBJECT_TYPE_TRANSPORT \<and> go_startFrame a = 0"

definition GetGoType :: "u32 obj_read" where
  "GetGoType ob = bind_res (GetByteValue (of_nat GAMEOBJECT_BYTES_1) 1 ob) (\<lambda>t. Inr (ucast t))"

definition GetGoArtKit :: "u8 obj_read" where
  "GetGoArtKit = GetByteValue (of_nat GAMEOBJECT_BYTES_1) 2"

definition GetAlternativeVisual :: "Stores \<Rightarrow> u32 \<Rightarrow> u32" where
  "GetAlternativeVisual st visualId =
     (case sSpellVisualMap st visualId of None \<Rightarrow> 0 | Some alt \<Rightarrow> alt)"

definition BuildAuraStateUpdateForTarget :: "Appearance \<Rightarrow> Viewer \<Rightarrow> u32 \<Rightarrow> u32" where
  "BuildAuraStateUpdateForTarget a v states =
     fold (\<lambda>(state, caster) r.
         if push_bit (state - 1) 1 AND PER_CASTER_AURA_STATE_MASK \<noteq> 0 \<and> caster = viewer_guid v
         then r OR push_bit (state - 1) 1 else r)
       (auraStateAuras a) (states AND NOT PER_CASTER_AURA_STATE_MASK)"

definition npc_flags_for :: "Viewer \<Rightarrow> TypeID \<Rightarrow> u32 \<Rightarrow> u32" where
  "npc_flags_for v typ flags =
     (if typ = TYPEID_UNIT
      then let f1 = (if \<not> canSeeSpellClick v then flags AND NOT UNIT_NPC_FLAG_SPELLCLICK else flags)
           in if f1 AND UNIT_NPC_FLAG_TRAINER \<noteq> 0 \<and> \<not> isCanTraining v
              then f1 AND NOT (UNIT_NPC_FLAG_TRAINER OR UNIT_NPC_FLAG_TRAINER_CLASS OR
                     UNIT_NPC_FLAG_TRAINER_PROFESSION)
              else f1
      else flags)"

text \<open>The template shown: the first transform effect with a template wins.\<close>

definition shown_template :: "Appearance \<Rightarrow> CreatureTemplate" where
  "shown_template a =
     (case filter (\<lambda>(aura, t). aura \<and> t \<noteq> None) (take 3 (transform_effects a)) of
        (_, Some t) # _ \<Rightarrow> t
      | _ \<Rightarrow> creature_template a)"

definition display_id_for :: "Appearance \<Rightarrow> Viewer \<Rightarrow> TypeID \<Rightarrow> u32 \<Rightarrow> u32 \<Rightarrow> u32" where
  "display_id_for a v typ entry displayId =
     (if typ = TYPEID_UNIT
      then let cinfo = shown_template a in
           if entry = 44199 then (if \<not> is_friendly v then 34997 else displayId)
           else if flags_extra cinfo AND CREATURE_FLAG_EXTRA_TRIGGER \<noteq> 0
           then if isGameMaster v
                then if Modelid1 cinfo \<noteq> 0 then Modelid1 cinfo else 17519
                else if Modelid2 cinfo \<noteq> 0 then Modelid2 cinfo else 11686
           else displayId
      else displayId)"

definition dynamic_flags_for :: "Appearance \<Rightarrow> Viewer \<Rightarrow> TypeID \<Rightarrow> u32 \<Rightarrow> u32" where
  "dynamic_flags_for a v typ flags =
     (let f1 =
        (if typ = TYPEID_UNIT
         then let t =
                (if creature_hasLootRecipient a
                 then if has_tapped v
                      then flags OR (UNIT_DYNFLAG_TAPPED OR UNIT_DYNFLAG_TAPPED_BY_PLAYER)
                      else (flags OR UNIT_DYNFLAG_TAPPED) AND NOT UNIT_DYNFLAG_TAPPED_BY_PLAYER
                 else (flags AND NOT UNIT_DYNFLAG_TAPPED) AND NOT UNIT_DYNFLAG_TAPPED_BY_PLAYER)
              in if \<not> isAllowedToLoot v then t AND NOT UNIT_DYNFLAG_LOOTABLE else t
         else if is_this v then flags AND NOT UNIT_DYNFLAG_DEAD else flags)
      in if f1 AND UNIT_DYNFLAG_TRACK_UNIT \<noteq> 0 \<and> \<not> casts_stalked v
         then f1 AND NOT UNIT_DYNFLAG_TRACK_UNIT else f1)"

definition faction_value_for :: "Stores \<Rightarrow> Appearance \<Rightarrow> Viewer \<Rightarrow> nat \<Rightarrow> u32 \<Rightarrow> u32" where
  "faction_value_for st a v index x =
     (if isControlledByPlayer a \<and> \<not> is_this v \<and> two_side_group st \<and> in_raid_with v
      then if is_hostile_faction v
           then if index = UNIT_FIELD_BYTES_2 then x AND push_bit 8 UNIT_BYTE2_FLAG_SANCTUARY
                else viewer_faction v
           else x
      else x)"

text \<open>The value of one field of a unit: the chain of cases of the first loop.\<close>

definition unit_value :: "Stores \<Rightarrow> Appearance \<Rightarrow> Viewer \<Rightarrow> TypeID \<Rightarrow> u32 list \<Rightarrow> nat \<Rightarrow> u32" where
  "unit_value st a v typ vs index =
     (let x = vs ! index in
      if index = UNIT_NPC_FLAGS then npc_flags_for v typ x
      else if index = UNIT_FIELD_AURASTATE then BuildAuraStateUpdateForTarget a v x
      else if UNIT_FIELD_BASEATTACKTIME \<le> index \<and> index \<le> UNIT_FIELD_RANGEDATTACKTIME
      then float_to_uint32 st (if float_negative x then 0 else x)
      else if UNIT_FIELD_NEGSTAT0 \<le> index \<and> index \<le> UNIT_FIELD_NEGSTAT4 \<or>
        UNIT_FIELD_RESISTANCEBUFFMODSPOSITIVE \<le> index \<and>
          index \<le> UNIT_FIELD_RESISTANCEBUFFMODSPOSITIVE + 6 \<or>
        UNIT_FIELD_RESISTANCEBUFFMODSNEGATIVE \<le> index \<and>
          index \<le> UNIT_FIELD_RESISTANCEBUFFMODSNEGATIVE + 6 \<or>
        UNIT_FIELD_POSSTAT0 \<le> index \<and> index \<le> UNIT_FIELD_POSSTAT4
      then float_to_uint32 st x
      else if index = UNIT_FIELD_FLAGS
      then if isGameMaster v then x AND NOT UNIT_FLAG_NOT_SELECTABLE else x
      else if index = UNIT_FIELD_DISPLAYID
      then display_id_for a v typ (vs ! OBJECT_FIELD_ENTRY) x
      else if index = UNIT_DYNAMIC_FLAGS then dynamic_flags_for a v typ x
      else if index = UNIT_FIELD_BYTES_2 \<or> index = UNIT_FIELD_FACTIONTEMPLATE
      then faction_value_for st a v index x
      else x)"

text \<open>The low half of \<^verbatim>\<open>GAMEOBJECT_DYNAMIC\<close>.\<close>

definition quest_dynflags :: "Viewer \<Rightarrow> bool \<Rightarrow> u32 \<Rightarrow> u16" where
  "quest_dynflags v activate gotype =
     (if activate
      then if gotype = GAMEOBJECT_TYPE_CHEST
           then if isGameMaster v then GO_DYNFLAG_LO_ACTIVATE
                else GO_DYNFLAG_LO_ACTIVATE OR GO_DYNFLAG_LO_SPARKLE
           else if gotype = GAMEOBJECT_TYPE_GENERIC
           then if isGameMaster v then 0 else GO_DYNFLAG_LO_SPARKLE
           else if gotype = GAMEOBJECT_TYPE_GOOBER
           then if isGameMaster v then GO_DYNFLAG_LO_ACTIVATE
                else GO_DYNFLAG_LO_ACTIVATE OR GO_DYNFLAG_LO_SPARKLE
           else 0
      else 0)"

definition write_gameobject_field ::
  "Appearance \<Rightarrow> Viewer \<Rightarrow> bool \<Rightarrow> Object \<Rightarrow> u32 list \<Rightarrow> nat \<Rightarrow> bytebuffer \<Rightarrow> upd_error + bytebuffer"
where
  "write_gameobject_field a v activate ob vs index data =
     (if index = GAMEOBJECT_DYNAMIC
      then bind_res (lift_error FieldError (GetGoType ob)) (\<lambda>gotype.
           lift_error BufferError (run_all
             [append_u16 (quest_dynflags v activate gotype), append_u16 (- 1)] data))
      else if index = GAMEOBJECT_FLAGS
      then bind_res (lift_error FieldError (GetGoType ob)) (\<lambda>gotype.
           lift_error BufferError (append_u32
             (if gotype = GAMEOBJECT_TYPE_CHEST \<and> go_groupLootRules a \<noteq> 0 \<and> \<not> loot_allowed v
              then vs ! index OR (GO_FLAG_LOCKED OR GO_FLAG_NOT_SELECTABLE) else vs ! index) data))
      else if index = GAMEOBJECT_BYTES_1
      then lift_error BufferError (append_u32
             (if go_info_type a = GAMEOBJECT_TYPE_TRANSPORT
              then vs ! index OR GO_STATE_TRANSPORT_SPEC else vs ! index) data)
      else lift_error BufferError (append_u32 (vs ! index) data))"

definition other_value :: "Stores \<Rightarrow> Appearance \<Rightarrow> Viewer \<Rightarrow> Object \<Rightarrow> u32 list \<Rightarrow> nat \<Rightarrow> u32" where
  "other_value st a v ob vs index =
     (if isType TYPEMASK_DYNAMICOBJECT ob \<and> index = DYNAMICOBJECT_BYTES \<and> dynobj_hasCaster a
      then case spell_visual st (vs ! DYNAMICOBJECT_SPELLID) of
             None \<Rightarrow> vs ! index
           | Some visual \<Rightarrow>
               let alternativeVisual = GetAlternativeVisual st visual in
               if alternativeVisual \<noteq> 0 \<and> \<not> is_friendly v
               then alternativeVisual OR push_bit 28 DYNAMIC_OBJECT_AREA_SPELL
               else vs ! index
      else vs ! index)"

section \<open>The values block\<close>

text \<open>Fields that are sent whatever the visibility loop found.\<close>

definition extra_fields :: "u8 \<Rightarrow> Appearance \<Rightarrow> Object \<Rightarrow> upd_error + nat list" where
  "extra_fields updatetype a ob =
     (let aura = (\<lambda>_. bind_res (lift_error FieldError
                   (HasFlag (of_nat UNIT_FIELD_AURASTATE) PER_CASTER_AURA_STATE_MASK ob))
                   (\<lambda>has. Inr (if has then [UNIT_FIELD_AURASTATE] else []))) in
      if updatetype = UPDATETYPE_CREATE_OBJECT \<or> updatetype = UPDATETYPE_CREATE_OBJECT2
      then if isType TYPEMASK_GAMEOBJECT ob \<and> \<not> IsDynTransport a
           then bind_res (lift_error FieldError (GetGoArtKit ob)) (\<lambda>kit.
                  Inr (if kit \<noteq> 0 then [GAMEOBJECT_DYNAMIC, GAMEOBJECT_BYTES_1]
                       else [GAMEOBJECT_DYNAMIC]))
           else if isType TYPEMASK_UNIT ob then aura () else Inr []
      else if isType TYPEMASK_GAMEOBJECT ob \<and> \<not> IsTransport a
      then bind_res (lift_error FieldError (GetGoType ob)) (\<lambda>gotype.
             Inr (if gotype = GAMEOBJECT_TYPE_CHEST \<and> go_groupLootRules a \<noteq> 0 \<and> go_hasLootRecipient a
                  then [GAMEOBJECT_DYNAMIC, GAMEOBJECT_BYTES_1, GAMEOBJECT_FLAGS]
                  else [GAMEOBJECT_DYNAMIC, GAMEOBJECT_BYTES_1]))
      else if isType TYPEMASK_UNIT ob then aura () else Inr [])"

definition IsActivateToQuest :: "u8 \<Rightarrow> Appearance \<Rightarrow> Viewer \<Rightarrow> Object \<Rightarrow> bool" where
  "IsActivateToQuest updatetype a v ob \<longleftrightarrow>
     isType TYPEMASK_GAMEOBJECT ob \<and>
     \<not> (if updatetype = UPDATETYPE_CREATE_OBJECT \<or> updatetype = UPDATETYPE_CREATE_OBJECT2
        then IsDynTransport a else IsTransport a) \<and>
     (activates_quest v \<or> isGameMaster v)"

definition write_field ::
  "Stores \<Rightarrow> Appearance \<Rightarrow> Viewer \<Rightarrow> bool \<Rightarrow> Object \<Rightarrow> u32 list \<Rightarrow> nat \<Rightarrow> bytebuffer \<Rightarrow>
    upd_error + bytebuffer" where
  "write_field st a v activate ob vs index data =
     (if isType TYPEMASK_UNIT ob
      then lift_error BufferError
             (append_u32 (unit_value st a v (m_objectTypeId ob) vs index) data)
      else if isType TYPEMASK_GAMEOBJECT ob then write_gameobject_field a v activate ob vs index data
      else lift_error BufferError (append_u32 (other_value st a v ob vs index) data))"

text \<open>The loops over the fields write the ones whose bit is set.\<close>

definition write_marked ::
  "Stores \<Rightarrow> Appearance \<Rightarrow> Viewer \<Rightarrow> bool \<Rightarrow> Object \<Rightarrow> UpdateMask \<Rightarrow> nat \<Rightarrow> bytebuffer \<Rightarrow>
    upd_error + bytebuffer" where
  "write_marked st a v activate ob um index data =
     bind_res (lift_error MaskError (GetBit (of_nat index) um)) (\<lambda>marked.
       if marked
       then bind_res (lift_error FieldError (field_values ob)) (\<lambda>vs.
              if length vs \<le> index then Inl FieldOverrun
              else write_field st a v activate ob vs index data)
       else Inr data)"

definition BuildValuesUpdate ::
  "Stores \<Rightarrow> Appearance \<Rightarrow> Viewer \<Rightarrow> u8 \<Rightarrow> Object \<Rightarrow> UpdateMask \<Rightarrow> bytebuffer \<Rightarrow>
    upd_error + bytebuffer" where
  "BuildValuesUpdate st a v updatetype ob updateMask data =
     bind_res (extra_fields updatetype a ob) (\<lambda>extra.
     bind_res (run_all (map (\<lambda>i m. lift_error MaskError (SetBit (of_nat i) m)) extra) updateMask) (\<lambda>um.
       if GetCount um \<noteq> update_count v ob then Inl CountAssertion
       else
         bind_res (lift_error BufferError (append_u8 (ucast (GetBlockCount um)) data)) (\<lambda>d1.
         bind_res (lift_error BufferError
             (append_raw (take (unat (GetLength um)) (GetMask um)) d1))
           (run_all (map (write_marked st a v (IsActivateToQuest updatetype a v ob) ob um)
             [0..<unat (update_count v ob)])))))"

section \<open>Update packets\<close>

record UpdateData =
  m_map :: u16
  m_blockCount :: u32
  m_outOfRangeGUIDs :: "u64 set"
  m_data :: bytebuffer

definition UpdateData_new :: "u16 \<Rightarrow> UpdateData" where
  "UpdateData_new mapId =
     \<lparr>m_map = mapId, m_blockCount = 0, m_outOfRangeGUIDs = {}, m_data = bb_new\<rparr>"

definition AddOutOfRangeGUIDs :: "u64 set \<Rightarrow> UpdateData \<Rightarrow> UpdateData" where
  "AddOutOfRangeGUIDs guids ud = ud\<lparr>m_outOfRangeGUIDs := m_outOfRangeGUIDs ud \<union> guids\<rparr>"

definition AddOutOfRangeGUID :: "u64 \<Rightarrow> UpdateData \<Rightarrow> UpdateData" where
  "AddOutOfRangeGUID guid ud = ud\<lparr>m_outOfRangeGUIDs := insert guid (m_outOfRangeGUIDs ud)\<rparr>"

definition AddUpdateBlock :: "bytebuffer \<Rightarrow> UpdateData \<Rightarrow> upd_error + UpdateData" where
  "AddUpdateBlock block ud =
     bind_res (lift_error BufferError (append_buffer block (m_data ud)))
       (\<lambda>d. Inr (ud\<lparr>m_data := d, m_blockCount := m_blockCount ud + 1\<rparr>))"

definition HasData :: "UpdateData \<Rightarrow> bool" where
  "HasData ud \<longleftrightarrow> 0 < m_blockCount ud \<or> m_outOfRangeGUIDs ud \<noteq> {}"

text \<open>\<^verbatim>\<open>UpdateData::Clear\<close>.\<close>

definition UpdateData_Clear :: "UpdateData \<Rightarrow> UpdateData" where
  "UpdateData_Clear ud =
     ud\<lparr>m_data := bb_clear (m_data ud), m_outOfRangeGUIDs := {}, m_blockCount := 0, m_map := 0\<rparr>"

text \<open>The packet: its opcode and its buffer. \<^verbatim>\<open>Initialize\<close> clears the buffer and sets the opcode; a
  \<^verbatim>\<open>std::set\<close> is iterated in ascending order.\<close>

definition BuildPacket :: "UpdateData \<Rightarrow> bytebuffer \<Rightarrow> upd_error + u32 \<times> bytebuffer" where
  "BuildPacket ud packet =
     (if \<not> bb_empty packet then Inl PacketNotEmpty
      else
        let gone = sorted_list_of_set (m_outOfRangeGUIDs ud) in
        bind_res (lift_error BufferError (run_all
            ([append_u16 (m_map ud),
              append_u32 (m_blockCount ud + (if gone = [] then 0 else 1))] @
             (if gone = [] then []
              else [append_u8 UPDATETYPE_OUT_OF_RANGE_OBJECTS, append_u32 (of_nat (length gone))] @
                   map appendPackGUID gone) @
             [append_buffer (m_data ud)]) (bb_clear packet)))
          (\<lambda>p. Inr (SMSG_UPDATE_OBJECT, p)))"

definition BuildValuesUpdateBlockForPlayer ::
  "Stores \<Rightarrow> Appearance \<Rightarrow> Viewer \<Rightarrow> Object \<Rightarrow> UpdateData \<Rightarrow> upd_error + UpdateData" where
  "BuildValuesUpdateBlockForPlayer st a v ob ud =
     bind_res (lift_error BufferError
         (run_all [append_u8 UPDATETYPE_VALUES, append_buffer (m_PackGUID ob)] bb_new)) (\<lambda>buf.
     bind_res (SetUpdateBits v ob (SetCount (update_count v ob) UpdateMask_new)) (\<lambda>um.
     bind_res (BuildValuesUpdate st a v UPDATETYPE_VALUES ob um buf) (\<lambda>block.
       AddUpdateBlock block ud)))"

definition BuildOutOfRangeUpdateBlock :: "Object \<Rightarrow> UpdateData \<Rightarrow> upd_error + UpdateData" where
  "BuildOutOfRangeUpdateBlock ob ud =
     bind_res (lift_error FieldError (GetGUID ob)) (\<lambda>g. Inr (AddOutOfRangeGUID g ud))"

text \<open>\<^verbatim>\<open>UpdateDataMapType\<close> maps players to their update data; the key here is the player's guid and
  \<open>mapId\<close> the player's map.\<close>

definition BuildFieldsUpdate ::
  "Stores \<Rightarrow> Appearance \<Rightarrow> Viewer \<Rightarrow> u16 \<Rightarrow> Object \<Rightarrow> (u64 \<Rightarrow> UpdateData option) \<Rightarrow>
    upd_error + (u64 \<Rightarrow> UpdateData option)" where
  "BuildFieldsUpdate st a v mapId ob data_map =
     (let ud = (case data_map (viewer_guid v) of None \<Rightarrow> UpdateData_new mapId | Some ud \<Rightarrow> ud) in
      bind_res (BuildValuesUpdateBlockForPlayer st a v ob ud) (\<lambda>ud'.
        Inr (data_map(viewer_guid v \<mapsto> ud'))))"

end
