(* ===== verification/ObjectUpdateProps.thy ===== *)
theory ObjectUpdateProps
  imports ByteBufferProps ObjectUpdate
begin

text \<open>
  Correctness of the update builder. The client's side of the protocol is the specification: it reads
  the mask and then one value per set bit. The theorems show that a values block is read back as
  exactly the fields the player may see, each with the value meant for that player, that private fields
  stay private, and that a whole packet of blocks and lost objects is read back.
\<close>

section \<open>Lifted errors and blocks of statements\<close>

lemma lift_error_simps [simp]:
  "lift_error f (Inl e) = Inl (f e)" "lift_error f (Inr a) = Inr a"
  by (simp_all add: lift_error_def)

lemma run_all_lift:
  assumes "\<And>x s. x \<in> set xs \<Longrightarrow> f x s = lift_error e (g x s)"
  shows "run_all (map f xs) s = lift_error e (run_all (map g xs) s)"
  using assms
proof (induction xs arbitrary: s)
  case (Cons x xs)
  then show ?case by (cases "g x s") simp_all
qed simp

text \<open>\<open>puts f xs\<close>: with no bits pending, \<open>f\<close> appends the bytes \<open>xs\<close>.\<close>

definition puts :: "(bytebuffer \<Rightarrow> 'e + bytebuffer) \<Rightarrow> u8 list \<Rightarrow> bool" where
  "puts f xs \<longleftrightarrow> (\<forall>d r. length d + length xs < 10000000 \<longrightarrow>
     f (laid_out d [] r) = Inr (laid_out (d @ xs) [] r))"

lemma putsD:
  "puts f xs \<Longrightarrow> length d + length xs < 10000000 \<Longrightarrow> f (laid_out d [] r) = Inr (laid_out (d @ xs) [] r)"
  by (simp add: puts_def)

lemma puts_nothing [emits]: "puts Inr []"
  by (simp add: puts_def)

lemma puts_append_val [emits]: "xs \<noteq> [] \<Longrightarrow> puts (append_val xs) xs"
  by (cases xs) (simp_all add: puts_def append_val_laid_out flush_bytes_def)

lemma puts_append_raw [emits]: "xs \<noteq> [] \<Longrightarrow> puts (append_raw xs) xs"
  by (cases xs) (simp_all add: puts_def append_raw_laid_out)

lemma puts_append_word [emits]:
  "puts (append_u8 w8) [w8]" "puts (append_u16 w16) (le_bytes 2 w16)"
  "puts (append_u32 w32) (le_bytes 4 w32)"
  by (simp_all add: append_u8_def append_u16_def append_u32_def puts_append_val)

lemma puts_append_buffer [emits]: "puts (append_buffer (laid_out xs [] r)) xs"
proof (cases "xs = []")
  case True
  then show ?thesis by (simp add: puts_def append_buffer_def laid_out_def)
next
  case False
  then have "append_buffer (laid_out xs [] r) = append_raw xs"
    by (auto simp: append_buffer_def laid_out_def fun_eq_iff)
  with False show ?thesis by (simp add: puts_append_raw)
qed

lemma puts_lift [emits]: "puts f xs \<Longrightarrow> puts (\<lambda>b. lift_error e (f b)) xs"
  by (simp add: puts_def)

lemma puts_bind: "puts f xs \<Longrightarrow> puts g ys \<Longrightarrow> puts (\<lambda>b. bind_res (f b) g) (xs @ ys)"
  by (simp add: puts_def)

lemma puts_Cons: "puts f xs \<Longrightarrow> puts (run_all fs) ys \<Longrightarrow> puts (run_all (f # fs)) (xs @ ys)"
  using puts_bind [of f xs "run_all fs" ys] by (simp add: run_all_Cons puts_def)

lemma puts_append: "puts (run_all fs) xs \<Longrightarrow> puts (run_all gs) ys \<Longrightarrow> puts (run_all (fs @ gs)) (xs @ ys)"
  using puts_bind [of "run_all fs" xs "run_all gs" ys] by (simp add: run_all_append puts_def)

lemma puts_map:
  "(\<And>x. x \<in> set xs \<Longrightarrow> puts (f x) (g x)) \<Longrightarrow> puts (run_all (map f xs)) (concat (map g xs))"
proof (induction xs)
  case Nil
  then show ?case by (simp add: puts_def)
next
  case (Cons x xs)
  then show ?case unfolding list.map concat.simps by (intro puts_Cons) simp_all
qed

section \<open>The client's reader\<close>

primrec read_words :: "nat \<Rightarrow> u32 list bb_read" where
  "read_words 0 b = Inr ([], b)"
| "read_words (Suc n) b =
     bind_res (read_u32 b) (\<lambda>(w, b1). bind_res (read_words n b1) (\<lambda>(ws, b2). Inr (w # ws, b2)))"

definition mask_indexes :: "u32 list \<Rightarrow> nat list" where
  "mask_indexes bs = filter (\<lambda>i. bit (bs ! (i div 32)) (i mod 32)) [0..<32 * length bs]"

definition read_values :: "(nat \<times> u32) list bb_read" where
  "read_values b =
     bind_res (read_u8 b) (\<lambda>(n, b1).
     bind_res (read_words (unat n) b1) (\<lambda>(bs, b2).
     bind_res (read_words (length (mask_indexes bs)) b2) (\<lambda>(vs, b3).
       Inr (zip (mask_indexes bs) vs, b3))))"

definition read_update_block :: "(u8 \<times> u64 \<times> (nat \<times> u32) list) bb_read" where
  "read_update_block b =
     bind_res (read_u8 b) (\<lambda>(typ, b1).
     bind_res (readPackGUID b1) (\<lambda>(guid, b2).
     bind_res (read_values b2) (\<lambda>(fields, b3). Inr ((typ, guid, fields), b3))))"

text \<open>\<open>gets rd xs x\<close>: where the bytes \<open>xs\<close> come next, \<open>rd\<close> consumes them and returns \<open>x\<close>.\<close>

definition gets :: "'a bb_read \<Rightarrow> u8 list \<Rightarrow> 'a \<Rightarrow> bool" where
  "gets rd xs x \<longleftrightarrow> (\<forall>d rest. rd (laid_out (d @ xs @ rest) [] (length d)) =
     Inr (x, laid_out (d @ xs @ rest) [] (length (d @ xs))))"

lemma getsD:
  "gets rd xs x \<Longrightarrow> rd (laid_out (d @ xs @ rest) [] (length d)) =
     Inr (x, laid_out (d @ xs @ rest) [] (length (d @ xs)))"
  by (simp add: gets_def)

lemma gets_read_u8: "gets read_u8 [w] w"
  by (simp add: gets_def laid_out_def read_u8_def read_val_def read_at_def bb_size_def)

lemma gets_word: "gets read_u16 (le_bytes 2 w16) w16" "gets read_u32 (le_bytes 4 w32) w32"
  by (simp_all add: gets_def laid_out_def read_u16_def read_u32_def read_val_def read_at_def bb_size_def
      le_word_le_bytes)

lemma gets_bind:
  assumes f: "gets f xs x" and g: "gets (g x) ys y"
  shows "gets (\<lambda>b. bind_res (f b) (\<lambda>(z, b'). g z b')) (xs @ ys) y"
  unfolding gets_def
proof (intro allI)
  fix d rest
  have "f (laid_out (d @ (xs @ ys) @ rest) [] (length d)) =
      Inr (x, laid_out (d @ (xs @ ys) @ rest) [] (length (d @ xs)))"
    using getsD [OF f, of d "ys @ rest"] by simp
  moreover have "g x (laid_out (d @ (xs @ ys) @ rest) [] (length (d @ xs))) =
      Inr (y, laid_out (d @ (xs @ ys) @ rest) [] (length (d @ xs @ ys)))"
    using getsD [OF g, of "d @ xs" rest] by simp
  ultimately show "bind_res (f (laid_out (d @ (xs @ ys) @ rest) [] (length d))) (\<lambda>(z, b'). g z b') =
      Inr (y, laid_out (d @ (xs @ ys) @ rest) [] (length (d @ xs @ ys)))"
    by simp
qed

lemma gets_return: "gets (\<lambda>b. Inr (x, b)) [] x"
  by (simp add: gets_def)

lemma gets_then_return:
  assumes "gets f xs x"
  shows "gets (\<lambda>b. bind_res (f b) (\<lambda>(z, b'). Inr (h z, b'))) xs (h x)"
  using gets_bind [OF assms, of "\<lambda>z b'. Inr (h z, b')", OF gets_return] by simp

lemma gets_read_words: "gets (read_words (length ws)) (concat (map (le_bytes 4) ws)) ws"
proof (induction ws)
  case Nil
  then show ?case by (simp add: gets_def)
next
  case (Cons w ws)
  from gets_bind [OF gets_word(2) gets_then_return [OF Cons.IH]] show ?case
    by (simp add: gets_def case_prod_unfold)
qed

lemma rpos_same [simp]: "\<exists>n. b = b\<lparr>rpos := n\<rparr>" for b :: bytebuffer
  by (rule exI [of _ "rpos b"]) simp

lemma read_guid_byte_moves:
  "read_guid_byte mark i g b = Inr (x, b') \<Longrightarrow> \<exists>n. b' = b\<lparr>rpos := n\<rparr>"
  by (auto simp: read_guid_byte_def read_u8_def read_val_def bind_res_Inr_iff split: if_splits)

lemma read_guid_bytes_moves:
  "read_guid_bytes mark is g b = Inr (x, b') \<Longrightarrow> \<exists>n. b' = b\<lparr>rpos := n\<rparr>"
proof (induction "is" arbitrary: g b)
  case Nil
  then show ?case by simp
next
  case (Cons i "is")
  then obtain g1 b1 where s: "read_guid_byte mark i g b = Inr (g1, b1)"
    and r: "read_guid_bytes mark is g1 b1 = Inr (x, b')"
    by (auto simp: bind_res_Inr_iff)
  from read_guid_byte_moves [OF s] Cons.IH [OF r] show ?case by auto
qed

lemma gets_packed_guid:
  obtains xs where "xs \<noteq> []" "length xs \<le> 9" "puts (appendPackGUID g) xs" "gets readPackGUID xs g"
proof -
  let ?bytes = "filter (\<lambda>x. x \<noteq> 0) (map (gbyte g) [0..<8])"
  obtain m where m: "pack_guid_from 0 g 0 [] = (m, ?bytes)"
    and bits: "\<And>j. bit m j \<longleftrightarrow> j < 8 \<and> gbyte g j \<noteq> 0"
    using pack_guid_from_spec [of 0 g 0 "[]"] by auto
  have w: "puts (appendPackGUID g) (m # ?bytes)"
    using puts_append_raw [of "m # ?bytes"] by (simp add: appendPackGUID_def m puts_def)
  have r: "gets readPackGUID (m # ?bytes) g"
    unfolding gets_def
  proof (intro allI)
    fix d rest
    let ?b = "laid_out (d @ (m # ?bytes) @ rest) [] (length d)"
    let ?b1 = "?b\<lparr>rpos := Suc (length d)\<rparr>"
    have "drop (rpos ?b1) (storage ?b1) = ?bytes @ rest" by (simp add: laid_out_def)
    with read_guid_bytes_spec [of 0 m g ?b1 rest] bits
    obtain b' where b': "read_guid_bytes m [0..<8] 0 ?b1 = Inr (g, b')"
      and "rpos b' = rpos ?b1 + length ?bytes"
      by auto
    with read_guid_bytes_moves [OF b'] have "b' = ?b\<lparr>rpos := Suc (length d) + length ?bytes\<rparr>" by auto
    moreover have "read_u8 ?b = Inr (m, ?b1)"
      by (simp add: laid_out_def read_u8_def read_val_def read_at_def bb_size_def)
    ultimately show "readPackGUID ?b =
        Inr (g, laid_out (d @ (m # ?bytes) @ rest) [] (length (d @ m # ?bytes)))"
      using b' by (simp add: readPackGUID_def laid_out_def bb_size_def)
  qed
  show thesis
    by (rule that [OF _ _ w r]) (use length_filter_le [of "\<lambda>x. x \<noteq> 0" "map (gbyte g) [0..<8]"] in auto)
qed

lemma gets_read_values:
  assumes "length bs < 256" and "length vs = length (mask_indexes bs)"
  shows "gets read_values ([of_nat (length bs)] @ concat (map (le_bytes 4) bs) @
           concat (map (le_bytes 4) vs)) (zip (mask_indexes bs) vs)"
proof -
  have n: "unat (of_nat (length bs) :: u8) = length bs"
    using assms(1) by (simp add: unat_of_nat)
  have "gets (\<lambda>b. bind_res (read_words (length (mask_indexes bs)) b)
      (\<lambda>(vs, b3). Inr (zip (mask_indexes bs) vs, b3)))
      (concat (map (le_bytes 4) vs)) (zip (mask_indexes bs) vs)"
    using gets_then_return [OF gets_read_words [of vs]] assms(2) by simp
  then have "gets (\<lambda>b. bind_res (read_words (unat (of_nat (length bs) :: u8)) b)
      (\<lambda>(bs, b2). bind_res (read_words (length (mask_indexes bs)) b2)
      (\<lambda>(vs, b3). Inr (zip (mask_indexes bs) vs, b3))))
      (concat (map (le_bytes 4) bs) @ concat (map (le_bytes 4) vs)) (zip (mask_indexes bs) vs)"
    unfolding n by (rule gets_bind [OF gets_read_words])
  then show ?thesis
    unfolding read_values_def [abs_def] by (rule gets_bind [OF gets_read_u8])
qed

section \<open>Objects as their constructors leave them\<close>

fun type_fields :: "TypeID \<Rightarrow> nat" where
  "type_fields TYPEID_OBJECT = 0"
| "type_fields TYPEID_ITEM = ITEM_END"
| "type_fields TYPEID_CONTAINER = CONTAINER_END"
| "type_fields TYPEID_UNIT = UNIT_END"
| "type_fields TYPEID_PLAYER = PLAYER_END"
| "type_fields TYPEID_GAMEOBJECT = GAMEOBJECT_END"
| "type_fields TYPEID_DYNAMICOBJECT = DYNAMICOBJECT_END"
| "type_fields TYPEID_CORPSE = CORPSE_END"
| "type_fields TYPEID_AREATRIGGER = AREATRIGGER_END"

fun type_bits :: "TypeID \<Rightarrow> u16" where
  "type_bits TYPEID_OBJECT = 0x0001"
| "type_bits TYPEID_ITEM = 0x0003"
| "type_bits TYPEID_CONTAINER = 0x0007"
| "type_bits TYPEID_UNIT = 0x0009"
| "type_bits TYPEID_PLAYER = 0x0019"
| "type_bits TYPEID_GAMEOBJECT = 0x0021"
| "type_bits TYPEID_DYNAMICOBJECT = 0x0041"
| "type_bits TYPEID_CORPSE = 0x0081"
| "type_bits TYPEID_AREATRIGGER = 0x0101"

text \<open>What the constructors of the derived classes and \<^verbatim>\<open>_Create\<close> establish, and no operation on the
  fields changes: the field count and the type mask belong to the type, the arrays have that size and
  the packed guid is the object's.\<close>

definition built :: "u64 \<Rightarrow> Object \<Rightarrow> bool" where
  "built guid ob \<longleftrightarrow>
     m_objectTypeId ob \<noteq> TYPEID_OBJECT \<and>
     unat (m_valuesCount ob) = type_fields (m_objectTypeId ob) \<and>
     m_objectType ob = type_bits (m_objectTypeId ob) \<and>
     map_option length (m_uint32Values ob) = Some (type_fields (m_objectTypeId ob)) \<and>
     map_option length (changedFields ob) = Some (type_fields (m_objectTypeId ob)) \<and>
     appendPackGUID guid bb_new = Inr (m_PackGUID ob)"

definition values_of :: "Object \<Rightarrow> u32 list" where
  "values_of ob = the (m_uint32Values ob)"

definition changes_of :: "Object \<Rightarrow> bool list" where
  "changes_of ob = the (changedFields ob)"

lemma builtD:
  assumes "built guid ob"
  shows "m_uint32Values ob = Some (values_of ob)" "changedFields ob = Some (changes_of ob)"
    "length (values_of ob) = type_fields (m_objectTypeId ob)"
    "length (changes_of ob) = type_fields (m_objectTypeId ob)"
    "unat (m_valuesCount ob) = type_fields (m_objectTypeId ob)"
    "m_objectType ob = type_bits (m_objectTypeId ob)" "m_objectTypeId ob \<noteq> TYPEID_OBJECT"
    "appendPackGUID guid bb_new = Inr (m_PackGUID ob)"
  using assms by (auto simp: built_def values_of_def changes_of_def)

lemma built_isType:
  assumes "built guid ob"
  shows "isType TYPEMASK_UNIT ob \<longleftrightarrow> m_objectTypeId ob = TYPEID_UNIT \<or> m_objectTypeId ob = TYPEID_PLAYER"
    "isType TYPEMASK_GAMEOBJECT ob \<longleftrightarrow> m_objectTypeId ob = TYPEID_GAMEOBJECT"
  using builtD(6,7) [OF assms]
  by (cases "m_objectTypeId ob";
      simp add: isType_def TYPEMASK_UNIT_def TYPEMASK_GAMEOBJECT_def)+

lemma built_table:
  assumes "built guid ob"
  obtains fs where "field_flags (GetUpdateFieldData v ob) = Some fs"
    "type_fields (m_objectTypeId ob) \<le> length fs"
  using builtD(7) [OF assms]
  by (cases "m_objectTypeId ob") (simp_all add: GetUpdateFieldData_def Let_def table_sizes end_defs)

lemma unat_ucast_16: "unat (ucast w :: u32) = unat (w :: u16)"
  using unsigned_less [of w, where ?'a = nat] by (simp add: unsigned_ucast_eq take_bit_nat_eq_self_iff)

lemma built_update_count:
  assumes "built guid ob"
  shows "unat (update_count v ob) =
      (if m_objectTypeId ob = TYPEID_PLAYER \<and> \<not> is_this v then unat PLAYER_END_NOT_SELF
       else type_fields (m_objectTypeId ob))"
    and "0 < unat (update_count v ob)" and "unat (update_count v ob) \<le> type_fields (m_objectTypeId ob)"
    and "unat (update_count v ob) \<le> 1384"
proof -
  show "unat (update_count v ob) =
      (if m_objectTypeId ob = TYPEID_PLAYER \<and> \<not> is_this v then unat PLAYER_END_NOT_SELF
       else type_fields (m_objectTypeId ob))"
    using builtD(5) [OF assms] by (simp add: update_count_def unat_ucast_16)
  then show "0 < unat (update_count v ob)" "unat (update_count v ob) \<le> type_fields (m_objectTypeId ob)"
      "unat (update_count v ob) \<le> 1384"
    using builtD(7) [OF assms] by (cases "m_objectTypeId ob"; simp add: end_defs)+
qed

section \<open>The mask\<close>

lemma run_all_keeps:
  assumes "\<And>f s s'. f \<in> set fs \<Longrightarrow> f s = Inr s' \<Longrightarrow> p s' = p s"
  shows "run_all fs s = Inr s' \<Longrightarrow> p s' = p s"
  using assms
proof (induction fs arbitrary: s)
  case (Cons f fs)
  then obtain s1 where "f s = Inr s1" "run_all fs s1 = Inr s'" by (auto split: sum.splits)
  moreover have "p s' = p s1" using Cons calculation by (metis list.set_intros(2))
  ultimately show ?case using Cons.prems(2) by (metis list.set_intros(1))
qed simp

lemma SetBit_keeps: "SetBit i m = Inr m' \<Longrightarrow> mCount m' = mCount m \<and> mBlocks m' = mBlocks m"
  using SetBit_set [where i = i and m = m] by simp

text \<open>A loop over indexes that sets the bits of some of them.\<close>

lemma set_bits_run:
  assumes "\<And>i. i \<in> set is \<Longrightarrow> i < mask_capacity m" and "mask_capacity m < 2 ^ 32"
  shows "\<exists>m'. run_all (map (\<lambda>i. if P i then SetBit (of_nat i) else Inr) is) m = Inr m' \<and>
    mask_set m' = mask_set m \<union> {i \<in> set is. P i} \<and> mCount m' = mCount m \<and> mBlocks m' = mBlocks m \<and>
    mask_capacity m' = mask_capacity m"
proof -
  let ?ws = "map of_nat is :: u32 list"
  have u: "unat (of_nat i :: u32) = i" if "i \<in> set is" for i
    using assms(1) [OF that] assms(2) by (simp add: unat_of_nat)
  have "unat w < mask_capacity m" if "w \<in> set ?ws" for w using that u assms(1) by auto
  from update_mask.set_bits_where [of ?ws m "\<lambda>w. P (unat w)", OF this] obtain m' where
    run: "run_all (map (\<lambda>w. if P (unat w) then SetBit w else Inr) ?ws) m = Inr m'" and
    set: "mask_set m' = mask_set m \<union> unat ` {w \<in> set ?ws. P (unat w)}" and
    cap: "mask_capacity m' = mask_capacity m" by blast
  have eq: "map (\<lambda>w. if P (unat w) then SetBit w else Inr) ?ws =
      map (\<lambda>i. if P i then SetBit (of_nat i) else Inr) is"
    using u by simp
  have "unat ` {w \<in> set ?ws. P (unat w)} = {i \<in> set is. P i}"
    using u by (force simp: image_iff)
  moreover have "(mCount m', mBlocks m') = (mCount m, mBlocks m)"
    using run by (rule run_all_keeps [where p = "\<lambda>m. (mCount m, mBlocks m)", rotated])
      (auto dest: SetBit_keeps split: if_splits)
  ultimately show ?thesis using run [unfolded eq] set cap by auto
qed

text \<open>The fields the visibility loop of an update picks.\<close>

definition due :: "Viewer \<Rightarrow> Object \<Rightarrow> nat \<Rightarrow> bool" where
  "due v ob i \<longleftrightarrow>
     (let fd = GetUpdateFieldData v ob; f = the (field_flags fd) ! i in
      ucast (fieldNotifyFlags ob) AND f \<noteq> 0 \<or>
      f AND UF_FLAG_SPECIAL_INFO \<noteq> 0 \<and> hasSpecialInfo fd \<or>
      changes_of ob ! i \<and>
      IsUpdateFieldVisible f (is_this v) (isOwner fd) (isItemOwner fd) (isPartyMember fd))"

lemma mark_field_due:
  assumes "built guid ob" and "i < type_fields (m_objectTypeId ob)"
  shows "mark_field v ob (Some (changes_of ob)) i m =
    lift_error MaskError ((if due v ob i then SetBit (of_nat i) else Inr) m)"
proof -
  obtain fs where "field_flags (GetUpdateFieldData v ob) = Some fs"
    "type_fields (m_objectTypeId ob) \<le> length fs"
    using built_table [OF assms(1)] by blast
  with builtD(4) [OF assms(1)] assms(2) show ?thesis
    by (simp add: mark_field_def due_def Let_def)
qed

lemma capacity_SetCount:
  assumes "unat n \<le> 1384"
  shows "unat n \<le> mask_capacity (SetCount n m)" "mask_capacity (SetCount n m) \<le> 1408"
    "length (mask_blocks (SetCount n m)) = unat (mBlocks (SetCount n m))"
proof -
  have "unat ((n + 31) div 32) = (unat n + 31) div 32"
    using assms by (simp add: unat_div_distrib unat_word_ariths)
  then have "length (mask_blocks (SetCount n m)) = (unat n + 31) div 32"
    by (simp add: SetCount_def mask_blocks_def Let_def)
  then show "unat n \<le> mask_capacity (SetCount n m)" "mask_capacity (SetCount n m) \<le> 1408"
    using assms by auto
qed (simp add: SetCount_def mask_blocks_def Let_def)

lemma count_SetCount: "mCount (SetCount n m) = n"
  by (simp add: SetCount_def Let_def)

lemma SetUpdateBits_due:
  assumes "built guid ob"
  shows "\<exists>m. SetUpdateBits v ob (SetCount (update_count v ob) UpdateMask_new) = Inr m \<and>
    mask_set m = {i. i < unat (update_count v ob) \<and> due v ob i} \<and>
    mCount m = update_count v ob \<and> length (mask_blocks m) = unat (mBlocks m) \<and>
    unat (update_count v ob) \<le> mask_capacity m \<and> mask_capacity m \<le> 1408"
proof -
  let ?n = "unat (update_count v ob)" and ?m = "SetCount (update_count v ob) UpdateMask_new"
  note n = built_update_count [OF assms, where v = v]
  note cap = capacity_SetCount [OF n(4), of UpdateMask_new]
  have "SetUpdateBits v ob ?m =
      lift_error MaskError (run_all (map (\<lambda>i. if due v ob i then SetBit (of_nat i) else Inr) [0..<?n]) ?m)"
    unfolding SetUpdateBits_def builtD(2) [OF assms]
    by (rule run_all_lift) (use n in \<open>simp add: mark_field_due [OF assms]\<close>)
  moreover obtain m where
    "run_all (map (\<lambda>i. if due v ob i then SetBit (of_nat i) else Inr) [0..<?n]) ?m = Inr m"
    "mask_set m = mask_set ?m \<union> {i \<in> set [0..<?n]. due v ob i}"
    "mCount m = mCount ?m" "mBlocks m = mBlocks ?m" "mask_capacity m = mask_capacity ?m"
    using set_bits_run [of "[0..<?n]" ?m "due v ob"] cap by auto
  ultimately show ?thesis
    using cap mask_set_SetCount [of "update_count v ob" UpdateMask_new] count_SetCount by simp
qed

section \<open>The values\<close>

lemma le_bytes_pair:
  "le_bytes 2 l @ le_bytes 2 h = le_bytes 4 (MAKE_PAIR32 l h)"
proof (rule nth_equalityI)
  fix i
  assume "i < length (le_bytes 2 l @ le_bytes 2 h)"
  then have "i < 4" by simp
  show "(le_bytes 2 l @ le_bytes 2 h) ! i = le_bytes 4 (MAKE_PAIR32 l h) ! i"
  proof (rule bit_word_eqI)
    fix j
    assume "j < LENGTH(8)"
    then have "j < 8" by simp
    with \<open>i < 4\<close> show "bit ((le_bytes 2 l @ le_bytes 2 h) ! i) j = bit (le_bytes 4 (MAKE_PAIR32 l h) ! i) j"
      by (auto simp: nth_append bit_le_bytes MAKE_PAIR32_def bit_or_iff bit_push_bit_iff bit_ucast_iff
          not_less diff_mult_distrib2 dest: bit_imp_le_length)
  qed
qed simp

definition go_type :: "u32 list \<Rightarrow> u32" where
  "go_type vs = ucast (ucast (drop_bit 8 (vs ! GAMEOBJECT_BYTES_1)) :: u8)"

text \<open>The value of a field as the client sees it.\<close>

definition sent_value :: "Stores \<Rightarrow> Appearance \<Rightarrow> Viewer \<Rightarrow> bool \<Rightarrow> Object \<Rightarrow> nat \<Rightarrow> u32" where
  "sent_value st a v activate ob i =
     (let vs = values_of ob; x = vs ! i in
      if isType TYPEMASK_UNIT ob then unit_value st a v (m_objectTypeId ob) vs i
      else if isType TYPEMASK_GAMEOBJECT ob
      then if i = GAMEOBJECT_DYNAMIC then MAKE_PAIR32 (quest_dynflags v activate (go_type vs)) (- 1)
           else if i = GAMEOBJECT_FLAGS
           then if go_type vs = GAMEOBJECT_TYPE_CHEST \<and> go_groupLootRules a \<noteq> 0 \<and> \<not> loot_allowed v
                then x OR (GO_FLAG_LOCKED OR GO_FLAG_NOT_SELECTABLE) else x
           else if i = GAMEOBJECT_BYTES_1
           then if go_info_type a = GAMEOBJECT_TYPE_TRANSPORT then x OR GO_STATE_TRANSPORT_SPEC else x
           else x
      else other_value st a v ob vs i)"

lemma GetGoType_built:
  assumes "built guid ob" and "isType TYPEMASK_GAMEOBJECT ob"
  shows "GetGoType ob = Inr (go_type (values_of ob))"
    and "\<exists>kit. GetGoArtKit ob = Inr kit"
  using assms(2) builtD [OF assms(1)] built_isType [OF assms(1)]
  by (auto simp: GetGoType_def GetGoArtKit_def GetByteValue_def field_values_def go_type_def
      GAMEOBJECT_BYTES_1_def word_less_nat_alt end_defs)

lemma puts_write_field:
  assumes "built guid ob"
  shows "puts (write_field st a v activate ob (values_of ob) i)
           (le_bytes 4 (sent_value st a v activate ob i))"
proof (cases "isType TYPEMASK_UNIT ob \<or> \<not> isType TYPEMASK_GAMEOBJECT ob")
  case True
  then show ?thesis
    using puts_lift [OF puts_append_word(3), of BufferError]
    by (auto simp: write_field_def [abs_def] sent_value_def Let_def)
next
  case False
  then have go: "isType TYPEMASK_GAMEOBJECT ob" "\<not> isType TYPEMASK_UNIT ob" by auto
  note t = GetGoType_built(1) [OF assms go(1)]
  have "puts (run_all [append_u16 l, append_u16 (- 1)]) (le_bytes 4 (MAKE_PAIR32 l (- 1)))" for l
    using puts_map [of "[l, - 1]" append_u16 "le_bytes 2"] puts_append_word(2)
    by (simp add: le_bytes_pair [symmetric] del: run_all.simps)
  from puts_lift [OF this, of BufferError] puts_lift [OF puts_append_word(3), of BufferError] go
  show ?thesis
    by (simp add: write_field_def [abs_def] write_gameobject_field_def [abs_def] t sent_value_def Let_def
        del: run_all.simps)
qed

lemma extra_fields_built:
  assumes "built guid ob"
  obtains xs where "extra_fields t a ob = Inr xs" "\<And>i. i \<in> set xs \<Longrightarrow> i < unat (update_count v ob)"
proof -
  have "\<exists>xs. extra_fields t a ob = Inr xs \<and> (\<forall>i \<in> set xs. i < unat (update_count v ob))"
  proof (cases "isType TYPEMASK_GAMEOBJECT ob")
    case True
    then have "m_objectTypeId ob = TYPEID_GAMEOBJECT" "\<not> isType TYPEMASK_UNIT ob"
      using built_isType [OF assms] by auto
    moreover obtain kit where "GetGoArtKit ob = Inr kit"
      using GetGoType_built(2) [OF assms True] by blast
    ultimately show ?thesis
      using True GetGoType_built(1) [OF assms True] built_update_count(1) [OF assms, of v]
      by (auto simp: extra_fields_def Let_def field_index_defs end_defs)
  next
    case False
    show ?thesis
    proof (cases "isType TYPEMASK_UNIT ob")
      case True
      then show ?thesis
        using False builtD(1) [OF assms] built_update_count(1) [OF assms, of v] built_isType [OF assms]
        by (auto simp: extra_fields_def Let_def HasFlag_def field_values_def field_index_defs end_defs)
    qed (simp add: False extra_fields_def Let_def)
  qed
  with that show thesis by blast
qed

section \<open>The values block\<close>

lemma concat_map_filter: "concat (map (\<lambda>i. if P i then f i else []) is) = concat (map f (filter P is))"
  by (induction "is") simp_all

lemma puts_write_marked:
  assumes "built guid ob" and "n \<le> type_fields (m_objectTypeId ob)"
    and "n \<le> mask_capacity m" and "mask_capacity m < 2 ^ 32"
  shows "puts (run_all (map (write_marked st a v activate ob m) [0..<n]))
    (concat (map (\<lambda>i. le_bytes 4 (sent_value st a v activate ob i)) (filter (\<lambda>i. i \<in> mask_set m) [0..<n])))"
proof -
  have "puts (write_marked st a v activate ob m i)
      (if i \<in> mask_set m then le_bytes 4 (sent_value st a v activate ob i) else [])" if "i < n" for i
  proof -
    have "GetBit (of_nat i) m = Inr (i \<in> mask_set m)"
      using that assms(3,4) by (simp add: GetBit_set unat_of_nat)
    then show ?thesis
      using that assms(2) builtD(1,3) [OF assms(1)] puts_write_field [OF assms(1), of st a v activate i]
      by (simp add: write_marked_def [abs_def] field_values_def puts_nothing)
  qed
  then show ?thesis
    unfolding concat_map_filter [symmetric] by (intro puts_map) simp
qed

lemma GetMask_whole:
  assumes "length (mask_blocks m) = unat (mBlocks m)" and "length (mask_blocks m) < 256"
  shows "take (unat (GetLength m)) (GetMask m) = concat (map (le_bytes 4) (mask_blocks m))"
    and "ucast (GetBlockCount m) = (of_nat (length (mask_blocks m)) :: u8)"
proof -
  have "unat (GetLength m) = 4 * length (mask_blocks m)"
    using assms by (simp add: GetLength_def push_bit_eq_mult unat_word_ariths)
  moreover have "length (GetMask m) = 4 * length (mask_blocks m)"
    by (simp add: GetMask_def length_concat comp_def sum_list_triv)
  ultimately show "take (unat (GetLength m)) (GetMask m) = concat (map (le_bytes 4) (mask_blocks m))"
    by (simp add: GetMask_def)
  show "ucast (GetBlockCount m) = (of_nat (length (mask_blocks m)) :: u8)"
    unfolding assms(1) by (simp add: GetBlockCount_def)
qed

lemma mask_indexes_set:
  assumes "mask_set m \<subseteq> {..<n}" and "n \<le> mask_capacity m"
  shows "mask_indexes (mask_blocks m) = filter (\<lambda>i. i \<in> mask_set m) [0..<n]"
proof -
  have "mask_indexes (mask_blocks m) = filter (\<lambda>i. i \<in> mask_set m) [0..<mask_capacity m]"
    unfolding mask_indexes_def by (rule filter_cong) (auto simp: mem_mask_set)
  also have "\<dots> = filter (\<lambda>i. i \<in> mask_set m) ([0..<n] @ [n..<mask_capacity m])"
    using assms(2) upt_add_eq_append [of 0 n "mask_capacity m - n"] by simp
  also have "\<dots> = filter (\<lambda>i. i \<in> mask_set m) [0..<n]"
    using assms(1) by (auto simp: filter_empty_conv)
  finally show ?thesis .
qed

text \<open>The fields of an update and their values for one player.\<close>

definition update_fields :: "Stores \<Rightarrow> Appearance \<Rightarrow> Viewer \<Rightarrow> Object \<Rightarrow> (nat \<times> u32) list" where
  "update_fields st a v ob =
     (let extra = (case extra_fields UPDATETYPE_VALUES a ob of Inl e \<Rightarrow> [] | Inr xs \<Rightarrow> xs) in
      map (\<lambda>i. (i, sent_value st a v (IsActivateToQuest UPDATETYPE_VALUES a v ob) ob i))
        (filter (\<lambda>i. due v ob i \<or> i \<in> set extra) [0..<unat (update_count v ob)]))"

text \<open>The body of \<^verbatim>\<open>_BuildValuesUpdate\<close> on a mask that carries the due fields.\<close>

lemma BuildValuesUpdate_gets:
  assumes ob: "built guid ob"
    and m: "mask_set m = {i. i < unat (update_count v ob) \<and> due v ob i}" "mCount m = update_count v ob"
      "length (mask_blocks m) = unat (mBlocks m)" "unat (update_count v ob) \<le> mask_capacity m"
      "mask_capacity m \<le> 1408"
  obtains xs where "xs \<noteq> []" "length xs < 8000"
    "puts (BuildValuesUpdate st a v UPDATETYPE_VALUES ob m) xs"
    "gets read_values xs (update_fields st a v ob)"
proof -
  let ?n = "unat (update_count v ob)" and ?act = "IsActivateToQuest UPDATETYPE_VALUES a v ob"
  note n = built_update_count [OF ob, where v = v]
  obtain extra where extra: "extra_fields UPDATETYPE_VALUES a ob = Inr extra"
    and less: "\<And>i. i \<in> set extra \<Longrightarrow> i < ?n"
    using extra_fields_built [OF ob] by blast
  have "\<And>i. i \<in> set extra \<Longrightarrow> i < mask_capacity m" using less m(4) by fastforce
  from set_bits_run [of extra m "\<lambda>_. True", OF this] m(5) obtain m' where
    run: "run_all (map (\<lambda>i. SetBit (of_nat i)) extra) m = Inr m'" and
    m': "mask_set m' = {i. i < ?n \<and> due v ob i} \<union> set extra" "mCount m' = update_count v ob"
      "mBlocks m' = mBlocks m" "mask_capacity m' = mask_capacity m"
    by (auto simp: m)
  have blocks: "length (mask_blocks m') = unat (mBlocks m')" "length (mask_blocks m') < 256"
    using m(3,5) m'(3,4) by auto
  have "run_all (map (\<lambda>i m. lift_error MaskError (SetBit (of_nat i) m)) extra) m =
      lift_error MaskError (run_all (map (\<lambda>i. SetBit (of_nat i)) extra) m)"
    by (rule run_all_lift) simp
  then have body: "BuildValuesUpdate st a v UPDATETYPE_VALUES ob m =
      (\<lambda>data. bind_res (lift_error BufferError (append_u8 (of_nat (length (mask_blocks m'))) data)) (\<lambda>d1.
        bind_res (lift_error BufferError (append_raw (concat (map (le_bytes 4) (mask_blocks m'))) d1))
          (run_all (map (write_marked st a v ?act ob m') [0..<?n]))))"
    by (simp add: BuildValuesUpdate_def [abs_def] extra run GetCount_def m'(2) GetMask_whole [OF blocks])
  let ?is = "filter (\<lambda>i. i \<in> mask_set m') [0..<?n]"
  let ?vs = "map (sent_value st a v ?act ob) ?is"
  let ?xs = "[of_nat (length (mask_blocks m'))] @ concat (map (le_bytes 4) (mask_blocks m')) @
      concat (map (le_bytes 4) ?vs)"
  have "mask_blocks m' \<noteq> []" using m(4) m'(4) n(2) by auto
  then have "puts (BuildValuesUpdate st a v UPDATETYPE_VALUES ob m) ?xs"
    unfolding body using puts_write_marked [OF ob n(3), of m' st a v ?act] m(4,5) m'(4)
    by (intro puts_bind puts_lift puts_append_word puts_append_raw) (auto simp: comp_def)
  moreover have "mask_indexes (mask_blocks m') = ?is"
    by (rule mask_indexes_set) (use less m(4) m'(1,4) in auto)
  then have "gets read_values ?xs (zip ?is ?vs)"
    using gets_read_values [OF blocks(2), of ?vs] by simp
  moreover have "zip ?is ?vs = update_fields st a v ob"
  proof -
    have "?is = filter (\<lambda>i. due v ob i \<or> i \<in> set extra) [0..<?n]"
      by (rule filter_cong) (auto simp: m'(1))
    then show ?thesis
      by (simp add: update_fields_def extra Let_def zip_map2 zip_same_conv_map comp_def)
  qed
  moreover have "length ?xs < 8000"
  proof -
    have "length ?is \<le> 1384" using length_filter_le [of "\<lambda>i. i \<in> mask_set m'" "[0..<?n]"] n(4) by simp
    then show ?thesis
      using m(5) m'(4) by (simp add: length_concat comp_def sum_list_triv)
  qed
  ultimately show thesis by (intro that [of ?xs]) auto
qed

text \<open>Update data with its blocks stored and no bits pending.\<close>

definition holds_blocks :: "u8 list \<Rightarrow> UpdateData \<Rightarrow> bool" where
  "holds_blocks d ud \<longleftrightarrow> m_data ud = laid_out d [] 0"

lemma built_pack_guid:
  assumes "built guid ob"
  obtains xs where "m_PackGUID ob = laid_out xs [] 0" "xs \<noteq> []" "length xs \<le> 9" "gets readPackGUID xs guid"
proof -
  obtain xs where xs: "xs \<noteq> []" "length xs \<le> 9" "puts (appendPackGUID guid) xs"
    "gets readPackGUID xs guid"
    by (rule gets_packed_guid)
  with putsD [OF xs(3), of "[]" 0] builtD(8) [OF assms] have "m_PackGUID ob = laid_out xs [] 0"
    by (simp add: bb_new_laid_out)
  with xs that show thesis by blast
qed

text \<open>One block: the bytes are the same whatever the update data already holds.\<close>

lemma values_block:
  assumes "built guid ob"
  obtains block where "\<And>d ud. holds_blocks d ud \<Longrightarrow> length d < 9000000 \<Longrightarrow>
      BuildValuesUpdateBlockForPlayer st a v ob ud =
        Inr (ud\<lparr>m_data := laid_out (d @ block) [] 0, m_blockCount := m_blockCount ud + 1\<rparr>)"
    and "gets read_update_block block (UPDATETYPE_VALUES, guid, update_fields st a v ob)"
    and "\<exists>xs. block = UPDATETYPE_VALUES # xs" and "length block < 8100"
proof -
  obtain g where g: "m_PackGUID ob = laid_out g [] 0" "g \<noteq> []" "length g \<le> 9" "gets readPackGUID g guid"
    using built_pack_guid [OF assms] by blast
  obtain m where m: "SetUpdateBits v ob (SetCount (update_count v ob) UpdateMask_new) = Inr m"
    "mask_set m = {i. i < unat (update_count v ob) \<and> due v ob i}" "mCount m = update_count v ob"
    "length (mask_blocks m) = unat (mBlocks m)" "unat (update_count v ob) \<le> mask_capacity m"
    "mask_capacity m \<le> 1408"
    using SetUpdateBits_due [OF assms] by blast
  obtain xs where xs: "xs \<noteq> []" "length xs < 8000"
    "puts (BuildValuesUpdate st a v UPDATETYPE_VALUES ob m) xs"
    "gets read_values xs (update_fields st a v ob)"
    using BuildValuesUpdate_gets [OF assms m(2-)] by blast
  let ?head = "UPDATETYPE_VALUES # g"
  let ?block = "?head @ xs"
  have "puts (run_all [append_u8 UPDATETYPE_VALUES, append_buffer (laid_out g [] 0)])
      ([UPDATETYPE_VALUES] @ g @ [])"
    by (intro puts_Cons puts_append_word puts_append_buffer) (simp add: puts_def)
  from putsD [OF this, of "[]" 0] g(3)
  have head: "run_all [append_u8 UPDATETYPE_VALUES, append_buffer (m_PackGUID ob)] bb_new =
      Inr (laid_out ?head [] 0)"
    by (simp add: bb_new_laid_out g(1))
  have block: "BuildValuesUpdate st a v UPDATETYPE_VALUES ob m (laid_out ?head [] 0) =
      Inr (laid_out ?block [] 0)"
    using putsD [OF xs(3), of ?head 0] xs(2) g(3) by simp
  have "BuildValuesUpdateBlockForPlayer st a v ob ud =
      Inr (ud\<lparr>m_data := laid_out (d @ ?block) [] 0, m_blockCount := m_blockCount ud + 1\<rparr>)"
    if "holds_blocks d ud" "length d < 9000000" for d ud
    using that putsD [OF puts_append_buffer [of ?block 0], of d 0] xs(2) g(3) head block m(1)
    by (simp add: BuildValuesUpdateBlockForPlayer_def AddUpdateBlock_def holds_blocks_def del: run_all.simps)
  moreover have "gets read_update_block ([UPDATETYPE_VALUES] @ g @ xs)
      (UPDATETYPE_VALUES, guid, update_fields st a v ob)"
    unfolding read_update_block_def [abs_def]
    by (intro gets_bind [OF gets_read_u8] gets_bind [OF g(4)] gets_then_return xs(4))
  ultimately show thesis
    using xs(2) g(3) by (intro that [of ?block]) auto
qed

text \<open>C13: the block that \<^verbatim>\<open>Object::BuildValuesUpdateBlockForPlayer\<close> adds to the update data of a player is
  read by the client as a values update of this object with exactly the fields the player is due (the
  changed fields the player may see, the fields forced by notify flags, by special information or by
  the kind of object), in ascending order and each with the value meant for this player.\<close>

theorem values_block_roundtrip:
  assumes "built guid ob" and "holds_blocks d ud" and "length d < 9000000"
  shows "\<exists>ud' block b. BuildValuesUpdateBlockForPlayer st a v ob ud = Inr ud' \<and>
    holds_blocks (d @ block) ud' \<and> m_blockCount ud' = m_blockCount ud + 1 \<and>
    read_update_block (laid_out block [] 0) =
      Inr ((UPDATETYPE_VALUES, guid, update_fields st a v ob), b) \<and> rpos b = length block"
proof -
  obtain block where "BuildValuesUpdateBlockForPlayer st a v ob ud =
      Inr (ud\<lparr>m_data := laid_out (d @ block) [] 0, m_blockCount := m_blockCount ud + 1\<rparr>)"
    and "gets read_update_block block (UPDATETYPE_VALUES, guid, update_fields st a v ob)"
    using values_block [OF assms(1), of st a v] assms(2,3) by metis
  then show ?thesis
    using getsD [where d = "[]" and rest = "[]"] by (fastforce simp: holds_blocks_def laid_out_def)
qed

text \<open>A chest whose state and level changed, seen by a player who may not loot it.\<close>

definition sample_stores :: Stores where
  "sample_stores =
     \<lparr>float_to_uint32 = id, spell_visual = (\<lambda>_. None), sSpellVisualMap = (\<lambda>_. None), two_side_group = False\<rparr>"

definition sample_template :: CreatureTemplate where
  "sample_template = \<lparr>flags_extra = 0, Modelid1 = 0, Modelid2 = 0\<rparr>"

definition sample_appearance :: Appearance where
  "sample_appearance =
     \<lparr>go_info_type = 3, go_startFrame = 0, go_groupLootRules = 1, go_hasLootRecipient = True,
      creature_template = sample_template, transform_effects = [], creature_hasLootRecipient = False,
      isControlledByPlayer = False, auraStateAuras = [], dynobj_hasCaster = False\<rparr>"

definition sample_viewer :: Viewer where
  "sample_viewer =
     \<lparr>is_this = False, viewer_guid = 7, is_owner = False, casts_empathy = False, in_same_group = False,
      isGameMaster = False, canSeeSpellClick = False, isCanTraining = False, is_friendly = True,
      has_tapped = False, isAllowedToLoot = False, casts_stalked = False, in_raid_with = False,
      is_hostile_faction = False, viewer_faction = 1, activates_quest = True, loot_allowed = False\<rparr>"

definition sample_chest :: Object where
  "sample_chest =
     \<lparr>m_objectType = 0x21, m_objectTypeId = TYPEID_GAMEOBJECT, m_updateFlag = 0,
      m_uint32Values = Some ((replicate 20 0)[18 := 80, 19 := 0x0301]),
      changedFields = Some ((replicate 20 False)[7 := True, 18 := True]), m_valuesCount = 20,
      fieldNotifyFlags = 0x100, m_objectUpdated = True, m_inWorld = True,
      m_PackGUID = laid_out [0x81, 0x2A, 0xF1] [] 0, in_update_list = True\<rparr>"

lemma built_sample_chest: "built 0xF10000000000002A sample_chest"
proof -
  have "appendPackGUID 0xF10000000000002A bb_new = Inr (m_PackGUID sample_chest)"
    by (simp add: appendPackGUID_def pack_guid_from.simps append_raw_def bb_new_def sample_chest_def
        laid_out_def bb_size_def bb_resize_storage_def Let_def)
  then show ?thesis
    by (simp add: built_def sample_chest_def end_defs)
qed

theorem values_block_roundtrip_witness:
  "built 0xF10000000000002A sample_chest \<and> holds_blocks [] (UpdateData_new 571) \<and>
   (\<exists>ud' block b.
      BuildValuesUpdateBlockForPlayer sample_stores sample_appearance sample_viewer sample_chest
        (UpdateData_new 571) = Inr ud' \<and> holds_blocks block ud' \<and> m_blockCount ud' = 1 \<and>
      read_update_block (laid_out block [] 0) =
        Inr ((UPDATETYPE_VALUES, 0xF10000000000002A,
          [(11, 0x12), (16, 0xFFFF0009), (18, 80), (19, 0x0301)]), b) \<and> rpos b = length block)"
proof -
  have "holds_blocks [] (UpdateData_new 571)"
    and "update_fields sample_stores sample_appearance sample_viewer sample_chest =
      [(11, 0x12), (16, 0xFFFF0009), (18, 80), (19, 0x0301)]"
    by code_simp+
  then show ?thesis
    using built_sample_chest values_block_roundtrip [of "0xF10000000000002A" sample_chest "[]" "UpdateData_new 571"
        sample_stores sample_appearance sample_viewer]
    by (simp add: UpdateData_new_def)
qed

section \<open>Who sees what\<close>

lemma unit_table_entries:
  "set UnitUpdateFieldFlags \<subseteq>
     {UF_FLAG_PUBLIC, UF_FLAG_NONE, UF_FLAG_PRIVATE, UF_FLAG_PRIVATE OR UF_FLAG_OWNER OR UF_FLAG_UNUSED2,
      UF_FLAG_DYNAMIC, UF_FLAG_PRIVATE OR UF_FLAG_OWNER OR UF_FLAG_SPECIAL_INFO, UF_FLAG_OWNER,
      UF_FLAG_PRIVATE OR UF_FLAG_OWNER, UF_FLAG_PARTY_MEMBER}"
  unfolding table_defs set_append set_replicate_conv_if by auto

lemma unit_aurastate_public: "UnitUpdateFieldFlags ! UNIT_FIELD_AURASTATE = UF_FLAG_PUBLIC"
  by (simp add: UnitUpdateFieldFlags_def UnitFields_def nth_append UNIT_FIELD_AURASTATE_def)

lemma player_extra:
  assumes "built guid ob" and "m_objectTypeId ob = TYPEID_PLAYER" and "extra_fields t a ob = Inr xs"
  shows "set xs \<subseteq> {UNIT_FIELD_AURASTATE}"
  using assms(2,3) built_isType [OF assms(1)]
  by (auto simp: extra_fields_def Let_def bind_res_Inr_iff split: if_splits)

lemma IsUpdateFieldVisible_iff:
  "IsUpdateFieldVisible f self owner itemOwner party \<longleftrightarrow>
     f AND UF_FLAG_PUBLIC \<noteq> 0 \<or> f AND UF_FLAG_PRIVATE \<noteq> 0 \<and> self \<or> f AND UF_FLAG_OWNER \<noteq> 0 \<and> owner \<or>
     f AND UF_FLAG_ITEM_OWNER \<noteq> 0 \<and> itemOwner \<or> f AND UF_FLAG_PARTY_MEMBER \<noteq> 0 \<and> party"
  by (auto simp: IsUpdateFieldVisible_def UF_FLAG_NONE_def)

text \<open>What the flags of a field allow to another player.\<close>

definition shown_to :: "Viewer \<Rightarrow> Object \<Rightarrow> u32 \<Rightarrow> bool" where
  "shown_to v ob f \<longleftrightarrow>
     f AND UF_FLAG_PUBLIC \<noteq> 0 \<or> ucast (fieldNotifyFlags ob) AND f \<noteq> 0 \<or> f AND UF_FLAG_OWNER \<noteq> 0 \<and> is_owner v
     \<or> f AND UF_FLAG_SPECIAL_INFO \<noteq> 0 \<and> casts_empathy v \<or> f AND UF_FLAG_PARTY_MEMBER \<noteq> 0 \<and> in_same_group v"

lemma due_shown:
  "m_objectTypeId ob = TYPEID_PLAYER \<Longrightarrow> \<not> is_this v \<Longrightarrow> due v ob i \<Longrightarrow> shown_to v ob (UnitUpdateFieldFlags ! i)"
  by (auto simp: due_def shown_to_def GetUpdateFieldData_def Let_def IsUpdateFieldVisible_iff)

text \<open>What the flags allow to a player who neither is nor owns the object and casts no empathy on it.\<close>

lemma due_stranger:
  assumes "m_objectTypeId ob = TYPEID_PLAYER" and "\<not> is_this v" "\<not> is_owner v" "\<not> casts_empathy v"
    and "ucast (fieldNotifyFlags ob) = UF_FLAG_DYNAMIC" and "i < PLAYER_END" and "due v ob i"
  shows "UnitUpdateFieldFlags ! i \<in> {UF_FLAG_PUBLIC, UF_FLAG_DYNAMIC} \<or>
    UnitUpdateFieldFlags ! i = UF_FLAG_PARTY_MEMBER \<and> in_same_group v"
proof -
  let ?f = "UnitUpdateFieldFlags ! i"
  have "?f \<in> set UnitUpdateFieldFlags"
    using assms(6) by (simp add: table_sizes)
  then have "?f \<in> {UF_FLAG_PUBLIC, UF_FLAG_NONE, UF_FLAG_PRIVATE,
      UF_FLAG_PRIVATE OR UF_FLAG_OWNER OR UF_FLAG_UNUSED2, UF_FLAG_DYNAMIC,
      UF_FLAG_PRIVATE OR UF_FLAG_OWNER OR UF_FLAG_SPECIAL_INFO, UF_FLAG_OWNER,
      UF_FLAG_PRIVATE OR UF_FLAG_OWNER, UF_FLAG_PARTY_MEMBER}"
    by (rule subsetD [OF unit_table_entries])
  moreover have "UF_FLAG_DYNAMIC AND ?f \<noteq> 0 \<or> ?f AND UF_FLAG_PUBLIC \<noteq> 0 \<or>
      ?f AND UF_FLAG_PARTY_MEMBER \<noteq> 0 \<and> in_same_group v"
    using assms(1-5,7) by (auto simp: due_def GetUpdateFieldData_def Let_def IsUpdateFieldVisible_iff)
  ultimately show ?thesis
    by (elim insertE) (auto simp: uf_flag_defs)
qed

text \<open>C15: What the update of a player object tells another player. A field is sent only when it is public, when its flag is
  among the notify flags of the object, when it is for owners and the other player is the owner, when it is special information
  and the other player casts empathy on it, or when it is for party members and both are in one group. When only the
  dynamic fields are notified and the other player neither owns the object nor casts empathy on it, these are the
  public and dynamic fields, and those for party members inside a group. Unless private fields are notified, cutting the
  update off at \<^verbatim>\<open>PLAYER_END_NOT_SELF\<close> withholds no field the visibility rules would grant.\<close>

theorem stranger_sees_public_fields:
  assumes "built guid ob" and "m_objectTypeId ob = TYPEID_PLAYER" and "\<not> is_this v"
  shows "(\<forall>(i, x) \<in> set (update_fields st a v ob).
      UnitUpdateFieldFlags ! i AND UF_FLAG_PUBLIC \<noteq> 0 \<or>
      ucast (fieldNotifyFlags ob) AND UnitUpdateFieldFlags ! i \<noteq> 0 \<or>
      UnitUpdateFieldFlags ! i AND UF_FLAG_OWNER \<noteq> 0 \<and> is_owner v \<or>
      UnitUpdateFieldFlags ! i AND UF_FLAG_SPECIAL_INFO \<noteq> 0 \<and> casts_empathy v \<or>
      UnitUpdateFieldFlags ! i AND UF_FLAG_PARTY_MEMBER \<noteq> 0 \<and> in_same_group v) \<and>
    (\<not> is_owner v \<and> \<not> casts_empathy v \<and> ucast (fieldNotifyFlags ob) = UF_FLAG_DYNAMIC \<longrightarrow>
      (\<forall>(i, x) \<in> set (update_fields st a v ob).
        UnitUpdateFieldFlags ! i \<in> {UF_FLAG_PUBLIC, UF_FLAG_DYNAMIC} \<or>
        UnitUpdateFieldFlags ! i = UF_FLAG_PARTY_MEMBER \<and> in_same_group v)) \<and>
    (ucast (fieldNotifyFlags ob) AND UF_FLAG_PRIVATE = 0 \<longrightarrow>
      (\<forall>i < PLAYER_END. due v ob i \<longrightarrow> i < unat (update_count v ob)))"
proof -
  obtain xs where xs: "extra_fields UPDATETYPE_VALUES a ob = Inr xs"
    using extra_fields_built [OF assms(1)] by blast
  have n: "unat (update_count v ob) = unat PLAYER_END_NOT_SELF" "unat PLAYER_END_NOT_SELF < PLAYER_END"
    using assms(2,3) by (simp_all add: update_count_def end_defs)
  have sent: "i < PLAYER_END \<and> (due v ob i \<or> i = UNIT_FIELD_AURASTATE)" if "(i, x) \<in> set (update_fields st a v ob)" for i x
    using that n player_extra [OF assms(1,2) xs] by (auto simp: update_fields_def xs Let_def)
  have public: "UF_FLAG_PUBLIC AND UF_FLAG_PUBLIC \<noteq> 0" by (simp add: uf_flag_defs)
  have "\<forall>(i, x) \<in> set (update_fields st a v ob). shown_to v ob (UnitUpdateFieldFlags ! i)"
    using sent due_shown [OF assms(2,3)] unit_aurastate_public public by (fastforce simp: shown_to_def)
  moreover have "UnitUpdateFieldFlags ! i \<in> {UF_FLAG_PUBLIC, UF_FLAG_DYNAMIC} \<or>
      UnitUpdateFieldFlags ! i = UF_FLAG_PARTY_MEMBER \<and> in_same_group v"
    if "\<not> is_owner v \<and> \<not> casts_empathy v \<and> ucast (fieldNotifyFlags ob) = UF_FLAG_DYNAMIC"
      and "(i, x) \<in> set (update_fields st a v ob)" for i x
    using sent [OF that(2)] due_stranger [OF assms(2,3)] that(1) unit_aurastate_public by auto
  moreover have "i < unat (update_count v ob)"
    if "ucast (fieldNotifyFlags ob) AND UF_FLAG_PRIVATE = 0" "i < PLAYER_END" "due v ob i" for i
    using due_shown [OF assms(2,3) that(3)] self_fields_private [OF _ that(2)] that(1) n(1)
    by (force simp: shown_to_def uf_flag_defs not_less [symmetric])
  ultimately show ?thesis unfolding shown_to_def by blast
qed

definition sample_player :: Object where
  "sample_player =
     \<lparr>m_objectType = 0x19, m_objectTypeId = TYPEID_PLAYER, m_updateFlag = 0,
      m_uint32Values = Some (replicate 1384 1), changedFields = Some (replicate 1384 True),
      m_valuesCount = 1384, fieldNotifyFlags = 0x100, m_objectUpdated = True, m_inWorld = True,
      m_PackGUID = laid_out [0x01, 0x05] [] 0, in_update_list = True\<rparr>"

lemma built_sample_player: "built 5 sample_player"
proof -
  have "appendPackGUID 5 bb_new = Inr (m_PackGUID sample_player)"
    by (simp add: appendPackGUID_def pack_guid_from.simps append_raw_def bb_new_def sample_player_def
        laid_out_def bb_size_def bb_resize_storage_def Let_def)
  then show ?thesis
    by (simp add: built_def sample_player_def end_defs)
qed

theorem stranger_sees_public_fields_witness:
  "built 5 sample_player \<and> \<not> is_this sample_viewer \<and>
   (\<lambda>(i, x). UnitUpdateFieldFlags ! i) ` set (update_fields sample_stores sample_appearance sample_viewer
       sample_player) \<subseteq> {UF_FLAG_PUBLIC, UF_FLAG_DYNAMIC} \<and>
   {i. i < PLAYER_END \<and> due sample_viewer sample_player i} \<subseteq> {..<448}"
proof -
  have "m_objectTypeId sample_player = TYPEID_PLAYER"
    and "ucast (fieldNotifyFlags sample_player) = UF_FLAG_DYNAMIC"
    by (simp_all add: sample_player_def UF_FLAG_DYNAMIC_def)
  moreover have v: "\<not> is_this sample_viewer" "\<not> is_owner sample_viewer" "\<not> casts_empathy sample_viewer"
    "\<not> in_same_group sample_viewer"
    by (simp_all add: sample_viewer_def)
  moreover have "unat (update_count sample_viewer sample_player) = 448"
    by (simp add: update_count_def calculation end_defs)
  moreover have "UF_FLAG_DYNAMIC AND UF_FLAG_PRIVATE = 0" by (simp add: uf_flag_defs)
  ultimately show ?thesis
    using stranger_sees_public_fields [OF built_sample_player, of sample_viewer sample_stores
        sample_appearance] built_sample_player
    by auto
qed

section \<open>Values that depend on the player\<close>

lemma bit_pow: "bit (2 ^ k :: u32) n \<longleftrightarrow> n = k \<and> k < 32"
  by (auto simp: bit_exp_iff possible_bit_word)

lemma and_pow: "(w :: u32) AND 2 ^ k \<noteq> 0 \<longleftrightarrow> bit w k"
  by (simp add: and_exp_eq_0_iff_not_bit)

lemma flag_powers:
  "UNIT_DYNFLAG_LOOTABLE = 2 ^ 0" "UNIT_DYNFLAG_TRACK_UNIT = 2 ^ 1" "UNIT_DYNFLAG_TAPPED = 2 ^ 2"
  "UNIT_DYNFLAG_TAPPED_BY_PLAYER = 2 ^ 3" "UNIT_NPC_FLAG_TRAINER = 2 ^ 4"
  "UNIT_NPC_FLAG_TRAINER_CLASS = 2 ^ 5" "UNIT_NPC_FLAG_TRAINER_PROFESSION = 2 ^ 6"
  "UNIT_NPC_FLAG_SPELLCLICK = 2 ^ 24" "PER_CASTER_AURA_STATE_MASK = 2 ^ 13 OR 2 ^ 15"
  by (simp_all add: UNIT_DYNFLAG_LOOTABLE_def UNIT_DYNFLAG_TRACK_UNIT_def UNIT_DYNFLAG_TAPPED_def
      UNIT_DYNFLAG_TAPPED_BY_PLAYER_def UNIT_NPC_FLAG_TRAINER_def UNIT_NPC_FLAG_TRAINER_CLASS_def
      UNIT_NPC_FLAG_TRAINER_PROFESSION_def UNIT_NPC_FLAG_SPELLCLICK_def PER_CASTER_AURA_STATE_MASK_def)

lemma flag_bits:
  "bit UNIT_DYNFLAG_LOOTABLE n \<longleftrightarrow> n = 0" "bit UNIT_DYNFLAG_TRACK_UNIT n \<longleftrightarrow> n = 1"
  "bit UNIT_DYNFLAG_TAPPED n \<longleftrightarrow> n = 2" "bit UNIT_DYNFLAG_TAPPED_BY_PLAYER n \<longleftrightarrow> n = 3"
  "bit UNIT_NPC_FLAG_TRAINER n \<longleftrightarrow> n = 4" "bit UNIT_NPC_FLAG_TRAINER_CLASS n \<longleftrightarrow> n = 5"
  "bit UNIT_NPC_FLAG_TRAINER_PROFESSION n \<longleftrightarrow> n = 6" "bit UNIT_NPC_FLAG_SPELLCLICK n \<longleftrightarrow> n = 24"
  "bit PER_CASTER_AURA_STATE_MASK n \<longleftrightarrow> n = 13 \<or> n = 15"
  unfolding flag_powers bit_or_iff bit_pow by auto

lemma flag_tests:
  "w AND UNIT_DYNFLAG_TRACK_UNIT \<noteq> 0 \<longleftrightarrow> bit w 1" "w AND UNIT_NPC_FLAG_TRAINER \<noteq> 0 \<longleftrightarrow> bit w 4"
  unfolding flag_powers and_pow by auto

lemmas flag_algebra = flag_bits flag_tests bit_and_iff bit_or_iff bit_not_iff_eq

lemma dynamic_flags_bits:
  assumes "n < 32"
  shows "bit (dynamic_flags_for a v TYPEID_UNIT f) n \<longleftrightarrow>
    (if n = 0 then bit f 0 \<and> isAllowedToLoot v
     else if n = 1 then bit f 1 \<and> casts_stalked v
     else if n = 2 then creature_hasLootRecipient a
     else if n = 3 then creature_hasLootRecipient a \<and> has_tapped v
     else bit f n)"
  using assms by (auto simp: dynamic_flags_for_def Let_def flag_algebra)

lemma npc_flags_bits:
  assumes "n < 32"
  shows "bit (npc_flags_for v TYPEID_UNIT f) n \<longleftrightarrow>
    (if n = 24 then bit f 24 \<and> canSeeSpellClick v
     else if n \<in> {4, 5, 6} then bit f n \<and> (bit f 4 \<longrightarrow> isCanTraining v)
     else bit f n)"
  using assms by (auto simp: npc_flags_for_def Let_def flag_algebra)

lemma aura_state_bits:
  assumes "n < 32"
  shows "bit (BuildAuraStateUpdateForTarget a v f) n \<longleftrightarrow>
    (if n = 13 \<or> n = 15 then (n + 1, viewer_guid v) \<in> set (auraStateAuras a) else bit f n)"
proof -
  let ?step = "\<lambda>(state, caster) r.
      if push_bit (state - 1) 1 AND PER_CASTER_AURA_STATE_MASK \<noteq> 0 \<and> caster = viewer_guid v
      then r OR push_bit (state - 1) 1 else (r :: u32)"
  have mask: "push_bit k 1 AND PER_CASTER_AURA_STATE_MASK \<noteq> 0 \<longleftrightarrow> k = 13 \<or> k = 15" for k
    using and_pow [of PER_CASTER_AURA_STATE_MASK k] by (simp add: and.commute flag_bits)
  have step: "bit (?step x r) n \<longleftrightarrow> bit r n \<or> (n = 13 \<or> n = 15) \<and> (n + 1, viewer_guid v) = x" for x r
  proof -
    obtain state caster where x: "x = (state, caster)" by (cases x)
    show ?thesis
      unfolding x prod.case mask using assms by (auto simp: bit_or_iff bit_pow)
  qed
  have "bit (fold ?step xs r) n \<longleftrightarrow> bit r n \<or> (n = 13 \<or> n = 15) \<and> (n + 1, viewer_guid v) \<in> set xs"
    for xs and r :: u32
  proof (induction xs arbitrary: r)
    case (Cons x xs)
    show ?case
      unfolding fold.simps comp_apply Cons.IH step by auto
  qed simp
  then show ?thesis
    using assms by (auto simp: BuildAuraStateUpdateForTarget_def flag_algebra)
qed

text \<open>the flags of a creature in an update are adapted to the player. The dynamic flags show it
  lootable only to players who may loot it, tracked only to players with a stalking aura of their own on
  it, tapped when it has a loot recipient and tapped by the player when the player has tapped it; the
  NPC flags offer the spell click and training only to players who can use them; the per-caster aura
  states are those of the player's own auras. All other flags are the stored ones.\<close>

theorem creature_flags_for_viewer:
  fixes n :: nat
  assumes "n < 32"
  shows "(bit (unit_value st a v TYPEID_UNIT vs UNIT_DYNAMIC_FLAGS) n \<longleftrightarrow>
      (if n = 0 then bit (vs ! UNIT_DYNAMIC_FLAGS) 0 \<and> isAllowedToLoot v
       else if n = 1 then bit (vs ! UNIT_DYNAMIC_FLAGS) 1 \<and> casts_stalked v
       else if n = 2 then creature_hasLootRecipient a
       else if n = 3 then creature_hasLootRecipient a \<and> has_tapped v
       else bit (vs ! UNIT_DYNAMIC_FLAGS) n)) \<and>
    (bit (unit_value st a v TYPEID_UNIT vs UNIT_NPC_FLAGS) n \<longleftrightarrow>
      (if n = 24 then bit (vs ! UNIT_NPC_FLAGS) 24 \<and> canSeeSpellClick v
       else if n \<in> {4, 5, 6}
       then bit (vs ! UNIT_NPC_FLAGS) n \<and> (bit (vs ! UNIT_NPC_FLAGS) 4 \<longrightarrow> isCanTraining v)
       else bit (vs ! UNIT_NPC_FLAGS) n)) \<and>
    (bit (unit_value st a v TYPEID_UNIT vs UNIT_FIELD_AURASTATE) n \<longleftrightarrow>
      (if n = 13 \<or> n = 15 then (n + 1, viewer_guid v) \<in> set (auraStateAuras a)
       else bit (vs ! UNIT_FIELD_AURASTATE) n))"
proof (intro conjI)
  have "unit_value st a v TYPEID_UNIT vs UNIT_DYNAMIC_FLAGS =
      dynamic_flags_for a v TYPEID_UNIT (vs ! UNIT_DYNAMIC_FLAGS)"
    by (simp add: unit_value_def field_index_defs)
  then show "bit (unit_value st a v TYPEID_UNIT vs UNIT_DYNAMIC_FLAGS) n \<longleftrightarrow>
      (if n = 0 then bit (vs ! UNIT_DYNAMIC_FLAGS) 0 \<and> isAllowedToLoot v
       else if n = 1 then bit (vs ! UNIT_DYNAMIC_FLAGS) 1 \<and> casts_stalked v
       else if n = 2 then creature_hasLootRecipient a
       else if n = 3 then creature_hasLootRecipient a \<and> has_tapped v
       else bit (vs ! UNIT_DYNAMIC_FLAGS) n)"
    using dynamic_flags_bits [OF assms] by simp
  have "unit_value st a v TYPEID_UNIT vs UNIT_NPC_FLAGS = npc_flags_for v TYPEID_UNIT (vs ! UNIT_NPC_FLAGS)"
    by (simp add: unit_value_def)
  then show "bit (unit_value st a v TYPEID_UNIT vs UNIT_NPC_FLAGS) n \<longleftrightarrow>
      (if n = 24 then bit (vs ! UNIT_NPC_FLAGS) 24 \<and> canSeeSpellClick v
       else if n \<in> {4, 5, 6}
       then bit (vs ! UNIT_NPC_FLAGS) n \<and> (bit (vs ! UNIT_NPC_FLAGS) 4 \<longrightarrow> isCanTraining v)
       else bit (vs ! UNIT_NPC_FLAGS) n)"
    using npc_flags_bits [OF assms] by simp
  have "unit_value st a v TYPEID_UNIT vs UNIT_FIELD_AURASTATE =
      BuildAuraStateUpdateForTarget a v (vs ! UNIT_FIELD_AURASTATE)"
    by (simp add: unit_value_def field_index_defs)
  then show "bit (unit_value st a v TYPEID_UNIT vs UNIT_FIELD_AURASTATE) n \<longleftrightarrow>
      (if n = 13 \<or> n = 15 then (n + 1, viewer_guid v) \<in> set (auraStateAuras a)
       else bit (vs ! UNIT_FIELD_AURASTATE) n)"
    using aura_state_bits [OF assms] by simp
qed

theorem creature_flags_for_viewer_witness:
  "(0 :: nat) < 32 \<and>
   \<not> bit (unit_value sample_stores sample_appearance sample_viewer TYPEID_UNIT (replicate 146 1)
       UNIT_DYNAMIC_FLAGS) 0 \<and>
   bit (unit_value sample_stores sample_appearance sample_viewer TYPEID_UNIT (replicate 146 1)
       UNIT_NPC_FLAGS) 0"
  using creature_flags_for_viewer [of 0 sample_stores sample_appearance sample_viewer "replicate 146 1"]
  by (simp add: sample_viewer_def field_index_defs)

section \<open>Whole packets\<close>

primrec read_list :: "'a bb_read \<Rightarrow> nat \<Rightarrow> 'a list bb_read" where
  "read_list rd 0 b = Inr ([], b)"
| "read_list rd (Suc n) b =
     bind_res (rd b) (\<lambda>(x, b1). bind_res (read_list rd n b1) (\<lambda>(xs, b2). Inr (x # xs, b2)))"

lemma gets_read_list:
  assumes "list_all2 (\<lambda>xs x. gets rd xs x) xss ys"
  shows "gets (read_list rd (length ys)) (concat xss) ys"
  using assms
proof (induction rule: list_all2_induct)
  case Nil
  then show ?case by (simp add: gets_def)
next
  case (Cons xs xss y ys)
  from gets_bind [OF Cons.hyps(1), of "\<lambda>x b. bind_res (read_list rd (length ys) b) (\<lambda>(xs, b2). Inr (x # xs, b2))",
      OF gets_then_return [OF Cons.IH]]
  show ?case by (simp add: gets_def case_prod_unfold)
qed

text \<open>The client looks at the next byte to find the block of lost objects, which can only come first.\<close>

definition read_gone :: "u32 \<Rightarrow> (u32 \<times> u64 list) bb_read" where
  "read_gone count b =
     (if count \<noteq> 0 \<and> bb_index (rpos b) b = Inr UPDATETYPE_OUT_OF_RANGE_OBJECTS
      then bind_res (read_u8 b) (\<lambda>(_, b1).
           bind_res (read_u32 b1) (\<lambda>(n, b2).
           bind_res (read_list readPackGUID (unat n) b2) (\<lambda>(gs, b3). Inr ((count - 1, gs), b3))))
      else Inr ((count, []), b))"

definition read_update_packet ::
  "(u16 \<times> u64 list \<times> (u8 \<times> u64 \<times> (nat \<times> u32) list) list) bb_read" where
  "read_update_packet b =
     bind_res (read_u16 b) (\<lambda>(mapId, b1).
     bind_res (read_u32 b1) (\<lambda>(count, b2).
     bind_res (read_gone count b2) (\<lambda>(gone, b3).
     bind_res (read_list read_update_block (unat (fst gone)) b3)
       (\<lambda>(blocks, b4). Inr ((mapId, snd gone, blocks), b4)))))"

text \<open>What a player is to be told of one object: its identifier, what the builder knows of it and of the
  player, and the object.\<close>

type_synonym job = "u64 \<times> Appearance \<times> Viewer \<times> Object"

definition add_job :: "Stores \<Rightarrow> job \<Rightarrow> UpdateData \<Rightarrow> upd_error + UpdateData" where
  "add_job st j = (case j of (guid, a, v, ob) \<Rightarrow> BuildValuesUpdateBlockForPlayer st a v ob)"

definition job_update :: "Stores \<Rightarrow> job \<Rightarrow> u8 \<times> u64 \<times> (nat \<times> u32) list" where
  "job_update st j = (case j of (guid, a, v, ob) \<Rightarrow> (UPDATETYPE_VALUES, guid, update_fields st a v ob))"

definition job_ok :: "job \<Rightarrow> bool" where
  "job_ok j = (case j of (guid, a, v, ob) \<Rightarrow> built guid ob)"

lemma job_block:
  assumes "job_ok j"
  obtains block where "\<And>d ud. holds_blocks d ud \<Longrightarrow> length d < 9000000 \<Longrightarrow>
      add_job st j ud = Inr (ud\<lparr>m_data := laid_out (d @ block) [] 0, m_blockCount := m_blockCount ud + 1\<rparr>)"
    and "gets read_update_block block (job_update st j)"
    and "block \<noteq> []" and "hd block = UPDATETYPE_VALUES" and "length block < 8100"
proof -
  obtain guid a v ob where j: "j = (guid, a, v, ob)" by (cases j)
  with assms have "built guid ob" by (simp add: job_ok_def)
  then obtain block where b: "\<And>d ud. holds_blocks d ud \<Longrightarrow> length d < 9000000 \<Longrightarrow>
      BuildValuesUpdateBlockForPlayer st a v ob ud =
        Inr (ud\<lparr>m_data := laid_out (d @ block) [] 0, m_blockCount := m_blockCount ud + 1\<rparr>)"
    and g: "gets read_update_block block (UPDATETYPE_VALUES, guid, update_fields st a v ob)"
      "\<exists>xs. block = UPDATETYPE_VALUES # xs" "length block < 8100"
    using values_block [of guid ob st a v] by metis
  show thesis
    by (rule that [of block]) (use b g in \<open>auto simp: j add_job_def job_update_def\<close>)
qed

lemma jobs_blocks:
  assumes "list_all job_ok js" and "holds_blocks d ud" and "length d + 8100 * length js < 9000000"
  obtains bs where
    "run_all (map (add_job st) js) ud = Inr (ud\<lparr>m_data := laid_out (d @ concat bs) [] 0,
       m_blockCount := m_blockCount ud + of_nat (length js)\<rparr>)"
    and "list_all2 (\<lambda>b u. gets read_update_block b u) bs (map (job_update st) js)"
    and "list_all (\<lambda>b. b \<noteq> [] \<and> hd b = UPDATETYPE_VALUES) bs" and "length (concat bs) \<le> 8100 * length js"
  using assms
proof (induction js arbitrary: d ud thesis)
  case Nil
  show ?case by (rule Nil.prems(1) [of "[]"]) (use Nil.prems(3) in \<open>simp_all add: holds_blocks_def\<close>)
next
  case (Cons j js)
  obtain b where b: "\<And>d ud. holds_blocks d ud \<Longrightarrow> length d < 9000000 \<Longrightarrow>
      add_job st j ud = Inr (ud\<lparr>m_data := laid_out (d @ b) [] 0, m_blockCount := m_blockCount ud + 1\<rparr>)"
    and g: "gets read_update_block b (job_update st j)" "b \<noteq> []" "hd b = UPDATETYPE_VALUES" "length b < 8100"
    using job_block [of j st] Cons.prems(2) by auto
  let ?ud = "ud\<lparr>m_data := laid_out (d @ b) [] 0, m_blockCount := m_blockCount ud + 1\<rparr>"
  have "add_job st j ud = Inr ?ud" using b [OF Cons.prems(3)] Cons.prems(4) by simp
  moreover obtain bs where
    "run_all (map (add_job st) js) ?ud = Inr (?ud\<lparr>m_data := laid_out ((d @ b) @ concat bs) [] 0,
       m_blockCount := m_blockCount ?ud + of_nat (length js)\<rparr>)"
    "list_all2 (\<lambda>b u. gets read_update_block b u) bs (map (job_update st) js)"
    "list_all (\<lambda>b. b \<noteq> [] \<and> hd b = UPDATETYPE_VALUES) bs" "length (concat bs) \<le> 8100 * length js"
    by (rule Cons.IH [where d = "d @ b" and ud = ?ud]) (use Cons.prems(2,4) g in \<open>simp_all add: holds_blocks_def\<close>)
  ultimately show ?case
    using g by (intro Cons.prems(1) [of "b # bs"]) (simp_all add: add.assoc)
qed

text \<open>The block of lost objects.\<close>

lemma puts_guids:
  obtains xss where "puts (run_all (map appendPackGUID gs)) (concat xss)"
    "list_all2 (\<lambda>xs g. gets readPackGUID xs g) xss gs" "length (concat xss) \<le> 9 * length gs"
proof (induction gs arbitrary: thesis)
  case Nil
  show ?case by (rule Nil [of "[]"]) (simp_all add: puts_def)
next
  case (Cons g gs)
  obtain xss where xss: "puts (run_all (map appendPackGUID gs)) (concat xss)"
    "list_all2 (\<lambda>xs g. gets readPackGUID xs g) xss gs" "length (concat xss) \<le> 9 * length gs"
    by (rule Cons.IH)
  obtain xs where xs: "xs \<noteq> []" "length xs \<le> 9" "puts (appendPackGUID g) xs" "gets readPackGUID xs g"
    by (rule gets_packed_guid)
  show ?case
    by (rule Cons.prems [of "xs # xss"])
      (use xss xs puts_Cons [OF xs(3) xss(1)] in \<open>simp_all del: run_all.simps\<close>)
qed

lemma gets_gone:
  assumes "list_all2 (\<lambda>xs g. gets readPackGUID xs g) xss gs" and "gs \<noteq> []" and "length gs < 2 ^ 32"
    and "count \<noteq> 0"
  shows "gets (read_gone count)
    ([UPDATETYPE_OUT_OF_RANGE_OBJECTS] @ le_bytes 4 (of_nat (length gs) :: u32) @ concat xss)
    (count - 1, gs)"
proof -
  have n: "unat (of_nat (length gs) :: u32) = length gs"
    using assms(3) by (simp add: unat_of_nat)
  have "gets (read_list readPackGUID (unat (of_nat (length gs) :: u32))) (concat xss) gs"
    unfolding n by (rule gets_read_list [OF assms(1)])
  then have body: "gets (\<lambda>b. bind_res (read_u8 b) (\<lambda>(_, b1).
      bind_res (read_u32 b1) (\<lambda>(n, b2).
      bind_res (read_list readPackGUID (unat n) b2) (\<lambda>(gs, b3). Inr ((count - 1, gs), b3)))))
      ([UPDATETYPE_OUT_OF_RANGE_OBJECTS] @ le_bytes 4 (of_nat (length gs) :: u32) @ concat xss)
      (count - 1, gs)"
    by (intro gets_bind [OF gets_read_u8] gets_bind [OF gets_word(2)] gets_then_return)
  from getsD [OF body] assms(4) show ?thesis
    by (simp add: gets_def read_gone_def laid_out_def bb_index_def bb_size_def)
qed

text \<open>Reading what is left of a packet.\<close>

definition gets_last :: "'a bb_read \<Rightarrow> u8 list \<Rightarrow> 'a \<Rightarrow> bool" where
  "gets_last rd xs x \<longleftrightarrow> (\<forall>d. rd (laid_out (d @ xs) [] (length d)) =
     Inr (x, laid_out (d @ xs) [] (length (d @ xs))))"

lemma gets_lastI: "gets rd xs x \<Longrightarrow> gets_last rd xs x"
  using getsD [where rest = "[]"] by (fastforce simp: gets_last_def)

lemma gets_bind_last:
  assumes f: "gets f xs x" and g: "gets_last (g x) ys y"
  shows "gets_last (\<lambda>b. bind_res (f b) (\<lambda>(z, b'). g z b')) (xs @ ys) y"
  unfolding gets_last_def
proof
  fix d
  show "bind_res (f (laid_out (d @ xs @ ys) [] (length d))) (\<lambda>(z, b'). g z b') =
      Inr (y, laid_out (d @ xs @ ys) [] (length (d @ xs @ ys)))"
    using getsD [OF f, of d ys] g [unfolded gets_last_def, rule_format, of "d @ xs"] by simp
qed

lemma read_gone_none:
  assumes "ys = [] \<and> count = 0 \<or> ys \<noteq> [] \<and> hd ys = UPDATETYPE_VALUES"
  shows "read_gone count (laid_out (d @ ys) [] (length d)) = Inr ((count, []), laid_out (d @ ys) [] (length d))"
  using assms by (cases ys) (auto simp: read_gone_def bb_index_def laid_out_def bb_size_def
      UPDATETYPE_VALUES_def UPDATETYPE_OUT_OF_RANGE_OBJECTS_def)

lemma read_gone_then:
  assumes "ys = [] \<and> count = 0 \<or> ys \<noteq> [] \<and> hd ys = UPDATETYPE_VALUES" and "gets_last (g (count, [])) ys y"
  shows "gets_last (\<lambda>b. bind_res (read_gone count b) (\<lambda>(z, b'). g z b')) ys y"
  using assms(2) by (simp add: gets_last_def read_gone_none [OF assms(1)])

lemma gets_last_rest:
  assumes "list_all2 (\<lambda>b u. gets read_update_block b u) bs us" and "length us \<le> 1000"
    and "list_all (\<lambda>b. b \<noteq> [] \<and> hd b = UPDATETYPE_VALUES) bs"
    and "list_all2 (\<lambda>xs g. gets readPackGUID xs g) xss gs" and "length gs \<le> 100000"
  shows "gets_last (\<lambda>b. bind_res (read_gone (of_nat (length us) + (if gs = [] then 0 else 1)) b)
      (\<lambda>(gone, b3). bind_res (read_list read_update_block (unat (fst gone)) b3)
        (\<lambda>(blocks, b4). Inr ((mapId, snd gone, blocks), b4))))
    ((if gs = [] then []
      else [UPDATETYPE_OUT_OF_RANGE_OBJECTS] @ le_bytes 4 (of_nat (length gs) :: u32) @ concat xss) @ concat bs)
    (mapId, gs, us)"
proof -
  have n: "unat (of_nat (length us) :: u32) = length us"
    using assms(2) by (simp add: unat_of_nat)
  have blocks: "gets_last (\<lambda>b3. bind_res (read_list read_update_block (unat (of_nat (length us) :: u32)) b3)
      (\<lambda>(blocks, b4). Inr ((mapId, gs, blocks), b4))) (concat bs) (mapId, gs, us)"
    unfolding n by (intro gets_lastI gets_then_return gets_read_list assms(1))
  have "length bs = length us" using assms(1) by (rule list_all2_lengthD)
  then have first: "concat bs = [] \<and> (of_nat (length us) :: u32) = 0 \<or>
      concat bs \<noteq> [] \<and> hd (concat bs) = UPDATETYPE_VALUES"
    using assms(3) by (cases bs) auto
  show ?thesis
  proof (cases "gs = []")
    case True
    with read_gone_then [OF first, of "\<lambda>gone b3.
        bind_res (read_list read_update_block (unat (fst gone)) b3)
          (\<lambda>(blocks, b4). Inr ((mapId, snd gone, blocks), b4))"]
      blocks show ?thesis by simp
  next
    case False
    have "(of_nat (length us) + 1 :: u32) \<noteq> 0"
      using assms(2) by (simp add: word_unat_eq_iff unat_word_ariths n)
    from gets_gone [OF assms(4) False _ this] assms(5)
    have "gets (read_gone (of_nat (length us) + 1))
        ([UPDATETYPE_OUT_OF_RANGE_OBJECTS] @ le_bytes 4 (of_nat (length gs) :: u32) @ concat xss)
        (of_nat (length us), gs)"
      by simp
    from gets_bind_last [OF this, of "\<lambda>gone b3.
        bind_res (read_list read_update_block (unat (fst gone)) b3)
          (\<lambda>(blocks, b4). Inr ((mapId, snd gone, blocks), b4))"]
      blocks False show ?thesis by simp
  qed
qed

text \<open>The statements of \<^verbatim>\<open>BuildPacket\<close>.\<close>

lemma puts_packet:
  assumes "puts (run_all (map appendPackGUID gs)) ys"
  shows "puts (run_all ([append_u16 mapId, append_u32 count] @
      (if gs = [] then []
       else [append_u8 UPDATETYPE_OUT_OF_RANGE_OBJECTS, append_u32 (of_nat (length gs))] @
         map appendPackGUID gs) @ [append_buffer (laid_out xs [] 0)]))
    (le_bytes 2 mapId @ le_bytes 4 count @
      (if gs = [] then []
       else [UPDATETYPE_OUT_OF_RANGE_OBJECTS] @ le_bytes 4 (of_nat (length gs) :: u32) @ ys) @ xs)"
    (is "puts (run_all (?head @ ?lost @ ?tail)) (_ @ _ @ ?gone @ _)")
proof -
  have "puts (run_all ?head) (le_bytes 2 mapId @ le_bytes 4 count @ [])"
    by (intro puts_Cons puts_append_word) (simp add: puts_def)
  moreover have "puts (run_all ?lost) ?gone"
  proof (cases "gs = []")
    case False
    have "puts (run_all ([append_u8 UPDATETYPE_OUT_OF_RANGE_OBJECTS, append_u32 (of_nat (length gs))] @
        map appendPackGUID gs))
        (([UPDATETYPE_OUT_OF_RANGE_OBJECTS] @ le_bytes 4 (of_nat (length gs) :: u32) @ []) @ ys)"
      by (intro puts_append puts_Cons puts_append_word assms) (simp add: puts_def)
    with False show ?thesis by (simp del: run_all.simps)
  qed (simp add: puts_def)
  moreover have "puts (run_all ?tail) (xs @ [])"
    by (intro puts_Cons puts_append_buffer) (simp add: puts_def)
  ultimately have "puts (run_all (?head @ ?lost @ ?tail))
      ((le_bytes 2 mapId @ le_bytes 4 count @ []) @ ?gone @ xs @ [])"
    by (intro puts_append)
  then show ?thesis by simp
qed

text \<open>C14: a packet built from any number of object updates (up to a thousand) and lost objects (up to
  100000) is complete: the client reads back the map, the identifiers of the lost objects in ascending
  order and every update with its fields, in the order they were added, and nothing is left over.\<close>

theorem update_packet_roundtrip:
  assumes "list_all job_ok js" and "length js \<le> 1000" and "finite gone" and "card gone \<le> 100000"
  shows "\<exists>ud p p'. run_all (map (add_job st) js) (UpdateData_new mapId) = Inr ud \<and>
    BuildPacket (AddOutOfRangeGUIDs gone ud) bb_new = Inr (SMSG_UPDATE_OBJECT, p) \<and>
    read_update_packet p = Inr ((mapId, sorted_list_of_set gone, map (job_update st) js), p') \<and>
    rpos p' = bb_size p"
proof -
  let ?gs = "sorted_list_of_set gone" and ?us = "map (job_update st) js"
  let ?ud = "\<lambda>bs. (UpdateData_new mapId)\<lparr>m_data := laid_out (concat bs) [] 0, m_blockCount := of_nat (length js)\<rparr>"
  let ?count = "of_nat (length js) + (if ?gs = [] then 0 else 1) :: u32"
  obtain bs where run: "run_all (map (add_job st) js) (UpdateData_new mapId) =
      Inr (?ud bs)"
    and bs: "list_all2 (\<lambda>b u. gets read_update_block b u) bs ?us"
      "list_all (\<lambda>b. b \<noteq> [] \<and> hd b = UPDATETYPE_VALUES) bs" "length (concat bs) \<le> 8100 * length js"
    using jobs_blocks [OF assms(1), of "[]" "UpdateData_new mapId" st] assms(2)
    by (auto simp: holds_blocks_def UpdateData_new_def bb_new_laid_out)
  obtain xss where w: "puts (run_all (map appendPackGUID ?gs)) (concat xss)"
    and xss: "list_all2 (\<lambda>xs g. gets readPackGUID xs g) xss ?gs" "length (concat xss) \<le> 9 * length ?gs"
    by (rule puts_guids)
  let ?gone = "if ?gs = [] then []
    else [UPDATETYPE_OUT_OF_RANGE_OBJECTS] @ le_bytes 4 (of_nat (length ?gs) :: u32) @ concat xss"
  let ?xs = "le_bytes 2 mapId @ le_bytes 4 ?count @ ?gone @ concat bs"
  let ?fs = "[append_u16 mapId, append_u32 ?count] @
    (if ?gs = [] then []
     else [append_u8 UPDATETYPE_OUT_OF_RANGE_OBJECTS, append_u32 (of_nat (length ?gs))] @
       map appendPackGUID ?gs) @ [append_buffer (laid_out (concat bs) [] 0)]"
  have fs: "puts (run_all ?fs) ?xs" by (rule puts_packet [OF w])
  have "length ?xs < 10000000"
    using bs(3) xss(2) assms(2-4) by (auto simp: length_concat)
  with putsD [OF fs, of "[]" 0] have "run_all ?fs bb_new = Inr (laid_out ?xs [] 0)"
    by (simp only: bb_new_laid_out append_Nil) simp
  moreover have "bb_clear bb_new = bb_new" "bb_empty bb_new"
    by (simp_all add: bb_new_def bb_clear_def bb_empty_def)
  moreover have "BuildPacket (AddOutOfRangeGUIDs gone (?ud bs)) bb_new =
      (if \<not> bb_empty bb_new then Inl PacketNotEmpty
       else bind_res (lift_error BufferError (run_all ?fs (bb_clear bb_new))) (\<lambda>p. Inr (SMSG_UPDATE_OBJECT, p)))"
    by (simp add: BuildPacket_def AddOutOfRangeGUIDs_def UpdateData_new_def Let_def del: run_all.simps)
  ultimately have "BuildPacket (AddOutOfRangeGUIDs gone (?ud bs)) bb_new = Inr (SMSG_UPDATE_OBJECT, laid_out ?xs [] 0)"
    by (simp only: bind_res_simps lift_error_simps if_False not_True_eq_False simp_thms)
  moreover have "gets_last read_update_packet ?xs (mapId, ?gs, ?us)"
    unfolding read_update_packet_def [abs_def]
    by (intro gets_bind_last [OF gets_word(1)] gets_bind_last [OF gets_word(2)])
      (use gets_last_rest [OF bs(1) _ bs(2) xss(1), of mapId] assms(2-4) in \<open>simp only: length_map
        length_sorted_list_of_set\<close>)
  then have "read_update_packet (laid_out ?xs [] 0) =
      Inr ((mapId, ?gs, ?us), laid_out ?xs [] (length ?xs))"
    unfolding gets_last_def by (metis append_Nil list.size(3))
  ultimately show ?thesis
    using run by (intro exI [of _ "?ud bs"] exI [of _ "laid_out ?xs [] 0"] exI)
      (auto simp: laid_out_def bb_size_def)
qed

theorem update_packet_roundtrip_witness:
  "list_all job_ok [(0xF10000000000002A, sample_appearance, sample_viewer, sample_chest)] \<and>
   (\<exists>ud p p'. run_all (map (add_job sample_stores)
        [(0xF10000000000002A, sample_appearance, sample_viewer, sample_chest)]) (UpdateData_new 571) = Inr ud \<and>
      BuildPacket (AddOutOfRangeGUIDs {9, 3} ud) bb_new = Inr (SMSG_UPDATE_OBJECT, p) \<and>
      read_update_packet p = Inr ((571, [3, 9],
        [(UPDATETYPE_VALUES, 0xF10000000000002A,
          [(11, 0x12), (16, 0xFFFF0009), (18, 80), (19, 0x0301)])]), p') \<and> rpos p' = bb_size p)"
proof -
  let ?js = "[(0xF10000000000002A, sample_appearance, sample_viewer, sample_chest)]"
  have "list_all job_ok ?js" using built_sample_chest by (simp add: job_ok_def)
  moreover have "sorted_list_of_set {9, 3} = [3, 9 :: u64]" by code_simp
  moreover have "update_fields sample_stores sample_appearance sample_viewer sample_chest =
      [(11, 0x12), (16, 0xFFFF0009), (18, 80), (19, 0x0301)]"
    by code_simp
  ultimately show ?thesis
    using update_packet_roundtrip [of ?js "{9, 3}" sample_stores 571]
    by (simp add: job_update_def del: run_all.simps)
qed

end
