(* ===== verification/Timer.thy ===== *)
theory Timer
  imports Prelude
begin

text \<open>
  The timers of \<^verbatim>\<open>shared/Utilities/Timer.h\<close>: \<^verbatim>\<open>IntervalTimer\<close>, \<^verbatim>\<open>TimeTracker\<close>, \<^verbatim>\<open>TimeTrackerSmall\<close> and
  \<^verbatim>\<open>PeriodicTimer\<close>, which count milliseconds handed to them tick by tick, and \<^verbatim>\<open>getMSTimeDiff\<close>. A \<^verbatim>\<open>time_t\<close>
  is a signed 64-bit word; signed sums wrap around as on the supported compilers. All four timers are
  instances of one contract, a countdown; the theorems show when they pass, that a polled interval timer
  does not drift and where \<^verbatim>\<open>getMSTimeDiff\<close> loses a millisecond.
\<close>

section \<open>Differences of clock readings\<close>

definition getMSTimeDiff :: "u32 \<Rightarrow> u32 \<Rightarrow> u32" where
  "getMSTimeDiff oldMSTime newMSTime =
     (if newMSTime < oldMSTime then (0xFFFFFFFF - oldMSTime) + newMSTime
      else newMSTime - oldMSTime)"

section \<open>Timers\<close>

type_synonym time_t = "64 word"

record IntervalTimer =
  interval :: time_t
  current :: time_t

definition IntervalTimer_new :: IntervalTimer where
  "IntervalTimer_new = \<lparr>interval = 0, current = 0\<rparr>"

definition IntervalTimer_Update :: "time_t \<Rightarrow> IntervalTimer \<Rightarrow> IntervalTimer" where
  "IntervalTimer_Update diff t =
     (let c = current t + diff in t\<lparr>current := if sint c < 0 then 0 else c\<rparr>)"

definition IntervalTimer_Passed :: "IntervalTimer \<Rightarrow> bool" where
  "IntervalTimer_Passed t \<longleftrightarrow> sint (interval t) \<le> sint (current t)"

definition IntervalTimer_Reset :: "IntervalTimer \<Rightarrow> IntervalTimer" where
  "IntervalTimer_Reset t =
     (if sint (interval t) \<le> sint (current t) then t\<lparr>current := current t - interval t\<rparr> else t)"

definition SetCurrent :: "time_t \<Rightarrow> IntervalTimer \<Rightarrow> IntervalTimer" where
  "SetCurrent c t = t\<lparr>current := c\<rparr>"

definition SetInterval :: "time_t \<Rightarrow> IntervalTimer \<Rightarrow> IntervalTimer" where
  "SetInterval i t = t\<lparr>interval := i\<rparr>"

record TimeTracker =
  i_expiryTime :: time_t

definition TimeTracker_new :: "time_t \<Rightarrow> TimeTracker" where
  "TimeTracker_new expiry = \<lparr>i_expiryTime = expiry\<rparr>"

definition TimeTracker_Update :: "time_t \<Rightarrow> TimeTracker \<Rightarrow> TimeTracker" where
  "TimeTracker_Update diff t = t\<lparr>i_expiryTime := i_expiryTime t - diff\<rparr>"

definition TimeTracker_Passed :: "TimeTracker \<Rightarrow> bool" where
  "TimeTracker_Passed t \<longleftrightarrow> sint (i_expiryTime t) \<le> 0"

definition TimeTracker_Reset :: "time_t \<Rightarrow> TimeTracker \<Rightarrow> TimeTracker" where
  "TimeTracker_Reset iv t = t\<lparr>i_expiryTime := iv\<rparr>"

text \<open>An \<^verbatim>\<open>int32\<close> is a 32-bit word read with \<open>sint\<close>.\<close>

record TimeTrackerSmall =
  small_expiryTime :: u32

definition TimeTrackerSmall_new :: "u32 \<Rightarrow> TimeTrackerSmall" where
  "TimeTrackerSmall_new expiry = \<lparr>small_expiryTime = expiry\<rparr>"

definition TimeTrackerSmall_Update :: "u32 \<Rightarrow> TimeTrackerSmall \<Rightarrow> TimeTrackerSmall" where
  "TimeTrackerSmall_Update diff t = t\<lparr>small_expiryTime := small_expiryTime t - diff\<rparr>"

definition TimeTrackerSmall_Passed :: "TimeTrackerSmall \<Rightarrow> bool" where
  "TimeTrackerSmall_Passed t \<longleftrightarrow> sint (small_expiryTime t) \<le> 0"

definition TimeTrackerSmall_Reset :: "u32 \<Rightarrow> TimeTrackerSmall \<Rightarrow> TimeTrackerSmall" where
  "TimeTrackerSmall_Reset iv t = t\<lparr>small_expiryTime := iv\<rparr>"

record PeriodicTimer =
  i_period :: u32
  i_expireTime :: u32

definition PeriodicTimer_new :: "u32 \<Rightarrow> u32 \<Rightarrow> PeriodicTimer" where
  "PeriodicTimer_new period start_time = \<lparr>i_period = period, i_expireTime = start_time\<rparr>"

definition PeriodicTimer_Update :: "u32 \<Rightarrow> PeriodicTimer \<Rightarrow> bool \<times> PeriodicTimer" where
  "PeriodicTimer_Update diff t =
     (let e = i_expireTime t - diff in
      if 0 < sint e then (False, t\<lparr>i_expireTime := e\<rparr>)
      else (True, t\<lparr>i_expireTime := e + (if sint diff < sint (i_period t) then i_period t else diff)\<rparr>))"

definition SetPeriodic :: "u32 \<Rightarrow> u32 \<Rightarrow> PeriodicTimer \<Rightarrow> PeriodicTimer" where
  "SetPeriodic period start_time t = t\<lparr>i_expireTime := start_time, i_period := period\<rparr>"

definition TUpdate :: "u32 \<Rightarrow> PeriodicTimer \<Rightarrow> PeriodicTimer" where
  "TUpdate diff t = t\<lparr>i_expireTime := i_expireTime t - diff\<rparr>"

definition TPassed :: "PeriodicTimer \<Rightarrow> bool" where
  "TPassed t \<longleftrightarrow> sint (i_expireTime t) \<le> 0"

definition TReset :: "u32 \<Rightarrow> u32 \<Rightarrow> PeriodicTimer \<Rightarrow> PeriodicTimer" where
  "TReset diff period t =
     t\<lparr>i_expireTime := i_expireTime t + (if sint diff < sint period then period else diff)\<rparr>"

section \<open>Signed sums that fit\<close>

lemma sint_tick:
  assumes "0 \<le> sint d" and "- (2 ^ (LENGTH('a) - 1)) \<le> sint a - sint d"
  shows "sint (a - d :: 'a::len word) = sint a - sint d"
  using assms sint_lt [of a] by (simp add: sint_word_ariths signed_take_bit_int_eq_self)

lemma sint_add_fits:
  assumes "- (2 ^ (LENGTH('a) - 1)) \<le> sint a + sint b" and "sint a + sint b < 2 ^ (LENGTH('a) - 1)"
  shows "sint (a + b :: 'a::len word) = sint a + sint b"
  using assms by (simp add: sint_word_ariths signed_take_bit_int_eq_self)

section \<open>The contract of a countdown\<close>

text \<open>What the users of a timer rely on: an amount of time is left, every tick takes its length away,
  and the timer has passed when nothing is left. \<open>span\<close> bounds the magnitudes the timer can hold.\<close>

locale countdown =
  fixes tick :: "'d::len word \<Rightarrow> 't \<Rightarrow> 't"
    and passed :: "'t \<Rightarrow> bool"
    and left :: "'t \<Rightarrow> int"
    and wf :: "'t \<Rightarrow> bool"
    and span :: int
  assumes tick_left: "wf t \<Longrightarrow> 0 \<le> sint d \<Longrightarrow> - span \<le> left t - sint d \<Longrightarrow>
      left (tick d t) = left t - sint d \<and> wf (tick d t)"
    and passed_left: "wf t \<Longrightarrow> passed t \<longleftrightarrow> left t \<le> 0"
begin

lemma ticks_left:
  assumes "wf t" and "list_all (\<lambda>d. 0 \<le> sint d) ds" and "- span \<le> left t - sum_list (map sint ds)"
  shows "left (exec_ops tick ds t) = left t - sum_list (map sint ds) \<and> wf (exec_ops tick ds t)"
  using assms
proof (induction ds arbitrary: t)
  case (Cons d ds)
  have "0 \<le> sum_list (map sint ds)"
    using Cons.prems(2) by (intro sum_list_nonneg) (auto simp: list_all_iff)
  with Cons.prems tick_left [of t d] have "left (tick d t) = left t - sint d" "wf (tick d t)" by auto
  with Cons.IH [of "tick d t"] Cons.prems show ?case by (simp add: algebra_simps)
qed simp

lemma passes_on_time:
  assumes "wf t" and "list_all (\<lambda>d. 0 \<le> sint d) ds" and "- span \<le> left t - sum_list (map sint ds)"
  shows "passed (exec_ops tick ds t) \<longleftrightarrow> left t \<le> sum_list (map sint ds)"
  using ticks_left [OF assms] passed_left by simp

end

interpretation tracker: countdown TimeTracker_Update TimeTracker_Passed "\<lambda>t. sint (i_expiryTime t)"
    "\<lambda>_. True" "2 ^ 63"
  by unfold_locales (simp_all add: TimeTracker_Update_def TimeTracker_Passed_def sint_tick)

interpretation tracker_small: countdown TimeTrackerSmall_Update TimeTrackerSmall_Passed
    "\<lambda>t. sint (small_expiryTime t)" "\<lambda>_. True" "2 ^ 31"
  by unfold_locales (simp_all add: TimeTrackerSmall_Update_def TimeTrackerSmall_Passed_def sint_tick)

interpretation periodic_tracker: countdown TUpdate TPassed "\<lambda>t. sint (i_expireTime t)" "\<lambda>_. True" "2 ^ 31"
  by unfold_locales (simp_all add: TUpdate_def TPassed_def sint_tick)

text \<open>An interval timer counts up; what is left is the difference to its interval.\<close>

definition interval_wf :: "IntervalTimer \<Rightarrow> bool" where
  "interval_wf t \<longleftrightarrow> 0 \<le> sint (current t) \<and> 0 \<le> sint (interval t) \<and> sint (interval t) \<le> 2 ^ 62"

definition interval_left :: "IntervalTimer \<Rightarrow> int" where
  "interval_left t = sint (interval t) - sint (current t)"

lemma interval_tick:
  assumes "0 \<le> sint (current t)" and "0 \<le> sint d" and "sint (current t) + sint d < 2 ^ 63"
  shows "sint (current (IntervalTimer_Update d t)) = sint (current t) + sint d"
    and "interval (IntervalTimer_Update d t) = interval t"
proof -
  have "sint (current t + d) = sint (current t) + sint d"
    using assms by (intro sint_add_fits) simp_all
  then show "sint (current (IntervalTimer_Update d t)) = sint (current t) + sint d"
    using assms by (simp add: IntervalTimer_Update_def Let_def)
qed (simp add: IntervalTimer_Update_def Let_def)

interpretation interval_countdown: countdown IntervalTimer_Update IntervalTimer_Passed interval_left
    interval_wf "2 ^ 62 - 1"
proof
  fix t :: IntervalTimer and d :: time_t
  assume "interval_wf t" and "0 \<le> sint d" and "- (2 ^ 62 - 1) \<le> interval_left t - sint d"
  then show "interval_left (IntervalTimer_Update d t) = interval_left t - sint d \<and>
      interval_wf (IntervalTimer_Update d t)"
    using interval_tick [of t d] by (simp add: interval_wf_def interval_left_def)
qed (simp add: IntervalTimer_Passed_def interval_left_def)

section \<open>When timers pass\<close>

text \<open>a time tracker, a small time tracker and the tracker interface of a periodic timer have passed
  exactly when the ticks add up to their expiry time, and an interval timer exactly when they add up to
  what is missing of its interval, for ticks that are not negative and sums inside the range of the type.\<close>

theorem timers_pass_on_time:
  assumes "list_all (\<lambda>d. 0 \<le> sint d) ds" and "list_all (\<lambda>d. 0 \<le> sint d) es"
    and "sum_list (map sint ds) \<le> sint (i_expiryTime a) + 2 ^ 63"
    and "sum_list (map sint es) \<le> sint (small_expiryTime b) + 2 ^ 31"
    and "sum_list (map sint es) \<le> sint (i_expireTime c) + 2 ^ 31"
    and "interval_wf i" and "sum_list (map sint ds) < interval_left i + 2 ^ 62"
  shows "(TimeTracker_Passed (exec_ops TimeTracker_Update ds a) \<longleftrightarrow>
      sint (i_expiryTime a) \<le> sum_list (map sint ds)) \<and>
    (TimeTrackerSmall_Passed (exec_ops TimeTrackerSmall_Update es b) \<longleftrightarrow>
      sint (small_expiryTime b) \<le> sum_list (map sint es)) \<and>
    (TPassed (exec_ops TUpdate es c) \<longleftrightarrow> sint (i_expireTime c) \<le> sum_list (map sint es)) \<and>
    (IntervalTimer_Passed (exec_ops IntervalTimer_Update ds i) \<longleftrightarrow>
      sint (interval i) \<le> sint (current i) + sum_list (map sint ds))"
  using tracker.passes_on_time [of ds a] tracker_small.passes_on_time [of es b]
    periodic_tracker.passes_on_time [of es c] interval_countdown.passes_on_time [of i ds] assms
  by (simp add: interval_left_def) linarith

theorem timers_pass_on_time_witness:
  "TimeTracker_Passed (exec_ops TimeTracker_Update [400, 600] (TimeTracker_new 1000)) \<and>
   \<not> TimeTrackerSmall_Passed (exec_ops TimeTrackerSmall_Update [400, 599] (TimeTrackerSmall_new 1000)) \<and>
   \<not> TPassed (exec_ops TUpdate [400, 599] (PeriodicTimer_new 5000 1000)) \<and>
   IntervalTimer_Passed (exec_ops IntervalTimer_Update [400, 600] (SetInterval 1000 IntervalTimer_new))"
  using timers_pass_on_time [of "[400, 600]" "[400, 599]" "TimeTracker_new 1000" "TimeTrackerSmall_new 1000"
      "PeriodicTimer_new 5000 1000" "SetInterval 1000 IntervalTimer_new"]
  by (simp add: TimeTracker_new_def TimeTrackerSmall_new_def PeriodicTimer_new_def SetInterval_def
      IntervalTimer_new_def interval_wf_def interval_left_def)

section \<open>The timers of the world loop\<close>

text \<open>One timer in \<^verbatim>\<open>World::Update\<close>: it is advanced, and when it has passed it is reset and its job runs
  (the result says so).\<close>

definition world_timer_turn :: "time_t \<Rightarrow> IntervalTimer \<Rightarrow> bool \<times> IntervalTimer" where
  "world_timer_turn diff t =
     (let t1 = (if 0 \<le> sint (current t) then IntervalTimer_Update diff t else SetCurrent 0 t) in
      if IntervalTimer_Passed t1 then (True, IntervalTimer_Reset t1) else (False, t1))"

primrec world_timer_run :: "time_t list \<Rightarrow> IntervalTimer \<Rightarrow> nat \<times> IntervalTimer" where
  "world_timer_run [] t = (0, t)"
| "world_timer_run (d # ds) t =
     (case world_timer_turn d t of
        (fired, t1) \<Rightarrow> (case world_timer_run ds t1 of (n, t2) \<Rightarrow> ((if fired then n + 1 else n), t2)))"

text \<open>One turn of a timer that owes \<open>current t\<close>: the job runs when a whole interval is owed, and takes one away.\<close>

lemma world_timer_turn_step:
  assumes "0 \<le> sint (current t)" and "0 < sint (interval t)" and "0 \<le> sint d"
    and "sint (current t) + sint d < 2 ^ 63" and "world_timer_turn d t = (f, t')"
  shows "interval t' = interval t" and "0 \<le> sint (current t')"
    and "sint (current t) + sint d = of_bool f * sint (interval t) + sint (current t')"
    and "f \<longleftrightarrow> sint (interval t) \<le> sint (current t) + sint d"
proof -
  have u: "sint (current (IntervalTimer_Update d t)) = sint (current t) + sint d"
    "interval (IntervalTimer_Update d t) = interval t"
    using assms by (auto intro!: interval_tick)
  have r: "sint (current (IntervalTimer_Reset (IntervalTimer_Update d t))) =
      sint (current t) + sint d - sint (interval t)" if "sint (interval t) \<le> sint (current t) + sint d"
    using that assms u sint_tick [of "interval t" "current (IntervalTimer_Update d t)"]
    by (simp add: IntervalTimer_Reset_def)
  show "interval t' = interval t" and "0 \<le> sint (current t')"
    and "sint (current t) + sint d = of_bool f * sint (interval t) + sint (current t')"
    and "f \<longleftrightarrow> sint (interval t) \<le> sint (current t) + sint d"
    using assms u r
    by (auto simp: world_timer_turn_def Let_def IntervalTimer_Passed_def IntervalTimer_Reset_def
        split: if_splits)
qed

text \<open>What a run of turns leaves behind, long ticks included.\<close>

lemma world_timer_run_owed:
  assumes "0 \<le> sint (current t)" and "0 < sint (interval t)" and "list_all (\<lambda>d. 0 \<le> sint d) ds"
    and "sint (current t) + sum_list (map sint ds) < 2 ^ 63" and "world_timer_run ds t = (n, t')"
  shows "sint (current t) + sum_list (map sint ds) = int n * sint (interval t) + sint (current t')"
    and "0 \<le> sint (current t')" and "n \<le> length ds"
    and "sint (current t) < sint (interval t) \<Longrightarrow> list_all (\<lambda>d. sint d \<le> sint (interval t)) ds \<Longrightarrow>
      sint (current t') < sint (interval t)"
proof -
  have "sint (current t) + sum_list (map sint ds) = int n * sint (interval t) + sint (current t') \<and>
      0 \<le> sint (current t') \<and> n \<le> length ds \<and>
      (sint (current t) < sint (interval t) \<and> list_all (\<lambda>d. sint d \<le> sint (interval t)) ds \<longrightarrow>
        sint (current t') < sint (interval t))"
    using assms
  proof (induction ds arbitrary: t n)
    case (Cons d ds)
    obtain f t1 where t1: "world_timer_turn d t = (f, t1)" by fastforce
    obtain k where k: "world_timer_run ds t1 = (k, t')" "n = k + of_bool f"
      using Cons.prems(5) t1 by (auto split: prod.splits if_splits)
    have "0 \<le> sum_list (map sint ds)"
      using Cons.prems(3) by (intro sum_list_nonneg) (auto simp: list_all_iff)
    with world_timer_turn_step [OF Cons.prems(1,2) _ _ t1] Cons.prems(3,4)
    have step: "interval t1 = interval t" "0 \<le> sint (current t1)"
      "sint (current t) + sint d = of_bool f * sint (interval t) + sint (current t1)"
      "f \<longleftrightarrow> sint (interval t) \<le> sint (current t) + sint d"
      by auto
    have "0 \<le> of_bool f * sint (interval t)" using Cons.prems(2) by simp
    with step(3) have le: "sint (current t1) \<le> sint (current t) + sint d" by linarith
    from Cons.IH [OF step(2) _ _ _ k(1)] step le Cons.prems(2-4) show ?case
      by (auto simp: k(2) algebra_simps)
  qed simp
  then show "sint (current t) + sum_list (map sint ds) = int n * sint (interval t) + sint (current t')"
    and "0 \<le> sint (current t')" and "n \<le> length ds"
    and "sint (current t) < sint (interval t) \<Longrightarrow> list_all (\<lambda>d. sint d \<le> sint (interval t)) ds \<Longrightarrow>
      sint (current t') < sint (interval t)"
    by simp_all
qed

text \<open>C40: A timer of the world loop whose interval stays the same loses no time, however the time is cut into ticks: the
  elapsed time is what its job was paid, one interval a run, and what the timer still holds. The job runs at most once in a turn,
  so a tick longer than the interval leaves whole intervals to later turns; as soon as less than an interval is
  owed, the job has run exactly as often as the interval fits into the elapsed time and the timer holds
  the remainder, which is always so when no tick is longer than the interval. Ticks are not negative and their
  sum stays below $2^{63}$.\<close>

theorem interval_timer_no_drift:
  assumes "0 \<le> sint (current t)" and "0 < sint (interval t)" and "list_all (\<lambda>d. 0 \<le> sint d) ds"
    and "sint (current t) + sum_list (map sint ds) < 2 ^ 63" and "world_timer_run ds t = (n, t')"
  shows "sint (current t) + sum_list (map sint ds) = int n * sint (interval t) + sint (current t') \<and> n \<le> length ds \<and>
    (sint (current t') < sint (interval t) \<longrightarrow>
      int n = (sint (current t) + sum_list (map sint ds)) div sint (interval t) \<and>
      sint (current t') = (sint (current t) + sum_list (map sint ds)) mod sint (interval t)) \<and>
    (sint (current t) < sint (interval t) \<and> list_all (\<lambda>d. sint d \<le> sint (interval t)) ds \<longrightarrow>
      sint (current t') < sint (interval t))"
  using world_timer_run_owed [OF assms] assms(2) by (auto simp: div_pos_pos_trivial)

theorem interval_timer_no_drift_witness:
  "\<exists>n t'. world_timer_run [2700, 800, 0, 400] (SetInterval 1000 IntervalTimer_new) = (n, t') \<and>
     3900 = int n * 1000 + sint (current t') \<and> n \<le> 4 \<and> n = 3 \<and> sint (current t') = 900"
proof -
  obtain n t' where r: "world_timer_run [2700, 800, 0, 400] (SetInterval 1000 IntervalTimer_new) = (n, t')"
    by fastforce
  moreover have "world_timer_run [2700, 800, 0, 400] (SetInterval 1000 IntervalTimer_new) = (3, \<lparr>interval = 1000, current = 900\<rparr>)"
    by code_simp
  ultimately show ?thesis
    using interval_timer_no_drift [OF _ _ _ _ r] by (simp add: SetInterval_def IntervalTimer_new_def)
qed

section \<open>Clock readings\<close>

text \<open>\<^verbatim>\<open>getMSTimeDiff\<close> is the elapsed time while the clock has not wrapped around, and one millisecond
  less than the elapsed time when it has.\<close>

theorem getMSTimeDiff_wraps:
  "getMSTimeDiff oldTime newTime = newTime - oldTime - (if newTime < oldTime then 1 else 0) \<and>
   unat (getMSTimeDiff oldTime newTime) =
     (if newTime < oldTime then 2 ^ 32 + unat newTime - unat oldTime - 1 else unat newTime - unat oldTime)"
proof -
  have "(0xFFFFFFFF :: u32) = - 1" by simp
  then have d: "getMSTimeDiff oldTime newTime = newTime - oldTime - (if newTime < oldTime then 1 else 0)"
    by (simp add: getMSTimeDiff_def)
  moreover have "unat (getMSTimeDiff oldTime newTime) =
      (if newTime < oldTime then 2 ^ 32 + unat newTime - unat oldTime - 1 else unat newTime - unat oldTime)"
    using unsigned_less [of oldTime, where ?'a = nat]
    by (auto simp: d unat_sub_if' word_less_nat_alt not_less)
  ultimately show ?thesis by simp
qed

end
