(* ===== verification/EventProcessor.thy ===== *)
theory EventProcessor
  imports Prelude "HOL-Library.Multiset"
begin

text \<open>
  \<^verbatim>\<open>class EventProcessor\<close> of \<^verbatim>\<open>shared/Utilities/EventProcessor.h\<close> and \<^verbatim>\<open>EventProcessor.cpp\<close>: the queue of
  timed events of a unit. The queue is the \<^verbatim>\<open>std::multimap\<close> from execution time to event, an ordered list
  here; \<^verbatim>\<open>Execute\<close> is a virtual function and therefore a parameter that may change the processor (events
  add further events), \<^verbatim>\<open>IsDeletable\<close> another. The loop of \<^verbatim>\<open>Update\<close> need not end, so it is a partial
  function; the theorems show that it ends when events add only later events, that it then runs exactly
  the due events in order, and that killed events never run.
\<close>

section \<open>Events and the queue\<close>

record 'e BasicEvent =
  to_Abort :: bool
  m_addTime :: u64
  m_execTime :: u64
  payload :: 'e

type_synonym 'e EventList = "(u64 \<times> 'e BasicEvent) list"

record 'e EventProcessor =
  m_time :: u64
  m_events :: "'e EventList"
  m_aborting :: bool

text \<open>What happens to an event: \<^verbatim>\<open>Execute\<close> (and whether it asked to be deleted), or \<^verbatim>\<open>Abort\<close>.\<close>

datatype 'e action = Executed "'e BasicEvent" bool | Aborted "'e BasicEvent"

type_synonym 'e execute =
  "u64 \<Rightarrow> u32 \<Rightarrow> 'e BasicEvent \<Rightarrow> 'e EventProcessor \<Rightarrow> bool \<times> 'e EventProcessor"

definition EventProcessor_new :: "'e EventProcessor" where
  "EventProcessor_new = \<lparr>m_time = 0, m_events = [], m_aborting = False\<rparr>"

text \<open>\<^verbatim>\<open>multimap::insert\<close> puts an element behind the ones with an equal key.\<close>

primrec insert_event :: "u64 \<Rightarrow> 'e BasicEvent \<Rightarrow> 'e EventList \<Rightarrow> 'e EventList" where
  "insert_event k e [] = [(k, e)]"
| "insert_event k e (x # xs) = (if k < fst x then (k, e) # x # xs else x # insert_event k e xs)"

definition AddEvent :: "'e BasicEvent \<Rightarrow> u64 \<Rightarrow> bool \<Rightarrow> 'e EventProcessor \<Rightarrow> 'e EventProcessor" where
  "AddEvent e e_time set_addtime p =
     (let e1 = (if set_addtime then e\<lparr>m_addTime := m_time p\<rparr> else e);
          e2 = e1\<lparr>m_execTime := e_time\<rparr>
      in p\<lparr>m_events := insert_event e_time e2 (m_events p)\<rparr>)"

definition CalculateTime :: "u64 \<Rightarrow> 'e EventProcessor \<Rightarrow> u64" where
  "CalculateTime t_offset p = m_time p + t_offset"

section \<open>Update\<close>

text \<open>One turn of the loop, and the loop.\<close>

definition run_first :: "'e execute \<Rightarrow> u32 \<Rightarrow> 'e BasicEvent \<Rightarrow> 'e EventProcessor \<Rightarrow> 'e action \<times> 'e EventProcessor"
where
  "run_first exec p_time e p =
     (if \<not> to_Abort e
      then (case exec (m_time p) p_time e p of (done, p') \<Rightarrow> (Executed e done, p'))
      else (Aborted e, p))"

partial_function (option) event_loop ::
  "'e execute \<Rightarrow> u32 \<Rightarrow> 'e EventProcessor \<Rightarrow> 'e action list \<Rightarrow> ('e action list \<times> 'e EventProcessor) option"
where
  "event_loop exec p_time p acts =
     (case m_events p of
        [] \<Rightarrow> Some (acts, p)
      | x # xs \<Rightarrow>
          if fst x \<le> m_time p
          then let r = run_first exec p_time (snd x) (p\<lparr>m_events := xs\<rparr>)
               in event_loop exec p_time (snd r) (acts @ [fst r])
          else Some (acts, p))"

definition Update ::
  "'e execute \<Rightarrow> u32 \<Rightarrow> 'e EventProcessor \<Rightarrow> ('e action list \<times> 'e EventProcessor) option" where
  "Update exec p_time p = event_loop exec p_time (p\<lparr>m_time := m_time p + ucast p_time\<rparr>) []"

section \<open>KillAllEvents\<close>

text \<open>Every queued event is marked and aborted; without \<^verbatim>\<open>force\<close> the events that may not be deleted stay
  in the queue.\<close>

definition KillAllEvents ::
  "('e BasicEvent \<Rightarrow> bool) \<Rightarrow> bool \<Rightarrow> 'e EventProcessor \<Rightarrow> 'e action list \<times> 'e EventProcessor" where
  "KillAllEvents IsDeletable force p =
     (let marked = map (\<lambda>(k, e). (k, e\<lparr>to_Abort := True\<rparr>)) (m_events p) in
      (map (\<lambda>(k, e). Aborted e) marked,
       p\<lparr>m_aborting := True,
         m_events := if force then [] else filter (\<lambda>(k, e). \<not> IsDeletable e) marked\<rparr>))"

section \<open>The contract of a timed queue\<close>

text \<open>What \<^verbatim>\<open>Update\<close> relies on: an entry goes behind the entries that are not later. Then entries for later
  leave the due ones alone.\<close>

definition in_order :: "(u64 \<times> 'x) list \<Rightarrow> bool" where
  "in_order xs \<longleftrightarrow> sorted (map fst xs)"

definition due_part :: "u64 \<Rightarrow> (u64 \<times> 'x) list \<Rightarrow> (u64 \<times> 'x) list" where
  "due_part t xs = takeWhile (\<lambda>x. fst x \<le> t) xs"

definition late_part :: "u64 \<Rightarrow> (u64 \<times> 'x) list \<Rightarrow> (u64 \<times> 'x) list" where
  "late_part t xs = dropWhile (\<lambda>x. fst x \<le> t) xs"

lemma due_late: "due_part t xs @ late_part t xs = xs"
  by (simp add: due_part_def late_part_def)

lemma late_part_all: "in_order xs \<Longrightarrow> x \<in> set (late_part t xs) \<Longrightarrow> t < fst x"
proof (induction xs)
  case (Cons y xs)
  show ?case
  proof (cases "fst y \<le> t")
    case True
    with Cons show ?thesis by (simp add: late_part_def in_order_def)
  next
    case False
    with Cons.prems have "fst y \<le> fst x" by (auto simp: late_part_def in_order_def)
    with False show ?thesis by simp
  qed
qed (simp add: late_part_def)

locale timed_queue =
  fixes add :: "u64 \<Rightarrow> 'x \<Rightarrow> 'q \<Rightarrow> 'q"
    and entries :: "'q \<Rightarrow> (u64 \<times> 'x) list"
  assumes add_entries: "in_order (entries q) \<Longrightarrow>
      entries (add k e q) = due_part k (entries q) @ (k, e) # late_part k (entries q)"
begin

lemma add_in_order:
  assumes "in_order (entries q)"
  shows "in_order (entries (add k e q))"
proof -
  have "in_order (due_part k (entries q))" "in_order (late_part k (entries q))"
    using assms due_late [of k "entries q"] unfolding in_order_def
    by (metis map_append sorted_append)+
  moreover have "x \<in> set (due_part k (entries q)) \<Longrightarrow> fst x \<le> k" for x
    unfolding due_part_def by (rule set_takeWhileD [THEN conjunct2])
  moreover have "x \<in> set (late_part k (entries q)) \<Longrightarrow> k < fst x" for x
    by (rule late_part_all [OF assms])
  ultimately show ?thesis
    unfolding add_entries [OF assms] in_order_def by (fastforce simp: sorted_append)
qed

lemma add_mset_entries:
  assumes "in_order (entries q)"
  shows "mset (entries (add k e q)) = add_mset (k, e) (mset (entries q))"
proof -
  have "mset (entries q) = mset (due_part k (entries q)) + mset (late_part k (entries q))"
    by (metis due_late mset_append)
  then show ?thesis by (simp add: add_entries [OF assms])
qed

lemma add_later_keeps_due:
  assumes "in_order (entries q)" and "t < k"
  shows "due_part t (entries (add k e q)) = due_part t (entries q)"
proof -
  have "due_part t (xs @ (k, e) # ys) = due_part t (xs @ zs)"
    if "\<And>z. z \<in> set zs \<Longrightarrow> t < fst z" for xs ys zs
  proof (induction xs)
    case Nil
    show ?case using that assms(2) by (cases zs) (auto simp: due_part_def not_le)
  qed (simp add: due_part_def)
  from this [OF order_less_trans [OF assms(2) late_part_all [OF assms(1)]]]
  show ?thesis by (metis add_entries [OF assms(1)] due_late)
qed

end

interpretation event_queue: timed_queue insert_event "\<lambda>q. q"
proof
  fix q :: "'a EventList" and k e
  assume "in_order q"
  then show "insert_event k e q = due_part k q @ (k, e) # late_part k q"
  proof (induction q)
    case (Cons x q)
    show ?case
    proof (cases "k < fst x")
      case True
      then have "\<not> fst x \<le> k" by simp
      with True show ?thesis by (simp add: due_part_def late_part_def)
    next
      case False
      then have "fst x \<le> k" by simp
      with False Cons show ?thesis by (simp add: due_part_def late_part_def in_order_def)
    qed
  qed (simp add: due_part_def late_part_def)
qed

section \<open>The loop\<close>

text \<open>The calls of \<^verbatim>\<open>AddEvent\<close> an execution makes.\<close>

type_synonym 'e additions = "('e BasicEvent \<times> u64 \<times> bool) list"

definition add_all :: "'e additions \<Rightarrow> 'e EventProcessor \<Rightarrow> 'e EventProcessor" where
  "add_all adds = fold (\<lambda>(e, k, s). AddEvent e k s) adds"

text \<open>Events that do nothing to their processor but add events for later.\<close>

definition adds_only_later :: "'e execute \<Rightarrow> bool" where
  "adds_only_later exec \<longleftrightarrow> (\<forall>t d e p. \<exists>done adds.
     exec t d e p = (done, add_all adds p) \<and> (\<forall>(e', k, s) \<in> set adds. t < k))"

lemma add_all_later:
  assumes "in_order (m_events p)" and "\<forall>(e, k, s) \<in> set adds. t < k"
  shows "in_order (m_events (add_all adds p)) \<and> m_time (add_all adds p) = m_time p \<and>
    due_part t (m_events (add_all adds p)) = due_part t (m_events p) \<and>
    mset (m_events p) \<subseteq># mset (m_events (add_all adds p))"
  using assms
proof (induction adds arbitrary: p)
  case (Cons a adds)
  obtain e k s where a: "a = (e, k, s)" by (cases a)
  let ?e = "(if s then e\<lparr>m_addTime := m_time p\<rparr> else e)\<lparr>m_execTime := k\<rparr>"
  have ev: "m_events (AddEvent e k s p) = insert_event k ?e (m_events p)"
    by (simp add: AddEvent_def Let_def)
  have "in_order (m_events (AddEvent e k s p))" "due_part t (m_events (AddEvent e k s p)) = due_part t (m_events p)"
    "mset (m_events p) \<subseteq># mset (m_events (AddEvent e k s p))"
    unfolding ev using Cons.prems
    by (simp_all add: a event_queue.add_in_order event_queue.add_later_keeps_due
        event_queue.add_mset_entries)
  moreover have "m_time (AddEvent e k s p) = m_time p" by (simp add: AddEvent_def Let_def)
  moreover have "add_all (a # adds) p = add_all adds (AddEvent e k s p)" by (simp add: add_all_def a)
  ultimately show ?case
    using Cons.IH [of "AddEvent e k s p"] Cons.prems(2) by (auto intro: subset_mset.order_trans)
qed (simp add: add_all_def)

primrec action_event :: "'e action \<Rightarrow> 'e BasicEvent" where
  "action_event (Executed e d) = e"
| "action_event (Aborted e) = e"

primrec action_ok :: "'e action \<Rightarrow> bool" where
  "action_ok (Executed e d) = (\<not> to_Abort e)"
| "action_ok (Aborted e) = to_Abort e"

lemma run_first_later:
  assumes "adds_only_later exec" and "in_order (m_events p)" and "run_first exec d e p = (a, p')"
  shows "action_event a = e \<and> action_ok a \<and> in_order (m_events p') \<and> m_time p' = m_time p \<and>
    due_part (m_time p) (m_events p') = due_part (m_time p) (m_events p) \<and>
    mset (m_events p) \<subseteq># mset (m_events p')"
proof (cases "to_Abort e")
  case True
  with assms show ?thesis by (auto simp: run_first_def)
next
  case False
  obtain d' adds where "exec (m_time p) d e p = (d', add_all adds p)" "\<forall>(e', k, s) \<in> set adds. m_time p < k"
    using assms(1) unfolding adds_only_later_def by blast
  with False assms(2,3) add_all_later [of p adds "m_time p"] show ?thesis
    by (auto simp: run_first_def)
qed

lemma event_loop_runs_due:
  assumes "adds_only_later exec" and "in_order (m_events p)"
  shows "\<exists>as p'. event_loop exec d p acts = Some (acts @ as, p') \<and> m_time p' = m_time p \<and>
    map action_event as = map snd (due_part (m_time p) (m_events p)) \<and> list_all action_ok as \<and>
    in_order (m_events p') \<and> due_part (m_time p) (m_events p') = [] \<and>
    mset (late_part (m_time p) (m_events p)) \<subseteq># mset (m_events p')"
  using assms(2)
proof (induction "length (due_part (m_time p) (m_events p))" arbitrary: p acts)
  case 0
  then have "due_part (m_time p) (m_events p) = []" by simp
  moreover have "event_loop exec d p acts = Some (acts, p)"
    using calculation by (subst event_loop.simps) (auto simp: due_part_def split: list.splits if_splits)
  ultimately show ?case
    using 0 due_late [of "m_time p" "m_events p"] by (intro exI [of _ "[]"] exI [of _ p]) simp
next
  case (Suc n)
  then obtain x xs where ev: "m_events p = x # xs" and x: "fst x \<le> m_time p"
    by (cases "m_events p") (auto simp: due_part_def split: if_splits)
  let ?q = "p\<lparr>m_events := xs\<rparr>"
  obtain a p1 where r: "run_first exec d (snd x) ?q = (a, p1)" by fastforce
  have q: "in_order (m_events ?q)" using Suc.prems by (simp add: ev in_order_def)
  note step = run_first_later [OF assms(1) q r, simplified]
  have "n = length (due_part (m_time p1) (m_events p1))"
    using Suc.hyps(2) step x by (simp add: ev due_part_def)
  from Suc.hyps(1) [OF this, of "acts @ [a]"] step obtain as p' where
    loop: "event_loop exec d p1 (acts @ [a]) = Some ((acts @ [a]) @ as, p')"
    and rest: "m_time p' = m_time p" "map action_event as = map snd (due_part (m_time p) xs)"
      "list_all action_ok as" "in_order (m_events p')" "due_part (m_time p) (m_events p') = []"
      "mset (late_part (m_time p) (m_events p1)) \<subseteq># mset (m_events p')"
    by auto
  have "event_loop exec d p acts = Some (acts @ a # as, p')"
    using loop x r by (subst event_loop.simps) (simp add: ev Let_def)
  moreover have "mset (late_part (m_time p) xs) \<subseteq># mset (late_part (m_time p) (m_events p1))"
  proof -
    have "mset xs = mset (due_part (m_time p) xs) + mset (late_part (m_time p) xs)"
      "mset (m_events p1) = mset (due_part (m_time p) xs) + mset (late_part (m_time p) (m_events p1))"
      using step by (metis due_late mset_append)+
    with step show ?thesis by simp
  qed
  moreover have "due_part (m_time p) (m_events p) = x # due_part (m_time p) xs"
    "late_part (m_time p) (m_events p) = late_part (m_time p) xs"
    using x by (simp_all add: ev due_part_def late_part_def)
  ultimately show ?case
    using rest step
    by (intro exI [of _ "a # as"] exI [of _ p']) (auto intro: subset_mset.order_trans)
qed

text \<open>C39: when the events add further events only for later, \<^verbatim>\<open>EventProcessor::Update\<close> returns: it has run
  every event that was due, in the order of their times and of their insertion, and no other; aborted
  events were not executed; no event that was not due is lost, and what is queued then is not due.\<close>

theorem Update_runs_due_events:
  assumes "adds_only_later exec" and "in_order (m_events p)" and "now = m_time p + ucast p_time"
  shows "\<exists>acts p'. Update exec p_time p = Some (acts, p') \<and> m_time p' = now \<and>
    map action_event acts = map snd (due_part now (m_events p)) \<and> list_all action_ok acts \<and>
    in_order (m_events p') \<and> (\<forall>x \<in> set (m_events p'). now < fst x) \<and>
    mset (late_part now (m_events p)) \<subseteq># mset (m_events p')"
proof -
  let ?p = "p\<lparr>m_time := now\<rparr>"
  obtain acts p' where "event_loop exec p_time ?p [] = Some (acts, p')" and p': "m_time p' = now"
    "map action_event acts = map snd (due_part now (m_events p))" "list_all action_ok acts"
    "in_order (m_events p')" "due_part now (m_events p') = []"
    "mset (late_part now (m_events p)) \<subseteq># mset (m_events p')"
    using event_loop_runs_due [OF assms(1), of ?p p_time "[]"] assms(2) by auto
  moreover have "now < fst x" if "x \<in> set (m_events p')" for x
    using that late_part_all [OF p'(4), of x now] due_late [of now "m_events p'"] p'(5) by simp
  ultimately show ?thesis
    by (auto simp: Update_def assms(3))
qed

text \<open>A unit whose event adds itself again half a second later.\<close>

definition sample_execute :: "nat execute" where
  "sample_execute t d e p =
     (if payload e = 0 \<or> t + 500 < t then (True, p)
      else (False, AddEvent (e\<lparr>payload := payload e - 1\<rparr>) (t + 500) True p))"

lemma sample_execute_later: "adds_only_later sample_execute"
  unfolding adds_only_later_def
proof (intro allI)
  fix t :: u64 and d and e :: "nat BasicEvent" and p
  let ?adds = "if payload e = 0 \<or> t + 500 < t then [] else [(e\<lparr>payload := payload e - 1\<rparr>, t + 500, True)]"
  have "t < t + 500" if "\<not> t + 500 < t" using that by (simp add: order.strict_iff_order not_less)
  then have "\<forall>(e', k, s) \<in> set ?adds. t < k" by simp
  moreover have "\<exists>done. sample_execute t d e p = (done, add_all ?adds p)"
    by (auto simp: sample_execute_def add_all_def)
  ultimately show "\<exists>done adds. sample_execute t d e p = (done, add_all adds p) \<and>
      (\<forall>(e', k, s) \<in> set adds. t < k)"
    by blast
qed

definition sample_event :: "nat \<Rightarrow> bool \<Rightarrow> nat BasicEvent" where
  "sample_event n ab = \<lparr>to_Abort = ab, m_addTime = 0, m_execTime = 0, payload = n\<rparr>"

definition sample_processor :: "nat EventProcessor" where
  "sample_processor =
     AddEvent (sample_event 2 True) 40 True (AddEvent (sample_event 0 False) 90 True
       (AddEvent (sample_event 1 False) 40 True EventProcessor_new))"

theorem Update_runs_due_events_witness:
  "adds_only_later sample_execute \<and> in_order (m_events sample_processor) \<and>
   (\<exists>acts p'. Update sample_execute 50 sample_processor = Some (acts, p') \<and> m_time p' = 50 \<and>
      map (\<lambda>a. payload (action_event a)) acts = [1, 2] \<and> list_all action_ok acts \<and>
      fst ` set (m_events p') \<subseteq> {50<..})"
proof -
  have o: "in_order (m_events sample_processor)" by code_simp
  have n: "(50 :: u64) = m_time sample_processor + ucast (50 :: u32)" by code_simp
  have d: "map payload (map snd (due_part 50 (m_events sample_processor))) = [1, 2]" by code_simp
  from Update_runs_due_events [OF sample_execute_later o n] obtain acts p' where
    u: "Update sample_execute 50 sample_processor = Some (acts, p')" "m_time p' = 50"
      "map action_event acts = map snd (due_part 50 (m_events sample_processor))" "list_all action_ok acts"
      "\<forall>x \<in> set (m_events p'). 50 < fst x"
    by blast
  have "map (\<lambda>a. payload (action_event a)) acts = map payload (map action_event acts)" by simp
  with u d o sample_execute_later show ?thesis by auto
qed

section \<open>Killed events\<close>

lemma event_loop_aborted:
  assumes "list_all (\<lambda>x. to_Abort (snd x)) (m_events p)"
  shows "event_loop exec d p acts =
    Some (acts @ map (\<lambda>x. Aborted (snd x)) (due_part (m_time p) (m_events p)),
      p\<lparr>m_events := late_part (m_time p) (m_events p)\<rparr>)"
  using assms
proof (induction "m_events p" arbitrary: p acts)
  case Nil
  then show ?case by (subst event_loop.simps) (simp flip: Nil.hyps add: due_part_def late_part_def)
next
  case (Cons x xs)
  let ?q = "p\<lparr>m_events := xs\<rparr>"
  have ev: "m_events p = x # xs" and same: "p\<lparr>m_events := x # xs\<rparr> = p" using Cons.hyps(2) by simp_all
  from Cons.prems have ab: "to_Abort (snd x)" "list_all (\<lambda>x. to_Abort (snd x)) xs" by (simp_all add: ev)
  from Cons.hyps(1) [of ?q] ab(2) have IH: "event_loop exec d ?q bs =
      Some (bs @ map (\<lambda>x. Aborted (snd x)) (due_part (m_time p) xs), p\<lparr>m_events := late_part (m_time p) xs\<rparr>)"
    for bs by simp
  show ?case
    using ab(1)
    by (subst event_loop.simps) (simp add: ev same IH run_first_def Let_def due_part_def late_part_def)
qed

text \<open>after \<^verbatim>\<open>EventProcessor::KillAllEvents\<close> none of the killed events ever executes: each was aborted once
  by the call; with force the queue is empty, without it the events that may not be deleted stay, marked,
  and an update returns, aborts the due ones among them again and executes nothing.\<close>

theorem killed_events_never_execute:
  "fst (KillAllEvents del force p) = map (\<lambda>x. Aborted ((snd x)\<lparr>to_Abort := True\<rparr>)) (m_events p) \<and>
   map fst (m_events (snd (KillAllEvents del force p))) =
     (if force then []
      else map fst (filter (\<lambda>x. \<not> del ((snd x)\<lparr>to_Abort := True\<rparr>)) (m_events p))) \<and>
   Update exec p_time (snd (KillAllEvents del force p)) =
     (let q = snd (KillAllEvents del force p); now = m_time p + ucast p_time in
      Some (map (\<lambda>x. Aborted (snd x)) (due_part now (m_events q)),
        q\<lparr>m_time := now, m_events := late_part now (m_events q)\<rparr>))"
proof -
  let ?q = "snd (KillAllEvents del force p)"
  have ab: "list_all (\<lambda>x. to_Abort (snd x)) (m_events ?q)"
    by (auto simp: KillAllEvents_def Let_def list_all_iff)
  have t: "m_time ?q = m_time p" by (simp add: KillAllEvents_def Let_def)
  have "Update exec p_time ?q = (let now = m_time p + ucast p_time in
      Some (map (\<lambda>x. Aborted (snd x)) (due_part now (m_events ?q)),
        ?q\<lparr>m_time := now, m_events := late_part now (m_events ?q)\<rparr>))"
    using event_loop_aborted [of "?q\<lparr>m_time := m_time p + ucast p_time\<rparr>" exec p_time "[]"] ab
    by (simp add: Update_def t Let_def)
  moreover have "fst (KillAllEvents del force p) = map (\<lambda>x. Aborted ((snd x)\<lparr>to_Abort := True\<rparr>)) (m_events p)"
    by (simp add: KillAllEvents_def Let_def case_prod_unfold)
  moreover have "map fst (m_events ?q) =
      (if force then [] else map fst (filter (\<lambda>x. \<not> del ((snd x)\<lparr>to_Abort := True\<rparr>)) (m_events p)))"
    by (simp add: KillAllEvents_def Let_def case_prod_unfold filter_map comp_def)
  ultimately show ?thesis by (simp add: Let_def)
qed

section \<open>Events for now\<close>

text \<open>The condition on the events is needed: with an event that adds itself again for the current time the
  loop never returns.\<close>

lemma readding_now_never_returns:
  assumes "exec = (\<lambda>t d e p. (False, AddEvent e t True p))" and "\<not> to_Abort e" and "k \<le> m_time p"
    and "m_events p = [(k, e)]"
  shows "event_loop exec d p acts = None"
proof -
  let ?stuck = "\<lambda>p. \<exists>k e. m_events p = [(k, e)] \<and> \<not> to_Abort e \<and> k \<le> m_time p"
  have "\<not> ?stuck p" if run: "event_loop exec d p acts = Some r" for r
  proof -
    have "exec = (\<lambda>t d e p. (False, AddEvent e t True p)) \<longrightarrow> \<not> ?stuck p"
      by (rule event_loop.raw_induct [where P = "\<lambda>ex d p acts r.
          ex = (\<lambda>t d e p. (False, AddEvent e t True p)) \<longrightarrow> \<not> ?stuck p", OF _ run])
        (fastforce simp: run_first_def AddEvent_def Let_def split: list.splits if_splits)
    with assms(1) show ?thesis by simp
  qed
  with assms(2-4) show ?thesis by (cases "event_loop exec d p acts") auto
qed

end
