(* ===== verification/StdMap.thy ===== *)
theory StdMap
  imports Prelude
begin

text \<open>
  \<^verbatim>\<open>std::map\<close> as the code uses it: an association list in the order of its keys, so that iteration and the first
  element are those of the container. The contract of the operations is the locale \<open>keyed_store\<close>.
\<close>

section \<open>Operations\<close>

primrec store_put :: "'k::linorder \<Rightarrow> 'v \<Rightarrow> ('k \<times> 'v) list \<Rightarrow> ('k \<times> 'v) list" where
  "store_put k v [] = [(k, v)]"
| "store_put k v (x # xs) =
     (if k < fst x then (k, v) # x # xs else if k = fst x then (k, v) # xs
      else x # store_put k v xs)"

definition store_erase :: "'k \<Rightarrow> ('k \<times> 'v) list \<Rightarrow> ('k \<times> 'v) list" where
  "store_erase k s = filter (\<lambda>x. fst x \<noteq> k) s"

definition ordered_store :: "('k::linorder \<times> 'v) list \<Rightarrow> bool" where
  "ordered_store s \<longleftrightarrow> sorted_wrt (<) (map fst s)"

section \<open>The contract\<close>

text \<open>What the code relies on of \<^verbatim>\<open>std::map\<close>: lookups after an insertion and a removal, and the order
  of the keys.\<close>

locale keyed_store =
  fixes put :: "'k \<Rightarrow> 'v \<Rightarrow> 's \<Rightarrow> 's"
    and erase :: "'k \<Rightarrow> 's \<Rightarrow> 's"
    and find :: "'s \<Rightarrow> 'k \<Rightarrow> 'v option"
    and ordered :: "'s \<Rightarrow> bool"
  assumes find_put: "find (put k v s) = (find s)(k \<mapsto> v)"
    and find_erase: "find (erase k s) = (find s)(k := None)"
    and ordered_put: "ordered s \<Longrightarrow> ordered (put k v s)"
    and ordered_erase: "ordered s \<Longrightarrow> ordered (erase k s)"
begin

definition entries_ok :: "('k \<Rightarrow> 'v \<Rightarrow> bool) \<Rightarrow> 's \<Rightarrow> bool" where
  "entries_ok P s \<longleftrightarrow> ordered s \<and> (\<forall>k v. find s k = Some v \<longrightarrow> P k v)"

lemma entries_ok_put: "entries_ok P s \<Longrightarrow> P k v \<Longrightarrow> entries_ok P (put k v s)"
  by (auto simp: entries_ok_def find_put ordered_put)

lemma entries_ok_erase: "entries_ok P s \<Longrightarrow> entries_ok P (erase k s)"
  by (auto simp: entries_ok_def find_erase ordered_erase)

lemma entries_ok_put_new:
  assumes "entries_ok P s" and "Q k v" and "\<And>k' v'. k' \<noteq> k \<Longrightarrow> find s k' = Some v' \<Longrightarrow> P k' v' \<Longrightarrow> Q k' v'"
  shows "entries_ok Q (put k v s)"
  using assms by (auto simp: entries_ok_def find_put ordered_put)

lemma entries_ok_erase_new:
  assumes "entries_ok P s" and "\<And>k' v'. k' \<noteq> k \<Longrightarrow> P k' v' \<Longrightarrow> Q k' v'"
  shows "entries_ok Q (erase k s)"
  using assms by (auto simp: entries_ok_def find_erase ordered_erase)

lemma entries_ok_mono:
  "entries_ok P s \<Longrightarrow> (\<And>k v. find s k = Some v \<Longrightarrow> P k v \<Longrightarrow> Q k v) \<Longrightarrow> entries_ok Q s"
  by (auto simp: entries_ok_def)

end

lemma set_store_put: "fst ` set (store_put k v s) = insert k (fst ` set s)"
  by (induction s) auto

lemma store_put_not_Nil: "store_put k v s \<noteq> []"
  by (cases s) simp_all

interpretation std_map: keyed_store store_put store_erase map_of ordered_store
proof
  fix k :: "'a::linorder" and v and s :: "('a \<times> 'b) list"
  show "map_of (store_put k v s) = (map_of s)(k \<mapsto> v)"
    by (induction s) (auto simp: fun_eq_iff)
  show "map_of (store_erase k s) = (map_of s)(k := None)"
    by (induction s) (auto simp: store_erase_def fun_eq_iff)
  assume "ordered_store s"
  then show "ordered_store (store_put k v s)"
  proof (induction s)
    case (Cons x s)
    have "\<forall>y \<in> fst ` set (store_put k v s). fst x < y" if "fst x < k"
      using that Cons.prems by (simp add: set_store_put ordered_store_def)
    with Cons show ?case
      by (force simp: ordered_store_def)
  qed (simp add: ordered_store_def)
  show "ordered_store (store_erase k s)"
    using \<open>ordered_store s\<close> by (induction s) (auto simp: ordered_store_def store_erase_def)
qed

lemma store_put_put: "store_put k v (store_put k u s) = store_put k v s"
  by (induction s) auto

lemma store_put_same: "ordered_store s \<Longrightarrow> map_of s k = Some v \<Longrightarrow> store_put k v s = s"
proof (induction s)
  case (Cons x s)
  have "\<not> k < fst x" if "map_of s k = Some v"
    using Cons.prems(1) map_of_SomeD [OF that] by (force simp: ordered_store_def)
  with Cons show ?case
    by (cases x) (auto simp: ordered_store_def split: if_splits)
qed simp

section \<open>Counting entries\<close>

definition entries :: "('k \<times> 'v \<Rightarrow> bool) \<Rightarrow> ('k \<times> 'v) list \<Rightarrow> nat" where
  "entries P s = length (filter P s)"

lemma ordered_distinct: "ordered_store s \<Longrightarrow> distinct (map fst s)"
  by (auto simp: ordered_store_def strict_sorted_iff)

lemma entries_put:
  "ordered_store s \<Longrightarrow>
   entries P (store_put k v s) + (case map_of s k of None \<Rightarrow> 0 | Some u \<Rightarrow> of_bool (P (k, u))) = entries P s + of_bool (P (k, v))"
proof (induction s)
  case (Cons x s)
  have "map_of s j = None" if "j \<le> fst x" for j
    using Cons.prems that by (force simp: ordered_store_def map_of_eq_None_iff)
  with Cons show ?case
    by (cases x) (auto simp: entries_def ordered_store_def)
qed (simp add: entries_def)

text \<open>A counter of any width that follows the entries with a property, wrap-around included.\<close>

lemma entries_put_word:
  assumes "ordered_store s" and "map_of s k = Some u"
  shows "(of_nat (entries P (store_put k v s)) :: 'w::len word) = of_nat (entries P s) - of_bool (P (k, u)) + of_bool (P (k, v))"
proof -
  have "of_nat (entries P (store_put k v s) + of_bool (P (k, u))) = (of_nat (entries P s + of_bool (P (k, v))) :: 'w word)"
    using entries_put [OF assms(1), of P k v] assms(2) by simp
  then show ?thesis by (simp add: algebra_simps of_bool_def split: if_splits)
qed

lemma entries_cong: "(\<And>k v. map_of s k = Some v \<Longrightarrow> P (k, v) = Q (k, v)) \<Longrightarrow> distinct (map fst s) \<Longrightarrow> entries P s = entries Q s"
  unfolding entries_def by (rule arg_cong [where f = length], rule filter_cong) auto

lemma entries_card: "distinct (map fst s) \<Longrightarrow> entries P s = card {k. \<exists>v. map_of s k = Some v \<and> P (k, v)}"
proof -
  assume d: "distinct (map fst s)"
  have "{k. \<exists>v. map_of s k = Some v \<and> P (k, v)} = fst ` set (filter P s)"
    using d by (force simp: image_iff dest: map_of_SomeD)
  moreover have "distinct (map fst (filter P s))" using d by (rule distinct_map_filter)
  ultimately show ?thesis unfolding entries_def by (metis distinct_card length_map list.set_map)
qed

end
