(* ===== verification/Channel.thy ===== *)
theory Channel
  imports ByteBuffer ObjectGuid StdMap
begin

text \<open>
  \<^verbatim>\<open>class Channel\<close> of \<^verbatim>\<open>game/Chat/Channels/Channel.h\<close> and \<^verbatim>\<open>Channel.cpp\<close>: a chat channel with its members,
  its owner, its moderators and its ban list. Every member function is one definition; it maps the
  channel to the effects it has (packets sent, calls to players and to the database) and the changed
  channel. What it asks of players, of the world's options and of the database is in the record \<open>Realm\<close>
  and in the arguments. A packet is its opcode and the bytes written to it.
\<close>

section \<open>State\<close>

record PlayerInfo =
  player :: u64
  flags :: u8

text \<open>\<^verbatim>\<open>std::map<uint64, PlayerInfo>\<close>, in the order of its keys.\<close>

type_synonym PlayerContainer = "(u64 \<times> PlayerInfo) list"
type_synonym str = "u8 list"

record Channel =
  ch_announce :: bool
  ch_ownership :: bool
  ch_IsSaved :: bool
  ch_flags :: u8
  ch_channelId :: u32
  ch_Team :: u32
  ch_ownerGUID :: u64
  ch_name :: str
  ch_password :: str
  playersStore :: PlayerContainer
  bannedStore :: "u64 set"

text \<open>A player as far as a channel looks at it.\<close>

record ChatPlayer =
  pl_guid :: u64
  pl_security :: u32
  pl_team :: u32
  pl_name :: str
  pl_inGroup :: bool
  pl_isGMVisible :: bool
  pl_chatTag :: u8

record Realm =
  FindPlayer :: "u64 \<Rightarrow> ChatPlayer option"
  FindPlayerByName :: "str \<Rightarrow> ChatPlayer option"
  HasIgnore :: "u64 \<Rightarrow> u32 \<Rightarrow> bool"
  IsVisibleGloballyFor :: "u64 \<Rightarrow> u64 \<Rightarrow> bool"
  GetPlayerNameByGUID :: "u64 \<Rightarrow> str option"
  silently_gm_join :: bool
  restricted_lfg_channel :: bool
  two_side_channel :: bool
  gm_level_in_who_list :: u32

datatype packet = Packet (opcode: u32) (contents: "u8 list")

datatype effect =
    SendPacket u64 packet
  | JoinedChannel u64
  | LeftChannel u64
  | UpdateChannel bool bool str "u64 list" str u32
  | UpdateChannelUsage str u32
  | InsertChannel str u32

type_synonym chan_op = "Channel \<Rightarrow> effect list \<times> Channel"

section \<open>Statements\<close>

text \<open>A block of statements collects the effects in order.\<close>

primrec block :: "chan_op list \<Rightarrow> chan_op" where
  "block [] c = ([], c)"
| "block (f # fs) c = (case f c of (o1, c1) \<Rightarrow> (case block fs c1 of (o2, c2) \<Rightarrow> (o1 @ o2, c2)))"

declare block.simps [simp del]

definition change :: "(Channel \<Rightarrow> Channel) \<Rightarrow> chan_op" where
  "change f c = ([], f c)"

definition emit :: "(Channel \<Rightarrow> effect list) \<Rightarrow> chan_op" where
  "emit f c = (f c, c)"

section \<open>The member map\<close>

text \<open>\<^verbatim>\<open>operator[]\<close> puts a zero-initialised entry where there is none.\<close>

definition store_at :: "u64 \<Rightarrow> PlayerContainer \<Rightarrow> PlayerInfo" where
  "store_at k s = (case map_of s k of None \<Rightarrow> \<lparr>player = 0, flags = 0\<rparr> | Some i \<Rightarrow> i)"

definition store_modify :: "u64 \<Rightarrow> (PlayerInfo \<Rightarrow> PlayerInfo) \<Rightarrow> Channel \<Rightarrow> Channel" where
  "store_modify k f c = c\<lparr>playersStore := store_put k (f (store_at k (playersStore c))) (playersStore c)\<rparr>"

section \<open>Constants\<close>

definition MEMBER_FLAG_NONE :: u8 where "MEMBER_FLAG_NONE = 0x00"
definition MEMBER_FLAG_OWNER :: u8 where "MEMBER_FLAG_OWNER = 0x01"
definition MEMBER_FLAG_MODERATOR :: u8 where "MEMBER_FLAG_MODERATOR = 0x02"
definition MEMBER_FLAG_MUTED :: u8 where "MEMBER_FLAG_MUTED = 0x08"

definition CHANNEL_FLAG_CUSTOM :: u8 where "CHANNEL_FLAG_CUSTOM = 0x01"
definition CHANNEL_FLAG_TRADE :: u8 where "CHANNEL_FLAG_TRADE = 0x04"
definition CHANNEL_FLAG_NOT_LFG :: u8 where "CHANNEL_FLAG_NOT_LFG = 0x08"
definition CHANNEL_FLAG_GENERAL :: u8 where "CHANNEL_FLAG_GENERAL = 0x10"
definition CHANNEL_FLAG_CITY :: u8 where "CHANNEL_FLAG_CITY = 0x20"
definition CHANNEL_FLAG_LFG :: u8 where "CHANNEL_FLAG_LFG = 0x40"
definition CHANNEL_DBC_FLAG_TRADE :: u32 where "CHANNEL_DBC_FLAG_TRADE = 0x00008"
definition CHANNEL_DBC_FLAG_CITY_ONLY2 :: u32 where "CHANNEL_DBC_FLAG_CITY_ONLY2 = 0x00020"
definition CHANNEL_DBC_FLAG_LFG :: u32 where "CHANNEL_DBC_FLAG_LFG = 0x40000"

definition SMSG_CHANNEL_LIST :: u32 where "SMSG_CHANNEL_LIST = 0x2214"
definition SMSG_CHANNEL_NOTIFY :: u32 where "SMSG_CHANNEL_NOTIFY = 0x0825"
definition SMSG_MESSAGECHAT :: u32 where "SMSG_MESSAGECHAT = 0x2026"
definition SMSG_USERLIST_ADD :: u32 where "SMSG_USERLIST_ADD = 0x0F37"
definition SMSG_USERLIST_REMOVE :: u32 where "SMSG_USERLIST_REMOVE = 0x2006"
definition SMSG_USERLIST_UPDATE :: u32 where "SMSG_USERLIST_UPDATE = 0x0135"
definition CHAT_MSG_CHANNEL :: u8 where "CHAT_MSG_CHANNEL = 0x11"
definition LANG_UNIVERSAL :: u32 where "LANG_UNIVERSAL = 0"
definition SEC_GAMEMASTER :: u32 where "SEC_GAMEMASTER = 3"
definition SEC_CONSOLE :: u32 where "SEC_CONSOLE = 10"

datatype ChatNotify =
    CHAT_JOINED_NOTICE | CHAT_LEFT_NOTICE | CHAT_YOU_JOINED_NOTICE | CHAT_YOU_LEFT_NOTICE
  | CHAT_WRONG_PASSWORD_NOTICE | CHAT_NOT_MEMBER_NOTICE | CHAT_NOT_MODERATOR_NOTICE
  | CHAT_PASSWORD_CHANGED_NOTICE | CHAT_OWNER_CHANGED_NOTICE | CHAT_PLAYER_NOT_FOUND_NOTICE
  | CHAT_NOT_OWNER_NOTICE | CHAT_CHANNEL_OWNER_NOTICE | CHAT_MODE_CHANGE_NOTICE
  | CHAT_ANNOUNCEMENTS_ON_NOTICE | CHAT_ANNOUNCEMENTS_OFF_NOTICE | CHAT_MODERATION_ON_NOTICE
  | CHAT_MODERATION_OFF_NOTICE | CHAT_MUTED_NOTICE
  | CHAT_PLAYER_KICKED_NOTICE | CHAT_BANNED_NOTICE | CHAT_PLAYER_BANNED_NOTICE
  | CHAT_PLAYER_UNBANNED_NOTICE | CHAT_PLAYER_NOT_BANNED_NOTICE | CHAT_PLAYER_ALREADY_MEMBER_NOTICE
  | CHAT_INVITE_NOTICE | CHAT_INVITE_WRONG_FACTION_NOTICE | CHAT_WRONG_FACTION_NOTICE
  | CHAT_INVALID_NAME_NOTICE | CHAT_NOT_MODERATED_NOTICE | CHAT_PLAYER_INVITED_NOTICE
  | CHAT_PLAYER_INVITE_BANNED_NOTICE | CHAT_THROTTLED_NOTICE | CHAT_NOT_IN_AREA_NOTICE
  | CHAT_NOT_IN_LFG_NOTICE | CHAT_VOICE_ON_NOTICE | CHAT_VOICE_OFF_NOTICE

fun notify_code :: "ChatNotify \<Rightarrow> u8" where
  "notify_code CHAT_JOINED_NOTICE = 0x00"
| "notify_code CHAT_LEFT_NOTICE = 0x01"
| "notify_code CHAT_YOU_JOINED_NOTICE = 0x02"
| "notify_code CHAT_YOU_LEFT_NOTICE = 0x03"
| "notify_code CHAT_WRONG_PASSWORD_NOTICE = 0x04"
| "notify_code CHAT_NOT_MEMBER_NOTICE = 0x05"
| "notify_code CHAT_NOT_MODERATOR_NOTICE = 0x06"
| "notify_code CHAT_PASSWORD_CHANGED_NOTICE = 0x07"
| "notify_code CHAT_OWNER_CHANGED_NOTICE = 0x08"
| "notify_code CHAT_PLAYER_NOT_FOUND_NOTICE = 0x09"
| "notify_code CHAT_NOT_OWNER_NOTICE = 0x0A"
| "notify_code CHAT_CHANNEL_OWNER_NOTICE = 0x0B"
| "notify_code CHAT_MODE_CHANGE_NOTICE = 0x0C"
| "notify_code CHAT_ANNOUNCEMENTS_ON_NOTICE = 0x0D"
| "notify_code CHAT_ANNOUNCEMENTS_OFF_NOTICE = 0x0E"
| "notify_code CHAT_MODERATION_ON_NOTICE = 0x0F"
| "notify_code CHAT_MODERATION_OFF_NOTICE = 0x10"
| "notify_code CHAT_MUTED_NOTICE = 0x11"
| "notify_code CHAT_PLAYER_KICKED_NOTICE = 0x12"
| "notify_code CHAT_BANNED_NOTICE = 0x13"
| "notify_code CHAT_PLAYER_BANNED_NOTICE = 0x14"
| "notify_code CHAT_PLAYER_UNBANNED_NOTICE = 0x15"
| "notify_code CHAT_PLAYER_NOT_BANNED_NOTICE = 0x16"
| "notify_code CHAT_PLAYER_ALREADY_MEMBER_NOTICE = 0x17"
| "notify_code CHAT_INVITE_NOTICE = 0x18"
| "notify_code CHAT_INVITE_WRONG_FACTION_NOTICE = 0x19"
| "notify_code CHAT_WRONG_FACTION_NOTICE = 0x1A"
| "notify_code CHAT_INVALID_NAME_NOTICE = 0x1B"
| "notify_code CHAT_NOT_MODERATED_NOTICE = 0x1C"
| "notify_code CHAT_PLAYER_INVITED_NOTICE = 0x1D"
| "notify_code CHAT_PLAYER_INVITE_BANNED_NOTICE = 0x1E"
| "notify_code CHAT_THROTTLED_NOTICE = 0x1F"
| "notify_code CHAT_NOT_IN_AREA_NOTICE = 0x20"
| "notify_code CHAT_NOT_IN_LFG_NOTICE = 0x21"
| "notify_code CHAT_VOICE_ON_NOTICE = 0x22"
| "notify_code CHAT_VOICE_OFF_NOTICE = 0x23"

section \<open>Members\<close>

definition info_HasFlag :: "u8 \<Rightarrow> PlayerInfo \<Rightarrow> bool" where
  "info_HasFlag flag i \<longleftrightarrow> flags i AND flag \<noteq> 0"

definition IsOwner :: "PlayerInfo \<Rightarrow> bool" where
  "IsOwner i \<longleftrightarrow> flags i AND MEMBER_FLAG_OWNER \<noteq> 0"

definition info_SetOwner :: "bool \<Rightarrow> PlayerInfo \<Rightarrow> PlayerInfo" where
  "info_SetOwner state i =
     i\<lparr>flags := if state then flags i OR MEMBER_FLAG_OWNER else flags i AND NOT MEMBER_FLAG_OWNER\<rparr>"

definition IsModerator :: "PlayerInfo \<Rightarrow> bool" where
  "IsModerator i \<longleftrightarrow> flags i AND MEMBER_FLAG_MODERATOR \<noteq> 0"

definition info_SetModerator :: "bool \<Rightarrow> PlayerInfo \<Rightarrow> PlayerInfo" where
  "info_SetModerator state i =
     i\<lparr>flags := if state then flags i OR MEMBER_FLAG_MODERATOR else flags i AND NOT MEMBER_FLAG_MODERATOR\<rparr>"

definition IsMuted :: "PlayerInfo \<Rightarrow> bool" where
  "IsMuted i \<longleftrightarrow> flags i AND MEMBER_FLAG_MUTED \<noteq> 0"

definition info_SetMuted :: "bool \<Rightarrow> PlayerInfo \<Rightarrow> PlayerInfo" where
  "info_SetMuted state i =
     i\<lparr>flags := if state then flags i OR MEMBER_FLAG_MUTED else flags i AND NOT MEMBER_FLAG_MUTED\<rparr>"

definition IsConstant :: "Channel \<Rightarrow> bool" where
  "IsConstant c \<longleftrightarrow> ch_channelId c \<noteq> 0"

definition Channel_HasFlag :: "u8 \<Rightarrow> Channel \<Rightarrow> bool" where
  "Channel_HasFlag flag c \<longleftrightarrow> ch_flags c AND flag \<noteq> 0"

definition GetNumPlayers :: "Channel \<Rightarrow> u32" where
  "GetNumPlayers c = of_nat (length (playersStore c))"

definition IsOn :: "u64 \<Rightarrow> Channel \<Rightarrow> bool" where
  "IsOn who c \<longleftrightarrow> map_of (playersStore c) who \<noteq> None"

definition IsBanned :: "u64 \<Rightarrow> Channel \<Rightarrow> bool" where
  "IsBanned guid c \<longleftrightarrow> guid \<in> bannedStore c"

definition GetPlayerFlags :: "u64 \<Rightarrow> Channel \<Rightarrow> u8" where
  "GetPlayerFlags guid c = (case map_of (playersStore c) guid of None \<Rightarrow> 0 | Some i \<Rightarrow> flags i)"

text \<open>\<^verbatim>\<open>playersStore[guid].IsModerator()\<close> and the like, behind a check that the player is on.\<close>

definition member :: "u64 \<Rightarrow> Channel \<Rightarrow> PlayerInfo" where
  "member guid c = store_at guid (playersStore c)"

definition IsGMAccount :: "u32 \<Rightarrow> bool" where
  "IsGMAccount gmlevel \<longleftrightarrow> SEC_GAMEMASTER \<le> gmlevel \<and> gmlevel \<le> SEC_CONSOLE"

definition IsPlayerAccount :: "u32 \<Rightarrow> bool" where
  "IsPlayerAccount gmlevel \<longleftrightarrow> gmlevel = 0"

section \<open>Packets\<close>

text \<open>\<^verbatim>\<open>operator<<\<close> of a string: its bytes and a zero.\<close>

definition str_bytes :: "str \<Rightarrow> u8 list" where
  "str_bytes s = s @ [0]"

definition MakeNotifyPacket :: "ChatNotify \<Rightarrow> u8 list \<Rightarrow> Channel \<Rightarrow> packet" where
  "MakeNotifyPacket notify_type rest c =
     Packet SMSG_CHANNEL_NOTIFY ([notify_code notify_type] @ str_bytes (ch_name c) @ rest)"

definition MakeJoined :: "u64 \<Rightarrow> Channel \<Rightarrow> packet" where
  "MakeJoined guid = MakeNotifyPacket CHAT_JOINED_NOTICE (le_bytes 8 guid)"

definition MakeLeft :: "u64 \<Rightarrow> Channel \<Rightarrow> packet" where
  "MakeLeft guid = MakeNotifyPacket CHAT_LEFT_NOTICE (le_bytes 8 guid)"

definition MakeYouJoined :: "Channel \<Rightarrow> packet" where
  "MakeYouJoined c =
     MakeNotifyPacket CHAT_YOU_JOINED_NOTICE
       ([ch_flags c] @ le_bytes 4 (ch_channelId c) @ le_bytes 4 (0 :: u32)) c"

definition MakeYouLeft :: "Channel \<Rightarrow> packet" where
  "MakeYouLeft c =
     MakeNotifyPacket CHAT_YOU_LEFT_NOTICE (le_bytes 4 (ch_channelId c) @ [of_bool (IsConstant c)]) c"

definition MakeWrongPassword :: "Channel \<Rightarrow> packet" where
  "MakeWrongPassword = MakeNotifyPacket CHAT_WRONG_PASSWORD_NOTICE []"

definition MakeNotMember :: "Channel \<Rightarrow> packet" where
  "MakeNotMember = MakeNotifyPacket CHAT_NOT_MEMBER_NOTICE []"

definition MakeNotModerator :: "Channel \<Rightarrow> packet" where
  "MakeNotModerator = MakeNotifyPacket CHAT_NOT_MODERATOR_NOTICE []"

definition MakePasswordChanged :: "u64 \<Rightarrow> Channel \<Rightarrow> packet" where
  "MakePasswordChanged guid = MakeNotifyPacket CHAT_PASSWORD_CHANGED_NOTICE (le_bytes 8 guid)"

definition MakeOwnerChanged :: "u64 \<Rightarrow> Channel \<Rightarrow> packet" where
  "MakeOwnerChanged guid = MakeNotifyPacket CHAT_OWNER_CHANGED_NOTICE (le_bytes 8 guid)"

definition MakePlayerNotFound :: "str \<Rightarrow> Channel \<Rightarrow> packet" where
  "MakePlayerNotFound name = MakeNotifyPacket CHAT_PLAYER_NOT_FOUND_NOTICE (str_bytes name)"

definition MakeNotOwner :: "Channel \<Rightarrow> packet" where
  "MakeNotOwner = MakeNotifyPacket CHAT_NOT_OWNER_NOTICE []"

text \<open>The texts \<^verbatim>\<open>PLAYER_NOT_FOUND\<close> and \<^verbatim>\<open>Nobody\<close>.\<close>

definition ascii :: "string \<Rightarrow> str" where
  "ascii s = map (\<lambda>ch. of_nat (of_char ch)) s"

definition MakeChannelOwner :: "Realm \<Rightarrow> Channel \<Rightarrow> packet" where
  "MakeChannelOwner rl c =
     (let name = (case GetPlayerNameByGUID rl (ch_ownerGUID c) of
                    None \<Rightarrow> ascii ''PLAYER_NOT_FOUND''
                  | Some n \<Rightarrow> if n = [] then ascii ''PLAYER_NOT_FOUND'' else n) in
      MakeNotifyPacket CHAT_CHANNEL_OWNER_NOTICE
        (str_bytes (if IsConstant c \<or> ch_ownerGUID c = 0 then ascii ''Nobody'' else name)) c)"

definition MakeModeChange :: "u64 \<Rightarrow> u8 \<Rightarrow> Channel \<Rightarrow> packet" where
  "MakeModeChange guid oldflags c =
     MakeNotifyPacket CHAT_MODE_CHANGE_NOTICE (le_bytes 8 guid @ [oldflags, GetPlayerFlags guid c]) c"

definition MakeAnnouncementsOn :: "u64 \<Rightarrow> Channel \<Rightarrow> packet" where
  "MakeAnnouncementsOn guid = MakeNotifyPacket CHAT_ANNOUNCEMENTS_ON_NOTICE (le_bytes 8 guid)"

definition MakeAnnouncementsOff :: "u64 \<Rightarrow> Channel \<Rightarrow> packet" where
  "MakeAnnouncementsOff guid = MakeNotifyPacket CHAT_ANNOUNCEMENTS_OFF_NOTICE (le_bytes 8 guid)"

definition MakeMuted :: "Channel \<Rightarrow> packet" where
  "MakeMuted = MakeNotifyPacket CHAT_MUTED_NOTICE []"

definition MakePlayerKicked :: "u64 \<Rightarrow> u64 \<Rightarrow> Channel \<Rightarrow> packet" where
  "MakePlayerKicked bad good =
     MakeNotifyPacket CHAT_PLAYER_KICKED_NOTICE (le_bytes 8 bad @ le_bytes 8 good)"

definition MakeBanned :: "Channel \<Rightarrow> packet" where
  "MakeBanned = MakeNotifyPacket CHAT_BANNED_NOTICE []"

definition MakePlayerBanned :: "u64 \<Rightarrow> u64 \<Rightarrow> Channel \<Rightarrow> packet" where
  "MakePlayerBanned bad good =
     MakeNotifyPacket CHAT_PLAYER_BANNED_NOTICE (le_bytes 8 bad @ le_bytes 8 good)"

definition MakePlayerUnbanned :: "u64 \<Rightarrow> u64 \<Rightarrow> Channel \<Rightarrow> packet" where
  "MakePlayerUnbanned bad good =
     MakeNotifyPacket CHAT_PLAYER_UNBANNED_NOTICE (le_bytes 8 bad @ le_bytes 8 good)"

definition MakePlayerAlreadyMember :: "u64 \<Rightarrow> Channel \<Rightarrow> packet" where
  "MakePlayerAlreadyMember guid = MakeNotifyPacket CHAT_PLAYER_ALREADY_MEMBER_NOTICE (le_bytes 8 guid)"

definition MakeInvite :: "u64 \<Rightarrow> Channel \<Rightarrow> packet" where
  "MakeInvite guid = MakeNotifyPacket CHAT_INVITE_NOTICE (le_bytes 8 guid)"

definition MakeInviteWrongFaction :: "Channel \<Rightarrow> packet" where
  "MakeInviteWrongFaction = MakeNotifyPacket CHAT_INVITE_WRONG_FACTION_NOTICE []"

definition MakePlayerInvited :: "str \<Rightarrow> Channel \<Rightarrow> packet" where
  "MakePlayerInvited name = MakeNotifyPacket CHAT_PLAYER_INVITED_NOTICE (str_bytes name)"

definition MakePlayerInviteBanned :: "str \<Rightarrow> Channel \<Rightarrow> packet" where
  "MakePlayerInviteBanned name = MakeNotifyPacket CHAT_PLAYER_INVITE_BANNED_NOTICE (str_bytes name)"

definition MakeNotInLfg :: "Channel \<Rightarrow> packet" where
  "MakeNotInLfg = MakeNotifyPacket CHAT_NOT_IN_LFG_NOTICE []"

section \<open>Sending\<close>

definition SendToAll :: "Realm \<Rightarrow> packet \<Rightarrow> u64 \<Rightarrow> Channel \<Rightarrow> effect list" where
  "SendToAll rl data guid c =
     concat (map (\<lambda>(k, i).
       case FindPlayer rl k of
         None \<Rightarrow> []
       | Some p \<Rightarrow>
           if guid = 0 \<or> \<not> HasIgnore rl (pl_guid p) (GUID_LOPART guid)
           then [SendPacket (pl_guid p) data] else []) (playersStore c))"

definition SendToAllButOne :: "Realm \<Rightarrow> packet \<Rightarrow> u64 \<Rightarrow> Channel \<Rightarrow> effect list" where
  "SendToAllButOne rl data who c =
     concat (map (\<lambda>(k, i).
       if k \<noteq> who
       then case FindPlayer rl k of None \<Rightarrow> [] | Some p \<Rightarrow> [SendPacket (pl_guid p) data]
       else []) (playersStore c))"

definition SendToOne :: "Realm \<Rightarrow> packet \<Rightarrow> u64 \<Rightarrow> effect list" where
  "SendToOne rl data who =
     (case FindPlayer rl who of None \<Rightarrow> [] | Some p \<Rightarrow> [SendPacket (pl_guid p) data])"

text \<open>Shorthands for a packet made from the channel as it is now.\<close>

definition say_one :: "Realm \<Rightarrow> (Channel \<Rightarrow> packet) \<Rightarrow> u64 \<Rightarrow> chan_op" where
  "say_one rl mk who = emit (\<lambda>c. SendToOne rl (mk c) who)"

definition say_all :: "Realm \<Rightarrow> (Channel \<Rightarrow> packet) \<Rightarrow> chan_op" where
  "say_all rl mk = emit (\<lambda>c. SendToAll rl (mk c) 0 c)"

text \<open>The list of banned players is written in ascending order.\<close>

definition UpdateChannelInDB :: chan_op where
  "UpdateChannelInDB = emit (\<lambda>c.
     if ch_IsSaved c
     then [UpdateChannel (ch_announce c) (ch_ownership c) (ch_password c)
             (sorted_list_of_set (bannedStore c)) (ch_name c) (ch_Team c)]
     else [])"

definition UpdateChannelUseageInDB :: chan_op where
  "UpdateChannelUseageInDB = emit (\<lambda>c. [UpdateChannelUsage (ch_name c) (ch_Team c)])"

definition JoinNotify :: "Realm \<Rightarrow> u64 \<Rightarrow> chan_op" where
  "JoinNotify rl guid = emit (\<lambda>c.
     let data = Packet (if IsConstant c then SMSG_USERLIST_ADD else SMSG_USERLIST_UPDATE)
           (le_bytes 8 guid @ [GetPlayerFlags guid c, ch_flags c] @ le_bytes 4 (GetNumPlayers c) @
            str_bytes (ch_name c)) in
     if IsConstant c then SendToAllButOne rl data guid c else SendToAll rl data 0 c)"

definition LeaveNotify :: "Realm \<Rightarrow> u64 \<Rightarrow> chan_op" where
  "LeaveNotify rl guid = emit (\<lambda>c.
     let data = Packet SMSG_USERLIST_REMOVE
           (le_bytes 8 guid @ [ch_flags c] @ le_bytes 4 (GetNumPlayers c) @ str_bytes (ch_name c)) in
     if IsConstant c then SendToAllButOne rl data guid c else SendToAll rl data 0 c)"

section \<open>Construction\<close>

text \<open>\<open>dbc\<close> is the flags of the built-in channel if the identifier names one, \<open>preserve\<close> the option to
  keep custom channels and \<open>row\<close> what the database knows of the channel: the two options, the password
  and the numbers of its ban list.\<close>

definition Channel_new ::
  "str \<Rightarrow> u32 \<Rightarrow> u32 \<Rightarrow> u32 option \<Rightarrow> bool \<Rightarrow> (bool \<times> bool \<times> str \<times> u64 list) option \<Rightarrow> effect list \<times> Channel"
where
  "Channel_new name channelId team dbc preserve row =
     (let c = \<lparr>ch_announce = True, ch_ownership = True, ch_IsSaved = False, ch_flags = 0,
               ch_channelId = channelId, ch_Team = team, ch_ownerGUID = 0, ch_name = name,
               ch_password = [], playersStore = [], bannedStore = {}\<rparr> in
      case dbc of
        Some fl \<Rightarrow>
          ([], c\<lparr>ch_announce := False, ch_ownership := False,
                 ch_flags := CHANNEL_FLAG_GENERAL OR
                   (if fl AND CHANNEL_DBC_FLAG_TRADE \<noteq> 0 then CHANNEL_FLAG_TRADE else 0) OR
                   (if fl AND CHANNEL_DBC_FLAG_CITY_ONLY2 \<noteq> 0 then CHANNEL_FLAG_CITY else 0) OR
                   (if fl AND CHANNEL_DBC_FLAG_LFG \<noteq> 0 then CHANNEL_FLAG_LFG else CHANNEL_FLAG_NOT_LFG)\<rparr>)
      | None \<Rightarrow>
          let c1 = c\<lparr>ch_flags := CHANNEL_FLAG_CUSTOM\<rparr> in
          if preserve
          then case row of
                 Some (ann, own, pass, bans) \<Rightarrow>
                   ([], c1\<lparr>ch_announce := ann, ch_ownership := own, ch_password := pass,
                           bannedStore := set (filter (\<lambda>g. g \<noteq> 0) bans), ch_IsSaved := True\<rparr>)
               | None \<Rightarrow> ([InsertChannel name team], c1\<lparr>ch_IsSaved := True\<rparr>)
          else ([], c1))"

section \<open>Ownership and modes\<close>

text \<open>\<^verbatim>\<open>SetOwner(uint64, bool)\<close>.\<close>

definition SetOwner_guid :: "Realm \<Rightarrow> u64 \<Rightarrow> bool \<Rightarrow> chan_op" where
  "SetOwner_guid rl guid exclaim c0 =
     (let c = (if ch_ownerGUID c0 \<noteq> 0 \<and> IsOn (ch_ownerGUID c0) c0
               then store_modify (ch_ownerGUID c0) (info_SetOwner False) c0 else c0)
      in block
           ([change (\<lambda>c. c\<lparr>ch_ownerGUID := guid\<rparr>)] @
            (if guid \<noteq> 0
             then let oldFlag = GetPlayerFlags guid c in
                  [change (store_modify guid (info_SetModerator True)),
                   change (store_modify guid (info_SetOwner True)),
                   say_all rl (MakeModeChange guid oldFlag)] @
                  (if exclaim then [say_all rl (MakeOwnerChanged guid)] else []) @
                  [UpdateChannelInDB]
             else [])) c)"

text \<open>\<^verbatim>\<open>SetModerator(uint64, bool)\<close> and \<^verbatim>\<open>SetMute(uint64, bool)\<close>.\<close>

definition SetModerator_guid :: "Realm \<Rightarrow> u64 \<Rightarrow> bool \<Rightarrow> chan_op" where
  "SetModerator_guid rl guid on c =
     (if IsModerator (member guid c) \<noteq> on
      then let oldFlag = GetPlayerFlags guid c in
           block [change (store_modify guid (info_SetModerator on)),
                  say_all rl (MakeModeChange guid oldFlag)] c
      else ([], store_modify guid id c))"

definition SetMute_guid :: "Realm \<Rightarrow> u64 \<Rightarrow> bool \<Rightarrow> chan_op" where
  "SetMute_guid rl guid on c =
     (if IsMuted (member guid c) \<noteq> on
      then let oldFlag = GetPlayerFlags guid c in
           block [change (store_modify guid (info_SetMuted on)),
                  say_all rl (MakeModeChange guid oldFlag)] c
      else ([], store_modify guid id c))"

section \<open>Requests of players\<close>

definition announced :: "Realm \<Rightarrow> ChatPlayer \<Rightarrow> Channel \<Rightarrow> bool" where
  "announced rl p c \<longleftrightarrow> ch_announce c \<and> (\<not> IsGMAccount (pl_security p) \<or> \<not> silently_gm_join rl)"

definition JoinChannel :: "Realm \<Rightarrow> ChatPlayer \<Rightarrow> str \<Rightarrow> chan_op" where
  "JoinChannel rl p pass c =
     (let guid = pl_guid p in
      if IsOn guid c
      then if \<not> IsConstant c then say_one rl (MakePlayerAlreadyMember guid) guid c else ([], c)
      else if IsBanned guid c then say_one rl MakeBanned guid c
      else if ch_password c \<noteq> [] \<and> pass \<noteq> ch_password c then say_one rl MakeWrongPassword guid c
      else if Channel_HasFlag CHANNEL_FLAG_LFG c \<and> restricted_lfg_channel rl \<and>
        IsPlayerAccount (pl_security p) \<and> pl_inGroup p
      then say_one rl MakeNotInLfg guid c
      else block
        ([emit (\<lambda>_. [JoinedChannel guid])] @
         (if announced rl p c then [say_all rl (MakeJoined guid)] else []) @
         [change (\<lambda>c. c\<lparr>playersStore :=
             store_put guid \<lparr>player = guid, flags = MEMBER_FLAG_NONE\<rparr> (playersStore c)\<rparr>),
          say_one rl MakeYouJoined guid,
          JoinNotify rl guid] @
         (if \<not> IsConstant c
          then [\<lambda>c. if playersStore c \<noteq> [] then UpdateChannelUseageInDB c else ([], c),
                \<lambda>c. if ch_ownerGUID c = 0 \<and> ch_ownership c
                    then block [SetOwner_guid rl guid (1 < length (playersStore c)),
                                change (store_modify guid (info_SetModerator True))] c
                    else ([], c)]
          else [])) c)"

definition LeaveChannel :: "Realm \<Rightarrow> ChatPlayer \<Rightarrow> bool \<Rightarrow> chan_op" where
  "LeaveChannel rl p send c =
     (let guid = pl_guid p in
      if \<not> IsOn guid c then (if send then say_one rl MakeNotMember guid c else ([], c))
      else
        let changeowner = IsOwner (member guid c) in
        block
          ((if send then [say_one rl MakeYouLeft guid, emit (\<lambda>_. [LeftChannel guid])] else []) @
           [change (\<lambda>c. c\<lparr>playersStore := store_erase guid (playersStore c)\<rparr>)] @
           (if announced rl p c then [say_all rl (MakeLeft guid)] else []) @
           [LeaveNotify rl guid] @
           (if \<not> IsConstant c
            then [UpdateChannelUseageInDB,
                  \<lambda>c. if changeowner \<and> ch_ownership c \<and> playersStore c \<noteq> []
                      then let newowner = player (snd (hd (playersStore c))) in
                           block [change (store_modify newowner (info_SetModerator True)),
                                  SetOwner_guid rl newowner True] c
                      else ([], c)]
            else [])) c)"

text \<open>The checks that start the requests of moderators: the player must be on the channel, and be a
  moderator or a game master.\<close>

definition as_moderator :: "Realm \<Rightarrow> ChatPlayer \<Rightarrow> chan_op \<Rightarrow> chan_op" where
  "as_moderator rl p f c =
     (let good = pl_guid p in
      if \<not> IsOn good c then say_one rl MakeNotMember good c
      else if \<not> IsModerator (member good c) \<and> \<not> IsGMAccount (pl_security p)
      then say_one rl MakeNotModerator good c
      else f c)"

text \<open>The end of \<^verbatim>\<open>KickOrBan\<close>, once the victim is found and the request is allowed.\<close>

definition expel :: "Realm \<Rightarrow> ChatPlayer \<Rightarrow> u64 \<Rightarrow> bool \<Rightarrow> chan_op" where
  "expel rl p victim ban c =
     (let good = pl_guid p;
          changeowner = (ch_ownerGUID c = victim);
          notify = (\<not> (IsGMAccount (pl_security p) \<and> silently_gm_join rl)) in
      block
        ((if ban \<and> \<not> IsBanned victim c
          then [change (\<lambda>c. c\<lparr>bannedStore := insert victim (bannedStore c)\<rparr>), UpdateChannelInDB] @
               (if notify then [say_all rl (MakePlayerBanned victim good)] else [])
          else if notify then [say_all rl (MakePlayerKicked victim good)] else []) @
         [change (\<lambda>c. c\<lparr>playersStore := store_erase victim (playersStore c)\<rparr>),
          emit (\<lambda>_. [LeftChannel victim]),
          \<lambda>c. if changeowner \<and> ch_ownership c \<and> playersStore c \<noteq> []
              then block [change (store_modify good (info_SetModerator True)),
                          SetOwner_guid rl good True] c
              else ([], c)]) c)"

definition KickOrBan :: "Realm \<Rightarrow> ChatPlayer \<Rightarrow> str \<Rightarrow> bool \<Rightarrow> chan_op" where
  "KickOrBan rl p badname ban = as_moderator rl p (\<lambda>c.
     let good = pl_guid p;
         victim = (case FindPlayerByName rl badname of None \<Rightarrow> 0 | Some bad \<Rightarrow> pl_guid bad) in
     if victim = 0 \<or> \<not> IsOn victim c then say_one rl (MakePlayerNotFound badname) good c
     else if \<not> IsGMAccount (pl_security p) \<and> ch_ownerGUID c = victim \<and> good \<noteq> ch_ownerGUID c
     then say_one rl MakeNotOwner good c
     else expel rl p victim ban c)"

definition UnBan :: "Realm \<Rightarrow> ChatPlayer \<Rightarrow> str \<Rightarrow> chan_op" where
  "UnBan rl p badname = as_moderator rl p (\<lambda>c.
     let good = pl_guid p;
         victim = (case FindPlayerByName rl badname of None \<Rightarrow> 0 | Some bad \<Rightarrow> pl_guid bad) in
     if victim = 0 \<or> \<not> IsBanned victim c then say_one rl (MakePlayerNotFound badname) good c
     else block
       [change (\<lambda>c. c\<lparr>bannedStore := bannedStore c - {victim}\<rparr>),
        say_all rl (MakePlayerUnbanned victim good), UpdateChannelInDB] c)"

definition Password :: "Realm \<Rightarrow> ChatPlayer \<Rightarrow> str \<Rightarrow> chan_op" where
  "Password rl p pass = as_moderator rl p (block
     [change (\<lambda>c. c\<lparr>ch_password := pass\<rparr>), say_all rl (MakePasswordChanged (pl_guid p)),
      UpdateChannelInDB])"

definition SetMode :: "Realm \<Rightarrow> ChatPlayer \<Rightarrow> str \<Rightarrow> bool \<Rightarrow> bool \<Rightarrow> chan_op" where
  "SetMode rl p p2n md on = as_moderator rl p (\<lambda>c.
     let guid = pl_guid p; sec = pl_security p in
     if guid = ch_ownerGUID c \<and> p2n = pl_name p \<and> md then ([], c)
     else
       case FindPlayerByName rl p2n of
         None \<Rightarrow> say_one rl (MakePlayerNotFound p2n) guid c
       | Some newp \<Rightarrow>
           let victim = pl_guid newp in
           if victim = 0 \<or> \<not> IsOn victim c \<or>
             (\<not> IsGMAccount sec \<or> \<not> IsGMAccount (pl_security newp)) \<and>
             pl_team p \<noteq> pl_team newp \<and> \<not> two_side_channel rl
           then say_one rl (MakePlayerNotFound p2n) guid c
           else if ch_ownerGUID c = victim \<and> ch_ownerGUID c \<noteq> guid then say_one rl MakeNotOwner guid c
           else if md then SetModerator_guid rl victim on c
           else SetMute_guid rl victim on c)"

definition SetOwner :: "Realm \<Rightarrow> ChatPlayer \<Rightarrow> str \<Rightarrow> chan_op" where
  "SetOwner rl p newname c =
     (let guid = pl_guid p in
      if \<not> IsOn guid c then say_one rl MakeNotMember guid c
      else if \<not> IsGMAccount (pl_security p) \<and> guid \<noteq> ch_ownerGUID c then say_one rl MakeNotOwner guid c
      else
        case FindPlayerByName rl newname of
          None \<Rightarrow> say_one rl (MakePlayerNotFound newname) guid c
        | Some newp \<Rightarrow>
            let victim = pl_guid newp in
            if victim = 0 \<or> \<not> IsOn victim c \<or> pl_team newp \<noteq> pl_team p \<and> \<not> two_side_channel rl
            then say_one rl (MakePlayerNotFound newname) guid c
            else block [change (store_modify victim (info_SetModerator True)),
                        SetOwner_guid rl victim True] c)"

definition SendWhoOwner :: "Realm \<Rightarrow> u64 \<Rightarrow> chan_op" where
  "SendWhoOwner rl guid c =
     say_one rl (if IsOn guid c then MakeChannelOwner rl else MakeNotMember) guid c"

definition List :: "Realm \<Rightarrow> ChatPlayer \<Rightarrow> chan_op" where
  "List rl p c =
     (let guid = pl_guid p in
      if \<not> IsOn guid c then say_one rl MakeNotMember guid c
      else
        let shown = filter (\<lambda>(k, i).
              case FindPlayer rl k of
                None \<Rightarrow> False
              | Some m \<Rightarrow>
                  (\<not> IsPlayerAccount (pl_security p) \<or> pl_security m \<le> gm_level_in_who_list rl) \<and>
                  IsVisibleGloballyFor rl (pl_guid m) guid) (playersStore c) in
        (SendToOne rl (Packet SMSG_CHANNEL_LIST
           ([1] @ str_bytes (ch_name c) @ [ch_flags c] @ le_bytes 4 (of_nat (length shown) :: u32) @
            concat (map (\<lambda>(k, i). le_bytes 8 k @ [flags i]) shown))) guid, c))"

definition Announce :: "Realm \<Rightarrow> ChatPlayer \<Rightarrow> chan_op" where
  "Announce rl p = as_moderator rl p (block
     [change (\<lambda>c. c\<lparr>ch_announce := \<not> ch_announce c\<rparr>),
      say_all rl (\<lambda>c. if ch_announce c then MakeAnnouncementsOn (pl_guid p) c
                      else MakeAnnouncementsOff (pl_guid p) c),
      UpdateChannelInDB])"

definition Say :: "Realm \<Rightarrow> u64 \<Rightarrow> str \<Rightarrow> u32 \<Rightarrow> chan_op" where
  "Say rl guid what lang0 c =
     (if what = [] then ([], c)
      else
        let lang = (if two_side_channel rl then LANG_UNIVERSAL else lang0) in
        if \<not> IsOn guid c then say_one rl MakeNotMember guid c
        else if IsMuted (member guid c) then say_one rl MakeMuted guid c
        else
          let tag = (case FindPlayer rl guid of None \<Rightarrow> 0 | Some p \<Rightarrow> pl_chatTag p);
              data = Packet SMSG_MESSAGECHAT
                ([CHAT_MSG_CHANNEL] @ le_bytes 4 lang @ le_bytes 8 guid @ le_bytes 4 (0 :: u32) @
                 str_bytes (ch_name c) @ le_bytes 8 guid @
                 le_bytes 4 (of_nat (length what + 1) :: u32) @ str_bytes what @ [tag])
          in (SendToAll rl data (if \<not> IsModerator (member guid c) then guid else 0) c, c))"

definition Invite :: "Realm \<Rightarrow> ChatPlayer \<Rightarrow> str \<Rightarrow> chan_op" where
  "Invite rl p newname c =
     (let guid = pl_guid p in
      if \<not> IsOn guid c then say_one rl MakeNotMember guid c
      else
        case FindPlayerByName rl newname of
          None \<Rightarrow> say_one rl (MakePlayerNotFound newname) guid c
        | Some newp \<Rightarrow>
            if \<not> pl_isGMVisible newp then say_one rl (MakePlayerNotFound newname) guid c
            else if IsBanned (pl_guid newp) c then say_one rl (MakePlayerInviteBanned newname) guid c
            else if pl_team newp \<noteq> pl_team p \<and> \<not> two_side_channel rl
            then say_one rl MakeInviteWrongFaction guid c
            else if IsOn (pl_guid newp) c
            then say_one rl (MakePlayerAlreadyMember (pl_guid newp)) guid c
            else block
              ((if \<not> HasIgnore rl (pl_guid newp) (GUID_LOPART guid)
                then [say_one rl (MakeInvite guid) (pl_guid newp)] else []) @
               [say_one rl (MakePlayerInvited (pl_name newp)) guid]) c)"

end
