(* ===== verification/Utf8.thy ===== *)
theory Utf8
  imports Prelude
begin

text \<open>
  The UTF-8 codec behind every name the server handles: what the code uses of the header library in
  \<^verbatim>\<open>dep/utf8cpp/utf8/core.h\<close> and \<^verbatim>\<open>checked.h\<close>. An iterator is the list of the octets from its position to
  the end of the text; an exception is a value of the left type. The theorems show that decoding accepts
  exactly what encoding produces, so that the conversions between UTF-8 and UTF-16 undo each other.
\<close>

section \<open>Helpers of the library\<close>

definition LEAD_SURROGATE_MIN :: u16 where "LEAD_SURROGATE_MIN = 0xd800"
definition LEAD_SURROGATE_MAX :: u16 where "LEAD_SURROGATE_MAX = 0xdbff"
definition TRAIL_SURROGATE_MIN :: u16 where "TRAIL_SURROGATE_MIN = 0xdc00"
definition TRAIL_SURROGATE_MAX :: u16 where "TRAIL_SURROGATE_MAX = 0xdfff"
definition LEAD_OFFSET :: u16 where
  "LEAD_OFFSET = ucast (ucast LEAD_SURROGATE_MIN - drop_bit 10 0x10000 :: u32)"
definition SURROGATE_OFFSET :: u32 where
  "SURROGATE_OFFSET = 0x10000 - push_bit 10 (ucast LEAD_SURROGATE_MIN) - ucast TRAIL_SURROGATE_MIN"
definition CODE_POINT_MAX :: u32 where "CODE_POINT_MAX = 0x0010ffff"

definition is_trail :: "u8 \<Rightarrow> bool" where
  "is_trail oc \<longleftrightarrow> drop_bit 6 oc = 0x2"

definition is_lead_surrogate :: "u32 \<Rightarrow> bool" where
  "is_lead_surrogate cp \<longleftrightarrow> ucast LEAD_SURROGATE_MIN \<le> cp \<and> cp \<le> ucast LEAD_SURROGATE_MAX"

definition is_trail_surrogate :: "u32 \<Rightarrow> bool" where
  "is_trail_surrogate cp \<longleftrightarrow> ucast TRAIL_SURROGATE_MIN \<le> cp \<and> cp \<le> ucast TRAIL_SURROGATE_MAX"

definition is_surrogate :: "u32 \<Rightarrow> bool" where
  "is_surrogate cp \<longleftrightarrow> ucast LEAD_SURROGATE_MIN \<le> cp \<and> cp \<le> ucast TRAIL_SURROGATE_MAX"

definition is_code_point_valid :: "u32 \<Rightarrow> bool" where
  "is_code_point_valid cp \<longleftrightarrow> cp \<le> CODE_POINT_MAX \<and> \<not> is_surrogate cp"

definition sequence_length :: "u8 \<Rightarrow> nat" where
  "sequence_length lead =
     (if lead < 0x80 then 1
      else if drop_bit 5 lead = 0x6 then 2
      else if drop_bit 4 lead = 0xe then 3
      else if drop_bit 3 lead = 0x1e then 4
      else 0)"

definition is_overlong_sequence :: "u32 \<Rightarrow> nat \<Rightarrow> bool" where
  "is_overlong_sequence cp len =
     (if cp < 0x80 then len \<noteq> 1
      else if cp < 0x800 then len \<noteq> 2
      else if cp < 0x10000 then len \<noteq> 3
      else False)"

datatype utf_error = NOT_ENOUGH_ROOM | INVALID_LEAD | INCOMPLETE_SEQUENCE | OVERLONG_SEQUENCE | INVALID_CODE_POINT

definition increase_safely :: "u8 list \<Rightarrow> utf_error + u8 list" where
  "increase_safely it =
     (case tl it of
        [] \<Rightarrow> Inl NOT_ENOUGH_ROOM
      | oc # _ \<Rightarrow> if \<not> is_trail oc then Inl INCOMPLETE_SEQUENCE else Inr (tl it))"

text \<open>\<^verbatim>\<open>get_sequence_x\<close> leaves the iterator on the last octet of the sequence.\<close>

definition get_sequence_1 :: "u8 list \<Rightarrow> utf_error + u32 \<times> u8 list" where
  "get_sequence_1 it = (if it = [] then Inl NOT_ENOUGH_ROOM else Inr (ucast (hd it), it))"

definition get_sequence_2 :: "u8 list \<Rightarrow> utf_error + u32 \<times> u8 list" where
  "get_sequence_2 it =
     (if it = [] then Inl NOT_ENOUGH_ROOM
      else let cp = ucast (hd it) in
        bind_res (increase_safely it) (\<lambda>it1.
          Inr ((push_bit 6 cp AND 0x7ff) + (ucast (hd it1) AND 0x3f), it1)))"

definition get_sequence_3 :: "u8 list \<Rightarrow> utf_error + u32 \<times> u8 list" where
  "get_sequence_3 it =
     (if it = [] then Inl NOT_ENOUGH_ROOM
      else let cp = ucast (hd it) in
        bind_res (increase_safely it) (\<lambda>it1.
          let cp1 = (push_bit 12 cp AND 0xffff) + (push_bit 6 (ucast (hd it1)) AND 0xfff) in
          bind_res (increase_safely it1) (\<lambda>it2.
            Inr (cp1 + (ucast (hd it2) AND 0x3f), it2))))"

definition get_sequence_4 :: "u8 list \<Rightarrow> utf_error + u32 \<times> u8 list" where
  "get_sequence_4 it =
     (if it = [] then Inl NOT_ENOUGH_ROOM
      else let cp = ucast (hd it) in
        bind_res (increase_safely it) (\<lambda>it1.
          let cp1 = (push_bit 18 cp AND 0x1fffff) + (push_bit 12 (ucast (hd it1)) AND 0x3ffff) in
          bind_res (increase_safely it1) (\<lambda>it2.
            let cp2 = cp1 + (push_bit 6 (ucast (hd it2)) AND 0xfff) in
            bind_res (increase_safely it2) (\<lambda>it3.
              Inr (cp2 + (ucast (hd it3) AND 0x3f), it3)))))"

text \<open>The result is the code point and the iterator behind it; the callers test for the end of the text
  before the call.\<close>

definition validate_next :: "u8 list \<Rightarrow> utf_error + u32 \<times> u8 list" where
  "validate_next it =
     (let len = sequence_length (hd it) in
      bind_res
        (if len = 0 then Inl INVALID_LEAD
         else if len = 1 then get_sequence_1 it
         else if len = 2 then get_sequence_2 it
         else if len = 3 then get_sequence_3 it
         else get_sequence_4 it)
        (\<lambda>(cp, it').
           if is_code_point_valid cp
           then if \<not> is_overlong_sequence cp len then Inr (cp, tl it')
                else Inl OVERLONG_SEQUENCE
           else Inl INVALID_CODE_POINT))"

section \<open>The functions the server calls\<close>

datatype utf_exception = invalid_code_point u32 | invalid_utf8 u8 | invalid_utf16 u16 | not_enough_room

definition utf8_append :: "u32 \<Rightarrow> utf_exception + u8 list" where
  "utf8_append cp =
     (if \<not> is_code_point_valid cp then Inl (invalid_code_point cp)
      else Inr
        (if cp < 0x80 then [ucast cp]
         else if cp < 0x800 then [ucast (drop_bit 6 cp OR 0xc0), ucast ((cp AND 0x3f) OR 0x80)]
         else if cp < 0x10000
         then [ucast (drop_bit 12 cp OR 0xe0), ucast ((drop_bit 6 cp AND 0x3f) OR 0x80),
               ucast ((cp AND 0x3f) OR 0x80)]
         else [ucast (drop_bit 18 cp OR 0xf0), ucast ((drop_bit 12 cp AND 0x3f) OR 0x80),
               ucast ((drop_bit 6 cp AND 0x3f) OR 0x80), ucast ((cp AND 0x3f) OR 0x80)]))"

definition utf8_next :: "u8 list \<Rightarrow> utf_exception + u32 \<times> u8 list" where
  "utf8_next it =
     (case validate_next it of
        Inr r \<Rightarrow> Inr r
      | Inl NOT_ENOUGH_ROOM \<Rightarrow> Inl not_enough_room
      | Inl INVALID_CODE_POINT \<Rightarrow> Inl (invalid_code_point 0)
      | Inl _ \<Rightarrow> Inl (invalid_utf8 (hd it)))"

lemma increase_safely_tl: "increase_safely it = Inr it' \<Longrightarrow> it' = tl it \<and> it' \<noteq> []"
  by (auto simp: increase_safely_def split: list.splits if_splits)

lemma validate_next_shorter: "validate_next it = Inr (cp, rest) \<Longrightarrow> it \<noteq> [] \<Longrightarrow> length rest < length it"
  by (auto simp: validate_next_def get_sequence_1_def get_sequence_2_def get_sequence_3_def
      get_sequence_4_def Let_def bind_res_Inr_iff split: if_splits dest!: increase_safely_tl)

lemma utf8_next_validate: "utf8_next it = Inr r \<longleftrightarrow> validate_next it = Inr r"
  by (auto simp: utf8_next_def split: sum.splits utf_error.splits)

lemma utf8_next_shorter: "utf8_next it = Inr (cp, rest) \<Longrightarrow> it \<noteq> [] \<Longrightarrow> length rest < length it"
  by (auto simp: utf8_next_validate dest: validate_next_shorter)

function utf8_distance :: "u8 list \<Rightarrow> utf_exception + nat" where
  "utf8_distance it =
     (if it = [] then Inr 0
      else case utf8_next it of
        Inl e \<Rightarrow> Inl e
      | Inr (cp, it') \<Rightarrow> map_sum id Suc (utf8_distance it'))"
  by pat_completeness auto
termination
  by (relation "measure length") (auto dest: utf8_next_shorter)

declare utf8_distance.simps [simp del]

definition to_units :: "u32 \<Rightarrow> u16 list" where
  "to_units cp =
     (if 0xffff < cp
      then [ucast (drop_bit 10 cp + ucast LEAD_OFFSET), ucast ((cp AND 0x3ff) + ucast TRAIL_SURROGATE_MIN)]
      else [ucast cp])"

function utf8to16 :: "u8 list \<Rightarrow> utf_exception + u16 list" where
  "utf8to16 it =
     (if it = [] then Inr []
      else case utf8_next it of
        Inl e \<Rightarrow> Inl e
      | Inr (cp, it') \<Rightarrow> map_sum id ((@) (to_units cp)) (utf8to16 it'))"
  by pat_completeness auto
termination
  by (relation "measure length") (auto dest: utf8_next_shorter)

declare utf8to16.simps [simp del]

fun utf16to8 :: "u16 list \<Rightarrow> utf_exception + u8 list" where
  "utf16to8 [] = Inr []"
| "utf16to8 (w # ws) =
     (let cp = ucast w in
      if is_lead_surrogate cp
      then case ws of
          [] \<Rightarrow> Inl (invalid_utf16 w)
        | t # ws' \<Rightarrow>
            if is_trail_surrogate (ucast t)
            then bind_res (utf8_append (push_bit 10 cp + ucast t + SURROGATE_OFFSET)) (\<lambda>bs.
                   map_sum id ((@) bs) (utf16to8 ws'))
            else Inl (invalid_utf16 t)
      else if is_trail_surrogate cp then Inl (invalid_utf16 w)
      else bind_res (utf8_append cp) (\<lambda>bs. map_sum id ((@) bs) (utf16to8 ws)))"

section \<open>Bits\<close>

lemma below_bits:
  assumes "n < LENGTH('a)"
  shows "(w :: 'a::len word) < 2 ^ n \<longleftrightarrow> (\<forall>i \<ge> n. \<not> bit w i)"
proof -
  have "w < 2 ^ n \<longleftrightarrow> w AND mask n = w"
    using assms by (simp add: mask_eq_iff word_2p_lem word_size)
  also have "\<dots> \<longleftrightarrow> (\<forall>i \<ge> n. \<not> bit w i)"
    by (auto simp: bit_eq_iff bit_and_iff bit_mask_iff possible_bit_word dest: bit_imp_le_length)
      (meson not_le_imp_less)
  finally show ?thesis .
qed

lemma octet_masks:
  "(0x3f :: u32) = mask 6" "(0x7ff :: u32) = mask 11" "(0xfff :: u32) = mask 12" "(0xffff :: u32) = mask 16"
  "(0x3ffff :: u32) = mask 18" "(0x1fffff :: u32) = mask 21"
  "(0xc0 :: u32) = push_bit 6 (mask 2)" "(0xe0 :: u32) = push_bit 5 (mask 3)"
  "(0xf0 :: u32) = push_bit 4 (mask 4)"
  by (simp_all add: mask_numeral mask_eq_exp_minus_1)

lemma bit_0x80: "bit (0x80 :: int) i \<longleftrightarrow> i = 7"
  using bit_exp_iff [of 7 i, where ?'a = int] by simp

lemma bounds_bits:
  "(cp :: u32) < 0x80 \<longleftrightarrow> (\<forall>i \<ge> 7. \<not> bit cp i)" "cp < 0x800 \<longleftrightarrow> (\<forall>i \<ge> 11. \<not> bit cp i)"
  "cp < 0x10000 \<longleftrightarrow> (\<forall>i \<ge> 16. \<not> bit cp i)" "cp < 0x200000 \<longleftrightarrow> (\<forall>i \<ge> 21. \<not> bit cp i)"
  using below_bits [of 7 cp] below_bits [of 11 cp] below_bits [of 16 cp] below_bits [of 21 cp] by simp_all

lemma octet_bits: "8 \<le> i \<Longrightarrow> \<not> bit (b :: u8) i"
  using bit_imp_le_length [of b i] by auto

lemma all_below_8: "(\<forall>n < 8. P n) \<longleftrightarrow> P 0 \<and> P 1 \<and> P 2 \<and> P 3 \<and> P 4 \<and> P 5 \<and> P 6 \<and> P (7 :: nat)"
proof -
  have "{..<8} = {0, 1, 2, 3, 4, 5, 6, 7 :: nat}" by (auto simp: lessThan_nat_numeral lessThan_Suc)
  then have "n < 8 \<longleftrightarrow> n \<in> {0, 1, 2, 3, 4, 5, 6, 7}" for n :: nat by blast
  then show ?thesis by auto
qed

lemma octet_eq_iff: "(a :: u8) = b \<longleftrightarrow> (\<forall>n < 8. bit a n \<longleftrightarrow> bit b n)"
  by (auto intro: bit_word_eqI)

lemma octet_tests:
  "(b :: u8) < 0x80 \<longleftrightarrow> \<not> bit b 7" "is_trail b \<longleftrightarrow> bit b 7 \<and> \<not> bit b 6"
  "drop_bit 5 b = 0x6 \<longleftrightarrow> bit b 7 \<and> bit b 6 \<and> \<not> bit b 5"
  "drop_bit 4 b = 0xe \<longleftrightarrow> bit b 7 \<and> bit b 6 \<and> bit b 5 \<and> \<not> bit b 4"
  "drop_bit 3 b = 0x1e \<longleftrightarrow> bit b 7 \<and> bit b 6 \<and> bit b 5 \<and> bit b 4 \<and> \<not> bit b 3"
proof -
  have "i = 7 \<or> 8 \<le> i" if "7 \<le> i" for i :: nat using that by auto
  then have "(b < 2 ^ 7) \<longleftrightarrow> \<not> bit b 7"
    using below_bits [of 7 b] octet_bits [of _ b] by auto
  then show "b < 0x80 \<longleftrightarrow> \<not> bit b 7" by simp
qed (simp_all add: is_trail_def octet_eq_iff all_below_8 bit_drop_bit_eq octet_bits, auto)

text \<open>Adding the low bits to a word without low bits is \<open>OR\<close>; so the sums of the four forms are bit fields.\<close>

lemma add_low: "(\<And>i. i < n \<Longrightarrow> \<not> bit x i) \<Longrightarrow> x + (y AND mask n) = x OR (y AND mask n)" for x y :: u32
  by (rule disjunctive_add_eq_or, rule bit_word_eqI) (auto simp: bit_simps)

lemma bit_sequence_2:
  "bit ((push_bit 6 c AND 0x7ff) + (e AND 0x3f) :: u32) i \<longleftrightarrow>
     (if i < 6 then bit e i else i < 11 \<and> bit c (i - 6))"
  unfolding octet_masks by (subst add_low) (auto simp: bit_simps dest: bit_imp_le_length)

lemma bit_sequence_3:
  "bit ((push_bit 12 c AND 0xffff) + (push_bit 6 d AND 0xfff) + (e AND 0x3f) :: u32) i \<longleftrightarrow>
     (if i < 6 then bit e i else if i < 12 then bit d (i - 6) else i < 16 \<and> bit c (i - 12))"
proof -
  have a: "(push_bit 12 c AND mask 16) + (push_bit 6 d AND mask 12) =
      (push_bit 12 c AND mask 16) OR (push_bit 6 d AND mask 12)" for c d :: u32
    by (rule add_low) (auto simp: bit_simps)
  show ?thesis
    unfolding octet_masks a by (subst add_low) (auto simp: bit_simps dest: bit_imp_le_length)
qed

lemma bit_sequence_4:
  "bit ((push_bit 18 b AND 0x1fffff) + (push_bit 12 c AND 0x3ffff) + (push_bit 6 d AND 0xfff) +
      (e AND 0x3f) :: u32) i \<longleftrightarrow>
     (if i < 6 then bit e i else if i < 12 then bit d (i - 6) else if i < 18 then bit c (i - 12)
      else i < 21 \<and> bit b (i - 18))"
proof -
  have a: "(push_bit 18 b AND mask 21) + (push_bit 12 c AND mask 18) =
      (push_bit 18 b AND mask 21) OR (push_bit 12 c AND mask 18)" for b c :: u32
    by (rule add_low) (auto simp: bit_simps)
  have b: "((push_bit 18 b AND mask 21) OR (push_bit 12 c AND mask 18)) + (push_bit 6 d AND mask 12) =
      ((push_bit 18 b AND mask 21) OR (push_bit 12 c AND mask 18)) OR (push_bit 6 d AND mask 12)" for b c d :: u32
    by (rule add_low) (auto simp: bit_simps)
  show ?thesis
    unfolding octet_masks a b by (subst add_low) (auto simp: bit_simps dest: bit_imp_le_length)
qed

section \<open>Decoding what was encoded\<close>

lemma increase_safely_Cons: "is_trail b \<Longrightarrow> increase_safely (a # b # it) = Inr (b # it)"
  by (simp add: increase_safely_def)

lemma valid_bits:
  assumes "is_code_point_valid cp" and "21 \<le> i"
  shows "\<not> bit cp i"
proof -
  have "cp \<le> 0x10ffff" using assms(1) by (simp add: is_code_point_valid_def CODE_POINT_MAX_def)
  then have "cp < 0x200000" by (rule le_less_trans) simp
  with assms(2) show ?thesis unfolding bounds_bits by simp
qed

lemma validate_append_1:
  assumes "is_code_point_valid cp" and "cp < 0x80"
  shows "validate_next (ucast cp # rest) = Inr (cp, rest)"
proof -
  have hi: "\<not> bit cp i" if "7 \<le> i" for i using assms(2) that unfolding bounds_bits by simp
  have "sequence_length (ucast cp) = 1"
    using hi by (simp add: sequence_length_def octet_tests bit_simps)
  moreover have "ucast (ucast cp :: u8) = cp"
  proof (rule bit_word_eqI)
    show "bit (ucast (ucast cp :: u8) :: u32) i = bit cp i" for i
      by (cases "i < 7") (simp_all add: bit_simps hi)
  qed
  ultimately show ?thesis
    using assms by (simp add: validate_next_def get_sequence_1_def is_overlong_sequence_def)
qed

lemma validate_append_2:
  assumes "is_code_point_valid cp" and "\<not> cp < 0x80" and "cp < 0x800"
  shows "validate_next (ucast (drop_bit 6 cp OR 0xc0) # ucast ((cp AND 0x3f) OR 0x80) # rest) = Inr (cp, rest)"
proof -
  let ?a = "ucast (drop_bit 6 cp OR 0xc0) :: u8" and ?b = "ucast ((cp AND 0x3f) OR 0x80) :: u8"
  have hi: "\<not> bit cp i" if "11 \<le> i" for i using assms(3) that unfolding bounds_bits by simp
  have "sequence_length ?a = 2" "is_trail ?b"
    unfolding octet_masks by (simp_all add: sequence_length_def octet_tests bit_simps bit_0x80 hi)
  moreover have "(push_bit 6 (ucast ?a) AND 0x7ff) + (ucast ?b AND 0x3f) = cp"
  proof (rule bit_word_eqI)
    show "bit ((push_bit 6 (ucast ?a) AND 0x7ff) + (ucast ?b AND 0x3f) :: u32) i = bit cp i" for i
      unfolding bit_sequence_2 unfolding octet_masks
      by (cases "i < 6"; cases "i < 11") (simp_all add: bit_simps bit_0x80 hi, auto)
  qed
  ultimately show ?thesis
    using assms by (simp add: validate_next_def get_sequence_2_def increase_safely_Cons is_overlong_sequence_def)
qed

lemma validate_append_3:
  assumes "is_code_point_valid cp" and "\<not> cp < 0x800" and "cp < 0x10000"
  shows "validate_next (ucast (drop_bit 12 cp OR 0xe0) # ucast ((drop_bit 6 cp AND 0x3f) OR 0x80) #
    ucast ((cp AND 0x3f) OR 0x80) # rest) = Inr (cp, rest)"
proof -
  let ?a = "ucast (drop_bit 12 cp OR 0xe0) :: u8" and ?b = "ucast ((drop_bit 6 cp AND 0x3f) OR 0x80) :: u8"
    and ?c = "ucast ((cp AND 0x3f) OR 0x80) :: u8"
  have hi: "\<not> bit cp i" if "16 \<le> i" for i using assms(3) that unfolding bounds_bits by simp
  have "\<not> cp < 0x80" using assms(2) less_trans [of cp "0x80" "0x800"] by auto
  moreover have "sequence_length ?a = 3" "is_trail ?b" "is_trail ?c"
    unfolding octet_masks by (simp_all add: sequence_length_def octet_tests bit_simps bit_0x80 hi)
  moreover have "(push_bit 12 (ucast ?a) AND 0xffff) + (push_bit 6 (ucast ?b) AND 0xfff) +
      (ucast ?c AND 0x3f) = cp"
  proof (rule bit_word_eqI)
    show "bit ((push_bit 12 (ucast ?a) AND 0xffff) + (push_bit 6 (ucast ?b) AND 0xfff) +
        (ucast ?c AND 0x3f) :: u32) i = bit cp i" for i
      unfolding bit_sequence_3 unfolding octet_masks
      by (cases "i < 6"; cases "i < 12"; cases "i < 16") (simp_all add: bit_simps bit_0x80 hi, auto)
  qed
  ultimately show ?thesis
    using assms by (simp add: validate_next_def get_sequence_3_def increase_safely_Cons is_overlong_sequence_def)
qed

lemma validate_append_4:
  assumes "is_code_point_valid cp" and "\<not> cp < 0x10000"
  shows "validate_next (ucast (drop_bit 18 cp OR 0xf0) # ucast ((drop_bit 12 cp AND 0x3f) OR 0x80) #
    ucast ((drop_bit 6 cp AND 0x3f) OR 0x80) # ucast ((cp AND 0x3f) OR 0x80) # rest) = Inr (cp, rest)"
proof -
  let ?a = "ucast (drop_bit 18 cp OR 0xf0) :: u8" and ?b = "ucast ((drop_bit 12 cp AND 0x3f) OR 0x80) :: u8"
    and ?c = "ucast ((drop_bit 6 cp AND 0x3f) OR 0x80) :: u8" and ?d = "ucast ((cp AND 0x3f) OR 0x80) :: u8"
  note hi = valid_bits [OF assms(1)]
  have "\<not> cp < 0x80" "\<not> cp < 0x800"
    using assms(2) less_trans [of cp "0x80" "0x10000"] less_trans [of cp "0x800" "0x10000"] by auto
  moreover have "sequence_length ?a = 4" "is_trail ?b" "is_trail ?c" "is_trail ?d"
    unfolding octet_masks by (simp_all add: sequence_length_def octet_tests bit_simps bit_0x80 hi)
  moreover have "(push_bit 18 (ucast ?a) AND 0x1fffff) + (push_bit 12 (ucast ?b) AND 0x3ffff) +
      (push_bit 6 (ucast ?c) AND 0xfff) + (ucast ?d AND 0x3f) = cp"
  proof (rule bit_word_eqI)
    show "bit ((push_bit 18 (ucast ?a) AND 0x1fffff) + (push_bit 12 (ucast ?b) AND 0x3ffff) +
        (push_bit 6 (ucast ?c) AND 0xfff) + (ucast ?d AND 0x3f) :: u32) i = bit cp i" for i
      unfolding bit_sequence_4 unfolding octet_masks
      by (cases "i < 6"; cases "i < 12"; cases "i < 18"; cases "i < 21") (simp_all add: bit_simps bit_0x80 hi, auto)
  qed
  ultimately show ?thesis
    using assms by (simp add: validate_next_def get_sequence_4_def increase_safely_Cons is_overlong_sequence_def)
qed

lemma validate_append: "utf8_append cp = Inr bs \<Longrightarrow> validate_next (bs @ rest) = Inr (cp, rest) \<and> bs \<noteq> []"
  by (auto simp: utf8_append_def validate_append_1 validate_append_2 validate_append_3 validate_append_4
      split: if_splits)

section \<open>Encoding what was decoded\<close>

lemma octets_2:
  fixes cp :: u32
  assumes "sequence_length a = 2" and "is_trail b" and "cp = (push_bit 6 (ucast a) AND 0x7ff) + (ucast b AND 0x3f)"
  shows "ucast (drop_bit 6 cp OR 0xc0) = a" and "ucast ((cp AND 0x3f) OR 0x80) = b" and "cp < 0x800"
proof -
  have c: "bit cp i \<longleftrightarrow> (if i < 6 then bit b i else i < 11 \<and> bit a (i - 6))" for i
    unfolding assms(3) bit_sequence_2 by (auto simp: bit_simps dest: bit_imp_le_length)
  show "ucast (drop_bit 6 cp OR 0xc0) = a" "ucast ((cp AND 0x3f) OR 0x80) = b"
    using assms(1,2)
    by (simp_all add: octet_eq_iff all_below_8 bit_simps c sequence_length_def octet_tests split: if_splits)
  show "cp < 0x800" unfolding bounds_bits c by simp
qed

lemma octets_3:
  fixes cp :: u32
  assumes "sequence_length a = 3" and "is_trail b" and "is_trail d"
    and "cp = (push_bit 12 (ucast a) AND 0xffff) + (push_bit 6 (ucast b) AND 0xfff) + (ucast d AND 0x3f)"
  shows "ucast (drop_bit 12 cp OR 0xe0) = a" and "ucast ((drop_bit 6 cp AND 0x3f) OR 0x80) = b"
    and "ucast ((cp AND 0x3f) OR 0x80) = d" and "cp < 0x10000"
proof -
  have c: "bit cp i \<longleftrightarrow> (if i < 6 then bit d i else if i < 12 then bit b (i - 6) else i < 16 \<and> bit a (i - 12))" for i
    unfolding assms(4) bit_sequence_3 by (auto simp: bit_simps dest: bit_imp_le_length)
  show "ucast (drop_bit 12 cp OR 0xe0) = a" "ucast ((drop_bit 6 cp AND 0x3f) OR 0x80) = b"
    "ucast ((cp AND 0x3f) OR 0x80) = d"
    using assms(1-3)
    by (simp_all add: octet_eq_iff all_below_8 bit_simps c sequence_length_def octet_tests split: if_splits)
  show "cp < 0x10000" unfolding bounds_bits c by simp
qed

lemma octets_4:
  fixes cp :: u32
  assumes "sequence_length a = 4" and "is_trail b" and "is_trail d" and "is_trail e"
    and "cp = (push_bit 18 (ucast a) AND 0x1fffff) + (push_bit 12 (ucast b) AND 0x3ffff) +
      (push_bit 6 (ucast d) AND 0xfff) + (ucast e AND 0x3f)"
  shows "ucast (drop_bit 18 cp OR 0xf0) = a" and "ucast ((drop_bit 12 cp AND 0x3f) OR 0x80) = b"
    and "ucast ((drop_bit 6 cp AND 0x3f) OR 0x80) = d" and "ucast ((cp AND 0x3f) OR 0x80) = e"
proof -
  have c: "bit cp i \<longleftrightarrow> (if i < 6 then bit e i else if i < 12 then bit d (i - 6) else if i < 18 then bit b (i - 12)
      else i < 21 \<and> bit a (i - 18))" for i
    unfolding assms(5) bit_sequence_4 by (auto simp: bit_simps dest: bit_imp_le_length)
  show "ucast (drop_bit 18 cp OR 0xf0) = a" "ucast ((drop_bit 12 cp AND 0x3f) OR 0x80) = b"
    "ucast ((drop_bit 6 cp AND 0x3f) OR 0x80) = d" "ucast ((cp AND 0x3f) OR 0x80) = e"
    using assms(1-4)
    by (simp_all add: octet_eq_iff all_below_8 bit_simps c sequence_length_def octet_tests split: if_splits)
qed

lemma not_bit_above_7: "\<not> bit (a :: u8) 7 \<Longrightarrow> 7 \<le> i \<Longrightarrow> \<not> bit a i"
  using octet_bits [of i a] by (cases "i = 7") auto

lemma increase_safely_Inr:
  "increase_safely it = Inr it' \<longleftrightarrow> (\<exists>a b r. it = a # b # r \<and> is_trail b \<and> it' = b # r)"
  by (cases it; cases "tl it") (auto simp: increase_safely_def)

lemma sequence_length_cases: "sequence_length a \<in> {0, 1, 2, 3, 4}"
  by (simp add: sequence_length_def)

lemma append_validate:
  assumes "validate_next it = Inr (cp, rest)" and "it \<noteq> []"
  shows "\<exists>bs. utf8_append cp = Inr bs \<and> it = bs @ rest"
proof -
  obtain a it0 where it: "it = a # it0" using assms(2) by (cases it) auto
  have valid: "is_code_point_valid cp" and over: "\<not> is_overlong_sequence cp (sequence_length a)"
    and len: "sequence_length a \<in> {1, 2, 3, 4}"
    using assms(1) sequence_length_cases [of a] it
    by (auto simp: validate_next_def Let_def bind_res_Inr_iff split: if_splits)
  from len consider "sequence_length a = 1" | "sequence_length a = 2" | "sequence_length a = 3"
    | "sequence_length a = 4" by blast
  then show ?thesis
  proof cases
    case 1
    then have "cp = ucast a" "it0 = rest"
      using assms(1) it by (auto simp: validate_next_def get_sequence_1_def split: if_splits)
    moreover have "(ucast a :: u32) < 0x80"
      unfolding bounds_bits using 1 octet_bits [of _ a] not_bit_above_7 [of a]
      by (auto simp: bit_simps sequence_length_def octet_tests split: if_splits)
    moreover have "ucast (ucast a :: u32) = a" by (rule bit_word_eqI) (simp add: bit_simps)
    ultimately show ?thesis using valid it by (simp add: utf8_append_def)
  next
    case 2
    then obtain b where "it0 = b # rest" "is_trail b"
      and cp: "cp = (push_bit 6 (ucast a) AND 0x7ff) + (ucast b AND 0x3f)"
      using assms(1) it
      by (auto simp: validate_next_def get_sequence_2_def bind_res_Inr_iff increase_safely_Inr split: if_splits)
    with octets_2 [OF 2 this(2) cp] valid over 2 it show ?thesis
      by (auto simp: utf8_append_def is_overlong_sequence_def)
  next
    case 3
    then obtain b d where "it0 = b # d # rest" and t: "is_trail b" "is_trail d"
      and cp: "cp = (push_bit 12 (ucast a) AND 0xffff) + (push_bit 6 (ucast b) AND 0xfff) + (ucast d AND 0x3f)"
      using assms(1) it
      by (auto simp: validate_next_def get_sequence_3_def Let_def bind_res_Inr_iff increase_safely_Inr
          split: if_splits)
    with octets_3 [OF 3 t cp] valid over 3 it show ?thesis
      by (auto simp: utf8_append_def is_overlong_sequence_def split: if_splits)
  next
    case 4
    then obtain b d e where "it0 = b # d # e # rest" and t: "is_trail b" "is_trail d" "is_trail e"
      and cp: "cp = (push_bit 18 (ucast a) AND 0x1fffff) + (push_bit 12 (ucast b) AND 0x3ffff) +
        (push_bit 6 (ucast d) AND 0xfff) + (ucast e AND 0x3f)"
      using assms(1) it
      by (auto simp: validate_next_def get_sequence_4_def Let_def bind_res_Inr_iff increase_safely_Inr
          split: if_splits)
    with octets_4 [OF 4 t cp] valid over 4 it show ?thesis
      by (auto simp: utf8_append_def is_overlong_sequence_def split: if_splits)
  qed
qed

section \<open>Texts\<close>

text \<open>The octets and the units of a list of code points; a text is read as the one list it encodes.\<close>

definition octets_of :: "u32 \<Rightarrow> u8 list" where
  "octets_of cp = (case utf8_append cp of Inl e \<Rightarrow> [] | Inr bs \<Rightarrow> bs)"

abbreviation "points_ok \<equiv> list_all is_code_point_valid"
abbreviation "octets cps \<equiv> concat (map octets_of cps)"
abbreviation "units cps \<equiv> concat (map to_units cps)"

lemma utf8_append_valid: "is_code_point_valid cp \<Longrightarrow> utf8_append cp = Inr (octets_of cp)"
  by (simp add: octets_of_def utf8_append_def)

lemma utf8_append_iff: "utf8_append cp = Inr bs \<longleftrightarrow> is_code_point_valid cp \<and> bs = octets_of cp"
  by (auto simp: octets_of_def utf8_append_def)

lemma utf8_next_octets: "is_code_point_valid cp \<Longrightarrow> utf8_next (octets_of cp @ rest) = Inr (cp, rest)"
  using validate_append [OF utf8_append_valid] by (simp add: utf8_next_validate)

lemma octets_of_not_Nil: "is_code_point_valid cp \<Longrightarrow> octets_of cp \<noteq> []"
  using validate_append [OF utf8_append_valid] by simp

lemma utf8_next_iff:
  assumes "it \<noteq> []"
  shows "utf8_next it = Inr (cp, rest) \<longleftrightarrow> is_code_point_valid cp \<and> it = octets_of cp @ rest"
  using append_validate [of it cp rest] assms utf8_next_octets [of cp rest]
  by (auto simp: utf8_next_validate utf8_append_iff)

text \<open>Both loops over a text go through the code points it encodes.\<close>

function code_points :: "u8 list \<Rightarrow> utf_exception + u32 list" where
  "code_points it =
     (if it = [] then Inr []
      else case utf8_next it of
        Inl e \<Rightarrow> Inl e
      | Inr (cp, it') \<Rightarrow> map_sum id ((#) cp) (code_points it'))"
  by pat_completeness auto
termination
  by (relation "measure length") (auto dest: utf8_next_shorter)

declare code_points.simps [simp del]

lemma utf8_distance_points: "utf8_distance s = map_sum id length (code_points s)"
  by (induction s rule: code_points.induct)
    (auto simp: utf8_distance.simps code_points.simps map_sum_def o_def split: sum.splits)

lemma utf8to16_points: "utf8to16 s = map_sum id (\<lambda>cps. units cps) (code_points s)"
  by (induction s rule: code_points.induct)
    (auto simp: utf8to16.simps code_points.simps map_sum_def o_def split: sum.splits)

lemma code_points_octets: "points_ok cps \<Longrightarrow> code_points (octets cps) = Inr cps"
  by (induction cps) (simp_all add: code_points.simps utf8_next_octets octets_of_not_Nil)

lemma octets_code_points: "code_points s = Inr cps \<Longrightarrow> points_ok cps \<and> octets cps = s"
proof (induction s arbitrary: cps rule: code_points.induct)
  case (1 it)
  show ?case
  proof (cases "it = []")
    case True
    with 1 show ?thesis by (simp add: code_points.simps)
  next
    case False
    with 1(2) obtain cp rest cps' where n: "utf8_next it = Inr (cp, rest)"
      and r: "code_points rest = Inr cps'" "cps = cp # cps'"
      by (auto simp: code_points.simps [of it] map_sum_def split: sum.splits)
    with 1(1) [OF False n] False show ?thesis
      by (simp add: utf8_next_iff)
  qed
qed

section \<open>Surrogate pairs\<close>

lemmas surrogate_defs = is_lead_surrogate_def is_trail_surrogate_def is_surrogate_def LEAD_SURROGATE_MIN_def
  LEAD_SURROGATE_MAX_def TRAIL_SURROGATE_MIN_def TRAIL_SURROGATE_MAX_def LEAD_OFFSET_def SURROGATE_OFFSET_def

lemma unat_widen: "unat (ucast (w :: u16) :: u32) = unat w"
  by (simp add: unsigned_ucast_eq take_bit_nat_eq_self_iff less_le_trans [OF unsigned_less [of w, where ?'a = nat]])

lemma lead_surrogate_nat: "is_lead_surrogate (ucast (w :: u16)) \<longleftrightarrow> 0xd800 \<le> unat w \<and> unat w \<le> 0xdbff"
  by (simp add: surrogate_defs word_le_nat_alt unat_widen)

lemma trail_surrogate_nat: "is_trail_surrogate (ucast (w :: u16)) \<longleftrightarrow> 0xdc00 \<le> unat w \<and> unat w \<le> 0xdfff"
  by (simp add: surrogate_defs word_le_nat_alt unat_widen)

lemma valid_nat:
  "is_code_point_valid cp \<longleftrightarrow> unat cp \<le> 0x10ffff \<and> \<not> (0xd800 \<le> unat cp \<and> unat cp \<le> 0xdfff)"
  by (simp add: is_code_point_valid_def CODE_POINT_MAX_def surrogate_defs word_le_nat_alt)

lemma to_units_plain:
  assumes "is_code_point_valid cp" and "\<not> 0xffff < cp"
  shows "to_units cp = [ucast cp]" and "ucast (ucast cp :: u16) = cp"
    and "\<not> is_lead_surrogate cp" and "\<not> is_trail_surrogate cp"
proof -
  show "to_units cp = [ucast cp]" using assms(2) by (simp add: to_units_def)
  have "cp < 0x10000" using assms(2) by (simp add: word_less_nat_alt)
  then show "ucast (ucast cp :: u16) = cp"
    unfolding bounds_bits by (intro bit_word_eqI) (auto simp: bit_simps, meson not_le)
  show "\<not> is_lead_surrogate cp" "\<not> is_trail_surrogate cp"
    using assms(1) by (auto simp: valid_nat surrogate_defs word_le_nat_alt)
qed

text \<open>A pair of surrogates stands for the code point above \<open>0x10000\<close> with the ten low bits of each.\<close>

lemma widen_of_nat: "n < 0x10000 \<Longrightarrow> ucast (of_nat n :: u16) = (of_nat n :: u32)"
  by (simp add: unsigned_of_nat take_bit_nat_eq_self)

lemma narrow_of_nat: "ucast (of_nat n :: u32) = (of_nat n :: u16)"
  by (rule bit_word_eqI) (auto simp: bit_simps)

lemma unat_of_nat_small: "n < 0x100000000 \<Longrightarrow> unat (of_nat n :: u32) = n"
  by (simp add: unsigned_of_nat take_bit_nat_eq_self)

lemma join_pair:
  assumes "a < 1024" and "b < 1024"
  shows "push_bit 10 (ucast (of_nat (0xd800 + a) :: u16)) + ucast (of_nat (0xdc00 + b) :: u16) + SURROGATE_OFFSET =
    (of_nat (0x10000 + 1024 * a + b) :: u32)"
proof -
  have "ucast (of_nat (0xd800 + a) :: u16) = (of_nat (0xd800 + a) :: u32)"
    "ucast (of_nat (0xdc00 + b) :: u16) = (of_nat (0xdc00 + b) :: u32)"
    by (rule widen_of_nat, use assms in simp)+
  moreover have off: "SURROGATE_OFFSET = - 0x35FDC00"
    by (simp add: SURROGATE_OFFSET_def LEAD_SURROGATE_MIN_def TRAIL_SURROGATE_MIN_def push_bit_eq_mult)
  ultimately show ?thesis
    unfolding off by (simp add: push_bit_eq_mult distrib_right)
qed

lemma split_pair:
  assumes "a < 1024" and "b < 1024"
  shows "to_units (of_nat (0x10000 + 1024 * a + b)) = [of_nat (0xd800 + a), of_nat (0xdc00 + b)]"
proof -
  let ?n = "0x10000 + 1024 * a + b" and ?cp = "of_nat (0x10000 + 1024 * a + b) :: u32"
  have u: "unat ?cp = ?n" by (rule unat_of_nat_small) (use assms in simp)
  have "unat (drop_bit 10 ?cp) = unat (of_nat (64 + a) :: u32)"
    using assms u by (simp add: drop_bit_eq_div unat_div unat_of_nat_small del: of_nat_add)
  then have d: "drop_bit 10 ?cp = of_nat (64 + a)" by (simp only: word_unat_eq_iff)
  have "(0x3ff :: u32) = mask 10" by (simp add: mask_eq_exp_minus_1)
  then have "?cp AND 0x3ff = take_bit 10 ?cp" by (simp only: take_bit_eq_mask)
  moreover have "?n mod 1024 = b"
  proof -
    have "?n mod 1024 = (b + 1024 * (64 + a)) mod 1024" by (simp add: algebra_simps)
    also have "\<dots> = b" by (subst mod_mult_self2) (use assms in simp)
    finally show ?thesis .
  qed
  ultimately have "unat (?cp AND 0x3ff) = unat (of_nat b :: u32)"
    using assms u by (simp add: unsigned_take_bit_eq take_bit_eq_mod unat_mod unat_of_nat_small del: of_nat_add)
  then have m: "?cp AND 0x3ff = of_nat b" by (simp only: word_unat_eq_iff)
  have "0xffff < ?cp" using u by (simp add: word_less_nat_alt del: of_nat_add)
  moreover have "drop_bit 10 ?cp + ucast LEAD_OFFSET = of_nat (0xd800 + a)"
    unfolding d by (simp add: surrogate_defs)
  moreover have "(?cp AND 0x3ff) + ucast TRAIL_SURROGATE_MIN = of_nat (0xdc00 + b)"
    unfolding m by (simp add: surrogate_defs)
  ultimately show ?thesis
    unfolding to_units_def by (simp only: if_True narrow_of_nat)
qed

lemma lead_trail_parts:
  fixes w t :: u16
  assumes "is_lead_surrogate (ucast w)" and "is_trail_surrogate (ucast t)"
  obtains a b where "a < 1024" and "b < 1024" and "w = of_nat (0xd800 + a)" and "t = of_nat (0xdc00 + b)"
proof
  show "unat w - 0xd800 < 1024" "unat t - 0xdc00 < 1024"
    "w = of_nat (0xd800 + (unat w - 0xd800))" "t = of_nat (0xdc00 + (unat t - 0xdc00))"
    using assms unfolding lead_surrogate_nat trail_surrogate_nat by auto
qed

lemma pair_valid:
  assumes "a < 1024" and "b < 1024"
  shows "is_code_point_valid (of_nat (0x10000 + 1024 * a + b))"
    and "is_lead_surrogate (ucast (of_nat (0xd800 + a) :: u16))"
    and "is_trail_surrogate (ucast (of_nat (0xdc00 + b) :: u16))"
proof -
  have "unat (of_nat (0x10000 + 1024 * a + b) :: u32) = 0x10000 + 1024 * a + b"
    by (rule unat_of_nat_small) (use assms in simp)
  with assms show "is_code_point_valid (of_nat (0x10000 + 1024 * a + b))"
    by (simp add: valid_nat del: of_nat_add)
  show "is_lead_surrogate (ucast (of_nat (0xd800 + a) :: u16))"
    "is_trail_surrogate (ucast (of_nat (0xdc00 + b) :: u16))"
    using assms unfolding lead_surrogate_nat trail_surrogate_nat
    by (simp_all add: unsigned_of_nat take_bit_nat_eq_self del: of_nat_add)
qed

lemma large_parts:
  assumes "is_code_point_valid cp" and "0xffff < cp"
  obtains a b where "a < 1024" and "b < 1024" and "cp = of_nat (0x10000 + 1024 * a + b)"
proof
  let ?n = "unat cp - 0x10000"
  have n: "0x10000 \<le> unat cp" "unat cp \<le> 0x10ffff"
    using assms by (simp_all add: valid_nat word_less_nat_alt)
  then show "?n div 1024 < 1024" "?n mod 1024 < 1024" by auto
  have "0x10000 + 1024 * (?n div 1024) + ?n mod 1024 = unat cp" using n(1) by simp
  then have "of_nat (0x10000 + 1024 * (?n div 1024) + ?n mod 1024) = (of_nat (unat cp) :: u32)" by (simp only:)
  then show "cp = of_nat (0x10000 + 1024 * (?n div 1024) + ?n mod 1024)" by simp
qed

lemma utf16to8_units: "points_ok cps \<Longrightarrow> utf16to8 (units cps) = Inr (octets cps)"
proof (induction cps)
  case (Cons cp cps)
  then have ok: "is_code_point_valid cp" and ih: "utf16to8 (units cps) = Inr (octets cps)" by simp_all
  show ?case
  proof (cases "0xffff < cp")
    case True
    from large_parts [OF ok True] obtain a b where ab: "a < 1024" "b < 1024"
      and cp: "cp = of_nat (0x10000 + 1024 * a + b)" .
    show ?thesis
      using ok ih pair_valid [OF ab]
      by (simp add: cp split_pair [OF ab] join_pair [OF ab] utf8_append_valid del: of_nat_add of_nat_mult)
  next
    case False
    with ok ih show ?thesis
      by (simp add: to_units_plain utf8_append_valid)
  qed
qed simp

lemma units_utf16to8: "utf16to8 w = Inr s \<Longrightarrow> \<exists>cps. points_ok cps \<and> units cps = w \<and> octets cps = s"
proof (induction w arbitrary: s rule: utf16to8.induct)
  case 1
  then show ?case by (auto intro!: exI [of _ "[]"])
next
  case (2 w ws)
  show ?case
  proof (cases "is_lead_surrogate (ucast w)")
    case True
    with 2(3) obtain t ws' bs s' where ws: "ws = t # ws'" and t: "is_trail_surrogate (ucast t)"
      and bs: "utf8_append (push_bit 10 (ucast w) + ucast t + SURROGATE_OFFSET) = Inr bs"
      and s': "utf16to8 ws' = Inr s'" "s = bs @ s'"
      by (auto simp: Let_def bind_res_Inr_iff map_sum_def split: list.splits if_splits sum.splits)
    from 2(1) [OF refl True ws t s'(1)] obtain cps where cps: "points_ok cps" "units cps = ws'" "octets cps = s'"
      by blast
    from lead_trail_parts [OF True t] obtain a b where ab: "a < 1024" "b < 1024"
      and wt: "w = of_nat (0xd800 + a)" "t = of_nat (0xdc00 + b)" .
    let ?cp = "of_nat (0x10000 + 1024 * a + b) :: u32"
    have "to_units ?cp = [w, t]" "utf8_append ?cp = Inr bs"
      using bs unfolding wt split_pair [OF ab] join_pair [OF ab] by simp_all
    with cps ws s' show ?thesis
      by (intro exI [of _ "?cp # cps"]) (simp add: utf8_append_iff del: of_nat_add of_nat_mult)
  next
    case False
    with 2(3) obtain bs s' where t: "\<not> is_trail_surrogate (ucast w)"
      and bs: "utf8_append (ucast w) = Inr bs" and s': "utf16to8 ws = Inr s'" "s = bs @ s'"
      by (auto simp: Let_def bind_res_Inr_iff map_sum_def split: if_splits sum.splits)
    from 2(2) [OF refl False t s'(1)] obtain cps where cps: "points_ok cps" "units cps = ws" "octets cps = s'"
      by blast
    have "\<not> 0xffff < (ucast w :: u32)"
      using unsigned_less [of w, where ?'a = nat] by (simp add: word_less_nat_alt unat_widen)
    moreover have "ucast (ucast w :: u32) = w" by (rule bit_word_eqI) (simp add: bit_simps)
    ultimately have "to_units (ucast w) = [w]" by (simp add: to_units_def)
    with cps bs s' show ?thesis
      by (intro exI [of _ "ucast w # cps"]) (simp add: utf8_append_iff)
  qed
qed

section \<open>The conversions undo each other\<close>

lemma length_units:
  "points_ok cps \<Longrightarrow> length (units cps) = length cps + length (filter (\<lambda>u. is_lead_surrogate (ucast u)) (units cps))"
proof (induction cps)
  case (Cons cp cps)
  then have ok: "is_code_point_valid cp" by simp
  have "length (to_units cp) = Suc (length (filter (\<lambda>u. is_lead_surrogate (ucast u)) (to_units cp)))"
  proof (cases "0xffff < cp")
    case True
    from large_parts [OF ok True] obtain a b where ab: "a < 1024" "b < 1024"
      and cp: "cp = of_nat (0x10000 + 1024 * a + b)" .
    have "\<not> is_lead_surrogate (ucast (of_nat (0xdc00 + b) :: u16))"
      using pair_valid(3) [OF ab] unfolding lead_surrogate_nat trail_surrogate_nat by auto
    then show ?thesis
      using pair_valid(2) [OF ab] unfolding cp split_pair [OF ab] by simp
  next
    case False
    with ok show ?thesis by (simp add: to_units_plain)
  qed
  with Cons show ?case by simp
qed simp

lemma utf8to16_iff: "utf8to16 s = Inr w \<longleftrightarrow> utf16to8 w = Inr s"
proof
  assume "utf8to16 s = Inr w"
  then obtain cps where "code_points s = Inr cps" "w = units cps"
    by (auto simp: utf8to16_points map_sum_def split: sum.splits)
  with octets_code_points [of s cps] utf16to8_units [of cps] show "utf16to8 w = Inr s" by simp
next
  assume "utf16to8 w = Inr s"
  then obtain cps where "points_ok cps" "units cps = w" "octets cps = s" using units_utf16to8 by blast
  with code_points_octets [of cps] show "utf8to16 s = Inr w" by (auto simp: utf8to16_points)
qed

text \<open>C36: The UTF-8 and the UTF-16 form of a text determine each other: one conversion accepts a text and gives
  another exactly when the other conversion leads back, so no overlong, truncated or surrogate sequence is
  accepted and nothing is lost. The length the library reports for a text is the number of its units, less
  one for every pair that stands for a code point above \<open>0xffff\<close>.\<close>

theorem utf8_utf16_inverse:
  "(utf8to16 s = Inr w \<longleftrightarrow> utf16to8 w = Inr s) \<and>
   utf8_distance s =
     map_sum id (\<lambda>us. length us - length (filter (\<lambda>u. is_lead_surrogate (ucast u)) us)) (utf8to16 s)"
  using octets_code_points [of s] length_units
  by (cases "code_points s") (auto simp: utf8to16_iff [symmetric] utf8_distance_points utf8to16_points)

end
