(* ===== verification/Names.thy ===== *)
theory Names
  imports Utf8
begin

text \<open>
  The names of players and channels: the letter case functions of \<^verbatim>\<open>shared/Utilities/Util.h\<close>, the
  conversions \<^verbatim>\<open>Utf8toWStr\<close> and \<^verbatim>\<open>WStrToUtf8\<close> of \<^verbatim>\<open>Util.cpp\<close> and \<^verbatim>\<open>normalizePlayerName\<close> of
  \<^verbatim>\<open>game/Globals/ObjectMgr.cpp\<close>. A \<^verbatim>\<open>wchar_t\<close> has 32 bits, as on the Unix hosts; every comparison of the code
  is with a positive constant inside a range, so that it is the same for signed and unsigned values.
  Writing past the end of a buffer is the error \<open>Overrun\<close>.
\<close>

section \<open>Letter case\<close>

type_synonym wchar = u32
type_synonym wstr = "wchar list"

definition down16 :: "wchar \<Rightarrow> wchar" where
  "down16 wc = ucast (ucast wc :: u16)"

definition wcharToUpper :: "wchar \<Rightarrow> wchar" where
  "wcharToUpper wc =
     (if 0x61 \<le> wc \<and> wc \<le> 0x7A then down16 wc - 0x20
      else if wc = 0xDF then 0x1E9E
      else if 0xE0 \<le> wc \<and> wc \<le> 0xF6 then down16 wc - 0x20
      else if 0xF8 \<le> wc \<and> wc \<le> 0xFE then down16 wc - 0x20
      else if 0x101 \<le> wc \<and> wc \<le> 0x12F \<and> wc mod 2 = 1 then down16 wc - 1
      else if 0x430 \<le> wc \<and> wc \<le> 0x44F then down16 wc - 0x20
      else if wc = 0x451 then 0x401
      else wc)"

definition wcharToLower :: "wchar \<Rightarrow> wchar" where
  "wcharToLower wc =
     (if 0x41 \<le> wc \<and> wc \<le> 0x5A then down16 wc + 0x20
      else if 0xC0 \<le> wc \<and> wc \<le> 0xD6 then down16 wc + 0x20
      else if 0xD8 \<le> wc \<and> wc \<le> 0xDE then down16 wc + 0x20
      else if 0x100 \<le> wc \<and> wc \<le> 0x12E \<and> wc mod 2 = 0 then down16 wc + 1
      else if wc = 0x1E9E then 0xDF
      else if wc = 0x401 then 0x451
      else if 0x410 \<le> wc \<and> wc \<le> 0x42F then down16 wc + 0x20
      else wc)"

definition wstrToLower :: "wstr \<Rightarrow> wstr" where
  "wstrToLower = map wcharToLower"

section \<open>Conversions\<close>

datatype name_error = Overrun nat nat

text \<open>\<^verbatim>\<open>Utf8toWStr(char const*, size_t, wchar_t*, size_t&)\<close> with a buffer of \<open>cells\<close> characters; \<open>None\<close> is the
  result false. The caller sees the number of code points and the characters of the buffer up to there.\<close>

definition Utf8toWStr_buf :: "u8 list \<Rightarrow> nat \<Rightarrow> nat \<Rightarrow> name_error + wstr option" where
  "Utf8toWStr_buf utf8str wsize cells =
     (case utf8_distance utf8str of
        Inl e \<Rightarrow> Inr None
      | Inr len \<Rightarrow>
          if wsize < len then Inr None
          else
            case utf8to16 utf8str of
              Inl e \<Rightarrow> Inr None
            | Inr us \<Rightarrow>
                if cells < length us then Inl (Overrun (length us) cells)
                else Inr (Some (take len (map ucast us))))"

text \<open>\<^verbatim>\<open>Utf8toWStr(std::string const&, std::wstring&)\<close>; on failure, and for the empty text, the wide string is
  empty.\<close>

definition Utf8toWStr :: "u8 list \<Rightarrow> name_error + wstr" where
  "Utf8toWStr utf8str =
     (case utf8_distance utf8str of
        Inl e \<Rightarrow> Inr []
      | Inr len \<Rightarrow>
          if len = 0 then Inr []
          else
            case utf8to16 utf8str of
              Inl e \<Rightarrow> Inr []
            | Inr us \<Rightarrow>
                if len < length us then Inl (Overrun (length us) len)
                else Inr (map ucast us))"

text \<open>\<^verbatim>\<open>WStrToUtf8(wchar_t*, size_t, std::string&)\<close>; the library looks at the low 16 bits of a character.\<close>

definition WStrToUtf8 :: "wstr \<Rightarrow> u8 list option" where
  "WStrToUtf8 ws = (case utf16to8 (map ucast ws) of Inl e \<Rightarrow> None | Inr s \<Rightarrow> Some s)"

definition MAX_INTERNAL_PLAYER_NAME :: nat where "MAX_INTERNAL_PLAYER_NAME = 15"

definition normalizePlayerName :: "u8 list \<Rightarrow> name_error + u8 list option" where
  "normalizePlayerName name =
     (if name = [] then Inr None
      else
        bind_res (Utf8toWStr_buf name MAX_INTERNAL_PLAYER_NAME (MAX_INTERNAL_PLAYER_NAME + 1)) (\<lambda>r.
          case r of
            None \<Rightarrow> Inr None
          | Some [] \<Rightarrow> Inr (WStrToUtf8 [])
          | Some (c # cs) \<Rightarrow> Inr (WStrToUtf8 (wcharToUpper c # map wcharToLower cs))))"

text \<open>The key of a channel in the manager's map.\<close>

definition channel_key :: "u8 list \<Rightarrow> name_error + wstr" where
  "channel_key name = bind_res (Utf8toWStr name) (\<lambda>w. Inr (wstrToLower w))"

section \<open>Case mapping on numbers\<close>

definition upper_nat :: "nat \<Rightarrow> nat" where
  "upper_nat n =
     (if n \<in> {0x61..0x7A} \<union> {0xE0..0xF6} \<union> {0xF8..0xFE} \<union> {0x430..0x44F} then n - 0x20
      else if n = 0xDF then 0x1E9E
      else if n \<in> {0x101..0x12F} \<and> odd n then n - 1
      else if n = 0x451 then 0x401
      else n)"

definition lower_nat :: "nat \<Rightarrow> nat" where
  "lower_nat n =
     (if n \<in> {0x41..0x5A} \<union> {0xC0..0xD6} \<union> {0xD8..0xDE} \<union> {0x410..0x42F} then n + 0x20
      else if n \<in> {0x100..0x12E} \<and> even n then n + 1
      else if n = 0x1E9E then 0xDF
      else if n = 0x401 then 0x451
      else n)"

lemma down16_id: "wc \<le> 0xffff \<Longrightarrow> down16 wc = wc"
proof -
  assume "wc \<le> 0xffff"
  then have "wc < 0x10000" by (rule le_less_trans) simp
  then show ?thesis
    unfolding bounds_bits down16_def by (intro bit_word_eqI) (auto simp: bit_simps, meson not_le)
qed

lemma unat_minus_small: "unat k \<le> unat w \<Longrightarrow> unat (w - k) = unat w - unat k" for w k :: u32
  by (simp add: unat_sub word_le_nat_alt)

lemma unat_plus_small: "unat w + unat k < 2 ^ 32 \<Longrightarrow> unat (w + k) = unat w + unat k" for w k :: u32
  using unat_add_lem [of w k] by simp

lemma unat_wcharToUpper: "unat (wcharToUpper wc) = upper_nat (unat wc)"
  unfolding wcharToUpper_def upper_nat_def word_le_nat_alt word_unat_eq_iff
  by (auto simp: down16_id word_le_nat_alt unat_minus_small unat_mod odd_iff_mod_2_eq_one)

lemma unat_wcharToLower: "unat (wcharToLower wc) = lower_nat (unat wc)"
  unfolding wcharToLower_def lower_nat_def word_le_nat_alt word_unat_eq_iff
  by (auto simp: down16_id word_le_nat_alt unat_plus_small unat_mod even_iff_mod_2_eq_zero)

text \<open>A number that one mapping changes is a fixed point of the other, and the other leads back.\<close>

lemma upper_changes: "upper_nat n \<noteq> n \<Longrightarrow> lower_nat n = n \<and> lower_nat (upper_nat n) = n"
proof -
  assume "upper_nat n \<noteq> n"
  then consider "n \<in> {0x61..0x7A} \<union> {0xE0..0xF6} \<union> {0xF8..0xFE} \<union> {0x430..0x44F}" | "n = 0xDF"
    | "n \<in> {0x101..0x12F}" "odd n" | "n = 0x451"
    unfolding upper_nat_def by (auto split: if_splits)
  then show ?thesis
  proof cases
    case 1
    then have "upper_nat n = n - 0x20" by (simp add: upper_nat_def)
    moreover from 1 have "lower_nat n = n" by (elim UnE) (simp_all add: lower_nat_def)
    moreover from 1 have "n = (n - 0x20) + 0x20" by auto
    moreover from 1 have "n - 0x20 \<in> {0x41..0x5A} \<union> {0xC0..0xD6} \<union> {0xD8..0xDE} \<union> {0x410..0x42F}"
      by (elim UnE) (simp, linarith)+
    ultimately show ?thesis by (simp add: lower_nat_def)
  next
    case 3
    then have "upper_nat n = n - 1" "even (n - 1)" "lower_nat n = n"
      by (simp_all add: upper_nat_def lower_nat_def)
    moreover have "n - 1 \<in> {0x100..0x12E}" using 3(1) by auto
    moreover have "n - 1 \<notin> {0x41..0x5A} \<union> {0xC0..0xD6} \<union> {0xD8..0xDE} \<union> {0x410..0x42F}" "n - 1 + 1 = n"
      using 3(1) by auto
    ultimately show ?thesis by (simp add: lower_nat_def)
  qed (simp_all add: upper_nat_def lower_nat_def)
qed

lemma lower_changes: "lower_nat n \<noteq> n \<Longrightarrow> upper_nat n = n \<and> upper_nat (lower_nat n) = n"
proof -
  assume "lower_nat n \<noteq> n"
  then consider "n \<in> {0x41..0x5A} \<union> {0xC0..0xD6} \<union> {0xD8..0xDE} \<union> {0x410..0x42F}" | "n = 0x1E9E"
    | "n \<in> {0x100..0x12E}" "even n" | "n = 0x401"
    unfolding lower_nat_def by (auto split: if_splits)
  then show ?thesis
  proof cases
    case 1
    then have "lower_nat n = n + 0x20" by (simp add: lower_nat_def)
    with 1 show ?thesis by (elim UnE) (simp_all add: upper_nat_def)
  next
    case 3
    then have "lower_nat n = n + 1" by (simp add: lower_nat_def)
    with 3 show ?thesis by (simp add: upper_nat_def)
  qed (simp_all add: upper_nat_def lower_nat_def)
qed

lemma case_nat_laws:
  "lower_nat (lower_nat n) = lower_nat n" "upper_nat (upper_nat n) = upper_nat n"
  "lower_nat (upper_nat n) = lower_nat n" "upper_nat (lower_nat n) = upper_nat n"
  using upper_changes lower_changes by metis+

lemma case_laws:
  "wcharToLower (wcharToLower c) = wcharToLower c" "wcharToUpper (wcharToUpper c) = wcharToUpper c"
  "wcharToLower (wcharToUpper c) = wcharToLower c" "wcharToUpper (wcharToLower c) = wcharToUpper c"
  by (simp_all add: word_unat_eq_iff unat_wcharToLower unat_wcharToUpper case_nat_laws)

definition bmp_char :: "wchar \<Rightarrow> bool" where
  "bmp_char c \<longleftrightarrow> is_code_point_valid c \<and> c \<le> 0xffff"

lemma bmp_char_nat: "bmp_char c \<longleftrightarrow> unat c \<le> 0xffff \<and> \<not> (0xd800 \<le> unat c \<and> unat c \<le> 0xdfff)"
  by (auto simp: bmp_char_def valid_nat word_le_nat_alt)

lemma bmp_case: "bmp_char (wcharToLower c) \<longleftrightarrow> bmp_char c" "bmp_char (wcharToUpper c) \<longleftrightarrow> bmp_char c"
  unfolding bmp_char_nat unat_wcharToLower unat_wcharToUpper lower_nat_def upper_nat_def by auto

section \<open>Names without surrogate pairs\<close>

lemma units_bmp: "list_all bmp_char cps \<Longrightarrow> units cps = map ucast cps"
  by (induction cps) (auto simp: bmp_char_def to_units_def not_less)

lemma widen_narrow_bmp: "bmp_char c \<Longrightarrow> ucast (ucast c :: u16) = c"
  using down16_id [of c] by (simp add: bmp_char_def down16_def)

lemma widen_units_bmp: "list_all bmp_char cps \<Longrightarrow> map ucast (map ucast cps :: u16 list) = cps"
  by (induction cps) (simp_all add: widen_narrow_bmp)

lemma bmp_ok: "list_all bmp_char cps \<Longrightarrow> points_ok cps"
  by (auto simp: list_all_iff bmp_char_def)

lemma octets_Nil_iff: "points_ok cps \<Longrightarrow> octets cps = [] \<longleftrightarrow> cps = []"
  by (cases cps) (simp_all add: octets_of_not_Nil)

lemma text_bmp:
  assumes "list_all bmp_char cps"
  shows "utf8_distance (octets cps) = Inr (length cps)" and "utf8to16 (octets cps) = Inr (map ucast cps)"
    and "WStrToUtf8 cps = Some (octets cps)"
  using bmp_ok [OF assms] units_bmp [OF assms] utf16to8_units [of cps]
  by (simp_all add: utf8_distance_points utf8to16_points code_points_octets WStrToUtf8_def)

primrec title_case :: "wstr \<Rightarrow> wstr" where
  "title_case [] = []"
| "title_case (c # cs) = wcharToUpper c # map wcharToLower cs"

lemma bmp_title: "list_all bmp_char cps \<Longrightarrow> list_all bmp_char (title_case cps)"
  by (cases cps) (simp_all add: bmp_case list_all_iff)

lemma title_title: "title_case (title_case cps) = title_case cps"
  by (cases cps) (simp_all add: case_laws)

lemma length_title [simp]: "length (title_case cps) = length cps"
  by (cases cps) simp_all

lemma title_lower: "title_case (map wcharToLower cps) = title_case cps"
  by (cases cps) (simp_all add: case_laws)

lemma normalize_bmp:
  assumes "list_all bmp_char cps"
  shows "normalizePlayerName (octets cps) =
    Inr (if cps = [] \<or> MAX_INTERNAL_PLAYER_NAME < length cps then None else Some (octets (title_case cps)))"
  using text_bmp [OF assms] text_bmp(3) [OF bmp_title [OF assms]] octets_Nil_iff [OF bmp_ok [OF assms]]
    widen_units_bmp [OF assms]
  by (cases cps) (auto simp: normalizePlayerName_def Utf8toWStr_buf_def MAX_INTERNAL_PLAYER_NAME_def)

lemma channel_key_bmp: "list_all bmp_char cps \<Longrightarrow> channel_key (octets cps) = Inr (map wcharToLower cps)"
  using text_bmp [of cps] widen_units_bmp [of cps]
  by (cases cps) (auto simp: channel_key_def Utf8toWStr_def wstrToLower_def)

lemma bmp_fold:
  assumes "map wcharToLower cps' = map wcharToLower cps" and "list_all bmp_char cps"
  shows "list_all bmp_char cps'" and "title_case cps' = title_case cps" and "length cps' = length cps"
proof -
  have "list_all bmp_char (map wcharToLower cps')" unfolding assms(1) using assms(2) by (simp add: list_all_iff bmp_case)
  then show "list_all bmp_char cps'" by (simp add: list_all_iff bmp_case)
  show "title_case cps' = title_case cps" by (metis assms(1) title_lower)
  show "length cps' = length cps" by (metis assms(1) length_map)
qed

text \<open>C37: A name of at most fifteen characters of the basic plane is normalised to its first letter in upper case
  and the others in lower case; the result is a fixed point, and names that differ only in the case of
  letters have the same normal form and the same key in the map of channels. Longer names are refused.\<close>

theorem player_name_normal_form:
  assumes "code_points name = Inr cps" and "list_all bmp_char cps"
    and "code_points name' = Inr cps'" and "map wcharToLower cps' = map wcharToLower cps"
  shows "normalizePlayerName name =
      Inr (if cps = [] \<or> MAX_INTERNAL_PLAYER_NAME < length cps then None else Some (octets (title_case cps))) \<and>
    (normalizePlayerName name = Inr (Some t) \<longrightarrow> normalizePlayerName t = Inr (Some t)) \<and>
    normalizePlayerName name' = normalizePlayerName name \<and> channel_key name' = channel_key name \<and>
    channel_key name = Inr (map wcharToLower cps)"
proof -
  note n = octets_code_points [OF assms(1)] and n' = octets_code_points [OF assms(3)]
  note f = bmp_fold [OF assms(4,2)]
  have len: "(cps' = []) = (cps = [])" using f(3) by auto
  have norm: "normalizePlayerName name =
      Inr (if cps = [] \<or> MAX_INTERNAL_PLAYER_NAME < length cps then None else Some (octets (title_case cps)))"
    using normalize_bmp [OF assms(2)] n by simp
  moreover have "normalizePlayerName name' = normalizePlayerName name"
    unfolding norm using normalize_bmp [OF f(1)] n' f(2,3) len by simp
  moreover have "channel_key name = Inr (map wcharToLower cps)" "channel_key name' = Inr (map wcharToLower cps)"
    using channel_key_bmp [OF assms(2)] channel_key_bmp [OF f(1)] n n' assms(4) by simp_all
  moreover have "title_case cps = [] \<longleftrightarrow> cps = []" by (cases cps) simp_all
  then have "normalizePlayerName name = Inr (Some t) \<longrightarrow> normalizePlayerName t = Inr (Some t)"
    using normalize_bmp [OF bmp_title [OF assms(2)]] by (auto simp: norm title_title)
  ultimately show ?thesis by (intro conjI) simp_all
qed

text \<open>The names \<open>zEUS\<close> and \<open>Zeus\<close>.\<close>

theorem player_name_normal_form_witness:
  "normalizePlayerName [0x7A, 0x45, 0x55, 0x53] = Inr (Some [0x5A, 0x65, 0x75, 0x73]) \<and>
   normalizePlayerName [0x5A, 0x65, 0x75, 0x73] = Inr (Some [0x5A, 0x65, 0x75, 0x73]) \<and>
   channel_key [0x7A, 0x45, 0x55, 0x53] = Inr [0x7A, 0x65, 0x75, 0x73]"
proof -
  have c: "code_points [0x7A, 0x45, 0x55, 0x53] = Inr [0x7A, 0x45, 0x55, 0x53]"
    "code_points [0x5A, 0x65, 0x75, 0x73] = Inr [0x5A, 0x65, 0x75, 0x73]"
    by code_simp+
  have b: "list_all bmp_char [0x7A, 0x45, 0x55, 0x53]"
    and l: "map wcharToLower [0x5A, 0x65, 0x75, 0x73] = map wcharToLower [0x7A, 0x45, 0x55, 0x53]"
    by code_simp+
  have t: "concat (map octets_of (title_case [0x7A, 0x45, 0x55, 0x53])) = [0x5A, 0x65, 0x75, 0x73]"
    "map wcharToLower [0x7A, 0x45, 0x55, 0x53] = [0x7A, 0x65, 0x75, 0x73]"
    by code_simp+
  show ?thesis
    using player_name_normal_form [OF c(1) b c(2) l, of "[0x5A, 0x65, 0x75, 0x73]"]
    unfolding t by (simp add: MAX_INTERNAL_PLAYER_NAME_def)
qed

section \<open>Names with surrogate pairs\<close>

lemma length_units_points:
  "points_ok cps \<Longrightarrow> length (units cps) = length cps + length (filter (\<lambda>c. 0xffff < c) cps)"
  by (induction cps) (auto simp: to_units_def)

text \<open>C38: The buffer of \<^verbatim>\<open>normalizePlayerName\<close> has room for sixteen wide characters, and the length that is checked
  counts code points: the function writes behind the buffer exactly when a name of at most fifteen code
  points has so many above \<open>0xffff\<close> that they take more than sixteen units.\<close>

theorem normalizePlayerName_overrun:
  "normalizePlayerName name = Inl e \<longleftrightarrow>
     (\<exists>cps. code_points name = Inr cps \<and> length cps \<le> 15 \<and>
        16 < length cps + length (filter (\<lambda>c. 0xffff < c) cps) \<and>
        e = Overrun (length cps + length (filter (\<lambda>c. 0xffff < c) cps)) 16)"
proof (cases "code_points name")
  case (Inl x)
  then show ?thesis
    by (simp add: normalizePlayerName_def Utf8toWStr_buf_def utf8_distance_points)
next
  case (Inr cps)
  have "length (units cps) = length cps + length (filter (\<lambda>c. 0xffff < c) cps)"
    using octets_code_points [OF Inr] length_units_points by blast
  moreover have "name = [] \<Longrightarrow> cps = []" using Inr by (simp add: code_points.simps)
  ultimately show ?thesis
    using Inr
    by (auto simp: normalizePlayerName_def Utf8toWStr_buf_def utf8_distance_points utf8to16_points
        MAX_INTERNAL_PLAYER_NAME_def not_less split: list.splits)
qed

text \<open>Nine times the code point \<open>0x1F600\<close>, a name of 36 bytes as a client may send it, is written over the end of the
  buffer.\<close>

lemma emoji_name_overruns:
  "normalizePlayerName (concat (replicate 9 [0xF0, 0x9F, 0x98, 0x80])) = Inl (Overrun 18 16)"
  by code_simp

end
