(* ===== verification/ChannelMgr.thy ===== *)
theory ChannelMgr
  imports Channel Names
begin

text \<open>
  The chat channels of the server as a whole: the managers of \<^verbatim>\<open>game/Chat/Channels/ChannelMgr.cpp\<close>, the
  lists of joined channels that \<^verbatim>\<open>Player\<close> keeps (\<^verbatim>\<open>game/Entities/Player/Player.cpp\<close>) and the handlers of
  \<^verbatim>\<open>game/Handlers/ChannelHandler.cpp\<close>, which decode a request of the client and pass it to the channel it
  names. Managers and players hold pointers to channels that are created and deleted while the server
  runs, so the channels live in an explicit store; a use of a deleted channel is the error \<open>UseAfterFree\<close>.
\<close>

section \<open>State\<close>

datatype mgr = AllianceChannelMgr | HordeChannelMgr

type_synonym addr = nat

record ChannelWorld =
  live :: "addr \<rightharpoonup> Channel"
  next_addr :: addr
  channels :: "mgr \<Rightarrow> wstr \<rightharpoonup> addr"
  mgr_team :: "mgr \<Rightarrow> u32"
  m_channels :: "u64 \<Rightarrow> addr list"

definition ChannelWorld_new :: ChannelWorld where
  "ChannelWorld_new =
     \<lparr>live = Map.empty, next_addr = 0, channels = (\<lambda>_. Map.empty), mgr_team = (\<lambda>_. 0), m_channels = (\<lambda>_. [])\<rparr>"

text \<open>Entries of the client's data files.\<close>

record ChatChannelsEntry =
  ChannelID :: u32
  entry_flags :: u32
  pattern :: str

record AreaTableEntry =
  area_flags :: u32
  area_name :: str

text \<open>What the code asks of the world: the realm, the data stores, the option and the contents of the
  database for custom channels, and the text for the city channels.\<close>

record ChatEnv =
  realm :: Realm
  chat_channels :: "u32 \<Rightarrow> ChatChannelsEntry option"
  num_chat_channels :: nat
  areas :: "u32 \<Rightarrow> AreaTableEntry option"
  preserve_custom :: bool
  channel_row :: "str \<Rightarrow> u32 \<Rightarrow> (bool \<times> bool \<times> str \<times> u64 list) option"
  city_text :: str

record Session =
  ses_player :: ChatPlayer
  ses_GuildId :: u32
  ses_ZoneId :: u32
  ses_loading :: bool
  ses_teleported_far :: bool

datatype chat_error = UseAfterFree addr | PacketError bb_error | NameError name_error

section \<open>Statements\<close>

type_synonym 'a chat = "ChannelWorld \<Rightarrow> chat_error + 'a \<times> effect list \<times> ChannelWorld"

definition chat_return :: "'a \<Rightarrow> 'a chat" where
  "chat_return x w = Inr (x, [], w)"

definition chat_bind :: "'a chat \<Rightarrow> ('a \<Rightarrow> 'b chat) \<Rightarrow> 'b chat" where
  "chat_bind f g w =
     (case f w of
        Inl e \<Rightarrow> Inl e
      | Inr (x, es, w1) \<Rightarrow>
          (case g x w1 of Inl e \<Rightarrow> Inl e | Inr (y, es', w2) \<Rightarrow> Inr (y, es @ es', w2)))"

abbreviation chat_then :: "unit chat \<Rightarrow> 'b chat \<Rightarrow> 'b chat" where
  "chat_then f g \<equiv> chat_bind f (\<lambda>_. g)"

abbreviation skip :: "unit chat" where
  "skip \<equiv> chat_return ()"

definition chat_change :: "(ChannelWorld \<Rightarrow> ChannelWorld) \<Rightarrow> unit chat" where
  "chat_change f w = Inr ((), [], f w)"

definition chat_get :: "(ChannelWorld \<Rightarrow> 'a) \<Rightarrow> 'a chat" where
  "chat_get f w = Inr (f w, [], w)"

definition decode :: "(bb_error + 'a) \<Rightarrow> 'a chat" where
  "decode r w = (case r of Inl e \<Rightarrow> Inl (PacketError e) | Inr x \<Rightarrow> Inr (x, [], w))"

definition naming :: "(name_error + 'a) \<Rightarrow> 'a chat" where
  "naming r w = (case r of Inl e \<Rightarrow> Inl (NameError e) | Inr x \<Rightarrow> Inr (x, [], w))"

definition deref :: "addr \<Rightarrow> Channel chat" where
  "deref a w = (case live w a of None \<Rightarrow> Inl (UseAfterFree a) | Some c \<Rightarrow> Inr (c, [], w))"

section \<open>The lists of players\<close>

definition JoinedChannel_list :: "u64 \<Rightarrow> addr \<Rightarrow> ChannelWorld \<Rightarrow> ChannelWorld" where
  "JoinedChannel_list g a w = w\<lparr>m_channels := (m_channels w)(g := m_channels w g @ [a])\<rparr>"

definition LeftChannel_list :: "u64 \<Rightarrow> addr \<Rightarrow> ChannelWorld \<Rightarrow> ChannelWorld" where
  "LeftChannel_list g a w = w\<lparr>m_channels := (m_channels w)(g := removeAll a (m_channels w g))\<rparr>"

text \<open>A member function of the channel at an address; its calls of \<^verbatim>\<open>JoinedChannel\<close> and \<^verbatim>\<open>LeftChannel\<close> reach
  the lists of the players.\<close>

primrec note_effects :: "addr \<Rightarrow> effect list \<Rightarrow> ChannelWorld \<Rightarrow> ChannelWorld" where
  "note_effects a [] w = w"
| "note_effects a (e # es) w =
     note_effects a es
       (case e of JoinedChannel g \<Rightarrow> JoinedChannel_list g a w | LeftChannel g \<Rightarrow> LeftChannel_list g a w | _ \<Rightarrow> w)"

definition on_channel :: "addr \<Rightarrow> chan_op \<Rightarrow> unit chat" where
  "on_channel a f w =
     (case live w a of
        None \<Rightarrow> Inl (UseAfterFree a)
      | Some c \<Rightarrow>
          (case f c of (es, c') \<Rightarrow> Inr ((), es, note_effects a es (w\<lparr>live := (live w)(a \<mapsto> c')\<rparr>))))"

section \<open>ChannelMgr\<close>

definition ALLIANCE :: u32 where "ALLIANCE = 469"
definition HORDE :: u32 where "HORDE = 67"
definition SMSG_CHANNEL_MEMBER_COUNT :: u32 where "SMSG_CHANNEL_MEMBER_COUNT = 0x6414"

definition forTeam :: "ChatEnv \<Rightarrow> u32 \<Rightarrow> mgr option" where
  "forTeam env team =
     (if two_side_channel (realm env) then Some AllianceChannelMgr
      else if team = ALLIANCE then Some AllianceChannelMgr
      else if team = HORDE then Some HordeChannelMgr
      else None)"

definition setTeam :: "mgr \<Rightarrow> u32 \<Rightarrow> unit chat" where
  "setTeam m newTeam = chat_change (\<lambda>w. w\<lparr>mgr_team := (mgr_team w)(m := newTeam)\<rparr>)"

definition GetJoinChannel :: "ChatEnv \<Rightarrow> mgr \<Rightarrow> str \<Rightarrow> u32 \<Rightarrow> addr chat" where
  "GetJoinChannel env m name channelId =
     chat_bind (naming (channel_key name)) (\<lambda>wname w.
       case channels w m wname of
         Some a \<Rightarrow> Inr (a, [], w)
       | None \<Rightarrow>
           let team = mgr_team w m; a = next_addr w;
               (es, c) = Channel_new name channelId team (map_option entry_flags (chat_channels env channelId))
                 (preserve_custom env) (channel_row env name team)
           in Inr (a, es, w\<lparr>live := (live w)(a \<mapsto> c), next_addr := a + 1,
                            channels := (channels w)(m := (channels w m)(wname \<mapsto> a))\<rparr>))"

definition MakeNotOnPacket :: "str \<Rightarrow> packet" where
  "MakeNotOnPacket name = Packet SMSG_CHANNEL_NOTIFY ([5] @ str_bytes name)"

definition GetChannel :: "mgr \<Rightarrow> str \<Rightarrow> u64 \<Rightarrow> addr option chat" where
  "GetChannel m name who =
     chat_bind (naming (channel_key name)) (\<lambda>wname w.
       case channels w m wname of
         None \<Rightarrow> Inr (None, [SendPacket who (MakeNotOnPacket name)], w)
       | Some a \<Rightarrow> Inr (Some a, [], w))"

definition LeftChannel_mgr :: "mgr \<Rightarrow> str \<Rightarrow> unit chat" where
  "LeftChannel_mgr m name =
     chat_bind (naming (channel_key name)) (\<lambda>wname.
       chat_bind (chat_get (\<lambda>w. channels w m wname)) (\<lambda>r.
         case r of
           None \<Rightarrow> skip
         | Some a \<Rightarrow>
             chat_bind (deref a) (\<lambda>c.
               if GetNumPlayers c = 0 \<and> \<not> IsConstant c
               then chat_change (\<lambda>w. w\<lparr>channels := (channels w)(m := (channels w m)(wname := None)),
                                       live := (live w)(a := None)\<rparr>)
               else skip)))"

section \<open>Player\<close>

definition CHANNEL_DBC_FLAG_ZONE_DEP :: u32 where "CHANNEL_DBC_FLAG_ZONE_DEP = 0x00002"
definition CHANNEL_DBC_FLAG_GLOBAL :: u32 where "CHANNEL_DBC_FLAG_GLOBAL = 0x00004"
definition CHANNEL_DBC_FLAG_CITY_ONLY :: u32 where "CHANNEL_DBC_FLAG_CITY_ONLY = 0x00010"
definition CHANNEL_DBC_FLAG_GUILD_REQ :: u32 where "CHANNEL_DBC_FLAG_GUILD_REQ = 0x20000"
definition AREA_FLAG_SLAVE_CAPITAL :: u32 where "AREA_FLAG_SLAVE_CAPITAL = 0x00000008"
definition AREA_FLAG_ARENA_INSTANCE :: u32 where "AREA_FLAG_ARENA_INSTANCE = 0x00010000"

definition CanJoinConstantChannelInZone :: "ChatEnv \<Rightarrow> Session \<Rightarrow> ChatChannelsEntry \<Rightarrow> AreaTableEntry \<Rightarrow> bool" where
  "CanJoinConstantChannelInZone env s channel zone =
     (if ChannelID channel = 26 \<and> \<not> restricted_lfg_channel (realm env) then True
      else if entry_flags channel AND CHANNEL_DBC_FLAG_ZONE_DEP \<noteq> 0 \<and> area_flags zone AND AREA_FLAG_ARENA_INSTANCE \<noteq> 0
      then False
      else if entry_flags channel AND CHANNEL_DBC_FLAG_CITY_ONLY \<noteq> 0 \<and> \<not> area_flags zone AND AREA_FLAG_SLAVE_CAPITAL \<noteq> 0
      then False
      else if entry_flags channel AND CHANNEL_DBC_FLAG_GUILD_REQ \<noteq> 0 \<and> ses_GuildId s \<noteq> 0
      then False
      else True)"

text \<open>\<^verbatim>\<open>CleanupChannels\<close>, when a player logs out: a loop over the list as it was, since leaving a channel with
  \<^verbatim>\<open>send = false\<close> does not touch the list.\<close>

definition pop_channel :: "u64 \<Rightarrow> ChannelWorld \<Rightarrow> ChannelWorld" where
  "pop_channel g w = w\<lparr>m_channels := (m_channels w)(g := tl (m_channels w g))\<rparr>"

primrec cleanup_list :: "ChatEnv \<Rightarrow> Session \<Rightarrow> addr list \<Rightarrow> unit chat" where
  "cleanup_list env s [] = skip"
| "cleanup_list env s (a # as) =
     chat_then (chat_change (pop_channel (pl_guid (ses_player s))))
       (chat_then (on_channel a (LeaveChannel (realm env) (ses_player s) False))
          (chat_then
             (case forTeam env (pl_team (ses_player s)) of
                None \<Rightarrow> skip
              | Some m \<Rightarrow> chat_bind (deref a) (\<lambda>ch. LeftChannel_mgr m (ch_name ch)))
             (cleanup_list env s as)))"

definition CleanupChannels :: "ChatEnv \<Rightarrow> Session \<Rightarrow> unit chat" where
  "CleanupChannels env s =
     chat_bind (chat_get (\<lambda>w. m_channels w (pl_guid (ses_player s)))) (cleanup_list env s)"

text \<open>\<^verbatim>\<open>UpdateLocalChannels\<close>: the channel among the joined ones that belongs to a row of the data file, the
  name a zone gives to a channel, and one turn of the loop.\<close>

primrec used_channel :: "u32 \<Rightarrow> addr list \<Rightarrow> addr option chat" where
  "used_channel i [] = chat_return None"
| "used_channel i (a # as) =
     chat_bind (deref a) (\<lambda>c. if ch_channelId c = i then chat_return (Some a) else used_channel i as)"

fun format_s :: "str \<Rightarrow> str \<Rightarrow> str" where
  "format_s arg [] = []"
| "format_s arg [c] = [c]"
| "format_s arg (c # d # cs) =
     (if c = 0x25 \<and> d = 0x73 then arg @ format_s arg cs else c # format_s arg (d # cs))"

definition channel_name :: "str \<Rightarrow> str \<Rightarrow> str" where
  "channel_name pat ext = take 99 (format_s ext pat)"

definition swap_channels :: "ChatEnv \<Rightarrow> Session \<Rightarrow> mgr \<Rightarrow> addr option \<Rightarrow> addr option \<Rightarrow> bool \<Rightarrow> unit chat" where
  "swap_channels env s m joinChannel removeChannel sendRemove =
     chat_then
       (case joinChannel of
          None \<Rightarrow> skip
        | Some j \<Rightarrow> on_channel j (JoinChannel (realm env) (ses_player s) []))
       (case removeChannel of
          None \<Rightarrow> skip
        | Some r \<Rightarrow>
            chat_then (on_channel r (LeaveChannel (realm env) (ses_player s) sendRemove))
              (chat_bind (deref r) (\<lambda>c.
                 chat_then (chat_change (LeftChannel_list (pl_guid (ses_player s)) r))
                   (LeftChannel_mgr m (ch_name c)))))"

definition local_channel_row :: "ChatEnv \<Rightarrow> Session \<Rightarrow> mgr \<Rightarrow> AreaTableEntry \<Rightarrow> nat \<Rightarrow> unit chat" where
  "local_channel_row env s m zone i =
     (case chat_channels env (of_nat i) of
        None \<Rightarrow> skip
      | Some channel \<Rightarrow>
          chat_bind (chat_get (\<lambda>w. m_channels w (pl_guid (ses_player s)))) (\<lambda>joined.
          chat_bind (used_channel (of_nat i) joined) (\<lambda>usedChannel.
            if CanJoinConstantChannelInZone env s channel zone
            then if entry_flags channel AND CHANNEL_DBC_FLAG_GLOBAL = 0
                 then if entry_flags channel AND CHANNEL_DBC_FLAG_CITY_ONLY \<noteq> 0 \<and> usedChannel \<noteq> None then skip
                      else
                        let ext = (if entry_flags channel AND CHANNEL_DBC_FLAG_CITY_ONLY \<noteq> 0
                                   then city_text env else area_name zone) in
                        chat_bind (GetJoinChannel env m (channel_name (pattern channel) ext) (ChannelID channel)) (\<lambda>j.
                          case usedChannel of
                            None \<Rightarrow> swap_channels env s m (Some j) None True
                          | Some u \<Rightarrow>
                              if j \<noteq> u then swap_channels env s m (Some j) (Some u) False
                              else swap_channels env s m None None True)
                 else chat_bind (GetJoinChannel env m (pattern channel) (ChannelID channel)) (\<lambda>j.
                        swap_channels env s m (Some j) None True)
            else swap_channels env s m None usedChannel True)))"

primrec chat_seq :: "unit chat list \<Rightarrow> unit chat" where
  "chat_seq [] = skip"
| "chat_seq (f # fs) = chat_then f (chat_seq fs)"

definition UpdateLocalChannels :: "ChatEnv \<Rightarrow> Session \<Rightarrow> u32 \<Rightarrow> unit chat" where
  "UpdateLocalChannels env s newZone =
     (if ses_loading s \<and> \<not> ses_teleported_far s then skip
      else
        case areas env newZone of
          None \<Rightarrow> skip
        | Some zone \<Rightarrow>
            (case forTeam env (pl_team (ses_player s)) of
               None \<Rightarrow> skip
             | Some m \<Rightarrow> chat_seq (map (local_channel_row env s m zone) [0..<num_chat_channels env])))"

primrec leave_lfg :: "ChatEnv \<Rightarrow> Session \<Rightarrow> addr list \<Rightarrow> unit chat" where
  "leave_lfg env s [] = skip"
| "leave_lfg env s (a # as) =
     chat_bind (deref a) (\<lambda>c.
       if Channel_HasFlag CHANNEL_FLAG_LFG c
       then on_channel a (LeaveChannel (realm env) (ses_player s) True)
       else leave_lfg env s as)"

definition LeaveLFGChannel :: "ChatEnv \<Rightarrow> Session \<Rightarrow> unit chat" where
  "LeaveLFGChannel env s =
     chat_bind (chat_get (\<lambda>w. m_channels w (pl_guid (ses_player s)))) (leave_lfg env s)"

section \<open>The handlers\<close>

text \<open>Two strings behind the bits of their lengths; \<open>in_order\<close> says whether the first length belongs to the first
  string. The result has the string of the first length first.\<close>

definition read_names :: "nat \<Rightarrow> nat \<Rightarrow> bool \<Rightarrow> bytebuffer \<Rightarrow> bb_error + str \<times> str" where
  "read_names n1 n2 in_order b =
     bind_res (ReadBits n1 b) (\<lambda>(l1, b1).
     bind_res (ReadBits n2 b1) (\<lambda>(l2, b2).
       if in_order
       then bind_res (ReadString (unat l1) b2) (\<lambda>(s1, b3).
            bind_res (ReadString (unat l2) b3) (\<lambda>(s2, b4). Inr (s1, s2)))
       else bind_res (ReadString (unat l2) b2) (\<lambda>(s2, b3).
            bind_res (ReadString (unat l1) b3) (\<lambda>(s1, b4). Inr (s1, s2)))))"

definition read_name :: "nat \<Rightarrow> bytebuffer \<Rightarrow> bb_error + str" where
  "read_name n b =
     bind_res (ReadBits n b) (\<lambda>(l, b1). bind_res (ReadString (unat l) b1) (\<lambda>(s, b2). Inr s))"

text \<open>The end of most handlers: find the manager and the channel, and call the channel.\<close>

definition call_channel :: "ChatEnv \<Rightarrow> Session \<Rightarrow> str \<Rightarrow> chan_op \<Rightarrow> unit chat" where
  "call_channel env s channelName f =
     (case forTeam env (pl_team (ses_player s)) of
        None \<Rightarrow> skip
      | Some m \<Rightarrow>
          chat_bind (GetChannel m channelName (pl_guid (ses_player s))) (\<lambda>r.
            case r of None \<Rightarrow> skip | Some a \<Rightarrow> on_channel a f))"

definition call_with_target ::
  "ChatEnv \<Rightarrow> Session \<Rightarrow> str \<Rightarrow> str \<Rightarrow> (Realm \<Rightarrow> ChatPlayer \<Rightarrow> str \<Rightarrow> chan_op) \<Rightarrow> unit chat" where
  "call_with_target env s channelName targetName f =
     chat_bind (naming (normalizePlayerName targetName)) (\<lambda>r.
       case r of
         None \<Rightarrow> skip
       | Some name \<Rightarrow> call_channel env s channelName (f (realm env) (ses_player s) name))"

definition HandleJoinChannel :: "ChatEnv \<Rightarrow> Session \<Rightarrow> bytebuffer \<Rightarrow> unit chat" where
  "HandleJoinChannel env s pkt =
     chat_bind (decode (bind_res (read_u32 pkt) (\<lambda>(channelId, b).
        bind_res (ReadBit b) (\<lambda>(unknown1, b1).
        bind_res (ReadBit b1) (\<lambda>(unknown2, b2).
        bind_res (read_names 8 8 True b2) (\<lambda>(channelName, password). Inr (channelId, channelName, password))))))) (\<lambda>(channelId, channelName, password).
       if channelId \<noteq> 0 \<and>
         (case chat_channels env channelId of
            None \<Rightarrow> True
          | Some channel \<Rightarrow>
              (case areas env (ses_ZoneId s) of
                 None \<Rightarrow> True
               | Some zone \<Rightarrow> \<not> CanJoinConstantChannelInZone env s channel zone))
       then skip
       else if channelName = [] then skip
       else
         case forTeam env (pl_team (ses_player s)) of
           None \<Rightarrow> skip
         | Some m \<Rightarrow>
             chat_then (setTeam m (pl_team (ses_player s)))
               (chat_bind (GetJoinChannel env m channelName channelId) (\<lambda>a.
                  on_channel a (JoinChannel (realm env) (ses_player s) password))))"

definition HandleLeaveChannel :: "ChatEnv \<Rightarrow> Session \<Rightarrow> bytebuffer \<Rightarrow> unit chat" where
  "HandleLeaveChannel env s pkt =
     chat_bind (decode (bind_res (read_u32 pkt) (\<lambda>(unk, b). read_name 8 b))) (\<lambda>channelName.
       if channelName = [] then skip
       else
         case forTeam env (pl_team (ses_player s)) of
           None \<Rightarrow> skip
         | Some m \<Rightarrow>
             chat_then
               (chat_bind (GetChannel m channelName (pl_guid (ses_player s))) (\<lambda>r.
                  case r of None \<Rightarrow> skip | Some a \<Rightarrow> on_channel a (LeaveChannel (realm env) (ses_player s) True)))
               (LeftChannel_mgr m channelName))"

definition HandleChannelList :: "ChatEnv \<Rightarrow> Session \<Rightarrow> bytebuffer \<Rightarrow> unit chat" where
  "HandleChannelList env s pkt =
     chat_bind (decode (read_name 8 pkt)) (\<lambda>channelName.
       call_channel env s channelName (List (realm env) (ses_player s)))"

definition HandleChannelPassword :: "ChatEnv \<Rightarrow> Session \<Rightarrow> bytebuffer \<Rightarrow> unit chat" where
  "HandleChannelPassword env s pkt =
     chat_bind (decode (read_names 8 7 True pkt)) (\<lambda>(channelName, password).
       call_channel env s channelName (Password (realm env) (ses_player s) password))"

definition HandleChannelSetOwner :: "ChatEnv \<Rightarrow> Session \<Rightarrow> bytebuffer \<Rightarrow> unit chat" where
  "HandleChannelSetOwner env s pkt =
     chat_bind (decode (read_names 8 7 False pkt)) (\<lambda>(channelName, targetName).
       call_with_target env s channelName targetName SetOwner)"

definition HandleChannelOwner :: "ChatEnv \<Rightarrow> Session \<Rightarrow> bytebuffer \<Rightarrow> unit chat" where
  "HandleChannelOwner env s pkt =
     chat_bind (decode (read_name 8 pkt)) (\<lambda>channelName.
       call_channel env s channelName (SendWhoOwner (realm env) (pl_guid (ses_player s))))"

definition HandleChannelModerator :: "ChatEnv \<Rightarrow> Session \<Rightarrow> bytebuffer \<Rightarrow> unit chat" where
  "HandleChannelModerator env s pkt =
     chat_bind (decode (read_names 8 7 False pkt)) (\<lambda>(channelName, targetName).
       call_with_target env s channelName targetName (\<lambda>rl p n. SetMode rl p n True True))"

definition HandleChannelUnmoderator :: "ChatEnv \<Rightarrow> Session \<Rightarrow> bytebuffer \<Rightarrow> unit chat" where
  "HandleChannelUnmoderator env s pkt =
     chat_bind (decode (read_names 7 8 False pkt)) (\<lambda>(targetName, channelName).
       call_with_target env s channelName targetName (\<lambda>rl p n. SetMode rl p n True False))"

definition HandleChannelMute :: "ChatEnv \<Rightarrow> Session \<Rightarrow> bytebuffer \<Rightarrow> unit chat" where
  "HandleChannelMute env s pkt =
     chat_bind (decode (read_names 8 7 True pkt)) (\<lambda>(channelName, targetName).
       call_with_target env s channelName targetName (\<lambda>rl p n. SetMode rl p n False True))"

definition HandleChannelUnmute :: "ChatEnv \<Rightarrow> Session \<Rightarrow> bytebuffer \<Rightarrow> unit chat" where
  "HandleChannelUnmute env s pkt =
     chat_bind (decode (read_names 8 7 True pkt)) (\<lambda>(targetName, channelName).
       call_with_target env s channelName targetName (\<lambda>rl p n. SetMode rl p n False False))"

definition HandleChannelInvite :: "ChatEnv \<Rightarrow> Session \<Rightarrow> bytebuffer \<Rightarrow> unit chat" where
  "HandleChannelInvite env s pkt =
     chat_bind (decode (read_names 7 8 True pkt)) (\<lambda>(targetName, channelName).
       call_with_target env s channelName targetName Invite)"

definition HandleChannelKick :: "ChatEnv \<Rightarrow> Session \<Rightarrow> bytebuffer \<Rightarrow> unit chat" where
  "HandleChannelKick env s pkt =
     chat_bind (decode (read_names 8 7 True pkt)) (\<lambda>(channelName, targetName).
       call_with_target env s channelName targetName (\<lambda>rl p n. KickOrBan rl p n False))"

definition HandleChannelBan :: "ChatEnv \<Rightarrow> Session \<Rightarrow> bytebuffer \<Rightarrow> unit chat" where
  "HandleChannelBan env s pkt =
     chat_bind (decode (read_names 8 7 False pkt)) (\<lambda>(channelName, targetName).
       call_with_target env s channelName targetName (\<lambda>rl p n. KickOrBan rl p n True))"

definition HandleChannelUnban :: "ChatEnv \<Rightarrow> Session \<Rightarrow> bytebuffer \<Rightarrow> unit chat" where
  "HandleChannelUnban env s pkt =
     chat_bind (decode (read_names 7 8 False pkt)) (\<lambda>(channelName, targetName).
       call_with_target env s channelName targetName UnBan)"

definition HandleChannelAnnouncements :: "ChatEnv \<Rightarrow> Session \<Rightarrow> bytebuffer \<Rightarrow> unit chat" where
  "HandleChannelAnnouncements env s pkt =
     chat_bind (decode (read_name 8 pkt)) (\<lambda>channelName.
       call_channel env s channelName (Announce (realm env) (ses_player s)))"

definition HandleChannelDisplayListQuery :: "ChatEnv \<Rightarrow> Session \<Rightarrow> bytebuffer \<Rightarrow> unit chat" where
  "HandleChannelDisplayListQuery = HandleChannelList"

definition HandleChannelVoiceOnOpcode :: "ChatEnv \<Rightarrow> Session \<Rightarrow> bytebuffer \<Rightarrow> unit chat" where
  "HandleChannelVoiceOnOpcode env s pkt = chat_bind (decode (read_name 8 pkt)) (\<lambda>_. skip)"

definition MemberCount :: "u64 \<Rightarrow> chan_op" where
  "MemberCount guid c =
     ([SendPacket guid (Packet SMSG_CHANNEL_MEMBER_COUNT
         (str_bytes (ch_name c) @ [ch_flags c] @ le_bytes 4 (GetNumPlayers c)))], c)"

definition HandleGetChannelMemberCount :: "ChatEnv \<Rightarrow> Session \<Rightarrow> bytebuffer \<Rightarrow> unit chat" where
  "HandleGetChannelMemberCount env s pkt =
     chat_bind (decode (read_string pkt)) (\<lambda>(channelName, b).
       call_channel env s channelName (MemberCount (pl_guid (ses_player s))))"

definition HandleSetChannelWatch :: "ChatEnv \<Rightarrow> Session \<Rightarrow> bytebuffer \<Rightarrow> unit chat" where
  "HandleSetChannelWatch env s pkt = chat_bind (decode (read_string pkt)) (\<lambda>_. skip)"

text \<open>The rows of the opcode table for channels; the row of \<^verbatim>\<open>HandleGetChannelMemberCount\<close> is commented out.\<close>

definition channel_handlers :: "(u32 \<times> (ChatEnv \<Rightarrow> Session \<Rightarrow> bytebuffer \<Rightarrow> unit chat)) list" where
  "channel_handlers =
     [(0x1146, HandleChannelAnnouncements),
      (0x3D56, HandleChannelBan),
      (0x2144, HandleChannelDisplayListQuery),
      (0x0144, HandleChannelInvite),
      (0x3156, HandleChannelKick),
      (0x1556, HandleChannelList),
      (0x0146, HandleChannelModerator),
      (0x2554, HandleChannelMute),
      (0x3D44, HandleChannelOwner),
      (0x2556, HandleChannelPassword),
      (0x3556, HandleChannelSetOwner),
      (0x2D46, HandleChannelUnban),
      (0x1954, HandleChannelUnmoderator),
      (0x3554, HandleChannelUnmute),
      (0x3144, HandleChannelVoiceOnOpcode),
      (0x1144, HandleChannelVoiceOnOpcode),
      (0x0156, HandleJoinChannel),
      (0x2D56, HandleLeaveChannel),
      (0x4517, HandleSetChannelWatch)]"

text \<open>The end of \<^verbatim>\<open>HandleMessagechatOpcode\<close> for a message to a channel, once the text is accepted; a player whose
  level is too low gets a notice from the session instead.\<close>

definition message_to_channel :: "ChatEnv \<Rightarrow> Session \<Rightarrow> bool \<Rightarrow> str \<Rightarrow> str \<Rightarrow> u32 \<Rightarrow> unit chat" where
  "message_to_channel env s level_ok channelName msg lang =
     (if IsPlayerAccount (pl_security (ses_player s)) \<and> \<not> level_ok then skip
      else call_channel env s channelName (Say (realm env) (pl_guid (ses_player s)) msg lang))"

end
