(* ===== verification/ChannelProps.thy ===== *)
theory ChannelProps
  imports Channel
begin

text \<open>
  Properties of chat channels: the invariant of the member map under every sequence of requests, who may
  change a channel, who hears a message, and what goes wrong when the owner bans himself.
\<close>

section \<open>The invariant\<close>

text \<open>A member's entry carries its own identifier, only the owner has the owner flag, and no banned player
  is a member.\<close>

definition entry_ok :: "u64 \<Rightarrow> u64 set \<Rightarrow> u64 \<Rightarrow> PlayerInfo \<Rightarrow> bool" where
  "entry_ok own bans k i \<longleftrightarrow> player i = k \<and> k \<noteq> 0 \<and> (IsOwner i \<longrightarrow> k = own) \<and> k \<notin> bans"

definition chan_inv :: "Channel \<Rightarrow> bool" where
  "chan_inv c \<longleftrightarrow> std_map.entries_ok (entry_ok (ch_ownerGUID c) (bannedStore c)) (playersStore c)"

lemma snd_block:
  "snd (block [] c) = c" "snd (block (f # fs) c) = snd (block fs (snd (f c)))"
  "snd (block (fs @ gs) c) = snd (block gs (snd (block fs c)))"
  by (simp_all add: block.simps case_prod_unfold, induction fs arbitrary: c)
    (simp_all add: block.simps case_prod_unfold)

lemma quiet [simp]:
  "snd (emit f c) = c" "snd (say_one rl mk who c) = c" "snd (say_all rl mk c) = c"
  "snd (UpdateChannelInDB c) = c" "snd (UpdateChannelUseageInDB c) = c" "snd (JoinNotify rl g c) = c"
  "snd (LeaveNotify rl g c) = c" "snd (change h c) = h c"
  by (simp_all add: emit_def say_one_def say_all_def UpdateChannelInDB_def UpdateChannelUseageInDB_def
      JoinNotify_def LeaveNotify_def change_def)

lemma bit_0_1: "(w :: u8) AND 1 \<noteq> 0 \<longleftrightarrow> bit w 0" "w AND 2 \<noteq> 0 \<longleftrightarrow> bit w 1" "w AND 8 \<noteq> 0 \<longleftrightarrow> bit w 3"
  using and_exp_eq_0_iff_not_bit [of w 0] and_exp_eq_0_iff_not_bit [of w 1]
    and_exp_eq_0_iff_not_bit [of w 3] by simp_all

lemma flag_bits8:
  "bit (1 :: u8) n \<longleftrightarrow> n = 0" "bit (2 :: u8) n \<longleftrightarrow> n = 1" "bit (8 :: u8) n \<longleftrightarrow> n = 3"
  using bit_exp_iff [of 1 n, where ?'a = "8 word"] bit_exp_iff [of 3 n, where ?'a = "8 word"]
  by (auto simp: possible_bit_word bit_1_iff)

lemma info_flags [simp]:
  "player (info_SetOwner s i) = player i" "player (info_SetModerator s i) = player i"
  "player (info_SetMuted s i) = player i" "IsOwner (info_SetOwner s i) = s"
  "IsOwner (info_SetModerator s i) = IsOwner i" "IsOwner (info_SetMuted s i) = IsOwner i"
  "IsModerator (info_SetModerator s i) = s" "IsModerator (info_SetOwner s i) = IsModerator i"
  by (simp_all add: info_SetOwner_def info_SetModerator_def info_SetMuted_def IsOwner_def IsModerator_def
      MEMBER_FLAG_OWNER_def MEMBER_FLAG_MODERATOR_def MEMBER_FLAG_MUTED_def bit_0_1 bit_or_iff bit_and_iff
      bit_not_iff_eq flag_bits8 del: not_False_eq_True)

lemma store_modify_simps [simp]:
  "ch_ownerGUID (store_modify k f c) = ch_ownerGUID c" "bannedStore (store_modify k f c) = bannedStore c"
  "ch_ownership (store_modify k f c) = ch_ownership c"
  "map_of (playersStore (store_modify k f c)) = (map_of (playersStore c))(k \<mapsto> f (member k c))"
  by (simp_all add: store_modify_def std_map.find_put member_def)

lemma IsOn_member: "IsOn k c \<longleftrightarrow> map_of (playersStore c) k = Some (member k c)"
  by (auto simp: IsOn_def member_def store_at_def)

lemma inv_modify:
  assumes "chan_inv c" and "IsOn k c"
    and "player (f (member k c)) = player (member k c)" and "IsOwner (f (member k c)) \<Longrightarrow> IsOwner (member k c)"
  shows "chan_inv (store_modify k f c)"
proof -
  have "entry_ok (ch_ownerGUID c) (bannedStore c) k (member k c)"
    using assms(1,2) by (auto simp: chan_inv_def std_map.entries_ok_def IsOn_member)
  then have "entry_ok (ch_ownerGUID c) (bannedStore c) k (f (member k c))"
    using assms(3,4) by (auto simp: entry_ok_def)
  with assms(1) show ?thesis
    by (simp add: chan_inv_def store_modify_def member_def std_map.entries_ok_put)
qed

section \<open>The requests keep the invariant\<close>

lemma inv_entry:
  "chan_inv c \<Longrightarrow> IsOn k c \<Longrightarrow> entry_ok (ch_ownerGUID c) (bannedStore c) k (member k c)"
  by (auto simp: chan_inv_def std_map.entries_ok_def IsOn_member)

lemma IsOn_modify [simp]: "IsOn k (store_modify j f c) \<longleftrightarrow> k = j \<or> IsOn k c"
  by (simp add: IsOn_def)

lemma member_modify [simp]: "member k (store_modify j f c) = (if k = j then f (member j c) else member k c)"
  by (simp add: member_def store_at_def store_modify_def std_map.find_put)

text \<open>With the old owner's flag cleared any member can become the owner.\<close>

lemma inv_SetOwner_guid:
  assumes "chan_inv c" and "IsOn guid c"
  shows "chan_inv (snd (SetOwner_guid rl guid ex c))"
proof -
  let ?old = "ch_ownerGUID c"
  let ?c = "if ?old \<noteq> 0 \<and> IsOn ?old c then store_modify ?old (info_SetOwner False) c else c"
  have c: "chan_inv ?c" "IsOn guid ?c" "ch_ownerGUID ?c = ?old" "bannedStore ?c = bannedStore c"
    using assms by (auto intro: inv_modify)
  have no_owner: "\<not> IsOwner i" if "map_of (playersStore ?c) k = Some i" for k i
  proof -
    have "IsOn k ?c" "i = member k ?c" using that by (auto simp: IsOn_def member_def store_at_def)
    moreover have "entry_ok ?old (bannedStore c) k (member k ?c)"
      using inv_entry [OF c(1) calculation(1)] c(3,4) by simp
    moreover have "k = ?old \<Longrightarrow> \<not> IsOwner (member k ?c)"
      using calculation by (cases "?old \<noteq> 0 \<and> IsOn ?old c") (auto simp: entry_ok_def)
    ultimately show ?thesis unfolding entry_ok_def by blast
  qed
  let ?c1 = "?c\<lparr>ch_ownerGUID := guid\<rparr>"
  have "chan_inv ?c1"
    using c(1) no_owner by (auto simp: chan_inv_def entry_ok_def intro: std_map.entries_ok_mono)
  then have "chan_inv (store_modify guid (info_SetModerator True) ?c1)" "guid \<noteq> 0"
    using c(2) inv_entry [OF assms] by (auto intro!: inv_modify simp: IsOn_def entry_ok_def)
  moreover have "chan_inv (store_modify guid (info_SetOwner True) d)"
    if "chan_inv d" "IsOn guid d" "ch_ownerGUID d = guid" for d
    using that inv_entry [OF that(1,2)]
    by (auto simp: chan_inv_def store_modify_def member_def entry_ok_def intro!: std_map.entries_ok_put)
  ultimately show ?thesis
    by (simp add: SetOwner_guid_def Let_def snd_block)
qed

lemma IsOn_SetOwner_guid: "IsOn k c \<Longrightarrow> IsOn k (snd (SetOwner_guid rl guid ex c))"
proof -
  have same: "IsOn k (d\<lparr>ch_ownerGUID := g\<rparr>) \<longleftrightarrow> IsOn k d" for d g by (simp add: IsOn_def)
  assume "IsOn k c"
  then show ?thesis by (simp add: SetOwner_guid_def Let_def snd_block same)
qed

lemma inv_promote:
  assumes "chan_inv c" and "IsOn guid c"
  shows "chan_inv (snd (block [change (store_modify guid (info_SetModerator True)), SetOwner_guid rl guid ex] c))"
  using assms by (auto simp: snd_block intro!: inv_SetOwner_guid inv_modify)

lemma inv_erase:
  "chan_inv c \<Longrightarrow> chan_inv (c\<lparr>playersStore := store_erase k (playersStore c)\<rparr>)"
  by (simp add: chan_inv_def std_map.entries_ok_erase)

lemma IsOn_erase [simp]:
  "IsOn k (c\<lparr>playersStore := store_erase j (playersStore c)\<rparr>) \<longleftrightarrow> k \<noteq> j \<and> IsOn k c"
  by (simp add: IsOn_def std_map.find_erase)

lemma inv_ban_erase:
  "chan_inv c \<Longrightarrow>
     chan_inv (c\<lparr>bannedStore := insert k (bannedStore c), playersStore := store_erase k (playersStore c)\<rparr>)"
  unfolding chan_inv_def by (auto simp: entry_ok_def intro!: std_map.entries_ok_erase_new)

lemma inv_JoinChannel:
  assumes "chan_inv c" and "pl_guid p \<noteq> 0"
  shows "chan_inv (snd (JoinChannel rl p pass c))"
proof -
  let ?g = "pl_guid p"
  let ?new = "\<lambda>c. c\<lparr>playersStore := store_put ?g \<lparr>player = ?g, flags = MEMBER_FLAG_NONE\<rparr> (playersStore c)\<rparr>"
  have put: "chan_inv (?new c)" if "\<not> IsBanned ?g c"
    using assms that
    by (auto simp: chan_inv_def entry_ok_def IsOwner_def MEMBER_FLAG_NONE_def IsBanned_def
        intro!: std_map.entries_ok_put)
  have on: "IsOn ?g (?new c)" by (simp add: IsOn_def std_map.find_put)
  have "chan_inv (store_modify ?g (info_SetModerator True) (snd (SetOwner_guid rl ?g b (?new c))))"
    if "\<not> IsBanned ?g c" for b
    by (rule inv_modify) (simp_all add: inv_SetOwner_guid put that on IsOn_SetOwner_guid)
  with assms put show ?thesis
    by (auto simp: JoinChannel_def Let_def snd_block)
qed

lemma inv_head:
  assumes "chan_inv c" and "playersStore c \<noteq> []"
  shows "IsOn (player (snd (hd (playersStore c)))) c"
proof -
  obtain k i xs where s: "playersStore c = (k, i) # xs"
    using assms(2) by (cases "playersStore c") auto
  with assms(1) have "player i = k" by (auto simp: chan_inv_def std_map.entries_ok_def entry_ok_def)
  with s show ?thesis by (simp add: IsOn_def)
qed

lemma inv_LeaveChannel:
  assumes "chan_inv c"
  shows "chan_inv (snd (LeaveChannel rl p send c))"
proof -
  let ?c = "c\<lparr>playersStore := store_erase (pl_guid p) (playersStore c)\<rparr>"
  have "chan_inv ?c" by (rule inv_erase [OF assms])
  with assms inv_promote [OF this inv_head [OF this], of rl True] show ?thesis
    by (auto simp: LeaveChannel_def Let_def snd_block)
qed

lemma inv_as_moderator:
  "chan_inv c \<Longrightarrow> (IsOn (pl_guid p) c \<Longrightarrow> chan_inv (snd (f c))) \<Longrightarrow> chan_inv (snd (as_moderator rl p f c))"
  by (simp add: as_moderator_def Let_def)

text \<open>The player found by a name; a kick or ban of the player himself is the one request that breaks the
  invariant (see below).\<close>

definition names_self :: "Realm \<Rightarrow> ChatPlayer \<Rightarrow> str \<Rightarrow> bool" where
  "names_self rl p name \<longleftrightarrow> (\<exists>q. FindPlayerByName rl name = Some q \<and> pl_guid q = pl_guid p)"

lemma inv_expel:
  assumes "chan_inv c" and "IsOn (pl_guid p) c" and "pl_guid p \<noteq> v"
  shows "chan_inv (snd (expel rl p v ban c))"
proof -
  let ?k = "c\<lparr>playersStore := store_erase v (playersStore c)\<rparr>"
  let ?b = "c\<lparr>bannedStore := insert v (bannedStore c), playersStore := store_erase v (playersStore c)\<rparr>"
  have k: "chan_inv ?k" "IsOn (pl_guid p) ?k" using assms by (simp_all add: inv_erase)
  have b: "chan_inv ?b" "IsOn (pl_guid p) ?b"
    using inv_ban_erase [OF assms(1)] assms(2,3) by (simp_all add: IsOn_def std_map.find_erase)
  from k(1) b(1) inv_promote [OF k, of rl True] inv_promote [OF b, of rl True] show ?thesis
    by (auto simp: expel_def Let_def snd_block)
qed

lemma inv_KickOrBan:
  assumes "chan_inv c" and "\<not> names_self rl p badname"
  shows "chan_inv (snd (KickOrBan rl p badname ban c))"
  unfolding KickOrBan_def
  by (rule inv_as_moderator [OF assms(1)])
    (use assms in \<open>auto simp: Let_def names_self_def split: option.splits intro!: inv_expel\<close>)

lemma inv_UnBan: "chan_inv c \<Longrightarrow> chan_inv (snd (UnBan rl p badname c))"
  unfolding UnBan_def
  by (rule inv_as_moderator)
    (auto simp: Let_def snd_block chan_inv_def entry_ok_def intro: std_map.entries_ok_mono)

lemma inv_Password: "chan_inv c \<Longrightarrow> chan_inv (snd (Password rl p pass c))"
  unfolding Password_def by (rule inv_as_moderator) (simp_all add: snd_block chan_inv_def)

lemma inv_Announce: "chan_inv c \<Longrightarrow> chan_inv (snd (Announce rl p c))"
  unfolding Announce_def by (rule inv_as_moderator) (simp_all add: snd_block chan_inv_def)

lemma inv_SetMode: "chan_inv c \<Longrightarrow> chan_inv (snd (SetMode rl p name md on c))"
  unfolding SetMode_def
  by (rule inv_as_moderator)
    (auto simp: Let_def SetModerator_guid_def SetMute_guid_def snd_block split: option.splits
      intro!: inv_modify)

lemma inv_SetOwner: "chan_inv c \<Longrightarrow> chan_inv (snd (SetOwner rl p name c))"
  by (auto simp: SetOwner_def Let_def split: option.splits intro!: inv_promote)

lemma quiet_requests [simp]:
  "snd (SendWhoOwner rl guid c) = c" "snd (List rl p c) = c" "snd (Say rl guid what lang c) = c"
  "snd (Invite rl p name c) = c"
  by (simp_all add: SendWhoOwner_def List_def Say_def Invite_def Let_def snd_block split: option.splits)

section \<open>Sequences of requests\<close>

text \<open>A request of a player, with the realm as it is at that moment.\<close>

datatype request =
    Join ChatPlayer str
  | Leave ChatPlayer bool
  | Expel ChatPlayer str bool
  | Unban ChatPlayer str
  | ChangePassword ChatPlayer str
  | ChangeMode ChatPlayer str bool bool
  | ChangeOwner ChatPlayer str
  | AskOwner u64
  | AskList ChatPlayer
  | ToggleAnnounce ChatPlayer
  | Speak u64 str u32
  | InviteTo ChatPlayer str

primrec handle :: "Realm \<Rightarrow> request \<Rightarrow> chan_op" where
  "handle rl (Join p pass) = JoinChannel rl p pass"
| "handle rl (Leave p send) = LeaveChannel rl p send"
| "handle rl (Expel p name ban) = KickOrBan rl p name ban"
| "handle rl (Unban p name) = UnBan rl p name"
| "handle rl (ChangePassword p pass) = Password rl p pass"
| "handle rl (ChangeMode p name md on) = SetMode rl p name md on"
| "handle rl (ChangeOwner p name) = SetOwner rl p name"
| "handle rl (AskOwner guid) = SendWhoOwner rl guid"
| "handle rl (AskList p) = List rl p"
| "handle rl (ToggleAnnounce p) = Announce rl p"
| "handle rl (Speak guid what lang) = Say rl guid what lang"
| "handle rl (InviteTo p name) = Invite rl p name"

definition after_request :: "Realm \<times> request \<Rightarrow> Channel \<Rightarrow> Channel" where
  "after_request r c = snd (handle (fst r) (snd r) c)"

text \<open>Players have an identifier, and nobody expels himself.\<close>

definition sound_request :: "Realm \<times> request \<Rightarrow> bool" where
  "sound_request r =
     (case snd r of
        Join p pass \<Rightarrow> pl_guid p \<noteq> 0
      | Expel p name ban \<Rightarrow> \<not> names_self (fst r) p name
      | _ \<Rightarrow> True)"

interpretation channel: guarded_machine after_request chan_inv sound_request
proof
  fix c r
  assume inv: "chan_inv c" and ok: "sound_request r"
  show "chan_inv (after_request r c)"
    using inv ok inv_JoinChannel inv_LeaveChannel inv_KickOrBan inv_UnBan inv_Password inv_SetMode
      inv_SetOwner inv_Announce
    by (cases "snd r") (simp_all add: after_request_def sound_request_def)
qed

lemma inv_new: "chan_inv (snd (Channel_new name cid team dbc preserve row))"
  by (auto simp: Channel_new_def Let_def chan_inv_def std_map.entries_ok_def ordered_store_def
      split: option.splits)

text \<open>C23: whatever requests the players make of a new channel, except that nobody kicks or bans himself, no
  banned player is a member, every entry of the member map carries the identifier it is filed under, the
  map stays in order, and a member with the owner flag is the owner of the channel.\<close>

theorem channel_members_invariant:
  assumes "list_all sound_request rs"
    and "c = exec_ops after_request rs (snd (Channel_new name cid team dbc preserve row))"
  shows "sorted_wrt (<) (map fst (playersStore c)) \<and>
    (\<forall>(k, i) \<in> set (playersStore c). player i = k \<and> k \<notin> bannedStore c \<and> (IsOwner i \<longrightarrow> k = ch_ownerGUID c))"
proof -
  have "chan_inv c"
    unfolding assms(2) by (rule channel.run_allowed [OF inv_new assms(1)])
  then have o: "ordered_store (playersStore c)"
    and e: "\<And>k i. map_of (playersStore c) k = Some i \<Longrightarrow> entry_ok (ch_ownerGUID c) (bannedStore c) k i"
    by (auto simp: chan_inv_def std_map.entries_ok_def)
  from o have "distinct (map fst (playersStore c))"
    by (auto simp: ordered_store_def strict_sorted_iff)
  with o e show ?thesis
    by (auto simp: ordered_store_def entry_ok_def)
qed

text \<open>Two players, the second of whom is banned by the first and tries to come back.\<close>

definition sample_ann :: ChatPlayer where
  "sample_ann = \<lparr>pl_guid = 1, pl_security = 0, pl_team = 469, pl_name = [65, 110, 110],
     pl_inGroup = False, pl_isGMVisible = True, pl_chatTag = 0\<rparr>"

definition sample_bob :: ChatPlayer where
  "sample_bob = \<lparr>pl_guid = 2, pl_security = 0, pl_team = 469, pl_name = [66, 111, 98],
     pl_inGroup = False, pl_isGMVisible = True, pl_chatTag = 0\<rparr>"

definition sample_realm :: Realm where
  "sample_realm =
     \<lparr>FindPlayer = (\<lambda>g. if g = 1 then Some sample_ann else if g = 2 then Some sample_bob else None),
      FindPlayerByName = (\<lambda>n. if n = [65, 110, 110] then Some sample_ann
        else if n = [66, 111, 98] then Some sample_bob else None),
      HasIgnore = (\<lambda>_ _. False), IsVisibleGloballyFor = (\<lambda>_ _. True), GetPlayerNameByGUID = (\<lambda>_. None),
      silently_gm_join = False, restricted_lfg_channel = False, two_side_channel = False,
      gm_level_in_who_list = 3\<rparr>"

definition sample_requests :: "(Realm \<times> request) list" where
  "sample_requests =
     map (Pair sample_realm)
       [Join sample_bob [], Join sample_ann [], ChangeOwner sample_bob [65, 110, 110],
        Expel sample_ann [66, 111, 98] True, Join sample_bob []]"

definition sample_channel :: Channel where
  "sample_channel = exec_ops after_request sample_requests (snd (Channel_new [88] 0 469 None False None))"

lemma sample_channel_members:
  "playersStore sample_channel = [(1, \<lparr>player = 1, flags = 3\<rparr>)]" "bannedStore sample_channel = {2}"
  by code_simp+

theorem channel_members_invariant_witness:
  "list_all sound_request sample_requests \<and> playersStore sample_channel = [(1, \<lparr>player = 1, flags = 3\<rparr>)] \<and>
   bannedStore sample_channel = {2} \<and> sorted_wrt (<) (map fst (playersStore sample_channel)) \<and>
   ch_ownerGUID sample_channel = 1"
proof -
  have "list_all sound_request sample_requests"
    by (simp add: sample_requests_def sound_request_def names_self_def sample_realm_def sample_ann_def
        sample_bob_def)
  with channel_members_invariant [OF this sample_channel_def] sample_channel_members show ?thesis
    by (simp add: IsOwner_def MEMBER_FLAG_OWNER_def)
qed

section \<open>Who may change a channel\<close>

text \<open>The requests that are reserved.\<close>

fun reserved :: "request \<Rightarrow> ChatPlayer option" where
  "reserved (Expel p name ban) = Some p"
| "reserved (Unban p name) = Some p"
| "reserved (ChangePassword p pass) = Some p"
| "reserved (ChangeMode p name md on) = Some p"
| "reserved (ChangeOwner p name) = Some p"
| "reserved (ToggleAnnounce p) = Some p"
| "reserved _ = None"

fun refusal :: "request \<Rightarrow> Channel \<Rightarrow> packet" where
  "refusal (ChangeOwner p name) = MakeNotOwner"
| "refusal _ = MakeNotModerator"

text \<open>C24: a player who is neither moderator nor owner of a channel nor a game master cannot kick, ban or unban
  anyone, set the password, a mode, the owner or the announcements: the channel stays as it is and the one
  effect is the refusal sent to the player (that he is no member, no moderator or not the owner).\<close>

theorem unprivileged_requests_refused:
  assumes "reserved r = Some p" and "\<not> IsModerator (member (pl_guid p) c)"
    and "\<not> IsGMAccount (pl_security p)" and "pl_guid p \<noteq> ch_ownerGUID c"
  shows "handle rl r c =
    (SendToOne rl (if IsOn (pl_guid p) c then refusal r c else MakeNotMember c) (pl_guid p), c)"
  using assms
  by (cases r) (simp_all add: KickOrBan_def UnBan_def Password_def SetMode_def SetOwner_def Announce_def
      as_moderator_def Let_def say_one_def emit_def)

theorem unprivileged_requests_refused_witness:
  "reserved (Expel sample_bob [65, 110, 110] True) = Some sample_bob \<and>
   handle sample_realm (Expel sample_bob [65, 110, 110] True) sample_channel =
     (SendToOne sample_realm (MakeNotMember sample_channel) 2, sample_channel)"
proof -
  have "\<not> IsModerator (member (pl_guid sample_bob) sample_channel)" "\<not> IsGMAccount (pl_security sample_bob)"
    "pl_guid sample_bob \<noteq> ch_ownerGUID sample_channel" "\<not> IsOn (pl_guid sample_bob) sample_channel"
    "pl_guid sample_bob = 2"
    by code_simp+
  then show ?thesis
    using unprivileged_requests_refused [of "Expel sample_bob [65, 110, 110] True" sample_bob sample_channel
        sample_realm] by simp
qed

section \<open>Messages\<close>

text \<open>A message reaches exactly the members who are online and do not ignore the speaker (a moderator is
  never ignored), in the order of the member map, and changes nothing; a muted member only gets a notice.\<close>

lemma Say_reaches:
  assumes "what \<noteq> []" and "IsOn guid c"
  shows "IsMuted (member guid c) \<Longrightarrow> Say rl guid what lang c = (SendToOne rl (MakeMuted c) guid, c)"
    and "\<not> IsMuted (member guid c) \<Longrightarrow> \<exists>data. opcode data = SMSG_MESSAGECHAT \<and> Say rl guid what lang c =
      (concat (map (\<lambda>(k, i). case FindPlayer rl k of
          None \<Rightarrow> []
        | Some p \<Rightarrow>
            if IsModerator (member guid c) \<or> guid = 0 \<or> \<not> HasIgnore rl (pl_guid p) (GUID_LOPART guid)
            then [SendPacket (pl_guid p) data] else []) (playersStore c)), c)"
proof -
  show "IsMuted (member guid c) \<Longrightarrow> Say rl guid what lang c = (SendToOne rl (MakeMuted c) guid, c)"
    using assms by (simp add: Say_def Let_def say_one_def emit_def)
  assume "\<not> IsMuted (member guid c)"
  then obtain bs where "Say rl guid what lang c = (SendToAll rl (Packet SMSG_MESSAGECHAT bs)
      (if \<not> IsModerator (member guid c) then guid else 0) c, c)"
    using assms by (simp add: Say_def Let_def)
  then show "\<exists>data. opcode data = SMSG_MESSAGECHAT \<and> Say rl guid what lang c =
      (concat (map (\<lambda>(k, i). case FindPlayer rl k of
          None \<Rightarrow> []
        | Some p \<Rightarrow>
            if IsModerator (member guid c) \<or> guid = 0 \<or> \<not> HasIgnore rl (pl_guid p) (GUID_LOPART guid)
            then [SendPacket (pl_guid p) data] else []) (playersStore c)), c)"
    by (intro exI [of _ "Packet SMSG_MESSAGECHAT bs"], cases "IsModerator (member guid c)")
      (simp_all add: SendToAll_def cong: option.case_cong)
qed

section \<open>The owner who expels himself\<close>

text \<open>The owner of a channel who bans himself while others are on it is put back as its owner: he is banned
  and a member at the same time, and his entry carries the identifier 0.\<close>

lemma owner_bans_himself:
  assumes "IsOn (pl_guid p) c" and "ch_ownerGUID c = pl_guid p" and "pl_guid p \<noteq> 0" and "ch_ownership c"
    and "\<exists>k. k \<noteq> pl_guid p \<and> IsOn k c" and "IsModerator (member (pl_guid p) c)"
    and "names_self rl p name"
  shows "let c' = snd (KickOrBan rl p name True c) in
    IsOn (pl_guid p) c' \<and> IsBanned (pl_guid p) c' \<and> player (member (pl_guid p) c') = 0 \<and>
    ch_ownerGUID c' = pl_guid p"
proof -
  let ?g = "pl_guid p"
  let ?b = "c\<lparr>bannedStore := insert ?g (bannedStore c), playersStore := store_erase ?g (playersStore c)\<rparr>"
  obtain q where q: "FindPlayerByName rl name = Some q" "pl_guid q = ?g"
    using assms(7) by (auto simp: names_self_def)
  have ne: "store_erase ?g (playersStore c) \<noteq> []"
  proof
    assume "store_erase ?g (playersStore c) = []"
    then have "map_of (store_erase ?g (playersStore c)) = (\<lambda>_. None)" by (simp add: fun_eq_iff)
    with assms(5) show False by (auto simp: std_map.find_erase IsOn_def fun_eq_iff split: if_splits)
  qed
  have "KickOrBan rl p name True c = expel rl p ?g True c"
    using assms(1-3,6) q by (simp add: KickOrBan_def as_moderator_def Let_def)
  moreover have "snd (expel rl p ?g True c) =
      snd (SetOwner_guid rl ?g True (store_modify ?g (info_SetModerator True)
        (c\<lparr>bannedStore := insert ?g (bannedStore c), playersStore := store_erase ?g (playersStore c)\<rparr>)))"
    using assms(2,4) ne by (auto simp: expel_def Let_def snd_block IsBanned_def insert_absorb)
  moreover have "member ?g ?b = \<lparr>player = 0, flags = 0\<rparr>"
    by (simp add: member_def store_at_def std_map.find_erase)
  ultimately show ?thesis
    using assms(2,3)
    by (simp add: SetOwner_guid_def Let_def snd_block IsOn_def IsBanned_def member_def store_at_def
        store_modify_def std_map.find_put std_map.find_erase)
qed

end
