(* ===== verification/ChannelMgrProps.thy ===== *)
theory ChannelMgrProps
  imports ChannelMgr ChannelProps
begin

text \<open>
  The store of channels is used safely: the managers and the lists of the players hold only pointers to
  channels that exist, whatever requests the clients send and in whatever order players log out and
  travel, so that no request uses a deleted channel.
\<close>

section \<open>What an operation of a channel does to the lists of players\<close>

primrec is_move :: "effect \<Rightarrow> bool" where
  "is_move (SendPacket g p) = False"
| "is_move (JoinedChannel g) = True"
| "is_move (LeftChannel g) = True"
| "is_move (UpdateChannel a b c d e f) = False"
| "is_move (UpdateChannelUsage a b) = False"
| "is_move (InsertChannel a b) = False"

abbreviation "moves es \<equiv> filter is_move es"

lemma note_effects_moves: "note_effects a es w = note_effects a (moves es) w"
  by (induction es arbitrary: w) (auto split: effect.splits)

lemma fst_block:
  "fst (block [] c) = []" "fst (block (f # fs) c) = fst (f c) @ fst (block fs (snd (f c)))"
  "fst (block (fs @ gs) c) = fst (block fs c) @ fst (block gs (snd (block fs c)))"
proof -
  show "fst (block (fs @ gs) c) = fst (block fs c) @ fst (block gs (snd (block fs c)))"
    by (induction fs arbitrary: c) (simp_all add: block.simps case_prod_unfold)
qed (simp_all add: block.simps case_prod_unfold)

lemma moves_concat: "(\<And>x. moves (f x) = []) \<Longrightarrow> moves (concat (map f xs)) = []"
  by (induction xs) simp_all

lemma moves_to:
  "moves (case FindPlayer rl k of None \<Rightarrow> [] | Some p \<Rightarrow> if B p then [SendPacket (pl_guid p) data] else []) = []"
  "moves (case FindPlayer rl k of None \<Rightarrow> [] | Some p \<Rightarrow> [SendPacket (pl_guid p) data]) = []"
  by (cases "FindPlayer rl k"; simp)+

lemma moves_send [simp]:
  "moves (SendToAll rl data g c) = []" "moves (SendToAllButOne rl data g c) = []" "moves (SendToOne rl data g) = []"
  unfolding SendToAll_def SendToAllButOne_def SendToOne_def
  by (rule moves_concat, simp only: case_prod_unfold if_distrib [of "filter is_move"] moves_to filter.simps if_cancel)+
    (simp only: moves_to)

lemma moves_quiet [simp]:
  "moves (fst (say_one rl mk g c)) = []" "moves (fst (say_all rl mk c)) = []" "moves (fst (UpdateChannelInDB c)) = []"
  "moves (fst (UpdateChannelUseageInDB c)) = []" "moves (fst (JoinNotify rl g c)) = []"
  "moves (fst (LeaveNotify rl g c)) = []" "moves (fst (change f c)) = []" "fst (emit h c) = h c"
  by (simp_all add: say_one_def say_all_def UpdateChannelInDB_def UpdateChannelUseageInDB_def JoinNotify_def
      LeaveNotify_def change_def emit_def Let_def)

lemma moves_SetOwner_guid [simp]: "moves (fst (SetOwner_guid rl g ex c)) = []"
  by (simp add: SetOwner_guid_def Let_def fst_block)

lemma moves_modes [simp]:
  "moves (fst (SetModerator_guid rl g on c)) = []" "moves (fst (SetMute_guid rl g on c)) = []"
  by (simp_all add: SetModerator_guid_def SetMute_guid_def Let_def fst_block)

text \<open>An operation adds one member and notes it, removes one and notes it, or keeps all std_map.\<close>

definition tracked :: "effect list \<Rightarrow> Channel \<Rightarrow> Channel \<Rightarrow> bool" where
  "tracked es c c' \<longleftrightarrow>
     moves es = [] \<and> (\<forall>h. IsOn h c \<longrightarrow> IsOn h c') \<or>
     (\<exists>g. moves es = [JoinedChannel g] \<and> \<not> IsOn g c \<and> IsOn g c' \<and> (\<forall>h. IsOn h c \<longrightarrow> IsOn h c')) \<or>
     (\<exists>g. moves es = [LeftChannel g] \<and> (\<forall>h. h \<noteq> g \<and> IsOn h c \<longrightarrow> IsOn h c'))"

text \<open>The members have identifiers the server may give, and an entry carries its own identifier or none.\<close>

definition guid_limit :: u64 where "guid_limit = 0xFFFFFFFF"

definition store_ok :: "Channel \<Rightarrow> bool" where
  "store_ok c \<longleftrightarrow> std_map.entries_ok (\<lambda>k i. k < guid_limit \<and> (player i = k \<or> player i = 0)) (playersStore c)"

definition good_op :: "chan_op \<Rightarrow> bool" where
  "good_op f \<longleftrightarrow> (\<forall>c. store_ok c \<longrightarrow> store_ok (snd (f c)) \<and> tracked (fst (f c)) c (snd (f c)))"

lemma ok_modify: "store_ok c \<Longrightarrow> k < guid_limit \<Longrightarrow> (\<And>i. player (f i) = player i) \<Longrightarrow> store_ok (store_modify k f c)"
proof -
  assume ok: "store_ok c" and k: "k < guid_limit" and f: "\<And>i. player (f i) = player i"
  have "player (member k c) = k \<or> player (member k c) = 0"
    using ok by (auto simp: store_ok_def std_map.entries_ok_def member_def store_at_def split: option.splits)
  with ok k f show ?thesis
    unfolding store_ok_def store_modify_def by (auto simp: member_def intro!: std_map.entries_ok_put)
qed

lemma ok_member: "store_ok c \<Longrightarrow> IsOn k c \<Longrightarrow> k < guid_limit"
  by (auto simp: store_ok_def std_map.entries_ok_def IsOn_def)

lemma ok_other [simp]:
  "store_ok (c\<lparr>ch_ownerGUID := g\<rparr>) = store_ok c" "store_ok (c\<lparr>ch_password := s\<rparr>) = store_ok c"
  "store_ok (c\<lparr>ch_announce := b\<rparr>) = store_ok c" "store_ok (c\<lparr>bannedStore := x\<rparr>) = store_ok c"
  by (simp_all add: store_ok_def)

lemma IsOn_other [simp]:
  "IsOn k (c\<lparr>ch_ownerGUID := g\<rparr>) = IsOn k c" "IsOn k (c\<lparr>ch_password := s\<rparr>) = IsOn k c"
  "IsOn k (c\<lparr>ch_announce := b\<rparr>) = IsOn k c" "IsOn k (c\<lparr>bannedStore := x\<rparr>) = IsOn k c"
  by (simp_all add: IsOn_def)

lemma IsOn_ban_erase [simp]:
  "IsOn k (c\<lparr>bannedStore := x, playersStore := store_erase j (playersStore c)\<rparr>) \<longleftrightarrow> k \<noteq> j \<and> IsOn k c"
  by (simp add: IsOn_def std_map.find_erase)

lemma ok_SetOwner_guid: "store_ok c \<Longrightarrow> g < guid_limit \<Longrightarrow> store_ok (snd (SetOwner_guid rl g ex c))"
  by (auto simp: SetOwner_guid_def Let_def snd_block intro!: ok_modify dest: ok_member)

lemma ok_erase:
  "store_ok c \<Longrightarrow> store_ok (c\<lparr>playersStore := store_erase k (playersStore c)\<rparr>)"
  "store_ok c \<Longrightarrow> store_ok (c\<lparr>bannedStore := x, playersStore := store_erase k (playersStore c)\<rparr>)"
  by (simp_all add: store_ok_def std_map.entries_ok_erase)

lemma tracked_quiet: "moves es = [] \<Longrightarrow> (\<And>h. IsOn h c \<Longrightarrow> IsOn h c') \<Longrightarrow> tracked es c c'"
  by (simp add: tracked_def)

lemma good_JoinChannel:
  assumes "pl_guid p < guid_limit"
  shows "good_op (JoinChannel rl p pass)"
  unfolding good_op_def
proof (intro allI impI)
  fix c
  assume ok: "store_ok c"
  let ?g = "pl_guid p"
  let ?new = "c\<lparr>playersStore := store_put ?g \<lparr>player = ?g, flags = MEMBER_FLAG_NONE\<rparr> (playersStore c)\<rparr>"
  have "store_ok ?new" using ok assms by (simp add: store_ok_def std_map.entries_ok_put)
  moreover have on: "IsOn h ?new \<longleftrightarrow> h = ?g \<or> IsOn h c" for h by (simp add: IsOn_def std_map.find_put)
  moreover have "IsOn h (snd (SetOwner_guid rl ?g b ?new))" if "h = ?g \<or> IsOn h c" for h b
    using IsOn_SetOwner_guid on that by blast
  ultimately have ok': "store_ok (snd (JoinChannel rl p pass c))"
    and keep: "\<And>h. IsOn h c \<Longrightarrow> IsOn h (snd (JoinChannel rl p pass c))"
    using ok assms by (auto simp: JoinChannel_def Let_def snd_block ok_SetOwner_guid intro!: ok_modify)
  let ?refused = "IsOn ?g c \<or> IsBanned ?g c \<or> ch_password c \<noteq> [] \<and> pass \<noteq> ch_password c \<or>
    Channel_HasFlag CHANNEL_FLAG_LFG c \<and> restricted_lfg_channel rl \<and> IsPlayerAccount (pl_security p) \<and> pl_inGroup p"
  have "tracked (fst (JoinChannel rl p pass c)) c (snd (JoinChannel rl p pass c))"
  proof (cases ?refused)
    case True
    then have "moves (fst (JoinChannel rl p pass c)) = []" by (auto simp: JoinChannel_def Let_def)
    then show ?thesis using keep by (rule tracked_quiet)
  next
    case False
    then have "moves (fst (JoinChannel rl p pass c)) = [JoinedChannel ?g]" "\<not> IsOn ?g c"
      by (simp_all add: JoinChannel_def Let_def fst_block)
    moreover have "IsOn ?g (snd (JoinChannel rl p pass c))"
      using False on IsOn_SetOwner_guid by (simp add: JoinChannel_def Let_def snd_block store_put_not_Nil)
    ultimately show ?thesis using keep by (simp add: tracked_def)
  qed
  with ok' show "store_ok (snd (JoinChannel rl p pass c)) \<and>
      tracked (fst (JoinChannel rl p pass c)) c (snd (JoinChannel rl p pass c))" ..
qed

lemma ok_head:
  assumes "store_ok c" and "playersStore c \<noteq> []"
  shows "player (snd (hd (playersStore c))) < guid_limit"
proof -
  obtain k i xs where s: "playersStore c = (k, i) # xs"
    using assms(2) by (cases "playersStore c") auto
  then have "map_of (playersStore c) k = Some i" by simp
  with assms(1) have "k < guid_limit" "player i = k \<or> player i = 0"
    by (auto simp: store_ok_def std_map.entries_ok_def)
  with s show ?thesis by (auto simp: guid_limit_def)
qed

lemma Leave_effects:
  assumes "store_ok c"
  shows "store_ok (snd (LeaveChannel rl p send c))"
    and "h \<noteq> pl_guid p \<Longrightarrow> IsOn h c \<Longrightarrow> IsOn h (snd (LeaveChannel rl p send c))"
    and "moves (fst (LeaveChannel rl p send c)) = (if send \<and> IsOn (pl_guid p) c then [LeftChannel (pl_guid p)] else [])"
proof -
  let ?c = "c\<lparr>playersStore := store_erase (pl_guid p) (playersStore c)\<rparr>"
  have "store_ok ?c" by (rule ok_erase(1) [OF assms])
  with assms ok_head [OF this] show "store_ok (snd (LeaveChannel rl p send c))"
    by (auto simp: LeaveChannel_def Let_def snd_block intro!: ok_modify ok_SetOwner_guid)
  show "h \<noteq> pl_guid p \<Longrightarrow> IsOn h c \<Longrightarrow> IsOn h (snd (LeaveChannel rl p send c))"
    by (auto simp: LeaveChannel_def Let_def snd_block intro!: IsOn_SetOwner_guid)
  show "moves (fst (LeaveChannel rl p send c)) = (if send \<and> IsOn (pl_guid p) c then [LeftChannel (pl_guid p)] else [])"
    by (auto simp: LeaveChannel_def Let_def fst_block)
qed

lemma good_LeaveChannel: "good_op (LeaveChannel rl p True)"
proof -
  have "\<not> IsOn (pl_guid p) c \<Longrightarrow> snd (LeaveChannel rl p True c) = c" for c
    by (simp add: LeaveChannel_def Let_def)
  then show ?thesis
    using Leave_effects [where send = True and rl = rl and p = p]
    by (auto simp: good_op_def tracked_def)
qed

lemma good_as_moderator:
  assumes "\<And>c. store_ok c \<Longrightarrow> IsOn (pl_guid p) c \<Longrightarrow> store_ok (snd (f c)) \<and> tracked (fst (f c)) c (snd (f c))"
  shows "good_op (as_moderator rl p f)"
  using assms by (auto simp: good_op_def as_moderator_def Let_def intro: tracked_quiet)

lemma expel_effects:
  assumes "store_ok c" and "IsOn (pl_guid p) c"
  shows "store_ok (snd (expel rl p v ban c))" and "tracked (fst (expel rl p v ban c)) c (snd (expel rl p v ban c))"
proof -
  note g = ok_member [OF assms]
  show "store_ok (snd (expel rl p v ban c))"
    using assms g by (auto simp: expel_def Let_def snd_block ok_erase intro!: ok_modify ok_SetOwner_guid)
  have "moves (fst (expel rl p v ban c)) = [LeftChannel v]"
    by (auto simp: expel_def Let_def fst_block)
  moreover have "IsOn h (snd (expel rl p v ban c))" if "h \<noteq> v" "IsOn h c" for h
    using that by (auto simp: expel_def Let_def snd_block intro!: IsOn_SetOwner_guid)
  ultimately show "tracked (fst (expel rl p v ban c)) c (snd (expel rl p v ban c))"
    by (simp add: tracked_def)
qed

lemma good_same: "(\<And>c. snd (f c) = c \<and> moves (fst (f c)) = []) \<Longrightarrow> good_op f"
  by (simp add: good_op_def tracked_def)

lemma good_KickOrBan: "good_op (KickOrBan rl p name ban)"
  unfolding KickOrBan_def
  by (rule good_as_moderator) (auto simp: Let_def expel_effects intro: tracked_quiet)

lemma good_UnBan: "good_op (UnBan rl p name)"
  unfolding UnBan_def
  by (rule good_as_moderator) (auto simp: Let_def snd_block fst_block intro!: tracked_quiet)

lemma good_Password: "good_op (Password rl p pass)"
  unfolding Password_def by (rule good_as_moderator) (auto simp: snd_block fst_block intro!: tracked_quiet)

lemma good_Announce: "good_op (Announce rl p)"
  unfolding Announce_def by (rule good_as_moderator) (auto simp: snd_block fst_block intro!: tracked_quiet)

lemma mode_effects:
  "store_ok c \<Longrightarrow> IsOn g c \<Longrightarrow> store_ok (snd (SetModerator_guid rl g on c))"
  "store_ok c \<Longrightarrow> IsOn g c \<Longrightarrow> store_ok (snd (SetMute_guid rl g on c))"
  "IsOn h c \<Longrightarrow> IsOn h (snd (SetModerator_guid rl g on c))" "IsOn h c \<Longrightarrow> IsOn h (snd (SetMute_guid rl g on c))"
  by (auto simp: SetModerator_guid_def SetMute_guid_def Let_def snd_block intro!: ok_modify dest: ok_member)

lemma good_SetMode: "good_op (SetMode rl p name md on)"
  unfolding SetMode_def
  by (rule good_as_moderator)
    (auto simp: Let_def mode_effects intro!: tracked_quiet split: option.splits)

lemma good_SetOwner: "good_op (SetOwner rl p name)"
  unfolding good_op_def SetOwner_def
  by (auto simp: Let_def snd_block fst_block intro!: tracked_quiet ok_SetOwner_guid ok_modify IsOn_SetOwner_guid
      split: option.splits dest: ok_member)

lemma good_quiet:
  "good_op (SendWhoOwner rl g)" "good_op (List rl p)" "good_op (Say rl g what lang)" "good_op (MemberCount g)"
  by (rule good_same, simp add: SendWhoOwner_def List_def Say_def MemberCount_def Let_def)+

lemma good_Invite: "good_op (Invite rl p name)"
  by (rule good_same) (auto simp: Invite_def Let_def fst_block snd_block split: option.splits)

lemmas good_ops = good_JoinChannel good_LeaveChannel good_KickOrBan good_UnBan good_Password good_Announce
  good_SetMode good_SetOwner good_quiet good_Invite

section \<open>The invariant of the store\<close>

text \<open>The managers share no channel and hold only existing ones; a channel in the list of a player exists and has
  the player as a member.\<close>

definition managers_ok :: "ChannelWorld \<Rightarrow> bool" where
  "managers_ok w \<longleftrightarrow>
     (\<forall>m k a. channels w m k = Some a \<longrightarrow> live w a \<noteq> None) \<and>
     (\<forall>m k m' k' a. channels w m k = Some a \<and> channels w m' k' = Some a \<longrightarrow> m = m' \<and> k = k')"

definition stores_ok :: "ChannelWorld \<Rightarrow> bool" where
  "stores_ok w \<longleftrightarrow> (\<forall>a c. live w a = Some c \<longrightarrow> store_ok c \<and> a < next_addr w)"

definition lists_ok :: "ChannelWorld \<Rightarrow> bool" where
  "lists_ok w \<longleftrightarrow>
     (\<forall>g. distinct (m_channels w g) \<and> (\<forall>a \<in> set (m_channels w g). \<exists>c. live w a = Some c \<and> IsOn g c))"

definition world_ok :: "ChannelWorld \<Rightarrow> bool" where
  "world_ok w \<longleftrightarrow> managers_ok w \<and> stores_ok w \<and> lists_ok w"

text \<open>Statements that keep a precondition safe: they use no deleted channel and end in the postcondition.\<close>

definition safe :: "(ChannelWorld \<Rightarrow> bool) \<Rightarrow> 'a chat \<Rightarrow> ('a \<Rightarrow> ChannelWorld \<Rightarrow> bool) \<Rightarrow> bool" where
  "safe P f Q \<longleftrightarrow>
     (\<forall>w. P w \<longrightarrow> (case f w of Inl (UseAfterFree a) \<Rightarrow> False | Inl _ \<Rightarrow> True | Inr (x, es, w') \<Rightarrow> Q x w'))"

lemma safe_bind: "safe P f R \<Longrightarrow> (\<And>x. safe (R x) (g x) Q) \<Longrightarrow> safe P (chat_bind f g) Q"
  unfolding safe_def chat_bind_def
  by (fastforce split: sum.splits chat_error.splits)

lemma safe_pre: "safe P f Q \<Longrightarrow> (\<And>w. P' w \<Longrightarrow> P w) \<Longrightarrow> safe P' f Q"
  by (auto simp: safe_def)

lemma safe_post: "safe P f R \<Longrightarrow> (\<And>x w. R x w \<Longrightarrow> Q x w) \<Longrightarrow> safe P f Q"
  by (fastforce simp: safe_def split: sum.splits chat_error.splits)

lemma safe_return: "(\<And>w. P w \<Longrightarrow> Q x w) \<Longrightarrow> safe P (chat_return x) Q"
  by (simp add: safe_def chat_return_def)

lemma safe_change: "(\<And>w. P w \<Longrightarrow> Q () (f w)) \<Longrightarrow> safe P (chat_change f) Q"
  by (simp add: safe_def chat_change_def)

lemma safe_get: "safe P (chat_get f) (\<lambda>x w. P w \<and> x = f w)"
  by (simp add: safe_def chat_get_def)

lemma safe_decode: "safe P (decode r) (\<lambda>_. P)" and safe_naming: "safe P (naming r') (\<lambda>_. P)"
  by (auto simp: safe_def decode_def naming_def split: sum.splits)

lemma safe_deref: "(\<And>w. P w \<Longrightarrow> live w a \<noteq> None) \<Longrightarrow> safe P (deref a) (\<lambda>c w. P w \<and> live w a = Some c)"
  by (fastforce simp: safe_def deref_def split: option.splits)

section \<open>Operations on the store\<close>

lemma lists_fields [simp]:
  "live (JoinedChannel_list g a w) = live w" "live (LeftChannel_list g a w) = live w"
  "channels (JoinedChannel_list g a w) = channels w" "channels (LeftChannel_list g a w) = channels w"
  "next_addr (JoinedChannel_list g a w) = next_addr w" "next_addr (LeftChannel_list g a w) = next_addr w"
  by (simp_all add: JoinedChannel_list_def LeftChannel_list_def)

lemma note_fields [simp]:
  "live (note_effects a es w) = live w" "channels (note_effects a es w) = channels w"
  "next_addr (note_effects a es w) = next_addr w"
  by (induction es arbitrary: w) (simp_all split: effect.split)

lemma managers_update: "managers_ok w \<Longrightarrow> live w a = Some c \<Longrightarrow> live w' = (live w)(a \<mapsto> c') \<Longrightarrow>
    channels w' = channels w \<Longrightarrow> managers_ok w'"
  by (auto simp: managers_ok_def)

lemma stores_update: "stores_ok w \<Longrightarrow> live w a = Some c \<Longrightarrow> store_ok c' \<Longrightarrow> live w' = (live w)(a \<mapsto> c') \<Longrightarrow>
    next_addr w' = next_addr w \<Longrightarrow> stores_ok w'"
  by (auto simp: stores_ok_def)

lemma world_tracked:
  assumes "world_ok w" and "live w a = Some c" and "store_ok c'" and "tracked es c c'"
  shows "world_ok (note_effects a es (w\<lparr>live := (live w)(a \<mapsto> c')\<rparr>))"
proof -
  let ?w = "w\<lparr>live := (live w)(a \<mapsto> c')\<rparr>"
  have l: "lists_ok w" using assms(1) by (simp add: world_ok_def)
  from assms(4) consider (same) "moves es = []" "\<And>h. IsOn h c \<Longrightarrow> IsOn h c'"
    | (join) g where "moves es = [JoinedChannel g]" "\<not> IsOn g c" "IsOn g c'" "\<And>h. IsOn h c \<Longrightarrow> IsOn h c'"
    | (leave) g where "moves es = [LeftChannel g]" "\<And>h. h \<noteq> g \<Longrightarrow> IsOn h c \<Longrightarrow> IsOn h c'"
    unfolding tracked_def by blast
  then have "lists_ok (note_effects a (moves es) ?w)"
  proof cases
    case same
    with l assms(2) show ?thesis by (fastforce simp: lists_ok_def)
  next
    case join
    then have "a \<notin> set (m_channels w g)" using l assms(2) by (fastforce simp: lists_ok_def)
    with join l assms(2) show ?thesis by (fastforce simp: lists_ok_def JoinedChannel_list_def)
  next
    case leave
    with l assms(2) show ?thesis by (fastforce simp: lists_ok_def LeftChannel_list_def distinct_removeAll)
  qed
  then have "lists_ok (note_effects a es ?w)" by (simp only: note_effects_moves [symmetric])
  with assms show ?thesis
    by (auto simp: world_ok_def intro: managers_update stores_update)
qed

text \<open>The precondition of most statements: the store is sound and the channels \<open>A\<close> exist.\<close>

definition with_live :: "addr set \<Rightarrow> ChannelWorld \<Rightarrow> bool" where
  "with_live A w \<longleftrightarrow> world_ok w \<and> A \<subseteq> dom (live w)"

lemma safe_on_channel:
  assumes "good_op f" and "a \<in> A"
  shows "safe (with_live A) (on_channel a f) (\<lambda>_. with_live A)"
  unfolding safe_def
proof (intro allI impI)
  fix w
  assume w: "with_live A w"
  then obtain c where c: "live w a = Some c" using assms(2) by (auto simp: with_live_def)
  then have "store_ok c" using w by (auto simp: with_live_def world_ok_def stores_ok_def)
  then have f: "store_ok (snd (f c))" "tracked (fst (f c)) c (snd (f c))"
    using assms(1) by (auto simp: good_op_def)
  have "world_ok (note_effects a (fst (f c)) (w\<lparr>live := (live w)(a \<mapsto> snd (f c))\<rparr>))"
    using w c f by (intro world_tracked) (simp_all add: with_live_def)
  then show "case on_channel a f w of Inl (UseAfterFree a) \<Rightarrow> False | Inl _ \<Rightarrow> True | Inr (x, es, w') \<Rightarrow> with_live A w'"
    using w c by (auto simp: on_channel_def with_live_def case_prod_unfold)
qed

lemma safe_GetJoinChannel:
  "safe (with_live A) (GetJoinChannel env m name cid) (\<lambda>a. with_live (insert a A))"
  unfolding GetJoinChannel_def
proof (rule safe_bind [OF safe_naming])
  fix k
  let ?f = "\<lambda>w. case channels w m k of
      Some a \<Rightarrow> Inr (a, [], w)
    | None \<Rightarrow>
        let team = mgr_team w m; a = next_addr w;
            (es, c) = Channel_new name cid team (map_option entry_flags (chat_channels env cid))
              (preserve_custom env) (channel_row env name team)
        in Inr (a, es, w\<lparr>live := (live w)(a \<mapsto> c), next_addr := a + 1,
                         channels := (channels w)(m := (channels w m)(k \<mapsto> a))\<rparr>)"
  have new: "store_ok (snd (Channel_new name cid team dbc pr row))" for team dbc pr row
    by (auto simp: Channel_new_def Let_def store_ok_def std_map.entries_ok_def ordered_store_def split: option.splits)
  have "with_live (insert (next_addr w) A) (w\<lparr>live := (live w)(next_addr w \<mapsto> c), next_addr := next_addr w + 1,
      channels := (channels w)(m := (channels w m)(k \<mapsto> next_addr w))\<rparr>)"
    (is "with_live _ ?w") if w: "with_live A w" and "channels w m k = None" and "store_ok c" for w c
  proof -
    have fresh: "live w (next_addr w) = None"
      using w by (cases "live w (next_addr w)") (auto simp: with_live_def world_ok_def stores_ok_def)
    then have nm: "channels w m' k' \<noteq> Some (next_addr w)" for m' k'
      using w by (fastforce simp: with_live_def world_ok_def managers_ok_def)
    have nl: "next_addr w \<notin> set (m_channels w g)" for g
      using w fresh by (fastforce simp: with_live_def world_ok_def lists_ok_def)
    have ok: "managers_ok w" "stores_ok w" "lists_ok w" "A \<subseteq> dom (live w)"
      using w by (simp_all add: with_live_def world_ok_def)
    have "managers_ok ?w" using ok(1) nm by (simp add: managers_ok_def) blast
    moreover have "stores_ok ?w" using ok(2) \<open>store_ok c\<close> by (auto simp: stores_ok_def less_Suc_eq)
    moreover have "lists_ok ?w" using ok(3) nl by (auto simp: lists_ok_def)
    ultimately show ?thesis using ok(4) by (auto simp: with_live_def world_ok_def)
  qed
  moreover have "with_live (insert a A) w" if "with_live A w" "channels w m k = Some a" for w a
    using that by (auto simp: with_live_def world_ok_def managers_ok_def)
  ultimately show "safe (with_live A) ?f (\<lambda>a. with_live (insert a A))"
    using new by (simp add: safe_def Let_def case_prod_unfold split: option.split)
qed

lemma safe_GetChannel: "safe (with_live A) (GetChannel m name g) (\<lambda>r. with_live (set_option r \<union> A))"
  unfolding GetChannel_def
proof (rule safe_bind [OF safe_naming])
  fix k
  show "safe (with_live A) (\<lambda>w. case channels w m k of
      None \<Rightarrow> Inr (None, [SendPacket g (MakeNotOnPacket name)], w) | Some a \<Rightarrow> Inr (Some a, [], w))
    (\<lambda>r. with_live (set_option r \<union> A))"
    by (auto simp: safe_def with_live_def world_ok_def managers_ok_def split: option.split)
qed

lemma left_list_ok: "with_live A w \<Longrightarrow> with_live A (LeftChannel_list g a w)"
  by (auto simp: with_live_def world_ok_def managers_ok_def stores_ok_def lists_ok_def LeftChannel_list_def
      distinct_removeAll)

lemma empty_store:
  assumes "store_ok c" and "GetNumPlayers c = 0"
  shows "\<not> IsOn g c"
proof -
  let ?ks = "map fst (playersStore c)"
  have d: "distinct ?ks" using assms(1) by (auto simp: store_ok_def std_map.entries_ok_def ordered_store_def strict_sorted_iff)
  have "set ?ks \<subseteq> {..<guid_limit}"
    using assms(1) by (force simp: store_ok_def std_map.entries_ok_def map_of_eq_None_iff [symmetric] dest: weak_map_of_SomeI)
  then have "card (set ?ks) \<le> card {..<guid_limit}" by (rule card_mono [rotated]) simp
  moreover have "{..<guid_limit} \<subseteq> of_nat ` {..<unat guid_limit}"
  proof
    fix x
    assume "x \<in> {..<guid_limit}"
    then have "unat x < unat guid_limit" by (simp add: word_less_nat_alt)
    then show "x \<in> of_nat ` {..<unat guid_limit}" by (intro image_eqI [of _ _ "unat x"]) simp_all
  qed
  then have "card {..<guid_limit} \<le> unat guid_limit"
    using surj_card_le [of "{..<unat guid_limit}"] by simp
  ultimately have "length (playersStore c) < 2 ^ 32" using distinct_card [OF d] by (simp add: guid_limit_def)
  then have "playersStore c = []"
    using assms(2) by (auto simp: GetNumPlayers_def unsigned_of_nat word_unat_eq_iff take_bit_nat_eq_self)
  then show ?thesis by (simp add: IsOn_def)
qed

lemma delete_ok:
  assumes "world_ok w" and "channels w m k = Some a" and "live w a = Some c" and "GetNumPlayers c = 0"
  shows "world_ok (w\<lparr>channels := (channels w)(m := (channels w m)(k := None)), live := (live w)(a := None)\<rparr>)"
    (is "world_ok ?w")
proof -
  have ok: "managers_ok w" "stores_ok w" "lists_ok w" using assms(1) by (simp_all add: world_ok_def)
  have "\<not> IsOn g c" for g
    using empty_store [OF _ assms(4)] ok(2) assms(3) by (auto simp: stores_ok_def)
  then have "a \<notin> set (m_channels w g)" for g
    using ok(3) assms(3) by (fastforce simp: lists_ok_def)
  then have "lists_ok ?w" using ok(3) by (fastforce simp: lists_ok_def)
  moreover have "managers_ok ?w"
    using ok(1) assms(2) unfolding managers_ok_def by (simp, blast)
  moreover have "stores_ok ?w" using ok(2) by (auto simp: stores_ok_def)
  ultimately show ?thesis by (simp add: world_ok_def)
qed

lemma safe_LeftChannel_mgr:
  "safe (\<lambda>w. world_ok w \<and> m_channels w = L) (LeftChannel_mgr m name) (\<lambda>_ w. world_ok w \<and> m_channels w = L)"
  unfolding LeftChannel_mgr_def
proof (rule safe_bind [OF safe_naming], rule safe_bind [OF safe_get])
  fix k and r :: "addr option"
  let ?P = "\<lambda>w. (world_ok w \<and> m_channels w = L) \<and> r = channels w m k"
  show "safe ?P
     (case r of None \<Rightarrow> skip
      | Some a \<Rightarrow> chat_bind (deref a) (\<lambda>c.
          if GetNumPlayers c = 0 \<and> \<not> IsConstant c
          then chat_change (\<lambda>w. w\<lparr>channels := (channels w)(m := (channels w m)(k := None)), live := (live w)(a := None)\<rparr>)
          else skip))
     (\<lambda>_ w. world_ok w \<and> m_channels w = L)"
  proof (cases r)
    case None
    then show ?thesis by (auto intro: safe_return)
  next
    case (Some a)
    show ?thesis
      unfolding Some option.case
    proof (rule safe_bind [OF safe_deref])
      show "live w a \<noteq> None" if "(world_ok w \<and> m_channels w = L) \<and> Some a = channels w m k" for w
        using that by (auto simp: world_ok_def managers_ok_def dest: sym)
    next
      fix c
      let ?Q = "\<lambda>w. ((world_ok w \<and> m_channels w = L) \<and> Some a = channels w m k) \<and> live w a = Some c"
      show "safe ?Q
         (if GetNumPlayers c = 0 \<and> \<not> IsConstant c
          then chat_change (\<lambda>w. w\<lparr>channels := (channels w)(m := (channels w m)(k := None)), live := (live w)(a := None)\<rparr>)
          else skip)
         (\<lambda>_ w. world_ok w \<and> m_channels w = L)"
        by (auto intro!: safe_return safe_change intro: delete_ok [OF _ sym])
    qed
  qed
qed

section \<open>Leaving a channel\<close>

lemma safe_fix: "(\<And>L. safe (\<lambda>w. P w \<and> m_channels w = L) f Q) \<Longrightarrow> safe P f Q"
  by (fastforce simp: safe_def)

lemma left_list_idem: "LeftChannel_list g a (LeftChannel_list g a w) = LeftChannel_list g a w"
  by (simp add: LeftChannel_list_def removeAll_id)

lemma left_list_absent: "a \<notin> set (m_channels w g) \<Longrightarrow> LeftChannel_list g a w = w"
  by (simp add: LeftChannel_list_def)

text \<open>Once the list of the player is adjusted too, the store is sound again, with or without a notice.\<close>

lemma leave_then_list:
  fixes rl :: Realm and p :: ChatPlayer and send :: bool
  defines "f \<equiv> LeaveChannel rl p send"
  assumes "with_live A w" and "live w a = Some c"
  shows "with_live A (LeftChannel_list (pl_guid p) a (note_effects a (fst (f c)) (w\<lparr>live := (live w)(a \<mapsto> snd (f c))\<rparr>)))"
proof -
  let ?w = "w\<lparr>live := (live w)(a \<mapsto> snd (f c))\<rparr>"
  have ok: "store_ok c" using assms by (auto simp: with_live_def world_ok_def stores_ok_def)
  note L = Leave_effects [OF ok, where rl = rl and p = p and send = send, folded f_def]
  have "note_effects a (fst (f c)) ?w = note_effects a (moves (fst (f c))) ?w" by (rule note_effects_moves)
  then have "LeftChannel_list (pl_guid p) a (note_effects a (fst (f c)) ?w) = note_effects a [LeftChannel (pl_guid p)] ?w"
    unfolding L(3) by (simp add: left_list_idem)
  moreover have "world_ok (note_effects a [LeftChannel (pl_guid p)] ?w)"
    using assms(2,3) L(1,2) by (intro world_tracked) (auto simp: with_live_def tracked_def)
  ultimately show ?thesis using assms(2,3) by (auto simp: with_live_def)
qed

lemma safe_leave:
  assumes "a \<in> A"
  shows "safe (with_live A) (on_channel a (LeaveChannel rl p send)) (\<lambda>_ w. with_live A (LeftChannel_list (pl_guid p) a w))"
  unfolding safe_def
proof (intro allI impI)
  fix w
  assume w: "with_live A w"
  then obtain c where "live w a = Some c" using assms by (auto simp: with_live_def)
  with w show "case on_channel a (LeaveChannel rl p send) w of
      Inl (UseAfterFree a) \<Rightarrow> False | Inl _ \<Rightarrow> True | Inr (x, es, w') \<Rightarrow> with_live A (LeftChannel_list (pl_guid p) a w')"
    by (simp add: on_channel_def case_prod_unfold leave_then_list)
qed

text \<open>Leaving without a notice keeps every list; a player whose list does not hold the channel leaves it safely.\<close>

lemma safe_leave_quiet:
  assumes "a \<notin> set (L (pl_guid p))"
  shows "safe (\<lambda>w. with_live {a} w \<and> m_channels w = L) (on_channel a (LeaveChannel rl p False))
           (\<lambda>_ w. with_live {a} w \<and> m_channels w = L)"
  unfolding safe_def
proof (intro allI impI)
  fix w
  assume w: "with_live {a} w \<and> m_channels w = L"
  then obtain c where c: "live w a = Some c" by (auto simp: with_live_def)
  then have "store_ok c" using w by (auto simp: with_live_def world_ok_def stores_ok_def)
  then have "moves (fst (LeaveChannel rl p False c)) = []" by (simp add: Leave_effects(3))
  then have "m_channels (note_effects a (fst (LeaveChannel rl p False c)) w') = m_channels w'" for w'
    by (metis note_effects.simps(1) note_effects_moves)
  with leave_then_list [where A = "{a}" and rl = rl and p = p and send = False, OF conjunct1 [OF w] c] w c assms
  show "case on_channel a (LeaveChannel rl p False) w of
      Inl (UseAfterFree a) \<Rightarrow> False | Inl _ \<Rightarrow> True | Inr (x, es, w') \<Rightarrow> with_live {a} w' \<and> m_channels w' = L"
    by (simp add: on_channel_def case_prod_unfold left_list_absent)
qed

lemma pop_ok:
  assumes "world_ok w" and "m_channels w g = a # as"
  shows "with_live {a} (pop_channel g w)"
proof -
  have l: "distinct (m_channels w h)" "x \<in> set (m_channels w h) \<Longrightarrow> \<exists>c. live w x = Some c \<and> IsOn h c" for h x
    using assms(1) by (auto simp: world_ok_def lists_ok_def)
  have "distinct as" "x \<in> set as \<Longrightarrow> \<exists>c. live w x = Some c \<and> IsOn g c" "a \<in> dom (live w)" for x
    using l [where h = g] assms(2) by auto
  with l assms show ?thesis
    by (simp add: with_live_def world_ok_def managers_ok_def stores_ok_def lists_ok_def pop_channel_def)
qed

lemma world_distinct: "world_ok w \<Longrightarrow> distinct (m_channels w g)"
  by (simp add: world_ok_def lists_ok_def)

lemma safe_cleanup_list:
  "L (pl_guid (ses_player s)) = as \<Longrightarrow>
   safe (\<lambda>w. world_ok w \<and> m_channels w = L) (cleanup_list env s as)
     (\<lambda>_ w. world_ok w \<and> m_channels w = L(pl_guid (ses_player s) := []))"
proof (induction as arbitrary: L)
  case Nil
  then show ?case by (auto intro!: safe_return)
next
  case (Cons a as)
  let ?g = "pl_guid (ses_player s)"
  let ?L = "L(?g := as)"
  show ?case
  proof (cases "a \<in> set as")
    case True
    then have "\<not> (world_ok w \<and> m_channels w = L)" for w
      using world_distinct [of w ?g] Cons.prems by auto
    then show ?thesis unfolding safe_def by blast
  next
    case False
    have mgr: "safe (\<lambda>w. with_live {a} w \<and> m_channels w = ?L)
        (case forTeam env (pl_team (ses_player s)) of
           None \<Rightarrow> skip | Some m \<Rightarrow> chat_bind (deref a) (\<lambda>ch. LeftChannel_mgr m (ch_name ch)))
        (\<lambda>_ w. world_ok w \<and> m_channels w = ?L)"
    proof (cases "forTeam env (pl_team (ses_player s))")
      case None
      then show ?thesis by (auto intro!: safe_return simp: with_live_def)
    next
      case (Some m)
      show ?thesis
        unfolding Some option.case
      proof (rule safe_bind [OF safe_deref])
        show "safe (\<lambda>w. (with_live {a} w \<and> m_channels w = ?L) \<and> live w a = Some ch) (LeftChannel_mgr m (ch_name ch))
            (\<lambda>_ w. world_ok w \<and> m_channels w = ?L)" for ch
          by (rule safe_pre [OF safe_LeftChannel_mgr]) (simp add: with_live_def)
      qed (auto simp: with_live_def)
    qed
    have pop: "safe (\<lambda>w. world_ok w \<and> m_channels w = L) (chat_change (pop_channel ?g))
        (\<lambda>_ w. with_live {a} w \<and> m_channels w = ?L)"
      using Cons.prems by (intro safe_change conjI pop_ok) (auto simp: pop_channel_def)
    have leave: "safe (\<lambda>w. with_live {a} w \<and> m_channels w = ?L) (on_channel a (LeaveChannel (realm env) (ses_player s) False))
        (\<lambda>_ w. with_live {a} w \<and> m_channels w = ?L)"
      using False by (intro safe_leave_quiet) simp
    have rest: "safe (\<lambda>w. world_ok w \<and> m_channels w = ?L) (cleanup_list env s as)
        (\<lambda>_ w. world_ok w \<and> m_channels w = L(?g := []))"
      using Cons.IH [of ?L] by (simp only: fun_upd_same fun_upd_upd)
    show ?thesis
      unfolding cleanup_list.simps
      by (intro safe_bind [OF pop] safe_bind [OF leave] safe_bind [OF mgr] rest)
  qed
qed

lemma safe_CleanupChannels: "safe world_ok (CleanupChannels env s) (\<lambda>_ w. world_ok w \<and> m_channels w (pl_guid (ses_player s)) = [])"
proof (rule safe_fix)
  fix L
  let ?g = "pl_guid (ses_player s)"
  have "safe (\<lambda>w. (world_ok w \<and> m_channels w = L) \<and> as = m_channels w ?g) (cleanup_list env s as)
      (\<lambda>_ w. world_ok w \<and> m_channels w ?g = [])" for as
  proof (cases "as = L ?g")
    case True
    show ?thesis
      by (rule safe_post [OF safe_pre [OF safe_cleanup_list [of L s as, OF True [symmetric]]]]) auto
  next
    case False
    then show ?thesis unfolding safe_def by blast
  qed
  then show "safe (\<lambda>w. world_ok w \<and> m_channels w = L) (CleanupChannels env s) (\<lambda>_ w. world_ok w \<and> m_channels w ?g = [])"
    unfolding CleanupChannels_def by (rule safe_bind [OF safe_get])
qed

section \<open>The player and the handlers\<close>

lemma with_live_world: "with_live A w \<Longrightarrow> world_ok w" and with_live_empty: "world_ok w \<Longrightarrow> with_live {} w"
  by (simp_all add: with_live_def)

lemma with_live_mono: "with_live A w \<Longrightarrow> B \<subseteq> A \<Longrightarrow> with_live B w"
  by (auto simp: with_live_def)

lemma with_joined: "world_ok w \<Longrightarrow> with_live (set (m_channels w g)) w"
  by (fastforce simp: with_live_def world_ok_def lists_ok_def)

lemma safe_skip: "safe (with_live A) skip (\<lambda>_. world_ok)"
  by (rule safe_return) (rule with_live_world)

lemma safe_deref_live: "a \<in> A \<Longrightarrow> safe (with_live A) (deref a) (\<lambda>_. with_live A)"
  by (rule safe_post [OF safe_deref]) (auto simp: with_live_def)

lemma safe_call: "good_op f \<Longrightarrow> a \<in> A \<Longrightarrow> safe (with_live A) (on_channel a f) (\<lambda>_. world_ok)"
  by (rule safe_post [OF safe_on_channel]) (auto simp: with_live_def)

lemma safe_LeftChannel: "safe world_ok (LeftChannel_mgr m name) (\<lambda>_. world_ok)"
  by (rule safe_fix, rule safe_post [OF safe_LeftChannel_mgr]) simp

lemma safe_get_joined:
  "(\<And>as. safe (with_live (set as)) (f as) Q) \<Longrightarrow> safe world_ok (chat_bind (chat_get (\<lambda>w. m_channels w g)) f) Q"
  by (rule safe_bind [OF safe_get], rule safe_pre, assumption) (auto intro: with_joined)

lemma safe_used_channel:
  "set as \<subseteq> A \<Longrightarrow> safe (with_live A) (used_channel i as) (\<lambda>r. with_live (set_option r \<union> A))"
proof (induction as)
  case (Cons a as)
  then have "a \<in> A" and IH: "safe (with_live A) (used_channel i as) (\<lambda>r. with_live (set_option r \<union> A))" by auto
  then show ?case
    unfolding used_channel.simps
    by (intro safe_bind [OF safe_deref_live [OF \<open>a \<in> A\<close>]]) (auto intro!: safe_return simp: insert_absorb)
qed (auto intro: safe_return)

lemma safe_join:
  assumes "pl_guid p < guid_limit" and "a \<in> A"
  shows "safe (with_live A) (on_channel a (JoinChannel rl p pass)) (\<lambda>_. with_live A)"
  by (rule safe_on_channel [OF good_JoinChannel [OF assms(1)] assms(2)])

lemma safe_swap_channels:
  assumes "pl_guid (ses_player s) < guid_limit"
  shows "safe (with_live (set_option j \<union> set_option r)) (swap_channels env s m j r send) (\<lambda>_. world_ok)"
proof -
  let ?g = "pl_guid (ses_player s)" and ?A = "set_option j \<union> set_option r"
  have join: "safe (with_live ?A) (case j of None \<Rightarrow> skip
      | Some j \<Rightarrow> on_channel j (JoinChannel (realm env) (ses_player s) [])) (\<lambda>_. with_live ?A)"
    by (cases j) (auto intro: safe_return safe_join [OF assms])
  have leave: "safe (with_live A) (chat_then (on_channel a (LeaveChannel (realm env) (ses_player s) send))
      (chat_bind (deref a) (\<lambda>c. chat_then (chat_change (LeftChannel_list ?g a)) (LeftChannel_mgr m (ch_name c)))))
      (\<lambda>_. world_ok)" if "a \<in> A" for a A
  proof (rule safe_bind [OF safe_leave], rule_tac [2] safe_bind [OF safe_deref],
      rule_tac [3] safe_bind [OF safe_change safe_LeftChannel])
    show "a \<in> A" by (rule that)
  qed (use that in \<open>auto simp: with_live_def\<close>)
  show ?thesis
    unfolding swap_channels_def
    by (intro safe_bind [OF join]) (auto intro!: safe_skip leave split: option.split)
qed

lemma safe_local_channel_row:
  assumes "pl_guid (ses_player s) < guid_limit"
  shows "safe world_ok (local_channel_row env s m zone i) (\<lambda>_. world_ok)"
proof (cases "chat_channels env (of_nat i)")
  case None
  then show ?thesis by (auto simp: local_channel_row_def intro: safe_return)
next
  case (Some channel)
  have swap: "safe (with_live A) (swap_channels env s m j r b) (\<lambda>_. world_ok)"
    if "set_option j \<union> set_option r \<subseteq> A" for j r A b
    using that by (intro safe_pre [OF safe_swap_channels [OF assms]]) (rule with_live_mono)
  show ?thesis
    unfolding local_channel_row_def Some option.case Let_def
  proof (rule safe_get_joined, rule safe_bind [OF safe_used_channel [OF order_refl]])
    fix joined and u :: "addr option"
    let ?A = "set_option u \<union> set joined"
    let ?row = "\<lambda>j. case u of None \<Rightarrow> swap_channels env s m (Some j) None True
      | Some u \<Rightarrow> if j \<noteq> u then swap_channels env s m (Some j) (Some u) False else swap_channels env s m None None True"
    have row: "safe (with_live (insert j ?A)) (?row j) (\<lambda>_. world_ok)" for j
      by (cases u) (auto intro!: swap)
    have one: "safe (with_live (insert j ?A)) (swap_channels env s m (Some j) None True) (\<lambda>_. world_ok)" for j
      by (rule swap) simp
    show "safe (with_live ?A)
      (if CanJoinConstantChannelInZone env s channel zone
       then if entry_flags channel AND CHANNEL_DBC_FLAG_GLOBAL = 0
            then if entry_flags channel AND CHANNEL_DBC_FLAG_CITY_ONLY \<noteq> 0 \<and> u \<noteq> None then skip
                 else chat_bind (GetJoinChannel env m (channel_name (pattern channel)
                   (if entry_flags channel AND CHANNEL_DBC_FLAG_CITY_ONLY \<noteq> 0 then city_text env else area_name zone))
                   (ChannelID channel)) ?row
            else chat_bind (GetJoinChannel env m (pattern channel) (ChannelID channel))
              (\<lambda>j. swap_channels env s m (Some j) None True)
       else swap_channels env s m None u True) (\<lambda>_. world_ok)"
      by (simp add: safe_skip swap safe_bind [OF safe_GetJoinChannel row] safe_bind [OF safe_GetJoinChannel one]
          del: split_paired_All)
  qed
qed

lemma safe_chat_seq: "(\<And>f. f \<in> set fs \<Longrightarrow> safe P f (\<lambda>_. P)) \<Longrightarrow> safe P (chat_seq fs) (\<lambda>_. P)"
  by (induction fs) (auto intro: safe_return safe_bind)

lemma safe_UpdateLocalChannels:
  assumes "pl_guid (ses_player s) < guid_limit"
  shows "safe world_ok (UpdateLocalChannels env s z) (\<lambda>_. world_ok)"
proof -
  have "safe world_ok (chat_seq (map (local_channel_row env s m zone) is)) (\<lambda>_. world_ok)" for m zone "is"
    by (rule safe_chat_seq) (auto intro: safe_local_channel_row [OF assms])
  then show ?thesis by (auto simp: UpdateLocalChannels_def intro: safe_return split: option.split)
qed

lemma safe_LeaveLFGChannel: "safe world_ok (LeaveLFGChannel env s) (\<lambda>_. world_ok)"
proof -
  have "set as \<subseteq> A \<Longrightarrow> safe (with_live A) (leave_lfg env s as) (\<lambda>_. world_ok)" for as A
  proof (induction as)
    case (Cons a as)
    then have "a \<in> A" and IH: "safe (with_live A) (leave_lfg env s as) (\<lambda>_. world_ok)" by auto
    then show ?case
      unfolding leave_lfg.simps
      by (intro safe_bind [OF safe_deref_live [OF \<open>a \<in> A\<close>]]) (auto intro: safe_call good_LeaveChannel)
  qed (auto intro: safe_skip)
  then show ?thesis unfolding LeaveLFGChannel_def by (intro safe_get_joined) simp
qed

lemma safe_call_channel:
  assumes "good_op f"
  shows "safe world_ok (call_channel env s name f) (\<lambda>_. world_ok)"
proof -
  have "safe (with_live (set_option r \<union> {})) (case r of None \<Rightarrow> skip | Some a \<Rightarrow> on_channel a f) (\<lambda>_. world_ok)" for r
    by (cases r) (auto intro: safe_skip safe_call [OF assms])
  then have "safe (with_live {}) (chat_bind (GetChannel m name g) (\<lambda>r. case r of None \<Rightarrow> skip | Some a \<Rightarrow> on_channel a f))
      (\<lambda>_. world_ok)" for m g
    by (rule safe_bind [OF safe_GetChannel])
  then show ?thesis
    unfolding call_channel_def by (auto intro: safe_return safe_pre with_live_empty split: option.split)
qed

lemma safe_call_with_target:
  assumes "\<And>rl p n. good_op (f rl p n)"
  shows "safe world_ok (call_with_target env s name target f) (\<lambda>_. world_ok)"
  unfolding call_with_target_def
  by (rule safe_bind [OF safe_naming]) (auto intro: safe_return safe_call_channel assms split: option.split)

lemma safe_decoded: "(\<And>x. safe P (f x) Q) \<Longrightarrow> safe P (chat_bind (decode r) f) Q"
  by (rule safe_bind [OF safe_decode])

lemma safe_HandleJoinChannel:
  assumes "pl_guid (ses_player s) < guid_limit"
  shows "safe world_ok (HandleJoinChannel env s pkt) (\<lambda>_. world_ok)"
proof -
  have "safe world_ok (setTeam m t) (\<lambda>_. with_live {})" for m t
    unfolding setTeam_def
    by (rule safe_change) (simp add: with_live_def world_ok_def managers_ok_def stores_ok_def lists_ok_def)
  moreover have "safe (with_live {}) (chat_bind (GetJoinChannel env m name cid) (\<lambda>a.
      on_channel a (JoinChannel (realm env) (ses_player s) pass))) (\<lambda>_. world_ok)" for m name cid pass
    by (rule safe_bind [OF safe_GetJoinChannel]) (auto intro: safe_call good_JoinChannel [OF assms])
  ultimately have "safe world_ok (chat_then (setTeam m t) (chat_bind (GetJoinChannel env m name cid) (\<lambda>a.
      on_channel a (JoinChannel (realm env) (ses_player s) pass)))) (\<lambda>_. world_ok)" for m t name cid pass
    by (rule safe_bind)
  then show ?thesis
    unfolding HandleJoinChannel_def
    by (intro safe_decoded) (simp add: safe_return case_prod_unfold split: option.split)
qed

lemma safe_HandleLeaveChannel: "safe world_ok (HandleLeaveChannel env s pkt) (\<lambda>_. world_ok)"
proof -
  have "safe world_ok (case forTeam env (pl_team (ses_player s)) of
        None \<Rightarrow> skip
      | Some m \<Rightarrow> chat_then
          (chat_bind (GetChannel m name (pl_guid (ses_player s))) (\<lambda>r.
            case r of None \<Rightarrow> skip | Some a \<Rightarrow> on_channel a (LeaveChannel (realm env) (ses_player s) True)))
          (LeftChannel_mgr m name)) (\<lambda>_. world_ok)" for name
  proof (cases "forTeam env (pl_team (ses_player s))")
    case (Some m)
    then show ?thesis
      using safe_bind [OF safe_call_channel [OF good_LeaveChannel, of env s name "realm env" "ses_player s"] safe_LeftChannel]
      by (simp add: call_channel_def)
  qed (auto intro: safe_return)
  then show ?thesis
    unfolding HandleLeaveChannel_def by (intro safe_decoded) (simp add: safe_return)
qed

lemma safe_handlers:
  "safe world_ok (HandleChannelList env s pkt) (\<lambda>_. world_ok)"
  "safe world_ok (HandleChannelPassword env s pkt) (\<lambda>_. world_ok)"
  "safe world_ok (HandleChannelSetOwner env s pkt) (\<lambda>_. world_ok)"
  "safe world_ok (HandleChannelOwner env s pkt) (\<lambda>_. world_ok)"
  "safe world_ok (HandleChannelModerator env s pkt) (\<lambda>_. world_ok)"
  "safe world_ok (HandleChannelUnmoderator env s pkt) (\<lambda>_. world_ok)"
  "safe world_ok (HandleChannelMute env s pkt) (\<lambda>_. world_ok)"
  "safe world_ok (HandleChannelUnmute env s pkt) (\<lambda>_. world_ok)"
  "safe world_ok (HandleChannelInvite env s pkt) (\<lambda>_. world_ok)"
  "safe world_ok (HandleChannelKick env s pkt) (\<lambda>_. world_ok)"
  "safe world_ok (HandleChannelBan env s pkt) (\<lambda>_. world_ok)"
  "safe world_ok (HandleChannelUnban env s pkt) (\<lambda>_. world_ok)"
  "safe world_ok (HandleChannelAnnouncements env s pkt) (\<lambda>_. world_ok)"
  "safe world_ok (HandleGetChannelMemberCount env s pkt) (\<lambda>_. world_ok)"
  "safe world_ok (HandleSetChannelWatch env s pkt) (\<lambda>_. world_ok)"
  "safe world_ok (HandleChannelVoiceOnOpcode env s pkt) (\<lambda>_. world_ok)"
  "safe world_ok (HandleChannelDisplayListQuery env s pkt) (\<lambda>_. world_ok)"
  unfolding HandleChannelList_def HandleChannelPassword_def HandleChannelSetOwner_def HandleChannelOwner_def
    HandleChannelModerator_def HandleChannelUnmoderator_def HandleChannelMute_def HandleChannelUnmute_def
    HandleChannelInvite_def HandleChannelKick_def HandleChannelBan_def HandleChannelUnban_def
    HandleChannelAnnouncements_def HandleGetChannelMemberCount_def HandleSetChannelWatch_def
    HandleChannelVoiceOnOpcode_def HandleChannelDisplayListQuery_def
  by (rule safe_decoded, simp add: case_prod_unfold safe_return safe_call_channel safe_call_with_target good_ops)+

lemma safe_message_to_channel: "safe world_ok (message_to_channel env s b name msg lang) (\<lambda>_. world_ok)"
  by (simp add: message_to_channel_def safe_return safe_call_channel good_ops)

section \<open>The server as a state machine\<close>

text \<open>What happens to the channels: packets of the clients, chat messages, players that log out, travel, or leave
  the channel of the group finder. The environment may differ from one event to the next.\<close>

datatype chat_event =
    ClientPacket ChatEnv Session u32 bytebuffer
  | ChatMessage ChatEnv Session bool str str u32
  | LogOut ChatEnv Session
  | NewZone ChatEnv Session u32
  | LeaveGroupFinder ChatEnv Session

primrec handle_event :: "chat_event \<Rightarrow> unit chat" where
  "handle_event (ClientPacket env s op pkt) =
     (case map_of channel_handlers op of None \<Rightarrow> skip | Some h \<Rightarrow> h env s pkt)"
| "handle_event (ChatMessage env s level_ok channelName msg lang) = message_to_channel env s level_ok channelName msg lang"
| "handle_event (LogOut env s) = CleanupChannels env s"
| "handle_event (NewZone env s z) = UpdateLocalChannels env s z"
| "handle_event (LeaveGroupFinder env s) = LeaveLFGChannel env s"

primrec event_session :: "chat_event \<Rightarrow> Session" where
  "event_session (ClientPacket env s op pkt) = s"
| "event_session (ChatMessage env s level_ok channelName msg lang) = s"
| "event_session (LogOut env s) = s"
| "event_session (NewZone env s z) = s"
| "event_session (LeaveGroupFinder env s) = s"

text \<open>Identifiers of players are counters of 32 bits that never reach their last value.\<close>

definition sound_event :: "chat_event \<Rightarrow> bool" where
  "sound_event ev \<longleftrightarrow> pl_guid (ses_player (event_session ev)) < guid_limit"

text \<open>A packet that cannot be decoded is skipped; a name that overruns its buffer has no defined effect.\<close>

inductive chat_step :: "ChannelWorld \<Rightarrow> ChannelWorld \<Rightarrow> bool" where
  handled: "sound_event ev \<Longrightarrow> handle_event ev w = Inr ((), es, w') \<Longrightarrow> chat_step w w'"
| skipped: "sound_event ev \<Longrightarrow> handle_event ev w = Inl (PacketError e) \<Longrightarrow> chat_step w w"

inductive chat_reachable :: "ChannelWorld \<Rightarrow> bool" where
  start: "chat_reachable ChannelWorld_new"
| step: "chat_reachable w \<Longrightarrow> chat_step w w' \<Longrightarrow> chat_reachable w'"

inductive_cases chat_stepE: "chat_step w w'"

lemma safe_handle_event:
  assumes "sound_event ev"
  shows "safe world_ok (handle_event ev) (\<lambda>_. world_ok)"
proof (cases ev)
  case (ClientPacket env s op pkt)
  with assms have s: "pl_guid (ses_player s) < guid_limit" by (simp add: sound_event_def)
  have "safe world_ok (h env s pkt) (\<lambda>_. world_ok)" if "(op, h) \<in> set channel_handlers" for h
    using that by (auto simp: channel_handlers_def safe_handlers safe_HandleLeaveChannel safe_HandleJoinChannel [OF s])
  with ClientPacket show ?thesis by (auto intro: safe_return dest: map_of_SomeD split: option.split)
next
  case (NewZone env s z)
  with assms show ?thesis by (simp add: sound_event_def safe_UpdateLocalChannels)
qed (simp_all add: safe_message_to_channel safe_LeaveLFGChannel safe_post [OF safe_CleanupChannels])

lemma safe_step: "safe P f Q \<Longrightarrow> P w \<Longrightarrow> f w = Inr (x, es, w') \<Longrightarrow> Q x w'"
  and safe_memory: "safe P f Q \<Longrightarrow> P w \<Longrightarrow> f w \<noteq> Inl (UseAfterFree a)"
  by (force simp: safe_def)+

lemma reachable_world_ok: "chat_reachable w \<Longrightarrow> world_ok w"
proof (induction rule: chat_reachable.induct)
  case start
  show ?case by (simp add: world_ok_def managers_ok_def stores_ok_def lists_ok_def ChannelWorld_new_def)
next
  case (step w w')
  from step.hyps(2) step.IH show ?case
    by (cases rule: chat_stepE) (auto dest: safe_step [OF safe_handle_event])
qed

text \<open>C22: However clients send requests, travel and log out, no event uses a channel after it was deleted; the
  managers hold only existing channels, and the list of a player holds, each once, only existing channels of
  which he is a member.\<close>

theorem channels_never_dangle:
  assumes "chat_reachable w" and "sound_event ev"
  shows "handle_event ev w \<noteq> Inl (UseAfterFree a) \<and> ran (channels w m) \<subseteq> dom (live w) \<and>
    distinct (m_channels w g) \<and> set (m_channels w g) \<subseteq> {a. \<exists>c. live w a = Some c \<and> IsOn g c}"
proof -
  have w: "world_ok w" using assms(1) by (rule reachable_world_ok)
  with safe_memory [OF safe_handle_event [OF assms(2)]] show ?thesis
    by (auto simp: world_ok_def managers_ok_def lists_ok_def ran_def)
qed

text \<open>A player creates a channel and logs out.\<close>

definition sample_env :: ChatEnv where
  "sample_env =
     \<lparr>realm = sample_realm, chat_channels = (\<lambda>_. None), num_chat_channels = 0, areas = (\<lambda>_. None), preserve_custom = False,
      channel_row = (\<lambda>_ _. None), city_text = []\<rparr>"

definition sample_session :: Session where
  "sample_session = \<lparr>ses_player = sample_ann, ses_GuildId = 0, ses_ZoneId = 1, ses_loading = False, ses_teleported_far = False\<rparr>"

abbreviation sample_request :: "nat \<Rightarrow> nat \<Rightarrow> u8 \<Rightarrow> bytebuffer" where
  "sample_request r k v \<equiv> \<lparr>rpos = r, wpos = 8, bitpos = k, curbitval = v, storage = [0, 0, 0, 0, 0, 0x40, 0, 88]\<rparr>"

definition sample_join :: chat_event where
  "sample_join = ClientPacket sample_env sample_session 0x156 (sample_request 0 8 0)"

definition sample_fresh :: Channel where
  "sample_fresh = snd (Channel_new [88] 0 469 None False None)"

definition sample_world :: ChannelWorld where
  "sample_world =
     \<lparr>live = [0 \<mapsto> snd (JoinChannel sample_realm sample_ann [] sample_fresh)], next_addr = 1,
      channels = (\<lambda>_. Map.empty)(AllianceChannelMgr := [[120] \<mapsto> 0]), mgr_team = (\<lambda>_. 0)(AllianceChannelMgr := 469),
      m_channels = (\<lambda>_. [])(1 := [0])\<rparr>"

lemma read_bits_acc_numeral:
  "read_bits_acc (numeral n) v b =
     bind_res (ReadBit b) (\<lambda>(t, b'). read_bits_acc (pred_numeral n) (if t then v OR push_bit (pred_numeral n) 1 else v) b')"
  by (simp add: numeral_eq_Suc)

lemma sample_octets:
  "read_u32 (sample_request 0 8 0) = Inr (0, sample_request 4 8 0)"
  "read_u8 (sample_request 4 0 0) = Inr (0, sample_request 5 0 0)"
  "read_u8 (sample_request 5 0 0) = Inr (0x40, sample_request 6 0 0)"
  "read_u8 (sample_request 6 0 0x40) = Inr (0, sample_request 7 0 0x40)"
  by code_simp+

lemma sample_decoded:
  "bind_res (read_u32 (sample_request 0 8 0)) (\<lambda>(channelId, b).
     bind_res (ReadBit b) (\<lambda>(unknown1, b1). bind_res (ReadBit b1) (\<lambda>(unknown2, b2).
     bind_res (read_names 8 8 True b2) (\<lambda>(channelName, password). Inr (channelId, channelName, password))))) =
   Inr (0, [88], [])"
  by (simp add: read_names_def ReadBits_def ReadBit_def size_inc_def sample_octets read_bits_acc_numeral ReadString_def
      bb_size_def)

lemma sample_parts:
  "channel_key [88] = Inr [120]" "fst (Channel_new [88] 0 469 None False None) = []"
  "moves (fst (JoinChannel sample_realm sample_ann [] sample_fresh)) = [JoinedChannel 1]"
  by code_simp+

lemma sample_fields:
  "realm sample_env = sample_realm" "chat_channels sample_env i = None" "preserve_custom sample_env = False"
  "channel_row sample_env n t = None" "forTeam sample_env 469 = Some AllianceChannelMgr"
  "ses_player sample_session = sample_ann" "pl_team sample_ann = 469"
  by (simp_all add: sample_ann_def forTeam_def sample_env_def sample_realm_def ALLIANCE_def sample_session_def)

lemma on_channel_live:
  "live w a = Some c \<Longrightarrow>
   on_channel a f w = Inr ((), fst (f c), note_effects a (fst (f c)) (w\<lparr>live := (live w)(a \<mapsto> snd (f c))\<rparr>))"
  by (simp add: on_channel_def case_prod_unfold)

lemma sample_join_handled:
  "handle_event sample_join ChannelWorld_new =
     Inr ((), fst (JoinChannel sample_realm sample_ann [] sample_fresh), sample_world)"
proof -
  let ?w = "\<lparr>live = [0 \<mapsto> sample_fresh], next_addr = 1,
    channels = (\<lambda>_. Map.empty)(AllianceChannelMgr := [[120] \<mapsto> 0]), mgr_team = (\<lambda>_. 0)(AllianceChannelMgr := 469),
    m_channels = \<lambda>_. []\<rparr>"
  have new: "Channel_new [88] 0 469 None False None = ([], sample_fresh)"
    by (simp add: prod_eq_iff sample_parts sample_fresh_def)
  have "GetJoinChannel sample_env AllianceChannelMgr [88] 0
      (ChannelWorld_new\<lparr>mgr_team := (\<lambda>_. 0)(AllianceChannelMgr := 469)\<rparr>) = Inr (0, [], ?w)"
    by (simp add: GetJoinChannel_def sample_parts naming_def chat_bind_def ChannelWorld_new_def sample_fields new)
  moreover have "on_channel 0 (JoinChannel sample_realm sample_ann []) ?w =
      Inr ((), fst (JoinChannel sample_realm sample_ann [] sample_fresh), sample_world)"
    by (subst on_channel_live, simp, subst note_effects_moves)
      (simp add: sample_parts JoinedChannel_list_def sample_world_def)
  ultimately have "chat_then (setTeam AllianceChannelMgr 469) (chat_bind (GetJoinChannel sample_env AllianceChannelMgr [88] 0)
      (\<lambda>a. on_channel a (JoinChannel sample_realm sample_ann []))) ChannelWorld_new =
      Inr ((), fst (JoinChannel sample_realm sample_ann [] sample_fresh), sample_world)"
    by (simp add: chat_bind_def setTeam_def chat_change_def) (simp add: ChannelWorld_new_def)
  then show ?thesis
    unfolding sample_join_def handle_event.simps HandleJoinChannel_def
    by (simp add: channel_handlers_def HandleJoinChannel_def sample_decoded sample_fields chat_bind_def [of "decode r" for r]
        decode_def)
qed

theorem channels_never_dangle_witness:
  "m_channels sample_world 1 = [0] \<and> dom (live sample_world) = {0} \<and>
   handle_event (LogOut sample_env sample_session) sample_world \<noteq> Inl (UseAfterFree 0) \<and>
   ran (channels sample_world AllianceChannelMgr) \<subseteq> {0}"
proof -
  have sound: "sound_event sample_join" "sound_event (LogOut sample_env sample_session)"
    by (simp_all add: sound_event_def sample_join_def sample_session_def sample_ann_def guid_limit_def)
  have r: "chat_reachable sample_world"
    using sound(1) sample_join_handled by (auto intro: chat_reachable.intros chat_step.handled)
  have "m_channels sample_world 1 = [0]" "dom (live sample_world) = {0}" by (simp_all add: sample_world_def)
  then show ?thesis
    using channels_never_dangle [OF r sound(2), of 0 AllianceChannelMgr 1] by simp
qed

end
