(* ===== verification/Reputation.thy ===== *)
theory Reputation
  imports StdMap
begin

text \<open>
  \<^verbatim>\<open>class ReputationMgr\<close> of \<^verbatim>\<open>game/Reputation/ReputationMgr.h\<close> and \<^verbatim>\<open>ReputationMgr.cpp\<close>: the standing of a player with
  the factions of the game, how it spills over to other factions, what the client is told and what is
  saved. An \<^verbatim>\<open>int32\<close> is an integer with the wrap-around of sums written out (\<open>int32\<close>). The client's faction table,
  the rates and the arithmetic on floats are fields of a record; a null faction that is used is an error.
  Notifications of quests, achievements and scripts, packets and database statements are effects.
\<close>

section \<open>Ranks\<close>

datatype ReputationRank =
    REP_HATED | REP_HOSTILE | REP_UNFRIENDLY | REP_NEUTRAL | REP_FRIENDLY | REP_HONORED | REP_REVERED | REP_EXALTED

primrec rank_val :: "ReputationRank \<Rightarrow> nat" where
  "rank_val REP_HATED = 0"
| "rank_val REP_HOSTILE = 1"
| "rank_val REP_UNFRIENDLY = 2"
| "rank_val REP_NEUTRAL = 3"
| "rank_val REP_FRIENDLY = 4"
| "rank_val REP_HONORED = 5"
| "rank_val REP_REVERED = 6"
| "rank_val REP_EXALTED = 7"

definition all_ranks :: "ReputationRank list" where
  "all_ranks = [REP_HATED, REP_HOSTILE, REP_UNFRIENDLY, REP_NEUTRAL, REP_FRIENDLY, REP_HONORED, REP_REVERED, REP_EXALTED]"

lemma rank_val_inj: "rank_val a = rank_val b \<Longrightarrow> a = b"
  by (cases a; cases b) simp_all

instantiation ReputationRank :: linorder
begin

definition less_eq_ReputationRank :: "ReputationRank \<Rightarrow> ReputationRank \<Rightarrow> bool" where
  "a \<le> b \<longleftrightarrow> rank_val a \<le> rank_val b"

definition less_ReputationRank :: "ReputationRank \<Rightarrow> ReputationRank \<Rightarrow> bool" where
  "a < b \<longleftrightarrow> rank_val a < rank_val b"

instance
  by standard (auto simp: less_eq_ReputationRank_def less_ReputationRank_def dest: rank_val_inj)

end

definition int32 :: "int \<Rightarrow> int" where
  "int32 x = (x + 2 ^ 31) mod 2 ^ 32 - 2 ^ 31"

definition PointsInRank :: "int list" where
  "PointsInRank = [36000, 3000, 3000, 3000, 6000, 12000, 21000, 1000]"

definition Reputation_Cap :: int where "Reputation_Cap = 42999"
definition Reputation_Bottom :: int where "Reputation_Bottom = -42000"

text \<open>The loop from the highest rank down.\<close>

primrec rank_from :: "nat \<Rightarrow> int \<Rightarrow> int \<Rightarrow> ReputationRank" where
  "rank_from 0 limit standing = REP_HATED"
| "rank_from (Suc i) limit standing =
     (if standing \<ge> limit - PointsInRank ! i then all_ranks ! i
      else rank_from i (limit - PointsInRank ! i) standing)"

definition ReputationToRank :: "int \<Rightarrow> ReputationRank" where
  "ReputationToRank standing = rank_from 8 (Reputation_Cap + 1) standing"

section \<open>State\<close>

definition FACTION_FLAG_VISIBLE :: u8 where "FACTION_FLAG_VISIBLE = 0x01"
definition FACTION_FLAG_AT_WAR :: u8 where "FACTION_FLAG_AT_WAR = 0x02"
definition FACTION_FLAG_HIDDEN :: u8 where "FACTION_FLAG_HIDDEN = 0x04"
definition FACTION_FLAG_INVISIBLE_FORCED :: u8 where "FACTION_FLAG_INVISIBLE_FORCED = 0x08"
definition FACTION_FLAG_PEACE_FORCED :: u8 where "FACTION_FLAG_PEACE_FORCED = 0x10"
definition FACTION_FLAG_INACTIVE :: u8 where "FACTION_FLAG_INACTIVE = 0x20"
definition FACTION_FLAG_SPECIAL :: u8 where "FACTION_FLAG_SPECIAL = 0x80"

record FactionState =
  fs_ID :: u32
  ReputationListID :: u32
  Standing :: int
  Flags :: u8
  needSend :: bool
  needSave :: bool

record ReputationMgr =
  factions :: "(u32 \<times> FactionState) list"
  forcedReactions :: "(u32 \<times> ReputationRank) list"
  visibleFactionCount :: u8
  honoredFactionCount :: u8
  reveredFactionCount :: u8
  exaltedFactionCount :: u8
  sendFactionIncreased :: bool

definition ReputationMgr_new :: ReputationMgr where
  "ReputationMgr_new =
     \<lparr>factions = [], forcedReactions = [], visibleFactionCount = 0, honoredFactionCount = 0, reveredFactionCount = 0,
      exaltedFactionCount = 0, sendFactionIncreased = False\<rparr>"

text \<open>Rows of the client's faction table; an array of four is a function.\<close>

record FactionEntry =
  entry_ID :: u32
  reputationListID :: int
  BaseRepRaceMask :: "nat \<Rightarrow> u32"
  BaseRepClassMask :: "nat \<Rightarrow> u32"
  BaseRepValue :: "nat \<Rightarrow> int"
  ReputationFlags :: "nat \<Rightarrow> u32"
  entry_team :: u32
  spilloverRateIn :: f32
  spilloverRateOut :: f32
  spilloverMaxRankIn :: u32

record RepSpilloverTemplate =
  tpl_faction :: "nat \<Rightarrow> u32"
  faction_rate :: "nat \<Rightarrow> f32"
  faction_rank :: "nat \<Rightarrow> u32"

record FloatOps =
  f_of_int :: "int \<Rightarrow> f32"
  f_to_int :: "f32 \<Rightarrow> int"
  f_mul :: "f32 \<Rightarrow> f32 \<Rightarrow> f32"
  f_add :: "f32 \<Rightarrow> f32 \<Rightarrow> f32"
  f_floor :: "f32 \<Rightarrow> f32"
  f_is_zero :: "f32 \<Rightarrow> bool"

record RepEnv =
  faction_entry :: "u32 \<Rightarrow> FactionEntry option"
  faction_rows :: nat
  raceMask :: u32
  classMask :: u32
  player_level :: u32
  player_loading :: bool
  gain_rate :: f32
  half :: f32
  fops :: FloatOps
  spillover_template :: "u32 \<Rightarrow> RepSpilloverTemplate option"
  team_list :: "u32 \<Rightarrow> u32 list option"
  script_standing :: "u32 \<Rightarrow> int \<Rightarrow> bool \<Rightarrow> int"

datatype rep_effect =
    SendDirectMessage u32 "u8 list"
  | ReputationChanged u32
  | UpdateAchievementCriteria nat u32
  | UpdateGuildAchievementCriteria nat u32
  | DeleteReputation u16
  | InsertReputation u16 int u16

datatype rep_error = NullFaction

section \<open>Queries\<close>

definition list_id :: "FactionEntry \<Rightarrow> u32" where
  "list_id e = word_of_int (reputationListID e)"

definition CanHaveReputation :: "FactionEntry \<Rightarrow> bool" where
  "CanHaveReputation e \<longleftrightarrow> reputationListID e \<ge> 0"

definition GetState :: "FactionEntry \<Rightarrow> ReputationMgr \<Rightarrow> FactionState option" where
  "GetState e m = (if CanHaveReputation e then map_of (factions m) (list_id e) else None)"

definition base_matches :: "RepEnv \<Rightarrow> FactionEntry \<Rightarrow> nat \<Rightarrow> bool" where
  "base_matches env e i \<longleftrightarrow>
     (BaseRepRaceMask e i AND raceMask env \<noteq> 0 \<or> BaseRepRaceMask e i = 0 \<and> BaseRepClassMask e i \<noteq> 0) \<and>
     (BaseRepClassMask e i AND classMask env \<noteq> 0 \<or> BaseRepClassMask e i = 0)"

definition GetBaseReputation :: "RepEnv \<Rightarrow> FactionEntry \<Rightarrow> int" where
  "GetBaseReputation env e = (case find (base_matches env e) [0..<4] of None \<Rightarrow> 0 | Some i \<Rightarrow> BaseRepValue e i)"

definition GetDefaultStateFlags :: "RepEnv \<Rightarrow> FactionEntry \<Rightarrow> u32" where
  "GetDefaultStateFlags env e = (case find (base_matches env e) [0..<4] of None \<Rightarrow> 0 | Some i \<Rightarrow> ReputationFlags e i)"

definition GetReputation :: "RepEnv \<Rightarrow> FactionEntry option \<Rightarrow> ReputationMgr \<Rightarrow> int" where
  "GetReputation env eo m =
     (case eo of
        None \<Rightarrow> 0
      | Some e \<Rightarrow> (case GetState e m of None \<Rightarrow> 0 | Some st \<Rightarrow> int32 (GetBaseReputation env e + Standing st)))"

definition GetReputation_id :: "RepEnv \<Rightarrow> u32 \<Rightarrow> ReputationMgr \<Rightarrow> int" where
  "GetReputation_id env i m =
     (case faction_entry env i of None \<Rightarrow> 0 | Some e \<Rightarrow> GetReputation env (Some e) m)"

definition GetRank :: "RepEnv \<Rightarrow> FactionEntry option \<Rightarrow> ReputationMgr \<Rightarrow> ReputationRank" where
  "GetRank env eo m = ReputationToRank (GetReputation env eo m)"

definition GetBaseRank :: "RepEnv \<Rightarrow> FactionEntry \<Rightarrow> ReputationRank" where
  "GetBaseRank env e = ReputationToRank (GetBaseReputation env e)"

definition GetReputationRank :: "RepEnv \<Rightarrow> u32 \<Rightarrow> ReputationMgr \<Rightarrow> ReputationRank" where
  "GetReputationRank env i m = GetRank env (faction_entry env i) m"

definition IsAtWar :: "FactionEntry option \<Rightarrow> ReputationMgr \<Rightarrow> bool" where
  "IsAtWar eo m =
     (case eo of
        None \<Rightarrow> False
      | Some e \<Rightarrow> (case GetState e m of None \<Rightarrow> False | Some st \<Rightarrow> Flags st AND FACTION_FLAG_AT_WAR \<noteq> 0))"

definition IsAtWar_id :: "RepEnv \<Rightarrow> u32 \<Rightarrow> ReputationMgr \<Rightarrow> bool" where
  "IsAtWar_id env i m = (case faction_entry env i of None \<Rightarrow> False | Some e \<Rightarrow> IsAtWar (Some e) m)"

definition GetForcedRankIfAny :: "u32 \<Rightarrow> ReputationMgr \<Rightarrow> ReputationRank option" where
  "GetForcedRankIfAny faction m = map_of (forcedReactions m) faction"

definition ApplyForceReaction :: "u32 \<Rightarrow> ReputationRank \<Rightarrow> bool \<Rightarrow> ReputationMgr \<Rightarrow> ReputationMgr" where
  "ApplyForceReaction faction_id rank apply m =
     (if apply then m\<lparr>forcedReactions := store_put faction_id rank (forcedReactions m)\<rparr>
      else m\<lparr>forcedReactions := store_erase faction_id (forcedReactions m)\<rparr>)"

section \<open>Packets\<close>

definition SMSG_SET_FORCED_REACTIONS :: u32 where "SMSG_SET_FORCED_REACTIONS = 0x4615"
definition SMSG_SET_FACTION_STANDING :: u32 where "SMSG_SET_FACTION_STANDING = 0x0126"
definition SMSG_INITIALIZE_FACTIONS :: u32 where "SMSG_INITIALIZE_FACTIONS = 0x4634"
definition SMSG_SET_FACTION_VISIBLE :: u32 where "SMSG_SET_FACTION_VISIBLE = 0x2525"

definition u32_bytes :: "u32 \<Rightarrow> u8 list" where
  "u32_bytes v = le_bytes 4 v"

definition standing_bytes :: "FactionState \<Rightarrow> u8 list" where
  "standing_bytes st = u32_bytes (word_of_int (Standing st))"

definition SendForceReactions :: "ReputationMgr \<Rightarrow> rep_effect list" where
  "SendForceReactions m =
     [SendDirectMessage SMSG_SET_FORCED_REACTIONS
        (u32_bytes (of_nat (length (forcedReactions m))) @
         concat (map (\<lambda>(f, r). u32_bytes f @ u32_bytes (of_nat (rank_val r))) (forcedReactions m)))]"

text \<open>\<^verbatim>\<open>SendState\<close>: the faction itself, then the others with \<^verbatim>\<open>needSend\<close>; the count is put in afterwards.\<close>

definition SendState :: "FactionState \<Rightarrow> ReputationMgr \<Rightarrow> rep_effect list \<times> ReputationMgr" where
  "SendState faction m =
     (let others = filter (\<lambda>(k, st). needSend st \<and> ReputationListID st \<noteq> ReputationListID faction) (factions m) in
      ([SendDirectMessage SMSG_SET_FACTION_STANDING
          (u32_bytes 0 @ [of_bool (sendFactionIncreased m)] @ u32_bytes (1 + of_nat (length others)) @
           u32_bytes (ReputationListID faction) @ standing_bytes faction @
           concat (map (\<lambda>(k, st). u32_bytes (ReputationListID st) @ standing_bytes st) others))],
       m\<lparr>sendFactionIncreased := False,
         factions := map (\<lambda>(k, st). (k, st\<lparr>needSend := False\<rparr>)) (factions m)\<rparr>))"

text \<open>The loops that fill the gaps between the list positions count modulo \<^verbatim>\<open>2^32\<close>.\<close>

definition absent_fields :: "u32 \<Rightarrow> u32 \<Rightarrow> u8 list" where
  "absent_fields a b = concat (replicate (unat (b - a)) ([0] @ u32_bytes 0))"

primrec initial_fields :: "u32 \<Rightarrow> (u32 \<times> FactionState) list \<Rightarrow> u8 list" where
  "initial_fields a [] = absent_fields a 256"
| "initial_fields a (x # xs) =
     absent_fields a (fst x) @ [Flags (snd x)] @ standing_bytes (snd x) @ initial_fields (fst x + 1) xs"

definition SendInitialReputations :: "ReputationMgr \<Rightarrow> rep_effect list \<times> ReputationMgr" where
  "SendInitialReputations m =
     ([SendDirectMessage SMSG_INITIALIZE_FACTIONS (u32_bytes 256 @ initial_fields 0 (factions m))],
      m\<lparr>factions := map (\<lambda>(k, st). (k, st\<lparr>needSend := False\<rparr>)) (factions m)\<rparr>)"

text \<open>\<^verbatim>\<open>SendStates\<close> sends every faction as it is when its turn comes.\<close>

primrec send_states :: "u32 list \<Rightarrow> ReputationMgr \<Rightarrow> rep_effect list \<times> ReputationMgr" where
  "send_states [] m = ([], m)"
| "send_states (k # ks) m =
     (case map_of (factions m) k of
        None \<Rightarrow> send_states ks m
      | Some st \<Rightarrow>
          (case SendState st m of (es, m1) \<Rightarrow> (case send_states ks m1 of (es', m2) \<Rightarrow> (es @ es', m2))))"

definition SendStates :: "ReputationMgr \<Rightarrow> rep_effect list \<times> ReputationMgr" where
  "SendStates m = send_states (map fst (factions m)) m"

definition SendVisible :: "RepEnv \<Rightarrow> FactionState \<Rightarrow> rep_effect list" where
  "SendVisible env faction =
     (if player_loading env then []
      else [SendDirectMessage SMSG_SET_FACTION_VISIBLE (u32_bytes (ReputationListID faction))])"

section \<open>Flags and counters\<close>

text \<open>A pointer to a state is the position of the state in the map.\<close>

definition put_state :: "u32 \<Rightarrow> FactionState \<Rightarrow> ReputationMgr \<Rightarrow> ReputationMgr" where
  "put_state k st m = m\<lparr>factions := store_put k st (factions m)\<rparr>"

definition state_at :: "u32 \<Rightarrow> ReputationMgr \<Rightarrow> FactionState" where
  "state_at k m =
     (case map_of (factions m) k of
        None \<Rightarrow> \<lparr>fs_ID = 0, ReputationListID = 0, Standing = 0, Flags = 0, needSend = False, needSave = False\<rparr>
      | Some st \<Rightarrow> st)"

definition SetVisible_state :: "RepEnv \<Rightarrow> u32 \<Rightarrow> ReputationMgr \<Rightarrow> rep_effect list \<times> ReputationMgr" where
  "SetVisible_state env k m =
     (let faction = state_at k m in
      if Flags faction AND (FACTION_FLAG_INVISIBLE_FORCED OR FACTION_FLAG_HIDDEN) \<noteq> 0 \<and> Flags faction AND FACTION_FLAG_SPECIAL = 0
      then ([], m)
      else if Flags faction AND FACTION_FLAG_VISIBLE \<noteq> 0 then ([], m)
      else
        let faction' = faction\<lparr>Flags := Flags faction OR FACTION_FLAG_VISIBLE, needSend := True, needSave := True\<rparr> in
        (SendVisible env faction',
         (put_state k faction' m)\<lparr>visibleFactionCount := visibleFactionCount m + 1\<rparr>))"

definition SetVisible :: "RepEnv \<Rightarrow> FactionEntry \<Rightarrow> ReputationMgr \<Rightarrow> rep_effect list \<times> ReputationMgr" where
  "SetVisible env e m =
     (if reputationListID e < 0 then ([], m)
      else if map_of (factions m) (list_id e) = None then ([], m)
      else SetVisible_state env (list_id e) m)"

definition SetVisible_template :: "RepEnv \<Rightarrow> u32 \<Rightarrow> ReputationMgr \<Rightarrow> rep_effect list \<times> ReputationMgr" where
  "SetVisible_template env faction m =
     (if faction = 0 then ([], m)
      else
        case faction_entry env faction of
          None \<Rightarrow> ([], m)
        | Some e \<Rightarrow>
            if \<not> (BaseRepRaceMask e 1 AND raceMask env \<noteq> 0 \<and> BaseRepValue e 1 = Reputation_Bottom)
            then SetVisible env e m else ([], m))"

definition SetAtWar_state :: "bool \<Rightarrow> FactionState \<Rightarrow> FactionState" where
  "SetAtWar_state atWar faction =
     (if atWar \<and> Flags faction AND FACTION_FLAG_PEACE_FORCED \<noteq> 0 then faction
      else if (Flags faction AND FACTION_FLAG_AT_WAR \<noteq> 0) = atWar then faction
      else faction\<lparr>Flags := (if atWar then Flags faction OR FACTION_FLAG_AT_WAR else Flags faction AND NOT FACTION_FLAG_AT_WAR),
                   needSend := True, needSave := True\<rparr>)"

definition SetAtWar :: "u32 \<Rightarrow> bool \<Rightarrow> ReputationMgr \<Rightarrow> ReputationMgr" where
  "SetAtWar k on m =
     (case map_of (factions m) k of
        None \<Rightarrow> m
      | Some st \<Rightarrow>
          if Flags st AND (FACTION_FLAG_INVISIBLE_FORCED OR FACTION_FLAG_HIDDEN) \<noteq> 0 then m
          else put_state k (SetAtWar_state on st) m)"

definition SetInactive_state :: "bool \<Rightarrow> FactionState \<Rightarrow> FactionState" where
  "SetInactive_state inactive faction =
     (if inactive \<and> (Flags faction AND (FACTION_FLAG_INVISIBLE_FORCED OR FACTION_FLAG_HIDDEN) \<noteq> 0 \<or>
                     Flags faction AND FACTION_FLAG_VISIBLE = 0)
      then faction
      else if (Flags faction AND FACTION_FLAG_INACTIVE \<noteq> 0) = inactive then faction
      else faction\<lparr>Flags := (if inactive then Flags faction OR FACTION_FLAG_INACTIVE else Flags faction AND NOT FACTION_FLAG_INACTIVE),
                   needSend := True, needSave := True\<rparr>)"

definition SetInactive :: "u32 \<Rightarrow> bool \<Rightarrow> ReputationMgr \<Rightarrow> ReputationMgr" where
  "SetInactive k on m =
     (case map_of (factions m) k of None \<Rightarrow> m | Some st \<Rightarrow> put_state k (SetInactive_state on st) m)"

definition UpdateRankCounters :: "ReputationRank \<Rightarrow> ReputationRank \<Rightarrow> ReputationMgr \<Rightarrow> ReputationMgr" where
  "UpdateRankCounters old new m =
     m\<lparr>exaltedFactionCount := exaltedFactionCount m - of_bool (old \<ge> REP_EXALTED) + of_bool (new \<ge> REP_EXALTED),
       reveredFactionCount := reveredFactionCount m - of_bool (old \<ge> REP_REVERED) + of_bool (new \<ge> REP_REVERED),
       honoredFactionCount := honoredFactionCount m - of_bool (old \<ge> REP_HONORED) + of_bool (new \<ge> REP_HONORED)\<rparr>"

section \<open>Changing a standing\<close>

definition notify_reputation :: "RepEnv \<Rightarrow> u32 \<Rightarrow> rep_effect list" where
  "notify_reputation env i =
     [ReputationChanged i, UpdateAchievementCriteria 89 i, UpdateAchievementCriteria 46 i, UpdateAchievementCriteria 47 i,
      UpdateAchievementCriteria 87 i, UpdateAchievementCriteria 88 i, UpdateGuildAchievementCriteria 46 i,
      UpdateGuildAchievementCriteria 47 i] @
     (if i = 1168 then [UpdateGuildAchievementCriteria 5 (player_level env)] else [])"

definition clamp_standing :: "int \<Rightarrow> int" where
  "clamp_standing s = (if s > Reputation_Cap then Reputation_Cap else if s < Reputation_Bottom then Reputation_Bottom else s)"

definition gained :: "RepEnv \<Rightarrow> int \<Rightarrow> int" where
  "gained env s =
     (let f = fops env in
      int32 (f_to_int f (f_floor f (f_add f (f_mul f (f_of_int f s) (gain_rate env)) (half env)))))"

definition SetOneFactionReputation ::
  "RepEnv \<Rightarrow> FactionEntry \<Rightarrow> int \<Rightarrow> bool \<Rightarrow> ReputationMgr \<Rightarrow> bool \<times> rep_effect list \<times> ReputationMgr" where
  "SetOneFactionReputation env e standing incremental m =
     (let k = list_id e in
      case map_of (factions m) k of
        None \<Rightarrow> (False, [], m)
      | Some st \<Rightarrow>
          let BaseRep = GetBaseReputation env e;
              s1 = (if incremental then int32 (gained env standing + int32 (Standing st + BaseRep)) else standing);
              s2 = clamp_standing s1;
              old_rank = ReputationToRank (int32 (Standing st + BaseRep));
              new_rank = ReputationToRank s2;
              m1 = put_state k (st\<lparr>Standing := int32 (s2 - BaseRep), needSend := True, needSave := True\<rparr>) m;
              (es, m2) = SetVisible_state env k m1;
              m3 = (if new_rank \<le> REP_HOSTILE then put_state k (SetAtWar_state True (state_at k m2)) m2 else m2);
              m4 = (if new_rank > old_rank then m3\<lparr>sendFactionIncreased := True\<rparr> else m3)
          in (True, es @ notify_reputation env (entry_ID e), UpdateRankCounters old_rank new_rank m4))"

text \<open>The two ways of spilling over: by a template of the database, or by the rates of the client's table. Two
  pointers into the table are equal when the identifiers of the rows are.\<close>

definition MAX_SPILLOVER_FACTIONS :: nat where "MAX_SPILLOVER_FACTIONS = 5"

primrec spill_template ::
  "RepEnv \<Rightarrow> RepSpilloverTemplate \<Rightarrow> int \<Rightarrow> bool \<Rightarrow> nat list \<Rightarrow> ReputationMgr \<Rightarrow> rep_error + rep_effect list \<times> ReputationMgr" where
  "spill_template env t standing incremental [] m = Inr ([], m)"
| "spill_template env t standing incremental (i # is) m =
     (if tpl_faction t i \<noteq> 0 \<and> of_nat (rank_val (GetReputationRank env (tpl_faction t i) m)) \<le> faction_rank t i
      then
        case faction_entry env (tpl_faction t i) of
          None \<Rightarrow> Inl NullFaction
        | Some e \<Rightarrow>
            let f = fops env;
                spilloverRep = int32 (f_to_int f (f_mul f (f_of_int f standing) (faction_rate t i)));
                (r, es, m1) = SetOneFactionReputation env e spilloverRep incremental m
            in bind_res (spill_template env t standing incremental is m1) (\<lambda>(es', m2). Inr (es @ es', m2))
      else spill_template env t standing incremental is m)"

primrec spill_list ::
  "RepEnv \<Rightarrow> FactionEntry \<Rightarrow> f32 \<Rightarrow> bool \<Rightarrow> u32 list \<Rightarrow> bool \<Rightarrow> ReputationMgr \<Rightarrow> bool \<times> rep_effect list \<times> ReputationMgr" where
  "spill_list env e out incremental [] res m = (res, [], m)"
| "spill_list env e out incremental (i # is) res m =
     (case faction_entry env i of
        None \<Rightarrow> spill_list env e out incremental is res m
      | Some calc \<Rightarrow>
          if entry_ID calc = entry_ID e \<or> of_nat (rank_val (GetRank env (Some calc) m)) > spilloverMaxRankIn calc
          then spill_list env e out incremental is res m
          else
            let f = fops env; spilloverRep = int32 (f_to_int f (f_mul f out (spilloverRateIn calc))) in
            if spilloverRep \<noteq> 0 \<or> \<not> incremental
            then
              let (r, es, m1) = SetOneFactionReputation env calc spilloverRep incremental m;
                  (res', es', m2) = spill_list env e out incremental is r m1
              in (res', es @ es', m2)
            else spill_list env e out incremental is res m)"

definition spill_table ::
  "RepEnv \<Rightarrow> FactionEntry \<Rightarrow> int \<Rightarrow> bool \<Rightarrow> ReputationMgr \<Rightarrow> bool \<times> rep_effect list \<times> ReputationMgr" where
  "spill_table env e standing incremental m =
     (let f = fops env; out = f_of_int f standing in
      case team_list env (entry_ID e) of
        Some flist \<Rightarrow> spill_list env e out incremental flist False m
      | None \<Rightarrow>
          if entry_team e \<noteq> 0 \<and> \<not> f_is_zero f (spilloverRateOut e)
          then
            let out' = f_mul f out (spilloverRateOut e) in
            (case faction_entry env (entry_team e) of
               None \<Rightarrow> (False, [], m)
             | Some parent \<Rightarrow>
                 if (case map_of (factions m) (list_id parent) of None \<Rightarrow> False | Some st \<Rightarrow> Flags st AND FACTION_FLAG_SPECIAL \<noteq> 0)
                 then
                   let (r, es, m1) = SetOneFactionReputation env parent (int32 (f_to_int f out')) incremental m
                   in (False, es, m1)
                 else
                   (case team_list env (entry_team e) of
                      None \<Rightarrow> (False, [], m)
                    | Some flist \<Rightarrow> spill_list env e out' incremental flist False m))
          else (False, [], m))"

definition SetReputation_inc ::
  "RepEnv \<Rightarrow> FactionEntry \<Rightarrow> int \<Rightarrow> bool \<Rightarrow> ReputationMgr \<Rightarrow> rep_error + bool \<times> rep_effect list \<times> ReputationMgr" where
  "SetReputation_inc env e standing0 incremental m =
     (let standing = script_standing env (entry_ID e) standing0 incremental in
      bind_res
        (case spillover_template env (entry_ID e) of
           Some t \<Rightarrow>
             bind_res (spill_template env t standing incremental [0..<MAX_SPILLOVER_FACTIONS] m) (\<lambda>(es, m1). Inr (False, es, m1))
         | None \<Rightarrow> Inr (spill_table env e standing incremental m))
        (\<lambda>(res, es, m1).
           if map_of (factions m1) (list_id e) = None then Inr (res, es, m1)
           else
             let (res', es', m2) = SetOneFactionReputation env e standing incremental m1;
                 (es'', m3) = SendState (state_at (list_id e) m2) m2
             in Inr (res', es @ es' @ es'', m3)))"

definition SetReputation ::
  "RepEnv \<Rightarrow> FactionEntry \<Rightarrow> int \<Rightarrow> ReputationMgr \<Rightarrow> rep_error + bool \<times> rep_effect list \<times> ReputationMgr" where
  "SetReputation env e standing m = SetReputation_inc env e standing False m"

definition ModifyReputation ::
  "RepEnv \<Rightarrow> FactionEntry \<Rightarrow> int \<Rightarrow> ReputationMgr \<Rightarrow> rep_error + bool \<times> rep_effect list \<times> ReputationMgr" where
  "ModifyReputation env e standing m = SetReputation_inc env e standing True m"

section \<open>Loading and saving\<close>

definition init_row :: "RepEnv \<Rightarrow> u32 \<Rightarrow> ReputationMgr \<Rightarrow> ReputationMgr" where
  "init_row env i m =
     (case faction_entry env i of
        None \<Rightarrow> m
      | Some e \<Rightarrow>
          if reputationListID e \<ge> 0
          then
            let newFaction = \<lparr>fs_ID = entry_ID e, ReputationListID = list_id e, Standing = 0,
                              Flags = ucast (GetDefaultStateFlags env e), needSend = True, needSave = True\<rparr>;
                m1 = (if Flags newFaction AND FACTION_FLAG_VISIBLE \<noteq> 0
                      then m\<lparr>visibleFactionCount := visibleFactionCount m + 1\<rparr> else m)
            in put_state (ReputationListID newFaction) newFaction (UpdateRankCounters REP_HOSTILE (GetBaseRank env e) m1)
          else m)"

definition Initialize :: "RepEnv \<Rightarrow> ReputationMgr \<Rightarrow> ReputationMgr" where
  "Initialize env m =
     fold (init_row env) (map of_nat [1..<faction_rows env])
       (m\<lparr>factions := [], visibleFactionCount := 0, honoredFactionCount := 0, reveredFactionCount := 0,
          exaltedFactionCount := 0, sendFactionIncreased := False\<rparr>)"

definition load_row :: "RepEnv \<Rightarrow> u16 \<times> int \<times> u16 \<Rightarrow> ReputationMgr \<Rightarrow> rep_effect list \<times> ReputationMgr" where
  "load_row env row m =
     (case row of (faction_id, standing, db_flags) \<Rightarrow>
      case faction_entry env (ucast faction_id) of
        None \<Rightarrow> ([], m)
      | Some e \<Rightarrow>
          if reputationListID e \<ge> 0
          then
            let k = list_id e; BaseRep = GetBaseReputation env e;
                m1 = UpdateRankCounters (ReputationToRank BaseRep) (ReputationToRank (int32 (BaseRep + standing)))
                       (put_state k ((state_at k m)\<lparr>Standing := standing\<rparr>) m);
                dbFactionFlags = (ucast db_flags :: u32);
                (es, m2) = (if dbFactionFlags AND ucast FACTION_FLAG_VISIBLE \<noteq> 0 then SetVisible_state env k m1 else ([], m1));
                m3 = (if dbFactionFlags AND ucast FACTION_FLAG_INACTIVE \<noteq> 0
                      then put_state k (SetInactive_state True (state_at k m2)) m2 else m2);
                m4 = (if dbFactionFlags AND ucast FACTION_FLAG_AT_WAR \<noteq> 0
                      then put_state k (SetAtWar_state True (state_at k m3)) m3
                      else if Flags (state_at k m3) AND FACTION_FLAG_VISIBLE \<noteq> 0
                      then put_state k (SetAtWar_state False (state_at k m3)) m3 else m3);
                m5 = (if GetRank env (Some e) m4 \<le> REP_HOSTILE
                      then put_state k (SetAtWar_state True (state_at k m4)) m4 else m4);
                m6 = (if ucast (Flags (state_at k m5)) = dbFactionFlags
                      then put_state k ((state_at k m5)\<lparr>needSend := False, needSave := False\<rparr>) m5 else m5)
            in (es, m6)
          else ([], m))"

primrec load_rows :: "RepEnv \<Rightarrow> (u16 \<times> int \<times> u16) list \<Rightarrow> ReputationMgr \<Rightarrow> rep_effect list \<times> ReputationMgr" where
  "load_rows env [] m = ([], m)"
| "load_rows env (row # rows) m =
     (case load_row env row m of (es, m1) \<Rightarrow> (case load_rows env rows m1 of (es', m2) \<Rightarrow> (es @ es', m2)))"

definition LoadFromDB :: "RepEnv \<Rightarrow> (u16 \<times> int \<times> u16) list \<Rightarrow> ReputationMgr \<Rightarrow> rep_effect list \<times> ReputationMgr" where
  "LoadFromDB env rows m = load_rows env rows (Initialize env m)"

definition save_statements :: "FactionState \<Rightarrow> rep_effect list" where
  "save_statements st =
     (if needSave st
      then [DeleteReputation (ucast (fs_ID st)), InsertReputation (ucast (fs_ID st)) (Standing st) (ucast (Flags st))]
      else [])"

definition SaveToDB :: "ReputationMgr \<Rightarrow> rep_effect list \<times> ReputationMgr" where
  "SaveToDB m =
     (concat (map (\<lambda>(k, st). save_statements st) (factions m)),
      m\<lparr>factions := map (\<lambda>(k, st). (k, st\<lparr>needSave := False\<rparr>)) (factions m)\<rparr>)"

end
