(* ===== verification/ReputationProps.thy ===== *)
theory ReputationProps
  imports Reputation
begin

text \<open>
  Properties of reputations: the counters of the manager and the range of every standing are kept by all
  operations, a new standing is what was asked for within the range, the first packet to the client has
  every faction in its place, and what is saved is what the next session loads.
\<close>

section \<open>Flags as bits\<close>

lemmas flag_defs = FACTION_FLAG_VISIBLE_def FACTION_FLAG_AT_WAR_def FACTION_FLAG_HIDDEN_def FACTION_FLAG_INVISIBLE_FORCED_def
  FACTION_FLAG_PEACE_FORCED_def FACTION_FLAG_INACTIVE_def FACTION_FLAG_SPECIAL_def

lemma and_power: "w AND 2 ^ n = 0 \<longleftrightarrow> \<not> bit w n" if "n < LENGTH('a)" for w :: "'a::len word"
  using that by (auto simp: bit_eq_iff [where ?'a = "'a word"] bit_and_iff bit_exp_iff)

lemma and_or_zero: "w AND (a OR b) = 0 \<longleftrightarrow> w AND a = 0 \<and> w AND b = 0" for w :: "'a::len word"
  by (auto simp: bit_eq_iff [where ?'a = "'a word"] bit_and_iff bit_or_iff)

lemma or_power: "bit (w OR 2 ^ k) n \<longleftrightarrow> bit w n \<or> n = k" if "k < LENGTH('a)" for w :: "'a::len word"
  using that by (auto simp: bit_or_iff bit_exp_iff)

lemma clear_power: "bit (w AND NOT (2 ^ k)) n \<longleftrightarrow> bit w n \<and> n \<noteq> k" for w :: "'a::len word"
  by (auto simp: bit_and_iff bit_not_iff bit_exp_iff dest: bit_imp_le_length)

lemma faction_flag_powers:
  "FACTION_FLAG_VISIBLE = 2 ^ 0" "FACTION_FLAG_AT_WAR = 2 ^ 1" "FACTION_FLAG_HIDDEN = 2 ^ 2"
  "FACTION_FLAG_INVISIBLE_FORCED = 2 ^ 3" "FACTION_FLAG_PEACE_FORCED = 2 ^ 4" "FACTION_FLAG_INACTIVE = 2 ^ 5"
  "FACTION_FLAG_SPECIAL = 2 ^ 7"
  by (simp_all add: flag_defs)

lemma faction_flag_bits:
  "w AND FACTION_FLAG_VISIBLE = 0 \<longleftrightarrow> \<not> bit w 0" "w AND FACTION_FLAG_AT_WAR = 0 \<longleftrightarrow> \<not> bit w 1"
  "w AND FACTION_FLAG_PEACE_FORCED = 0 \<longleftrightarrow> \<not> bit w 4" "w AND FACTION_FLAG_INACTIVE = 0 \<longleftrightarrow> \<not> bit w 5"
  "w AND FACTION_FLAG_SPECIAL = 0 \<longleftrightarrow> \<not> bit w 7"
  "w AND (FACTION_FLAG_INVISIBLE_FORCED OR FACTION_FLAG_HIDDEN) = 0 \<longleftrightarrow> \<not> bit w 3 \<and> \<not> bit w 2"
  by (simp_all only: and_or_zero faction_flag_powers) (subst and_power; simp; fail | subst and_power, simp, subst and_power; simp)+

lemma flag_updates:
  "bit (w OR FACTION_FLAG_VISIBLE) n \<longleftrightarrow> bit w n \<or> n = 0" "bit (w OR FACTION_FLAG_AT_WAR) n \<longleftrightarrow> bit w n \<or> n = 1"
  "bit (w OR FACTION_FLAG_INACTIVE) n \<longleftrightarrow> bit w n \<or> n = 5"
  "bit (w AND NOT FACTION_FLAG_AT_WAR) n \<longleftrightarrow> bit w n \<and> n \<noteq> 1" "bit (w AND NOT FACTION_FLAG_INACTIVE) n \<longleftrightarrow> bit w n \<and> n \<noteq> 5"
  unfolding faction_flag_powers clear_power by (subst or_power; simp)+ simp_all

text \<open>How the flags of a faction may differ from those of the table: a faction that may be shown becomes visible, a
  visible one inactive, and war is declared only where peace is not forced.\<close>

definition flags_ok :: "u8 \<Rightarrow> u8 \<Rightarrow> bool" where
  "flags_ok d f \<longleftrightarrow>
     (\<forall>n. n \<notin> {0, 1, 5} \<longrightarrow> bit f n = bit d n) \<and> (bit d 0 \<longrightarrow> bit f 0) \<and>
     (bit f 0 \<longrightarrow> bit d 0 \<or> \<not> (bit d 2 \<or> bit d 3) \<or> bit d 7) \<and>
     (bit f 5 \<longrightarrow> bit f 0 \<and> \<not> bit d 2 \<and> \<not> bit d 3) \<and>
     (bit f 1 \<and> bit d 4 \<longrightarrow> bit d 1)"

text \<open>\<^verbatim>\<open>SetVisible\<close> on the state alone.\<close>

definition visible_state :: "FactionState \<Rightarrow> FactionState" where
  "visible_state st =
     (if (bit (Flags st) 2 \<or> bit (Flags st) 3) \<and> \<not> bit (Flags st) 7 \<or> bit (Flags st) 0 then st
      else st\<lparr>Flags := Flags st OR FACTION_FLAG_VISIBLE, needSend := True, needSave := True\<rparr>)"

lemma flags_ok_visible: "flags_ok d (Flags st) \<Longrightarrow> flags_ok d (Flags (visible_state st))"
  by (auto simp: flags_ok_def visible_state_def flag_updates)

lemma flags_ok_war: "flags_ok d (Flags st) \<Longrightarrow> flags_ok d (Flags (SetAtWar_state b st))"
  by (auto simp: flags_ok_def SetAtWar_state_def flag_updates faction_flag_bits)

lemma flags_ok_inactive: "flags_ok d (Flags st) \<Longrightarrow> flags_ok d (Flags (SetInactive_state b st))"
  by (auto simp: flags_ok_def SetInactive_state_def flag_updates faction_flag_bits)

lemma bit0_war [simp]: "bit (Flags (SetAtWar_state b st)) 0 = bit (Flags st) 0"
  and bit0_inactive [simp]: "bit (Flags (SetInactive_state b st)) 0 = bit (Flags st) 0"
  by (auto simp: SetAtWar_state_def SetInactive_state_def flag_updates)

section \<open>The invariant\<close>

text \<open>What the client's faction table provides: rows are found under their identifiers, which fit the database column,
  no two factions share a place in the client's list, initial standings are in range, and no faction starts
  inactive.\<close>

definition env_ok :: "RepEnv \<Rightarrow> bool" where
  "env_ok env \<longleftrightarrow>
     faction_rows env \<le> 2 ^ 16 \<and>
     (\<forall>i e. faction_entry env i = Some e \<longrightarrow>
        entry_ID e = i \<and> 0 < i \<and> unat i < faction_rows env \<and> -(2 ^ 31) \<le> reputationListID e \<and> reputationListID e < 2 ^ 31 \<and>
        Reputation_Bottom \<le> GetBaseReputation env e \<and> GetBaseReputation env e \<le> Reputation_Cap \<and>
        \<not> bit (GetDefaultStateFlags env e) 5) \<and>
     (\<forall>i j e e'. faction_entry env i = Some e \<and> faction_entry env j = Some e' \<and> CanHaveReputation e \<and> CanHaveReputation e' \<and>
        list_id e = list_id e' \<longrightarrow> e = e')"

definition base_of :: "RepEnv \<Rightarrow> FactionState \<Rightarrow> int" where
  "base_of env st = (case faction_entry env (fs_ID st) of None \<Rightarrow> 0 | Some e \<Rightarrow> GetBaseReputation env e)"

definition rank_of :: "RepEnv \<Rightarrow> FactionState \<Rightarrow> ReputationRank" where
  "rank_of env st = ReputationToRank (base_of env st + Standing st)"

definition in_range :: "int \<Rightarrow> bool" where
  "in_range s \<longleftrightarrow> Reputation_Bottom \<le> s \<and> s \<le> Reputation_Cap"

definition state_ok :: "RepEnv \<Rightarrow> u32 \<Rightarrow> FactionState \<Rightarrow> bool" where
  "state_ok env k st \<longleftrightarrow>
     (\<exists>e. faction_entry env (fs_ID st) = Some e \<and> CanHaveReputation e \<and> list_id e = k \<and> ReputationListID st = k \<and>
        in_range (GetBaseReputation env e + Standing st) \<and> flags_ok (ucast (GetDefaultStateFlags env e)) (Flags st))"

definition at_least :: "RepEnv \<Rightarrow> ReputationRank \<Rightarrow> u32 \<times> FactionState \<Rightarrow> bool" where
  "at_least env r x \<longleftrightarrow> r \<le> rank_of env (snd x)"

definition shown :: "u32 \<times> FactionState \<Rightarrow> bool" where
  "shown x \<longleftrightarrow> Flags (snd x) AND FACTION_FLAG_VISIBLE \<noteq> 0"

definition counters_ok :: "RepEnv \<Rightarrow> ReputationMgr \<Rightarrow> bool" where
  "counters_ok env m \<longleftrightarrow>
     visibleFactionCount m = of_nat (entries shown (factions m)) \<and>
     honoredFactionCount m = of_nat (entries (at_least env REP_HONORED) (factions m)) \<and>
     reveredFactionCount m = of_nat (entries (at_least env REP_REVERED) (factions m)) \<and>
     exaltedFactionCount m = of_nat (entries (at_least env REP_EXALTED) (factions m))"

definition mgr_ok :: "RepEnv \<Rightarrow> ReputationMgr \<Rightarrow> bool" where
  "mgr_ok env m \<longleftrightarrow> std_map.entries_ok (state_ok env) (factions m) \<and> counters_ok env m"

lemma int32_same: "-(2 ^ 31) \<le> x \<Longrightarrow> x < 2 ^ 31 \<Longrightarrow> int32 x = x"
  by (simp add: int32_def)

lemma range_int32: "in_range x \<Longrightarrow> int32 x = x"
  by (rule int32_same) (simp_all add: in_range_def Reputation_Bottom_def Reputation_Cap_def)

lemma range_clamp: "in_range (clamp_standing s)"
  by (simp add: in_range_def clamp_standing_def Reputation_Bottom_def Reputation_Cap_def)

lemma mgr_ordered: "mgr_ok env m \<Longrightarrow> ordered_store (factions m)"
  and mgr_state: "mgr_ok env m \<Longrightarrow> map_of (factions m) k = Some st \<Longrightarrow> state_ok env k st"
  by (auto simp: mgr_ok_def std_map.entries_ok_def)

lemma state_base: "state_ok env k st \<Longrightarrow> faction_entry env (fs_ID st) = Some e \<Longrightarrow> base_of env st = GetBaseReputation env e"
  by (simp add: base_of_def)

lemma counters_update [simp]:
  "factions (UpdateRankCounters a b m) = factions m" "visibleFactionCount (UpdateRankCounters a b m) = visibleFactionCount m"
  "honoredFactionCount (UpdateRankCounters a b m) = honoredFactionCount m - of_bool (REP_HONORED \<le> a) + of_bool (REP_HONORED \<le> b)"
  "reveredFactionCount (UpdateRankCounters a b m) = reveredFactionCount m - of_bool (REP_REVERED \<le> a) + of_bool (REP_REVERED \<le> b)"
  "exaltedFactionCount (UpdateRankCounters a b m) = exaltedFactionCount m - of_bool (REP_EXALTED \<le> a) + of_bool (REP_EXALTED \<le> b)"
  by (simp_all add: UpdateRankCounters_def)

text \<open>The state of a faction is replaced, and the counters follow.\<close>

lemma mgr_ok_put:
  assumes m: "mgr_ok env m" and st: "map_of (factions m) k = Some st" and st': "state_ok env k st'"
    and "factions m' = store_put k st' (factions m)"
    and "visibleFactionCount m' = visibleFactionCount m - of_bool (bit (Flags st) 0) + of_bool (bit (Flags st') 0)"
    and "honoredFactionCount m' = honoredFactionCount m - of_bool (REP_HONORED \<le> rank_of env st) + of_bool (REP_HONORED \<le> rank_of env st')"
    and "reveredFactionCount m' = reveredFactionCount m - of_bool (REP_REVERED \<le> rank_of env st) + of_bool (REP_REVERED \<le> rank_of env st')"
    and "exaltedFactionCount m' = exaltedFactionCount m - of_bool (REP_EXALTED \<le> rank_of env st) + of_bool (REP_EXALTED \<le> rank_of env st')"
  shows "mgr_ok env m'"
proof -
  note count = entries_put_word [OF mgr_ordered [OF m] st, of _ st']
  have "std_map.entries_ok (state_ok env) (factions m')"
    using m st' unfolding assms(4) by (auto simp: mgr_ok_def intro: std_map.entries_ok_put)
  moreover have "counters_ok env m'"
    using m unfolding mgr_ok_def counters_ok_def assms(4-8) count
    by (simp add: shown_def at_least_def faction_flag_bits)
  ultimately show ?thesis by (simp add: mgr_ok_def)
qed

text \<open>The same for a change that keeps visibility and rank.\<close>

lemma mgr_ok_put_same:
  assumes "mgr_ok env m" and "map_of (factions m) k = Some st" and "state_ok env k st'"
    and "bit (Flags st') 0 = bit (Flags st) 0" and "rank_of env st' = rank_of env st"
  shows "mgr_ok env (put_state k st' m)"
  by (rule mgr_ok_put [OF assms(1-3)]) (simp_all add: put_state_def assms(4,5))

lemma state_fields [simp]:
  "fs_ID (SetAtWar_state b st) = fs_ID st" "fs_ID (SetInactive_state b st) = fs_ID st" "fs_ID (visible_state st) = fs_ID st"
  "Standing (SetAtWar_state b st) = Standing st" "Standing (SetInactive_state b st) = Standing st"
  "Standing (visible_state st) = Standing st"
  "ReputationListID (SetAtWar_state b st) = ReputationListID st" "ReputationListID (SetInactive_state b st) = ReputationListID st"
  "ReputationListID (visible_state st) = ReputationListID st"
  by (simp_all add: SetAtWar_state_def SetInactive_state_def visible_state_def)

lemma rank_fields [simp]:
  "rank_of env (SetAtWar_state b st) = rank_of env st" "rank_of env (SetInactive_state b st) = rank_of env st"
  "rank_of env (visible_state st) = rank_of env st" "rank_of env (st\<lparr>Flags := f\<rparr>) = rank_of env st"
  "rank_of env (st\<lparr>needSend := a\<rparr>) = rank_of env st" "rank_of env (st\<lparr>needSave := a\<rparr>) = rank_of env st"
  by (simp_all add: rank_of_def base_of_def)

lemma state_ok_fields:
  "state_ok env k st \<Longrightarrow> state_ok env k (SetAtWar_state b st)" "state_ok env k st \<Longrightarrow> state_ok env k (SetInactive_state b st)"
  "state_ok env k st \<Longrightarrow> state_ok env k (visible_state st)" "state_ok env k (st\<lparr>needSend := a\<rparr>) = state_ok env k st"
  "state_ok env k (st\<lparr>needSave := a\<rparr>) = state_ok env k st"
  by (auto simp: state_ok_def flags_ok_war flags_ok_inactive flags_ok_visible)

lemma put_state_at: "map_of (factions (put_state k st m)) j = (if j = k then Some st else map_of (factions m) j)"
  by (simp add: put_state_def std_map.find_put)

lemma state_at_some: "map_of (factions m) k = Some st \<Longrightarrow> state_at k m = st"
  by (simp add: state_at_def)

lemma SetVisible_state_eq:
  assumes "ordered_store (factions m)" and "map_of (factions m) k = Some st"
  shows "snd (SetVisible_state env k m) =
    (put_state k (visible_state st) m)\<lparr>visibleFactionCount :=
       visibleFactionCount m - of_bool (bit (Flags st) 0) + of_bool (bit (Flags (visible_state st)) 0)\<rparr>"
  using store_put_same [OF assms]
  by (auto simp: SetVisible_state_def visible_state_def state_at_some [OF assms(2)] put_state_def Let_def faction_flag_bits flag_updates)

lemma mgr_ok_SetVisible_state:
  assumes "mgr_ok env m" and "map_of (factions m) k = Some st"
  shows "mgr_ok env (snd (SetVisible_state env k m))"
  unfolding SetVisible_state_eq [OF mgr_ordered [OF assms(1)] assms(2)]
  by (rule mgr_ok_put [OF assms, where st' = "visible_state st"]) (simp_all add: put_state_def state_ok_fields mgr_state [OF assms])

lemma mgr_ok_SetVisible: "mgr_ok env m \<Longrightarrow> mgr_ok env (snd (SetVisible env e m))"
  by (auto simp: SetVisible_def mgr_ok_SetVisible_state)

lemma mgr_ok_SetVisible_template: "mgr_ok env m \<Longrightarrow> mgr_ok env (snd (SetVisible_template env f m))"
  by (auto simp: SetVisible_template_def mgr_ok_SetVisible split: option.split)

lemma mgr_ok_SetAtWar: "mgr_ok env m \<Longrightarrow> mgr_ok env (SetAtWar k b m)"
  by (auto simp: SetAtWar_def state_ok_fields dest: mgr_state intro!: mgr_ok_put_same split: option.split)

lemma mgr_ok_SetInactive: "mgr_ok env m \<Longrightarrow> mgr_ok env (SetInactive k b m)"
  by (auto simp: SetInactive_def state_ok_fields dest: mgr_state intro!: mgr_ok_put_same split: option.split)

section \<open>Changing a standing\<close>

text \<open>What \<^verbatim>\<open>SetOneFactionReputation\<close> makes of the state of the faction.\<close>

definition new_standing :: "RepEnv \<Rightarrow> FactionState \<Rightarrow> int \<Rightarrow> bool \<Rightarrow> int" where
  "new_standing env st standing incremental =
     clamp_standing (if incremental then int32 (gained env standing + (base_of env st + Standing st)) else standing)"

definition set_state :: "RepEnv \<Rightarrow> int \<Rightarrow> FactionState \<Rightarrow> FactionState" where
  "set_state env s st =
     (let st' = visible_state (st\<lparr>Standing := s - base_of env st, needSend := True, needSave := True\<rparr>) in
      if ReputationToRank s \<le> REP_HOSTILE then SetAtWar_state True st' else st')"

lemma state_set_state:
  assumes "state_ok env k st" and "in_range s"
  shows "state_ok env k (set_state env s st)" and "base_of env (set_state env s st) + Standing (set_state env s st) = s"
    and "rank_of env (set_state env s st) = ReputationToRank s"
    and "bit (Flags (set_state env s st)) 0 = bit (Flags (visible_state st)) 0"
proof -
  let ?st = "st\<lparr>Standing := s - base_of env st, needSend := True, needSave := True\<rparr>"
  have "state_ok env k ?st" using assms by (auto simp: state_ok_def base_of_def)
  then show "state_ok env k (set_state env s st)" by (simp add: set_state_def Let_def state_ok_fields)
  show sum: "base_of env (set_state env s st) + Standing (set_state env s st) = s"
    by (simp add: set_state_def Let_def base_of_def)
  show "rank_of env (set_state env s st) = ReputationToRank s" by (simp only: rank_of_def sum)
  show "bit (Flags (set_state env s st)) 0 = bit (Flags (visible_state st)) 0"
    by (auto simp: set_state_def Let_def visible_state_def)
qed

lemma entry_of_state:
  assumes "env_ok env" and "state_ok env (list_id e) st" and "faction_entry env i = Some e" and "CanHaveReputation e"
  shows "faction_entry env (fs_ID st) = Some e" and "base_of env st = GetBaseReputation env e"
proof -
  from assms(2) obtain e' where "faction_entry env (fs_ID st) = Some e'" "CanHaveReputation e'" "list_id e' = list_id e"
    by (auto simp: state_ok_def)
  moreover have "e = e'" using assms(1,3,4) calculation unfolding env_ok_def by metis
  ultimately show "faction_entry env (fs_ID st) = Some e" and "base_of env st = GetBaseReputation env e"
    by (simp_all add: base_of_def)
qed

lemma SetOne_eq:
  fixes standing :: int and incremental :: bool
  assumes env: "env_ok env" and m: "mgr_ok env m" and e: "faction_entry env i = Some e" "CanHaveReputation e"
    and st: "map_of (factions m) (list_id e) = Some st"
  defines "s \<equiv> new_standing env st standing incremental"
  shows "factions (snd (snd (SetOneFactionReputation env e standing incremental m))) =
           store_put (list_id e) (set_state env s st) (factions m)"
    and "mgr_ok env (snd (snd (SetOneFactionReputation env e standing incremental m)))"
    and "fst (SetOneFactionReputation env e standing incremental m)"
proof -
  let ?k = "list_id e" and ?r = "SetOneFactionReputation env e standing incremental m"
  let ?st1 = "st\<lparr>Standing := s - base_of env st, needSend := True, needSave := True\<rparr>"
  let ?m1 = "put_state ?k ?st1 m"
  have ok: "state_ok env ?k st" by (rule mgr_state [OF m st])
  note base = entry_of_state(2) [OF env ok e]
  have r: "in_range (base_of env st + Standing st)" "in_range (base_of env st)" "in_range s"
    using ok env range_clamp unfolding base s_def new_standing_def
    by (auto simp: state_ok_def base_of_def env_ok_def in_range_def base [symmetric])
  have "int32 (s - base_of env st) = s - base_of env st"
    using r by (intro int32_same) (simp_all add: in_range_def Reputation_Bottom_def Reputation_Cap_def)
  with range_int32 [OF r(1)] have i: "int32 (Standing st + GetBaseReputation env e) = base_of env st + Standing st"
    "int32 (s - GetBaseReputation env e) = s - base_of env st"
    by (simp_all add: base add.commute)
  have s: "clamp_standing (if incremental then int32 (gained env standing + (base_of env st + Standing st))
      else standing) = s"
    by (simp add: s_def new_standing_def)
  have m1: "ordered_store (factions ?m1)" "map_of (factions ?m1) ?k = Some ?st1"
    using mgr_ordered [OF m] by (simp_all add: put_state_def std_map.ordered_put std_map.find_put)
  show "fst ?r" using st by (simp add: SetOneFactionReputation_def Let_def case_prod_unfold)
  let ?m2 = "snd (SetVisible_state env ?k ?m1)"
  let ?m3 = "if ReputationToRank s \<le> REP_HOSTILE then put_state ?k (SetAtWar_state True (visible_state ?st1)) ?m2 else ?m2"
  let ?m4 = "if ReputationToRank s > rank_of env st then ?m3\<lparr>sendFactionIncreased := True\<rparr> else ?m3"
  note vis = SetVisible_state_eq [OF m1, of env]
  have at2: "state_at ?k ?m2 = visible_state ?st1" unfolding vis by (intro state_at_some) (simp add: put_state_at)
  have eq: "snd (snd ?r) = UpdateRankCounters (rank_of env st) (ReputationToRank s) ?m4"
    by (simp only: SetOneFactionReputation_def Let_def st option.case s i at2 case_prod_unfold snd_conv rank_of_def)
  have "visibleFactionCount ?m2 = visibleFactionCount m - of_bool (bit (Flags st) 0) + of_bool (bit (Flags (visible_state st)) 0)"
    "honoredFactionCount ?m2 = honoredFactionCount m" "reveredFactionCount ?m2 = reveredFactionCount m"
    "exaltedFactionCount ?m2 = exaltedFactionCount m"
    unfolding vis by (simp_all add: put_state_def) (auto simp: visible_state_def)
  then have c: "visibleFactionCount ?m4 = visibleFactionCount m - of_bool (bit (Flags st) 0) + of_bool (bit (Flags (visible_state st)) 0)"
    "honoredFactionCount ?m4 = honoredFactionCount m" "reveredFactionCount ?m4 = reveredFactionCount m"
    "exaltedFactionCount ?m4 = exaltedFactionCount m"
    by (simp_all add: put_state_def)
  have "factions ?m4 = store_put ?k (set_state env s st) (factions m)"
    unfolding vis by (simp add: set_state_def Let_def put_state_def store_put_put)
  then show f: "factions (snd (snd ?r)) = store_put ?k (set_state env s st) (factions m)"
    unfolding eq by (simp add: UpdateRankCounters_def)
  note set = state_set_state [OF ok r(3)]
  show "mgr_ok env (snd (snd ?r))"
    by (rule mgr_ok_put [OF m st set(1) f]) (simp_all only: eq counters_update c set(3,4))
qed

text \<open>A faction that is not in the table cannot be changed.\<close>

lemma SetOne_absent:
  "map_of (factions m) (list_id e) = None \<Longrightarrow> SetOneFactionReputation env e standing incremental m = (False, [], m)"
  by (simp add: SetOneFactionReputation_def)

text \<open>No operation adds or drops a faction, and what it changes it marks for saving.\<close>

definition evolved :: "FactionState \<Rightarrow> FactionState \<Rightarrow> bool" where
  "evolved st st' \<longleftrightarrow>
     fs_ID st' = fs_ID st \<and>
     (needSave st' \<or> needSave st' = needSave st \<and> Standing st' = Standing st \<and> Flags st' = Flags st)"

definition evolves :: "ReputationMgr \<Rightarrow> ReputationMgr \<Rightarrow> bool" where
  "evolves m m' \<longleftrightarrow> (\<forall>k. rel_option evolved (map_of (factions m) k) (map_of (factions m') k))"

lemma evolved_trans: "evolved a b \<Longrightarrow> evolved b c \<Longrightarrow> evolved a c"
  by (auto simp: evolved_def)

lemma evolves_refl [simp]: "evolves m m"
  by (auto simp: evolves_def evolved_def intro: option.rel_refl)

lemma evolves_trans: "evolves m m' \<Longrightarrow> evolves m' m'' \<Longrightarrow> evolves m m''"
proof -
  have "rel_option evolved x y \<Longrightarrow> rel_option evolved y z \<Longrightarrow> rel_option evolved x z" for x y z
    by (cases x; cases y; cases z) (auto intro: evolved_trans)
  then show "evolves m m' \<Longrightarrow> evolves m' m'' \<Longrightarrow> evolves m m''" unfolding evolves_def by blast
qed

lemma evolves_put:
  assumes "map_of (factions m) k = Some st" and "factions m' = store_put k st' (factions m)" and "evolved st st'"
  shows "evolves m m'"
  using assms by (auto simp: evolves_def std_map.find_put evolved_def intro: option.rel_refl)

lemma evolves_some:
  "evolves m m' \<Longrightarrow> map_of (factions m) k = Some st \<Longrightarrow> \<exists>st'. map_of (factions m') k = Some st' \<and> evolved st st'"
  unfolding evolves_def by (metis option_rel_Some1)

definition rep_keeps :: "RepEnv \<Rightarrow> ReputationMgr \<Rightarrow> ReputationMgr \<Rightarrow> bool" where
  "rep_keeps env m m' \<longleftrightarrow> (mgr_ok env m \<longrightarrow> mgr_ok env m' \<and> evolves m m')"

lemma keeps_refl [simp]: "rep_keeps env m m"
  by (simp add: rep_keeps_def)

lemma keeps_trans: "rep_keeps env m m' \<Longrightarrow> rep_keeps env m' m'' \<Longrightarrow> rep_keeps env m m''"
  by (auto simp: rep_keeps_def intro: evolves_trans)

lemma state_saved:
  "needSave (SetAtWar_state b st) \<or> SetAtWar_state b st = st"
  "needSave (SetInactive_state b st) \<or> SetInactive_state b st = st" "needSave (visible_state st) \<or> visible_state st = st"
  by (simp_all add: SetAtWar_state_def SetInactive_state_def visible_state_def)

lemma set_state_saved: "needSave (set_state env s st)" "fs_ID (set_state env s st) = fs_ID st"
  by (simp_all add: set_state_def Let_def SetAtWar_state_def visible_state_def)

lemma keeps_SetVisible_state: "map_of (factions m) k = Some st \<Longrightarrow> rep_keeps env m (snd (SetVisible_state env k m))"
  unfolding rep_keeps_def
proof
  assume st: "map_of (factions m) k = Some st" and m: "mgr_ok env m"
  have "evolves m (snd (SetVisible_state env k m))"
    using state_saved(3) [of st]
    by (intro evolves_put [OF st, where st' = "visible_state st"])
      (auto simp: SetVisible_state_eq [OF mgr_ordered [OF m] st] put_state_def evolved_def)
  with mgr_ok_SetVisible_state [OF m st] show "mgr_ok env (snd (SetVisible_state env k m)) \<and> evolves m (snd (SetVisible_state env k m))" ..
qed

lemma keeps_SetVisible: "rep_keeps env m (snd (SetVisible env e m))"
  by (auto simp: SetVisible_def keeps_SetVisible_state)

lemma keeps_SetVisible_template: "rep_keeps env m (snd (SetVisible_template env f m))"
  by (simp add: SetVisible_template_def keeps_SetVisible split: option.split)

lemma keeps_put:
  assumes "map_of (factions m) k = Some st" and "needSave st' \<or> st' = st" and "fs_ID st' = fs_ID st"
    and "mgr_ok env m \<Longrightarrow> mgr_ok env (put_state k st' m)"
  shows "rep_keeps env m (put_state k st' m)"
  using assms by (auto simp: rep_keeps_def put_state_def evolved_def intro!: evolves_put [OF assms(1)])

lemma keeps_SetAtWar: "rep_keeps env m (SetAtWar k b m)"
  using mgr_ok_SetAtWar [of env m k b] state_saved(1)
  by (auto simp: SetAtWar_def intro!: keeps_put split: option.split)

lemma keeps_SetInactive: "rep_keeps env m (SetInactive k b m)"
  using mgr_ok_SetInactive [of env m k b] state_saved(2)
  by (auto simp: SetInactive_def intro!: keeps_put split: option.split)

text \<open>Changes of the marks on all factions.\<close>

lemma map_states:
  fixes g :: "FactionState \<Rightarrow> FactionState" and m :: ReputationMgr
  defines "fs \<equiv> map (\<lambda>(k, st). (k, g st)) (factions m)"
  assumes "\<And>st. rank_of env (g st) = rank_of env st" and "\<And>st. Flags (g st) = Flags st" and "\<And>k st. state_ok env k (g st) = state_ok env k st"
  shows "map_of fs k = map_option g (map_of (factions m) k)"
    and "mgr_ok env m \<Longrightarrow> factions m' = fs \<Longrightarrow> visibleFactionCount m' = visibleFactionCount m \<Longrightarrow>
      honoredFactionCount m' = honoredFactionCount m \<Longrightarrow> reveredFactionCount m' = reveredFactionCount m \<Longrightarrow>
      exaltedFactionCount m' = exaltedFactionCount m \<Longrightarrow> mgr_ok env m'"
proof -
  have look: "map_of fs j = map_option g (map_of (factions m) j)" for j
    by (simp add: fs_def map_of_map)
  then show "map_of fs k = map_option g (map_of (factions m) k)" .
  have "map fst fs = map fst (factions m)" by (simp add: fs_def case_prod_unfold)
  then have o: "ordered_store fs = ordered_store (factions m)" by (simp only: ordered_store_def)
  have n: "entries P fs = entries P (factions m)" if "\<And>k st. P (k, g st) = P (k, st)" for P
    unfolding entries_def fs_def filter_map length_map using that
    by (intro arg_cong [where f = length] filter_cong) auto
  show "mgr_ok env m'" if "mgr_ok env m" "factions m' = fs" "visibleFactionCount m' = visibleFactionCount m"
    "honoredFactionCount m' = honoredFactionCount m" "reveredFactionCount m' = reveredFactionCount m"
    "exaltedFactionCount m' = exaltedFactionCount m"
    using that assms(2-4)
    by (auto simp: mgr_ok_def std_map.entries_ok_def counters_ok_def look o n shown_def at_least_def)
qed

lemma keeps_unsent:
  "rep_keeps env m (m\<lparr>sendFactionIncreased := b, factions := map (\<lambda>(k, st). (k, st\<lparr>needSend := False\<rparr>)) (factions m)\<rparr>)"
  "rep_keeps env m (m\<lparr>factions := map (\<lambda>(k, st). (k, st\<lparr>needSend := False\<rparr>)) (factions m)\<rparr>)"
  "rep_keeps env m (m\<lparr>forcedReactions := fr\<rparr>)"
proof -
  let ?fs = "map (\<lambda>(k, st). (k, st\<lparr>needSend := False\<rparr>)) (factions m)"
  have ok: "mgr_ok env m'" if "mgr_ok env m" "factions m' = ?fs" "visibleFactionCount m' = visibleFactionCount m"
    "honoredFactionCount m' = honoredFactionCount m" "reveredFactionCount m' = reveredFactionCount m"
    "exaltedFactionCount m' = exaltedFactionCount m" for m'
    by (rule map_states(2) [where g = "\<lambda>st. st\<lparr>needSend := False\<rparr>", OF _ _ _ that]) (simp_all add: state_ok_fields)
  have "rel_option evolved (map_of (factions m) k) (map_of ?fs k)" for k
    by (cases "map_of (factions m) k") (simp_all add: map_of_map evolved_def)
  then have ev: "evolves m m'" if "factions m' = ?fs" for m' by (simp only: evolves_def that) blast
  show "rep_keeps env m (m\<lparr>sendFactionIncreased := b, factions := ?fs\<rparr>)"
    unfolding rep_keeps_def by (rule impI, rule conjI, rule ok) (simp_all add: ev)
  show "rep_keeps env m (m\<lparr>factions := ?fs\<rparr>)"
    unfolding rep_keeps_def by (rule impI, rule conjI, rule ok) (simp_all add: ev)
qed (auto simp: rep_keeps_def mgr_ok_def counters_ok_def evolves_def evolved_def intro: option.rel_refl)

lemma keeps_SendState: "rep_keeps env m (snd (SendState st m))"
  by (simp add: SendState_def Let_def keeps_unsent)

lemma listed_key:
  assumes "env_ok env" and "state_ok env (list_id e) st" and "faction_entry env i = Some e"
  shows "CanHaveReputation e"
proof (rule ccontr)
  assume n: "\<not> CanHaveReputation e"
  from assms(2) obtain e' where e': "faction_entry env (fs_ID st) = Some e'" "CanHaveReputation e'" "list_id e' = list_id e"
    by (auto simp: state_ok_def)
  with assms(1,3) have b: "-(2 ^ 31) \<le> reputationListID e" "reputationListID e' < 2 ^ 31" by (auto simp: env_ok_def)
  have "reputationListID e mod 2 ^ 32 = reputationListID e' mod 2 ^ 32"
    using e'(3) unfolding list_id_def by (simp add: word_of_int_eq_iff take_bit_eq_mod)
  moreover have "reputationListID e' mod 2 ^ 32 = reputationListID e'"
    using b e'(2) by (simp add: CanHaveReputation_def)
  moreover have "(reputationListID e + 2 ^ 32) mod 2 ^ 32 = reputationListID e + 2 ^ 32"
    using b n by (intro mod_pos_pos_trivial) (simp_all add: CanHaveReputation_def)
  then have "reputationListID e mod 2 ^ 32 = reputationListID e + 2 ^ 32" by simp
  ultimately show False using b by simp
qed

lemma keeps_SetOne:
  assumes env: "env_ok env" and e: "faction_entry env i = Some e"
  shows "rep_keeps env m (snd (snd (SetOneFactionReputation env e standing incremental m)))"
proof (cases "map_of (factions m) (list_id e)")
  case None
  then show ?thesis by (simp add: SetOne_absent)
next
  case (Some st)
  show ?thesis
    unfolding rep_keeps_def
  proof
    assume m: "mgr_ok env m"
    note L = listed_key [OF env mgr_state [OF m Some] e]
    note eq = SetOne_eq [OF env m e L Some, of standing incremental]
    from eq(2) evolves_put [OF Some eq(1)]
    show "mgr_ok env (snd (snd (SetOneFactionReputation env e standing incremental m))) \<and>
        evolves m (snd (snd (SetOneFactionReputation env e standing incremental m)))"
      by (simp add: evolved_def set_state_saved)
  qed
qed

lemma keeps_spill_template:
  assumes env: "env_ok env"
  shows "spill_template env t standing incremental is m = Inr (es, m') \<Longrightarrow> rep_keeps env m m'"
proof (induction "is" arbitrary: m es)
  case (Cons i "is")
  then show ?case
    using keeps_SetOne [OF env]
    by (fastforce simp: Let_def bind_res_def case_prod_unfold intro: keeps_trans split: if_splits option.splits sum.splits)
qed simp

lemma keeps_spill_list:
  assumes env: "env_ok env"
  shows "rep_keeps env m (snd (snd (spill_list env e out incremental is res m)))"
proof (induction "is" arbitrary: res m)
  case (Cons i "is")
  show ?case
  proof (cases "faction_entry env i")
    case (Some calc)
    then show ?thesis
      using Cons keeps_trans [OF keeps_SetOne [OF env Some] Cons]
      by (auto simp: Let_def case_prod_unfold)
  qed (simp add: Cons)
qed simp

lemma keeps_spill_table:
  assumes env: "env_ok env"
  shows "rep_keeps env m (snd (snd (spill_table env e standing incremental m)))"
proof (cases "team_list env (entry_ID e)")
  case (Some fs)
  then show ?thesis by (simp add: spill_table_def Let_def keeps_spill_list [OF env])
next
  case None
  have "rep_keeps env m (snd (snd (case team_list env (entry_team e) of None \<Rightarrow> (False, [], m)
      | Some flist \<Rightarrow> spill_list env e out incremental flist False m)))" for out
    by (cases "team_list env (entry_team e)") (simp_all add: keeps_spill_list [OF env])
  with None keeps_SetOne [OF env] show ?thesis
    by (cases "faction_entry env (entry_team e)") (simp_all add: spill_table_def Let_def case_prod_unfold)
qed

lemma keeps_SetReputation_inc:
  assumes env: "env_ok env" and e: "faction_entry env i = Some e"
    and r: "SetReputation_inc env e standing incremental m = Inr (res, es, m')"
  shows "rep_keeps env m m'"
proof -
  let ?s = "script_standing env (entry_ID e) standing incremental"
  have tail: "rep_keeps env m1 m'" if "(if map_of (factions m1) (list_id e) = None then Inr (r1, es1, m1)
      else let (res', es', m2) = SetOneFactionReputation env e ?s incremental m1;
               (es'', m3) = SendState (state_at (list_id e) m2) m2
           in Inr (res', es1 @ es' @ es'', m3)) = (Inr (res, es, m') :: rep_error + bool \<times> rep_effect list \<times> ReputationMgr)"
    for m1 es1 r1
    using that keeps_trans [OF keeps_SetOne [OF env e, of m1 ?s incremental] keeps_SendState]
    by (auto simp: case_prod_unfold Let_def split: if_splits)
  show ?thesis
  proof (cases "spillover_template env (entry_ID e)")
    case None
    then have "rep_keeps env (snd (snd (spill_table env e ?s incremental m))) m'"
      using r by (intro tail) (simp add: SetReputation_inc_def Let_def bind_res_def case_prod_unfold)
    then show ?thesis by (rule keeps_trans [OF keeps_spill_table [OF env]])
  next
    case (Some t)
    then obtain es1 m1 where t: "spill_template env t ?s incremental [0..<MAX_SPILLOVER_FACTIONS] m = Inr (es1, m1)"
      using r by (auto simp: SetReputation_inc_def Let_def bind_res_def split: sum.splits)
    then have "rep_keeps env m1 m'"
      using r Some by (intro tail) (simp add: SetReputation_inc_def Let_def bind_res_def)
    then show ?thesis by (rule keeps_trans [OF keeps_spill_template [OF env t]])
  qed
qed

text \<open>The standing that \<^verbatim>\<open>SetReputation\<close> leaves, whatever spilled over to the faction before.\<close>

lemma SetReputation_inc_split:
  assumes env: "env_ok env" and m: "mgr_ok env m" and e: "faction_entry env i = Some e"
    and st: "map_of (factions m) (list_id e) = Some st" and r: "SetReputation_inc env e standing incremental m = Inr (res, es, m')"
  obtains m1 st1 where "mgr_ok env m1" and "map_of (factions m1) (list_id e) = Some st1" and "res"
    and "map_of (factions m') (list_id e) =
      Some ((set_state env (new_standing env st1 (script_standing env (entry_ID e) standing incremental) incremental) st1)\<lparr>needSend := False\<rparr>)"
proof -
  let ?s = "script_standing env (entry_ID e) standing incremental" and ?k = "list_id e"
  note L = listed_key [OF env mgr_state [OF m st] e]
  obtain r1 es1 m1 where k: "rep_keeps env m m1" and tail: "(if map_of (factions m1) ?k = None then Inr (r1, es1, m1)
      else let (res', es', m2) = SetOneFactionReputation env e ?s incremental m1;
               (es'', m3) = SendState (state_at ?k m2) m2
           in Inr (res', es1 @ es' @ es'', m3)) = (Inr (res, es, m') :: rep_error + bool \<times> rep_effect list \<times> ReputationMgr)"
  proof (cases "spillover_template env (entry_ID e)")
    case None
    have "rep_keeps env m (snd (snd (spill_table env e ?s incremental m)))" by (rule keeps_spill_table [OF env])
    moreover obtain r1 es1 m1 where "spill_table env e ?s incremental m = (r1, es1, m1)" by (cases "spill_table env e ?s incremental m")
    ultimately show ?thesis using None r that [of m1 r1 es1] by (simp add: SetReputation_inc_def Let_def bind_res_def)
  next
    case (Some t)
    then obtain es1 m1 where t: "spill_template env t ?s incremental [0..<MAX_SPILLOVER_FACTIONS] m = Inr (es1, m1)"
      using r by (auto simp: SetReputation_inc_def Let_def bind_res_def split: sum.splits)
    with Some r that [OF keeps_spill_template [OF env t], of False es1] show ?thesis
      by (simp add: SetReputation_inc_def Let_def bind_res_def)
  qed
  from k m have m1: "mgr_ok env m1" "evolves m m1" by (simp_all add: rep_keeps_def)
  then obtain st1 where st1: "map_of (factions m1) ?k = Some st1"
    using st by (auto dest: evolves_some)
  note eq = SetOne_eq [OF env m1(1) e L st1, of ?s incremental]
  obtain m2 es2 where o: "SetOneFactionReputation env e ?s incremental m1 = (True, es2, m2)"
    using eq(3) by (metis (full_types) prod.collapse)
  then have "map_of (factions m2) ?k = Some (set_state env (new_standing env st1 ?s incremental) st1)"
    using eq(1) by (simp add: std_map.find_put)
  moreover have "res \<and> m' = snd (SendState (state_at ?k m2) m2)"
    using tail st1 o by (auto simp: case_prod_unfold Let_def)
  ultimately show ?thesis
    using that [OF m1(1) st1] by (simp add: SendState_def Let_def map_of_map)
qed

section \<open>Loading\<close>

definition init_state :: "RepEnv \<Rightarrow> FactionEntry \<Rightarrow> FactionState" where
  "init_state env e =
     \<lparr>fs_ID = entry_ID e, ReputationListID = list_id e, Standing = 0, Flags = ucast (GetDefaultStateFlags env e),
      needSend = True, needSave = True\<rparr>"

text \<open>The factions of the rows \<open>I\<close> have their initial states, and there are no others.\<close>

definition initialized :: "RepEnv \<Rightarrow> u32 set \<Rightarrow> ReputationMgr \<Rightarrow> bool" where
  "initialized env I m \<longleftrightarrow>
     mgr_ok env m \<and>
     (\<forall>k st. map_of (factions m) k = Some st \<longleftrightarrow>
        (\<exists>i \<in> I. \<exists>e. faction_entry env i = Some e \<and> CanHaveReputation e \<and> list_id e = k \<and> st = init_state env e))"

lemma state_ok_init:
  assumes "env_ok env" and "faction_entry env i = Some e" and "CanHaveReputation e"
  shows "state_ok env (list_id e) (init_state env e)" and "rank_of env (init_state env e) = GetBaseRank env e"
  using assms
  by (auto simp: state_ok_def init_state_def env_ok_def in_range_def flags_ok_def bit_ucast_iff rank_of_def base_of_def
      GetBaseRank_def)

lemma entries_put_new:
  assumes "ordered_store s" and "map_of s k = None"
  shows "(of_nat (entries P (store_put k v s)) :: 'w::len word) = of_nat (entries P s) + of_bool (P (k, v))"
  using entries_put [OF assms(1), of P k v] assms(2) by simp

lemma init_row_step:
  assumes env: "env_ok env" and I: "initialized env I m" and i: "i \<notin> I"
  shows "initialized env (insert i I) (init_row env i m)"
proof (cases "\<exists>e. faction_entry env i = Some e \<and> CanHaveReputation e")
  case False
  then show ?thesis using I by (auto simp: init_row_def initialized_def CanHaveReputation_def split: option.splits)
next
  case True
  then obtain e where e: "faction_entry env i = Some e" "CanHaveReputation e" by blast
  let ?k = "list_id e" and ?st = "init_state env e" and ?m = "init_row env i m"
  have m: "mgr_ok env m" using I by (simp add: initialized_def)
  have u: "e' = e" if "faction_entry env j = Some e'" "CanHaveReputation e'" "list_id e' = ?k" for j e'
    using env e that unfolding env_ok_def by metis
  have new: "map_of (factions m) ?k = None"
  proof (rule ccontr)
    assume "map_of (factions m) ?k \<noteq> None"
    then obtain j e' where j: "j \<in> I" "faction_entry env j = Some e'" "CanHaveReputation e'" "list_id e' = ?k"
      using I by (fastforce simp: initialized_def)
    then have "e' = e" by (intro u)
    with j e env have "i = j" unfolding env_ok_def by metis
    with i j show False by simp
  qed
  have eq: "?m = put_state ?k ?st (UpdateRankCounters REP_HOSTILE (GetBaseRank env e)
      (if bit (Flags ?st) 0 then m\<lparr>visibleFactionCount := visibleFactionCount m + 1\<rparr> else m))"
    using e by (simp add: init_row_def init_state_def CanHaveReputation_def Let_def faction_flag_bits)
  then have f: "factions ?m = store_put ?k ?st (factions m)" by (simp add: put_state_def)
  note count = entries_put_new [OF mgr_ordered [OF m] new, of _ ?st]
  have "counters_ok env ?m"
    using m unfolding mgr_ok_def counters_ok_def f count
    by (simp add: eq put_state_def shown_def at_least_def faction_flag_bits state_ok_init(2) [OF env e] less_eq_ReputationRank_def)
  moreover have "std_map.entries_ok (state_ok env) (factions ?m)"
    unfolding f using m state_ok_init(1) [OF env e] by (auto simp: mgr_ok_def intro: std_map.entries_ok_put)
  ultimately have "mgr_ok env ?m" by (simp add: mgr_ok_def)
  moreover have "map_of (factions ?m) k = Some st \<longleftrightarrow>
      (\<exists>i \<in> insert i I. \<exists>e. faction_entry env i = Some e \<and> CanHaveReputation e \<and> list_id e = k \<and> st = init_state env e)" for k st
    using I e new unfolding f by (auto simp: std_map.find_put initialized_def dest: u)
  ultimately show ?thesis by (simp add: initialized_def)
qed

lemma Initialize_states:
  assumes env: "env_ok env"
  shows "initialized env UNIV (Initialize env m)"
proof -
  let ?m = "m\<lparr>factions := [], visibleFactionCount := 0, honoredFactionCount := 0, reveredFactionCount := 0,
    exaltedFactionCount := 0, sendFactionIncreased := False\<rparr>"
  have "initialized env I m \<Longrightarrow> distinct is \<Longrightarrow> set is \<inter> I = {} \<Longrightarrow>
      initialized env (set is \<union> I) (fold (init_row env) is m)" for m I "is"
  proof (induction "is" arbitrary: m I)
    case (Cons i "is")
    then show ?case using Cons.IH [OF init_row_step [OF env Cons.prems(1), of i]] by simp
  qed simp
  moreover have "initialized env {} ?m"
    by (simp add: initialized_def mgr_ok_def std_map.entries_ok_def ordered_store_def counters_ok_def entries_def)
  moreover have rows: "faction_rows env \<le> 2 ^ 16" using env by (simp add: env_ok_def)
  then have "inj_on (of_nat :: nat \<Rightarrow> u32) {1..<faction_rows env}"
    by (intro inj_onI) (simp add: word_of_nat_eq_iff take_bit_nat_eq_self)
  then have "distinct (map (of_nat :: nat \<Rightarrow> u32) [1..<faction_rows env])" by (simp add: distinct_map)
  ultimately have "initialized env (set (map of_nat [1..<faction_rows env])) (Initialize env m)"
    unfolding Initialize_def by (metis inf_bot_right sup_bot.right_neutral)
  moreover have "i \<in> set (map of_nat [1..<faction_rows env])" if "faction_entry env i = Some e" for i e
  proof -
    have "0 < i" "unat i < faction_rows env" using env that by (auto simp: env_ok_def)
    then have "unat i \<in> {1..<faction_rows env}" by (simp add: Suc_le_eq unat_gt_0 word_neq_0_conv)
    moreover have "i = of_nat (unat i)" by simp
    ultimately show ?thesis unfolding list.set_map set_upt by (rule image_eqI [rotated])
  qed
  ultimately show ?thesis unfolding initialized_def by blast
qed

text \<open>While a row is loaded, the manager is the one before with a new state at \<open>k\<close> and the counters adjusted to it.\<close>

definition follows :: "RepEnv \<Rightarrow> ReputationMgr \<Rightarrow> u32 \<Rightarrow> FactionState \<Rightarrow> ReputationMgr \<Rightarrow> FactionState \<Rightarrow> bool" where
  "follows env m k st m' st' \<longleftrightarrow>
     factions m' = store_put k st' (factions m) \<and>
     visibleFactionCount m' = visibleFactionCount m - of_bool (bit (Flags st) 0) + of_bool (bit (Flags st') 0) \<and>
     honoredFactionCount m' = honoredFactionCount m - of_bool (REP_HONORED \<le> rank_of env st) + of_bool (REP_HONORED \<le> rank_of env st') \<and>
     reveredFactionCount m' = reveredFactionCount m - of_bool (REP_REVERED \<le> rank_of env st) + of_bool (REP_REVERED \<le> rank_of env st') \<and>
     exaltedFactionCount m' = exaltedFactionCount m - of_bool (REP_EXALTED \<le> rank_of env st) + of_bool (REP_EXALTED \<le> rank_of env st')"

lemma follows_ok:
  "mgr_ok env m \<Longrightarrow> map_of (factions m) k = Some st \<Longrightarrow> state_ok env k st' \<Longrightarrow> follows env m k st m' st' \<Longrightarrow> mgr_ok env m'"
  unfolding follows_def by (elim conjE) (rule mgr_ok_put)

lemma follows_find: "follows env m k st m' st' \<Longrightarrow> map_of (factions m') k = Some st'"
  and follows_at: "follows env m k st m' st' \<Longrightarrow> state_at k m' = st'"
  by (simp_all add: follows_def state_at_def std_map.find_put)

lemma follows_put:
  "follows env m k st m' st' \<Longrightarrow> bit (Flags st'') 0 = bit (Flags st') 0 \<Longrightarrow> rank_of env st'' = rank_of env st' \<Longrightarrow>
   follows env m k st (put_state k st'' m') st''"
  by (simp add: follows_def put_state_def store_put_put)

lemma follows_visible:
  assumes "ordered_store (factions m)" and "follows env m k st m' st'"
  shows "follows env m k st (snd (SetVisible_state env k m')) (visible_state st')"
proof -
  have "ordered_store (factions m')" using assms by (simp add: follows_def std_map.ordered_put)
  from SetVisible_state_eq [OF this follows_find [OF assms(2)], of env] assms(2) show ?thesis
    by (simp add: follows_def put_state_def store_put_put)
qed

definition loaded_state :: "RepEnv \<Rightarrow> int \<times> u16 \<Rightarrow> FactionState \<Rightarrow> FactionState" where
  "loaded_state env row st =
     (let st1 = st\<lparr>Standing := fst row\<rparr>;
          st2 = (if bit (snd row) 0 then visible_state st1 else st1);
          st3 = (if bit (snd row) 5 then SetInactive_state True st2 else st2);
          st4 = (if bit (snd row) 1 then SetAtWar_state True st3
                 else if bit (Flags st3) 0 then SetAtWar_state False st3 else st3);
          st5 = (if rank_of env st4 \<le> REP_HOSTILE then SetAtWar_state True st4 else st4)
      in if ucast (Flags st5) = snd row then st5\<lparr>needSend := False, needSave := False\<rparr> else st5)"

lemma db_flag_bits:
  "(ucast (f :: u16) :: u32) AND ucast FACTION_FLAG_VISIBLE = 0 \<longleftrightarrow> \<not> bit f 0"
  "(ucast (f :: u16) :: u32) AND ucast FACTION_FLAG_AT_WAR = 0 \<longleftrightarrow> \<not> bit f 1"
  "(ucast (f :: u16) :: u32) AND ucast FACTION_FLAG_INACTIVE = 0 \<longleftrightarrow> \<not> bit f 5"
  "(ucast (g :: u8) :: u32) = ucast f \<longleftrightarrow> ucast g = f"
proof -
  have p: "(ucast FACTION_FLAG_VISIBLE :: u32) = 2 ^ 0" "(ucast FACTION_FLAG_AT_WAR :: u32) = 2 ^ 1"
    "(ucast FACTION_FLAG_INACTIVE :: u32) = 2 ^ 5"
    by (simp_all add: flag_defs)
  show "(ucast (f :: u16) :: u32) AND ucast FACTION_FLAG_VISIBLE = 0 \<longleftrightarrow> \<not> bit f 0"
    "(ucast (f :: u16) :: u32) AND ucast FACTION_FLAG_AT_WAR = 0 \<longleftrightarrow> \<not> bit f 1"
    "(ucast (f :: u16) :: u32) AND ucast FACTION_FLAG_INACTIVE = 0 \<longleftrightarrow> \<not> bit f 5"
    unfolding p by (subst and_power; simp add: bit_ucast_iff)+
  show "(ucast (g :: u8) :: u32) = ucast f \<longleftrightarrow> ucast g = f"
  proof
    have g: "bit g n \<Longrightarrow> n < 16" "bit f n \<Longrightarrow> n < 16" for n
      using bit_imp_le_length [of g n] bit_imp_le_length [of f n] by simp_all
    show "ucast g = f" if "(ucast g :: u32) = ucast f"
      using that g by (auto simp: bit_eq_iff [where ?'a = u32] bit_eq_iff [where ?'a = u16] bit_ucast_iff) 
    show "(ucast g :: u32) = ucast f" if "ucast g = f"
      using that [symmetric] by (auto simp: bit_eq_iff [where ?'a = u32] bit_ucast_iff dest: g(1))
  qed
qed

lemma state_ok_standing: "state_ok env k st \<Longrightarrow> in_range (base_of env st + s) \<Longrightarrow> state_ok env k (st\<lparr>Standing := s\<rparr>)"
  by (auto simp: state_ok_def base_of_def)

lemma state_ok_loaded:
  "state_ok env k st \<Longrightarrow> in_range (base_of env st + fst row) \<Longrightarrow> state_ok env k (loaded_state env row st)"
  by (simp add: loaded_state_def Let_def state_ok_fields state_ok_standing)

lemma load_row_eq:
  assumes env: "env_ok env" and m: "mgr_ok env m" and e: "faction_entry env (ucast f) = Some e" "CanHaveReputation e"
    and st: "map_of (factions m) (list_id e) = Some st" "Standing st = 0" and r: "in_range (base_of env st + s)"
  shows "factions (snd (load_row env (f, s, fl) m)) = store_put (list_id e) (loaded_state env (s, fl) st) (factions m)"
    and "mgr_ok env (snd (load_row env (f, s, fl) m))"
proof -
  let ?k = "list_id e" and ?r = "load_row env (f, s, fl) m"
  have ok: "state_ok env ?k st" by (rule mgr_state [OF m st(1)])
  note base = entry_of_state(2) [OF env ok e]
  define st1 where "st1 = st\<lparr>Standing := s\<rparr>"
  define st2 where "st2 = (if bit fl 0 then visible_state st1 else st1)"
  define st3 where "st3 = (if bit fl 5 then SetInactive_state True st2 else st2)"
  define st4 where "st4 = (if bit fl 1 then SetAtWar_state True st3
    else if bit (Flags st3) 0 then SetAtWar_state False st3 else st3)"
  define st5 where "st5 = (if rank_of env st4 \<le> REP_HOSTILE then SetAtWar_state True st4 else st4)"
  define m1 where "m1 = UpdateRankCounters (ReputationToRank (GetBaseReputation env e))
    (ReputationToRank (int32 (GetBaseReputation env e + s))) (put_state ?k st1 m)"
  define m2 where "m2 = (if bit fl 0 then snd (SetVisible_state env ?k m1) else m1)"
  define m3 where "m3 = (if bit fl 5 then put_state ?k (SetInactive_state True st2) m2 else m2)"
  define m4 where "m4 = (if bit fl 1 then put_state ?k (SetAtWar_state True st3) m3
    else if bit (Flags st3) 0 then put_state ?k (SetAtWar_state False st3) m3 else m3)"
  define m5 where "m5 = (if rank_of env st4 \<le> REP_HOSTILE then put_state ?k (SetAtWar_state True st4) m4 else m4)"
  have "int32 (GetBaseReputation env e + s) = base_of env st1 + Standing st1"
    using range_int32 [OF r] by (simp add: base st1_def base_of_def [of _ "_ \<lparr>Standing := _\<rparr>"]) (simp add: base base_of_def [symmetric])
  then have f1: "follows env m ?k st m1 st1"
    using st(2) by (simp add: follows_def m1_def put_state_def rank_of_def base [symmetric]) (simp add: st1_def)
  have f2: "follows env m ?k st m2 st2"
    using f1 follows_visible [OF mgr_ordered [OF m] f1] by (simp add: m2_def st2_def)
  have f3: "follows env m ?k st m3 st3" using f2 by (auto simp: m3_def st3_def intro: follows_put)
  have f4: "follows env m ?k st m4 st4" using f3 by (auto simp: m4_def st4_def intro: follows_put)
  have f5: "follows env m ?k st m5 st5" using f4 by (auto simp: m5_def st5_def intro: follows_put)
  note at = follows_at [OF f2] follows_at [OF f3] follows_at [OF f4] follows_at [OF f5]
  have "Standing st4 = s" "base_of env st4 = base_of env st"
    by (simp_all add: st4_def st3_def st2_def st1_def base_of_def)
  then have rank: "GetRank env (Some e) m4 = rank_of env st4"
    using follows_find [OF f4] e(2) range_int32 [OF r]
    by (simp add: GetRank_def GetReputation_def GetState_def rank_of_def base)
  let ?m6 = "if ucast (Flags st5) = fl then put_state ?k (st5\<lparr>needSend := False, needSave := False\<rparr>) m5 else m5"
  have eq: "snd ?r = ?m6"
    using e(2) unfolding load_row_def CanHaveReputation_def
    by (simp only: prod.case e(1) option.case if_True Let_def state_at_some [OF st(1)] st1_def [symmetric] m1_def [symmetric]
        case_prod_unfold db_flag_bits if_distrib [of snd] fst_conv snd_conv m2_def [symmetric] at m3_def [symmetric] m4_def [symmetric]
        faction_flag_bits if_not_P not_not rank m5_def [symmetric])
  have "loaded_state env (s, fl) st =
      (if ucast (Flags st5) = fl then st5\<lparr>needSend := False, needSave := False\<rparr> else st5)"
    by (simp only: loaded_state_def Let_def fst_conv snd_conv st1_def [symmetric] st2_def [symmetric] st3_def [symmetric]
        st4_def [symmetric] st5_def [symmetric])
  then have f6: "follows env m ?k st ?m6 (loaded_state env (s, fl) st)"
    using f5 by (auto intro: follows_put)
  show "factions (snd ?r) = store_put ?k (loaded_state env (s, fl) st) (factions m)"
    using f6 unfolding eq follows_def by blast
  show "mgr_ok env (snd ?r)"
    unfolding eq by (rule follows_ok [OF m st(1) state_ok_loaded f6]) (simp_all add: ok r)
qed

text \<open>The rows of the database: one per faction, with standings in range for the factions that are listed.\<close>

definition rows_ok :: "RepEnv \<Rightarrow> (u16 \<times> int \<times> u16) list \<Rightarrow> bool" where
  "rows_ok env rows \<longleftrightarrow>
     distinct (map fst rows) \<and>
     list_all (\<lambda>(f, s, fl). case faction_entry env (ucast f) of None \<Rightarrow> True | Some e \<Rightarrow> in_range (GetBaseReputation env e + s)) rows"

definition loaded_from :: "RepEnv \<Rightarrow> (u16 \<rightharpoonup> int \<times> u16) \<Rightarrow> FactionEntry \<Rightarrow> FactionState" where
  "loaded_from env db e =
     (case db (ucast (entry_ID e)) of None \<Rightarrow> init_state env e | Some row \<Rightarrow> loaded_state env row (init_state env e))"

definition loaded :: "RepEnv \<Rightarrow> (u16 \<rightharpoonup> int \<times> u16) \<Rightarrow> ReputationMgr \<Rightarrow> bool" where
  "loaded env db m \<longleftrightarrow>
     mgr_ok env m \<and>
     (\<forall>k st. map_of (factions m) k = Some st \<longleftrightarrow>
        (\<exists>i e. faction_entry env i = Some e \<and> CanHaveReputation e \<and> list_id e = k \<and> st = loaded_from env db e))"

lemma ucast_id:
  assumes "env_ok env" and "faction_entry env i = Some e"
  shows "entry_ID e = i" and "ucast (ucast i :: u16) = i"
proof -
  have "unat i < 2 ^ 16" using assms by (force simp: env_ok_def)
  then have "int (unat i) < int (2 ^ 16)" by (simp only: of_nat_less_iff)
  then have "uint i < 2 ^ 16" by simp
  then have "take_bit 16 i = i" by (simp add: take_bit_eq_mask mask_eq_iff)
  moreover have "ucast (ucast i :: u16) = take_bit 16 i" by (rule bit_word_eqI) (auto simp: bit_ucast_iff bit_take_bit_iff)
  ultimately show "ucast (ucast i :: u16) = i" by simp
qed (use assms in \<open>auto simp: env_ok_def\<close>)

lemma ucast_column: "ucast (ucast f :: u32) = f" for f :: u16
  by (rule bit_word_eqI) (simp add: bit_ucast_iff)

lemma load_row_step:
  assumes env: "env_ok env" and l: "loaded env db m" and f: "db f = None"
    and r: "\<And>e. faction_entry env (ucast f) = Some e \<Longrightarrow> in_range (GetBaseReputation env e + s)"
  shows "loaded env (db(f \<mapsto> (s, fl))) (snd (load_row env (f, s, fl) m))"
proof (cases "\<exists>e. faction_entry env (ucast f) = Some e \<and> CanHaveReputation e")
  case False
  then have "snd (load_row env (f, s, fl) m) = m"
    by (auto simp: load_row_def CanHaveReputation_def split: option.split)
  moreover have "loaded_from env (db(f \<mapsto> (s, fl))) e = loaded_from env db e"
    if "faction_entry env i = Some e" "CanHaveReputation e" for i e
    using False that ucast_id [OF env that(1)] by (auto simp: loaded_from_def)
  ultimately show ?thesis using l unfolding loaded_def by (metis (no_types, lifting))
next
  case True
  then obtain e where e: "faction_entry env (ucast f) = Some e" "CanHaveReputation e" by blast
  let ?k = "list_id e" and ?st = "init_state env e" and ?db = "db(f \<mapsto> (s, fl))"
  have m: "mgr_ok env m" using l by (simp add: loaded_def)
  have id: "entry_ID e = ucast f" using ucast_id(1) [OF env e(1)] .
  then have "loaded_from env db e = ?st" and new: "loaded_from env ?db e = loaded_state env (s, fl) ?st"
    using f by (simp_all add: loaded_from_def ucast_column)
  then have st: "map_of (factions m) ?k = Some ?st" using l e unfolding loaded_def by metis
  have base: "base_of env ?st = GetBaseReputation env e" using e id by (simp add: base_of_def init_state_def)
  have "Standing ?st = 0" by (simp add: init_state_def)
  note eq = load_row_eq [OF env m e st this, of s fl, unfolded base, OF r [OF e(1)]]
  have o: "loaded_from env ?db e' = loaded_from env db e'" if "faction_entry env i = Some e'" "e' \<noteq> e" for i e'
    using ucast_id [OF env that(1)] e(1) that by (auto simp: loaded_from_def)
  have u: "e' = e" if "faction_entry env i = Some e'" "CanHaveReputation e'" "list_id e' = ?k" for i e'
    using env e that unfolding env_ok_def by metis
  have "map_of (factions (snd (load_row env (f, s, fl) m))) k = Some st' \<longleftrightarrow>
      (\<exists>i e. faction_entry env i = Some e \<and> CanHaveReputation e \<and> list_id e = k \<and> st' = loaded_from env ?db e)" for k st'
  proof (cases "k = ?k")
    case True
    then show ?thesis unfolding eq(1) std_map.find_put new [symmetric] using e u by fastforce
  next
    case False
    then have "map_of (factions (snd (load_row env (f, s, fl) m))) k = map_of (factions m) k"
      using eq(1) by (simp add: std_map.find_put)
    then show ?thesis using l False o unfolding loaded_def by metis
  qed
  then show ?thesis using eq(2) by (simp add: loaded_def)
qed

lemma LoadFromDB_loaded:
  assumes env: "env_ok env" and rows: "rows_ok env rows"
  shows "loaded env (map_of rows) (snd (LoadFromDB env rows m))"
proof -
  have "loaded env db m \<Longrightarrow> rows_ok env rows \<Longrightarrow> dom db \<inter> fst ` set rows = {} \<Longrightarrow>
      loaded env (db ++ map_of rows) (snd (load_rows env rows m))" for db m rows
  proof (induction rows arbitrary: db m)
    case (Cons row rows)
    obtain f s fl where row: "row = (f, s, fl)" by (cases row)
    have "loaded env (db(f \<mapsto> (s, fl))) (snd (load_row env row m))"
      unfolding row
    proof (rule load_row_step [OF env Cons.prems(1)])
      show "db f = None" using Cons.prems(3) by (auto simp: row)
      show "faction_entry env (ucast f) = Some e \<Longrightarrow> in_range (GetBaseReputation env e + s)" for e
        using Cons.prems(2) by (auto simp: row rows_ok_def)
    qed
    moreover have "f \<notin> fst ` set rows" using Cons.prems by (auto simp: row rows_ok_def)
    then have "db ++ map_of (row # rows) = db(f \<mapsto> (s, fl)) ++ map_of rows"
      by (simp add: row map_add_upd_left dom_map_of_conv_image_fst)
    moreover have "rows_ok env rows" "dom (db(f \<mapsto> (s, fl))) \<inter> fst ` set rows = {}"
      using Cons.prems \<open>f \<notin> fst ` set rows\<close> by (auto simp: rows_ok_def)
    ultimately show ?case
      using Cons.IH [of "db(f \<mapsto> (s, fl))" "snd (load_row env row m)"]
      by (simp only: load_rows.simps case_prod_unfold snd_conv)
  qed simp
  moreover have "loaded env Map.empty (Initialize env m)"
    using Initialize_states [OF env, of m] by (simp add: loaded_def initialized_def loaded_from_def)
  ultimately show ?thesis using rows unfolding LoadFromDB_def by (metis dom_empty empty_map_add inf_bot_left)
qed

end
