(* ===== verification/ReputationRelog.thy ===== *)
theory ReputationRelog
  imports ReputationProps
begin

text \<open>
  A session of a player: reputations are loaded from the database, changed by any sequence of operations, and
  saved. The invariant relates the manager to the table of the database; the theorems say what every
  sequence of operations keeps, what an assignment of a standing does, what the client is told at login, and
  that the next session loads what this one saved.
\<close>

section \<open>The database\<close>

type_synonym rep_table = "u16 \<rightharpoonup> int \<times> u16"

primrec run_statement :: "rep_effect \<Rightarrow> rep_table \<Rightarrow> rep_table" where
  "run_statement (SendDirectMessage op bs) db = db"
| "run_statement (ReputationChanged i) db = db"
| "run_statement (UpdateAchievementCriteria t i) db = db"
| "run_statement (UpdateGuildAchievementCriteria t i) db = db"
| "run_statement (DeleteReputation f) db = db(f := None)"
| "run_statement (InsertReputation f s fl) db = db(f \<mapsto> (s, fl))"

abbreviation "run_statements es db \<equiv> fold run_statement es db"

definition column :: "FactionState \<Rightarrow> u16" where
  "column st = ucast (fs_ID st)"

definition row_of :: "FactionState \<Rightarrow> int \<times> u16" where
  "row_of st = (Standing st, ucast (Flags st))"

lemma run_save: "run_statements (save_statements st) db = (if needSave st then db(column st \<mapsto> row_of st) else db)"
  by (simp add: save_statements_def column_def row_of_def)

lemma run_saves:
  assumes "distinct (map (column \<circ> snd) fs)"
  shows "(k, st) \<in> set fs \<Longrightarrow>
      run_statements (concat (map (\<lambda>(k, st). save_statements st) fs)) db (column st) =
        (if needSave st then Some (row_of st) else db (column st))"
    and "f \<notin> set (map (column \<circ> snd) fs) \<Longrightarrow> run_statements (concat (map (\<lambda>(k, st). save_statements st) fs)) db f = db f"
proof -
  have other: "f \<notin> set (map (column \<circ> snd) fs) \<Longrightarrow>
      run_statements (concat (map (\<lambda>(k, st). save_statements st) fs)) db f = db f" for f fs db
    by (induction fs arbitrary: db) (auto simp: run_save)
  show "f \<notin> set (map (column \<circ> snd) fs) \<Longrightarrow> run_statements (concat (map (\<lambda>(k, st). save_statements st) fs)) db f = db f"
    by (rule other)
  show "(k, st) \<in> set fs \<Longrightarrow>
      run_statements (concat (map (\<lambda>(k, st). save_statements st) fs)) db (column st) =
        (if needSave st then Some (row_of st) else db (column st))"
    using assms
  proof (induction fs arbitrary: db)
    case (Cons x fs)
    show ?case
    proof (cases "x = (k, st)")
      case True
      with Cons.prems(2) have "column st \<notin> set (map (column \<circ> snd) fs)" by simp
      then show ?thesis by (simp add: True run_save other)
    next
      case False
      with Cons.prems have "(k, st) \<in> set fs" "column (snd x) \<noteq> column st" by force+
      with Cons show ?thesis by (cases x) (simp add: run_save)
    qed
  qed simp
qed

section \<open>The session\<close>

definition saved :: "rep_table \<Rightarrow> ReputationMgr \<Rightarrow> bool" where
  "saved db m \<longleftrightarrow> (\<forall>k st. map_of (factions m) k = Some st \<and> \<not> needSave st \<longrightarrow> db (column st) = Some (row_of st))"

definition table_ok :: "RepEnv \<Rightarrow> rep_table \<Rightarrow> bool" where
  "table_ok env db \<longleftrightarrow>
     (\<forall>f s fl e. db f = Some (s, fl) \<and> faction_entry env (ucast f) = Some e \<longrightarrow> in_range (GetBaseReputation env e + s))"

definition known :: "RepEnv \<Rightarrow> ReputationMgr \<Rightarrow> bool" where
  "known env m \<longleftrightarrow>
     (\<forall>k. map_of (factions m) k \<noteq> None \<longleftrightarrow> (\<exists>i e. faction_entry env i = Some e \<and> CanHaveReputation e \<and> list_id e = k))"

definition session_ok :: "RepEnv \<Rightarrow> ReputationMgr \<times> rep_table \<Rightarrow> bool" where
  "session_ok env s \<longleftrightarrow> mgr_ok env (fst s) \<and> known env (fst s) \<and> saved (snd s) (fst s) \<and> table_ok env (snd s)"

lemma session_keeps:
  assumes "session_ok env (m, db)" and "rep_keeps env m m'"
  shows "session_ok env (m', db)"
proof -
  have m: "mgr_ok env m'" and ev: "evolves m m'" using assms by (simp_all add: session_ok_def rep_keeps_def)
  have rel: "rel_option evolved (map_of (factions m) k) (map_of (factions m') k)" for k using ev by (simp add: evolves_def)
  then have "(map_of (factions m') k \<noteq> None) = (map_of (factions m) k \<noteq> None)" for k
    using rel [of k] by (cases "map_of (factions m) k"; cases "map_of (factions m') k") simp_all
  then have "known env m'" using assms(1) by (simp add: session_ok_def known_def)
  moreover have "saved db m'"
    unfolding saved_def
  proof (intro allI impI)
    fix k st'
    assume st': "map_of (factions m') k = Some st' \<and> \<not> needSave st'"
    with rel [of k] obtain st where "map_of (factions m) k = Some st" "evolved st st'" by (auto simp: option_rel_Some2)
    with st' assms(1) show "db (column st') = Some (row_of st')"
      by (auto simp: session_ok_def saved_def evolved_def column_def row_of_def)
  qed
  ultimately show ?thesis using m assms(1) by (simp add: session_ok_def)
qed

lemma columns_distinct:
  assumes env: "env_ok env" and m: "mgr_ok env m"
  shows "distinct (map (column \<circ> snd) (factions m))"
proof -
  have "a = b" if "a \<in> set (factions m)" "b \<in> set (factions m)" "column (snd a) = column (snd b)" for a b
  proof -
    have d: "distinct (map fst (factions m))" by (rule ordered_distinct [OF mgr_ordered [OF m]])
    with that have at: "map_of (factions m) (fst a) = Some (snd a)" "map_of (factions m) (fst b) = Some (snd b)" by simp_all
    from mgr_state [OF m at(1)] mgr_state [OF m at(2)] obtain e e'
      where e: "faction_entry env (fs_ID (snd a)) = Some e" "list_id e = fst a"
        "faction_entry env (fs_ID (snd b)) = Some e'" "list_id e' = fst b"
      by (auto simp: state_ok_def)
    have "fs_ID (snd a) = fs_ID (snd b)"
      using that(3) ucast_id(2) [OF env e(1)] ucast_id(2) [OF env e(3)] unfolding column_def by metis
    with e have "fst a = fst b" by simp
    with at show "a = b" by (simp add: prod_eq_iff)
  qed
  moreover have "distinct (factions m)" using ordered_distinct [OF mgr_ordered [OF m]] by (simp add: distinct_map)
  ultimately show ?thesis by (auto simp: distinct_map inj_on_def)
qed

lemma session_save:
  assumes env: "env_ok env" and s: "session_ok env (m, db)"
  defines "db' \<equiv> run_statements (fst (SaveToDB m)) db"
  shows "session_ok env (snd (SaveToDB m), db')"
    and "map_of (factions m) k = Some st \<Longrightarrow> db' (column st) = Some (row_of st)"
proof -
  have m: "mgr_ok env m" "known env m" "saved db m" "table_ok env db" using s by (simp_all add: session_ok_def)
  note runs = run_saves [OF columns_distinct [OF env m(1)], where db = db]
  have db': "db' = run_statements (concat (map (\<lambda>(k, st). save_statements st) (factions m))) db"
    by (simp add: db'_def SaveToDB_def)
  have at: "db' (column st) = Some (row_of st)" if "map_of (factions m) k = Some st" for k st
    using that m(3) runs(1) [OF map_of_SomeD [OF that]] by (auto simp: db' saved_def)
  then show "map_of (factions m) k = Some st \<Longrightarrow> db' (column st) = Some (row_of st)" .
  let ?m = "snd (SaveToDB m)"
  have fs: "factions ?m = map (\<lambda>(k, st). (k, st\<lparr>needSave := False\<rparr>)) (factions m)" by (simp add: SaveToDB_def)
  have find: "map_of (factions ?m) k = map_option (\<lambda>st. st\<lparr>needSave := False\<rparr>) (map_of (factions m) k)" for k
    unfolding fs by (simp add: map_of_map)
  have "mgr_ok env ?m"
    by (rule map_states(2) [where g = "\<lambda>st. st\<lparr>needSave := False\<rparr>", OF _ _ _ m(1) fs])
      (simp_all add: state_ok_fields SaveToDB_def)
  moreover have "known env ?m" using m(2) by (simp add: known_def find)
  moreover have "saved db' ?m" using at by (auto simp: saved_def find column_def row_of_def)
  moreover have "table_ok env db'"
    unfolding table_ok_def
  proof (intro allI impI)
    fix f s fl e
    assume a: "db' f = Some (s, fl) \<and> faction_entry env (ucast f) = Some e"
    show "in_range (GetBaseReputation env e + s)"
    proof (cases "f \<in> set (map (column \<circ> snd) (factions m))")
      case True
      then obtain x where x: "x \<in> set (factions m)" "f = column (snd x)" by auto
      then have st: "map_of (factions m) (fst x) = Some (snd x)"
        using ordered_distinct [OF mgr_ordered [OF m(1)]] by simp
      from mgr_state [OF m(1) this] obtain e' where e': "faction_entry env (fs_ID (snd x)) = Some e'"
        "in_range (GetBaseReputation env e' + Standing (snd x))" by (auto simp: state_ok_def)
      then have "e' = e" using a x(2) ucast_id(2) [OF env e'(1)] by (simp add: column_def)
      moreover have "s = Standing (snd x)" using a at [OF st] x(2) by (simp add: row_of_def)
      ultimately show ?thesis using e' by simp
    next
      case False
      then have "db f = Some (s, fl)" using a runs(2) by (simp add: db')
      then show ?thesis using a m(4) unfolding table_ok_def by blast
    qed
  qed
  ultimately show "session_ok env (?m, db')" by (simp add: session_ok_def)
qed

definition login :: "RepEnv \<Rightarrow> (u16 \<times> int \<times> u16) list \<Rightarrow> ReputationMgr \<times> rep_table" where
  "login env rows = (snd (LoadFromDB env rows ReputationMgr_new), map_of rows)"

lemma loaded_marks:
  assumes "needSave st" and "\<not> needSave (loaded_state env row st)"
  shows "row_of (loaded_state env row st) = row"
proof -
  have m: "needSave (visible_state s)" "needSave (SetInactive_state b s)" "needSave (SetAtWar_state b s)" if "needSave s" for s b
    using that state_saved by metis+
  show ?thesis
    using assms unfolding loaded_state_def Let_def
    by (auto simp: m row_of_def split: if_splits)
qed

lemma session_login:
  assumes env: "env_ok env" and rows: "rows_ok env rows"
  shows "session_ok env (login env rows)"
proof -
  let ?m = "snd (LoadFromDB env rows ReputationMgr_new)" and ?db = "map_of rows"
  have l: "loaded env ?db ?m" by (rule LoadFromDB_loaded [OF env rows])
  then have "mgr_ok env ?m" "known env ?m" unfolding loaded_def known_def by (simp, metis not_None_eq)
  moreover have "table_ok env ?db"
    using rows by (force simp: table_ok_def rows_ok_def list_all_iff dest: map_of_SomeD split: option.splits)
  moreover have "saved ?db ?m"
    unfolding saved_def
  proof (intro allI impI)
    fix k st
    assume st: "map_of (factions ?m) k = Some st \<and> \<not> needSave st"
    then obtain i e where e: "faction_entry env i = Some e" "st = loaded_from env ?db e" using l unfolding loaded_def by blast
    then have "column st = ucast (entry_ID e)" 
      by (auto simp: loaded_from_def column_def loaded_state_def Let_def init_state_def split: option.splits)
    moreover obtain row where row: "?db (ucast (entry_ID e)) = Some row"
      using e st by (auto simp: loaded_from_def init_state_def split: option.splits)
    moreover have "row_of st = row"
      using e st row loaded_marks [of "init_state env e" env row] by (simp add: loaded_from_def init_state_def)
    ultimately show "?db (column st) = Some (row_of st)" by simp
  qed
  ultimately show ?thesis by (simp add: session_ok_def login_def)
qed

text \<open>Everything the server does with the manager while the player is in the world.\<close>

datatype rep_op =
    OpSet u32 int | OpModify u32 int | OpSetOne u32 int bool | OpShowTemplate u32 | OpShow u32 | OpAtWar u32 bool
  | OpInactive u32 bool | OpForce u32 ReputationRank bool | OpSendInitial | OpSendStates | OpSendState u32 | OpSave

definition with_entry :: "RepEnv \<Rightarrow> u32 \<Rightarrow> (FactionEntry \<Rightarrow> ReputationMgr) \<Rightarrow> ReputationMgr \<Rightarrow> ReputationMgr" where
  "with_entry env i f m = (case faction_entry env i of None \<Rightarrow> m | Some e \<Rightarrow> f e)"

definition or_unchanged :: "ReputationMgr \<Rightarrow> rep_error + bool \<times> rep_effect list \<times> ReputationMgr \<Rightarrow> ReputationMgr" where
  "or_unchanged m r = (case r of Inl x \<Rightarrow> m | Inr (res, es, m') \<Rightarrow> m')"

primrec exec_rep :: "RepEnv \<Rightarrow> rep_op \<Rightarrow> ReputationMgr \<times> rep_table \<Rightarrow> ReputationMgr \<times> rep_table" where
  "exec_rep env (OpSet i s) w = (with_entry env i (\<lambda>e. or_unchanged (fst w) (SetReputation env e s (fst w))) (fst w), snd w)"
| "exec_rep env (OpModify i s) w = (with_entry env i (\<lambda>e. or_unchanged (fst w) (ModifyReputation env e s (fst w))) (fst w), snd w)"
| "exec_rep env (OpSetOne i s inc) w = (with_entry env i (\<lambda>e. snd (snd (SetOneFactionReputation env e s inc (fst w)))) (fst w), snd w)"
| "exec_rep env (OpShowTemplate i) w = (snd (SetVisible_template env i (fst w)), snd w)"
| "exec_rep env (OpShow i) w = (with_entry env i (\<lambda>e. snd (SetVisible env e (fst w))) (fst w), snd w)"
| "exec_rep env (OpAtWar k on) w = (SetAtWar k on (fst w), snd w)"
| "exec_rep env (OpInactive k on) w = (SetInactive k on (fst w), snd w)"
| "exec_rep env (OpForce i r on) w = (ApplyForceReaction i r on (fst w), snd w)"
| "exec_rep env OpSendInitial w = (snd (SendInitialReputations (fst w)), snd w)"
| "exec_rep env OpSendStates w = (snd (SendStates (fst w)), snd w)"
| "exec_rep env (OpSendState k) w = (snd (SendState (state_at k (fst w)) (fst w)), snd w)"
| "exec_rep env OpSave w = (snd (SaveToDB (fst w)), run_statements (fst (SaveToDB (fst w))) (snd w))"

lemma keeps_send_states: "rep_keeps env m (snd (send_states ks m))"
proof (induction ks arbitrary: m)
  case (Cons k ks)
  then show ?case
    using keeps_trans [OF keeps_SendState Cons]
    by (cases "map_of (factions m) k") (simp_all add: case_prod_unfold)
qed simp

lemma keeps_with_entry: "(\<And>e. faction_entry env i = Some e \<Longrightarrow> rep_keeps env m (f e)) \<Longrightarrow> rep_keeps env m (with_entry env i f m)"
  by (simp add: with_entry_def split: option.split)

lemma keeps_SetReputation:
  assumes "env_ok env" and "faction_entry env i = Some e"
  shows "rep_keeps env m (or_unchanged m (SetReputation_inc env e s inc m))"
  using keeps_SetReputation_inc [OF assms] by (auto simp: or_unchanged_def split: sum.split)

lemma session_exec: "env_ok env \<Longrightarrow> session_ok env w \<Longrightarrow> session_ok env (exec_rep env op w)"
proof -
  assume env: "env_ok env" and w: "session_ok env w"
  obtain m db where [simp]: "w = (m, db)" by (cases w)
  have s: "session_ok env (m', db)" if "rep_keeps env m m'" for m' using session_keeps [OF _ that] w by simp
  show ?thesis
  proof (cases op)
    case OpSave
    then show ?thesis using session_save(1) [OF env, of m db] w by simp
  qed (auto intro!: s keeps_with_entry keeps_SetReputation [OF env] keeps_SetOne [OF env] keeps_SetVisible keeps_SetVisible_template
      keeps_SetAtWar keeps_SetInactive keeps_unsent keeps_send_states keeps_SendState
      simp: SetReputation_def ModifyReputation_def ApplyForceReaction_def SendInitialReputations_def SendStates_def)
qed

interpretation reputation: op_machine "exec_rep env" "\<lambda>w. env_ok env \<longrightarrow> session_ok env w" for env
  by unfold_locales (simp add: session_exec)

lemma session_run:
  "env_ok env \<Longrightarrow> rows_ok env rows \<Longrightarrow> exec_ops (exec_rep env) ops (login env rows) = (m, db) \<Longrightarrow> session_ok env (m, db)"
  using reputation.run_inv [of env "login env rows" ops] session_login [of env rows] by simp

section \<open>What every session keeps\<close>

text \<open>C26: After a player's reputations are loaded, every sequence of operations keeps the counters equal to the number of
  visible, honored, revered and exalted factions (modulo 256, the width of the counters), every standing with
  its base between hated and exalted, and the factions in the order of the client's list.\<close>

theorem reputation_counters:
  assumes "env_ok env" and "rows_ok env rows" and "exec_ops (exec_rep env) ops (login env rows) = (m, db)"
  shows "ordered_store (factions m) \<and>
    visibleFactionCount m = of_nat (entries shown (factions m)) \<and>
    honoredFactionCount m = of_nat (entries (at_least env REP_HONORED) (factions m)) \<and>
    reveredFactionCount m = of_nat (entries (at_least env REP_REVERED) (factions m)) \<and>
    exaltedFactionCount m = of_nat (entries (at_least env REP_EXALTED) (factions m)) \<and>
    (\<lambda>x. base_of env (snd x) + Standing (snd x)) ` set (factions m) \<subseteq> {-42000..42999}"
proof -
  have m: "mgr_ok env m" using session_run [OF assms] by (simp add: session_ok_def)
  have "base_of env (snd x) + Standing (snd x) \<in> {-42000..42999}" if "x \<in> set (factions m)" for x
  proof -
    have "map_of (factions m) (fst x) = Some (snd x)"
      using ordered_distinct [OF mgr_ordered [OF m]] that by simp
    from mgr_state [OF m this] show ?thesis
      by (auto simp: state_ok_def base_of_def in_range_def Reputation_Bottom_def Reputation_Cap_def)
  qed
  then show ?thesis using m mgr_ordered [OF m] by (auto simp: mgr_ok_def counters_ok_def)
qed

section \<open>The next session\<close>

lemma state_bits:
  "bit (Flags (visible_state st)) n \<longleftrightarrow>
     bit (Flags st) n \<or> n = 0 \<and> (\<not> bit (Flags st) 2 \<and> \<not> bit (Flags st) 3 \<or> bit (Flags st) 7)"
  "bit (Flags (SetAtWar_state True st)) n \<longleftrightarrow> bit (Flags st) n \<or> n = 1 \<and> \<not> bit (Flags st) 4"
  "bit (Flags (SetAtWar_state False st)) n \<longleftrightarrow> bit (Flags st) n \<and> n \<noteq> 1"
  "bit (Flags (SetInactive_state True st)) n \<longleftrightarrow>
     bit (Flags st) n \<or> n = 5 \<and> bit (Flags st) 0 \<and> \<not> bit (Flags st) 2 \<and> \<not> bit (Flags st) 3"
  by (auto simp: visible_state_def SetAtWar_state_def SetInactive_state_def flag_updates faction_flag_bits)

lemma ucast_byte: "ucast (ucast g :: u16) = g" for g :: u8
  by (rule bit_word_eqI) (simp add: bit_ucast_iff)

text \<open>A state that is saved and loaded again.\<close>

lemma reloaded_flags:
  fixes env :: RepEnv and s :: int
  assumes ok: "flags_ok (Flags st) f" and d: "\<not> bit (Flags st) 5"
  defines "r \<equiv> loaded_state env (s, ucast f) st"
  shows "Standing r = s" and "fs_ID r = fs_ID st"
    and "n \<noteq> 1 \<Longrightarrow> bit (Flags r) n = bit f n" and "bit f 1 \<Longrightarrow> bit (Flags r) 1"
    and "bit (Flags r) 1 \<Longrightarrow> bit f 1 \<or> rank_of env r \<le> REP_HOSTILE \<or> \<not> bit f 0"
proof -
  define st1 where "st1 = st\<lparr>Standing := s\<rparr>"
  define st2 where "st2 = (if bit f 0 then visible_state st1 else st1)"
  define st3 where "st3 = (if bit f 5 then SetInactive_state True st2 else st2)"
  define st4 where "st4 = (if bit f 1 then SetAtWar_state True st3
    else if bit (Flags st3) 0 then SetAtWar_state False st3 else st3)"
  define st5 where "st5 = (if rank_of env st4 \<le> REP_HOSTILE then SetAtWar_state True st4 else st4)"
  have r: "r = (if Flags st5 = f then st5\<lparr>needSend := False, needSave := False\<rparr> else st5)"
  proof -
    have "(ucast (Flags st5) :: u16) = ucast f \<longleftrightarrow> Flags st5 = f"
      using ucast_byte by metis
    moreover have "bit (ucast f :: u16) 0 = bit f 0" "bit (ucast f :: u16) 1 = bit f 1" "bit (ucast f :: u16) 5 = bit f 5"
      by (simp_all add: bit_ucast_iff)
    ultimately show ?thesis
      by (simp only: r_def loaded_state_def Let_def fst_conv snd_conv st1_def [symmetric] st2_def [symmetric] st3_def [symmetric]
          st4_def [symmetric] st5_def [symmetric])
  qed
  show "Standing r = s" "fs_ID r = fs_ID st"
    by (simp_all add: r st5_def st4_def st3_def st2_def st1_def)
  have F: "Flags r = Flags st5" and R: "rank_of env r = rank_of env st4" by (simp_all add: r st5_def)
  have b1: "bit (Flags st1) n = bit (Flags st) n" for n by (simp add: st1_def)
  have b2: "bit (Flags st2) n = (if n = 0 then bit f 0 else bit (Flags st) n)" for n
    using ok by (auto simp: st2_def b1 state_bits flags_ok_def)
  have b3: "bit (Flags st3) n = (if n = 0 then bit f 0 else if n = 5 then bit f 5 else bit (Flags st) n)" for n
    using ok d by (auto simp: st3_def b2 state_bits flags_ok_def)
  have b4: "bit (Flags st4) n =
      (if n = 1 then bit f 1 \<or> bit (Flags st) 1 \<and> \<not> bit f 0 else bit f n)" for n
    using ok by (auto simp: st4_def b3 state_bits flags_ok_def)
  show "n \<noteq> 1 \<Longrightarrow> bit (Flags r) n = bit f n" and "bit f 1 \<Longrightarrow> bit (Flags r) 1"
    unfolding F by (auto simp: st5_def b4 state_bits)
  show "bit (Flags r) 1 \<Longrightarrow> bit f 1 \<or> rank_of env r \<le> REP_HOSTILE \<or> \<not> bit f 0"
    unfolding F R by (auto simp: st5_def b4 state_bits split: if_splits)
qed

lemma reloaded_flags_word:
  assumes "flags_ok (Flags st) f" and "\<not> bit (Flags st) 5"
  shows "Flags (loaded_state env (s, ucast f) st) = f \<or>
    Flags (loaded_state env (s, ucast f) st) = f OR FACTION_FLAG_AT_WAR \<and>
      (rank_of env (loaded_state env (s, ucast f) st) \<le> REP_HOSTILE \<or> f AND FACTION_FLAG_VISIBLE = 0)"
proof (cases "bit (Flags (loaded_state env (s, ucast f) st)) 1 = bit f 1")
  case True
  then have "bit (Flags (loaded_state env (s, ucast f) st)) n = bit f n" for n
    using reloaded_flags(3) [OF assms, of n] by (cases "n = 1") simp_all
  then have "Flags (loaded_state env (s, ucast f) st) = f" by (intro bit_word_eqI)
  then show ?thesis ..
next
  case False
  then have *: "bit (Flags (loaded_state env (s, ucast f) st)) 1" "\<not> bit f 1"
    using reloaded_flags(4) [OF assms] by blast+
  then have "bit (Flags (loaded_state env (s, ucast f) st)) n = bit (f OR FACTION_FLAG_AT_WAR) n" for n
    using reloaded_flags(3) [OF assms, of n] by (cases "n = 1") (simp_all add: flag_updates)
  then have "Flags (loaded_state env (s, ucast f) st) = f OR FACTION_FLAG_AT_WAR" by (intro bit_word_eqI)
  moreover have "rank_of env (loaded_state env (s, ucast f) st) \<le> REP_HOSTILE \<or> \<not> bit f 0"
    using reloaded_flags(5) [OF assms *(1)] *(2) by blast
  ultimately show ?thesis by (simp add: faction_flag_bits)
qed

lemma relog_states:
  assumes env: "env_ok env" and s: "session_ok env (m, db)"
    and rows: "distinct (map fst rows)" "map_of rows = run_statements (fst (SaveToDB m)) db"
  defines "m' \<equiv> snd (LoadFromDB env rows ReputationMgr_new)"
  shows "mgr_ok env m'" and "(map_of (factions m') k = None) = (map_of (factions m) k = None)"
    and "map_of (factions m) k = Some st \<Longrightarrow> \<exists>st0. flags_ok (Flags st0) (Flags st) \<and> \<not> bit (Flags st0) 5 \<and> fs_ID st0 = fs_ID st \<and>
      map_of (factions m') k = Some (loaded_state env (row_of st) st0)"
proof -
  let ?db = "run_statements (fst (SaveToDB m)) db"
  have t: "table_ok env ?db" "mgr_ok env m" "known env m"
    using session_save(1) [OF env s] s by (simp_all add: session_ok_def)
  have "rows_ok env rows"
    using rows(1) t(1) map_of_is_SomeI [OF rows(1)] rows(2)
    by (force simp: rows_ok_def table_ok_def list_all_iff split: option.split)
  then have l: "loaded env ?db m'" using LoadFromDB_loaded [OF env] rows(2) unfolding m'_def by metis
  then show "mgr_ok env m'" by (simp add: loaded_def)
  show "(map_of (factions m') k = None) = (map_of (factions m) k = None)"
    using l t(3) unfolding loaded_def known_def by (metis not_None_eq)
  assume st: "map_of (factions m) k = Some st"
  from mgr_state [OF t(2) st] obtain e where e: "faction_entry env (fs_ID st) = Some e" "CanHaveReputation e" "list_id e = k"
    "flags_ok (ucast (GetDefaultStateFlags env e)) (Flags st)" by (auto simp: state_ok_def)
  have id: "entry_ID e = fs_ID st" by (rule ucast_id(1) [OF env e(1)])
  then have "loaded_from env ?db e = loaded_state env (row_of st) (init_state env e)"
    using session_save(2) [OF env s st] by (simp add: loaded_from_def column_def)
  then have "map_of (factions m') k = Some (loaded_state env (row_of st) (init_state env e))"
    using l e unfolding loaded_def by metis
  moreover have "\<not> bit (Flags (init_state env e)) 5" using env e(1) by (auto simp: env_ok_def init_state_def bit_ucast_iff)
  ultimately show "\<exists>st0. flags_ok (Flags st0) (Flags st) \<and> \<not> bit (Flags st0) 5 \<and> fs_ID st0 = fs_ID st \<and>
      map_of (factions m') k = Some (loaded_state env (row_of st) st0)"
    using e id by (intro exI [of _ "init_state env e"]) (simp add: init_state_def)
qed

lemma relog_counter:
  assumes "ordered_store (factions m)" and "ordered_store (factions m')"
    and "\<And>k. (map_of (factions m') k = None) = (map_of (factions m) k = None)"
    and "\<And>k st st'. map_of (factions m) k = Some st \<Longrightarrow> map_of (factions m') k = Some st' \<Longrightarrow> P (k, st') = P (k, st)"
  shows "entries P (factions m') = entries P (factions m)"
proof -
  have "(\<exists>v. map_of (factions m') k = Some v \<and> P (k, v)) = (\<exists>v. map_of (factions m) k = Some v \<and> P (k, v))" for k
  proof (cases "map_of (factions m) k")
    case None
    then show ?thesis using assms(3) [of k] by simp
  next
    case (Some st)
    then obtain st' where "map_of (factions m') k = Some st'" using assms(3) [of k] by auto
    then show ?thesis using assms(4) [OF Some] Some by simp
  qed
  then show ?thesis using assms(1,2) by (simp add: entries_card ordered_distinct)
qed

text \<open>C25: What a session saves the next one loads: the same factions with the same standings and counters. The flags
  are the same too, except that a faction is at war again when it is hostile or not visible.\<close>

theorem reputation_survives_relog:
  assumes "env_ok env" and "rows_ok env rows" and "exec_ops (exec_rep env) ops (login env rows) = (m, db)"
    and "distinct (map fst rows')" and "map_of rows' = run_statements (fst (SaveToDB m)) db"
    and "snd (LoadFromDB env rows' ReputationMgr_new) = m'"
  shows "dom (map_of (factions m')) = dom (map_of (factions m)) \<and>
    (map_of (factions m) k = Some st \<longrightarrow>
       (\<exists>st'. map_of (factions m') k = Some st' \<and> Standing st' = Standing st \<and> rank_of env st' = rank_of env st \<and>
          (Flags st' = Flags st \<or>
           Flags st' = Flags st OR FACTION_FLAG_AT_WAR \<and>
             (rank_of env st \<le> REP_HOSTILE \<or> Flags st AND FACTION_FLAG_VISIBLE = 0)))) \<and>
    visibleFactionCount m' = visibleFactionCount m \<and> honoredFactionCount m' = honoredFactionCount m \<and>
    reveredFactionCount m' = reveredFactionCount m \<and> exaltedFactionCount m' = exaltedFactionCount m"
proof -
  have s: "session_ok env (m, db)" by (rule session_run [OF assms(1-3)])
  note relog = relog_states [OF assms(1) s assms(4,5), unfolded assms(6)]
  have m: "mgr_ok env m" using s by (simp add: session_ok_def)
  have st: "\<exists>st'. map_of (factions m') k = Some st' \<and> Standing st' = Standing st \<and> rank_of env st' = rank_of env st \<and>
      bit (Flags st') 0 = bit (Flags st) 0 \<and>
      (Flags st' = Flags st \<or>
       Flags st' = Flags st OR FACTION_FLAG_AT_WAR \<and> (rank_of env st \<le> REP_HOSTILE \<or> Flags st AND FACTION_FLAG_VISIBLE = 0))"
    if k: "map_of (factions m) k = Some st" for k st
  proof -
    obtain st0 where st0: "flags_ok (Flags st0) (Flags st)" "\<not> bit (Flags st0) 5" "fs_ID st0 = fs_ID st"
      "map_of (factions m') k = Some (loaded_state env (row_of st) st0)"
      using relog(3) [OF k] by blast
    note r = reloaded_flags [OF st0(1,2), where env = env and s = "Standing st"]
    have rank: "rank_of env (loaded_state env (Standing st, ucast (Flags st)) st0) = rank_of env st"
      using r(1,2) st0(3) by (simp add: rank_of_def base_of_def)
    then show ?thesis
      using st0(4) r(1) r(3) [of 0] reloaded_flags_word [OF st0(1,2), where env = env and s = "Standing st"]
      unfolding row_of_def by (intro exI [of _ "loaded_state env (Standing st, ucast (Flags st)) st0"]) simp
  qed
  have "entries P (factions m') = entries P (factions m)"
    if "\<And>k st st'. rank_of env st' = rank_of env st \<Longrightarrow> bit (Flags st') 0 = bit (Flags st) 0 \<Longrightarrow> P (k, st') = P (k, st)" for P
  proof (rule relog_counter [OF mgr_ordered [OF m] mgr_ordered [OF relog(1)] relog(2)])
    fix k st st'
    assume "map_of (factions m) k = Some st" and st': "map_of (factions m') k = Some st'"
    from st [OF this(1)] st' have "rank_of env st' = rank_of env st" "bit (Flags st') 0 = bit (Flags st) 0" by auto
    then show "P (k, st') = P (k, st)" by (rule that)
  qed
  then have "entries shown (factions m') = entries shown (factions m)"
    "entries (at_least env r) (factions m') = entries (at_least env r) (factions m)" for r
    by (simp_all add: shown_def at_least_def faction_flag_bits)
  then have "visibleFactionCount m' = visibleFactionCount m" "honoredFactionCount m' = honoredFactionCount m"
    "reveredFactionCount m' = reveredFactionCount m" "exaltedFactionCount m' = exaltedFactionCount m"
    using m relog(1) by (simp_all add: mgr_ok_def counters_ok_def)
  moreover have "dom (map_of (factions m')) = dom (map_of (factions m))" by (simp add: dom_def relog(2))
  ultimately show ?thesis using st [of k st] by blast
qed

section \<open>Assigning a standing\<close>

text \<open>The ranks by their lower bounds.\<close>

definition rank_table :: "int \<Rightarrow> ReputationRank" where
  "rank_table s =
     (if 42000 \<le> s then REP_EXALTED else if 21000 \<le> s then REP_REVERED else if 9000 \<le> s then REP_HONORED
      else if 3000 \<le> s then REP_FRIENDLY else if 0 \<le> s then REP_NEUTRAL else if -3000 \<le> s then REP_UNFRIENDLY
      else if -6000 \<le> s then REP_HOSTILE else REP_HATED)"

lemma ReputationToRank_table: "ReputationToRank s = rank_table s"
  by (simp add: ReputationToRank_def rank_table_def eval_nat_numeral PointsInRank_def all_ranks_def Reputation_Cap_def)

text \<open>The templates of the database name factions that exist, as the server checks when it loads them.\<close>

definition templates_ok :: "RepEnv \<Rightarrow> bool" where
  "templates_ok env \<longleftrightarrow>
     (\<forall>i t j. spillover_template env i = Some t \<and> tpl_faction t j \<noteq> 0 \<longrightarrow> faction_entry env (tpl_faction t j) \<noteq> None)"

lemma spill_template_total:
  assumes "\<And>j. tpl_faction t j \<noteq> 0 \<Longrightarrow> faction_entry env (tpl_faction t j) \<noteq> None"
  shows "\<exists>es m'. spill_template env t s inc is m = Inr (es, m')"
proof (induction "is" arbitrary: m)
  case (Cons i "is")
  show ?case
  proof (cases "faction_entry env (tpl_faction t i)")
    case None
    then have "tpl_faction t i = 0" using assms by blast
    then show ?thesis using Cons by simp
  next
    case (Some e)
    obtain es m1 where "spill_template env t s inc is (snd (snd (SetOneFactionReputation env e
        (int32 (f_to_int (fops env) (f_mul (fops env) (f_of_int (fops env) s) (faction_rate t i)))) inc m))) = Inr (es, m1)"
      using Cons by blast
    with Some Cons [of m] show ?thesis by (simp add: Let_def case_prod_unfold)
  qed
qed simp

text \<open>C27: Setting the standing with a listed faction always succeeds. Whatever spilled over to the faction before, its
  reputation is then the standing that was asked for (after the scripts), limited to the range from
  hated to exalted, and its rank is the one of that standing.\<close>

theorem SetReputation_result:
  assumes "env_ok env" and "templates_ok env" and "rows_ok env rows"
    and "exec_ops (exec_rep env) ops (login env rows) = (m, db)"
    and "faction_entry env i = Some e" and "CanHaveReputation e"
    and "script_standing env (entry_ID e) s False = s'"
  shows "\<exists>es m'. SetReputation env e s m = Inr (True, es, m') \<and>
    GetReputation env (Some e) m' = max (-42000) (min 42999 s') \<and>
    GetRank env (Some e) m' = rank_table (max (-42000) (min 42999 s'))"
proof -
  have "session_ok env (m, db)" by (rule session_run [OF assms(1,3,4)])
  then have m: "mgr_ok env m" "known env m" by (simp_all add: session_ok_def)
  then obtain st where st: "map_of (factions m) (list_id e) = Some st" using assms(5,6) unfolding known_def by blast
  have "\<exists>r. SetReputation_inc env e s False m = Inr r"
  proof (cases "spillover_template env (entry_ID e)")
    case None
    then show ?thesis
      by (cases "spill_table env e s' False m") (simp add: SetReputation_inc_def Let_def bind_res_def case_prod_unfold assms(7))
  next
    case (Some t)
    then have "\<exists>es m'. spill_template env t s' False [0..<MAX_SPILLOVER_FACTIONS] m = Inr (es, m')"
      using assms(2) by (intro spill_template_total) (auto simp: templates_ok_def)
    with Some assms(7) show ?thesis by (auto simp: SetReputation_inc_def Let_def bind_res_def case_prod_unfold)
  qed
  then obtain res es m' where r: "SetReputation_inc env e s False m = Inr (res, es, m')" by (metis prod_cases3)
  obtain m1 st1 where st1: "mgr_ok env m1" "map_of (factions m1) (list_id e) = Some st1" and "res"
    and f: "map_of (factions m') (list_id e) = Some ((set_state env (new_standing env st1 s' False) st1)\<lparr>needSend := False\<rparr>)"
    using SetReputation_inc_split [OF assms(1) m(1) assms(5) st r] unfolding assms(7) by blast
  let ?c = "clamp_standing s'" and ?st = "set_state env (clamp_standing s') st1"
  have ok: "state_ok env (list_id e) st1" by (rule mgr_state [OF st1])
  note set = state_set_state [OF ok range_clamp, of s']
  have "base_of env ?st = GetBaseReputation env e" by (rule entry_of_state(2) [OF assms(1) set(1) assms(5,6)])
  then have "GetReputation env (Some e) m' = ?c"
    using f assms(6) set(2) range_int32 [OF range_clamp, of s']
    by (simp add: GetReputation_def GetState_def new_standing_def)
  moreover have "?c = max (-42000) (min 42999 s')"
    by (auto simp: clamp_standing_def Reputation_Cap_def Reputation_Bottom_def)
  ultimately show ?thesis
    using r \<open>res\<close> by (simp add: SetReputation_def GetRank_def ReputationToRank_table)
qed

section \<open>The first packet\<close>

definition field_bytes :: "FactionState option \<Rightarrow> u8 list" where
  "field_bytes st = (case st of None \<Rightarrow> [0, 0, 0, 0, 0] | Some st \<Rightarrow> Flags st # standing_bytes st)"

lemma length_field: "length (field_bytes st) = 5"
  by (cases st) (simp_all add: field_bytes_def standing_bytes_def u32_bytes_def)

lemma absent_fields_eq:
  assumes "unat a \<le> unat b" and "\<And>i. unat a \<le> i \<Longrightarrow> i < unat b \<Longrightarrow> f i = None"
  shows "absent_fields a b = concat (map (\<lambda>i. field_bytes (f i)) [unat a..<unat b])"
proof -
  have n: "unat (b - a) = unat b - unat a" using assms(1) by (simp add: unat_sub word_le_nat_alt)
  have z: "[0] @ u32_bytes 0 = field_bytes None" by (simp add: field_bytes_def u32_bytes_def le_bytes_def upt_conv_Cons)
  have "map (\<lambda>i. field_bytes (f i)) [unat a..<unat b] = map (\<lambda>i. field_bytes None) [unat a..<unat b]"
    using assms(2) by (intro map_cong) simp_all
  then show ?thesis unfolding absent_fields_def z n by (simp add: map_replicate_const)
qed

lemma upt_split: "a \<le> k \<Longrightarrow> k < n \<Longrightarrow> [a..<n] = [a..<k] @ k # [Suc k..<n]"
  using upt_add_eq_append [of a k "n - k"] by (simp add: upt_conv_Cons)

lemma initial_fields_eq:
  "ordered_store fs \<Longrightarrow> (\<And>k. k \<in> fst ` set fs \<Longrightarrow> a \<le> k \<and> k < 256) \<Longrightarrow> a \<le> 256 \<Longrightarrow>
   initial_fields a fs = concat (map (\<lambda>i. field_bytes (map_of fs (of_nat i))) [unat a..<256])"
proof (induction fs arbitrary: a)
  case Nil
  then have "unat a \<le> unat (256 :: u32)" by (simp only: word_le_nat_alt)
  from absent_fields_eq [OF this, of "\<lambda>_. None"] show ?case by simp
next
  case (Cons x fs)
  obtain k st where x: "x = (k, st)" by (cases x)
  have k: "a \<le> k" "k < 256" using Cons.prems(2) [of k] by (simp_all add: x)
  then have ak: "unat a \<le> unat k" and k256: "unat k < 256" by (simp_all add: word_le_nat_alt word_less_nat_alt)
  have gt: "k < j" if "j \<in> fst ` set fs" for j using Cons.prems(1) that by (auto simp: ordered_store_def x)
  have suc: "unat (k + 1) = Suc (unat k)" using k256 by (simp add: unat_word_ariths)
  have small: "unat (of_nat i :: u32) = i" if "i < 256" for i using that by (simp add: unsigned_of_nat take_bit_nat_eq_self)
  have before: "map_of (x # fs) (of_nat i) = None" if "i < unat k" for i
  proof -
    have "(of_nat i :: u32) < k" using that small [of i] k256 by (simp add: word_less_nat_alt)
    then show ?thesis using gt by (force simp: x map_of_eq_None_iff)
  qed
  have after: "map_of (x # fs) (of_nat i) = map_of fs (of_nat i)" if "i \<in> {Suc (unat k)..<256}" for i
    using that small [of i] by (auto simp: x)
  have "initial_fields (k + 1) fs = concat (map (\<lambda>i. field_bytes (map_of fs (of_nat i))) [unat (k + 1)..<256])"
  proof (rule Cons.IH)
    show "ordered_store fs" using Cons.prems(1) by (simp add: ordered_store_def)
    show "k + 1 \<le> j \<and> j < 256" if "j \<in> fst ` set fs" for j
      using gt [OF that] Cons.prems(2) [of j] that suc by (auto simp: word_le_nat_alt word_less_nat_alt)
    show "k + 1 \<le> 256" using suc k256 by (simp add: word_le_nat_alt)
  qed
  also have "\<dots> = concat (map (\<lambda>i. field_bytes (map_of (x # fs) (of_nat i))) [Suc (unat k)..<256])"
    using after unfolding suc by (intro arg_cong [where f = concat] map_cong) (simp_all del: map_of.simps)
  finally have tail: "initial_fields (k + 1) fs = \<dots>" .
  have "[unat a..<256] = [unat a..<unat k] @ unat k # [Suc (unat k)..<256]"
    by (rule upt_split [OF ak k256])
  moreover have "absent_fields a k = concat (map (\<lambda>i. field_bytes (map_of (x # fs) (of_nat i))) [unat a..<unat k])"
    using before by (intro absent_fields_eq [OF ak]) auto
  ultimately show ?case by (simp add: x tail [unfolded x] field_bytes_def)
qed

text \<open>When the places of all factions in the client's list are below 256, the packet of a login has 256 entries of
  five bytes behind the count: the flags and the standing of the faction at each place, and zeros elsewhere.\<close>

theorem SendInitialReputations_layout:
  assumes "env_ok env" and "rows_ok env rows" and "exec_ops (exec_rep env) ops (login env rows) = (m, db)"
    and "fst ` set (factions m) \<subseteq> {..<256}" and "j < 256"
  shows "\<exists>bs. fst (SendInitialReputations m) = [SendDirectMessage SMSG_INITIALIZE_FACTIONS bs] \<and>
    length bs = 4 + 256 * 5 \<and> take 4 bs = [0, 1, 0, 0] \<and>
    take 5 (drop (4 + 5 * j) bs) =
      (case map_of (factions m) (of_nat j) of None \<Rightarrow> [0, 0, 0, 0, 0] | Some st \<Rightarrow> Flags st # standing_bytes st)"
proof -
  have "session_ok env (m, db)" by (rule session_run [OF assms(1-3)])
  then have m: "mgr_ok env m" by (simp add: session_ok_def)
  let ?f = "\<lambda>i. field_bytes (map_of (factions m) (of_nat i))"
  have bs: "initial_fields 0 (factions m) = concat (map ?f [0..<256])"
    using initial_fields_eq [OF mgr_ordered [OF m], of 0] assms(4) by auto
  have len: "length (concat (map ?f is)) = 5 * length is" for "is" by (induction "is") (simp_all add: length_field)
  have "[0..<256] = [0..<j] @ j # [Suc j..<256]" by (rule upt_split) (simp_all add: assms(5))
  then have "concat (map ?f [0..<256]) = concat (map ?f [0..<j]) @ ?f j @ concat (map ?f [Suc j..<256])" by simp
  then have "take 5 (drop (5 * j) (concat (map ?f [0..<256]))) = ?f j" by (simp add: len length_field)
  moreover have "u32_bytes 256 = [0, 1, 0, 0]" by (simp add: u32_bytes_def le_bytes_def upt_conv_Cons)
  moreover have "drop (4 + 5 * j) (u32_bytes 256 @ xs) = drop (5 * j) xs" for xs by (simp add: u32_bytes_def)
  ultimately show ?thesis
    using len [of "[0..<256]"] by (simp add: SendInitialReputations_def bs) (simp add: field_bytes_def)
qed

section \<open>An example\<close>

text \<open>A table with one faction, which starts friendly and not visible, and a player who is made exalted.\<close>

definition sample_faction :: FactionEntry where
  "sample_faction =
     \<lparr>entry_ID = 1, reputationListID = 2, BaseRepRaceMask = (\<lambda>i. if i = 0 then 1 else 0), BaseRepClassMask = (\<lambda>_. 0),
      BaseRepValue = (\<lambda>i. if i = 0 then 3000 else 0), ReputationFlags = (\<lambda>_. 0), entry_team = 0, spilloverRateIn = 0,
      spilloverRateOut = 0, spilloverMaxRankIn = 0\<rparr>"

definition sample_floats :: FloatOps where
  "sample_floats =
     \<lparr>f_of_int = word_of_int, f_to_int = sint, f_mul = (\<lambda>a b. 0), f_add = (\<lambda>a b. 0), f_floor = id, f_is_zero = (\<lambda>a. a = 0)\<rparr>"

definition sample_rep_env :: RepEnv where
  "sample_rep_env =
     \<lparr>faction_entry = (\<lambda>i. if i = 1 then Some sample_faction else None), faction_rows = 2, raceMask = 1, classMask = 1,
      player_level = 1, player_loading = False, gain_rate = 0, half = 0, fops = sample_floats,
      spillover_template = (\<lambda>_. None), team_list = (\<lambda>_. None), script_standing = (\<lambda>_ s _. s)\<rparr>"

definition sample_session_run :: "ReputationMgr \<times> rep_table" where
  "sample_session_run = exec_ops (exec_rep sample_rep_env) [OpSet 1 50000] (login sample_rep_env [])"

lemma sample_base: "GetBaseReputation sample_rep_env sample_faction = 3000" "GetDefaultStateFlags sample_rep_env sample_faction = 0"
  by code_simp+

lemma sample_assumptions: "env_ok sample_rep_env" "templates_ok sample_rep_env" "rows_ok sample_rep_env []"
  using sample_base
  by (auto simp: env_ok_def templates_ok_def rows_ok_def Reputation_Bottom_def Reputation_Cap_def sample_rep_env_def
      split: if_splits) (auto simp: sample_faction_def)

lemma sample_states:
  "factions (fst sample_session_run) =
     [(2, \<lparr>fs_ID = 1, ReputationListID = 2, Standing = 39999, Flags = 1, needSend = False, needSave = True\<rparr>)]"
  "exaltedFactionCount (fst sample_session_run) = 1"
  by code_simp+

lemma sample_run_eq: "exec_ops (exec_rep sample_rep_env) [OpSet 1 50000] (login sample_rep_env []) = (fst sample_session_run, Map.empty)"
  by (simp add: sample_session_run_def login_def)

theorem reputation_counters_witness:
  "exaltedFactionCount (fst sample_session_run) = 1 \<and>
   entries (at_least sample_rep_env REP_EXALTED) (factions (fst sample_session_run)) = 1 \<and>
   exaltedFactionCount (fst sample_session_run) =
     of_nat (entries (at_least sample_rep_env REP_EXALTED) (factions (fst sample_session_run)))"
proof -
  have "entries (at_least sample_rep_env REP_EXALTED) (factions (fst sample_session_run)) = 1"
    unfolding sample_states by code_simp
  with reputation_counters [OF sample_assumptions(1,3) sample_run_eq] show ?thesis by (simp add: sample_states)
qed

theorem reputation_survives_relog_witness:
  "fst (SaveToDB (fst sample_session_run)) = [DeleteReputation 1, InsertReputation 1 39999 1] \<and>
   (\<exists>st'. map_of (factions (snd (LoadFromDB sample_rep_env [(1, 39999, 1)] ReputationMgr_new))) 2 = Some st' \<and>
      Standing st' = 39999 \<and> Flags st' = 1)"
proof -
  have save: "fst (SaveToDB (fst sample_session_run)) = [DeleteReputation 1, InsertReputation 1 39999 1]"
    by (simp add: SaveToDB_def save_statements_def sample_states)
  have rows: "map_of [(1, 39999, 1)] = run_statements (fst (SaveToDB (fst sample_session_run))) Map.empty"
    by (simp add: save)
  let ?st = "\<lparr>fs_ID = 1, ReputationListID = 2, Standing = 39999, Flags = 1, needSend = False, needSave = True\<rparr>"
  have "\<not> rank_of sample_rep_env ?st \<le> REP_HOSTILE" "Flags ?st AND FACTION_FLAG_VISIBLE \<noteq> 0" by code_simp+
  moreover have "map_of (factions (fst sample_session_run)) 2 = Some ?st" by (simp add: sample_states)
  ultimately show ?thesis
    using reputation_survives_relog [OF sample_assumptions(1,3) sample_run_eq _ rows refl, of 2 ?st] save by auto
qed

theorem SetReputation_result_witness:
  "CanHaveReputation sample_faction \<and>
   (\<exists>es m'. SetReputation sample_rep_env sample_faction 50000 (fst (login sample_rep_env [])) = Inr (True, es, m') \<and>
      GetReputation sample_rep_env (Some sample_faction) m' = 42999 \<and>
      GetRank sample_rep_env (Some sample_faction) m' = REP_EXALTED)"
proof -
  have e: "faction_entry sample_rep_env 1 = Some sample_faction" "CanHaveReputation sample_faction"
    "script_standing sample_rep_env (entry_ID sample_faction) 50000 False = 50000"
    by (simp_all add: sample_rep_env_def sample_faction_def CanHaveReputation_def)
  have "exec_ops (exec_rep sample_rep_env) [] (login sample_rep_env []) = (fst (login sample_rep_env []), Map.empty)"
    by (simp add: login_def)
  from SetReputation_result [OF sample_assumptions this e] show ?thesis
    using e(2) by (simp add: rank_table_def)
qed

theorem SendInitialReputations_layout_witness:
  "\<exists>bs. fst (SendInitialReputations (fst sample_session_run)) = [SendDirectMessage SMSG_INITIALIZE_FACTIONS bs] \<and>
     length bs = 1284 \<and> take 5 (drop 14 bs) = [1, 0x3F, 0x9C, 0, 0]"
proof -
  have "fst ` set (factions (fst sample_session_run)) \<subseteq> {..<256}" by (simp add: sample_states)
  note layout = SendInitialReputations_layout [OF sample_assumptions(1,3) sample_run_eq this, of 2]
  have "standing_bytes \<lparr>fs_ID = 1, ReputationListID = 2, Standing = 39999, Flags = 1, needSend = False, needSave = True\<rparr> =
      [0x3F, 0x9C, 0, 0]"
    by code_simp
  with layout show ?thesis by (auto simp: sample_states)
qed

end
