(* ===== verification/Mail.thy ===== *)
theory Mail
  imports StdMap ByteBuffer ObjectGuid
begin

text \<open>
  Letters: \<^verbatim>\<open>struct Mail\<close>, \<^verbatim>\<open>class MailDraft\<close> and its finishers (\<^verbatim>\<open>game/Mails/Mail.h\<close>, \<^verbatim>\<open>Mail.cpp\<close>), the mailbox and
  the purse of a player (\<^verbatim>\<open>game/Entities/Player/Player.cpp\<close> and \<^verbatim>\<open>Player.h\<close>) and the tables of the
  character database they use (\<^verbatim>\<open>shared/Database/Implementation/CharacterDatabase.cpp\<close>). A transaction is the
  list of its statements, applied to the tables when it is committed. A \<^verbatim>\<open>time_t\<close> is an unsigned 64-bit word.
  What other parts of the server answer (configuration, data files, inventory rules) is the record \<open>PostEnv\<close>.
\<close>

section \<open>The purse\<close>

definition MAX_MONEY_AMOUNT :: u64 where "MAX_MONEY_AMOUNT = 9999999999"

text \<open>\<^verbatim>\<open>Player::ModifyMoney(int64 d)\<close> on the coins of the player; \<open>d\<close> is a word read as signed. The difference
  \<^verbatim>\<open>MAX_MONEY_AMOUNT - d\<close> is unsigned.\<close>

definition ModifyMoney :: "u64 \<Rightarrow> u64 \<Rightarrow> u64" where
  "ModifyMoney d money =
     (if sint d < 0 then (if money > - d then money + d else 0)
      else if money < MAX_MONEY_AMOUNT - d then money + d else MAX_MONEY_AMOUNT)"

definition HasEnoughMoney :: "u64 \<Rightarrow> u64 \<Rightarrow> bool" where
  "HasEnoughMoney amount money \<longleftrightarrow> money \<ge> amount"

section \<open>Letters and items\<close>

type_synonym utf8 = "u8 list"

definition MAX_MAIL_ITEMS :: nat where "MAX_MAIL_ITEMS = 12"

definition MAIL_NORMAL :: u8 where "MAIL_NORMAL = 0"
definition MAIL_AUCTION :: u8 where "MAIL_AUCTION = 2"
definition MAIL_CREATURE :: u8 where "MAIL_CREATURE = 3"

definition MAIL_CHECK_MASK_READ :: u32 where "MAIL_CHECK_MASK_READ = 0x01"
definition MAIL_CHECK_MASK_RETURNED :: u32 where "MAIL_CHECK_MASK_RETURNED = 0x02"
definition MAIL_CHECK_MASK_COPIED :: u32 where "MAIL_CHECK_MASK_COPIED = 0x04"
definition MAIL_CHECK_MASK_COD_PAYMENT :: u32 where "MAIL_CHECK_MASK_COD_PAYMENT = 0x08"
definition MAIL_CHECK_MASK_HAS_BODY :: u32 where "MAIL_CHECK_MASK_HAS_BODY = 0x10"

definition MAIL_STATIONERY_DEFAULT :: u8 where "MAIL_STATIONERY_DEFAULT = 41"
definition MAIL_STATIONERY_GM :: u8 where "MAIL_STATIONERY_GM = 61"
definition MAIL_STATIONERY_AUCTION :: u8 where "MAIL_STATIONERY_AUCTION = 62"

definition DAY :: u32 where "DAY = 86400"

datatype MailState = MAIL_STATE_UNCHANGED | MAIL_STATE_CHANGED | MAIL_STATE_DELETED

record Item =
  item_guid :: u32
  item_entry :: u32
  item_count :: u32
  item_owner :: u32
  item_flags :: u32
  item_duration :: u32
  item_enchants :: "(u32 \<times> u32 \<times> u32) list"
  item_randomProperty :: u32
  item_suffixFactor :: u32
  item_charges :: u32
  item_maxDurability :: u32
  item_durability :: u32
  item_creator :: u64
  item_giftCreator :: u64
  item_createPlayedTime :: u32

text \<open>\<^verbatim>\<open>SetUInt32Value\<close> on the first of the two words of a 64-bit field.\<close>

definition set_low_word :: "u32 \<Rightarrow> u64 \<Rightarrow> u64" where
  "set_low_word v x = (x AND NOT 0xFFFFFFFF) OR ucast v"

record Mail =
  messageID :: u32
  messageType :: u8
  stationery :: u8
  mailTemplateId :: u16
  mail_sender :: u32
  mail_receiver :: u32
  subject :: utf8
  body :: utf8
  mail_items :: "(u32 \<times> u32) list"
  removedItems :: "u32 list"
  expire_time :: u64
  deliver_time :: u64
  money :: u64
  COD :: u64
  checked :: u32
  mail_state :: MailState

definition Mail_AddItem :: "u32 \<Rightarrow> u32 \<Rightarrow> Mail \<Rightarrow> Mail" where
  "Mail_AddItem itemGuidLow item_template m = m\<lparr>mail_items := mail_items m @ [(itemGuidLow, item_template)]\<rparr>"

primrec erase_info :: "u32 \<Rightarrow> (u32 \<times> u32) list \<Rightarrow> (u32 \<times> u32) list" where
  "erase_info g [] = []"
| "erase_info g (x # xs) = (if fst x = g then xs else x # erase_info g xs)"

definition Mail_RemoveItem :: "u32 \<Rightarrow> Mail \<Rightarrow> Mail" where
  "Mail_RemoveItem g m = m\<lparr>mail_items := erase_info g (mail_items m)\<rparr>"

definition HasItems :: "Mail \<Rightarrow> bool" where
  "HasItems m \<longleftrightarrow> mail_items m \<noteq> []"

section \<open>Tables of the character database\<close>

record MailRow =
  row_messageType :: u8
  row_stationery :: u8
  row_mailTemplateId :: u16
  row_sender :: u32
  row_receiver :: u32
  row_subject :: utf8
  row_body :: utf8
  row_has_items :: bool
  row_expire_time :: u64
  row_deliver_time :: u64
  row_money :: u32
  row_cod :: u32
  row_checked :: u8

text \<open>A row of \<^verbatim>\<open>auctionhouse\<close>. The price columns are written as signed and read as unsigned numbers.\<close>

record AuctionRow =
  arow_auctioneer :: u32
  arow_item :: u32
  arow_owner :: u32
  arow_buyout :: u32
  arow_time :: u64
  arow_bidder :: u32
  arow_bid :: u32
  arow_startbid :: u32
  arow_deposit :: u32

record CharacterDB =
  tbl_mail :: "(u32 \<times> MailRow) list"
  tbl_mail_items :: "(u32 \<times> u32 \<times> u32) list"
  tbl_item_instance :: "(u32 \<times> Item) list"
  tbl_auctionhouse :: "(u32 \<times> AuctionRow) list"
  tbl_money :: "(u32 \<times> u64) list"

text \<open>The prepared statements. \<open>SAVE_ITEM\<close> stands for what \<^verbatim>\<open>Item::SaveToDB\<close> appends for a new or changed item;
  \<open>SAVE_INVENTORY\<close> and \<open>DEL_INVENTORY_ITEM\<close> touch tables that are not represented here.\<close>

datatype Stmt =
    CHAR_INS_MAIL u32 MailRow
  | CHAR_INS_MAIL_ITEM u32 u32 u32
  | CHAR_DEL_MAIL_BY_ID u32
  | CHAR_DEL_MAIL_ITEM_BY_ID u32
  | CHAR_DEL_MAIL_ITEM u32
  | CHAR_UPD_MAIL bool u32 u32 u32 u32 u8 u32
  | CHAR_UPD_MAIL_RETURNED u32 u32 u32 u32 u8 u32
  | CHAR_UPD_MAIL_ITEM_RECEIVER u32 u32
  | CHAR_DEL_EMPTY_EXPIRED_MAIL u64
  | CHAR_UPD_ITEM_OWNER u32 u32
  | CHAR_DEL_ITEM_INSTANCE u32
  | CHAR_UDP_CHAR_MONEY u64 u32
  | CHAR_INS_AUCTION u32 AuctionRow
  | CHAR_DEL_AUCTION u32
  | CHAR_UPD_AUCTION_BID u32 u32 u32
  | SAVE_ITEM Item
  | SAVE_INVENTORY u32
  | DEL_INVENTORY_ITEM u32

definition upd_store :: "'k::linorder \<Rightarrow> ('v \<Rightarrow> 'v) \<Rightarrow> ('k \<times> 'v) list \<Rightarrow> ('k \<times> 'v) list" where
  "upd_store k f s = (case map_of s k of None \<Rightarrow> s | Some v \<Rightarrow> store_put k (f v) s)"

primrec exec_stmt :: "Stmt \<Rightarrow> CharacterDB \<Rightarrow> CharacterDB" where
  "exec_stmt (CHAR_INS_MAIL i r) db = db\<lparr>tbl_mail := store_put i r (tbl_mail db)\<rparr>"
| "exec_stmt (CHAR_INS_MAIL_ITEM i g rcv) db = db\<lparr>tbl_mail_items := tbl_mail_items db @ [(i, g, rcv)]\<rparr>"
| "exec_stmt (CHAR_DEL_MAIL_BY_ID i) db = db\<lparr>tbl_mail := store_erase i (tbl_mail db)\<rparr>"
| "exec_stmt (CHAR_DEL_MAIL_ITEM_BY_ID i) db =
     db\<lparr>tbl_mail_items := filter (\<lambda>x. fst x \<noteq> i) (tbl_mail_items db)\<rparr>"
| "exec_stmt (CHAR_DEL_MAIL_ITEM g) db =
     db\<lparr>tbl_mail_items := filter (\<lambda>x. fst (snd x) \<noteq> g) (tbl_mail_items db)\<rparr>"
| "exec_stmt (CHAR_UPD_MAIL hi et dt mo co ch i) db =
     db\<lparr>tbl_mail := upd_store i (\<lambda>r. r\<lparr>row_has_items := hi, row_expire_time := ucast et, row_deliver_time := ucast dt,
          row_money := mo, row_cod := co, row_checked := ch\<rparr>) (tbl_mail db)\<rparr>"
| "exec_stmt (CHAR_UPD_MAIL_RETURNED snd' rcv et dt ch i) db =
     db\<lparr>tbl_mail := upd_store i (\<lambda>r. r\<lparr>row_sender := snd', row_receiver := rcv, row_expire_time := ucast et,
          row_deliver_time := ucast dt, row_cod := 0, row_checked := ch\<rparr>) (tbl_mail db)\<rparr>"
| "exec_stmt (CHAR_UPD_MAIL_ITEM_RECEIVER rcv g) db =
     db\<lparr>tbl_mail_items := map (\<lambda>x. if fst (snd x) = g then (fst x, g, rcv) else x) (tbl_mail_items db)\<rparr>"
| "exec_stmt (CHAR_DEL_EMPTY_EXPIRED_MAIL t) db =
     db\<lparr>tbl_mail := filter (\<lambda>x. \<not> (row_expire_time (snd x) < t \<and> \<not> row_has_items (snd x) \<and> row_body (snd x) = []))
          (tbl_mail db)\<rparr>"
| "exec_stmt (CHAR_UPD_ITEM_OWNER o' g) db =
     db\<lparr>tbl_item_instance := upd_store g (\<lambda>it. it\<lparr>item_owner := o'\<rparr>) (tbl_item_instance db)\<rparr>"
| "exec_stmt (CHAR_DEL_ITEM_INSTANCE g) db = db\<lparr>tbl_item_instance := store_erase g (tbl_item_instance db)\<rparr>"
| "exec_stmt (CHAR_UDP_CHAR_MONEY mo p) db = db\<lparr>tbl_money := upd_store p (\<lambda>_. mo) (tbl_money db)\<rparr>"
| "exec_stmt (CHAR_INS_AUCTION i r) db = db\<lparr>tbl_auctionhouse := store_put i r (tbl_auctionhouse db)\<rparr>"
| "exec_stmt (CHAR_DEL_AUCTION i) db = db\<lparr>tbl_auctionhouse := store_erase i (tbl_auctionhouse db)\<rparr>"
| "exec_stmt (CHAR_UPD_AUCTION_BID b p i) db =
     db\<lparr>tbl_auctionhouse := upd_store i (\<lambda>r. r\<lparr>arow_bidder := b, arow_bid := p\<rparr>) (tbl_auctionhouse db)\<rparr>"
| "exec_stmt (SAVE_ITEM it) db = db\<lparr>tbl_item_instance := store_put (item_guid it) it (tbl_item_instance db)\<rparr>"
| "exec_stmt (SAVE_INVENTORY p) db = db"
| "exec_stmt (DEL_INVENTORY_ITEM g) db = db"

section \<open>Players, sessions and the world\<close>

record PostPlayer =
  purse :: u64
  inventory :: "Item list"
  m_mail :: "Mail list"
  mMitems :: "(u32 \<times> Item) list"
  m_mailsLoaded :: bool
  m_mailsUpdated :: bool
  unReadMails :: u8
  m_nextMailDelivereTime :: u64
  p_account :: u32
  p_security :: u32
  p_team :: u32
  p_level :: u8
  p_isGameMaster :: bool

datatype post_effect =
    SendPacket u32 u32 "u8 list"
  | SendNotification u32 u32
  | AchievementCriteria u32 nat u64
  | FreeItem u32
  | RemoveFeignDeath u32
  | StopNow

record PostWorld =
  online :: "(u32 \<times> PostPlayer) list"
  chardb :: CharacterDB
  next_mailId :: u32
  effects :: "post_effect list"

text \<open>What the code asks of the rest of the server.\<close>

record PostEnv =
  now :: u64
  MAIL_DELIVERY_DELAY :: u32
  MAIL_LEVEL_REQ :: u32
  TWO_SIDE_MAIL :: bool
  GM_LOG_TRADE :: bool
  account_of :: "u32 \<Rightarrow> u32"
  guid_by_name :: "utf8 \<Rightarrow> u64"
  team_of :: "u32 \<Rightarrow> u32"
  level_of :: "u32 \<Rightarrow> u8"
  can_use_mailbox :: "u32 \<Rightarrow> u64 \<Rightarrow> bool"
  battlemaster :: "u32 \<Rightarrow> bool"
  proto_Flags :: "u32 \<Rightarrow> u32"
  has_proto :: "u32 \<Rightarrow> bool"
  item_loads :: "Item \<Rightarrow> bool"
  mail_template :: "u16 \<Rightarrow> bool"
  mail_loot :: "u16 \<Rightarrow> u32 \<Rightarrow> Item option list"
  can_be_traded :: "u32 \<Rightarrow> Item \<Rightarrow> bool \<Rightarrow> bool"
  is_not_empty_bag :: "Item \<Rightarrow> bool"
  can_store :: "u32 \<Rightarrow> Item list \<Rightarrow> Item \<Rightarrow> u8"
  store_item :: "Item list \<Rightarrow> Item \<Rightarrow> Item list"
  body_item :: "u32 \<Rightarrow> Item option"
  float_of :: "u64 \<Rightarrow> f32"
  float_days :: "u64 \<Rightarrow> f32"

definition FindPlayer :: "u32 \<Rightarrow> 'a PostWorld_scheme \<Rightarrow> PostPlayer option" where
  "FindPlayer g w = map_of (online w) g"

definition set_player :: "u32 \<Rightarrow> PostPlayer \<Rightarrow> 'a PostWorld_scheme \<Rightarrow> 'a PostWorld_scheme" where
  "set_player g p w = w\<lparr>online := store_put g p (online w)\<rparr>"

definition upd_player :: "u32 \<Rightarrow> (PostPlayer \<Rightarrow> PostPlayer) \<Rightarrow> 'a PostWorld_scheme \<Rightarrow> 'a PostWorld_scheme" where
  "upd_player g f w = w\<lparr>online := upd_store g f (online w)\<rparr>"

definition emit :: "post_effect \<Rightarrow> 'a PostWorld_scheme \<Rightarrow> 'a PostWorld_scheme" where
  "emit x w = w\<lparr>effects := effects w @ [x]\<rparr>"

definition Execute :: "Stmt \<Rightarrow> 'a PostWorld_scheme \<Rightarrow> 'a PostWorld_scheme" where
  "Execute s w = w\<lparr>chardb := exec_stmt s (chardb w)\<rparr>"

definition CommitTransaction :: "Stmt list \<Rightarrow> 'a PostWorld_scheme \<Rightarrow> 'a PostWorld_scheme" where
  "CommitTransaction tr w = w\<lparr>chardb := fold exec_stmt tr (chardb w)\<rparr>"

section \<open>The mailbox of a player\<close>

definition GetMail :: "u32 \<Rightarrow> PostPlayer \<Rightarrow> Mail option" where
  "GetMail i p = find (\<lambda>m. messageID m = i) (m_mail p)"

text \<open>The \<^verbatim>\<open>Mail*\<close> that \<^verbatim>\<open>GetMail\<close> returns points into the list: writing through it changes the first letter with
  that number.\<close>

primrec upd_first :: "u32 \<Rightarrow> (Mail \<Rightarrow> Mail) \<Rightarrow> Mail list \<Rightarrow> Mail list" where
  "upd_first i f [] = []"
| "upd_first i f (m # ms) = (if messageID m = i then f m # ms else m # upd_first i f ms)"

definition upd_mail :: "u32 \<Rightarrow> (Mail \<Rightarrow> Mail) \<Rightarrow> PostPlayer \<Rightarrow> PostPlayer" where
  "upd_mail i f p = p\<lparr>m_mail := upd_first i f (m_mail p)\<rparr>"

primrec erase_first :: "u32 \<Rightarrow> Mail list \<Rightarrow> Mail list" where
  "erase_first i [] = []"
| "erase_first i (m # ms) = (if messageID m = i then ms else m # erase_first i ms)"

definition RemoveMail :: "u32 \<Rightarrow> PostPlayer \<Rightarrow> PostPlayer" where
  "RemoveMail i p = p\<lparr>m_mail := erase_first i (m_mail p)\<rparr>"

definition AddMail :: "Mail \<Rightarrow> PostPlayer \<Rightarrow> PostPlayer" where
  "AddMail m p = p\<lparr>m_mail := m # m_mail p\<rparr>"

definition GetMItem :: "u32 \<Rightarrow> PostPlayer \<Rightarrow> Item option" where
  "GetMItem g p = map_of (mMitems p) g"

definition AddMItem :: "Item \<Rightarrow> PostPlayer \<Rightarrow> PostPlayer" where
  "AddMItem it p = p\<lparr>mMitems := store_put (item_guid it) it (mMitems p)\<rparr>"

definition RemoveMItem :: "u32 \<Rightarrow> PostPlayer \<Rightarrow> PostPlayer" where
  "RemoveMItem g p = p\<lparr>mMitems := store_erase g (mMitems p)\<rparr>"

definition SMSG_RECEIVED_MAIL :: u32 where "SMSG_RECEIVED_MAIL = 0x2924"
definition SMSG_SEND_MAIL_RESULT :: u32 where "SMSG_SEND_MAIL_RESULT = 0x4927"

definition SendNewMail :: "u32 \<Rightarrow> 'a PostWorld_scheme \<Rightarrow> 'a PostWorld_scheme" where
  "SendNewMail g = emit (SendPacket g SMSG_RECEIVED_MAIL (le_bytes 4 (0 :: u32)))"

definition AddNewMailDeliverTime :: "PostEnv \<Rightarrow> u32 \<Rightarrow> u64 \<Rightarrow> 'a PostWorld_scheme \<Rightarrow> 'a PostWorld_scheme" where
  "AddNewMailDeliverTime e g t w =
     (if t \<le> now e then SendNewMail g (upd_player g (\<lambda>p. p\<lparr>unReadMails := unReadMails p + 1\<rparr>) w)
      else upd_player g (\<lambda>p.
             if m_nextMailDelivereTime p = 0 \<or> m_nextMailDelivereTime p > t then p\<lparr>m_nextMailDelivereTime := t\<rparr> else p) w)"

primrec next_mail_time :: "u64 \<Rightarrow> Mail list \<Rightarrow> u64 \<times> u8 \<Rightarrow> u64 \<times> u8" where
  "next_mail_time t [] a = a"
| "next_mail_time t (m # ms) a =
     next_mail_time t ms
       (if deliver_time m > t
        then (if fst a = 0 \<or> fst a > deliver_time m then (deliver_time m, snd a) else a)
        else if checked m AND MAIL_CHECK_MASK_READ = 0 then (fst a, snd a + 1) else a)"

definition UpdateNextMailTimeAndUnreads :: "PostEnv \<Rightarrow> PostPlayer \<Rightarrow> PostPlayer" where
  "UpdateNextMailTimeAndUnreads e p =
     (let a = next_mail_time (now e) (m_mail p) (0, 0) in p\<lparr>m_nextMailDelivereTime := fst a, unReadMails := snd a\<rparr>)"

datatype MailResponseType =
    MAIL_SEND | MAIL_MONEY_TAKEN | MAIL_ITEM_TAKEN | MAIL_RETURNED_TO_SENDER | MAIL_DELETED | MAIL_MADE_PERMANENT

primrec response_val :: "MailResponseType \<Rightarrow> u32" where
  "response_val MAIL_SEND = 0"
| "response_val MAIL_MONEY_TAKEN = 1"
| "response_val MAIL_ITEM_TAKEN = 2"
| "response_val MAIL_RETURNED_TO_SENDER = 3"
| "response_val MAIL_DELETED = 4"
| "response_val MAIL_MADE_PERMANENT = 5"

definition MAIL_OK :: u32 where "MAIL_OK = 0"
definition MAIL_ERR_EQUIP_ERROR :: u32 where "MAIL_ERR_EQUIP_ERROR = 1"
definition MAIL_ERR_CANNOT_SEND_TO_SELF :: u32 where "MAIL_ERR_CANNOT_SEND_TO_SELF = 2"
definition MAIL_ERR_NOT_ENOUGH_MONEY :: u32 where "MAIL_ERR_NOT_ENOUGH_MONEY = 3"
definition MAIL_ERR_RECIPIENT_NOT_FOUND :: u32 where "MAIL_ERR_RECIPIENT_NOT_FOUND = 4"
definition MAIL_ERR_NOT_YOUR_TEAM :: u32 where "MAIL_ERR_NOT_YOUR_TEAM = 5"
definition MAIL_ERR_INTERNAL_ERROR :: u32 where "MAIL_ERR_INTERNAL_ERROR = 6"
definition MAIL_ERR_RECIPIENT_CAP_REACHED :: u32 where "MAIL_ERR_RECIPIENT_CAP_REACHED = 15"
definition MAIL_ERR_CANT_SEND_WRAPPED_COD :: u32 where "MAIL_ERR_CANT_SEND_WRAPPED_COD = 16"
definition MAIL_ERR_TOO_MANY_ATTACHMENTS :: u32 where "MAIL_ERR_TOO_MANY_ATTACHMENTS = 18"
definition MAIL_ERR_MAIL_ATTACHMENT_INVALID :: u32 where "MAIL_ERR_MAIL_ATTACHMENT_INVALID = 19"

text \<open>\<^verbatim>\<open>Player::SendMailResult\<close>; the last three arguments default to 0 in the source.\<close>

definition SendMailResult_full ::
    "u32 \<Rightarrow> u32 \<Rightarrow> MailResponseType \<Rightarrow> u32 \<Rightarrow> u32 \<Rightarrow> u32 \<Rightarrow> u32 \<Rightarrow> 'a PostWorld_scheme \<Rightarrow> 'a PostWorld_scheme" where
  "SendMailResult_full g mailId act mailError equipError guid cnt =
     emit (SendPacket g SMSG_SEND_MAIL_RESULT
       (le_bytes 4 mailId @ le_bytes 4 (response_val act) @ le_bytes 4 mailError @
        (if mailError = MAIL_ERR_EQUIP_ERROR then le_bytes 4 equipError
         else if act = MAIL_ITEM_TAKEN then le_bytes 4 guid @ le_bytes 4 cnt else [])))"

abbreviation SendMailResult where
  "SendMailResult g mailId act mailError \<equiv> SendMailResult_full g mailId act mailError 0 0 0"

section \<open>Loading and saving a mailbox\<close>

text \<open>A row of \<^verbatim>\<open>CHAR_SEL_MAILITEMS\<close>: the items of a letter that are in \<^verbatim>\<open>item_instance\<close>.\<close>

definition mailed_items :: "u32 \<Rightarrow> CharacterDB \<Rightarrow> Item list" where
  "mailed_items i db =
     List.map_filter (\<lambda>x. if fst x = i then map_of (tbl_item_instance db) (fst (snd x)) else None) (tbl_mail_items db)"

definition LoadMailedItem :: "PostEnv \<Rightarrow> u32 \<Rightarrow> Item \<Rightarrow> Mail \<times> 'a PostWorld_scheme \<Rightarrow> Mail \<times> 'a PostWorld_scheme" where
  "LoadMailedItem e g it s =
     (let m = Mail_AddItem (item_guid it) (item_entry it) (fst s) in
      if \<not> has_proto e (item_entry it) \<or> \<not> item_loads e it
      then (m, Execute (CHAR_DEL_ITEM_INSTANCE (item_guid it)) (Execute (CHAR_DEL_MAIL_ITEM (item_guid it)) (snd s)))
      else (m, upd_player g (AddMItem it) (snd s)))"

definition LoadMailedItems :: "PostEnv \<Rightarrow> u32 \<Rightarrow> Mail \<times> 'a PostWorld_scheme \<Rightarrow> Mail \<times> 'a PostWorld_scheme" where
  "LoadMailedItems e g s = fold (LoadMailedItem e g) (mailed_items (messageID (fst s)) (chardb (snd s))) s"

definition mail_of_row :: "PostEnv \<Rightarrow> u32 \<Rightarrow> MailRow \<Rightarrow> Mail" where
  "mail_of_row e i r =
     \<lparr>messageID = i, messageType = row_messageType r, stationery = row_stationery r,
      mailTemplateId = (if row_mailTemplateId r \<noteq> 0 \<and> \<not> mail_template e (row_mailTemplateId r) then 0 else row_mailTemplateId r),
      mail_sender = row_sender r, mail_receiver = row_receiver r, subject = row_subject r, body = row_body r,
      mail_items = [], removedItems = [],
      expire_time = ucast (ucast (row_expire_time r) :: u32), deliver_time = ucast (ucast (row_deliver_time r) :: u32),
      money = ucast (row_money r), COD = ucast (row_cod r), checked = ucast (row_checked r),
      mail_state = MAIL_STATE_UNCHANGED\<rparr>"

definition LoadMail_row :: "PostEnv \<Rightarrow> u32 \<Rightarrow> u32 \<times> MailRow \<Rightarrow> 'a PostWorld_scheme \<Rightarrow> 'a PostWorld_scheme" where
  "LoadMail_row e g x w =
     (let m = mail_of_row e (fst x) (snd x);
          s = (if row_has_items (snd x) then LoadMailedItems e g (m, w) else (m, w)) in
      upd_player g (\<lambda>p. p\<lparr>m_mail := m_mail p @ [fst s]\<rparr>) (snd s))"

text \<open>\<^verbatim>\<open>Player::_LoadMail\<close>: \<^verbatim>\<open>CHAR_SEL_MAIL\<close> selects the letters of the receiver in descending order of their numbers.\<close>

definition mail_rows :: "u32 \<Rightarrow> CharacterDB \<Rightarrow> (u32 \<times> MailRow) list" where
  "mail_rows g db = rev (filter (\<lambda>x. row_receiver (snd x) = g) (tbl_mail db))"

definition LoadMail :: "PostEnv \<Rightarrow> u32 \<Rightarrow> 'a PostWorld_scheme \<Rightarrow> 'a PostWorld_scheme" where
  "LoadMail e g w =
     upd_player g (\<lambda>p. p\<lparr>m_mailsLoaded := True\<rparr>)
       (fold (LoadMail_row e g) (mail_rows g (chardb w)) (upd_player g (\<lambda>p. p\<lparr>m_mail := []\<rparr>) w))"

definition SaveMail_stmts :: "Mail \<Rightarrow> Stmt list" where
  "SaveMail_stmts m =
     (case mail_state m of
        MAIL_STATE_CHANGED \<Rightarrow>
          CHAR_UPD_MAIL (HasItems m) (ucast (expire_time m)) (ucast (deliver_time m)) (ucast (money m)) (ucast (COD m))
            (ucast (checked m)) (messageID m)
          # map CHAR_DEL_MAIL_ITEM (removedItems m)
      | MAIL_STATE_DELETED \<Rightarrow>
          map (\<lambda>x. CHAR_DEL_ITEM_INSTANCE (fst x)) (mail_items m)
          @ [CHAR_DEL_MAIL_BY_ID (messageID m), CHAR_DEL_MAIL_ITEM_BY_ID (messageID m)]
      | MAIL_STATE_UNCHANGED \<Rightarrow> [])"

definition SaveMail_reset :: "Mail \<Rightarrow> Mail" where
  "SaveMail_reset m =
     (if mail_state m = MAIL_STATE_CHANGED then m\<lparr>removedItems := [], mail_state := MAIL_STATE_UNCHANGED\<rparr> else m)"

text \<open>\<^verbatim>\<open>Player::_SaveMail\<close>: the statements and the mailbox without the deleted letters.\<close>

definition SaveMail :: "PostPlayer \<Rightarrow> Stmt list \<times> PostPlayer" where
  "SaveMail p =
     (if \<not> m_mailsLoaded p then ([], p)
      else (concat (map SaveMail_stmts (m_mail p)),
            p\<lparr>m_mail := filter (\<lambda>m. mail_state m \<noteq> MAIL_STATE_DELETED) (map SaveMail_reset (m_mail p)),
              m_mailsUpdated := False\<rparr>))"

definition SaveGoldToDB :: "u32 \<Rightarrow> PostPlayer \<Rightarrow> Stmt list" where
  "SaveGoldToDB g p = [CHAR_UDP_CHAR_MONEY (purse p) g]"

definition SaveInventoryAndGoldToDB :: "u32 \<Rightarrow> PostPlayer \<Rightarrow> Stmt list" where
  "SaveInventoryAndGoldToDB g p = SAVE_INVENTORY g # SaveGoldToDB g p"

section \<open>Drafts\<close>

record MailDraft =
  m_mailTemplateId :: u16
  m_mailTemplateItemsNeed :: bool
  m_subject :: utf8
  m_body :: utf8
  m_items :: "(u32 \<times> Item) list"
  m_money :: u64
  m_COD :: u64

definition MailDraft_template :: "u16 \<Rightarrow> bool \<Rightarrow> MailDraft" where
  "MailDraft_template i need =
     \<lparr>m_mailTemplateId = i, m_mailTemplateItemsNeed = need, m_subject = [], m_body = [], m_items = [], m_money = 0, m_COD = 0\<rparr>"

definition MailDraft_new :: "utf8 \<Rightarrow> utf8 \<Rightarrow> MailDraft" where
  "MailDraft_new s b =
     \<lparr>m_mailTemplateId = 0, m_mailTemplateItemsNeed = False, m_subject = s, m_body = b, m_items = [], m_money = 0, m_COD = 0\<rparr>"

definition AddItem :: "Item \<Rightarrow> MailDraft \<Rightarrow> MailDraft" where
  "AddItem it d = d\<lparr>m_items := store_put (item_guid it) it (m_items d)\<rparr>"

definition AddMoney :: "u64 \<Rightarrow> MailDraft \<Rightarrow> MailDraft" where
  "AddMoney v d = d\<lparr>m_money := v\<rparr>"

definition AddCOD :: "u32 \<Rightarrow> MailDraft \<Rightarrow> MailDraft" where
  "AddCOD v d = d\<lparr>m_COD := ucast v\<rparr>"

record MailSender =
  m_messageType :: u8
  m_senderId :: u32
  m_stationery :: u8

type_synonym 'a post = "Stmt list \<times> 'a PostWorld_scheme"

text \<open>\<^verbatim>\<open>prepareItems\<close>: the slots of the generated loot, of which some may be empty or fail to be created.\<close>

fun prepare_slots :: "Item option list \<Rightarrow> MailDraft \<times> Stmt list \<Rightarrow> MailDraft \<times> Stmt list" where
  "prepare_slots [] s = s"
| "prepare_slots (x # xs) s =
     (if length (m_items (fst s)) < MAX_MAIL_ITEMS
      then prepare_slots xs (case x of None \<Rightarrow> s | Some it \<Rightarrow> (AddItem it (fst s), snd s @ [SAVE_ITEM it]))
      else s)"

definition prepareItems :: "PostEnv \<Rightarrow> u32 \<Rightarrow> MailDraft \<times> Stmt list \<Rightarrow> MailDraft \<times> Stmt list" where
  "prepareItems e g s =
     (let d = fst s in
      if m_mailTemplateId d = 0 \<or> \<not> m_mailTemplateItemsNeed d then s
      else prepare_slots (mail_loot e (m_mailTemplateId d) g) (d\<lparr>m_mailTemplateItemsNeed := False\<rparr>, snd s))"

definition deleteIncludedItems :: "bool \<Rightarrow> MailDraft \<Rightarrow> 'a post \<Rightarrow> MailDraft \<times> 'a post" where
  "deleteIncludedItems inDB d s =
     (d\<lparr>m_items := []\<rparr>,
      (if inDB then fst s @ map (\<lambda>x. CHAR_DEL_ITEM_INSTANCE (item_guid (snd x))) (m_items d) else fst s,
       fold (\<lambda>x. emit (FreeItem (item_guid (snd x)))) (m_items d) (snd s)))"

definition GenerateMailID :: "'a PostWorld_scheme \<Rightarrow> u32 \<times> 'a PostWorld_scheme" where
  "GenerateMailID w =
     (next_mailId w, (if next_mailId w \<ge> 0xFFFFFFFE then emit StopNow w else w)\<lparr>next_mailId := next_mailId w + 1\<rparr>)"

definition expire_delay :: "PostEnv \<Rightarrow> MailSender \<Rightarrow> bool \<Rightarrow> MailDraft \<Rightarrow> u32" where
  "expire_delay e snd' sender_is_gm d =
     (if m_messageType snd' = MAIL_AUCTION \<and> m_items d = [] \<and> m_money d = 0 then MAIL_DELIVERY_DELAY e
      else if m_messageType snd' = MAIL_CREATURE \<and> battlemaster e (m_senderId snd') then DAY
      else if m_COD d \<noteq> 0 then 3 * DAY
      else if sender_is_gm then 90 * DAY else 30 * DAY)"

definition draft_row :: "MailDraft \<Rightarrow> MailSender \<Rightarrow> u32 \<Rightarrow> u64 \<Rightarrow> u64 \<Rightarrow> u32 \<Rightarrow> MailRow" where
  "draft_row d snd' rcv et dt chk =
     \<lparr>row_messageType = m_messageType snd', row_stationery = m_stationery snd', row_mailTemplateId = m_mailTemplateId d,
      row_sender = m_senderId snd', row_receiver = rcv, row_subject = m_subject d, row_body = m_body d,
      row_has_items = (m_items d \<noteq> []), row_expire_time = et, row_deliver_time = dt, row_money = ucast (m_money d),
      row_cod = ucast (m_COD d), row_checked = ucast chk\<rparr>"

definition draft_mail :: "u32 \<Rightarrow> MailDraft \<Rightarrow> MailSender \<Rightarrow> u32 \<Rightarrow> u64 \<Rightarrow> u64 \<Rightarrow> u32 \<Rightarrow> Mail" where
  "draft_mail mailId d snd' rcv et dt chk =
     \<lparr>messageID = mailId, messageType = m_messageType snd', stationery = m_stationery snd', mailTemplateId = m_mailTemplateId d,
      mail_sender = m_senderId snd', mail_receiver = rcv, subject = m_subject d, body = m_body d,
      mail_items = map (\<lambda>x. (item_guid (snd x), item_entry (snd x))) (m_items d), removedItems = [],
      expire_time = et, deliver_time = dt, money = m_money d, COD = m_COD d, checked = chk,
      mail_state = MAIL_STATE_UNCHANGED\<rparr>"

text \<open>\<^verbatim>\<open>MailDraft::SendMailTo\<close>. The receiver is given by its low guid; its \<^verbatim>\<open>Player*\<close> is the one that is online.\<close>

definition SendMailTo ::
    "PostEnv \<Rightarrow> MailDraft \<Rightarrow> u32 \<Rightarrow> MailSender \<Rightarrow> u32 \<Rightarrow> u32 \<Rightarrow> 'a post \<Rightarrow> 'a post" where
  "SendMailTo e d0 rcv snd' chk deliver_delay s =
     (let w0 = snd s;
          (d, tr) = (if FindPlayer rcv w0 = None then (d0, fst s) else prepareItems e rcv (d0, fst s));
          (mailId, w1) = GenerateMailID w0;
          dt = now e + ucast deliver_delay;
          gm = (case FindPlayer (m_senderId snd') w0 of None \<Rightarrow> False | Some p \<Rightarrow> p_isGameMaster p);
          et = dt + ucast (expire_delay e snd' gm d);
          tr' = tr @ CHAR_INS_MAIL mailId (draft_row d snd' rcv et dt chk)
                # map (\<lambda>x. CHAR_INS_MAIL_ITEM mailId (item_guid (snd x)) rcv) (m_items d)
      in case FindPlayer rcv w1 of
           None \<Rightarrow> (tr', snd (snd (deleteIncludedItems False d ([], w1))))
         | Some p \<Rightarrow>
             (let w2 = AddNewMailDeliverTime e rcv dt w1 in
              if m_mailsLoaded p
              then (tr', upd_player rcv (\<lambda>q. fold (\<lambda>x. AddMItem (snd x)) (m_items d)
                                 (AddMail (draft_mail mailId d snd' rcv et dt chk) q)) w2)
              else (tr', snd (snd (deleteIncludedItems False d ([], w2))))))"

text \<open>\<^verbatim>\<open>MailDraft::SendReturnToSender\<close>.\<close>

definition SendReturnToSender :: "PostEnv \<Rightarrow> MailDraft \<Rightarrow> u32 \<Rightarrow> u32 \<Rightarrow> u32 \<Rightarrow> 'a post \<Rightarrow> 'a post" where
  "SendReturnToSender e d sender_acc sender_guid receiver_guid s =
     (let rc_account = (if FindPlayer receiver_guid (snd s) = None then account_of e receiver_guid else 0) in
      if FindPlayer receiver_guid (snd s) = None \<and> rc_account = 0
      then snd (deleteIncludedItems True d s)
      else
        let needItemDelay = (m_items d \<noteq> [] \<and> sender_acc \<noteq> rc_account);
            tr = fst s @ concat (map (\<lambda>x. [SAVE_ITEM (snd x), CHAR_UPD_ITEM_OWNER receiver_guid (item_guid (snd x))]) (m_items d));
            deliver_delay = (if needItemDelay then MAIL_DELIVERY_DELAY e else 0)
        in SendMailTo e d receiver_guid
             \<lparr>m_messageType = MAIL_NORMAL, m_senderId = sender_guid, m_stationery = MAIL_STATIONERY_DEFAULT\<rparr>
             MAIL_CHECK_MASK_RETURNED deliver_delay (tr, snd s))"

section \<open>Old letters\<close>

text \<open>One row of the loop of \<^verbatim>\<open>ObjectMgr::ReturnOrDeleteOldMails\<close>; the items of the letter were read before the loop.\<close>

definition old_mail :: "PostEnv \<Rightarrow> bool \<Rightarrow> (u32 \<Rightarrow> Item list) \<Rightarrow> u32 \<times> MailRow \<Rightarrow> 'a PostWorld_scheme \<Rightarrow> 'a PostWorld_scheme" where
  "old_mail e serverUp itemsCache x w =
     (let i = fst x; r = snd x in
      if serverUp \<and> (case FindPlayer (row_receiver r) w of None \<Rightarrow> False | Some p \<Rightarrow> m_mailsLoaded p) then w
      else if row_has_items r
           \<and> \<not> (row_messageType r \<noteq> MAIL_NORMAL \<or>
                 ucast (row_checked r) AND (MAIL_CHECK_MASK_COD_PAYMENT OR MAIL_CHECK_MASK_RETURNED) \<noteq> 0)
      then fold (\<lambda>it u. Execute (CHAR_UPD_ITEM_OWNER (row_sender r) (item_guid it))
                          (Execute (CHAR_UPD_MAIL_ITEM_RECEIVER (row_sender r) (item_guid it)) u))
             (itemsCache i)
             (Execute (CHAR_UPD_MAIL_RETURNED (row_receiver r) (row_sender r) (ucast (now e + 30 * ucast DAY)) (ucast (now e))
                (ucast MAIL_CHECK_MASK_RETURNED) i) w)
      else Execute (CHAR_DEL_MAIL_BY_ID i)
             (if row_has_items r then fold (\<lambda>it. Execute (CHAR_DEL_ITEM_INSTANCE (item_guid it))) (itemsCache i) w else w))"

text \<open>\<^verbatim>\<open>CHAR_SEL_EXPIRED_MAIL_ITEMS\<close>: the items of the letters that expired before \<open>t\<close>, by letter.\<close>

definition expired_mail_items :: "u32 \<Rightarrow> CharacterDB \<Rightarrow> u32 \<Rightarrow> Item list" where
  "expired_mail_items t db i =
     (case map_of (tbl_mail db) i of
        None \<Rightarrow> []
      | Some r \<Rightarrow> if row_expire_time r < ucast t then mailed_items i db else [])"

definition ReturnOrDeleteOldMails :: "PostEnv \<Rightarrow> bool \<Rightarrow> 'a PostWorld_scheme \<Rightarrow> 'a PostWorld_scheme" where
  "ReturnOrDeleteOldMails e serverUp w =
     (let w1 = (if serverUp then w else Execute (CHAR_DEL_EMPTY_EXPIRED_MAIL (now e)) w) in
      fold (old_mail e serverUp (expired_mail_items (ucast (now e)) (chardb w1)))
        (filter (\<lambda>x. row_expire_time (snd x) < now e) (tbl_mail (chardb w1))) w1)"

end
