(* ===== verification/MailHandlers.thy ===== *)
theory MailHandlers
  imports Mail Names
begin

text \<open>
  The requests of a client at a mailbox, \<^verbatim>\<open>game/Handlers/MailHandler.cpp\<close>: each handler decodes its packet and runs the
  operation on the player of the session, given by its low guid, and on the database. Log output is
  not represented.
\<close>

datatype mail_error = MailPacketError bb_error | MailNameError name_error

definition with_packet :: "bb_error + 'a \<times> bytebuffer \<Rightarrow> ('a \<Rightarrow> mail_error + 'b) \<Rightarrow> mail_error + 'b" where
  "with_packet r f = (case r of Inl x \<Rightarrow> Inl (MailPacketError x) | Inr a \<Rightarrow> f (fst a))"

definition read_pair :: "'a bb_read \<Rightarrow> 'b bb_read \<Rightarrow> ('a \<times> 'b) bb_read" where
  "read_pair f g b = bind_res (f b) (\<lambda>(x, b1). bind_res (g b1) (\<lambda>(y, b2). Inr ((x, y), b2)))"

definition read_skipped :: "nat \<Rightarrow> unit bb_read" where
  "read_skipped n b = bind_res (read_skip n b) (\<lambda>b1. Inr ((), b1))"

section \<open>Sending a letter\<close>

record SendMailRequest =
  req_mailbox :: u64
  req_receiver :: utf8
  req_subject :: utf8
  req_body :: utf8
  req_money :: u64
  req_COD :: u64
  req_items :: "u64 list"

text \<open>The bits and bytes of an \<^verbatim>\<open>ObjectGuid\<close>, in the order the packet has them.\<close>

primrec read_guid_mask :: "nat list \<Rightarrow> u8 list \<Rightarrow> u8 list bb_read" where
  "read_guid_mask [] g b = Inr (g, b)"
| "read_guid_mask (i # is) g b = bind_res (ReadBit b) (\<lambda>(t, b'). read_guid_mask is (g[i := of_bool t]) b')"

primrec read_guid_seq :: "nat list \<Rightarrow> u8 list \<Rightarrow> u8 list bb_read" where
  "read_guid_seq [] g b = Inr (g, b)"
| "read_guid_seq (i # is) g b = bind_res (ReadByteSeq (g ! i) b) (\<lambda>(v, b'). read_guid_seq is (g[i := v]) b')"

primrec read_item_masks :: "nat \<Rightarrow> u8 list list bb_read" where
  "read_item_masks 0 b = Inr ([], b)"
| "read_item_masks (Suc n) b =
     bind_res (read_guid_mask [2, 6, 3, 7, 1, 0, 4, 5] (replicate 8 0) b) (\<lambda>(g, b1).
       bind_res (read_item_masks n b1) (\<lambda>(gs, b2). Inr (g # gs, b2)))"

primrec read_item_seqs :: "u8 list list \<Rightarrow> u8 list list bb_read" where
  "read_item_seqs [] b = Inr ([], b)"
| "read_item_seqs (g # gs) b =
     bind_res (read_guid_seq [6, 1, 7, 2] g b) (\<lambda>(g1, b1).
       bind_res (read_skip 1 b1) (\<lambda>b2.
         bind_res (read_guid_seq [3, 0, 4, 5] g1 b2) (\<lambda>(g2, b3).
           bind_res (read_item_seqs gs b3) (\<lambda>(hs, b4). Inr (g2 # hs, b4)))))"

text \<open>\<open>None\<close> is the early return for too many items.\<close>

definition SendMail_read :: "SendMailRequest option bb_read" where
  "SendMail_read b0 =
     bind_res (read_u32 b0) (\<lambda>(unk1, b1).
     bind_res (read_u32 b1) (\<lambda>(unk2, b2).
     bind_res (read_u64 b2) (\<lambda>(cod, b3).
     bind_res (read_u64 b3) (\<lambda>(coins, b4).
     bind_res (ReadBits 12 b4) (\<lambda>(bodyLength, b5).
     bind_res (ReadBits 9 b5) (\<lambda>(subjectLength, b6).
     bind_res (ReadBits 5 b6) (\<lambda>(items_count, b7).
       if unat items_count > MAX_MAIL_ITEMS then Inr (None, rfinish b7)
       else
         bind_res (read_guid_mask [0] (replicate 8 0) b7) (\<lambda>(mb1, b8).
         bind_res (read_item_masks (unat items_count) b8) (\<lambda>(gs, b9).
         bind_res (read_guid_mask [3, 4] mb1 b9) (\<lambda>(mb2, b10).
         bind_res (ReadBits 7 b10) (\<lambda>(receiverLength, b11).
         bind_res (read_guid_mask [2, 6, 1, 7, 5] mb2 b11) (\<lambda>(mb3, b12).
         bind_res (read_guid_seq [4] mb3 b12) (\<lambda>(mb4, b13).
         bind_res (read_item_seqs gs b13) (\<lambda>(hs, b14).
         bind_res (read_guid_seq [7, 3, 6, 5] mb4 b14) (\<lambda>(mb5, b15).
         bind_res (ReadString (unat subjectLength) b15) (\<lambda>(subj, b16).
         bind_res (ReadString (unat receiverLength) b16) (\<lambda>(rcv, b17).
         bind_res (read_guid_seq [2, 0] mb5 b17) (\<lambda>(mb6, b18).
         bind_res (ReadString (unat bodyLength) b18) (\<lambda>(bdy, b19).
         bind_res (read_guid_seq [1] mb6 b19) (\<lambda>(mb7, b20).
           Inr (Some \<lparr>req_mailbox = le_word mb7, req_receiver = rcv, req_subject = subj, req_body = bdy,
                      req_money = coins, req_COD = cod, req_items = map le_word hs\<rparr>, b20)))))))))))))))))))))"

definition ITEM_PROTO_FLAG_CONJURED :: u32 where "ITEM_PROTO_FLAG_CONJURED = 0x00000002"
definition ITEM_PROTO_FLAG_BIND_TO_ACCOUNT :: u32 where "ITEM_PROTO_FLAG_BIND_TO_ACCOUNT = 0x08000000"
definition ITEM_FLAG_SOULBOUND :: u32 where "ITEM_FLAG_SOULBOUND = 0x00000001"
definition ITEM_FLAG_WRAPPED :: u32 where "ITEM_FLAG_WRAPPED = 0x00000008"
definition ITEM_FLAG_BOP_TRADEABLE :: u32 where "ITEM_FLAG_BOP_TRADEABLE = 0x00000100"
definition ITEM_FLAG_REFUNDABLE :: u32 where "ITEM_FLAG_REFUNDABLE = 0x00001000"
definition ITEM_FLAG_MAIL_TEXT_MASK :: u32 where "ITEM_FLAG_MAIL_TEXT_MASK = 0x00000200 OR 0x00040000 OR 0x00080000"

definition EQUIP_ERR_OK :: u8 where "EQUIP_ERR_OK = 0"
definition EQUIP_ERR_ITEM_NOT_FOUND :: u8 where "EQUIP_ERR_ITEM_NOT_FOUND = 23"
definition EQUIP_ERR_DESTROY_NONEMPTY_BAG :: u8 where "EQUIP_ERR_DESTROY_NONEMPTY_BAG = 31"
definition EQUIP_ERR_MAIL_BOUND_ITEM :: u8 where "EQUIP_ERR_MAIL_BOUND_ITEM = 72"
definition EQUIP_ERR_NOT_SAME_ACCOUNT :: u8 where "EQUIP_ERR_NOT_SAME_ACCOUNT = 82"

definition LANG_MAIL_SENDER_REQ :: u32 where "LANG_MAIL_SENDER_REQ = 6611"
definition LANG_MAIL_RECEIVER_REQ :: u32 where "LANG_MAIL_RECEIVER_REQ = 6612"

text \<open>\<^verbatim>\<open>Player::GetItemByGuid\<close> on the items the player carries; an item guid has the high part of items.\<close>

definition GetItemByGuid :: "u64 \<Rightarrow> PostPlayer \<Rightarrow> Item option" where
  "GetItemByGuid guid p = find (\<lambda>it. MAKE_NEW_GUID (item_guid it) 0 HIGHGUID_ITEM = guid) (inventory p)"

definition MoveItemFromInventory :: "Item \<Rightarrow> PostPlayer \<Rightarrow> PostPlayer" where
  "MoveItemFromInventory it p = p\<lparr>inventory := filter (\<lambda>x. item_guid x \<noteq> item_guid it) (inventory p)\<rparr>"

text \<open>\<^verbatim>\<open>Item::SetNotRefundable\<close>; the refund data of the item are not represented.\<close>

definition SetNotRefundable :: "Item \<Rightarrow> Item" where
  "SetNotRefundable it =
     (if item_flags it AND ITEM_FLAG_REFUNDABLE = 0 then it else it\<lparr>item_flags := item_flags it AND NOT ITEM_FLAG_REFUNDABLE\<rparr>)"

lemma SetNotRefundable_simps [simp]:
  "item_guid (SetNotRefundable it) = item_guid it" "item_entry (SetNotRefundable it) = item_entry it"
  "item_count (SetNotRefundable it) = item_count it"
  by (simp_all add: SetNotRefundable_def)

definition IsSoulBound :: "Item \<Rightarrow> bool" where
  "IsSoulBound it \<longleftrightarrow> item_flags it AND ITEM_FLAG_SOULBOUND \<noteq> 0"

definition IsBoundAccountWide :: "PostEnv \<Rightarrow> Item \<Rightarrow> bool" where
  "IsBoundAccountWide e it \<longleftrightarrow> proto_Flags e (item_entry it) AND ITEM_PROTO_FLAG_BIND_TO_ACCOUNT \<noteq> 0"

text \<open>The checks of one attached item: an error and its equipment code.\<close>

definition check_attachment :: "PostEnv \<Rightarrow> u32 \<Rightarrow> PostPlayer \<Rightarrow> u32 \<Rightarrow> u64 \<Rightarrow> u64 \<Rightarrow> (u32 \<times> u8) + Item" where
  "check_attachment e g p rc_account cod guid =
     (if guid = 0 then Inl (MAIL_ERR_MAIL_ATTACHMENT_INVALID, 0)
      else case GetItemByGuid guid p of
        None \<Rightarrow> Inl (MAIL_ERR_MAIL_ATTACHMENT_INVALID, 0)
      | Some it \<Rightarrow>
          if \<not> can_be_traded e g it True then Inl (MAIL_ERR_EQUIP_ERROR, EQUIP_ERR_MAIL_BOUND_ITEM)
          else if IsBoundAccountWide e it \<and> IsSoulBound it \<and> p_account p \<noteq> rc_account
          then Inl (MAIL_ERR_EQUIP_ERROR, EQUIP_ERR_NOT_SAME_ACCOUNT)
          else if proto_Flags e (item_entry it) AND ITEM_PROTO_FLAG_CONJURED \<noteq> 0 \<or> item_duration it \<noteq> 0
          then Inl (MAIL_ERR_EQUIP_ERROR, EQUIP_ERR_MAIL_BOUND_ITEM)
          else if cod \<noteq> 0 \<and> item_flags it AND ITEM_FLAG_WRAPPED \<noteq> 0 then Inl (MAIL_ERR_CANT_SEND_WRAPPED_COD, 0)
          else if is_not_empty_bag e it then Inl (MAIL_ERR_EQUIP_ERROR, EQUIP_ERR_DESTROY_NONEMPTY_BAG)
          else Inr it)"

primrec check_attachments :: "PostEnv \<Rightarrow> u32 \<Rightarrow> PostPlayer \<Rightarrow> u32 \<Rightarrow> u64 \<Rightarrow> u64 list \<Rightarrow> (u32 \<times> u8) + Item list" where
  "check_attachments e g p rc_account cod [] = Inr []"
| "check_attachments e g p rc_account cod (x # xs) =
     bind_res (check_attachment e g p rc_account cod x) (\<lambda>it.
       bind_res (check_attachments e g p rc_account cod xs) (\<lambda>its. Inr (it # its)))"

definition attach_item :: "u32 \<Rightarrow> Item \<Rightarrow> PostPlayer \<times> MailDraft \<times> Stmt list \<Rightarrow> PostPlayer \<times> MailDraft \<times> Stmt list" where
  "attach_item rc it s =
     (case s of (p, d, tr) \<Rightarrow>
        let it' = (SetNotRefundable it)\<lparr>item_owner := rc\<rparr> in
        (MoveItemFromInventory it p, AddItem it' d, tr @ [DEL_INVENTORY_ITEM (item_guid it), SAVE_ITEM it']))"

definition account_bound :: "PostEnv \<Rightarrow> PostPlayer \<Rightarrow> u64 list \<Rightarrow> bool" where
  "account_bound e p guids \<longleftrightarrow>
     guids \<noteq> [] \<and> list_all (\<lambda>x. case GetItemByGuid x p of None \<Rightarrow> True | Some it \<Rightarrow> IsBoundAccountWide e it) guids"

definition mails_count :: "u32 \<Rightarrow> 'a PostWorld_scheme \<Rightarrow> u8" where
  "mails_count rc w =
     (case FindPlayer rc w of
        Some q \<Rightarrow> ucast (of_nat (length (m_mail q)) :: u32)
      | None \<Rightarrow> ucast (of_nat (length (mail_rows rc (chardb w))) :: u64))"

definition mail_cost :: "u64 list \<Rightarrow> u32" where
  "mail_cost guids = (if guids \<noteq> [] then 30 * of_nat (length guids) else 30)"

definition GOLD_SPENT_FOR_MAIL :: nat where "GOLD_SPENT_FOR_MAIL = 66"

text \<open>The end of \<^verbatim>\<open>HandleSendMail\<close>, after the checks.\<close>

definition SendMail_commit ::
    "PostEnv \<Rightarrow> u32 \<Rightarrow> SendMailRequest \<Rightarrow> u32 \<Rightarrow> u32 \<Rightarrow> Item list \<Rightarrow> PostPlayer \<Rightarrow> 'a PostWorld_scheme \<Rightarrow> 'a PostWorld_scheme" where
  "SendMail_commit e g r rc rc_account its p w0 =
     (let cost = mail_cost (req_items r);
          reqmoney = ucast cost + req_money r;
          w1 = emit (AchievementCriteria g GOLD_SPENT_FOR_MAIL (ucast cost)) (SendMailResult g 0 MAIL_SEND MAIL_OK w0);
          p1 = p\<lparr>purse := ModifyMoney (- reqmoney) (purse p)\<rparr>;
          (p2, d1, tr1) = fold (attach_item rc) its (p1, MailDraft_new (req_subject r) (req_body r), []);
          needItemDelay = (its \<noteq> [] \<and> p_account p \<noteq> rc_account);
          d2 = AddCOD (ucast (req_COD r)) (AddMoney (req_money r) d1);
          w2 = set_player g p2 w1;
          (tr2, w3) = SendMailTo e d2 rc
             \<lparr>m_messageType = MAIL_NORMAL, m_senderId = g,
              m_stationery = (if p_isGameMaster p then MAIL_STATIONERY_GM else MAIL_STATIONERY_DEFAULT)\<rparr>
             (if req_body r = [] then MAIL_CHECK_MASK_COPIED else MAIL_CHECK_MASK_HAS_BODY)
             (if needItemDelay then MAIL_DELIVERY_DELAY e else 0) (tr1, w2)
      in CommitTransaction (tr2 @ SaveInventoryAndGoldToDB g p2) w3)"

text \<open>\<^verbatim>\<open>HandleSendMail\<close> after the packet has been read.\<close>

definition SendMail :: "PostEnv \<Rightarrow> u32 \<Rightarrow> SendMailRequest \<Rightarrow> 'a PostWorld_scheme \<Rightarrow> mail_error + 'a PostWorld_scheme" where
  "SendMail e g r w =
     (case FindPlayer g w of
        None \<Rightarrow> Inr w
      | Some p \<Rightarrow>
          if \<not> can_use_mailbox e g (req_mailbox r) \<or> req_receiver r = [] then Inr w
          else if ucast (p_level p) < MAIL_LEVEL_REQ e then Inr (emit (SendNotification g LANG_MAIL_SENDER_REQ) w)
          else case normalizePlayerName (req_receiver r) of
            Inl x \<Rightarrow> Inl (MailNameError x)
          | Inr nm \<Rightarrow>
              let rcg = (case nm of None \<Rightarrow> 0 | Some n \<Rightarrow> guid_by_name e n);
                  rc = GUID_LOPART rcg;
                  reqmoney = ucast (mail_cost (req_items r)) + req_money r;
                  rc_team = (case FindPlayer rc w of Some q \<Rightarrow> p_team q | None \<Rightarrow> team_of e rc);
                  receiveLevel = (case FindPlayer rc w of Some q \<Rightarrow> p_level q | None \<Rightarrow> level_of e rc);
                  rc_account = (case FindPlayer rc w of Some q \<Rightarrow> p_account q | None \<Rightarrow> account_of e rc)
              in
                if rcg = 0 then Inr (SendMailResult g 0 MAIL_SEND MAIL_ERR_RECIPIENT_NOT_FOUND w)
                else if MAKE_NEW_GUID g 0 HIGHGUID_PLAYER = rcg
                then Inr (SendMailResult g 0 MAIL_SEND MAIL_ERR_CANNOT_SEND_TO_SELF w)
                else if \<not> HasEnoughMoney reqmoney (purse p) \<and> \<not> p_isGameMaster p
                then Inr (SendMailResult g 0 MAIL_SEND MAIL_ERR_NOT_ENOUGH_MONEY w)
                else if mails_count rc w > 100
                then Inr (SendMailResult g 0 MAIL_SEND MAIL_ERR_RECIPIENT_CAP_REACHED w)
                else if \<not> account_bound e p (req_items r) \<and> \<not> TWO_SIDE_MAIL e \<and> p_team p \<noteq> rc_team \<and> p_security p = 0
                then Inr (SendMailResult g 0 MAIL_SEND MAIL_ERR_NOT_YOUR_TEAM w)
                else if ucast receiveLevel < MAIL_LEVEL_REQ e
                then Inr (emit (SendNotification g LANG_MAIL_RECEIVER_REQ) w)
                else case check_attachments e g p rc_account (req_COD r) (req_items r) of
                  Inl (err, eq) \<Rightarrow> Inr (SendMailResult_full g 0 MAIL_SEND err (ucast eq) 0 0 w)
                | Inr its \<Rightarrow> Inr (SendMail_commit e g r rc rc_account its p w))"

definition HandleSendMail :: "PostEnv \<Rightarrow> u32 \<Rightarrow> bytebuffer \<Rightarrow> 'a PostWorld_scheme \<Rightarrow> mail_error + 'a PostWorld_scheme" where
  "HandleSendMail e g pkt w =
     with_packet (SendMail_read pkt) (\<lambda>r.
       case r of
         None \<Rightarrow> Inr (SendMailResult g 0 MAIL_SEND MAIL_ERR_TOO_MANY_ATTACHMENTS w)
       | Some q \<Rightarrow> SendMail e g q w)"

section \<open>Reading, deleting and returning a letter\<close>

text \<open>Handlers start with the check of the mailbox; \<open>at_mailbox\<close> gives the operation the session's player.\<close>

definition at_mailbox :: "PostEnv \<Rightarrow> u32 \<Rightarrow> u64 \<Rightarrow> (PostPlayer \<Rightarrow> 'a PostWorld_scheme \<Rightarrow> 'a PostWorld_scheme) \<Rightarrow>
    'a PostWorld_scheme \<Rightarrow> 'a PostWorld_scheme" where
  "at_mailbox e g mailbox f w =
     (case FindPlayer g w of None \<Rightarrow> w | Some p \<Rightarrow> if can_use_mailbox e g mailbox then f p w else w)"

definition MailMarkAsRead :: "PostEnv \<Rightarrow> u32 \<Rightarrow> u64 \<Rightarrow> u32 \<Rightarrow> 'a PostWorld_scheme \<Rightarrow> 'a PostWorld_scheme" where
  "MailMarkAsRead e g mailbox mailId =
     at_mailbox e g mailbox (\<lambda>p w.
       case GetMail mailId p of
         None \<Rightarrow> w
       | Some m \<Rightarrow>
           if mail_state m = MAIL_STATE_DELETED then w
           else set_player g
             (upd_mail mailId (\<lambda>m. m\<lparr>checked := checked m OR MAIL_CHECK_MASK_READ, mail_state := MAIL_STATE_CHANGED\<rparr>)
               (p\<lparr>unReadMails := (if unReadMails p \<noteq> 0 then unReadMails p - 1 else unReadMails p), m_mailsUpdated := True\<rparr>)) w)"

definition MailDelete :: "PostEnv \<Rightarrow> u32 \<Rightarrow> u64 \<Rightarrow> u32 \<Rightarrow> 'a PostWorld_scheme \<Rightarrow> 'a PostWorld_scheme" where
  "MailDelete e g mailbox mailId =
     at_mailbox e g mailbox (\<lambda>p w.
       let p1 = p\<lparr>m_mailsUpdated := True\<rparr> in
       case GetMail mailId p of
         None \<Rightarrow> SendMailResult g mailId MAIL_DELETED MAIL_OK (set_player g p1 w)
       | Some m \<Rightarrow>
           if COD m \<noteq> 0 then SendMailResult g mailId MAIL_DELETED MAIL_ERR_INTERNAL_ERROR (set_player g p1 w)
           else SendMailResult g mailId MAIL_DELETED MAIL_OK
                  (set_player g (upd_mail mailId (\<lambda>m. m\<lparr>mail_state := MAIL_STATE_DELETED\<rparr>) p1) w))"

definition unavailable :: "PostEnv \<Rightarrow> Mail \<Rightarrow> bool" where
  "unavailable e m \<longleftrightarrow> mail_state m = MAIL_STATE_DELETED \<or> deliver_time m > now e"

text \<open>The items of the letter that the player holds go to the draft, and leave the player's mailed items.\<close>

definition take_attachments :: "(u32 \<times> u32) list \<Rightarrow> PostPlayer \<times> MailDraft \<Rightarrow> PostPlayer \<times> MailDraft" where
  "take_attachments infos s =
     fold (\<lambda>x (p, d). (RemoveMItem (fst x) p, case GetMItem (fst x) p of Some it \<Rightarrow> AddItem it d | None \<Rightarrow> d)) infos s"

definition MailReturnToSender :: "PostEnv \<Rightarrow> u32 \<Rightarrow> u64 \<Rightarrow> u32 \<Rightarrow> 'a PostWorld_scheme \<Rightarrow> 'a PostWorld_scheme" where
  "MailReturnToSender e g mailbox mailId =
     at_mailbox e g mailbox (\<lambda>p w.
       case GetMail mailId p of
         None \<Rightarrow> SendMailResult g mailId MAIL_RETURNED_TO_SENDER MAIL_ERR_INTERNAL_ERROR w
       | Some m \<Rightarrow>
           if unavailable e m then SendMailResult g mailId MAIL_RETURNED_TO_SENDER MAIL_ERR_INTERNAL_ERROR w
           else
             let tr1 = [CHAR_DEL_MAIL_BY_ID mailId, CHAR_DEL_MAIL_ITEM_BY_ID mailId];
                 p1 = RemoveMail mailId p;
                 (tr2, w2) =
                   (if messageType m = MAIL_NORMAL \<and> mail_sender m \<noteq> 0
                    then
                      let d0 = (if mailTemplateId m \<noteq> 0 then MailDraft_template (mailTemplateId m) False
                                else MailDraft_new (subject m) (body m));
                          (p2, d1) = take_attachments (mail_items m) (p1, d0)
                      in SendReturnToSender e (AddMoney (money m) d1) (p_account p) (mail_receiver m) (mail_sender m)
                           (tr1, set_player g p2 w)
                    else (tr1, set_player g p1 w))
             in SendMailResult g mailId MAIL_RETURNED_TO_SENDER MAIL_OK (CommitTransaction tr2 w2))"

section \<open>Taking what a letter holds\<close>

definition MailTakeMoney :: "PostEnv \<Rightarrow> u32 \<Rightarrow> u64 \<Rightarrow> u32 \<Rightarrow> u64 \<Rightarrow> 'a PostWorld_scheme \<Rightarrow> 'a PostWorld_scheme" where
  "MailTakeMoney e g mailbox mailId coins =
     at_mailbox e g mailbox (\<lambda>p w.
       case GetMail mailId p of
         None \<Rightarrow> SendMailResult g mailId MAIL_MONEY_TAKEN MAIL_ERR_INTERNAL_ERROR w
       | Some m \<Rightarrow>
           if unavailable e m \<or> coins > 0 \<and> money m \<noteq> coins
           then SendMailResult g mailId MAIL_MONEY_TAKEN MAIL_ERR_INTERNAL_ERROR w
           else
             let p1 = upd_mail mailId (\<lambda>m. m\<lparr>money := 0, mail_state := MAIL_STATE_CHANGED\<rparr>)
                        (p\<lparr>purse := ModifyMoney coins (purse p), m_mailsUpdated := True\<rparr>);
                 (tr, p2) = SaveMail p1
             in CommitTransaction (SaveGoldToDB g p1 @ tr)
                  (set_player g p2 (SendMailResult g mailId MAIL_MONEY_TAKEN MAIL_OK w)))"

definition CanStoreItem :: "PostEnv \<Rightarrow> u32 \<Rightarrow> PostPlayer \<Rightarrow> Item option \<Rightarrow> u8" where
  "CanStoreItem e g p it =
     (case it of None \<Rightarrow> EQUIP_ERR_ITEM_NOT_FOUND | Some x \<Rightarrow> can_store e g (inventory p) x)"

text \<open>\<^verbatim>\<open>-int32(x)\<close> passed as an \<^verbatim>\<open>int64\<close>.\<close>

definition neg_int32 :: "u64 \<Rightarrow> u64" where
  "neg_int32 x = scast (- (ucast x :: u32))"

definition cod_payment :: "PostEnv \<Rightarrow> Mail \<Rightarrow> 'a post \<Rightarrow> 'a post" where
  "cod_payment e m s =
     (if FindPlayer (mail_sender m) (snd s) \<noteq> None \<or> account_of e (mail_sender m) \<noteq> 0
      then SendMailTo e (AddMoney (COD m) (MailDraft_new (subject m) [])) (mail_sender m)
             \<lparr>m_messageType = MAIL_NORMAL, m_senderId = mail_receiver m, m_stationery = MAIL_STATIONERY_DEFAULT\<rparr>
             MAIL_CHECK_MASK_COD_PAYMENT 0 s
      else s)"

text \<open>The letter is written through its pointer before and after the payment is sent, and the payment may put
  a letter at the front of the same mailbox: \<open>upd_player\<close> reads the player again.\<close>

definition take_item_end :: "PostEnv \<Rightarrow> u32 \<Rightarrow> u32 \<Rightarrow> u32 \<Rightarrow> Item \<Rightarrow> Mail \<Rightarrow> 'a post \<Rightarrow> 'a PostWorld_scheme" where
  "take_item_end e g mailId itemId x m s =
     (let w1 = upd_player g (\<lambda>q.
                 (RemoveMItem (item_guid x) (upd_mail mailId (\<lambda>m. m\<lparr>COD := 0, mail_state := MAIL_STATE_CHANGED\<rparr>)
                   (q\<lparr>purse := (if COD m > 0 then ModifyMoney (neg_int32 (COD m)) (purse q) else purse q),
                      m_mailsUpdated := True\<rparr>)))
                 \<lparr>inventory := store_item e (inventory q) x\<rparr>) (snd s)
      in case FindPlayer g w1 of
           None \<Rightarrow> w1
         | Some q \<Rightarrow>
             let (tr2, q2) = SaveMail q in
             SendMailResult_full g mailId MAIL_ITEM_TAKEN MAIL_OK 0 itemId (item_count x)
               (CommitTransaction (fst s @ SaveInventoryAndGoldToDB g q @ tr2) (set_player g q2 w1)))"

definition take_item :: "PostEnv \<Rightarrow> u32 \<Rightarrow> u32 \<Rightarrow> u32 \<Rightarrow> Item \<Rightarrow> Mail \<Rightarrow> 'a PostWorld_scheme \<Rightarrow> 'a PostWorld_scheme" where
  "take_item e g mailId itemId x m w =
     (let w1 = upd_player g (upd_mail mailId (\<lambda>m. (Mail_RemoveItem itemId m)\<lparr>removedItems := removedItems m @ [itemId]\<rparr>)) w
      in take_item_end e g mailId itemId x m (if COD m > 0 then cod_payment e m ([], w1) else ([], w1)))"

definition MailTakeItem :: "PostEnv \<Rightarrow> u32 \<Rightarrow> u64 \<Rightarrow> u32 \<Rightarrow> u32 \<Rightarrow> 'a PostWorld_scheme \<Rightarrow> 'a PostWorld_scheme" where
  "MailTakeItem e g mailbox mailId itemId =
     at_mailbox e g mailbox (\<lambda>p w.
       case GetMail mailId p of
         None \<Rightarrow> SendMailResult g mailId MAIL_ITEM_TAKEN MAIL_ERR_INTERNAL_ERROR w
       | Some m \<Rightarrow>
           if unavailable e m then SendMailResult g mailId MAIL_ITEM_TAKEN MAIL_ERR_INTERNAL_ERROR w
           else if \<not> HasEnoughMoney (COD m) (purse p)
           then SendMailResult g mailId MAIL_ITEM_TAKEN MAIL_ERR_NOT_ENOUGH_MONEY w
           else
             let it = GetMItem itemId p; msg = CanStoreItem e g p it in
             if msg = EQUIP_ERR_OK then take_item e g mailId itemId (the it) m w
             else SendMailResult_full g mailId MAIL_ITEM_TAKEN MAIL_ERR_EQUIP_ERROR (ucast msg) 0 0 w)"

section \<open>Listing the mailbox\<close>

definition SMSG_MAIL_LIST_RESULT :: u32 where "SMSG_MAIL_LIST_RESULT = 0x4217"
definition MAX_INSPECTED_ENCHANTMENT_SLOT :: nat where "MAX_INSPECTED_ENCHANTMENT_SLOT = 10"

definition GetEnchantment :: "Item \<Rightarrow> nat \<Rightarrow> u32 \<times> u32 \<times> u32" where
  "GetEnchantment it j = (if j < length (item_enchants it) then item_enchants it ! j else (0, 0, 0))"

definition enchant_bytes :: "Item option \<Rightarrow> nat \<Rightarrow> u8 list" where
  "enchant_bytes it n =
     concat (map (\<lambda>j. case it of
         None \<Rightarrow> le_bytes 4 (0 :: u32) @ le_bytes 4 (0 :: u32) @ le_bytes 4 (0 :: u32)
       | Some x \<Rightarrow> (case GetEnchantment x j of (i, du, ch) \<Rightarrow> le_bytes 4 i @ le_bytes 4 du @ le_bytes 4 ch)) [0..<n])"

definition item_word :: "(Item \<Rightarrow> u32) \<Rightarrow> Item option \<Rightarrow> u8 list" where
  "item_word f it = le_bytes 4 (case it of None \<Rightarrow> 0 | Some x \<Rightarrow> f x)"

definition mail_item_bytes :: "nat \<Rightarrow> Item option \<Rightarrow> u8 list" where
  "mail_item_bytes i it =
     [of_nat i] @ item_word item_guid it @ item_word item_entry it @ enchant_bytes it MAX_INSPECTED_ENCHANTMENT_SLOT
     @ item_word item_randomProperty it @ item_word item_suffixFactor it @ item_word item_count it @ item_word item_charges it
     @ item_word item_maxDurability it @ item_word item_durability it @ [0]"

definition mail_item_count :: "Mail \<Rightarrow> nat" where
  "mail_item_count m = unat (of_nat (length (mail_items m)) :: u8)"

definition next_mail_size :: "Mail \<Rightarrow> nat" where
  "next_mail_size m =
     2 + 4 + 1 + (if messageType m = MAIL_NORMAL then 8 else 4) + 4 * 8 + (length (subject m) + 1) + (length (body m) + 1) + 1
     + mail_item_count m * (1 + 4 + 4 + MAX_INSPECTED_ENCHANTMENT_SLOT * 3 * 4 + 4 + 4 + 4 + 4 + 4 + 4 + 1)"

definition mail_sender_bytes :: "Mail \<Rightarrow> u8 list" where
  "mail_sender_bytes m =
     (if messageType m = MAIL_NORMAL then le_bytes 8 (MAKE_NEW_GUID (mail_sender m) 0 HIGHGUID_PLAYER)
      else if messageType m \<in> {2, 3, 4, 5} then le_bytes 4 (mail_sender m) else [])"

definition mail_bytes :: "PostEnv \<Rightarrow> PostPlayer \<Rightarrow> Mail \<Rightarrow> u8 list" where
  "mail_bytes e p m =
     le_bytes 2 (of_nat (next_mail_size m) :: u16) @ le_bytes 4 (messageID m) @ [messageType m] @ mail_sender_bytes m
     @ le_bytes 8 (COD m) @ le_bytes 4 (0 :: u32) @ le_bytes 4 (ucast (stationery m) :: u32) @ le_bytes 8 (money m)
     @ le_bytes 4 (checked m) @ le_bytes 4 (float_days e (expire_time m - now e)) @ le_bytes 4 (ucast (mailTemplateId m) :: u32)
     @ subject m @ [0] @ body m @ [0] @ [of_nat (mail_item_count m)]
     @ concat (map (\<lambda>i. mail_item_bytes i (GetMItem (fst (mail_items m ! i)) p)) [0..<mail_item_count m])"

definition maxPacketSize :: nat where "maxPacketSize = 32767"

text \<open>The loop over the letters: the bytes written after the two counters, and the counters.\<close>

primrec mail_list :: "PostEnv \<Rightarrow> PostPlayer \<Rightarrow> Mail list \<Rightarrow> u8 list \<times> nat \<times> nat \<Rightarrow> u8 list \<times> nat \<times> nat" where
  "mail_list e p [] s = s"
| "mail_list e p (m # ms) s =
     mail_list e p ms
       (case s of (data, mailsCount, realCount) \<Rightarrow>
          if mailsCount \<ge> 50 then (data, mailsCount, realCount + 1)
          else if mail_state m = MAIL_STATE_DELETED \<or> now e < deliver_time m then s
          else if 5 + length data + next_mail_size m > maxPacketSize then (data, mailsCount, realCount + 1)
          else (data @ mail_bytes e p m, mailsCount + 1, realCount + 1))"

definition GetMailList :: "PostEnv \<Rightarrow> u32 \<Rightarrow> u64 \<Rightarrow> 'a PostWorld_scheme \<Rightarrow> 'a PostWorld_scheme" where
  "GetMailList e g mailbox =
     at_mailbox e g mailbox (\<lambda>p0 w0.
       let w = (if m_mailsLoaded p0 then w0 else LoadMail e g w0) in
       case FindPlayer g w of
         None \<Rightarrow> w
       | Some p \<Rightarrow>
           (case mail_list e p (m_mail p) ([], 0, 0) of
              (data, mailsCount, realCount) \<Rightarrow>
                set_player g (UpdateNextMailTimeAndUnreads e p)
                  (emit (SendPacket g SMSG_MAIL_LIST_RESULT
                     (le_bytes 4 (of_nat realCount :: u32) @ [of_nat mailsCount] @ data)) w)))"

section \<open>Copies of a letter\<close>

text \<open>The text of an item is not represented; its creator and its flags are.\<close>

definition MailCreateTextItem :: "PostEnv \<Rightarrow> u32 \<Rightarrow> u64 \<Rightarrow> u32 \<Rightarrow> 'a PostWorld_scheme \<Rightarrow> 'a PostWorld_scheme" where
  "MailCreateTextItem e g mailbox mailId =
     at_mailbox e g mailbox (\<lambda>p w.
       case GetMail mailId p of
         None \<Rightarrow> SendMailResult g mailId MAIL_MADE_PERMANENT MAIL_ERR_INTERNAL_ERROR w
       | Some m \<Rightarrow>
           if body m = [] \<and> mailTemplateId m = 0 \<or> unavailable e m \<or> checked m AND MAIL_CHECK_MASK_COPIED \<noteq> 0
           then SendMailResult g mailId MAIL_MADE_PERMANENT MAIL_ERR_INTERNAL_ERROR w
           else case body_item e g of
             None \<Rightarrow> w
           | Some it \<Rightarrow>
               if mailTemplateId m \<noteq> 0 \<and> \<not> mail_template e (mailTemplateId m)
               then SendMailResult g mailId MAIL_MADE_PERMANENT MAIL_ERR_INTERNAL_ERROR w
               else
                 let it1 = it\<lparr>item_creator := set_low_word (mail_sender m) (item_creator it),
                                item_flags := item_flags it OR ITEM_FLAG_MAIL_TEXT_MASK\<rparr>;
                     msg = CanStoreItem e g p (Some it1) in
                 if msg = EQUIP_ERR_OK
                 then SendMailResult g mailId MAIL_MADE_PERMANENT MAIL_OK
                        (set_player g (upd_mail mailId
                            (\<lambda>m. m\<lparr>checked := checked m OR MAIL_CHECK_MASK_COPIED, mail_state := MAIL_STATE_CHANGED\<rparr>)
                            (p\<lparr>m_mailsUpdated := True, inventory := store_item e (inventory p) it1\<rparr>)) w)
                 else emit (FreeItem (item_guid it1))
                        (SendMailResult_full g mailId MAIL_MADE_PERMANENT MAIL_ERR_EQUIP_ERROR (ucast msg) 0 0 w))"

section \<open>The next letter\<close>

definition MSG_QUERY_NEXT_MAIL_TIME :: u32 where "MSG_QUERY_NEXT_MAIL_TIME = 0x0F04"

text \<open>The loop: at most two senders of letters that are unread and delivered.\<close>

primrec next_senders :: "PostEnv \<Rightarrow> Mail list \<Rightarrow> u32 list \<Rightarrow> u8 list \<times> nat \<Rightarrow> u8 list \<times> nat" where
  "next_senders e [] sent s = s"
| "next_senders e (m # ms) sent s =
     (if checked m AND MAIL_CHECK_MASK_READ \<noteq> 0 \<or> now e < deliver_time m \<or> mail_sender m \<in> set sent
      then next_senders e ms sent s
      else
        let s' = (fst s @ le_bytes 8 (if messageType m = MAIL_NORMAL then ucast (mail_sender m) else 0 :: u64)
                    @ le_bytes 4 (if messageType m \<noteq> MAIL_NORMAL then mail_sender m else 0)
                    @ le_bytes 4 (ucast (messageType m) :: u32) @ le_bytes 4 (ucast (stationery m) :: u32)
                    @ le_bytes 4 (float_of e (deliver_time m - now e)), snd s + 1)
        in if snd s' = 2 then s' else next_senders e ms (mail_sender m # sent) s')"

definition HandleQueryNextMailTime :: "PostEnv \<Rightarrow> u32 \<Rightarrow> 'a PostWorld_scheme \<Rightarrow> 'a PostWorld_scheme" where
  "HandleQueryNextMailTime e g w0 =
     (case FindPlayer g w0 of
        None \<Rightarrow> w0
      | Some p0 \<Rightarrow>
          let w = (if m_mailsLoaded p0 then w0 else LoadMail e g w0) in
          case FindPlayer g w of
            None \<Rightarrow> w
          | Some p \<Rightarrow>
              emit (SendPacket g MSG_QUERY_NEXT_MAIL_TIME
                (if unReadMails p > 0
                 then (case next_senders e (m_mail p) [] ([], 0) of
                         (data, cnt) \<Rightarrow> le_bytes 4 (0 :: f32) @ le_bytes 4 (of_nat cnt :: u32) @ data)
                 else le_bytes 4 (0xC7A8C000 :: f32) @ le_bytes 4 (0 :: u32))) w)"

section \<open>Packets\<close>

definition HandleMailMarkAsRead :: "PostEnv \<Rightarrow> u32 \<Rightarrow> bytebuffer \<Rightarrow> 'a PostWorld_scheme \<Rightarrow> mail_error + 'a PostWorld_scheme" where
  "HandleMailMarkAsRead e g pkt w =
     with_packet (read_pair read_u64 read_u32 pkt) (\<lambda>(mb, i). Inr (MailMarkAsRead e g mb i w))"

definition HandleMailDelete :: "PostEnv \<Rightarrow> u32 \<Rightarrow> bytebuffer \<Rightarrow> 'a PostWorld_scheme \<Rightarrow> mail_error + 'a PostWorld_scheme" where
  "HandleMailDelete e g pkt w =
     with_packet (read_pair (read_pair read_u64 read_u32) (read_skipped 4) pkt) (\<lambda>((mb, i), _). Inr (MailDelete e g mb i w))"

definition HandleMailReturnToSender :: "PostEnv \<Rightarrow> u32 \<Rightarrow> bytebuffer \<Rightarrow> 'a PostWorld_scheme \<Rightarrow> mail_error + 'a PostWorld_scheme" where
  "HandleMailReturnToSender e g pkt w =
     with_packet (read_pair (read_pair read_u64 read_u32) (read_skipped 8) pkt) (\<lambda>((mb, i), _). Inr (MailReturnToSender e g mb i w))"

definition HandleMailTakeItem :: "PostEnv \<Rightarrow> u32 \<Rightarrow> bytebuffer \<Rightarrow> 'a PostWorld_scheme \<Rightarrow> mail_error + 'a PostWorld_scheme" where
  "HandleMailTakeItem e g pkt w =
     with_packet (read_pair (read_pair read_u64 read_u32) read_u32 pkt) (\<lambda>((mb, i), it). Inr (MailTakeItem e g mb i it w))"

definition HandleMailTakeMoney :: "PostEnv \<Rightarrow> u32 \<Rightarrow> bytebuffer \<Rightarrow> 'a PostWorld_scheme \<Rightarrow> mail_error + 'a PostWorld_scheme" where
  "HandleMailTakeMoney e g pkt w =
     with_packet (read_pair (read_pair read_u64 read_u32) read_u64 pkt) (\<lambda>((mb, i), mo). Inr (MailTakeMoney e g mb i mo w))"

definition HandleGetMailList :: "PostEnv \<Rightarrow> u32 \<Rightarrow> bytebuffer \<Rightarrow> 'a PostWorld_scheme \<Rightarrow> mail_error + 'a PostWorld_scheme" where
  "HandleGetMailList e g pkt w = with_packet (read_u64 pkt) (\<lambda>mb. Inr (GetMailList e g mb w))"

definition HandleMailCreateTextItem :: "PostEnv \<Rightarrow> u32 \<Rightarrow> bytebuffer \<Rightarrow> 'a PostWorld_scheme \<Rightarrow> mail_error + 'a PostWorld_scheme" where
  "HandleMailCreateTextItem e g pkt w =
     with_packet (read_pair read_u64 read_u32 pkt) (\<lambda>(mb, i). Inr (MailCreateTextItem e g mb i w))"

end
