(* ===== verification/Auction.thy ===== *)
theory Auction
  imports MailHandlers
begin

text \<open>
  The auction houses, \<^verbatim>\<open>game/AuctionHouse/AuctionHouseMgr.h\<close> and \<^verbatim>\<open>AuctionHouseMgr.cpp\<close>: auctions, the three houses, the
  items they hold, the letters they send and what is saved. Prices in an \<^verbatim>\<open>AuctionEntry\<close> are 32-bit words and wrap;
  percentages and rates, computed in floating point, are functions of the record \<open>AuctionEnv\<close>. The clock is \<open>now\<close>, for
  \<^verbatim>\<open>time(NULL)\<close> and for \<^verbatim>\<open>World::GetGameTime\<close>, which is the same clock read at the start of the tick.
\<close>

section \<open>State\<close>

record AuctionHouseEntry =
  houseId :: u32
  depositPercent :: u32
  cutPercent :: u32

record AuctionEntry =
  auc_Id :: u32
  auctioneer :: u32
  itemGUIDLow :: u32
  itemEntry :: u32
  itemCount :: u32
  owner :: u32
  startbid :: u32
  bid :: u32
  buyout :: u32
  auc_expire_time :: u64
  bidder :: u32
  deposit :: u32
  auctionHouseEntry :: AuctionHouseEntry
  factionTemplateId :: u32

datatype house = HordeHouse | AllianceHouse | NeutralHouse

record AuctionWorld = PostWorld +
  mHordeAuctions :: "(u32 \<times> AuctionEntry) list"
  mAllianceAuctions :: "(u32 \<times> AuctionEntry) list"
  mNeutralAuctions :: "(u32 \<times> AuctionEntry) list"
  mAitems :: "(u32 \<times> Item) list"
  next_auctionId :: u32

primrec AuctionsMap :: "house \<Rightarrow> AuctionWorld \<Rightarrow> (u32 \<times> AuctionEntry) list" where
  "AuctionsMap HordeHouse w = mHordeAuctions w"
| "AuctionsMap AllianceHouse w = mAllianceAuctions w"
| "AuctionsMap NeutralHouse w = mNeutralAuctions w"

primrec set_AuctionsMap :: "house \<Rightarrow> (u32 \<times> AuctionEntry) list \<Rightarrow> AuctionWorld \<Rightarrow> AuctionWorld" where
  "set_AuctionsMap HordeHouse s w = w\<lparr>mHordeAuctions := s\<rparr>"
| "set_AuctionsMap AllianceHouse s w = w\<lparr>mAllianceAuctions := s\<rparr>"
| "set_AuctionsMap NeutralHouse s w = w\<lparr>mNeutralAuctions := s\<rparr>"

text \<open>What the code asks of the rest of the server: data files, options, the auctioneer the player talks to
  (the faction of the creature), creation of items, arithmetic on floats, and what the signed price
  columns of the database give back.\<close>

record AuctionEnv =
  post :: PostEnv
  TWO_SIDE_AUCTION :: bool
  house_entry :: "u32 \<Rightarrow> AuctionHouseEntry option"
  faction_ourMask :: "u32 \<Rightarrow> u32 option"
  auctioneer_faction :: "u32 \<Rightarrow> u64 \<Rightarrow> u32 option"
  creature_faction :: "u32 \<Rightarrow> u32 option"
  has_died :: "u32 \<Rightarrow> bool"
  calculate_pct :: "u32 \<Rightarrow> u32 \<Rightarrow> u32"
  rate_cut :: "u32 \<Rightarrow> u32"
  rate_time :: "u32 \<Rightarrow> u32"
  deposit_product :: "u32 \<Rightarrow> u32 \<Rightarrow> u32 \<Rightarrow> u32 \<Rightarrow> u32"
  SellPrice :: "u32 \<Rightarrow> u32"
  MaxStackSize :: "u32 \<Rightarrow> u32"
  create_item :: "u32 \<Rightarrow> u32 \<Rightarrow> u32 \<Rightarrow> Item option"
  set_random_properties :: "u32 \<Rightarrow> Item \<Rightarrow> Item"
  price_column :: "u32 \<Rightarrow> u32"
  uninitialised :: u32
  AUCTION_LEVEL_REQ :: u32
  proto_Class :: "u32 \<Rightarrow> u32"
  proto_SubClass :: "u32 \<Rightarrow> u32"
  proto_InventoryType :: "u32 \<Rightarrow> u32"
  proto_Quality :: "u32 \<Rightarrow> u32"
  proto_RequiredLevel :: "u32 \<Rightarrow> u32"
  proto_Name1 :: "u32 \<Rightarrow> utf8"
  can_use_item :: "u32 \<Rightarrow> Item \<Rightarrow> bool"
  locale_name :: "u32 \<Rightarrow> u32 \<Rightarrow> utf8"
  name_suffix :: "u32 \<Rightarrow> utf8 option"
  dbc_locale :: "u32 \<Rightarrow> nat"

section \<open>Houses\<close>

definition FACTION_MASK_ALLIANCE :: u32 where "FACTION_MASK_ALLIANCE = 2"
definition FACTION_MASK_HORDE :: u32 where "FACTION_MASK_HORDE = 4"

definition GetAuctionsMap :: "AuctionEnv \<Rightarrow> u32 \<Rightarrow> house" where
  "GetAuctionsMap e f =
     (if TWO_SIDE_AUCTION e then NeutralHouse
      else case faction_ourMask e f of
        None \<Rightarrow> NeutralHouse
      | Some k \<Rightarrow>
          if k AND FACTION_MASK_ALLIANCE \<noteq> 0 then AllianceHouse
          else if k AND FACTION_MASK_HORDE \<noteq> 0 then HordeHouse else NeutralHouse)"

definition GetAuctionHouseEntry :: "AuctionEnv \<Rightarrow> u32 \<Rightarrow> AuctionHouseEntry option" where
  "GetAuctionHouseEntry e f =
     house_entry e
       (if TWO_SIDE_AUCTION e then 7
        else if f = 12 then 1 else if f = 29 then 6 else if f = 55 then 2 else if f = 68 then 4 else if f = 80 then 3
        else if f = 104 then 5 else if f = 120 then 7 else if f = 474 then 7 else if f = 855 then 7 else if f = 1604 then 6
        else case faction_ourMask e f of
          None \<Rightarrow> 7
        | Some k \<Rightarrow>
            if k AND FACTION_MASK_ALLIANCE \<noteq> 0 then 1 else if k AND FACTION_MASK_HORDE \<noteq> 0 then 6 else 7)"

definition GetAuction :: "house \<Rightarrow> u32 \<Rightarrow> AuctionWorld \<Rightarrow> AuctionEntry option" where
  "GetAuction h i w = map_of (AuctionsMap h w) i"

definition AddAuction :: "house \<Rightarrow> AuctionEntry \<Rightarrow> AuctionWorld \<Rightarrow> AuctionWorld" where
  "AddAuction h a w = set_AuctionsMap h (store_put (auc_Id a) a (AuctionsMap h w)) w"

definition RemoveAuction :: "house \<Rightarrow> AuctionEntry \<Rightarrow> AuctionWorld \<Rightarrow> AuctionWorld" where
  "RemoveAuction h a w = set_AuctionsMap h (store_erase (auc_Id a) (AuctionsMap h w)) w"

definition GetAItem :: "u32 \<Rightarrow> AuctionWorld \<Rightarrow> Item option" where
  "GetAItem i w = map_of (mAitems w) i"

text \<open>\<^verbatim>\<open>AddAItem\<close> asserts that the item is not there yet.\<close>

definition AddAItem :: "Item \<Rightarrow> AuctionWorld \<Rightarrow> AuctionWorld option" where
  "AddAItem it w =
     (if GetAItem (item_guid it) w = None then Some (w\<lparr>mAitems := store_put (item_guid it) it (mAitems w)\<rparr>) else None)"

definition RemoveAItem :: "u32 \<Rightarrow> AuctionWorld \<Rightarrow> AuctionWorld" where
  "RemoveAItem i w = w\<lparr>mAitems := store_erase i (mAitems w)\<rparr>"

definition GenerateAuctionID :: "AuctionWorld \<Rightarrow> u32 \<times> AuctionWorld" where
  "GenerateAuctionID w =
     (next_auctionId w, (if next_auctionId w \<ge> 0xFFFFFFFE then emit StopNow w else w)\<lparr>next_auctionId := next_auctionId w + 1\<rparr>)"

section \<open>Money\<close>

definition GetAuctionCut :: "AuctionEnv \<Rightarrow> AuctionEntry \<Rightarrow> u32" where
  "GetAuctionCut e a =
     (let ct = rate_cut e (calculate_pct e (bid a) (cutPercent (auctionHouseEntry a))) in if sint ct < 0 then 0 else ct)"

definition GetAuctionOutBid :: "AuctionEnv \<Rightarrow> AuctionEntry \<Rightarrow> u32" where
  "GetAuctionOutBid e a = (let outbid = calculate_pct e (bid a) 5 in if outbid \<noteq> 0 then outbid else 1)"

definition AH_MINIMUM_DEPOSIT :: u32 where "AH_MINIMUM_DEPOSIT = 100"

definition GetAuctionDeposit :: "AuctionEnv \<Rightarrow> AuctionHouseEntry \<Rightarrow> u32 \<Rightarrow> Item \<Rightarrow> u32 \<Rightarrow> u32" where
  "GetAuctionDeposit e ah t it cnt =
     (let MSV = SellPrice e (item_entry it) in
      if MSV \<le> 0 then AH_MINIMUM_DEPOSIT
      else
        let timeHr = ((t div 60) div 60) div 12;
            dep = deposit_product e (depositPercent ah) MSV cnt timeHr
        in if dep < AH_MINIMUM_DEPOSIT then AH_MINIMUM_DEPOSIT else dep)"

section \<open>The text of letters\<close>

datatype MailAuctionAnswers =
    AUCTION_OUTBIDDED | AUCTION_WON | AUCTION_SUCCESSFUL | AUCTION_EXPIRED | AUCTION_CANCELLED_TO_BIDDER
  | AUCTION_CANCELED | AUCTION_SALE_PENDING

primrec answer_val :: "MailAuctionAnswers \<Rightarrow> nat" where
  "answer_val AUCTION_OUTBIDDED = 0"
| "answer_val AUCTION_WON = 1"
| "answer_val AUCTION_SUCCESSFUL = 2"
| "answer_val AUCTION_EXPIRED = 3"
| "answer_val AUCTION_CANCELLED_TO_BIDDER = 4"
| "answer_val AUCTION_CANCELED = 5"
| "answer_val AUCTION_SALE_PENDING = 6"

definition digit_char :: "nat \<Rightarrow> u8" where
  "digit_char d = (if d < 10 then 0x30 + of_nat d else 0x61 + of_nat (d - 10))"

fun numeral_text :: "nat \<Rightarrow> nat \<Rightarrow> utf8" where
  "numeral_text b n =
     (if b < 2 \<or> n < b then [digit_char n] else numeral_text b (n div b) @ [digit_char (n mod b)])"

declare numeral_text.simps [simp del]

definition dec_text :: "u32 \<Rightarrow> utf8" where
  "dec_text v = numeral_text 10 (unat v)"

text \<open>\<^verbatim>\<open>strm.width(16)\<close> with \<^verbatim>\<open>std::right\<close> pads with spaces on the left.\<close>

definition pad_left :: "nat \<Rightarrow> utf8 \<Rightarrow> utf8" where
  "pad_left n s = replicate (n - length s) 0x20 @ s"

definition BuildAuctionMailSubject :: "AuctionEntry \<Rightarrow> MailAuctionAnswers \<Rightarrow> utf8" where
  "BuildAuctionMailSubject a response =
     dec_text (itemEntry a) @ [0x3A, 0x30, 0x3A] @ numeral_text 10 (answer_val response) @ [0x3A] @ dec_text (auc_Id a)
     @ [0x3A] @ dec_text (itemCount a)"

definition BuildAuctionMailBody :: "u32 \<Rightarrow> u32 \<Rightarrow> u32 \<Rightarrow> u32 \<Rightarrow> u32 \<Rightarrow> utf8" where
  "BuildAuctionMailBody lowGuid bd bo dep ct =
     pad_left 16 (numeral_text 16 (unat (MAKE_NEW_GUID lowGuid 0 HIGHGUID_PLAYER)))
     @ [0x3A] @ dec_text bd @ [0x3A] @ dec_text bo @ [0x3A] @ dec_text dep @ [0x3A] @ dec_text ct"

section \<open>Notifications\<close>

definition SMSG_AUCTION_BIDDER_NOTIFICATION :: u32 where "SMSG_AUCTION_BIDDER_NOTIFICATION = 0x4E27"
definition SMSG_AUCTION_COMMAND_RESULT :: u32 where "SMSG_AUCTION_COMMAND_RESULT = 0x4C25"
definition SMSG_AUCTION_OWNER_NOTIFICATION :: u32 where "SMSG_AUCTION_OWNER_NOTIFICATION = 0x4116"
definition SMSG_AUCTION_REMOVED_NOTIFICATION :: u32 where "SMSG_AUCTION_REMOVED_NOTIFICATION = 0x2334"

definition SendAuctionBidderNotification :: "u32 \<Rightarrow> u32 \<Rightarrow> u32 \<Rightarrow> u64 \<Rightarrow> u32 \<Rightarrow> u32 \<Rightarrow> u32 \<Rightarrow> AuctionWorld \<Rightarrow> AuctionWorld" where
  "SendAuctionBidderNotification g loc i bdr bidSum diff entry =
     emit (SendPacket g SMSG_AUCTION_BIDDER_NOTIFICATION
       (le_bytes 4 loc @ le_bytes 4 i @ le_bytes 8 bdr @ le_bytes 8 (ucast bidSum :: u64) @ le_bytes 8 (ucast diff :: u64)
        @ le_bytes 4 entry @ le_bytes 4 (0 :: u32)))"

definition SendAuctionOwnerNotification :: "u32 \<Rightarrow> AuctionEntry \<Rightarrow> AuctionWorld \<Rightarrow> AuctionWorld" where
  "SendAuctionOwnerNotification g a =
     emit (SendPacket g SMSG_AUCTION_OWNER_NOTIFICATION
       (le_bytes 4 (auc_Id a) @ le_bytes 8 (ucast (bid a) :: u64) @ le_bytes 8 (0 :: u64) @ le_bytes 8 (0 :: u64)
        @ le_bytes 4 (itemEntry a) @ le_bytes 4 (0 :: u32) @ le_bytes 4 (0 :: f32)))"

definition SendAuctionRemovedNotification :: "u32 \<Rightarrow> u32 \<Rightarrow> u32 \<Rightarrow> u32 \<Rightarrow> AuctionWorld \<Rightarrow> AuctionWorld" where
  "SendAuctionRemovedNotification g i entry rnd =
     emit (SendPacket g SMSG_AUCTION_REMOVED_NOTIFICATION (le_bytes 4 i @ le_bytes 4 entry @ le_bytes 4 rnd))"

definition AUCTION_SELL_ITEM :: u32 where "AUCTION_SELL_ITEM = 0"
definition AUCTION_CANCEL :: u32 where "AUCTION_CANCEL = 1"
definition AUCTION_PLACE_BID :: u32 where "AUCTION_PLACE_BID = 2"

definition ERR_AUCTION_OK :: u32 where "ERR_AUCTION_OK = 0"
definition ERR_AUCTION_INVENTORY :: u32 where "ERR_AUCTION_INVENTORY = 1"
definition ERR_AUCTION_DATABASE_ERROR :: u32 where "ERR_AUCTION_DATABASE_ERROR = 2"
definition ERR_AUCTION_NOT_ENOUGHT_MONEY :: u32 where "ERR_AUCTION_NOT_ENOUGHT_MONEY = 3"
definition ERR_AUCTION_ITEM_NOT_FOUND :: u32 where "ERR_AUCTION_ITEM_NOT_FOUND = 4"
definition ERR_AUCTION_HIGHER_BID :: u32 where "ERR_AUCTION_HIGHER_BID = 5"
definition ERR_AUCTION_BID_OWN :: u32 where "ERR_AUCTION_BID_OWN = 10"

definition command_result_bytes :: "AuctionEnv \<Rightarrow> AuctionEntry option \<Rightarrow> u32 \<Rightarrow> u32 \<Rightarrow> u32 \<Rightarrow> u8 list" where
  "command_result_bytes e a act errorCode bidError =
     le_bytes 4 (case a of None \<Rightarrow> 0 | Some x \<Rightarrow> auc_Id x) @ le_bytes 4 act @ le_bytes 4 errorCode @
     (case a of
        None \<Rightarrow> (if errorCode = ERR_AUCTION_INVENTORY then le_bytes 4 bidError else [])
      | Some x \<Rightarrow>
          let outbid = le_bytes 8 (if bid x \<noteq> 0 then ucast (GetAuctionOutBid e x) else 0 :: u64) in
          if errorCode = ERR_AUCTION_OK then (if act = AUCTION_PLACE_BID then outbid else [])
          else if errorCode = ERR_AUCTION_INVENTORY then le_bytes 4 bidError
          else if errorCode = ERR_AUCTION_HIGHER_BID
          then le_bytes 8 (ucast (bidder x) :: u64) @ le_bytes 8 (ucast (bid x) :: u64) @ outbid else [])"

text \<open>\<^verbatim>\<open>bidError\<close> defaults to 0. A null auction is only passed with results that do not use it.\<close>

definition SendAuctionCommandResult :: "AuctionEnv \<Rightarrow> u32 \<Rightarrow> AuctionEntry option \<Rightarrow> u32 \<Rightarrow> u32 \<Rightarrow> AuctionWorld \<Rightarrow> AuctionWorld" where
  "SendAuctionCommandResult e g a act errorCode =
     emit (SendPacket g SMSG_AUCTION_COMMAND_RESULT (command_result_bytes e a act errorCode 0))"

section \<open>Letters of the auction house\<close>

definition auction_sender :: "AuctionEntry \<Rightarrow> MailSender" where
  "auction_sender a =
     \<lparr>m_messageType = MAIL_AUCTION, m_senderId = houseId (auctionHouseEntry a), m_stationery = MAIL_STATIONERY_AUCTION\<rparr>"

abbreviation if_online :: "u32 \<Rightarrow> (AuctionWorld \<Rightarrow> AuctionWorld) \<Rightarrow> AuctionWorld \<Rightarrow> AuctionWorld" where
  "if_online g f w \<equiv> (if FindPlayer g w = None then w else f w)"

definition character_exists :: "AuctionEnv \<Rightarrow> u32 \<Rightarrow> AuctionWorld \<Rightarrow> bool" where
  "character_exists e g w \<longleftrightarrow> FindPlayer g w \<noteq> None \<or> account_of (post e) g \<noteq> 0"

definition WON_AUCTIONS :: nat where "WON_AUCTIONS = 84"
definition GOLD_EARNED_BY_AUCTIONS :: nat where "GOLD_EARNED_BY_AUCTIONS = 80"
definition HIGHEST_AUCTION_SOLD :: nat where "HIGHEST_AUCTION_SOLD = 85"
definition HIGHEST_AUCTION_BID :: nat where "HIGHEST_AUCTION_BID = 83"
definition CREATE_AUCTION :: nat where "CREATE_AUCTION = 82"

text \<open>The account of a winner who is offline is looked up for the log of trades only.\<close>

definition SendAuctionWonMail :: "AuctionEnv \<Rightarrow> AuctionEntry \<Rightarrow> Stmt list \<times> AuctionWorld \<Rightarrow> Stmt list \<times> AuctionWorld" where
  "SendAuctionWonMail e a s =
     (case GetAItem (itemGUIDLow a) (snd s) of
        None \<Rightarrow> s
      | Some it \<Rightarrow>
          let b = FindPlayer (bidder a) (snd s);
              bidder_accId =
                (if GM_LOG_TRADE (post e) then (case b of Some q \<Rightarrow> p_account q | None \<Rightarrow> account_of (post e) (bidder a)) else 0)
          in
            if b \<noteq> None \<or> bidder_accId \<noteq> 0
            then SendMailTo (post e)
                   (AddItem it (MailDraft_new (BuildAuctionMailSubject a AUCTION_WON)
                      (BuildAuctionMailBody (owner a) (bid a) (buyout a) 0 0)))
                   (bidder a) (auction_sender a) MAIL_CHECK_MASK_COPIED 0
                   (fst s @ [CHAR_UPD_ITEM_OWNER (bidder a) (item_guid it)],
                    if_online (bidder a) (\<lambda>w. emit (AchievementCriteria (bidder a) WON_AUCTIONS 1)
                       (SendAuctionBidderNotification (bidder a) (houseId (auctionHouseEntry a)) (auc_Id a)
                          (MAKE_NEW_GUID (bidder a) 0 HIGHGUID_PLAYER) 0 0 (itemEntry a) w)) (snd s))
            else s)"

definition SendAuctionSalePendingMail :: "AuctionEnv \<Rightarrow> AuctionEntry \<Rightarrow> Stmt list \<times> AuctionWorld \<Rightarrow> Stmt list \<times> AuctionWorld" where
  "SendAuctionSalePendingMail e a s =
     (if character_exists e (owner a) (snd s)
      then SendMailTo (post e)
             (MailDraft_new (BuildAuctionMailSubject a AUCTION_SALE_PENDING)
                (BuildAuctionMailBody (bidder a) (bid a) (buyout a) (deposit a) (GetAuctionCut e a)))
             (owner a) (auction_sender a) MAIL_CHECK_MASK_COPIED 0 s
      else s)"

definition auction_profit :: "AuctionEnv \<Rightarrow> AuctionEntry \<Rightarrow> u32" where
  "auction_profit e a = bid a + deposit a - GetAuctionCut e a"

definition SendAuctionSuccessfulMail :: "AuctionEnv \<Rightarrow> AuctionEntry \<Rightarrow> Stmt list \<times> AuctionWorld \<Rightarrow> Stmt list \<times> AuctionWorld" where
  "SendAuctionSuccessfulMail e a s =
     (if character_exists e (owner a) (snd s)
      then SendMailTo (post e)
             (AddMoney (ucast (auction_profit e a))
               (MailDraft_new (BuildAuctionMailSubject a AUCTION_SUCCESSFUL)
                  (BuildAuctionMailBody (bidder a) (bid a) (buyout a) (deposit a) (GetAuctionCut e a))))
             (owner a) (auction_sender a) MAIL_CHECK_MASK_COPIED (MAIL_DELIVERY_DELAY (post e))
             (fst s, if_online (owner a) (\<lambda>w. SendAuctionOwnerNotification (owner a) a
                (emit (AchievementCriteria (owner a) HIGHEST_AUCTION_SOLD (ucast (bid a)))
                  (emit (AchievementCriteria (owner a) GOLD_EARNED_BY_AUCTIONS (ucast (auction_profit e a))) w))) (snd s))
      else s)"

definition SendAuctionExpiredMail :: "AuctionEnv \<Rightarrow> AuctionEntry \<Rightarrow> Stmt list \<times> AuctionWorld \<Rightarrow> Stmt list \<times> AuctionWorld" where
  "SendAuctionExpiredMail e a s =
     (case GetAItem (itemGUIDLow a) (snd s) of
        None \<Rightarrow> s
      | Some it \<Rightarrow>
          if character_exists e (owner a) (snd s)
          then SendMailTo (post e)
                 (AddItem it (MailDraft_new (BuildAuctionMailSubject a AUCTION_EXPIRED)
                    (BuildAuctionMailBody 0 0 (buyout a) (deposit a) 0)))
                 (owner a) (auction_sender a) MAIL_CHECK_MASK_COPIED 0
                 (fst s, if_online (owner a) (SendAuctionOwnerNotification (owner a) a) (snd s))
          else s)"

definition SendAuctionOutbiddedMail :: "AuctionEnv \<Rightarrow> AuctionEntry \<Rightarrow> u32 \<Rightarrow> u32 \<Rightarrow> Stmt list \<times> AuctionWorld \<Rightarrow> Stmt list \<times> AuctionWorld" where
  "SendAuctionOutbiddedMail e a newPrice newBidder s =
     (if character_exists e (bidder a) (snd s)
      then SendMailTo (post e)
             (AddMoney (ucast (bid a))
               (MailDraft_new (BuildAuctionMailSubject a AUCTION_OUTBIDDED)
                  (BuildAuctionMailBody (owner a) (bid a) (buyout a) (deposit a) (GetAuctionCut e a))))
             (bidder a) (auction_sender a) MAIL_CHECK_MASK_COPIED 0
             (fst s, if_online (bidder a) (SendAuctionBidderNotification (bidder a) (houseId (auctionHouseEntry a)) (auc_Id a)
                (MAKE_NEW_GUID newBidder 0 HIGHGUID_PLAYER) newPrice (GetAuctionOutBid e a) (itemEntry a)) (snd s))
      else s)"

definition SendAuctionCancelledToBidderMail :: "AuctionEnv \<Rightarrow> AuctionEntry \<Rightarrow> Item \<Rightarrow> Stmt list \<times> AuctionWorld \<Rightarrow> Stmt list \<times> AuctionWorld" where
  "SendAuctionCancelledToBidderMail e a it s =
     (let w1 = if_online (bidder a) (SendAuctionRemovedNotification (bidder a) (auc_Id a) (itemEntry a) (item_randomProperty it)) (snd s) in
      if character_exists e (bidder a) (snd s)
      then SendMailTo (post e)
             (AddMoney (ucast (bid a))
               (MailDraft_new (BuildAuctionMailSubject a AUCTION_CANCELLED_TO_BIDDER)
                  (BuildAuctionMailBody (owner a) (bid a) (buyout a) (deposit a) 0)))
             (bidder a) (auction_sender a) MAIL_CHECK_MASK_COPIED 0 (fst s, w1)
      else (fst s, w1))"

section \<open>Saving and loading\<close>

definition DeleteFromDB :: "AuctionEntry \<Rightarrow> Stmt list" where
  "DeleteFromDB a = [CHAR_DEL_AUCTION (auc_Id a)]"

definition auction_SaveToDB :: "AuctionEnv \<Rightarrow> AuctionEntry \<Rightarrow> Stmt list" where
  "auction_SaveToDB e a =
     [CHAR_INS_AUCTION (auc_Id a)
        \<lparr>arow_auctioneer = auctioneer a, arow_item = itemGUIDLow a, arow_owner = owner a,
         arow_buyout = price_column e (buyout a), arow_time = auc_expire_time a, arow_bidder = bidder a,
         arow_bid = price_column e (bid a), arow_startbid = price_column e (startbid a),
         arow_deposit = price_column e (deposit a)\<rparr>]"

text \<open>A row of the join with \<^verbatim>\<open>item_instance\<close>; \<^verbatim>\<open>LoadFromFieldList\<close> fails without an auctioneer or a house for it, and
  \<^verbatim>\<open>LoadFromDB\<close> also when the item has not been loaded.\<close>

definition LoadFromFieldList :: "AuctionEnv \<Rightarrow> u32 \<Rightarrow> AuctionRow \<Rightarrow> Item \<Rightarrow> AuctionEntry option" where
  "LoadFromFieldList e i r it =
     (case creature_faction e (arow_auctioneer r) of
        None \<Rightarrow> None
      | Some f \<Rightarrow>
          (case GetAuctionHouseEntry e f of
             None \<Rightarrow> None
           | Some ah \<Rightarrow>
               Some \<lparr>auc_Id = i, auctioneer = arow_auctioneer r, itemGUIDLow = arow_item r, itemEntry = item_entry it,
                     itemCount = item_count it, owner = arow_owner r, startbid = arow_startbid r, bid = arow_bid r,
                     buyout = arow_buyout r, auc_expire_time = ucast (ucast (arow_time r) :: u32), bidder = arow_bidder r,
                     deposit = arow_deposit r, auctionHouseEntry = ah, factionTemplateId = f\<rparr>))"

definition auction_LoadFromDB :: "AuctionEnv \<Rightarrow> u32 \<Rightarrow> AuctionRow \<Rightarrow> Item \<Rightarrow> AuctionWorld \<Rightarrow> AuctionEntry option" where
  "auction_LoadFromDB e i r it w =
     (case LoadFromFieldList e i r it of
        None \<Rightarrow> None | Some a \<Rightarrow> if GetAItem (itemGUIDLow a) w = None then None else Some a)"

definition auction_rows :: "CharacterDB \<Rightarrow> (u32 \<times> AuctionRow \<times> Item) list" where
  "auction_rows db =
     List.map_filter (\<lambda>x. map_option (\<lambda>it. (fst x, snd x, it)) (map_of (tbl_item_instance db) (arow_item (snd x))))
       (tbl_auctionhouse db)"

definition LoadAuctionItem :: "AuctionEnv \<Rightarrow> u32 \<times> AuctionRow \<times> Item \<Rightarrow> AuctionWorld option \<Rightarrow> AuctionWorld option" where
  "LoadAuctionItem e x w =
     (case w of
        None \<Rightarrow> None
      | Some u \<Rightarrow>
          let it = snd (snd x) in
          if \<not> has_proto (post e) (item_entry it) \<or> \<not> item_loads (post e) it then Some u else AddAItem it u)"

definition LoadAuctionItems :: "AuctionEnv \<Rightarrow> AuctionWorld \<Rightarrow> AuctionWorld option" where
  "LoadAuctionItems e w = fold (LoadAuctionItem e) (auction_rows (chardb w)) (Some w)"

definition LoadAuction :: "AuctionEnv \<Rightarrow> u32 \<times> AuctionRow \<times> Item \<Rightarrow> Stmt list \<times> AuctionWorld \<Rightarrow> Stmt list \<times> AuctionWorld" where
  "LoadAuction e x s =
     (case x of (i, r, it) \<Rightarrow>
        case auction_LoadFromDB e i r it (snd s) of
          None \<Rightarrow> (fst s @ [CHAR_DEL_AUCTION i], snd s)
        | Some a \<Rightarrow> (fst s, AddAuction (GetAuctionsMap e (factionTemplateId a)) a (snd s)))"

definition LoadAuctions :: "AuctionEnv \<Rightarrow> AuctionWorld \<Rightarrow> AuctionWorld" where
  "LoadAuctions e w =
     (case fold (LoadAuction e) (auction_rows (chardb w)) ([], w) of (tr, w1) \<Rightarrow> CommitTransaction tr w1)"

section \<open>Expiry\<close>

text \<open>\<^verbatim>\<open>(uint32)curTime + 60\<close>, a 32-bit sum.\<close>

definition expiry_limit :: "AuctionEnv \<Rightarrow> u32" where
  "expiry_limit e = ucast (now (post e)) + 60"

definition expired_ids :: "AuctionEnv \<Rightarrow> CharacterDB \<Rightarrow> u32 list" where
  "expired_ids e db =
     map fst (sort_key (\<lambda>x. arow_time (snd x)) (filter (\<lambda>x. arow_time (snd x) \<le> ucast (expiry_limit e)) (tbl_auctionhouse db)))"

text \<open>The letters at the end of an auction.\<close>

definition close_auction :: "AuctionEnv \<Rightarrow> AuctionEntry \<Rightarrow> Stmt list \<times> AuctionWorld \<Rightarrow> Stmt list \<times> AuctionWorld" where
  "close_auction e a s =
     (if bidder a = 0 then SendAuctionExpiredMail e a s else SendAuctionWonMail e a (SendAuctionSuccessfulMail e a s))"

definition update_auction :: "AuctionEnv \<Rightarrow> house \<Rightarrow> u32 \<Rightarrow> AuctionWorld \<Rightarrow> AuctionWorld" where
  "update_auction e h i w =
     (case GetAuction h i w of
        None \<Rightarrow> w
      | Some a \<Rightarrow>
          (case close_auction e a ([], w) of
             (tr, w1) \<Rightarrow>
               RemoveAuction h a (RemoveAItem (itemGUIDLow a) (CommitTransaction (tr @ DeleteFromDB a) w1))))"

definition AuctionHouse_Update :: "AuctionEnv \<Rightarrow> house \<Rightarrow> AuctionWorld \<Rightarrow> AuctionWorld" where
  "AuctionHouse_Update e h w =
     (if AuctionsMap h w = [] then w else fold (update_auction e h) (expired_ids e (chardb w)) w)"

definition AuctionHouseMgr_Update :: "AuctionEnv \<Rightarrow> AuctionWorld \<Rightarrow> AuctionWorld" where
  "AuctionHouseMgr_Update e w =
     AuctionHouse_Update e NeutralHouse (AuctionHouse_Update e AllianceHouse (AuctionHouse_Update e HordeHouse w))"

definition expire_row :: "AuctionEnv \<Rightarrow> u32 \<times> AuctionRow \<times> Item \<Rightarrow> AuctionWorld \<Rightarrow> AuctionWorld" where
  "expire_row e x w =
     (case x of (i, r, it) \<Rightarrow>
        case LoadFromFieldList e i r it of
          None \<Rightarrow> w
        | Some a \<Rightarrow> (case close_auction e a ([], w) of (tr, w1) \<Rightarrow> CommitTransaction (tr @ DeleteFromDB a) w1))"

definition DeleteExpiredAuctionsAtStartup :: "AuctionEnv \<Rightarrow> AuctionWorld \<Rightarrow> AuctionWorld" where
  "DeleteExpiredAuctionsAtStartup e w =
     fold (expire_row e) (filter (\<lambda>x. arow_time (fst (snd x)) \<le> ucast (expiry_limit e)) (auction_rows (chardb w))) w"

text \<open>The order of \<^verbatim>\<open>World::SetInitialWorldSettings\<close>.\<close>

definition load_auction_house :: "AuctionEnv \<Rightarrow> AuctionWorld \<Rightarrow> AuctionWorld option" where
  "load_auction_house e w = map_option (LoadAuctions e) (LoadAuctionItems e (DeleteExpiredAuctionsAtStartup e w))"

end
