(* ===== verification/AuctionHandlers.thy ===== *)
theory AuctionHandlers
  imports Auction
begin

text \<open>
  The requests of a client at an auctioneer, \<^verbatim>\<open>game/Handlers/AuctionHouseHandler.cpp\<close>, and the listings of
  \<^verbatim>\<open>AuctionHouseMgr.cpp\<close>. Prices in requests are 64-bit, those of auctions 32-bit: the narrowing is written out.
\<close>

datatype auction_error = AuctionPacketError bb_error | AuctionNameError name_error | AssertionFailed

definition with_auction_packet :: "bb_error + 'a \<times> bytebuffer \<Rightarrow> ('a \<Rightarrow> auction_error + 'b) \<Rightarrow> auction_error + 'b" where
  "with_auction_packet r f = (case r of Inl x \<Rightarrow> Inl (AuctionPacketError x) | Inr a \<Rightarrow> f (fst a))"

text \<open>The common start: the auctioneer, fake death, and the house of the auctioneer.\<close>

definition at_auctioneer :: "AuctionEnv \<Rightarrow> u32 \<Rightarrow> u64 \<Rightarrow> (u32 \<Rightarrow> PostPlayer \<Rightarrow> AuctionWorld \<Rightarrow> 'b) \<Rightarrow> (AuctionWorld \<Rightarrow> 'b) \<Rightarrow>
    AuctionWorld \<Rightarrow> 'b" where
  "at_auctioneer e g npc f ret w =
     (case FindPlayer g w of
        None \<Rightarrow> ret w
      | Some p \<Rightarrow>
          (case auctioneer_faction e g npc of
             None \<Rightarrow> ret w
           | Some fac \<Rightarrow> f fac p (if has_died e g then emit (RemoveFeignDeath g) w else w)))"

section \<open>Bidding and buying\<close>

definition pay :: "u32 \<Rightarrow> u64 \<Rightarrow> AuctionWorld \<Rightarrow> AuctionWorld" where
  "pay g v = upd_player g (\<lambda>p. p\<lparr>purse := ModifyMoney (- v) (purse p)\<rparr>)"

text \<open>\<^verbatim>\<open>SaveInventoryAndGoldToDB\<close> of the session's player, then the commit.\<close>

definition commit_for :: "u32 \<Rightarrow> Stmt list \<Rightarrow> AuctionWorld \<Rightarrow> AuctionWorld" where
  "commit_for g tr w =
     CommitTransaction (tr @ (case FindPlayer g w of None \<Rightarrow> [] | Some p \<Rightarrow> SaveInventoryAndGoldToDB g p)) w"

definition raise_bid :: "AuctionEnv \<Rightarrow> u32 \<Rightarrow> house \<Rightarrow> AuctionEntry \<Rightarrow> u64 \<Rightarrow> AuctionWorld \<Rightarrow> AuctionWorld" where
  "raise_bid e g h a price w =
     (let (tr, w1) =
            (if bidder a > 0
             then if bidder a = g then ([], pay g (price - ucast (bid a)) w)
                  else (case SendAuctionOutbiddedMail e a (ucast price) g ([], w) of (t, u) \<Rightarrow> (t, pay g price u))
             else ([], pay g price w));
          a1 = a\<lparr>bidder := g, bid := ucast price\<rparr>;
          w2 = emit (AchievementCriteria g HIGHEST_AUCTION_BID price) (AddAuction h a1 w1);
          w3 = SendAuctionCommandResult e g (Some a1) AUCTION_PLACE_BID ERR_AUCTION_OK w2
      in commit_for g (tr @ [CHAR_UPD_AUCTION_BID (bidder a1) (bid a1) (auc_Id a1)]) w3)"

definition buy_out :: "AuctionEnv \<Rightarrow> u32 \<Rightarrow> house \<Rightarrow> AuctionEntry \<Rightarrow> AuctionWorld \<Rightarrow> AuctionWorld" where
  "buy_out e g h a w =
     (let (tr, w1) =
            (if g = bidder a then ([], pay g (ucast (buyout a - bid a)) w)
             else let u = pay g (ucast (buyout a)) w in
                  if bidder a \<noteq> 0 then SendAuctionOutbiddedMail e a (buyout a) g ([], u) else ([], u));
          a1 = a\<lparr>bidder := g, bid := buyout a\<rparr>;
          w2 = emit (AchievementCriteria g HIGHEST_AUCTION_BID (ucast (buyout a))) w1;
          (tr3, w3) = SendAuctionWonMail e a1 (SendAuctionSuccessfulMail e a1 (SendAuctionSalePendingMail e a1 (tr, w2)));
          w4 = SendAuctionCommandResult e g (Some a1) AUCTION_PLACE_BID ERR_AUCTION_OK w3;
          w5 = RemoveAuction h a1 (RemoveAItem (itemGUIDLow a1) w4)
      in commit_for g (tr3 @ DeleteFromDB a1) w5)"

text \<open>\<^verbatim>\<open>price < auction->buyout || auction->buyout == 0\<close>: the price is a bid and does not buy the item.\<close>

definition below_buyout :: "AuctionEntry \<Rightarrow> u64 \<Rightarrow> bool" where
  "below_buyout a price \<longleftrightarrow> price < ucast (buyout a) \<or> buyout a = 0"

definition AuctionPlaceBid :: "AuctionEnv \<Rightarrow> u32 \<Rightarrow> u64 \<Rightarrow> u32 \<Rightarrow> u64 \<Rightarrow> AuctionWorld \<Rightarrow> AuctionWorld" where
  "AuctionPlaceBid e g npc auctionId price w0 =
     (if auctionId = 0 \<or> price = 0 then w0
      else at_auctioneer e g npc (\<lambda>fac p w.
        let h = GetAuctionsMap e fac in
        case GetAuction h auctionId w of
          None \<Rightarrow> SendAuctionCommandResult e g None AUCTION_PLACE_BID ERR_AUCTION_BID_OWN w
        | Some a \<Rightarrow>
            if owner a = g then SendAuctionCommandResult e g None AUCTION_PLACE_BID ERR_AUCTION_BID_OWN w
            else if price \<le> ucast (bid a) \<or> price < ucast (startbid a) then w
            else if below_buyout a price \<and> price < ucast (bid a + GetAuctionOutBid e a)
            then SendAuctionCommandResult e g (Some a) AUCTION_PLACE_BID ERR_AUCTION_HIGHER_BID w
            else if \<not> HasEnoughMoney price (purse p)
            then SendAuctionCommandResult e g (Some a) AUCTION_PLACE_BID ERR_AUCTION_NOT_ENOUGHT_MONEY w
            else if below_buyout a price then raise_bid e g h a price w
            else buy_out e g h a w) (\<lambda>w. w) w0)"

definition HandleAuctionPlaceBid :: "AuctionEnv \<Rightarrow> u32 \<Rightarrow> bytebuffer \<Rightarrow> AuctionWorld \<Rightarrow> auction_error + AuctionWorld" where
  "HandleAuctionPlaceBid e g pkt w =
     with_auction_packet (read_pair (read_pair read_u64 read_u32) read_u64 pkt)
       (\<lambda>((npc, i), price). Inr (AuctionPlaceBid e g npc i price w))"

section \<open>Cancelling\<close>

definition cancel_auction :: "AuctionEnv \<Rightarrow> u32 \<Rightarrow> house \<Rightarrow> AuctionEntry \<Rightarrow> Item \<Rightarrow> Stmt list \<times> AuctionWorld \<Rightarrow> AuctionWorld" where
  "cancel_auction e g h a it s =
     (let (tr, w1) = SendMailTo (post e)
            (AddItem it (MailDraft_new (BuildAuctionMailSubject a AUCTION_CANCELED)
               (BuildAuctionMailBody 0 0 (buyout a) (deposit a) 0)))
            g (auction_sender a) MAIL_CHECK_MASK_COPIED 0 s;
          w2 = SendAuctionCommandResult e g (Some a) AUCTION_CANCEL ERR_AUCTION_OK w1;
          save = (case FindPlayer g w2 of None \<Rightarrow> [] | Some p \<Rightarrow> SaveInventoryAndGoldToDB g p)
      in RemoveAuction h a (RemoveAItem (itemGUIDLow a) (CommitTransaction (tr @ save @ DeleteFromDB a) w2)))"

definition AuctionRemoveItem :: "AuctionEnv \<Rightarrow> u32 \<Rightarrow> u64 \<Rightarrow> u32 \<Rightarrow> AuctionWorld \<Rightarrow> AuctionWorld" where
  "AuctionRemoveItem e g npc auctionId =
     at_auctioneer e g npc (\<lambda>fac p w.
       let h = GetAuctionsMap e fac;
           fail = SendAuctionCommandResult e g None AUCTION_CANCEL ERR_AUCTION_DATABASE_ERROR w in
       case GetAuction h auctionId w of
         None \<Rightarrow> fail
       | Some a \<Rightarrow>
           if owner a \<noteq> g then fail
           else case GetAItem (itemGUIDLow a) w of
             None \<Rightarrow> fail
           | Some it \<Rightarrow>
               if bidder a > 0
               then let auctionCut = ucast (GetAuctionCut e a) in
                    if \<not> HasEnoughMoney auctionCut (purse p) then w
                    else (case SendAuctionCancelledToBidderMail e a it ([], w) of
                            (tr, w1) \<Rightarrow> cancel_auction e g h a it (tr, pay g auctionCut w1))
               else cancel_auction e g h a it ([], w)) (\<lambda>w. w)"

definition HandleAuctionRemoveItem :: "AuctionEnv \<Rightarrow> u32 \<Rightarrow> bytebuffer \<Rightarrow> AuctionWorld \<Rightarrow> auction_error + AuctionWorld" where
  "HandleAuctionRemoveItem e g pkt w =
     with_auction_packet (read_pair read_u64 read_u32 pkt) (\<lambda>(npc, i). Inr (AuctionRemoveItem e g npc i w))"

section \<open>Selling\<close>

definition MAX_AUCTION_ITEMS :: nat where "MAX_AUCTION_ITEMS = 160"
definition MINUTE :: u32 where "MINUTE = 60"
definition MIN_AUCTION_TIME :: u32 where "MIN_AUCTION_TIME = 12 * 3600"

record SellRequest =
  sell_npc :: u64
  sell_items :: "(u64 \<times> u32) list"
  sell_bid :: u64
  sell_buyout :: u64
  sell_etime :: u32

text \<open>\<open>None\<close> is the silent return for a malformed item.\<close>

primrec read_sell_items :: "nat \<Rightarrow> (u64 \<times> u32) list option bb_read" where
  "read_sell_items 0 b = Inr (Some [], b)"
| "read_sell_items (Suc n) b =
     bind_res (read_pair read_u64 read_u32 b) (\<lambda>((guid, cnt), b1).
       if guid = 0 \<or> cnt = 0 \<or> cnt > 1000 then Inr (None, b1)
       else bind_res (read_sell_items n b1) (\<lambda>(r, b2). Inr (map_option ((#) (guid, cnt)) r, b2)))"

datatype sell_read = TooManyItems | BadItem | SellRead SellRequest

definition SellItem_read :: "sell_read bb_read" where
  "SellItem_read b =
     bind_res (read_pair read_u64 read_u32 b) (\<lambda>((npc, itemsCount), b1).
       if unat itemsCount > MAX_AUCTION_ITEMS then Inr (TooManyItems, b1)
       else bind_res (read_sell_items (unat itemsCount) b1) (\<lambda>(its, b2).
         case its of
           None \<Rightarrow> Inr (BadItem, b2)
         | Some xs \<Rightarrow>
             bind_res (read_pair (read_pair read_u64 read_u64) read_u32 b2) (\<lambda>(((bd, bo), et), b3).
               Inr (SellRead \<lparr>sell_npc = npc, sell_items = xs, sell_bid = bd, sell_buyout = bo, sell_etime = et\<rparr>, b3))))"

text \<open>The loop that collects the items: an error code, or the items and their total count.\<close>

primrec collect_items :: "AuctionEnv \<Rightarrow> u32 \<Rightarrow> PostPlayer \<Rightarrow> AuctionWorld \<Rightarrow> (u64 \<times> u32) list \<Rightarrow> u32 \<Rightarrow> u32 \<Rightarrow> u32 + Item list \<times> u32" where
  "collect_items e g p w [] entry cnt = Inr ([], cnt)"
| "collect_items e g p w (x # xs) entry0 cnt =
     (case GetItemByGuid (fst x) p of
        None \<Rightarrow> Inl ERR_AUCTION_ITEM_NOT_FOUND
      | Some it \<Rightarrow>
          let entry = (if entry0 = 0 then item_entry it else entry0) in
          if GetAItem (item_guid it) w \<noteq> None \<or> \<not> can_be_traded (post e) g it False \<or> is_not_empty_bag (post e) it
             \<or> proto_Flags (post e) (item_entry it) AND ITEM_PROTO_FLAG_CONJURED \<noteq> 0 \<or> item_duration it \<noteq> 0
             \<or> item_count it < snd x \<or> entry \<noteq> item_entry it
          then Inl ERR_AUCTION_DATABASE_ERROR
          else bind_res (collect_items e g p w xs entry (cnt + snd x)) (\<lambda>(its, c). Inr (it # its, c)))"

definition CloneItem :: "AuctionEnv \<Rightarrow> Item \<Rightarrow> u32 \<Rightarrow> u32 \<Rightarrow> Item option" where
  "CloneItem e it cnt g =
     map_option (\<lambda>n. set_random_properties e (item_randomProperty it)
         (n\<lparr>item_creator := set_low_word (ucast (item_creator it)) (item_creator n),
            item_giftCreator := set_low_word (ucast (item_giftCreator it)) (item_giftCreator n),
            item_flags := item_flags it AND NOT (ITEM_FLAG_REFUNDABLE OR ITEM_FLAG_BOP_TRADEABLE), item_duration := item_duration it\<rparr>))
       (create_item e (item_entry it) cnt g)"

definition new_auction :: "AuctionEnv \<Rightarrow> u32 \<Rightarrow> SellRequest \<Rightarrow> AuctionHouseEntry \<Rightarrow> u32 \<Rightarrow> u32 \<Rightarrow> u32 \<Rightarrow> Item \<Rightarrow> AuctionEntry" where
  "new_auction e g r ah etime dep i it =
     \<lparr>auc_Id = i, auctioneer = (if TWO_SIDE_AUCTION e then 23442 else GUID_LOPART (sell_npc r)), itemGUIDLow = item_guid it,
      itemEntry = item_entry it, itemCount = item_count it, owner = g, startbid = ucast (sell_bid r), bid = 0,
      buyout = ucast (sell_buyout r), auc_expire_time = now (post e) + ucast (rate_time e etime), bidder = 0, deposit = dep,
      auctionHouseEntry = ah, factionTemplateId = uninitialised e\<rparr>"

text \<open>A stack that is sold whole leaves the inventory; of a larger one the count is reduced.\<close>

definition consume_stack :: "u32 \<Rightarrow> Item \<times> u32 \<Rightarrow> AuctionWorld \<Rightarrow> AuctionWorld" where
  "consume_stack g x w =
     (let it = fst x; cnt = snd x in
      if item_count it = cnt
      then CommitTransaction [DEL_INVENTORY_ITEM (item_guid it), CHAR_DEL_ITEM_INSTANCE (item_guid it)]
             (upd_player g (MoveItemFromInventory it) w)
      else
        let it1 = it\<lparr>item_count := item_count it - cnt\<rparr> in
        CommitTransaction [SAVE_ITEM it1]
          (upd_player g (\<lambda>p. p\<lparr>inventory := map (\<lambda>y. if item_guid y = item_guid it then it1 else y) (inventory p)\<rparr>) w))"

text \<open>The end of both branches: the auction and the gold of the seller are saved together.\<close>

definition finish_sale :: "AuctionEnv \<Rightarrow> u32 \<Rightarrow> AuctionEntry \<Rightarrow> Stmt list \<Rightarrow> AuctionWorld \<Rightarrow> AuctionWorld" where
  "finish_sale e g a tr w =
     emit (AchievementCriteria g CREATE_AUCTION 1)
       (SendAuctionCommandResult e g (Some a) AUCTION_SELL_ITEM ERR_AUCTION_OK (commit_for g (tr @ auction_SaveToDB e a) w))"

text \<open>The item object of a whole stack is the one the house keeps: leaving the inventory makes it not refundable.\<close>

definition place_auction :: "AuctionEnv \<Rightarrow> u32 \<Rightarrow> house \<Rightarrow> SellRequest \<Rightarrow> AuctionHouseEntry \<Rightarrow> u32 \<Rightarrow> u32 \<Rightarrow> Item list \<Rightarrow> u32 \<Rightarrow>
    AuctionWorld \<Rightarrow> auction_error + AuctionWorld" where
  "place_auction e g h r ah etime dep its finalCount w0 =
     (let it = hd its;
          w1 = upd_player g (\<lambda>p. p\<lparr>purse := ModifyMoney (scast (- dep)) (purse p)\<rparr>) w0;
          (i, w2) = GenerateAuctionID w1
      in
        if length its = 1 \<and> item_count it = snd (hd (sell_items r))
        then
          let a = new_auction e g r ah etime dep i it; it1 = SetNotRefundable it in
          (case AddAItem it1 w2 of
             None \<Rightarrow> Inl AssertionFailed
           | Some w3 \<Rightarrow>
               Inr (finish_sale e g a [DEL_INVENTORY_ITEM (item_guid it1), SAVE_ITEM it1]
                 (upd_player g (MoveItemFromInventory it1) (AddAuction h a w3))))
        else case CloneItem e it finalCount g of
          None \<Rightarrow> Inr (SendAuctionCommandResult e g None AUCTION_SELL_ITEM ERR_AUCTION_DATABASE_ERROR w2)
        | Some n \<Rightarrow>
            let a = new_auction e g r ah etime dep i n in
            (case AddAItem n w2 of
               None \<Rightarrow> Inl AssertionFailed
             | Some w3 \<Rightarrow>
                 Inr (finish_sale e g a [SAVE_ITEM n]
                   (fold (consume_stack g) (zip its (map snd (sell_items r))) (AddAuction h a w3)))))"

definition AuctionSellItem :: "AuctionEnv \<Rightarrow> u32 \<Rightarrow> SellRequest \<Rightarrow> AuctionWorld \<Rightarrow> auction_error + AuctionWorld" where
  "AuctionSellItem e g r w0 =
     (if sell_bid r = 0 \<or> sell_etime r = 0 then Inr w0
      else case FindPlayer g w0 of
        None \<Rightarrow> Inr w0
      | Some p \<Rightarrow>
          (case auctioneer_faction e g (sell_npc r) of
             None \<Rightarrow> Inr w0
           | Some fac \<Rightarrow>
               (case GetAuctionHouseEntry e fac of
                  None \<Rightarrow> Inr w0
                | Some ah \<Rightarrow>
                    let etime = sell_etime r * MINUTE in
                    if etime \<notin> {MIN_AUCTION_TIME, 2 * MIN_AUCTION_TIME, 4 * MIN_AUCTION_TIME} then Inr w0
                    else
                      let w = (if has_died e g then emit (RemoveFeignDeath g) w0 else w0);
                          fail = (\<lambda>c. Inr (SendAuctionCommandResult e g None AUCTION_SELL_ITEM c w))
                      in case collect_items e g p w (sell_items r) 0 0 of
                           Inl c \<Rightarrow> fail c
                         | Inr (its, finalCount) \<Rightarrow>
                             if finalCount = 0 then fail ERR_AUCTION_DATABASE_ERROR
                             else if \<not> distinct (map fst (sell_items r)) then fail ERR_AUCTION_DATABASE_ERROR
                             else if list_ex (\<lambda>it. MaxStackSize e (item_entry it) < finalCount) its
                             then fail ERR_AUCTION_DATABASE_ERROR
                             else
                               let dep = GetAuctionDeposit e ah etime (hd its) finalCount in
                               if \<not> HasEnoughMoney (ucast dep) (purse p) then fail ERR_AUCTION_NOT_ENOUGHT_MONEY
                               else place_auction e g (GetAuctionsMap e fac) r ah etime dep its finalCount w)))"

definition HandleAuctionSellItem :: "AuctionEnv \<Rightarrow> u32 \<Rightarrow> bytebuffer \<Rightarrow> AuctionWorld \<Rightarrow> auction_error + AuctionWorld" where
  "HandleAuctionSellItem e g pkt w =
     with_auction_packet (SellItem_read pkt) (\<lambda>r.
       case r of
         TooManyItems \<Rightarrow> Inr (SendAuctionCommandResult e g None AUCTION_SELL_ITEM ERR_AUCTION_DATABASE_ERROR w)
       | BadItem \<Rightarrow> Inr w
       | SellRead q \<Rightarrow> AuctionSellItem e g q w)"

section \<open>Listings\<close>

definition PROP_ENCHANTMENT_SLOT_0 :: nat where "PROP_ENCHANTMENT_SLOT_0 = 10"

definition BuildAuctionInfo :: "AuctionEnv \<Rightarrow> AuctionEntry \<Rightarrow> AuctionWorld \<Rightarrow> u8 list option" where
  "BuildAuctionInfo e a w =
     (case GetAItem (itemGUIDLow a) w of
        None \<Rightarrow> None
      | Some it \<Rightarrow>
          Some (le_bytes 4 (auc_Id a) @ le_bytes 4 (item_entry it) @ enchant_bytes (Some it) PROP_ENCHANTMENT_SLOT_0
            @ le_bytes 4 (item_randomProperty it) @ le_bytes 4 (item_suffixFactor it) @ le_bytes 4 (item_count it)
            @ le_bytes 4 (item_charges it) @ le_bytes 4 (0 :: u32) @ le_bytes 8 (ucast (owner a) :: u64)
            @ le_bytes 8 (ucast (startbid a) :: u64)
            @ le_bytes 8 (if bid a \<noteq> 0 then ucast (GetAuctionOutBid e a) else 0 :: u64)
            @ le_bytes 8 (ucast (buyout a) :: u64)
            @ le_bytes 4 (ucast ((auc_expire_time a - now (post e)) * 1000) :: u32)
            @ le_bytes 8 (ucast (bidder a) :: u64) @ le_bytes 8 (ucast (bid a) :: u64)))"

type_synonym listing = "u8 list \<times> u32 \<times> u32"

text \<open>\<^verbatim>\<open>BuildListBidderItems\<close> and \<^verbatim>\<open>BuildListOwnerItems\<close> differ in the field they compare.\<close>

definition list_entry :: "AuctionEnv \<Rightarrow> AuctionWorld \<Rightarrow> (AuctionEntry \<Rightarrow> bool) \<Rightarrow> u32 \<times> AuctionEntry \<Rightarrow> listing \<Rightarrow> listing" where
  "list_entry e w sel x s =
     (case s of (data, cnt, tot) \<Rightarrow>
        if sel (snd x)
        then (case BuildAuctionInfo e (snd x) w of
                Some bs \<Rightarrow> (data @ bs, cnt + 1, tot + 1) | None \<Rightarrow> (data, cnt, tot + 1))
        else s)"

definition BuildListBidderItems :: "AuctionEnv \<Rightarrow> house \<Rightarrow> u32 \<Rightarrow> AuctionWorld \<Rightarrow> listing \<Rightarrow> listing" where
  "BuildListBidderItems e h g w s = fold (list_entry e w (\<lambda>a. bidder a = g)) (AuctionsMap h w) s"

definition BuildListOwnerItems :: "AuctionEnv \<Rightarrow> house \<Rightarrow> u32 \<Rightarrow> AuctionWorld \<Rightarrow> listing \<Rightarrow> listing" where
  "BuildListOwnerItems e h g w s = fold (list_entry e w (\<lambda>a. owner a = g)) (AuctionsMap h w) s"

record SearchRequest =
  srch_name :: wstr
  srch_from :: u32
  srch_levelmin :: u8
  srch_levelmax :: u8
  srch_usable :: u8
  srch_inventoryType :: u32
  srch_class :: u32
  srch_subClass :: u32
  srch_quality :: u32

text \<open>The name that is searched: to a localised name and a random property a blank and one character of the
  suffix string are appended, the one the locale index selects.\<close>

definition searched_name :: "AuctionEnv \<Rightarrow> u32 \<Rightarrow> Item \<Rightarrow> utf8" where
  "searched_name e g it =
     locale_name e g (item_entry it)
     @ (if item_randomProperty it \<noteq> 0
        then (case name_suffix e (item_randomProperty it) of
                None \<Rightarrow> []
              | Some t \<Rightarrow> [0x20, if dbc_locale e g < length t then t ! dbc_locale e g else 0])
        else [])"

fun is_infix :: "'a list \<Rightarrow> 'a list \<Rightarrow> bool" where
  "is_infix p s = (take (length p) s = p \<or> (case s of [] \<Rightarrow> False | _ # t \<Rightarrow> is_infix p t))"

declare is_infix.simps [simp del]

text \<open>The boolean result of \<^verbatim>\<open>Utf8toWStr(std::string const&, std::wstring&)\<close>: no exception of the codec.\<close>

definition Utf8toWStr_ok :: "utf8 \<Rightarrow> bool" where
  "Utf8toWStr_ok s =
     (case utf8_distance s of
        Inl x \<Rightarrow> False | Inr len \<Rightarrow> len = 0 \<or> (case utf8to16 s of Inl x \<Rightarrow> False | Inr us \<Rightarrow> True))"

definition Utf8FitTo :: "utf8 \<Rightarrow> wstr \<Rightarrow> name_error + bool" where
  "Utf8FitTo s search =
     (if \<not> Utf8toWStr_ok s then Inr False
      else bind_res (Utf8toWStr s) (\<lambda>t. Inr (is_infix search (wstrToLower t))))"

definition search_filter :: "AuctionEnv \<Rightarrow> u32 \<Rightarrow> SearchRequest \<Rightarrow> Item \<Rightarrow> bool" where
  "search_filter e g r it \<longleftrightarrow>
     (let n = item_entry it in
      \<not> (srch_class r \<noteq> 0xffffffff \<and> proto_Class e n \<noteq> srch_class r)
      \<and> \<not> (srch_subClass r \<noteq> 0xffffffff \<and> proto_SubClass e n \<noteq> srch_subClass r)
      \<and> \<not> (srch_inventoryType r \<noteq> 0xffffffff \<and> proto_InventoryType e n \<noteq> srch_inventoryType r)
      \<and> \<not> (srch_quality r \<noteq> 0xffffffff \<and> proto_Quality e n \<noteq> srch_quality r)
      \<and> \<not> (srch_levelmin r \<noteq> 0 \<and> (proto_RequiredLevel e n < ucast (srch_levelmin r)
             \<or> srch_levelmax r \<noteq> 0 \<and> proto_RequiredLevel e n > ucast (srch_levelmax r)))
      \<and> \<not> (srch_usable r \<noteq> 0 \<and> \<not> can_use_item e g it))"

definition search_hit :: "AuctionEnv \<Rightarrow> u32 \<Rightarrow> SearchRequest \<Rightarrow> AuctionEntry \<Rightarrow> AuctionWorld \<Rightarrow> name_error + bool" where
  "search_hit e g r a w =
     (case GetAItem (itemGUIDLow a) w of
        None \<Rightarrow> Inr False
      | Some it \<Rightarrow>
          if \<not> search_filter e g r it then Inr False
          else if srch_name r = [] then Inr True
          else if proto_Name1 e (item_entry it) = [] then Inr False
          else Utf8FitTo (searched_name e g it) (srch_name r))"

primrec BuildListAuctionItems ::
    "AuctionEnv \<Rightarrow> u32 \<Rightarrow> SearchRequest \<Rightarrow> AuctionWorld \<Rightarrow> (u32 \<times> AuctionEntry) list \<Rightarrow> listing \<Rightarrow> name_error + listing" where
  "BuildListAuctionItems e g r w [] s = Inr s"
| "BuildListAuctionItems e g r w (x # xs) s =
     bind_res (search_hit e g r (snd x) w) (\<lambda>hit.
       BuildListAuctionItems e g r w xs
         (case s of (data, cnt, tot) \<Rightarrow>
            if \<not> hit then s
            else if cnt < 50 \<and> tot \<ge> srch_from r
            then (data @ (case BuildAuctionInfo e (snd x) w of None \<Rightarrow> [] | Some bs \<Rightarrow> bs), cnt + 1, tot + 1)
            else (data, cnt, tot + 1)))"

definition MSG_AUCTION_HELLO :: u32 where "MSG_AUCTION_HELLO = 0x2307"
definition SMSG_AUCTION_BIDDER_LIST_RESULT :: u32 where "SMSG_AUCTION_BIDDER_LIST_RESULT = 0x0027"
definition SMSG_AUCTION_OWNER_LIST_RESULT :: u32 where "SMSG_AUCTION_OWNER_LIST_RESULT = 0x6C34"
definition SMSG_AUCTION_LIST_RESULT :: u32 where "SMSG_AUCTION_LIST_RESULT = 0x6637"
definition SMSG_AUCTION_LIST_PENDING_SALES :: u32 where "SMSG_AUCTION_LIST_PENDING_SALES = 0x6A27"
definition LANG_AUCTION_REQ :: u32 where "LANG_AUCTION_REQ = 6607"

definition send_listing :: "u32 \<Rightarrow> u32 \<Rightarrow> u32 \<Rightarrow> listing \<Rightarrow> AuctionWorld \<Rightarrow> AuctionWorld" where
  "send_listing g op unk s =
     (case s of (data, cnt, tot) \<Rightarrow> emit (SendPacket g op (le_bytes 4 cnt @ data @ le_bytes 4 tot @ le_bytes 4 unk)))"

text \<open>The numbers of the auctions the client has been outbid on.\<close>

primrec read_outbid :: "nat \<Rightarrow> AuctionEnv \<Rightarrow> house \<Rightarrow> AuctionWorld \<Rightarrow> listing \<Rightarrow> listing bb_read" where
  "read_outbid 0 e h w s b = Inr (s, b)"
| "read_outbid (Suc n) e h w s b =
     bind_res (read_u32 b) (\<lambda>(i, b1).
       read_outbid n e h w
         (case GetAuction h i w of
            None \<Rightarrow> s
          | Some a \<Rightarrow>
              (case BuildAuctionInfo e a w of
                 None \<Rightarrow> s | Some bs \<Rightarrow> (case s of (data, cnt, tot) \<Rightarrow> (data @ bs, cnt + 1, tot + 1)))) b1)"

definition HandleAuctionListBidderItems :: "AuctionEnv \<Rightarrow> u32 \<Rightarrow> bytebuffer \<Rightarrow> AuctionWorld \<Rightarrow> auction_error + AuctionWorld" where
  "HandleAuctionListBidderItems e g pkt w0 =
     (case read_pair (read_pair read_u64 read_u32) read_u32 pkt of
        Inl x \<Rightarrow> Inl (AuctionPacketError x)
      | Inr (((npc, listfrom), n), b) \<Rightarrow>
          let outbiddedCount = (if of_nat (bb_size b) \<noteq> (ucast (16 + n * 4) :: u64) then 0 else n) in
          at_auctioneer e g npc (\<lambda>fac p w.
            let h = GetAuctionsMap e fac in
            with_auction_packet (read_outbid (unat outbiddedCount) e h w ([], 0, 0) b) (\<lambda>s.
              Inr (send_listing g SMSG_AUCTION_BIDDER_LIST_RESULT 300 (BuildListBidderItems e h g w s) w)))
            Inr w0)"

definition HandleAuctionListOwnerItems :: "AuctionEnv \<Rightarrow> u32 \<Rightarrow> bytebuffer \<Rightarrow> AuctionWorld \<Rightarrow> auction_error + AuctionWorld" where
  "HandleAuctionListOwnerItems e g pkt w0 =
     with_auction_packet (read_pair read_u64 read_u32 pkt) (\<lambda>(npc, listfrom).
       at_auctioneer e g npc (\<lambda>fac p w.
         Inr (send_listing g SMSG_AUCTION_OWNER_LIST_RESULT 0 (BuildListOwnerItems e (GetAuctionsMap e fac) g w ([], 0, 0)) w)) Inr w0)"

definition HandleAuctionListPendingSales :: "u32 \<Rightarrow> bytebuffer \<Rightarrow> AuctionWorld \<Rightarrow> auction_error + AuctionWorld" where
  "HandleAuctionListPendingSales g pkt w =
     with_auction_packet (read_skipped 8 pkt)
       (\<lambda>_. Inr (emit (SendPacket g SMSG_AUCTION_LIST_PENDING_SALES (le_bytes 4 (0 :: u32))) w))"

text \<open>The packet of a search: seventeen bytes at its end are skipped one by one.\<close>

definition ListItems_read :: "(u64 \<times> u32 \<times> utf8 \<times> u8 \<times> u8 \<times> u32 \<times> u32 \<times> u32 \<times> u32 \<times> u8) bb_read" where
  "ListItems_read b0 =
     bind_res (read_u64 b0) (\<lambda>(guid, b1).
     bind_res (read_u32 b1) (\<lambda>(listfrom, b2).
     bind_res (read_string b2) (\<lambda>(nm, b3).
     bind_res (read_pair read_u8 read_u8 b3) (\<lambda>((lmin, lmax), b4).
     bind_res (read_u32 b4) (\<lambda>(slot, b5).
     bind_res (read_u32 b5) (\<lambda>(main, b6).
     bind_res (read_u32 b6) (\<lambda>(sub, b7).
     bind_res (read_u32 b7) (\<lambda>(qual, b8).
     bind_res (read_u8 b8) (\<lambda>(us, b9).
     bind_res (run_all (replicate 17 (read_skip 1)) b9) (\<lambda>b10.
       Inr ((guid, listfrom, nm, lmin, lmax, slot, main, sub, qual, us), b10)))))))))))"

definition AuctionListItems :: "AuctionEnv \<Rightarrow> u32 \<Rightarrow> u64 \<Rightarrow> utf8 \<Rightarrow> SearchRequest \<Rightarrow> AuctionWorld \<Rightarrow> auction_error + AuctionWorld" where
  "AuctionListItems e g npc nm r0 w0 =
     at_auctioneer e g npc (\<lambda>fac p w.
       if \<not> Utf8toWStr_ok nm then Inr w
       else case Utf8toWStr nm of
         Inl x \<Rightarrow> Inl (AuctionNameError x)
       | Inr ws \<Rightarrow>
           (case BuildListAuctionItems e g (r0\<lparr>srch_name := wstrToLower ws\<rparr>) w (AuctionsMap (GetAuctionsMap e fac) w) ([], 0, 0) of
              Inl x \<Rightarrow> Inl (AuctionNameError x)
            | Inr s \<Rightarrow> Inr (send_listing g SMSG_AUCTION_LIST_RESULT 300 s w))) Inr w0"

definition HandleAuctionListItems :: "AuctionEnv \<Rightarrow> u32 \<Rightarrow> bytebuffer \<Rightarrow> AuctionWorld \<Rightarrow> auction_error + AuctionWorld" where
  "HandleAuctionListItems e g pkt w =
     with_auction_packet (ListItems_read pkt) (\<lambda>(npc, listfrom, nm, lmin, lmax, slot, main, sub, qual, us).
       AuctionListItems e g npc nm
         \<lparr>srch_name = [], srch_from = listfrom, srch_levelmin = lmin, srch_levelmax = lmax, srch_usable = us,
          srch_inventoryType = slot, srch_class = main, srch_subClass = sub, srch_quality = qual\<rparr> w)"

definition SendAuctionHello :: "AuctionEnv \<Rightarrow> u32 \<Rightarrow> u64 \<Rightarrow> u32 \<Rightarrow> PostPlayer \<Rightarrow> AuctionWorld \<Rightarrow> AuctionWorld" where
  "SendAuctionHello e g guid fac p w =
     (if ucast (p_level p) < AUCTION_LEVEL_REQ e then emit (SendNotification g LANG_AUCTION_REQ) w
      else case GetAuctionHouseEntry e fac of
        None \<Rightarrow> w
      | Some ah \<Rightarrow> emit (SendPacket g MSG_AUCTION_HELLO (le_bytes 8 guid @ le_bytes 4 (houseId ah) @ [1])) w)"

definition HandleAuctionHelloOpcode :: "AuctionEnv \<Rightarrow> u32 \<Rightarrow> bytebuffer \<Rightarrow> AuctionWorld \<Rightarrow> auction_error + AuctionWorld" where
  "HandleAuctionHelloOpcode e g pkt w0 =
     with_auction_packet (read_u64 pkt) (\<lambda>guid.
       at_auctioneer e g guid (\<lambda>fac p w. Inr (SendAuctionHello e g guid fac p w)) Inr w0)"

end
