(* ===== verification/PostGold.thy ===== *)
theory PostGold
  imports MailHandlers
begin

text \<open>
  The gold of the world: what players carry and what the letters in the database hold. This theory has the
  arithmetic of the purse, sums over tables, the effect of delivering a letter once its transaction is committed, and
  the invariant that ties the mailboxes in memory to the rows of the database.
\<close>

section \<open>The purse\<close>

lemma unat_MAX_MONEY: "unat MAX_MONEY_AMOUNT = 9999999999"
  by (simp add: MAX_MONEY_AMOUNT_def)

lemma sint_nonneg_64: "uint (w :: u64) < 2 ^ 63 \<Longrightarrow> sint w = uint w"
proof -
  assume "uint w < 2 ^ 63"
  moreover have "- (2 ^ 63) \<le> uint w" by (rule order_trans [OF _ uint_ge_0]) simp
  ultimately show ?thesis by (simp add: sint_uint signed_take_bit_int_eq_self_iff)
qed

lemma sint_neg_64:
  assumes "2 ^ 63 \<le> uint (w :: u64)"
  shows "sint w < 0"
proof -
  have "uint w div 2 ^ 63 = 1"
    using assms uint_bounded [of w] by (intro div_pos_neg_trivial int_div_pos_eq [where r = "uint w - 2 ^ 63"]) simp_all
  then have "bit (uint w) 63" by (simp add: bit_iff_odd)
  then show ?thesis by (simp add: sint_uint)
qed

lemma uint_minus_64: "v \<noteq> 0 \<Longrightarrow> uint (- (v :: u64)) = 2 ^ 64 - uint v"
proof -
  assume "v \<noteq> 0"
  then have "uint v \<noteq> 0" by (simp add: uint_0_iff)
  with uint_ge_0 [of v] uint_bounded [of v] show ?thesis
    by (simp add: uint_word_ariths zmod_zminus1_eq_if)
qed

text \<open>A payment the player can afford is exact.\<close>

lemma ModifyMoney_pay:
  assumes "v \<le> coins" and "coins \<le> MAX_MONEY_AMOUNT"
  shows "ModifyMoney (- v) coins = coins - v"
proof (cases "v = 0")
  case True
  with assms(2) show ?thesis by (auto simp: ModifyMoney_def)
next
  case False
  have "uint v \<le> 9999999999"
    using assms by (simp add: MAX_MONEY_AMOUNT_def word_le_def)
  with False have "sint (- v) < 0"
    by (intro sint_neg_64) (simp add: uint_minus_64)
  with assms(1) show ?thesis by (auto simp: ModifyMoney_def)
qed

lemma unat_pay: "v \<le> coins \<Longrightarrow> unat (coins - v :: u64) = unat coins - unat v"
  by (simp add: unat_sub word_le_nat_alt)

text \<open>Coins that are added stop at the limit.\<close>

lemma ModifyMoney_take:
  assumes "v \<le> MAX_MONEY_AMOUNT" and "coins \<le> MAX_MONEY_AMOUNT"
  shows "unat (ModifyMoney v coins) = min (unat coins + unat v) (unat MAX_MONEY_AMOUNT)"
proof -
  have v: "unat v \<le> 9999999999" and c: "unat coins \<le> 9999999999"
    using assms by (simp_all add: word_le_nat_alt unat_MAX_MONEY)
  have "uint v \<le> 9999999999" using assms(1) by (simp add: MAX_MONEY_AMOUNT_def word_le_def)
  then have "uint v < 2 ^ 63" by simp
  then have s: "\<not> sint v < 0" by (simp add: sint_nonneg_64)
  have d: "unat (MAX_MONEY_AMOUNT - v) = 9999999999 - unat v"
    using assms(1) by (simp add: unat_pay unat_MAX_MONEY)
  have "unat (coins + v) = unat coins + unat v"
    using v c by (subst unat_add_lem [symmetric]) simp
  then show ?thesis
    using s v c d by (auto simp: ModifyMoney_def word_less_nat_alt unat_MAX_MONEY)
qed

lemma ModifyMoney_le_MAX:
  assumes "v \<le> MAX_MONEY_AMOUNT" and "coins \<le> MAX_MONEY_AMOUNT"
  shows "ModifyMoney v coins \<le> MAX_MONEY_AMOUNT"
  using ModifyMoney_take [OF assms] by (simp add: word_le_nat_alt)

lemma pay_le_MAX: "v \<le> coins \<Longrightarrow> coins \<le> MAX_MONEY_AMOUNT \<Longrightarrow> coins - v \<le> MAX_MONEY_AMOUNT"
  by (meson word_sub_le order_trans)

section \<open>Sums over tables\<close>

definition sum_store :: "('v \<Rightarrow> nat) \<Rightarrow> ('k \<times> 'v) list \<Rightarrow> nat" where
  "sum_store f s = sum_list (map (\<lambda>x. f (snd x)) s)"

abbreviation at_key :: "('v \<Rightarrow> nat) \<Rightarrow> 'v option \<Rightarrow> nat" where
  "at_key f x \<equiv> (case x of None \<Rightarrow> 0 | Some v \<Rightarrow> f v)"

lemma sum_store_put:
  "ordered_store s \<Longrightarrow> sum_store f (store_put k v s) + at_key f (map_of s k) = sum_store f s + f v"
proof (induction s)
  case (Cons x s)
  have "map_of s j = None" if "j \<le> fst x" for j
    using Cons.prems that by (force simp: ordered_store_def map_of_eq_None_iff)
  with Cons show ?case
    by (cases x) (auto simp: sum_store_def ordered_store_def)
qed (simp add: sum_store_def)

lemma sum_store_erase:
  "ordered_store s \<Longrightarrow> sum_store f (store_erase k s) + at_key f (map_of s k) = sum_store f s"
proof (induction s)
  case (Cons x s)
  have "map_of s j = None" if "j \<le> fst x" for j
    using Cons.prems that by (force simp: ordered_store_def map_of_eq_None_iff)
  with Cons show ?case
    by (cases x) (auto simp: sum_store_def store_erase_def ordered_store_def)
qed (simp add: sum_store_def store_erase_def)

lemma sum_store_new: "ordered_store s \<Longrightarrow> map_of s k = None \<Longrightarrow> sum_store f (store_put k v s) = sum_store f s + f v"
  using sum_store_put [of s f k v] by simp

lemma map_of_upd_store: "map_of (upd_store k f s) = (map_of s)(k := map_option f (map_of s k))"
  by (cases "map_of s k") (auto simp: upd_store_def std_map.find_put)

lemma ordered_upd_store: "ordered_store s \<Longrightarrow> ordered_store (upd_store k f s)"
  by (cases "map_of s k") (simp_all add: upd_store_def std_map.ordered_put)

lemma sum_upd_store:
  "ordered_store s \<Longrightarrow> map_of s k = Some u \<Longrightarrow> sum_store f (upd_store k h s) + f u = sum_store f s + f (h u)"
  using sum_store_put [of s f k "h u"] by (simp add: upd_store_def)

lemma sum_upd_store_same:
  assumes "ordered_store s" and "\<And>u. map_of s k = Some u \<Longrightarrow> f (h u) = f u"
  shows "sum_store f (upd_store k h s) = sum_store f s"
proof (cases "map_of s k")
  case (Some u)
  with sum_upd_store [OF assms(1) Some, of f h] assms(2) show ?thesis by simp
qed (simp add: upd_store_def)

lemma sum_store_le: "ordered_store s \<Longrightarrow> map_of s k = Some u \<Longrightarrow> f u \<le> sum_store f s"
  using sum_store_erase [of s f k] by simp

section \<open>Transactions\<close>

text \<open>A statement is applied to the tables; what a handler does in memory before the commit does not read them.\<close>

lemma Commit_Nil [simp]: "CommitTransaction [] w = w"
  by (simp add: CommitTransaction_def)

lemma Commit_append: "CommitTransaction (a @ b) w = CommitTransaction b (CommitTransaction a w)"
  by (simp add: CommitTransaction_def)

lemma Commit_Cons: "CommitTransaction (a # b) w = CommitTransaction b (CommitTransaction [a] w)"
  by (simp add: CommitTransaction_def)

lemma FindPlayer_Commit [simp]: "FindPlayer g (CommitTransaction tr w) = FindPlayer g w"
  by (simp add: FindPlayer_def CommitTransaction_def)

lemma FindPlayer_emit [simp]: "FindPlayer g (emit x w) = FindPlayer g w"
  by (simp add: FindPlayer_def emit_def)

lemma FindPlayer_upd_player: "FindPlayer g (upd_player k f w) = (if k = g then map_option f (FindPlayer g w) else FindPlayer g w)"
  by (simp add: FindPlayer_def upd_player_def map_of_upd_store)

lemma FindPlayer_set_player: "FindPlayer g (set_player k p w) = (if k = g then Some p else FindPlayer g w)"
  by (simp add: FindPlayer_def set_player_def std_map.find_put)

lemma Commit_emit: "CommitTransaction tr (emit x w) = emit x (CommitTransaction tr w)"
  by (simp add: CommitTransaction_def emit_def)

lemma Commit_upd_player: "CommitTransaction tr (upd_player g f w) = upd_player g f (CommitTransaction tr w)"
  by (simp add: CommitTransaction_def upd_player_def)

lemma Commit_set_player: "CommitTransaction tr (set_player g p w) = set_player g p (CommitTransaction tr w)"
  by (simp add: CommitTransaction_def set_player_def)

lemma Commit_fold_emit: "CommitTransaction tr (fold (\<lambda>x. emit (f x)) xs w) = fold (\<lambda>x. emit (f x)) xs (CommitTransaction tr w)"
  by (induction xs arbitrary: w) (simp_all add: Commit_emit)

lemma Commit_SendNewMail: "CommitTransaction tr (SendNewMail g w) = SendNewMail g (CommitTransaction tr w)"
  by (simp add: SendNewMail_def Commit_emit)

lemma Commit_AddNewMailDeliverTime:
  "CommitTransaction tr (AddNewMailDeliverTime e g t w) = AddNewMailDeliverTime e g t (CommitTransaction tr w)"
  by (simp add: AddNewMailDeliverTime_def Commit_SendNewMail Commit_upd_player)

lemma Commit_GenerateMailID:
  "fst (GenerateMailID (CommitTransaction tr w)) = fst (GenerateMailID w)"
  "snd (GenerateMailID (CommitTransaction tr w)) = CommitTransaction tr (snd (GenerateMailID w))"
  by (simp_all add: GenerateMailID_def CommitTransaction_def emit_def)

lemmas commit_commutes =
  Commit_emit Commit_upd_player Commit_set_player Commit_fold_emit Commit_AddNewMailDeliverTime Commit_GenerateMailID

section \<open>Delivering a letter\<close>

lemma prepare_slots_append:
  "prepare_slots xs (d, tr @ tr') = (fst (prepare_slots xs (d, tr')), tr @ snd (prepare_slots xs (d, tr')))"
  by (induction xs "(d, tr')" arbitrary: d tr' rule: prepare_slots.induct) (auto split: option.splits)

lemma prepareItems_append:
  "prepareItems e g (d, tr) = (fst (prepareItems e g (d, [])), tr @ snd (prepareItems e g (d, [])))"
  using prepare_slots_append [of _ _ tr "[]"] by (simp add: prepareItems_def Let_def)

text \<open>\<open>deliver\<close> is \<^verbatim>\<open>SendMailTo\<close> in a transaction of its own.\<close>

definition deliver ::
    "PostEnv \<Rightarrow> MailDraft \<Rightarrow> u32 \<Rightarrow> MailSender \<Rightarrow> u32 \<Rightarrow> u32 \<Rightarrow> 'a PostWorld_scheme \<Rightarrow> 'a PostWorld_scheme" where
  "deliver e d rcv sn chk dl w = (case SendMailTo e d rcv sn chk dl ([], w) of (tr, w') \<Rightarrow> CommitTransaction tr w')"

abbreviation settle :: "'a post \<Rightarrow> 'a PostWorld_scheme" where
  "settle s \<equiv> CommitTransaction (fst s) (snd s)"

lemma settle_SendMailTo: "settle (SendMailTo e d rcv sn chk dl s) = deliver e d rcv sn chk dl (settle s)"
proof -
  obtain tr w where s: "s = (tr, w)" by (cases s)
  show ?thesis
    unfolding s deliver_def SendMailTo_def
    by (simp add: Let_def case_prod_unfold prepareItems_append [of e rcv d tr] deleteIncludedItems_def
        Commit_append commit_commutes split: option.splits)
qed

text \<open>Statements that leave the letters and the auctions alone.\<close>

definition item_stmt :: "Stmt \<Rightarrow> bool" where
  "item_stmt s =
     (case s of SAVE_ITEM it \<Rightarrow> True | CHAR_INS_MAIL_ITEM i g r \<Rightarrow> True | CHAR_UPD_ITEM_OWNER o' g \<Rightarrow> True
      | CHAR_DEL_ITEM_INSTANCE g \<Rightarrow> True | DEL_INVENTORY_ITEM g \<Rightarrow> True | CHAR_DEL_MAIL_ITEM_BY_ID i \<Rightarrow> True
      | CHAR_DEL_MAIL_ITEM g \<Rightarrow> True | CHAR_UDP_CHAR_MONEY v g \<Rightarrow> True | SAVE_INVENTORY g \<Rightarrow> True
      | CHAR_UPD_MAIL_ITEM_RECEIVER r g \<Rightarrow> True | _ \<Rightarrow> False)"

lemma item_stmt_tables:
  assumes "item_stmt s"
  shows "tbl_mail (exec_stmt s db) = tbl_mail db" and "tbl_auctionhouse (exec_stmt s db) = tbl_auctionhouse db"
  using assms by (cases s; simp add: item_stmt_def)+

lemma item_stmts_tables:
  assumes "list_all item_stmt tr"
  shows "tbl_mail (fold exec_stmt tr db) = tbl_mail db" and "tbl_auctionhouse (fold exec_stmt tr db) = tbl_auctionhouse db"
  using assms by (induction tr arbitrary: db) (simp_all add: item_stmt_tables)

lemma tables_Commit_item_stmts:
  assumes "list_all item_stmt tr"
  shows "tbl_mail (chardb (CommitTransaction tr w)) = tbl_mail (chardb w)"
    and "tbl_auctionhouse (chardb (CommitTransaction tr w)) = tbl_auctionhouse (chardb w)"
  using item_stmts_tables [OF assms] by (simp_all add: CommitTransaction_def)

definition same_letter :: "MailDraft \<Rightarrow> MailDraft \<Rightarrow> bool" where
  "same_letter d d' \<longleftrightarrow> m_money d' = m_money d \<and> m_COD d' = m_COD d"

lemma prepare_slots_letter:
  assumes "same_letter d0 (fst s)" and "list_all item_stmt (snd s)"
  shows "same_letter d0 (fst (prepare_slots xs s)) \<and> list_all item_stmt (snd (prepare_slots xs s))"
  using assms
  by (induction xs s rule: prepare_slots.induct) (auto simp: same_letter_def AddItem_def item_stmt_def split: option.splits)

lemma prepareItems_letter:
  "same_letter d (fst (prepareItems e g (d, [])))" "list_all item_stmt (snd (prepareItems e g (d, [])))"
  using prepare_slots_letter [of d "(d\<lparr>m_mailTemplateItemsNeed := False\<rparr>, [])"]
  by (simp_all add: prepareItems_def Let_def same_letter_def)

definition prepared :: "PostEnv \<Rightarrow> MailDraft \<Rightarrow> u32 \<Rightarrow> 'a PostWorld_scheme \<Rightarrow> MailDraft" where
  "prepared e d rcv w = (if FindPlayer rcv w = None then d else fst (prepareItems e rcv (d, [])))"

lemma same_letter_prepared: "same_letter d (prepared e d rcv w)"
  by (simp add: prepared_def prepareItems_letter) (simp add: same_letter_def)

definition delivery_time :: "PostEnv \<Rightarrow> u32 \<Rightarrow> u64" where
  "delivery_time e dl = now e + ucast dl"

definition sender_gm :: "MailSender \<Rightarrow> 'a PostWorld_scheme \<Rightarrow> bool" where
  "sender_gm sn w = (case FindPlayer (m_senderId sn) w of None \<Rightarrow> False | Some p \<Rightarrow> p_isGameMaster p)"

definition expiry_time :: "PostEnv \<Rightarrow> MailDraft \<Rightarrow> u32 \<Rightarrow> MailSender \<Rightarrow> u32 \<Rightarrow> 'a PostWorld_scheme \<Rightarrow> u64" where
  "expiry_time e d rcv sn dl w = delivery_time e dl + ucast (expire_delay e sn (sender_gm sn w) (prepared e d rcv w))"

text \<open>The row and the letter in memory that a delivery makes.\<close>

definition delivered_row :: "PostEnv \<Rightarrow> MailDraft \<Rightarrow> u32 \<Rightarrow> MailSender \<Rightarrow> u32 \<Rightarrow> u32 \<Rightarrow> 'a PostWorld_scheme \<Rightarrow> MailRow" where
  "delivered_row e d rcv sn chk dl w =
     draft_row (prepared e d rcv w) sn rcv (expiry_time e d rcv sn dl w) (delivery_time e dl) chk"

definition delivered_mail :: "PostEnv \<Rightarrow> MailDraft \<Rightarrow> u32 \<Rightarrow> MailSender \<Rightarrow> u32 \<Rightarrow> u32 \<Rightarrow> 'a PostWorld_scheme \<Rightarrow> Mail" where
  "delivered_mail e d rcv sn chk dl w =
     draft_mail (next_mailId w) (prepared e d rcv w) sn rcv (expiry_time e d rcv sn dl w) (delivery_time e dl) chk"

lemma FindPlayer_GenerateMailID [simp]: "FindPlayer g (snd (GenerateMailID w)) = FindPlayer g w"
  by (simp add: GenerateMailID_def FindPlayer_def emit_def)

lemma online_fold_emit [simp]:
  "online (fold (\<lambda>x. emit (f x)) xs w) = online w" "chardb (fold (\<lambda>x. emit (f x)) xs w) = chardb w"
  "next_mailId (fold (\<lambda>x. emit (f x)) xs w) = next_mailId w"
  by (induction xs arbitrary: w) (simp_all add: emit_def)

lemma item_stmts_of_items: "list_all item_stmt (map (\<lambda>x. CHAR_INS_MAIL_ITEM i (f x) rcv) xs)"
  by (induction xs) (simp_all add: item_stmt_def)

lemma chardb_AddNewMailDeliverTime [simp]:
  "chardb (AddNewMailDeliverTime e g t w) = chardb w" "next_mailId (AddNewMailDeliverTime e g t w) = next_mailId w"
  by (simp_all add: AddNewMailDeliverTime_def SendNewMail_def emit_def upd_player_def)

lemma chardb_GenerateMailID [simp]:
  "chardb (snd (GenerateMailID w)) = chardb w" "fst (GenerateMailID w) = next_mailId w"
  "next_mailId (snd (GenerateMailID w)) = next_mailId w + 1" "online (snd (GenerateMailID w)) = online w"
  by (simp_all add: GenerateMailID_def emit_def)

lemma deliver_tables:
  "tbl_mail (chardb (deliver e d rcv sn chk dl w)) = store_put (next_mailId w) (delivered_row e d rcv sn chk dl w) (tbl_mail (chardb w))"
  "tbl_auctionhouse (chardb (deliver e d rcv sn chk dl w)) = tbl_auctionhouse (chardb w)"
  "next_mailId (deliver e d rcv sn chk dl w) = next_mailId w + 1"
  unfolding deliver_def SendMailTo_def
  by (simp_all add: Let_def case_prod_unfold deleteIncludedItems_def CommitTransaction_def item_stmts_tables
      item_stmts_of_items prepareItems_letter delivered_row_def prepared_def expiry_time_def delivery_time_def sender_gm_def upd_player_def
      split: option.splits)

lemma mail_items_item_stmts:
  "tbl_mail_items (fold exec_stmt (map (\<lambda>x. CHAR_INS_MAIL_ITEM i (f x) rcv) xs) db) = tbl_mail_items db @ map (\<lambda>x. (i, f x, rcv)) xs"
  by (induction xs arbitrary: db) simp_all

lemma prepare_slots_saves:
  "list_all (\<lambda>s. \<exists>it. s = SAVE_ITEM it) (snd s) \<Longrightarrow> list_all (\<lambda>s. \<exists>it. s = SAVE_ITEM it) (snd (prepare_slots xs s))"
  by (induction xs s rule: prepare_slots.induct) (auto split: option.splits)

lemma saves_mail_items:
  "list_all (\<lambda>s. \<exists>it. s = SAVE_ITEM it) tr \<Longrightarrow> tbl_mail_items (fold exec_stmt tr db) = tbl_mail_items db"
  by (induction tr arbitrary: db) auto

lemma prepareItems_saves: "list_all (\<lambda>s. \<exists>it. s = SAVE_ITEM it) (snd (prepareItems e g (d, [])))"
  by (simp add: prepareItems_def Let_def prepare_slots_saves)

lemma deliver_mail_items:
  "tbl_mail_items (chardb (deliver e d rcv sn chk dl w)) =
     tbl_mail_items (chardb w) @ map (\<lambda>x. (next_mailId w, item_guid (snd x), rcv)) (m_items (prepared e d rcv w))"
  unfolding deliver_def SendMailTo_def
  by (simp add: Let_def case_prod_unfold deleteIncludedItems_def CommitTransaction_def mail_items_item_stmts
      prepareItems_saves saves_mail_items prepared_def upd_player_def split: option.splits)

definition upd_mailbox :: "MailDraft \<Rightarrow> Mail \<Rightarrow> PostPlayer \<Rightarrow> PostPlayer" where
  "upd_mailbox d m p = (if m_mailsLoaded p then fold (\<lambda>x. AddMItem (snd x)) (m_items d) (AddMail m p) else p)"

text \<open>What a player keeps when a letter arrives.\<close>

definition same_person :: "PostPlayer \<Rightarrow> PostPlayer \<Rightarrow> bool" where
  "same_person p q \<longleftrightarrow>
     purse q = purse p \<and> inventory q = inventory p \<and> m_mailsLoaded q = m_mailsLoaded p \<and> p_account q = p_account p
     \<and> p_security q = p_security p \<and> p_team q = p_team p \<and> p_level q = p_level p \<and> p_isGameMaster q = p_isGameMaster p"

lemma same_person_refl [simp]: "same_person p p"
  by (simp add: same_person_def)

lemma fold_AddMItem:
  "same_person p (fold (\<lambda>x. AddMItem (snd x)) xs p)" "m_mail (fold (\<lambda>x. AddMItem (snd x)) xs p) = m_mail p"
  by (induction xs arbitrary: p) (simp_all add: AddMItem_def same_person_def)

definition arrival :: "PostEnv \<Rightarrow> u64 \<Rightarrow> PostPlayer \<Rightarrow> PostPlayer" where
  "arrival e t p =
     (if t \<le> now e then p\<lparr>unReadMails := unReadMails p + 1\<rparr>
      else if m_nextMailDelivereTime p = 0 \<or> m_nextMailDelivereTime p > t then p\<lparr>m_nextMailDelivereTime := t\<rparr> else p)"

lemma arrival_person [simp]: "same_person p (arrival e t p)" "m_mail (arrival e t p) = m_mail p"
    "m_mailsLoaded (arrival e t p) = m_mailsLoaded p"
  by (simp_all add: arrival_def same_person_def)

lemma online_AddNewMailDeliverTime:
  "online (AddNewMailDeliverTime e g t w) = upd_store g (arrival e t) (online w)"
  by (cases "t \<le> now e")
    (simp_all add: AddNewMailDeliverTime_def SendNewMail_def emit_def upd_player_def arrival_def upd_store_def split: option.splits)

lemma upd_store_comp: "upd_store k f (upd_store k h s) = upd_store k (f \<circ> h) s"
  by (simp add: upd_store_def std_map.find_put store_put_put split: option.splits)

lemma deliver_online:
  "online (deliver e d rcv sn chk dl w) =
     upd_store rcv (\<lambda>p. upd_mailbox (prepared e d rcv w) (delivered_mail e d rcv sn chk dl w) (arrival e (delivery_time e dl) p)) (online w)"
proof (cases "FindPlayer rcv w")
  case None
  then show ?thesis
    unfolding deliver_def SendMailTo_def
    by (simp add: Let_def case_prod_unfold deleteIncludedItems_def CommitTransaction_def FindPlayer_def [symmetric] upd_store_def)
next
  case (Some p)
  then have o: "map_of (online w) rcv = Some p" by (simp add: FindPlayer_def)
  show ?thesis
    using Some unfolding deliver_def SendMailTo_def
    by (simp add: Let_def case_prod_unfold deleteIncludedItems_def CommitTransaction_def o upd_player_def online_AddNewMailDeliverTime
        upd_store_comp upd_store_def upd_mailbox_def prepared_def delivered_mail_def expiry_time_def delivery_time_def
        sender_gm_def comp_def std_map.find_put store_put_put)
qed

lemma deliver_same_person:
  "same_person p (upd_mailbox d m (arrival e t p))"
  "m_mail (upd_mailbox d m (arrival e t p)) = (if m_mailsLoaded p then m # m_mail p else m_mail p)"
proof -
  let ?q = "arrival e t p"
  have "same_person p ?q" by (rule arrival_person)
  moreover have "same_person ?q (AddMail m ?q)" by (simp add: same_person_def AddMail_def)
  ultimately show "same_person p (upd_mailbox d m ?q)"
    using fold_AddMItem(1) [of "AddMail m ?q" "m_items d"] by (simp add: upd_mailbox_def same_person_def)
  show "m_mail (upd_mailbox d m ?q) = (if m_mailsLoaded p then m # m_mail p else m_mail p)"
    by (simp add: upd_mailbox_def fold_AddMItem(2)) (simp add: AddMail_def)
qed

lemma deliver_FindPlayer:
  "FindPlayer g (deliver e d rcv sn chk dl w) =
     (if g = rcv then map_option (\<lambda>p. upd_mailbox (prepared e d rcv w) (delivered_mail e d rcv sn chk dl w)
        (arrival e (delivery_time e dl) p)) (FindPlayer g w) else FindPlayer g w)"
  by (simp add: FindPlayer_def deliver_online map_of_upd_store)

section \<open>The gold and the invariant\<close>

definition purses :: "'a PostWorld_scheme \<Rightarrow> nat" where
  "purses w = sum_store (\<lambda>p. unat (purse p)) (online w)"

definition letters :: "'a PostWorld_scheme \<Rightarrow> nat" where
  "letters w = sum_store (\<lambda>r. unat (row_money r)) (tbl_mail (chardb w))"

text \<open>A letter in the mailbox of \<open>g\<close> has a row that is addressed to \<open>g\<close> and holds the same coins.\<close>

definition letter_ok :: "CharacterDB \<Rightarrow> u32 \<Rightarrow> Mail \<Rightarrow> bool" where
  "letter_ok db g m =
     (case map_of (tbl_mail db) (messageID m) of
        None \<Rightarrow> False
      | Some r \<Rightarrow> row_receiver r = g \<and> money m = ucast (row_money r) \<and> COD m = ucast (row_cod r))"

definition mailbox_ok :: "CharacterDB \<Rightarrow> u32 \<Rightarrow> PostPlayer \<Rightarrow> bool" where
  "mailbox_ok db g p \<longleftrightarrow>
     purse p \<le> MAX_MONEY_AMOUNT \<and> distinct (map messageID (m_mail p)) \<and> list_all (letter_ok db g) (m_mail p)
     \<and> (\<not> m_mailsLoaded p \<longrightarrow> m_mail p = [])"

definition post_inv :: "'a PostWorld_scheme \<Rightarrow> bool" where
  "post_inv w \<longleftrightarrow>
     std_map.entries_ok (mailbox_ok (chardb w)) (online w)
     \<and> std_map.entries_ok (\<lambda>i r. i < next_mailId w \<and> row_cod r < 0x80000000) (tbl_mail (chardb w))"

lemma post_inv_emit [simp]: "post_inv (emit x w) = post_inv w" "purses (emit x w) = purses w" "letters (emit x w) = letters w"
  by (simp_all add: post_inv_def purses_def letters_def emit_def)

lemma post_inv_FindPlayer: "post_inv w \<Longrightarrow> FindPlayer g w = Some p \<Longrightarrow> mailbox_ok (chardb w) g p"
  by (simp add: post_inv_def std_map.entries_ok_def FindPlayer_def)

lemma post_inv_row: "post_inv w \<Longrightarrow> map_of (tbl_mail (chardb w)) i = Some r \<Longrightarrow> i < next_mailId w \<and> row_cod r < 0x80000000"
  by (simp add: post_inv_def std_map.entries_ok_def)

lemma post_inv_ordered: "post_inv w \<Longrightarrow> ordered_store (online w) \<and> ordered_store (tbl_mail (chardb w))"
  by (simp add: post_inv_def std_map.entries_ok_def)

lemma post_inv_fresh: "post_inv w \<Longrightarrow> map_of (tbl_mail (chardb w)) (next_mailId w) = None"
  using post_inv_row [of w "next_mailId w"] by (cases "map_of (tbl_mail (chardb w)) (next_mailId w)") auto

lemma letter_ok_cong: "tbl_mail db' = tbl_mail db \<Longrightarrow> letter_ok db' = letter_ok db"
  by (simp add: letter_ok_def fun_eq_iff)

lemma mailbox_ok_cong: "tbl_mail db' = tbl_mail db \<Longrightarrow> mailbox_ok db' = mailbox_ok db"
  using letter_ok_cong [of db' db] by (simp add: mailbox_ok_def [abs_def])

lemma Commit_item_stmts:
  assumes "list_all item_stmt tr"
  shows "post_inv (CommitTransaction tr w) = post_inv w" "purses (CommitTransaction tr w) = purses w"
    "letters (CommitTransaction tr w) = letters w"
proof -
  note t = tables_Commit_item_stmts(1) [OF assms, of w]
  show "post_inv (CommitTransaction tr w) = post_inv w"
    unfolding post_inv_def mailbox_ok_cong [OF t] unfolding t by (simp add: CommitTransaction_def)
  show "purses (CommitTransaction tr w) = purses w"
    by (simp add: purses_def CommitTransaction_def)
  show "letters (CommitTransaction tr w) = letters w"
    by (simp add: letters_def t)
qed

lemma post_inv_set_player:
  "post_inv w \<Longrightarrow> mailbox_ok (chardb w) g q \<Longrightarrow> post_inv (set_player g q w)"
  by (simp add: post_inv_def set_player_def std_map.entries_ok_put)

lemma set_player_gold:
  assumes "post_inv w" and "FindPlayer g w = Some p"
  shows "purses (set_player g q w) + unat (purse p) = purses w + unat (purse q)" "letters (set_player g q w) = letters w"
  using sum_store_put [of "online w" _ g q] post_inv_ordered [OF assms(1)] assms(2)
  by (simp_all add: purses_def letters_def set_player_def FindPlayer_def)

lemma upd_player_set: "FindPlayer g w = Some p \<Longrightarrow> upd_player g f w = set_player g (f p) w"
  by (simp add: upd_player_def set_player_def FindPlayer_def upd_store_def)

lemma upd_player_none: "FindPlayer g w = None \<Longrightarrow> upd_player g f w = w"
  by (simp add: upd_player_def FindPlayer_def upd_store_def)

lemma letter_ok_put:
  "letter_ok db g m \<Longrightarrow> map_of (tbl_mail db) i = None \<Longrightarrow> tbl_mail db' = store_put i r (tbl_mail db) \<Longrightarrow> letter_ok db' g m"
  by (auto simp: letter_ok_def std_map.find_put split: option.splits)

lemma mailbox_ok_put:
  "mailbox_ok db g p \<Longrightarrow> map_of (tbl_mail db) i = None \<Longrightarrow> tbl_mail db' = store_put i r (tbl_mail db) \<Longrightarrow> mailbox_ok db' g p"
  unfolding mailbox_ok_def list_all_iff by (metis letter_ok_put)

lemma unat_narrow: "v < 0x100000000 \<Longrightarrow> unat (ucast (v :: u64) :: u32) = unat v"
  by (simp add: unsigned_ucast_eq unsigned_take_bit_eq take_bit_nat_eq_self word_less_nat_alt)

lemma unat_widen32 [simp]: "unat (ucast (r :: u32) :: u64) = unat r"
proof -
  have "unat r < 2 ^ LENGTH(32)" by (rule unsigned_less)
  then show ?thesis by (simp add: unsigned_ucast_eq take_bit_nat_eq_self)
qed

lemma ucast_small_64: "v < 0x100000000 \<Longrightarrow> (ucast (ucast (v :: u64) :: u32) :: u64) = v"
  by (simp add: word_unat_eq_iff unsigned_ucast_eq unsigned_take_bit_eq take_bit_nat_eq_self word_less_nat_alt)

text \<open>A letter with less than $2^{32}$ coins that is delivered keeps the invariant and adds its coins to the letters.\<close>

lemma deliver_gold:
  assumes inv: "post_inv w" and small: "m_money d < 0x100000000"
  shows "purses (deliver e d rcv sn chk dl w) = purses w"
    and "letters (deliver e d rcv sn chk dl w) = letters w + unat (m_money d)"
proof -
  note o = post_inv_ordered [OF inv]
  show "purses (deliver e d rcv sn chk dl w) = purses w"
    unfolding purses_def deliver_online
  proof (rule sum_upd_store_same)
    fix p
    show "unat (purse (upd_mailbox (prepared e d rcv w) (delivered_mail e d rcv sn chk dl w) (arrival e (delivery_time e dl) p))) = unat (purse p)"
      using deliver_same_person(1) [of p] by (simp add: same_person_def)
  qed (use o in simp)
  have "m_money (prepared e d rcv w) = m_money d"
    using same_letter_prepared by (auto simp: same_letter_def)
  then show "letters (deliver e d rcv sn chk dl w) = letters w + unat (m_money d)"
    unfolding letters_def deliver_tables
    by (simp add: sum_store_new o post_inv_fresh [OF inv] delivered_row_def draft_row_def unat_narrow [OF small])
qed

lemma deliver_inv:
  assumes inv: "post_inv w" and id: "next_mailId w < 0xFFFFFFFE"
    and small: "m_money d < 0x100000000" and cod: "m_COD d < 0x80000000"
  shows "post_inv (deliver e d rcv sn chk dl w)"
proof -
  let ?w = "deliver e d rcv sn chk dl w"
  let ?r = "delivered_row e d rcv sn chk dl w" and ?m = "delivered_mail e d rcv sn chk dl w"
  have d: "m_money (prepared e d rcv w) = m_money d" "m_COD (prepared e d rcv w) = m_COD d"
    using same_letter_prepared by (auto simp: same_letter_def)
  have c32: "m_COD d < 0x100000000" using cod by (rule less_trans) simp
  note fresh = post_inv_fresh [OF inv]
  have nxt: "next_mailId w < next_mailId w + 1"
    using id by (simp add: word_less_nat_alt unat_word_ariths)
  have new: "letter_ok (chardb ?w) rcv ?m"
    using small c32
    by (simp add: letter_ok_def deliver_tables std_map.find_put delivered_mail_def draft_mail_def delivered_row_def draft_row_def d
        ucast_small_64)
  have old: "mailbox_ok (chardb ?w) g p" if "FindPlayer g w = Some p" for g p
    using post_inv_FindPlayer [OF inv that] fresh deliver_tables(1) by (rule mailbox_ok_put)
  have notin: "next_mailId w \<notin> messageID ` set (m_mail p)" if "FindPlayer g w = Some p" for g p
    using post_inv_FindPlayer [OF inv that] fresh
    by (auto simp: mailbox_ok_def list_all_iff letter_ok_def split: option.splits)
  have "mailbox_ok (chardb ?w) g p" if f: "FindPlayer g ?w = Some p" for g p
  proof (cases "g = rcv")
    case True
    then obtain q where q: "FindPlayer rcv w = Some q" "p = upd_mailbox (prepared e d rcv w) ?m (arrival e (delivery_time e dl) q)"
      using f by (auto simp: deliver_FindPlayer)
    have "messageID ?m = next_mailId w" by (simp add: delivered_mail_def draft_mail_def)
    with old [OF q(1)] notin [OF q(1)] new True show ?thesis
      using deliver_same_person [where p = q] unfolding q(2) by (auto simp: mailbox_ok_def same_person_def)
  next
    case False
    with f old show ?thesis by (simp add: deliver_FindPlayer)
  qed
  moreover have "std_map.entries_ok (\<lambda>i r. i < next_mailId ?w \<and> row_cod r < 0x80000000) (tbl_mail (chardb ?w))"
    unfolding deliver_tables
  proof (rule std_map.entries_ok_put_new)
    show "std_map.entries_ok (\<lambda>i r. i < next_mailId w \<and> row_cod r < 0x80000000) (tbl_mail (chardb w))"
      using inv by (simp add: post_inv_def)
    show "next_mailId w < next_mailId w + 1 \<and> row_cod ?r < 0x80000000"
      using nxt cod by (simp add: delivered_row_def draft_row_def d word_less_nat_alt unat_narrow [OF c32])
  qed (use nxt in \<open>auto\<close>)
  ultimately show ?thesis
    using post_inv_ordered [OF inv]
    by (simp add: post_inv_def std_map.entries_ok_def FindPlayer_def deliver_online ordered_upd_store)
qed

end
