(* ===== verification/PostInv.thy ===== *)
theory PostInv
  imports PostGold
begin

text \<open>
  The operations of the mailbox keep the invariant between memory and database, and none of them makes gold.
\<close>

section \<open>Saving a mailbox\<close>

definition save_row :: "Mail \<Rightarrow> (u32 \<times> MailRow) list \<Rightarrow> (u32 \<times> MailRow) list" where
  "save_row m t =
     (case mail_state m of
        MAIL_STATE_CHANGED \<Rightarrow>
          upd_store (messageID m) (\<lambda>r. r\<lparr>row_has_items := HasItems m, row_expire_time := ucast (ucast (expire_time m) :: u32),
            row_deliver_time := ucast (ucast (deliver_time m) :: u32), row_money := ucast (money m), row_cod := ucast (COD m),
            row_checked := ucast (checked m)\<rparr>) t
      | MAIL_STATE_DELETED \<Rightarrow> store_erase (messageID m) t
      | MAIL_STATE_UNCHANGED \<Rightarrow> t)"

lemma list_all_item_stmt_map:
  "list_all item_stmt (map CHAR_DEL_MAIL_ITEM xs)" "list_all item_stmt (map (\<lambda>x. CHAR_DEL_ITEM_INSTANCE (f x)) ys)"
  by (induction xs, simp_all add: item_stmt_def) (induction ys, simp_all add: item_stmt_def)

lemma tbl_SaveMail_stmts: "tbl_mail (fold exec_stmt (SaveMail_stmts m) db) = save_row m (tbl_mail db)"
  by (cases "mail_state m") (simp_all add: SaveMail_stmts_def save_row_def item_stmts_tables list_all_item_stmt_map)

lemma tbl_auction_SaveMail_stmts: "tbl_auctionhouse (fold exec_stmt (SaveMail_stmts m) db) = tbl_auctionhouse db"
  by (cases "mail_state m") (simp_all add: SaveMail_stmts_def item_stmts_tables list_all_item_stmt_map)

lemma tbl_SaveMail:
  "tbl_mail (fold exec_stmt (concat (map SaveMail_stmts ms)) db) = fold save_row ms (tbl_mail db)"
  "tbl_auctionhouse (fold exec_stmt (concat (map SaveMail_stmts ms)) db) = tbl_auctionhouse db"
  by (induction ms arbitrary: db) (simp_all add: tbl_SaveMail_stmts tbl_auction_SaveMail_stmts)

lemma ordered_save_row: "ordered_store t \<Longrightarrow> ordered_store (save_row m t)"
  by (cases "mail_state m") (simp_all add: save_row_def ordered_upd_store std_map.ordered_erase)

lemma ordered_save_rows: "ordered_store t \<Longrightarrow> ordered_store (fold save_row ms t)"
  by (induction ms arbitrary: t) (simp_all add: ordered_save_row)

lemma save_row_other: "i \<noteq> messageID m \<Longrightarrow> map_of (save_row m t) i = map_of t i"
  by (cases "mail_state m") (simp_all add: save_row_def map_of_upd_store std_map.find_erase)

lemma save_rows_other: "i \<notin> messageID ` set ms \<Longrightarrow> map_of (fold save_row ms t) i = map_of t i"
  by (induction ms arbitrary: t) (simp_all add: save_row_other)

lemma save_row_cong: "map_of t (messageID m) = map_of t' (messageID m) \<Longrightarrow> map_of (save_row m t) (messageID m) = map_of (save_row m t') (messageID m)"
  by (cases "mail_state m") (simp_all add: save_row_def map_of_upd_store std_map.find_erase)

lemma save_rows_own:
  "distinct (map messageID ms) \<Longrightarrow> m \<in> set ms \<Longrightarrow> map_of (fold save_row ms t) (messageID m) = map_of (save_row m t) (messageID m)"
proof (induction ms arbitrary: t)
  case (Cons x ms)
  show ?case
  proof (cases "m = x")
    case True
    with Cons.prems show ?thesis by (simp add: save_rows_other)
  next
    case False
    with Cons.prems have "m \<in> set ms" and "messageID m \<noteq> messageID x" by (auto intro: rev_image_eqI)
    then have "map_of (save_row m (save_row x t)) (messageID m) = map_of (save_row m t) (messageID m)"
      by (intro save_row_cong save_row_other)
    with Cons \<open>m \<in> set ms\<close> show ?thesis by simp
  qed
qed simp

lemma sum_save_row:
  "ordered_store t \<Longrightarrow> sum_store f (save_row m t) + at_key f (map_of t (messageID m)) = sum_store f t + at_key f (map_of (save_row m t) (messageID m))"
  using sum_upd_store [of t "messageID m" _ f] sum_store_erase [of t f "messageID m"]
  by (cases "mail_state m"; cases "map_of t (messageID m)")
     (simp_all add: save_row_def map_of_upd_store std_map.find_erase, simp_all add: upd_store_def)

lemma sum_save_rows:
  "ordered_store t \<Longrightarrow> distinct (map messageID ms) \<Longrightarrow>
   sum_store f (fold save_row ms t) + (\<Sum>m\<leftarrow>ms. at_key f (map_of t (messageID m))) =
   sum_store f t + (\<Sum>m\<leftarrow>ms. at_key f (map_of (save_row m t) (messageID m)))"
proof (induction ms arbitrary: t)
  case (Cons x ms)
  have *: "map_of (save_row x t) (messageID m) = map_of t (messageID m)" if "m \<in> set ms" for m
    using Cons.prems that by (intro save_row_other) (auto intro: rev_image_eqI)
  then have "(\<Sum>m\<leftarrow>ms. at_key f (map_of (save_row x t) (messageID m))) = (\<Sum>m\<leftarrow>ms. at_key f (map_of t (messageID m)))"
    by (intro arg_cong [where f = sum_list] map_cong) simp_all
  moreover have "(\<Sum>m\<leftarrow>ms. at_key f (map_of (save_row m (save_row x t)) (messageID m))) =
      (\<Sum>m\<leftarrow>ms. at_key f (map_of (save_row m t) (messageID m)))"
    by (intro arg_cong [where f = sum_list] map_cong refl arg_cong [where f = "at_key f"] save_row_cong *)
  ultimately show ?case
    using Cons.IH [of "save_row x t"] sum_save_row [of t f x] Cons.prems by (simp add: ordered_save_row)
qed simp

text \<open>A mailbox that is about to be saved: letters that changed may differ from their rows.\<close>

definition dirty_letter :: "CharacterDB \<Rightarrow> u32 \<Rightarrow> Mail \<Rightarrow> bool" where
  "dirty_letter db g m =
     (case map_of (tbl_mail db) (messageID m) of
        None \<Rightarrow> False
      | Some r \<Rightarrow>
          row_receiver r = g
          \<and> (if mail_state m = MAIL_STATE_CHANGED then unat (money m) \<le> unat (row_money r) \<and> COD m < 0x80000000
             else money m = ucast (row_money r) \<and> COD m = ucast (row_cod r)))"

definition dirty_mailbox :: "CharacterDB \<Rightarrow> u32 \<Rightarrow> PostPlayer \<Rightarrow> bool" where
  "dirty_mailbox db g p \<longleftrightarrow>
     purse p \<le> MAX_MONEY_AMOUNT \<and> distinct (map messageID (m_mail p)) \<and> list_all (dirty_letter db g) (m_mail p) \<and> m_mailsLoaded p"

lemma narrow_of_le: "unat (v :: u64) \<le> unat (r :: u32) \<Longrightarrow> v < 0x100000000"
proof -
  have "unat r < 2 ^ LENGTH(32)" by (rule unsigned_less)
  then show "unat v \<le> unat r \<Longrightarrow> v < 0x100000000" by (simp add: word_less_nat_alt)
qed

lemma letter_ok_dirty:
  assumes "post_inv w" and "letter_ok (chardb w) g m"
  shows "dirty_letter (chardb w) g m"
proof -
  obtain r where r: "map_of (tbl_mail (chardb w)) (messageID m) = Some r" "row_receiver r = g" "money m = ucast (row_money r)" "COD m = ucast (row_cod r)"
    using assms(2) by (auto simp: letter_ok_def split: option.splits)
  have "row_cod r < 0x80000000" using post_inv_row [OF assms(1) r(1)] by simp
  then have "COD m < 0x80000000" using r(4) by (simp add: word_less_nat_alt)
  with r show ?thesis by (simp add: dirty_letter_def)
qed

lemma save_row_dirty:
  assumes "dirty_letter db g m"
  shows "mail_state m = MAIL_STATE_DELETED \<Longrightarrow> map_of (save_row m (tbl_mail db)) (messageID m) = None"
    and "mail_state m \<noteq> MAIL_STATE_DELETED \<Longrightarrow>
      \<exists>r r'. map_of (tbl_mail db) (messageID m) = Some r \<and> map_of (save_row m (tbl_mail db)) (messageID m) = Some r' \<and>
        row_receiver r' = g \<and> money m = ucast (row_money r') \<and> COD m = ucast (row_cod r') \<and>
        (row_cod r' = row_cod r \<or> row_cod r' < 0x80000000)"
    and "at_key (\<lambda>r. unat (row_money r)) (map_of (save_row m (tbl_mail db)) (messageID m))
      \<le> at_key (\<lambda>r. unat (row_money r)) (map_of (tbl_mail db) (messageID m))"
proof -
  obtain r where r: "map_of (tbl_mail db) (messageID m) = Some r" "row_receiver r = g"
    using assms by (auto simp: dirty_letter_def split: option.splits)
  show "map_of (save_row m (tbl_mail db)) (messageID m) = None" if "mail_state m = MAIL_STATE_DELETED"
    using that by (simp add: save_row_def std_map.find_erase)
  have ch: "money m < 0x100000000" "COD m < 0x80000000" "unat (money m) \<le> unat (row_money r)" "COD m < 0x100000000"
    if "mail_state m = MAIL_STATE_CHANGED"
    using assms r that narrow_of_le [of "money m" "row_money r"] by (auto simp: dirty_letter_def elim: less_trans)
  show "\<exists>r r'. map_of (tbl_mail db) (messageID m) = Some r \<and> map_of (save_row m (tbl_mail db)) (messageID m) = Some r' \<and>
        row_receiver r' = g \<and> money m = ucast (row_money r') \<and> COD m = ucast (row_cod r') \<and>
        (row_cod r' = row_cod r \<or> row_cod r' < 0x80000000)" if "mail_state m \<noteq> MAIL_STATE_DELETED"
    using assms r that ch
    by (cases "mail_state m")
       (auto simp: save_row_def map_of_upd_store ucast_small_64 dirty_letter_def word_less_nat_alt unat_narrow)
  show "at_key (\<lambda>r. unat (row_money r)) (map_of (save_row m (tbl_mail db)) (messageID m))
      \<le> at_key (\<lambda>r. unat (row_money r)) (map_of (tbl_mail db) (messageID m))"
    using r ch by (cases "mail_state m") (simp_all add: save_row_def map_of_upd_store std_map.find_erase unat_narrow)
qed

lemma dirty_mailbox_cong: "tbl_mail db' = tbl_mail db \<Longrightarrow> dirty_mailbox db' g p = dirty_mailbox db g p"
  by (simp add: dirty_mailbox_def dirty_letter_def [abs_def])

lemma sum_list_drop:
  assumes "\<And>x. x \<in> set xs \<Longrightarrow> f x \<le> (g x :: nat)" and "y \<in> set xs" and "f y = 0"
  shows "sum_list (map f xs) + g y \<le> sum_list (map g xs)"
  using assms
proof (induction xs)
  case (Cons x xs)
  show ?case
  proof (cases "y = x")
    case True
    have "sum_list (map f xs) \<le> sum_list (map g xs)" using Cons.prems(1) by (intro sum_list_mono) simp
    with True Cons.prems(3) show ?thesis by simp
  next
    case False
    with Cons.prems have "y \<in> set xs" by simp
    with Cons.IH Cons.prems have "sum_list (map f xs) + g y \<le> sum_list (map g xs)" by simp
    moreover have "f x \<le> g x" using Cons.prems(1) by simp
    ultimately show ?thesis by simp
  qed
qed simp

lemma SaveMail_loaded:
  assumes "m_mailsLoaded p"
  shows "fst (SaveMail p) = concat (map SaveMail_stmts (m_mail p))" "purse (snd (SaveMail p)) = purse p" "m_mailsLoaded (snd (SaveMail p))"
    "m_mail (snd (SaveMail p)) = filter (\<lambda>m. mail_state m \<noteq> MAIL_STATE_DELETED) (map SaveMail_reset (m_mail p))"
    "inventory (snd (SaveMail p)) = inventory p"
  using assms by (simp_all add: SaveMail_def)

lemma SaveMail_reset_simps [simp]:
  "messageID (SaveMail_reset m) = messageID m" "money (SaveMail_reset m) = money m" "COD (SaveMail_reset m) = COD m"
  "(mail_state (SaveMail_reset m) = MAIL_STATE_DELETED) = (mail_state m = MAIL_STATE_DELETED)"
  by (simp_all add: SaveMail_reset_def)

lemma letter_ok_reset [simp]: "letter_ok db g (SaveMail_reset m) = letter_ok db g m"
  by (simp add: letter_ok_def split: option.splits)

text \<open>Saving a mailbox brings memory and database together again, and no letter gains coins.\<close>

lemma SaveMail_commit:
  assumes inv: "post_inv w" and fp: "FindPlayer g w = Some p0" and dirty: "dirty_mailbox (chardb w) g p"
  defines "w' \<equiv> CommitTransaction (fst (SaveMail p)) (set_player g (snd (SaveMail p)) w)"
  shows "post_inv w'"
    and "purses w' + unat (purse p0) = purses w + unat (purse p)"
    and "letters w' \<le> letters w"
    and "m \<in> set (m_mail p) \<Longrightarrow> mail_state m = MAIL_STATE_CHANGED \<Longrightarrow> money m = 0 \<Longrightarrow>
      map_of (tbl_mail (chardb w)) (messageID m) = Some r \<Longrightarrow> letters w' + unat (row_money r) \<le> letters w"
    and "tbl_auctionhouse (chardb w') = tbl_auctionhouse (chardb w)"
proof -
  have loaded: "m_mailsLoaded p" and dist: "distinct (map messageID (m_mail p))" and pm: "purse p \<le> MAX_MONEY_AMOUNT"
    and dl: "\<And>m. m \<in> set (m_mail p) \<Longrightarrow> dirty_letter (chardb w) g m"
    using dirty by (simp_all add: dirty_mailbox_def list_all_iff)
  note sm = SaveMail_loaded [OF loaded]
  note o = post_inv_ordered [OF inv]
  let ?t = "tbl_mail (chardb w)" and ?ms = "m_mail p" and ?f = "\<lambda>r. unat (row_money r)"
  have tbl: "tbl_mail (chardb w') = fold save_row ?ms ?t" "tbl_auctionhouse (chardb w') = tbl_auctionhouse (chardb w)"
    by (simp_all add: w'_def CommitTransaction_def sm set_player_def tbl_SaveMail)
  then show "tbl_auctionhouse (chardb w') = tbl_auctionhouse (chardb w)" by simp
  have onl: "online w' = store_put g (snd (SaveMail p)) (online w)" and nid: "next_mailId w' = next_mailId w"
    by (simp_all add: w'_def CommitTransaction_def set_player_def)
  show "purses w' + unat (purse p0) = purses w + unat (purse p)"
    using sum_store_put [of "online w" "\<lambda>p. unat (purse p)" g "snd (SaveMail p)"] o fp
    by (simp add: purses_def onl FindPlayer_def sm)
  have mono: "at_key ?f (map_of (save_row m ?t) (messageID m)) \<le> at_key ?f (map_of ?t (messageID m))" if "m \<in> set ?ms" for m
    using save_row_dirty(3) [OF dl [OF that]] .
  have sum: "letters w' + (\<Sum>m\<leftarrow>?ms. at_key ?f (map_of ?t (messageID m))) =
      letters w + (\<Sum>m\<leftarrow>?ms. at_key ?f (map_of (save_row m ?t) (messageID m)))"
    using sum_save_rows [of ?t ?ms ?f] o dist by (simp add: letters_def tbl)
  moreover have "(\<Sum>m\<leftarrow>?ms. at_key ?f (map_of (save_row m ?t) (messageID m))) \<le> (\<Sum>m\<leftarrow>?ms. at_key ?f (map_of ?t (messageID m)))"
    using mono by (rule sum_list_mono)
  ultimately show "letters w' \<le> letters w" by linarith
  show "letters w' + unat (row_money r) \<le> letters w"
    if "m \<in> set ?ms" "mail_state m = MAIL_STATE_CHANGED" "money m = 0" "map_of ?t (messageID m) = Some r"
  proof -
    have "at_key ?f (map_of (save_row m ?t) (messageID m)) = 0"
      using that by (simp add: save_row_def map_of_upd_store)
    with sum_list_drop [of ?ms "\<lambda>m. at_key ?f (map_of (save_row m ?t) (messageID m))" "\<lambda>m. at_key ?f (map_of ?t (messageID m))" m]
    show ?thesis using mono that sum by simp
  qed
  show "post_inv w'"
  proof -
    have rcv: "row_receiver r = g" if "x \<in> set ?ms" "map_of ?t (messageID x) = Some r" for x r
      using dl [OF that(1)] that(2) by (simp add: dirty_letter_def)
    have other: "letter_ok (chardb w') h m" if "h \<noteq> g" "letter_ok (chardb w) h m" for h m
    proof -
      have "messageID m \<notin> messageID ` set ?ms"
        using that rcv by (fastforce simp: letter_ok_def split: option.splits)
      with that(2) show ?thesis by (simp add: letter_ok_def tbl save_rows_other)
    qed
    have own: "letter_ok (chardb w') g m" if "m \<in> set ?ms" "mail_state m \<noteq> MAIL_STATE_DELETED" for m
      using save_row_dirty(2) [OF dl [OF that(1)] that(2)] by (auto simp: letter_ok_def tbl save_rows_own [OF dist that(1)])
    have "mailbox_ok (chardb w') g (snd (SaveMail p))"
      using own pm dist sm
      by (auto simp: mailbox_ok_def list_all_iff filter_map distinct_map_filter comp_def)
    moreover have "mailbox_ok (chardb w') h q" if "h \<noteq> g" "map_of (online w) h = Some q" for h q
      using post_inv_FindPlayer [OF inv, of h q] that other by (auto simp: mailbox_ok_def list_all_iff FindPlayer_def)
    ultimately have "std_map.entries_ok (mailbox_ok (chardb w')) (online w')"
      using o by (auto simp: std_map.entries_ok_def onl std_map.find_put std_map.ordered_put)
    moreover have "i < next_mailId w \<and> row_cod r' < 0x80000000" if "map_of (fold save_row ?ms ?t) i = Some r'" for i r'
    proof (cases "i \<in> messageID ` set ?ms")
      case True
      then obtain m where m: "m \<in> set ?ms" "i = messageID m" by blast
      then have s: "map_of (save_row m ?t) i = Some r'" using that by (simp add: save_rows_own [OF dist])
      then have "mail_state m \<noteq> MAIL_STATE_DELETED" using save_row_dirty(1) [OF dl [OF m(1)]] m(2) by auto
      then show ?thesis using save_row_dirty(2) [OF dl [OF m(1)]] s m(2) post_inv_row [OF inv] by fastforce
    next
      case False
      then show ?thesis using that post_inv_row [OF inv] by (simp add: save_rows_other)
    qed
    ultimately show ?thesis
      using o by (simp add: post_inv_def std_map.entries_ok_def nid tbl ordered_save_rows)
  qed
qed

section \<open>Changes in memory\<close>

lemma upd_first_ids [simp]: "(\<And>m. messageID (f m) = messageID m) \<Longrightarrow> map messageID (upd_first i f ms) = map messageID ms"
  by (induction ms) simp_all

lemma upd_first_in: "x \<in> set (upd_first i f ms) \<Longrightarrow> x \<in> set ms \<or> (\<exists>m \<in> set ms. messageID m = i \<and> x = f m)"
  by (induction ms) (auto split: if_splits)

lemma upd_first_target: "find (\<lambda>m. messageID m = i) ms = Some m \<Longrightarrow> f m \<in> set (upd_first i f ms)"
  by (induction ms) (auto split: if_splits)

lemma GetMail_Some: "GetMail i p = Some m \<Longrightarrow> m \<in> set (m_mail p) \<and> messageID m = i"
  unfolding GetMail_def by (induction "m_mail p" arbitrary: p) (auto simp: find_Some_iff)

lemma upd_first_distinct:
  "distinct (map messageID ms) \<Longrightarrow> m \<in> set ms \<Longrightarrow> messageID m = i \<Longrightarrow> (\<And>m. messageID (f m) = i \<longleftrightarrow> messageID m = i) \<Longrightarrow>
   x \<in> set (upd_first i f ms) \<Longrightarrow> x = f m \<or> x \<in> set ms \<and> messageID x \<noteq> i"
  by (induction ms) (auto split: if_splits intro: rev_image_eqI)

text \<open>A change of one letter that may touch coins and marks the letter as changed.\<close>

lemma dirty_after:
  assumes inv: "post_inv w" and fp: "FindPlayer g w = Some p" and m: "GetMail i p = Some m"
    and f: "\<And>x. messageID (f x) = messageID x" "mail_state (f m) = MAIL_STATE_CHANGED" "unat (money (f m)) \<le> unat (money m)"
      "COD (f m) \<le> COD m"
    and q: "m_mail q = upd_first i f (m_mail p)" "purse q \<le> MAX_MONEY_AMOUNT" "m_mailsLoaded q = m_mailsLoaded p"
  shows "dirty_mailbox (chardb w) g q"
proof -
  note mi = GetMail_Some [OF m]
  have ok: "mailbox_ok (chardb w) g p" using inv fp by (rule post_inv_FindPlayer)
  then have dist: "distinct (map messageID (m_mail p))" and lt: "\<And>x. x \<in> set (m_mail p) \<Longrightarrow> letter_ok (chardb w) g x"
    and ld: "m_mailsLoaded p" using mi by (auto simp: mailbox_ok_def list_all_iff)
  have "dirty_letter (chardb w) g x" if "x \<in> set (upd_first i f (m_mail p))" for x
  proof (cases "x = f m")
    case True
    obtain r where r: "map_of (tbl_mail (chardb w)) (messageID m) = Some r" "row_receiver r = g" "money m = ucast (row_money r)" "COD m = ucast (row_cod r)"
      using lt [of m] mi by (auto simp: letter_ok_def split: option.splits)
    have "dirty_letter (chardb w) g m" using inv lt [of m] mi by (intro letter_ok_dirty) auto
    have "row_cod r < 0x80000000" using post_inv_row [OF inv r(1)] by simp
    then have "COD (f m) < 0x80000000"
      using f(4) r(4) by (simp add: word_less_nat_alt word_le_nat_alt)
    then show ?thesis
      using True r f by (simp add: dirty_letter_def)
  next
    case False
    then have "x \<in> set (m_mail p)" using upd_first_distinct [OF dist, of m i f x] mi f(1) that by auto
    then show ?thesis using inv lt by (intro letter_ok_dirty) auto
  qed
  moreover have "distinct (map messageID (m_mail q))" using dist q(1) f(1) by simp
  ultimately show ?thesis using q ld by (simp add: dirty_mailbox_def list_all_iff)
qed

text \<open>A change of one letter that touches no coins.\<close>

lemma mailbox_ok_upd_mail:
  assumes "mailbox_ok db g p" and "\<And>x. messageID (f x) = messageID x \<and> money (f x) = money x \<and> COD (f x) = COD x"
  shows "mailbox_ok db g (upd_mail i f p)"
proof -
  have "letter_ok db g (f x) = letter_ok db g x" for x
    using assms(2) by (simp add: letter_ok_def split: option.splits)
  then have "list_all (letter_ok db g) (upd_first i f (m_mail p))"
    using assms(1) upd_first_in [of _ i f "m_mail p"] by (fastforce simp: mailbox_ok_def list_all_iff)
  then show ?thesis using assms by (auto simp: mailbox_ok_def upd_mail_def)
qed

lemma mailbox_ok_fields [simp]:
  "mailbox_ok db g (p\<lparr>m_mailsUpdated := b\<rparr>) = mailbox_ok db g p" "mailbox_ok db g (p\<lparr>unReadMails := n\<rparr>) = mailbox_ok db g p"
  "mailbox_ok db g (p\<lparr>inventory := its\<rparr>) = mailbox_ok db g p" "mailbox_ok db g (p\<lparr>mMitems := ms\<rparr>) = mailbox_ok db g p"
  "mailbox_ok db g (p\<lparr>unReadMails := n, m_mailsUpdated := b\<rparr>) = mailbox_ok db g p"
  "mailbox_ok db g (p\<lparr>m_mailsUpdated := b, inventory := its\<rparr>) = mailbox_ok db g p"
  "mailbox_ok db g (p\<lparr>m_nextMailDelivereTime := t, unReadMails := n\<rparr>) = mailbox_ok db g p"
  by (simp_all add: mailbox_ok_def)

lemma purse_upd_mail [simp]: "purse (upd_mail i f p) = purse p"
  by (simp add: upd_mail_def)

section \<open>The handlers\<close>

text \<open>\<open>no_new_gold w w'\<close>: the invariant holds and there is no more gold than before.\<close>

definition no_new_gold :: "'a PostWorld_scheme \<Rightarrow> 'a PostWorld_scheme \<Rightarrow> bool" where
  "no_new_gold w w' \<longleftrightarrow> post_inv w' \<and> purses w' + letters w' \<le> purses w + letters w"

lemma no_new_gold_refl: "post_inv w \<Longrightarrow> no_new_gold w w"
  by (simp add: no_new_gold_def)

lemma SendMailResult_simps [simp]:
  "post_inv (SendMailResult_full g i act err eq it c w) = post_inv w"
  "purses (SendMailResult_full g i act err eq it c w) = purses w" "letters (SendMailResult_full g i act err eq it c w) = letters w"
  "FindPlayer h (SendMailResult_full g i act err eq it c w) = FindPlayer h w"
  "chardb (SendMailResult_full g i act err eq it c w) = chardb w"
  by (simp_all add: SendMailResult_full_def) (simp add: emit_def)

lemma set_player_same_purse:
  assumes "post_inv w" and "FindPlayer g w = Some p" and "mailbox_ok (chardb w) g q" and "purse q = purse p"
  shows "no_new_gold w (set_player g q w)"
  using post_inv_set_player [OF assms(1,3)] set_player_gold [OF assms(1,2), of q] assms(4) by (simp add: no_new_gold_def)

lemma set_player_letter:
  assumes "post_inv w" and "FindPlayer g w = Some p" and "mailbox_ok (chardb w) g p \<Longrightarrow> mailbox_ok (chardb w) g q" and "purse q = purse p"
    and "\<And>x. messageID (f x) = messageID x \<and> money (f x) = money x \<and> COD (f x) = COD x"
  shows "no_new_gold w (set_player g (upd_mail i f q) w)"
  using assms(1,2) by (rule set_player_same_purse) (use assms post_inv_FindPlayer [OF assms(1,2)] in \<open>simp_all add: mailbox_ok_upd_mail\<close>)

lemma no_new_gold_result [simp]:
  "no_new_gold w (SendMailResult_full g i act err eq it c w') = no_new_gold w w'" "no_new_gold w (emit x w') = no_new_gold w w'"
  by (simp_all add: no_new_gold_def)

lemma MailMarkAsRead_inv: "post_inv w \<Longrightarrow> no_new_gold w (MailMarkAsRead e g mb i w)"
  unfolding MailMarkAsRead_def at_mailbox_def
  by (auto split: option.splits intro!: no_new_gold_refl set_player_letter)

lemma MailDelete_inv: "post_inv w \<Longrightarrow> no_new_gold w (MailDelete e g mb i w)"
  unfolding MailDelete_def at_mailbox_def Let_def
  by (auto split: option.splits intro!: no_new_gold_refl set_player_same_purse mailbox_ok_upd_mail dest: post_inv_FindPlayer)

lemma MailCreateTextItem_inv: "post_inv w \<Longrightarrow> no_new_gold w (MailCreateTextItem e g mb i w)"
  unfolding MailCreateTextItem_def at_mailbox_def Let_def
  by (auto split: option.splits intro!: no_new_gold_refl set_player_letter)

lemma save_and_commit:
  assumes inv: "post_inv w" and fp: "FindPlayer g w = Some p0" and dirty: "dirty_mailbox (chardb w) g p" and pre: "list_all item_stmt pre"
  defines "w' \<equiv> CommitTransaction (pre @ fst (SaveMail p)) (set_player g (snd (SaveMail p)) w)"
  shows "post_inv w'" "purses w' + unat (purse p0) = purses w + unat (purse p)" "letters w' \<le> letters w"
    "m \<in> set (m_mail p) \<Longrightarrow> mail_state m = MAIL_STATE_CHANGED \<Longrightarrow> money m = 0 \<Longrightarrow>
      map_of (tbl_mail (chardb w)) (messageID m) = Some r \<Longrightarrow> letters w' + unat (row_money r) \<le> letters w"
    "tbl_auctionhouse (chardb w') = tbl_auctionhouse (chardb w)"
proof -
  let ?u = "CommitTransaction pre w"
  note t = tables_Commit_item_stmts [OF pre, of w] and c = Commit_item_stmts [OF pre, of w]
  have w': "w' = CommitTransaction (fst (SaveMail p)) (set_player g (snd (SaveMail p)) ?u)"
    by (simp add: w'_def Commit_append Commit_set_player)
  note sc = SaveMail_commit [of ?u g p0 p, folded w']
  have "dirty_mailbox (chardb ?u) g p" using dirty dirty_mailbox_cong [OF t(1)] by simp
  with sc inv fp c t show "post_inv w'" "purses w' + unat (purse p0) = purses w + unat (purse p)" "letters w' \<le> letters w"
    "m \<in> set (m_mail p) \<Longrightarrow> mail_state m = MAIL_STATE_CHANGED \<Longrightarrow> money m = 0 \<Longrightarrow>
      map_of (tbl_mail (chardb w)) (messageID m) = Some r \<Longrightarrow> letters w' + unat (row_money r) \<le> letters w"
    "tbl_auctionhouse (chardb w') = tbl_auctionhouse (chardb w)" by simp_all
qed

lemma item_stmt_save [simp]: "list_all item_stmt (SaveGoldToDB g p)" "list_all item_stmt (SaveInventoryAndGoldToDB g p)"
  by (simp_all add: SaveGoldToDB_def SaveInventoryAndGoldToDB_def item_stmt_def)

lemma mailbox_letter:
  assumes "post_inv w" and "FindPlayer g w = Some p" and "GetMail i p = Some m"
  obtains r where "map_of (tbl_mail (chardb w)) i = Some r" and "row_receiver r = g" and "money m = ucast (row_money r)"
    and "COD m = ucast (row_cod r)" and "row_cod r < 0x80000000"
proof -
  have "letter_ok (chardb w) g m" and "messageID m = i"
    using post_inv_FindPlayer [OF assms(1,2)] GetMail_Some [OF assms(3)] by (auto simp: mailbox_ok_def list_all_iff)
  then obtain r where r: "map_of (tbl_mail (chardb w)) i = Some r" "row_receiver r = g" "money m = ucast (row_money r)" "COD m = ucast (row_cod r)"
    by (auto simp: letter_ok_def split: option.splits)
  moreover have "row_cod r < 0x80000000" using post_inv_row [OF assms(1) r(1)] by simp
  ultimately show thesis by (rule that)
qed

lemma narrow_le_MAX: "unat (v :: u64) < 2 ^ 32 \<Longrightarrow> v \<le> MAX_MONEY_AMOUNT"
  by (simp add: word_le_nat_alt unat_MAX_MONEY)

lemma unat_u32_bound: "unat (r :: u32) < 2 ^ 32"
  using unsigned_less [of r] by simp

text \<open>Taking coins: what leaves the letter arrives in the purse, up to the limit.\<close>

lemma MailTakeMoney_cases:
  assumes inv: "post_inv w" and fp: "FindPlayer g w = Some p" and m: "GetMail i p = Some m" and use: "can_use_mailbox e g mb"
    and ok: "\<not> unavailable e m" "coins = 0 \<or> coins = money m"
  defines "w' \<equiv> MailTakeMoney e g mb i coins w"
  shows "post_inv w'" and "purses w' + unat (purse p) = purses w + min (unat (purse p) + unat coins) (unat MAX_MONEY_AMOUNT)"
    and "letters w' + unat (money m) \<le> letters w" and "tbl_auctionhouse (chardb w') = tbl_auctionhouse (chardb w)"
proof -
  obtain r where r: "map_of (tbl_mail (chardb w)) i = Some r" "money m = ucast (row_money r)"
    using mailbox_letter [OF inv fp m] by metis
  let ?f = "\<lambda>m. m\<lparr>money := 0, mail_state := MAIL_STATE_CHANGED\<rparr>"
  let ?p = "upd_mail i ?f (p\<lparr>purse := ModifyMoney coins (purse p), m_mailsUpdated := True\<rparr>)"
  have pm: "purse p \<le> MAX_MONEY_AMOUNT" using post_inv_FindPlayer [OF inv fp] by (simp add: mailbox_ok_def)
  have cm: "coins \<le> MAX_MONEY_AMOUNT"
    using ok(2) r(2) unat_u32_bound [of "row_money r"] by (intro narrow_le_MAX) auto
  have dirty: "dirty_mailbox (chardb w) g ?p"
    using inv fp m by (rule dirty_after [where f = ?f]) (simp_all add: upd_mail_def ModifyMoney_le_MAX [OF cm pm])
  have w': "w' = CommitTransaction (SaveGoldToDB g ?p @ fst (SaveMail ?p)) (set_player g (snd (SaveMail ?p)) (SendMailResult g i MAIL_MONEY_TAKEN MAIL_OK w))"
    using fp m use ok by (auto simp: w'_def MailTakeMoney_def at_mailbox_def Let_def case_prod_unfold)
  note sc = save_and_commit [of "SendMailResult g i MAIL_MONEY_TAKEN MAIL_OK w" g p ?p "SaveGoldToDB g ?p", folded w']
  show "post_inv w'" "tbl_auctionhouse (chardb w') = tbl_auctionhouse (chardb w)" using sc inv fp dirty by simp_all
  show "purses w' + unat (purse p) = purses w + min (unat (purse p) + unat coins) (unat MAX_MONEY_AMOUNT)"
    using sc(2) inv fp dirty ModifyMoney_take [OF cm pm] by (simp add: upd_mail_def)
  have t: "?f m \<in> set (m_mail ?p)" "messageID m = i"
    using upd_first_target [of i "m_mail p" m ?f] m GetMail_Some [OF m] by (simp_all add: upd_mail_def GetMail_def)
  show "letters w' + unat (money m) \<le> letters w"
    using sc(4) [of "?f m" r] inv fp dirty t r by simp
qed

lemma MailTakeMoney_inv:
  assumes "post_inv w"
  shows "no_new_gold w (MailTakeMoney e g mb i coins w)"
proof (cases "FindPlayer g w")
  case None
  then show ?thesis using assms by (simp add: MailTakeMoney_def at_mailbox_def no_new_gold_refl)
next
  case p: (Some p)
  show ?thesis
  proof (cases "GetMail i p")
    case None
    with p show ?thesis using assms by (simp add: MailTakeMoney_def at_mailbox_def no_new_gold_refl)
  next
    case m: (Some m)
    show ?thesis
    proof (cases "can_use_mailbox e g mb \<and> \<not> unavailable e m \<and> (coins = 0 \<or> coins = money m)")
      case True
      then show ?thesis
        using MailTakeMoney_cases [OF assms p m, of e mb coins] by (auto simp: no_new_gold_def)
    next
      case False
      with p m show ?thesis using assms by (auto simp: MailTakeMoney_def at_mailbox_def no_new_gold_refl word_neq_0_conv)
    qed
  qed
qed

section \<open>Sending\<close>

lemma attach_items:
  assumes "fold (attach_item rc) its (p, d, tr) = (p', d', tr')"
  shows "purse p' = purse p" "m_mail p' = m_mail p" "m_mailsLoaded p' = m_mailsLoaded p" "m_money d' = m_money d" "m_COD d' = m_COD d"
  using assms
  by (induction its arbitrary: p d tr; force simp: attach_item_def MoveItemFromInventory_def AddItem_def Let_def)+

lemma attach_items_stmts:
  "list_all item_stmt tr \<Longrightarrow> list_all item_stmt (snd (snd (fold (attach_item rc) its (p, d, tr))))"
  by (induction its arbitrary: p d tr) (simp_all add: attach_item_def Let_def item_stmt_def)

lemma mailbox_ok_purse:
  "mailbox_ok db g p \<Longrightarrow> m_mail q = m_mail p \<Longrightarrow> m_mailsLoaded q = m_mailsLoaded p \<Longrightarrow> purse q \<le> MAX_MONEY_AMOUNT \<Longrightarrow> mailbox_ok db g q"
  by (simp add: mailbox_ok_def)

text \<open>The fee is all the gold that a letter costs.\<close>

lemma SendMail_commit_gold:
  fixes e :: PostEnv and rc acc :: u32 and its :: "Item list"
  assumes inv: "post_inv w" and fp: "FindPlayer g w = Some p" and id: "next_mailId w < 0xFFFFFFFE"
    and small: "req_money r < 0x100000000" and cod: "(ucast (req_COD r) :: u32) < 0x80000000"
    and en: "ucast (mail_cost (req_items r)) + req_money r \<le> purse p"
  defines "w' \<equiv> SendMail_commit e g r rc acc its p w"
  shows "post_inv w'" and "purses w' + letters w' + unat (ucast (mail_cost (req_items r)) + req_money r) = purses w + letters w + unat (req_money r)"
    and "tbl_auctionhouse (chardb w') = tbl_auctionhouse (chardb w)"
proof -
  let ?req = "ucast (mail_cost (req_items r)) + req_money r"
  let ?p1 = "p\<lparr>purse := ModifyMoney (- ?req) (purse p)\<rparr>"
  obtain p2 d1 tr1 where at: "fold (attach_item rc) its (?p1, MailDraft_new (req_subject r) (req_body r), []) = (p2, d1, tr1)"
    by (metis prod_cases3)
  note a = attach_items [OF at]
  define d2 where "d2 = AddCOD (ucast (req_COD r)) (AddMoney (req_money r) d1)"
  define w1 where "w1 = emit (AchievementCriteria g GOLD_SPENT_FOR_MAIL (ucast (mail_cost (req_items r)))) (SendMailResult g 0 MAIL_SEND MAIL_OK w)"
  define w2 where "w2 = set_player g p2 w1"
  define sn :: MailSender where "sn = \<lparr>m_messageType = MAIL_NORMAL, m_senderId = g,
      m_stationery = (if p_isGameMaster p then MAIL_STATIONERY_GM else MAIL_STATIONERY_DEFAULT)\<rparr>"
  define chk where "chk = (if req_body r = [] then MAIL_CHECK_MASK_COPIED else MAIL_CHECK_MASK_HAS_BODY)"
  define dl where "dl = (if its \<noteq> [] \<and> p_account p \<noteq> acc then MAIL_DELIVERY_DELAY e else 0)"
  define w3 where "w3 = deliver e d2 rc sn chk dl (CommitTransaction tr1 w2)"
  have tr1: "list_all item_stmt tr1" using attach_items_stmts [of "[]" rc its ?p1 "MailDraft_new (req_subject r) (req_body r)"] at by simp
  have pm: "purse p \<le> MAX_MONEY_AMOUNT" using post_inv_FindPlayer [OF inv fp] by (simp add: mailbox_ok_def)
  have paid: "purse p2 = purse p - ?req" using a(1) ModifyMoney_pay [OF en pm] by simp
  have inv1: "post_inv w1" and fp1: "FindPlayer g w1 = Some p" and db1: "chardb w1 = chardb w" and n1: "next_mailId w1 = next_mailId w"
    using inv fp by (simp_all add: w1_def) (simp_all add: emit_def SendMailResult_full_def)
  have mb: "mailbox_ok (chardb w1) g p2"
    using post_inv_FindPlayer [OF inv1 fp1] by (rule mailbox_ok_purse) (use a paid pay_le_MAX [OF en pm] in simp_all)
  note inv2 = post_inv_set_player [OF inv1 mb, folded w2_def]
  have g2: "purses w2 + unat (purse p) = purses w + (unat (purse p) - unat ?req)" "letters w2 = letters w"
    using set_player_gold [OF inv1 fp1, of p2, folded w2_def] paid unat_pay [OF en] by (simp_all add: w1_def)
  have le: "unat ?req \<le> unat (purse p)" using en by (simp add: word_le_nat_alt)
  have inv3: "post_inv (CommitTransaction tr1 w2)" using inv2 by (simp add: Commit_item_stmts [OF tr1])
  have d2: "m_money d2 = req_money r" "m_COD d2 = ucast (ucast (req_COD r) :: u32)"
    by (simp_all add: d2_def AddCOD_def AddMoney_def)
  have n2: "next_mailId (CommitTransaction tr1 w2) < 0xFFFFFFFE"
    using id n1 by (simp add: CommitTransaction_def w2_def set_player_def)
  have inv4: "post_inv w3"
    unfolding w3_def using inv3 n2 small cod by (intro deliver_inv) (simp_all add: d2 word_less_nat_alt)
  have g3: "purses w3 = purses w2" "letters w3 = letters w2 + unat (req_money r)"
    using deliver_gold [OF inv3, of d2 e rc sn chk dl] small by (simp_all add: w3_def d2 Commit_item_stmts [OF tr1])
  obtain tr3 u3 where sm: "SendMailTo e d2 rc sn chk dl (tr1, w2) = (tr3, u3)" by (cases "SendMailTo e d2 rc sn chk dl (tr1, w2)")
  then have st: "CommitTransaction tr3 u3 = w3" using settle_SendMailTo [of e d2 rc sn chk dl "(tr1, w2)"] by (simp add: w3_def)
  have "w' = CommitTransaction (tr3 @ SaveInventoryAndGoldToDB g p2) u3"
    unfolding w'_def SendMail_commit_def Let_def at
    using sm by (simp add: d2_def w2_def w1_def sn_def chk_def dl_def)
  then have w': "w' = CommitTransaction (SaveInventoryAndGoldToDB g p2) w3" by (simp add: Commit_append st)
  show "post_inv w'" using inv4 by (simp add: w' Commit_item_stmts)
  show "purses w' + letters w' + unat ?req = purses w + letters w + unat (req_money r)"
    using g2 g3 le by (simp add: w' Commit_item_stmts)
  show "tbl_auctionhouse (chardb w') = tbl_auctionhouse (chardb w)"
    by (simp add: w' tables_Commit_item_stmts w3_def deliver_tables tr1) (simp add: w2_def set_player_def db1)
qed

lemma unat_mail_cost: "length guids \<le> 160 \<Longrightarrow> unat (mail_cost guids) = 30 * max 1 (length guids)"
  by (cases guids) (auto simp: mail_cost_def unat_word_ariths unsigned_of_nat take_bit_nat_eq_self)

lemma reqmoney_exact:
  assumes "length (req_items r) \<le> 160" and "req_money r < 0x100000000"
  shows "unat (ucast (mail_cost (req_items r)) + req_money r) = unat (mail_cost (req_items r)) + unat (req_money r)"
  using assms unat_mail_cost [of "req_items r"] by (simp add: unat_word_ariths word_less_nat_alt max_def)

lemma SendMail_Inr:
  assumes "SendMail e g r w = Inr w'"
  shows "(\<exists>x. w' = emit x w) \<or> w' = w \<or> (\<exists>p rc acc its. FindPlayer g w = Some p \<and> w' = SendMail_commit e g r rc acc its p w \<and>
    (HasEnoughMoney (ucast (mail_cost (req_items r)) + req_money r) (purse p) \<or> p_isGameMaster p))"
  using assms unfolding SendMail_def Let_def SendMailResult_full_def
  by (auto split: option.splits sum.splits if_splits)

lemma SendMail_inv:
  assumes inv: "post_inv w" and id: "next_mailId w < 0xFFFFFFFE" and small: "req_money r < 0x100000000"
    and cod: "(ucast (req_COD r) :: u32) < 0x80000000" and len: "length (req_items r) \<le> 12"
    and gm: "\<And>p. FindPlayer g w = Some p \<Longrightarrow> p_isGameMaster p \<Longrightarrow>
      HasEnoughMoney (ucast (mail_cost (req_items r)) + req_money r) (purse p)" and r: "SendMail e g r w = Inr w'"
  shows "no_new_gold w w'" "tbl_auctionhouse (chardb w') = tbl_auctionhouse (chardb w)"
proof -
  have rq: "unat (ucast (mail_cost (req_items r)) + req_money r) = unat (mail_cost (req_items r)) + unat (req_money r)"
    using len small by (intro reqmoney_exact) simp_all
  have paid: "(\<exists>x. w' = emit x w) \<or> w' = w \<or> (\<exists>p rc acc its. FindPlayer g w = Some p \<and> w' = SendMail_commit e g r rc acc its p w \<and>
      HasEnoughMoney (ucast (mail_cost (req_items r)) + req_money r) (purse p))"
    using SendMail_Inr [OF r] gm by blast
  have "no_new_gold w w' \<and> tbl_auctionhouse (chardb w') = tbl_auctionhouse (chardb w)"
    using paid
  proof (elim disjE exE conjE)
    fix p rc acc its
    assume p: "FindPlayer g w = Some p" "w' = SendMail_commit e g r rc acc its p w"
      "HasEnoughMoney (ucast (mail_cost (req_items r)) + req_money r) (purse p)"
    note c = SendMail_commit_gold [OF inv p(1) id small cod, of e rc acc its, folded p(2)]
    show ?thesis
      using c p(3) rq by (simp add: no_new_gold_def HasEnoughMoney_def)
  qed (use inv in \<open>auto simp: no_new_gold_refl, auto simp: emit_def\<close>)
  then show "no_new_gold w w'" "tbl_auctionhouse (chardb w') = tbl_auctionhouse (chardb w)" by simp_all
qed

section \<open>Cash on delivery\<close>

lemma sint_neg_32:
  assumes "uint (x :: u32) < 2 ^ 31"
  shows "sint (- x) = - uint x"
proof (cases "x = 0")
  case False
  then have pos: "0 < uint x" by (metis uint_0_iff uint_ge_0 order_le_less)
  with assms have u: "uint (- x) = 2 ^ 32 - uint x"
    by (simp add: uint_word_ariths zmod_zminus1_eq_if)
  have "uint (- x) div 2 ^ 31 = 1"
    using u assms pos by (intro int_div_pos_eq [where r = "uint (- x) - 2 ^ 31"]) simp_all
  then have "bit (uint (- x)) 31" by (simp add: bit_iff_odd)
  moreover have "take_bit 32 (uint (- x)) = uint (- x)"
    using uint_bounded [of "- x"] by (intro take_bit_int_eq_self) simp_all
  ultimately have "sint (- x) = uint (- x) - 2 ^ 32" by (simp add: sint_uint signed_take_bit_eq_take_bit_minus)
  with u show ?thesis by simp
qed simp

lemma neg_int32_small:
  assumes "v < 0x80000000"
  shows "neg_int32 v = - v"
proof -
  have v: "uint v < 2 ^ 31" using assms by (simp add: word_less_def)
  then have "uint (ucast v :: u32) = uint v"
    by (simp add: unsigned_ucast_eq unsigned_take_bit_eq take_bit_int_eq_self)
  with v have "sint (- (ucast v :: u32)) = - uint v" by (simp add: sint_neg_32)
  then have "neg_int32 v = word_of_int (- uint v)" by (simp add: neg_int32_def scast_eq)
  then show ?thesis by simp
qed

lemma set_upd_player [simp]: "FindPlayer g w = Some p \<Longrightarrow> set_player g q (upd_player g f w) = set_player g q w"
  by (simp add: upd_player_set) (simp add: set_player_def store_put_put)

text \<open>The payment, with its transaction committed: a letter to the sender, when that character still exists.\<close>

definition settled_payment :: "PostEnv \<Rightarrow> Mail \<Rightarrow> 'a PostWorld_scheme \<Rightarrow> 'a PostWorld_scheme" where
  "settled_payment e m w = (if COD m > 0 then settle (cod_payment e m ([], w)) else w)"

lemma settled_payment_deliver:
  "settled_payment e m w =
     (if COD m > 0 \<and> (FindPlayer (mail_sender m) w \<noteq> None \<or> account_of e (mail_sender m) \<noteq> 0)
      then deliver e (AddMoney (COD m) (MailDraft_new (subject m) [])) (mail_sender m)
             \<lparr>m_messageType = MAIL_NORMAL, m_senderId = mail_receiver m, m_stationery = MAIL_STATIONERY_DEFAULT\<rparr>
             MAIL_CHECK_MASK_COD_PAYMENT 0 w
      else w)"
  by (simp add: settled_payment_def cod_payment_def settle_SendMailTo)

lemma settled_payment:
  assumes inv: "post_inv w" and id: "next_mailId w < 0xFFFFFFFE" and cod: "COD m < 0x80000000"
  shows "post_inv (settled_payment e m w)" "purses (settled_payment e m w) = purses w"
    "letters (settled_payment e m w) \<le> letters w + unat (COD m)"
    "tbl_auctionhouse (chardb (settled_payment e m w)) = tbl_auctionhouse (chardb w)"
proof -
  have c32: "COD m < 0x100000000" using cod by (rule less_trans) simp
  let ?d = "AddMoney (COD m) (MailDraft_new (subject m) [])"
  have d: "m_money ?d = COD m" "m_COD ?d = 0" by (simp_all add: AddMoney_def MailDraft_new_def)
  note dg = deliver_gold [OF inv, of ?d] and di = deliver_inv [OF inv id, of ?d]
  show "post_inv (settled_payment e m w)" "purses (settled_payment e m w) = purses w"
    "letters (settled_payment e m w) \<le> letters w + unat (COD m)"
    "tbl_auctionhouse (chardb (settled_payment e m w)) = tbl_auctionhouse (chardb w)"
    using inv c32 dg di by (simp_all add: settled_payment_deliver d deliver_tables)
qed

lemma deliver_player:
  assumes "FindPlayer g w = Some p"
  obtains q where "FindPlayer g (deliver e d rcv sn chk dl w) = Some q" and "same_person p q"
    and "m_mail q = m_mail p \<or> (\<exists>m. m_mail q = m # m_mail p \<and> messageID m = next_mailId w)"
proof (cases "g = rcv")
  case True
  show thesis
    by (rule that [of "upd_mailbox (prepared e d rcv w) (delivered_mail e d rcv sn chk dl w) (arrival e (delivery_time e dl) p)"])
       (use assms True in \<open>simp_all add: deliver_FindPlayer deliver_same_person delivered_mail_def draft_mail_def\<close>)
next
  case False
  with assms that [of p] show thesis by (simp add: deliver_FindPlayer)
qed

lemma settled_payment_player:
  assumes inv: "post_inv w" and fp: "FindPlayer g w = Some p" and m: "GetMail i p = Some m"
  obtains q where "FindPlayer g (settled_payment e m' w) = Some q" and "same_person p q" and "GetMail i q = Some m"
proof -
  have "messageID m = i" "letter_ok (chardb w) g m"
    using GetMail_Some [OF m] post_inv_FindPlayer [OF inv fp] by (auto simp: mailbox_ok_def list_all_iff)
  then have ne: "next_mailId w \<noteq> i" using post_inv_fresh [OF inv] by (auto simp: letter_ok_def)
  show thesis
  proof (cases "settled_payment e m' w = w")
    case True
    with that fp m show thesis by simp
  next
    case False
    then obtain d rcv sn chk dl where s: "settled_payment e m' w = deliver e d rcv sn chk dl w"
      by (auto simp: settled_payment_deliver split: if_splits)
    obtain q where q: "FindPlayer g (deliver e d rcv sn chk dl w) = Some q" "same_person p q"
        "m_mail q = m_mail p \<or> (\<exists>m. m_mail q = m # m_mail p \<and> messageID m = next_mailId w)"
      using deliver_player [OF fp] by blast
    then have "GetMail i q = Some m" using m ne by (auto simp: GetMail_def)
    with that q s show thesis by simp
  qed
qed

text \<open>The player after taking an item, before the mailbox is saved.\<close>

definition taken_item :: "PostEnv \<Rightarrow> u32 \<Rightarrow> Item \<Rightarrow> Mail \<Rightarrow> PostPlayer \<Rightarrow> PostPlayer" where
  "taken_item e i x m q =
     (RemoveMItem (item_guid x) (upd_mail i (\<lambda>m. m\<lparr>COD := 0, mail_state := MAIL_STATE_CHANGED\<rparr>)
        (q\<lparr>purse := (if COD m > 0 then ModifyMoney (neg_int32 (COD m)) (purse q) else purse q), m_mailsUpdated := True\<rparr>)))
      \<lparr>inventory := store_item e (inventory q) x\<rparr>"

lemma take_item_end_eq:
  assumes "FindPlayer g (snd s) = Some q"
  shows "take_item_end e g i it x m s =
    SendMailResult_full g i MAIL_ITEM_TAKEN MAIL_OK 0 it (item_count x)
      (CommitTransaction (SaveInventoryAndGoldToDB g (taken_item e i x m q) @ fst (SaveMail (taken_item e i x m q)))
        (set_player g (snd (SaveMail (taken_item e i x m q))) (settle s)))"
  using assms unfolding take_item_end_def Let_def taken_item_def
  by (simp add: FindPlayer_upd_player case_prod_unfold Commit_append Commit_set_player)

text \<open>Taking an item: the coins the receiver pays go to the sender.\<close>

lemma MailTakeItem_cases:
  fixes e :: PostEnv and mb :: u64
  assumes inv: "post_inv w" and id: "next_mailId w < 0xFFFFFFFE" and fp: "FindPlayer g w = Some p" and m: "GetMail i p = Some m"
    and use: "can_use_mailbox e g mb" and ok: "\<not> unavailable e m" "HasEnoughMoney (COD m) (purse p)"
    and st: "CanStoreItem e g p (GetMItem it p) = EQUIP_ERR_OK"
  defines "w' \<equiv> MailTakeItem e g mb i it w"
  shows "no_new_gold w w'" and "tbl_auctionhouse (chardb w') = tbl_auctionhouse (chardb w)"
proof -
  obtain r where r: "map_of (tbl_mail (chardb w)) i = Some r" "COD m = ucast (row_cod r)" "row_cod r < 0x80000000"
    using mailbox_letter [OF inv fp m] by metis
  then have cod: "COD m < 0x80000000" by (simp add: word_less_nat_alt)
  have pm: "purse p \<le> MAX_MONEY_AMOUNT" using post_inv_FindPlayer [OF inv fp] by (simp add: mailbox_ok_def)
  let ?x = "the (GetMItem it p)"
  let ?f1 = "\<lambda>m. (Mail_RemoveItem it m)\<lparr>removedItems := removedItems m @ [it]\<rparr>"
  let ?f2 = "\<lambda>m. m\<lparr>COD := 0, mail_state := MAIL_STATE_CHANGED\<rparr>"
  define w1 where "w1 = set_player g (upd_mail i ?f1 p) w"
  have mb1: "mailbox_ok (chardb w) g (upd_mail i ?f1 p)"
    using post_inv_FindPlayer [OF inv fp] by (rule mailbox_ok_upd_mail) (simp add: Mail_RemoveItem_def)
  note inv1 = post_inv_set_player [OF inv mb1, folded w1_def]
  have g1: "purses w1 = purses w" "letters w1 = letters w" using set_player_gold [OF inv fp, of "upd_mail i ?f1 p", folded w1_def] by simp_all
  have db1: "chardb w1 = chardb w" "next_mailId w1 = next_mailId w" by (simp_all add: w1_def set_player_def)
  have fp1: "FindPlayer g w1 = Some (upd_mail i ?f1 p)" by (simp add: w1_def FindPlayer_set_player)
  have m1: "GetMail i (upd_mail i ?f1 p) = Some (?f1 m)"
  proof -
    have "find (\<lambda>m. messageID m = i) (upd_first i ?f1 ms) = map_option ?f1 (find (\<lambda>m. messageID m = i) ms)" for ms
      by (induction ms) (auto simp: Mail_RemoveItem_def)
    then show ?thesis using m by (simp add: GetMail_def upd_mail_def)
  qed
  define w2 where "w2 = settled_payment e m w1"
  note stp = settled_payment [OF inv1 _ cod, of e, folded w2_def]
  obtain q where q: "FindPlayer g w2 = Some q" "same_person (upd_mail i ?f1 p) q" "GetMail i q = Some (?f1 m)"
    using settled_payment_player [OF inv1 fp1 m1, of e m, folded w2_def] .
  have pq: "purse q = purse p" using q(2) by (simp add: same_person_def)
  define q4 where "q4 = taken_item e i ?x m q"
  have paid: "purse q4 = purse p - COD m"
    using ok(2) pm pq cod by (auto simp: q4_def taken_item_def RemoveMItem_def upd_mail_def neg_int32_small ModifyMoney_pay HasEnoughMoney_def word_gt_0)
  have le: "COD m \<le> purse p" using ok(2) by (simp add: HasEnoughMoney_def)
  have inv2: "post_inv w2" using stp id db1 by simp
  have dirty: "dirty_mailbox (chardb w2) g q4"
    using inv2 q(1,3)
    by (rule dirty_after [where f = ?f2]) (use paid pay_le_MAX [OF le pm] in \<open>simp_all add: q4_def taken_item_def RemoveMItem_def upd_mail_def\<close>)
  define sp where "sp = (if COD m > 0 then cod_payment e m ([], w1) else ([], w1))"
  then have sw: "settle sp = w2" by (simp add: w2_def settled_payment_def)
  then have uq: "FindPlayer g (snd sp) = Some q" using q(1) by (metis FindPlayer_Commit)
  have w1': "upd_player g (upd_mail i ?f1) w = w1" using fp by (simp add: w1_def upd_player_set)
  have "w' = take_item_end e g i it ?x m sp"
    unfolding w'_def MailTakeItem_def at_mailbox_def Let_def
    using fp m use ok st by (simp add: take_item_def w1' sp_def)
  then have w': "w' = SendMailResult_full g i MAIL_ITEM_TAKEN MAIL_OK 0 it (item_count ?x)
      (CommitTransaction (SaveInventoryAndGoldToDB g q4 @ fst (SaveMail q4)) (set_player g (snd (SaveMail q4)) w2))"
    using take_item_end_eq [OF uq, of e i it ?x m] by (simp add: sw q4_def)
  note sc = save_and_commit [OF inv2 q(1) dirty, of "SaveInventoryAndGoldToDB g q4"]
  show "no_new_gold w w'"
    using sc(1-3) stp(2,3) g1 id db1 paid pq unat_pay [OF le] le by (simp add: no_new_gold_def w' word_le_nat_alt)
  show "tbl_auctionhouse (chardb w') = tbl_auctionhouse (chardb w)"
    using sc(5) stp(4) id db1 by (simp add: w')
qed

end
