(* ===== verification/MailProps.thy ===== *)
theory MailProps
  imports PostInv
begin

text \<open>
  The remaining operations on letters, and what holds of the mail system as a whole.
\<close>

section \<open>Taking items\<close>

lemma MailTakeItem_inv:
  assumes inv: "post_inv w" and id: "next_mailId w < 0xFFFFFFFE"
  shows "no_new_gold w (MailTakeItem e g mb i it w)"
    and "tbl_auctionhouse (chardb (MailTakeItem e g mb i it w)) = tbl_auctionhouse (chardb w)"
proof -
  have "no_new_gold w (MailTakeItem e g mb i it w) \<and> tbl_auctionhouse (chardb (MailTakeItem e g mb i it w)) = tbl_auctionhouse (chardb w)"
  proof (cases "\<exists>p m. FindPlayer g w = Some p \<and> GetMail i p = Some m \<and> can_use_mailbox e g mb \<and> \<not> unavailable e m \<and>
      HasEnoughMoney (COD m) (purse p) \<and> CanStoreItem e g p (GetMItem it p) = EQUIP_ERR_OK")
    case True
    then show ?thesis using MailTakeItem_cases [OF inv id] by blast
  next
    case False
    then show ?thesis
      using inv by (auto simp: MailTakeItem_def at_mailbox_def Let_def no_new_gold_refl split: option.splits)
  qed
  then show "no_new_gold w (MailTakeItem e g mb i it w)"
    and "tbl_auctionhouse (chardb (MailTakeItem e g mb i it w)) = tbl_auctionhouse (chardb w)" by simp_all
qed

section \<open>Returning\<close>

lemma item_stmts_return:
  "list_all item_stmt (map (\<lambda>x. CHAR_DEL_ITEM_INSTANCE (f x)) xs)"
  "list_all item_stmt (concat (map (\<lambda>x. [SAVE_ITEM (h x), CHAR_UPD_ITEM_OWNER o' (f x)]) xs))"
  by (induction xs) (simp_all add: item_stmt_def)

lemma settle_fold_emit [simp]:
  "post_inv (fold (\<lambda>x. emit (f x)) xs w) = post_inv w" "purses (fold (\<lambda>x. emit (f x)) xs w) = purses w"
  "letters (fold (\<lambda>x. emit (f x)) xs w) = letters w"
  by (induction xs arbitrary: w) simp_all

lemma return_gold:
  fixes e :: PostEnv and acc a b :: u32
  assumes inv: "post_inv (settle s)" and id: "next_mailId (snd s) < 0xFFFFFFFE" and small: "m_money d < 0x100000000" and cod: "m_COD d = 0"
  defines "w' \<equiv> settle (SendReturnToSender e d acc a b s)"
  shows "post_inv w'" "purses w' = purses (settle s)" "letters w' \<le> letters (settle s) + unat (m_money d)"
    "tbl_auctionhouse (chardb w') = tbl_auctionhouse (chardb (settle s))"
proof -
  obtain tr w where s: "s = (tr, w)" by (cases s)
  let ?del = "map (\<lambda>x. CHAR_DEL_ITEM_INSTANCE (item_guid (snd x))) (m_items d)"
  let ?own = "concat (map (\<lambda>x. [SAVE_ITEM (snd x), CHAR_UPD_ITEM_OWNER b (item_guid (snd x))]) (m_items d))"
  consider (gone) "w' = CommitTransaction ?del (fold (\<lambda>x. emit (FreeItem (item_guid (snd x)))) (m_items d) (settle s))"
    | (sent) sn dl where "w' = deliver e d b sn MAIL_CHECK_MASK_RETURNED dl (CommitTransaction ?own (settle s))"
  proof (cases "FindPlayer b w = None \<and> account_of e b = 0")
    case True
    then show thesis
      by (intro gone) (simp add: w'_def s SendReturnToSender_def deleteIncludedItems_def Commit_append Commit_fold_emit)
  next
    case False
    then have "SendReturnToSender e d acc a b s = SendMailTo e d b
        \<lparr>m_messageType = MAIL_NORMAL, m_senderId = a, m_stationery = MAIL_STATIONERY_DEFAULT\<rparr> MAIL_CHECK_MASK_RETURNED
        (if m_items d \<noteq> [] \<and> acc \<noteq> (if FindPlayer b w = None then account_of e b else 0) then MAIL_DELIVERY_DELAY e else 0) (tr @ ?own, w)"
      by (cases "FindPlayer b w") (simp_all add: s SendReturnToSender_def Let_def)
    then show thesis by (intro sent) (simp add: w'_def settle_SendMailTo s Commit_append)
  qed
  then have "post_inv w' \<and> purses w' = purses (settle s) \<and> letters w' \<le> letters (settle s) + unat (m_money d)
    \<and> tbl_auctionhouse (chardb w') = tbl_auctionhouse (chardb (settle s))"
  proof cases
    case gone
    show ?thesis
      using inv by (simp add: gone Commit_item_stmts tables_Commit_item_stmts item_stmts_return)
  next
    case (sent sn dl)
    have v: "post_inv (CommitTransaction ?own (settle s))" "next_mailId (CommitTransaction ?own (settle s)) < 0xFFFFFFFE"
      using inv id by (simp_all add: Commit_item_stmts item_stmts_return) (simp add: CommitTransaction_def)
    have "post_inv w'"
      unfolding sent using v small cod by (intro deliver_inv) simp_all
    with deliver_gold [OF v(1) small] show ?thesis
      by (simp add: sent Commit_item_stmts deliver_tables tables_Commit_item_stmts item_stmts_return)
  qed
  then show "post_inv w'" "purses w' = purses (settle s)" "letters w' \<le> letters (settle s) + unat (m_money d)"
    "tbl_auctionhouse (chardb w') = tbl_auctionhouse (chardb (settle s))" by simp_all
qed

lemma erase_first_set:
  "distinct (map messageID ms) \<Longrightarrow> set (erase_first i ms) = {m \<in> set ms. messageID m \<noteq> i}"
  "distinct (map messageID ms) \<Longrightarrow> distinct (map messageID (erase_first i ms))"
  by (induction ms) (auto simp: image_iff)

text \<open>A letter that leaves the mailbox and the database.\<close>

lemma remove_letter:
  assumes inv: "post_inv w" and fp: "FindPlayer g w = Some p" and m: "GetMail i p = Some m"
    and q: "m_mail q = erase_first i (m_mail p)" "purse q = purse p" "m_mailsLoaded q = m_mailsLoaded p"
  defines "w' \<equiv> CommitTransaction [CHAR_DEL_MAIL_BY_ID i, CHAR_DEL_MAIL_ITEM_BY_ID i] (set_player g q w)"
  shows "post_inv w'" "purses w' = purses w" "letters w' + unat (money m) = letters w"
    "tbl_auctionhouse (chardb w') = tbl_auctionhouse (chardb w)" "next_mailId w' = next_mailId w"
proof -
  note o = post_inv_ordered [OF inv]
  obtain r where r: "map_of (tbl_mail (chardb w)) i = Some r" "row_receiver r = g" "money m = ucast (row_money r)"
    using mailbox_letter [OF inv fp m] by metis
  have tbl: "tbl_mail (chardb w') = store_erase i (tbl_mail (chardb w))" and onl: "online w' = store_put g q (online w)"
    by (simp_all add: w'_def CommitTransaction_def set_player_def)
  show "tbl_auctionhouse (chardb w') = tbl_auctionhouse (chardb w)" and nid: "next_mailId w' = next_mailId w"
    by (simp_all add: w'_def CommitTransaction_def set_player_def)
  show "purses w' = purses w"
    using sum_store_put [of "online w" "\<lambda>p. unat (purse p)" g q] o fp q(2) by (simp add: purses_def onl FindPlayer_def)
  show "letters w' + unat (money m) = letters w"
    using sum_store_erase [of "tbl_mail (chardb w)" "\<lambda>r. unat (row_money r)" i] o r by (simp add: letters_def tbl)
  have keep: "letter_ok (chardb w') h x" if "letter_ok (chardb w) h x" "messageID x \<noteq> i" for h x
    using that by (simp add: letter_ok_def tbl std_map.find_erase)
  have mb: "mailbox_ok (chardb w) g p" using inv fp by (rule post_inv_FindPlayer)
  then have "mailbox_ok (chardb w') g q"
    using q keep erase_first_set [of "m_mail p" i] by (auto simp: mailbox_ok_def list_all_iff)
  moreover have "mailbox_ok (chardb w') h x" if "h \<noteq> g" "map_of (online w) h = Some x" for h x
  proof -
    have "mailbox_ok (chardb w) h x" using inv that by (simp add: post_inv_FindPlayer FindPlayer_def)
    then show ?thesis using keep r that(1) by (fastforce simp: mailbox_ok_def list_all_iff letter_ok_def)
  qed
  ultimately have "std_map.entries_ok (mailbox_ok (chardb w')) (online w')"
    using o by (auto simp: std_map.entries_ok_def onl std_map.find_put std_map.ordered_put)
  then show "post_inv w'"
    using inv by (simp add: post_inv_def nid tbl std_map.entries_ok_erase)
qed

lemma take_attachments_simps:
  assumes "take_attachments xs (p, d) = (p', d')"
  shows "m_mail p' = m_mail p" "purse p' = purse p" "m_mailsLoaded p' = m_mailsLoaded p" "m_money d' = m_money d" "m_COD d' = m_COD d"
  using assms unfolding take_attachments_def
  by (induction xs arbitrary: p d; force simp: RemoveMItem_def AddItem_def split: option.splits)+

lemma MailReturnToSender_inv:
  assumes inv: "post_inv w" and id: "next_mailId w < 0xFFFFFFFE"
  shows "no_new_gold w (MailReturnToSender e g mb i w)"
    and "tbl_auctionhouse (chardb (MailReturnToSender e g mb i w)) = tbl_auctionhouse (chardb w)"
proof -
  let ?w = "MailReturnToSender e g mb i w"
  have "no_new_gold w ?w \<and> tbl_auctionhouse (chardb ?w) = tbl_auctionhouse (chardb w)"
  proof (cases "\<exists>p m. FindPlayer g w = Some p \<and> GetMail i p = Some m \<and> can_use_mailbox e g mb \<and> \<not> unavailable e m")
    case False
    then show ?thesis
      using inv by (auto simp: MailReturnToSender_def at_mailbox_def Let_def no_new_gold_refl split: option.splits)
  next
    case True
    then obtain p m where fp: "FindPlayer g w = Some p" and m: "GetMail i p = Some m" and ok: "can_use_mailbox e g mb" "\<not> unavailable e m"
      by blast
    let ?tr = "[CHAR_DEL_MAIL_BY_ID i, CHAR_DEL_MAIL_ITEM_BY_ID i]" and ?p1 = "RemoveMail i p"
    define d0 where "d0 = (if mailTemplateId m \<noteq> 0 then MailDraft_template (mailTemplateId m) False else MailDraft_new (subject m) (body m))"
    obtain p2 d1 where ta: "take_attachments (mail_items m) (?p1, d0) = (p2, d1)" by (cases "take_attachments (mail_items m) (?p1, d0)")
    note tas = take_attachments_simps [OF ta]
    obtain r :: MailRow where r: "money m = ucast (row_money r)" by (rule mailbox_letter [OF inv fp m]) blast
    have small: "money m < 0x100000000" by (rule narrow_of_le [where r = "row_money r"]) (simp add: r)
    have rl: "post_inv v \<and> purses v = purses w \<and> letters v + unat (money m) = letters w \<and>
        tbl_auctionhouse (chardb v) = tbl_auctionhouse (chardb w) \<and> next_mailId v = next_mailId w"
      if "v = CommitTransaction ?tr (set_player g q w)" "m_mail q = m_mail ?p1" "purse q = purse ?p1" "m_mailsLoaded q = m_mailsLoaded ?p1" for q v
      using remove_letter [OF inv fp m, of q] that by (simp add: RemoveMail_def)
    have "d0\<lparr>m_money := m_money d0, m_COD := 0\<rparr> = d0" by (simp add: d0_def MailDraft_template_def MailDraft_new_def)
    then have cod: "m_COD d1 = 0" using tas(5) by (metis MailDraft.select_convs(7) MailDraft.surjective MailDraft.update_convs(7))
    show ?thesis
    proof (cases "messageType m = MAIL_NORMAL \<and> mail_sender m \<noteq> 0")
      case True
      let ?s = "(?tr, set_player g p2 w)"
      have v: "post_inv (settle ?s)" "next_mailId (snd ?s) < 0xFFFFFFFE" using rl [of _ p2] tas id by (simp_all add: set_player_def)
      note rg = return_gold [OF v, of "AddMoney (money m) d1" e "p_account p" "mail_receiver m" "mail_sender m"]
      have "?w = SendMailResult g i MAIL_RETURNED_TO_SENDER MAIL_OK
          (settle (SendReturnToSender e (AddMoney (money m) d1) (p_account p) (mail_receiver m) (mail_sender m) ?s))"
        unfolding MailReturnToSender_def at_mailbox_def Let_def
        using fp m ok True ta by (simp add: d0_def [symmetric] case_prod_unfold)
      then show ?thesis
        using rg rl [of _ p2] tas small cod by (simp add: no_new_gold_def AddMoney_def)
    next
      case False
      then have "?w = SendMailResult g i MAIL_RETURNED_TO_SENDER MAIL_OK (CommitTransaction ?tr (set_player g ?p1 w))"
        unfolding MailReturnToSender_def at_mailbox_def Let_def using fp m ok by auto
      then show ?thesis using rl [of _ ?p1] by (auto simp: no_new_gold_def)
    qed
  qed
  then show "no_new_gold w ?w" and "tbl_auctionhouse (chardb ?w) = tbl_auctionhouse (chardb w)" by simp_all
qed

end
