(* ===== verification/MailLoad.thy ===== *)
theory MailLoad
  imports MailProps
begin

text \<open>
  Loading a mailbox from the database: \<^verbatim>\<open>Player::_LoadMail\<close> builds the letters of the rows that are addressed to the
  player, with the items that are attached to them. Letters that have expired are returned or deleted
  by \<^verbatim>\<open>ObjectMgr::ReturnOrDeleteOldMails\<close>.
\<close>

section \<open>Reading rows\<close>

text \<open>\<open>appended g ms w w'\<close>: letters, auctions and other players are as before, the mailbox of \<open>g\<close> gained \<open>ms\<close> at its end.\<close>

definition appended :: "u32 \<Rightarrow> Mail list \<Rightarrow> 'a PostWorld_scheme \<Rightarrow> 'a PostWorld_scheme \<Rightarrow> bool" where
  "appended g ms w w' \<longleftrightarrow>
     tbl_mail (chardb w') = tbl_mail (chardb w) \<and> tbl_auctionhouse (chardb w') = tbl_auctionhouse (chardb w)
     \<and> next_mailId w' = next_mailId w
     \<and> (\<exists>f. online w' = upd_store g f (online w) \<and> (\<forall>p. same_person p (f p) \<and> m_mail (f p) = m_mail p @ ms))"

lemma same_person_trans: "same_person p q \<Longrightarrow> same_person q r \<Longrightarrow> same_person p r"
  by (simp add: same_person_def)

lemma upd_store_id: "ordered_store s \<Longrightarrow> upd_store k (\<lambda>v. v) s = s"
  by (auto simp: upd_store_def store_put_same split: option.splits)

lemma appendedI:
  "tbl_mail (chardb w') = tbl_mail (chardb w) \<Longrightarrow> tbl_auctionhouse (chardb w') = tbl_auctionhouse (chardb w) \<Longrightarrow>
   next_mailId w' = next_mailId w \<Longrightarrow> online w' = upd_store g f (online w) \<Longrightarrow>
   (\<And>p. same_person p (f p)) \<Longrightarrow> (\<And>p. m_mail (f p) = m_mail p @ ms) \<Longrightarrow> appended g ms w w'"
  by (auto simp: appended_def)

lemma appended_refl: "ordered_store (online w) \<Longrightarrow> appended g [] w w"
  by (rule appendedI [where f = "\<lambda>p. p"]) (simp_all add: upd_store_id)

lemma appended_ordered: "appended g ms w w' \<Longrightarrow> ordered_store (online w) \<Longrightarrow> ordered_store (online w')"
  by (auto simp: appended_def ordered_upd_store)

lemma appended_trans:
  assumes "appended g a u v" and "appended g b v w"
  shows "appended g (a @ b) u w"
proof -
  obtain f where f: "online v = upd_store g f (online u)" "\<And>p. same_person p (f p) \<and> m_mail (f p) = m_mail p @ a"
    using assms(1) by (auto simp: appended_def)
  obtain h where h: "online w = upd_store g h (online v)" "\<And>p. same_person p (h p) \<and> m_mail (h p) = m_mail p @ b"
    using assms(2) by (auto simp: appended_def)
  show ?thesis
    by (rule appendedI [where f = "h \<circ> f"])
       (use assms f h in \<open>simp_all add: appended_def upd_store_comp, metis same_person_trans\<close>)
qed

lemma LoadMailedItem_appended:
  assumes "ordered_store (online (snd s))"
  shows "appended g [] (snd s) (snd (LoadMailedItem e g it s))"
proof (cases "\<not> has_proto e (item_entry it) \<or> \<not> item_loads e it")
  case True
  then show ?thesis
    by (intro appendedI [where f = "\<lambda>p. p"]) (simp_all add: LoadMailedItem_def Let_def Execute_def upd_store_id assms)
next
  case False
  then show ?thesis
    by (intro appendedI [where f = "AddMItem it"])
       (simp_all add: LoadMailedItem_def Let_def upd_player_def, simp_all add: AddMItem_def same_person_def)
qed

definition item_infos :: "Item list \<Rightarrow> (u32 \<times> u32) list" where
  "item_infos its = map (\<lambda>it. (item_guid it, item_entry it)) its"

lemma LoadMailedItems_fold:
  assumes "ordered_store (online (snd s))"
  shows "fst (fold (LoadMailedItem e g) its s) = (fst s)\<lparr>mail_items := mail_items (fst s) @ item_infos its\<rparr>"
    and "appended g [] (snd s) (snd (fold (LoadMailedItem e g) its s))"
  using assms
proof (induction its arbitrary: s)
  case Nil
  { case 1 show ?case by (simp add: item_infos_def) }
  { case 2 then show ?case by (simp add: appended_refl) }
next
  case (Cons it its)
  have s1: "fst (LoadMailedItem e g it s) = Mail_AddItem (item_guid it) (item_entry it) (fst s)" for s :: "Mail \<times> 'a PostWorld_scheme"
    by (simp add: LoadMailedItem_def Let_def)
  { case 1
    then have "ordered_store (online (snd (LoadMailedItem e g it s)))"
      using LoadMailedItem_appended [OF 1, of g e it] by (blast intro: appended_ordered)
    with Cons.IH(1) show ?case by (simp add: s1 Mail_AddItem_def item_infos_def) }
  { case 2
    note a = LoadMailedItem_appended [OF 2, of g e it]
    with Cons.IH(2) [OF appended_ordered [OF a 2]] show ?case
      using appended_trans [of g "[]" "snd s" _ "[]"] by auto }
qed

text \<open>The letter of a row, with the items that the tables have for it.\<close>

definition loaded_mail :: "PostEnv \<Rightarrow> CharacterDB \<Rightarrow> u32 \<times> MailRow \<Rightarrow> Mail" where
  "loaded_mail e db x =
     (mail_of_row e (fst x) (snd x))\<lparr>mail_items := (if row_has_items (snd x) then item_infos (mailed_items (fst x) db) else [])\<rparr>"

lemma LoadMail_row_appended:
  assumes o: "ordered_store (online w)"
  shows "appended g [loaded_mail e (chardb w) x] w (LoadMail_row e g x w)"
proof -
  let ?m = "mail_of_row e (fst x) (snd x)"
  define s where "s = (if row_has_items (snd x) then LoadMailedItems e g (?m, w) else (?m, w))"
  have z: "mail_items ?m = []" "messageID ?m = fst x" by (simp_all add: mail_of_row_def)
  have f: "fst s = loaded_mail e (chardb w) x"
    using LoadMailedItems_fold(1) [of "(?m, w)" e g "mailed_items (fst x) (chardb w)"] o
    by (simp add: s_def LoadMailedItems_def loaded_mail_def z)
  have a: "appended g [] w (snd s)"
    using LoadMailedItems_fold(2) [of "(?m, w)" g e "mailed_items (fst x) (chardb w)"] appended_refl [OF o] o
    by (simp add: s_def LoadMailedItems_def z)
  have "LoadMail_row e g x w = upd_player g (\<lambda>p. p\<lparr>m_mail := m_mail p @ [fst s]\<rparr>) (snd s)"
    by (simp add: LoadMail_row_def Let_def s_def)
  then have "appended g [fst s] (snd s) (LoadMail_row e g x w)"
    by (intro appendedI [where f = "\<lambda>p. p\<lparr>m_mail := m_mail p @ [fst s]\<rparr>"]) (simp_all add: upd_player_def same_person_def)
  with a have "appended g ([] @ [fst s]) w (LoadMail_row e g x w)" by (rule appended_trans)
  then show ?thesis by (simp add: f)
qed

abbreviation letter_of :: "PostEnv \<Rightarrow> u32 \<times> MailRow \<Rightarrow> Mail \<Rightarrow> bool" where
  "letter_of e x m \<equiv> m\<lparr>mail_items := []\<rparr> = mail_of_row e (fst x) (snd x)"

lemma LoadMail_rows:
  assumes "ordered_store (online w)"
  shows "\<exists>ms. appended g ms w (fold (LoadMail_row e g) rows w) \<and> list_all2 (letter_of e) rows ms \<and>
    (rows \<noteq> [] \<longrightarrow> hd ms = loaded_mail e (chardb w) (hd rows))"
  using assms
proof (induction rows arbitrary: w)
  case Nil
  then show ?case by (auto intro: appended_refl)
next
  case (Cons x rows)
  note a = LoadMail_row_appended [OF Cons.prems, of g e x]
  obtain ms where ms: "appended g ms (LoadMail_row e g x w) (fold (LoadMail_row e g) rows (LoadMail_row e g x w))" "list_all2 (letter_of e) rows ms"
    using Cons.IH [OF appended_ordered [OF a Cons.prems]] by blast
  have "letter_of e x (loaded_mail e (chardb w) x)" by (simp add: loaded_mail_def mail_of_row_def)
  with appended_trans [OF a ms(1)] ms(2) show ?case
    by (intro exI [of _ "loaded_mail e (chardb w) x # ms"]) simp
qed

lemma letter_of_fields:
  assumes "letter_of e x m"
  shows "messageID m = fst x" "money m = ucast (row_money (snd x))" "COD m = ucast (row_cod (snd x))"
proof -
  have "messageID m = messageID (m\<lparr>mail_items := []\<rparr>)" "money m = money (m\<lparr>mail_items := []\<rparr>)" "COD m = COD (m\<lparr>mail_items := []\<rparr>)"
    by simp_all
  then show "messageID m = fst x" "money m = ucast (row_money (snd x))" "COD m = ucast (row_cod (snd x))"
    unfolding assms by (simp_all add: mail_of_row_def)
qed

section \<open>Loading the mailbox\<close>

lemma LoadMail_box:
  assumes o: "ordered_store (online w)" and fp: "FindPlayer g w = Some p"
  obtains q ms where "online (LoadMail e g w) = store_put g q (online w)" and "same_person (p\<lparr>m_mailsLoaded := True\<rparr>) q"
    and "m_mail q = ms" and "list_all2 (letter_of e) (mail_rows g (chardb w)) ms"
    and "mail_rows g (chardb w) \<noteq> [] \<Longrightarrow> hd ms = loaded_mail e (chardb w) (hd (mail_rows g (chardb w)))"
    and "tbl_mail (chardb (LoadMail e g w)) = tbl_mail (chardb w)"
    and "tbl_auctionhouse (chardb (LoadMail e g w)) = tbl_auctionhouse (chardb w)"
    and "next_mailId (LoadMail e g w) = next_mailId w"
proof -
  let ?w0 = "upd_player g (\<lambda>p. p\<lparr>m_mail := []\<rparr>) w"
  let ?w1 = "fold (LoadMail_row e g) (mail_rows g (chardb w)) ?w0"
  have o0: "ordered_store (online ?w0)" using o by (simp add: upd_player_def ordered_upd_store)
  have db: "chardb ?w0 = chardb w" by (simp add: upd_player_def)
  obtain ms where m: "appended g ms ?w0 ?w1 \<and> list_all2 (letter_of e) (mail_rows g (chardb w)) ms \<and>
      (mail_rows g (chardb w) \<noteq> [] \<longrightarrow> hd ms = loaded_mail e (chardb ?w0) (hd (mail_rows g (chardb w))))"
    using LoadMail_rows [OF o0, of g e "mail_rows g (chardb w)"] ..
  then have ms: "appended g ms ?w0 ?w1" "list_all2 (letter_of e) (mail_rows g (chardb w)) ms"
      "mail_rows g (chardb w) \<noteq> [] \<Longrightarrow> hd ms = loaded_mail e (chardb w) (hd (mail_rows g (chardb w)))"
    unfolding db by simp_all
  then obtain f where f: "online ?w1 = upd_store g f (online ?w0)" "\<And>p. same_person p (f p) \<and> m_mail (f p) = m_mail p @ ms"
    by (auto simp: appended_def)
  let ?q = "(f (p\<lparr>m_mail := []\<rparr>))\<lparr>m_mailsLoaded := True\<rparr>"
  have fp': "map_of (online w) g = Some p" using fp by (simp add: FindPlayer_def)
  have "online (LoadMail e g w) = store_put g ?q (online w)"
    by (simp add: LoadMail_def upd_player_def f(1) [unfolded upd_player_def] upd_store_comp)
       (simp add: upd_store_def fp')
  moreover have "same_person (p\<lparr>m_mailsLoaded := True\<rparr>) ?q" "m_mail ?q = ms"
    using f(2) [of "p\<lparr>m_mail := []\<rparr>"] by (simp_all add: same_person_def)
  moreover have "tbl_mail (chardb (LoadMail e g w)) = tbl_mail (chardb w)"
    "tbl_auctionhouse (chardb (LoadMail e g w)) = tbl_auctionhouse (chardb w)" "next_mailId (LoadMail e g w) = next_mailId w"
    using ms(1) by (simp_all add: appended_def LoadMail_def) (simp_all add: upd_player_def)
  ultimately show thesis using that ms(2,3) by blast
qed

text \<open>Loading makes no gold and gives a mailbox that agrees with the database.\<close>

lemma LoadMail_inv:
  assumes inv: "post_inv w" and fp: "FindPlayer g w = Some p"
  shows "post_inv (LoadMail e g w)" "purses (LoadMail e g w) = purses w" "letters (LoadMail e g w) = letters w"
    "tbl_auctionhouse (chardb (LoadMail e g w)) = tbl_auctionhouse (chardb w)" "next_mailId (LoadMail e g w) = next_mailId w"
proof -
  note o = post_inv_ordered [OF inv]
  obtain q ms where q: "online (LoadMail e g w) = store_put g q (online w)" "same_person (p\<lparr>m_mailsLoaded := True\<rparr>) q"
      "m_mail q = ms" and ms: "list_all2 (letter_of e) (mail_rows g (chardb w)) ms"
    and t: "tbl_mail (chardb (LoadMail e g w)) = tbl_mail (chardb w)"
      "tbl_auctionhouse (chardb (LoadMail e g w)) = tbl_auctionhouse (chardb w)" "next_mailId (LoadMail e g w) = next_mailId w"
    by (rule LoadMail_box [OF conjunct1 [OF o] fp, of e])
  show "tbl_auctionhouse (chardb (LoadMail e g w)) = tbl_auctionhouse (chardb w)" "next_mailId (LoadMail e g w) = next_mailId w"
    using t by simp_all
  show "letters (LoadMail e g w) = letters w" by (simp add: letters_def t)
  have pq: "purse q = purse p" using q(2) by (simp add: same_person_def)
  show "purses (LoadMail e g w) = purses w"
    using sum_store_put [of "online w" "\<lambda>p. unat (purse p)" g q] o fp pq by (simp add: purses_def q(1) FindPlayer_def)
  have "map messageID ms = map fst (mail_rows g (chardb w))"
    using ms by (induction rule: list_all2_induct) (auto dest: letter_of_fields(1))
  moreover have "distinct (map fst (mail_rows g (chardb w)))"
    using ordered_distinct [of "tbl_mail (chardb w)"] o by (simp add: mail_rows_def rev_map [symmetric] distinct_map_filter)
  moreover have "letter_ok (chardb w) g m" if m: "m \<in> set ms" for m
  proof -
    obtain i where i: "i < length ms" "m = ms ! i" using m by (auto simp: in_set_conv_nth)
    let ?x = "mail_rows g (chardb w) ! i"
    have x: "?x \<in> set (mail_rows g (chardb w))" "letter_of e ?x m"
      using list_all2_nthD2 [OF ms i(1)] list_all2_lengthD [OF ms] i by auto
    then have "map_of (tbl_mail (chardb w)) (fst ?x) = Some (snd ?x)" "row_receiver (snd ?x) = g"
      using ordered_distinct [of "tbl_mail (chardb w)"] o by (auto simp: mail_rows_def)
    then show ?thesis using letter_of_fields [OF x(2)] by (simp add: letter_ok_def)
  qed
  ultimately have "mailbox_ok (chardb w) g q"
    using post_inv_FindPlayer [OF inv fp] q pq by (simp add: mailbox_ok_def list_all_iff same_person_def)
  then have "post_inv (set_player g q w)" using inv by (simp add: post_inv_set_player)
  then show "post_inv (LoadMail e g w)"
    unfolding post_inv_def mailbox_ok_cong [OF t(1)] unfolding t by (simp add: q(1) set_player_def)
qed

lemma UpdateNextMailTime_ok [simp]:
  "mailbox_ok db g (UpdateNextMailTimeAndUnreads e p) = mailbox_ok db g p" "purse (UpdateNextMailTimeAndUnreads e p) = purse p"
  by (simp_all add: UpdateNextMailTimeAndUnreads_def Let_def mailbox_ok_def)

lemma LoadMail_if:
  assumes "post_inv w" and "FindPlayer g w = Some p"
  shows "no_new_gold w (if m_mailsLoaded p then w else LoadMail e g w)"
    "tbl_auctionhouse (chardb (if m_mailsLoaded p then w else LoadMail e g w)) = tbl_auctionhouse (chardb w)"
  using LoadMail_inv [OF assms, of e] assms(1) by (simp_all add: no_new_gold_def)

lemma GetMailList_inv:
  assumes inv: "post_inv w"
  shows "no_new_gold w (GetMailList e g mb w)" "tbl_auctionhouse (chardb (GetMailList e g mb w)) = tbl_auctionhouse (chardb w)"
proof -
  have "no_new_gold w (GetMailList e g mb w) \<and> tbl_auctionhouse (chardb (GetMailList e g mb w)) = tbl_auctionhouse (chardb w)"
  proof (cases "FindPlayer g w")
    case None
    then show ?thesis using inv by (simp add: GetMailList_def at_mailbox_def no_new_gold_refl)
  next
    case (Some p)
    define v where "v = (if m_mailsLoaded p then w else LoadMail e g w)"
    note l = LoadMail_if [OF inv Some, of e, folded v_def]
    have u: "no_new_gold v (set_player g (UpdateNextMailTimeAndUnreads e q) (emit x v))" if "FindPlayer g v = Some q" for q x
      using l(1) post_inv_FindPlayer [of v g q] that
      by (intro set_player_same_purse [where w = "emit x v" and p = q, simplified no_new_gold_def, simplified, folded no_new_gold_def])
         (simp_all add: no_new_gold_def, simp add: emit_def)
    show ?thesis
    proof (cases "can_use_mailbox e g mb")
      case True
      with Some l show ?thesis
        unfolding GetMailList_def at_mailbox_def
        by (simp add: v_def [symmetric] Let_def case_prod_unfold split: option.splits)
           (use u in \<open>auto simp: no_new_gold_def set_player_def emit_def intro: order_trans\<close>)
    next
      case False
      with Some inv show ?thesis by (simp add: GetMailList_def at_mailbox_def no_new_gold_refl)
    qed
  qed
  then show "no_new_gold w (GetMailList e g mb w)" "tbl_auctionhouse (chardb (GetMailList e g mb w)) = tbl_auctionhouse (chardb w)"
    by simp_all
qed

lemma HandleQueryNextMailTime_inv:
  assumes inv: "post_inv w"
  shows "no_new_gold w (HandleQueryNextMailTime e g w)"
    "tbl_auctionhouse (chardb (HandleQueryNextMailTime e g w)) = tbl_auctionhouse (chardb w)"
proof -
  have "no_new_gold w (HandleQueryNextMailTime e g w) \<and>
    tbl_auctionhouse (chardb (HandleQueryNextMailTime e g w)) = tbl_auctionhouse (chardb w)"
  proof (cases "FindPlayer g w")
    case None
    then show ?thesis using inv by (simp add: HandleQueryNextMailTime_def no_new_gold_refl)
  next
    case (Some p)
    define v where "v = (if m_mailsLoaded p then w else LoadMail e g w)"
    from Some LoadMail_if [OF inv Some, of e, folded v_def] show ?thesis
      unfolding HandleQueryNextMailTime_def
      by (simp add: v_def [symmetric] Let_def split: option.splits) (simp add: emit_def)
  qed
  then show "no_new_gold w (HandleQueryNextMailTime e g w)"
    "tbl_auctionhouse (chardb (HandleQueryNextMailTime e g w)) = tbl_auctionhouse (chardb w)" by simp_all
qed

section \<open>From the sender to the mailbox\<close>

lemma store_put_last: "(\<And>x. x \<in> set s \<Longrightarrow> fst x < k) \<Longrightarrow> store_put k v s = s @ [(k, v)]"
proof (induction s)
  case (Cons x s)
  have "fst x < k" using Cons.prems by simp
  with Cons show ?case by (cases x) auto
qed simp

lemma item_table_mail_items:
  "tbl_item_instance (fold exec_stmt (map (\<lambda>x. CHAR_INS_MAIL_ITEM i (f x) r) xs) db) = tbl_item_instance db"
  by (induction xs arbitrary: db) simp_all

lemma deliver_offline_items:
  "FindPlayer rcv w = None \<Longrightarrow> tbl_item_instance (chardb (deliver e d rcv sn chk dl w)) = tbl_item_instance (chardb w)"
  by (simp add: deliver_def SendMailTo_def Let_def case_prod_unfold deleteIncludedItems_def CommitTransaction_def item_table_mail_items)

lemma map_filter_append: "List.map_filter f (xs @ ys) = List.map_filter f xs @ List.map_filter f ys"
  by (simp add: List.map_filter_def)

lemma map_filter_none: "(\<And>x. x \<in> set xs \<Longrightarrow> f x = None) \<Longrightarrow> List.map_filter f xs = []"
  by (induction xs) (simp_all add: List.map_filter_simps)

lemma map_filter_all: "(\<And>x. x \<in> set xs \<Longrightarrow> f (h x) = Some (k x)) \<Longrightarrow> List.map_filter f (map h xs) = map k xs"
  by (induction xs) (simp_all add: List.map_filter_simps)

text \<open>The items of a new letter are those of the draft, when they are saved.\<close>

lemma delivered_items:
  assumes "FindPlayer rcv w = None" and "\<And>x. x \<in> set (tbl_mail_items (chardb w)) \<Longrightarrow> fst x \<noteq> next_mailId w"
    and "\<And>x. x \<in> set (m_items d) \<Longrightarrow> map_of (tbl_item_instance (chardb w)) (item_guid (snd x)) = Some (snd x)"
  shows "mailed_items (next_mailId w) (chardb (deliver e d rcv sn chk dl w)) = map snd (m_items d)"
  using assms by (simp add: mailed_items_def deliver_offline_items deliver_mail_items prepared_def map_filter_append map_filter_none map_filter_all)

text \<open>A time fits into the columns and the fields when it is below $2^{32}$.\<close>

abbreviation fits_u32 :: "u64 \<Rightarrow> bool" where
  "fits_u32 t \<equiv> t < 0x100000000"

text \<open>What the columns of the table and the fields of \<^verbatim>\<open>_LoadMail\<close> keep of a letter: 32 bits of coins, cash on delivery and times, 8 of the flags.\<close>

definition stored_letter :: "Mail \<Rightarrow> Mail" where
  "stored_letter m =
     m\<lparr>expire_time := ucast (ucast (expire_time m) :: u32), deliver_time := ucast (ucast (deliver_time m) :: u32),
       money := ucast (ucast (money m) :: u32), COD := ucast (ucast (COD m) :: u32), checked := ucast (ucast (checked m) :: u8)\<rparr>"

lemma stored_letter_fits:
  assumes "fits_u32 (money m)" "fits_u32 (COD m)" "fits_u32 (deliver_time m)" "fits_u32 (expire_time m)" "checked m < 0x100"
  shows "stored_letter m = m"
proof -
  have "(ucast (ucast (checked m) :: u8) :: u32) = checked m"
    using assms(5) by (simp add: word_unat_eq_iff unsigned_ucast_eq unsigned_take_bit_eq take_bit_nat_eq_self word_less_nat_alt)
  then show ?thesis using assms by (simp add: stored_letter_def ucast_small_64)
qed

lemma loaded_delivered:
  assumes off: "FindPlayer rcv w = None"
    and new: "\<And>x. x \<in> set (tbl_mail_items (chardb w)) \<Longrightarrow> fst x \<noteq> next_mailId w"
    and saved: "\<And>x. x \<in> set (m_items d) \<Longrightarrow> map_of (tbl_item_instance (chardb w)) (item_guid (snd x)) = Some (snd x)"
    and tp: "m_mailTemplateId d = 0 \<or> mail_template e' (m_mailTemplateId d)"
  shows "loaded_mail e' (chardb (deliver e d rcv sn chk dl w)) (next_mailId w, delivered_row e d rcv sn chk dl w) =
    stored_letter (delivered_mail e d rcv sn chk dl w)"
  using delivered_items [OF off new saved, of d e sn chk dl] tp off
  by (auto simp: loaded_mail_def mail_of_row_def delivered_row_def delivered_mail_def draft_row_def draft_mail_def prepared_def
      stored_letter_def item_infos_def)

section \<open>Old letters\<close>

lemma Execute_Commit: "Execute s w = CommitTransaction [s] w"
  by (simp add: Execute_def CommitTransaction_def)

lemma fold_Execute: "fold (\<lambda>x. Execute (f x)) xs w = CommitTransaction (map f xs) w"
  by (induction xs arbitrary: w) (simp_all add: Execute_def CommitTransaction_def)

lemma fold_Execute2:
  "fold (\<lambda>x u. Execute (f x) (Execute (h x) u)) xs w = CommitTransaction (concat (map (\<lambda>x. [h x, f x]) xs)) w"
  by (induction xs arbitrary: w) (simp_all add: Execute_def CommitTransaction_def)

text \<open>A row that no mailbox in memory shows may change, when its coins on delivery stay small.\<close>

lemma unshown_row_change:
  assumes inv: "post_inv w" and r: "map_of (tbl_mail (chardb w)) i = Some r"
    and un: "\<And>p. FindPlayer (row_receiver r) w = Some p \<Longrightarrow> \<not> m_mailsLoaded p"
    and w': "online w' = online w" "next_mailId w' = next_mailId w" "ordered_store (tbl_mail (chardb w'))"
      "\<And>j. j \<noteq> i \<Longrightarrow> map_of (tbl_mail (chardb w')) j = map_of (tbl_mail (chardb w)) j"
      "\<And>r'. map_of (tbl_mail (chardb w')) i = Some r' \<Longrightarrow> row_cod r' < 0x80000000"
  shows "post_inv w'"
proof -
  have "mailbox_ok (chardb w') g p" if fp: "FindPlayer g w = Some p" for g p
  proof -
    have mb: "mailbox_ok (chardb w) g p" using inv fp by (rule post_inv_FindPlayer)
    have "messageID m \<noteq> i" if m: "m \<in> set (m_mail p)" for m
    proof
      assume "messageID m = i"
      moreover have "letter_ok (chardb w) g m" using mb m by (auto simp: mailbox_ok_def list_all_iff)
      ultimately have "row_receiver r = g" using r by (simp add: letter_ok_def)
      with un fp mb m show False by (auto simp: mailbox_ok_def)
    qed
    with mb w'(4) show ?thesis by (auto simp: mailbox_ok_def list_all_iff letter_ok_def)
  qed
  moreover have "j < next_mailId w \<and> row_cod x < 0x80000000" if "map_of (tbl_mail (chardb w')) j = Some x" for j x
    using that w'(4) [of j] w'(5) post_inv_row [OF inv] r by (cases "j = i") auto
  ultimately show ?thesis
    using post_inv_ordered [OF inv] w' by (simp add: post_inv_def std_map.entries_ok_def FindPlayer_def)
qed

text \<open>\<open>rows_after i w w'\<close>: only the row of letter \<open>i\<close> and the items may have changed, and there is no more gold.\<close>

definition rows_after :: "u32 \<Rightarrow> 'a PostWorld_scheme \<Rightarrow> 'a PostWorld_scheme \<Rightarrow> bool" where
  "rows_after i w w' \<longleftrightarrow>
     no_new_gold w w' \<and> tbl_auctionhouse (chardb w') = tbl_auctionhouse (chardb w) \<and> online w' = online w
     \<and> (\<forall>j. j \<noteq> i \<longrightarrow> map_of (tbl_mail (chardb w')) j = map_of (tbl_mail (chardb w)) j)"

lemma rows_after_Commit: "list_all item_stmt tr \<Longrightarrow> rows_after i w (CommitTransaction tr w') = rows_after i w w'"
  by (simp add: rows_after_def no_new_gold_def Commit_item_stmts tables_Commit_item_stmts) (simp add: CommitTransaction_def)

lemma rows_after_item_stmts: "list_all item_stmt tr \<Longrightarrow> rows_after i (CommitTransaction tr w) w' = rows_after i w w'"
  by (simp add: rows_after_def no_new_gold_def Commit_item_stmts tables_Commit_item_stmts) (simp add: CommitTransaction_def)

lemma erase_mail_later:
  "(fold exec_stmt (map (\<lambda>it. CHAR_DEL_ITEM_INSTANCE (f it)) its) db)
     \<lparr>tbl_mail := store_erase i (tbl_mail (fold exec_stmt (map (\<lambda>it. CHAR_DEL_ITEM_INSTANCE (f it)) its) db))\<rparr> =
   fold exec_stmt (map (\<lambda>it. CHAR_DEL_ITEM_INSTANCE (f it)) its) (db\<lparr>tbl_mail := store_erase i (tbl_mail db)\<rparr>)"
proof (induction its arbitrary: db)
  case (Cons it its)
  have eq: "db\<lparr>tbl_mail := store_erase i (tbl_mail db), tbl_item_instance := store_erase (f it) (tbl_item_instance db)\<rparr> =
      db\<lparr>tbl_item_instance := store_erase (f it) (tbl_item_instance db), tbl_mail := store_erase i (tbl_mail db)\<rparr>" by simp
  show ?case
    using Cons.IH [of "db\<lparr>tbl_item_instance := store_erase (f it) (tbl_item_instance db)\<rparr>"] by (simp, subst eq, simp)
qed simp

lemma old_mail_inv:
  assumes inv: "post_inv w" and r: "map_of (tbl_mail (chardb w)) (fst x) = Some (snd x)"
  shows "rows_after (fst x) w (old_mail e True cache x w)"
proof (cases "case FindPlayer (row_receiver (snd x)) w of None \<Rightarrow> False | Some p \<Rightarrow> m_mailsLoaded p")
  case True
  then show ?thesis using inv by (simp add: rows_after_def old_mail_def Let_def no_new_gold_refl)
next
  case False
  let ?i = "fst x" and ?r = "snd x"
  have un: "\<not> m_mailsLoaded p" if "FindPlayer (row_receiver ?r) w = Some p" for p using False that by simp
  note o = conjunct2 [OF post_inv_ordered [OF inv]]
  have del: "rows_after ?i w (Execute (CHAR_DEL_MAIL_BY_ID ?i) w)"
  proof -
    have "post_inv (Execute (CHAR_DEL_MAIL_BY_ID ?i) w)"
      by (rule unshown_row_change [OF inv r un]) (simp_all add: Execute_def std_map.ordered_erase o std_map.find_erase)
    moreover have "letters (Execute (CHAR_DEL_MAIL_BY_ID ?i) w) \<le> letters w"
      using sum_store_erase [OF o, of "\<lambda>r. unat (row_money r)" ?i] by (simp add: letters_def Execute_def)
    ultimately show ?thesis
      by (simp add: rows_after_def no_new_gold_def) (simp add: Execute_def purses_def std_map.find_erase)
  qed
  have ret: "rows_after ?i w (Execute (CHAR_UPD_MAIL_RETURNED a b c d ch ?i) w)" for a b c d ch
  proof -
    let ?v = "Execute (CHAR_UPD_MAIL_RETURNED a b c d ch ?i) w"
    have "post_inv ?v"
      by (rule unshown_row_change [OF inv r un]) (auto simp: Execute_def ordered_upd_store o map_of_upd_store r)
    moreover have "letters ?v = letters w"
      unfolding letters_def by (simp add: Execute_def sum_upd_store_same [OF o])
    ultimately show ?thesis
      by (simp add: rows_after_def no_new_gold_def) (simp add: Execute_def purses_def map_of_upd_store)
  qed
  have items: "list_all item_stmt (map (\<lambda>it. CHAR_DEL_ITEM_INSTANCE (item_guid it)) its)"
    "list_all item_stmt (concat (map (\<lambda>it. [CHAR_UPD_MAIL_ITEM_RECEIVER c (item_guid it), CHAR_UPD_ITEM_OWNER c (item_guid it)]) its))" for its c
    by (induction its) (simp_all add: item_stmt_def)
  have comm: "Execute (CHAR_DEL_MAIL_BY_ID ?i) (CommitTransaction (map (\<lambda>it. CHAR_DEL_ITEM_INSTANCE (item_guid it)) its) w) =
      CommitTransaction (map (\<lambda>it. CHAR_DEL_ITEM_INSTANCE (item_guid it)) its) (Execute (CHAR_DEL_MAIL_BY_ID ?i) w)" for its
    by (simp add: Execute_def CommitTransaction_def erase_mail_later)
  show ?thesis
    using False del ret
    by (simp add: old_mail_def Let_def fold_Execute fold_Execute2 rows_after_Commit items comm)
qed

text \<open>The periodic run while the server is up.\<close>

lemma old_mails_inv:
  assumes "post_inv w" and "distinct (map fst rows)" and "\<And>x. x \<in> set rows \<Longrightarrow> map_of (tbl_mail (chardb w)) (fst x) = Some (snd x)"
  shows "no_new_gold w (fold (old_mail e True cache) rows w) \<and>
    tbl_auctionhouse (chardb (fold (old_mail e True cache) rows w)) = tbl_auctionhouse (chardb w)"
  using assms
proof (induction rows arbitrary: w)
  case (Cons x rows)
  let ?v = "old_mail e True cache x w"
  have a: "rows_after (fst x) w ?v" using Cons.prems by (intro old_mail_inv) simp_all
  have "map_of (tbl_mail (chardb ?v)) (fst y) = Some (snd y)" if "y \<in> set rows" for y
  proof -
    have "fst y \<in> fst ` set rows" using that by (rule imageI)
    then have "fst y \<noteq> fst x" using Cons.prems(2) by (metis distinct.simps(2) list.set_map list.simps(9))
    with a Cons.prems(3) [of y] that show ?thesis by (simp add: rows_after_def)
  qed
  with a have "no_new_gold ?v (fold (old_mail e True cache) rows ?v) \<and>
    tbl_auctionhouse (chardb (fold (old_mail e True cache) rows ?v)) = tbl_auctionhouse (chardb ?v)"
    using Cons.prems by (intro Cons.IH) (simp_all add: rows_after_def no_new_gold_def)
  with a show ?case by (auto simp: rows_after_def no_new_gold_def)
qed (simp add: no_new_gold_refl)

lemma ReturnOrDeleteOldMails_inv:
  assumes inv: "post_inv w"
  shows "no_new_gold w (ReturnOrDeleteOldMails e True w)"
    "tbl_auctionhouse (chardb (ReturnOrDeleteOldMails e True w)) = tbl_auctionhouse (chardb w)"
  using old_mails_inv [OF inv, of "filter (\<lambda>x. row_expire_time (snd x) < now e) (tbl_mail (chardb w))" e "expired_mail_items (ucast (now e)) (chardb w)"]
    ordered_distinct [of "tbl_mail (chardb w)"] post_inv_ordered [OF inv]
  by (simp_all add: ReturnOrDeleteOldMails_def distinct_map_filter)

section \<open>A letter sent is a letter received\<close>

text \<open>C30: A letter that \<^verbatim>\<open>MailDraft::SendMailTo\<close> sends to a character who is not online is the first letter of the mailbox
  that \<^verbatim>\<open>Player::_LoadMail\<close> builds when the character comes back, and the older letters of the database follow: type, stationery,
  sender, subject, body and attached items are those of the draft; coins, cash on delivery and times are those of the draft modulo
  $2^{32}$ and the flags modulo $2^8$, which is what the table keeps. So when these are in range the letter is exactly the one that
  was sent. The mailboxes agree with the database before (\<open>post_inv\<close>), no attached item is recorded under the next number, the
  attached items are saved, and the template, if there is one, is still in the data files.\<close>

theorem posted_letter_is_loaded:
  assumes inv: "post_inv (settle s)" and off: "FindPlayer rcv (snd s) = None"
    and new: "\<forall>x \<in> set (tbl_mail_items (chardb (settle s))). fst x \<noteq> next_mailId (snd s)"
    and saved: "\<forall>x \<in> set (m_items d). map_of (tbl_item_instance (chardb (settle s))) (item_guid (snd x)) = Some (snd x)"
    and tp: "m_mailTemplateId d = 0 \<or> mail_template e' (m_mailTemplateId d)"
    and dt: "dt = now e + ucast dl" and et: "et = dt + ucast (expire_delay e sn (sender_gm sn (snd s)) d)"
  shows "\<exists>q ms. FindPlayer rcv (LoadMail e' rcv (set_player rcv p (settle (SendMailTo e d rcv sn chk dl s)))) = Some q
    \<and> purse q = purse p \<and> m_mail q = stored_letter (draft_mail (next_mailId (snd s)) d sn rcv et dt chk) # ms
    \<and> (fits_u32 (m_money d) \<and> fits_u32 (m_COD d) \<and> fits_u32 dt \<and> fits_u32 et \<and> chk < 0x100 \<longrightarrow>
         m_mail q = draft_mail (next_mailId (snd s)) d sn rcv et dt chk # ms)
    \<and> list_all2 (\<lambda>x m. m\<lparr>mail_items := []\<rparr> = mail_of_row e' (fst x) (snd x)) (mail_rows rcv (chardb (settle s))) ms"
proof -
  let ?w = "settle s"
  let ?v = "deliver e d rcv sn chk dl ?w" and ?r = "delivered_row e d rcv sn chk dl ?w"
  let ?u = "set_player rcv p ?v"
  have n: "next_mailId ?w = next_mailId (snd s)" by (simp add: CommitTransaction_def)
  have off': "FindPlayer rcv ?w = None" using off by simp
  have gm: "sender_gm sn ?w = sender_gm sn (snd s)" by (simp add: sender_gm_def)
  note o = post_inv_ordered [OF inv]
  have times: "delivery_time e dl = dt" "expiry_time e d rcv sn dl ?w = et"
    using dt et off' gm by (simp_all add: delivery_time_def expiry_time_def prepared_def)
  let ?m = "draft_mail (next_mailId (snd s)) d sn rcv et dt chk"
  have first: "loaded_mail e' (chardb ?v) (next_mailId ?w, ?r) = stored_letter ?m"
    using loaded_delivered [of rcv ?w d e' e sn chk dl] off' new saved tp n times
    by (simp add: delivered_mail_def prepared_def)
  have db: "chardb ?u = chardb ?v" by (simp add: set_player_def)
  have "fst x < next_mailId ?w" if "x \<in> set (tbl_mail (chardb ?w))" for x
    using post_inv_row [OF inv, of "fst x" "snd x"] that o ordered_distinct [of "tbl_mail (chardb ?w)"] by simp
  then have "tbl_mail (chardb ?v) = tbl_mail (chardb ?w) @ [(next_mailId ?w, ?r)]"
    by (simp add: deliver_tables store_put_last)
  then have rows: "mail_rows rcv (chardb ?u) = (next_mailId ?w, ?r) # mail_rows rcv (chardb ?w)"
    by (simp add: mail_rows_def db delivered_row_def draft_row_def)
  have ou: "ordered_store (online ?u)" using o by (simp add: set_player_def deliver_online std_map.ordered_put ordered_upd_store)
  have fu: "FindPlayer rcv ?u = Some p" by (simp add: FindPlayer_set_player)
  obtain q ms where q: "online (LoadMail e' rcv ?u) = store_put rcv q (online ?u)" "same_person (p\<lparr>m_mailsLoaded := True\<rparr>) q" "m_mail q = ms"
      "list_all2 (letter_of e') (mail_rows rcv (chardb ?u)) ms"
      "mail_rows rcv (chardb ?u) \<noteq> [] \<Longrightarrow> hd ms = loaded_mail e' (chardb ?u) (hd (mail_rows rcv (chardb ?u)))"
    by (rule LoadMail_box [OF ou fu, of e']) (rule that)
  then obtain m ms' where ms: "ms = m # ms'" "list_all2 (letter_of e') (mail_rows rcv (chardb ?w)) ms'"
    unfolding rows by (cases ms) auto
  have "m = stored_letter ?m" using q(5) ms(1) first rows unfolding db by simp
  moreover have "stored_letter ?m = ?m" if "fits_u32 (m_money d) \<and> fits_u32 (m_COD d) \<and> fits_u32 dt \<and> fits_u32 et \<and> chk < 0x100"
    using that by (intro stored_letter_fits) (simp_all add: draft_mail_def)
  moreover have "FindPlayer rcv (LoadMail e' rcv ?u) = Some q" by (simp add: FindPlayer_def q(1) std_map.find_put)
  ultimately show ?thesis
    using q(2,3) ms by (auto simp: settle_SendMailTo same_person_def)
qed

text \<open>An office with an item that is saved, and a character who is away.\<close>

definition example_item :: Item where
  "example_item =
     \<lparr>item_guid = 9, item_entry = 25, item_count = 1, item_owner = 1, item_flags = 0, item_duration = 0, item_enchants = [],
      item_randomProperty = 0, item_suffixFactor = 0, item_charges = 0, item_maxDurability = 0, item_durability = 0, item_creator = 0,
      item_giftCreator = 0, item_createPlayedTime = 0\<rparr>"

definition example_post :: PostEnv where
  "example_post =
     \<lparr>now = 1000, MAIL_DELIVERY_DELAY = 3600, MAIL_LEVEL_REQ = 1, TWO_SIDE_MAIL = True, GM_LOG_TRADE = True, account_of = (\<lambda>g. g),
      guid_by_name = (\<lambda>n. 2), team_of = (\<lambda>g. 469), level_of = (\<lambda>g. 10), can_use_mailbox = (\<lambda>g m. True), battlemaster = (\<lambda>i. False),
      proto_Flags = (\<lambda>i. 0), has_proto = (\<lambda>i. True), item_loads = (\<lambda>i. True), mail_template = (\<lambda>i. False), mail_loot = (\<lambda>i g. []),
      can_be_traded = (\<lambda>g i m. True), is_not_empty_bag = (\<lambda>i. False), can_store = (\<lambda>g its i. 0), store_item = (\<lambda>its i. i # its),
      body_item = (\<lambda>g. None), float_of = (\<lambda>t. 0), float_days = (\<lambda>t. 0)\<rparr>"

definition example_player :: "u64 \<Rightarrow> Mail list \<Rightarrow> PostPlayer" where
  "example_player coins ms =
     \<lparr>purse = coins, inventory = [], m_mail = ms, mMitems = [], m_mailsLoaded = True, m_mailsUpdated = False, unReadMails = 0,
      m_nextMailDelivereTime = 0, p_account = 1, p_security = 0, p_team = 469, p_level = 10, p_isGameMaster = False\<rparr>"

definition example_row :: MailRow where
  "example_row =
     \<lparr>row_messageType = 0, row_stationery = 41, row_mailTemplateId = 0, row_sender = 2, row_receiver = 1, row_subject = [], row_body = [],
      row_has_items = False, row_expire_time = 5000, row_deliver_time = 500, row_money = 30, row_cod = 0, row_checked = 0\<rparr>"

definition example_office :: PostWorld where
  "example_office =
     \<lparr>online = [(1, example_player 10 [])],
      chardb = \<lparr>tbl_mail = [(1, example_row\<lparr>row_receiver := 5\<rparr>)], tbl_mail_items = [], tbl_item_instance = [(9, example_item)],
        tbl_auctionhouse = [], tbl_money = []\<rparr>,
      next_mailId = 2, effects = []\<rparr>"

lemma example_office_inv: "post_inv example_office"
  by (auto simp: post_inv_def std_map.entries_ok_def ordered_store_def example_office_def mailbox_ok_def example_player_def example_row_def
      MAX_MONEY_AMOUNT_def split: if_splits)

theorem posted_letter_is_loaded_witness:
  "\<exists>q ms. FindPlayer 5 (LoadMail example_post 5 (set_player 5 (example_player 20 []) (settle (SendMailTo example_post
       (AddItem example_item (AddMoney 30 (MailDraft_new [0x48, 0x69] []))) 5 \<lparr>m_messageType = 0, m_senderId = 1, m_stationery = 41\<rparr> 4 0
       ([], example_office))))) = Some q
     \<and> purse q = 20 \<and> m_mail q = draft_mail 2 (AddItem example_item (AddMoney 30 (MailDraft_new [0x48, 0x69] [])))
         \<lparr>m_messageType = 0, m_senderId = 1, m_stationery = 41\<rparr> 5 2593000 1000 4 # ms \<and> length ms = 1"
proof -
  let ?d = "AddItem example_item (AddMoney 30 (MailDraft_new [0x48, 0x69] []))"
  let ?sn = "\<lparr>m_messageType = 0, m_senderId = 1, m_stationery = 41\<rparr> :: MailSender"
  have 1: "post_inv (settle ([], example_office))" "FindPlayer 5 (snd ([], example_office)) = None"
    by (simp_all add: example_office_inv) (simp add: FindPlayer_def example_office_def)
  have 2: "\<forall>x \<in> set (tbl_mail_items (chardb (settle ([], example_office)))). fst x \<noteq> next_mailId (snd ([], example_office))"
    "\<forall>x \<in> set (m_items ?d). map_of (tbl_item_instance (chardb (settle ([], example_office)))) (item_guid (snd x)) = Some (snd x)"
    by (simp_all add: example_office_def AddItem_def AddMoney_def MailDraft_new_def example_item_def)
  have 3: "m_mailTemplateId ?d = 0 \<or> mail_template example_post (m_mailTemplateId ?d)" by (simp add: AddItem_def AddMoney_def MailDraft_new_def)
  have 4: "(1000 :: u64) = now example_post + ucast (0 :: u32)"
    "(2593000 :: u64) = 1000 + ucast (expire_delay example_post ?sn (sender_gm ?sn (snd ([], example_office))) ?d)"
    by (simp add: example_post_def)
       (simp add: expire_delay_def sender_gm_def FindPlayer_def example_office_def example_player_def AddItem_def AddMoney_def MailDraft_new_def
          MAIL_AUCTION_def MAIL_CREATURE_def DAY_def)
  have fit: "m_money ?d < 0x100000000" "m_COD ?d < 0x100000000" by (simp_all add: AddItem_def AddMoney_def MailDraft_new_def)
  have rows: "length (mail_rows 5 (chardb (settle ([], example_office)))) = 1" "next_mailId (snd ([], example_office)) = 2"
    by (simp_all add: mail_rows_def example_office_def example_row_def)
  show ?thesis
    using posted_letter_is_loaded [OF 1 2 3 4, of "example_player 20 []" 4] rows fit
    by (auto dest!: list_all2_lengthD simp: example_player_def)
qed

end
