(* ===== verification/AuctionGold.thy ===== *)
theory AuctionGold
  imports AuctionHandlers MailLoad
begin

text \<open>
  The gold that the auction houses hold: bids and deposits. Every operation of the houses moves gold between
  purses, letters and auctions, and none of them makes any.
\<close>

section \<open>The gold of the world\<close>

text \<open>What an auction holds: the deposit of the seller and the bid of the highest bidder.\<close>

definition held :: "AuctionEntry \<Rightarrow> nat" where
  "held a = unat (deposit a) + (if bidder a \<noteq> 0 then unat (bid a) else 0)"

definition house_gold :: "house \<Rightarrow> AuctionWorld \<Rightarrow> nat" where
  "house_gold h w = sum_store held (AuctionsMap h w)"

definition gold :: "AuctionWorld \<Rightarrow> nat" where
  "gold w = purses w + letters w + house_gold HordeHouse w + house_gold AllianceHouse w + house_gold NeutralHouse w"

definition auction_ok :: "u32 \<Rightarrow> AuctionEntry \<Rightarrow> bool" where
  "auction_ok i a \<longleftrightarrow> auc_Id a = i \<and> (buyout a = 0 \<or> bid a < buyout a)"

definition auction_inv :: "AuctionWorld \<Rightarrow> bool" where
  "auction_inv w \<longleftrightarrow> (\<forall>h. std_map.entries_ok auction_ok (AuctionsMap h w))"

lemma auction_inv_GetAuction: "auction_inv w \<Longrightarrow> GetAuction h i w = Some a \<Longrightarrow> auction_ok i a"
  by (auto simp: auction_inv_def std_map.entries_ok_def GetAuction_def)

lemma AuctionsMap_set [simp]: "AuctionsMap k (set_AuctionsMap h s w) = (if k = h then s else AuctionsMap k w)"
  by (cases h; cases k) simp_all

text \<open>Everything of the world but the auctions.\<close>

lemma set_AuctionsMap_fields [simp]:
  "online (set_AuctionsMap h s w) = online w" "chardb (set_AuctionsMap h s w) = chardb w"
  "next_mailId (set_AuctionsMap h s w) = next_mailId w" "effects (set_AuctionsMap h s w) = effects w"
  "mAitems (set_AuctionsMap h s w) = mAitems w"
  by (cases h; simp)+

lemma post_inv_fields: "online w' = online w \<Longrightarrow> chardb w' = chardb w \<Longrightarrow> next_mailId w' = next_mailId w \<Longrightarrow> post_inv w' = post_inv w"
  by (simp add: post_inv_def)

lemma set_AuctionsMap_gold:
  "gold (set_AuctionsMap h s w) + house_gold h w = gold w + sum_store held s"
  by (cases h) (simp_all add: gold_def house_gold_def purses_def letters_def)

lemma RemoveAuction_gold:
  assumes "auction_inv w" and "GetAuction h i w = Some a" and "auc_Id b = i"
  shows "gold (RemoveAuction h b w) + held a = gold w"
proof -
  have "ordered_store (AuctionsMap h w)" using assms(1) by (simp add: auction_inv_def std_map.entries_ok_def)
  from sum_store_erase [OF this, of held i] assms(2,3) set_AuctionsMap_gold [of h "store_erase i (AuctionsMap h w)" w]
  show ?thesis by (simp add: RemoveAuction_def GetAuction_def house_gold_def)
qed

lemma AddAuction_gold:
  assumes "auction_inv w"
  shows "gold (AddAuction h b w) + at_key held (GetAuction h (auc_Id b) w) = gold w + held b"
proof -
  have "ordered_store (AuctionsMap h w)" using assms(1) by (simp add: auction_inv_def std_map.entries_ok_def)
  from sum_store_put [OF this, of held "auc_Id b" b] set_AuctionsMap_gold [of h "store_put (auc_Id b) b (AuctionsMap h w)" w]
  show ?thesis by (simp add: AddAuction_def GetAuction_def house_gold_def)
qed

lemma auction_inv_Remove: "auction_inv w \<Longrightarrow> auction_inv (RemoveAuction h b w)"
  by (simp add: auction_inv_def RemoveAuction_def std_map.entries_ok_erase)

lemma auction_inv_Add: "auction_inv w \<Longrightarrow> buyout b = 0 \<or> bid b < buyout b \<Longrightarrow> auction_inv (AddAuction h b w)"
  by (simp add: auction_inv_def AddAuction_def std_map.entries_ok_put auction_ok_def)

lemma post_inv_auctions [simp]:
  "post_inv (AddAuction h b w) = post_inv w" "post_inv (RemoveAuction h b w) = post_inv w" "post_inv (RemoveAItem i w) = post_inv w"
  by (simp_all add: post_inv_def AddAuction_def RemoveAuction_def RemoveAItem_def)

section \<open>Letters\<close>

lemma more_simps [simp]:
  "PostWorld.more (emit x w) = PostWorld.more w" "PostWorld.more (CommitTransaction tr w) = PostWorld.more w"
  "PostWorld.more (upd_player g f w) = PostWorld.more w" "PostWorld.more (set_player g p w) = PostWorld.more w"
  by (simp_all add: emit_def CommitTransaction_def upd_player_def set_player_def)

lemma more_fold_emit [simp]: "PostWorld.more (fold (\<lambda>x. emit (f x)) xs w) = PostWorld.more w"
  by (induction xs arbitrary: w) simp_all

lemma more_deliver [simp]: "PostWorld.more (deliver e d rcv sn chk dl w) = PostWorld.more w"
  by (simp add: deliver_def SendMailTo_def Let_def case_prod_unfold deleteIncludedItems_def AddNewMailDeliverTime_def SendNewMail_def
      GenerateMailID_def split: option.splits)

lemma AuctionsMap_more: "PostWorld.more w' = PostWorld.more w \<Longrightarrow> AuctionsMap h w' = AuctionsMap h w"
  by (cases w; cases w'; cases h) simp_all

lemma mAitems_more: "PostWorld.more w' = PostWorld.more w \<Longrightarrow> mAitems w' = mAitems w"
  by (cases w; cases w') simp

text \<open>\<open>posted n v w w'\<close>: at most \<open>n\<close> letters with at most \<open>v\<close> coins together were delivered, and nothing else was paid.\<close>

definition posted :: "nat \<Rightarrow> nat \<Rightarrow> AuctionWorld \<Rightarrow> AuctionWorld \<Rightarrow> bool" where
  "posted n v w w' \<longleftrightarrow>
     (post_inv w \<and> unat (next_mailId w) + n \<le> 0xFFFFFFFE \<longrightarrow>
        post_inv w' \<and> purses w' = purses w \<and> letters w' \<le> letters w + v
        \<and> unat (next_mailId w') \<le> unat (next_mailId w) + n)
     \<and> PostWorld.more w' = PostWorld.more w
     \<and> (\<forall>g p. FindPlayer g w = Some p \<longrightarrow> (\<exists>q. FindPlayer g w' = Some q \<and> same_person p q))"

lemma posted_trans: "posted n v a b \<Longrightarrow> posted m u b c \<Longrightarrow> posted (n + m) (v + u) a c"
  unfolding posted_def by (fastforce intro: same_person_trans)

lemma posted_refl [simp]: "posted 0 0 w w"
  by (auto simp: posted_def intro: same_person_refl)

lemma posted_mono: "posted n v a b \<Longrightarrow> n \<le> m \<Longrightarrow> v \<le> u \<Longrightarrow> posted m u a b"
  by (fastforce simp: posted_def)

lemma posted_emit [simp]: "posted n v w (emit x w') = posted n v w w'" "posted n v (emit x w) w' = posted n v w w'"
  by (simp_all add: posted_def) (simp_all add: emit_def)

text \<open>Statements that leave the letters alone.\<close>

definition mail_free :: "Stmt \<Rightarrow> bool" where
  "mail_free s \<longleftrightarrow> item_stmt s \<or> (case s of CHAR_INS_AUCTION i r \<Rightarrow> True | CHAR_DEL_AUCTION i \<Rightarrow> True | CHAR_UPD_AUCTION_BID b p i \<Rightarrow> True | _ \<Rightarrow> False)"

lemma mail_free_table: "list_all mail_free tr \<Longrightarrow> tbl_mail (chardb (CommitTransaction tr w)) = tbl_mail (chardb w)"
proof -
  have "tbl_mail (exec_stmt s db) = tbl_mail db" if "mail_free s" for s db
    using that by (cases s) (simp_all add: mail_free_def item_stmt_def)
  then have "list_all mail_free tr \<Longrightarrow> tbl_mail (fold exec_stmt tr db) = tbl_mail db" for db
    by (induction tr arbitrary: db) simp_all
  then show "list_all mail_free tr \<Longrightarrow> ?thesis" by (simp add: CommitTransaction_def)
qed

lemma Commit_mail_free:
  assumes "list_all mail_free tr"
  shows "post_inv (CommitTransaction tr w) = post_inv w" "purses (CommitTransaction tr w) = purses w"
    "letters (CommitTransaction tr w) = letters w" "next_mailId (CommitTransaction tr w) = next_mailId w"
proof -
  note t = mail_free_table [OF assms, of w]
  show "post_inv (CommitTransaction tr w) = post_inv w"
    unfolding post_inv_def mailbox_ok_cong [OF t] unfolding t by (simp add: CommitTransaction_def)
  show "purses (CommitTransaction tr w) = purses w" "next_mailId (CommitTransaction tr w) = next_mailId w"
    by (simp_all add: purses_def CommitTransaction_def)
  show "letters (CommitTransaction tr w) = letters w"
    by (simp add: letters_def t)
qed

lemma posted_Commit:
  "list_all mail_free tr \<Longrightarrow> posted n v w (CommitTransaction tr w') = posted n v w w'"
  "list_all mail_free tr \<Longrightarrow> posted n v (CommitTransaction tr w) w' = posted n v w w'"
  by (simp_all add: posted_def Commit_mail_free)

lemma item_stmt_mail_free: "list_all item_stmt tr \<Longrightarrow> list_all mail_free tr"
  by (induction tr) (simp_all add: mail_free_def)

lemma mail_free_simps [simp]:
  "mail_free (CHAR_UPD_ITEM_OWNER a b)" "mail_free (CHAR_DEL_AUCTION i)" "mail_free (CHAR_INS_AUCTION i r)"
  "mail_free (CHAR_UPD_AUCTION_BID x y z)" "mail_free (SAVE_ITEM it)" "mail_free (DEL_INVENTORY_ITEM i)" "mail_free (CHAR_DEL_ITEM_INSTANCE i)"
  by (simp_all add: mail_free_def item_stmt_def)

lemma mail_free_save [simp]:
  "list_all mail_free (SaveInventoryAndGoldToDB g p)" "list_all mail_free (DeleteFromDB a)" "list_all mail_free (auction_SaveToDB e a)"
  by (simp_all add: item_stmt_mail_free, simp_all add: DeleteFromDB_def auction_SaveToDB_def)

text \<open>One letter.\<close>

lemma posted_deliver:
  assumes small: "m_money d < 0x100000000" and cod: "m_COD d < 0x80000000"
  shows "posted 1 (unat (m_money d)) w (deliver e d rcv sn chk dl w)"
proof -
  have "post_inv (deliver e d rcv sn chk dl w)" "unat (next_mailId (deliver e d rcv sn chk dl w)) \<le> unat (next_mailId w) + 1"
    if "post_inv w" "unat (next_mailId w) + 1 \<le> 0xFFFFFFFE"
  proof -
    have "next_mailId w < 0xFFFFFFFE" using that(2) by (simp add: word_less_nat_alt)
    with that(1) show "post_inv (deliver e d rcv sn chk dl w)" using small cod by (intro deliver_inv)
    show "unat (next_mailId (deliver e d rcv sn chk dl w)) \<le> unat (next_mailId w) + 1"
      by (simp add: deliver_tables unat_word_ariths)
  qed
  moreover have "\<exists>q. FindPlayer g (deliver e d rcv sn chk dl w) = Some q \<and> same_person p q" if "FindPlayer g w = Some p" for g p
    using deliver_player [OF that] by blast
  ultimately show ?thesis
    using deliver_gold [where w = w, OF _ small, of e rcv sn chk dl] by (simp add: posted_def)
qed

lemma settle_if_online: "CommitTransaction tr (if_online g f w) = (if FindPlayer g w = None then CommitTransaction tr w else CommitTransaction tr (f w))"
  by simp

lemma ucast_fits [simp]: "(ucast (v :: u32) :: u64) < 0x100000000"
proof -
  have "unat v < 2 ^ LENGTH(32)" by (rule unsigned_less)
  then show ?thesis by (simp add: word_less_nat_alt)
qed

text \<open>A letter of the auction house: the transaction so far, notifications that are only packets, and the letter.\<close>

lemma posted_mail:
  assumes "m_money d = ucast (v :: u32)" "m_COD d = 0" and "posted 0 0 (settle s) (settle s')"
  shows "posted (Suc 0) (unat v) (settle s) (settle (SendMailTo e d rcv sn chk dl s'))"
proof -
  have "posted 1 (unat (m_money d)) (settle s') (deliver e d rcv sn chk dl (settle s'))"
    using assms(1,2) by (intro posted_deliver) simp_all
  with assms show ?thesis
    using posted_trans [of 0 0 "settle s" "settle s'" 1 "unat (m_money d)"] by (simp add: settle_SendMailTo)
qed

lemma posted_mail_free:
  "m_money d = 0 \<Longrightarrow> m_COD d = 0 \<Longrightarrow> posted 0 0 (settle s) (settle s') \<Longrightarrow> posted (Suc 0) 0 (settle s) (settle (SendMailTo e d rcv sn chk dl s'))"
  using posted_mail [of d 0] by simp

lemma draft_simps [simp]:
  "m_money (MailDraft_new a b) = 0" "m_COD (MailDraft_new a b) = 0" "m_money (AddItem it d) = m_money d" "m_COD (AddItem it d) = m_COD d"
  "m_money (AddMoney v d) = v" "m_COD (AddMoney v d) = m_COD d"
  by (simp_all add: MailDraft_new_def AddItem_def AddMoney_def)

lemmas auction_packets =
  SendAuctionBidderNotification_def SendAuctionOwnerNotification_def SendAuctionRemovedNotification_def SendAuctionCommandResult_def

lemma posted_nothing: "posted n v w w"
  by (rule posted_mono [where n = 0 and v = 0]) simp_all

lemma SendAuctionOutbiddedMail_posted: "posted 1 (unat (bid a)) (settle s) (settle (SendAuctionOutbiddedMail e a pr nb s))"
  unfolding SendAuctionOutbiddedMail_def
  by (auto simp: posted_nothing auction_packets Commit_emit split: option.splits intro!: posted_mail posted_mail_free)

lemma SendAuctionCancelledToBidderMail_posted: "posted 1 (unat (bid a)) (settle s) (settle (SendAuctionCancelledToBidderMail e a it s))"
  unfolding SendAuctionCancelledToBidderMail_def Let_def
  by (auto simp: posted_nothing auction_packets Commit_emit split: option.splits intro!: posted_mail posted_mail_free)

lemma SendAuctionSalePendingMail_posted: "posted 1 0 (settle s) (settle (SendAuctionSalePendingMail e a s))"
  unfolding SendAuctionSalePendingMail_def
  by (auto simp: posted_nothing intro!: posted_mail_free)

lemma SendAuctionSuccessfulMail_posted: "posted 1 (unat (auction_profit e a)) (settle s) (settle (SendAuctionSuccessfulMail e a s))"
  unfolding SendAuctionSuccessfulMail_def
  by (auto simp: posted_nothing auction_packets Commit_emit split: option.splits intro!: posted_mail posted_mail_free)

lemma SendAuctionExpiredMail_posted: "posted 1 0 (settle s) (settle (SendAuctionExpiredMail e a s))"
  unfolding SendAuctionExpiredMail_def
  by (auto simp: posted_nothing auction_packets Commit_emit split: option.splits intro!: posted_mail posted_mail_free)

lemma SendAuctionWonMail_posted: "posted 1 0 (settle s) (settle (SendAuctionWonMail e a s))"
  unfolding SendAuctionWonMail_def Let_def
  by (auto simp: posted_nothing auction_packets Commit_append Commit_emit posted_Commit split: option.splits intro!: posted_mail_free)

section \<open>Payments\<close>

lemma Commit_AddAuction: "CommitTransaction tr (AddAuction h a w) = AddAuction h a (CommitTransaction tr w)"
  by (cases h) (simp_all add: AddAuction_def CommitTransaction_def)

lemma Commit_RemoveAuction: "CommitTransaction tr (RemoveAuction h a w) = RemoveAuction h a (CommitTransaction tr w)"
  by (cases h) (simp_all add: RemoveAuction_def CommitTransaction_def)

lemma Commit_RemoveAItem: "CommitTransaction tr (RemoveAItem i w) = RemoveAItem i (CommitTransaction tr w)"
  by (simp add: RemoveAItem_def CommitTransaction_def)

lemma Commit_pay: "CommitTransaction tr (pay g v w) = pay g v (CommitTransaction tr w)"
  by (simp add: pay_def Commit_upd_player)

lemma commit_for_settle:
  obtains tr' where "list_all mail_free tr'" and "commit_for g tr w = CommitTransaction tr' (CommitTransaction tr w)"
  using that [of "case FindPlayer g w of None \<Rightarrow> [] | Some p \<Rightarrow> SaveInventoryAndGoldToDB g p"]
  by (simp add: commit_for_def Commit_append split: option.splits)

lemma auction_inv_more: "PostWorld.more w' = PostWorld.more w \<Longrightarrow> auction_inv w' = auction_inv w"
  by (simp add: auction_inv_def AuctionsMap_more [of w' w])

lemma GetAuction_more: "PostWorld.more w' = PostWorld.more w \<Longrightarrow> GetAuction h i w' = GetAuction h i w"
  by (simp add: GetAuction_def AuctionsMap_more [of w' w])

lemma house_gold_more: "PostWorld.more w' = PostWorld.more w \<Longrightarrow> house_gold h w' = house_gold h w"
  by (simp add: house_gold_def AuctionsMap_more [of w' w])

lemma gold_more: "PostWorld.more w' = PostWorld.more w \<Longrightarrow> gold w' + purses w + letters w = gold w + purses w' + letters w'"
  by (simp add: gold_def house_gold_more [of w' w])

lemma gold_emit [simp]: "gold (emit x w) = gold w" "auction_inv (emit x w) = auction_inv w"
  using gold_more [of "emit x w" w] auction_inv_more [of "emit x w" w] by simp_all

lemma gold_Commit: "list_all mail_free tr \<Longrightarrow> gold (CommitTransaction tr w) = gold w"
  using gold_more [of "CommitTransaction tr w" w] by (simp add: Commit_mail_free)

lemma auction_inv_Commit [simp]: "auction_inv (CommitTransaction tr w) = auction_inv w"
  by (rule auction_inv_more) simp

lemma GetAuction_simps [simp]:
  "GetAuction h i (emit x w) = GetAuction h i w" "GetAuction h i (CommitTransaction tr w) = GetAuction h i w"
  "GetAuction h i (pay g v w) = GetAuction h i w"
  by (rule GetAuction_more; simp add: pay_def)+

lemma auction_inv_pay [simp]: "auction_inv (pay g v w) = auction_inv w"
  by (rule auction_inv_more) (simp add: pay_def)

lemma gold_RemoveAItem [simp]: "gold (RemoveAItem i w) = gold w" "auction_inv (RemoveAItem i w) = auction_inv w"
    "GetAuction h j (RemoveAItem i w) = GetAuction h j w"
proof -
  have a: "AuctionsMap h (RemoveAItem i w) = AuctionsMap h w" for h by (cases h) (simp_all add: RemoveAItem_def)
  then show "gold (RemoveAItem i w) = gold w" "auction_inv (RemoveAItem i w) = auction_inv w" "GetAuction h j (RemoveAItem i w) = GetAuction h j w"
    by (simp_all add: gold_def house_gold_def auction_inv_def GetAuction_def) (simp add: RemoveAItem_def purses_def letters_def)
qed

text \<open>A player who can afford it pays \<open>v\<close>.\<close>

lemma pay_gold:
  assumes inv: "post_inv w" and fp: "FindPlayer g w = Some p" and en: "v \<le> purse p"
  shows "post_inv (pay g v w)" "gold (pay g v w) + unat v = gold w"
proof -
  have pm: "purse p \<le> MAX_MONEY_AMOUNT" using post_inv_FindPlayer [OF inv fp] by (simp add: mailbox_ok_def)
  let ?q = "p\<lparr>purse := purse p - v\<rparr>"
  have eq: "pay g v w = set_player g ?q w"
    using en pm by (simp add: pay_def upd_player_set [OF fp] ModifyMoney_pay)
  show "post_inv (pay g v w)"
    using inv post_inv_FindPlayer [OF inv fp] pay_le_MAX [OF en pm] unfolding eq by (intro post_inv_set_player) (simp_all add: mailbox_ok_def)
  have "purses (set_player g ?q w) + unat v = purses w" "letters (set_player g ?q w) = letters w"
    using set_player_gold [OF inv fp, of ?q] en by (simp_all add: unat_pay word_le_nat_alt)
  then show "gold (pay g v w) + unat v = gold w"
    using gold_more [of "set_player g ?q w" w] by (simp add: eq)
qed

lemma posted_gold:
  assumes "posted n v w w'" and "post_inv w" and "unat (next_mailId w) + n \<le> 0xFFFFFFFE"
  shows "post_inv w'" "gold w' \<le> gold w + v" "auction_inv w' = auction_inv w" "GetAuction h i w' = GetAuction h i w"
    "unat (next_mailId w') \<le> unat (next_mailId w) + n"
  using assms gold_more [of w' w] auction_inv_more [of w' w] GetAuction_more [of w' w] by (auto simp: posted_def)

text \<open>Letters that are sent, then a payment of a player who can afford it.\<close>

lemma posted_pay:
  assumes po: "posted n x w u" and inv: "post_inv w" and id: "unat (next_mailId w) + n \<le> 0xFFFFFFFE"
    and fp: "FindPlayer g w = Some p" and en: "v \<le> purse p"
  shows "post_inv (pay g v u)" "gold (pay g v u) + unat v \<le> gold w + x" "auction_inv (pay g v u) = auction_inv w"
    "GetAuction h i (pay g v u) = GetAuction h i w"
proof -
  note pg = posted_gold [OF po inv id]
  obtain q where "FindPlayer g u = Some q" "purse q = purse p" using po fp by (auto simp: posted_def same_person_def)
  with pay_gold [OF pg(1), of g q v] en pg show "post_inv (pay g v u)" "gold (pay g v u) + unat v \<le> gold w + x"
    "auction_inv (pay g v u) = auction_inv w" "GetAuction h i (pay g v u) = GetAuction h i w" by simp_all
qed

section \<open>Bids and sales\<close>

text \<open>\<open>market_ok w\<close>: the mailboxes agree with the database and no auction has a bid that reaches its buyout price.\<close>

definition market_ok :: "AuctionWorld \<Rightarrow> bool" where
  "market_ok w \<longleftrightarrow> post_inv w \<and> auction_inv w"

definition no_more_gold :: "AuctionWorld \<Rightarrow> AuctionWorld \<Rightarrow> bool" where
  "no_more_gold w w' \<longleftrightarrow> market_ok w' \<and> gold w' \<le> gold w"

lemma no_more_gold_simps [simp]:
  "no_more_gold w (emit x w') = no_more_gold w w'"
  "no_more_gold w (SendAuctionCommandResult e g a act err w') = no_more_gold w w'"
  by (simp_all add: no_more_gold_def market_ok_def SendAuctionCommandResult_def)

lemma no_more_gold_Commit: "list_all mail_free tr \<Longrightarrow> no_more_gold w (CommitTransaction tr w') = no_more_gold w w'"
  by (simp add: no_more_gold_def market_ok_def gold_Commit Commit_mail_free)

lemma RemoveAuction_RemoveAItem: "RemoveAuction h a (RemoveAItem i (emit x w)) = RemoveAItem i (emit x (RemoveAuction h a w))"
  by (cases h) (simp_all add: RemoveAuction_def RemoveAItem_def emit_def)

lemma no_more_gold_RemoveAItem [simp]: "no_more_gold w (RemoveAItem i w') = no_more_gold w w'"
  by (simp add: no_more_gold_def market_ok_def)

lemma commit_for_gold:
  "list_all mail_free tr' \<Longrightarrow> no_more_gold w (CommitTransaction tr w') \<Longrightarrow> no_more_gold w (commit_for g (tr @ tr') w')"
  by (rule commit_for_settle [of g "tr @ tr'" w']) (simp add: no_more_gold_Commit Commit_append)

lemmas market_commutes = Commit_emit Commit_AddAuction Commit_pay Commit_RemoveAuction Commit_RemoveAItem

lemma raise_bid_gold:
  assumes ok: "market_ok w" and id: "next_mailId w < 0xFFFFFFFE" and fp: "FindPlayer g w = Some p" and g: "g \<noteq> 0"
    and a: "GetAuction h i w = Some a" and en: "HasEnoughMoney price (purse p)" and more: "ucast (bid a) < price"
    and bb: "below_buyout a price" and fits: "fits_u32 price"
  shows "no_more_gold w (raise_bid e g h a price w)"
proof -
  have inv: "post_inv w" "auction_inv w" using ok by (simp_all add: market_ok_def)
  have n: "unat (next_mailId w) + 1 \<le> 0xFFFFFFFE" using id by (simp add: word_less_nat_alt)
  have ai: "auc_Id a = i" using auction_inv_GetAuction [OF inv(2) a] by (simp add: auction_ok_def)
  let ?a = "a\<lparr>bidder := g, bid := ucast price\<rparr>"
  have bid: "unat (ucast price :: u32) = unat price" using fits by (rule unat_narrow)
  have held: "held ?a = unat (deposit a) + unat price" using g bid by (simp add: held_def)
  have lt: "unat (bid a) < unat price" using more by (simp add: word_less_nat_alt)
  have buy: "buyout ?a = 0 \<or> bid ?a < buyout ?a"
    using bb bid by (auto simp: below_buyout_def word_less_nat_alt)
  define v where "v = (if bidder a = g then price - ucast (bid a) else price)"
  have v: "v \<le> purse p" "unat v + (if bidder a = g then unat (bid a) else 0) = unat price"
    using en more lt by (auto simp: v_def HasEnoughMoney_def unat_pay order.strict_implies_order intro: order_trans [OF word_sub_le])
  define s where "s = (if bidder a > 0 \<and> bidder a \<noteq> g then SendAuctionOutbiddedMail e a (ucast price) g ([], w) else ([], w))"
  have po: "posted 1 (if bidder a \<noteq> 0 \<and> bidder a \<noteq> g then unat (bid a) else 0) w (settle s)"
    using SendAuctionOutbiddedMail_posted [of a "([], w)" e "ucast price" g] posted_nothing [of 1 0 w] by (auto simp: s_def word_gt_0)
  note pp = posted_pay [OF po inv(1) n fp v(1)]
  have eq: "raise_bid e g h a price w = commit_for g (fst s @ [CHAR_UPD_AUCTION_BID g (ucast price) (auc_Id a)])
      (SendAuctionCommandResult e g (Some ?a) AUCTION_PLACE_BID ERR_AUCTION_OK
        (emit (AchievementCriteria g HIGHEST_AUCTION_BID price) (AddAuction h ?a (pay g v (snd s)))))"
    using g by (simp add: raise_bid_def Let_def s_def v_def case_prod_unfold word_gt_0)
  have "no_more_gold w (AddAuction h ?a (pay g v (settle s)))"
    using AddAuction_gold [of "pay g v (settle s)" h ?a] auction_inv_Add [OF _ buy, of "pay g v (settle s)" h] pp inv a ai v held
    by (auto simp: no_more_gold_def market_ok_def held_def split: if_splits)
  then show ?thesis
    unfolding eq by (intro commit_for_gold)
      (simp_all add: market_commutes SendAuctionCommandResult_def)
qed

text \<open>The cut of the house is at most the bid, so the owner gets at most the bid and the deposit.\<close>

definition fair_cut :: "AuctionEnv \<Rightarrow> bool" where
  "fair_cut e \<longleftrightarrow> (\<forall>a. GetAuctionCut e a \<le> bid a)"

lemma profit_bound:
  assumes "fair_cut e"
  shows "unat (auction_profit e a) \<le> unat (bid a) + unat (deposit a)"
proof -
  have c: "GetAuctionCut e a \<le> bid a" using assms by (simp add: fair_cut_def)
  have "auction_profit e a = (bid a - GetAuctionCut e a) + deposit a" by (simp add: auction_profit_def)
  then have "unat (auction_profit e a) \<le> unat (bid a - GetAuctionCut e a) + unat (deposit a)"
    by (simp add: unat_word_ariths)
  also have "unat (bid a - GetAuctionCut e a) \<le> unat (bid a)" using c by (simp add: word_le_nat_alt unat_sub)
  finally show ?thesis by simp
qed

lemma posted_sold:
  "posted 2 (unat (auction_profit e a)) (settle s) (settle (SendAuctionWonMail e a (SendAuctionSuccessfulMail e a s)))"
  using posted_trans [OF SendAuctionSuccessfulMail_posted SendAuctionWonMail_posted, of e a s e a] by (simp add: numeral_2_eq_2)

lemma buy_out_gold:
  assumes ok: "market_ok w" and cut: "fair_cut e" and id: "next_mailId w < 0xFFFFFFF0" and fp: "FindPlayer g w = Some p" and g: "g \<noteq> 0"
    and a: "GetAuction h i w = Some a" and en: "HasEnoughMoney price (purse p)" and bb: "\<not> below_buyout a price"
  shows "no_more_gold w (buy_out e g h a w)"
proof -
  have inv: "post_inv w" "auction_inv w" using ok by (simp_all add: market_ok_def)
  have n: "unat (next_mailId w) < 0xFFFFFFF0" using id by (simp add: word_less_nat_alt)
  have ao: "auc_Id a = i" "bid a < buyout a" using auction_inv_GetAuction [OF inv(2) a] bb by (auto simp: auction_ok_def below_buyout_def)
  let ?a = "a\<lparr>bidder := g, bid := buyout a\<rparr>"
  have le: "ucast (buyout a) \<le> price" using bb by (simp add: below_buyout_def not_less)
  then have en': "(ucast (buyout a) :: u64) \<le> purse p" using en by (simp add: HasEnoughMoney_def)
  define v :: u32 where "v = (if g = bidder a then buyout a - bid a else buyout a)"
  have v: "unat v + (if g = bidder a then unat (bid a) else 0) = unat (buyout a)"
    using ao by (auto simp: v_def unat_sub word_le_nat_alt word_less_nat_alt)
  have vp: "ucast v \<le> purse p" using en' v by (auto simp: word_le_nat_alt split: if_splits)
  define u where "u = pay g (ucast v) w"
  note pg = pay_gold [OF inv(1) fp vp, folded u_def]
  have nu: "next_mailId u = next_mailId w" by (simp add: u_def pay_def upd_player_def)
  define s where "s = (if g \<noteq> bidder a \<and> bidder a \<noteq> 0 then SendAuctionOutbiddedMail e a (buyout a) g ([], u) else ([], u))"
  let ?x = "if g \<noteq> bidder a \<and> bidder a \<noteq> 0 then unat (bid a) else 0"
  define s1 where "s1 = SendAuctionSalePendingMail e ?a (fst s, emit (AchievementCriteria g HIGHEST_AUCTION_BID (ucast (buyout a))) (snd s))"
  define s2 where "s2 = SendAuctionWonMail e ?a (SendAuctionSuccessfulMail e ?a s1)"
  have p0: "posted 1 ?x u (settle s)"
    using SendAuctionOutbiddedMail_posted [of a "([], u)" e "buyout a" g] posted_nothing [of 1 0 u] by (auto simp: s_def)
  have p1: "posted 1 0 (settle s) (settle s1)"
    using SendAuctionSalePendingMail_posted [of "(fst s, emit (AchievementCriteria g HIGHEST_AUCTION_BID (ucast (buyout a))) (snd s))" e ?a]
    by (simp add: s1_def Commit_emit)
  have p2: "posted 2 (unat (auction_profit e ?a)) (settle s1) (settle s2)" unfolding s2_def by (rule posted_sold)
  have po: "posted 4 (?x + unat (auction_profit e ?a)) u (settle s2)"
    by (rule posted_mono [OF posted_trans [OF posted_trans [OF p0 p1] p2]]) simp_all
  have "unat (next_mailId u) + 4 \<le> 0xFFFFFFFE" using n nu by simp
  note pq = posted_gold [OF po pg(1) this]
  have a2: "GetAuction h i (settle s2) = Some a" using pq(4) a by (simp add: u_def)
  have ai2: "auction_inv (settle s2)" using pq(3) inv by (simp add: u_def)
  have "no_more_gold w (RemoveAuction h ?a (settle s2))"
    using RemoveAuction_gold [OF ai2 a2, of ?a] auction_inv_Remove [OF ai2] pq pg(2) v ao g profit_bound [OF cut, of ?a]
    by (auto simp: no_more_gold_def market_ok_def held_def split: if_splits)
  moreover have "buy_out e g h a w = commit_for g (fst s2 @ DeleteFromDB ?a)
      (RemoveAuction h ?a (RemoveAItem (itemGUIDLow a) (SendAuctionCommandResult e g (Some ?a) AUCTION_PLACE_BID ERR_AUCTION_OK (snd s2))))"
    using g by (auto simp: buy_out_def Let_def s2_def s1_def s_def u_def v_def case_prod_unfold)
  ultimately show ?thesis
    by (simp only:) (intro commit_for_gold, simp, simp add: market_commutes SendAuctionCommandResult_def RemoveAuction_RemoveAItem)
qed

lemma at_auctioneer_gold:
  assumes "market_ok w" and "no_more_gold w (ret w)"
    and "\<And>fac p u. FindPlayer g w = Some p \<Longrightarrow> u = w \<or> u = emit (RemoveFeignDeath g) w \<Longrightarrow> no_more_gold u (f fac p u)"
  shows "no_more_gold w (at_auctioneer e g npc f ret w)"
proof -
  have "no_more_gold w (f fac p (if has_died e g then emit (RemoveFeignDeath g) w else w))" if "FindPlayer g w = Some p" for fac p
    using assms(3) [OF that, of w fac] assms(3) [OF that, of "emit (RemoveFeignDeath g) w" fac] by (simp add: no_more_gold_def)
  with assms(1,2) show ?thesis by (auto simp: at_auctioneer_def split: option.splits if_splits)
qed

lemma no_more_gold_refl: "market_ok w \<Longrightarrow> no_more_gold w w"
  by (simp add: no_more_gold_def)

lemma market_ok_emit [simp]: "market_ok (emit x w) = market_ok w" "next_mailId (emit x w) = next_mailId w"
  by (simp_all add: market_ok_def) (simp add: emit_def)

text \<open>A bid or a purchase, with a price that fits into 32 bits when the auction has no buyout price.\<close>

lemma AuctionPlaceBid_gold:
  assumes ok: "market_ok w" and cut: "fair_cut e" and id: "next_mailId w < 0xFFFFFFF0" and g: "g \<noteq> 0"
    and fits: "fits_u32 price \<or> (\<forall>h a. GetAuction h i w = Some a \<longrightarrow> buyout a \<noteq> 0)"
  shows "no_more_gold w (AuctionPlaceBid e g npc i price w)"
proof -
  have "no_more_gold u
      (let h = GetAuctionsMap e fac in
        case GetAuction h i u of
          None \<Rightarrow> SendAuctionCommandResult e g None AUCTION_PLACE_BID ERR_AUCTION_BID_OWN u
        | Some a \<Rightarrow>
            if owner a = g then SendAuctionCommandResult e g None AUCTION_PLACE_BID ERR_AUCTION_BID_OWN u
            else if price \<le> ucast (bid a) \<or> price < ucast (startbid a) then u
            else if below_buyout a price \<and> price < ucast (bid a + GetAuctionOutBid e a)
            then SendAuctionCommandResult e g (Some a) AUCTION_PLACE_BID ERR_AUCTION_HIGHER_BID u
            else if \<not> HasEnoughMoney price (purse p)
            then SendAuctionCommandResult e g (Some a) AUCTION_PLACE_BID ERR_AUCTION_NOT_ENOUGHT_MONEY u
            else if below_buyout a price then raise_bid e g h a price u
            else buy_out e g h a u)"
    if fp: "FindPlayer g w = Some p" and u: "u = w \<or> u = emit (RemoveFeignDeath g) w" for fac p u
  proof -
    have w: "market_ok u" "next_mailId u < 0xFFFFFFF0" "FindPlayer g u = Some p" using ok id fp u by auto
    have id': "next_mailId u < 0xFFFFFFFE" using w(2) by (rule less_trans) simp
    have fits': "fits_u32 price" if a: "GetAuction h i u = Some a" "below_buyout a price" for h a
    proof (cases "buyout a = 0")
      case True
      with fits u a(1) show ?thesis by auto
    next
      case False
      with a(2) have "price < ucast (buyout a)" by (simp add: below_buyout_def)
      then show ?thesis by (rule less_trans) simp
    qed
    show ?thesis
      using w(1) fits' raise_bid_gold [OF w(1) id' w(3) g] buy_out_gold [OF w(1) cut w(2,3) g]
      by (auto simp: Let_def no_more_gold_refl not_le split: option.splits)
  qed
  then show ?thesis
    using ok unfolding AuctionPlaceBid_def by (auto simp: no_more_gold_refl intro!: at_auctioneer_gold)
qed

section \<open>Cancelling\<close>

lemma cancel_auction_gold:
  assumes w0: "market_ok w0" and v: "post_inv (settle s)" "auction_inv (settle s)" "unat (next_mailId (snd s)) + 1 \<le> 0xFFFFFFFE"
    and a: "GetAuction h i (snd s) = Some a" and gold: "gold (settle s) \<le> gold w0 + (if bidder a \<noteq> 0 then unat (bid a) else 0)"
  shows "no_more_gold w0 (cancel_auction e g h a it s)"
proof -
  define s1 where "s1 = SendMailTo (post e) (AddItem it (MailDraft_new (BuildAuctionMailSubject a AUCTION_CANCELED)
      (BuildAuctionMailBody 0 0 (buyout a) (deposit a) 0))) g (auction_sender a) MAIL_CHECK_MASK_COPIED 0 s"
  have "posted (Suc 0) 0 (settle s) (settle s1)" unfolding s1_def by (rule posted_mail_free) simp_all
  note pq = posted_gold [OF this v(1)]
  have n: "unat (next_mailId (settle s)) + Suc 0 \<le> 0xFFFFFFFE" using v(3) by (simp add: CommitTransaction_def)
  have a1: "GetAuction h i (settle s1) = Some a" using pq(4) [OF n] a by simp
  have ai: "auction_inv (settle s1)" using pq(3) [OF n] v(2) by simp
  have "auc_Id a = i" using auction_inv_GetAuction [OF ai a1] by (simp add: auction_ok_def)
  then have "no_more_gold w0 (RemoveAuction h a (settle s1))"
    using RemoveAuction_gold [OF ai a1, of a] auction_inv_Remove [OF ai] pq(1,2) [OF n] gold
    by (auto simp: no_more_gold_def market_ok_def held_def split: if_splits)
  moreover define tr where "tr = (case FindPlayer g (SendAuctionCommandResult e g (Some a) AUCTION_CANCEL ERR_AUCTION_OK (snd s1)) of
      None \<Rightarrow> [] | Some p \<Rightarrow> SaveInventoryAndGoldToDB g p) @ DeleteFromDB a"
  moreover have "list_all mail_free tr" by (simp add: tr_def split: option.splits)
  moreover have "cancel_auction e g h a it s = RemoveAuction h a (RemoveAItem (itemGUIDLow a)
      (CommitTransaction (fst s1 @ tr) (SendAuctionCommandResult e g (Some a) AUCTION_CANCEL ERR_AUCTION_OK (snd s1))))"
    by (simp add: cancel_auction_def Let_def s1_def [symmetric] case_prod_unfold tr_def)
  ultimately show ?thesis
    by (simp add: Commit_append SendAuctionCommandResult_def Commit_emit RemoveAuction_RemoveAItem
        Commit_RemoveAuction [symmetric] no_more_gold_Commit)
qed

lemma cancel_free_gold:
  assumes "market_ok u" and "next_mailId u < 0xFFFFFFF0" and "GetAuction h i u = Some a" and "bidder a = 0"
  shows "no_more_gold u (cancel_auction e g h a it ([], u))"
  using assms by (intro cancel_auction_gold [where i = i]) (simp_all add: market_ok_def word_less_nat_alt)

lemma cancel_bid_gold:
  assumes u: "market_ok u" "next_mailId u < 0xFFFFFFF0" and fp: "FindPlayer g u = Some p" and a: "GetAuction h i u = Some a" and b: "bidder a \<noteq> 0"
    and en: "HasEnoughMoney (ucast (GetAuctionCut e a)) (purse p)"
  shows "no_more_gold u (cancel_auction e g h a it
    (fst (SendAuctionCancelledToBidderMail e a it ([], u)), pay g (ucast (GetAuctionCut e a)) (snd (SendAuctionCancelledToBidderMail e a it ([], u)))))"
proof -
  let ?s = "SendAuctionCancelledToBidderMail e a it ([], u)" and ?c = "ucast (GetAuctionCut e a) :: u64"
  have inv: "post_inv u" "auction_inv u" using u(1) by (simp_all add: market_ok_def)
  have n: "unat (next_mailId u) + 1 \<le> 0xFFFFFFFE" using u(2) by (simp add: word_less_nat_alt)
  have po: "posted 1 (unat (bid a)) u (settle ?s)"
    using SendAuctionCancelledToBidderMail_posted [of a "([], u)" e it] by simp
  note pp = posted_pay [OF po inv(1) n fp, of ?c]
  have le: "?c \<le> purse p" using en by (simp add: HasEnoughMoney_def)
  have st: "settle (fst ?s, pay g ?c (snd ?s)) = pay g ?c (settle ?s)" by (simp add: Commit_pay)
  have "unat (next_mailId (settle ?s)) + 1 \<le> 0xFFFFFFFE"
    using posted_gold(5) [OF po inv(1) n] u(2) by (simp add: word_less_nat_alt)
  then have m: "unat (next_mailId (pay g ?c (snd ?s))) + 1 \<le> 0xFFFFFFFE" by (simp add: CommitTransaction_def pay_def upd_player_def)
  show ?thesis
    by (rule cancel_auction_gold [where i = i])
       (use u pp [OF le] inv a b m in \<open>simp_all add: st [simplified]\<close>)
qed

lemma AuctionRemoveItem_gold:
  assumes ok: "market_ok w" and id: "next_mailId w < 0xFFFFFFF0"
  shows "no_more_gold w (AuctionRemoveItem e g npc i w)"
  unfolding AuctionRemoveItem_def
proof (rule at_auctioneer_gold [OF ok])
  fix fac p u
  assume fp: "FindPlayer g w = Some p" and "u = w \<or> u = emit (RemoveFeignDeath g) w"
  then have u: "market_ok u" "next_mailId u < 0xFFFFFFF0" "FindPlayer g u = Some p" using ok id by auto
  show "no_more_gold u
     (let h = GetAuctionsMap e fac; fail = SendAuctionCommandResult e g None AUCTION_CANCEL ERR_AUCTION_DATABASE_ERROR u in
       case GetAuction h i u of
         None \<Rightarrow> fail
       | Some a \<Rightarrow>
           if owner a \<noteq> g then fail
           else case GetAItem (itemGUIDLow a) u of
             None \<Rightarrow> fail
           | Some it \<Rightarrow>
               if bidder a > 0
               then let auctionCut = ucast (GetAuctionCut e a) in
                    if \<not> HasEnoughMoney auctionCut (purse p) then u
                    else (case SendAuctionCancelledToBidderMail e a it ([], u) of
                            (tr, w1) \<Rightarrow> cancel_auction e g h a it (tr, pay g auctionCut w1))
               else cancel_auction e g h a it ([], u))"
    using u cancel_free_gold [OF u(1,2)] cancel_bid_gold [OF u]
    by (simp add: Let_def no_more_gold_refl case_prod_unfold word_gt_0 split: option.splits)
qed (simp add: no_more_gold_refl ok)

section \<open>Expiry\<close>

lemma close_auction_posted:
  "posted 2 (if bidder a = 0 then 0 else unat (auction_profit e a)) (settle s) (settle (close_auction e a s))"
  using posted_mono [OF SendAuctionExpiredMail_posted [of s e a], of 2 0] posted_sold [of e a s] by (simp add: close_auction_def)

lemma update_auction_gold:
  assumes ok: "market_ok w" and cut: "fair_cut e" and n: "unat (next_mailId w) + 2 \<le> 0xFFFFFFFE"
  shows "no_more_gold w (update_auction e h i w)" "unat (next_mailId (update_auction e h i w)) \<le> unat (next_mailId w) + 2"
proof -
  have "no_more_gold w (update_auction e h i w) \<and> unat (next_mailId (update_auction e h i w)) \<le> unat (next_mailId w) + 2"
  proof (cases "GetAuction h i w")
    case None
    then show ?thesis using ok by (simp add: update_auction_def no_more_gold_refl)
  next
    case (Some a)
    have inv: "post_inv w" "auction_inv w" using ok by (simp_all add: market_ok_def)
    define s where "s = close_auction e a ([], w)"
    have po: "posted 2 (if bidder a = 0 then 0 else unat (auction_profit e a)) w (settle s)"
      using close_auction_posted [of a e "([], w)"] by (simp add: s_def)
    note pq = posted_gold [OF po inv(1) n]
    have a1: "GetAuction h i (settle s) = Some a" and ai: "auction_inv (settle s)" using pq(3,4) Some inv by simp_all
    have "auc_Id a = i" using auction_inv_GetAuction [OF inv(2) Some] by (simp add: auction_ok_def)
    then have g: "no_more_gold w (RemoveAuction h a (settle s))"
      using RemoveAuction_gold [OF ai a1, of a] auction_inv_Remove [OF ai] pq(1,2) profit_bound [OF cut, of a]
      by (auto simp: no_more_gold_def market_ok_def held_def split: if_splits)
    have eq: "update_auction e h i w = RemoveAuction h a (RemoveAItem (itemGUIDLow a) (CommitTransaction (DeleteFromDB a) (settle s)))"
      by (simp add: update_auction_def Some s_def case_prod_unfold Commit_append)
    have "RemoveAuction h a (RemoveAItem j v) = RemoveAItem j (RemoveAuction h a v)" for j v
      by (cases h) (simp_all add: RemoveAuction_def RemoveAItem_def)
    then have "no_more_gold w (update_auction e h i w)"
      using g by (simp add: eq Commit_RemoveAuction [symmetric] no_more_gold_Commit)
    moreover have "next_mailId (update_auction e h i w) = next_mailId (settle s)"
      by (simp add: eq RemoveAuction_def RemoveAItem_def CommitTransaction_def)
    ultimately show ?thesis using pq(5) by simp
  qed
  then show "no_more_gold w (update_auction e h i w)" "unat (next_mailId (update_auction e h i w)) \<le> unat (next_mailId w) + 2" by simp_all
qed

lemma no_more_gold_trans: "no_more_gold u v \<Longrightarrow> no_more_gold v w \<Longrightarrow> no_more_gold u w"
  by (simp add: no_more_gold_def)

lemma update_auctions_gold:
  assumes "market_ok w" and "fair_cut e" and "unat (next_mailId w) + 2 * length is \<le> 0xFFFFFFFE"
  shows "no_more_gold w (fold (update_auction e h) is w)
    \<and> unat (next_mailId (fold (update_auction e h) is w)) \<le> unat (next_mailId w) + 2 * length is"
  using assms
proof (induction "is" arbitrary: w)
  case (Cons i "is")
  let ?v = "update_auction e h i w"
  have v: "no_more_gold w ?v" "unat (next_mailId ?v) \<le> unat (next_mailId w) + 2"
    using Cons.prems update_auction_gold [of w e h i] by simp_all
  then have "no_more_gold ?v (fold (update_auction e h) is ?v)
      \<and> unat (next_mailId (fold (update_auction e h) is ?v)) \<le> unat (next_mailId ?v) + 2 * length is"
    using Cons.prems by (intro Cons.IH) (simp_all add: no_more_gold_def)
  with v show ?case by (auto intro: no_more_gold_trans)
qed (simp add: no_more_gold_refl)

lemma AuctionHouse_Update_gold:
  assumes "market_ok w" and "fair_cut e" and "unat (next_mailId w) + 2 * length (tbl_auctionhouse (chardb w)) \<le> 0xFFFFFFFE"
  shows "no_more_gold w (AuctionHouse_Update e h w)"
proof -
  have "length (expired_ids e (chardb w)) \<le> length (tbl_auctionhouse (chardb w))" by (simp add: expired_ids_def)
  with assms update_auctions_gold [of w e "expired_ids e (chardb w)" h] show ?thesis
    by (simp add: AuctionHouse_Update_def no_more_gold_refl)
qed

section \<open>Selling\<close>

lemma scast_minus_small: "dep < 0x80000000 \<Longrightarrow> (scast (- (dep :: u32)) :: u64) = - ucast dep"
proof -
  assume "dep < 0x80000000"
  then have "(ucast dep :: u64) < 0x80000000" by (simp add: word_less_nat_alt)
  moreover have "(ucast (ucast dep :: u64) :: u32) = dep" by (simp only: word_unat_eq_iff unat_narrow [OF ucast_fits] unat_widen32)
  ultimately show ?thesis using neg_int32_small [of "ucast dep"] by (simp add: neg_int32_def)
qed

text \<open>A change of a player that leaves purse and mailbox alone.\<close>

lemma inventory_change:
  assumes ok: "market_ok w" and f: "\<And>p. purse (f p) = purse p \<and> m_mail (f p) = m_mail p \<and> m_mailsLoaded (f p) = m_mailsLoaded p"
  shows "market_ok (upd_player g f w)" "gold (upd_player g f w) = gold w"
proof -
  have inv: "post_inv w" "auction_inv w" using ok by (simp_all add: market_ok_def)
  have m: "PostWorld.more (upd_player g f w) = PostWorld.more w" by simp
  have "post_inv (upd_player g f w) \<and> purses (upd_player g f w) = purses w \<and> letters (upd_player g f w) = letters w"
  proof (cases "FindPlayer g w")
    case None
    then show ?thesis using inv by (simp add: upd_player_none)
  next
    case (Some p)
    have "mailbox_ok (chardb w) g (f p)" using post_inv_FindPlayer [OF inv(1) Some] f [of p] by (simp add: mailbox_ok_def)
    then show ?thesis
      using post_inv_set_player [OF inv(1)] set_player_gold [OF inv(1) Some, of "f p"] f [of p] by (simp add: upd_player_set [OF Some])
  qed
  then show "market_ok (upd_player g f w)" "gold (upd_player g f w) = gold w"
    using inv auction_inv_more [OF m] gold_more [OF m] by (simp_all add: market_ok_def)
qed

lemma market_Commit: "list_all mail_free tr \<Longrightarrow> market_ok (CommitTransaction tr w) = market_ok w"
  by (simp add: market_ok_def Commit_mail_free)

lemma consume_stack_gold:
  assumes "market_ok w"
  shows "market_ok (consume_stack g x w)" "gold (consume_stack g x w) = gold w"
  using assms inventory_change [OF assms]
  by (simp_all add: consume_stack_def Let_def market_Commit gold_Commit MoveItemFromInventory_def)

lemma consume_stacks_gold:
  "market_ok w \<Longrightarrow> market_ok (fold (consume_stack g) xs w) \<and> gold (fold (consume_stack g) xs w) = gold w"
  by (induction xs arbitrary: w) (simp_all add: consume_stack_gold)

lemma GenerateAuctionID_gold:
  "market_ok (snd (GenerateAuctionID w)) = market_ok w" "gold (snd (GenerateAuctionID w)) = gold w" "fst (GenerateAuctionID w) = next_auctionId w"
proof -
  have "AuctionsMap h (snd (GenerateAuctionID w)) = AuctionsMap h w" for h by (cases h) (simp_all add: GenerateAuctionID_def emit_def)
  then show "market_ok (snd (GenerateAuctionID w)) = market_ok w" "gold (snd (GenerateAuctionID w)) = gold w" "fst (GenerateAuctionID w) = next_auctionId w"
    by (simp_all add: market_ok_def auction_inv_def gold_def house_gold_def)
       (simp_all add: GenerateAuctionID_def emit_def post_inv_def purses_def letters_def)
qed

lemma AddAItem_gold:
  assumes "AddAItem it w = Some w'"
  shows "market_ok w' = market_ok w" "gold w' = gold w"
proof -
  have w': "w' = w\<lparr>mAitems := store_put (item_guid it) it (mAitems w)\<rparr>" using assms by (simp add: AddAItem_def split: if_splits)
  have "AuctionsMap h w' = AuctionsMap h w" for h by (cases h) (simp_all add: w')
  then show "market_ok w' = market_ok w" "gold w' = gold w"
    by (simp_all add: market_ok_def auction_inv_def gold_def house_gold_def) (simp_all add: w' post_inv_def purses_def letters_def)
qed

lemma AddAuction_new:
  assumes "market_ok w"
  shows "market_ok (AddAuction h (new_auction e g r ah et dep i it) w)"
    "gold (AddAuction h (new_auction e g r ah et dep i it) w) \<le> gold w + unat dep"
proof -
  let ?a = "new_auction e g r ah et dep i it"
  have a: "buyout ?a = 0 \<or> bid ?a < buyout ?a" "held ?a = unat dep" by (simp_all add: new_auction_def word_gt_0 held_def)
  then show "market_ok (AddAuction h ?a w)" "gold (AddAuction h ?a w) \<le> gold w + unat dep"
    using assms auction_inv_Add [OF _ a(1), of w h] AddAuction_gold [of w h ?a] by (simp_all add: market_ok_def)
qed

lemma finish_sale_gold: "market_ok u \<Longrightarrow> gold u \<le> gold w \<Longrightarrow> list_all mail_free tr \<Longrightarrow> no_more_gold w (finish_sale e g a tr u)"
  using commit_for_gold [of "tr @ auction_SaveToDB e a" w "[]" u g] by (simp add: finish_sale_def) (simp add: no_more_gold_def)

lemma place_auction_gold:
  assumes ok: "market_ok w" and fp: "FindPlayer g w = Some p" and en: "HasEnoughMoney (ucast dep) (purse p)" and dep: "dep < 0x80000000"
    and r: "place_auction e g h r ah et dep its cnt w = Inr w'"
  shows "no_more_gold w w'"
proof -
  have eq: "upd_player g (\<lambda>p. p\<lparr>purse := ModifyMoney (scast (- dep)) (purse p)\<rparr>) w = pay g (ucast dep) w"
    using dep by (simp add: pay_def scast_minus_small)
  define w2 where "w2 = snd (GenerateAuctionID (pay g (ucast dep) w))"
  have w2: "market_ok w2" "gold w2 + unat dep = gold w"
    using pay_gold [of w g p "ucast dep"] ok fp en by (simp_all add: w2_def GenerateAuctionID_gold) (simp_all add: market_ok_def HasEnoughMoney_def)
  have sale: "no_more_gold w (finish_sale e g a tr (k (AddAuction h (new_auction e g r ah et dep i it) w3)))"
    if "AddAItem it' w2 = Some w3" "list_all mail_free tr" "\<And>u. market_ok u \<Longrightarrow> market_ok (k u) \<and> gold (k u) = gold u" for a tr k i it it' w3
    using AddAItem_gold [OF that(1)] AddAuction_new [of w3 h e g r ah et dep i it] w2 that(3) [of "AddAuction h (new_auction e g r ah et dep i it) w3"]
    by (intro finish_sale_gold that(2)) simp_all
  have move: "market_ok (upd_player g (MoveItemFromInventory it) u) \<and> gold (upd_player g (MoveItemFromInventory it) u) = gold u"
    if "market_ok u" for it u using inventory_change [OF that, of "MoveItemFromInventory it" g] by (simp add: MoveItemFromInventory_def)
  have "no_more_gold w w2" using w2 by (simp add: no_more_gold_def)
  then show ?thesis
    using r sale [where k = "upd_player g (MoveItemFromInventory _)"] sale [where k = "fold (consume_stack g) _"] move consume_stacks_gold
    unfolding place_auction_def Let_def eq case_prod_unfold w2_def [symmetric]
    by (auto split: if_splits option.splits)
qed

definition fair_deposit :: "AuctionEnv \<Rightarrow> bool" where
  "fair_deposit e \<longleftrightarrow> (\<forall>ah t it cnt. GetAuctionDeposit e ah t it cnt < 0x80000000)"

lemma AuctionSellItem_gold:
  assumes ok: "market_ok w" and dep: "fair_deposit e" and r: "AuctionSellItem e g r w = Inr w'"
  shows "no_more_gold w w'"
proof -
  define u where "u = (if has_died e g then emit (RemoveFeignDeath g) w else w)"
  have u: "market_ok u" "gold u = gold w" "FindPlayer g u = FindPlayer g w" using ok by (simp_all add: u_def)
  have fail: "no_more_gold w (SendAuctionCommandResult e g a b c u)" for a b c using u by (simp add: no_more_gold_def [of w u])
  have place: "no_more_gold w w'" if "place_auction e g h r ah et (GetAuctionDeposit e ah et it cnt) its cnt u = Inr w'"
      "FindPlayer g w = Some p" "HasEnoughMoney (ucast (GetAuctionDeposit e ah et it cnt)) (purse p)" for h ah et it cnt its p
    using place_auction_gold [OF u(1) _ that(3) _ that(1)] that(2) dep u by (simp add: no_more_gold_def fair_deposit_def)
  show ?thesis
    using r ok fail place unfolding AuctionSellItem_def Let_def u_def [symmetric]
    by (auto split: if_splits option.splits sum.splits prod.splits intro: no_more_gold_refl)
qed

end
