(* ===== verification/Economy.thy ===== *)
theory Economy
  imports AuctionGold
begin

text \<open>
  The mail and the auction houses together: the requests of clients and the periodic work of the server as the steps
  of one relation over the world, and what every run keeps.
\<close>

section \<open>The mail leaves the auctions alone\<close>

lemma more_SendMailTo [simp]: "PostWorld.more (snd (SendMailTo e d rcv sn chk dl s)) = PostWorld.more (snd s)"
  by (simp add: SendMailTo_def Let_def case_prod_unfold deleteIncludedItems_def AddNewMailDeliverTime_def SendNewMail_def
      GenerateMailID_def split: option.splits)

lemma more_results [simp]:
  "PostWorld.more (SendMailResult_full g i act err eq it c w) = PostWorld.more w" "PostWorld.more (Execute s w) = PostWorld.more w"
  by (simp_all add: SendMailResult_full_def Execute_def)

lemma more_fold: "(\<And>x w. PostWorld.more (f x w) = PostWorld.more w) \<Longrightarrow> PostWorld.more (fold f xs w) = PostWorld.more w"
  by (induction xs arbitrary: w) simp_all

lemma more_LoadMailedItems [simp]: "PostWorld.more (snd (LoadMailedItems e g s)) = PostWorld.more (snd s)"
proof -
  have "PostWorld.more (snd (fold (LoadMailedItem e g) its s)) = PostWorld.more (snd s)" for its
    by (induction its arbitrary: s) (simp_all add: LoadMailedItem_def Let_def)
  then show ?thesis by (simp add: LoadMailedItems_def)
qed

lemma more_LoadMail [simp]: "PostWorld.more (LoadMail e g w) = PostWorld.more w"
  by (simp add: LoadMail_def more_fold LoadMail_row_def Let_def)

lemma more_mailbox_ops [simp]:
  "PostWorld.more (MailMarkAsRead e g mb i w) = PostWorld.more w" "PostWorld.more (MailDelete e g mb i w) = PostWorld.more w"
  "PostWorld.more (MailCreateTextItem e g mb i w) = PostWorld.more w" "PostWorld.more (MailTakeMoney e g mb i v w) = PostWorld.more w"
  "PostWorld.more (GetMailList e g mb w) = PostWorld.more w" "PostWorld.more (HandleQueryNextMailTime e g w) = PostWorld.more w"
  by (simp_all add: MailMarkAsRead_def MailDelete_def MailCreateTextItem_def MailTakeMoney_def GetMailList_def
      HandleQueryNextMailTime_def at_mailbox_def Let_def case_prod_unfold split: option.splits)

lemma more_MailTakeItem [simp]: "PostWorld.more (MailTakeItem e g mb i it w) = PostWorld.more w"
  by (simp add: MailTakeItem_def at_mailbox_def take_item_def take_item_end_def cod_payment_def Let_def case_prod_unfold split: option.splits)

lemma more_MailReturnToSender [simp]: "PostWorld.more (MailReturnToSender e g mb i w) = PostWorld.more w"
  by (simp add: MailReturnToSender_def at_mailbox_def SendReturnToSender_def deleteIncludedItems_def Let_def case_prod_unfold split: option.splits)

lemma more_SendMail: "SendMail e g r w = Inr w' \<Longrightarrow> PostWorld.more w' = PostWorld.more w"
  using SendMail_Inr [of e g r w w'] by (auto simp: SendMail_commit_def Let_def case_prod_unfold)

lemma more_old_mails [simp]: "PostWorld.more (ReturnOrDeleteOldMails e up w) = PostWorld.more w"
  by (simp add: ReturnOrDeleteOldMails_def Let_def more_fold old_mail_def)

lemma no_new_more:
  assumes "no_new_gold w w'" and "PostWorld.more w' = PostWorld.more w" and "auction_inv w"
  shows "no_more_gold w w'"
  using assms gold_more [OF assms(2)] auction_inv_more [OF assms(2)] by (simp add: no_new_gold_def no_more_gold_def market_ok_def)

section \<open>Steps\<close>

text \<open>The contract of a system that handles money: its steps keep an invariant and, under it, never increase the amount.\<close>

locale ledger =
  fixes step :: "'s \<Rightarrow> 's \<Rightarrow> bool"
    and ok :: "'s \<Rightarrow> bool"
    and amount :: "'s \<Rightarrow> nat"
  assumes step_ok: "step s t \<Longrightarrow> ok s \<Longrightarrow> ok t"
    and step_amount: "step s t \<Longrightarrow> ok s \<Longrightarrow> amount t \<le> amount s"
begin

lemma run_ok: "rtranclp step s t \<Longrightarrow> ok s \<Longrightarrow> ok t"
  by (induction rule: rtranclp_induct) (auto intro: step_ok)

lemma run_amount: "rtranclp step s t \<Longrightarrow> ok s \<Longrightarrow> amount t \<le> amount s"
  by (induction rule: rtranclp_induct) (auto dest: run_ok step_amount)

end

text \<open>A step is a request of a player, given by its low guid, or a periodic task. The handlers accept more than these steps:
  here the coins of a letter and the bid on an auction without a buyout price stay below $2^{32}$ and cash on delivery below $2^{31}$,
  because narrower fields keep them; a game master who sends a letter can afford it; the cut of a house is at most the bid and a deposit below
  $2^{31}$; and the counter of letters has not reached its end. At most 12 items are what the packet of a letter can hold. What
  requests outside of these bounds do is in \<open>MarketFlaws\<close>.\<close>

inductive market_step :: "AuctionWorld \<Rightarrow> AuctionWorld \<Rightarrow> bool" where
  send_mail:
    "SendMail e g r w = Inr w' \<Longrightarrow> next_mailId w < 0xFFFFFFFE \<Longrightarrow> fits_u32 (req_money r) \<Longrightarrow>
     (ucast (req_COD r) :: u32) < 0x80000000 \<Longrightarrow> length (req_items r) \<le> MAX_MAIL_ITEMS \<Longrightarrow>
     list_all (\<lambda>x. fst x = g \<and> p_isGameMaster (snd x) \<longrightarrow> HasEnoughMoney (ucast (mail_cost (req_items r)) + req_money r) (purse (snd x)))
       (online w) \<Longrightarrow> market_step w w'"
| mark_read: "market_step w (MailMarkAsRead e g mb i w)"
| delete_mail: "market_step w (MailDelete e g mb i w)"
| return_mail: "next_mailId w < 0xFFFFFFFE \<Longrightarrow> market_step w (MailReturnToSender e g mb i w)"
| take_money: "market_step w (MailTakeMoney e g mb i v w)"
| take_item: "next_mailId w < 0xFFFFFFFE \<Longrightarrow> market_step w (MailTakeItem e g mb i it w)"
| text_item: "market_step w (MailCreateTextItem e g mb i w)"
| list_mail: "market_step w (GetMailList e g mb w)"
| next_mail: "market_step w (HandleQueryNextMailTime e g w)"
| old_mail: "market_step w (ReturnOrDeleteOldMails e True w)"
| sell_item: "AuctionSellItem a g r w = Inr w' \<Longrightarrow> fair_deposit a \<Longrightarrow> market_step w w'"
| place_bid:
    "fair_cut a \<Longrightarrow> next_mailId w < 0xFFFFFFF0 \<Longrightarrow> g \<noteq> 0 \<Longrightarrow>
     fits_u32 price \<or> (\<forall>h b. GetAuction h i w = Some b \<longrightarrow> buyout b \<noteq> 0) \<Longrightarrow> market_step w (AuctionPlaceBid a g npc i price w)"
| remove_item: "next_mailId w < 0xFFFFFFF0 \<Longrightarrow> market_step w (AuctionRemoveItem a g npc i w)"
| update_house:
    "fair_cut a \<Longrightarrow> unat (next_mailId w) + 2 * length (tbl_auctionhouse (chardb w)) \<le> 0xFFFFFFFE \<Longrightarrow>
     market_step w (AuctionHouse_Update a h w)"

lemma market_step_gold:
  assumes "market_step w w'" and "market_ok w"
  shows "no_more_gold w w'"
proof -
  have inv: "post_inv w" "auction_inv w" using assms(2) by (simp_all add: market_ok_def)
  show ?thesis
    using assms(1)
  proof cases
    case (send_mail e g r)
    have "HasEnoughMoney (ucast (mail_cost (req_items r)) + req_money r) (purse p)" if "FindPlayer g w = Some p" "p_isGameMaster p" for p
      using send_mail(6) that by (auto simp: FindPlayer_def list_all_iff dest!: map_of_SomeD)
    then have "no_new_gold w w'" using send_mail inv by (intro SendMail_inv [where e = e and g = g and r = r]) (simp_all add: MAX_MAIL_ITEMS_def)
    then show ?thesis using more_SendMail [OF send_mail(1)] inv by (intro no_new_more)
  next
    case (sell_item a g r)
    then show ?thesis using assms(2) by (intro AuctionSellItem_gold)
  next
    case (place_bid a g price npc i)
    then show ?thesis using assms(2) by (simp add: AuctionPlaceBid_gold)
  next
    case (remove_item a g npc i)
    then show ?thesis using assms(2) by (simp add: AuctionRemoveItem_gold)
  next
    case (update_house a h)
    then show ?thesis using assms(2) by (simp add: AuctionHouse_Update_gold)
  qed (use inv in \<open>auto intro!: no_new_more MailMarkAsRead_inv MailDelete_inv MailReturnToSender_inv MailTakeMoney_inv MailTakeItem_inv
        MailCreateTextItem_inv GetMailList_inv HandleQueryNextMailTime_inv ReturnOrDeleteOldMails_inv\<close>)
qed

interpretation market: ledger market_step market_ok gold
  by unfold_locales (use market_step_gold in \<open>auto simp: no_more_gold_def\<close>)

section \<open>An example\<close>

text \<open>Three players and an auction: player 1 sells, player 3 has bid 50, and a letter of 30 coins waits for player 1.\<close>

definition example_env :: AuctionEnv where
  "example_env =
     \<lparr>post = example_post, TWO_SIDE_AUCTION = True, house_entry = (\<lambda>i. Some \<lparr>houseId = i, depositPercent = 25, cutPercent = 15\<rparr>),
      faction_ourMask = (\<lambda>f. None), auctioneer_faction = (\<lambda>g npc. Some 120), creature_faction = (\<lambda>i. Some 120), has_died = (\<lambda>g. False),
      calculate_pct = (\<lambda>b p. word_of_nat (unat b * unat p div 100)), rate_cut = (\<lambda>c. 0), rate_time = (\<lambda>t. t),
      deposit_product = (\<lambda>a b c d. 100), SellPrice = (\<lambda>i. 10), MaxStackSize = (\<lambda>i. 20), create_item = (\<lambda>i n g. None),
      set_random_properties = (\<lambda>r i. i), price_column = (\<lambda>v. v), uninitialised = 0, AUCTION_LEVEL_REQ = 1, proto_Class = (\<lambda>i. 2),
      proto_SubClass = (\<lambda>i. 7), proto_InventoryType = (\<lambda>i. 13), proto_Quality = (\<lambda>i. 1), proto_RequiredLevel = (\<lambda>i. 5),
      proto_Name1 = (\<lambda>i. [0x53]), can_use_item = (\<lambda>g i. True), locale_name = (\<lambda>g i. [0x53]), name_suffix = (\<lambda>i. None), dbc_locale = (\<lambda>g. 0)\<rparr>"

definition example_auction :: AuctionEntry where
  "example_auction =
     \<lparr>auc_Id = 7, auctioneer = 23442, itemGUIDLow = 9, itemEntry = 25, itemCount = 1, owner = 1, startbid = 10, bid = 50, buyout = 500,
      auc_expire_time = 900, bidder = 3, deposit = 100, auctionHouseEntry = \<lparr>houseId = 7, depositPercent = 25, cutPercent = 15\<rparr>,
      factionTemplateId = 120\<rparr>"

definition example_world :: AuctionWorld where
  "example_world =
     \<lparr>online = [(1, example_player 10 [mail_of_row example_post 1 example_row]), (2, example_player 700 []), (3, example_player 0 [])],
      chardb = \<lparr>tbl_mail = [(1, example_row)], tbl_mail_items = [], tbl_item_instance = [(9, example_item)],
        tbl_auctionhouse = [(7, \<lparr>arow_auctioneer = 23442, arow_item = 9, arow_owner = 1, arow_buyout = 500, arow_time = 900, arow_bidder = 3,
          arow_bid = 50, arow_startbid = 10, arow_deposit = 100\<rparr>)], tbl_money = []\<rparr>,
      next_mailId = 2, effects = [], mHordeAuctions = [], mAllianceAuctions = [], mNeutralAuctions = [(7, example_auction)],
      mAitems = [(9, example_item)], next_auctionId = 8\<rparr>"

lemma example_market_ok: "market_ok example_world"
proof -
  have "std_map.entries_ok auction_ok (AuctionsMap h example_world)" for h
    by (cases h) (auto simp: std_map.entries_ok_def ordered_store_def example_world_def auction_ok_def example_auction_def split: if_splits)
  then show ?thesis
    by (auto simp: market_ok_def auction_inv_def post_inv_def std_map.entries_ok_def ordered_store_def example_world_def mailbox_ok_def
        letter_ok_def example_player_def mail_of_row_def example_row_def MAX_MONEY_AMOUNT_def split: if_splits)
qed

lemma example_fair: "fair_cut example_env"
  by (simp add: fair_cut_def GetAuctionCut_def example_env_def Let_def)

section \<open>What every run keeps\<close>

text \<open>C2: Within the bounds of \<open>market_step\<close>, mail and auction houses never make gold: from a state in which memory and tables
  agree (\<open>market_ok\<close>), after any sequence of requests (letters sent, read,
  returned, deleted and taken, items put up, bids, purchases and cancelled auctions) and of periodic work (expired auctions, old letters),
  the coins in the purses of the players online, in the letters of the database and in the bids and deposits of the three
  houses are together no more than before. The bounds are: letters with less than $2^{32}$ coins and less than $2^{31}$ on
  delivery; bids below $2^{32}$ on auctions without a buyout price; game masters who can afford the letters they send; a cut of the house of at most the bid
  and a deposit below $2^{31}$; and a counter of letters that has not reached its end.\<close>

theorem gold_never_created:
  assumes "rtranclp market_step w w'" and "market_ok w"
  shows "gold w' \<le> gold w"
  by (rule market.run_amount [OF assms])

theorem gold_never_created_witness:
  "gold (MailTakeMoney example_post 1 0 1 30 (AuctionPlaceBid example_env 2 0 7 100 example_world)) \<le> gold example_world \<and> gold example_world = 890"
proof
  have "market_step example_world (AuctionPlaceBid example_env 2 0 7 100 example_world)"
    by (rule market_step.place_bid [OF example_fair]) (simp_all add: example_world_def)
  then have "rtranclp market_step example_world (MailTakeMoney example_post 1 0 1 30 (AuctionPlaceBid example_env 2 0 7 100 example_world))"
    by (meson market_step.take_money rtranclp.rtrancl_into_rtrancl rtranclp.rtrancl_refl)
  from gold_never_created [OF this example_market_ok]
  show "gold (MailTakeMoney example_post 1 0 1 30 (AuctionPlaceBid example_env 2 0 7 100 example_world)) \<le> gold example_world" .
  show "gold example_world = 890"
    by (simp add: gold_def purses_def letters_def house_gold_def sum_store_def held_def example_world_def example_player_def example_row_def example_auction_def)
qed

text \<open>C3: In every run from a state of this kind within the same bounds (letters with less than $2^{32}$ coins and less than $2^{31}$ on delivery, bids below $2^{32}$
  on auctions without a buyout price, game masters who can afford their letters, cut and deposit in range, a counter of letters that has not
  reached its end) the mailboxes in memory agree with the database: a letter that a player online sees has a row that is addressed to this player with
  the same coins and the same cash on delivery, no letter is shown twice, no purse exceeds the limit, and the bid of an auction
  that has a buyout price (not 0) stays below that price.\<close>

theorem market_invariant:
  assumes "rtranclp market_step w w'" and "market_ok w"
  shows "(\<forall>g p. FindPlayer g w' = Some p \<longrightarrow> purse p \<le> MAX_MONEY_AMOUNT \<and> distinct (map messageID (m_mail p)) \<and>
      (\<forall>m \<in> set (m_mail p). \<exists>r. map_of (tbl_mail (chardb w')) (messageID m) = Some r \<and> row_receiver r = g \<and>
        money m = ucast (row_money r) \<and> COD m = ucast (row_cod r)))
    \<and> (\<forall>h i a. GetAuction h i w' = Some a \<longrightarrow> auc_Id a = i \<and> (buyout a = 0 \<or> bid a < buyout a))"
proof (intro conjI allI impI)
  have ok: "post_inv w'" "auction_inv w'" using market.run_ok [OF assms] by (simp_all add: market_ok_def)
  { fix g p
    assume "FindPlayer g w' = Some p"
    then have m: "mailbox_ok (chardb w') g p" using ok(1) by (intro post_inv_FindPlayer)
    then show "purse p \<le> MAX_MONEY_AMOUNT" "distinct (map messageID (m_mail p))" by (simp_all add: mailbox_ok_def)
    from m show "\<forall>m \<in> set (m_mail p). \<exists>r. map_of (tbl_mail (chardb w')) (messageID m) = Some r \<and> row_receiver r = g \<and>
        money m = ucast (row_money r) \<and> COD m = ucast (row_cod r)"
      by (auto simp: mailbox_ok_def list_all_iff letter_ok_def split: option.splits) }
  { fix h i a
    assume "GetAuction h i w' = Some a"
    then have "auction_ok i a" using ok(2) by (intro auction_inv_GetAuction)
    then show "auc_Id a = i" "buyout a = 0 \<or> bid a < buyout a" by (simp_all add: auction_ok_def) }
qed

theorem market_invariant_witness:
  "GetAuction NeutralHouse 7 (MailMarkAsRead example_post 1 0 1 example_world) = Some example_auction \<and> auc_Id example_auction = 7 \<and>
   (\<exists>p. FindPlayer 1 (MailMarkAsRead example_post 1 0 1 example_world) = Some p \<and> purse p \<le> MAX_MONEY_AMOUNT)"
proof -
  let ?w = "MailMarkAsRead example_post 1 0 1 example_world"
  have "rtranclp market_step example_world ?w" by (meson market_step.mark_read r_into_rtranclp)
  note m = market_invariant [OF this example_market_ok]
  have a: "GetAuction NeutralHouse 7 ?w = Some example_auction"
    by (simp add: GetAuction_more [of ?w example_world]) (simp add: GetAuction_def example_world_def)
  have "\<exists>p. FindPlayer 1 ?w = Some p"
    by (simp add: MailMarkAsRead_def at_mailbox_def example_post_def GetMail_def set_player_def FindPlayer_def example_world_def example_player_def
        mail_of_row_def example_row_def)
  with m a show ?thesis by blast
qed

section \<open>Refused requests\<close>

text \<open>Only a packet may have been sent.\<close>

definition untouched :: "AuctionWorld \<Rightarrow> AuctionWorld \<Rightarrow> bool" where
  "untouched w w' \<longleftrightarrow>
     online w' = online w \<and> chardb w' = chardb w \<and> next_mailId w' = next_mailId w \<and> PostWorld.more w' = PostWorld.more w"

lemma untouched_simps [simp]: "untouched w w" "untouched w (emit x w') = untouched w w'"
  by (simp_all add: untouched_def) (simp add: emit_def)

text \<open>Of the receiver of a letter the handler asks the player when it is online, and the tables otherwise.\<close>

definition receiver_team :: "PostEnv \<Rightarrow> u32 \<Rightarrow> 'a PostWorld_scheme \<Rightarrow> u32" where
  "receiver_team e rc w = (case FindPlayer rc w of Some q \<Rightarrow> p_team q | None \<Rightarrow> team_of e rc)"

definition receiver_level :: "PostEnv \<Rightarrow> u32 \<Rightarrow> 'a PostWorld_scheme \<Rightarrow> u8" where
  "receiver_level e rc w = (case FindPlayer rc w of Some q \<Rightarrow> p_level q | None \<Rightarrow> level_of e rc)"

definition receiver_account :: "PostEnv \<Rightarrow> u32 \<Rightarrow> 'a PostWorld_scheme \<Rightarrow> u32" where
  "receiver_account e rc w = (case FindPlayer rc w of Some q \<Rightarrow> p_account q | None \<Rightarrow> account_of e rc)"

text \<open>Every check of \<^verbatim>\<open>HandleSendMail\<close>: player \<open>p\<close> sends, \<open>n\<close> is the normalised name of the receiver and \<open>its\<close> are the items.\<close>

definition letter_checks :: "PostEnv \<Rightarrow> u32 \<Rightarrow> SendMailRequest \<Rightarrow> 'a PostWorld_scheme \<Rightarrow> PostPlayer \<Rightarrow> utf8 \<Rightarrow> Item list \<Rightarrow> bool" where
  "letter_checks e g r w p n its \<longleftrightarrow>
     (let rc = GUID_LOPART (guid_by_name e n) in
      FindPlayer g w = Some p \<and> can_use_mailbox e g (req_mailbox r) \<and> req_receiver r \<noteq> [] \<and> MAIL_LEVEL_REQ e \<le> ucast (p_level p)
      \<and> normalizePlayerName (req_receiver r) = Inr (Some n) \<and> guid_by_name e n \<noteq> 0 \<and> guid_by_name e n \<noteq> MAKE_NEW_GUID g 0 HIGHGUID_PLAYER
      \<and> (HasEnoughMoney (ucast (mail_cost (req_items r)) + req_money r) (purse p) \<or> p_isGameMaster p) \<and> mails_count rc w \<le> 100
      \<and> (account_bound e p (req_items r) \<or> TWO_SIDE_MAIL e \<or> p_team p = receiver_team e rc w \<or> p_security p \<noteq> 0)
      \<and> MAIL_LEVEL_REQ e \<le> ucast (receiver_level e rc w)
      \<and> check_attachments e g p (receiver_account e rc w) (req_COD r) (req_items r) = Inr its)"

lemmas receiver_defs = receiver_team_def receiver_level_def receiver_account_def

lemma SendMail_accepted:
  "letter_checks e g r w p n its \<Longrightarrow>
   SendMail e g r w = Inr (SendMail_commit e g r (GUID_LOPART (guid_by_name e n)) (receiver_account e (GUID_LOPART (guid_by_name e n)) w) its p w)"
  by (auto simp: letter_checks_def SendMail_def Let_def receiver_defs not_less not_le split: option.splits)

text \<open>C28: Sending a letter is all or nothing. Unless reading the name of the receiver faults, either some check fails and players, database, auctions and the
  counter of letters are as before, or every check has passed and the letter is posted: the sender is at a mailbox and has the level, the
  name of the receiver normalises to that of another character, the sender can afford the letter or is a game master, the receiver
  has at most 100 letters by the 8-bit count of the code and the level, both are of one team unless the items are bound to the account, mail between teams is allowed
  or the sender has a security level, and every attached item may be mailed. The letter goes to the character of that name.\<close>

theorem SendMail_all_or_nothing:
  assumes "SendMail e g r w = Inr w'"
  shows "untouched w w' \<and> (\<forall>p n its. \<not> letter_checks e g r w p n its) \<or>
    (\<exists>p n its. letter_checks e g r w p n its \<and>
       w' = SendMail_commit e g r (GUID_LOPART (guid_by_name e n)) (receiver_account e (GUID_LOPART (guid_by_name e n)) w) its p w)"
proof (cases "\<exists>p n its. letter_checks e g r w p n its")
  case True
  then show ?thesis using assms SendMail_accepted by fastforce
next
  case False
  have "untouched w w'"
  proof (cases "FindPlayer g w")
    case (Some p)
    show ?thesis
    proof (cases "normalizePlayerName (req_receiver r)")
      case (Inr nm)
      then show ?thesis
        using assms Some False unfolding SendMail_def Let_def SendMailResult_full_def letter_checks_def receiver_defs
        by (cases nm) (auto simp: not_less not_le split: if_splits sum.splits option.splits)
    qed (use assms Some in \<open>auto simp: SendMail_def split: if_splits\<close>)
  qed (use assms in \<open>simp add: SendMail_def\<close>)
  with False show ?thesis by blast
qed

text \<open>Player 1 has 10 coins and a letter costs 30.\<close>

definition example_request :: SendMailRequest where
  "example_request =
     \<lparr>req_mailbox = 0, req_receiver = [0x42, 0x6F, 0x62], req_subject = [], req_body = [], req_money = 0, req_COD = 0, req_items = []\<rparr>"

lemma example_refused:
  "SendMail example_post 1 example_request example_world = Inr (SendMailResult 1 0 MAIL_SEND MAIL_ERR_NOT_ENOUGH_MONEY example_world)"
proof -
  have "normalizePlayerName [0x42, 0x6F, 0x62] = Inr (Some [0x42, 0x6F, 0x62])" by code_simp
  then show ?thesis
    by (simp add: SendMail_def example_request_def FindPlayer_def example_world_def example_post_def example_player_def GUID_LOPART_def
        MAKE_NEW_GUID_def mail_cost_def HasEnoughMoney_def HIGHGUID_PLAYER_def)
qed

theorem SendMail_all_or_nothing_witness:
  "untouched example_world (SendMailResult 1 0 MAIL_SEND MAIL_ERR_NOT_ENOUGH_MONEY example_world)"
proof -
  have "\<not> letter_checks example_post 1 example_request example_world p n its" for p n its
    by (auto simp: letter_checks_def Let_def FindPlayer_def example_world_def example_player_def HasEnoughMoney_def mail_cost_def example_request_def)
  with SendMail_all_or_nothing [OF example_refused] show ?thesis by blast
qed

text \<open>C29: A bid that is refused changes nothing: when the auction is the bidder's own, the price is not above the last bid or below the
  starting price, a price below the buyout does not raise the bid by the least increment, or the bidder cannot afford it, then
  players, database, auctions and the counter of letters are as before.\<close>

theorem refused_bid:
  assumes "GetAuction (GetAuctionsMap e fac) i w = Some a" and "auctioneer_faction e g npc = Some fac" and "FindPlayer g w = Some p"
    and "owner a = g \<or> price \<le> ucast (bid a) \<or> price < ucast (startbid a)
      \<or> below_buyout a price \<and> price < ucast (bid a + GetAuctionOutBid e a) \<or> purse p < price"
  shows "untouched w (AuctionPlaceBid e g npc i price w)"
  using assms by (auto simp: AuctionPlaceBid_def at_auctioneer_def Let_def SendAuctionCommandResult_def HasEnoughMoney_def)

theorem refused_bid_witness: "untouched example_world (AuctionPlaceBid example_env 2 0 7 51 example_world)"
  by (rule refused_bid [of example_env 120 7 example_world example_auction 2 0 "example_player 700 []"])
     (simp_all add: GetAuction_def GetAuctionsMap_def example_env_def example_world_def example_auction_def FindPlayer_def below_buyout_def
        GetAuctionOutBid_def Let_def)

end
