(* ===== verification/AuctionProps.thy ===== *)
theory AuctionProps
  imports Economy
begin

text \<open>
  What becomes of an auction: who gets the item and who the gold, and what a search shows.
\<close>

section \<open>The end of an auction\<close>

lemma prepared_plain: "m_mailTemplateId d = 0 \<Longrightarrow> prepared e d rcv w = d"
  by (simp add: prepared_def prepareItems_def Let_def)

lemma draft_template [simp]:
  "m_mailTemplateId (MailDraft_new a b) = 0" "m_mailTemplateId (AddItem it d) = m_mailTemplateId d" "m_mailTemplateId (AddMoney v d) = m_mailTemplateId d"
  "m_items (MailDraft_new a b) = []" "m_items (AddMoney v d) = m_items d"
  by (simp_all add: MailDraft_new_def AddItem_def AddMoney_def)

text \<open>One plain letter in a transaction: the row it makes and the items that go with it.\<close>

definition one_letter :: "u32 \<Rightarrow> u32 \<Rightarrow> (u32 \<times> Item) list \<Rightarrow> AuctionWorld \<Rightarrow> AuctionWorld \<Rightarrow> bool" where
  "one_letter rcv coins its w w' \<longleftrightarrow>
     (\<exists>r. tbl_mail (chardb w') = store_put (next_mailId w) r (tbl_mail (chardb w)) \<and> row_receiver r = rcv \<and> row_money r = coins
        \<and> row_has_items r = (its \<noteq> []) \<and> row_cod r = 0)
     \<and> tbl_mail_items (chardb w') = tbl_mail_items (chardb w) @ map (\<lambda>x. (next_mailId w, item_guid (snd x), rcv)) its
     \<and> next_mailId w' = next_mailId w + 1 \<and> PostWorld.more w' = PostWorld.more w
     \<and> (\<forall>g. (FindPlayer g w' = None) = (FindPlayer g w = None))"

text \<open>Packets and the new owner of an item come before the letter and do not change letters or players.\<close>

definition quietly :: "AuctionWorld \<Rightarrow> AuctionWorld \<Rightarrow> bool" where
  "quietly w u \<longleftrightarrow>
     tbl_mail (chardb u) = tbl_mail (chardb w) \<and> tbl_mail_items (chardb u) = tbl_mail_items (chardb w) \<and> next_mailId u = next_mailId w
     \<and> PostWorld.more u = PostWorld.more w \<and> online u = online w"

lemma quietly_simps [simp]:
  "quietly w w" "quietly w (emit x u) = quietly w u" "quietly w (CommitTransaction [CHAR_UPD_ITEM_OWNER a b] u) = quietly w u"
  by (simp_all add: quietly_def) (simp_all add: emit_def CommitTransaction_def)

lemma one_letter_deliver:
  assumes d: "m_mailTemplateId d = 0" "m_COD d = 0" "ucast (m_money d) = c" "m_items d = its" and q: "quietly w u"
  shows "one_letter rcv c its w (deliver e d rcv sn chk dl u)"
  unfolding one_letter_def
proof (intro conjI exI [of _ "delivered_row e d rcv sn chk dl u"])
  show "\<forall>g. (FindPlayer g (deliver e d rcv sn chk dl u) = None) = (FindPlayer g w = None)"
    using q by (simp add: deliver_online map_of_upd_store FindPlayer_def quietly_def)
qed (use d q in \<open>simp_all add: deliver_tables deliver_mail_items prepared_plain delivered_row_def draft_row_def quietly_def\<close>)

lemma SendAuctionSuccessfulMail_letter:
  assumes "character_exists e (owner a) (snd s)"
  shows "one_letter (owner a) (auction_profit e a) [] (settle s) (settle (SendAuctionSuccessfulMail e a s))"
proof -
  have "(ucast (ucast (auction_profit e a) :: u64) :: u32) = auction_profit e a"
    by (simp only: word_unat_eq_iff unat_narrow [OF ucast_fits] unat_widen32)
  with assms show ?thesis
    by (auto simp: SendAuctionSuccessfulMail_def settle_SendMailTo auction_packets Commit_emit intro!: one_letter_deliver)
qed

text \<open>The code finds the winner when the character is online, or, when trades are logged, when it has an account.\<close>

definition winner_found :: "AuctionEnv \<Rightarrow> AuctionEntry \<Rightarrow> AuctionWorld \<Rightarrow> bool" where
  "winner_found e a w \<longleftrightarrow> FindPlayer (bidder a) w \<noteq> None \<or> GM_LOG_TRADE (post e) \<and> account_of (post e) (bidder a) \<noteq> 0"

lemma SendAuctionWonMail_letter:
  assumes "GetAItem (itemGUIDLow a) (snd s) = Some it" and "winner_found e a (snd s)"
  shows "one_letter (bidder a) 0 [(item_guid it, it)] (settle s) (settle (SendAuctionWonMail e a s))"
proof -
  have items: "m_items (AddItem it (MailDraft_new x y)) = [(item_guid it, it)]" for x y by (simp add: AddItem_def)
  have found: "FindPlayer (bidder a) (snd s) \<noteq> None \<or>
      (if GM_LOG_TRADE (post e) then (case FindPlayer (bidder a) (snd s) of Some q \<Rightarrow> p_account q | None \<Rightarrow> account_of (post e) (bidder a)) else 0) \<noteq> 0"
    using assms(2) by (auto simp: winner_found_def)
  show ?thesis
    using assms(1) found
    by (auto simp: SendAuctionWonMail_def Let_def settle_SendMailTo auction_packets Commit_emit Commit_append items intro!: one_letter_deliver)
qed

lemma GetAItem_more: "PostWorld.more w' = PostWorld.more w \<Longrightarrow> GetAItem i w' = GetAItem i w"
  by (simp add: GetAItem_def mAitems_more [of w' w])

lemma more_settle_snd: "PostWorld.more (settle s) = PostWorld.more (snd s)"
  by simp

lemma update_auction_settle:
  assumes "GetAuction h i w = Some a"
  shows "update_auction e h i w =
    RemoveAuction h a (RemoveAItem (itemGUIDLow a) (CommitTransaction (DeleteFromDB a) (settle (close_auction e a ([], w)))))"
  using assms by (simp add: update_auction_def case_prod_unfold Commit_append)

lemma closed_fields:
  "tbl_mail (chardb (RemoveAuction h a (RemoveAItem k (CommitTransaction (DeleteFromDB a) v)))) = tbl_mail (chardb v)"
  "tbl_mail_items (chardb (RemoveAuction h a (RemoveAItem k (CommitTransaction (DeleteFromDB a) v)))) = tbl_mail_items (chardb v)"
  "GetAuction h (auc_Id a) (RemoveAuction h a (RemoveAItem k (CommitTransaction (DeleteFromDB a) v))) = None"
  "GetAItem k (RemoveAuction h a (RemoveAItem k (CommitTransaction (DeleteFromDB a) v))) = None"
  "map_of (tbl_auctionhouse (chardb (RemoveAuction h a (RemoveAItem k (CommitTransaction (DeleteFromDB a) v))))) (auc_Id a) = None"
  by (simp_all add: RemoveAuction_def RemoveAItem_def CommitTransaction_def DeleteFromDB_def GetAuction_def GetAItem_def std_map.find_erase)

text \<open>C4: When an auction with a bid ends, its item goes to the highest bidder and the bid, less the cut of the house and
  with the deposit, to the seller: both get a letter, the first with the item and the second with the gold; the auction
  leaves the house and the row of \<^verbatim>\<open>auctionhouse\<close> is deleted, and the item leaves the house. The house still holds the item of the
  auction, the character of the seller exists, and the code finds the winner: the character is online, or trades are logged and it has an account.\<close>

theorem auction_sold:
  assumes inv: "auction_inv w" and a: "GetAuction h i w = Some a" and b: "bidder a \<noteq> 0"
    and it: "GetAItem (itemGUIDLow a) w = Some it" and own: "character_exists e (owner a) w" and win: "winner_found e a w"
  shows "\<exists>r r'. map_of (tbl_mail (chardb (update_auction e h i w))) (next_mailId w) = Some r
      \<and> row_receiver r = owner a \<and> row_money r = bid a + deposit a - GetAuctionCut e a
      \<and> map_of (tbl_mail (chardb (update_auction e h i w))) (next_mailId w + 1) = Some r'
      \<and> row_receiver r' = bidder a \<and> row_has_items r' \<and> row_cod r' = 0
      \<and> tbl_mail_items (chardb (update_auction e h i w)) = tbl_mail_items (chardb w) @ [(next_mailId w + 1, item_guid it, bidder a)]
      \<and> GetAuction h i (update_auction e h i w) = None \<and> GetAItem (itemGUIDLow a) (update_auction e h i w) = None
      \<and> map_of (tbl_auctionhouse (chardb (update_auction e h i w))) i = None"
proof -
  define s where "s = SendAuctionSuccessfulMail e a ([], w)"
  have one: "one_letter (owner a) (auction_profit e a) [] w (settle s)"
    using SendAuctionSuccessfulMail_letter [of e a "([], w)"] own by (simp add: s_def)
  then have same: "PostWorld.more (settle s) = PostWorld.more w" "FindPlayer g (settle s) = None \<longleftrightarrow> FindPlayer g w = None" for g
    by (simp_all add: one_letter_def)
  have "GetAItem (itemGUIDLow a) (snd s) = Some it" using it GetAItem_more [of "snd s" w] same(1) by simp
  moreover have "winner_found e a (snd s)" using win same(2) [of "bidder a"] by (simp add: winner_found_def)
  ultimately have two: "one_letter (bidder a) 0 [(item_guid it, it)] (settle s) (settle (close_auction e a ([], w)))"
    using SendAuctionWonMail_letter [of a s it e] b by (simp add: close_auction_def s_def)
  have ai: "auc_Id a = i" using auction_inv_GetAuction [OF inv a] by (simp add: auction_ok_def)
  obtain r r' where r: "tbl_mail (chardb (settle s)) = store_put (next_mailId w) r (tbl_mail (chardb w))" "row_receiver r = owner a" "row_money r = auction_profit e a"
      and r': "tbl_mail (chardb (settle (close_auction e a ([], w)))) = store_put (next_mailId w + 1) r' (tbl_mail (chardb (settle s)))"
        "row_receiver r' = bidder a" "row_has_items r'" "row_cod r' = 0"
    using one two by (auto simp: one_letter_def)
  show ?thesis
    using r r' one two ai closed_fields [where h = h and a = a and k = "itemGUIDLow a" and v = "settle (close_auction e a ([], w))"]
    unfolding update_auction_settle [OF a]
    by (auto simp: std_map.find_put one_letter_def auction_profit_def)
qed

theorem auction_sold_witness:
  "\<exists>r r'. map_of (tbl_mail (chardb (update_auction example_env NeutralHouse 7 example_world))) 2 = Some r
      \<and> row_receiver r = 1 \<and> row_money r = 150
      \<and> map_of (tbl_mail (chardb (update_auction example_env NeutralHouse 7 example_world))) 3 = Some r'
      \<and> row_receiver r' = 3 \<and> row_has_items r'
      \<and> tbl_mail_items (chardb (update_auction example_env NeutralHouse 7 example_world)) = [(3, 9, 3)]
      \<and> map_of (tbl_auctionhouse (chardb (update_auction example_env NeutralHouse 7 example_world))) 7 = None"
proof -
  have inv: "auction_inv example_world" using example_market_ok by (simp add: market_ok_def)
  have a: "GetAuction NeutralHouse 7 example_world = Some example_auction" by (simp add: GetAuction_def example_world_def)
  have h: "bidder example_auction \<noteq> 0" "GetAItem (itemGUIDLow example_auction) example_world = Some example_item"
    "character_exists example_env (owner example_auction) example_world" "winner_found example_env example_auction example_world"
    by (simp_all add: example_auction_def GetAItem_def example_world_def character_exists_def winner_found_def FindPlayer_def)
  have v: "next_mailId example_world = 2" "bid example_auction + deposit example_auction - GetAuctionCut example_env example_auction = 150"
    "owner example_auction = 1" "bidder example_auction = 3" "item_guid example_item = 9" "tbl_mail_items (chardb example_world) = []"
    by (simp_all add: example_world_def example_auction_def example_item_def GetAuctionCut_def example_env_def)
  show ?thesis using auction_sold [OF inv a h] by (simp add: v) blast
qed

text \<open>C33: When trades are not logged, the account of a winner who is offline is never looked up: the auction closes, the item leaves the
  house and no letter carries it.\<close>

theorem won_item_lost:
  assumes inv: "auction_inv w" and a: "GetAuction h i w = Some a" and b: "bidder a \<noteq> 0"
    and off: "FindPlayer (bidder a) w = None" and log: "\<not> GM_LOG_TRADE (post e)"
  shows "tbl_mail_items (chardb (update_auction e h i w)) = tbl_mail_items (chardb w)
    \<and> GetAuction h i (update_auction e h i w) = None \<and> GetAItem (itemGUIDLow a) (update_auction e h i w) = None"
proof -
  define s where "s = SendAuctionSuccessfulMail e a ([], w)"
  have s: "tbl_mail_items (chardb (settle s)) = tbl_mail_items (chardb w) \<and> FindPlayer (bidder a) (snd s) = None"
  proof (cases "character_exists e (owner a) w")
    case True
    with SendAuctionSuccessfulMail_letter [of e a "([], w)"] have "one_letter (owner a) (auction_profit e a) [] w (settle s)" by (simp add: s_def)
    then show ?thesis using off by (auto simp: one_letter_def)
  next
    case False
    then show ?thesis using off by (simp add: s_def SendAuctionSuccessfulMail_def)
  qed
  then have "SendAuctionWonMail e a s = s" using log by (simp add: SendAuctionWonMail_def split: option.splits)
  then have "close_auction e a ([], w) = s" using b by (simp add: close_auction_def s_def)
  moreover have "auc_Id a = i" using auction_inv_GetAuction [OF inv a] by (simp add: auction_ok_def)
  ultimately show ?thesis
    using s closed_fields [where h = h and a = a and k = "itemGUIDLow a" and v = "settle s"] unfolding update_auction_settle [OF a] by simp
qed

theorem won_item_lost_witness:
  "GetAItem 9 (update_auction (example_env\<lparr>post := example_post\<lparr>GM_LOG_TRADE := False\<rparr>\<rparr>) NeutralHouse 7
      (example_world\<lparr>online := [(1, example_player 10 [])]\<rparr>)) = None"
proof -
  let ?w = "example_world\<lparr>online := [(1, example_player 10 [])]\<rparr>"
  have inv: "auction_inv ?w" using example_market_ok auction_inv_more [of ?w example_world] by (simp add: market_ok_def)
  have a: "GetAuction NeutralHouse 7 ?w = Some example_auction" by (simp add: GetAuction_def example_world_def)
  show ?thesis
    using won_item_lost [OF inv a, of "example_env\<lparr>post := example_post\<lparr>GM_LOG_TRADE := False\<rparr>\<rparr>"]
    by (simp add: example_auction_def FindPlayer_def)
qed

section \<open>Searching\<close>

abbreviation info_bytes :: "AuctionEnv \<Rightarrow> AuctionWorld \<Rightarrow> u32 \<times> AuctionEntry \<Rightarrow> u8 list" where
  "info_bytes e w x \<equiv> (case BuildAuctionInfo e (snd x) w of None \<Rightarrow> [] | Some bs \<Rightarrow> bs)"

text \<open>The loop from the point where \<open>t\<close> auctions were found and \<open>c\<close> of them listed.\<close>

lemma BuildListAuctionItems_from:
  assumes "\<forall>x \<in> set xs. \<exists>b. search_hit e g r (snd x) w = Inr b" and "t + length xs < 2 ^ 32" and "c \<le> 50"
  shows "BuildListAuctionItems e g r w xs (data, of_nat c, of_nat t) =
    Inr (data @ concat (map (info_bytes e w) (take (50 - c) (drop (unat (srch_from r) - t) (filter (\<lambda>x. search_hit e g r (snd x) w = Inr True) xs)))),
      of_nat (c + length (take (50 - c) (drop (unat (srch_from r) - t) (filter (\<lambda>x. search_hit e g r (snd x) w = Inr True) xs)))),
      of_nat (t + length (filter (\<lambda>x. search_hit e g r (snd x) w = Inr True) xs)))"
  using assms
proof (induction xs arbitrary: data t c)
  case (Cons x xs)
  let ?hits = "filter (\<lambda>x. search_hit e g r (snd x) w = Inr True) xs" and ?from = "unat (srch_from r)"
  obtain b where b: "search_hit e g r (snd x) w = Inr b" using Cons.prems(1) by auto
  have rest: "\<forall>x \<in> set xs. \<exists>b. search_hit e g r (snd x) w = Inr b" "t + length xs < 2 ^ 32" "Suc t + length xs < 2 ^ 32"
    using Cons.prems by auto
  have uc: "(of_nat c :: u32) < 50 \<longleftrightarrow> c < 50" using Cons.prems(3) by (simp add: word_less_nat_alt unsigned_of_nat take_bit_nat_eq_self)
  have ut: "(of_nat t :: u32) \<ge> srch_from r \<longleftrightarrow> ?from \<le> t"
    using rest(2) by (simp add: word_le_nat_alt unsigned_of_nat take_bit_nat_eq_self)
  show ?case
  proof (cases b)
    case False
    then show ?thesis using Cons.IH [OF rest(1,2) Cons.prems(3), of data] b by (simp add: bind_res_def)
  next
    case True
    show ?thesis
    proof (cases "c < 50 \<and> ?from \<le> t")
      case True
      have "BuildListAuctionItems e g r w (x # xs) (data, of_nat c, of_nat t) =
          BuildListAuctionItems e g r w xs (data @ info_bytes e w x, of_nat (Suc c), of_nat (Suc t))"
        using True b \<open>b\<close> uc ut by (simp add: bind_res_def add.commute)
      then show ?thesis
        using Cons.IH [OF rest(1,3), of "Suc c" "data @ info_bytes e w x"] True b \<open>b\<close> by (simp add: take_Cons' Suc_diff_Suc)
    next
      case False
      have "BuildListAuctionItems e g r w (x # xs) (data, of_nat c, of_nat t) = BuildListAuctionItems e g r w xs (data, of_nat c, of_nat (Suc t))"
        using False b \<open>b\<close> uc ut by (auto simp: bind_res_def add.commute)
      moreover have "take (50 - c) (drop (?from - t) (x # ?hits)) = take (50 - c) (drop (?from - Suc t) ?hits)"
      proof (cases "c < 50")
        case True
        with False have "?from - t = Suc (?from - Suc t)" by simp
        then show ?thesis by simp
      qed simp
      ultimately show ?thesis
        using Cons.IH [OF rest(1,3) Cons.prems(3), of data] b \<open>b\<close> by simp
    qed
  qed
qed simp

text \<open>The conversion of an item name may write past its buffer; the first auction where it does ends the search.\<close>

lemma BuildListAuctionItems_error:
  "find (\<lambda>x. isl (search_hit e g r (snd x) w)) xs = Some x \<Longrightarrow>
   BuildListAuctionItems e g r w xs s = Inl (projl (search_hit e g r (snd x) w))"
proof (induction xs arbitrary: s)
  case (Cons y ys)
  then show ?case by (cases "search_hit e g r (snd y) w") (auto simp: bind_res_def)
qed simp

text \<open>The houses change by auctions that are put in, also over an older state of themselves, and taken out.\<close>

datatype house_op = PutAuction house AuctionEntry | TakeAuction house AuctionEntry

primrec run_house_op :: "house_op \<Rightarrow> AuctionWorld \<Rightarrow> AuctionWorld" where
  "run_house_op (PutAuction h a) w = AddAuction h a w"
| "run_house_op (TakeAuction h a) w = RemoveAuction h a w"

definition filed :: "AuctionWorld \<Rightarrow> bool" where
  "filed w \<longleftrightarrow> (\<forall>h. std_map.entries_ok (\<lambda>i a. auc_Id a = i) (AuctionsMap h w))"

lemma filed_ops: "filed w \<Longrightarrow> filed (exec_ops run_house_op ops w)"
proof (induction ops arbitrary: w)
  case (Cons op ops)
  then have "filed (run_house_op op w)"
    by (cases op) (simp_all add: filed_def AddAuction_def RemoveAuction_def std_map.entries_ok_put std_map.entries_ok_erase)
  with Cons.IH show ?case by simp
qed simp

lemma filed_sorted: "filed w \<Longrightarrow> sorted_wrt (<) (map (\<lambda>x. auc_Id (snd x)) (AuctionsMap h w))"
proof -
  assume f: "filed w"
  then have o: "ordered_store (AuctionsMap h w)" by (simp add: filed_def std_map.entries_ok_def)
  have "auc_Id (snd x) = fst x" if "x \<in> set (AuctionsMap h w)" for x
    using f map_of_is_SomeI [OF ordered_distinct [OF o], of "fst x" "snd x"] that by (simp add: filed_def std_map.entries_ok_def)
  then have "map (\<lambda>x. auc_Id (snd x)) (AuctionsMap h w) = map fst (AuctionsMap h w)" by (intro map_cong) auto
  then show ?thesis using o by (simp only: ordered_store_def)
qed

lemma sorted_wrt_filter_map: "sorted_wrt R (map f xs) \<Longrightarrow> sorted_wrt R (map f (filter P xs))"
  by (induction xs) auto

text \<open>What a search shows: the auctions that match, and the fifty of them from the index that the client asks for.\<close>

definition matches :: "AuctionEnv \<Rightarrow> u32 \<Rightarrow> SearchRequest \<Rightarrow> AuctionWorld \<Rightarrow> house \<Rightarrow> (u32 \<times> AuctionEntry) list" where
  "matches e g r w h = filter (\<lambda>x. search_hit e g r (snd x) w = Inr True) (AuctionsMap h w)"

definition page_of :: "AuctionEnv \<Rightarrow> u32 \<Rightarrow> SearchRequest \<Rightarrow> AuctionWorld \<Rightarrow> house \<Rightarrow> (u32 \<times> AuctionEntry) list" where
  "page_of e g r w h = take 50 (drop (unat (srch_from r)) (matches e g r w h))"

text \<open>C32: After any auctions were put into the houses and taken out of them, a search lists a page of the auctions that match: the
  first fifty of them from the index the client asks for, in ascending order of their numbers, with their count, and it
  counts all that match. Only when the conversion of the name of an item overruns its buffer there is no list, and the error is the one of
  the first such auction. The house has fewer than $2^{32}$ auctions.\<close>

theorem search_page:
  assumes "\<forall>k. AuctionsMap k w0 = []" and "length (AuctionsMap h (exec_ops run_house_op ops w0)) < 2 ^ 32"
  shows "sorted_wrt (<) (map (\<lambda>x. auc_Id (snd x)) (page_of e g r (exec_ops run_house_op ops w0) h))
    \<and> BuildListAuctionItems e g r (exec_ops run_house_op ops w0) (AuctionsMap h (exec_ops run_house_op ops w0)) ([], 0, 0) =
      (case find (\<lambda>x. isl (search_hit e g r (snd x) (exec_ops run_house_op ops w0))) (AuctionsMap h (exec_ops run_house_op ops w0)) of
         Some x \<Rightarrow> Inl (projl (search_hit e g r (snd x) (exec_ops run_house_op ops w0)))
       | None \<Rightarrow> Inr (concat (map (info_bytes e (exec_ops run_house_op ops w0)) (page_of e g r (exec_ops run_house_op ops w0) h)),
           of_nat (length (page_of e g r (exec_ops run_house_op ops w0) h)),
           of_nat (length (matches e g r (exec_ops run_house_op ops w0) h))))"
proof -
  let ?w = "exec_ops run_house_op ops w0"
  have "filed w0" using assms(1) by (simp add: filed_def std_map.entries_ok_def ordered_store_def)
  then have "sorted_wrt (<) (map (\<lambda>x. auc_Id (snd x)) (matches e g r ?w h))"
    unfolding matches_def by (intro sorted_wrt_filter_map filed_sorted filed_ops)
  then have "sorted_wrt (<) (map (\<lambda>x. auc_Id (snd x)) (page_of e g r ?w h))"
    by (simp add: page_of_def sorted_wrt_take sorted_wrt_drop flip: take_map drop_map)
  moreover have "\<forall>x \<in> set (AuctionsMap h ?w). \<exists>b. search_hit e g r (snd x) ?w = Inr b"
    if "find (\<lambda>x. isl (search_hit e g r (snd x) ?w)) (AuctionsMap h ?w) = None"
    using that by (auto simp: find_None_iff isl_def) (metis sumE)
  ultimately show ?thesis
    using BuildListAuctionItems_from [of "AuctionsMap h ?w" e g r ?w 0 0 "[]"] assms(2)
    by (auto simp: BuildListAuctionItems_error page_of_def matches_def split: option.split)
qed

definition example_search :: SearchRequest where
  "example_search =
     \<lparr>srch_name = [], srch_from = 0, srch_levelmin = 1, srch_levelmax = 10, srch_usable = 0, srch_inventoryType = 0xffffffff, srch_class = 2,
      srch_subClass = 0xffffffff, srch_quality = 0xffffffff\<rparr>"

text \<open>Two auctions, put in with the higher number first.\<close>

theorem search_page_witness:
  "BuildListAuctionItems example_env 1 example_search
     (exec_ops run_house_op [PutAuction NeutralHouse (example_auction\<lparr>auc_Id := 8\<rparr>), PutAuction NeutralHouse example_auction]
       (example_world\<lparr>mNeutralAuctions := []\<rparr>))
     (AuctionsMap NeutralHouse (exec_ops run_house_op [PutAuction NeutralHouse (example_auction\<lparr>auc_Id := 8\<rparr>), PutAuction NeutralHouse example_auction]
       (example_world\<lparr>mNeutralAuctions := []\<rparr>))) ([], 0, 0) =
     Inr (info_bytes example_env example_world (7, example_auction) @ info_bytes example_env example_world (8, example_auction\<lparr>auc_Id := 8\<rparr>), 2, 2)"
proof -
  let ?ops = "[PutAuction NeutralHouse (example_auction\<lparr>auc_Id := 8\<rparr>), PutAuction NeutralHouse example_auction]"
  let ?base = "example_world\<lparr>mNeutralAuctions := []\<rparr>"
  define w where "w = exec_ops run_house_op ?ops ?base"
  have z: "\<forall>k. AuctionsMap k ?base = []"
  proof
    fix k show "AuctionsMap k ?base = []" by (cases k) (simp_all add: example_world_def)
  qed
  have m: "AuctionsMap NeutralHouse w = [(7, example_auction), (8, example_auction\<lparr>auc_Id := 8\<rparr>)]"
    by (simp add: w_def AddAuction_def example_auction_def)
  have it: "GetAItem k w = GetAItem k example_world" for k by (simp add: w_def GetAItem_def AddAuction_def)
  have nine: "GetAItem 9 w = Some example_item" by (simp add: it) (simp add: GetAItem_def example_world_def)
  have hit: "search_hit example_env 1 example_search (snd x) w = Inr True" if "x \<in> set (AuctionsMap NeutralHouse w)" for x
    using that unfolding m
    by (auto simp: search_hit_def nine search_filter_def example_search_def example_env_def example_auction_def example_item_def)
  have info: "info_bytes example_env w x = info_bytes example_env example_world x" for x by (simp add: BuildAuctionInfo_def it)
  have f: "find (\<lambda>x. isl (search_hit example_env 1 example_search (snd x) w)) (AuctionsMap NeutralHouse w) = None"
    unfolding find_None_iff using hit by fastforce
  have h: "matches example_env 1 example_search w NeutralHouse = AuctionsMap NeutralHouse w"
    using hit by (simp add: matches_def)
  have p: "page_of example_env 1 example_search w NeutralHouse = AuctionsMap NeutralHouse w"
    unfolding page_of_def h unfolding m by (simp add: example_search_def)
  have l: "length (AuctionsMap NeutralHouse w) < 2 ^ 32" unfolding m by simp
  have "BuildListAuctionItems example_env 1 example_search w (AuctionsMap NeutralHouse w) ([], 0, 0) =
      Inr (concat (map (info_bytes example_env w) (AuctionsMap NeutralHouse w)), of_nat (length (AuctionsMap NeutralHouse w)),
        of_nat (length (AuctionsMap NeutralHouse w)))"
    using search_page [OF z l [unfolded w_def], folded w_def, of example_env 1 example_search, THEN conjunct2] unfolding f h p by (simp only: option.case)
  then show ?thesis unfolding w_def [symmetric] m by (simp add: info)
qed

end
