(* ===== verification/AuctionRestart.thy ===== *)
theory AuctionRestart
  imports AuctionProps
begin

text \<open>
  A restart of the server: what \<^verbatim>\<open>DeleteExpiredAuctionsAtStartup\<close>, \<^verbatim>\<open>LoadAuctionItems\<close> and \<^verbatim>\<open>LoadAuctions\<close> make of the
  auctions that were saved.
\<close>

section \<open>Loading the items\<close>

abbreviation row_item :: "u32 \<times> AuctionRow \<times> Item \<Rightarrow> Item" where
  "row_item x \<equiv> snd (snd x)"

lemma LoadAuctionItem_fold:
  assumes "distinct (map (\<lambda>x. item_guid (row_item x)) rows)"
    and "\<And>x. x \<in> set rows \<Longrightarrow> GetAItem (item_guid (row_item x)) w = None \<and> has_proto (post e) (item_entry (row_item x)) \<and> item_loads (post e) (row_item x)"
  shows "\<exists>v. fold (LoadAuctionItem e) rows (Some w) = Some v \<and> chardb v = chardb w \<and> (\<forall>h. AuctionsMap h v = AuctionsMap h w)
    \<and> (\<forall>k. GetAItem k v = (case map_of (map (\<lambda>x. (item_guid (row_item x), row_item x)) rows) k of Some it \<Rightarrow> Some it | None \<Rightarrow> GetAItem k w))"
  using assms
proof (induction rows arbitrary: w)
  case (Cons x rows)
  let ?it = "row_item x"
  define u where "u = w\<lparr>mAitems := store_put (item_guid ?it) ?it (mAitems w)\<rparr>"
  have one: "LoadAuctionItem e x (Some w) = Some u"
    using Cons.prems(2) [of x] by (simp add: LoadAuctionItem_def AddAItem_def u_def Let_def)
  have get: "GetAItem k u = (if k = item_guid ?it then Some ?it else GetAItem k w)" for k
    by (simp add: u_def GetAItem_def std_map.find_put)
  have maps: "chardb u = chardb w" "AuctionsMap h u = AuctionsMap h w" for h
    by (simp_all add: u_def) (cases h; simp)
  have "item_guid (row_item y) \<noteq> item_guid ?it" if "y \<in> set rows" for y
    using Cons.prems(1) that by (auto simp: image_iff)
  then obtain v where v: "fold (LoadAuctionItem e) rows (Some u) = Some v" "chardb v = chardb u" "AuctionsMap h v = AuctionsMap h u"
    "GetAItem k v = (case map_of (map (\<lambda>x. (item_guid (row_item x), row_item x)) rows) k of Some it \<Rightarrow> Some it | None \<Rightarrow> GetAItem k u)" for h k
    using Cons.IH [of u] Cons.prems by (auto simp: get)
  have new: "map_of (map (\<lambda>x. (item_guid (row_item x), row_item x)) rows) (item_guid ?it) = None"
    using Cons.prems(1) by (auto simp: map_of_eq_None_iff image_image)
  show ?case
  proof (intro exI conjI allI)
    show "GetAItem k v = (case map_of (map (\<lambda>x. (item_guid (row_item x), row_item x)) (x # rows)) k of
        Some it \<Rightarrow> Some it | None \<Rightarrow> GetAItem k w)" for k
      using new by (cases "k = item_guid ?it") (auto simp: v(4) get split: option.split)
  qed (simp_all add: one v maps)
qed simp

section \<open>Loading the auctions\<close>

text \<open>The auction of a row, when the creature and the house are found.\<close>

definition row_auction :: "AuctionEnv \<Rightarrow> u32 \<times> AuctionRow \<times> Item \<Rightarrow> AuctionEntry" where
  "row_auction e x = the (LoadFromFieldList e (fst x) (fst (snd x)) (row_item x))"

lemma LoadFromFieldList_fields:
  "LoadFromFieldList e i r it = Some a \<Longrightarrow> auc_Id a = i \<and> itemGUIDLow a = arow_item r"
  by (auto simp: LoadFromFieldList_def split: option.splits)

lemma LoadAuction_fold:
  assumes "distinct (map fst rows)"
    and "\<And>x. x \<in> set rows \<Longrightarrow> LoadFromFieldList e (fst x) (fst (snd x)) (row_item x) \<noteq> None \<and> GetAItem (arow_item (fst (snd x))) w \<noteq> None"
  shows "\<exists>v. fold (LoadAuction e) rows (tr, w) = (tr, v) \<and> chardb v = chardb w \<and> mAitems v = mAitems w
    \<and> (\<forall>h i. GetAuction h i v =
        (case map_of (map (\<lambda>x. (fst x, row_auction e x)) rows) i of
           Some a \<Rightarrow> if GetAuctionsMap e (factionTemplateId a) = h then Some a else GetAuction h i w | None \<Rightarrow> GetAuction h i w))"
  using assms
proof (induction rows arbitrary: w)
  case (Cons x rows)
  obtain a where a: "LoadFromFieldList e (fst x) (fst (snd x)) (row_item x) = Some a" using Cons.prems(2) [of x] by auto
  have ai: "auc_Id a = fst x" "itemGUIDLow a = arow_item (fst (snd x))" "row_auction e x = a"
    using LoadFromFieldList_fields [OF a] by (simp_all add: row_auction_def a)
  define u where "u = AddAuction (GetAuctionsMap e (factionTemplateId a)) a w"
  have one: "LoadAuction e x (tr, w) = (tr, u)"
    using Cons.prems(2) [of x] a ai by (auto simp: LoadAuction_def auction_LoadFromDB_def u_def split: prod.splits)
  have u: "chardb u = chardb w" "mAitems u = mAitems w" "GetAItem k u = GetAItem k w"
      "GetAuction h i u = (if h = GetAuctionsMap e (factionTemplateId a) \<and> i = fst x then Some a else GetAuction h i w)" for h i k
    by (simp_all add: u_def AddAuction_def GetAItem_def GetAuction_def std_map.find_put ai)
  obtain v where v: "fold (LoadAuction e) rows (tr, u) = (tr, v)" "chardb v = chardb u" "mAitems v = mAitems u"
    "GetAuction h i v =
        (case map_of (map (\<lambda>x. (fst x, row_auction e x)) rows) i of
           Some a \<Rightarrow> if GetAuctionsMap e (factionTemplateId a) = h then Some a else GetAuction h i u | None \<Rightarrow> GetAuction h i u)" for h i
    using Cons.IH [of u] Cons.prems by (auto simp: u)
  have new: "map_of (map (\<lambda>x. (fst x, row_auction e x)) rows) (fst x) = None"
    using Cons.prems(1) by (auto simp: map_of_eq_None_iff image_image)
  show ?case
  proof (intro exI conjI allI)
    show "GetAuction h i v =
        (case map_of (map (\<lambda>x. (fst x, row_auction e x)) (x # rows)) i of
           Some a \<Rightarrow> if GetAuctionsMap e (factionTemplateId a) = h then Some a else GetAuction h i w | None \<Rightarrow> GetAuction h i w)" for h i
      using new by (cases "i = fst x") (auto simp: v(4) u ai split: option.split)
  qed (simp_all add: one v u)
qed simp


section \<open>Auctions that expired before the start\<close>

lemma deliver_plain_items:
  "m_mailTemplateId d = 0 \<Longrightarrow> tbl_item_instance (chardb (deliver e d rcv sn chk dl w)) = tbl_item_instance (chardb w)"
  by (simp add: deliver_def SendMailTo_def Let_def case_prod_unfold deleteIncludedItems_def CommitTransaction_def item_table_mail_items
      prepareItems_def upd_player_def split: option.splits)

text \<open>No item is loaded yet, so the letters carry none and no item changes its owner.\<close>

lemma close_auction_startup:
  assumes "mAitems w = []"
  shows "PostWorld.more (settle (close_auction e a ([], w))) = PostWorld.more w"
    and "tbl_auctionhouse (chardb (settle (close_auction e a ([], w)))) = tbl_auctionhouse (chardb w)"
    and "tbl_item_instance (chardb (settle (close_auction e a ([], w)))) = tbl_item_instance (chardb w)"
proof -
  let ?s = "SendAuctionSuccessfulMail e a ([], w)"
  have none: "GetAItem k u = None" if "PostWorld.more u = PostWorld.more w" for k u
    using GetAItem_more [OF that, of k] assms by (simp add: GetAItem_def)
  have s: "PostWorld.more (settle ?s) = PostWorld.more w \<and> tbl_auctionhouse (chardb (settle ?s)) = tbl_auctionhouse (chardb w)
      \<and> tbl_item_instance (chardb (settle ?s)) = tbl_item_instance (chardb w)"
    by (auto simp: SendAuctionSuccessfulMail_def settle_SendMailTo auction_packets deliver_tables deliver_plain_items)
       (simp_all add: emit_def)
  moreover have "SendAuctionWonMail e a ?s = ?s" using none [of "snd ?s"] s by (simp add: SendAuctionWonMail_def)
  moreover have "SendAuctionExpiredMail e a ([], w) = ([], w)" using none [of w] by (simp add: SendAuctionExpiredMail_def)
  ultimately show "PostWorld.more (settle (close_auction e a ([], w))) = PostWorld.more w"
    "tbl_auctionhouse (chardb (settle (close_auction e a ([], w)))) = tbl_auctionhouse (chardb w)"
    "tbl_item_instance (chardb (settle (close_auction e a ([], w)))) = tbl_item_instance (chardb w)"
    by (simp_all add: close_auction_def)
qed

lemma expire_row_startup:
  assumes "mAitems w = []" and "LoadFromFieldList e (fst x) (fst (snd x)) (row_item x) \<noteq> None"
  shows "PostWorld.more (expire_row e x w) = PostWorld.more w"
    and "tbl_item_instance (chardb (expire_row e x w)) = tbl_item_instance (chardb w)"
    and "tbl_auctionhouse (chardb (expire_row e x w)) = store_erase (fst x) (tbl_auctionhouse (chardb w))"
proof -
  obtain a where a: "LoadFromFieldList e (fst x) (fst (snd x)) (row_item x) = Some a" using assms(2) by blast
  then have "auc_Id a = fst x" using LoadFromFieldList_fields by blast
  moreover have "expire_row e x w = CommitTransaction (DeleteFromDB a) (settle (close_auction e a ([], w)))"
    using a by (simp add: expire_row_def case_prod_unfold Commit_append)
  ultimately show "PostWorld.more (expire_row e x w) = PostWorld.more w"
    "tbl_item_instance (chardb (expire_row e x w)) = tbl_item_instance (chardb w)"
    "tbl_auctionhouse (chardb (expire_row e x w)) = store_erase (fst x) (tbl_auctionhouse (chardb w))"
    using close_auction_startup [OF assms(1), of e a] by (simp_all add: DeleteFromDB_def) (simp_all add: CommitTransaction_def)
qed

lemma expire_rows_startup:
  assumes "mAitems w = []" and "\<And>x. x \<in> set xs \<Longrightarrow> LoadFromFieldList e (fst x) (fst (snd x)) (row_item x) \<noteq> None"
  shows "PostWorld.more (fold (expire_row e) xs w) = PostWorld.more w
    \<and> tbl_item_instance (chardb (fold (expire_row e) xs w)) = tbl_item_instance (chardb w)
    \<and> tbl_auctionhouse (chardb (fold (expire_row e) xs w)) = filter (\<lambda>y. fst y \<notin> fst ` set xs) (tbl_auctionhouse (chardb w))"
  using assms
proof (induction xs arbitrary: w)
  case (Cons x xs)
  note one = expire_row_startup [OF Cons.prems(1), of e x]
  have "mAitems (expire_row e x w) = []" using mAitems_more [OF one(1)] Cons.prems by simp
  from Cons.IH [OF this] one Cons.prems(2) show ?case
    by (auto simp: store_erase_def intro: filter_cong)
qed simp


section \<open>What is saved\<close>

text \<open>The row of an auction, and what \<^verbatim>\<open>SaveToDB\<close> and a bid write of it when the prices fit into the signed columns.\<close>

definition auction_row :: "AuctionEntry \<Rightarrow> AuctionRow" where
  "auction_row a =
     \<lparr>arow_auctioneer = auctioneer a, arow_item = itemGUIDLow a, arow_owner = owner a, arow_buyout = buyout a, arow_time = auc_expire_time a,
      arow_bidder = bidder a, arow_bid = bid a, arow_startbid = startbid a, arow_deposit = deposit a\<rparr>"

text \<open>An auction is filed in the house of its auctioneer, and its item is saved and can be loaded.\<close>

definition auction_saved :: "AuctionEnv \<Rightarrow> CharacterDB \<Rightarrow> house \<Rightarrow> AuctionEntry \<Rightarrow> bool" where
  "auction_saved e db h a \<longleftrightarrow>
     fits_u32 (auc_expire_time a) \<and>
     (\<exists>f ah it. creature_faction e (auctioneer a) = Some f \<and> GetAuctionsMap e f = h \<and> GetAuctionHouseEntry e f = Some ah
        \<and> map_of (tbl_item_instance db) (itemGUIDLow a) = Some it \<and> item_guid it = itemGUIDLow a \<and> item_entry it = itemEntry a
        \<and> item_count it = itemCount a \<and> has_proto (post e) (item_entry it) \<and> item_loads (post e) it)"

lemma auction_saved_cong:
  "map_of (tbl_item_instance db') (itemGUIDLow a) = map_of (tbl_item_instance db) (itemGUIDLow a) \<Longrightarrow>
   auction_saved e db' h a = auction_saved e db h a"
  by (simp add: auction_saved_def)

lemma auction_saved_house: "auction_saved e db h a \<Longrightarrow> auction_saved e db k b \<Longrightarrow> auctioneer b = auctioneer a \<Longrightarrow> k = h"
  by (auto simp: auction_saved_def)

text \<open>\<open>houses_saved e w\<close>: the table holds exactly the auctions of the houses, and these are saved. An item is in one auction
  only, as the unique key of the table asks.\<close>

definition houses_saved :: "AuctionEnv \<Rightarrow> AuctionWorld \<Rightarrow> bool" where
  "houses_saved e w \<longleftrightarrow>
     ordered_store (tbl_auctionhouse (chardb w)) \<and> distinct (map (\<lambda>y. arow_item (snd y)) (tbl_auctionhouse (chardb w)))
     \<and> (\<forall>i r. map_of (tbl_auctionhouse (chardb w)) i = Some r \<longleftrightarrow> (\<exists>h a. GetAuction h i w = Some a \<and> r = auction_row a))
     \<and> (\<forall>h i a. GetAuction h i w = Some a \<longrightarrow> auc_Id a = i \<and> auction_saved e (chardb w) h a)"

lemma houses_savedD:
  assumes "houses_saved e w" and "GetAuction h i w = Some a"
  shows "map_of (tbl_auctionhouse (chardb w)) i = Some (auction_row a)" and "auc_Id a = i" and "auction_saved e (chardb w) h a"
  using assms unfolding houses_saved_def by blast+

lemma houses_saved_row:
  "houses_saved e w \<Longrightarrow> map_of (tbl_auctionhouse (chardb w)) i = Some r \<Longrightarrow> \<exists>h a. GetAuction h i w = Some a \<and> r = auction_row a"
  by (simp add: houses_saved_def)

lemma houses_savedI:
  assumes "ordered_store (tbl_auctionhouse (chardb w))" and "distinct (map (\<lambda>y. arow_item (snd y)) (tbl_auctionhouse (chardb w)))"
    and "\<And>i r. map_of (tbl_auctionhouse (chardb w)) i = Some r \<Longrightarrow> \<exists>h a. GetAuction h i w = Some a \<and> r = auction_row a"
    and "\<And>h i a. GetAuction h i w = Some a \<Longrightarrow>
      map_of (tbl_auctionhouse (chardb w)) i = Some (auction_row a) \<and> auc_Id a = i \<and> auction_saved e (chardb w) h a"
  shows "houses_saved e w"
  using assms unfolding houses_saved_def by blast

lemma houses_saved_ordered:
  "houses_saved e w \<Longrightarrow> ordered_store (tbl_auctionhouse (chardb w))"
  "houses_saved e w \<Longrightarrow> distinct (map (\<lambda>y. arow_item (snd y)) (tbl_auctionhouse (chardb w)))"
  by (simp_all add: houses_saved_def)

lemma houses_saved_unique:
  assumes sv: "houses_saved e w" and a: "GetAuction h i w = Some a"
  shows "GetAuction k i w = (if k = h then Some a else None)"
proof (cases "GetAuction k i w")
  case (Some b)
  have "auction_row b = auction_row a" using houses_savedD(1) [OF sv a] houses_savedD(1) [OF sv Some] by simp
  then have "auctioneer b = auctioneer a" by (simp add: auction_row_def)
  then have "k = h" using auction_saved_house [OF houses_savedD(3) [OF sv a] houses_savedD(3) [OF sv Some]] by simp
  with a show ?thesis by simp
qed (use a in auto)

lemma GetAuction_Add: "GetAuction k j (AddAuction h a w) = (if k = h \<and> j = auc_Id a then Some a else GetAuction k j w)"
  by (simp add: GetAuction_def AddAuction_def std_map.find_put)

lemma GetAuction_Remove: "GetAuction k j (RemoveAuction h a w) = (if k = h \<and> j = auc_Id a then None else GetAuction k j w)"
  by (simp add: GetAuction_def RemoveAuction_def std_map.find_erase)

lemma chardb_Add: "chardb (AddAuction h a w) = chardb w" "chardb (RemoveAuction h a w) = chardb w"
  by (simp_all add: AddAuction_def RemoveAuction_def)

text \<open>How the table comes to agree with the houses: an auction is put in and saved, a bid is raised and updated, an
  auction is taken out and deleted, and everything else leaves the table, the houses and the saved items of the auctions alone.\<close>

inductive saved_history :: "AuctionEnv \<Rightarrow> AuctionWorld \<Rightarrow> bool" for e :: AuctionEnv where
  opened: "tbl_auctionhouse (chardb w) = [] \<Longrightarrow> (\<And>h. AuctionsMap h w = []) \<Longrightarrow> saved_history e w"
| put_up:
    "saved_history e w \<Longrightarrow> (\<And>k. GetAuction k (auc_Id a) w = None) \<Longrightarrow>
     itemGUIDLow a \<notin> (\<lambda>y. arow_item (snd y)) ` set (tbl_auctionhouse (chardb w)) \<Longrightarrow>
     list_all (\<lambda>v. price_column e v = v) [bid a, buyout a, startbid a, deposit a] \<Longrightarrow> auction_saved e (chardb w) h a \<Longrightarrow>
     saved_history e (AddAuction h a (CommitTransaction (auction_SaveToDB e a) w))"
| raised:
    "saved_history e w \<Longrightarrow> GetAuction h i w = Some a \<Longrightarrow>
     saved_history e (AddAuction h (a\<lparr>bidder := g, bid := p\<rparr>) (CommitTransaction [CHAR_UPD_AUCTION_BID g p i] w))"
| taken_out:
    "saved_history e w \<Longrightarrow> GetAuction h i w = Some a \<Longrightarrow> saved_history e (RemoveAuction h a (CommitTransaction (DeleteFromDB a) w))"
| elsewhere:
    "saved_history e w \<Longrightarrow> tbl_auctionhouse (chardb v) = tbl_auctionhouse (chardb w) \<Longrightarrow> (\<And>h. AuctionsMap h v = AuctionsMap h w) \<Longrightarrow>
     (\<And>h i a. GetAuction h i w = Some a \<Longrightarrow>
        map_of (tbl_item_instance (chardb v)) (itemGUIDLow a) = map_of (tbl_item_instance (chardb w)) (itemGUIDLow a)) \<Longrightarrow>
     saved_history e v"

lemma set_store_put_new: "k \<notin> fst ` set s \<Longrightarrow> set (store_put k v s) = insert (k, v) (set s)"
  by (induction s) auto

lemma distinct_store_put_new:
  "k \<notin> fst ` set s \<Longrightarrow> g (k, v) \<notin> g ` set s \<Longrightarrow> distinct (map g s) \<Longrightarrow> distinct (map g (store_put k v s))"
  by (induction s) (auto simp: set_store_put_new)

lemma map_store_put_old:
  "ordered_store s \<Longrightarrow> map_of s k = Some u \<Longrightarrow> g (k, v) = g (k, u) \<Longrightarrow> map g (store_put k v s) = map g s"
proof (induction s)
  case (Cons x s)
  have "\<not> k < fst x" using Cons.prems(1) map_of_SomeD [OF Cons.prems(2)] by (force simp: ordered_store_def)
  with Cons show ?case by (cases x) (auto simp: ordered_store_def split: if_splits)
qed simp

lemma houses_saved_put_up:
  assumes sv: "houses_saved e w" and new: "\<And>k. GetAuction k (auc_Id a) w = None"
    and it: "itemGUIDLow a \<notin> (\<lambda>y. arow_item (snd y)) ` set (tbl_auctionhouse (chardb w))"
    and fit: "list_all (\<lambda>v. price_column e v = v) [bid a, buyout a, startbid a, deposit a]" and a: "auction_saved e (chardb w) h a"
  shows "houses_saved e (AddAuction h a (CommitTransaction (auction_SaveToDB e a) w))"
proof -
  let ?v = "CommitTransaction (auction_SaveToDB e a) w"
  have t: "tbl_auctionhouse (chardb ?v) = store_put (auc_Id a) (auction_row a) (tbl_auctionhouse (chardb w))"
    and i: "tbl_item_instance (chardb ?v) = tbl_item_instance (chardb w)"
    using fit by (simp_all add: auction_SaveToDB_def CommitTransaction_def auction_row_def)
  have none: "map_of (tbl_auctionhouse (chardb w)) (auc_Id a) = None"
    using houses_saved_row [OF sv, of "auc_Id a"] new by (cases "map_of (tbl_auctionhouse (chardb w)) (auc_Id a)") auto
  show ?thesis
  proof (rule houses_savedI)
    show "ordered_store (tbl_auctionhouse (chardb (AddAuction h a ?v)))"
      by (simp add: chardb_Add t std_map.ordered_put houses_saved_ordered [OF sv])
    show "distinct (map (\<lambda>y. arow_item (snd y)) (tbl_auctionhouse (chardb (AddAuction h a ?v))))"
      unfolding chardb_Add t using houses_saved_ordered(2) [OF sv] none it
      by (intro distinct_store_put_new) (auto simp: map_of_eq_None_iff auction_row_def)
    show "\<exists>k b. GetAuction k i (AddAuction h a ?v) = Some b \<and> r = auction_row b"
      if "map_of (tbl_auctionhouse (chardb (AddAuction h a ?v))) i = Some r" for i r
    proof (cases "i = auc_Id a")
      case True
      with that show ?thesis by (intro exI [of _ h] exI [of _ a]) (simp add: chardb_Add t std_map.find_put GetAuction_Add)
    next
      case False
      with that houses_saved_row [OF sv, of i r] show ?thesis by (simp add: chardb_Add t std_map.find_put GetAuction_Add)
    qed
    show "map_of (tbl_auctionhouse (chardb (AddAuction h a ?v))) j = Some (auction_row b) \<and> auc_Id b = j
        \<and> auction_saved e (chardb (AddAuction h a ?v)) k b" if b: "GetAuction k j (AddAuction h a ?v) = Some b" for k j b
    proof (cases "j = auc_Id a")
      case True
      with b new have "k = h" "b = a" by (simp_all add: GetAuction_Add split: if_splits)
      moreover have "auction_saved e (chardb ?v) h a" using a by (simp add: auction_saved_def i)
      ultimately show ?thesis using True by (simp add: chardb_Add t std_map.find_put)
    next
      case False
      with b have "GetAuction k j w = Some b" by (simp add: GetAuction_Add)
      note d = houses_savedD [OF sv this]
      have "auction_saved e (chardb ?v) k b" using d(3) by (simp add: auction_saved_def i)
      with False d(1,2) show ?thesis by (simp add: chardb_Add t std_map.find_put)
    qed
  qed
qed

lemma houses_saved_raised:
  assumes sv: "houses_saved e w" and a: "GetAuction h i w = Some a"
  shows "houses_saved e (AddAuction h (a\<lparr>bidder := g, bid := p\<rparr>) (CommitTransaction [CHAR_UPD_AUCTION_BID g p i] w))"
proof -
  let ?a = "a\<lparr>bidder := g, bid := p\<rparr>" and ?v = "CommitTransaction [CHAR_UPD_AUCTION_BID g p i] w"
  note d = houses_savedD [OF sv a]
  have t: "tbl_auctionhouse (chardb ?v) = store_put i (auction_row ?a) (tbl_auctionhouse (chardb w))"
    and it: "tbl_item_instance (chardb ?v) = tbl_item_instance (chardb w)"
    using d(1) by (simp_all add: CommitTransaction_def upd_store_def auction_row_def)
  show ?thesis
  proof (rule houses_savedI)
    show "ordered_store (tbl_auctionhouse (chardb (AddAuction h ?a ?v)))"
      by (simp add: chardb_Add t std_map.ordered_put houses_saved_ordered [OF sv])
    show "distinct (map (\<lambda>y. arow_item (snd y)) (tbl_auctionhouse (chardb (AddAuction h ?a ?v))))"
      unfolding chardb_Add t
      using houses_saved_ordered [OF sv] map_store_put_old [OF _ d(1), of "\<lambda>y. arow_item (snd y)" "auction_row ?a"]
      by (simp add: auction_row_def)
    show "\<exists>k b. GetAuction k j (AddAuction h ?a ?v) = Some b \<and> r = auction_row b"
      if "map_of (tbl_auctionhouse (chardb (AddAuction h ?a ?v))) j = Some r" for j r
    proof (cases "j = i")
      case True
      with that d(2) show ?thesis by (intro exI [of _ h] exI [of _ ?a]) (simp add: chardb_Add t std_map.find_put GetAuction_Add)
    next
      case False
      with that houses_saved_row [OF sv, of j r] d(2) show ?thesis by (simp add: chardb_Add t std_map.find_put GetAuction_Add)
    qed
    show "map_of (tbl_auctionhouse (chardb (AddAuction h ?a ?v))) j = Some (auction_row b) \<and> auc_Id b = j
        \<and> auction_saved e (chardb (AddAuction h ?a ?v)) k b" if b: "GetAuction k j (AddAuction h ?a ?v) = Some b" for k j b
    proof (cases "j = i")
      case True
      with b d houses_saved_unique [OF sv a, of k] show ?thesis
        by (auto simp: chardb_Add t std_map.find_put GetAuction_Add auction_saved_def it split: if_splits)
    next
      case False
      with b d(2) have "GetAuction k j w = Some b" by (simp add: GetAuction_Add)
      note db = houses_savedD [OF sv this]
      have "auction_saved e (chardb ?v) k b" using db(3) by (simp add: auction_saved_def it)
      with False db(1,2) show ?thesis by (simp add: chardb_Add t std_map.find_put)
    qed
  qed
qed

lemma houses_saved_taken_out:
  assumes sv: "houses_saved e w" and a: "GetAuction h i w = Some a"
  shows "houses_saved e (RemoveAuction h a (CommitTransaction (DeleteFromDB a) w))"
proof -
  let ?v = "CommitTransaction (DeleteFromDB a) w"
  note d = houses_savedD [OF sv a]
  have t: "tbl_auctionhouse (chardb ?v) = store_erase i (tbl_auctionhouse (chardb w))"
    and it: "tbl_item_instance (chardb ?v) = tbl_item_instance (chardb w)"
    using d(2) by (simp_all add: CommitTransaction_def DeleteFromDB_def)
  have get: "GetAuction k j (RemoveAuction h a ?v) = (if j = i then None else GetAuction k j w)" for k j
    using houses_saved_unique [OF sv a, of k] d(2) by (simp add: GetAuction_Remove)
  show ?thesis
  proof (rule houses_savedI)
    show "distinct (map (\<lambda>y. arow_item (snd y)) (tbl_auctionhouse (chardb (RemoveAuction h a ?v))))"
      unfolding chardb_Add t store_erase_def using houses_saved_ordered(2) [OF sv] by (rule distinct_map_filter)
  qed (use houses_saved_row [OF sv] houses_savedD [OF sv] houses_saved_ordered [OF sv] in
      \<open>auto simp: chardb_Add t get std_map.find_erase std_map.ordered_erase auction_saved_def it split: if_splits\<close>)
qed

lemma saved_history_saved: "saved_history e w \<Longrightarrow> houses_saved e w"
proof (induction rule: saved_history.induct)
  case (opened w)
  then show ?case by (intro houses_savedI) (simp_all add: ordered_store_def GetAuction_def)
next
  case (put_up w a h)
  then show ?case by (intro houses_saved_put_up)
next
  case (raised w h i a g p)
  then show ?case by (intro houses_saved_raised)
next
  case (taken_out w h i a)
  then show ?case by (intro houses_saved_taken_out)
next
  case (elsewhere w v)
  have get: "GetAuction h i v = GetAuction h i w" for h i by (simp add: GetAuction_def elsewhere.hyps(3))
  have item: "auction_saved e (chardb v) h a = auction_saved e (chardb w) h a" if "GetAuction h i w = Some a" for h i a
    using elsewhere.hyps(4) [OF that] by (rule auction_saved_cong)
  show ?case
    by (rule houses_savedI)
       (use elsewhere.hyps(2) elsewhere.IH houses_saved_row houses_savedD houses_saved_ordered get item in auto)
qed

text \<open>An auction after a restart: house entry and faction are those of the creature that the auctioneer is.\<close>

definition reloaded :: "AuctionEnv \<Rightarrow> AuctionEntry \<Rightarrow> AuctionEntry" where
  "reloaded e a =
     (let f = the (creature_faction e (auctioneer a)) in
      a\<lparr>auctionHouseEntry := the (GetAuctionHouseEntry e f), factionTemplateId := f\<rparr>)"

definition expired :: "AuctionEnv \<Rightarrow> AuctionRow \<Rightarrow> bool" where
  "expired e r \<longleftrightarrow> arow_time r \<le> ucast (expiry_limit e)"

definition row_join :: "CharacterDB \<Rightarrow> u32 \<times> AuctionRow \<Rightarrow> u32 \<times> AuctionRow \<times> Item" where
  "row_join db y = (fst y, snd y, the (map_of (tbl_item_instance db) (arow_item (snd y))))"

lemma auction_rows_all:
  "(\<And>y. y \<in> set (tbl_auctionhouse db) \<Longrightarrow> map_of (tbl_item_instance db) (arow_item (snd y)) \<noteq> None) \<Longrightarrow>
   auction_rows db = map (row_join db) (tbl_auctionhouse db)"
  unfolding auction_rows_def
  using map_filter_all [of "tbl_auctionhouse db" _ "\<lambda>x. x" "row_join db"] by (force simp: row_join_def)

lemma map_of_map_filter_key:
  "distinct (map fst s) \<Longrightarrow>
   map_of (map (\<lambda>y. (fst y, f y)) (filter P s)) i = (case map_of s i of None \<Rightarrow> None | Some v \<Rightarrow> if P (i, v) then Some (f (i, v)) else None)"
  by (induction s) (force split: option.splits simp: map_of_eq_None_iff)+

lemma saved_row_loads:
  assumes sv: "houses_saved e w" and r: "map_of (tbl_auctionhouse (chardb w)) i = Some r"
  obtains h a it where "GetAuction h i w = Some a" and "r = auction_row a" and "GetAuctionsMap e (factionTemplateId (reloaded e a)) = h"
    and "map_of (tbl_item_instance (chardb w)) (arow_item r) = Some it" and "item_guid it = arow_item r"
    and "has_proto (post e) (item_entry it)" and "item_loads (post e) it"
    and "LoadFromFieldList e i r it = Some (reloaded e a)"
proof -
  obtain h a where a: "GetAuction h i w = Some a" "r = auction_row a" using houses_saved_row [OF sv r] by blast
  note d = houses_savedD [OF sv a(1)]
  obtain f ah it where f: "creature_faction e (auctioneer a) = Some f" "GetAuctionsMap e f = h" "GetAuctionHouseEntry e f = Some ah"
      "map_of (tbl_item_instance (chardb w)) (itemGUIDLow a) = Some it" "item_guid it = itemGUIDLow a" "item_entry it = itemEntry a"
      "item_count it = itemCount a" "has_proto (post e) (item_entry it)" "item_loads (post e) it" "fits_u32 (auc_expire_time a)"
    using d(3) unfolding auction_saved_def by blast
  have k: "arow_item r = itemGUIDLow a" by (simp add: a(2) auction_row_def)
  have fac: "GetAuctionsMap e (factionTemplateId (reloaded e a)) = h" by (simp add: reloaded_def f(1,2))
  have load: "LoadFromFieldList e i r it = Some (reloaded e a)"
    using f d(2) by (simp add: LoadFromFieldList_def a(2) auction_row_def reloaded_def ucast_small_64)
  show thesis
    by (rule that [OF a fac _ _ f(8,9) load]) (simp_all add: k f(4,5))
qed

text \<open>What the start of the server works with: the rows that have not expired, each with its item.\<close>

lemma saved_rows:
  assumes sv: "houses_saved e w" and y: "y \<in> set (tbl_auctionhouse (chardb w))"
  shows "map_of (tbl_item_instance (chardb w)) (arow_item (snd y)) \<noteq> None"
    and "item_guid (row_item (row_join (chardb w) y)) = arow_item (snd y)"
    and "has_proto (post e) (item_entry (row_item (row_join (chardb w) y)))" and "item_loads (post e) (row_item (row_join (chardb w) y))"
    and "LoadFromFieldList e (fst y) (snd y) (row_item (row_join (chardb w) y)) \<noteq> None"
proof -
  have "distinct (map fst (tbl_auctionhouse (chardb w)))" using sv by (simp add: houses_saved_def ordered_distinct)
  then have r: "map_of (tbl_auctionhouse (chardb w)) (fst y) = Some (snd y)" using y by simp
  show "map_of (tbl_item_instance (chardb w)) (arow_item (snd y)) \<noteq> None"
    "item_guid (row_item (row_join (chardb w) y)) = arow_item (snd y)"
    "has_proto (post e) (item_entry (row_item (row_join (chardb w) y)))" "item_loads (post e) (row_item (row_join (chardb w) y))"
    "LoadFromFieldList e (fst y) (snd y) (row_item (row_join (chardb w) y)) \<noteq> None"
    by (rule saved_row_loads [OF sv r]; simp add: row_join_def)+
qed

lemma DeleteExpired_saved:
  assumes sv: "houses_saved e w" and v: "chardb v = chardb w" "mAitems v = []"
  defines "u \<equiv> DeleteExpiredAuctionsAtStartup e v"
  shows "PostWorld.more u = PostWorld.more v" and "tbl_item_instance (chardb u) = tbl_item_instance (chardb w)"
    and "auction_rows (chardb u) = map (row_join (chardb w)) (filter (\<lambda>y. \<not> expired e (snd y)) (tbl_auctionhouse (chardb w)))"
proof -
  let ?t = "tbl_auctionhouse (chardb w)"
  let ?xs = "filter (\<lambda>x. arow_time (fst (snd x)) \<le> ucast (expiry_limit e)) (auction_rows (chardb v))"
  have rows: "auction_rows (chardb v) = map (row_join (chardb w)) ?t"
    unfolding v by (rule auction_rows_all) (rule saved_rows [OF sv])
  have xs: "?xs = map (row_join (chardb w)) (filter (\<lambda>y. expired e (snd y)) ?t)"
    by (simp add: rows filter_map comp_def row_join_def expired_def)
  have load: "LoadFromFieldList e (fst x) (fst (snd x)) (row_item x) \<noteq> None" if "x \<in> set ?xs" for x
    using that saved_rows(5) [OF sv] unfolding xs by (auto simp: row_join_def)
  have u: "u = fold (expire_row e) ?xs v" by (simp add: u_def DeleteExpiredAuctionsAtStartup_def)
  have f: "PostWorld.more u = PostWorld.more v \<and> tbl_item_instance (chardb u) = tbl_item_instance (chardb v)
      \<and> tbl_auctionhouse (chardb u) = filter (\<lambda>y. fst y \<notin> fst ` set ?xs) (tbl_auctionhouse (chardb v))"
    unfolding u using v(2) load by (rule expire_rows_startup)
  show "PostWorld.more u = PostWorld.more v" and i: "tbl_item_instance (chardb u) = tbl_item_instance (chardb w)"
    using f v by simp_all
  have d: "distinct (map fst ?t)" using sv by (simp add: houses_saved_def ordered_distinct)
  have "tbl_auctionhouse (chardb u) = filter (\<lambda>y. fst y \<notin> fst ` set ?xs) ?t" using f v by simp
  also have "\<dots> = filter (\<lambda>y. \<not> expired e (snd y)) ?t"
  proof (rule filter_cong [OF refl])
    fix y assume y: "y \<in> set ?t"
    have img: "fst ` set ?xs = fst ` set (filter (\<lambda>y. expired e (snd y)) ?t)" by (simp add: xs image_image row_join_def)
    have "z = y" if "z \<in> set ?t" "fst z = fst y" for z
      using d y that by (metis eq_key_imp_eq_value prod.collapse)
    then have key: "expired e (snd y) \<longleftrightarrow> (\<exists>z. z \<in> set ?t \<and> expired e (snd z) \<and> fst y = fst z)" using y by metis
    show "fst y \<notin> fst ` set ?xs \<longleftrightarrow> \<not> expired e (snd y)" unfolding img key by (auto simp: image_iff)
  qed
  finally have t: "tbl_auctionhouse (chardb u) = filter (\<lambda>y. \<not> expired e (snd y)) ?t" .
  have "auction_rows (chardb u) = map (row_join (chardb u)) (tbl_auctionhouse (chardb u))"
    by (rule auction_rows_all) (use saved_rows(1) [OF sv] in \<open>auto simp: t i\<close>)
  then show "auction_rows (chardb u) = map (row_join (chardb w)) (filter (\<lambda>y. \<not> expired e (snd y)) ?t)"
    by (simp add: t) (simp add: row_join_def i)
qed


section \<open>The restart\<close>

text \<open>The rows that have not expired.\<close>

definition live_rows :: "AuctionEnv \<Rightarrow> CharacterDB \<Rightarrow> (u32 \<times> AuctionRow) list" where
  "live_rows e db = filter (\<lambda>y. \<not> expired e (snd y)) (tbl_auctionhouse db)"

lemma live_rows_saved:
  assumes "houses_saved e w"
  shows "y \<in> set (live_rows e (chardb w)) \<Longrightarrow> y \<in> set (tbl_auctionhouse (chardb w))"
    and "distinct (map fst (live_rows e (chardb w)))" and "distinct (map (\<lambda>y. arow_item (snd y)) (live_rows e (chardb w)))"
  using assms by (simp_all add: live_rows_def houses_saved_def ordered_distinct distinct_map_filter)

lemma load_saved_items:
  assumes sv: "houses_saved e w" and none: "\<And>k. GetAItem k u = None"
  obtains v where "fold (LoadAuctionItem e) (map (row_join (chardb w)) (live_rows e (chardb w))) (Some u) = Some v"
    and "chardb v = chardb u" and "\<And>h. AuctionsMap h v = AuctionsMap h u"
    and "\<And>y. y \<in> set (live_rows e (chardb w)) \<Longrightarrow>
      GetAItem (arow_item (snd y)) v = Some (row_item (row_join (chardb w) y))"
proof -
  let ?rows = "map (row_join (chardb w)) (live_rows e (chardb w))"
  note sr = saved_rows [OF sv live_rows_saved(1) [OF sv]]
  have "map (\<lambda>x. item_guid (row_item x)) ?rows = map (\<lambda>y. arow_item (snd y)) (live_rows e (chardb w))"
    unfolding map_map comp_def using sr(2) by (intro map_cong) auto
  then have d: "distinct (map (\<lambda>x. item_guid (row_item x)) ?rows)" using live_rows_saved(3) [OF sv] by (simp only:)
  have "GetAItem (item_guid (row_item z)) u = None \<and> has_proto (post e) (item_entry (row_item z)) \<and> item_loads (post e) (row_item z)"
    if "z \<in> set ?rows" for z
    using that sr(3,4) none by auto
  from LoadAuctionItem_fold [OF d this] obtain v where v: "fold (LoadAuctionItem e) ?rows (Some u) = Some v" "chardb v = chardb u"
      "\<And>h. AuctionsMap h v = AuctionsMap h u"
      "\<And>k. GetAItem k v = (case map_of (map (\<lambda>x. (item_guid (row_item x), row_item x)) ?rows) k of Some it \<Rightarrow> Some it | None \<Rightarrow> GetAItem k u)"
    by blast
  have "GetAItem (arow_item (snd y)) v = Some (row_item (row_join (chardb w) y))" if y: "y \<in> set (live_rows e (chardb w))" for y
  proof -
    have "map_of (map (\<lambda>x. (item_guid (row_item x), row_item x)) ?rows) (item_guid (row_item (row_join (chardb w) y))) =
        Some (row_item (row_join (chardb w) y))"
      using d y by (intro map_of_is_SomeI) (auto simp: comp_def)
    then show ?thesis by (simp add: v(4) sr(2) [OF y])
  qed
  with v that show thesis by blast
qed

lemma load_saved_auctions:
  assumes sv: "houses_saved e w" and none: "\<And>h i. GetAuction h i u = None"
    and held: "\<And>y. y \<in> set (live_rows e (chardb w)) \<Longrightarrow> GetAItem (arow_item (snd y)) u \<noteq> None"
  obtains v where "fold (LoadAuction e) (map (row_join (chardb w)) (live_rows e (chardb w))) ([], u) = ([], v)" and "mAitems v = mAitems u"
    and "\<And>h i. GetAuction h i v = (case map_of (tbl_auctionhouse (chardb w)) i of
        None \<Rightarrow> None
      | Some r \<Rightarrow> if expired e r \<or> GetAuctionsMap e (factionTemplateId (row_auction e (row_join (chardb w) (i, r)))) \<noteq> h then None
          else Some (row_auction e (row_join (chardb w) (i, r))))"
proof -
  let ?rows = "map (row_join (chardb w)) (live_rows e (chardb w))"
  have d: "distinct (map fst ?rows)" using live_rows_saved(2) [OF sv] by (simp add: row_join_def comp_def)
  have "LoadFromFieldList e (fst z) (fst (snd z)) (row_item z) \<noteq> None \<and> GetAItem (arow_item (fst (snd z))) u \<noteq> None" if z: "z \<in> set ?rows" for z
  proof -
    obtain y where y: "y \<in> set (live_rows e (chardb w))" "z = row_join (chardb w) y" using z unfolding set_map by blast
    then show ?thesis using saved_rows(5) [OF sv live_rows_saved(1) [OF sv y(1)]] held [OF y(1)] by (simp add: row_join_def)
  qed
  from LoadAuction_fold [OF d this, of "[]"] obtain v where v: "fold (LoadAuction e) ?rows ([], u) = ([], v)" "mAitems v = mAitems u"
      "\<And>h i. GetAuction h i v = (case map_of (map (\<lambda>x. (fst x, row_auction e x)) ?rows) i of
           Some a \<Rightarrow> if GetAuctionsMap e (factionTemplateId a) = h then Some a else GetAuction h i u | None \<Rightarrow> GetAuction h i u)"
    by blast
  have sd: "distinct (map fst (tbl_auctionhouse (chardb w)))" using sv by (simp add: houses_saved_def ordered_distinct)
  have eq: "map (\<lambda>x. (fst x, row_auction e x)) ?rows = map (\<lambda>y. (fst y, row_auction e (row_join (chardb w) y))) (live_rows e (chardb w))"
    by (simp add: row_join_def comp_def)
  have "GetAuction h i v = (case map_of (tbl_auctionhouse (chardb w)) i of
        None \<Rightarrow> None
      | Some r \<Rightarrow> if expired e r \<or> GetAuctionsMap e (factionTemplateId (row_auction e (row_join (chardb w) (i, r)))) \<noteq> h then None
          else Some (row_auction e (row_join (chardb w) (i, r))))" for h i
    unfolding v(3) eq unfolding live_rows_def map_of_map_filter_key [OF sd] using none by (simp split: option.split)
  with v that show thesis by blast
qed

text \<open>The row of a saved auction gives it back.\<close>

lemma saved_auction_found:
  assumes sv: "houses_saved e w"
  shows "(case map_of (tbl_auctionhouse (chardb w)) i of
        None \<Rightarrow> None
      | Some r \<Rightarrow> if expired e r \<or> GetAuctionsMap e (factionTemplateId (row_auction e (row_join (chardb w) (i, r)))) \<noteq> h then None
          else Some (row_auction e (row_join (chardb w) (i, r)))) =
    (case GetAuction h i w of None \<Rightarrow> None | Some a \<Rightarrow> if auc_expire_time a \<le> ucast (expiry_limit e) then None else Some (reloaded e a))"
proof (cases "map_of (tbl_auctionhouse (chardb w)) i")
  case None
  then have "GetAuction h i w = None" using houses_savedD(1) [OF sv, of h i] by (cases "GetAuction h i w") auto
  with None show ?thesis by simp
next
  case (Some r)
  obtain k a it where a: "GetAuction k i w = Some a" "r = auction_row a"
      "GetAuctionsMap e (factionTemplateId (reloaded e a)) = k" "map_of (tbl_item_instance (chardb w)) (arow_item r) = Some it"
      "LoadFromFieldList e i r it = Some (reloaded e a)"
    using saved_row_loads [OF sv Some] by metis
  have "row_auction e (row_join (chardb w) (i, r)) = reloaded e a" by (simp add: row_auction_def row_join_def a(4,5))
  moreover have "GetAuction h i w = (if h = k then Some a else None)"
    by (rule houses_saved_unique [OF sv a(1)])
  moreover have "expired e r \<longleftrightarrow> auc_expire_time a \<le> ucast (expiry_limit e)" by (simp add: expired_def a(2) auction_row_def)
  ultimately show ?thesis using a(3) Some by auto
qed

text \<open>C31: After a restart the houses hold the auctions they held before. Auctions were put into the houses and saved by \<^verbatim>\<open>SaveToDB\<close>, bids
  were raised and updated, and auctions were taken out and deleted, in any order, and what happened in between left the table of
  auctions and their saved items alone. Then the start of the server, with nothing loaded, deletes the auctions whose
  time is up, loads the items without a failed assertion, and every other auction is in its house again under its number with
  seller, bidder, bid, prices, deposit and time (house entry and faction are those of its auctioneer), its item is the saved one, and the
  houses hold nothing else. A saved auction is in the house of its auctioneer, its prices fit into the signed columns and its time
  into 32 bits, and its item is in no other auction, saved, and known to the data files.\<close>

theorem auction_restart:
  assumes history: "saved_history e w" and db: "chardb v = chardb w" and empty: "mAitems v = []" "\<And>h. AuctionsMap h v = []"
  shows "\<exists>v'. load_auction_house e v = Some v'
    \<and> (\<forall>h i. GetAuction h i v' =
        (case GetAuction h i w of
           None \<Rightarrow> None | Some a \<Rightarrow> if auc_expire_time a \<le> ucast (expiry_limit e) then None else Some (reloaded e a)))
    \<and> (\<forall>h i a. GetAuction h i v' = Some a \<longrightarrow>
        (\<exists>it. GetAItem (itemGUIDLow a) v' = Some it \<and> map_of (tbl_item_instance (chardb w)) (itemGUIDLow a) = Some it))"
proof -
  have saved: "houses_saved e w" using history by (rule saved_history_saved)
  define u where "u = DeleteExpiredAuctionsAtStartup e v"
  note x = DeleteExpired_saved [OF saved db empty(1), folded u_def, folded live_rows_def]
  have none: "GetAItem k u = None" "GetAuction h i u = None" for k h i
    using GetAItem_more [OF x(1), of k] GetAuction_more [OF x(1), of h i] empty by (simp_all add: GetAItem_def GetAuction_def)
  obtain v1 where v1: "fold (LoadAuctionItem e) (auction_rows (chardb u)) (Some u) = Some v1" "chardb v1 = chardb u"
      "\<And>h. AuctionsMap h v1 = AuctionsMap h u"
      "\<And>y. y \<in> set (live_rows e (chardb w)) \<Longrightarrow> GetAItem (arow_item (snd y)) v1 = Some (row_item (row_join (chardb w) y))"
    by (rule load_saved_items [OF saved none(1)]) (use x(3) in auto)
  obtain v2 where v2: "fold (LoadAuction e) (auction_rows (chardb u)) ([], v1) = ([], v2)" "mAitems v2 = mAitems v1"
      "\<And>h i. GetAuction h i v2 =
        (case GetAuction h i w of None \<Rightarrow> None | Some a \<Rightarrow> if auc_expire_time a \<le> ucast (expiry_limit e) then None else Some (reloaded e a))"
  proof (rule load_saved_auctions [OF saved, of v1])
    show "GetAuction h i v1 = None" for h i using none(2) [of h i] v1(3) [of h] by (simp add: GetAuction_def)
  qed (use v1(4) x(3) saved_auction_found [OF saved] in auto)
  have start: "load_auction_house e v = Some v2"
    by (simp add: load_auction_house_def u_def [symmetric] LoadAuctionItems_def LoadAuctions_def v1 v2)
  have "\<exists>it. GetAItem (itemGUIDLow a) v2 = Some it \<and> map_of (tbl_item_instance (chardb w)) (itemGUIDLow a) = Some it"
    if g: "GetAuction h i v2 = Some a" for h i a
  proof -
    obtain b where b: "GetAuction h i w = Some b" "a = reloaded e b" "\<not> auc_expire_time b \<le> ucast (expiry_limit e)"
      using g by (auto simp: v2(3) split: option.splits if_splits)
    have "map_of (tbl_auctionhouse (chardb w)) i = Some (auction_row b)" using saved b(1) by (rule houses_savedD)
    then have t: "(i, auction_row b) \<in> set (live_rows e (chardb w))"
      using b(3) map_of_SomeD by (fastforce simp: live_rows_def expired_def auction_row_def)
    from v1(4) [OF t] saved_rows(1) [OF saved live_rows_saved(1) [OF saved t]] show ?thesis
      by (auto simp: b(2) reloaded_def Let_def auction_row_def GetAItem_def v2(2) row_join_def)
  qed
  with start v2(3) show ?thesis by blast
qed

text \<open>An auction put up on an empty house for a time that is not up yet, then a bid.\<close>

definition example_sale :: AuctionWorld where
  "example_sale = example_world\<lparr>mNeutralAuctions := [], chardb := (chardb example_world)\<lparr>tbl_auctionhouse := []\<rparr>\<rparr>"

definition lasting_auction :: AuctionEntry where
  "lasting_auction = example_auction\<lparr>auc_expire_time := 5000, bidder := 0, bid := 0\<rparr>"

definition sold_up :: AuctionWorld where
  "sold_up = AddAuction NeutralHouse (lasting_auction\<lparr>bidder := 3, bid := 50\<rparr>) (CommitTransaction [CHAR_UPD_AUCTION_BID 3 50 7]
     (AddAuction NeutralHouse lasting_auction (CommitTransaction (auction_SaveToDB example_env lasting_auction) example_sale)))"

lemma example_history: "saved_history example_env sold_up"
proof -
  have z: "AuctionsMap h example_sale = []" for h by (cases h) (simp_all add: example_sale_def example_world_def)
  have 0: "saved_history example_env example_sale"
    using z by (intro saved_history.opened) (simp_all add: example_sale_def)
  have "saved_history example_env (AddAuction NeutralHouse lasting_auction (CommitTransaction (auction_SaveToDB example_env lasting_auction) example_sale))"
    by (rule saved_history.put_up [OF 0])
       (simp_all add: z GetAuction_def, simp_all add: example_sale_def lasting_auction_def example_auction_def example_env_def auction_saved_def
          example_world_def example_item_def GetAuctionsMap_def GetAuctionHouseEntry_def example_post_def)
  then show ?thesis
    unfolding sold_up_def by (rule saved_history.raised) (simp add: GetAuction_Add lasting_auction_def example_auction_def)
qed

theorem auction_restart_witness:
  "\<exists>v'. load_auction_house example_env (sold_up\<lparr>mNeutralAuctions := [], mAitems := []\<rparr>) = Some v'
     \<and> GetAuction NeutralHouse 7 v' = Some (example_auction\<lparr>auc_expire_time := 5000\<rparr>) \<and> (\<exists>it. GetAItem 9 v' = Some it)"
proof -
  have "AuctionsMap h (sold_up\<lparr>mNeutralAuctions := [], mAitems := []\<rparr>) = []" for h
    by (cases h) (simp_all add: sold_up_def example_sale_def AddAuction_def CommitTransaction_def example_world_def)
  note r = auction_restart [OF example_history _ _ this]
  have "chardb (sold_up\<lparr>mNeutralAuctions := [], mAitems := []\<rparr>) = chardb sold_up" "mAitems (sold_up\<lparr>mNeutralAuctions := [], mAitems := []\<rparr>) = []"
    by simp_all
  from r [OF this] obtain v' where
    v': "load_auction_house example_env (sold_up\<lparr>mNeutralAuctions := [], mAitems := []\<rparr>) = Some v'"
      "GetAuction NeutralHouse 7 v' = (case GetAuction NeutralHouse 7 sold_up of
           None \<Rightarrow> None | Some a \<Rightarrow> if auc_expire_time a \<le> ucast (expiry_limit example_env) then None else Some (reloaded example_env a))"
      "\<And>a. GetAuction NeutralHouse 7 v' = Some a \<Longrightarrow> \<exists>it. GetAItem (itemGUIDLow a) v' = Some it"
    by blast
  have "GetAuction NeutralHouse 7 v' = Some (example_auction\<lparr>auc_expire_time := 5000\<rparr>)"
    by (simp add: v'(2) sold_up_def GetAuction_Add)
       (simp add: lasting_auction_def example_auction_def reloaded_def example_env_def expiry_limit_def example_post_def GetAuctionHouseEntry_def Let_def)
  with v'(1,3) show ?thesis by (fastforce simp: example_auction_def)
qed

end
