(* ===== verification/MarketFlaws.thy ===== *)
theory MarketFlaws
  imports Economy
begin

text \<open>
  Where the bounds of the steps of \<open>Economy\<close> are needed: requests outside of them make gold, and one inside of them loses it.
\<close>

section \<open>The cost of a letter wraps\<close>

text \<open>A letter that is posted: what the sender pays, and the row.\<close>

lemma SendMail_commit_effect:
  fixes e :: PostEnv and r :: SendMailRequest and rc acc :: u32 and its :: "Item list"
  assumes fp: "FindPlayer g w = Some p"
  defines "w' \<equiv> SendMail_commit e g r rc acc its p w"
  shows "\<exists>q. FindPlayer g w' = Some q \<and> purse q = ModifyMoney (- (ucast (mail_cost (req_items r)) + req_money r)) (purse p)"
    and "\<exists>row. map_of (tbl_mail (chardb w')) (next_mailId w) = Some row \<and> row_receiver row = rc \<and> row_money row = ucast (req_money r)"
proof -
  let ?p1 = "p\<lparr>purse := ModifyMoney (- (ucast (mail_cost (req_items r)) + req_money r)) (purse p)\<rparr>"
  obtain p2 d1 tr1 where at: "fold (attach_item rc) its (?p1, MailDraft_new (req_subject r) (req_body r), []) = (p2, d1, tr1)"
    by (metis prod_cases3)
  define d2 where "d2 = AddCOD (ucast (req_COD r)) (AddMoney (req_money r) d1)"
  define w2 where "w2 = set_player g p2 (emit (AchievementCriteria g GOLD_SPENT_FOR_MAIL (ucast (mail_cost (req_items r))))
      (SendMailResult g 0 MAIL_SEND MAIL_OK w))"
  define sn :: MailSender where "sn = \<lparr>m_messageType = MAIL_NORMAL, m_senderId = g,
      m_stationery = (if p_isGameMaster p then MAIL_STATIONERY_GM else MAIL_STATIONERY_DEFAULT)\<rparr>"
  define chk where "chk = (if req_body r = [] then MAIL_CHECK_MASK_COPIED else MAIL_CHECK_MASK_HAS_BODY)"
  define dl where "dl = (if its \<noteq> [] \<and> p_account p \<noteq> acc then MAIL_DELIVERY_DELAY e else 0)"
  let ?u = "CommitTransaction tr1 w2"
  define w3 where "w3 = deliver e d2 rc sn chk dl ?u"
  obtain tr3 u3 where sm: "SendMailTo e d2 rc sn chk dl (tr1, w2) = (tr3, u3)" by (cases "SendMailTo e d2 rc sn chk dl (tr1, w2)")
  then have "CommitTransaction tr3 u3 = w3" using settle_SendMailTo [of e d2 rc sn chk dl "(tr1, w2)"] by (simp add: w3_def)
  moreover have "w' = CommitTransaction (tr3 @ SaveInventoryAndGoldToDB g p2) u3"
    unfolding w'_def SendMail_commit_def Let_def at using sm by (simp add: d2_def w2_def sn_def chk_def dl_def)
  ultimately have w': "w' = CommitTransaction (SaveInventoryAndGoldToDB g p2) w3" by (simp add: Commit_append)
  have "FindPlayer g ?u = Some p2" by (simp add: w2_def FindPlayer_set_player)
  then obtain q where "FindPlayer g w3 = Some q" "same_person p2 q" unfolding w3_def by (rule deliver_player)
  then show "\<exists>q. FindPlayer g w' = Some q \<and> purse q = ModifyMoney (- (ucast (mail_cost (req_items r)) + req_money r)) (purse p)"
    using attach_items(1) [OF at] by (simp add: w' same_person_def)
  have "next_mailId ?u = next_mailId w" by (simp add: w2_def CommitTransaction_def set_player_def) (simp add: emit_def SendMailResult_full_def)
  then have "map_of (tbl_mail (chardb w')) (next_mailId w) = Some (delivered_row e d2 rc sn chk dl ?u)"
    by (simp add: w' tables_Commit_item_stmts w3_def deliver_tables std_map.find_put)
  moreover have "m_money (prepared e d2 rc ?u) = req_money r"
    using same_letter_prepared [of d2 e rc ?u] by (simp add: same_letter_def d2_def AddCOD_def AddMoney_def)
  ultimately show "\<exists>row. map_of (tbl_mail (chardb w')) (next_mailId w) = Some row \<and> row_receiver row = rc \<and> row_money row = ucast (req_money r)"
    by (simp add: delivered_row_def draft_row_def)
qed

lemma unat_wrap_sum: "2 ^ 64 \<le> unat (a :: u64) + unat b \<Longrightarrow> unat (a + b) = unat a + unat b - 2 ^ 64"
  using unsigned_less [of a, where ?'a = nat] unsigned_less [of b, where ?'a = nat]
  by (simp add: unat_word_ariths le_mod_geq)

lemma unat_low_word:
  assumes "2 ^ 64 - 2 ^ 32 \<le> unat (v :: u64)"
  shows "unat (ucast v :: u32) = unat v - (2 ^ 64 - 2 ^ 32)"
proof -
  have "unat v = (2 ^ 32 - 1) * 2 ^ 32 + (unat v - (2 ^ 64 - 2 ^ 32))" using assms by simp
  moreover have "unat v - (2 ^ 64 - 2 ^ 32) < 2 ^ 32" using assms unsigned_less [of v, where ?'a = nat] by simp
  ultimately have "unat v mod 2 ^ 32 = unat v - (2 ^ 64 - 2 ^ 32)" by (metis mod_less mod_mult_self3)
  then show ?thesis by (simp add: unsigned_ucast_eq unsigned_take_bit_eq take_bit_eq_mod)
qed

text \<open>C34: A letter can make gold. When the fee of a letter and its coins add up to $2^{64}$ or more, their sum wraps in \<^verbatim>\<open>HandleSendMail\<close>: every such
  letter of at most 12 items that passes the checks, from a sender whose purse is within its limit and holds the wrapped sum, is posted; the sender pays only what the sum is
  above $2^{64}$, less than the fee of at most 360, and the row of the letter holds at least $2^{32} - 360$ coins for the receiver.\<close>

theorem letter_gold_from_nothing:
  assumes ok: "letter_checks e g r w p n its" and items: "length (req_items r) \<le> MAX_MAIL_ITEMS"
    and wraps: "2 ^ 64 \<le> unat (mail_cost (req_items r)) + unat (req_money r)"
    and afford: "HasEnoughMoney (ucast (mail_cost (req_items r)) + req_money r) (purse p)" and max: "purse p \<le> MAX_MONEY_AMOUNT"
  shows "\<exists>w' q row. SendMail e g r w = Inr w' \<and> FindPlayer g w' = Some q
    \<and> unat (purse q) + (unat (mail_cost (req_items r)) + unat (req_money r) - 2 ^ 64) = unat (purse p)
    \<and> unat (mail_cost (req_items r)) + unat (req_money r) - 2 ^ 64 < 360
    \<and> map_of (tbl_mail (chardb w')) (next_mailId w) = Some row \<and> row_receiver row = GUID_LOPART (guid_by_name e n)
    \<and> 2 ^ 32 - 360 \<le> unat (row_money row)"
proof -
  let ?sum = "ucast (mail_cost (req_items r)) + req_money r"
  have cost: "unat (mail_cost (req_items r)) \<le> 360"
    using items unat_mail_cost [of "req_items r"] by (simp add: MAX_MAIL_ITEMS_def)
  have top: "unat (req_money r) < 2 ^ 64" using unsigned_less [of "req_money r", where ?'a = nat] by simp
  have sum: "unat ?sum = unat (mail_cost (req_items r)) + unat (req_money r) - 2 ^ 64"
    using wraps unat_wrap_sum [of "ucast (mail_cost (req_items r))" "req_money r"] by simp
  have le: "?sum \<le> purse p" using afford by (simp add: HasEnoughMoney_def)
  have fp: "FindPlayer g w = Some p" using ok by (simp add: letter_checks_def Let_def)
  let ?rc = "GUID_LOPART (guid_by_name e n)"
  let ?w' = "SendMail_commit e g r ?rc (receiver_account e ?rc w) its p w"
  obtain q where q: "FindPlayer g ?w' = Some q" "purse q = purse p - ?sum"
    using SendMail_commit_effect(1) [OF fp, of e r ?rc "receiver_account e ?rc w" its] ModifyMoney_pay [OF le max] by auto
  obtain row where row: "map_of (tbl_mail (chardb ?w')) (next_mailId w) = Some row" "row_receiver row = ?rc" "row_money row = ucast (req_money r)"
    using SendMail_commit_effect(2) [OF fp, of e r ?rc "receiver_account e ?rc w" its] by auto
  have "unat (purse q) = unat (purse p) - unat ?sum" "unat ?sum \<le> unat (purse p)"
    using le by (simp_all add: q(2) unat_pay word_le_nat_alt)
  then have paid: "unat (purse q) + unat ?sum = unat (purse p)" by simp
  have "2 ^ 32 - 360 \<le> unat (row_money row)"
    using wraps cost unat_low_word [of "req_money r"] by (simp add: row(3))
  with paid sum cost top q(1) row SendMail_accepted [OF ok] show ?thesis by (intro exI [of _ ?w'] exI [of _ q] exI [of _ row]) auto
qed

definition overflow_request :: SendMailRequest where
  "overflow_request =
     \<lparr>req_mailbox = 0, req_receiver = [0x42, 0x6F, 0x62], req_subject = [], req_body = [], req_money = 0xFFFFFFFFFFFFFFE2, req_COD = 0,
      req_items = []\<rparr>"

theorem letter_gold_from_nothing_witness:
  "\<exists>w' q row. SendMail example_post 1 overflow_request example_office = Inr w' \<and> FindPlayer 1 w' = Some q \<and> unat (purse q) = 10
     \<and> map_of (tbl_mail (chardb w')) 2 = Some row \<and> row_receiver row = 2 \<and> 2 ^ 32 - 360 \<le> unat (row_money row)"
proof -
  have n: "normalizePlayerName [0x42, 0x6F, 0x62] = Inr (Some [0x42, 0x6F, 0x62])" by code_simp
  have ok: "letter_checks example_post 1 overflow_request example_office (example_player 10 []) [0x42, 0x6F, 0x62] []"
    by (simp add: letter_checks_def overflow_request_def FindPlayer_def example_office_def example_post_def example_player_def n
        receiver_defs GUID_LOPART_def MAKE_NEW_GUID_def mail_cost_def HasEnoughMoney_def HIGHGUID_PLAYER_def mails_count_def mail_rows_def
        example_row_def)
  have "length (req_items overflow_request) \<le> MAX_MAIL_ITEMS"
    "2 ^ 64 \<le> unat (mail_cost (req_items overflow_request)) + unat (req_money overflow_request)"
    "HasEnoughMoney (ucast (mail_cost (req_items overflow_request)) + req_money overflow_request) (purse (example_player 10 []))"
    "purse (example_player 10 []) \<le> MAX_MONEY_AMOUNT"
    by (simp_all add: overflow_request_def mail_cost_def HasEnoughMoney_def example_player_def MAX_MONEY_AMOUNT_def)
  from letter_gold_from_nothing [OF ok this] obtain w' q row where w:
    "SendMail example_post 1 overflow_request example_office = Inr w'" "FindPlayer 1 w' = Some q"
    "unat (purse q) + (unat (mail_cost (req_items overflow_request)) + unat (req_money overflow_request) - 2 ^ 64) = unat (purse (example_player 10 []))"
    "map_of (tbl_mail (chardb w')) (next_mailId example_office) = Some row" "row_receiver row = GUID_LOPART (guid_by_name example_post [0x42, 0x6F, 0x62])"
    "2 ^ 32 - 360 \<le> unat (row_money row)"
    by blast
  moreover have "next_mailId example_office = 2" "GUID_LOPART (guid_by_name example_post [0x42, 0x6F, 0x62]) = 2"
    by (simp_all add: example_office_def example_post_def GUID_LOPART_def PAIR64_LOPART_def)
  ultimately show ?thesis by (simp add: overflow_request_def mail_cost_def example_player_def)
qed

section \<open>Cash on delivery above $2^{31}$\<close>

lemma neg_int32_large:
  assumes "0x80000000 < v" and "fits_u32 v"
  shows "uint (neg_int32 v) = 2 ^ 32 - uint v" and "unat (neg_int32 v) = 2 ^ 32 - unat v"
proof -
  have v: "2 ^ 31 < uint v" "uint v < 2 ^ 32" using assms by (simp_all add: word_less_def)
  then have "uint (ucast v :: u32) = uint v"
    by (simp add: unsigned_ucast_eq unsigned_take_bit_eq take_bit_int_eq_self)
  then have u: "uint (- (ucast v :: u32)) = 2 ^ 32 - uint v"
    using v by (simp add: uint_word_ariths zmod_zminus1_eq_if)
  then have "sint (- (ucast v :: u32)) = 2 ^ 32 - uint v"
    using v by (simp add: sint_uint signed_take_bit_int_eq_self_iff)
  then have "neg_int32 v = word_of_int (2 ^ 32 - uint v)" by (simp add: neg_int32_def scast_eq)
  moreover have "uint (word_of_int (2 ^ 32 - uint v) :: u64) = 2 ^ 32 - uint v"
    using v by (simp only: uint_word_of_int) (simp add: mod_pos_pos_trivial)
  ultimately show "uint (neg_int32 v) = 2 ^ 32 - uint v" by (simp only:)
  moreover obtain j k where "unat (neg_int32 v) = j" "uint (neg_int32 v) = int j" "unat v = k" "uint v = int k" by (metis uint_nat)
  ultimately show "unat (neg_int32 v) = 2 ^ 32 - unat v" using v by simp
qed

lemma ModifyMoney_gain:
  assumes "uint d < 2 ^ 31" and "coins \<le> MAX_MONEY_AMOUNT"
  shows "unat (ModifyMoney d coins) = min (unat MAX_MONEY_AMOUNT) (unat coins + unat d)"
proof -
  have "sint d = uint d" using assms(1) by (intro sint_nonneg_64) simp
  then have s: "\<not> sint d < 0" by simp
  have d: "unat d < 2 ^ 31"
  proof -
    obtain k where "unat d = k" "uint d = int k" by (metis uint_nat)
    with assms(1) show ?thesis by simp
  qed
  have c: "unat coins \<le> 9999999999" using assms(2) by (simp add: word_le_nat_alt unat_MAX_MONEY)
  have "d \<le> MAX_MONEY_AMOUNT" using d by (simp add: word_le_nat_alt unat_MAX_MONEY)
  then have "unat (MAX_MONEY_AMOUNT - d) = 9999999999 - unat d" by (simp add: unat_pay unat_MAX_MONEY)
  then show ?thesis
    using s d c by (simp add: ModifyMoney_def word_less_nat_alt unat_MAX_MONEY) (simp add: unat_word_ariths)
qed

text \<open>C35: Taking an item can pay the one who takes it. When more than $2^{31}$ and less than $2^{32}$ coins are due on delivery, \<^verbatim>\<open>-int32(m->COD)\<close> is
  positive in \<^verbatim>\<open>HandleMailTakeItem\<close>: a receiver who has that much and room for the item gets $2^{32}$ less the amount, up to the limit of a purse,
  and the sender, another character who still exists, gets a letter with the whole amount. At exactly $2^{31}$ the sum stays
  negative and is paid. The mailbox is usable, the letter delivered, the purse within its limit, and the number of the next letter not
  in the mailbox.\<close>

theorem cod_pays_the_receiver:
  assumes fp: "FindPlayer g w = Some p" and m: "GetMail i p = Some m" and use: "can_use_mailbox e g mb" and av: "\<not> unavailable e m"
    and cod: "0x80000000 < COD m" "fits_u32 (COD m)" and en: "HasEnoughMoney (COD m) (purse p)" and max: "purse p \<le> MAX_MONEY_AMOUNT"
    and it: "CanStoreItem e g p (GetMItem it p) = EQUIP_ERR_OK"
    and sender: "mail_sender m \<noteq> g" "FindPlayer (mail_sender m) w \<noteq> None \<or> account_of e (mail_sender m) \<noteq> 0"
    and new: "next_mailId w \<notin> messageID ` set (m_mail p)"
  shows "\<exists>q r. FindPlayer g (MailTakeItem e g mb i it w) = Some q
    \<and> unat (purse q) = min (unat MAX_MONEY_AMOUNT) (unat (purse p) + (2 ^ 32 - unat (COD m)))
    \<and> map_of (tbl_mail (chardb (MailTakeItem e g mb i it w))) (next_mailId w) = Some r
    \<and> row_receiver r = mail_sender m \<and> unat (row_money r) = unat (COD m)"
proof -
  let ?x = "the (GetMItem it p)"
  define p1 where "p1 = upd_mail i (\<lambda>m. (Mail_RemoveItem it m)\<lparr>removedItems := removedItems m @ [it]\<rparr>) p"
  define w1 where "w1 = set_player g p1 w"
  define d where "d = AddMoney (COD m) (MailDraft_new (subject m) [])"
  have pos: "COD m > 0" using cod(1) by (rule less_trans [rotated]) simp
  have "FindPlayer (mail_sender m) w1 \<noteq> None \<or> account_of e (mail_sender m) \<noteq> 0"
    using sender by (auto simp: w1_def FindPlayer_set_player)
  then obtain sn chk where pay: "settle (cod_payment e m ([], w1)) = deliver e d (mail_sender m) sn chk 0 w1"
    unfolding d_def by (simp add: cod_payment_def settle_SendMailTo)
  define w2 where "w2 = deliver e d (mail_sender m) sn chk 0 w1"
  have q2: "FindPlayer g w2 = Some p1" using sender(1) by (simp add: w2_def deliver_FindPlayer w1_def FindPlayer_set_player)
  let ?r = "delivered_row e d (mail_sender m) sn chk 0 w1"
  have nm: "next_mailId w1 = next_mailId w" by (simp add: w1_def set_player_def)
  have t2: "map_of (tbl_mail (chardb w2)) (next_mailId w) = Some ?r" by (simp add: w2_def deliver_tables nm std_map.find_put)
  have row: "row_receiver ?r = mail_sender m" "unat (row_money ?r) = unat (COD m)"
    using same_letter_prepared [of d e "mail_sender m" w1] cod(2)
    by (simp_all add: delivered_row_def draft_row_def same_letter_def d_def AddMoney_def unat_narrow)
  define q4 where "q4 = taken_item e i ?x m p1"
  have "map messageID (m_mail q4) = map messageID (m_mail p)"
    by (simp add: q4_def taken_item_def RemoveMItem_def p1_def upd_mail_def Mail_RemoveItem_def)
  then have ids: "messageID ` set (m_mail q4) = messageID ` set (m_mail p)" by (metis list.set_map)
  have "w' = take_item_end e g i it ?x m (cod_payment e m ([], w1))" if "w' = MailTakeItem e g mb i it w" for w'
    unfolding that MailTakeItem_def at_mailbox_def Let_def
    using fp m use av en it pos by (simp add: take_item_def w1_def p1_def upd_player_set)
  moreover have "FindPlayer g (snd (cod_payment e m ([], w1))) = Some p1" using q2 pay by (metis FindPlayer_Commit w2_def)
  ultimately have w': "MailTakeItem e g mb i it w = SendMailResult_full g i MAIL_ITEM_TAKEN MAIL_OK 0 it (item_count ?x)
      (CommitTransaction (SaveInventoryAndGoldToDB g q4 @ fst (SaveMail q4)) (set_player g (snd (SaveMail q4)) w2))"
    using take_item_end_eq [of g "cod_payment e m ([], w1)" p1 e i it ?x m] pay by (simp add: q4_def w2_def)
  have "purse (snd (SaveMail q4)) = ModifyMoney (neg_int32 (COD m)) (purse p)"
    using pos by (simp add: SaveMail_def q4_def taken_item_def RemoveMItem_def upd_mail_def p1_def)
  moreover have "uint (neg_int32 (COD m)) < 2 ^ 31" using neg_int32_large(1) [OF cod] cod(1) by (simp add: word_less_def)
  ultimately have "unat (purse (snd (SaveMail q4))) = min (unat MAX_MONEY_AMOUNT) (unat (purse p) + (2 ^ 32 - unat (COD m)))"
    using ModifyMoney_gain [OF _ max] neg_int32_large(2) [OF cod] by simp
  moreover have "map_of (tbl_mail (chardb (MailTakeItem e g mb i it w))) (next_mailId w) = Some ?r"
    using t2 new ids unfolding w'
    by (simp add: Commit_append tables_Commit_item_stmts)
       (simp add: CommitTransaction_def SaveMail_def item_stmts_tables tbl_SaveMail save_rows_other set_player_def)
  ultimately show ?thesis using row by (auto simp: w' FindPlayer_set_player)
qed

text \<open>A letter with an item for 0x80000001 coins, sent by a character who is away.\<close>

definition cod_office :: PostWorld where
  "cod_office = example_office
     \<lparr>online := [(1, (example_player 3000000000
          [(mail_of_row example_post 1 (example_row\<lparr>row_money := 0, row_cod := 0x80000001\<rparr>))\<lparr>mail_items := [(9, 25)]\<rparr>])
        \<lparr>mMitems := [(9, example_item)]\<rparr>)],
      chardb := (chardb example_office)\<lparr>tbl_mail := [(1, example_row\<lparr>row_money := 0, row_cod := 0x80000001, row_has_items := True\<rparr>)],
        tbl_mail_items := [(1, 9, 1)]\<rparr>\<rparr>"

theorem cod_pays_the_receiver_witness:
  "\<exists>q r. FindPlayer 1 (MailTakeItem example_post 1 0 1 9 cod_office) = Some q \<and> unat (purse q) = 3000000000 + 2147483647
     \<and> map_of (tbl_mail (chardb (MailTakeItem example_post 1 0 1 9 cod_office))) 2 = Some r \<and> row_receiver r = 2 \<and> unat (row_money r) = 2147483649"
proof -
  let ?m = "(mail_of_row example_post 1 (example_row\<lparr>row_money := 0, row_cod := 0x80000001\<rparr>))\<lparr>mail_items := [(9, 25)]\<rparr>"
  let ?p = "(example_player 3000000000 [?m])\<lparr>mMitems := [(9, example_item)]\<rparr>"
  have 1: "FindPlayer 1 cod_office = Some ?p" "GetMail 1 ?p = Some ?m" "can_use_mailbox example_post 1 0" "\<not> unavailable example_post ?m"
    by (simp_all add: FindPlayer_def cod_office_def GetMail_def example_player_def mail_of_row_def example_post_def unavailable_def example_row_def)
  have 2: "0x80000000 < COD ?m" "COD ?m < 0x100000000" "HasEnoughMoney (COD ?m) (purse ?p)" "purse ?p \<le> MAX_MONEY_AMOUNT"
    by (simp_all add: mail_of_row_def HasEnoughMoney_def example_player_def MAX_MONEY_AMOUNT_def)
  have 3: "CanStoreItem example_post 1 ?p (GetMItem 9 ?p) = EQUIP_ERR_OK" "mail_sender ?m \<noteq> 1"
    "FindPlayer (mail_sender ?m) cod_office \<noteq> None \<or> account_of example_post (mail_sender ?m) \<noteq> 0"
    "next_mailId cod_office \<notin> messageID ` set (m_mail ?p)"
    by (simp_all add: CanStoreItem_def GetMItem_def example_post_def EQUIP_ERR_OK_def mail_of_row_def example_row_def cod_office_def
        example_office_def example_player_def)
  have "next_mailId cod_office = 2" "mail_sender ?m = 2" "unat (COD ?m) = 2147483649" "unat (purse ?p) = 3000000000"
    by (simp_all add: cod_office_def example_office_def mail_of_row_def example_row_def example_player_def)
  with cod_pays_the_receiver [OF 1 2 3] show ?thesis by (simp add: unat_MAX_MONEY)
qed

section \<open>Taking no coins\<close>

text \<open>A request to take 0 coins from a letter passes the check of the amount, and the coins of the letter are gone.\<close>

lemma take_nothing_destroys:
  "purses (MailTakeMoney example_post 1 0 1 0 example_world) = purses example_world
   \<and> letters (MailTakeMoney example_post 1 0 1 0 example_world) + 30 = letters example_world"
  by code_simp

end
