(* ===== verification/Spec2Isabelle.thy ===== *)
theory Spec2Isabelle
  imports ByteBufferProps MovementPackets MovementSanitize ObjectViews ObjectUpdateProps Timer EventProcessor
    ChannelMgrProps ReputationRelog AuctionRestart MarketFlaws
begin

text \<open>
  A verification development for the ZerosCore game server, the C++ code under \<^verbatim>\<open>src/src/server\<close>. It models
  the parts of the server where a mistake corrupts what other components or the clients believe: the packet
  buffer, the movement packets, the object fields and their updates, the timers and timed events, the chat
  channels with the names they are found by, the reputations of players, and the gold and items that players
  move through the mail and the auction house.

  \<^bold>\<open>How the parts work together.\<close> A session receives a packet (\<^verbatim>\<open>ByteBuffer\<close>), decodes it and changes the
  state of its player. Movement packets are decoded by tables into a \<^verbatim>\<open>MovementInfo\<close>, cleaned
  (\<^verbatim>\<open>Sanitize\<close>) and broadcast. Every game object keeps an array of 32-bit fields; setters mark the changed
  ones and enter the object in the update list of \<^verbatim>\<open>ObjectAccessor\<close>, which once per world tick builds for
  every player a packet with the fields this player may see. Timers decide when the parts of a tick are due,
  and each unit has a queue of timed events. Chat requests go to the manager of the team, which finds or makes
  the channel by its folded name. A letter takes gold and items out of the bags of its sender into a row of the
  mail table and, when the receiver is online, into the list of letters in memory; the auction house takes
  items and bids and pays by letters, at a request or in the periodic work of the world.

  \<^bold>\<open>Conventions.\<close> An integer of \<open>w\<close> bits is a word of that width, so that additions wrap as they do in the code; a
  \<^verbatim>\<open>size_t\<close> is a natural number with the wrap written out where it can happen. A float is its bit pattern,
  because the modelled code moves and compares floats but does not compute with them; the one addition
  (\<^verbatim>\<open>ApplyModSignedFloatValue\<close> and its kin) is a parameter. A routine that can throw, fail an assertion or leave
  an array returns a sum whose left side says which of these happened. Stateful code maps the state to the
  next state. Whatever a routine asks of code that is not modelled is a field of a record (\<open>Viewer\<close>,
  \<open>Appearance\<close>, \<open>Realm\<close>, \<open>ChatEnv\<close>, \<open>Session\<close>, \<open>PostEnv\<close>, \<open>AuctionEnv\<close>) or an argument, and the theorems hold for all answers.

  \<^bold>\<open>Packets.\<close>

  \<^item> \<open>ByteBuffer\<close>: every operation of \<^verbatim>\<open>shared/Packets/ByteBuffer.h\<close> that the server uses on bits, numbers,
    strings and packed identifiers. \<open>PacketStream\<close> is its specification, a stream of bits and bytes, with the
    relation between a stream and the memory of a buffer. \<open>ByteBufferProps\<close> proves the round trips, that no
    sequence of reads leaves the packet, and the invariant of the members under all writes. A packet is bounded
    by the assertion of the code at ten million bytes.

  \<^bold>\<open>Movement.\<close>

  \<^item> \<open>MovementElements\<close> and \<open>MovementTablesSpeed\<close>, \<open>MovementTablesMove\<close>, \<open>MovementTablesState\<close> hold the
    enum and the element tables of \<^verbatim>\<open>game/Movement/MovementStructures.cpp\<close>; \<open>MovementSequences\<close> the opcodes and the
    choice of a table; \<open>MovementWf\<close> what makes a table usable and that all but one are. The loops of the code stop
    at \<open>MSE_COUNT\<close> = 80 elements, which every table stays below.
  \<^item> \<open>MovementInfo\<close>: the generic writer and reader, the hand-written packets, the dispatch and \<^verbatim>\<open>Sanitize\<close> of
    \<^verbatim>\<open>game/Movement/MovementInfo.cpp\<close>. \<open>MovementStream\<close> gives the stream of each element, \<open>MovementRoundtrip\<close> the
    round trip of every well-formed table for structures that fit (\<open>sendable\<close>: flags within their widths; fields
    a table does not carry agree with the receiver's), \<open>MovementPackets\<close> that writing never fails, what reading
    can throw, and how the hand-written packets relate to the tables, \<open>MovementSanitize\<close> the flags a client may keep.

  \<^bold>\<open>Objects.\<close>

  \<^item> \<open>ObjectGuid\<close>: identifiers (\<^verbatim>\<open>ObjectDefines.h\<close>). \<open>UpdateMask\<close>: the mask as a set of indexes.
  \<^item> \<open>ObjectFields\<close>: the field array, its setters and the update list (\<^verbatim>\<open>Object.cpp\<close>, \<^verbatim>\<open>Object.h\<close>,
    \<^verbatim>\<open>ObjectAccessor.cpp\<close>). \<open>ObjectFieldsProps\<close> shows by a simulation that a client that applies the updates has the
    server's values; \<open>ObjectViews\<close> that the accessors of 8 to 64 bits are views of one array of bits.
  \<^item> \<open>UpdateFieldFlags\<close>: the visibility tables. \<open>ObjectUpdate\<close>: which fields a player gets and with which values, the
    values block and \<^verbatim>\<open>UpdateData\<close>. \<open>ObjectUpdateProps\<close>: a block and a whole packet are read back; private fields
    stay private. Packets are bounded there by 1000 blocks, 100000 lost objects and nine million bytes of blocks,
    so that the assertion of the buffer cannot fail.

  \<^bold>\<open>Time.\<close>

  \<^item> \<open>Timer\<close>: the timers of \<^verbatim>\<open>shared/Utilities/Timer.h\<close> and their use in \<^verbatim>\<open>World::Update\<close>; a countdown
    passes exactly on time and an interval timer loses no time. \<open>EventProcessor\<close>: the queue of timed events. Its
    loop need not end, so it is a partial function; it is shown to return when events add only later events.

  \<^bold>\<open>Chat.\<close>

  \<^item> \<open>Utf8\<close>: the conversions of \<^verbatim>\<open>dep/utf8cpp\<close>, shown to be inverse to each other. \<open>Names\<close>: case folding and
    \<^verbatim>\<open>normalizePlayerName\<close> with the bounds of its buffers.
  \<^item> \<open>Channel\<close> and \<open>ChannelProps\<close>: one channel, the invariant of its members and who may change it.
  \<^item> \<open>ChannelMgr\<close>: managers, the lists of joined channels of \<^verbatim>\<open>Player.cpp\<close> and all handlers of
    \<^verbatim>\<open>game/Handlers/ChannelHandler.cpp\<close>, over a store in which channels are created and deleted.
    \<open>ChannelMgrProps\<close>: a step relation over client packets, messages, logouts and travel; every reachable state
    holds only pointers to existing channels. Identifiers of players are below \<open>guid_limit\<close> = \<open>0xFFFFFFFF\<close>, the value at
    which the counter of the server stops.

  \<^bold>\<open>Reputation.\<close>

  \<^item> \<open>Reputation\<close>: \<^verbatim>\<open>game/Reputation/ReputationMgr.cpp\<close>, the standing of a player with every faction. The client's table,
    the rates and the arithmetic on floats are the record \<open>RepEnv\<close>; \<open>env_ok\<close> states what the table provides.
  \<^item> \<open>ReputationProps\<close>: the invariant of the manager and how every operation keeps it; \<open>ReputationRelog\<close>: sessions that
    load, change and save reputations, as a machine with the table of the database beside the manager. The counters
    are exact modulo their width, and the next session loads what was saved.

  \<^bold>\<open>Mail and auctions.\<close>

  \<^item> \<open>Mail\<close>: letters (\<^verbatim>\<open>game/Mails\<close>), the letters and the purse of a player, loading and saving them
    (\<^verbatim>\<open>Player.cpp\<close>) and the prepared statements on the tables as transactions. \<open>MailHandlers\<close>: the requests of
    \<^verbatim>\<open>game/Handlers/MailHandler.cpp\<close>, from the bytes of the packet to the answer.
  \<^item> \<open>Auction\<close>: the houses, their periodic update, start-up and search (\<^verbatim>\<open>game/AuctionHouse\<close>);
    \<open>AuctionHandlers\<close>: the requests of \<^verbatim>\<open>game/Handlers/AuctionHouseHandler.cpp\<close>. The states \<open>PostWorld\<close> and \<open>AuctionWorld\<close> hold players, tables,
    items, houses and what was sent; an assertion of the code that fails is a value of a sum.
  \<^item> \<open>PostGold\<close> and \<open>AuctionGold\<close> count the gold in purses, letters and auctions over every operation; \<open>PostInv\<close> is the
    agreement of memory and tables, which every operation keeps; \<open>MailProps\<close> has what the refusals leave alone.
    \<open>Economy\<close> joins them: a step relation over all requests and all periodic work creates no gold and keeps the
    agreement. The handlers accept more than its guards: the coins of a letter and the bid on
    an auction without a buyout price stay below \<open>2 ^ 32\<close> and cash on delivery below \<open>2 ^ 31\<close>, where narrower fields
    keep them; a game master can afford the letters he sends; the counter of letters is not at its end, which the server
    asserts; and the floating point share of a house is at most the bid (\<open>fair_cut\<close>) and a deposit below \<open>2 ^ 31\<close>.
    \<open>Economy\<close> also shows that a letter is posted only when every check has passed (\<open>letter_checks\<close>). \<open>MarketFlaws\<close> proves, for
    all requests out of these bounds, what the handlers do then: a letter can make gold, and cash on delivery can pay the receiver.
  \<^item> \<open>MailLoad\<close>: a posted letter is loaded again with its content, the amounts and times modulo the widths of the columns
    (\<open>stored_letter\<close>). \<open>AuctionProps\<close>: the settlement of a sold auction and the pages of a search, which ascend in the numbers of the
    auctions because the houses are ordered stores. \<open>AuctionRestart\<close>: for houses whose auctions were saved by the statements of the code in
    any order (\<open>saved_history\<close>), the start of the server brings back exactly those that have not expired, with their items.

  \<^bold>\<open>Contracts.\<close> \<open>Prelude\<close> has the machines of operations with an invariant (\<open>guarded_machine\<close>, \<open>op_machine\<close>) and the
  codec of integers in memory (\<open>byte_codec\<close>); \<open>keyed_store\<close> of \<open>StdMap\<close> is what channels, reputations, mail
  and auctions need of \<^verbatim>\<open>std::map\<close>, \<open>timed_queue\<close> what
  the event loop needs of \<^verbatim>\<open>std::multimap\<close>, \<open>index_set\<close> what updates need of a mask, \<open>countdown\<close> what callers need
  of a timer, \<open>field_view\<close> and \<open>two_views\<close> what setters promise to each other, \<open>ledger\<close> what the steps of
  the market promise about gold. All are interpreted on the
  definitions of the code.

  \<^bold>\<open>Not modelled.\<close> Creation blocks of objects, splines and transports; units, spells, maps and combat, whose rules
  compute with floats and depend on client data files that are not in the repository; loot, trade, groups, guilds
  and the calendar; the database beyond the statements named above, sockets and
  threads; content scripts; the authentication server; other vendored libraries.
\<close>

end
